(* ===== verification/Prelude.thy ===== *)
theory Prelude
  imports Main "HOL-Library.Char_ord" "HOL-Library.List_Lexorder" "HOL-Library.Sublist"
begin

text \<open>
  Shared ground of the development: results of fallible Go code, the operations of the Go
  packages \<^verbatim>\<open>strings\<close>, \<^verbatim>\<open>strconv\<close>, \<^verbatim>\<open>fmt\<close> and \<^verbatim>\<open>sort\<close> the modelled code uses, the 64-bit
  wrap-around of \<^verbatim>\<open>int64\<close>, and the generic lemmas the component proofs share.

  A Go string is a \<open>string\<close>: a list of bytes (\<open>char\<close> has 8 bits), compared
  byte-lexicographically, as Go compares strings.
\<close>

named_theorems go_defs \<open>unfolding rules of the Go library operations\<close>
named_theorems codec_simps \<open>what a decoder returns on an encoded value\<close>

section \<open>Decimal numerals\<close>

definition digit_char :: "nat \<Rightarrow> char" where
  "digit_char d = char_of (48 + d)"

definition is_digit :: "char \<Rightarrow> bool" where
  "is_digit c = (48 \<le> (of_char c :: nat) \<and> (of_char c :: nat) \<le> 57)"

definition digit_val :: "char \<Rightarrow> nat" where
  "digit_val c = of_char c - 48"

fun show_nat :: "nat \<Rightarrow> string" where
  "show_nat n = (if n < 10 then [digit_char n] else show_nat (n div 10) @ [digit_char (n mod 10)])"

declare show_nat.simps [simp del]

definition digits_val :: "nat \<Rightarrow> string \<Rightarrow> nat" where
  "digits_val acc s = foldl (\<lambda>a c. 10 * a + digit_val c) acc s"

definition parse_nat :: "string \<Rightarrow> nat option" where
  "parse_nat s = (if s \<noteq> [] \<and> list_all is_digit s then Some (digits_val 0 s) else None)"

definition show_int :: "int \<Rightarrow> string" where
  "show_int i = (if i < 0 then CHR ''-'' # show_nat (nat (- i)) else show_nat (nat i))"

definition parse_int :: "string \<Rightarrow> int option" where
  "parse_int s = (case s of
      c # r \<Rightarrow> if c = CHR ''-'' then map_option (\<lambda>n. - int n) (parse_nat r)
               else map_option int (parse_nat s)
    | [] \<Rightarrow> None)"

text \<open>\<^verbatim>\<open>fmt\<close>'s \<^verbatim>\<open>%0wd\<close> on a non-negative number: zeros on the left up to the width.\<close>

definition pad_nat :: "nat \<Rightarrow> nat \<Rightarrow> string" where
  "pad_nat w n = replicate (w - length (show_nat n)) (CHR ''0'') @ show_nat n"

lemma of_char_digit_char [simp]: "d < 10 \<Longrightarrow> of_char (digit_char d) = 48 + d"
  by (simp add: digit_char_def)

lemma is_digit_digit_char [simp]: "d < 10 \<Longrightarrow> is_digit (digit_char d)"
  by (simp add: is_digit_def)

lemma digit_val_digit_char [simp]: "d < 10 \<Longrightarrow> digit_val (digit_char d) = d"
  by (simp add: digit_val_def)

lemma show_nat_nonempty [simp]: "show_nat n \<noteq> []"
  by (subst show_nat.simps) simp

lemma show_nat_digits [simp]: "list_all is_digit (show_nat n)"
proof (induction n rule: show_nat.induct)
  case (1 n)
  then show ?case by (subst show_nat.simps) auto
qed

lemma digits_val_append [simp]: "digits_val a (s @ t) = digits_val (digits_val a s) t"
  by (simp add: digits_val_def)

lemma digits_val_Cons [simp]: "digits_val a (c # s) = digits_val (10 * a + digit_val c) s"
  by (simp add: digits_val_def)

lemma digits_val_Nil [simp]: "digits_val a [] = a"
  by (simp add: digits_val_def)

lemma digits_val_show_nat [simp]: "digits_val 0 (show_nat n) = n"
proof (induction n rule: show_nat.induct)
  case (1 n)
  then show ?case by (subst show_nat.simps) auto
qed

lemma parse_show_nat [simp]: "parse_nat (show_nat n) = Some n"
  by (simp add: parse_nat_def)

lemma show_nat_eq_iff [simp]: "show_nat m = show_nat n \<longleftrightarrow> m = n"
  by (metis digits_val_show_nat)

lemma digits_val_zeros [simp]: "digits_val 0 (replicate k (CHR ''0'')) = 0"
  by (induction k) (auto simp: digit_val_def)

lemma digits_val_pad_nat [simp]: "digits_val 0 (pad_nat w n) = n"
  by (simp add: pad_nat_def)

lemma list_all_replicate [simp]: "list_all P (replicate n x) \<longleftrightarrow> n = 0 \<or> P x"
  by (induction n) auto

lemma pad_nat_digits [simp]: "list_all is_digit (pad_nat w n)"
  by (simp add: pad_nat_def) (simp add: is_digit_def)

lemma pad_nat_eq_iff [simp]: "pad_nat w m = pad_nat w n \<longleftrightarrow> m = n"
  by (metis digits_val_pad_nat)

lemma hd_show_nat: "is_digit (hd (show_nat n))"
  by (metis hd_in_set list_all_iff show_nat_digits show_nat_nonempty)

lemma parse_show_int [simp]: "parse_int (show_int i) = Some i"
proof (cases "i < 0")
  case True
  then show ?thesis by (simp add: show_int_def parse_int_def)
next
  case False
  obtain c r where cr: "show_nat (nat i) = c # r"
    by (meson list.exhaust show_nat_nonempty)
  have "is_digit c" using hd_show_nat [of "nat i"] cr by simp
  then have "c \<noteq> CHR ''-''" by (auto simp: is_digit_def)
  moreover have "parse_nat (c # r) = Some (nat i)"
    using parse_show_nat [of "nat i"] cr by simp
  ultimately show ?thesis using False by (simp add: show_int_def parse_int_def cr)
qed

lemma show_int_eq_iff [simp]: "show_int i = show_int j \<longleftrightarrow> i = j"
  by (metis option.inject parse_show_int)

section \<open>64-bit integers\<close>

text \<open>An \<^verbatim>\<open>int64\<close> is an \<open>int\<close> in \<open>[-2^63, 2^63)\<close>; Go's arithmetic wraps around.\<close>

definition wrap64 :: "int \<Rightarrow> int" where
  "wrap64 x = (x + 2 ^ 63) mod 2 ^ 64 - 2 ^ 63"

definition in_int64 :: "int \<Rightarrow> bool" where
  "in_int64 x = (- (2 ^ 63) \<le> x \<and> x < 2 ^ 63)"

lemma wrap64_id: "in_int64 x \<Longrightarrow> wrap64 x = x"
  by (simp add: wrap64_def in_int64_def)

lemma in_int64_wrap64 [simp]: "in_int64 (wrap64 x)"
  by (simp add: wrap64_def in_int64_def)

lemma wrap64_suc: "in_int64 x \<Longrightarrow> x \<noteq> 2 ^ 63 - 1 \<Longrightarrow> wrap64 (x + 1) = x + 1"
  by (rule wrap64_id) (auto simp: in_int64_def)

lemma wrap64_max: "wrap64 (2 ^ 63 - 1 + 1) = - (2 ^ 63)"
  by (simp add: wrap64_def)

section \<open>The strings package\<close>

text \<open>
  The white space of \<^verbatim>\<open>strings.TrimSpace\<close>: the runes of Unicode's White\_Space, as the UTF-8
  byte sequences Go decodes.
\<close>

definition ws_runes :: "string list" where
  "ws_runes =
     [[CHR 0x09], [CHR 0x0A], [CHR 0x0B], [CHR 0x0C], [CHR 0x0D], [CHR 0x20],
      [CHR 0xC2, CHR 0x85], [CHR 0xC2, CHR 0xA0], [CHR 0xE1, CHR 0x9A, CHR 0x80],
      [CHR 0xE2, CHR 0x80, CHR 0x80], [CHR 0xE2, CHR 0x80, CHR 0x81], [CHR 0xE2, CHR 0x80, CHR 0x82],
      [CHR 0xE2, CHR 0x80, CHR 0x83], [CHR 0xE2, CHR 0x80, CHR 0x84], [CHR 0xE2, CHR 0x80, CHR 0x85],
      [CHR 0xE2, CHR 0x80, CHR 0x86], [CHR 0xE2, CHR 0x80, CHR 0x87], [CHR 0xE2, CHR 0x80, CHR 0x88],
      [CHR 0xE2, CHR 0x80, CHR 0x89], [CHR 0xE2, CHR 0x80, CHR 0x8A], [CHR 0xE2, CHR 0x80, CHR 0xA8],
      [CHR 0xE2, CHR 0x80, CHR 0xA9], [CHR 0xE2, CHR 0x80, CHR 0xAF], [CHR 0xE2, CHR 0x81, CHR 0x9F],
      [CHR 0xE3, CHR 0x80, CHR 0x80]]"

text \<open>Removes members of \<open>rs\<close> from the front of a string while one is a prefix of it.\<close>

function drop_runes :: "string list \<Rightarrow> string \<Rightarrow> string" where
  "drop_runes rs s =
     (case find (\<lambda>r. r \<noteq> [] \<and> prefix r s) rs of
        None \<Rightarrow> s
      | Some r \<Rightarrow> drop_runes rs (drop (length r) s))"
  by pat_completeness auto
termination
  by (relation "measure (\<lambda>(rs, s). length s)") (auto simp: find_Some_iff prefix_def)

declare drop_runes.simps [simp del]

definition TrimSpace :: "string \<Rightarrow> string" where
  "TrimSpace s = rev (drop_runes (map rev ws_runes) (rev (drop_runes ws_runes s)))"

text \<open>\<^verbatim>\<open>strings.Trim(s, "/")\<close> and \<^verbatim>\<open>strings.Split(s, "/")\<close>.\<close>

definition trim_char :: "char \<Rightarrow> string \<Rightarrow> string" where
  "trim_char c s = rev (dropWhile (\<lambda>x. x = c) (rev (dropWhile (\<lambda>x. x = c) s)))"

fun split_on :: "char \<Rightarrow> string \<Rightarrow> string list" where
  "split_on c [] = [[]]"
| "split_on c (x # xs) =
     (if x = c then [] # split_on c xs
      else (case split_on c xs of [] \<Rightarrow> [[x]] | y # ys \<Rightarrow> (x # y) # ys))"

lemma drop_runes_id:
  assumes "\<forall>r \<in> set rs. r = [] \<or> \<not> prefix r s"
  shows "drop_runes rs s = s"
proof -
  have "find (\<lambda>r. r \<noteq> [] \<and> prefix r s) rs = None"
    using assms by (auto simp: find_None_iff)
  then show ?thesis by (subst drop_runes.simps) simp
qed

lemma drop_runes_hd:
  assumes "s = [] \<or> hd s \<notin> hd ` set rs" "[] \<notin> set rs"
  shows "drop_runes rs s = s"
proof (rule drop_runes_id, intro ballI)
  fix r assume r: "r \<in> set rs"
  with assms(2) have "r \<noteq> []" by auto
  show "r = [] \<or> \<not> prefix r s"
  proof (rule disjI2, rule notI)
    assume "prefix r s"
    then obtain t where "s = r @ t" by (auto simp: prefix_def)
    with \<open>r \<noteq> []\<close> have "s \<noteq> []" "hd s = hd r" by auto
    with assms(1) r show False by auto
  qed
qed

text \<open>The first and the last byte of the white-space runes are no printable ASCII characters.\<close>

definition printable :: "char \<Rightarrow> bool" where
  "printable c = (0x21 \<le> (of_char c :: nat) \<and> (of_char c :: nat) \<le> 0x7E)"

lemma ws_hds_unprintable: "\<forall>r \<in> set ws_runes. r \<noteq> [] \<and> \<not> printable (hd r) \<and> \<not> printable (last r)"
  by (simp add: ws_runes_def printable_def)

lemma TrimSpace_ends:
  assumes "s \<noteq> []" "printable (hd s)" "printable (last s)"
  shows "TrimSpace s = s"
proof -
  have hd_s: "s = [] \<or> hd s \<notin> hd ` set ws_runes" using ws_hds_unprintable assms by auto
  have hd_r: "rev s = [] \<or> hd (rev s) \<notin> hd ` set (map rev ws_runes)"
    using ws_hds_unprintable assms by (auto simp: hd_rev)
  have ne: "[] \<notin> set ws_runes" "[] \<notin> set (map rev ws_runes)"
    using ws_hds_unprintable by auto
  show ?thesis
    by (simp add: TrimSpace_def drop_runes_hd [OF hd_s ne(1)] drop_runes_hd [OF hd_r ne(2)])
qed

lemma TrimSpace_Nil [simp]: "TrimSpace [] = []"
  by (simp add: TrimSpace_def drop_runes_hd ws_runes_def)

lemma TrimSpace_printable: "list_all printable s \<Longrightarrow> TrimSpace s = s"
  by (cases "s = []") (auto intro!: TrimSpace_ends simp: list_all_iff)

lemma split_on_nonempty [simp]: "split_on c s \<noteq> []"
  by (induction s) (auto split: list.splits)

lemma split_on_no_sep: "seg \<in> set (split_on c s) \<Longrightarrow> c \<notin> set seg"
proof (induction s arbitrary: seg)
  case Nil
  then show ?case by simp
next
  case (Cons x xs)
  then show ?case by (auto split: if_splits list.splits)
qed

section \<open>Results\<close>

text \<open>
  A Go function that returns \<^verbatim>\<open>(T, error)\<close> returns a sum: \<open>Inl\<close> the error, \<open>Inr\<close> the value.
\<close>

definition rbind :: "'e + 'a \<Rightarrow> ('a \<Rightarrow> 'e + 'b) \<Rightarrow> 'e + 'b" where
  "rbind m f = (case m of Inl e \<Rightarrow> Inl e | Inr x \<Rightarrow> f x)"

text \<open>\<^verbatim>\<open>if cond { return err }\<close>, and a guard that succeeds with nothing to return.\<close>

definition guard_err :: "bool \<Rightarrow> 'e \<Rightarrow> 'e + unit" where
  "guard_err ok e = (if ok then Inr () else Inl e)"

definition is_ok :: "'e + 'a \<Rightarrow> bool" where
  "is_ok r = (case r of Inl _ \<Rightarrow> False | Inr _ \<Rightarrow> True)"

lemma rbind_simps [simp]: "rbind (Inl e) f = Inl e" "rbind (Inr x) f = f x"
  by (simp_all add: rbind_def)

lemma rbind_Inr_iff: "rbind m f = Inr y \<longleftrightarrow> (\<exists>x. m = Inr x \<and> f x = Inr y)"
  by (cases m) auto

lemma rbind_Inl_iff: "rbind m f = Inl e \<longleftrightarrow> m = Inl e \<or> (\<exists>x. m = Inr x \<and> f x = Inl e)"
  by (cases m) auto

lemma guard_err_Inr [simp]: "guard_err ok e = Inr u \<longleftrightarrow> ok"
  by (simp add: guard_err_def)

lemma guard_err_Inl [simp]: "guard_err ok e = Inl e' \<longleftrightarrow> \<not> ok \<and> e' = e"
  by (auto simp: guard_err_def)

lemma guard_err_True [simp]: "guard_err True e = Inr ()"
  by (simp add: guard_err_def)

lemma guard_err_False [simp]: "guard_err False e = Inl e"
  by (simp add: guard_err_def)

lemma is_ok_simps [simp]: "is_ok (Inr x)" "\<not> is_ok (Inl e)"
  by (simp_all add: is_ok_def)

lemma is_ok_iff: "is_ok r \<longleftrightarrow> (\<exists>x. r = Inr x)"
  by (cases r) auto

text \<open>A loop that validates every element and returns the first error.\<close>

fun check_all :: "('a \<Rightarrow> 'e + unit) \<Rightarrow> 'a list \<Rightarrow> 'e + unit" where
  "check_all f [] = Inr ()"
| "check_all f (x # xs) = (case f x of Inl e \<Rightarrow> Inl e | Inr _ \<Rightarrow> check_all f xs)"

lemma check_all_Inr [simp]: "check_all f xs = Inr u \<longleftrightarrow> (\<forall>x \<in> set xs. f x = Inr ())"
  by (induction xs) (auto split: sum.splits)

text \<open>Decoding a list element by element.\<close>

fun map_result :: "('a \<Rightarrow> 'e + 'b) \<Rightarrow> 'a list \<Rightarrow> 'e + 'b list" where
  "map_result f [] = Inr []"
| "map_result f (x # xs) = rbind (f x) (\<lambda>y. rbind (map_result f xs) (\<lambda>ys. Inr (y # ys)))"

lemma map_result_map [codec_simps]:
  "(\<And>x. x \<in> set xs \<Longrightarrow> f (g x) = Inr x) \<Longrightarrow> map_result f (map g xs) = Inr xs"
  by (induction xs) auto

section \<open>Sorting\<close>

text \<open>
  \<^verbatim>\<open>sort.Strings\<close> is \<open>sort\<close>; \<^verbatim>\<open>sort.SliceStable\<close> by a string key is \<open>sort_key\<close>, which is
  stable too.
\<close>

lemma sort_key_filter_neq:
  "sorted (map k xs) \<Longrightarrow> sorted (map k (filter P xs))"
  by (rule sorted_filter)

end
