(* ===== verification/Go_Time.thy ===== *)
theory Go_Time
  imports Prelude
begin

text \<open>
  Timestamps of the stored documents: \<^verbatim>\<open>canonical.Time\<close> (internal/state/canonical/json.go) writes a
  \<^verbatim>\<open>time.Time\<close> in the layout \<^verbatim>\<open>time.RFC3339Nano\<close>, and the lease code reads it back with
  \<^verbatim>\<open>time.Parse(time.RFC3339Nano, s)\<close>. A \<^verbatim>\<open>time.Time\<close> is the number of nanoseconds since
  1970-01-01T00:00:00Z (its \<^verbatim>\<open>UnixNano\<close>, unbounded). The parser follows \<^verbatim>\<open>time.Parse\<close> on that
  layout: a one-digit hour, a comma before the fraction, any number of fraction digits (nine count)
  and a numeric zone offset are accepted, as Go accepts them. The calendar is the proleptic
  Gregorian one of package \<^verbatim>\<open>time\<close>, from year 0.
\<close>

type_synonym gotime = int

section \<open>Calendar\<close>

definition leap_year :: "nat \<Rightarrow> bool" where
  "leap_year y = (y mod 4 = 0 \<and> (y mod 100 \<noteq> 0 \<or> y mod 400 = 0))"

definition year_len :: "nat \<Rightarrow> nat" where
  "year_len y = (if leap_year y then 366 else 365)"

definition month_lens :: "nat \<Rightarrow> nat list" where
  "month_lens y = [31, if leap_year y then 29 else 28, 31, 30, 31, 30, 31, 31, 30, 31, 30, 31]"

definition days_before_year :: "nat \<Rightarrow> nat" where
  "days_before_year y = 365 * y + (y + 3) div 4 + (y + 399) div 400 - (y + 99) div 100"

lemma year_len_pos [simp]: "0 < year_len y"
  by (simp add: year_len_def)

function civil_year :: "nat \<Rightarrow> nat \<Rightarrow> nat \<times> nat" where
  "civil_year d y = (if d < year_len y then (y, d) else civil_year (d - year_len y) (Suc y))"
  by pat_completeness auto
termination
proof (relation "measure (\<lambda>(d, y). d)")
  fix d y assume "\<not> d < year_len y"
  moreover have "0 < year_len y" by simp
  ultimately show "((d - year_len y, Suc y), d, y) \<in> measure (\<lambda>(d, y). d)"
    unfolding in_measure split by linarith
qed simp

declare civil_year.simps [simp del]

fun civil_month :: "nat list \<Rightarrow> nat \<Rightarrow> nat \<Rightarrow> nat \<times> nat" where
  "civil_month [] m d = (m, Suc d)"
| "civil_month (l # ls) m d = (if d < l then (m, Suc d) else civil_month ls (Suc m) (d - l))"

definition days_of_civil :: "nat \<Rightarrow> nat \<Rightarrow> nat \<Rightarrow> nat" where
  "days_of_civil y m d = days_before_year y + sum_list (take (m - 1) (month_lens y)) + (d - 1)"

definition day_ns :: nat where
  "day_ns = 86400 * 10 ^ 9"

text \<open>Days from 0000-01-01 to 1970-01-01.\<close>

definition unix_day0 :: nat where
  "unix_day0 = 719528"

lemma ceil_div_Suc:
  fixes y k :: nat
  assumes "0 < k"
  shows "(Suc y + (k - 1)) div k = (y + (k - 1)) div k + (if y mod k = 0 then 1 else 0)"
proof -
  have "Suc (y + (k - 1)) = y + k" using assms by simp
  then have "Suc (y + (k - 1)) mod k = y mod k" by simp
  then show ?thesis using div_Suc [of "y + (k - 1)" k] by simp
qed

lemma days_before_year_Suc: "days_before_year (Suc y) = days_before_year y + year_len y"
proof -
  have a: "(Suc y + 3) div 4 = (y + 3) div 4 + (if y mod 4 = 0 then 1 else 0)"
    using ceil_div_Suc [of 4 y] by simp
  have b: "(Suc y + 99) div 100 = (y + 99) div 100 + (if y mod 100 = 0 then 1 else 0)"
    using ceil_div_Suc [of 100 y] by simp
  have c: "(Suc y + 399) div 400 = (y + 399) div 400 + (if y mod 400 = 0 then 1 else 0)"
    using ceil_div_Suc [of 400 y] by simp
  have d: "y mod 100 = 0 \<Longrightarrow> y mod 4 = 0" "y mod 400 = 0 \<Longrightarrow> y mod 100 = 0"
    by (auto elim!: dvd_trans [rotated] simp: mod_eq_0_iff_dvd)
  have e: "(y + 99) div 100 \<le> 365 * y + (y + 3) div 4"
  proof (cases "y = 0")
    case False
    then have "(y + 99) div 100 \<le> y" by (simp add: div_le_dividend Suc_leI less_mult_imp_div_less)
    then show ?thesis by simp
  qed simp
  show ?thesis
    unfolding days_before_year_def year_len_def leap_year_def a b c
    using d e by (cases "y mod 4 = 0"; cases "y mod 100 = 0"; cases "y mod 400 = 0")
      (simp_all add: ac_simps)
qed

lemma civil_year_correct:
  "civil_year d y0 = (y, r) \<Longrightarrow> d + days_before_year y0 = days_before_year y + r \<and> r < year_len y"
proof (induction d y0 rule: civil_year.induct)
  case (1 d y0)
  show ?case
  proof (cases "d < year_len y0")
    case True
    with 1 show ?thesis by (simp add: civil_year.simps [of d y0])
  next
    case False
    with 1 have "d - year_len y0 + days_before_year (Suc y0) = days_before_year y + r \<and> r < year_len y"
      by (simp add: civil_year.simps [of d y0])
    with False show ?thesis by (simp add: days_before_year_Suc)
  qed
qed

lemma civil_month_correct:
  "civil_month ls m0 d = (m, k) \<Longrightarrow> d < sum_list ls \<Longrightarrow>
     m0 \<le> m \<and> m - m0 < length ls \<and> 1 \<le> k \<and> k \<le> ls ! (m - m0) \<and>
     Suc d = sum_list (take (m - m0) ls) + k"
proof (induction ls m0 d rule: civil_month.induct)
  case (1 m d)
  then show ?case by simp
next
  case (2 l ls m0 d)
  show ?case
  proof (cases "d < l")
    case True
    with 2 show ?thesis by auto
  next
    case False
    with 2 have IH: "Suc m0 \<le> m \<and> m - Suc m0 < length ls \<and> 1 \<le> k \<and> k \<le> ls ! (m - Suc m0) \<and>
        Suc (d - l) = sum_list (take (m - Suc m0) ls) + k"
      by simp
    then have eq: "m - m0 = Suc (m - Suc m0)" by linarith
    show ?thesis
    proof (intro conjI)
      have "Suc d = l + Suc (d - l)" using False by simp
      then show "Suc d = sum_list (take (m - m0) (l # ls)) + k" using IH by (simp add: eq)
    qed (use IH eq in auto)
  qed
qed

lemma sum_month_lens [simp]: "sum_list (month_lens y) = year_len y"
  by (simp add: month_lens_def year_len_def)

lemma length_month_lens [simp]: "length (month_lens y) = 12"
  by (simp add: month_lens_def)

lemma month_lens_le: "i < 12 \<Longrightarrow> month_lens y ! i \<le> 31"
  by (auto simp: month_lens_def less_Suc_eq numeral_eq_Suc)

section \<open>Formatting\<close>

definition strip_zeros :: "string \<Rightarrow> string" where
  "strip_zeros s = rev (dropWhile (\<lambda>c. c = CHR ''0'') (rev s))"

definition format_frac :: "nat \<Rightarrow> string" where
  "format_frac ns = (if ns = 0 then [] else CHR ''.'' # strip_zeros (pad_nat 9 ns))"

text \<open>The civil fields of an instant given in nanoseconds since 0000-01-01T00:00:00Z.\<close>

definition format_since0 :: "nat \<Rightarrow> string" where
  "format_since0 n =
     (let (y, doy) = civil_year (n div day_ns) 0;
          (m, d) = civil_month (month_lens y) 1 doy;
          secs = n mod day_ns div 10 ^ 9
      in pad_nat 4 y @ ''-'' @ pad_nat 2 m @ ''-'' @ pad_nat 2 d @ ''T'' @
         pad_nat 2 (secs div 3600) @ '':'' @ pad_nat 2 (secs div 60 mod 60) @ '':'' @
         pad_nat 2 (secs mod 60) @ format_frac (n mod 10 ^ 9) @ ''Z'')"

definition canonical_Time :: "gotime \<Rightarrow> string" where
  "canonical_Time t = format_since0 (nat (t + int unix_day0 * int day_ns))"

section \<open>Parsing\<close>

definition lit :: "char \<Rightarrow> string \<Rightarrow> string option" where
  "lit c s = (case s of x # r \<Rightarrow> if x = c then Some r else None | [] \<Rightarrow> None)"

text \<open>\<^verbatim>\<open>getnum\<close> of package \<^verbatim>\<open>time\<close>: two digits, or one where a single digit is allowed.\<close>

definition getnum :: "bool \<Rightarrow> string \<Rightarrow> (nat \<times> string) option" where
  "getnum fixed s = (case s of
      a # b # r \<Rightarrow>
        if \<not> is_digit a then None
        else if is_digit b then Some (10 * digit_val a + digit_val b, r)
        else if fixed then None else Some (digit_val a, b # r)
    | [a] \<Rightarrow> if is_digit a \<and> \<not> fixed then Some (digit_val a, []) else None
    | [] \<Rightarrow> None)"

definition get_ranged :: "bool \<Rightarrow> nat \<Rightarrow> nat \<Rightarrow> string \<Rightarrow> (nat \<times> string) option" where
  "get_ranged fixed lo hi s =
     Option.bind (getnum fixed s) (\<lambda>(n, r). if lo \<le> n \<and> n \<le> hi then Some (n, r) else None)"

definition get_year :: "string \<Rightarrow> (nat \<times> string) option" where
  "get_year s = (if length s < 4 then None
     else Option.bind (parse_nat (take 4 s)) (\<lambda>y. Some (y, drop 4 s)))"

definition get_frac :: "string \<Rightarrow> nat \<times> string" where
  "get_frac s = (case s of
      c # x # r \<Rightarrow>
        if (c = CHR ''.'' \<or> c = CHR '','') \<and> is_digit x
        then (let ds = takeWhile is_digit (x # r); nine = take 9 ds
              in (digits_val 0 nine * 10 ^ (9 - length nine), dropWhile is_digit (x # r)))
        else (0, s)
    | _ \<Rightarrow> (0, s))"

text \<open>The zone: seconds east of UTC.\<close>

definition get_zone :: "string \<Rightarrow> (int \<times> string) option" where
  "get_zone s = (case s of
      c # r \<Rightarrow>
        if c = CHR ''Z'' then Some (0, r)
        else if c = CHR ''+'' \<or> c = CHR ''-'' then
          Option.bind (get_ranged True 0 24 r) (\<lambda>(hh, r1).
          Option.bind (lit (CHR '':'') r1) (\<lambda>r2.
          Option.bind (get_ranged True 0 60 r2) (\<lambda>(mm, r3).
            Some ((if c = CHR ''+'' then 1 else -1) * int ((hh * 60 + mm) * 60), r3))))
        else None
    | [] \<Rightarrow> None)"

definition time_Parse :: "string \<Rightarrow> gotime option" where
  "time_Parse s =
     Option.bind (get_year s) (\<lambda>(y, s).
     Option.bind (lit (CHR ''-'') s) (\<lambda>s.
     Option.bind (get_ranged True 1 12 s) (\<lambda>(m, s).
     Option.bind (lit (CHR ''-'') s) (\<lambda>s.
     Option.bind (getnum True s) (\<lambda>(d, s).
     Option.bind (lit (CHR ''T'') s) (\<lambda>s.
     Option.bind (get_ranged False 0 23 s) (\<lambda>(hh, s).
     Option.bind (lit (CHR '':'') s) (\<lambda>s.
     Option.bind (get_ranged True 0 59 s) (\<lambda>(mm, s).
     Option.bind (lit (CHR '':'') s) (\<lambda>s.
     Option.bind (get_ranged True 0 59 s) (\<lambda>(ss, s).
     (let (ns, s) = get_frac s in
     Option.bind (get_zone s) (\<lambda>(off, s).
       if s = [] \<and> 1 \<le> d \<and> d \<le> month_lens y ! (m - 1)
       then Some (int (days_of_civil y m d * day_ns + ((hh * 60 + mm) * 60 + ss) * 10 ^ 9 + ns)
                  - off * 10 ^ 9 - int unix_day0 * int day_ns)
       else None)))))))))))))"

section \<open>Round trip\<close>

lemma length_show_nat: "n < 10 ^ k \<Longrightarrow> 0 < k \<Longrightarrow> length (show_nat n) \<le> k"
proof (induction k arbitrary: n)
  case 0
  then show ?case by simp
next
  case (Suc k)
  show ?case
  proof (cases "n < 10")
    case True
    then show ?thesis by (subst show_nat.simps) simp
  next
    case False
    with Suc.prems have "n div 10 < 10 ^ k" "0 < k" by (cases k; auto)+
    then have "length (show_nat (n div 10)) \<le> k" by (rule Suc.IH)
    with False show ?thesis by (subst show_nat.simps) simp
  qed
qed

lemma length_pad_nat: "n < 10 ^ k \<Longrightarrow> 0 < k \<Longrightarrow> length (pad_nat k n) = k"
  using length_show_nat [of n k] by (simp add: pad_nat_def)

lemma getnum_pad [simp]: "n < 100 \<Longrightarrow> getnum fixed (pad_nat 2 n @ r) = Some (n, r)"
proof -
  assume n: "n < 100"
  then obtain a b where ab: "pad_nat 2 n = [a, b]"
    using length_pad_nat [of n 2] by (auto simp: length_Suc_conv numeral_2_eq_2)
  have "list_all is_digit [a, b]" using ab pad_nat_digits [of 2 n] by simp
  moreover have "digits_val 0 [a, b] = n" using ab digits_val_pad_nat [of 2 n] by simp
  ultimately show ?thesis by (simp add: getnum_def ab)
qed

lemma get_ranged_pad [simp]:
  "lo \<le> n \<Longrightarrow> n \<le> hi \<Longrightarrow> n < 100 \<Longrightarrow> get_ranged fixed lo hi (pad_nat 2 n @ r) = Some (n, r)"
  by (simp add: get_ranged_def)

lemma get_year_pad [simp]: "y < 10000 \<Longrightarrow> get_year (pad_nat 4 y @ r) = Some (y, r)"
proof -
  assume y: "y < 10000"
  then have len: "length (pad_nat 4 y) = 4" using length_pad_nat [of y 4] by simp
  then have "pad_nat 4 y \<noteq> []" by auto
  then show ?thesis by (simp add: get_year_def len parse_nat_def)
qed

lemma lit_Cons [simp]: "lit c (c # r) = Some r"
  by (simp add: lit_def)

lemma strip_zeros_split: "\<exists>k. s = strip_zeros s @ replicate k (CHR ''0'')"
proof -
  let ?P = "\<lambda>c. c = CHR ''0''"
  have "rev s = takeWhile ?P (rev s) @ dropWhile ?P (rev s)" by simp
  then have "s = strip_zeros s @ rev (takeWhile ?P (rev s))"
    unfolding strip_zeros_def by (metis rev_append rev_rev_ident)
  moreover have "takeWhile ?P (rev s) = replicate (length (takeWhile ?P (rev s))) (CHR ''0'')"
    by (rule replicate_length_same [symmetric]) (auto dest: set_takeWhileD)
  ultimately show ?thesis by (metis rev_replicate)
qed

lemma digits_val_zeros_right: "digits_val a (replicate k (CHR ''0'')) = a * 10 ^ k"
  by (induction k arbitrary: a) (auto simp: digit_val_def)

lemma get_frac_format [simp]:
  assumes "ns < 10 ^ 9"
  shows "get_frac (format_frac ns @ CHR ''Z'' # r) = (ns, CHR ''Z'' # r)"
proof (cases "ns = 0")
  case True
  then show ?thesis by (cases r) (auto simp: format_frac_def get_frac_def)
next
  case False
  let ?s = "strip_zeros (pad_nat 9 ns)"
  obtain k where k: "pad_nat 9 ns = ?s @ replicate k (CHR ''0'')"
    using strip_zeros_split by blast
  have dig: "list_all is_digit ?s"
    using pad_nat_digits [of 9 ns] k by (metis list_all_append)
  have len: "length ?s + k = 9"
    using length_pad_nat [of ns 9] assms k by (metis length_append length_replicate zero_less_numeral)
  have val: "digits_val 0 ?s * 10 ^ k = ns"
    using digits_val_pad_nat [of 9 ns] k by (metis digits_val_append digits_val_zeros_right)
  with False have "?s \<noteq> []" by auto
  then obtain x t where xt: "?s = x # t" by (cases ?s) auto
  have nz: "\<not> is_digit (CHR ''Z'')" by (simp add: is_digit_def)
  have tw: "takeWhile is_digit (?s @ CHR ''Z'' # r) = ?s"
    and dw: "dropWhile is_digit (?s @ CHR ''Z'' # r) = CHR ''Z'' # r"
    using dig nz by (simp_all add: list_all_iff)
  have "get_frac (CHR ''.'' # ?s @ CHR ''Z'' # r) =
      (digits_val 0 (take 9 ?s) * 10 ^ (9 - length (take 9 ?s)), CHR ''Z'' # r)"
    using dig xt tw dw by (simp add: get_frac_def Let_def)
  moreover have "take 9 ?s = ?s" "9 - length ?s = k" using len by auto
  ultimately show ?thesis using False val by (simp add: format_frac_def)
qed

text \<open>Instants of the years 0 to 9999, which the layout's four-digit year can hold.\<close>

definition time_ok :: "gotime \<Rightarrow> bool" where
  "time_ok t = (0 \<le> t + int unix_day0 * int day_ns \<and>
     t + int unix_day0 * int day_ns < int (days_before_year 10000) * int day_ns)"

lemma days_before_year_mono: "y \<le> y' \<Longrightarrow> days_before_year y \<le> days_before_year y'"
  by (induction y' rule: nat_induct_at_least) (auto simp: days_before_year_Suc)

lemma civil_bound:
  assumes "civil_year d 0 = (y, r)" "d < days_before_year 10000"
  shows "y < 10000"
proof (rule ccontr)
  assume "\<not> y < 10000"
  then have "days_before_year 10000 \<le> days_before_year y"
    using days_before_year_mono by simp
  with civil_year_correct [OF assms(1)] assms(2) show False
    by (simp add: days_before_year_def)
qed

lemma clock_fields:
  assumes "n < day_ns"
  defines "secs \<equiv> n div 10 ^ 9"
  shows "secs div 3600 \<le> 23" "secs div 60 mod 60 \<le> 59" "secs mod 60 \<le> 59"
    "((secs div 3600 * 60 + secs div 60 mod 60) * 60 + secs mod 60) * 10 ^ 9 + n mod 10 ^ 9 = n"
proof -
  have s: "secs < 86400" using assms by (simp add: day_ns_def less_mult_imp_div_less)
  show "secs div 3600 \<le> 23" using s by auto
  have "secs div 3600 = secs div 60 div 60" by (simp add: div_mult2_eq [symmetric])
  then have "(secs div 3600 * 60 + secs div 60 mod 60) * 60 + secs mod 60 = secs"
    by (metis div_mult_mod_eq)
  then show "((secs div 3600 * 60 + secs div 60 mod 60) * 60 + secs mod 60) * 10 ^ 9 + n mod 10 ^ 9 = n"
    unfolding secs_def by (metis div_mult_mod_eq)
qed auto

lemma parse_format_since0:
  assumes "n < days_before_year 10000 * day_ns"
  shows "time_Parse (format_since0 n) = Some (int n - int unix_day0 * int day_ns)"
proof -
  obtain y doy where y: "civil_year (n div day_ns) 0 = (y, doy)" by fastforce
  obtain m d where md: "civil_month (month_lens y) 1 doy = (m, d)" by fastforce
  have "n div day_ns < days_before_year 10000"
    using assms by (simp add: less_mult_imp_div_less)
  then have y4: "y < 10000" using civil_bound [OF y] by simp
  have yy: "n div day_ns = days_before_year y + doy" "doy < year_len y"
    using civil_year_correct [OF y] by (simp_all add: days_before_year_def)
  have mm: "1 \<le> m" "m \<le> 12" "1 \<le> d" "d \<le> month_lens y ! (m - 1)"
    "Suc doy = sum_list (take (m - 1) (month_lens y)) + d"
    using civil_month_correct [OF md] yy(2) by auto
  have "m - 1 < 12" using mm by linarith
  then have d31: "d < 100" using mm(4) month_lens_le [of "m - 1" y] by linarith
  have days: "days_of_civil y m d = n div day_ns"
    using yy mm by (simp add: days_of_civil_def)
  define q where "q = n mod day_ns"
  have q: "q < day_ns" by (simp add: q_def day_ns_def)
  have qn: "n mod 10 ^ 9 = q mod 10 ^ 9"
    by (simp add: q_def day_ns_def mod_mod_cancel)
  have tot: "days_of_civil y m d * day_ns + q = n"
    by (simp add: days q_def)
  have hms: "((q div 10 ^ 9 div 3600 * 60 + q div 10 ^ 9 div 60 mod 60) * 60 + q div 10 ^ 9 mod 60) * 10 ^ 9
      + q mod 10 ^ 9 = q"
    using clock_fields(4) [OF q] .
  have "time_Parse (format_since0 n) =
      Some (int (days_of_civil y m d * day_ns
        + ((q div 10 ^ 9 div 3600 * 60 + q div 10 ^ 9 div 60 mod 60) * 60 + q div 10 ^ 9 mod 60) * 10 ^ 9
        + q mod 10 ^ 9) - int unix_day0 * int day_ns)"
    unfolding time_Parse_def format_since0_def Let_def y md prod.case qn q_def [symmetric]
    using y4 mm(1-4) d31 clock_fields(1-3) [OF q]
    by (simp add: get_zone_def)
  then show ?thesis using hms tot by (metis add.assoc)
qed

text \<open>
  A timestamp \<^verbatim>\<open>canonical.Time\<close> writes is read back as the same instant.
\<close>

lemma parse_canonical_Time [simp]: "time_ok t \<Longrightarrow> time_Parse (canonical_Time t) = Some t"
proof -
  assume t: "time_ok t"
  then have nn: "0 \<le> t + int unix_day0 * int day_ns" by (simp add: time_ok_def)
  have "nat (t + int unix_day0 * int day_ns) < days_before_year 10000 * day_ns"
    using t nn unfolding time_ok_def by (simp add: nat_less_iff)
  then show ?thesis
    unfolding canonical_Time_def using nn by (simp add: parse_format_since0)
qed

lemma canonical_Time_inj: "time_ok s \<Longrightarrow> time_ok t \<Longrightarrow> canonical_Time s = canonical_Time t \<Longrightarrow> s = t"
  by (metis option.inject parse_canonical_Time)

lemma canonical_Time_nonempty [simp]: "canonical_Time t \<noteq> []"
  by (simp add: canonical_Time_def format_since0_def Let_def split: prod.split)

text \<open>Every time of the \<open>int64\<close> nanosecond range (the years 1677 to 2262) is in the range of RFC 3339.\<close>

lemma time_ok_int64: "in_int64 t \<Longrightarrow> time_ok t"
  by (simp add: time_ok_def in_int64_def unix_day0_def day_ns_def days_before_year_def)

end
