(* ===== verification/Go_Error.thy ===== *)
theory Go_Error
  imports Prelude
begin

text \<open>
  The errors of the modelled packages as one closed type. \<open>StoreError\<close> is \<^verbatim>\<open>*objstore.Error\<close>,
  \<open>StateError\<close> is \<^verbatim>\<open>*state.Error\<close>, \<open>Sentinel\<close> the sentinels of internal/state/errors.go,
  \<open>InputError\<close> is \<^verbatim>\<open>paths.InputError\<close>, \<open>Errorf\<close> what \<^verbatim>\<open>errors.New\<close> and \<^verbatim>\<open>fmt.Errorf\<close> build (the
  rendered text and the error wrapped by \<^verbatim>\<open>%w\<close>, if any), \<open>CtxError\<close> a cancelled context,
  \<open>TimeError\<close> and \<open>JsonError\<close> what \<^verbatim>\<open>time.Parse\<close> and \<^verbatim>\<open>encoding/json\<close> report.
  \<^verbatim>\<open>errors.Is\<close> against a sentinel is \<open>is_state\<close> or \<open>is_store\<close>: it walks the chain of causes.
\<close>

datatype store_error = ErrNotFound | ErrAlreadyExists | ErrPreconditionFailed | ErrConflict
  | ErrPermissionDenied

datatype ErrorCode = CodeLeaseHeld | CodeLeaseLost | CodePreconditionFailed | CodeInvalidTransition

datatype goerr =
    StoreError string string store_error
  | StateError ErrorCode string string string "goerr option"
  | Sentinel ErrorCode
  | InputError string string string string
  | Errorf string "goerr option"
  | CtxError string
  | TimeError string
  | JsonError string

type_synonym 'a result = "goerr + 'a"

section \<open>Error texts\<close>

text \<open>\<^verbatim>\<open>%q\<close>, that is \<^verbatim>\<open>strconv.Quote\<close>; bytes of multi-byte runes are kept as they are.\<close>

definition hex_char :: "nat \<Rightarrow> char" where
  "hex_char d = (if d < 10 then char_of (48 + d) else char_of (87 + d))"

definition quote_char :: "char \<Rightarrow> string" where
  "quote_char c =
     (if c = CHR 0x22 then [CHR 0x5C, CHR 0x22]
      else if c = CHR 0x5C then [CHR 0x5C, CHR 0x5C]
      else if c = CHR 0x07 then [CHR 0x5C, CHR ''a'']
      else if c = CHR 0x08 then [CHR 0x5C, CHR ''b'']
      else if c = CHR 0x0C then [CHR 0x5C, CHR ''f'']
      else if c = CHR 0x0A then [CHR 0x5C, CHR ''n'']
      else if c = CHR 0x0D then [CHR 0x5C, CHR ''r'']
      else if c = CHR 0x09 then [CHR 0x5C, CHR ''t'']
      else if c = CHR 0x0B then [CHR 0x5C, CHR ''v'']
      else let n = of_char c :: nat in
        if n < 32 \<or> n = 127 then [CHR 0x5C, CHR ''x'', hex_char (n div 16), hex_char (n mod 16)]
        else [c])"

definition quote :: "string \<Rightarrow> string" where
  "quote s = CHR 0x22 # concat (map quote_char s) @ [CHR 0x22]"

fun store_error_text :: "store_error \<Rightarrow> string" where
  "store_error_text ErrNotFound = ''objstore: not found''"
| "store_error_text ErrAlreadyExists = ''objstore: already exists''"
| "store_error_text ErrPreconditionFailed = ''objstore: precondition failed''"
| "store_error_text ErrConflict = ''objstore: conflict''"
| "store_error_text ErrPermissionDenied = ''objstore: permission denied''"

fun code_text :: "ErrorCode \<Rightarrow> string" where
  "code_text CodeLeaseHeld = ''LEASE_HELD''"
| "code_text CodeLeaseLost = ''LEASE_LOST''"
| "code_text CodePreconditionFailed = ''PRECONDITION_FAILED''"
| "code_text CodeInvalidTransition = ''INVALID_TRANSITION''"

fun sentinel_text :: "ErrorCode \<Rightarrow> string" where
  "sentinel_text CodeLeaseHeld = ''state: lease held''"
| "sentinel_text CodeLeaseLost = ''state: lease lost''"
| "sentinel_text CodePreconditionFailed = ''state: precondition failed''"
| "sentinel_text CodeInvalidTransition = ''state: invalid transition''"

definition store_error_msg :: "string \<Rightarrow> string \<Rightarrow> store_error \<Rightarrow> string" where
  "store_error_msg op key e =
     (if key = [] then op @ '': '' @ store_error_text e
      else op @ '' '' @ quote key @ '': '' @ store_error_text e)"

definition state_error_msg :: "ErrorCode \<Rightarrow> string \<Rightarrow> string \<Rightarrow> string \<Rightarrow> string" where
  "state_error_msg code service key summary =
     (if key \<noteq> [] then code_text code @ '' '' @ quote key @ '': '' @ summary
      else if service \<noteq> [] then code_text code @ '' service '' @ quote service @ '': '' @ summary
      else code_text code @ '': '' @ summary)"

definition input_error_msg :: "string \<Rightarrow> string \<Rightarrow> string \<Rightarrow> string" where
  "input_error_msg field val message =
     (if val = [] then field @ '': '' @ message
      else field @ '' '' @ quote val @ '': '' @ message)"

fun err_text :: "goerr \<Rightarrow> string" where
  "err_text (StoreError op key e) = store_error_msg op key e"
| "err_text (StateError code service key summary cause) = state_error_msg code service key summary"
| "err_text (Sentinel code) = sentinel_text code"
| "err_text (InputError field val code message) = input_error_msg field val message"
| "err_text (Errorf msg wrapped) = msg"
| "err_text (CtxError msg) = msg"
| "err_text (TimeError msg) = msg"
| "err_text (JsonError msg) = msg"

section \<open>errors.Is\<close>

fun is_state :: "ErrorCode \<Rightarrow> goerr \<Rightarrow> bool" where
  "is_state c (StateError code _ _ _ None) = (code = c)"
| "is_state c (StateError code _ _ _ (Some cause)) = (code = c \<or> is_state c cause)"
| "is_state c (Sentinel code) = (code = c)"
| "is_state c (Errorf _ (Some wrapped)) = is_state c wrapped"
| "is_state c _ = False"

fun is_store :: "store_error \<Rightarrow> goerr \<Rightarrow> bool" where
  "is_store e (StoreError _ _ e') = (e' = e)"
| "is_store e (StateError _ _ _ _ (Some cause)) = is_store e cause"
| "is_store e (Errorf _ (Some wrapped)) = is_store e wrapped"
| "is_store e _ = False"

abbreviation new_error :: "string \<Rightarrow> goerr" where
  "new_error msg \<equiv> Errorf msg None"

text \<open>\<^verbatim>\<open>fmt.Errorf("%w: <msg>", sentinel)\<close>.\<close>

definition wrap_sentinel :: "ErrorCode \<Rightarrow> string \<Rightarrow> goerr" where
  "wrap_sentinel code msg = Errorf (sentinel_text code @ '': '' @ msg) (Some (Sentinel code))"

lemma is_state_wrap_sentinel [simp]: "is_state c (wrap_sentinel code msg) \<longleftrightarrow> code = c"
  by (simp add: wrap_sentinel_def)

lemma is_store_wrap_sentinel [simp]: "\<not> is_store e (wrap_sentinel code msg)"
  by (simp add: wrap_sentinel_def)

lemma is_state_StateError [simp]: "is_state c (StateError c s k m x)"
  by (cases x) auto

end
