(* ===== verification/Go_Json.thy ===== *)
theory Go_Json
  imports Go_Error
begin

text \<open>
  JSON as \<^verbatim>\<open>encoding/json\<close> reads and writes it, at the level of values: a stored body is the JSON
  value its text denotes (\<open>json\<close>), a number is its literal. The codec combinators below give the
  struct codecs of \<^verbatim>\<open>canonical.Marshal\<close> and \<^verbatim>\<open>canonical.UnmarshalStrict\<close>
  (internal/state/canonical/json.go): a field tagged \<^verbatim>\<open>omitempty\<close> is left out when it holds its zero
  value; a decoder matches keys without regard to ASCII case, takes the last of several equal keys,
  leaves a missing or null field at its zero value, and refuses an unknown key
  (\<^verbatim>\<open>DisallowUnknownFields\<close>). \<open>json_text\<close> is the text \<^verbatim>\<open>canonical.Marshal\<close> writes, which is what gets hashed.
  At the level of values a string is kept as it is; in text, bytes that are not UTF-8 are replaced, so that
  reading back what was stored gives the same value for strings that are UTF-8.
\<close>

datatype json =
    JNull
  | JBool bool
  | JNum string
  | JStr string
  | JArr "json list"
  | JObj "(string \<times> json) list"

text \<open>\<^verbatim>\<open>json.RawMessage\<close>: empty, a JSON value, or bytes that are not JSON.\<close>

datatype raw = RawEmpty | Raw json | RawInvalid string

definition raw_valid :: "raw \<Rightarrow> bool" where
  "raw_valid r = (case r of RawInvalid _ \<Rightarrow> False | _ \<Rightarrow> True)"

section \<open>Text\<close>

definition json_escape_char :: "char \<Rightarrow> string" where
  "json_escape_char c =
     (if c = CHR 0x22 then [CHR 0x5C, CHR 0x22]
      else if c = CHR 0x5C then [CHR 0x5C, CHR 0x5C]
      else if c = CHR 0x08 then [CHR 0x5C, CHR ''b'']
      else if c = CHR 0x0C then [CHR 0x5C, CHR ''f'']
      else if c = CHR 0x0A then [CHR 0x5C, CHR ''n'']
      else if c = CHR 0x0D then [CHR 0x5C, CHR ''r'']
      else if c = CHR 0x09 then [CHR 0x5C, CHR ''t'']
      else let n = of_char c :: nat in
        if n < 32 then [CHR 0x5C, CHR ''u'', CHR ''0'', CHR ''0'', hex_char (n div 16), hex_char (n mod 16)]
        else [c])"

text \<open>
  The number of bytes of the rune a text starts with, as \<^verbatim>\<open>utf8.DecodeRune\<close> reads it; 0 where the bytes are not
  UTF-8 (then one byte is skipped).
\<close>

definition byte_in :: "nat \<Rightarrow> nat \<Rightarrow> char \<Rightarrow> bool" where
  "byte_in lo hi c \<longleftrightarrow> lo \<le> of_char c \<and> of_char c \<le> hi"

definition rune_size :: "string \<Rightarrow> nat" where
  "rune_size s = (case s of
      [] \<Rightarrow> 0
    | c0 # s1 \<Rightarrow>
        if byte_in 0x00 0x7F c0 then 1 else (case s1 of
          [] \<Rightarrow> 0
        | c1 # s2 \<Rightarrow>
            if byte_in 0xC2 0xDF c0 then (if byte_in 0x80 0xBF c1 then 2 else 0)
            else if \<not> byte_in (if c0 = CHR 0xE0 then 0xA0 else if c0 = CHR 0xF0 then 0x90 else 0x80)
                   (if c0 = CHR 0xED then 0x9F else if c0 = CHR 0xF4 then 0x8F else 0xBF) c1 then 0
            else (case s2 of
              [] \<Rightarrow> 0
            | c2 # s3 \<Rightarrow>
                if \<not> byte_in 0x80 0xBF c2 then 0
                else if byte_in 0xE0 0xEF c0 then 3
                else (case s3 of
                  [] \<Rightarrow> 0
                | c3 # _ \<Rightarrow> if byte_in 0xF0 0xF4 c0 \<and> byte_in 0x80 0xBF c3 then 4 else 0))))"

text \<open>One rune at a time: what is not UTF-8 becomes the replacement character, and the line separators U+2028 and
  U+2029 are escaped.\<close>

function json_escape :: "string \<Rightarrow> string" where
  "json_escape [] = []"
| "json_escape (c # cs) = (let n = rune_size (c # cs) in
     if n = 0 then [CHR 0x5C, CHR ''u'', CHR ''f'', CHR ''f'', CHR ''f'', CHR ''d''] @ json_escape cs
     else if n = 1 then json_escape_char c @ json_escape cs
     else if take n (c # cs) = [CHR 0xE2, CHR 0x80, CHR 0xA8]
     then [CHR 0x5C, CHR ''u'', CHR ''2'', CHR ''0'', CHR ''2'', CHR ''8''] @ json_escape (drop n (c # cs))
     else if take n (c # cs) = [CHR 0xE2, CHR 0x80, CHR 0xA9]
     then [CHR 0x5C, CHR ''u'', CHR ''2'', CHR ''0'', CHR ''2'', CHR ''9''] @ json_escape (drop n (c # cs))
     else take n (c # cs) @ json_escape (drop n (c # cs)))"
  by pat_completeness auto
termination by (relation "measure length") auto

definition json_string :: "string \<Rightarrow> string" where
  "json_string s = CHR 0x22 # json_escape s @ [CHR 0x22]"

lemma json_escape_ascii:
  "list_all (byte_in 0 0x7F) s \<Longrightarrow> json_escape s = concat (map json_escape_char s)"
  by (induction s) (simp_all add: rune_size_def)

fun intersperse :: "string \<Rightarrow> string list \<Rightarrow> string" where
  "intersperse sep [] = []"
| "intersperse sep [x] = x"
| "intersperse sep (x # y # xs) = x @ sep @ intersperse sep (y # xs)"

fun json_text :: "json \<Rightarrow> string" where
  "json_text JNull = ''null''"
| "json_text (JBool b) = (if b then ''true'' else ''false'')"
| "json_text (JNum n) = n"
| "json_text (JStr s) = json_string s"
| "json_text (JArr xs) = ''['' @ intersperse '','' (map json_text xs) @ '']''"
| "json_text (JObj kvs) =
     CHR ''{'' # intersperse '','' (map (\<lambda>(k, v). json_string k @ '':'' @ json_text v) kvs) @ [CHR ''}'']"

section \<open>Encoding\<close>

text \<open>
  A struct is encoded as the list of its fields in declaration order, each with the JSON value to
  write or \<open>None\<close> where \<^verbatim>\<open>omitempty\<close> leaves it out.
\<close>

type_synonym fields = "(string \<times> json option) list"

definition enc_obj :: "fields \<Rightarrow> json" where
  "enc_obj fs = JObj (concat (map (\<lambda>(k, v). case v of None \<Rightarrow> [] | Some j \<Rightarrow> [(k, j)]) fs))"

definition e_str :: "string \<Rightarrow> json option" where
  "e_str s = Some (JStr s)"

definition o_str :: "string \<Rightarrow> json option" where
  "o_str s = (if s = [] then None else Some (JStr s))"

definition e_int :: "int \<Rightarrow> json option" where
  "e_int i = Some (JNum (show_int i))"

definition o_int :: "int \<Rightarrow> json option" where
  "o_int i = (if i = 0 then None else Some (JNum (show_int i)))"

definition o_bool :: "bool \<Rightarrow> json option" where
  "o_bool b = (if b then Some (JBool True) else None)"

definition e_sub :: "('a \<Rightarrow> json) \<Rightarrow> 'a \<Rightarrow> json option" where
  "e_sub enc x = Some (enc x)"

definition o_ptr :: "('a \<Rightarrow> json) \<Rightarrow> 'a option \<Rightarrow> json option" where
  "o_ptr enc x = map_option enc x"

text \<open>A slice without \<^verbatim>\<open>omitempty\<close>: nil and empty slices are one in the model, written \<open>[]\<close>.\<close>

definition e_list :: "('a \<Rightarrow> json) \<Rightarrow> 'a list \<Rightarrow> json option" where
  "e_list enc xs = Some (JArr (map enc xs))"

definition o_list :: "('a \<Rightarrow> json) \<Rightarrow> 'a list \<Rightarrow> json option" where
  "o_list enc xs = (if xs = [] then None else Some (JArr (map enc xs)))"

definition o_raw :: "raw \<Rightarrow> json option" where
  "o_raw r = (case r of Raw j \<Rightarrow> Some j | _ \<Rightarrow> None)"

text \<open>\<^verbatim>\<open>canonical.Marshal\<close> fails only on a \<^verbatim>\<open>json.RawMessage\<close> that is not JSON.\<close>

definition canonical_Marshal :: "('a \<Rightarrow> json) \<Rightarrow> ('a \<Rightarrow> bool) \<Rightarrow> 'a \<Rightarrow> json result" where
  "canonical_Marshal enc raws_ok x =
     (if raws_ok x then Inr (enc x) else Inl (JsonError ''json: error calling MarshalJSON''))"

section \<open>Decoding\<close>

definition lower_char :: "char \<Rightarrow> char" where
  "lower_char c =
     (if 65 \<le> (of_char c :: nat) \<and> (of_char c :: nat) \<le> 90 then char_of (of_char c + 32 :: nat) else c)"

definition fold_key :: "string \<Rightarrow> string" where
  "fold_key k = map lower_char k"

definition jget :: "(string \<times> json) list \<Rightarrow> string \<Rightarrow> json option" where
  "jget kvs name = map_of (rev (map (\<lambda>(k, v). (fold_key k, v)) kvs)) name"

definition json_err :: "string \<Rightarrow> goerr" where
  "json_err msg = JsonError (''json: '' @ msg)"

text \<open>
  A struct decoder: refuses keys that match no field, then reads the fields from the lookup
  function. \<open>null\<close> leaves the struct at its zero value.
\<close>

definition dec_struct ::
  "string list \<Rightarrow> ((string \<Rightarrow> json option) \<Rightarrow> 'a result) \<Rightarrow> json \<Rightarrow> 'a result" where
  "dec_struct names f j = (case j of
      JObj kvs \<Rightarrow>
        if list_all (\<lambda>(k, v). fold_key k \<in> set names) kvs then f (jget kvs)
        else Inl (json_err ''unknown field'')
    | JNull \<Rightarrow> f (\<lambda>_. None)
    | _ \<Rightarrow> Inl (json_err ''cannot unmarshal into struct''))"

definition dec_opt :: "'a \<Rightarrow> (json \<Rightarrow> 'a result) \<Rightarrow> json option \<Rightarrow> 'a result" where
  "dec_opt zero dec v = (case v of
      None \<Rightarrow> Inr zero
    | Some j \<Rightarrow> if j = JNull then Inr zero else dec j)"

definition dec_str :: "json \<Rightarrow> string result" where
  "dec_str j = (case j of JStr s \<Rightarrow> Inr s | _ \<Rightarrow> Inl (json_err ''cannot unmarshal into string''))"

definition dec_int :: "json \<Rightarrow> int result" where
  "dec_int j = (case j of
      JNum n \<Rightarrow> (case parse_int n of
          Some i \<Rightarrow> if in_int64 i then Inr i else Inl (json_err ''number out of range'')
        | None \<Rightarrow> Inl (json_err ''cannot unmarshal number into int64''))
    | _ \<Rightarrow> Inl (json_err ''cannot unmarshal into int64''))"

definition dec_list :: "(json \<Rightarrow> 'a result) \<Rightarrow> json \<Rightarrow> 'a list result" where
  "dec_list dec j = (case j of
      JArr xs \<Rightarrow> map_result dec xs
    | _ \<Rightarrow> Inl (json_err ''cannot unmarshal into slice''))"

definition d_str :: "json option \<Rightarrow> string result" where
  "d_str = dec_opt [] dec_str"

definition d_int :: "json option \<Rightarrow> int result" where
  "d_int = dec_opt 0 dec_int"

definition d_bool :: "json option \<Rightarrow> bool result" where
  "d_bool = dec_opt False (\<lambda>j. case j of JBool b \<Rightarrow> Inr b | _ \<Rightarrow> Inl (json_err ''cannot unmarshal into bool''))"

definition d_ptr :: "(json \<Rightarrow> 'a result) \<Rightarrow> json option \<Rightarrow> 'a option result" where
  "d_ptr dec = dec_opt None (\<lambda>j. rbind (dec j) (\<lambda>x. Inr (Some x)))"

definition d_sub :: "'a \<Rightarrow> (json \<Rightarrow> 'a result) \<Rightarrow> json option \<Rightarrow> 'a result" where
  "d_sub zero dec = dec_opt zero dec"

definition d_list :: "(json \<Rightarrow> 'a result) \<Rightarrow> json option \<Rightarrow> 'a list result" where
  "d_list dec = dec_opt [] (dec_list dec)"

text \<open>A \<^verbatim>\<open>json.RawMessage\<close> field keeps whatever value is there, \<open>null\<close> included.\<close>

definition d_raw :: "json option \<Rightarrow> raw result" where
  "d_raw v = Inr (case v of None \<Rightarrow> RawEmpty | Some j \<Rightarrow> Raw j)"

section \<open>Codec laws\<close>

definition names_ok :: "string list \<Rightarrow> bool" where
  "names_ok names = (distinct names \<and> map fold_key names = names)"

lemma jget_enc_obj:
  assumes "distinct (map fst fs)" "map fold_key (map fst fs) = map fst fs"
  shows "jget (concat (map (\<lambda>(k, v). case v of None \<Rightarrow> [] | Some j \<Rightarrow> [(k, j)]) fs)) n
     = (case map_of fs n of None \<Rightarrow> None | Some v \<Rightarrow> v)"
  using assms
proof (induction fs)
  case Nil
  then show ?case by (simp add: jget_def)
next
  case (Cons f fs)
  obtain k v where f: "f = (k, v)" by fastforce
  let ?enc = "\<lambda>gs. concat (map (\<lambda>(k, v). case v of None \<Rightarrow> [] | Some j \<Rightarrow> [(k, j)]) gs)"
  have IH: "jget (?enc fs) n = (case map_of fs n of None \<Rightarrow> None | Some v \<Rightarrow> v)"
    using Cons by simp
  have k: "fold_key k = k" "k \<notin> fst ` set fs" using Cons.prems f by auto
  have cons: "jget (kv # kvs) n = (case jget kvs n of Some w \<Rightarrow> Some w
      | None \<Rightarrow> if fold_key (fst kv) = n then Some (snd kv) else None)" for kv kvs
    by (cases kv) (auto simp: jget_def map_add_def split: option.split)
  show ?case
  proof (cases "k = n")
    case True
    then have "map_of fs n = None" using k by (simp add: map_of_eq_None_iff)
    then show ?thesis using IH True f k cons by (cases v) simp_all
  next
    case False
    then show ?thesis using IH f k cons by (cases v) (simp_all split: option.split)
  qed
qed

lemma dec_struct_enc_obj:
  assumes "names_ok names" "map fst fs = names"
  shows "dec_struct names f (enc_obj fs) = f (\<lambda>n. case map_of fs n of None \<Rightarrow> None | Some v \<Rightarrow> v)"
proof -
  let ?kvs = "concat (map (\<lambda>(k, v). case v of None \<Rightarrow> [] | Some j \<Rightarrow> [(k, j)]) fs)"
  have fold: "fold_key k = k" if "k \<in> set names" for k
    using assms(1) that unfolding names_ok_def by (metis in_set_conv_nth nth_map)
  have "list_all (\<lambda>(k, v). fold_key k \<in> set names) ?kvs"
    using assms(2) fold by (force simp: list_all_iff split: option.splits)
  moreover have "distinct (map fst fs)" "map fold_key (map fst fs) = map fst fs"
    using assms by (simp_all only: names_ok_def)
  then have "jget ?kvs = (\<lambda>n. case map_of fs n of None \<Rightarrow> None | Some v \<Rightarrow> v)"
    by (intro ext jget_enc_obj)
  ultimately show ?thesis by (simp add: dec_struct_def enc_obj_def)
qed

lemma enc_obj_not_null [simp]: "enc_obj fs \<noteq> JNull"
  by (simp add: enc_obj_def)

lemma d_str_codec [codec_simps]: "d_str (e_str s) = Inr s" "d_str (o_str s) = Inr s"
  by (simp_all add: d_str_def dec_opt_def e_str_def o_str_def dec_str_def)

lemma d_int_codec [codec_simps]:
  "in_int64 i \<Longrightarrow> d_int (e_int i) = Inr i" "in_int64 i \<Longrightarrow> d_int (o_int i) = Inr i"
  by (simp_all add: d_int_def dec_opt_def e_int_def o_int_def dec_int_def)

lemma d_bool_codec [codec_simps]: "d_bool (o_bool b) = Inr b"
  by (simp add: d_bool_def dec_opt_def o_bool_def)

lemma d_ptr_codec [codec_simps]:
  "(\<And>y. x = Some y \<Longrightarrow> enc y \<noteq> JNull \<and> dec (enc y) = Inr y) \<Longrightarrow> d_ptr dec (o_ptr enc x) = Inr x"
  by (cases x) (simp_all add: d_ptr_def dec_opt_def o_ptr_def)

lemma d_sub_codec [codec_simps]:
  "enc x \<noteq> JNull \<Longrightarrow> dec (enc x) = Inr x \<Longrightarrow> d_sub z dec (e_sub enc x) = Inr x"
  by (simp add: d_sub_def dec_opt_def e_sub_def)

lemma d_list_codec [codec_simps]:
  "(\<And>x. x \<in> set xs \<Longrightarrow> dec (enc x) = Inr x) \<Longrightarrow> d_list dec (e_list enc xs) = Inr xs"
  "(\<And>x. x \<in> set xs \<Longrightarrow> dec (enc x) = Inr x) \<Longrightarrow> d_list dec (o_list enc xs) = Inr xs"
  by (simp_all add: d_list_def dec_opt_def e_list_def o_list_def dec_list_def map_result_map)

lemma d_raw_codec [codec_simps]: "raw_valid r \<Longrightarrow> d_raw (o_raw r) = Inr r"
  by (simp add: d_raw_def o_raw_def raw_valid_def split: raw.splits)

section \<open>What a decoder returns is in range\<close>

named_theorems dec_wf \<open>well-formedness of decoded values\<close>

lemma dec_struct_InrD: "dec_struct names f j = Inr x \<Longrightarrow> \<exists>g. f g = Inr x"
  by (auto simp: dec_struct_def split: json.splits if_splits)

lemma d_int_wf [dec_wf]: "d_int v = Inr i \<Longrightarrow> in_int64 i"
  by (auto simp: d_int_def dec_opt_def dec_int_def in_int64_def
      split: option.splits if_splits json.splits)

lemma d_raw_wf [dec_wf]: "d_raw v = Inr r \<Longrightarrow> raw_valid r"
  by (auto simp: d_raw_def raw_valid_def split: option.splits)

lemma map_result_wf:
  "map_result dec js = Inr xs \<Longrightarrow> (\<And>j x. dec j = Inr x \<Longrightarrow> P x) \<Longrightarrow> list_all P xs"
  by (induction js arbitrary: xs) (auto simp: rbind_Inr_iff)

lemma d_list_wf [dec_wf]:
  "d_list dec v = Inr xs \<Longrightarrow> (\<And>j x. dec j = Inr x \<Longrightarrow> P x) \<Longrightarrow> list_all P xs"
  by (auto simp: d_list_def dec_opt_def dec_list_def intro: map_result_wf
      split: option.splits if_splits json.splits)

lemma d_ptr_wf [dec_wf]:
  "d_ptr dec v = Inr y \<Longrightarrow> (\<And>j x. dec j = Inr x \<Longrightarrow> P x) \<Longrightarrow> pred_option P y"
  by (auto simp: d_ptr_def dec_opt_def rbind_Inr_iff split: option.splits if_splits)

end
