(* ===== verification/Obj_Store.thy ===== *)
theory Obj_Store
  imports Go_Time Go_Json "HOL-Library.AList"
begin

text \<open>
  Object storage: the interface \<^verbatim>\<open>ObjectStore\<close> (internal/objstore/store.go) as a record of operations
  over a state \<open>'s\<close>, and the in-memory store (internal/objstore/memory/store.go), operation by
  operation. Every operation takes the state and returns its result and the state after it, so that
  an implementation may change under the caller's feet between two calls. The locale
  \<open>object_store\<close> is the contract the rest of Skiff relies on: a versioned map with
  create-if-absent and compare-and-swap, whose ETags never come back; the memory store is shown to
  keep it.
\<close>

section \<open>Fallible operations on a state\<close>

type_synonym ('s, 'a) io = "'s \<Rightarrow> 'a result \<times> 's"

definition io_bind :: "('s, 'a) io \<Rightarrow> ('a \<Rightarrow> ('s, 'b) io) \<Rightarrow> ('s, 'b) io" where
  "io_bind m f s = (case m s of (Inl e, t) \<Rightarrow> (Inl e, t) | (Inr x, t) \<Rightarrow> f x t)"

definition io_ret :: "'a \<Rightarrow> ('s, 'a) io" where
  "io_ret x s = (Inr x, s)"

definition io_fail :: "goerr \<Rightarrow> ('s, 'a) io" where
  "io_fail e s = (Inl e, s)"

text \<open>A pure result, and an operation whose error the caller inspects.\<close>

definition io_lift :: "'a result \<Rightarrow> ('s, 'a) io" where
  "io_lift r s = (r, s)"

definition io_try :: "('s, 'a) io \<Rightarrow> ('s, 'a result) io" where
  "io_try m s = (case m s of (r, t) \<Rightarrow> (Inr r, t))"

lemma io_bind_simps [simp]:
  "io_bind (io_ret x) f = f x"
  "io_bind (io_lift (Inr x)) f = f x"
  "io_bind (io_lift (Inl e)) f = io_fail e"
  "io_bind (io_fail e) f = io_fail e"
  by (auto simp: io_bind_def io_ret_def io_lift_def io_fail_def)

lemma io_bind_Inr_iff:
  "io_bind m f s = (Inr y, t) \<longleftrightarrow> (\<exists>x u. m s = (Inr x, u) \<and> f x u = (Inr y, t))"
  by (auto simp: io_bind_def split: prod.splits sum.splits)

lemma io_bind_Inl_iff:
  "io_bind m f s = (Inl e, t) \<longleftrightarrow> m s = (Inl e, t) \<or> (\<exists>x u. m s = (Inr x, u) \<and> f x u = (Inl e, t))"
  by (auto simp: io_bind_def split: prod.splits sum.splits)

lemma io_lift_iff [simp]: "io_lift r s = (r', t) \<longleftrightarrow> r = r' \<and> t = s"
  by (auto simp: io_lift_def)

lemma io_ret_iff [simp]: "io_ret x s = (r, t) \<longleftrightarrow> r = Inr x \<and> t = s"
  by (auto simp: io_ret_def)

lemma io_fail_iff [simp]: "io_fail e s = (r, t) \<longleftrightarrow> r = Inl e \<and> t = s"
  by (auto simp: io_fail_def)

lemma io_try_Inr_iff [simp]: "io_try m s = (Inr r, t) \<longleftrightarrow> m s = (r, t)"
  by (auto simp: io_try_def split: prod.splits)

lemma io_try_Inl [simp]: "io_try m s \<noteq> (Inl e, t)"
  by (auto simp: io_try_def split: prod.splits)

text \<open>Branching on a result, read backwards from the outcome.\<close>

lemma io_case_sum_iff:
  "(case r of Inl e \<Rightarrow> f e | Inr x \<Rightarrow> g x) s = (y, t) \<longleftrightarrow>
     (\<exists>e. r = Inl e \<and> f e s = (y, t)) \<or> (\<exists>x. r = Inr x \<and> g x s = (y, t))"
  by (cases r) auto

lemma case_sum_Inr_iff:
  "(case r of Inl e \<Rightarrow> Inl (f e) | Inr x \<Rightarrow> g x) = Inr y \<longleftrightarrow> (\<exists>x. r = Inr x \<and> g x = Inr y)"
  by (cases r) auto

lemma io_if_iff:
  "(if b then m else m') s = (y, t) \<longleftrightarrow> (b \<and> m s = (y, t)) \<or> (\<not> b \<and> m' s = (y, t))"
  by simp

lemma if_Inl_Inr_iff:
  "(if b then Inl e else r) = Inr y \<longleftrightarrow> \<not> b \<and> r = Inr y"
  by simp

lemmas io_ok_iffs = io_bind_Inr_iff io_case_sum_iff case_sum_Inr_iff io_if_iff if_Inl_Inr_iff rbind_Inr_iff

section \<open>The interface\<close>

text \<open>
  A body is the JSON value of a document, or other bytes. Its size is that of its text.
\<close>

datatype body = JsonBody json | BytesBody string

definition body_len :: "body \<Rightarrow> int" where
  "body_len b = int (length (case b of JsonBody j \<Rightarrow> json_text j | BytesBody s \<Rightarrow> s))"

record Object =
  obj_Key :: string
  obj_Body :: body
  obj_ETag :: string
  obj_VersionID :: string
  obj_Size :: int
  obj_ContentType :: string
  obj_Metadata :: "string \<rightharpoonup> string"
  obj_CreatedAt :: gotime
  obj_UpdatedAt :: gotime

record ObjectMeta =
  om_Key :: string
  om_ETag :: string
  om_VersionID :: string
  om_Size :: int
  om_ContentType :: string
  om_Metadata :: "string \<rightharpoonup> string"
  om_CreatedAt :: gotime
  om_UpdatedAt :: gotime

record PutOptions =
  po_ContentType :: string
  po_Metadata :: "string \<rightharpoonup> string"
  po_KMSKeyID :: string

record ListOptions =
  lo_Limit :: int

record 's ObjectStore =
  os_Get :: "string \<Rightarrow> ('s, Object) io"
  os_Head :: "string \<Rightarrow> ('s, ObjectMeta) io"
  os_Create :: "string \<Rightarrow> body \<Rightarrow> PutOptions \<Rightarrow> ('s, ObjectMeta) io"
  os_CompareAndSwap :: "string \<Rightarrow> string \<Rightarrow> body \<Rightarrow> PutOptions \<Rightarrow> ('s, ObjectMeta) io"
  os_List :: "string \<Rightarrow> ListOptions \<Rightarrow> ('s, ObjectMeta list) io"

definition objectMetaFromObject :: "Object \<Rightarrow> ObjectMeta" where
  "objectMetaFromObject obj =
     \<lparr>om_Key = obj_Key obj, om_ETag = obj_ETag obj, om_VersionID = obj_VersionID obj,
      om_Size = obj_Size obj, om_ContentType = obj_ContentType obj, om_Metadata = obj_Metadata obj,
      om_CreatedAt = obj_CreatedAt obj, om_UpdatedAt = obj_UpdatedAt obj\<rparr>"

section \<open>The in-memory store\<close>

record entry =
  en_meta :: ObjectMeta
  en_body :: body
  en_version :: nat

text \<open>
  The version and tick counters start at 0 and grow by one per write; they are natural numbers, so
  the wrap-around of \<^verbatim>\<open>int64\<close> after \<open>2^63\<close> writes is left out. The mutex makes each operation one
  step.
\<close>

record Store =
  ms_objects :: "(string \<times> entry) list"
  ms_tick :: nat

definition memory_New :: Store where
  "memory_New = \<lparr>ms_objects = [], ms_tick = 0\<rparr>"

definition etagForVersion :: "nat \<Rightarrow> string" where
  "etagForVersion version = ''etag-'' @ pad_nat 20 version"

definition versionIDForVersion :: "nat \<Rightarrow> string" where
  "versionIDForVersion version = ''version-'' @ pad_nat 20 version"

definition nextTimeLocked :: "Store \<Rightarrow> gotime \<times> Store" where
  "nextTimeLocked s = (int (Suc (ms_tick s)), s\<lparr>ms_tick := Suc (ms_tick s)\<rparr>)"

text \<open>\<open>ctx\<close> is the context's error, if it is cancelled or past its deadline.\<close>

definition memory_Get :: "string option \<Rightarrow> string \<Rightarrow> (Store, Object) io" where
  "memory_Get ctx key s = (case ctx of
      Some err \<Rightarrow> (Inl (CtxError err), s)
    | None \<Rightarrow> (case map_of (ms_objects s) key of
          None \<Rightarrow> (Inl (StoreError ''get'' key ErrNotFound), s)
        | Some item \<Rightarrow>
            (let meta = en_meta item in
             (Inr \<lparr>obj_Key = om_Key meta, obj_Body = en_body item, obj_ETag = om_ETag meta,
                   obj_VersionID = om_VersionID meta, obj_Size = om_Size meta,
                   obj_ContentType = om_ContentType meta, obj_Metadata = om_Metadata meta,
                   obj_CreatedAt = om_CreatedAt meta, obj_UpdatedAt = om_UpdatedAt meta\<rparr>, s))))"

definition memory_Head :: "string option \<Rightarrow> string \<Rightarrow> (Store, ObjectMeta) io" where
  "memory_Head ctx key s = (case ctx of
      Some err \<Rightarrow> (Inl (CtxError err), s)
    | None \<Rightarrow> (case map_of (ms_objects s) key of
          None \<Rightarrow> (Inl (StoreError ''head'' key ErrNotFound), s)
        | Some item \<Rightarrow> (Inr (en_meta item), s)))"

definition memory_Create :: "string option \<Rightarrow> string \<Rightarrow> body \<Rightarrow> PutOptions \<Rightarrow> (Store, ObjectMeta) io" where
  "memory_Create ctx key body opts s = (case ctx of
      Some err \<Rightarrow> (Inl (CtxError err), s)
    | None \<Rightarrow> (case map_of (ms_objects s) key of
          Some _ \<Rightarrow> (Inl (StoreError ''create'' key ErrAlreadyExists), s)
        | None \<Rightarrow>
            (let (now, s1) = nextTimeLocked s;
                 meta = \<lparr>om_Key = key, om_ETag = etagForVersion 1, om_VersionID = versionIDForVersion 1,
                   om_Size = body_len body, om_ContentType = po_ContentType opts,
                   om_Metadata = po_Metadata opts, om_CreatedAt = now, om_UpdatedAt = now\<rparr>;
                 item = \<lparr>en_meta = meta, en_body = body, en_version = 1\<rparr>
             in (Inr meta, s1\<lparr>ms_objects := AList.update key item (ms_objects s1)\<rparr>))))"

definition memory_CompareAndSwap ::
  "string option \<Rightarrow> string \<Rightarrow> string \<Rightarrow> body \<Rightarrow> PutOptions \<Rightarrow> (Store, ObjectMeta) io" where
  "memory_CompareAndSwap ctx key previousETag body opts s = (case ctx of
      Some err \<Rightarrow> (Inl (CtxError err), s)
    | None \<Rightarrow> (case map_of (ms_objects s) key of
          None \<Rightarrow> (Inl (StoreError ''compare-and-swap'' key ErrNotFound), s)
        | Some item \<Rightarrow>
            if om_ETag (en_meta item) \<noteq> previousETag
            then (Inl (StoreError ''compare-and-swap'' key ErrPreconditionFailed), s)
            else
              (let version = Suc (en_version item);
                   (now, s1) = nextTimeLocked s;
                   meta = (en_meta item)\<lparr>om_ETag := etagForVersion version,
                     om_VersionID := versionIDForVersion version, om_Size := body_len body,
                     om_ContentType := po_ContentType opts, om_Metadata := po_Metadata opts,
                     om_UpdatedAt := now\<rparr>;
                   item' = \<lparr>en_meta = meta, en_body = body, en_version = version\<rparr>
               in (Inr meta, s1\<lparr>ms_objects := AList.update key item' (ms_objects s1)\<rparr>))))"

definition memory_List :: "string option \<Rightarrow> string \<Rightarrow> ListOptions \<Rightarrow> (Store, ObjectMeta list) io" where
  "memory_List ctx pre opts s = (case ctx of
      Some err \<Rightarrow> (Inl (CtxError err), s)
    | None \<Rightarrow>
        (let keys = sort (filter (prefix pre) (map fst (ms_objects s)));
             keys = (if 0 < lo_Limit opts \<and> lo_Limit opts < int (length keys)
                     then take (nat (lo_Limit opts)) keys else keys)
         in (Inr (map (\<lambda>key. en_meta (the (map_of (ms_objects s) key))) keys), s)))"

definition memory_store :: "string option \<Rightarrow> Store ObjectStore" where
  "memory_store ctx = \<lparr>os_Get = memory_Get ctx, os_Head = memory_Head ctx,
     os_Create = memory_Create ctx, os_CompareAndSwap = memory_CompareAndSwap ctx,
     os_List = memory_List ctx\<rparr>"

section \<open>Invariant and evolution of the memory store\<close>

text \<open>
  Every stored entry carries the ETag and version id of its version counter, which is positive, and
  the key it is stored under; keys are distinct, as in a Go map.
\<close>

definition entry_ok :: "string \<Rightarrow> entry \<Rightarrow> bool" where
  "entry_ok key en = (0 < en_version en \<and> om_Key (en_meta en) = key \<and>
     om_ETag (en_meta en) = etagForVersion (en_version en) \<and>
     om_VersionID (en_meta en) = versionIDForVersion (en_version en) \<and>
     om_Size (en_meta en) = body_len (en_body en))"

definition memory_inv :: "Store \<Rightarrow> bool" where
  "memory_inv s = (distinct (map fst (ms_objects s)) \<and> list_all (\<lambda>(k, en). entry_ok k en) (ms_objects s))"

text \<open>
  What any number of writes can do to a store: objects are never removed, a version never goes
  down, and an entry whose version is unchanged is unchanged.
\<close>

definition memory_evolves :: "Store \<Rightarrow> Store \<Rightarrow> bool" where
  "memory_evolves s t \<longleftrightarrow> (memory_inv s \<longrightarrow> memory_inv t) \<and>
     (\<forall>k en. map_of (ms_objects s) k = Some en \<longrightarrow>
        (\<exists>en'. map_of (ms_objects t) k = Some en' \<and> en_version en \<le> en_version en' \<and>
               (en_version en' = en_version en \<longrightarrow> en' = en)))"

definition memory_objs :: "Store \<Rightarrow> string \<rightharpoonup> (string \<times> body)" where
  "memory_objs s k = map_option (\<lambda>en. (om_ETag (en_meta en), en_body en)) (map_of (ms_objects s) k)"

lemma etagForVersion_inj [simp]: "etagForVersion m = etagForVersion n \<longleftrightarrow> m = n"
  by (simp add: etagForVersion_def)

lemma memory_inv_entry: "memory_inv s \<Longrightarrow> map_of (ms_objects s) k = Some en \<Longrightarrow> entry_ok k en"
  by (auto simp: memory_inv_def list_all_iff dest!: map_of_SomeD)

lemma memory_inv_New [simp]: "memory_inv memory_New"
  by (simp add: memory_inv_def memory_New_def)

lemma memory_inv_update:
  assumes "memory_inv s" "entry_ok k en"
  shows "memory_inv (s\<lparr>ms_tick := n, ms_objects := AList.update k en (ms_objects s)\<rparr>)"
proof -
  have "(k', en') \<in> set (AList.update k en (ms_objects s)) \<Longrightarrow> entry_ok k' en'" for k' en'
  proof -
    assume el: "(k', en') \<in> set (AList.update k en (ms_objects s))"
    have "distinct (map fst (AList.update k en (ms_objects s)))"
      using assms(1) by (simp add: memory_inv_def AList.distinct_update)
    then have "map_of (AList.update k en (ms_objects s)) k' = Some en'" using el by simp
    then show ?thesis
      using assms memory_inv_entry [OF assms(1)] by (auto simp: AList.update_conv split: if_splits)
  qed
  then show ?thesis using assms
    by (auto simp: memory_inv_def AList.distinct_update list_all_iff)
qed

lemma memory_evolves_refl [simp]: "memory_evolves s s"
  by (simp add: memory_evolves_def)

lemma memory_evolves_trans:
  assumes "memory_evolves s t" "memory_evolves t u"
  shows "memory_evolves s u"
  unfolding memory_evolves_def
proof (intro conjI allI impI)
  show "memory_inv s \<Longrightarrow> memory_inv u" using assms by (simp add: memory_evolves_def)
next
  fix k en assume "map_of (ms_objects s) k = Some en"
  then obtain en1 where 1: "map_of (ms_objects t) k = Some en1" "en_version en \<le> en_version en1"
    "en_version en1 = en_version en \<longrightarrow> en1 = en"
    using assms(1) unfolding memory_evolves_def by blast
  then obtain en2 where 2: "map_of (ms_objects u) k = Some en2" "en_version en1 \<le> en_version en2"
    "en_version en2 = en_version en1 \<longrightarrow> en2 = en1"
    using assms(2) unfolding memory_evolves_def by blast
  then show "\<exists>en'. map_of (ms_objects u) k = Some en' \<and> en_version en \<le> en_version en' \<and>
      (en_version en' = en_version en \<longrightarrow> en' = en)"
    using 1 by (metis le_antisym order_trans)
qed

lemmas memory_op_defs = memory_Get_def memory_Head_def memory_Create_def memory_CompareAndSwap_def
  memory_List_def nextTimeLocked_def Let_def

lemma memory_Create_ok:
  assumes "memory_Create ctx k b p s = (Inr m, t)"
  shows "map_of (ms_objects s) k = None" "om_ETag m = etagForVersion 1"
    "\<exists>en. map_of (ms_objects t) = (map_of (ms_objects s))(k \<mapsto> en) \<and> entry_ok k en \<and> en_body en = b \<and>
       en_meta en = m \<and> en_version en = 1"
    "memory_inv s \<Longrightarrow> memory_inv t"
  using assms
  by (auto simp: memory_op_defs AList.update_conv' entry_ok_def intro!: memory_inv_update
      split: option.splits)

lemma memory_CAS_ok:
  assumes "memory_CompareAndSwap ctx k e b p s = (Inr m, t)"
  shows "\<exists>en en'. map_of (ms_objects s) k = Some en \<and> om_ETag (en_meta en) = e \<and>
      map_of (ms_objects t) = (map_of (ms_objects s))(k \<mapsto> en') \<and> en_body en' = b \<and> en_meta en' = m \<and>
      en_version en' = Suc (en_version en)"
    "memory_inv s \<Longrightarrow> memory_inv t"
  using assms memory_inv_entry [of s k]
  by (auto simp: memory_op_defs AList.update_conv' entry_ok_def intro!: memory_inv_update
      split: option.splits if_splits)

lemma memory_op_error_unchanged:
  "memory_Create ctx k b p s = (Inl err, t) \<Longrightarrow> t = s"
  "memory_CompareAndSwap ctx k e b p s = (Inl err, t) \<Longrightarrow> t = s"
  by (auto simp: memory_op_defs split: option.splits if_splits)

lemma memory_Create_evolves: "memory_Create ctx k b p s = (r, t) \<Longrightarrow> memory_evolves s t"
proof (cases r)
  case (Inl err)
  assume "memory_Create ctx k b p s = (r, t)"
  with Inl have "t = s" by (auto dest: memory_op_error_unchanged)
  then show ?thesis by simp
next
  case (Inr m)
  assume "memory_Create ctx k b p s = (r, t)"
  with Inr have *: "memory_Create ctx k b p s = (Inr m, t)" by simp
  show ?thesis using memory_Create_ok [OF *] by (auto simp: memory_evolves_def)
qed

lemma memory_CAS_evolves: "memory_CompareAndSwap ctx k e b p s = (r, t) \<Longrightarrow> memory_evolves s t"
proof (cases r)
  case (Inl err)
  assume "memory_CompareAndSwap ctx k e b p s = (r, t)"
  with Inl have "t = s" by (auto dest: memory_op_error_unchanged)
  then show ?thesis by simp
next
  case (Inr m)
  assume "memory_CompareAndSwap ctx k e b p s = (r, t)"
  with Inr have *: "memory_CompareAndSwap ctx k e b p s = (Inr m, t)" by simp
  show ?thesis using memory_CAS_ok [OF *] by (auto simp: memory_evolves_def)
qed

section \<open>The contract of object storage\<close>

text \<open>
  \<open>objs s k\<close> is the ETag and body stored under \<open>k\<close> in state \<open>s\<close>; \<open>evolves s t\<close> says that \<open>t\<close> is
  reached from \<open>s\<close> by writes of any clients. An operation first lets others write (state \<open>u\<close>) and
  then acts at one instant; \<open>writes u k e b t\<close> says that the step from \<open>u\<close> to \<open>t\<close> is one write of the
  body \<open>b\<close> under \<open>k\<close> with the ETag \<open>e\<close>, with nothing between. An ETag stands for one body for ever, and an ETag that was overwritten
  never comes back: that is what makes compare-and-swap safe against lost updates.
\<close>

locale object_store =
  fixes S :: "('s, 'z) ObjectStore_scheme"
    and objs :: "'s \<Rightarrow> string \<rightharpoonup> (string \<times> body)"
    and inv :: "'s \<Rightarrow> bool"
    and evolves :: "'s \<Rightarrow> 's \<Rightarrow> bool"
    and writes :: "'s \<Rightarrow> string \<Rightarrow> string \<Rightarrow> body \<Rightarrow> 's \<Rightarrow> bool"
  assumes evolves_refl: "evolves s s"
    and evolves_trans: "evolves s t \<Longrightarrow> evolves t u \<Longrightarrow> evolves s u"
    and evolves_inv: "evolves s t \<Longrightarrow> inv s \<Longrightarrow> inv t"
    and objs_persist: "evolves s t \<Longrightarrow> objs s k = Some eb \<Longrightarrow> \<exists>eb'. objs t k = Some eb'"
    and etag_pins: "inv s \<Longrightarrow> evolves s t \<Longrightarrow> objs s k = Some (e, b) \<Longrightarrow> objs t k = Some (e, b') \<Longrightarrow> b' = b"
    and etag_never_returns: "inv s \<Longrightarrow> evolves s t \<Longrightarrow> evolves t u \<Longrightarrow> objs s k = Some (e, b) \<Longrightarrow>
      objs t k = Some (e1, b1) \<Longrightarrow> e1 \<noteq> e \<Longrightarrow> objs u k = Some (e2, b2) \<Longrightarrow> e2 \<noteq> e"
    and get_ok: "os_Get S k s = (Inr ob, t) \<Longrightarrow>
      evolves s t \<and> objs t k = Some (obj_ETag ob, obj_Body ob)"
    and get_err: "os_Get S k s = (Inl err, t) \<Longrightarrow>
      evolves s t \<and> (is_store ErrNotFound err \<longrightarrow> objs t k = None)"
    and create_ok: "os_Create S k b p s = (Inr m, t) \<Longrightarrow>
      \<exists>u. evolves s u \<and> evolves u t \<and> objs u k = None \<and> objs t = (objs u)(k \<mapsto> (om_ETag m, b)) \<and>
        writes u k (om_ETag m) b t"
    and create_err: "os_Create S k b p s = (Inl err, t) \<Longrightarrow>
      evolves s t \<and> (is_store ErrAlreadyExists err \<longrightarrow> objs t k \<noteq> None)"
    and cas_ok: "inv s \<Longrightarrow> os_CompareAndSwap S k e b p s = (Inr m, t) \<Longrightarrow>
      \<exists>u b0. evolves s u \<and> evolves u t \<and> objs u k = Some (e, b0) \<and>
        objs t = (objs u)(k \<mapsto> (om_ETag m, b)) \<and> om_ETag m \<noteq> e \<and> writes u k (om_ETag m) b t"
    and cas_err: "os_CompareAndSwap S k e b p s = (Inl err, t) \<Longrightarrow>
      evolves s t \<and> (is_store ErrPreconditionFailed err \<longrightarrow> (\<exists>e' b'. objs t k = Some (e', b') \<and> e' \<noteq> e))"
    and list_ok: "inv s \<Longrightarrow> os_List S pre l s = (rl, t) \<Longrightarrow>
      evolves s t \<and> (\<forall>ms. rl = Inr ms \<longrightarrow> distinct (map om_Key ms) \<and>
        (\<forall>m \<in> set ms. prefix pre (om_Key m) \<and> objs t (om_Key m) \<noteq> None))"
begin

text \<open>
  Read-modify-write: when a compare-and-swap on an ETag read earlier succeeds, the object held, at
  the instant of the swap, exactly the body that was read. No write of another client is lost.
\<close>

lemma read_modify_write:
  assumes "inv s" "os_Get S k s = (Inr x, t)" "evolves t t'"
    and "os_CompareAndSwap S k (obj_ETag x) b p t' = (Inr m, v)"
  shows "\<exists>u. evolves t' u \<and> evolves u v \<and> objs u k = Some (obj_ETag x, obj_Body x) \<and>
    objs v = (objs u)(k \<mapsto> (om_ETag m, b)) \<and> om_ETag m \<noteq> obj_ETag x"
proof -
  have t: "evolves s t" "objs t k = Some (obj_ETag x, obj_Body x)" using get_ok [OF assms(2)] by auto
  then have it: "inv t" "inv t'" using assms(1,3) evolves_inv by blast+
  obtain u b0 where u: "evolves t' u" "evolves u v" "objs u k = Some (obj_ETag x, b0)"
    "objs v = (objs u)(k \<mapsto> (om_ETag m, b))" "om_ETag m \<noteq> obj_ETag x"
    using cas_ok [OF it(2) assms(4)] by blast
  have "evolves t u" using assms(3) u(1) evolves_trans by blast
  then have "b0 = obj_Body x" using etag_pins [OF it(1) _ t(2) u(3)] by blast
  then show ?thesis using u by auto
qed

lemma cas_stale:
  assumes "inv s" "evolves s t" "objs s k = Some (e, b)" "objs t k = Some (e1, b1)" "e1 \<noteq> e"
  shows "os_CompareAndSwap S k e b' p t \<noteq> (Inr m, v)"
proof
  assume cas: "os_CompareAndSwap S k e b' p t = (Inr m, v)"
  have it: "inv t" using assms(1,2) evolves_inv by blast
  obtain u b0 where "evolves t u" "objs u k = Some (e, b0)" using cas_ok [OF it cas] by blast
  then show False using etag_never_returns [OF assms(1,2) _ assms(3-5)] by blast
qed

lemma op_evolves:
  "os_Get S k s = (rg, t) \<Longrightarrow> evolves s t"
  "os_Create S k b p s = (rc, t) \<Longrightarrow> evolves s t"
  "inv s \<Longrightarrow> os_CompareAndSwap S k e b p s = (rw, t) \<Longrightarrow> evolves s t"
  subgoal by (cases rg) (use get_ok get_err in blast)+
  subgoal by (cases rc) (use create_ok create_err evolves_trans in blast)+
  subgoal by (cases rw) (use cas_ok cas_err evolves_trans in blast)+
  done

end

lemma memory_evolves_objs:
  assumes "memory_inv s" "memory_evolves s t" "memory_objs s k = Some (e, b)"
  shows "\<exists>en en'. map_of (ms_objects s) k = Some en \<and> map_of (ms_objects t) k = Some en' \<and>
    e = etagForVersion (en_version en) \<and> b = en_body en \<and> en_version en \<le> en_version en' \<and>
    (en_version en' = en_version en \<longrightarrow> en' = en) \<and> entry_ok k en'"
proof -
  obtain en where en: "map_of (ms_objects s) k = Some en" "e = om_ETag (en_meta en)" "b = en_body en"
    using assms(3) by (auto simp: memory_objs_def)
  obtain en' where en': "map_of (ms_objects t) k = Some en'" "en_version en \<le> en_version en'"
    "en_version en' = en_version en \<longrightarrow> en' = en"
    using assms(2) en(1) unfolding memory_evolves_def by blast
  have "memory_inv t" using assms(1,2) by (simp add: memory_evolves_def)
  then have "entry_ok k en'" "entry_ok k en"
    using en(1) en'(1) assms(1) memory_inv_entry by auto
  then show ?thesis using en en' by (auto simp: entry_ok_def)
qed

lemma memory_etag_pins:
  assumes "memory_inv s" "memory_evolves s t" "memory_objs s k = Some (e, b)" "memory_objs t k = Some (e, b')"
  shows "b' = b"
proof -
  obtain en en' where *: "map_of (ms_objects t) k = Some en'" "e = etagForVersion (en_version en)"
    "b = en_body en" "en_version en' = en_version en \<longrightarrow> en' = en" "entry_ok k en'"
    using memory_evolves_objs [OF assms(1-3)] by blast
  then have "etagForVersion (en_version en') = e" "b' = en_body en'"
    using assms(4) by (auto simp: memory_objs_def entry_ok_def)
  then show ?thesis using * by simp
qed

lemma memory_etag_never_returns:
  assumes "memory_inv s" "memory_evolves s t" "memory_evolves t u" "memory_objs s k = Some (e, b)"
    and "memory_objs t k = Some (e1, b1)" "e1 \<noteq> e" "memory_objs u k = Some (e2, b2)"
  shows "e2 \<noteq> e"
proof -
  have it: "memory_inv t" using assms(1,2) by (simp add: memory_evolves_def)
  obtain en en1 :: entry where a: "map_of (ms_objects t) k = Some en1" "e = etagForVersion (en_version en)"
    "en_version en \<le> en_version en1" "entry_ok k en1"
    using memory_evolves_objs [OF assms(1,2,4)] by blast
  obtain en1' en2 where b: "map_of (ms_objects t) k = Some en1'" "map_of (ms_objects u) k = Some en2"
    "en_version en1' \<le> en_version en2" "entry_ok k en2" "e1 = etagForVersion (en_version en1')"
    using memory_evolves_objs [OF it assms(3,5)] by blast
  have "en_version en < en_version en2" using a b assms(6) by (metis le_neq_trans option.inject order_less_le_trans)
  moreover have "e2 = etagForVersion (en_version en2)"
    using assms(7) b(2,4) by (auto simp: memory_objs_def entry_ok_def)
  ultimately show ?thesis using a(2) by simp
qed

lemma memory_objs_update:
  "map_of (ms_objects t) = (map_of (ms_objects u))(k \<mapsto> en) \<Longrightarrow>
     memory_objs t = (memory_objs u)(k \<mapsto> (om_ETag (en_meta en), en_body en))"
  by (auto simp: memory_objs_def fun_eq_iff)

lemma memory_CAS_contract:
  assumes "memory_inv s" "memory_CompareAndSwap ctx k e b p s = (Inr m, t)"
  shows "\<exists>b0. memory_objs s k = Some (e, b0) \<and> memory_objs t = (memory_objs s)(k \<mapsto> (om_ETag m, b)) \<and>
    om_ETag m \<noteq> e"
proof -
  obtain en en' where *: "map_of (ms_objects s) k = Some en" "om_ETag (en_meta en) = e"
    "map_of (ms_objects t) = (map_of (ms_objects s))(k \<mapsto> en')" "en_body en' = b" "en_meta en' = m"
    "en_version en' = Suc (en_version en)"
    using memory_CAS_ok(1) [OF assms(2)] by blast
  have "memory_inv t" using memory_CAS_ok(2) [OF assms(2)] assms(1) by blast
  then have "entry_ok k en'" using *(3) memory_inv_entry by simp
  moreover have "entry_ok k en" using * assms(1) memory_inv_entry by simp
  ultimately have "om_ETag m \<noteq> e" using * by (auto simp: entry_ok_def)
  then show ?thesis using * memory_objs_update [OF *(3)] by (auto simp: memory_objs_def)
qed

lemma memory_List_keys:
  assumes "memory_inv s" "memory_List ctx p l s = (Inr ms, t)"
  shows "\<exists>n. map om_Key ms = take n (sort (filter (prefix p) (map fst (ms_objects s))))"
proof -
  define ks where "ks = sort (filter (prefix p) (map fst (ms_objects s)))"
  define n where "n = (if 0 < lo_Limit l \<and> lo_Limit l < int (length ks) then nat (lo_Limit l) else length ks)"
  have ms: "ms = map (\<lambda>key. en_meta (the (map_of (ms_objects s) key))) (take n ks)"
    using assms(2) by (auto simp: memory_List_def ks_def n_def Let_def split: option.splits if_splits)
  have "om_Key (en_meta (the (map_of (ms_objects s) k))) = k" if kk: "k \<in> set ks" for k
  proof -
    obtain en where "map_of (ms_objects s) k = Some en"
      using kk map_of_eq_None_iff [of "ms_objects s" k] by (cases "map_of (ms_objects s) k") (auto simp: ks_def)
    then show ?thesis using memory_inv_entry [OF assms(1), of k en] by (simp add: entry_ok_def)
  qed
  then have "map om_Key ms = take n ks"
    unfolding ms map_map comp_def by (intro map_idI) (blast dest: in_set_takeD)
  then show ?thesis by (auto simp: ks_def)
qed

lemma memory_List_contract:
  assumes "memory_inv s" "memory_List ctx p l s = (rl, t)"
  shows "t = s \<and> (\<forall>ms. rl = Inr ms \<longrightarrow> distinct (map om_Key ms) \<and>
    (\<forall>m \<in> set ms. prefix p (om_Key m) \<and> memory_objs s (om_Key m) \<noteq> None))"
proof -
  have "t = s" using assms(2) by (auto simp: memory_List_def Let_def split: option.splits)
  moreover have "distinct (map om_Key ms) \<and> (\<forall>m \<in> set ms. prefix p (om_Key m) \<and> memory_objs s (om_Key m) \<noteq> None)"
    if ms: "rl = Inr ms" for ms
  proof -
    obtain n where n: "map om_Key ms = take n (sort (filter (prefix p) (map fst (ms_objects s))))"
      using memory_List_keys [OF assms(1)] assms(2) ms by blast
    have "prefix p (om_Key m) \<and> om_Key m \<in> fst ` set (ms_objects s)" if m: "m \<in> set ms" for m
    proof -
      have "om_Key m \<in> set (take n (sort (filter (prefix p) (map fst (ms_objects s)))))"
        using m unfolding n [symmetric] by simp
      from in_set_takeD [OF this] show ?thesis by auto
    qed
    moreover have "distinct (map om_Key ms)" unfolding n using assms(1) by (simp add: memory_inv_def)
    ultimately show ?thesis by (auto simp: memory_objs_def map_of_eq_None_iff)
  qed
  ultimately show ?thesis by blast
qed

definition memory_writes :: "Store \<Rightarrow> string \<Rightarrow> string \<Rightarrow> body \<Rightarrow> Store \<Rightarrow> bool" where
  "memory_writes s k e b t \<longleftrightarrow> memory_objs t = (memory_objs s)(k \<mapsto> (e, b))"

interpretation mem: object_store "memory_store ctx" memory_objs memory_inv memory_evolves memory_writes for ctx
proof (unfold_locales, goal_cases)
  case (4 s t k x)
  then show ?case by (fastforce simp: memory_objs_def memory_evolves_def)
next
  case (9 k b p s m t)
  then have c: "memory_Create ctx k b p s = (Inr m, t)" by (simp add: memory_store_def)
  obtain en where "map_of (ms_objects t) = (map_of (ms_objects s))(k \<mapsto> en)" "en_body en = b" "en_meta en = m"
    using memory_Create_ok(3) [OF c] by blast
  then have "memory_objs t = (memory_objs s)(k \<mapsto> (om_ETag m, b))"
    using memory_objs_update by blast
  moreover have "memory_objs s k = None" using memory_Create_ok(1) [OF c] by (simp add: memory_objs_def)
  ultimately show ?case using memory_Create_evolves [OF c] by (intro exI [of _ s]) (simp add: memory_writes_def)
next
  case (11 s k e b p m t)
  then have c: "memory_CompareAndSwap ctx k e b p s = (Inr m, t)" by (simp add: memory_store_def)
  show ?case using memory_CAS_contract [OF 11(1) c] memory_CAS_evolves [OF c] memory_evolves_refl unfolding memory_writes_def by blast
next
  case (3 s t)
  then show ?case by (simp add: memory_evolves_def)
next
  case (5 s t k e b b')
  then show ?case by (rule memory_etag_pins)
next
  case (6 s t u k e b e1 b1 e2 b2)
  then show ?case by (rule memory_etag_never_returns)
next
  case (13 s p l rl t)
  then show ?case using memory_List_contract [of s ctx p l rl t] by (simp add: memory_store_def)
qed (auto simp: memory_store_def memory_op_defs memory_objs_def
    intro: memory_evolves_trans split: option.splits if_splits)

section \<open>Properties\<close>

text \<open>
  Listing. \<^verbatim>\<open>List\<close> returns, in ascending order of key and without duplicates, the metadata stored
  under keys that start with the prefix: all of them, or the first \<open>Limit\<close> of them when the limit is
  positive; the store is unchanged.
\<close>

theorem list_spec:
  assumes "memory_inv s" "memory_List None pre opts s = (Inr metas, t)"
  shows "t = s \<and> sorted (map om_Key metas) \<and> distinct (map om_Key metas) \<and>
    (\<forall>m \<in> set metas. prefix pre (om_Key m) \<and> memory_Head None (om_Key m) s = (Inr m, s)) \<and>
    (\<forall>k m. prefix pre k \<and> memory_Head None k s = (Inr m, s) \<longrightarrow> m \<in> set metas \<or>
       (0 < lo_Limit opts \<and> int (length metas) = lo_Limit opts \<and> (\<forall>m' \<in> set metas. om_Key m' < k)))"
proof -
  define ks where "ks = sort (filter (prefix pre) (map fst (ms_objects s)))"
  define n where "n = (if 0 < lo_Limit opts \<and> lo_Limit opts < int (length ks) then nat (lo_Limit opts) else length ks)"
  have metas: "metas = map (\<lambda>key. en_meta (the (map_of (ms_objects s) key))) (take n ks)" and t: "t = s"
    using assms(2) by (auto simp: memory_List_def ks_def n_def Let_def split: if_splits)
  have kset: "k \<in> set ks \<longleftrightarrow> prefix pre k \<and> (\<exists>en. map_of (ms_objects s) k = Some en)" for k
    using map_of_eq_None_iff [of "ms_objects s" k] unfolding ks_def
    by (cases "map_of (ms_objects s) k") (simp_all add: conj_commute)
  have key: "om_Key (en_meta (the (map_of (ms_objects s) k))) = k" if kk: "k \<in> set ks" for k
  proof -
    obtain en where "map_of (ms_objects s) k = Some en" using kset [of k] kk by auto
    then show ?thesis using memory_inv_entry [OF assms(1), of k en] by (simp add: entry_ok_def)
  qed
  have keys: "map om_Key metas = take n ks"
    unfolding metas map_map comp_def by (rule map_idI) (rule key, erule in_set_takeD)
  have d: "distinct ks" using assms(1) by (simp add: ks_def memory_inv_def)
  have srt: "sorted ks" by (simp add: ks_def)
  have head: "memory_Head None k s = (Inr (en_meta (the (map_of (ms_objects s) k))), s)" if kk: "k \<in> set ks" for k
  proof -
    obtain en where "map_of (ms_objects s) k = Some en" using kset [of k] kk by auto
    then show ?thesis by (simp add: memory_Head_def)
  qed
  have mem: "prefix pre (om_Key m) \<and> memory_Head None (om_Key m) s = (Inr m, s)" if m: "m \<in> set metas" for m
  proof -
    obtain k where "k \<in> set ks" "m = en_meta (the (map_of (ms_objects s) k))"
      using m by (auto simp: metas dest: in_set_takeD)
    then show ?thesis using key [of k] head [of k] kset [of k] by simp
  qed
  have all: "m \<in> set metas \<or> (0 < lo_Limit opts \<and> int (length metas) = lo_Limit opts \<and> (\<forall>m' \<in> set metas. om_Key m' < k))"
    if k: "prefix pre k" "memory_Head None k s = (Inr m, s)" for k m
  proof -
    obtain en where en: "map_of (ms_objects s) k = Some en" "m = en_meta en"
      using k(2) by (auto simp: memory_Head_def split: option.splits)
    have kk: "k \<in> set ks" using kset [of k] k(1) en(1) by simp
    show ?thesis
    proof (cases "k \<in> set (take n ks)")
      case True
      then show ?thesis using en by (force simp: metas)
    next
      case False
      then have kd: "k \<in> set (drop n ks)" using kk by (metis Un_iff append_take_drop_id set_append)
      then have nl: "n < length ks" by (cases "n < length ks") auto
      then have lim: "0 < lo_Limit opts" "int n = lo_Limit opts" by (auto simp: n_def split: if_splits)
      have "sorted (take n ks @ drop n ks)" using srt by simp
      then have le: "\<forall>x \<in> set (take n ks). x \<le> k" using kd unfolding sorted_append by blast
      have "om_Key m' < k" if "m' \<in> set metas" for m'
      proof -
        have "om_Key m' \<in> set (map om_Key metas)" using that by simp
        then have "om_Key m' \<in> set (take n ks)" using keys by simp
        then show ?thesis using le False by (metis order_le_less)
      qed
      moreover have "length metas = n" using nl by (simp add: metas)
      ultimately show ?thesis using lim by simp
    qed
  qed
  have "sorted (map om_Key metas)" "distinct (map om_Key metas)"
    using keys srt d by (simp_all add: sorted_wrt_take)
  then show ?thesis using t mem all by blast
qed

text \<open>Two keys ''a/1'' and ''a/2'' under the prefix ''a/'', and one outside it.\<close>

definition no_options :: PutOptions where
  "no_options = \<lparr>po_ContentType = [], po_Metadata = Map.empty, po_KMSKeyID = []\<rparr>"

definition three_objects :: Store where
  "three_objects = fold (\<lambda>k s. snd (memory_Create None k (BytesBody ''x'') no_options s)) [''a/2'', ''b'', ''a/1''] memory_New"

theorem list_spec_witness:
  "\<exists>metas. memory_List None ''a/'' \<lparr>lo_Limit = 1\<rparr> three_objects = (Inr metas, three_objects) \<and>
     map om_Key metas = [''a/1''] \<and> sorted (map om_Key metas) \<and> distinct (map om_Key metas)"
proof -
  have i: "memory_inv three_objects"
    by (simp add: three_objects_def memory_inv_def entry_ok_def memory_Create_def memory_New_def nextTimeLocked_def Let_def)
  obtain metas where m: "memory_List None ''a/'' \<lparr>lo_Limit = 1\<rparr> three_objects = (Inr metas, three_objects)"
    "map om_Key metas = [''a/1'']"
    by (simp add: three_objects_def memory_List_def memory_Create_def memory_New_def nextTimeLocked_def Let_def)
  show ?thesis using list_spec [OF i m(1)] m by auto
qed

end
