(* ===== verification/World.thy ===== *)
theory World
  imports Obj_Store
begin

text \<open>
  The world a Skiff client runs in: an object store, a clock, a source of lease tokens and event
  ids, and sleeping. \<open>World\<close> extends the store interface by the functions the Go code takes as
  options (\<^verbatim>\<open>Clock\<close>, \<^verbatim>\<open>TokenGenerator\<close>, \<^verbatim>\<open>EventID\<close>, \<^verbatim>\<open>Sleep\<close>) and by \<^verbatim>\<open>ctx.Err()\<close>.

  \<open>sys\<close> is the world of the in-memory store with other clients in it: before each call, the next
  element of \<open>sys_env\<close> happens, that is, any batch of writes by others, some time passes, and the
  context may be cancelled. A property proved for every \<open>sys\<close> therefore holds under every
  interleaving with other clients at the granularity of store calls; with \<open>sys_env = []\<close> the client
  runs alone.
\<close>

record 's World = "'s ObjectStore" +
  w_Now :: "'s \<Rightarrow> gotime \<times> 's"
  w_Token :: "'s \<Rightarrow> string \<times> 's"
  w_EventID :: "'s \<Rightarrow> string \<times> 's"
  w_Sleep :: "int \<Rightarrow> 's \<Rightarrow> goerr option \<times> 's"
  w_CtxErr :: "'s \<Rightarrow> goerr option \<times> 's"

text \<open>The clock, tokens and sleep as steps of an operation.\<close>

definition io_now :: "('s, 'z) World_scheme \<Rightarrow> ('s, gotime) io" where
  "io_now W s = (case w_Now W s of (x, t) \<Rightarrow> (Inr x, t))"

definition io_token :: "('s, 'z) World_scheme \<Rightarrow> ('s, string) io" where
  "io_token W s = (case w_Token W s of (x, t) \<Rightarrow> (Inr x, t))"

definition io_event_id :: "('s, 'z) World_scheme \<Rightarrow> ('s, string) io" where
  "io_event_id W s = (case w_EventID W s of (x, t) \<Rightarrow> (Inr x, t))"

definition io_sleep :: "('s, 'z) World_scheme \<Rightarrow> int \<Rightarrow> ('s, unit) io" where
  "io_sleep W d s = (case w_Sleep W d s of (None, t) \<Rightarrow> (Inr (), t) | (Some e, t) \<Rightarrow> (Inl e, t))"

definition io_ctx :: "('s, 'z) World_scheme \<Rightarrow> ('s, unit) io" where
  "io_ctx W s = (case w_CtxErr W s of (None, t) \<Rightarrow> (Inr (), t) | (Some e, t) \<Rightarrow> (Inl e, t))"

section \<open>The contract of a world\<close>

text \<open>
  The store keeps its contract; the clock never runs backwards, and reading it, drawing a token or
  sleeping lets others write but changes nothing itself.
\<close>

locale world = object_store W objs inv evolves writes
  for W :: "('s, 'z) World_scheme"
    and objs :: "'s \<Rightarrow> string \<rightharpoonup> (string \<times> body)"
    and inv :: "'s \<Rightarrow> bool"
    and evolves :: "'s \<Rightarrow> 's \<Rightarrow> bool"
    and writes :: "'s \<Rightarrow> string \<Rightarrow> string \<Rightarrow> body \<Rightarrow> 's \<Rightarrow> bool" +
  fixes clock :: "'s \<Rightarrow> gotime"
  assumes clock_mono: "evolves s t \<Longrightarrow> clock s \<le> clock t"
    and now_ok: "w_Now W s = (x, t) \<Longrightarrow> evolves s t \<and> x = clock t"
    and token_ok: "w_Token W s = (y, t) \<Longrightarrow> evolves s t"
    and event_id_ok: "w_EventID W s = (y, t) \<Longrightarrow> evolves s t"
    and sleep_ok: "w_Sleep W d s = (r, t) \<Longrightarrow> evolves s t"
    and ctx_ok: "w_CtxErr W s = (r, t) \<Longrightarrow> evolves s t"
begin

text \<open>An operation that only lets the world evolve, whatever it returns.\<close>

definition quiet :: "('s, 'a) io \<Rightarrow> bool" where
  "quiet m \<longleftrightarrow> (\<forall>s r t. inv s \<longrightarrow> m s = (r, t) \<longrightarrow> evolves s t)"

lemma quietD: "quiet m \<Longrightarrow> inv s \<Longrightarrow> m s = (r, t) \<Longrightarrow> evolves s t"
  by (auto simp: quiet_def)

lemma quiet_bind [intro!]: "quiet m \<Longrightarrow> (\<And>x. quiet (f x)) \<Longrightarrow> quiet (io_bind m f)"
  unfolding quiet_def
proof (intro allI impI)
  fix s r t
  assume m: "\<forall>s r t. inv s \<longrightarrow> m s = (r, t) \<longrightarrow> evolves s t"
    and f: "\<And>x. \<forall>s r t. inv s \<longrightarrow> f x s = (r, t) \<longrightarrow> evolves s t"
    and i: "inv s" and eq: "io_bind m f s = (r, t)"
  obtain r1 u where u: "m s = (r1, u)" by fastforce
  with m i have su: "evolves s u" by blast
  show "evolves s t"
  proof (cases r1)
    case (Inl e)
    then show ?thesis using eq u su by (simp add: io_bind_def)
  next
    case (Inr x)
    then have "f x u = (r, t)" using eq u by (simp add: io_bind_def)
    then show ?thesis using f [of x] evolves_inv [OF su i] su evolves_trans by blast
  qed
qed

lemma quiet_simps [simp]:
  "quiet (io_ret x)" "quiet (io_fail e)" "quiet (io_lift r)"
  by (auto simp: quiet_def evolves_refl)

lemma quiet_try [intro!]: "quiet m \<Longrightarrow> quiet (io_try m)"
  by (auto simp: quiet_def io_try_def split: prod.splits)

lemma quiet_world [simp]:
  "quiet (os_Get W k)" "quiet (os_Create W k b p)" "quiet (os_CompareAndSwap W k e b p)"
  "quiet (io_now W)" "quiet (io_token W)" "quiet (io_event_id W)" "quiet (io_sleep W d)" "quiet (io_ctx W)"
  "quiet (os_List W k' l)"
  by (auto simp: quiet_def io_now_def io_token_def io_event_id_def io_sleep_def io_ctx_def
      intro: op_evolves dest: list_ok now_ok token_ok event_id_ok sleep_ok ctx_ok
      split: prod.splits option.splits)

lemma quiet_if [intro!]: "(b \<Longrightarrow> quiet m) \<Longrightarrow> (\<not> b \<Longrightarrow> quiet m') \<Longrightarrow> quiet (if b then m else m')"
  by simp

lemma quiet_case_sum [intro!]:
  "(\<And>e. quiet (f e)) \<Longrightarrow> (\<And>x. quiet (g x)) \<Longrightarrow> quiet (case r of Inl e \<Rightarrow> f e | Inr x \<Rightarrow> g x)"
  by (cases r) auto

lemma quiet_case_option [intro!]:
  "quiet f \<Longrightarrow> (\<And>x. quiet (g x)) \<Longrightarrow> quiet (case r of None \<Rightarrow> f | Some x \<Rightarrow> g x)"
  by (cases r) auto

lemma quiet_case_prod [intro!]:
  "(\<And>x y. quiet (f x y)) \<Longrightarrow> quiet (case r of (x, y) \<Rightarrow> f x y)"
  by (cases r) auto

lemma io_now_Inr: "io_now W s = (Inr x, t) \<Longrightarrow> evolves s t \<and> x = clock t"
  by (auto simp: io_now_def dest: now_ok split: prod.splits)

lemma io_now_Inl [simp]: "io_now W s \<noteq> (Inl e, t)"
  by (auto simp: io_now_def split: prod.splits)

end

section \<open>The in-memory world with other clients\<close>

datatype swrite =
    WCreate string body PutOptions
  | WSwap string string body PutOptions

fun apply_write :: "swrite \<Rightarrow> Store \<Rightarrow> Store" where
  "apply_write (WCreate k b p) s = snd (memory_Create None k b p s)"
| "apply_write (WSwap k e b p) s = snd (memory_CompareAndSwap None k e b p s)"

text \<open>A write that has happened: its key, the ETag it was given and the body.\<close>

type_synonym object_write = "string \<times> string \<times> body"

definition logged :: "string \<Rightarrow> body \<Rightarrow> ObjectMeta result \<Rightarrow> object_write list" where
  "logged k b r = (case r of Inl _ \<Rightarrow> [] | Inr m \<Rightarrow> [(k, om_ETag m, b)])"

fun env_history :: "swrite list \<Rightarrow> Store \<Rightarrow> object_write list" where
  "env_history [] s = []"
| "env_history (WCreate k b p # ws) s = logged k b (fst (memory_Create None k b p s)) @ env_history ws (apply_write (WCreate k b p) s)"
| "env_history (WSwap k e b p # ws) s =
     logged k b (fst (memory_CompareAndSwap None k e b p s)) @ env_history ws (apply_write (WSwap k e b p) s)"

text \<open>The objects after some writes.\<close>

definition replay :: "object_write list \<Rightarrow> (string \<rightharpoonup> (string \<times> body)) \<Rightarrow> string \<rightharpoonup> (string \<times> body)" where
  "replay = fold (\<lambda>(k, e, b) m. m(k \<mapsto> (e, b)))"

record env_step =
  es_writes :: "swrite list"
  es_elapsed :: nat
  es_ctx :: "string option"

record sys =
  sys_store :: Store
  sys_now :: gotime
  sys_tokens :: "string list"
  sys_events :: "string list"
  sys_env :: "env_step list"
  sys_history :: "object_write list"

text \<open>The next step of the environment: its context error, and the state after it.\<close>

definition env_tick :: "sys \<Rightarrow> string option \<times> sys" where
  "env_tick s = (case sys_env s of
      [] \<Rightarrow> (None, s)
    | x # xs \<Rightarrow> (es_ctx x, s\<lparr>sys_store := fold apply_write (es_writes x) (sys_store s),
                  sys_now := sys_now s + int (es_elapsed x), sys_env := xs,
                  sys_history := sys_history s @ env_history (es_writes x) (sys_store s)\<rparr>))"

definition on_store :: "(string option \<Rightarrow> (Store, 'a) io) \<Rightarrow> (sys, 'a) io" where
  "on_store f s = (case env_tick s of (ctx, s1) \<Rightarrow>
     (case f ctx (sys_store s1) of (r, st) \<Rightarrow> (r, s1\<lparr>sys_store := st\<rparr>)))"

text \<open>A call that writes the body \<open>b\<close> under \<open>k\<close> if it succeeds.\<close>

definition on_write :: "string \<Rightarrow> body \<Rightarrow> (string option \<Rightarrow> (Store, ObjectMeta) io) \<Rightarrow> (sys, ObjectMeta) io" where
  "on_write k b f s = (case on_store f s of (r, t) \<Rightarrow> (r, t\<lparr>sys_history := sys_history t @ logged k b r\<rparr>))"

definition sys_take :: "(sys \<Rightarrow> string list) \<Rightarrow> (string list \<Rightarrow> sys \<Rightarrow> sys) \<Rightarrow> string \<Rightarrow> sys \<Rightarrow> string \<times> sys" where
  "sys_take get put dflt s = (case get s of [] \<Rightarrow> (dflt, s) | x # xs \<Rightarrow> (x, put xs s))"

definition sys_world :: "sys World" where
  "sys_world = \<lparr>
     os_Get = (\<lambda>k. on_store (\<lambda>ctx. memory_Get ctx k)),
     os_Head = (\<lambda>k. on_store (\<lambda>ctx. memory_Head ctx k)),
     os_Create = (\<lambda>k b p. on_write k b (\<lambda>ctx. memory_Create ctx k b p)),
     os_CompareAndSwap = (\<lambda>k e b p. on_write k b (\<lambda>ctx. memory_CompareAndSwap ctx k e b p)),
     os_List = (\<lambda>p l. on_store (\<lambda>ctx. memory_List ctx p l)),
     w_Now = (\<lambda>s. case env_tick s of (_, t) \<Rightarrow> (sys_now t, t)),
     w_Token = sys_take sys_tokens (\<lambda>xs s. s\<lparr>sys_tokens := xs\<rparr>) ''lease_0'',
     w_EventID = sys_take sys_events (\<lambda>xs s. s\<lparr>sys_events := xs\<rparr>) [],
     w_Sleep = (\<lambda>d s. case env_tick s of (ctx, t) \<Rightarrow>
        (map_option CtxError ctx, t\<lparr>sys_now := sys_now t + max 0 d\<rparr>)),
     w_CtxErr = (\<lambda>s. case env_tick s of (ctx, t) \<Rightarrow> (map_option CtxError ctx, t))\<rparr>"

definition sys_objs :: "sys \<Rightarrow> string \<rightharpoonup> (string \<times> body)" where
  "sys_objs s = memory_objs (sys_store s)"

definition sys_inv :: "sys \<Rightarrow> bool" where
  "sys_inv s = memory_inv (sys_store s)"

text \<open>
  One state evolves into another by writes that its history records: every state between two others has the
  objects that some prefix of the recorded writes leaves, so an instant of a run cannot be made up.
\<close>

definition sys_evolves :: "sys \<Rightarrow> sys \<Rightarrow> bool" where
  "sys_evolves s t \<longleftrightarrow> memory_evolves (sys_store s) (sys_store t) \<and> sys_now s \<le> sys_now t \<and>
     (\<exists>ws. sys_history t = sys_history s @ ws \<and> sys_objs t = replay ws (sys_objs s))"

text \<open>Between the two states nothing happened but one write.\<close>

definition sys_writes :: "sys \<Rightarrow> string \<Rightarrow> string \<Rightarrow> body \<Rightarrow> sys \<Rightarrow> bool" where
  "sys_writes s k e b t \<longleftrightarrow> sys_history t = sys_history s @ [(k, e, b)] \<and> sys_objs t = (sys_objs s)(k \<mapsto> (e, b))"

lemma replay_simps [simp]:
  "replay [] m = m" "replay ((k, e, b) # ws) m = replay ws (m(k \<mapsto> (e, b)))" "replay (ws @ vs) m = replay vs (replay ws m)"
  by (simp_all add: replay_def)

lemma logged_simps [simp]: "logged k b (Inl err) = []" "logged k b (Inr m) = [(k, om_ETag m, b)]"
  by (simp_all add: logged_def)

lemma memory_logged:
  "memory_Create ctx k b p s = (r, t) \<Longrightarrow> memory_objs t = replay (logged k b r) (memory_objs s)"
  "memory_CompareAndSwap ctx k e b p s = (r, t) \<Longrightarrow> memory_objs t = replay (logged k b r) (memory_objs s)"
proof -
  assume c: "memory_Create ctx k b p s = (r, t)"
  show "memory_objs t = replay (logged k b r) (memory_objs s)"
  proof (cases r)
    case (Inr m)
    then obtain en where "map_of (ms_objects t) = (map_of (ms_objects s))(k \<mapsto> en)" "en_body en = b" "en_meta en = m"
      using memory_Create_ok(3) [of ctx k b p s m t] c by blast
    then show ?thesis using memory_objs_update Inr by simp
  qed (use memory_op_error_unchanged(1) [of ctx k b p s] c in simp)
next
  assume c: "memory_CompareAndSwap ctx k e b p s = (r, t)"
  show "memory_objs t = replay (logged k b r) (memory_objs s)"
  proof (cases r)
    case (Inr m)
    then obtain en where "map_of (ms_objects t) = (map_of (ms_objects s))(k \<mapsto> en)" "en_body en = b" "en_meta en = m"
      using memory_CAS_ok(1) [of ctx k e b p s m t] c by blast
    then show ?thesis using memory_objs_update Inr by simp
  qed (use memory_op_error_unchanged(2) [of ctx k e b p s] c in simp)
qed

lemma apply_write_evolves: "memory_evolves s (apply_write w s)"
  by (cases w) (auto intro: memory_Create_evolves memory_CAS_evolves simp: prod_eq_iff)

lemma fold_writes_evolves: "memory_evolves s (fold apply_write ws s)"
  by (induction ws arbitrary: s) (auto intro: memory_evolves_trans apply_write_evolves)

lemma env_history_replay: "memory_objs (fold apply_write ws s) = replay (env_history ws s) (memory_objs s)"
proof (induction ws s rule: env_history.induct)
  case (2 k b p ws s)
  then show ?case using memory_logged(1) [of None k b p s] by (simp add: prod_eq_iff)
next
  case (3 k e b p ws s)
  then show ?case using memory_logged(2) [of None k e b p s] by (simp add: prod_eq_iff)
qed simp

lemma sys_evolves_refl [simp]: "sys_evolves s s"
  by (simp add: sys_evolves_def)

lemma sys_evolves_trans: "sys_evolves s t \<Longrightarrow> sys_evolves t u \<Longrightarrow> sys_evolves s u"
  by (fastforce simp: sys_evolves_def intro: memory_evolves_trans)

lemma sys_evolves_clock: "sys_evolves s t \<Longrightarrow> sys_now s \<le> sys_now t"
  by (simp add: sys_evolves_def)

lemma sys_evolves_idle:
  "sys_store t = sys_store s \<Longrightarrow> sys_history t = sys_history s \<Longrightarrow> sys_now s \<le> sys_now t \<Longrightarrow> sys_evolves s t"
  by (simp add: sys_evolves_def sys_objs_def)

lemma env_tick_evolves: "env_tick s = (c, t) \<Longrightarrow> sys_evolves s t"
  by (auto simp: env_tick_def sys_evolves_def fold_writes_evolves sys_objs_def env_history_replay split: list.splits)

lemma on_store_split:
  assumes "on_store f s = (r, t)"
  shows "\<exists>c u st. env_tick s = (c, u) \<and> sys_evolves s u \<and> f c (sys_store u) = (r, st) \<and>
    t = u\<lparr>sys_store := st\<rparr>"
  using assms by (auto simp: on_store_def dest: env_tick_evolves split: prod.splits)

lemma on_write_split:
  assumes "on_write k b f s = (r, t)"
  shows "\<exists>c u st. env_tick s = (c, u) \<and> sys_evolves s u \<and> f c (sys_store u) = (r, st) \<and>
    t = u\<lparr>sys_store := st, sys_history := sys_history u @ logged k b r\<rparr>"
  using assms by (auto simp: on_write_def dest!: on_store_split split: prod.splits)

text \<open>What a write does to the state after the others have acted.\<close>

definition sys_put :: "sys \<Rightarrow> Store \<Rightarrow> object_write list \<Rightarrow> sys" where
  "sys_put u st ws = u\<lparr>sys_store := st, sys_history := sys_history u @ ws\<rparr>"

lemma sys_put_simps:
  "sys_objs (sys_put u st ws) = memory_objs st" "sys_history (sys_put u st ws) = sys_history u @ ws" "sys_put u (sys_store u) [] = u"
  by (simp_all add: sys_put_def sys_objs_def)

lemma sys_put_evolves:
  "memory_evolves (sys_store u) st \<Longrightarrow> memory_objs st = replay ws (memory_objs (sys_store u)) \<Longrightarrow> sys_evolves u (sys_put u st ws)"
  by (simp add: sys_evolves_def sys_put_def sys_objs_def)

lemma sys_ops:
  "os_Get sys_world k s = (rg, t) \<Longrightarrow> \<exists>c u. sys_evolves s u \<and> os_Get (memory_store c) k (sys_store u) = (rg, sys_store u) \<and> t = u"
  "os_Create sys_world k b p s = (rw, t) \<Longrightarrow> \<exists>c u st. sys_evolves s u \<and> sys_evolves u t \<and>
     memory_Create c k b p (sys_store u) = (rw, st) \<and> t = sys_put u st (logged k b rw)"
  "os_CompareAndSwap sys_world k e b p s = (rw, t) \<Longrightarrow> \<exists>c u st. sys_evolves s u \<and> sys_evolves u t \<and>
     memory_CompareAndSwap c k e b p (sys_store u) = (rw, st) \<and> t = sys_put u st (logged k b rw)"
  "os_List sys_world pre l s = (rl, t) \<Longrightarrow> \<exists>c u. sys_evolves s u \<and> memory_List c pre l (sys_store u) = (rl, sys_store u) \<and> t = u"
proof -
  have same: "memory_Get c k st = (rg, st') \<Longrightarrow> st' = st" "memory_List c pre l st = (rl, st') \<Longrightarrow> st' = st" for c st st'
    by (auto simp: memory_Get_def memory_List_def Let_def split: option.splits)
  show "os_Get sys_world k s = (rg, t) \<Longrightarrow> \<exists>c u. sys_evolves s u \<and> os_Get (memory_store c) k (sys_store u) = (rg, sys_store u) \<and> t = u"
  proof -
    assume "os_Get sys_world k s = (rg, t)"
    then obtain c u st where u: "sys_evolves s u" "memory_Get c k (sys_store u) = (rg, st)" "t = u\<lparr>sys_store := st\<rparr>"
      using on_store_split [of "\<lambda>ctx. memory_Get ctx k" s rg t] by (auto simp: sys_world_def)
    then show ?thesis using same(1) [OF u(2)] by (intro exI [of _ c] exI [of _ u]) (simp add: memory_store_def)
  qed
  show "os_List sys_world pre l s = (rl, t) \<Longrightarrow> \<exists>c u. sys_evolves s u \<and> memory_List c pre l (sys_store u) = (rl, sys_store u) \<and> t = u"
  proof -
    assume "os_List sys_world pre l s = (rl, t)"
    then obtain c u st where u: "sys_evolves s u" "memory_List c pre l (sys_store u) = (rl, st)" "t = u\<lparr>sys_store := st\<rparr>"
      using on_store_split [of "\<lambda>ctx. memory_List ctx pre l" s rl t] by (auto simp: sys_world_def)
    then show ?thesis using same(2) [OF u(2)] by (intro exI [of _ c] exI [of _ u]) simp
  qed
  show "os_Create sys_world k b p s = (rw, t) \<Longrightarrow> \<exists>c u st. sys_evolves s u \<and> sys_evolves u t \<and>
     memory_Create c k b p (sys_store u) = (rw, st) \<and> t = sys_put u st (logged k b rw)"
    using sys_put_evolves memory_Create_evolves memory_logged(1)
    by (fastforce simp: sys_world_def sys_put_def dest!: on_write_split)
  show "os_CompareAndSwap sys_world k e b p s = (rw, t) \<Longrightarrow> \<exists>c u st. sys_evolves s u \<and> sys_evolves u t \<and>
     memory_CompareAndSwap c k e b p (sys_store u) = (rw, st) \<and> t = sys_put u st (logged k b rw)"
    using sys_put_evolves memory_CAS_evolves memory_logged(2)
    by (fastforce simp: sys_world_def sys_put_def dest!: on_write_split)
qed

lemma sys_evolves_store: "sys_evolves s t \<Longrightarrow> memory_evolves (sys_store s) (sys_store t)"
  by (simp add: sys_evolves_def)

interpretation sysw: world sys_world sys_objs sys_inv sys_evolves sys_writes sys_now
proof (unfold_locales, goal_cases)
  case (2 s t u)
  then show ?case by (rule sys_evolves_trans)
next
  case (3 s t)
  then show ?case by (simp add: sys_evolves_def sys_inv_def memory_evolves_def)
next
  case (4 s t k eb)
  then show ?case using mem.objs_persist [OF sys_evolves_store] unfolding sys_objs_def by blast
next
  case (5 s t k e b b')
  then show ?case using mem.etag_pins [OF _ sys_evolves_store] unfolding sys_objs_def sys_inv_def by blast
next
  case (6 s t u k e b e1 b1 e2 b2)
  then show ?case
    using mem.etag_never_returns [OF _ sys_evolves_store sys_evolves_store] unfolding sys_objs_def sys_inv_def by blast
next
  case (7 k s ob t)
  then show ?case using mem.get_ok by (fastforce simp: sys_objs_def dest!: sys_ops(1))
next
  case (8 k s err t)
  then show ?case using mem.get_err by (fastforce simp: sys_objs_def dest!: sys_ops(1))
next
  case (9 k b p s m t)
  then obtain c u st where *: "sys_evolves s u" "sys_evolves u t" "memory_Create c k b p (sys_store u) = (Inr m, st)"
    "t = sys_put u st [(k, om_ETag m, b)]"
    using sys_ops(2) by fastforce
  have "memory_objs (sys_store u) k = None"
    using memory_Create_ok(1) [OF *(3)] by (simp add: memory_objs_def)
  then show ?case using * memory_logged(1) [OF *(3)]
    by (intro exI [of _ u]) (simp add: sys_put_simps sys_writes_def sys_objs_def [of u])
next
  case (10 k b p s err t)
  then obtain c u where *: "sys_evolves s u" "os_Create (memory_store c) k b p (sys_store u) = (Inl err, sys_store u)" "t = u"
    using memory_op_error_unchanged(1) by (fastforce simp: memory_store_def sys_put_simps dest!: sys_ops(2))
  then show ?case using mem.create_err [OF *(2)] by (simp add: sys_objs_def)
next
  case (11 s k e b p m t)
  then obtain c u st where *: "sys_evolves s u" "sys_evolves u t" "memory_CompareAndSwap c k e b p (sys_store u) = (Inr m, st)"
    "t = sys_put u st [(k, om_ETag m, b)]"
    using sys_ops(3) by fastforce
  have "memory_inv (sys_store u)" using *(1) 11(1) by (simp add: sys_evolves_def sys_inv_def memory_evolves_def)
  from memory_CAS_contract [OF this *(3)] show ?case
    using * by (auto simp: sys_put_simps sys_writes_def sys_objs_def [of u] intro!: exI [of _ u])
next
  case (12 k e b p s err t)
  then obtain c u where *: "sys_evolves s u"
    "os_CompareAndSwap (memory_store c) k e b p (sys_store u) = (Inl err, sys_store u)" "t = u"
    using memory_op_error_unchanged(2) by (fastforce simp: memory_store_def sys_put_simps dest!: sys_ops(3))
  then show ?case using mem.cas_err [OF *(2)] by (simp add: sys_objs_def)
next
  case (13 s p l rl t)
  then obtain c where *: "sys_evolves s t" "memory_List c p l (sys_store t) = (rl, sys_store t)"
    using sys_ops(4) by blast
  have "memory_inv (sys_store t)" using *(1) 13(1) by (simp add: sys_evolves_def sys_inv_def memory_evolves_def)
  then show ?case using memory_List_contract [OF _ *(2)] * by (simp add: sys_objs_def)
next
  case (15 s x t)
  then show ?case by (auto simp: sys_world_def dest: env_tick_evolves split: prod.splits)
next
  case (18 d s r t)
  then show ?case
    using sys_evolves_trans [OF env_tick_evolves sys_evolves_idle] by (fastforce simp: sys_world_def split: prod.splits)
next
  case (19 s r t)
  then show ?case by (auto simp: sys_world_def dest: env_tick_evolves split: prod.splits)
next
  case (16 s y t)
  then show ?case by (auto simp: sys_world_def sys_take_def intro!: sys_evolves_idle split: list.splits)
next
  case (17 s y t)
  then show ?case by (auto simp: sys_world_def sys_take_def intro!: sys_evolves_idle split: list.splits)
qed (simp_all add: sys_evolves_clock)

section \<open>A client alone\<close>

text \<open>With no other client and no cancellation, each call is the memory store's own.\<close>

lemma alone_tick [simp]: "sys_env s = [] \<Longrightarrow> env_tick s = (None, s)"
  by (simp add: env_tick_def)

lemma alone_Get:
  assumes "sys_env s = []" "sys_objs s k = Some (e, b)"
  shows "\<exists>ob. os_Get sys_world k s = (Inr ob, s) \<and> obj_ETag ob = e \<and> obj_Body ob = b"
  using assms
  by (auto simp: sys_world_def on_store_def memory_Get_def sys_objs_def memory_objs_def Let_def)

lemma alone_Get_None:
  "sys_env s = [] \<Longrightarrow> sys_objs s k = None \<Longrightarrow> os_Get sys_world k s = (Inl (StoreError ''get'' k ErrNotFound), s)"
  by (auto simp: sys_world_def on_store_def memory_Get_def sys_objs_def memory_objs_def)

lemma alone_Create:
  assumes "sys_env s = []" "sys_objs s k = None"
  shows "\<exists>m t. os_Create sys_world k b p s = (Inr m, t) \<and> sys_objs t = (sys_objs s)(k \<mapsto> (om_ETag m, b)) \<and>
    sys_env t = [] \<and> sys_now t = sys_now s \<and> sys_tokens t = sys_tokens s \<and> sys_events t = sys_events s"
  using assms
  by (auto simp: sys_world_def on_write_def on_store_def memory_Create_def sys_objs_def memory_objs_def Let_def
      nextTimeLocked_def AList.update_conv' fun_eq_iff)

lemma alone_Create_exists:
  "sys_env s = [] \<Longrightarrow> sys_objs s k = Some eb \<Longrightarrow>
     os_Create sys_world k b p s = (Inl (StoreError ''create'' k ErrAlreadyExists), s)"
  by (auto simp: sys_world_def on_write_def on_store_def memory_Create_def sys_objs_def memory_objs_def)

lemma alone_CAS:
  assumes "sys_env s = []" "sys_objs s k = Some (e, b0)"
  shows "\<exists>m t. os_CompareAndSwap sys_world k e b p s = (Inr m, t) \<and> sys_objs t = (sys_objs s)(k \<mapsto> (om_ETag m, b)) \<and>
    sys_env t = [] \<and> sys_now t = sys_now s \<and> sys_tokens t = sys_tokens s \<and> sys_events t = sys_events s"
  using assms
  by (auto simp: sys_world_def on_write_def on_store_def memory_CompareAndSwap_def sys_objs_def memory_objs_def Let_def
      nextTimeLocked_def AList.update_conv' fun_eq_iff)

lemma alone_CAS_stale:
  "sys_env s = [] \<Longrightarrow> sys_objs s k = Some (e', b0) \<Longrightarrow> e' \<noteq> e \<Longrightarrow>
     os_CompareAndSwap sys_world k e b p s = (Inl (StoreError ''compare-and-swap'' k ErrPreconditionFailed), s)"
  by (auto simp: sys_world_def on_write_def on_store_def memory_CompareAndSwap_def sys_objs_def memory_objs_def)

lemma alone_now [simp]: "sys_env s = [] \<Longrightarrow> io_now sys_world s = (Inr (sys_now s), s)"
  by (simp add: io_now_def sys_world_def)

lemma alone_ctx [simp]: "sys_env s = [] \<Longrightarrow> io_ctx sys_world s = (Inr (), s)"
  by (simp add: io_ctx_def sys_world_def)

lemma alone_token:
  "io_token sys_world s = (case sys_tokens s of [] \<Rightarrow> (Inr ''lease_0'', s) | x # xs \<Rightarrow> (Inr x, s\<lparr>sys_tokens := xs\<rparr>))"
  by (simp add: io_token_def sys_world_def sys_take_def split: list.splits)

text \<open>Operations that only read leave the world of a lone client as it is.\<close>

definition still :: "(sys, 'a) io \<Rightarrow> bool" where
  "still m \<longleftrightarrow> (\<forall>s r t. sys_env s = [] \<longrightarrow> m s = (r, t) \<longrightarrow> t = s)"

lemma stillD: "still m \<Longrightarrow> sys_env s = [] \<Longrightarrow> m s = (r, t) \<Longrightarrow> t = s"
  by (simp add: still_def)

lemma still_simps [simp]:
  "still (io_ret x)" "still (io_fail e)" "still (io_lift r)" "still (io_now sys_world)" "still (io_ctx sys_world)"
  "still (os_Get sys_world k)" "still (os_List sys_world p l)"
  by (auto simp: still_def io_now_def io_ctx_def sys_world_def on_store_def memory_Get_def memory_List_def Let_def
      split: prod.splits option.splits)

lemma still_bind [intro!]: "still m \<Longrightarrow> (\<And>x. still (f x)) \<Longrightarrow> still (io_bind m f)"
  unfolding still_def io_bind_def by (fastforce split: prod.splits sum.splits)

lemma still_try [intro!]: "still m \<Longrightarrow> still (io_try m)"
  by (auto simp: still_def io_try_def split: prod.splits)

lemma still_if [intro!]: "(b \<Longrightarrow> still m) \<Longrightarrow> (\<not> b \<Longrightarrow> still m') \<Longrightarrow> still (if b then m else m')"
  by simp

lemma still_cases [intro!]:
  "(\<And>e. still (f e)) \<Longrightarrow> (\<And>x. still (g x)) \<Longrightarrow> still (case r of Inl e \<Rightarrow> f e | Inr x \<Rightarrow> g x)"
  "still h \<Longrightarrow> (\<And>x. still (k x)) \<Longrightarrow> still (case z of None \<Rightarrow> h | Some x \<Rightarrow> k x)"
  "(\<And>x y. still (l x y)) \<Longrightarrow> still (case p of (x, y) \<Rightarrow> l x y)"
  by (auto split: sum.splits option.splits prod.splits)

lemma take_full: "map f xs = take n ys \<Longrightarrow> length xs = length ys \<Longrightarrow> map f xs = ys"
proof -
  assume m: "map f xs = take n ys" and l: "length xs = length ys"
  have "length (take n ys) = length ys" unfolding m [symmetric] using l by simp
  then show "map f xs = ys" unfolding m by (simp add: min_def split: if_splits)
qed

lemma alone_List:
  assumes "sys_env s = []" "sys_inv s" "os_List sys_world p \<lparr>lo_Limit = 0\<rparr> s = (Inr ms, t)"
  shows "t = s" "om_Key ` set ms = {k. prefix p k \<and> sys_objs s k \<noteq> None}"
proof -
  show "t = s" using assms(1,3) still_simps stillD by blast
  let ?st = "sys_store s"
  have ms: "memory_List None p \<lparr>lo_Limit = 0\<rparr> ?st = (Inr ms, ?st)"
    using assms by (auto simp: sys_world_def on_store_def memory_List_def Let_def)
  have inv: "memory_inv ?st" using assms(2) by (simp add: sys_inv_def)
  have "length ms = length (sort (filter (prefix p) (map fst (ms_objects ?st))))"
    using ms by (auto simp: memory_List_def Let_def)
  moreover obtain n where n: "map om_Key ms = take n (sort (filter (prefix p) (map fst (ms_objects ?st))))"
    using memory_List_keys [OF inv ms] by blast
  ultimately have "map om_Key ms = sort (filter (prefix p) (map fst (ms_objects ?st)))" using take_full by metis
  from arg_cong [OF this, of set] have "om_Key ` set ms = set (filter (prefix p) (map fst (ms_objects ?st)))" by simp
  then show "om_Key ` set ms = {k. prefix p k \<and> sys_objs s k \<noteq> None}"
    by (auto simp: sys_objs_def memory_objs_def map_of_eq_None_iff)
qed

section \<open>Properties\<close>

text \<open>
  C3: no lost updates. A client that reads an object, and later swaps in a new body on the ETag it
  read, either fails or replaces exactly the body it read: at the instant of a successful swap the
  store held that body under that ETag, whatever other clients did between the read and the swap, and
  the new ETag differs from the old one.
\<close>

theorem no_lost_update:
  assumes "sys_inv s" "os_Get sys_world k s = (Inr x, t)" "sys_evolves t t'"
    and "os_CompareAndSwap sys_world k (obj_ETag x) b p t' = (Inr m, v)"
  shows "\<exists>u. sys_evolves t' u \<and> sys_evolves u v \<and> sys_objs u k = Some (obj_ETag x, obj_Body x) \<and>
    sys_objs v = (sys_objs u)(k \<mapsto> (om_ETag m, b)) \<and> om_ETag m \<noteq> obj_ETag x"
  using assms by (rule sysw.read_modify_write)

definition one_object :: sys where
  "one_object = \<lparr>sys_store = snd (memory_Create None ''k'' (BytesBody ''v1'') no_options memory_New),
    sys_now = 0, sys_tokens = [], sys_events = [], sys_env = [], sys_history = []\<rparr>"

theorem no_lost_update_witness:
  "\<exists>x m u v. os_Get sys_world ''k'' one_object = (Inr x, one_object) \<and>
     os_CompareAndSwap sys_world ''k'' (obj_ETag x) (BytesBody ''v2'') no_options one_object = (Inr m, v) \<and>
     sys_objs u ''k'' = Some (obj_ETag x, BytesBody ''v1'') \<and> sys_objs v ''k'' = Some (om_ETag m, BytesBody ''v2'') \<and>
     om_ETag m \<noteq> obj_ETag x"
proof -
  have o: "sys_objs one_object ''k'' = Some (etagForVersion 1, BytesBody ''v1'')"
    by (simp add: one_object_def sys_objs_def memory_objs_def memory_Create_def memory_New_def nextTimeLocked_def Let_def)
  have i: "sys_inv one_object"
    by (simp add: one_object_def sys_inv_def memory_inv_def entry_ok_def memory_Create_def memory_New_def
        nextTimeLocked_def Let_def)
  have e: "sys_env one_object = []" by (simp add: one_object_def)
  obtain x where x: "os_Get sys_world ''k'' one_object = (Inr x, one_object)" "obj_ETag x = etagForVersion 1"
    "obj_Body x = BytesBody ''v1''"
    using alone_Get [OF e o] by blast
  have o': "sys_objs one_object ''k'' = Some (obj_ETag x, BytesBody ''v1'')" using o x(2) by simp
  obtain m v where m: "os_CompareAndSwap sys_world ''k'' (obj_ETag x) (BytesBody ''v2'') no_options one_object = (Inr m, v)"
    using alone_CAS [OF e o'] by blast
  from no_lost_update [OF i x(1) sys_evolves_refl m] show ?thesis using x m by fastforce
qed

end
