(* ===== verification/Schema.thy ===== *)
theory Schema
  imports Go_Json
begin

text \<open>
  The documents Skiff keeps in object storage (internal/state/schema/schema.go): one record per
  struct, fields in the source's order, a pointer as an option, a slice as a list (nil and empty are
  one), a \<^verbatim>\<open>json.RawMessage\<close> as \<open>raw\<close>, \<^verbatim>\<open>int\<close> and \<^verbatim>\<open>int64\<close> as \<open>int\<close> with the range in the
  well-formedness predicates of \<open>Schema_Codec\<close>. The string-typed enumerations stay strings: a stored
  document may hold any text there, and the validation functions decide.
\<close>

section \<open>Enumerations\<close>

definition schema_Version :: string where
  "schema_Version = ''skiff.state/v1''"

type_synonym Risk = string
type_synonym Reversibility = string
type_synonym SagaStatus = string
type_synonym OperationStatus = string

definition RiskLow :: Risk where "RiskLow = ''low''"
definition RiskMedium :: Risk where "RiskMedium = ''medium''"
definition RiskHigh :: Risk where "RiskHigh = ''high''"
definition RiskCritical :: Risk where "RiskCritical = ''critical''"

definition Reversible :: Reversibility where "Reversible = ''reversible''"
definition Compensatable :: Reversibility where "Compensatable = ''compensatable''"
definition PartiallyReversible :: Reversibility where "PartiallyReversible = ''partially_reversible''"
definition Irreversible :: Reversibility where "Irreversible = ''irreversible''"

definition OperationPending :: OperationStatus where "OperationPending = ''pending''"
definition OperationRunning :: OperationStatus where "OperationRunning = ''running''"
definition OperationSucceeded :: OperationStatus where "OperationSucceeded = ''succeeded''"
definition OperationFailed :: OperationStatus where "OperationFailed = ''failed''"
definition OperationCanceled :: OperationStatus where "OperationCanceled = ''canceled''"

definition SagaPending :: SagaStatus where "SagaPending = ''pending''"
definition SagaRunning :: SagaStatus where "SagaRunning = ''running''"
definition SagaCompensating :: SagaStatus where "SagaCompensating = ''compensating''"
definition SagaSucceeded :: SagaStatus where "SagaSucceeded = ''succeeded''"
definition SagaFailed :: SagaStatus where "SagaFailed = ''failed''"
definition SagaCanceled :: SagaStatus where "SagaCanceled = ''canceled''"

lemmas saga_status_defs =
  SagaPending_def SagaRunning_def SagaCompensating_def SagaSucceeded_def SagaFailed_def SagaCanceled_def

lemmas risk_defs = RiskLow_def RiskMedium_def RiskHigh_def RiskCritical_def

lemmas reversibility_defs =
  Reversible_def Compensatable_def PartiallyReversible_def Irreversible_def

section \<open>Documents\<close>

record Actor =
  act_ID :: string
  act_Type :: string

record Target =
  tgt_Kind :: string
  tgt_Name :: string

record Lease =
  lse_Owner :: string
  lse_Token :: string
  lse_Generation :: int
  lse_ExpiresAt :: string

record ProviderOperationRef =
  por_Provider :: string
  por_Kind :: string
  por_ID :: string
  por_ObservedAt :: string
  por_Description :: string

record ActiveOperation =
  aop_ID :: string
  aop_Kind :: string
  aop_State :: string
  aop_Step :: string

record ServiceControl =
  sc_SchemaVersion :: string
  sc_Service :: string
  sc_Env :: string
  sc_DesiredRelease :: string
  sc_StableRelease :: string
  sc_Operation :: "ActiveOperation option"
  sc_Lease :: "Lease option"
  sc_Version :: int
  sc_UpdatedAt :: string
  sc_UpdatedBy :: Actor
  sc_TraceID :: string

record StatefulMemberSummary =
  sms_Member :: int
  sms_Generation :: int
  sms_ReleaseID :: string
  sms_ReleaseManifestKey :: string
  sms_RuntimeManifestKey :: string
  sms_InstanceID :: string
  sms_VolumeID :: string
  sms_DNSName :: string
  sms_Phase :: string

record StatefulGroupControl =
  sgc_SchemaVersion :: string
  sgc_Group :: string
  sgc_Env :: string
  sgc_Replicas :: int
  sgc_Members :: "StatefulMemberSummary list"
  sgc_Operation :: "ActiveOperation option"
  sgc_Lease :: "Lease option"
  sgc_Version :: int
  sgc_UpdatedAt :: string
  sgc_UpdatedBy :: Actor
  sgc_TraceID :: string

record StatefulReplacement =
  srp_OperationID :: string
  srp_SagaID :: string
  srp_OldInstanceID :: string
  srp_NewInstanceID :: string
  srp_VolumeID :: string
  srp_Generation :: int
  srp_FencedAt :: string
  srp_DetachedAt :: string
  srp_ReplacementLaunchedAt :: string
  srp_AttachedAt :: string
  srp_DNSUpdatedAt :: string
  srp_RecipeRecoveredAt :: string
  srp_VerifiedAt :: string

record StatefulMemberControl =
  smc_SchemaVersion :: string
  smc_Group :: string
  smc_Env :: string
  smc_Member :: int
  smc_Zone :: string
  smc_InstanceID :: string
  smc_VolumeID :: string
  smc_DNSName :: string
  smc_Generation :: int
  smc_ReleaseID :: string
  smc_ReleaseManifestKey :: string
  smc_RuntimeManifestKey :: string
  smc_Phase :: string
  smc_Lease :: "Lease option"
  smc_ProviderOperations :: "ProviderOperationRef list"
  smc_Replacement :: "StatefulReplacement option"
  smc_Version :: int
  smc_UpdatedAt :: string
  smc_UpdatedBy :: Actor
  smc_TraceID :: string

record StepFailure =
  sf_Code :: string
  sf_Summary :: string
  sf_Cause :: string
  sf_Retriable :: bool
  sf_RetryAfter :: string

record StepResultRef =
  srr_StepID :: string
  srr_Kind :: string
  srr_Status :: string
  srr_Result :: raw
  srr_ResultRef :: string
  srr_Failure :: "StepFailure option"
  srr_ProviderOperations :: "ProviderOperationRef list"
  srr_CompletedAt :: string

record StepResult =
  sr_SchemaVersion :: string
  sr_SagaID :: string
  sr_OperationID :: string
  sr_StepID :: string
  sr_Kind :: string
  sr_Status :: string
  sr_Result :: raw
  sr_Failure :: "StepFailure option"
  sr_ProviderOperations :: "ProviderOperationRef list"
  sr_StartedAt :: string
  sr_CompletedAt :: string

record OperationIntent =
  oi_SchemaVersion :: string
  oi_OperationID :: string
  oi_Service :: string
  oi_Env :: string
  oi_Kind :: string
  oi_Target :: Target
  oi_Actor :: Actor
  oi_TraceID :: string
  oi_Risk :: string
  oi_Reversibility :: string
  oi_PackageLockDigest :: string
  oi_Summary :: string
  oi_CreatedAt :: string
  oi_Params :: raw

record OperationControl =
  oc_SchemaVersion :: string
  oc_OperationID :: string
  oc_Service :: string
  oc_Env :: string
  oc_Status :: string
  oc_Lease :: "Lease option"
  oc_ProviderOperations :: "ProviderOperationRef list"
  oc_StepResults :: "StepResultRef list"
  oc_UpdatedAt :: string
  oc_TraceID :: string

record PackageProvenance =
  pp_Name :: string
  pp_Ref :: string
  pp_Version :: string
  pp_Digest :: string
  pp_ManifestDigest :: string
  pp_LockfileDigest :: string

record SagaIntent =
  si_SchemaVersion :: string
  si_SagaID :: string
  si_Kind :: string
  si_Target :: Target
  si_Actor :: Actor
  si_TraceID :: string
  si_Risk :: string
  si_Reversibility :: string
  si_PackageLockDigest :: string
  si_Summary :: string
  si_CreatedAt :: string
  si_Params :: raw
  si_Package :: "PackageProvenance option"

record RetryPolicy =
  rp_MaxAttempts :: int
  rp_Backoff :: string

record CompensationSpec =
  cs_Kind :: string
  cs_Params :: raw

record SagaNode =
  sn_ID :: string
  sn_Kind :: string
  sn_Requires :: "string list"
  sn_Params :: raw
  sn_Retry :: "RetryPolicy option"
  sn_Compensate :: "CompensationSpec option"
  sn_Risk :: string
  sn_Reversibility :: string

record SagaEdge =
  se_From :: string
  se_To :: string

record SagaGraph =
  sg_SchemaVersion :: string
  sg_SagaID :: string
  sg_Nodes :: "SagaNode list"
  sg_Edges :: "SagaEdge list"
  sg_CreatedAt :: string
  sg_Package :: "PackageProvenance option"

record SagaControl =
  sct_SchemaVersion :: string
  sct_SagaID :: string
  sct_Status :: string
  sct_Lease :: "Lease option"
  sct_CurrentSteps :: "string list"
  sct_StepResults :: "StepResultRef list"
  sct_UpdatedAt :: string
  sct_TraceID :: string

record Fact =
  fct_Type :: string
  fct_Message :: string

record Event =
  ev_SchemaVersion :: string
  ev_ID :: string
  ev_Time :: string
  ev_TraceID :: string
  ev_Subject :: Target
  ev_Type :: string
  ev_Severity :: string
  ev_Actor :: "Actor option"
  ev_Summary :: string
  ev_Facts :: "Fact list"
  ev_Data :: raw

section \<open>Zero values\<close>

definition zero_Actor :: Actor where
  "zero_Actor = \<lparr>act_ID = [], act_Type = []\<rparr>"

definition zero_Target :: Target where
  "zero_Target = \<lparr>tgt_Kind = [], tgt_Name = []\<rparr>"

definition zero_Lease :: Lease where
  "zero_Lease = \<lparr>lse_Owner = [], lse_Token = [], lse_Generation = 0, lse_ExpiresAt = []\<rparr>"

definition zero_ProviderOperationRef :: ProviderOperationRef where
  "zero_ProviderOperationRef = \<lparr>por_Provider = [], por_Kind = [], por_ID = [], por_ObservedAt = [], por_Description = []\<rparr>"

definition zero_ActiveOperation :: ActiveOperation where
  "zero_ActiveOperation = \<lparr>aop_ID = [], aop_Kind = [], aop_State = [], aop_Step = []\<rparr>"

definition zero_ServiceControl :: ServiceControl where
  "zero_ServiceControl = \<lparr>sc_SchemaVersion = [], sc_Service = [], sc_Env = [], sc_DesiredRelease = [], sc_StableRelease = [], sc_Operation = None, sc_Lease = None, sc_Version = 0, sc_UpdatedAt = [], sc_UpdatedBy = zero_Actor, sc_TraceID = []\<rparr>"

definition zero_StatefulMemberSummary :: StatefulMemberSummary where
  "zero_StatefulMemberSummary = \<lparr>sms_Member = 0, sms_Generation = 0, sms_ReleaseID = [], sms_ReleaseManifestKey = [], sms_RuntimeManifestKey = [], sms_InstanceID = [], sms_VolumeID = [], sms_DNSName = [], sms_Phase = []\<rparr>"

definition zero_StatefulGroupControl :: StatefulGroupControl where
  "zero_StatefulGroupControl = \<lparr>sgc_SchemaVersion = [], sgc_Group = [], sgc_Env = [], sgc_Replicas = 0, sgc_Members = [], sgc_Operation = None, sgc_Lease = None, sgc_Version = 0, sgc_UpdatedAt = [], sgc_UpdatedBy = zero_Actor, sgc_TraceID = []\<rparr>"

definition zero_StatefulReplacement :: StatefulReplacement where
  "zero_StatefulReplacement = \<lparr>srp_OperationID = [], srp_SagaID = [], srp_OldInstanceID = [], srp_NewInstanceID = [], srp_VolumeID = [], srp_Generation = 0, srp_FencedAt = [], srp_DetachedAt = [], srp_ReplacementLaunchedAt = [], srp_AttachedAt = [], srp_DNSUpdatedAt = [], srp_RecipeRecoveredAt = [], srp_VerifiedAt = []\<rparr>"

definition zero_StatefulMemberControl :: StatefulMemberControl where
  "zero_StatefulMemberControl = \<lparr>smc_SchemaVersion = [], smc_Group = [], smc_Env = [], smc_Member = 0, smc_Zone = [], smc_InstanceID = [], smc_VolumeID = [], smc_DNSName = [], smc_Generation = 0, smc_ReleaseID = [], smc_ReleaseManifestKey = [], smc_RuntimeManifestKey = [], smc_Phase = [], smc_Lease = None, smc_ProviderOperations = [], smc_Replacement = None, smc_Version = 0, smc_UpdatedAt = [], smc_UpdatedBy = zero_Actor, smc_TraceID = []\<rparr>"

definition zero_StepFailure :: StepFailure where
  "zero_StepFailure = \<lparr>sf_Code = [], sf_Summary = [], sf_Cause = [], sf_Retriable = False, sf_RetryAfter = []\<rparr>"

definition zero_StepResultRef :: StepResultRef where
  "zero_StepResultRef = \<lparr>srr_StepID = [], srr_Kind = [], srr_Status = [], srr_Result = RawEmpty, srr_ResultRef = [], srr_Failure = None, srr_ProviderOperations = [], srr_CompletedAt = []\<rparr>"

definition zero_StepResult :: StepResult where
  "zero_StepResult = \<lparr>sr_SchemaVersion = [], sr_SagaID = [], sr_OperationID = [], sr_StepID = [], sr_Kind = [], sr_Status = [], sr_Result = RawEmpty, sr_Failure = None, sr_ProviderOperations = [], sr_StartedAt = [], sr_CompletedAt = []\<rparr>"

definition zero_OperationIntent :: OperationIntent where
  "zero_OperationIntent = \<lparr>oi_SchemaVersion = [], oi_OperationID = [], oi_Service = [], oi_Env = [], oi_Kind = [], oi_Target = zero_Target, oi_Actor = zero_Actor, oi_TraceID = [], oi_Risk = [], oi_Reversibility = [], oi_PackageLockDigest = [], oi_Summary = [], oi_CreatedAt = [], oi_Params = RawEmpty\<rparr>"

definition zero_OperationControl :: OperationControl where
  "zero_OperationControl = \<lparr>oc_SchemaVersion = [], oc_OperationID = [], oc_Service = [], oc_Env = [], oc_Status = [], oc_Lease = None, oc_ProviderOperations = [], oc_StepResults = [], oc_UpdatedAt = [], oc_TraceID = []\<rparr>"

definition zero_PackageProvenance :: PackageProvenance where
  "zero_PackageProvenance = \<lparr>pp_Name = [], pp_Ref = [], pp_Version = [], pp_Digest = [], pp_ManifestDigest = [], pp_LockfileDigest = []\<rparr>"

definition zero_SagaIntent :: SagaIntent where
  "zero_SagaIntent = \<lparr>si_SchemaVersion = [], si_SagaID = [], si_Kind = [], si_Target = zero_Target, si_Actor = zero_Actor, si_TraceID = [], si_Risk = [], si_Reversibility = [], si_PackageLockDigest = [], si_Summary = [], si_CreatedAt = [], si_Params = RawEmpty, si_Package = None\<rparr>"

definition zero_RetryPolicy :: RetryPolicy where
  "zero_RetryPolicy = \<lparr>rp_MaxAttempts = 0, rp_Backoff = []\<rparr>"

definition zero_CompensationSpec :: CompensationSpec where
  "zero_CompensationSpec = \<lparr>cs_Kind = [], cs_Params = RawEmpty\<rparr>"

definition zero_SagaNode :: SagaNode where
  "zero_SagaNode = \<lparr>sn_ID = [], sn_Kind = [], sn_Requires = [], sn_Params = RawEmpty, sn_Retry = None, sn_Compensate = None, sn_Risk = [], sn_Reversibility = []\<rparr>"

definition zero_SagaEdge :: SagaEdge where
  "zero_SagaEdge = \<lparr>se_From = [], se_To = []\<rparr>"

definition zero_SagaGraph :: SagaGraph where
  "zero_SagaGraph = \<lparr>sg_SchemaVersion = [], sg_SagaID = [], sg_Nodes = [], sg_Edges = [], sg_CreatedAt = [], sg_Package = None\<rparr>"

definition zero_SagaControl :: SagaControl where
  "zero_SagaControl = \<lparr>sct_SchemaVersion = [], sct_SagaID = [], sct_Status = [], sct_Lease = None, sct_CurrentSteps = [], sct_StepResults = [], sct_UpdatedAt = [], sct_TraceID = []\<rparr>"

definition zero_Fact :: Fact where
  "zero_Fact = \<lparr>fct_Type = [], fct_Message = []\<rparr>"

definition zero_Event :: Event where
  "zero_Event = \<lparr>ev_SchemaVersion = [], ev_ID = [], ev_Time = [], ev_TraceID = [], ev_Subject = zero_Target, ev_Type = [], ev_Severity = [], ev_Actor = None, ev_Summary = [], ev_Facts = [], ev_Data = RawEmpty\<rparr>"

section \<open>Constructors\<close>

definition NewServiceControl :: "string \<Rightarrow> string \<Rightarrow> string \<Rightarrow> Actor \<Rightarrow> ServiceControl" where
  "NewServiceControl service env updatedAt actor =
     zero_ServiceControl\<lparr>sc_SchemaVersion := schema_Version, sc_Service := service, sc_Env := env,
       sc_Version := 1, sc_UpdatedAt := updatedAt, sc_UpdatedBy := actor\<rparr>"

definition NewOperationIntent ::
  "string \<Rightarrow> string \<Rightarrow> string \<Rightarrow> string \<Rightarrow> Target \<Rightarrow> Actor \<Rightarrow> string \<Rightarrow> string \<Rightarrow> OperationIntent" where
  "NewOperationIntent operationID service env kind target actor traceID createdAt =
     zero_OperationIntent\<lparr>oi_SchemaVersion := schema_Version, oi_OperationID := operationID,
       oi_Service := service, oi_Env := env, oi_Kind := kind, oi_Target := target, oi_Actor := actor,
       oi_TraceID := traceID, oi_CreatedAt := createdAt\<rparr>"

definition NewSagaControl :: "string \<Rightarrow> SagaStatus \<Rightarrow> string \<Rightarrow> SagaControl" where
  "NewSagaControl sagaID status updatedAt =
     zero_SagaControl\<lparr>sct_SchemaVersion := schema_Version, sct_SagaID := sagaID, sct_Status := status,
       sct_UpdatedAt := updatedAt\<rparr>"

end
