(* ===== verification/Schema_Codec.thy ===== *)
theory Schema_Codec
  imports Schema
begin

text \<open>
  The JSON codecs \<^verbatim>\<open>encoding/json\<close> derives from the struct tags of internal/state/schema/schema.go:
  per struct its field names, the encoder (tags \<^verbatim>\<open>omitempty\<close> as \<open>o_\<close> fields), the strict decoder,
  and, where the struct holds integers or raw JSON, the predicate \<open>wf\<close> that they are in range and
  valid. \<open>codec_<T>\<close> is the round trip of a document: what \<^verbatim>\<open>canonical.UnmarshalStrict\<close> reads from
  what \<^verbatim>\<open>canonical.Marshal\<close> wrote is the document.
\<close>

section \<open>Codecs\<close>

definition names_Actor :: "string list" where
  "names_Actor = [''id'', ''type'']"

definition enc_Actor :: "Actor \<Rightarrow> json" where
  "enc_Actor x = enc_obj [
     (''id'', e_str (act_ID x)),
     (''type'', e_str (act_Type x))]"

definition dec_Actor :: "json \<Rightarrow> Actor result" where
  "dec_Actor = dec_struct names_Actor (\<lambda>g.
     rbind (d_str (g ''id'')) (\<lambda>v0.
     rbind (d_str (g ''type'')) (\<lambda>v1.
     Inr \<lparr>act_ID = v0, act_Type = v1\<rparr>)))"

definition names_Target :: "string list" where
  "names_Target = [''kind'', ''name'']"

definition enc_Target :: "Target \<Rightarrow> json" where
  "enc_Target x = enc_obj [
     (''kind'', e_str (tgt_Kind x)),
     (''name'', e_str (tgt_Name x))]"

definition dec_Target :: "json \<Rightarrow> Target result" where
  "dec_Target = dec_struct names_Target (\<lambda>g.
     rbind (d_str (g ''kind'')) (\<lambda>v0.
     rbind (d_str (g ''name'')) (\<lambda>v1.
     Inr \<lparr>tgt_Kind = v0, tgt_Name = v1\<rparr>)))"

definition names_Lease :: "string list" where
  "names_Lease = [''owner'', ''token'', ''generation'', ''expires_at'']"

definition enc_Lease :: "Lease \<Rightarrow> json" where
  "enc_Lease x = enc_obj [
     (''owner'', e_str (lse_Owner x)),
     (''token'', e_str (lse_Token x)),
     (''generation'', e_int (lse_Generation x)),
     (''expires_at'', e_str (lse_ExpiresAt x))]"

definition dec_Lease :: "json \<Rightarrow> Lease result" where
  "dec_Lease = dec_struct names_Lease (\<lambda>g.
     rbind (d_str (g ''owner'')) (\<lambda>v0.
     rbind (d_str (g ''token'')) (\<lambda>v1.
     rbind (d_int (g ''generation'')) (\<lambda>v2.
     rbind (d_str (g ''expires_at'')) (\<lambda>v3.
     Inr \<lparr>lse_Owner = v0, lse_Token = v1, lse_Generation = v2, lse_ExpiresAt = v3\<rparr>)))))"

definition wf_Lease :: "Lease \<Rightarrow> bool" where
  "wf_Lease x = (in_int64 (lse_Generation x))"

definition names_ProviderOperationRef :: "string list" where
  "names_ProviderOperationRef = [''provider'', ''kind'', ''id'', ''observed_at'', ''description'']"

definition enc_ProviderOperationRef :: "ProviderOperationRef \<Rightarrow> json" where
  "enc_ProviderOperationRef x = enc_obj [
     (''provider'', e_str (por_Provider x)),
     (''kind'', e_str (por_Kind x)),
     (''id'', e_str (por_ID x)),
     (''observed_at'', o_str (por_ObservedAt x)),
     (''description'', o_str (por_Description x))]"

definition dec_ProviderOperationRef :: "json \<Rightarrow> ProviderOperationRef result" where
  "dec_ProviderOperationRef = dec_struct names_ProviderOperationRef (\<lambda>g.
     rbind (d_str (g ''provider'')) (\<lambda>v0.
     rbind (d_str (g ''kind'')) (\<lambda>v1.
     rbind (d_str (g ''id'')) (\<lambda>v2.
     rbind (d_str (g ''observed_at'')) (\<lambda>v3.
     rbind (d_str (g ''description'')) (\<lambda>v4.
     Inr \<lparr>por_Provider = v0, por_Kind = v1, por_ID = v2, por_ObservedAt = v3, por_Description = v4\<rparr>))))))"

definition names_ActiveOperation :: "string list" where
  "names_ActiveOperation = [''id'', ''kind'', ''state'', ''step'']"

definition enc_ActiveOperation :: "ActiveOperation \<Rightarrow> json" where
  "enc_ActiveOperation x = enc_obj [
     (''id'', e_str (aop_ID x)),
     (''kind'', e_str (aop_Kind x)),
     (''state'', e_str (aop_State x)),
     (''step'', o_str (aop_Step x))]"

definition dec_ActiveOperation :: "json \<Rightarrow> ActiveOperation result" where
  "dec_ActiveOperation = dec_struct names_ActiveOperation (\<lambda>g.
     rbind (d_str (g ''id'')) (\<lambda>v0.
     rbind (d_str (g ''kind'')) (\<lambda>v1.
     rbind (d_str (g ''state'')) (\<lambda>v2.
     rbind (d_str (g ''step'')) (\<lambda>v3.
     Inr \<lparr>aop_ID = v0, aop_Kind = v1, aop_State = v2, aop_Step = v3\<rparr>)))))"

definition names_ServiceControl :: "string list" where
  "names_ServiceControl = [''schema_version'', ''service'', ''env'', ''desired_release'', ''stable_release'', ''operation'', ''lease'', ''version'', ''updated_at'', ''updated_by'', ''trace_id'']"

definition enc_ServiceControl :: "ServiceControl \<Rightarrow> json" where
  "enc_ServiceControl x = enc_obj [
     (''schema_version'', e_str (sc_SchemaVersion x)),
     (''service'', e_str (sc_Service x)),
     (''env'', e_str (sc_Env x)),
     (''desired_release'', o_str (sc_DesiredRelease x)),
     (''stable_release'', o_str (sc_StableRelease x)),
     (''operation'', o_ptr enc_ActiveOperation (sc_Operation x)),
     (''lease'', o_ptr enc_Lease (sc_Lease x)),
     (''version'', e_int (sc_Version x)),
     (''updated_at'', e_str (sc_UpdatedAt x)),
     (''updated_by'', e_sub enc_Actor (sc_UpdatedBy x)),
     (''trace_id'', o_str (sc_TraceID x))]"

definition dec_ServiceControl :: "json \<Rightarrow> ServiceControl result" where
  "dec_ServiceControl = dec_struct names_ServiceControl (\<lambda>g.
     rbind (d_str (g ''schema_version'')) (\<lambda>v0.
     rbind (d_str (g ''service'')) (\<lambda>v1.
     rbind (d_str (g ''env'')) (\<lambda>v2.
     rbind (d_str (g ''desired_release'')) (\<lambda>v3.
     rbind (d_str (g ''stable_release'')) (\<lambda>v4.
     rbind (d_ptr dec_ActiveOperation (g ''operation'')) (\<lambda>v5.
     rbind (d_ptr dec_Lease (g ''lease'')) (\<lambda>v6.
     rbind (d_int (g ''version'')) (\<lambda>v7.
     rbind (d_str (g ''updated_at'')) (\<lambda>v8.
     rbind (d_sub zero_Actor dec_Actor (g ''updated_by'')) (\<lambda>v9.
     rbind (d_str (g ''trace_id'')) (\<lambda>v10.
     Inr \<lparr>sc_SchemaVersion = v0, sc_Service = v1, sc_Env = v2, sc_DesiredRelease = v3, sc_StableRelease = v4, sc_Operation = v5, sc_Lease = v6, sc_Version = v7, sc_UpdatedAt = v8, sc_UpdatedBy = v9, sc_TraceID = v10\<rparr>))))))))))))"

definition wf_ServiceControl :: "ServiceControl \<Rightarrow> bool" where
  "wf_ServiceControl x = (pred_option wf_Lease (sc_Lease x) \<and>
     in_int64 (sc_Version x))"

definition names_StatefulMemberSummary :: "string list" where
  "names_StatefulMemberSummary = [''member'', ''generation'', ''release_id'', ''release_manifest_key'', ''runtime_manifest_key'', ''instance_id'', ''volume_id'', ''dns_name'', ''phase'']"

definition enc_StatefulMemberSummary :: "StatefulMemberSummary \<Rightarrow> json" where
  "enc_StatefulMemberSummary x = enc_obj [
     (''member'', e_int (sms_Member x)),
     (''generation'', e_int (sms_Generation x)),
     (''release_id'', o_str (sms_ReleaseID x)),
     (''release_manifest_key'', o_str (sms_ReleaseManifestKey x)),
     (''runtime_manifest_key'', o_str (sms_RuntimeManifestKey x)),
     (''instance_id'', o_str (sms_InstanceID x)),
     (''volume_id'', o_str (sms_VolumeID x)),
     (''dns_name'', o_str (sms_DNSName x)),
     (''phase'', o_str (sms_Phase x))]"

definition dec_StatefulMemberSummary :: "json \<Rightarrow> StatefulMemberSummary result" where
  "dec_StatefulMemberSummary = dec_struct names_StatefulMemberSummary (\<lambda>g.
     rbind (d_int (g ''member'')) (\<lambda>v0.
     rbind (d_int (g ''generation'')) (\<lambda>v1.
     rbind (d_str (g ''release_id'')) (\<lambda>v2.
     rbind (d_str (g ''release_manifest_key'')) (\<lambda>v3.
     rbind (d_str (g ''runtime_manifest_key'')) (\<lambda>v4.
     rbind (d_str (g ''instance_id'')) (\<lambda>v5.
     rbind (d_str (g ''volume_id'')) (\<lambda>v6.
     rbind (d_str (g ''dns_name'')) (\<lambda>v7.
     rbind (d_str (g ''phase'')) (\<lambda>v8.
     Inr \<lparr>sms_Member = v0, sms_Generation = v1, sms_ReleaseID = v2, sms_ReleaseManifestKey = v3, sms_RuntimeManifestKey = v4, sms_InstanceID = v5, sms_VolumeID = v6, sms_DNSName = v7, sms_Phase = v8\<rparr>))))))))))"

definition wf_StatefulMemberSummary :: "StatefulMemberSummary \<Rightarrow> bool" where
  "wf_StatefulMemberSummary x = (in_int64 (sms_Member x) \<and>
     in_int64 (sms_Generation x))"

definition names_StatefulGroupControl :: "string list" where
  "names_StatefulGroupControl = [''schema_version'', ''group'', ''env'', ''replicas'', ''members'', ''operation'', ''lease'', ''version'', ''updated_at'', ''updated_by'', ''trace_id'']"

definition enc_StatefulGroupControl :: "StatefulGroupControl \<Rightarrow> json" where
  "enc_StatefulGroupControl x = enc_obj [
     (''schema_version'', e_str (sgc_SchemaVersion x)),
     (''group'', e_str (sgc_Group x)),
     (''env'', e_str (sgc_Env x)),
     (''replicas'', e_int (sgc_Replicas x)),
     (''members'', o_list enc_StatefulMemberSummary (sgc_Members x)),
     (''operation'', o_ptr enc_ActiveOperation (sgc_Operation x)),
     (''lease'', o_ptr enc_Lease (sgc_Lease x)),
     (''version'', e_int (sgc_Version x)),
     (''updated_at'', e_str (sgc_UpdatedAt x)),
     (''updated_by'', e_sub enc_Actor (sgc_UpdatedBy x)),
     (''trace_id'', o_str (sgc_TraceID x))]"

definition dec_StatefulGroupControl :: "json \<Rightarrow> StatefulGroupControl result" where
  "dec_StatefulGroupControl = dec_struct names_StatefulGroupControl (\<lambda>g.
     rbind (d_str (g ''schema_version'')) (\<lambda>v0.
     rbind (d_str (g ''group'')) (\<lambda>v1.
     rbind (d_str (g ''env'')) (\<lambda>v2.
     rbind (d_int (g ''replicas'')) (\<lambda>v3.
     rbind (d_list dec_StatefulMemberSummary (g ''members'')) (\<lambda>v4.
     rbind (d_ptr dec_ActiveOperation (g ''operation'')) (\<lambda>v5.
     rbind (d_ptr dec_Lease (g ''lease'')) (\<lambda>v6.
     rbind (d_int (g ''version'')) (\<lambda>v7.
     rbind (d_str (g ''updated_at'')) (\<lambda>v8.
     rbind (d_sub zero_Actor dec_Actor (g ''updated_by'')) (\<lambda>v9.
     rbind (d_str (g ''trace_id'')) (\<lambda>v10.
     Inr \<lparr>sgc_SchemaVersion = v0, sgc_Group = v1, sgc_Env = v2, sgc_Replicas = v3, sgc_Members = v4, sgc_Operation = v5, sgc_Lease = v6, sgc_Version = v7, sgc_UpdatedAt = v8, sgc_UpdatedBy = v9, sgc_TraceID = v10\<rparr>))))))))))))"

definition wf_StatefulGroupControl :: "StatefulGroupControl \<Rightarrow> bool" where
  "wf_StatefulGroupControl x = (in_int64 (sgc_Replicas x) \<and>
     list_all wf_StatefulMemberSummary (sgc_Members x) \<and>
     pred_option wf_Lease (sgc_Lease x) \<and>
     in_int64 (sgc_Version x))"

definition names_StatefulReplacement :: "string list" where
  "names_StatefulReplacement = [''operation_id'', ''saga_id'', ''old_instance_id'', ''new_instance_id'', ''volume_id'', ''generation'', ''fenced_at'', ''detached_at'', ''replacement_launched_at'', ''attached_at'', ''dns_updated_at'', ''recipe_recovered_at'', ''verified_at'']"

definition enc_StatefulReplacement :: "StatefulReplacement \<Rightarrow> json" where
  "enc_StatefulReplacement x = enc_obj [
     (''operation_id'', e_str (srp_OperationID x)),
     (''saga_id'', o_str (srp_SagaID x)),
     (''old_instance_id'', o_str (srp_OldInstanceID x)),
     (''new_instance_id'', o_str (srp_NewInstanceID x)),
     (''volume_id'', o_str (srp_VolumeID x)),
     (''generation'', e_int (srp_Generation x)),
     (''fenced_at'', o_str (srp_FencedAt x)),
     (''detached_at'', o_str (srp_DetachedAt x)),
     (''replacement_launched_at'', o_str (srp_ReplacementLaunchedAt x)),
     (''attached_at'', o_str (srp_AttachedAt x)),
     (''dns_updated_at'', o_str (srp_DNSUpdatedAt x)),
     (''recipe_recovered_at'', o_str (srp_RecipeRecoveredAt x)),
     (''verified_at'', o_str (srp_VerifiedAt x))]"

definition dec_StatefulReplacement :: "json \<Rightarrow> StatefulReplacement result" where
  "dec_StatefulReplacement = dec_struct names_StatefulReplacement (\<lambda>g.
     rbind (d_str (g ''operation_id'')) (\<lambda>v0.
     rbind (d_str (g ''saga_id'')) (\<lambda>v1.
     rbind (d_str (g ''old_instance_id'')) (\<lambda>v2.
     rbind (d_str (g ''new_instance_id'')) (\<lambda>v3.
     rbind (d_str (g ''volume_id'')) (\<lambda>v4.
     rbind (d_int (g ''generation'')) (\<lambda>v5.
     rbind (d_str (g ''fenced_at'')) (\<lambda>v6.
     rbind (d_str (g ''detached_at'')) (\<lambda>v7.
     rbind (d_str (g ''replacement_launched_at'')) (\<lambda>v8.
     rbind (d_str (g ''attached_at'')) (\<lambda>v9.
     rbind (d_str (g ''dns_updated_at'')) (\<lambda>v10.
     rbind (d_str (g ''recipe_recovered_at'')) (\<lambda>v11.
     rbind (d_str (g ''verified_at'')) (\<lambda>v12.
     Inr \<lparr>srp_OperationID = v0, srp_SagaID = v1, srp_OldInstanceID = v2, srp_NewInstanceID = v3, srp_VolumeID = v4, srp_Generation = v5, srp_FencedAt = v6, srp_DetachedAt = v7, srp_ReplacementLaunchedAt = v8, srp_AttachedAt = v9, srp_DNSUpdatedAt = v10, srp_RecipeRecoveredAt = v11, srp_VerifiedAt = v12\<rparr>))))))))))))))"

definition wf_StatefulReplacement :: "StatefulReplacement \<Rightarrow> bool" where
  "wf_StatefulReplacement x = (in_int64 (srp_Generation x))"

definition names_StatefulMemberControl :: "string list" where
  "names_StatefulMemberControl = [''schema_version'', ''group'', ''env'', ''member'', ''zone'', ''instance_id'', ''volume_id'', ''dns_name'', ''generation'', ''release_id'', ''release_manifest_key'', ''runtime_manifest_key'', ''phase'', ''lease'', ''provider_operations'', ''replacement'', ''version'', ''updated_at'', ''updated_by'', ''trace_id'']"

definition enc_StatefulMemberControl :: "StatefulMemberControl \<Rightarrow> json" where
  "enc_StatefulMemberControl x = enc_obj [
     (''schema_version'', e_str (smc_SchemaVersion x)),
     (''group'', e_str (smc_Group x)),
     (''env'', e_str (smc_Env x)),
     (''member'', e_int (smc_Member x)),
     (''zone'', o_str (smc_Zone x)),
     (''instance_id'', o_str (smc_InstanceID x)),
     (''volume_id'', o_str (smc_VolumeID x)),
     (''dns_name'', o_str (smc_DNSName x)),
     (''generation'', e_int (smc_Generation x)),
     (''release_id'', o_str (smc_ReleaseID x)),
     (''release_manifest_key'', o_str (smc_ReleaseManifestKey x)),
     (''runtime_manifest_key'', o_str (smc_RuntimeManifestKey x)),
     (''phase'', e_str (smc_Phase x)),
     (''lease'', o_ptr enc_Lease (smc_Lease x)),
     (''provider_operations'', o_list enc_ProviderOperationRef (smc_ProviderOperations x)),
     (''replacement'', o_ptr enc_StatefulReplacement (smc_Replacement x)),
     (''version'', e_int (smc_Version x)),
     (''updated_at'', e_str (smc_UpdatedAt x)),
     (''updated_by'', e_sub enc_Actor (smc_UpdatedBy x)),
     (''trace_id'', o_str (smc_TraceID x))]"

definition dec_StatefulMemberControl :: "json \<Rightarrow> StatefulMemberControl result" where
  "dec_StatefulMemberControl = dec_struct names_StatefulMemberControl (\<lambda>g.
     rbind (d_str (g ''schema_version'')) (\<lambda>v0.
     rbind (d_str (g ''group'')) (\<lambda>v1.
     rbind (d_str (g ''env'')) (\<lambda>v2.
     rbind (d_int (g ''member'')) (\<lambda>v3.
     rbind (d_str (g ''zone'')) (\<lambda>v4.
     rbind (d_str (g ''instance_id'')) (\<lambda>v5.
     rbind (d_str (g ''volume_id'')) (\<lambda>v6.
     rbind (d_str (g ''dns_name'')) (\<lambda>v7.
     rbind (d_int (g ''generation'')) (\<lambda>v8.
     rbind (d_str (g ''release_id'')) (\<lambda>v9.
     rbind (d_str (g ''release_manifest_key'')) (\<lambda>v10.
     rbind (d_str (g ''runtime_manifest_key'')) (\<lambda>v11.
     rbind (d_str (g ''phase'')) (\<lambda>v12.
     rbind (d_ptr dec_Lease (g ''lease'')) (\<lambda>v13.
     rbind (d_list dec_ProviderOperationRef (g ''provider_operations'')) (\<lambda>v14.
     rbind (d_ptr dec_StatefulReplacement (g ''replacement'')) (\<lambda>v15.
     rbind (d_int (g ''version'')) (\<lambda>v16.
     rbind (d_str (g ''updated_at'')) (\<lambda>v17.
     rbind (d_sub zero_Actor dec_Actor (g ''updated_by'')) (\<lambda>v18.
     rbind (d_str (g ''trace_id'')) (\<lambda>v19.
     Inr \<lparr>smc_SchemaVersion = v0, smc_Group = v1, smc_Env = v2, smc_Member = v3, smc_Zone = v4, smc_InstanceID = v5, smc_VolumeID = v6, smc_DNSName = v7, smc_Generation = v8, smc_ReleaseID = v9, smc_ReleaseManifestKey = v10, smc_RuntimeManifestKey = v11, smc_Phase = v12, smc_Lease = v13, smc_ProviderOperations = v14, smc_Replacement = v15, smc_Version = v16, smc_UpdatedAt = v17, smc_UpdatedBy = v18, smc_TraceID = v19\<rparr>)))))))))))))))))))))"

definition wf_StatefulMemberControl :: "StatefulMemberControl \<Rightarrow> bool" where
  "wf_StatefulMemberControl x = (in_int64 (smc_Member x) \<and>
     in_int64 (smc_Generation x) \<and>
     pred_option wf_Lease (smc_Lease x) \<and>
     pred_option wf_StatefulReplacement (smc_Replacement x) \<and>
     in_int64 (smc_Version x))"

definition names_StepFailure :: "string list" where
  "names_StepFailure = [''code'', ''summary'', ''cause'', ''retriable'', ''retry_after'']"

definition enc_StepFailure :: "StepFailure \<Rightarrow> json" where
  "enc_StepFailure x = enc_obj [
     (''code'', e_str (sf_Code x)),
     (''summary'', e_str (sf_Summary x)),
     (''cause'', o_str (sf_Cause x)),
     (''retriable'', o_bool (sf_Retriable x)),
     (''retry_after'', o_str (sf_RetryAfter x))]"

definition dec_StepFailure :: "json \<Rightarrow> StepFailure result" where
  "dec_StepFailure = dec_struct names_StepFailure (\<lambda>g.
     rbind (d_str (g ''code'')) (\<lambda>v0.
     rbind (d_str (g ''summary'')) (\<lambda>v1.
     rbind (d_str (g ''cause'')) (\<lambda>v2.
     rbind (d_bool (g ''retriable'')) (\<lambda>v3.
     rbind (d_str (g ''retry_after'')) (\<lambda>v4.
     Inr \<lparr>sf_Code = v0, sf_Summary = v1, sf_Cause = v2, sf_Retriable = v3, sf_RetryAfter = v4\<rparr>))))))"

definition names_StepResultRef :: "string list" where
  "names_StepResultRef = [''step_id'', ''kind'', ''status'', ''result'', ''result_ref'', ''failure'', ''provider_operations'', ''completed_at'']"

definition enc_StepResultRef :: "StepResultRef \<Rightarrow> json" where
  "enc_StepResultRef x = enc_obj [
     (''step_id'', e_str (srr_StepID x)),
     (''kind'', e_str (srr_Kind x)),
     (''status'', e_str (srr_Status x)),
     (''result'', o_raw (srr_Result x)),
     (''result_ref'', o_str (srr_ResultRef x)),
     (''failure'', o_ptr enc_StepFailure (srr_Failure x)),
     (''provider_operations'', o_list enc_ProviderOperationRef (srr_ProviderOperations x)),
     (''completed_at'', o_str (srr_CompletedAt x))]"

definition dec_StepResultRef :: "json \<Rightarrow> StepResultRef result" where
  "dec_StepResultRef = dec_struct names_StepResultRef (\<lambda>g.
     rbind (d_str (g ''step_id'')) (\<lambda>v0.
     rbind (d_str (g ''kind'')) (\<lambda>v1.
     rbind (d_str (g ''status'')) (\<lambda>v2.
     rbind (d_raw (g ''result'')) (\<lambda>v3.
     rbind (d_str (g ''result_ref'')) (\<lambda>v4.
     rbind (d_ptr dec_StepFailure (g ''failure'')) (\<lambda>v5.
     rbind (d_list dec_ProviderOperationRef (g ''provider_operations'')) (\<lambda>v6.
     rbind (d_str (g ''completed_at'')) (\<lambda>v7.
     Inr \<lparr>srr_StepID = v0, srr_Kind = v1, srr_Status = v2, srr_Result = v3, srr_ResultRef = v4, srr_Failure = v5, srr_ProviderOperations = v6, srr_CompletedAt = v7\<rparr>)))))))))"

definition wf_StepResultRef :: "StepResultRef \<Rightarrow> bool" where
  "wf_StepResultRef x = (raw_valid (srr_Result x))"

definition raws_ok_StepResultRef :: "StepResultRef \<Rightarrow> bool" where
  "raws_ok_StepResultRef x = (raw_valid (srr_Result x))"

definition names_StepResult :: "string list" where
  "names_StepResult = [''schema_version'', ''saga_id'', ''operation_id'', ''step_id'', ''kind'', ''status'', ''result'', ''failure'', ''provider_operations'', ''started_at'', ''completed_at'']"

definition enc_StepResult :: "StepResult \<Rightarrow> json" where
  "enc_StepResult x = enc_obj [
     (''schema_version'', e_str (sr_SchemaVersion x)),
     (''saga_id'', o_str (sr_SagaID x)),
     (''operation_id'', o_str (sr_OperationID x)),
     (''step_id'', e_str (sr_StepID x)),
     (''kind'', e_str (sr_Kind x)),
     (''status'', e_str (sr_Status x)),
     (''result'', o_raw (sr_Result x)),
     (''failure'', o_ptr enc_StepFailure (sr_Failure x)),
     (''provider_operations'', o_list enc_ProviderOperationRef (sr_ProviderOperations x)),
     (''started_at'', o_str (sr_StartedAt x)),
     (''completed_at'', o_str (sr_CompletedAt x))]"

definition dec_StepResult :: "json \<Rightarrow> StepResult result" where
  "dec_StepResult = dec_struct names_StepResult (\<lambda>g.
     rbind (d_str (g ''schema_version'')) (\<lambda>v0.
     rbind (d_str (g ''saga_id'')) (\<lambda>v1.
     rbind (d_str (g ''operation_id'')) (\<lambda>v2.
     rbind (d_str (g ''step_id'')) (\<lambda>v3.
     rbind (d_str (g ''kind'')) (\<lambda>v4.
     rbind (d_str (g ''status'')) (\<lambda>v5.
     rbind (d_raw (g ''result'')) (\<lambda>v6.
     rbind (d_ptr dec_StepFailure (g ''failure'')) (\<lambda>v7.
     rbind (d_list dec_ProviderOperationRef (g ''provider_operations'')) (\<lambda>v8.
     rbind (d_str (g ''started_at'')) (\<lambda>v9.
     rbind (d_str (g ''completed_at'')) (\<lambda>v10.
     Inr \<lparr>sr_SchemaVersion = v0, sr_SagaID = v1, sr_OperationID = v2, sr_StepID = v3, sr_Kind = v4, sr_Status = v5, sr_Result = v6, sr_Failure = v7, sr_ProviderOperations = v8, sr_StartedAt = v9, sr_CompletedAt = v10\<rparr>))))))))))))"

definition wf_StepResult :: "StepResult \<Rightarrow> bool" where
  "wf_StepResult x = (raw_valid (sr_Result x))"

definition raws_ok_StepResult :: "StepResult \<Rightarrow> bool" where
  "raws_ok_StepResult x = (raw_valid (sr_Result x))"

definition names_OperationIntent :: "string list" where
  "names_OperationIntent = [''schema_version'', ''operation_id'', ''service'', ''env'', ''kind'', ''target'', ''actor'', ''trace_id'', ''risk'', ''reversibility'', ''package_lock_digest'', ''summary'', ''created_at'', ''params'']"

definition enc_OperationIntent :: "OperationIntent \<Rightarrow> json" where
  "enc_OperationIntent x = enc_obj [
     (''schema_version'', e_str (oi_SchemaVersion x)),
     (''operation_id'', e_str (oi_OperationID x)),
     (''service'', e_str (oi_Service x)),
     (''env'', e_str (oi_Env x)),
     (''kind'', e_str (oi_Kind x)),
     (''target'', e_sub enc_Target (oi_Target x)),
     (''actor'', e_sub enc_Actor (oi_Actor x)),
     (''trace_id'', e_str (oi_TraceID x)),
     (''risk'', e_str (oi_Risk x)),
     (''reversibility'', e_str (oi_Reversibility x)),
     (''package_lock_digest'', o_str (oi_PackageLockDigest x)),
     (''summary'', e_str (oi_Summary x)),
     (''created_at'', e_str (oi_CreatedAt x)),
     (''params'', o_raw (oi_Params x))]"

definition dec_OperationIntent :: "json \<Rightarrow> OperationIntent result" where
  "dec_OperationIntent = dec_struct names_OperationIntent (\<lambda>g.
     rbind (d_str (g ''schema_version'')) (\<lambda>v0.
     rbind (d_str (g ''operation_id'')) (\<lambda>v1.
     rbind (d_str (g ''service'')) (\<lambda>v2.
     rbind (d_str (g ''env'')) (\<lambda>v3.
     rbind (d_str (g ''kind'')) (\<lambda>v4.
     rbind (d_sub zero_Target dec_Target (g ''target'')) (\<lambda>v5.
     rbind (d_sub zero_Actor dec_Actor (g ''actor'')) (\<lambda>v6.
     rbind (d_str (g ''trace_id'')) (\<lambda>v7.
     rbind (d_str (g ''risk'')) (\<lambda>v8.
     rbind (d_str (g ''reversibility'')) (\<lambda>v9.
     rbind (d_str (g ''package_lock_digest'')) (\<lambda>v10.
     rbind (d_str (g ''summary'')) (\<lambda>v11.
     rbind (d_str (g ''created_at'')) (\<lambda>v12.
     rbind (d_raw (g ''params'')) (\<lambda>v13.
     Inr \<lparr>oi_SchemaVersion = v0, oi_OperationID = v1, oi_Service = v2, oi_Env = v3, oi_Kind = v4, oi_Target = v5, oi_Actor = v6, oi_TraceID = v7, oi_Risk = v8, oi_Reversibility = v9, oi_PackageLockDigest = v10, oi_Summary = v11, oi_CreatedAt = v12, oi_Params = v13\<rparr>)))))))))))))))"

definition wf_OperationIntent :: "OperationIntent \<Rightarrow> bool" where
  "wf_OperationIntent x = (raw_valid (oi_Params x))"

definition raws_ok_OperationIntent :: "OperationIntent \<Rightarrow> bool" where
  "raws_ok_OperationIntent x = (raw_valid (oi_Params x))"

definition names_OperationControl :: "string list" where
  "names_OperationControl = [''schema_version'', ''operation_id'', ''service'', ''env'', ''status'', ''lease'', ''provider_operations'', ''step_results'', ''updated_at'', ''trace_id'']"

definition enc_OperationControl :: "OperationControl \<Rightarrow> json" where
  "enc_OperationControl x = enc_obj [
     (''schema_version'', e_str (oc_SchemaVersion x)),
     (''operation_id'', e_str (oc_OperationID x)),
     (''service'', e_str (oc_Service x)),
     (''env'', e_str (oc_Env x)),
     (''status'', e_str (oc_Status x)),
     (''lease'', o_ptr enc_Lease (oc_Lease x)),
     (''provider_operations'', o_list enc_ProviderOperationRef (oc_ProviderOperations x)),
     (''step_results'', o_list enc_StepResultRef (oc_StepResults x)),
     (''updated_at'', e_str (oc_UpdatedAt x)),
     (''trace_id'', o_str (oc_TraceID x))]"

definition dec_OperationControl :: "json \<Rightarrow> OperationControl result" where
  "dec_OperationControl = dec_struct names_OperationControl (\<lambda>g.
     rbind (d_str (g ''schema_version'')) (\<lambda>v0.
     rbind (d_str (g ''operation_id'')) (\<lambda>v1.
     rbind (d_str (g ''service'')) (\<lambda>v2.
     rbind (d_str (g ''env'')) (\<lambda>v3.
     rbind (d_str (g ''status'')) (\<lambda>v4.
     rbind (d_ptr dec_Lease (g ''lease'')) (\<lambda>v5.
     rbind (d_list dec_ProviderOperationRef (g ''provider_operations'')) (\<lambda>v6.
     rbind (d_list dec_StepResultRef (g ''step_results'')) (\<lambda>v7.
     rbind (d_str (g ''updated_at'')) (\<lambda>v8.
     rbind (d_str (g ''trace_id'')) (\<lambda>v9.
     Inr \<lparr>oc_SchemaVersion = v0, oc_OperationID = v1, oc_Service = v2, oc_Env = v3, oc_Status = v4, oc_Lease = v5, oc_ProviderOperations = v6, oc_StepResults = v7, oc_UpdatedAt = v8, oc_TraceID = v9\<rparr>)))))))))))"

definition wf_OperationControl :: "OperationControl \<Rightarrow> bool" where
  "wf_OperationControl x = (pred_option wf_Lease (oc_Lease x) \<and>
     list_all wf_StepResultRef (oc_StepResults x))"

definition raws_ok_OperationControl :: "OperationControl \<Rightarrow> bool" where
  "raws_ok_OperationControl x = (list_all raws_ok_StepResultRef (oc_StepResults x))"

definition names_PackageProvenance :: "string list" where
  "names_PackageProvenance = [''name'', ''ref'', ''version'', ''digest'', ''manifest_digest'', ''lockfile_digest'']"

definition enc_PackageProvenance :: "PackageProvenance \<Rightarrow> json" where
  "enc_PackageProvenance x = enc_obj [
     (''name'', o_str (pp_Name x)),
     (''ref'', o_str (pp_Ref x)),
     (''version'', o_str (pp_Version x)),
     (''digest'', o_str (pp_Digest x)),
     (''manifest_digest'', o_str (pp_ManifestDigest x)),
     (''lockfile_digest'', o_str (pp_LockfileDigest x))]"

definition dec_PackageProvenance :: "json \<Rightarrow> PackageProvenance result" where
  "dec_PackageProvenance = dec_struct names_PackageProvenance (\<lambda>g.
     rbind (d_str (g ''name'')) (\<lambda>v0.
     rbind (d_str (g ''ref'')) (\<lambda>v1.
     rbind (d_str (g ''version'')) (\<lambda>v2.
     rbind (d_str (g ''digest'')) (\<lambda>v3.
     rbind (d_str (g ''manifest_digest'')) (\<lambda>v4.
     rbind (d_str (g ''lockfile_digest'')) (\<lambda>v5.
     Inr \<lparr>pp_Name = v0, pp_Ref = v1, pp_Version = v2, pp_Digest = v3, pp_ManifestDigest = v4, pp_LockfileDigest = v5\<rparr>)))))))"

definition names_SagaIntent :: "string list" where
  "names_SagaIntent = [''schema_version'', ''saga_id'', ''kind'', ''target'', ''actor'', ''trace_id'', ''risk'', ''reversibility'', ''package_lock_digest'', ''summary'', ''created_at'', ''params'', ''package'']"

definition enc_SagaIntent :: "SagaIntent \<Rightarrow> json" where
  "enc_SagaIntent x = enc_obj [
     (''schema_version'', e_str (si_SchemaVersion x)),
     (''saga_id'', e_str (si_SagaID x)),
     (''kind'', e_str (si_Kind x)),
     (''target'', e_sub enc_Target (si_Target x)),
     (''actor'', e_sub enc_Actor (si_Actor x)),
     (''trace_id'', e_str (si_TraceID x)),
     (''risk'', e_str (si_Risk x)),
     (''reversibility'', e_str (si_Reversibility x)),
     (''package_lock_digest'', o_str (si_PackageLockDigest x)),
     (''summary'', e_str (si_Summary x)),
     (''created_at'', e_str (si_CreatedAt x)),
     (''params'', o_raw (si_Params x)),
     (''package'', o_ptr enc_PackageProvenance (si_Package x))]"

definition dec_SagaIntent :: "json \<Rightarrow> SagaIntent result" where
  "dec_SagaIntent = dec_struct names_SagaIntent (\<lambda>g.
     rbind (d_str (g ''schema_version'')) (\<lambda>v0.
     rbind (d_str (g ''saga_id'')) (\<lambda>v1.
     rbind (d_str (g ''kind'')) (\<lambda>v2.
     rbind (d_sub zero_Target dec_Target (g ''target'')) (\<lambda>v3.
     rbind (d_sub zero_Actor dec_Actor (g ''actor'')) (\<lambda>v4.
     rbind (d_str (g ''trace_id'')) (\<lambda>v5.
     rbind (d_str (g ''risk'')) (\<lambda>v6.
     rbind (d_str (g ''reversibility'')) (\<lambda>v7.
     rbind (d_str (g ''package_lock_digest'')) (\<lambda>v8.
     rbind (d_str (g ''summary'')) (\<lambda>v9.
     rbind (d_str (g ''created_at'')) (\<lambda>v10.
     rbind (d_raw (g ''params'')) (\<lambda>v11.
     rbind (d_ptr dec_PackageProvenance (g ''package'')) (\<lambda>v12.
     Inr \<lparr>si_SchemaVersion = v0, si_SagaID = v1, si_Kind = v2, si_Target = v3, si_Actor = v4, si_TraceID = v5, si_Risk = v6, si_Reversibility = v7, si_PackageLockDigest = v8, si_Summary = v9, si_CreatedAt = v10, si_Params = v11, si_Package = v12\<rparr>))))))))))))))"

definition wf_SagaIntent :: "SagaIntent \<Rightarrow> bool" where
  "wf_SagaIntent x = (raw_valid (si_Params x))"

definition raws_ok_SagaIntent :: "SagaIntent \<Rightarrow> bool" where
  "raws_ok_SagaIntent x = (raw_valid (si_Params x))"

definition names_RetryPolicy :: "string list" where
  "names_RetryPolicy = [''max_attempts'', ''backoff'']"

definition enc_RetryPolicy :: "RetryPolicy \<Rightarrow> json" where
  "enc_RetryPolicy x = enc_obj [
     (''max_attempts'', o_int (rp_MaxAttempts x)),
     (''backoff'', o_str (rp_Backoff x))]"

definition dec_RetryPolicy :: "json \<Rightarrow> RetryPolicy result" where
  "dec_RetryPolicy = dec_struct names_RetryPolicy (\<lambda>g.
     rbind (d_int (g ''max_attempts'')) (\<lambda>v0.
     rbind (d_str (g ''backoff'')) (\<lambda>v1.
     Inr \<lparr>rp_MaxAttempts = v0, rp_Backoff = v1\<rparr>)))"

definition wf_RetryPolicy :: "RetryPolicy \<Rightarrow> bool" where
  "wf_RetryPolicy x = (in_int64 (rp_MaxAttempts x))"

definition names_CompensationSpec :: "string list" where
  "names_CompensationSpec = [''kind'', ''params'']"

definition enc_CompensationSpec :: "CompensationSpec \<Rightarrow> json" where
  "enc_CompensationSpec x = enc_obj [
     (''kind'', e_str (cs_Kind x)),
     (''params'', o_raw (cs_Params x))]"

definition dec_CompensationSpec :: "json \<Rightarrow> CompensationSpec result" where
  "dec_CompensationSpec = dec_struct names_CompensationSpec (\<lambda>g.
     rbind (d_str (g ''kind'')) (\<lambda>v0.
     rbind (d_raw (g ''params'')) (\<lambda>v1.
     Inr \<lparr>cs_Kind = v0, cs_Params = v1\<rparr>)))"

definition wf_CompensationSpec :: "CompensationSpec \<Rightarrow> bool" where
  "wf_CompensationSpec x = (raw_valid (cs_Params x))"

definition raws_ok_CompensationSpec :: "CompensationSpec \<Rightarrow> bool" where
  "raws_ok_CompensationSpec x = (raw_valid (cs_Params x))"

definition names_SagaNode :: "string list" where
  "names_SagaNode = [''id'', ''kind'', ''requires'', ''params'', ''retry'', ''compensate'', ''risk'', ''reversibility'']"

definition enc_SagaNode :: "SagaNode \<Rightarrow> json" where
  "enc_SagaNode x = enc_obj [
     (''id'', e_str (sn_ID x)),
     (''kind'', e_str (sn_Kind x)),
     (''requires'', o_list JStr (sn_Requires x)),
     (''params'', o_raw (sn_Params x)),
     (''retry'', o_ptr enc_RetryPolicy (sn_Retry x)),
     (''compensate'', o_ptr enc_CompensationSpec (sn_Compensate x)),
     (''risk'', o_str (sn_Risk x)),
     (''reversibility'', o_str (sn_Reversibility x))]"

definition dec_SagaNode :: "json \<Rightarrow> SagaNode result" where
  "dec_SagaNode = dec_struct names_SagaNode (\<lambda>g.
     rbind (d_str (g ''id'')) (\<lambda>v0.
     rbind (d_str (g ''kind'')) (\<lambda>v1.
     rbind (d_list dec_str (g ''requires'')) (\<lambda>v2.
     rbind (d_raw (g ''params'')) (\<lambda>v3.
     rbind (d_ptr dec_RetryPolicy (g ''retry'')) (\<lambda>v4.
     rbind (d_ptr dec_CompensationSpec (g ''compensate'')) (\<lambda>v5.
     rbind (d_str (g ''risk'')) (\<lambda>v6.
     rbind (d_str (g ''reversibility'')) (\<lambda>v7.
     Inr \<lparr>sn_ID = v0, sn_Kind = v1, sn_Requires = v2, sn_Params = v3, sn_Retry = v4, sn_Compensate = v5, sn_Risk = v6, sn_Reversibility = v7\<rparr>)))))))))"

definition wf_SagaNode :: "SagaNode \<Rightarrow> bool" where
  "wf_SagaNode x = (raw_valid (sn_Params x) \<and>
     pred_option wf_RetryPolicy (sn_Retry x) \<and>
     pred_option wf_CompensationSpec (sn_Compensate x))"

definition raws_ok_SagaNode :: "SagaNode \<Rightarrow> bool" where
  "raws_ok_SagaNode x = (raw_valid (sn_Params x) \<and>
     pred_option raws_ok_CompensationSpec (sn_Compensate x))"

definition names_SagaEdge :: "string list" where
  "names_SagaEdge = [''from'', ''to'']"

definition enc_SagaEdge :: "SagaEdge \<Rightarrow> json" where
  "enc_SagaEdge x = enc_obj [
     (''from'', e_str (se_From x)),
     (''to'', e_str (se_To x))]"

definition dec_SagaEdge :: "json \<Rightarrow> SagaEdge result" where
  "dec_SagaEdge = dec_struct names_SagaEdge (\<lambda>g.
     rbind (d_str (g ''from'')) (\<lambda>v0.
     rbind (d_str (g ''to'')) (\<lambda>v1.
     Inr \<lparr>se_From = v0, se_To = v1\<rparr>)))"

definition names_SagaGraph :: "string list" where
  "names_SagaGraph = [''schema_version'', ''saga_id'', ''nodes'', ''edges'', ''created_at'', ''package'']"

definition enc_SagaGraph :: "SagaGraph \<Rightarrow> json" where
  "enc_SagaGraph x = enc_obj [
     (''schema_version'', e_str (sg_SchemaVersion x)),
     (''saga_id'', e_str (sg_SagaID x)),
     (''nodes'', e_list enc_SagaNode (sg_Nodes x)),
     (''edges'', o_list enc_SagaEdge (sg_Edges x)),
     (''created_at'', e_str (sg_CreatedAt x)),
     (''package'', o_ptr enc_PackageProvenance (sg_Package x))]"

definition dec_SagaGraph :: "json \<Rightarrow> SagaGraph result" where
  "dec_SagaGraph = dec_struct names_SagaGraph (\<lambda>g.
     rbind (d_str (g ''schema_version'')) (\<lambda>v0.
     rbind (d_str (g ''saga_id'')) (\<lambda>v1.
     rbind (d_list dec_SagaNode (g ''nodes'')) (\<lambda>v2.
     rbind (d_list dec_SagaEdge (g ''edges'')) (\<lambda>v3.
     rbind (d_str (g ''created_at'')) (\<lambda>v4.
     rbind (d_ptr dec_PackageProvenance (g ''package'')) (\<lambda>v5.
     Inr \<lparr>sg_SchemaVersion = v0, sg_SagaID = v1, sg_Nodes = v2, sg_Edges = v3, sg_CreatedAt = v4, sg_Package = v5\<rparr>)))))))"

definition wf_SagaGraph :: "SagaGraph \<Rightarrow> bool" where
  "wf_SagaGraph x = (list_all wf_SagaNode (sg_Nodes x))"

definition raws_ok_SagaGraph :: "SagaGraph \<Rightarrow> bool" where
  "raws_ok_SagaGraph x = (list_all raws_ok_SagaNode (sg_Nodes x))"

definition names_SagaControl :: "string list" where
  "names_SagaControl = [''schema_version'', ''saga_id'', ''status'', ''lease'', ''current_steps'', ''step_results'', ''updated_at'', ''trace_id'']"

definition enc_SagaControl :: "SagaControl \<Rightarrow> json" where
  "enc_SagaControl x = enc_obj [
     (''schema_version'', e_str (sct_SchemaVersion x)),
     (''saga_id'', e_str (sct_SagaID x)),
     (''status'', e_str (sct_Status x)),
     (''lease'', o_ptr enc_Lease (sct_Lease x)),
     (''current_steps'', o_list JStr (sct_CurrentSteps x)),
     (''step_results'', o_list enc_StepResultRef (sct_StepResults x)),
     (''updated_at'', e_str (sct_UpdatedAt x)),
     (''trace_id'', o_str (sct_TraceID x))]"

definition dec_SagaControl :: "json \<Rightarrow> SagaControl result" where
  "dec_SagaControl = dec_struct names_SagaControl (\<lambda>g.
     rbind (d_str (g ''schema_version'')) (\<lambda>v0.
     rbind (d_str (g ''saga_id'')) (\<lambda>v1.
     rbind (d_str (g ''status'')) (\<lambda>v2.
     rbind (d_ptr dec_Lease (g ''lease'')) (\<lambda>v3.
     rbind (d_list dec_str (g ''current_steps'')) (\<lambda>v4.
     rbind (d_list dec_StepResultRef (g ''step_results'')) (\<lambda>v5.
     rbind (d_str (g ''updated_at'')) (\<lambda>v6.
     rbind (d_str (g ''trace_id'')) (\<lambda>v7.
     Inr \<lparr>sct_SchemaVersion = v0, sct_SagaID = v1, sct_Status = v2, sct_Lease = v3, sct_CurrentSteps = v4, sct_StepResults = v5, sct_UpdatedAt = v6, sct_TraceID = v7\<rparr>)))))))))"

definition wf_SagaControl :: "SagaControl \<Rightarrow> bool" where
  "wf_SagaControl x = (pred_option wf_Lease (sct_Lease x) \<and>
     list_all wf_StepResultRef (sct_StepResults x))"

definition raws_ok_SagaControl :: "SagaControl \<Rightarrow> bool" where
  "raws_ok_SagaControl x = (list_all raws_ok_StepResultRef (sct_StepResults x))"

definition names_Fact :: "string list" where
  "names_Fact = [''type'', ''message'']"

definition enc_Fact :: "Fact \<Rightarrow> json" where
  "enc_Fact x = enc_obj [
     (''type'', e_str (fct_Type x)),
     (''message'', e_str (fct_Message x))]"

definition dec_Fact :: "json \<Rightarrow> Fact result" where
  "dec_Fact = dec_struct names_Fact (\<lambda>g.
     rbind (d_str (g ''type'')) (\<lambda>v0.
     rbind (d_str (g ''message'')) (\<lambda>v1.
     Inr \<lparr>fct_Type = v0, fct_Message = v1\<rparr>)))"

definition names_Event :: "string list" where
  "names_Event = [''schema_version'', ''id'', ''time'', ''trace_id'', ''subject'', ''type'', ''severity'', ''actor'', ''summary'', ''facts'', ''data'']"

definition enc_Event :: "Event \<Rightarrow> json" where
  "enc_Event x = enc_obj [
     (''schema_version'', e_str (ev_SchemaVersion x)),
     (''id'', e_str (ev_ID x)),
     (''time'', e_str (ev_Time x)),
     (''trace_id'', o_str (ev_TraceID x)),
     (''subject'', e_sub enc_Target (ev_Subject x)),
     (''type'', e_str (ev_Type x)),
     (''severity'', o_str (ev_Severity x)),
     (''actor'', o_ptr enc_Actor (ev_Actor x)),
     (''summary'', e_str (ev_Summary x)),
     (''facts'', o_list enc_Fact (ev_Facts x)),
     (''data'', o_raw (ev_Data x))]"

definition dec_Event :: "json \<Rightarrow> Event result" where
  "dec_Event = dec_struct names_Event (\<lambda>g.
     rbind (d_str (g ''schema_version'')) (\<lambda>v0.
     rbind (d_str (g ''id'')) (\<lambda>v1.
     rbind (d_str (g ''time'')) (\<lambda>v2.
     rbind (d_str (g ''trace_id'')) (\<lambda>v3.
     rbind (d_sub zero_Target dec_Target (g ''subject'')) (\<lambda>v4.
     rbind (d_str (g ''type'')) (\<lambda>v5.
     rbind (d_str (g ''severity'')) (\<lambda>v6.
     rbind (d_ptr dec_Actor (g ''actor'')) (\<lambda>v7.
     rbind (d_str (g ''summary'')) (\<lambda>v8.
     rbind (d_list dec_Fact (g ''facts'')) (\<lambda>v9.
     rbind (d_raw (g ''data'')) (\<lambda>v10.
     Inr \<lparr>ev_SchemaVersion = v0, ev_ID = v1, ev_Time = v2, ev_TraceID = v3, ev_Subject = v4, ev_Type = v5, ev_Severity = v6, ev_Actor = v7, ev_Summary = v8, ev_Facts = v9, ev_Data = v10\<rparr>))))))))))))"

definition wf_Event :: "Event \<Rightarrow> bool" where
  "wf_Event x = (raw_valid (ev_Data x))"

definition raws_ok_Event :: "Event \<Rightarrow> bool" where
  "raws_ok_Event x = (raw_valid (ev_Data x))"

section \<open>Round trips\<close>

lemma names_ok_Actor: "names_ok names_Actor"
  by (simp add: names_ok_def names_Actor_def fold_key_def lower_char_def)

lemma enc_Actor_not_null [simp]: "enc_Actor x \<noteq> JNull"
  by (simp add: enc_Actor_def)

lemma codec_Actor [codec_simps]: "dec_Actor (enc_Actor x) = Inr x"
  unfolding dec_Actor_def enc_Actor_def
  by (subst dec_struct_enc_obj [OF names_ok_Actor])
    (auto simp: names_Actor_def codec_simps dec_str_def)

lemma names_ok_Target: "names_ok names_Target"
  by (simp add: names_ok_def names_Target_def fold_key_def lower_char_def)

lemma enc_Target_not_null [simp]: "enc_Target x \<noteq> JNull"
  by (simp add: enc_Target_def)

lemma codec_Target [codec_simps]: "dec_Target (enc_Target x) = Inr x"
  unfolding dec_Target_def enc_Target_def
  by (subst dec_struct_enc_obj [OF names_ok_Target])
    (auto simp: names_Target_def codec_simps dec_str_def)

lemma names_ok_Lease: "names_ok names_Lease"
  by (simp add: names_ok_def names_Lease_def fold_key_def lower_char_def)

lemma enc_Lease_not_null [simp]: "enc_Lease x \<noteq> JNull"
  by (simp add: enc_Lease_def)

lemma codec_Lease [codec_simps]: "wf_Lease x \<Longrightarrow> dec_Lease (enc_Lease x) = Inr x"
  unfolding dec_Lease_def enc_Lease_def
  by (subst dec_struct_enc_obj [OF names_ok_Lease])
    (auto simp: names_Lease_def codec_simps dec_str_def wf_Lease_def list_all_iff option.pred_set)

lemma names_ok_ProviderOperationRef: "names_ok names_ProviderOperationRef"
  by (simp add: names_ok_def names_ProviderOperationRef_def fold_key_def lower_char_def)

lemma enc_ProviderOperationRef_not_null [simp]: "enc_ProviderOperationRef x \<noteq> JNull"
  by (simp add: enc_ProviderOperationRef_def)

lemma codec_ProviderOperationRef [codec_simps]: "dec_ProviderOperationRef (enc_ProviderOperationRef x) = Inr x"
  unfolding dec_ProviderOperationRef_def enc_ProviderOperationRef_def
  by (subst dec_struct_enc_obj [OF names_ok_ProviderOperationRef])
    (auto simp: names_ProviderOperationRef_def codec_simps dec_str_def)

lemma names_ok_ActiveOperation: "names_ok names_ActiveOperation"
  by (simp add: names_ok_def names_ActiveOperation_def fold_key_def lower_char_def)

lemma enc_ActiveOperation_not_null [simp]: "enc_ActiveOperation x \<noteq> JNull"
  by (simp add: enc_ActiveOperation_def)

lemma codec_ActiveOperation [codec_simps]: "dec_ActiveOperation (enc_ActiveOperation x) = Inr x"
  unfolding dec_ActiveOperation_def enc_ActiveOperation_def
  by (subst dec_struct_enc_obj [OF names_ok_ActiveOperation])
    (auto simp: names_ActiveOperation_def codec_simps dec_str_def)

lemma names_ok_ServiceControl: "names_ok names_ServiceControl"
  by (simp add: names_ok_def names_ServiceControl_def fold_key_def lower_char_def)

lemma enc_ServiceControl_not_null [simp]: "enc_ServiceControl x \<noteq> JNull"
  by (simp add: enc_ServiceControl_def)

lemma codec_ServiceControl [codec_simps]: "wf_ServiceControl x \<Longrightarrow> dec_ServiceControl (enc_ServiceControl x) = Inr x"
  unfolding dec_ServiceControl_def enc_ServiceControl_def
  by (subst dec_struct_enc_obj [OF names_ok_ServiceControl])
    (auto simp: names_ServiceControl_def codec_simps dec_str_def wf_ServiceControl_def list_all_iff option.pred_set)

lemma names_ok_StatefulMemberSummary: "names_ok names_StatefulMemberSummary"
  by (simp add: names_ok_def names_StatefulMemberSummary_def fold_key_def lower_char_def)

lemma enc_StatefulMemberSummary_not_null [simp]: "enc_StatefulMemberSummary x \<noteq> JNull"
  by (simp add: enc_StatefulMemberSummary_def)

lemma codec_StatefulMemberSummary [codec_simps]: "wf_StatefulMemberSummary x \<Longrightarrow> dec_StatefulMemberSummary (enc_StatefulMemberSummary x) = Inr x"
  unfolding dec_StatefulMemberSummary_def enc_StatefulMemberSummary_def
  by (subst dec_struct_enc_obj [OF names_ok_StatefulMemberSummary])
    (auto simp: names_StatefulMemberSummary_def codec_simps dec_str_def wf_StatefulMemberSummary_def list_all_iff option.pred_set)

lemma names_ok_StatefulGroupControl: "names_ok names_StatefulGroupControl"
  by (simp add: names_ok_def names_StatefulGroupControl_def fold_key_def lower_char_def)

lemma enc_StatefulGroupControl_not_null [simp]: "enc_StatefulGroupControl x \<noteq> JNull"
  by (simp add: enc_StatefulGroupControl_def)

lemma codec_StatefulGroupControl [codec_simps]: "wf_StatefulGroupControl x \<Longrightarrow> dec_StatefulGroupControl (enc_StatefulGroupControl x) = Inr x"
  unfolding dec_StatefulGroupControl_def enc_StatefulGroupControl_def
  by (subst dec_struct_enc_obj [OF names_ok_StatefulGroupControl])
    (auto simp: names_StatefulGroupControl_def codec_simps dec_str_def wf_StatefulGroupControl_def list_all_iff option.pred_set)

lemma names_ok_StatefulReplacement: "names_ok names_StatefulReplacement"
  by (simp add: names_ok_def names_StatefulReplacement_def fold_key_def lower_char_def)

lemma enc_StatefulReplacement_not_null [simp]: "enc_StatefulReplacement x \<noteq> JNull"
  by (simp add: enc_StatefulReplacement_def)

lemma codec_StatefulReplacement [codec_simps]: "wf_StatefulReplacement x \<Longrightarrow> dec_StatefulReplacement (enc_StatefulReplacement x) = Inr x"
  unfolding dec_StatefulReplacement_def enc_StatefulReplacement_def
  by (subst dec_struct_enc_obj [OF names_ok_StatefulReplacement])
    (auto simp: names_StatefulReplacement_def codec_simps dec_str_def wf_StatefulReplacement_def list_all_iff option.pred_set)

lemma names_ok_StatefulMemberControl: "names_ok names_StatefulMemberControl"
  by (simp add: names_ok_def names_StatefulMemberControl_def fold_key_def lower_char_def)

lemma enc_StatefulMemberControl_not_null [simp]: "enc_StatefulMemberControl x \<noteq> JNull"
  by (simp add: enc_StatefulMemberControl_def)

lemma codec_StatefulMemberControl [codec_simps]: "wf_StatefulMemberControl x \<Longrightarrow> dec_StatefulMemberControl (enc_StatefulMemberControl x) = Inr x"
  unfolding dec_StatefulMemberControl_def enc_StatefulMemberControl_def
  by (subst dec_struct_enc_obj [OF names_ok_StatefulMemberControl])
    (auto simp: names_StatefulMemberControl_def codec_simps dec_str_def wf_StatefulMemberControl_def list_all_iff option.pred_set)

lemma names_ok_StepFailure: "names_ok names_StepFailure"
  by (simp add: names_ok_def names_StepFailure_def fold_key_def lower_char_def)

lemma enc_StepFailure_not_null [simp]: "enc_StepFailure x \<noteq> JNull"
  by (simp add: enc_StepFailure_def)

lemma codec_StepFailure [codec_simps]: "dec_StepFailure (enc_StepFailure x) = Inr x"
  unfolding dec_StepFailure_def enc_StepFailure_def
  by (subst dec_struct_enc_obj [OF names_ok_StepFailure])
    (auto simp: names_StepFailure_def codec_simps dec_str_def)

lemma names_ok_StepResultRef: "names_ok names_StepResultRef"
  by (simp add: names_ok_def names_StepResultRef_def fold_key_def lower_char_def)

lemma enc_StepResultRef_not_null [simp]: "enc_StepResultRef x \<noteq> JNull"
  by (simp add: enc_StepResultRef_def)

lemma codec_StepResultRef [codec_simps]: "wf_StepResultRef x \<Longrightarrow> dec_StepResultRef (enc_StepResultRef x) = Inr x"
  unfolding dec_StepResultRef_def enc_StepResultRef_def
  by (subst dec_struct_enc_obj [OF names_ok_StepResultRef])
    (auto simp: names_StepResultRef_def codec_simps dec_str_def wf_StepResultRef_def list_all_iff option.pred_set)

lemma names_ok_StepResult: "names_ok names_StepResult"
  by (simp add: names_ok_def names_StepResult_def fold_key_def lower_char_def)

lemma enc_StepResult_not_null [simp]: "enc_StepResult x \<noteq> JNull"
  by (simp add: enc_StepResult_def)

lemma codec_StepResult [codec_simps]: "wf_StepResult x \<Longrightarrow> dec_StepResult (enc_StepResult x) = Inr x"
  unfolding dec_StepResult_def enc_StepResult_def
  by (subst dec_struct_enc_obj [OF names_ok_StepResult])
    (auto simp: names_StepResult_def codec_simps dec_str_def wf_StepResult_def list_all_iff option.pred_set)

lemma names_ok_OperationIntent: "names_ok names_OperationIntent"
  by (simp add: names_ok_def names_OperationIntent_def fold_key_def lower_char_def)

lemma enc_OperationIntent_not_null [simp]: "enc_OperationIntent x \<noteq> JNull"
  by (simp add: enc_OperationIntent_def)

lemma codec_OperationIntent [codec_simps]: "wf_OperationIntent x \<Longrightarrow> dec_OperationIntent (enc_OperationIntent x) = Inr x"
  unfolding dec_OperationIntent_def enc_OperationIntent_def
  by (subst dec_struct_enc_obj [OF names_ok_OperationIntent])
    (auto simp: names_OperationIntent_def codec_simps dec_str_def wf_OperationIntent_def list_all_iff option.pred_set)

lemma names_ok_OperationControl: "names_ok names_OperationControl"
  by (simp add: names_ok_def names_OperationControl_def fold_key_def lower_char_def)

lemma enc_OperationControl_not_null [simp]: "enc_OperationControl x \<noteq> JNull"
  by (simp add: enc_OperationControl_def)

lemma codec_OperationControl [codec_simps]: "wf_OperationControl x \<Longrightarrow> dec_OperationControl (enc_OperationControl x) = Inr x"
  unfolding dec_OperationControl_def enc_OperationControl_def
  by (subst dec_struct_enc_obj [OF names_ok_OperationControl])
    (auto simp: names_OperationControl_def codec_simps dec_str_def wf_OperationControl_def list_all_iff option.pred_set)

lemma names_ok_PackageProvenance: "names_ok names_PackageProvenance"
  by (simp add: names_ok_def names_PackageProvenance_def fold_key_def lower_char_def)

lemma enc_PackageProvenance_not_null [simp]: "enc_PackageProvenance x \<noteq> JNull"
  by (simp add: enc_PackageProvenance_def)

lemma codec_PackageProvenance [codec_simps]: "dec_PackageProvenance (enc_PackageProvenance x) = Inr x"
  unfolding dec_PackageProvenance_def enc_PackageProvenance_def
  by (subst dec_struct_enc_obj [OF names_ok_PackageProvenance])
    (auto simp: names_PackageProvenance_def codec_simps dec_str_def)

lemma names_ok_SagaIntent: "names_ok names_SagaIntent"
  by (simp add: names_ok_def names_SagaIntent_def fold_key_def lower_char_def)

lemma enc_SagaIntent_not_null [simp]: "enc_SagaIntent x \<noteq> JNull"
  by (simp add: enc_SagaIntent_def)

lemma codec_SagaIntent [codec_simps]: "wf_SagaIntent x \<Longrightarrow> dec_SagaIntent (enc_SagaIntent x) = Inr x"
  unfolding dec_SagaIntent_def enc_SagaIntent_def
  by (subst dec_struct_enc_obj [OF names_ok_SagaIntent])
    (auto simp: names_SagaIntent_def codec_simps dec_str_def wf_SagaIntent_def list_all_iff option.pred_set)

lemma names_ok_RetryPolicy: "names_ok names_RetryPolicy"
  by (simp add: names_ok_def names_RetryPolicy_def fold_key_def lower_char_def)

lemma enc_RetryPolicy_not_null [simp]: "enc_RetryPolicy x \<noteq> JNull"
  by (simp add: enc_RetryPolicy_def)

lemma codec_RetryPolicy [codec_simps]: "wf_RetryPolicy x \<Longrightarrow> dec_RetryPolicy (enc_RetryPolicy x) = Inr x"
  unfolding dec_RetryPolicy_def enc_RetryPolicy_def
  by (subst dec_struct_enc_obj [OF names_ok_RetryPolicy])
    (auto simp: names_RetryPolicy_def codec_simps dec_str_def wf_RetryPolicy_def list_all_iff option.pred_set)

lemma names_ok_CompensationSpec: "names_ok names_CompensationSpec"
  by (simp add: names_ok_def names_CompensationSpec_def fold_key_def lower_char_def)

lemma enc_CompensationSpec_not_null [simp]: "enc_CompensationSpec x \<noteq> JNull"
  by (simp add: enc_CompensationSpec_def)

lemma codec_CompensationSpec [codec_simps]: "wf_CompensationSpec x \<Longrightarrow> dec_CompensationSpec (enc_CompensationSpec x) = Inr x"
  unfolding dec_CompensationSpec_def enc_CompensationSpec_def
  by (subst dec_struct_enc_obj [OF names_ok_CompensationSpec])
    (auto simp: names_CompensationSpec_def codec_simps dec_str_def wf_CompensationSpec_def list_all_iff option.pred_set)

lemma names_ok_SagaNode: "names_ok names_SagaNode"
  by (simp add: names_ok_def names_SagaNode_def fold_key_def lower_char_def)

lemma enc_SagaNode_not_null [simp]: "enc_SagaNode x \<noteq> JNull"
  by (simp add: enc_SagaNode_def)

lemma codec_SagaNode [codec_simps]: "wf_SagaNode x \<Longrightarrow> dec_SagaNode (enc_SagaNode x) = Inr x"
  unfolding dec_SagaNode_def enc_SagaNode_def
  by (subst dec_struct_enc_obj [OF names_ok_SagaNode])
    (auto simp: names_SagaNode_def codec_simps dec_str_def wf_SagaNode_def list_all_iff option.pred_set)

lemma names_ok_SagaEdge: "names_ok names_SagaEdge"
  by (simp add: names_ok_def names_SagaEdge_def fold_key_def lower_char_def)

lemma enc_SagaEdge_not_null [simp]: "enc_SagaEdge x \<noteq> JNull"
  by (simp add: enc_SagaEdge_def)

lemma codec_SagaEdge [codec_simps]: "dec_SagaEdge (enc_SagaEdge x) = Inr x"
  unfolding dec_SagaEdge_def enc_SagaEdge_def
  by (subst dec_struct_enc_obj [OF names_ok_SagaEdge])
    (auto simp: names_SagaEdge_def codec_simps dec_str_def)

lemma names_ok_SagaGraph: "names_ok names_SagaGraph"
  by (simp add: names_ok_def names_SagaGraph_def fold_key_def lower_char_def)

lemma enc_SagaGraph_not_null [simp]: "enc_SagaGraph x \<noteq> JNull"
  by (simp add: enc_SagaGraph_def)

lemma codec_SagaGraph [codec_simps]: "wf_SagaGraph x \<Longrightarrow> dec_SagaGraph (enc_SagaGraph x) = Inr x"
  unfolding dec_SagaGraph_def enc_SagaGraph_def
  by (subst dec_struct_enc_obj [OF names_ok_SagaGraph])
    (auto simp: names_SagaGraph_def codec_simps dec_str_def wf_SagaGraph_def list_all_iff option.pred_set)

lemma names_ok_SagaControl: "names_ok names_SagaControl"
  by (simp add: names_ok_def names_SagaControl_def fold_key_def lower_char_def)

lemma enc_SagaControl_not_null [simp]: "enc_SagaControl x \<noteq> JNull"
  by (simp add: enc_SagaControl_def)

lemma codec_SagaControl [codec_simps]: "wf_SagaControl x \<Longrightarrow> dec_SagaControl (enc_SagaControl x) = Inr x"
  unfolding dec_SagaControl_def enc_SagaControl_def
  by (subst dec_struct_enc_obj [OF names_ok_SagaControl])
    (auto simp: names_SagaControl_def codec_simps dec_str_def wf_SagaControl_def list_all_iff option.pred_set)

lemma names_ok_Fact: "names_ok names_Fact"
  by (simp add: names_ok_def names_Fact_def fold_key_def lower_char_def)

lemma enc_Fact_not_null [simp]: "enc_Fact x \<noteq> JNull"
  by (simp add: enc_Fact_def)

lemma codec_Fact [codec_simps]: "dec_Fact (enc_Fact x) = Inr x"
  unfolding dec_Fact_def enc_Fact_def
  by (subst dec_struct_enc_obj [OF names_ok_Fact])
    (auto simp: names_Fact_def codec_simps dec_str_def)

lemma names_ok_Event: "names_ok names_Event"
  by (simp add: names_ok_def names_Event_def fold_key_def lower_char_def)

lemma enc_Event_not_null [simp]: "enc_Event x \<noteq> JNull"
  by (simp add: enc_Event_def)

lemma codec_Event [codec_simps]: "wf_Event x \<Longrightarrow> dec_Event (enc_Event x) = Inr x"
  unfolding dec_Event_def enc_Event_def
  by (subst dec_struct_enc_obj [OF names_ok_Event])
    (auto simp: names_Event_def codec_simps dec_str_def wf_Event_def list_all_iff option.pred_set)

section \<open>A decoded document is well-formed\<close>

lemma dec_wf_Lease [dec_wf]: "dec_Lease j = Inr x \<Longrightarrow> wf_Lease x"
  unfolding dec_Lease_def wf_Lease_def
  by (drule dec_struct_InrD) (auto simp: rbind_Inr_iff intro: dec_wf)

lemma dec_wf_ServiceControl [dec_wf]: "dec_ServiceControl j = Inr x \<Longrightarrow> wf_ServiceControl x"
  unfolding dec_ServiceControl_def wf_ServiceControl_def
  by (drule dec_struct_InrD) (auto simp: rbind_Inr_iff intro: dec_wf)

lemma dec_wf_StatefulMemberSummary [dec_wf]: "dec_StatefulMemberSummary j = Inr x \<Longrightarrow> wf_StatefulMemberSummary x"
  unfolding dec_StatefulMemberSummary_def wf_StatefulMemberSummary_def
  by (drule dec_struct_InrD) (auto simp: rbind_Inr_iff intro: dec_wf)

lemma dec_wf_StatefulGroupControl [dec_wf]: "dec_StatefulGroupControl j = Inr x \<Longrightarrow> wf_StatefulGroupControl x"
  unfolding dec_StatefulGroupControl_def wf_StatefulGroupControl_def
  by (drule dec_struct_InrD) (auto simp: rbind_Inr_iff intro: dec_wf)

lemma dec_wf_StatefulReplacement [dec_wf]: "dec_StatefulReplacement j = Inr x \<Longrightarrow> wf_StatefulReplacement x"
  unfolding dec_StatefulReplacement_def wf_StatefulReplacement_def
  by (drule dec_struct_InrD) (auto simp: rbind_Inr_iff intro: dec_wf)

lemma dec_wf_StatefulMemberControl [dec_wf]: "dec_StatefulMemberControl j = Inr x \<Longrightarrow> wf_StatefulMemberControl x"
  unfolding dec_StatefulMemberControl_def wf_StatefulMemberControl_def
  by (drule dec_struct_InrD) (auto simp: rbind_Inr_iff intro: dec_wf)

lemma dec_wf_StepResultRef [dec_wf]: "dec_StepResultRef j = Inr x \<Longrightarrow> wf_StepResultRef x"
  unfolding dec_StepResultRef_def wf_StepResultRef_def
  by (drule dec_struct_InrD) (auto simp: rbind_Inr_iff intro: dec_wf)

lemma dec_wf_StepResult [dec_wf]: "dec_StepResult j = Inr x \<Longrightarrow> wf_StepResult x"
  unfolding dec_StepResult_def wf_StepResult_def
  by (drule dec_struct_InrD) (auto simp: rbind_Inr_iff intro: dec_wf)

lemma dec_wf_OperationIntent [dec_wf]: "dec_OperationIntent j = Inr x \<Longrightarrow> wf_OperationIntent x"
  unfolding dec_OperationIntent_def wf_OperationIntent_def
  by (drule dec_struct_InrD) (auto simp: rbind_Inr_iff intro: dec_wf)

lemma dec_wf_OperationControl [dec_wf]: "dec_OperationControl j = Inr x \<Longrightarrow> wf_OperationControl x"
  unfolding dec_OperationControl_def wf_OperationControl_def
  by (drule dec_struct_InrD) (auto simp: rbind_Inr_iff intro: dec_wf)

lemma dec_wf_SagaIntent [dec_wf]: "dec_SagaIntent j = Inr x \<Longrightarrow> wf_SagaIntent x"
  unfolding dec_SagaIntent_def wf_SagaIntent_def
  by (drule dec_struct_InrD) (auto simp: rbind_Inr_iff intro: dec_wf)

lemma dec_wf_RetryPolicy [dec_wf]: "dec_RetryPolicy j = Inr x \<Longrightarrow> wf_RetryPolicy x"
  unfolding dec_RetryPolicy_def wf_RetryPolicy_def
  by (drule dec_struct_InrD) (auto simp: rbind_Inr_iff intro: dec_wf)

lemma dec_wf_CompensationSpec [dec_wf]: "dec_CompensationSpec j = Inr x \<Longrightarrow> wf_CompensationSpec x"
  unfolding dec_CompensationSpec_def wf_CompensationSpec_def
  by (drule dec_struct_InrD) (auto simp: rbind_Inr_iff intro: dec_wf)

lemma dec_wf_SagaNode [dec_wf]: "dec_SagaNode j = Inr x \<Longrightarrow> wf_SagaNode x"
  unfolding dec_SagaNode_def wf_SagaNode_def
  by (drule dec_struct_InrD) (auto simp: rbind_Inr_iff intro: dec_wf)

lemma dec_wf_SagaGraph [dec_wf]: "dec_SagaGraph j = Inr x \<Longrightarrow> wf_SagaGraph x"
  unfolding dec_SagaGraph_def wf_SagaGraph_def
  by (drule dec_struct_InrD) (auto simp: rbind_Inr_iff intro: dec_wf)

lemma dec_wf_SagaControl [dec_wf]: "dec_SagaControl j = Inr x \<Longrightarrow> wf_SagaControl x"
  unfolding dec_SagaControl_def wf_SagaControl_def
  by (drule dec_struct_InrD) (auto simp: rbind_Inr_iff intro: dec_wf)

lemma dec_wf_Event [dec_wf]: "dec_Event j = Inr x \<Longrightarrow> wf_Event x"
  unfolding dec_Event_def wf_Event_def
  by (drule dec_struct_InrD) (auto simp: rbind_Inr_iff intro: dec_wf)

lemma raws_ok_StepResultRef_wf [simp]: "wf_StepResultRef x \<Longrightarrow> raws_ok_StepResultRef x"
  by (auto simp: wf_StepResultRef_def raws_ok_StepResultRef_def list_all_iff option.pred_set)

lemma raws_ok_StepResult_wf [simp]: "wf_StepResult x \<Longrightarrow> raws_ok_StepResult x"
  by (auto simp: wf_StepResult_def raws_ok_StepResult_def list_all_iff option.pred_set)

lemma raws_ok_OperationIntent_wf [simp]: "wf_OperationIntent x \<Longrightarrow> raws_ok_OperationIntent x"
  by (auto simp: wf_OperationIntent_def raws_ok_OperationIntent_def list_all_iff option.pred_set)

lemma raws_ok_OperationControl_wf [simp]: "wf_OperationControl x \<Longrightarrow> raws_ok_OperationControl x"
  by (auto simp: wf_OperationControl_def raws_ok_OperationControl_def list_all_iff option.pred_set)

lemma raws_ok_SagaIntent_wf [simp]: "wf_SagaIntent x \<Longrightarrow> raws_ok_SagaIntent x"
  by (auto simp: wf_SagaIntent_def raws_ok_SagaIntent_def list_all_iff option.pred_set)

lemma raws_ok_CompensationSpec_wf [simp]: "wf_CompensationSpec x \<Longrightarrow> raws_ok_CompensationSpec x"
  by (auto simp: wf_CompensationSpec_def raws_ok_CompensationSpec_def list_all_iff option.pred_set)

lemma raws_ok_SagaNode_wf [simp]: "wf_SagaNode x \<Longrightarrow> raws_ok_SagaNode x"
  by (auto simp: wf_SagaNode_def raws_ok_SagaNode_def list_all_iff option.pred_set)

lemma raws_ok_SagaGraph_wf [simp]: "wf_SagaGraph x \<Longrightarrow> raws_ok_SagaGraph x"
  by (auto simp: wf_SagaGraph_def raws_ok_SagaGraph_def list_all_iff option.pred_set)

lemma raws_ok_SagaControl_wf [simp]: "wf_SagaControl x \<Longrightarrow> raws_ok_SagaControl x"
  by (auto simp: wf_SagaControl_def raws_ok_SagaControl_def list_all_iff option.pred_set)

lemma raws_ok_Event_wf [simp]: "wf_Event x \<Longrightarrow> raws_ok_Event x"
  by (auto simp: wf_Event_def raws_ok_Event_def list_all_iff option.pred_set)

end
