(* ===== verification/Paths.thy ===== *)
theory Paths
  imports Go_Time Go_Error
begin

text \<open>
  The key layout of the state bucket (internal/state/paths/paths.go): validation of names and
  identifiers, and one function per kind of document that builds its key or refuses its arguments.
  \<open>paths_F\<close> is \<^verbatim>\<open>paths.F\<close>. The lemmas give the exact language \<open>validateName\<close> and \<open>validateID\<close>
  accept; the properties show that two different documents never share a key and that a key listed
  under an events prefix is an event of exactly that operation or saga.
\<close>

section \<open>Validation\<close>

definition isLowerAlnum :: "char \<Rightarrow> bool" where
  "isLowerAlnum c =
     (let n = of_char c :: nat in (97 \<le> n \<and> n \<le> 122) \<or> (48 \<le> n \<and> n \<le> 57))"

definition isIDChar :: "char \<Rightarrow> bool" where
  "isIDChar c =
     (let n = of_char c :: nat in
        (97 \<le> n \<and> n \<le> 122) \<or> (65 \<le> n \<and> n \<le> 90) \<or> (48 \<le> n \<and> n \<le> 57) \<or>
        c = CHR ''-'' \<or> c = CHR ''_'' \<or> c = CHR ''.'' \<or> c = CHR '':'' \<or> c = CHR ''@'' \<or> c = CHR ''+'')"

definition reservedSegments :: "string list" where
  "reservedSegments =
     [''.'', ''..'', ''audit'', ''by-logical'', ''by-provider'', ''candidates'', ''control'',
      ''control.json'', ''events'', ''indexes'', ''observations'', ''operations'', ''releases'',
      ''resources'', ''sagas'', ''services'']"

definition validateName :: "string \<Rightarrow> string \<Rightarrow> unit result" where
  "validateName field val =
     (if val = [] then Inl (InputError field [] ''REQUIRED'' ''is required'')
      else if TrimSpace val \<noteq> val then
        Inl (InputError field val ''INVALID_NAME'' ''must not contain leading or trailing whitespace'')
      else if val \<in> set reservedSegments then
        Inl (InputError field val ''RESERVED_NAME'' ''is reserved for Skiff object-state layout'')
      else if \<not> isLowerAlnum (hd val) \<or> \<not> isLowerAlnum (last val) then
        Inl (InputError field val ''INVALID_NAME'' ''must start and end with a lowercase letter or digit'')
      else if list_all (\<lambda>c. isLowerAlnum c \<or> c = CHR ''-'') val then Inr ()
      else Inl (InputError field val ''INVALID_NAME'' ''must contain only lowercase letters, digits, and hyphens''))"

definition validateID :: "string \<Rightarrow> string \<Rightarrow> unit result" where
  "validateID field val =
     (if val = [] then Inl (InputError field [] ''REQUIRED'' ''is required'')
      else if TrimSpace val \<noteq> val then
        Inl (InputError field val ''INVALID_ID'' ''must not contain leading or trailing whitespace'')
      else if val = ''.'' \<or> val = ''..'' then
        Inl (InputError field val ''INVALID_ID'' ''must not be a relative path segment'')
      else if list_all isIDChar val then Inr ()
      else Inl (InputError field val ''INVALID_ID''
        ''must not contain path separators, whitespace, or control characters''))"

definition validateArtifactPath :: "string \<Rightarrow> string \<Rightarrow> unit result" where
  "validateArtifactPath field val =
     (let v = trim_char (CHR ''/'') val in
      if v = [] then Inl (InputError field [] ''REQUIRED'' ''is required'')
      else check_all (validateID field) (split_on (CHR ''/'') v))"

text \<open>\<^verbatim>\<open>url.PathEscape\<close>.\<close>

definition hex_upper :: "nat \<Rightarrow> char" where
  "hex_upper d = (if d < 10 then char_of (48 + d) else char_of (55 + d))"

definition path_safe :: "char \<Rightarrow> bool" where
  "path_safe c =
     (let n = of_char c :: nat in
        (97 \<le> n \<and> n \<le> 122) \<or> (65 \<le> n \<and> n \<le> 90) \<or> (48 \<le> n \<and> n \<le> 57) \<or>
        c \<in> set ''-_.~$&+:=@'')"

definition escape_byte :: "char \<Rightarrow> string" where
  "escape_byte c =
     (if path_safe c then [c]
      else [CHR ''%'', hex_upper (of_char c div 16), hex_upper (of_char c mod 16)])"

definition PathEscape :: "string \<Rightarrow> string" where
  "PathEscape s = concat (map escape_byte s)"

definition encodeProviderID :: "string \<Rightarrow> string result" where
  "encodeProviderID val =
     (if val = [] then Inl (InputError ''id'' [] ''REQUIRED'' ''is required'')
      else if TrimSpace val \<noteq> val then
        Inl (InputError ''id'' val ''INVALID_ID'' ''must not contain leading or trailing whitespace'')
      else if \<exists>c \<in> set val. (of_char c :: nat) \<le> 32 \<or> (of_char c :: nat) = 127 then
        Inl (InputError ''id'' val ''INVALID_ID'' ''must not contain whitespace or control characters'')
      else if PathEscape val = ''.'' \<or> PathEscape val = ''..'' then
        Inl (InputError ''id'' val ''INVALID_ID'' ''must not be a relative path segment'')
      else Inr (PathEscape val))"

section \<open>Keys\<close>

definition paths_EnvironmentRoot :: "string \<Rightarrow> string result" where
  "paths_EnvironmentRoot env =
     rbind (validateName ''env'' env) (\<lambda>_.
     Inr (''envs/'' @ env @ ''/root.json''))"

definition paths_ServiceControl :: "string \<Rightarrow> string result" where
  "paths_ServiceControl service =
     rbind (validateName ''service'' service) (\<lambda>_.
     Inr (''services/'' @ service @ ''/control.json''))"

definition paths_ReleaseManifest :: "string \<Rightarrow> string \<Rightarrow> string result" where
  "paths_ReleaseManifest service release =
     rbind (validateName ''service'' service) (\<lambda>_.
     rbind (validateID ''release'' release) (\<lambda>_.
     Inr (''services/'' @ service @ ''/releases/'' @ release @ ''/release.json'')))"

definition paths_ServiceReleasesPrefix :: "string \<Rightarrow> string result" where
  "paths_ServiceReleasesPrefix service =
     rbind (validateName ''service'' service) (\<lambda>_.
     Inr (''services/'' @ service @ ''/releases/''))"

definition paths_ReleaseCandidate :: "string \<Rightarrow> string \<Rightarrow> string result" where
  "paths_ReleaseCandidate service candidate =
     rbind (validateName ''service'' service) (\<lambda>_.
     rbind (validateID ''candidate'' candidate) (\<lambda>_.
     Inr (''services/'' @ service @ ''/candidates/'' @ candidate @ ''/candidate.json'')))"

definition paths_ServiceCandidatesPrefix :: "string \<Rightarrow> string result" where
  "paths_ServiceCandidatesPrefix service =
     rbind (validateName ''service'' service) (\<lambda>_.
     Inr (''services/'' @ service @ ''/candidates/''))"

definition paths_RuntimeManifest :: "string \<Rightarrow> string \<Rightarrow> string result" where
  "paths_RuntimeManifest service release =
     rbind (validateName ''service'' service) (\<lambda>_.
     rbind (validateID ''release'' release) (\<lambda>_.
     Inr (''services/'' @ service @ ''/releases/'' @ release @ ''/runtime-manifest.json'')))"

definition paths_OperationIntent :: "string \<Rightarrow> string \<Rightarrow> string result" where
  "paths_OperationIntent service operation =
     rbind (validateName ''service'' service) (\<lambda>_.
     rbind (validateID ''operation'' operation) (\<lambda>_.
     Inr (''services/'' @ service @ ''/operations/'' @ operation @ ''/intent.json'')))"

definition paths_OperationControl :: "string \<Rightarrow> string \<Rightarrow> string result" where
  "paths_OperationControl service operation =
     rbind (validateName ''service'' service) (\<lambda>_.
     rbind (validateID ''operation'' operation) (\<lambda>_.
     Inr (''services/'' @ service @ ''/operations/'' @ operation @ ''/control.json'')))"

definition paths_OperationEvent :: "string \<Rightarrow> string \<Rightarrow> string \<Rightarrow> string result" where
  "paths_OperationEvent service operation event =
     rbind (validateName ''service'' service) (\<lambda>_.
     rbind (validateID ''operation'' operation) (\<lambda>_.
     rbind (validateID ''event'' event) (\<lambda>_.
     Inr (''services/'' @ service @ ''/operations/'' @ operation @ ''/events/'' @ event @ ''.json''))))"

definition paths_ServiceEvent :: "string \<Rightarrow> string \<Rightarrow> string result" where
  "paths_ServiceEvent service event =
     rbind (validateName ''service'' service) (\<lambda>_.
     rbind (validateID ''event'' event) (\<lambda>_.
     Inr (''services/'' @ service @ ''/events/'' @ event @ ''.json'')))"

definition paths_ServiceEventsPrefix :: "string \<Rightarrow> string result" where
  "paths_ServiceEventsPrefix service =
     rbind (validateName ''service'' service) (\<lambda>_.
     Inr (''services/'' @ service @ ''/events/''))"

definition paths_StatefulGroupControl :: "string \<Rightarrow> string result" where
  "paths_StatefulGroupControl grp =
     rbind (validateName ''stateful_group'' grp) (\<lambda>_.
     Inr (''stateful/'' @ grp @ ''/control.json''))"

definition paths_StatefulMembersPrefix :: "string \<Rightarrow> string result" where
  "paths_StatefulMembersPrefix grp =
     rbind (validateName ''stateful_group'' grp) (\<lambda>_.
     Inr (''stateful/'' @ grp @ ''/members/''))"

definition paths_StatefulProviderRuntime :: "string \<Rightarrow> string \<Rightarrow> string result" where
  "paths_StatefulProviderRuntime grp provider =
     rbind (validateName ''stateful_group'' grp) (\<lambda>_.
     rbind (validateName ''provider'' provider) (\<lambda>_.
     Inr (''stateful/'' @ grp @ ''/providers/'' @ provider @ ''/runtime.json'')))"

definition paths_StatefulBackupIntent :: "string \<Rightarrow> string \<Rightarrow> string result" where
  "paths_StatefulBackupIntent grp backup =
     rbind (validateName ''stateful_group'' grp) (\<lambda>_.
     rbind (validateID ''backup'' backup) (\<lambda>_.
     Inr (''stateful/'' @ grp @ ''/backups/'' @ backup @ ''/intent.json'')))"

definition paths_StatefulBackupRecord :: "string \<Rightarrow> string \<Rightarrow> string result" where
  "paths_StatefulBackupRecord grp backup =
     rbind (validateName ''stateful_group'' grp) (\<lambda>_.
     rbind (validateID ''backup'' backup) (\<lambda>_.
     Inr (''stateful/'' @ grp @ ''/backups/'' @ backup @ ''/record.json'')))"

definition paths_StatefulBackupsPrefix :: "string \<Rightarrow> string result" where
  "paths_StatefulBackupsPrefix grp =
     rbind (validateName ''stateful_group'' grp) (\<lambda>_.
     Inr (''stateful/'' @ grp @ ''/backups/''))"

definition paths_StatefulRestoreIntent :: "string \<Rightarrow> string \<Rightarrow> string result" where
  "paths_StatefulRestoreIntent grp restore =
     rbind (validateName ''stateful_group'' grp) (\<lambda>_.
     rbind (validateID ''restore'' restore) (\<lambda>_.
     Inr (''stateful/'' @ grp @ ''/restores/'' @ restore @ ''/intent.json'')))"

definition paths_StatefulRestoreRecord :: "string \<Rightarrow> string \<Rightarrow> string result" where
  "paths_StatefulRestoreRecord grp restore =
     rbind (validateName ''stateful_group'' grp) (\<lambda>_.
     rbind (validateID ''restore'' restore) (\<lambda>_.
     Inr (''stateful/'' @ grp @ ''/restores/'' @ restore @ ''/record.json'')))"

definition paths_OperationEventsPrefix :: "string \<Rightarrow> string \<Rightarrow> string result" where
  "paths_OperationEventsPrefix service operation =
     rbind (validateName ''service'' service) (\<lambda>_.
     rbind (validateID ''operation'' operation) (\<lambda>_.
     Inr (''services/'' @ service @ ''/operations/'' @ operation @ ''/events/'')))"

definition paths_SagaIntent :: "string \<Rightarrow> string result" where
  "paths_SagaIntent saga =
     rbind (validateID ''saga'' saga) (\<lambda>_.
     Inr (''sagas/'' @ saga @ ''/intent.json''))"

definition paths_SagaGraph :: "string \<Rightarrow> string result" where
  "paths_SagaGraph saga =
     rbind (validateID ''saga'' saga) (\<lambda>_.
     Inr (''sagas/'' @ saga @ ''/graph.json''))"

definition paths_SagaControl :: "string \<Rightarrow> string result" where
  "paths_SagaControl saga =
     rbind (validateID ''saga'' saga) (\<lambda>_.
     Inr (''sagas/'' @ saga @ ''/control.json''))"

definition paths_SagaEvent :: "string \<Rightarrow> string \<Rightarrow> string result" where
  "paths_SagaEvent saga event =
     rbind (validateID ''saga'' saga) (\<lambda>_.
     rbind (validateID ''event'' event) (\<lambda>_.
     Inr (''sagas/'' @ saga @ ''/events/'' @ event @ ''.json'')))"

definition paths_SagaEventsPrefix :: "string \<Rightarrow> string result" where
  "paths_SagaEventsPrefix saga =
     rbind (validateID ''saga'' saga) (\<lambda>_.
     Inr (''sagas/'' @ saga @ ''/events/''))"

definition paths_SagaStepResult :: "string \<Rightarrow> string \<Rightarrow> string result" where
  "paths_SagaStepResult saga step =
     rbind (validateID ''saga'' saga) (\<lambda>_.
     rbind (validateID ''step'' step) (\<lambda>_.
     Inr (''sagas/'' @ saga @ ''/artifacts/results/'' @ step @ ''.json'')))"

definition paths_LogicalResource :: "string \<Rightarrow> string \<Rightarrow> string result" where
  "paths_LogicalResource kind name =
     rbind (validateName ''kind'' kind) (\<lambda>_.
     rbind (validateName ''name'' name) (\<lambda>_.
     Inr (''resources/by-logical/'' @ kind @ ''/'' @ name @ ''.json'')))"

definition paths_ProviderResourcesPrefix :: "string \<Rightarrow> string result" where
  "paths_ProviderResourcesPrefix provider =
     rbind (validateName ''provider'' provider) (\<lambda>_.
     Inr (''resources/by-provider/'' @ provider @ ''/''))"

definition paths_ServiceObservation :: "string \<Rightarrow> string \<Rightarrow> string result" where
  "paths_ServiceObservation service observation =
     rbind (validateName ''service'' service) (\<lambda>_.
     rbind (validateID ''observation'' observation) (\<lambda>_.
     Inr (''observations/services/'' @ service @ ''/'' @ observation @ ''.json'')))"

definition paths_ServiceLogArchivePrefix :: "string \<Rightarrow> string \<Rightarrow> string result" where
  "paths_ServiceLogArchivePrefix service env =
     rbind (validateName ''service'' service) (\<lambda>_.
     rbind (validateName ''env'' env) (\<lambda>_.
     Inr (''services/'' @ service @ ''/log-archives/'' @ env @ ''/'')))"

definition paths_StatefulMemberControl :: "string \<Rightarrow> int \<Rightarrow> string result" where
  "paths_StatefulMemberControl grp member =
     rbind (validateName ''stateful_group'' grp) (\<lambda>_.
     if member < 0 then
       Inl (InputError ''member'' (show_int member) ''INVALID_MEMBER'' ''member ordinal must be non-negative'')
     else Inr (''stateful/'' @ grp @ ''/members/'' @ show_int member @ ''/control.json''))"

definition paths_SagaArtifact :: "string \<Rightarrow> string \<Rightarrow> string result" where
  "paths_SagaArtifact saga artifact =
     rbind (validateID ''saga'' saga) (\<lambda>_.
     rbind (validateArtifactPath ''artifact'' artifact) (\<lambda>_.
     Inr (''sagas/'' @ saga @ ''/artifacts/'' @ trim_char (CHR ''/'') artifact)))"

definition paths_ProviderResource :: "string \<Rightarrow> string \<Rightarrow> string \<Rightarrow> string result" where
  "paths_ProviderResource provider kind pid =
     rbind (validateName ''provider'' provider) (\<lambda>_.
     rbind (validateName ''kind'' kind) (\<lambda>_.
     rbind (encodeProviderID pid) (\<lambda>escaped.
     Inr (''resources/by-provider/'' @ provider @ ''/'' @ kind @ ''/'' @ escaped @ ''.json''))))"

definition paths_ServicesIndex :: string where
  "paths_ServicesIndex = ''indexes/services.json''"

definition paths_ActiveSagasIndex :: string where
  "paths_ActiveSagasIndex = ''indexes/active-sagas.json''"

definition paths_RecentEventsIndex :: string where
  "paths_RecentEventsIndex = ''indexes/recent-events.json''"

text \<open>\<^verbatim>\<open>time.Parse("2006-01-02", day)\<close>: whether the day is a date.\<close>

definition is_date :: "string \<Rightarrow> bool" where
  "is_date day = (Option.bind (get_year day) (\<lambda>(y, s).
     Option.bind (lit (CHR ''-'') s) (\<lambda>s.
     Option.bind (get_ranged True 1 12 s) (\<lambda>(m, s).
     Option.bind (lit (CHR ''-'') s) (\<lambda>s.
     Option.bind (getnum True s) (\<lambda>(d, s).
       if s = [] \<and> 1 \<le> d \<and> d \<le> month_lens y ! (m - 1) then Some () else None))))) = Some ())"

definition paths_AuditEvent :: "string \<Rightarrow> string \<Rightarrow> string result" where
  "paths_AuditEvent day event =
     (if \<not> is_date day then Inl (InputError ''day'' day ''INVALID_DATE'' ''must use yyyy-mm-dd'')
      else rbind (validateID ''event'' event) (\<lambda>_.
        Inr (''audit/'' @ day @ ''/'' @ event @ ''.json'')))"

text \<open>The day of an instant in the layout \<^verbatim>\<open>2006-01-02\<close>: the first ten bytes of its timestamp.\<close>

definition format_day :: "gotime \<Rightarrow> string" where
  "format_day t =
     (let n = nat (t + int unix_day0 * int day_ns);
          (y, doy) = civil_year (n div day_ns) 0;
          (m, d) = civil_month (month_lens y) 1 doy
      in pad_nat 4 y @ ''-'' @ pad_nat 2 m @ ''-'' @ pad_nat 2 d)"

definition paths_AuditEventForTime :: "gotime \<Rightarrow> string \<Rightarrow> string result" where
  "paths_AuditEventForTime t event = paths_AuditEvent (format_day t) event"

section \<open>The accepted names and identifiers\<close>

definition is_name :: "string \<Rightarrow> bool" where
  "is_name v = (v \<noteq> [] \<and> list_all (\<lambda>c. isLowerAlnum c \<or> c = CHR ''-'') v \<and>
     isLowerAlnum (hd v) \<and> isLowerAlnum (last v) \<and> v \<notin> set reservedSegments)"

definition is_id :: "string \<Rightarrow> bool" where
  "is_id v = (v \<noteq> [] \<and> list_all isIDChar v \<and> v \<noteq> ''.'' \<and> v \<noteq> ''..'')"

lemma isIDChar_printable: "isIDChar c \<Longrightarrow> printable c"
  by (auto simp: isIDChar_def printable_def Let_def)

lemma nameChar_printable: "isLowerAlnum c \<or> c = CHR ''-'' \<Longrightarrow> printable c"
  by (auto simp: isLowerAlnum_def printable_def Let_def)

lemma validateName_iff: "validateName field v = Inr () \<longleftrightarrow> is_name v"
proof -
  have "list_all (\<lambda>c. isLowerAlnum c \<or> c = CHR ''-'') v \<Longrightarrow> TrimSpace v = v"
    by (rule TrimSpace_printable) (auto simp: list_all_iff intro: nameChar_printable)
  then show ?thesis by (auto simp: validateName_def is_name_def)
qed

lemma validateID_iff: "validateID field v = Inr () \<longleftrightarrow> is_id v"
proof -
  have "list_all isIDChar v \<Longrightarrow> TrimSpace v = v"
    by (rule TrimSpace_printable) (auto simp: list_all_iff intro: isIDChar_printable)
  then show ?thesis by (auto simp: validateID_def is_id_def)
qed

lemma validateName_Inr [simp]: "validateName field v = Inr u \<longleftrightarrow> is_name v"
  using validateName_iff by simp

lemma validateID_Inr [simp]: "validateID field v = Inr u \<longleftrightarrow> is_id v"
  using validateID_iff by simp

lemma is_name_ok [simp]: "is_name v \<Longrightarrow> validateName field v = Inr ()"
  by simp

lemma is_id_ok [simp]: "is_id v \<Longrightarrow> validateID field v = Inr ()"
  by simp

lemma is_name_is_id: "is_name v \<Longrightarrow> is_id v"
  by (auto simp: is_name_def is_id_def list_all_iff isLowerAlnum_def isIDChar_def Let_def)

lemma is_id_no_slash: "is_id v \<Longrightarrow> CHR ''/'' \<notin> set v"
  by (auto simp: is_id_def list_all_iff isIDChar_def Let_def)

lemma is_name_no_slash: "is_name v \<Longrightarrow> CHR ''/'' \<notin> set v"
  by (simp add: is_name_is_id is_id_no_slash)

lemma is_id_nonempty: "is_id v \<Longrightarrow> v \<noteq> []"
  by (simp add: is_id_def)

lemma is_id_trim: "is_id v \<Longrightarrow> TrimSpace v = v"
  by (rule TrimSpace_printable) (auto simp: is_id_def list_all_iff intro: isIDChar_printable)

lemma is_id_append: "is_id v \<Longrightarrow> list_all isIDChar w \<Longrightarrow> v @ w \<noteq> ''..'' \<Longrightarrow> is_id (v @ w)"
  by (auto simp: is_id_def append_eq_Cons_conv)

section \<open>Keys never collide\<close>

text \<open>
  A reference to a document of the bucket, one constructor for each function of paths.go that builds the key of a
  document; \<open>key_of\<close> is the key it builds. (The other functions build prefixes for listings, and
  \<^verbatim>\<open>AuditEventForTime\<close> is \<^verbatim>\<open>AuditEvent\<close> for the day of a time.)
\<close>

datatype doc_ref =
    REnvironmentRoot string
  | RServiceControl string
  | RReleaseManifest string string
  | RReleaseCandidate string string
  | RRuntimeManifest string string
  | ROperationIntent string string
  | ROperationControl string string
  | ROperationEvent string string string
  | RServiceEvent string string
  | RStatefulGroupControl string
  | RStatefulMemberControl string int
  | RStatefulProviderRuntime string string
  | RStatefulBackupIntent string string
  | RStatefulBackupRecord string string
  | RStatefulRestoreIntent string string
  | RStatefulRestoreRecord string string
  | RSagaIntent string
  | RSagaGraph string
  | RSagaControl string
  | RSagaEvent string string
  | RSagaStepResult string string
  | RSagaArtifact string string
  | RLogicalResource string string
  | RProviderResource string string string
  | RServiceObservation string string
  | RServicesIndex
  | RActiveSagasIndex
  | RRecentEventsIndex
  | RAuditEvent string string

fun key_of :: "doc_ref \<Rightarrow> string result" where
  "key_of (REnvironmentRoot e) = paths_EnvironmentRoot e"
| "key_of (RServiceControl s) = paths_ServiceControl s"
| "key_of (RReleaseManifest s r) = paths_ReleaseManifest s r"
| "key_of (RReleaseCandidate s c) = paths_ReleaseCandidate s c"
| "key_of (RRuntimeManifest s r) = paths_RuntimeManifest s r"
| "key_of (ROperationIntent s x) = paths_OperationIntent s x"
| "key_of (ROperationControl s x) = paths_OperationControl s x"
| "key_of (ROperationEvent s x e) = paths_OperationEvent s x e"
| "key_of (RServiceEvent s e) = paths_ServiceEvent s e"
| "key_of (RStatefulGroupControl g) = paths_StatefulGroupControl g"
| "key_of (RStatefulMemberControl g m) = paths_StatefulMemberControl g m"
| "key_of (RStatefulProviderRuntime g p) = paths_StatefulProviderRuntime g p"
| "key_of (RStatefulBackupIntent g b) = paths_StatefulBackupIntent g b"
| "key_of (RStatefulBackupRecord g b) = paths_StatefulBackupRecord g b"
| "key_of (RStatefulRestoreIntent g r) = paths_StatefulRestoreIntent g r"
| "key_of (RStatefulRestoreRecord g r) = paths_StatefulRestoreRecord g r"
| "key_of (RSagaIntent s) = paths_SagaIntent s"
| "key_of (RSagaGraph s) = paths_SagaGraph s"
| "key_of (RSagaControl s) = paths_SagaControl s"
| "key_of (RSagaEvent s e) = paths_SagaEvent s e"
| "key_of (RSagaStepResult s x) = paths_SagaStepResult s x"
| "key_of (RSagaArtifact s a) = paths_SagaArtifact s a"
| "key_of (RLogicalResource k n) = paths_LogicalResource k n"
| "key_of (RProviderResource p k i) = paths_ProviderResource p k i"
| "key_of (RServiceObservation s x) = paths_ServiceObservation s x"
| "key_of RServicesIndex = Inr paths_ServicesIndex"
| "key_of RActiveSagasIndex = Inr paths_ActiveSagasIndex"
| "key_of RRecentEventsIndex = Inr paths_RecentEventsIndex"
| "key_of (RAuditEvent d e) = paths_AuditEvent d e"

text \<open>The segments between the slashes of a key.\<close>

fun segs_of :: "doc_ref \<Rightarrow> string list" where
  "segs_of (REnvironmentRoot e) = [''envs'', e, ''root.json'']"
| "segs_of (RServiceControl s) = [''services'', s, ''control.json'']"
| "segs_of (RReleaseManifest s r) = [''services'', s, ''releases'', r, ''release.json'']"
| "segs_of (RReleaseCandidate s c) = [''services'', s, ''candidates'', c, ''candidate.json'']"
| "segs_of (RRuntimeManifest s r) = [''services'', s, ''releases'', r, ''runtime-manifest.json'']"
| "segs_of (ROperationIntent s x) = [''services'', s, ''operations'', x, ''intent.json'']"
| "segs_of (ROperationControl s x) = [''services'', s, ''operations'', x, ''control.json'']"
| "segs_of (ROperationEvent s x e) = [''services'', s, ''operations'', x, ''events'', e @ ''.json'']"
| "segs_of (RServiceEvent s e) = [''services'', s, ''events'', e @ ''.json'']"
| "segs_of (RStatefulGroupControl g) = [''stateful'', g, ''control.json'']"
| "segs_of (RStatefulMemberControl g m) = [''stateful'', g, ''members'', show_int m, ''control.json'']"
| "segs_of (RStatefulProviderRuntime g p) = [''stateful'', g, ''providers'', p, ''runtime.json'']"
| "segs_of (RStatefulBackupIntent g b) = [''stateful'', g, ''backups'', b, ''intent.json'']"
| "segs_of (RStatefulBackupRecord g b) = [''stateful'', g, ''backups'', b, ''record.json'']"
| "segs_of (RStatefulRestoreIntent g r) = [''stateful'', g, ''restores'', r, ''intent.json'']"
| "segs_of (RStatefulRestoreRecord g r) = [''stateful'', g, ''restores'', r, ''record.json'']"
| "segs_of (RSagaIntent s) = [''sagas'', s, ''intent.json'']"
| "segs_of (RSagaGraph s) = [''sagas'', s, ''graph.json'']"
| "segs_of (RSagaControl s) = [''sagas'', s, ''control.json'']"
| "segs_of (RSagaEvent s e) = [''sagas'', s, ''events'', e @ ''.json'']"
| "segs_of (RSagaStepResult s x) = [''sagas'', s, ''artifacts'', ''results'', x @ ''.json'']"
| "segs_of (RSagaArtifact s a) = [''sagas'', s, ''artifacts''] @ split_on (CHR ''/'') (trim_char (CHR ''/'') a)"
| "segs_of (RLogicalResource k n) = [''resources'', ''by-logical'', k, n @ ''.json'']"
| "segs_of (RProviderResource p k i) = [''resources'', ''by-provider'', p, k, PathEscape i @ ''.json'']"
| "segs_of (RServiceObservation s x) = [''observations'', ''services'', s, x @ ''.json'']"
| "segs_of RServicesIndex = [''indexes'', ''services.json'']"
| "segs_of RActiveSagasIndex = [''indexes'', ''active-sagas.json'']"
| "segs_of RRecentEventsIndex = [''indexes'', ''recent-events.json'']"
| "segs_of (RAuditEvent d e) = ''audit'' # split_on (CHR ''/'') d @ [e @ ''.json'']"

fun join_slash :: "string list \<Rightarrow> string" where
  "join_slash [] = []"
| "join_slash [x] = x"
| "join_slash (x # y # ys) = x @ CHR ''/'' # join_slash (y # ys)"

lemmas key_builder_defs =
  paths_EnvironmentRoot_def paths_ServiceControl_def paths_ReleaseManifest_def
  paths_ReleaseCandidate_def paths_RuntimeManifest_def paths_OperationIntent_def
  paths_OperationControl_def paths_OperationEvent_def paths_ServiceEvent_def
  paths_StatefulGroupControl_def paths_StatefulMemberControl_def paths_StatefulProviderRuntime_def
  paths_StatefulBackupIntent_def paths_StatefulBackupRecord_def paths_StatefulRestoreIntent_def
  paths_StatefulRestoreRecord_def paths_SagaIntent_def paths_SagaGraph_def paths_SagaControl_def
  paths_SagaEvent_def paths_SagaStepResult_def paths_LogicalResource_def paths_ServiceObservation_def
  paths_SagaArtifact_def paths_ProviderResource_def paths_ServicesIndex_def paths_ActiveSagasIndex_def
  paths_RecentEventsIndex_def paths_AuditEvent_def

lemma split_on_app: "c \<notin> set x \<Longrightarrow> split_on c (x @ c # s) = x # split_on c s"
  by (induction x) auto

lemma split_on_plain: "c \<notin> set x \<Longrightarrow> split_on c x = [x]"
  by (induction x) auto

lemma split_join_slash:
  "xs \<noteq> [] \<Longrightarrow> list_all (\<lambda>x. CHR ''/'' \<notin> set x) xs \<Longrightarrow> split_on (CHR ''/'') (join_slash xs) = xs"
  by (induction xs rule: join_slash.induct) (auto simp: split_on_app split_on_plain)

lemma split_on_append: "split_on c (x @ c # s) = split_on c x @ split_on c s"
  by (induction x) (auto split: list.splits simp: append_eq_Cons_conv)

lemma join_slash_Cons: "xs \<noteq> [] \<Longrightarrow> join_slash (x # xs) = x @ CHR ''/'' # join_slash xs"
  by (cases xs) simp_all

lemma join_split_slash [simp]: "join_slash (split_on (CHR ''/'') s) = s"
proof (induction s)
  case (Cons x s)
  obtain y ys where "split_on (CHR ''/'') s = y # ys" by (cases "split_on (CHR ''/'') s") auto
  then show ?case using Cons by (cases ys) (auto simp: join_slash_Cons)
qed simp

lemma split_on_inj: "split_on (CHR ''/'') s = split_on (CHR ''/'') t \<longleftrightarrow> s = t"
  using join_split_slash by metis

lemma show_int_no_slash: "CHR ''/'' \<notin> set (show_int i)"
proof -
  have "CHR ''/'' \<notin> set (show_nat n)" for n
    using show_nat_digits [of n] by (auto simp: list_all_iff is_digit_def)
  then show ?thesis by (simp add: show_int_def)
qed

text \<open>\<^verbatim>\<open>url.PathEscape\<close> is injective, and what it returns has no slash.\<close>

lemma of_char_less: "(of_char c :: nat) < 256"
  using of_char_mod_256 [of c] by (metis mod_less_divisor zero_less_numeral)

lemma of_char_div: "(of_char c :: nat) div 16 < 16"
  by (rule less_mult_imp_div_less) (use of_char_less [of c] in simp)

lemma hex_upper_code: "n < 16 \<Longrightarrow> (of_char (hex_upper n) :: nat) = (if n < 10 then 48 + n else 55 + n)"
  by (simp add: hex_upper_def)

lemma hex_upper_inj:
  assumes "m < 16" "n < 16"
  shows "hex_upper m = hex_upper n \<longleftrightarrow> m = n"
proof
  assume "hex_upper m = hex_upper n"
  then have "(if m < 10 then 48 + m else 55 + m) = (if n < 10 then 48 + n else 55 + n)"
    unfolding hex_upper_code [OF assms(1), symmetric] hex_upper_code [OF assms(2), symmetric] by simp
  then show "m = n" by (simp split: if_splits)
qed simp

lemma escape_byte_cases:
  "escape_byte c = [c] \<and> c \<noteq> CHR ''%'' \<and> c \<noteq> CHR ''/'' \<or>
   (\<exists>h l. escape_byte c = [CHR ''%'', h, l] \<and> h \<noteq> CHR ''/'' \<and> l \<noteq> CHR ''/'')"
proof (cases "path_safe c")
  case True
  then show ?thesis by (auto simp: escape_byte_def path_safe_def Let_def)
next
  case False
  have "hex_upper n \<noteq> CHR ''/''" if "n < 16" for n
    using hex_upper_code [OF that] by (auto split: if_splits)
  then show ?thesis using False of_char_div [of c] by (simp add: escape_byte_def)
qed

lemma escape_byte_inj:
  assumes "escape_byte c @ s = escape_byte d @ t"
  shows "c = d \<and> s = t"
proof (cases "path_safe c")
  case True
  then have "path_safe d" using assms by (auto simp: escape_byte_def path_safe_def Let_def split: if_splits)
  then show ?thesis using True assms by (simp add: escape_byte_def)
next
  case False
  then have n: "\<not> path_safe d" using assms by (auto simp: escape_byte_def path_safe_def Let_def split: if_splits)
  have "(of_char c :: nat) div 16 = of_char d div 16" "(of_char c :: nat) mod 16 = of_char d mod 16" "s = t"
    using assms False n of_char_div [of c] of_char_div [of d] by (simp_all add: escape_byte_def hex_upper_inj)
  then have "(of_char c :: nat) = of_char d" "s = t" by (metis div_mult_mod_eq)+
  then show ?thesis by simp
qed

lemma PathEscape_inj: "PathEscape s = PathEscape t \<longleftrightarrow> s = t"
proof (induction s arbitrary: t)
  case Nil
  show ?case
  proof (cases t)
    case (Cons d t')
    then show ?thesis using escape_byte_cases [of d] by (auto simp: PathEscape_def)
  qed (simp add: PathEscape_def)
next
  case (Cons c s)
  show ?case
  proof (cases t)
    case Nil
    then show ?thesis using escape_byte_cases [of c] by (auto simp: PathEscape_def)
  next
    case (Cons d t')
    then show ?thesis using escape_byte_inj [of c "PathEscape s" d "PathEscape t'"] Cons.IH by (auto simp: PathEscape_def)
  qed
qed

lemma PathEscape_no_slash: "CHR ''/'' \<notin> set (PathEscape s)"
proof (induction s)
  case (Cons c s)
  then show ?case using escape_byte_cases [of c] by (auto simp: PathEscape_def)
qed (simp add: PathEscape_def)

lemma encodeProviderID_Inr: "encodeProviderID i = Inr e \<Longrightarrow> e = PathEscape i"
  by (auto simp: encodeProviderID_def split: if_splits)

lemma key_of_split: "key_of d = Inr k \<Longrightarrow> split_on (CHR ''/'') k = segs_of d"
  by (cases d) (auto simp: key_builder_defs rbind_Inr_iff is_id_no_slash is_name_no_slash show_int_no_slash PathEscape_no_slash
      split_on_app split_on_plain split_on_append dest!: encodeProviderID_Inr split: if_splits)

text \<open>
  Two references have the same segments only when they are the same, or when both are artifacts of one saga whose
  paths differ only in slashes around them, or one is an artifact and the other a step result of the saga.
\<close>

definition same_artifact :: "doc_ref \<Rightarrow> doc_ref \<Rightarrow> bool" where
  "same_artifact d d' \<longleftrightarrow> (\<exists>s a. d = RSagaArtifact s a \<and>
     ((\<exists>a'. d' = RSagaArtifact s a' \<and> trim_char (CHR ''/'') a = trim_char (CHR ''/'') a') \<or>
      (\<exists>x. d' = RSagaStepResult s x \<and> trim_char (CHR ''/'') a = ''results/'' @ x @ ''.json'')))"

lemma segs_of_artifact: "segs_of (RSagaArtifact s a) = segs_of d' \<Longrightarrow> key_of d' = Inr k \<Longrightarrow> same_artifact (RSagaArtifact s a) d'"
  using key_of_split [of d' k]
  by (cases d') (auto simp: same_artifact_def split_on_inj dest!: arg_cong [of _ _ join_slash])

lemma segs_of_inj:
  "segs_of d = segs_of d' \<Longrightarrow> (\<forall>s a. d \<noteq> RSagaArtifact s a) \<Longrightarrow> (\<forall>s a. d' \<noteq> RSagaArtifact s a) \<Longrightarrow> d = d'"
  by (cases d; cases d'; simp add: PathEscape_inj split_on_inj)

lemma split_on_prefix:
  "list_all (\<lambda>x. CHR ''/'' \<notin> set x) xs \<Longrightarrow> xs \<noteq> [] \<Longrightarrow>
     split_on (CHR ''/'') (join_slash xs @ CHR ''/'' # r) = xs @ split_on (CHR ''/'') r"
  by (induction xs rule: join_slash.induct) (auto simp: split_on_app)

lemma key_under_prefix:
  assumes "key_of d = Inr k" "prefix (join_slash xs @ ''/'') k"
    and "list_all (\<lambda>x. CHR ''/'' \<notin> set x) xs" "xs \<noteq> []"
  shows "\<exists>r. segs_of d = xs @ split_on (CHR ''/'') r"
proof -
  obtain r where "k = join_slash xs @ CHR ''/'' # r" using assms(2) by (auto simp: prefix_def)
  then have "split_on (CHR ''/'') k = xs @ split_on (CHR ''/'') r"
    using assms(3,4) by (simp add: split_on_prefix)
  then show ?thesis using key_of_split [OF assms(1)] by auto
qed

section \<open>Properties\<close>

text \<open>
  The accepted names and identifiers. A name passes exactly when it is a non-empty string of
  lower-case letters, digits and hyphens that starts and ends with a letter or a digit and is no
  reserved segment; an identifier exactly when it is a non-empty string of the identifier alphabet
  other than \<open>.\<close> and \<open>..\<close>; so no accepted one holds a path separator.
\<close>

theorem validation_language:
  "(validateName field v = Inr () \<longleftrightarrow> is_name v) \<and> (validateID field v = Inr () \<longleftrightarrow> is_id v) \<and>
   (is_name v \<longrightarrow> is_id v) \<and> (is_id v \<longrightarrow> CHR ''/'' \<notin> set v)"
  using validateName_iff validateID_iff is_name_is_id is_id_no_slash by auto

theorem validation_language_witness:
  "validateName ''service'' ''payments-api'' = Inr () \<and> is_name ''payments-api'' \<and>
   validateID ''saga'' ''payments-api'' = Inr () \<and> CHR ''/'' \<notin> set ''payments-api''"
proof -
  have n: "is_name ''payments-api''"
    by (simp add: is_name_def isLowerAlnum_def reservedSegments_def)
  then show ?thesis
    using validation_language [of "''service''" "''payments-api''"]
      validation_language [of "''saga''" "''payments-api''"] by auto
qed

text \<open>
  C30: when two keys are the same. For every function of paths.go that builds the key of a document: two references for
  which the code builds one key are the same reference, except for saga artifacts. There the code builds one key exactly for two artifact
  paths of a saga that agree up to slashes around them, and for an artifact \<open>results/<x>.json\<close> and the result of step \<open>x\<close> of the saga: so
  no service, release, operation, saga, stateful group or member, provider resource or audit event, whatever its name,
  can make one document overwrite another, but an artifact can take the key of a step result.
\<close>

theorem keys_injective:
  assumes "key_of d = Inr k" and "key_of d' = Inr k'"
  shows "k = k' \<longleftrightarrow> d = d' \<or> same_artifact d d' \<or> same_artifact d' d"
proof
  assume "k = k'"
  then have s: "segs_of d = segs_of d'" using key_of_split assms by metis
  show "d = d' \<or> same_artifact d d' \<or> same_artifact d' d"
    using segs_of_inj [OF s] segs_of_artifact [of _ _ d' k'] segs_of_artifact [of _ _ d k] s assms by metis
next
  assume "d = d' \<or> same_artifact d d' \<or> same_artifact d' d"
  then show "k = k'"
    using assms by (auto simp: same_artifact_def paths_SagaArtifact_def paths_SagaStepResult_def rbind_Inr_iff)
qed

theorem keys_injective_witness:
  "key_of (RSagaArtifact ''s1'' ''results/x.json'') = Inr ''sagas/s1/artifacts/results/x.json'' \<and>
   key_of (RSagaStepResult ''s1'' ''x'') = Inr ''sagas/s1/artifacts/results/x.json'' \<and>
   same_artifact (RSagaArtifact ''s1'' ''results/x.json'') (RSagaStepResult ''s1'' ''x'')"
proof -
  have k: "key_of (RSagaArtifact ''s1'' ''results/x.json'') = Inr ''sagas/s1/artifacts/results/x.json''"
    "key_of (RSagaStepResult ''s1'' ''x'') = Inr ''sagas/s1/artifacts/results/x.json''" by code_simp+
  then show ?thesis using keys_injective [OF k] by (simp add: same_artifact_def)
qed

text \<open>
  A listing is exact. A document key that starts with the events prefix of an operation is an
  event of that very service and operation, and one that starts with the events prefix of a saga is
  an event of that saga: listing a prefix never returns a document of another owner.
\<close>

theorem events_prefix_exact:
  assumes "key_of d = Inr k"
  shows "(paths_OperationEventsPrefix s x = Inr p \<and> prefix p k \<longrightarrow> (\<exists>e. d = ROperationEvent s x e)) \<and>
    (paths_SagaEventsPrefix g = Inr q \<and> prefix q k \<longrightarrow> (\<exists>e. d = RSagaEvent g e))"
proof (intro conjI impI; elim conjE)
  assume "paths_OperationEventsPrefix s x = Inr p" "prefix p k"
  then have v: "is_name s" "is_id x"
    and pre: "prefix (join_slash [''services'', s, ''operations'', x, ''events''] @ ''/'') k"
    by (auto simp: paths_OperationEventsPrefix_def rbind_Inr_iff)
  from v have "list_all (\<lambda>x. CHR ''/'' \<notin> set x) [''services'', s, ''operations'', x, ''events'']"
    by (simp add: is_name_no_slash is_id_no_slash)
  from key_under_prefix [OF assms pre this]
  obtain r where "segs_of d = [''services'', s, ''operations'', x, ''events''] @ split_on (CHR ''/'') r"
    by auto
  then show "\<exists>e. d = ROperationEvent s x e" by (cases d) auto
next
  assume "paths_SagaEventsPrefix g = Inr q" "prefix q k"
  then have v: "is_id g" and pre: "prefix (join_slash [''sagas'', g, ''events''] @ ''/'') k"
    by (auto simp: paths_SagaEventsPrefix_def rbind_Inr_iff)
  from v have "list_all (\<lambda>x. CHR ''/'' \<notin> set x) [''sagas'', g, ''events'']"
    by (simp add: is_id_no_slash)
  from key_under_prefix [OF assms pre this]
  obtain r where "segs_of d = [''sagas'', g, ''events''] @ split_on (CHR ''/'') r"
    by auto
  then show "\<exists>e. d = RSagaEvent g e" by (cases d) auto
qed

theorem events_prefix_exact_witness:
  "\<exists>e. RSagaEvent ''s1'' ''e1'' = RSagaEvent ''s1'' e"
proof -
  have k: "key_of (RSagaEvent ''s1'' ''e1'') = Inr ''sagas/s1/events/e1.json''"
    by (simp add: paths_SagaEvent_def is_id_def isIDChar_def)
  have q: "paths_SagaEventsPrefix ''s1'' = Inr ''sagas/s1/events/''"
    by (simp add: paths_SagaEventsPrefix_def is_id_def isIDChar_def)
  show ?thesis using events_prefix_exact [OF k, of _ _ _ "''s1''" "''sagas/s1/events/''"] q by simp
qed

end
