(* ===== verification/Service_Control.thy ===== *)
theory Service_Control
  imports World Schema_Codec Paths
begin

text \<open>
  Service control documents and the leases inside them (internal/state: service\_control.go,
  lease.go, cas.go, canonical/json.go). A client reads a control document, prepares the next one and
  swaps it in by ETag; a lease is a field of the document it protects. The operations are those of
  \<^verbatim>\<open>state.Client\<close>, over any world; \<^verbatim>\<open>requireStore\<close> always succeeds, since a client of the model has its
  world. The lemmas in the locale \<open>world\<close> say what a successful operation did at the instant of
  its swap; the properties at the end are about the in-memory world with other clients.
\<close>

section \<open>Retry options\<close>

record RetryOptions =
  ro_MaxAttempts :: int
  ro_BaseDelay :: int
  ro_MaxDelay :: int

definition defaultRetryOptions :: RetryOptions where
  "defaultRetryOptions = \<lparr>ro_MaxAttempts = 5, ro_BaseDelay = 1000000, ro_MaxDelay = 50000000\<rparr>"

definition normalized :: "RetryOptions \<Rightarrow> RetryOptions" where
  "normalized opts =
     (let o1 = (if ro_MaxAttempts opts \<le> 0
                then opts\<lparr>ro_MaxAttempts := ro_MaxAttempts defaultRetryOptions\<rparr> else opts);
          o2 = (if ro_BaseDelay o1 < 0 then o1\<lparr>ro_BaseDelay := 0\<rparr> else o1);
          o3 = (if ro_BaseDelay o2 = 0 \<and> ro_MaxAttempts o2 > 1
                then o2\<lparr>ro_BaseDelay := ro_BaseDelay defaultRetryOptions\<rparr> else o2);
          o4 = (if ro_MaxDelay o3 \<le> 0 then o3\<lparr>ro_MaxDelay := ro_MaxDelay defaultRetryOptions\<rparr> else o3)
      in if ro_MaxDelay o4 < ro_BaseDelay o4 then o4\<lparr>ro_MaxDelay := ro_BaseDelay o4\<rparr> else o4)"

fun backoff_loop :: "nat \<Rightarrow> int \<Rightarrow> int \<Rightarrow> int" where
  "backoff_loop 0 maxDelay delay = delay"
| "backoff_loop (Suc n) maxDelay delay =
     (let d = wrap64 (delay * 2) in if d \<ge> maxDelay then maxDelay else backoff_loop n maxDelay d)"

definition backoff_delay :: "RetryOptions \<Rightarrow> nat \<Rightarrow> int" where
  "backoff_delay opts attempt = backoff_loop (attempt - 1) (ro_MaxDelay opts) (ro_BaseDelay opts)"

definition sleepBackoff :: "('s, 'z) World_scheme \<Rightarrow> RetryOptions \<Rightarrow> nat \<Rightarrow> ('s, unit) io" where
  "sleepBackoff W opts attempt =
     (if attempt = 0 \<or> ro_BaseDelay opts = 0 then io_ctx W
      else io_sleep W (backoff_delay opts attempt))"

section \<open>Reading and writing documents\<close>

definition canonical_ContentType :: string where
  "canonical_ContentType = ''application/json''"

definition canonical_UnmarshalStrict :: "(json \<Rightarrow> 'a result) \<Rightarrow> body \<Rightarrow> 'a result" where
  "canonical_UnmarshalStrict dec b = (case b of
      JsonBody j \<Rightarrow> dec j
    | BytesBody _ \<Rightarrow> Inl (JsonError ''invalid character''))"

record ServiceControlDocument =
  scd_Key :: string
  scd_ETag :: string
  scd_Meta :: ObjectMeta
  scd_Control :: ServiceControl

definition invalid_transition :: "string \<Rightarrow> string \<Rightarrow> string \<Rightarrow> goerr" where
  "invalid_transition service key summary =
     StateError CodeInvalidTransition service key summary (Some (Sentinel CodeInvalidTransition))"

definition validateLease :: "Lease \<Rightarrow> unit result" where
  "validateLease lease =
     (if TrimSpace (lse_Owner lease) = [] then Inl (invalid_transition [] [] ''lease owner is required'')
      else if TrimSpace (lse_Token lease) = [] then Inl (invalid_transition [] [] ''lease token is required'')
      else if lse_Generation lease \<le> 0 then Inl (invalid_transition [] [] ''lease generation must be positive'')
      else (case time_Parse (lse_ExpiresAt lease) of
          None \<Rightarrow> Inl (StateError CodeInvalidTransition [] []
                    (''lease expires_at '' @ quote (lse_ExpiresAt lease) @ '' is invalid'')
                    (Some (TimeError ''parsing time'')))
        | Some _ \<Rightarrow> Inr ()))"

definition normalizeServiceControl :: "ServiceControl \<Rightarrow> ServiceControl" where
  "normalizeServiceControl control =
     (let c1 = (if sc_SchemaVersion control = [] then control\<lparr>sc_SchemaVersion := schema_Version\<rparr> else control)
      in if sc_Version c1 \<le> 0 then c1\<lparr>sc_Version := 1\<rparr> else c1)"

definition validateServiceControl :: "ServiceControl \<Rightarrow> unit result" where
  "validateServiceControl control =
     (if sc_SchemaVersion control \<noteq> schema_Version then
        Inl (invalid_transition (sc_Service control) []
          (''unsupported service control schema version '' @ quote (sc_SchemaVersion control)))
      else rbind (validateName ''service'' (sc_Service control)) (\<lambda>_.
           rbind (validateName ''env'' (sc_Env control)) (\<lambda>_.
           if sc_Version control \<le> 0 then
             Inl (invalid_transition (sc_Service control) [] ''service control version must be positive'')
           else (case sc_Lease control of None \<Rightarrow> Inr () | Some lease \<Rightarrow> validateLease lease))))"

definition putOptionsForServiceControl :: "ServiceControl \<Rightarrow> PutOptions" where
  "putOptionsForServiceControl control =
     \<lparr>po_ContentType = canonical_ContentType,
      po_Metadata = [''schema_version'' \<mapsto> sc_SchemaVersion control, ''service'' \<mapsto> sc_Service control,
        ''env'' \<mapsto> sc_Env control],
      po_KMSKeyID = []\<rparr>"

definition GetServiceControl :: "('s, 'z) World_scheme \<Rightarrow> string \<Rightarrow> ('s, ServiceControlDocument) io" where
  "GetServiceControl W service =
     io_bind (io_lift (paths_ServiceControl service)) (\<lambda>key.
     io_bind (os_Get W key) (\<lambda>obj.
     io_lift (case canonical_UnmarshalStrict dec_ServiceControl (obj_Body obj) of
         Inl err \<Rightarrow> Inl (StateError CodeInvalidTransition service key
                     ''service control document is not valid canonical schema'' (Some err))
       | Inr control \<Rightarrow>
           rbind (validateServiceControl control) (\<lambda>_.
           if sc_Service control \<noteq> service then
             Inl (StateError CodeInvalidTransition service key
               (''service control names service '' @ quote (sc_Service control)) None)
           else
             (let meta = objectMetaFromObject obj in
              Inr \<lparr>scd_Key = key, scd_ETag = om_ETag meta, scd_Meta = meta, scd_Control = control\<rparr>)))))"

definition CreateServiceControl ::
  "('s, 'z) World_scheme \<Rightarrow> ServiceControl \<Rightarrow> ('s, ServiceControlDocument) io" where
  "CreateServiceControl W control0 =
     io_bind (if sc_UpdatedAt control0 = []
              then io_bind (io_now W) (\<lambda>now. io_ret (control0\<lparr>sc_UpdatedAt := canonical_Time now\<rparr>))
              else io_ret control0) (\<lambda>control1.
     (let control = normalizeServiceControl control1 in
      io_bind (io_lift (validateServiceControl control)) (\<lambda>_.
      io_bind (io_lift (paths_ServiceControl (sc_Service control))) (\<lambda>key.
      io_bind (io_lift (canonical_Marshal enc_ServiceControl (\<lambda>_. True) control)) (\<lambda>body.
      io_bind (os_Create W key (JsonBody body) (putOptionsForServiceControl control)) (\<lambda>meta.
      io_ret \<lparr>scd_Key = key, scd_ETag = om_ETag meta, scd_Meta = meta, scd_Control = control\<rparr>))))))"

text \<open>
  The next document before it is stamped: defaults filled in, service and environment inherited from
  the current one and not changed, version one higher (1 when that overflows).
\<close>

definition nextServiceControl :: "ServiceControlDocument \<Rightarrow> ServiceControl \<Rightarrow> ServiceControl result" where
  "nextServiceControl current next0 =
     (let cur = scd_Control current;
          n1 = normalizeServiceControl next0;
          n2 = (if sc_Service n1 = [] then n1\<lparr>sc_Service := sc_Service cur\<rparr> else n1);
          n3 = (if sc_Env n2 = [] then n2\<lparr>sc_Env := sc_Env cur\<rparr> else n2)
      in if sc_Service n3 \<noteq> sc_Service cur then
           Inl (invalid_transition (sc_Service cur) (scd_Key current)
             (''cannot change service from '' @ quote (sc_Service cur) @ '' to '' @ quote (sc_Service n3)))
         else if sc_Env n3 \<noteq> sc_Env cur then
           Inl (invalid_transition (sc_Service cur) (scd_Key current)
             (''cannot change env from '' @ quote (sc_Env cur) @ '' to '' @ quote (sc_Env n3)))
         else
           (let v = wrap64 (sc_Version cur + 1) in Inr (n3\<lparr>sc_Version := (if v \<le> 0 then 1 else v)\<rparr>)))"

definition stale_to_state :: "string \<Rightarrow> string \<Rightarrow> string \<Rightarrow> ('s, 'a) io \<Rightarrow> ('s, 'a) io" where
  "stale_to_state service key summary m =
     io_bind (io_try m) (\<lambda>r. case r of
         Inr x \<Rightarrow> io_ret x
       | Inl err \<Rightarrow> if is_store ErrPreconditionFailed err
                    then io_fail (StateError CodePreconditionFailed service key summary (Some err))
                    else io_fail err)"

definition UpdateServiceControlCAS ::
  "('s, 'z) World_scheme \<Rightarrow> ServiceControlDocument \<Rightarrow> ServiceControl \<Rightarrow> ('s, ServiceControlDocument) io" where
  "UpdateServiceControlCAS W current next0 =
     io_bind (io_lift (nextServiceControl current next0)) (\<lambda>n.
     io_bind (io_now W) (\<lambda>now.
     (let next1 = n\<lparr>sc_UpdatedAt := canonical_Time now\<rparr> in
      io_bind (io_lift (validateServiceControl next1)) (\<lambda>_.
      io_bind (io_lift (canonical_Marshal enc_ServiceControl (\<lambda>_. True) next1)) (\<lambda>body.
      io_bind (stale_to_state (sc_Service (scd_Control current)) (scd_Key current)
                 ''service control ETag is stale''
                 (os_CompareAndSwap W (scd_Key current) (scd_ETag current) (JsonBody body)
                    (putOptionsForServiceControl next1))) (\<lambda>meta.
      io_ret \<lparr>scd_Key = scd_Key current, scd_ETag = om_ETag meta, scd_Meta = meta,
               scd_Control = next1\<rparr>))))))"

section \<open>Leases\<close>

record LeaseOptions =
  lop_Owner :: string
  lop_Duration :: int
  lop_Actor :: Actor
  lop_TraceID :: string

record LeaseHandle =
  lh_Service :: string
  lh_Owner :: string
  lh_Token :: string
  lh_Generation :: int
  lh_ExpiresAt :: gotime
  lh_ETag :: string

definition validateLeaseOptions :: "string \<Rightarrow> string \<Rightarrow> int \<Rightarrow> unit result" where
  "validateLeaseOptions service owner duration =
     (if TrimSpace owner = [] then Inl (invalid_transition service [] ''lease owner is required'')
      else if duration \<le> 0 then Inl (invalid_transition service [] ''lease duration must be positive'')
      else Inr ())"

definition activeLease :: "Lease option \<Rightarrow> gotime \<Rightarrow> bool result" where
  "activeLease lease now = (case lease of
      None \<Rightarrow> Inr False
    | Some l \<Rightarrow> (case time_Parse (lse_ExpiresAt l) of
          None \<Rightarrow> Inl (Errorf (''lease expires_at '' @ quote (lse_ExpiresAt l) @ '' is invalid: parsing time'')
                    (Some (TimeError ''parsing time'')))
        | Some expiresAt \<Rightarrow> Inr (expiresAt > now)))"

definition handleFromDocument :: "ServiceControlDocument \<Rightarrow> LeaseHandle result" where
  "handleFromDocument doc = (case sc_Lease (scd_Control doc) of
      None \<Rightarrow> Inl (StateError CodeLeaseLost [] [] ''service control does not contain a lease''
                (Some (Sentinel CodeLeaseLost)))
    | Some l \<Rightarrow> (case time_Parse (lse_ExpiresAt l) of
          None \<Rightarrow> Inl (StateError CodeInvalidTransition (sc_Service (scd_Control doc)) (scd_Key doc)
                    (''lease expires_at '' @ quote (lse_ExpiresAt l) @ '' is invalid'')
                    (Some (TimeError ''parsing time'')))
        | Some expiresAt \<Rightarrow> Inr \<lparr>lh_Service = sc_Service (scd_Control doc), lh_Owner = lse_Owner l,
            lh_Token = lse_Token l, lh_Generation = lse_Generation l, lh_ExpiresAt = expiresAt,
            lh_ETag = scd_ETag doc\<rparr>))"

definition ensureLeaseMatches :: "LeaseHandle \<Rightarrow> ServiceControlDocument \<Rightarrow> unit result" where
  "ensureLeaseMatches handle doc = (case sc_Lease (scd_Control doc) of
      None \<Rightarrow> Inl (StateError CodeLeaseLost (lh_Service handle) [] ''service control no longer has a lease''
                (Some (Sentinel CodeLeaseLost)))
    | Some l \<Rightarrow>
        if lse_Owner l \<noteq> lh_Owner handle \<or> lse_Token l \<noteq> lh_Token handle \<or>
           lse_Generation l \<noteq> lh_Generation handle
        then Inl (StateError CodeLeaseLost (lh_Service handle) (scd_Key doc)
               ''service control lease is owned by another actor'' (Some (Sentinel CodeLeaseLost)))
        else Inr ())"

definition ensureLeaseUsable :: "LeaseHandle \<Rightarrow> ServiceControlDocument \<Rightarrow> gotime \<Rightarrow> unit result" where
  "ensureLeaseUsable handle doc now =
     rbind (ensureLeaseMatches handle doc) (\<lambda>_.
     (case activeLease (sc_Lease (scd_Control doc)) now of
        Inl err \<Rightarrow> Inl (StateError CodeInvalidTransition (lh_Service handle) (scd_Key doc) (err_text err) (Some err))
      | Inr active \<Rightarrow>
          if \<not> active then Inl (StateError CodeLeaseLost (lh_Service handle) (scd_Key doc)
                 ''service control lease has expired'' (Some (Sentinel CodeLeaseLost)))
          else Inr ()))"

definition validateHandle :: "LeaseHandle \<Rightarrow> unit result" where
  "validateHandle handle =
     (if TrimSpace (lh_Service handle) = [] then
        Inl (invalid_transition [] [] ''lease handle service is required'')
      else if TrimSpace (lh_Owner handle) = [] \<or> TrimSpace (lh_Token handle) = [] \<or>
              lh_Generation handle \<le> 0 \<or> TrimSpace (lh_ETag handle) = []
      then Inl (invalid_transition (lh_Service handle) [] ''lease handle is incomplete'')
      else Inr ())"

definition leaseHeldError :: "string \<Rightarrow> string \<Rightarrow> Lease option \<Rightarrow> goerr" where
  "leaseHeldError service key lease =
     StateError CodeLeaseHeld service key
       (case lease of
          None \<Rightarrow> ''service control lease is already held''
        | Some l \<Rightarrow> ''service control lease is held by '' @ quote (lse_Owner l) @ '' until '' @ lse_ExpiresAt l)
       (Some (Sentinel CodeLeaseHeld))"

definition actorForLease :: "Actor \<Rightarrow> string \<Rightarrow> Actor" where
  "actorForLease actor owner =
     (if act_ID actor \<noteq> [] then actor else \<lparr>act_ID = owner, act_Type = ''agent''\<rparr>)"

text \<open>One attempt of \<^verbatim>\<open>AcquireLease\<close>: read, check, swap.\<close>

definition acquireAttempt ::
  "('s, 'z) World_scheme \<Rightarrow> string \<Rightarrow> LeaseOptions \<Rightarrow> string \<Rightarrow> ('s, ServiceControlDocument result) io" where
  "acquireAttempt W service opts token =
     io_bind (GetServiceControl W service) (\<lambda>current.
     io_bind (io_now W) (\<lambda>now.
     (case activeLease (sc_Lease (scd_Control current)) now of
        Inl err \<Rightarrow> io_fail (StateError CodeInvalidTransition service (scd_Key current) (err_text err) (Some err))
      | Inr active \<Rightarrow>
          if active then io_fail (leaseHeldError service (scd_Key current) (sc_Lease (scd_Control current)))
          else
            (let next1 = (scd_Control current)\<lparr>
                   sc_Lease := Some \<lparr>lse_Owner = lop_Owner opts, lse_Token = token,
                     lse_Generation = wrap64 (sc_Version (scd_Control current) + 1),
                     lse_ExpiresAt = canonical_Time (now + lop_Duration opts)\<rparr>,
                   sc_UpdatedBy := actorForLease (lop_Actor opts) (lop_Owner opts),
                   sc_TraceID := lop_TraceID opts\<rparr>
             in io_try (UpdateServiceControlCAS W current next1)))))"

fun acquireLoop ::
  "('s, 'z) World_scheme \<Rightarrow> string \<Rightarrow> LeaseOptions \<Rightarrow> string \<Rightarrow> RetryOptions \<Rightarrow> nat \<Rightarrow> nat \<Rightarrow> goerr option \<Rightarrow>
   ('s, LeaseHandle \<times> ServiceControlDocument) io" where
  "acquireLoop W service opts token retry 0 attempt lastErr =
     io_fail (case lastErr of
         Some err \<Rightarrow> err
       | None \<Rightarrow> StateError CodePreconditionFailed service [] ''lease acquisition did not complete''
                   (Some (Sentinel CodePreconditionFailed)))"
| "acquireLoop W service opts token retry (Suc n) attempt lastErr =
     io_bind (if attempt > 0 then sleepBackoff W retry attempt else io_ret ()) (\<lambda>_.
     io_bind (acquireAttempt W service opts token) (\<lambda>r. case r of
         Inr updated \<Rightarrow>
           io_bind (io_lift (handleFromDocument updated)) (\<lambda>handle. io_ret (handle, updated))
       | Inl err \<Rightarrow>
           if \<not> is_state CodePreconditionFailed err then io_fail err
           else acquireLoop W service opts token retry n (Suc attempt) (Some err)))"

definition AcquireLease ::
  "('s, 'z) World_scheme \<Rightarrow> RetryOptions \<Rightarrow> string \<Rightarrow> LeaseOptions \<Rightarrow>
   ('s, LeaseHandle \<times> ServiceControlDocument) io" where
  "AcquireLease W retry0 service opts =
     io_bind (io_lift (validateLeaseOptions service (lop_Owner opts) (lop_Duration opts))) (\<lambda>_.
     io_bind (io_token W) (\<lambda>token.
     if TrimSpace token = [] then
       io_fail (invalid_transition service [] ''lease token generator returned an empty token'')
     else
       (let retry = normalized retry0
        in acquireLoop W service opts token retry (nat (ro_MaxAttempts retry)) 0 None)))"

definition detectLeaseLoss :: "('s, 'z) World_scheme \<Rightarrow> LeaseHandle \<Rightarrow> ('s, unit) io" where
  "detectLeaseLoss W handle =
     io_bind (GetServiceControl W (lh_Service handle)) (\<lambda>current.
     io_bind (io_now W) (\<lambda>now.
     io_lift (ensureLeaseUsable handle current now)))"

text \<open>
  What \<^verbatim>\<open>HeartbeatLease\<close> and \<^verbatim>\<open>ReleaseLease\<close> do on a failed swap: a stale ETag is looked into, and the
  loss of the lease, or another error of that look, is reported instead.
\<close>

definition orLeaseLoss :: "('s, 'z) World_scheme \<Rightarrow> LeaseHandle \<Rightarrow> ('s, 'a) io \<Rightarrow> ('s, 'a) io" where
  "orLeaseLoss W handle m =
     io_bind (io_try m) (\<lambda>r. case r of
         Inr x \<Rightarrow> io_ret x
       | Inl err \<Rightarrow>
           if is_state CodePreconditionFailed err
           then io_bind (detectLeaseLoss W handle) (\<lambda>_. io_fail err)
           else io_fail err)"

definition HeartbeatLease ::
  "('s, 'z) World_scheme \<Rightarrow> LeaseHandle \<Rightarrow> int \<Rightarrow> ('s, LeaseHandle \<times> ServiceControlDocument) io" where
  "HeartbeatLease W handle duration =
     io_bind (io_lift (validateHandle handle)) (\<lambda>_.
     if duration \<le> 0 then
       io_fail (invalid_transition (lh_Service handle) [] ''lease heartbeat duration must be positive'')
     else
       io_bind (GetServiceControl W (lh_Service handle)) (\<lambda>current.
       io_bind (io_now W) (\<lambda>now.
       io_bind (io_lift (ensureLeaseUsable handle current now)) (\<lambda>_.
       io_bind (io_now W) (\<lambda>now2.
       (let control = (scd_Control current)\<lparr>sc_Lease :=
              map_option (\<lambda>l. l\<lparr>lse_ExpiresAt := canonical_Time (now2 + duration)\<rparr>) (sc_Lease (scd_Control current))\<rparr>
        in io_bind (orLeaseLoss W handle
                (UpdateServiceControlCAS W
                   (current\<lparr>scd_ETag := lh_ETag handle, scd_Control := control\<rparr>) control)) (\<lambda>updated.
           io_bind (io_lift (handleFromDocument updated)) (\<lambda>handle'. io_ret (handle', updated)))))))))"

definition ReleaseLease :: "('s, 'z) World_scheme \<Rightarrow> LeaseHandle \<Rightarrow> ('s, ServiceControlDocument) io" where
  "ReleaseLease W handle =
     io_bind (io_lift (validateHandle handle)) (\<lambda>_.
     io_bind (GetServiceControl W (lh_Service handle)) (\<lambda>current.
     io_bind (io_now W) (\<lambda>now.
     io_bind (io_lift (ensureLeaseUsable handle current now)) (\<lambda>_.
     orLeaseLoss W handle
       (UpdateServiceControlCAS W (current\<lparr>scd_ETag := lh_ETag handle\<rparr>)
          ((scd_Control current)\<lparr>sc_Lease := None\<rparr>))))))"

definition UpdateServiceControlWithLeaseCAS ::
  "('s, 'z) World_scheme \<Rightarrow> LeaseHandle \<Rightarrow> (ServiceControl \<Rightarrow> ServiceControl result) \<Rightarrow>
   ('s, LeaseHandle \<times> ServiceControlDocument) io" where
  "UpdateServiceControlWithLeaseCAS W handle mutate =
     io_bind (io_lift (validateHandle handle)) (\<lambda>_.
     io_bind (GetServiceControl W (lh_Service handle)) (\<lambda>current.
     io_bind (io_now W) (\<lambda>now.
     io_bind (io_lift (ensureLeaseUsable handle current now)) (\<lambda>_.
     if scd_ETag current \<noteq> lh_ETag handle then
       io_fail (StateError CodePreconditionFailed (lh_Service handle) (scd_Key current)
         ''lease holder does not have the latest service control ETag'' (Some (Sentinel CodePreconditionFailed)))
     else
       io_bind (io_lift (mutate (scd_Control current))) (\<lambda>next0.
       io_bind (UpdateServiceControlCAS W current (next0\<lparr>sc_Lease := sc_Lease (scd_Control current)\<rparr>)) (\<lambda>updated.
       io_bind (io_lift (handleFromDocument updated)) (\<lambda>handle'. io_ret (handle', updated))))))))"

section \<open>Pure facts\<close>

lemma activeLease_None [simp]: "activeLease None x = Inr False"
  by (simp add: activeLease_def)

lemma normalized_bounds:
  "1 \<le> ro_MaxAttempts (normalized r)" "0 \<le> ro_BaseDelay (normalized r)"
  "ro_BaseDelay (normalized r) \<le> ro_MaxDelay (normalized r)" "0 < ro_MaxDelay (normalized r)"
  by (auto simp: normalized_def defaultRetryOptions_def Let_def)

lemma backoff_loop_eq:
  assumes "0 \<le> d" "d \<le> m" "m < 2 ^ 62"
  shows "backoff_loop n m d = min m (d * 2 ^ n)"
  using assms
proof (induction n arbitrary: d)
  case (Suc n)
  have w: "wrap64 (d * 2) = d * 2" using Suc.prems by (intro wrap64_id) (simp add: in_int64_def)
  show ?case
  proof (cases "d * 2 \<ge> m")
    case True
    have "m \<le> d * 2 ^ Suc n"
      using True Suc.prems(1) mult_left_mono [of "1::int" "2 ^ n" "d * 2"] by (simp add: mult.assoc)
    then show ?thesis using True Suc.prems w by (simp add: Let_def)
  next
    case False
    then have "0 \<le> d * 2" "d * 2 \<le> m" using Suc.prems by auto
    from Suc.IH [OF this Suc.prems(3)] show ?thesis using False Suc.prems(1) w by (simp add: Let_def mult.assoc)
  qed
qed simp

lemma normalizeServiceControl_simps [simp]:
  "sc_Service (normalizeServiceControl c) = sc_Service c" "sc_Env (normalizeServiceControl c) = sc_Env c"
  "sc_Lease (normalizeServiceControl c) = sc_Lease c"
  "normalizeServiceControl (c\<lparr>sc_UpdatedAt := x\<rparr>) = (normalizeServiceControl c)\<lparr>sc_UpdatedAt := x\<rparr>"
  by (simp_all add: normalizeServiceControl_def Let_def)

lemma validateServiceControl_UpdatedAt [simp]:
  "validateServiceControl (c\<lparr>sc_UpdatedAt := x\<rparr>) = validateServiceControl c"
  by (simp add: validateServiceControl_def)

lemma nextServiceControl_ok:
  assumes "nextServiceControl cur next0 = Inr n"
  shows "sc_Service n = sc_Service (scd_Control cur)" "sc_Env n = sc_Env (scd_Control cur)"
    "sc_Version n = (let v = wrap64 (sc_Version (scd_Control cur) + 1) in if v \<le> 0 then 1 else v)"
    "sc_Lease n = sc_Lease next0" "sc_DesiredRelease n = sc_DesiredRelease next0"
    "sc_StableRelease n = sc_StableRelease next0" "sc_Operation n = sc_Operation next0"
    "sc_UpdatedBy n = sc_UpdatedBy next0" "sc_TraceID n = sc_TraceID next0"
  using assms
  by (auto simp only: nextServiceControl_def normalizeServiceControl_def Let_def if_Inl_Inr_iff sum.inject)
    (auto split: if_splits)

lemma validateServiceControl_ok:
  assumes "validateServiceControl c = Inr ()"
  shows "sc_SchemaVersion c = schema_Version" "is_name (sc_Service c)" "is_name (sc_Env c)" "0 < sc_Version c"
    "sc_Lease c = Some l \<Longrightarrow> validateLease l = Inr ()"
  using assms
  by (auto simp: validateServiceControl_def rbind_Inr_iff validateName_iff split: if_splits option.splits)

lemma next_wf:
  assumes "nextServiceControl cur next0 = Inr n" "pred_option wf_Lease (sc_Lease next0)"
  shows "wf_ServiceControl (n\<lparr>sc_UpdatedAt := x\<rparr>)"
proof -
  have "in_int64 (sc_Version n)"
    unfolding nextServiceControl_ok(3) [OF assms(1)] Let_def by (simp add: in_int64_def [of 1])
  then show ?thesis using assms(2) nextServiceControl_ok(4) [OF assms(1)]
    by (simp add: wf_ServiceControl_def)
qed

section \<open>What the operations do to the world\<close>

text \<open>The control document stored under a key, as a client would decode it, with its ETag.\<close>

definition control_at :: "(string \<rightharpoonup> (string \<times> body)) \<Rightarrow> string \<Rightarrow> (string \<times> ServiceControl) option" where
  "control_at m key = (case m key of
      None \<Rightarrow> None
    | Some (e, b) \<Rightarrow> (case canonical_UnmarshalStrict dec_ServiceControl b of
          Inl _ \<Rightarrow> None
        | Inr c \<Rightarrow> Some (e, c)))"

lemma control_at_wf: "control_at m key = Some (e, c) \<Longrightarrow> wf_ServiceControl c"
  by (auto simp: control_at_def canonical_UnmarshalStrict_def dec_wf split: option.splits sum.splits body.splits)

lemma control_at_objs: "control_at m key = Some (e, c) \<Longrightarrow> \<exists>b. m key = Some (e, b)"
  by (auto simp: control_at_def split: option.splits sum.splits)

lemma control_at_cong: "m key = m' key \<Longrightarrow> control_at m key = control_at m' key"
  by (simp add: control_at_def)

lemma control_at_enc [simp]:
  "wf_ServiceControl c \<Longrightarrow> control_at (m(key \<mapsto> (e, JsonBody (enc_ServiceControl c)))) key = Some (e, c)"
  by (simp add: control_at_def canonical_UnmarshalStrict_def codec_simps)

context world
begin

lemma quiet_sleepBackoff [simp]: "quiet (sleepBackoff W r n)"
  by (auto simp: sleepBackoff_def)

lemma quiet_GetServiceControl [simp]: "quiet (GetServiceControl W svc)"
  by (auto simp: GetServiceControl_def)

lemma quiet_CreateServiceControl [simp]: "quiet (CreateServiceControl W c)"
  by (auto simp: CreateServiceControl_def Let_def)

lemma quiet_stale [intro!]: "quiet m \<Longrightarrow> quiet (stale_to_state a b c m)"
  by (auto simp: stale_to_state_def)

lemma quiet_Update [simp]: "quiet (UpdateServiceControlCAS W cur n)"
  by (auto simp: UpdateServiceControlCAS_def Let_def)

lemma quiet_acquireAttempt [simp]: "quiet (acquireAttempt W svc opts tok)"
  by (auto simp: acquireAttempt_def Let_def)

lemma quiet_acquireLoop [simp]: "quiet (acquireLoop W svc opts tok r n a e)"
  by (induction n arbitrary: a e) (auto simp: split: if_splits)

lemma quiet_AcquireLease [simp]: "quiet (AcquireLease W r svc opts)"
  by (auto simp: AcquireLease_def Let_def)

lemma quiet_orLeaseLoss [intro!]: "quiet m \<Longrightarrow> quiet (orLeaseLoss W h m)"
  by (auto simp: orLeaseLoss_def detectLeaseLoss_def)

lemma quiet_lease_ops [simp]:
  "quiet (HeartbeatLease W h d)" "quiet (ReleaseLease W h)" "quiet (UpdateServiceControlWithLeaseCAS W h f)"
  by (auto simp: HeartbeatLease_def ReleaseLease_def UpdateServiceControlWithLeaseCAS_def Let_def)

lemma stale_to_state_Inr [simp]: "stale_to_state a b c m s = (Inr x, t) \<longleftrightarrow> m s = (Inr x, t)"
  by (auto simp: stale_to_state_def io_ok_iffs)

lemma orLeaseLoss_Inr [simp]: "orLeaseLoss W h m s = (Inr x, t) \<longleftrightarrow> m s = (Inr x, t)"
  by (auto simp: orLeaseLoss_def io_ok_iffs)

lemma GetServiceControl_ok:
  assumes "GetServiceControl W svc s = (Inr doc, t)"
  shows "evolves s t" "paths_ServiceControl svc = Inr (scd_Key doc)"
    "control_at (objs t) (scd_Key doc) = Some (scd_ETag doc, scd_Control doc)"
    "validateServiceControl (scd_Control doc) = Inr ()" "sc_Service (scd_Control doc) = svc"
  using assms
  by (auto simp: GetServiceControl_def io_ok_iffs Let_def control_at_def objectMetaFromObject_def dest!: get_ok)

lemma UpdateServiceControlCAS_ok:
  assumes "inv s" "UpdateServiceControlCAS W cur next0 s = (Inr doc, t)"
  shows "\<exists>u b0 n x. evolves s u \<and> evolves u t \<and> objs u (scd_Key cur) = Some (scd_ETag cur, b0) \<and>
    objs t = (objs u)(scd_Key cur \<mapsto> (scd_ETag doc, JsonBody (enc_ServiceControl (scd_Control doc)))) \<and>
    scd_ETag doc \<noteq> scd_ETag cur \<and> scd_Key doc = scd_Key cur \<and> clock s \<le> x \<and> x \<le> clock u \<and>
    nextServiceControl cur next0 = Inr n \<and> scd_Control doc = n\<lparr>sc_UpdatedAt := canonical_Time x\<rparr> \<and>
    validateServiceControl (scd_Control doc) = Inr () \<and>
    writes u (scd_Key cur) (scd_ETag doc) (JsonBody (enc_ServiceControl (scd_Control doc))) t"
proof -
  obtain n x v meta where n: "nextServiceControl cur next0 = Inr n"
    and now: "io_now W s = (Inr x, v)"
    and val: "validateServiceControl (n\<lparr>sc_UpdatedAt := canonical_Time x\<rparr>) = Inr ()"
    and cas: "os_CompareAndSwap W (scd_Key cur) (scd_ETag cur)
      (JsonBody (enc_ServiceControl (n\<lparr>sc_UpdatedAt := canonical_Time x\<rparr>)))
      (putOptionsForServiceControl (n\<lparr>sc_UpdatedAt := canonical_Time x\<rparr>)) v = (Inr meta, t)"
    and doc: "doc = \<lparr>scd_Key = scd_Key cur, scd_ETag = om_ETag meta, scd_Meta = meta,
      scd_Control = n\<lparr>sc_UpdatedAt := canonical_Time x\<rparr>\<rparr>"
    using assms(2) by (auto simp: UpdateServiceControlCAS_def io_ok_iffs Let_def canonical_Marshal_def)
  have v: "evolves s v" "x = clock v" using io_now_Inr [OF now] by auto
  then have iv: "inv v" using assms(1) evolves_inv by blast
  obtain u b0 where u: "evolves v u" "evolves u t" "objs u (scd_Key cur) = Some (scd_ETag cur, b0)"
    "objs t = (objs u)(scd_Key cur \<mapsto> (om_ETag meta, JsonBody (enc_ServiceControl (n\<lparr>sc_UpdatedAt := canonical_Time x\<rparr>))))"
    "om_ETag meta \<noteq> scd_ETag cur"
    "writes u (scd_Key cur) (om_ETag meta) (JsonBody (enc_ServiceControl (n\<lparr>sc_UpdatedAt := canonical_Time x\<rparr>))) t"
    using cas_ok [OF iv cas] by blast
  show ?thesis
    using u v n val doc clock_mono evolves_trans [OF v(1) u(1)]
    by (intro exI [of _ u] exI [of _ b0] exI [of _ n] exI [of _ x]) simp
qed

text \<open>
  A document that was read and whose ETag is still stored at a later instant is still the stored
  document; a swap onto it is a step from that document to the new one.
\<close>

lemma control_at_pins:
  assumes "inv s" "evolves s t" "control_at (objs s) k = Some (e, c)" "objs t k = Some (e, b)"
  shows "control_at (objs t) k = Some (e, c)"
proof -
  obtain b0 where "objs s k = Some (e, b0)" using control_at_objs [OF assms(3)] by blast
  then have "objs s k = objs t k" using etag_pins [OF assms(1,2) _ assms(4)] assms(4) by simp
  then show ?thesis using assms(3) control_at_cong by metis
qed

lemma update_read_ok:
  assumes i: "inv s" and g: "GetServiceControl W svc s = (Inr cur, v)" and vv: "evolves v v'"
    and upd: "UpdateServiceControlCAS W cur next0 v' = (Inr doc, t)"
    and wf: "pred_option wf_Lease (sc_Lease next0)"
  shows "\<exists>u. evolves v' u \<and> evolves u t \<and> scd_Key doc = scd_Key cur \<and>
    control_at (objs u) (scd_Key cur) = Some (scd_ETag cur, scd_Control cur) \<and>
    objs t = (objs u)(scd_Key cur \<mapsto> (scd_ETag doc, JsonBody (enc_ServiceControl (scd_Control doc)))) \<and>
    control_at (objs t) (scd_Key cur) = Some (scd_ETag doc, scd_Control doc) \<and> scd_ETag doc \<noteq> scd_ETag cur \<and>
    writes u (scd_Key cur) (scd_ETag doc) (JsonBody (enc_ServiceControl (scd_Control doc))) t"
proof -
  have v: "evolves s v" "control_at (objs v) (scd_Key cur) = Some (scd_ETag cur, scd_Control cur)"
    using GetServiceControl_ok [OF g] by auto
  then have iv: "inv v" "inv v'" using i vv evolves_inv by blast+
  obtain u b0 n x where u: "evolves v' u" "evolves u t" "objs u (scd_Key cur) = Some (scd_ETag cur, b0)"
    "objs t = (objs u)(scd_Key cur \<mapsto> (scd_ETag doc, JsonBody (enc_ServiceControl (scd_Control doc))))"
    "scd_ETag doc \<noteq> scd_ETag cur" "scd_Key doc = scd_Key cur" "nextServiceControl cur next0 = Inr n"
    "scd_Control doc = n\<lparr>sc_UpdatedAt := canonical_Time x\<rparr>"
    "writes u (scd_Key cur) (scd_ETag doc) (JsonBody (enc_ServiceControl (scd_Control doc))) t"
    using UpdateServiceControlCAS_ok [OF iv(2) upd] by blast
  have "control_at (objs u) (scd_Key cur) = Some (scd_ETag cur, scd_Control cur)"
    using control_at_pins [OF iv(1) evolves_trans [OF vv u(1)] v(2) u(3)] .
  moreover have "wf_ServiceControl (scd_Control doc)" using next_wf [OF u(7) wf] u(8) by simp
  ultimately show ?thesis using u by auto
qed

lemma CreateServiceControl_ok:
  assumes "CreateServiceControl W c s = (Inr doc, t)" "wf_ServiceControl c"
  shows "paths_ServiceControl (sc_Service c) = Inr (scd_Key doc)"
    "control_at (objs t) (scd_Key doc) = Some (scd_ETag doc, scd_Control doc)"
    "validateServiceControl (scd_Control doc) = Inr ()" "sc_Service (scd_Control doc) = sc_Service c"
    "validateServiceControl (normalizeServiceControl c) = Inr ()"
proof -
  obtain c' v where st: "(if sc_UpdatedAt c = []
      then io_bind (io_now W) (\<lambda>now. io_ret (c\<lparr>sc_UpdatedAt := canonical_Time now\<rparr>)) else io_ret c) s = (Inr c', v)"
    and rest: "(let control = normalizeServiceControl c' in
      io_bind (io_lift (validateServiceControl control)) (\<lambda>_.
      io_bind (io_lift (paths_ServiceControl (sc_Service control))) (\<lambda>key.
      io_bind (io_lift (canonical_Marshal enc_ServiceControl (\<lambda>_. True) control)) (\<lambda>body.
      io_bind (os_Create W key (JsonBody body) (putOptionsForServiceControl control)) (\<lambda>meta.
      io_ret \<lparr>scd_Key = key, scd_ETag = om_ETag meta, scd_Meta = meta, scd_Control = control\<rparr>))))) v = (Inr doc, t)"
    using assms(1) unfolding CreateServiceControl_def by (subst (asm) io_bind_Inr_iff) blast
  have c': "c' = c \<or> (\<exists>x. c' = c\<lparr>sc_UpdatedAt := x\<rparr>)" using st by (auto simp: io_ok_iffs)
  obtain m where *: "validateServiceControl (normalizeServiceControl c') = Inr ()"
      "paths_ServiceControl (sc_Service (normalizeServiceControl c')) = Inr (scd_Key doc)"
      "os_Create W (scd_Key doc) (JsonBody (enc_ServiceControl (normalizeServiceControl c')))
         (putOptionsForServiceControl (normalizeServiceControl c')) v = (Inr m, t)"
      "scd_ETag doc = om_ETag m" "scd_Control doc = normalizeServiceControl c'"
    using rest by (auto simp: io_ok_iffs canonical_Marshal_def Let_def)
  have wf: "wf_ServiceControl (normalizeServiceControl c')"
    using assms(2) c' by (auto simp: wf_ServiceControl_def normalizeServiceControl_def Let_def in_int64_def)
  show "control_at (objs t) (scd_Key doc) = Some (scd_ETag doc, scd_Control doc)"
    using create_ok [OF *(3)] control_at_enc [OF wf] *(4,5) by auto
  show "paths_ServiceControl (sc_Service c) = Inr (scd_Key doc)" "sc_Service (scd_Control doc) = sc_Service c"
    "validateServiceControl (scd_Control doc) = Inr ()" "validateServiceControl (normalizeServiceControl c) = Inr ()"
    using * c' by (auto simp: normalizeServiceControl_simps validateServiceControl_UpdatedAt)
qed

lemma acquireAttempt_ok:
  assumes "inv s" "acquireAttempt W svc opts tok s = (Inr (Inr doc), t)"
  shows "\<exists>u e c x. evolves s u \<and> evolves u t \<and> paths_ServiceControl svc = Inr (scd_Key doc) \<and>
    control_at (objs u) (scd_Key doc) = Some (e, c) \<and> clock s \<le> x \<and> x \<le> clock u \<and>
    activeLease (sc_Lease c) x = Inr False \<and> scd_ETag doc \<noteq> e \<and>
    objs t = (objs u)(scd_Key doc \<mapsto> (scd_ETag doc, JsonBody (enc_ServiceControl (scd_Control doc)))) \<and>
    control_at (objs t) (scd_Key doc) = Some (scd_ETag doc, scd_Control doc) \<and>
    sc_Lease (scd_Control doc) = Some \<lparr>lse_Owner = lop_Owner opts, lse_Token = tok,
      lse_Generation = wrap64 (sc_Version c + 1), lse_ExpiresAt = canonical_Time (x + lop_Duration opts)\<rparr> \<and>
    writes u (scd_Key doc) (scd_ETag doc) (JsonBody (enc_ServiceControl (scd_Control doc))) t"
proof -
  obtain cur v x v' where g: "GetServiceControl W svc s = (Inr cur, v)" and now: "io_now W v = (Inr x, v')"
    and act: "activeLease (sc_Lease (scd_Control cur)) x = Inr False"
    and upd: "UpdateServiceControlCAS W cur ((scd_Control cur)\<lparr>
        sc_Lease := Some \<lparr>lse_Owner = lop_Owner opts, lse_Token = tok,
           lse_Generation = wrap64 (sc_Version (scd_Control cur) + 1),
           lse_ExpiresAt = canonical_Time (x + lop_Duration opts)\<rparr>,
        sc_UpdatedBy := actorForLease (lop_Actor opts) (lop_Owner opts),
        sc_TraceID := lop_TraceID opts\<rparr>) v' = (Inr doc, t)" (is "UpdateServiceControlCAS W cur ?n v' = _")
    using assms(2) by (auto simp: acquireAttempt_def io_ok_iffs Let_def)
  have v: "evolves s v" "evolves v v'" "x = clock v'"
    using GetServiceControl_ok(1) [OF g] io_now_Inr [OF now] by auto
  have wf: "pred_option wf_Lease (sc_Lease ?n)" by (simp add: wf_Lease_def)
  obtain u where u: "evolves v' u" "evolves u t" "scd_Key doc = scd_Key cur"
    "control_at (objs u) (scd_Key cur) = Some (scd_ETag cur, scd_Control cur)"
    "objs t = (objs u)(scd_Key cur \<mapsto> (scd_ETag doc, JsonBody (enc_ServiceControl (scd_Control doc))))"
    "control_at (objs t) (scd_Key cur) = Some (scd_ETag doc, scd_Control doc)" "scd_ETag doc \<noteq> scd_ETag cur"
    "writes u (scd_Key cur) (scd_ETag doc) (JsonBody (enc_ServiceControl (scd_Control doc))) t"
    using update_read_ok [OF assms(1) g v(2) upd wf] by blast
  obtain n y where n: "nextServiceControl cur ?n = Inr n" "scd_Control doc = n\<lparr>sc_UpdatedAt := canonical_Time y\<rparr>"
    using UpdateServiceControlCAS_ok [OF evolves_inv [OF v(2) evolves_inv [OF v(1) assms(1)]] upd] by blast
  have "sc_Lease (scd_Control doc) = sc_Lease ?n" using nextServiceControl_ok(4) [OF n(1)] n(2) by simp
  moreover have "evolves s u" "evolves s v'" using v u(1) evolves_trans by blast+
  ultimately show ?thesis using u act v clock_mono GetServiceControl_ok(2) [OF g]
    by (intro exI [of _ u] exI [of _ "scd_ETag cur"] exI [of _ "scd_Control cur"] exI [of _ x]) simp
qed

lemma acquireAttempt_service:
  assumes "inv s" "acquireAttempt W svc opts tok s = (Inr (Inr doc), t)"
  shows "sc_Service (scd_Control doc) = svc \<and> validateServiceControl (scd_Control doc) = Inr ()"
proof -
  obtain cur v x v' n0 where *: "GetServiceControl W svc s = (Inr cur, v)" "io_now W v = (Inr x, v')"
    "UpdateServiceControlCAS W cur n0 v' = (Inr doc, t)"
    using assms(2) by (auto simp: acquireAttempt_def io_ok_iffs Let_def)
  have "inv v'"
    using GetServiceControl_ok(1) [OF *(1)] io_now_Inr [OF *(2)] assms(1) evolves_inv by blast
  from UpdateServiceControlCAS_ok [OF this *(3)] show ?thesis
    using GetServiceControl_ok(5) [OF *(1)] nextServiceControl_ok(1) by fastforce
qed

lemma acquireLoop_ok:
  assumes "inv s" "acquireLoop W svc opts tok r n a lastErr s = (Inr (h, doc), t)"
  shows "handleFromDocument doc = Inr h \<and>
    (\<exists>s'. evolves s s' \<and> acquireAttempt W svc opts tok s' = (Inr (Inr doc), t))"
  using assms
proof (induction n arbitrary: s a lastErr)
  case (Suc n)
  then obtain s1 r1 s2 where s1: "(if a > 0 then sleepBackoff W r a else io_ret ()) s = (Inr (), s1)"
    and at: "acquireAttempt W svc opts tok s1 = (Inr r1, s2)"
    and rest: "(case r1 of Inr updated \<Rightarrow>
           io_bind (io_lift (handleFromDocument updated)) (\<lambda>handle. io_ret (handle, updated))
       | Inl err \<Rightarrow> if \<not> is_state CodePreconditionFailed err then io_fail err
           else acquireLoop W svc opts tok r n (Suc a) (Some err)) s2 = (Inr (h, doc), t)"
    by (auto simp: io_bind_Inr_iff)
  have "quiet (if a > 0 then sleepBackoff W r a else io_ret ())" by auto
  then have e1: "evolves s s1" using s1 Suc.prems(1) quietD by blast
  then have i1: "inv s1" using Suc.prems(1) evolves_inv by blast
  have e2: "evolves s1 s2" using quietD [OF quiet_acquireAttempt i1 at] .
  show ?case
  proof (cases r1)
    case (Inl err)
    then have "acquireLoop W svc opts tok r n (Suc a) (Some err) s2 = (Inr (h, doc), t)"
      using rest by (auto split: if_splits)
    from Suc.IH [OF evolves_inv [OF e2 i1] this] show ?thesis
      using e1 e2 evolves_trans by blast
  next
    case (Inr d)
    then show ?thesis using rest at e1 by (auto simp: io_ok_iffs)
  qed
qed (simp add: io_fail_def)

lemma AcquireLease_ok:
  assumes "inv s" "AcquireLease W r svc opts s = (Inr (h, doc), t)"
  shows "handleFromDocument doc = Inr h \<and> 0 < lop_Duration opts \<and>
    (\<exists>tok s'. TrimSpace tok \<noteq> [] \<and> evolves s s' \<and> acquireAttempt W svc opts tok s' = (Inr (Inr doc), t))"
proof -
  obtain tok s1 where *: "io_token W s = (Inr tok, s1)" "TrimSpace tok \<noteq> []" "0 < lop_Duration opts"
    "acquireLoop W svc opts tok (normalized r) (nat (ro_MaxAttempts (normalized r))) 0 None s1 = (Inr (h, doc), t)"
    using assms(2) by (auto simp: AcquireLease_def io_ok_iffs Let_def validateLeaseOptions_def)
  have e: "evolves s s1" using quietD [of "io_token W", OF _ assms(1) *(1)] by simp
  show ?thesis using acquireLoop_ok [OF evolves_inv [OF e assms(1)] *(4)] * e evolves_trans by blast
qed

text \<open>
  What \<^verbatim>\<open>HeartbeatLease\<close>, \<^verbatim>\<open>ReleaseLease\<close> and \<^verbatim>\<open>UpdateServiceControlWithLeaseCAS\<close> have in common: the
  document is read, the handle's lease is found usable in it at time \<open>x\<close>, and a document whose lease
  field is \<open>new\<close> is swapped in on the handle's ETag.
\<close>

definition holder_swap :: "LeaseHandle \<Rightarrow> 's \<Rightarrow> ServiceControlDocument \<Rightarrow> (Lease \<Rightarrow> Lease option \<Rightarrow> bool) \<Rightarrow> 's \<Rightarrow> bool" where
  "holder_swap h s doc new t \<longleftrightarrow> (\<exists>cur v v' x cur' next0.
     GetServiceControl W (lh_Service h) s = (Inr cur, v) \<and> evolves v v' \<and> clock v \<le> x \<and> x \<le> clock v' \<and>
     ensureLeaseUsable h cur x = Inr () \<and> scd_Key cur' = scd_Key cur \<and> scd_ETag cur' = lh_ETag h \<and>
     sc_Version (scd_Control cur') = sc_Version (scd_Control cur) \<and>
     UpdateServiceControlCAS W cur' next0 v' = (Inr doc, t) \<and>
     new (the (sc_Lease (scd_Control cur))) (sc_Lease next0))"

lemma ensureLeaseUsable_ok:
  assumes "ensureLeaseUsable h doc x = Inr ()"
  shows "\<exists>l T. sc_Lease (scd_Control doc) = Some l \<and> lse_Owner l = lh_Owner h \<and> lse_Token l = lh_Token h \<and>
    lse_Generation l = lh_Generation h \<and> time_Parse (lse_ExpiresAt l) = Some T \<and> x < T"
  using assms
  by (auto simp: ensureLeaseUsable_def ensureLeaseMatches_def activeLease_def rbind_Inr_iff
      split: option.splits if_splits sum.splits)

lemma holder_swapI:
  assumes "GetServiceControl W (lh_Service h) s = (Inr cur, v)" "io_now W v = (Inr x, v1)" "evolves v1 v'"
    "ensureLeaseUsable h cur x = Inr ()" "UpdateServiceControlCAS W cur' next0 v' = (Inr doc, t)"
    "scd_Key cur' = scd_Key cur" "scd_ETag cur' = lh_ETag h"
    "sc_Version (scd_Control cur') = sc_Version (scd_Control cur)"
    "new (the (sc_Lease (scd_Control cur))) (sc_Lease next0)"
  shows "holder_swap h s doc new t"
proof -
  have "evolves v v1" "x = clock v1" using io_now_Inr [OF assms(2)] by auto
  then have "clock v \<le> x" "x \<le> clock v'" "evolves v v'"
    using assms(3) clock_mono evolves_trans by blast+
  then show ?thesis unfolding holder_swap_def using assms by blast
qed

lemma HeartbeatLease_swap:
  assumes "inv s" "HeartbeatLease W h d s = (Inr (h', doc), t)"
  shows "handleFromDocument doc = Inr h' \<and> holder_swap h s doc
    (\<lambda>l nl. \<exists>y. clock s \<le> y \<and> y \<le> clock t \<and> nl = Some (l\<lparr>lse_ExpiresAt := canonical_Time (y + d)\<rparr>)) t"
proof -
  obtain cur v x v1 y v2 where *: "GetServiceControl W (lh_Service h) s = (Inr cur, v)"
    "io_now W v = (Inr x, v1)" "ensureLeaseUsable h cur x = Inr ()" "io_now W v1 = (Inr y, v2)"
    "handleFromDocument doc = Inr h'"
    and upd: "UpdateServiceControlCAS W (cur\<lparr>scd_ETag := lh_ETag h, scd_Control := (scd_Control cur)\<lparr>sc_Lease :=
       map_option (\<lambda>l. l\<lparr>lse_ExpiresAt := canonical_Time (y + d)\<rparr>) (sc_Lease (scd_Control cur))\<rparr>\<rparr>)
       ((scd_Control cur)\<lparr>sc_Lease :=
       map_option (\<lambda>l. l\<lparr>lse_ExpiresAt := canonical_Time (y + d)\<rparr>) (sc_Lease (scd_Control cur))\<rparr>) v2 = (Inr doc, t)"
    using assms by (auto simp: HeartbeatLease_def io_ok_iffs Let_def)
  obtain l where l: "sc_Lease (scd_Control cur) = Some l" using ensureLeaseUsable_ok [OF *(3)] by blast
  have e: "evolves s v2" "evolves v1 v2" "y = clock v2"
    using GetServiceControl_ok(1) [OF *(1)] io_now_Inr [OF *(2)] io_now_Inr [OF *(4)] evolves_trans by blast+
  have "evolves v2 t" using quietD [OF quiet_Update evolves_inv [OF e(1) assms(1)] upd] .
  then have y: "clock s \<le> y" "y \<le> clock t" using e clock_mono by auto
  show ?thesis
    using *(5) by (auto intro!: holder_swapI [OF *(1,2) e(2) *(3) upd] exI [of _ y] simp: l y)
qed

lemma ReleaseLease_swap:
  assumes "ReleaseLease W h s = (Inr doc, t)"
  shows "holder_swap h s doc (\<lambda>l nl. nl = None) t"
proof -
  obtain cur v x v1 where *: "GetServiceControl W (lh_Service h) s = (Inr cur, v)"
    "io_now W v = (Inr x, v1)" "ensureLeaseUsable h cur x = Inr ()"
    "UpdateServiceControlCAS W (cur\<lparr>scd_ETag := lh_ETag h\<rparr>) ((scd_Control cur)\<lparr>sc_Lease := None\<rparr>) v1 = (Inr doc, t)"
    using assms by (auto simp: ReleaseLease_def io_ok_iffs)
  show ?thesis by (rule holder_swapI [OF *(1,2) evolves_refl *(3,4)]) auto
qed

lemma UpdateWithLease_swap:
  assumes "UpdateServiceControlWithLeaseCAS W h f s = (Inr (h', doc), t)"
  shows "handleFromDocument doc = Inr h' \<and> holder_swap h s doc (\<lambda>l nl. nl = Some l) t"
proof -
  obtain cur v x v1 n where *: "GetServiceControl W (lh_Service h) s = (Inr cur, v)"
    "io_now W v = (Inr x, v1)" "ensureLeaseUsable h cur x = Inr ()"
    "UpdateServiceControlCAS W cur (n\<lparr>sc_Lease := sc_Lease (scd_Control cur)\<rparr>) v1 = (Inr doc, t)"
    "scd_ETag cur = lh_ETag h" "handleFromDocument doc = Inr h'"
    using assms by (auto simp: UpdateServiceControlWithLeaseCAS_def io_ok_iffs)
  obtain l where l: "sc_Lease (scd_Control cur) = Some l" using ensureLeaseUsable_ok [OF *(3)] by blast
  show ?thesis using *(5,6) by (auto intro!: holder_swapI [OF *(1,2) evolves_refl *(3,4)] simp: l)
qed

text \<open>A handle whose ETag has been overwritten writes nothing any more.\<close>

lemma holder_fenced:
  assumes "inv t0" "objs t0 k = Some (lh_ETag h, b0)" "evolves t0 s" "objs s k = Some (e1, b1)"
    "e1 \<noteq> lh_ETag h" "paths_ServiceControl (lh_Service h) = Inr k"
  shows "\<not> holder_swap h s doc new t"
proof
  assume "holder_swap h s doc new t"
  then obtain cur v v' cur' next0 where *: "GetServiceControl W (lh_Service h) s = (Inr cur, v)" "evolves v v'"
    "scd_Key cur' = scd_Key cur" "scd_ETag cur' = lh_ETag h" "UpdateServiceControlCAS W cur' next0 v' = (Inr doc, t)"
    unfolding holder_swap_def by blast
  have g: "evolves s v" "scd_Key cur = k" using GetServiceControl_ok(1,2) [OF *(1)] assms(6) by auto
  have sv: "evolves s v'" using evolves_trans [OF g(1) *(2)] .
  then have iv: "inv v'" using assms(1,3) evolves_inv by blast
  obtain u b where "evolves v' u" "objs u k = Some (lh_ETag h, b)"
    using UpdateServiceControlCAS_ok [OF iv *(5)] *(3,4) g(2) by auto
  then show False
    using etag_never_returns [OF assms(1,3) evolves_trans [OF sv] assms(2,4,5)] by blast
qed

text \<open>
  A successful write of a lease holder, whose handle's ETag was once stored, replaces a document that
  carries the handle's own lease; nobody wrote between the holder's previous write and this one.
\<close>

lemma holder_swap_ok:
  assumes "inv t0" "objs t0 k = Some (lh_ETag h, b0)" "evolves t0 s"
    "paths_ServiceControl (lh_Service h) = Inr k" "holder_swap h s doc new t"
    and wf: "\<forall>l nl. wf_Lease l \<longrightarrow> new l nl \<longrightarrow> pred_option wf_Lease nl"
  shows "\<exists>u c l x T. evolves s u \<and> evolves u t \<and> scd_Key doc = k \<and> control_at (objs u) k = Some (lh_ETag h, c) \<and>
    sc_Lease c = Some l \<and> lse_Owner l = lh_Owner h \<and> lse_Token l = lh_Token h \<and>
    lse_Generation l = lh_Generation h \<and> time_Parse (lse_ExpiresAt l) = Some T \<and> clock s \<le> x \<and> x \<le> clock u \<and> x < T \<and>
    objs t = (objs u)(k \<mapsto> (scd_ETag doc, JsonBody (enc_ServiceControl (scd_Control doc)))) \<and>
    control_at (objs t) k = Some (scd_ETag doc, scd_Control doc) \<and> new l (sc_Lease (scd_Control doc)) \<and>
    sc_Version (scd_Control doc) = (let v = wrap64 (sc_Version c + 1) in if v \<le> 0 then 1 else v)"
proof -
  obtain cur v v' x cur' next0 where *: "GetServiceControl W (lh_Service h) s = (Inr cur, v)" "evolves v v'"
    "clock v \<le> x" "x \<le> clock v'" "ensureLeaseUsable h cur x = Inr ()" "scd_Key cur' = scd_Key cur"
    "scd_ETag cur' = lh_ETag h" "sc_Version (scd_Control cur') = sc_Version (scd_Control cur)"
    "UpdateServiceControlCAS W cur' next0 v' = (Inr doc, t)" "new (the (sc_Lease (scd_Control cur))) (sc_Lease next0)"
    using assms(5) unfolding holder_swap_def by blast
  have g: "evolves s v" "scd_Key cur = k" "control_at (objs v) k = Some (scd_ETag cur, scd_Control cur)"
    using GetServiceControl_ok(1,2,3) [OF *(1)] assms(4) by auto
  have ev: "evolves t0 v" "evolves s v'" using assms(3) g(1) *(2) evolves_trans by blast+
  then have iv: "inv v" "inv v'" using assms(1) *(2) evolves_inv by blast+
  obtain u b n y where u: "evolves v' u" "evolves u t" "objs u k = Some (lh_ETag h, b)"
    "objs t = (objs u)(k \<mapsto> (scd_ETag doc, JsonBody (enc_ServiceControl (scd_Control doc))))" "scd_Key doc = k"
    "nextServiceControl cur' next0 = Inr n" "scd_Control doc = n\<lparr>sc_UpdatedAt := canonical_Time y\<rparr>"
    using UpdateServiceControlCAS_ok [OF iv(2) *(9)] *(6,7) g(2) by auto
  have vu: "evolves v u" using *(2) u(1) evolves_trans by blast
  obtain b1 where b1: "objs v k = Some (scd_ETag cur, b1)" using control_at_objs [OF g(3)] by blast
  have et: "scd_ETag cur = lh_ETag h"
    using etag_never_returns [OF assms(1) ev(1) vu assms(2) b1 _ u(3)] by blast
  have cu: "control_at (objs u) k = Some (lh_ETag h, scd_Control cur)"
    using control_at_pins [OF iv(1) vu] g(3) u(3) et by simp
  obtain l T where l: "sc_Lease (scd_Control cur) = Some l" "lse_Owner l = lh_Owner h" "lse_Token l = lh_Token h"
    "lse_Generation l = lh_Generation h" "time_Parse (lse_ExpiresAt l) = Some T" "x < T"
    using ensureLeaseUsable_ok [OF *(5)] by blast
  have "wf_Lease l" using control_at_wf [OF cu] l(1) by (simp add: wf_ServiceControl_def)
  then have "pred_option wf_Lease (sc_Lease next0)" using *(10) l(1) wf by simp
  then have "wf_ServiceControl (scd_Control doc)" using next_wf [OF u(6)] u(7) by simp
  then have ct: "control_at (objs t) k = Some (scd_ETag doc, scd_Control doc)" using u(4) by simp
  have "clock s \<le> x" "x \<le> clock u" "evolves s u"
    using *(3,4) g(1) u(1) ev(2) clock_mono evolves_trans by (meson order_trans)+
  then show ?thesis
    using u cu l ct *(8,10) nextServiceControl_ok(3,4) [OF u(6)]
    by (intro exI [of _ u] exI [of _ "scd_Control cur"] exI [of _ l] exI [of _ x] exI [of _ T]) simp
qed

end

section \<open>A client alone\<close>

lemma paths_ServiceControl_Inr: "paths_ServiceControl svc = Inr k \<Longrightarrow> is_name svc"
  by (auto simp: paths_ServiceControl_def rbind_Inr_iff validateName_iff)

lemma alone_GetServiceControl:
  assumes "sys_env s = []" "paths_ServiceControl svc = Inr k" "control_at (sys_objs s) k = Some (e, c)"
    "validateServiceControl c = Inr ()" "sc_Service c = svc"
  shows "\<exists>doc. GetServiceControl sys_world svc s = (Inr doc, s) \<and> scd_Key doc = k \<and> scd_ETag doc = e \<and> scd_Control doc = c"
proof -
  obtain b where b: "sys_objs s k = Some (e, b)" "canonical_UnmarshalStrict dec_ServiceControl b = Inr c"
    using assms(3) by (auto simp: control_at_def split: option.splits sum.splits)
  obtain ob where "os_Get sys_world k s = (Inr ob, s)" "obj_ETag ob = e" "obj_Body ob = b"
    using alone_Get [OF assms(1) b(1)] by blast
  then show ?thesis using assms b(2)
    by (simp add: GetServiceControl_def io_bind_def objectMetaFromObject_def Let_def io_lift_def rbind_def)
qed

lemma alone_Update:
  assumes "sys_env s = []" "sys_objs s (scd_Key cur) = Some (scd_ETag cur, b)" "nextServiceControl cur next0 = Inr n"
    "validateServiceControl (n\<lparr>sc_UpdatedAt := canonical_Time (sys_now s)\<rparr>) = Inr ()"
  shows "\<exists>doc t. UpdateServiceControlCAS sys_world cur next0 s = (Inr doc, t) \<and>
    scd_Control doc = n\<lparr>sc_UpdatedAt := canonical_Time (sys_now s)\<rparr> \<and> sys_env t = [] \<and> sys_now t = sys_now s"
proof -
  let ?n = "n\<lparr>sc_UpdatedAt := canonical_Time (sys_now s)\<rparr>"
  obtain m t where "os_CompareAndSwap sys_world (scd_Key cur) (scd_ETag cur) (JsonBody (enc_ServiceControl ?n))
      (putOptionsForServiceControl ?n) s = (Inr m, t)" "sys_env t = []" "sys_now t = sys_now s"
    using alone_CAS [OF assms(1,2)] by blast
  then show ?thesis using assms(1,3,4)
    by (simp add: UpdateServiceControlCAS_def io_bind_def stale_to_state_def io_try_def canonical_Marshal_def Let_def
        io_ret_def)
qed

text \<open>The token the next acquisition draws.\<close>

definition next_token :: "sys \<Rightarrow> string" where
  "next_token s = (case sys_tokens s of [] \<Rightarrow> ''lease_0'' | x # _ \<Rightarrow> x)"

lemma alone_AcquireLease_unfold:
  assumes "sys_env s = []" "TrimSpace (lop_Owner opts) \<noteq> []" "0 < lop_Duration opts" "TrimSpace (next_token s) \<noteq> []"
  shows "\<exists>s'. sys_env s' = [] \<and> sys_objs s' = sys_objs s \<and> sys_now s' = sys_now s \<and> sys_store s' = sys_store s \<and>
    AcquireLease sys_world r svc opts s =
      acquireLoop sys_world svc opts (next_token s) (normalized r) (nat (ro_MaxAttempts (normalized r))) 0 None s'"
proof (cases "sys_tokens s")
  case Nil
  then show ?thesis using assms
    by (intro exI [of _ s])
      (simp add: AcquireLease_def validateLeaseOptions_def next_token_def io_bind_def alone_token Let_def)
next
  case (Cons x xs)
  then show ?thesis using assms
    by (intro exI [of _ "s\<lparr>sys_tokens := xs\<rparr>"])
      (simp add: AcquireLease_def validateLeaseOptions_def next_token_def io_bind_def alone_token Let_def
        sys_objs_def)
qed

lemma nat_attempts: "\<exists>n. nat (ro_MaxAttempts (normalized r)) = Suc n"
  using normalized_bounds(1) [of r] by (intro exI [of _ "nat (ro_MaxAttempts (normalized r)) - 1"]) simp

lemma acquire_free:
  assumes al: "sys_env s = []" and k: "paths_ServiceControl svc = Inr k"
    and at: "control_at (sys_objs s) k = Some (e, c)" and val: "validateServiceControl c = Inr ()" "sc_Service c = svc"
    and free: "activeLease (sc_Lease c) (sys_now s) = Inr False" and ver: "sc_Version c < 2 ^ 63 - 1"
    and opts: "TrimSpace (lop_Owner opts) \<noteq> []" "0 < lop_Duration opts" "TrimSpace (next_token s) \<noteq> []"
    and tm: "time_ok (sys_now s + lop_Duration opts)"
  shows "\<exists>h doc t. AcquireLease sys_world r svc opts s = (Inr (h, doc), t) \<and>
    h = \<lparr>lh_Service = svc, lh_Owner = lop_Owner opts, lh_Token = next_token s, lh_Generation = sc_Version c + 1,
      lh_ExpiresAt = sys_now s + lop_Duration opts, lh_ETag = scd_ETag doc\<rparr> \<and>
    sys_env t = [] \<and> sys_now t = sys_now s \<and> sc_Version (scd_Control doc) = sc_Version c + 1 \<and>
    activeLease (sc_Lease (scd_Control doc)) (sys_now s + lop_Duration opts) = Inr False"
proof -
  obtain s' where s': "sys_env s' = []" "sys_objs s' = sys_objs s" "sys_now s' = sys_now s"
    and acq: "AcquireLease sys_world r svc opts s =
      acquireLoop sys_world svc opts (next_token s) (normalized r) (nat (ro_MaxAttempts (normalized r))) 0 None s'"
    using alone_AcquireLease_unfold [OF al opts] by blast
  obtain n where n: "nat (ro_MaxAttempts (normalized r)) = Suc n" using nat_attempts by blast
  obtain cur where cur: "GetServiceControl sys_world svc s' = (Inr cur, s')" "scd_Key cur = k" "scd_ETag cur = e"
    "scd_Control cur = c"
    using alone_GetServiceControl [OF s'(1) k _ val] at s'(2) by metis
  obtain b where b: "sys_objs s' (scd_Key cur) = Some (scd_ETag cur, b)"
    using control_at_objs [OF at] s'(2) cur(2,3) by auto
  let ?l = "\<lparr>lse_Owner = lop_Owner opts, lse_Token = next_token s, lse_Generation = wrap64 (sc_Version c + 1),
     lse_ExpiresAt = canonical_Time (sys_now s + lop_Duration opts)\<rparr>"
  let ?next = "c\<lparr>sc_Lease := Some ?l, sc_UpdatedBy := actorForLease (lop_Actor opts) (lop_Owner opts),
     sc_TraceID := lop_TraceID opts\<rparr>"
  note ok = validateServiceControl_ok [OF val(1)]
  have w: "wrap64 (sc_Version c + 1) = sc_Version c + 1"
    using ver ok(4) by (intro wrap64_id) (auto simp: in_int64_def)
  let ?n = "?next\<lparr>sc_Version := sc_Version c + 1\<rparr>"
  have nx: "nextServiceControl cur ?next = Inr ?n"
    using cur(4) ok w by (simp add: nextServiceControl_def normalizeServiceControl_def schema_Version_def is_name_def Let_def)
  have "validateServiceControl (?n\<lparr>sc_UpdatedAt := canonical_Time (sys_now s')\<rparr>) = Inr ()"
    using ok w opts tm by (simp add: validateServiceControl_def validateLease_def rbind_def validateName_iff)
  from alone_Update [OF s'(1) b nx this] obtain doc t where
    upd: "UpdateServiceControlCAS sys_world cur ?next s' = (Inr doc, t)"
    and doc: "scd_Control doc = ?n\<lparr>sc_UpdatedAt := canonical_Time (sys_now s')\<rparr>"
    and t: "sys_env t = []" "sys_now t = sys_now s'" by blast
  have "acquireAttempt sys_world svc opts (next_token s) s' = (Inr (Inr doc), t)"
    using cur free upd s'(1,3) by (simp add: acquireAttempt_def io_bind_def io_try_def Let_def)
  then show ?thesis using acq n doc tm w val(2) t s'(3)
    by (simp add: io_bind_def handleFromDocument_def activeLease_def io_lift_def)
qed

lemma acquire_held:
  assumes al: "sys_env s = []" and k: "paths_ServiceControl svc = Inr k"
    and at: "control_at (sys_objs s) k = Some (e, c)" and val: "validateServiceControl c = Inr ()" "sc_Service c = svc"
    and held: "activeLease (sc_Lease c) (sys_now s) = Inr True"
    and opts: "TrimSpace (lop_Owner opts) \<noteq> []" "0 < lop_Duration opts" "TrimSpace (next_token s) \<noteq> []"
  shows "\<exists>t. AcquireLease sys_world r svc opts s = (Inl (leaseHeldError svc k (sc_Lease c)), t) \<and>
    sys_store t = sys_store s \<and> sys_env t = [] \<and> sys_now t = sys_now s"
proof -
  obtain s' where s': "sys_env s' = []" "sys_objs s' = sys_objs s" "sys_now s' = sys_now s" "sys_store s' = sys_store s"
    and acq: "AcquireLease sys_world r svc opts s =
      acquireLoop sys_world svc opts (next_token s) (normalized r) (nat (ro_MaxAttempts (normalized r))) 0 None s'"
    using alone_AcquireLease_unfold [OF al opts] by blast
  obtain n where n: "nat (ro_MaxAttempts (normalized r)) = Suc n" using nat_attempts by blast
  obtain cur where cur: "GetServiceControl sys_world svc s' = (Inr cur, s')" "scd_Key cur = k" "scd_ETag cur = e"
    "scd_Control cur = c"
    using alone_GetServiceControl [OF s'(1) k _ val] at s'(2) by metis
  have "acquireAttempt sys_world svc opts (next_token s) s' = (Inl (leaseHeldError svc k (sc_Lease c)), s')"
    using cur held s'(1,3) by (simp add: acquireAttempt_def io_bind_def io_fail_def)
  then show ?thesis using acq n s'(1,3,4) by (simp add: io_bind_def)
qed

lemma acquire_stored:
  assumes "sys_inv s" "AcquireLease sys_world r svc opts s = (Inr (h, doc), t)"
  shows "paths_ServiceControl svc = Inr (scd_Key doc)"
    "\<exists>b. sys_objs t (scd_Key doc) = Some (lh_ETag h, b)" "sys_evolves s t" "lh_Service h = svc"
    "\<exists>u e c. sys_evolves s u \<and> sys_evolves u t \<and> control_at (sys_objs u) (scd_Key doc) = Some (e, c) \<and> lh_ETag h \<noteq> e"
    "sc_Service (scd_Control doc) = svc" "validateServiceControl (scd_Control doc) = Inr ()"
    "control_at (sys_objs t) (scd_Key doc) = Some (scd_ETag doc, scd_Control doc)"
proof -
  obtain tok s' where a: "handleFromDocument doc = Inr h" "sys_evolves s s'"
    "acquireAttempt sys_world svc opts tok s' = (Inr (Inr doc), t)"
    using sysw.AcquireLease_ok [OF assms] by blast
  have i: "sys_inv s'" using a(2) assms(1) sysw.evolves_inv by blast
  note at = sysw.acquireAttempt_ok [OF i a(3)]
  have h: "lh_ETag h = scd_ETag doc" "lh_Service h = sc_Service (scd_Control doc)"
    using a(1) by (auto simp: handleFromDocument_def split: option.splits)
  show "paths_ServiceControl svc = Inr (scd_Key doc)" "\<exists>b. sys_objs t (scd_Key doc) = Some (lh_ETag h, b)" "sys_evolves s t"
    using at h(1) a(2) sysw.evolves_trans by (fastforce, fastforce, blast)
  show "lh_Service h = svc" "sc_Service (scd_Control doc) = svc" "validateServiceControl (scd_Control doc) = Inr ()"
    using sysw.acquireAttempt_service [OF i a(3)] h(2) by auto
  show "control_at (sys_objs t) (scd_Key doc) = Some (scd_ETag doc, scd_Control doc)" using at by blast
  show "\<exists>u e c. sys_evolves s u \<and> sys_evolves u t \<and> control_at (sys_objs u) (scd_Key doc) = Some (e, c) \<and> lh_ETag h \<noteq> e"
    using at h(1) a(2) sysw.evolves_trans by metis
qed

section \<open>Properties\<close>

text \<open>
  C1: acquiring a lease is exclusive. When \<^verbatim>\<open>AcquireLease\<close> succeeds, whatever other clients did
  meanwhile, the last write in the history is the one of the new document, and in the state \<open>u\<close> right before
  it the stored document had no lease or one that had expired; the document written carries a lease with
  the caller's owner, generation one above the version replaced and the full duration; the handle
  returned is that lease.
\<close>

theorem acquire_exclusive:
  assumes "sys_inv s" and "AcquireLease sys_world r svc opts s = (Inr (h, doc), t)"
  shows "\<exists>u e c x tok. sys_evolves s u \<and> sys_evolves u t \<and> paths_ServiceControl svc = Inr (scd_Key doc) \<and>
    control_at (sys_objs u) (scd_Key doc) = Some (e, c) \<and> sys_now s \<le> x \<and> x \<le> sys_now u \<and>
    (\<forall>l. sc_Lease c = Some l \<longrightarrow> (\<exists>T. time_Parse (lse_ExpiresAt l) = Some T \<and> T \<le> x)) \<and>
    sys_history t = sys_history u @ [(scd_Key doc, lh_ETag h, JsonBody (enc_ServiceControl (scd_Control doc)))] \<and>
    sys_objs t = (sys_objs u)(scd_Key doc \<mapsto> (lh_ETag h, JsonBody (enc_ServiceControl (scd_Control doc)))) \<and>
    lh_ETag h \<noteq> e \<and> lh_Service h = sc_Service (scd_Control doc) \<and> lh_Owner h = lop_Owner opts \<and> lh_Token h = tok \<and>
    sc_Lease (scd_Control doc) = Some \<lparr>lse_Owner = lop_Owner opts, lse_Token = tok,
      lse_Generation = lh_Generation h, lse_ExpiresAt = canonical_Time (x + lop_Duration opts)\<rparr> \<and>
    lh_Generation h = wrap64 (sc_Version c + 1)"
proof -
  obtain tok s' where a: "handleFromDocument doc = Inr h" "sys_evolves s s'"
    "acquireAttempt sys_world svc opts tok s' = (Inr (Inr doc), t)"
    using sysw.AcquireLease_ok [OF assms] by blast
  have i: "sys_inv s'" using a(2) assms(1) sysw.evolves_inv by blast
  obtain u e c x where u: "sys_evolves s' u" "sys_evolves u t" "paths_ServiceControl svc = Inr (scd_Key doc)"
    "control_at (sys_objs u) (scd_Key doc) = Some (e, c)" "sys_now s' \<le> x" "x \<le> sys_now u"
    "activeLease (sc_Lease c) x = Inr False" "scd_ETag doc \<noteq> e"
    "sys_objs t = (sys_objs u)(scd_Key doc \<mapsto> (scd_ETag doc, JsonBody (enc_ServiceControl (scd_Control doc))))"
    "sc_Lease (scd_Control doc) = Some \<lparr>lse_Owner = lop_Owner opts, lse_Token = tok,
      lse_Generation = wrap64 (sc_Version c + 1), lse_ExpiresAt = canonical_Time (x + lop_Duration opts)\<rparr>"
    "sys_writes u (scd_Key doc) (scd_ETag doc) (JsonBody (enc_ServiceControl (scd_Control doc))) t"
    using sysw.acquireAttempt_ok [OF i a(3)] by blast
  have h: "lh_ETag h = scd_ETag doc" "lh_Owner h = lop_Owner opts" "lh_Token h = tok"
    "lh_Generation h = wrap64 (sc_Version c + 1)" "lh_Service h = sc_Service (scd_Control doc)"
    using a(1) u(10) by (auto simp: handleFromDocument_def split: option.splits)
  have "sys_now s \<le> x" "sys_evolves s u"
    using a(2) u(1,5) sysw.clock_mono sysw.evolves_trans by (blast intro: order_trans)+
  moreover have "\<forall>l. sc_Lease c = Some l \<longrightarrow> (\<exists>T. time_Parse (lse_ExpiresAt l) = Some T \<and> T \<le> x)"
    using u(7) by (auto simp: activeLease_def split: option.splits)
  ultimately show ?thesis using u h
    by (intro exI [of _ u] exI [of _ e] exI [of _ c] exI [of _ x] exI [of _ tok]) (simp add: sys_writes_def)
qed

text \<open>A service ''web'' in its first version, alone in the world; the data of the witnesses.\<close>

definition web_control :: ServiceControl where
  "web_control = NewServiceControl ''web'' ''prod'' ''2024-01-01T00:00:00Z'' \<lparr>act_ID = ''ci'', act_Type = ''agent''\<rparr>"

definition web_sys :: sys where
  "web_sys = \<lparr>sys_store = snd (memory_Create None ''services/web/control.json''
       (JsonBody (enc_ServiceControl web_control)) (putOptionsForServiceControl web_control) memory_New),
     sys_now = 1000, sys_tokens = [''lease_a'', ''lease_b''], sys_events = [], sys_env = [], sys_history = []\<rparr>"

definition web_opts :: LeaseOptions where
  "web_opts = \<lparr>lop_Owner = ''worker-1'', lop_Duration = 30000000000, lop_Actor = \<lparr>act_ID = [], act_Type = []\<rparr>,
     lop_TraceID = []\<rparr>"

lemma web_facts:
  "sys_env web_sys = []" "sys_inv web_sys" "paths_ServiceControl ''web'' = Inr ''services/web/control.json''"
  "\<exists>e. control_at (sys_objs web_sys) ''services/web/control.json'' = Some (e, web_control)"
  "validateServiceControl web_control = Inr ()" "sc_Service web_control = ''web''" "sc_Lease web_control = None"
  "sc_Version web_control = 1" "TrimSpace (lop_Owner web_opts) \<noteq> []" "0 < lop_Duration web_opts"
  "TrimSpace (next_token web_sys) \<noteq> []" "time_ok (sys_now web_sys + lop_Duration web_opts)"
proof -
  have wf: "wf_ServiceControl web_control"
    by (simp add: wf_ServiceControl_def web_control_def NewServiceControl_def zero_ServiceControl_def in_int64_def)
  show "\<exists>e. control_at (sys_objs web_sys) ''services/web/control.json'' = Some (e, web_control)"
    by (simp add: sys_objs_def web_sys_def memory_Create_def memory_New_def nextTimeLocked_def Let_def memory_objs_def
      control_at_def canonical_UnmarshalStrict_def codec_ServiceControl [OF wf])
  show "sys_inv web_sys"
    by (simp add: sys_inv_def web_sys_def memory_Create_def memory_New_def nextTimeLocked_def Let_def memory_inv_def entry_ok_def)
  show "paths_ServiceControl ''web'' = Inr ''services/web/control.json''"
    by (simp add: paths_ServiceControl_def is_name_def isLowerAlnum_def reservedSegments_def rbind_def validateName_iff)
  show "validateServiceControl web_control = Inr ()"
    by (simp add: validateServiceControl_def web_control_def NewServiceControl_def zero_ServiceControl_def
      is_name_def isLowerAlnum_def reservedSegments_def rbind_def validateName_iff)
qed (simp_all add: web_sys_def web_opts_def web_control_def NewServiceControl_def zero_ServiceControl_def next_token_def
    TrimSpace_printable printable_def time_ok_int64 in_int64_def)

lemma web_acquire:
  "\<exists>h doc t. AcquireLease sys_world r ''web'' web_opts web_sys = (Inr (h, doc), t)"
proof -
  obtain e where e: "control_at (sys_objs web_sys) ''services/web/control.json'' = Some (e, web_control)"
    using web_facts(4) by blast
  show ?thesis
    using acquire_free [OF web_facts(1,3) e web_facts(5,6) _ _ web_facts(9-12), of r]
    by (auto simp: web_facts)
qed

theorem acquire_exclusive_witness:
  "\<exists>h doc t u e c. AcquireLease sys_world defaultRetryOptions ''web'' web_opts web_sys = (Inr (h, doc), t) \<and>
     control_at (sys_objs u) (scd_Key doc) = Some (e, c) \<and> lh_ETag h \<noteq> e \<and> lh_Owner h = ''worker-1'' \<and>
     sys_objs t = (sys_objs u)(scd_Key doc \<mapsto> (lh_ETag h, JsonBody (enc_ServiceControl (scd_Control doc))))"
proof -
  obtain h doc t where a: "AcquireLease sys_world defaultRetryOptions ''web'' web_opts web_sys = (Inr (h, doc), t)"
    using web_acquire by blast
  show ?thesis using acquire_exclusive [OF web_facts(2) a] a by (auto simp: web_opts_def)
qed

text \<open>
  C31: the outcome of an acquisition. For a client that runs alone on a valid document, the lease is
  granted exactly when it is free: with a lease that is active at the time of the call the result is
  \<^verbatim>\<open>ErrLeaseHeld\<close> naming that lease, and the store is untouched; otherwise the call returns a handle with
  the owner, the token drawn, generation one above the version, and expiry a duration from now.
\<close>

theorem acquire_decides:
  assumes "sys_env s = []" "paths_ServiceControl svc = Inr k" "control_at (sys_objs s) k = Some (e, c)"
    "validateServiceControl c = Inr ()" "sc_Service c = svc" "sc_Version c < 2 ^ 63 - 1"
    "TrimSpace (lop_Owner opts) \<noteq> []" "0 < lop_Duration opts" "TrimSpace (next_token s) \<noteq> []"
    "time_ok (sys_now s + lop_Duration opts)"
  shows "if activeLease (sc_Lease c) (sys_now s) = Inr True
    then \<exists>t. AcquireLease sys_world r svc opts s = (Inl (leaseHeldError svc k (sc_Lease c)), t) \<and>
           sys_store t = sys_store s
    else \<exists>h doc t. AcquireLease sys_world r svc opts s = (Inr (h, doc), t) \<and>
           h = \<lparr>lh_Service = svc, lh_Owner = lop_Owner opts, lh_Token = next_token s,
             lh_Generation = sc_Version c + 1, lh_ExpiresAt = sys_now s + lop_Duration opts, lh_ETag = scd_ETag doc\<rparr>"
proof (cases "activeLease (sc_Lease c) (sys_now s) = Inr True")
  case True
  then show ?thesis using acquire_held [OF assms(1-5) True assms(7-9)] by auto
next
  case False
  then have "activeLease (sc_Lease c) (sys_now s) = Inr False"
    using validateServiceControl_ok(5) [OF assms(4)]
    by (auto simp: activeLease_def validateLease_def split: option.splits if_splits)
  from acquire_free [OF assms(1-5) this assms(6-10), of r] False show ?thesis by auto
qed

theorem acquire_decides_witness:
  "\<exists>h doc t. AcquireLease sys_world defaultRetryOptions ''web'' web_opts web_sys = (Inr (h, doc), t) \<and>
     h = \<lparr>lh_Service = ''web'', lh_Owner = ''worker-1'', lh_Token = ''lease_a'', lh_Generation = 2,
       lh_ExpiresAt = 30000001000, lh_ETag = scd_ETag doc\<rparr>"
proof -
  obtain e where e: "control_at (sys_objs web_sys) ''services/web/control.json'' = Some (e, web_control)"
    using web_facts(4) by blast
  show ?thesis
    using acquire_decides [OF web_facts(1,3) e web_facts(5,6) _ web_facts(9-12), of defaultRetryOptions]
    by (simp add: web_facts activeLease_def) (simp add: web_opts_def web_sys_def next_token_def)
qed

text \<open>
  C2: fencing. After another client has acquired the lease of a service, the earlier holder can no
  longer heartbeat, release or update the service control document, whatever its handle says, however
  much later it tries and whatever else is written meanwhile.
\<close>

theorem stale_holder_fenced:
  assumes "sys_inv s" "AcquireLease sys_world r svc opts s = (Inr (h, doc), t)" "sys_evolves t s2"
    "AcquireLease sys_world r2 svc opts2 s2 = (Inr (h2, doc2), t2)" "sys_evolves t2 s3"
  shows "HeartbeatLease sys_world h d s3 \<noteq> (Inr x, v) \<and> ReleaseLease sys_world h s3 \<noteq> (Inr y, v) \<and>
    UpdateServiceControlWithLeaseCAS sys_world h f s3 \<noteq> (Inr x, v)"
proof -
  note a = acquire_stored [OF assms(1,2)]
  have i2: "sys_inv t" "sys_inv s2" using a(3) assms(1,3) sysw.evolves_inv by blast+
  note a2 = acquire_stored [OF i2(2) assms(4)]
  have k: "scd_Key doc2 = scd_Key doc" using a(1) a2(1) by simp
  obtain b where b: "sys_objs t (scd_Key doc) = Some (lh_ETag h, b)" using a(2) by blast
  obtain b2 where b2: "sys_objs t2 (scd_Key doc) = Some (lh_ETag h2, b2)" using a2(2) k by auto
  obtain u e c where u: "sys_evolves s2 u" "sys_evolves u t2" "control_at (sys_objs u) (scd_Key doc) = Some (e, c)"
    "lh_ETag h2 \<noteq> e"
    using a2(5) k by auto
  obtain bu where bu: "sys_objs u (scd_Key doc) = Some (e, bu)" using control_at_objs [OF u(3)] by blast
  have tu: "sys_evolves t u" "sys_evolves t t2" using assms(3) u(1,2) sysw.evolves_trans by blast+
  have ne: "lh_ETag h2 \<noteq> lh_ETag h"
    using sysw.etag_never_returns [OF i2(1) tu(1) u(2) b bu _ b2] u(4) by (cases "e = lh_ETag h") auto
  obtain e3 b3 where b3: "sys_objs s3 (scd_Key doc) = Some (e3, b3)"
    using sysw.objs_persist [OF assms(5) b2] by auto
  have ne3: "e3 \<noteq> lh_ETag h" using sysw.etag_never_returns [OF i2(1) tu(2) assms(5) b b2 ne b3] .
  have t3: "sys_evolves t s3" using tu(2) assms(5) sysw.evolves_trans by blast
  have p: "paths_ServiceControl (lh_Service h) = Inr (scd_Key doc)" using a(1,4) by simp
  have "\<not> sysw.holder_swap h s3 D new v" for D new
    using sysw.holder_fenced [OF i2(1) b t3 b3 ne3 p] .
  moreover have "sys_inv s3" using t3 i2(1) sysw.evolves_inv by blast
  ultimately show ?thesis
    using sysw.HeartbeatLease_swap [of s3 h d] sysw.ReleaseLease_swap [of h s3] sysw.UpdateWithLease_swap [of h f s3]
    by (cases x) blast
qed

text \<open>The lease on ''web'' is taken, expires after its 30 seconds, and is taken by another worker.\<close>

lemma web_reacquire:
  "\<exists>h doc t s2 h2 doc2 t2. AcquireLease sys_world r ''web'' web_opts web_sys = (Inr (h, doc), t) \<and> sys_evolves t s2 \<and>
     AcquireLease sys_world r ''web'' (web_opts\<lparr>lop_Owner := ''worker-2''\<rparr>) s2 = (Inr (h2, doc2), t2)"
proof -
  obtain e where e: "control_at (sys_objs web_sys) ''services/web/control.json'' = Some (e, web_control)"
    using web_facts(4) by blast
  obtain h doc t where a: "AcquireLease sys_world r ''web'' web_opts web_sys = (Inr (h, doc), t)"
    and t: "sys_env t = []" "sys_now t = 1000" "sc_Version (scd_Control doc) = 2"
      "activeLease (sc_Lease (scd_Control doc)) 30000001000 = Inr False"
    using acquire_free [OF web_facts(1,3) e web_facts(5,6) _ _ web_facts(9-12), of r]
    by (auto simp: web_facts) (auto simp: web_sys_def web_opts_def)
  note st = acquire_stored [OF web_facts(2) a]
  define s2 where "s2 = t\<lparr>sys_now := 30000001000, sys_tokens := [''lease_b'']\<rparr>"
  have s2: "sys_evolves t s2" "sys_env s2 = []" "sys_objs s2 = sys_objs t" "sys_now s2 = 30000001000"
    "next_token s2 = ''lease_b''"
    using t by (simp_all add: s2_def sys_evolves_idle sys_objs_def next_token_def)
  have "\<exists>h2 doc2 t2. AcquireLease sys_world r ''web'' (web_opts\<lparr>lop_Owner := ''worker-2''\<rparr>) s2 = (Inr (h2, doc2), t2)"
    using acquire_free [OF s2(2) st(1), of "scd_ETag doc" "scd_Control doc" "web_opts\<lparr>lop_Owner := ''worker-2''\<rparr>" r]
      st(6-8) t s2(3-5)
    by (auto simp: web_opts_def TrimSpace_printable printable_def time_ok_int64 in_int64_def)
  then show ?thesis using a s2(1) by blast
qed

theorem stale_holder_fenced_witness:
  "\<exists>h doc t s2 h2 doc2 t2. AcquireLease sys_world defaultRetryOptions ''web'' web_opts web_sys = (Inr (h, doc), t) \<and>
     sys_evolves t s2 \<and>
     AcquireLease sys_world defaultRetryOptions ''web'' (web_opts\<lparr>lop_Owner := ''worker-2''\<rparr>) s2 = (Inr (h2, doc2), t2) \<and>
     (\<forall>x v. HeartbeatLease sys_world h 30000000000 t2 \<noteq> (Inr x, v)) \<and> (\<forall>y v. ReleaseLease sys_world h t2 \<noteq> (Inr y, v))"
  using web_reacquire [of defaultRetryOptions] stale_holder_fenced [OF web_facts(2) _ _ _ sys_evolves_refl] by metis

text \<open>
  C4: a lease holder's writes. When \<^verbatim>\<open>HeartbeatLease\<close>, \<^verbatim>\<open>ReleaseLease\<close> or
  \<^verbatim>\<open>UpdateServiceControlWithLeaseCAS\<close> succeeds for a handle whose ETag was once stored, the document
  replaced is the one the handle was made from: it carries the handle's owner, token and generation,
  its lease was unexpired at a time between call and swap, and the new document is one version on
  (1 if the counter overflows). A heartbeat changes the lease's expiry only, a release removes the lease,
  and an update keeps it, whatever the caller's function did to it.
\<close>

theorem holder_writes:
  assumes "sys_inv t0" "sys_objs t0 k = Some (lh_ETag h, b0)" "sys_evolves t0 s"
    "paths_ServiceControl (lh_Service h) = Inr k"
    and op: "HeartbeatLease sys_world h d s = (Inr (h', doc), t) \<or> ReleaseLease sys_world h s = (Inr doc, t) \<or>
      UpdateServiceControlWithLeaseCAS sys_world h f s = (Inr (h', doc), t)"
  shows "\<exists>u c l x T. sys_evolves s u \<and> sys_evolves u t \<and> control_at (sys_objs u) k = Some (lh_ETag h, c) \<and>
    sc_Lease c = Some l \<and> lse_Owner l = lh_Owner h \<and> lse_Token l = lh_Token h \<and> lse_Generation l = lh_Generation h \<and>
    time_Parse (lse_ExpiresAt l) = Some T \<and> sys_now s \<le> x \<and> x \<le> sys_now u \<and> x < T \<and>
    sys_objs t = (sys_objs u)(k \<mapsto> (scd_ETag doc, JsonBody (enc_ServiceControl (scd_Control doc)))) \<and>
    sc_Version (scd_Control doc) = (let v = wrap64 (sc_Version c + 1) in if v \<le> 0 then 1 else v) \<and>
    ((HeartbeatLease sys_world h d s = (Inr (h', doc), t) \<and>
        (\<exists>y. sys_now s \<le> y \<and> y \<le> sys_now t \<and>
          sc_Lease (scd_Control doc) = Some (l\<lparr>lse_ExpiresAt := canonical_Time (y + d)\<rparr>))) \<or>
     (ReleaseLease sys_world h s = (Inr doc, t) \<and> sc_Lease (scd_Control doc) = None) \<or>
     (UpdateServiceControlWithLeaseCAS sys_world h f s = (Inr (h', doc), t) \<and> sc_Lease (scd_Control doc) = Some l))"
proof -
  have i: "sys_inv s" using assms(1,3) sysw.evolves_inv by blast
  note hs = sysw.holder_swap_ok [OF assms(1-4)]
  from op show ?thesis
  proof (elim disjE)
    assume o: "HeartbeatLease sys_world h d s = (Inr (h', doc), t)"
    have w: "\<forall>l nl. wf_Lease l \<longrightarrow> (\<exists>y. sys_now s \<le> y \<and> y \<le> sys_now t \<and>
        nl = Some (l\<lparr>lse_ExpiresAt := canonical_Time (y + d)\<rparr>)) \<longrightarrow> pred_option wf_Lease nl"
      by (auto simp: wf_Lease_def)
    from hs [OF conjunct2 [OF sysw.HeartbeatLease_swap [OF i o]] w] show ?thesis using o by blast
  next
    assume o: "ReleaseLease sys_world h s = (Inr doc, t)"
    have w: "\<forall>l nl. wf_Lease l \<longrightarrow> nl = None \<longrightarrow> pred_option wf_Lease nl" by simp
    from hs [OF sysw.ReleaseLease_swap [OF o] w] show ?thesis using o by blast
  next
    assume o: "UpdateServiceControlWithLeaseCAS sys_world h f s = (Inr (h', doc), t)"
    have w: "\<forall>l nl. wf_Lease l \<longrightarrow> nl = Some l \<longrightarrow> pred_option wf_Lease nl" by simp
    from hs [OF conjunct2 [OF sysw.UpdateWithLease_swap [OF o]] w] show ?thesis using o by blast
  qed
qed

lemma alone_Release:
  assumes "sys_env s = []" "paths_ServiceControl (lh_Service h) = Inr k" "control_at (sys_objs s) k = Some (lh_ETag h, c)"
    "validateServiceControl c = Inr ()" "sc_Service c = lh_Service h" "validateHandle h = Inr ()"
    "sc_Lease c = Some l" "lse_Owner l = lh_Owner h" "lse_Token l = lh_Token h" "lse_Generation l = lh_Generation h"
    "activeLease (Some l) (sys_now s) = Inr True" "sc_Version c < 2 ^ 63 - 1"
  shows "\<exists>doc t. ReleaseLease sys_world h s = (Inr doc, t)"
proof -
  obtain cur where cur: "GetServiceControl sys_world (lh_Service h) s = (Inr cur, s)" "scd_Key cur = k"
    "scd_ETag cur = lh_ETag h" "scd_Control cur = c"
    using alone_GetServiceControl [OF assms(1-5)] by blast
  obtain b where b: "sys_objs s (scd_Key (cur\<lparr>scd_ETag := lh_ETag h\<rparr>)) = Some (scd_ETag (cur\<lparr>scd_ETag := lh_ETag h\<rparr>), b)"
    using control_at_objs [OF assms(3)] cur(2) by auto
  note ok = validateServiceControl_ok [OF assms(4)]
  have w: "wrap64 (sc_Version c + 1) = sc_Version c + 1"
    using assms(12) ok(4) by (intro wrap64_id) (auto simp: in_int64_def)
  let ?next = "c\<lparr>sc_Lease := None\<rparr>"
  have nx: "nextServiceControl (cur\<lparr>scd_ETag := lh_ETag h\<rparr>) ?next = Inr (?next\<lparr>sc_Version := sc_Version c + 1\<rparr>)"
    using cur(4) ok w
    by (simp add: nextServiceControl_def normalizeServiceControl_def schema_Version_def is_name_def Let_def)
  have "validateServiceControl (?next\<lparr>sc_Version := sc_Version c + 1, sc_UpdatedAt := canonical_Time (sys_now s)\<rparr>) = Inr ()"
    using ok by (simp add: validateServiceControl_def rbind_def validateName_iff)
  from alone_Update [OF assms(1) b nx this] obtain doc t where
    upd: "UpdateServiceControlCAS sys_world (cur\<lparr>scd_ETag := lh_ETag h\<rparr>) ?next s = (Inr doc, t)" by blast
  have "ensureLeaseUsable h cur (sys_now s) = Inr ()"
    using assms(7-11) cur(4) by (simp add: ensureLeaseUsable_def ensureLeaseMatches_def rbind_def)
  then show ?thesis using cur upd assms(1,6)
    by (simp add: ReleaseLease_def io_bind_def orLeaseLoss_def io_try_def io_ret_def)
qed

lemma sys_etag_nonblank:
  assumes "sys_inv s" "sys_objs s k = Some (e, b)"
  shows "TrimSpace e \<noteq> []"
proof -
  obtain v where v: "e = ''etag-'' @ pad_nat 20 v"
    using assms memory_inv_entry [of "sys_store s" k]
    by (auto simp: sys_inv_def sys_objs_def memory_objs_def entry_ok_def etagForVersion_def)
  have "list_all printable (pad_nat 20 v)"
    using pad_nat_digits [of 20 v] by (auto simp: list_all_iff is_digit_def printable_def)
  then have "TrimSpace e = e" unfolding v by (intro TrimSpace_printable) (simp add: printable_def)
  then show ?thesis by (simp add: v)
qed

lemma web_release:
  "\<exists>h doc t doc' t'. AcquireLease sys_world r ''web'' web_opts web_sys = (Inr (h, doc), t) \<and>
     ReleaseLease sys_world h t = (Inr doc', t') \<and> lh_Token h = ''lease_a'' \<and> lh_Service h = ''web''"
proof -
  obtain e where e: "control_at (sys_objs web_sys) ''services/web/control.json'' = Some (e, web_control)"
    using web_facts(4) by blast
  obtain h doc t where a: "AcquireLease sys_world r ''web'' web_opts web_sys = (Inr (h, doc), t)"
    and h: "h = \<lparr>lh_Service = ''web'', lh_Owner = ''worker-1'', lh_Token = ''lease_a'', lh_Generation = 2,
       lh_ExpiresAt = 30000001000, lh_ETag = scd_ETag doc\<rparr>"
    and t: "sys_env t = []" "sys_now t = 1000" "sc_Version (scd_Control doc) = 2"
    using acquire_free [OF web_facts(1,3) e web_facts(5,6) _ _ web_facts(9-12), of r]
    by (auto simp: web_facts) (auto simp: web_sys_def web_opts_def next_token_def)
  note st = acquire_stored [OF web_facts(2) a]
  have hd: "handleFromDocument doc = Inr h" using sysw.AcquireLease_ok [OF web_facts(2) a] by blast
  then obtain l where l: "sc_Lease (scd_Control doc) = Some l" "lse_Owner l = lh_Owner h" "lse_Token l = lh_Token h"
    "lse_Generation l = lh_Generation h" "time_Parse (lse_ExpiresAt l) = Some (lh_ExpiresAt h)"
    by (auto simp: handleFromDocument_def split: option.splits)
  have v: "validateHandle h = Inr ()"
    using sys_etag_nonblank [of t] st(2,3) web_facts(2) sysw.evolves_inv h
    by (auto simp: validateHandle_def TrimSpace_printable printable_def)
  have "\<exists>doc' t'. ReleaseLease sys_world h t = (Inr doc', t')"
    by (rule alone_Release [OF t(1) _ _ st(7) _ v l(1-4)]) (use st h t l(5) in \<open>auto simp: activeLease_def\<close>)
  then show ?thesis using a h by auto
qed

theorem holder_writes_witness:
  "\<exists>h doc t doc' t' u c l. AcquireLease sys_world defaultRetryOptions ''web'' web_opts web_sys = (Inr (h, doc), t) \<and>
     ReleaseLease sys_world h t = (Inr doc', t') \<and>
     control_at (sys_objs u) ''services/web/control.json'' = Some (lh_ETag h, c) \<and> sc_Lease c = Some l \<and>
     lse_Token l = ''lease_a'' \<and> sys_objs t' = (sys_objs u)(''services/web/control.json'' \<mapsto>
       (scd_ETag doc', JsonBody (enc_ServiceControl (scd_Control doc'))))"
proof -
  obtain h doc t doc' t' where a: "AcquireLease sys_world defaultRetryOptions ''web'' web_opts web_sys = (Inr (h, doc), t)"
    and r: "ReleaseLease sys_world h t = (Inr doc', t')" and h: "lh_Token h = ''lease_a''" "lh_Service h = ''web''"
    using web_release by blast
  note st = acquire_stored [OF web_facts(2) a]
  have k: "scd_Key doc = ''services/web/control.json''" using st(1) web_facts(3) by simp
  obtain b where b: "sys_objs t ''services/web/control.json'' = Some (lh_ETag h, b)" using st(2) k by auto
  have i: "sys_inv t" using st(3) web_facts(2) sysw.evolves_inv by blast
  have p: "paths_ServiceControl (lh_Service h) = Inr ''services/web/control.json''" using h(2) web_facts(3) by simp
  obtain u c l where "control_at (sys_objs u) ''services/web/control.json'' = Some (lh_ETag h, c)" "sc_Lease c = Some l"
    "lse_Token l = lh_Token h" "sys_objs t' = (sys_objs u)(''services/web/control.json'' \<mapsto>
       (scd_ETag doc', JsonBody (enc_ServiceControl (scd_Control doc'))))"
    using holder_writes [OF i b sys_evolves_refl p disjI2 [OF disjI1 [OF r]]] by blast
  then show ?thesis using a r h(1) by auto
qed

text \<open>
  Creation. When \<^verbatim>\<open>CreateServiceControl\<close> succeeds and nobody else writes, reading the service back
  returns the very document created, and creating it again fails with \<^verbatim>\<open>ErrAlreadyExists\<close> and leaves
  the store as it was.
\<close>

theorem create_then_get:
  assumes "wf_ServiceControl c" "CreateServiceControl sys_world c s = (Inr doc, t)" "sys_env t = []"
  shows "(\<exists>doc'. GetServiceControl sys_world (sc_Service c) t = (Inr doc', t) \<and> scd_Key doc' = scd_Key doc \<and>
      scd_ETag doc' = scd_ETag doc \<and> scd_Control doc' = scd_Control doc) \<and>
    CreateServiceControl sys_world c t = (Inl (StoreError ''create'' (scd_Key doc) ErrAlreadyExists), t)"
proof -
  note cr = sysw.CreateServiceControl_ok [OF assms(2,1)]
  have "\<exists>doc'. GetServiceControl sys_world (sc_Service c) t = (Inr doc', t) \<and> scd_Key doc' = scd_Key doc \<and>
      scd_ETag doc' = scd_ETag doc \<and> scd_Control doc' = scd_Control doc"
    using alone_GetServiceControl [OF assms(3) cr(1,2,3,4)] .
  moreover obtain b where b: "sys_objs t (scd_Key doc) = Some (scd_ETag doc, b)"
    using control_at_objs [OF cr(2)] by blast
  have v: "validateServiceControl (normalizeServiceControl c') = Inr ()"
    if "c' = c \<or> c' = c\<lparr>sc_UpdatedAt := x\<rparr>" for c' x
    using cr(5) that by (auto simp: validateServiceControl_UpdatedAt)
  have "CreateServiceControl sys_world c t = (Inl (StoreError ''create'' (scd_Key doc) ErrAlreadyExists), t)"
    using assms(3) cr(1) v alone_Create_exists [OF assms(3) b]
    by (auto simp: CreateServiceControl_def io_bind_def io_ret_def canonical_Marshal_def Let_def)
  ultimately show ?thesis by blast
qed

definition empty_sys :: sys where
  "empty_sys = \<lparr>sys_store = memory_New, sys_now = 1000, sys_tokens = [], sys_events = [], sys_env = [], sys_history = []\<rparr>"

theorem create_then_get_witness:
  "\<exists>doc t doc'. CreateServiceControl sys_world web_control empty_sys = (Inr doc, t) \<and>
     GetServiceControl sys_world ''web'' t = (Inr doc', t) \<and> scd_Control doc' = scd_Control doc \<and>
     CreateServiceControl sys_world web_control t = (Inl (StoreError ''create'' (scd_Key doc) ErrAlreadyExists), t)"
proof -
  have wf: "wf_ServiceControl web_control"
    by (simp add: wf_ServiceControl_def web_control_def NewServiceControl_def zero_ServiceControl_def in_int64_def)
  have n: "normalizeServiceControl web_control = web_control" "sc_UpdatedAt web_control \<noteq> []"
    by (simp_all add: normalizeServiceControl_def web_control_def NewServiceControl_def zero_ServiceControl_def
        schema_Version_def Let_def)
  have e: "sys_env empty_sys = []" "sys_objs empty_sys ''services/web/control.json'' = None"
    by (simp_all add: empty_sys_def sys_objs_def memory_objs_def memory_New_def)
  obtain m t where c: "os_Create sys_world ''services/web/control.json'' (JsonBody (enc_ServiceControl web_control))
      (putOptionsForServiceControl web_control) empty_sys = (Inr m, t)" and t: "sys_env t = []"
    using alone_Create [OF e] by blast
  have "\<exists>doc. CreateServiceControl sys_world web_control empty_sys = (Inr doc, t)"
    using n c web_facts(3,5,6)
    by (simp add: CreateServiceControl_def io_bind_def canonical_Marshal_def Let_def)
  then obtain doc where d: "CreateServiceControl sys_world web_control empty_sys = (Inr doc, t)" by blast
  show ?thesis using create_then_get [OF wf d t] d web_facts(6) by auto
qed

text \<open>
  C32: retry delays. After normalisation there is at least one attempt, the base delay is not negative
  and not above the maximum, and the delay before attempt \<open>n\<close> is the base delay doubled \<open>n - 1\<close> times,
  capped at the maximum, as long as the maximum is below \<open>2 ^ 62\<close> nanoseconds (146 years), where
  doubling cannot overflow.
\<close>

theorem backoff_bounds:
  "1 \<le> ro_MaxAttempts (normalized r) \<and> 0 \<le> ro_BaseDelay (normalized r) \<and>
   ro_BaseDelay (normalized r) \<le> ro_MaxDelay (normalized r) \<and>
   (ro_MaxDelay (normalized r) < 2 ^ 62 \<longrightarrow>
     backoff_delay (normalized r) (Suc n) = min (ro_MaxDelay (normalized r)) (ro_BaseDelay (normalized r) * 2 ^ n))"
  using normalized_bounds [of r] backoff_loop_eq [of "ro_BaseDelay (normalized r)" "ro_MaxDelay (normalized r)"]
  by (simp add: backoff_delay_def)

theorem backoff_bounds_witness:
  "backoff_delay (normalized defaultRetryOptions) 4 = 8000000"
proof -
  have "backoff_delay (normalized defaultRetryOptions) (Suc 3) = 8000000"
    using backoff_bounds [of defaultRetryOptions 3] by (simp add: normalized_def defaultRetryOptions_def Let_def)
  then show ?thesis by (simp add: eval_nat_numeral)
qed

end
