(* ===== verification/Saga_Graph.thy ===== *)
theory Saga_Graph
  imports Schema Go_Error "HOL-Library.List_Lexorder" "HOL-Library.Char_ord" "HOL-Library.AList"
begin

text \<open>
  Dependency graphs of sagas (internal/saga/graph.go): which nodes are ready to run, the topological
  order of a graph by Kahn's algorithm with a sorted ready list, and the reverse order in which
  completed nodes are compensated. A Go map of step results is an association list with distinct
  keys; a missing entry reads as the zero result, whose status is empty.
\<close>

section \<open>Definitions\<close>

type_synonym results = "(string \<times> StepResult) list"

definition result_at :: "results \<Rightarrow> string \<Rightarrow> StepResult" where
  "result_at completed i = (case map_of completed i of None \<Rightarrow> zero_StepResult | Some r \<Rightarrow> r)"

definition resultSucceeded :: "StepResult \<Rightarrow> bool" where
  "resultSucceeded r = (sr_Status r = ''succeeded'')"

definition requiresForNode :: "SagaGraph \<Rightarrow> SagaNode \<Rightarrow> string list" where
  "requiresForNode graph node =
     (if sn_Requires node \<noteq> [] then sn_Requires node
      else sort (map se_From (filter (\<lambda>edge. se_To edge = sn_ID node) (sg_Edges graph))))"

text \<open>The first node whose id has been seen before.\<close>

fun first_duplicate :: "string list \<Rightarrow> SagaNode list \<Rightarrow> string option" where
  "first_duplicate seen [] = None"
| "first_duplicate seen (node # nodes) =
     (if sn_ID node \<in> set seen then Some (sn_ID node) else first_duplicate (sn_ID node # seen) nodes)"

definition node_blocked :: "SagaGraph \<Rightarrow> results \<Rightarrow> SagaNode \<Rightarrow> bool" where
  "node_blocked graph completed node =
     list_ex (\<lambda>required. case map_of completed required of
        None \<Rightarrow> True | Some r \<Rightarrow> \<not> resultSucceeded r) (requiresForNode graph node)"

definition ReadyNodes :: "SagaGraph \<Rightarrow> results \<Rightarrow> SagaNode list result" where
  "ReadyNodes graph completed = (case first_duplicate [] (sg_Nodes graph) of
      Some i \<Rightarrow> Inl (new_error (''duplicate saga node '' @ quote i))
    | None \<Rightarrow> Inr (sort_key sn_ID (filter (\<lambda>node. \<not> resultSucceeded (result_at completed (sn_ID node)) \<and>
                \<not> node_blocked graph completed node) (sg_Nodes graph))))"

definition node_ids :: "SagaGraph \<Rightarrow> string list" where
  "node_ids graph = map sn_ID (sg_Nodes graph)"

definition node_at :: "SagaGraph \<Rightarrow> string \<Rightarrow> SagaNode" where
  "node_at graph i = (case find (\<lambda>n. sn_ID n = i) (sg_Nodes graph) of None \<Rightarrow> zero_SagaNode | Some n \<Rightarrow> n)"

fun first_missing :: "SagaGraph \<Rightarrow> SagaNode list \<Rightarrow> (string \<times> string) option" where
  "first_missing graph [] = None"
| "first_missing graph (node # nodes) =
     (case find (\<lambda>required. required \<notin> set (node_ids graph)) (requiresForNode graph node) of
        Some required \<Rightarrow> Some (sn_ID node, required)
      | None \<Rightarrow> first_missing graph nodes)"

text \<open>
  \<open>indegree\<close> and \<open>outgoing\<close> as the second loop of \<^verbatim>\<open>TopologicalOrder\<close> leaves them: a requirement that is
  listed twice counts twice in both.
\<close>

definition indegrees :: "SagaGraph \<Rightarrow> string \<Rightarrow> int" where
  "indegrees graph i =
     int (sum_list (map (\<lambda>node. length (requiresForNode graph node)) (filter (\<lambda>node. sn_ID node = i) (sg_Nodes graph))))"

definition outgoing :: "SagaGraph \<Rightarrow> string \<Rightarrow> string list" where
  "outgoing graph i =
     concat (map (\<lambda>node. map (\<lambda>_. sn_ID node) (filter (\<lambda>required. required = i) (requiresForNode graph node)))
       (sg_Nodes graph))"

fun relax :: "(string \<Rightarrow> int) \<Rightarrow> string list \<Rightarrow> string list \<Rightarrow> (string \<Rightarrow> int) \<times> string list" where
  "relax indegree ready [] = (indegree, ready)"
| "relax indegree ready (next0 # rest) =
     (let indegree' = indegree(next0 := indegree next0 - 1)
      in if indegree' next0 = 0 then relax indegree' (sort (ready @ [next0])) rest
         else relax indegree' ready rest)"

text \<open>
  A pop shortens the ready list by one; a node enters it only when its degree falls from 1 to 0. So
  the length of the list plus the number of ids of positive degree falls with every turn of the loop.
\<close>

lemma filter_length_mono: "(\<And>x. P x \<Longrightarrow> Q x) \<Longrightarrow> length (filter P xs) \<le> length (filter Q xs)"
  by (induction xs) (simp_all add: le_SucI)

lemma filter_length_strict:
  "(\<And>x. P x \<Longrightarrow> Q x) \<Longrightarrow> x \<in> set xs \<Longrightarrow> Q x \<Longrightarrow> \<not> P x \<Longrightarrow> Suc (length (filter P xs)) \<le> length (filter Q xs)"
proof (induction xs)
  case (Cons y ys)
  have "length (filter P ys) \<le> length (filter Q ys)" using filter_length_mono Cons.prems(1) by blast
  then show ?case using Cons by (cases "x = y") auto
qed simp

lemma relax_measure:
  "set ns \<subseteq> set ids \<Longrightarrow> relax d ready ns = (d', ready') \<Longrightarrow>
     length ready' + length (filter (\<lambda>i. 0 < d' i) ids) \<le> length ready + length (filter (\<lambda>i. 0 < d i) ids)"
proof (induction ns arbitrary: d ready)
  case (Cons n ns)
  let ?d = "d(n := d n - 1)"
  have mono: "0 < ?d i \<Longrightarrow> 0 < d i" for i by (simp split: if_splits)
  show ?case
  proof (cases "?d n = 0")
    case True
    have "Suc (length (filter (\<lambda>i. 0 < ?d i) ids)) \<le> length (filter (\<lambda>i. 0 < d i) ids)"
      by (rule filter_length_strict [where x = n]) (use mono Cons.prems(1) True in auto)
    moreover have "relax ?d (sort (ready @ [n])) ns = (d', ready')" using Cons.prems(2) True by (simp add: Let_def)
    from Cons.IH [OF _ this] have "length ready' + length (filter (\<lambda>i. 0 < d' i) ids) \<le>
        length (sort (ready @ [n])) + length (filter (\<lambda>i. 0 < ?d i) ids)" using Cons.prems(1) by simp
    ultimately show ?thesis by simp
  next
    case False
    then have "relax ?d ready ns = (d', ready')" using Cons.prems(2) by (simp add: Let_def)
    from Cons.IH [OF _ this] show ?thesis using Cons.prems(1) filter_length_mono [of "\<lambda>i. 0 < ?d i" "\<lambda>i. 0 < d i" ids] mono by auto
  qed
qed simp

lemma outgoing_ids: "set (outgoing graph i) \<subseteq> set (node_ids graph)"
  by (auto simp: outgoing_def node_ids_def)

function kahn :: "SagaGraph \<Rightarrow> (string \<Rightarrow> int) \<Rightarrow> string list \<Rightarrow> SagaNode list \<Rightarrow> SagaNode list" where
  "kahn graph indegree [] ordered = ordered"
| "kahn graph indegree (i # ready) ordered =
     (case relax indegree ready (outgoing graph i) of (indegree', ready') \<Rightarrow>
        kahn graph indegree' ready' (ordered @ [node_at graph i]))"
  by pat_completeness auto
termination
proof (relation "measure (\<lambda>(graph, indegree, ready, ordered).
    length ready + length (filter (\<lambda>i. 0 < indegree i) (node_ids graph)))", goal_cases)
  case (2 graph indegree i ready ordered d' ready')
  then show ?case using relax_measure [OF outgoing_ids, of indegree ready graph i d' ready'] by simp
qed simp

definition TopologicalOrder :: "SagaGraph \<Rightarrow> SagaNode list result" where
  "TopologicalOrder graph = (case first_duplicate [] (sg_Nodes graph) of
      Some i \<Rightarrow> Inl (new_error (''duplicate saga node '' @ quote i))
    | None \<Rightarrow> (case first_missing graph (sg_Nodes graph) of
          Some (i, required) \<Rightarrow>
            Inl (new_error (''saga node '' @ quote i @ '' requires missing node '' @ quote required))
        | None \<Rightarrow>
            (let ready = sort (filter (\<lambda>i. indegrees graph i = 0) (node_ids graph));
                 ordered = kahn graph (indegrees graph) ready []
             in if length ordered \<noteq> length (sg_Nodes graph)
                then Inl (new_error ''saga graph contains a dependency cycle'')
                else Inr ordered)))"

definition ReverseTopologicalCompleted :: "SagaGraph \<Rightarrow> results option \<Rightarrow> SagaNode list result" where
  "ReverseTopologicalCompleted graph completed0 = (case completed0 of
      None \<Rightarrow> Inr []
    | Some completed \<Rightarrow>
        rbind (TopologicalOrder graph) (\<lambda>ordered.
        Inr (filter (\<lambda>node. resultSucceeded (result_at completed (sn_ID node))) (rev ordered))))"

section \<open>Lemmas\<close>

lemma first_duplicate_None:
  "first_duplicate seen nodes = None \<longleftrightarrow> distinct (map sn_ID nodes) \<and> set seen \<inter> sn_ID ` set nodes = {}"
  by (induction nodes arbitrary: seen) auto

lemma first_missing_None:
  "first_missing graph nodes = None \<longleftrightarrow>
     (\<forall>n \<in> set nodes. set (requiresForNode graph n) \<subseteq> set (node_ids graph))"
  by (induction nodes) (auto simp: find_None_iff find_Some_iff subset_iff split: option.splits)

text \<open>One turn of the loop, for a list in which no id occurs more often than its degree.\<close>

lemma relax_spec:
  assumes "\<forall>i \<in> set ns. int (count_list ns i) \<le> d i" "distinct ready" "set ready \<inter> set ns = {}"
    "relax d ready ns = (d', ready')"
  shows "d' = (\<lambda>i. d i - int (count_list ns i)) \<and> distinct ready' \<and>
    set ready' = set ready \<union> {i \<in> set ns. d i = int (count_list ns i)}"
  using assms
proof (induction ns arbitrary: d ready)
  case (Cons n ns)
  let ?d = "d(n := d n - 1)"
  have ih: "\<forall>i \<in> set ns. int (count_list ns i) \<le> ?d i" using Cons.prems(1) by auto
  show ?case
  proof (cases "?d n = 0")
    case True
    then have n: "n \<notin> set ns" using ih by (metis count_list_0_iff fun_upd_same of_nat_le_0_iff)
    have r: "relax ?d (sort (ready @ [n])) ns = (d', ready')" using Cons.prems(4) True by (simp add: Let_def)
    have "distinct (sort (ready @ [n]))" "set (sort (ready @ [n])) \<inter> set ns = {}"
      using Cons.prems(2,3) n by auto
    from Cons.IH [OF ih this r] show ?thesis using True n by (auto simp: fun_eq_iff)
  next
    case False
    have r: "relax ?d ready ns = (d', ready')" using Cons.prems(4) False by (simp add: Let_def)
    have "set ready \<inter> set ns = {}" using Cons.prems(3) by auto
    from Cons.IH [OF ih Cons.prems(2) this r] show ?thesis using False by (auto simp: fun_eq_iff)
  qed
qed simp

lemma count_list_outgoing:
  assumes "distinct (node_ids graph)" "node \<in> set (sg_Nodes graph)"
  shows "count_list (outgoing graph r) (sn_ID node) = count_list (requiresForNode graph node) r"
proof -
  let ?f = "\<lambda>n. map (\<lambda>_. sn_ID n) (filter (\<lambda>q. q = r) (requiresForNode graph n))"
  have const: "count_list (map (\<lambda>_. a) xs) i = (if a = i then length xs else 0)" for a i and xs :: "string list"
    by (induction xs) auto
  have len: "length (filter (\<lambda>q. q = r) xs) = count_list xs r" for xs by (induction xs) auto
  have zero: "\<forall>n \<in> set ns. sn_ID n \<noteq> sn_ID node \<Longrightarrow> count_list (concat (map ?f ns)) (sn_ID node) = 0" for ns
    by (induction ns) (auto simp: const)
  have "distinct (map sn_ID ns) \<Longrightarrow> node \<in> set ns \<Longrightarrow>
      count_list (concat (map ?f ns)) (sn_ID node) = count_list (requiresForNode graph node) r" for ns
  proof (induction ns)
    case (Cons n ns)
    show ?case
    proof (cases "n = node")
      case True
      then have "\<forall>m \<in> set ns. sn_ID m \<noteq> sn_ID node" using Cons.prems(1) by (simp add: image_iff) metis
      from zero [OF this] True show ?thesis by (simp add: const len)
    next
      case False
      then have "sn_ID n \<noteq> sn_ID node" using Cons.prems by auto
      then show ?thesis using Cons False by (simp add: const)
    qed
  qed simp
  then show ?thesis using assms by (simp add: outgoing_def node_ids_def)
qed

lemma node_at_eq:
  assumes "distinct (node_ids graph)" "node \<in> set (sg_Nodes graph)"
  shows "node_at graph (sn_ID node) = node"
proof -
  have "\<exists>n. find (\<lambda>n. sn_ID n = sn_ID node) (sg_Nodes graph) = Some n"
    using assms(2) find_None_iff [of "\<lambda>n. sn_ID n = sn_ID node" "sg_Nodes graph"] by auto
  then obtain n where n: "find (\<lambda>n. sn_ID n = sn_ID node) (sg_Nodes graph) = Some n" by blast
  then have "n \<in> set (sg_Nodes graph)" "sn_ID n = sn_ID node" by (auto simp: find_Some_iff)
  then have "n = node" using assms by (auto simp: node_ids_def distinct_map dest: inj_onD)
  then show ?thesis using n by (simp add: node_at_def)
qed

lemma node_at_id:
  assumes "distinct (node_ids graph)" "i \<in> set (node_ids graph)"
  shows "sn_ID (node_at graph i) = i" "node_at graph i \<in> set (sg_Nodes graph)"
  using assms node_at_eq [OF assms(1)] by (auto simp: node_ids_def)

lemma indegrees_eq:
  assumes "distinct (node_ids graph)" "node \<in> set (sg_Nodes graph)"
  shows "indegrees graph (sn_ID node) = int (length (requiresForNode graph node))"
proof -
  have "distinct (map sn_ID ns) \<Longrightarrow> node \<in> set ns \<Longrightarrow> filter (\<lambda>n. sn_ID n = sn_ID node) ns = [node]" for ns
  proof (induction ns)
    case (Cons n ns)
    show ?case
    proof (cases "n = node")
      case True
      then have "\<forall>m \<in> set ns. sn_ID m \<noteq> sn_ID node" using Cons.prems(1) by (simp add: image_iff) metis
      then show ?thesis using True by (simp add: filter_empty_conv)
    next
      case False
      then have "sn_ID n \<noteq> sn_ID node" using Cons.prems by auto
      then show ?thesis using Cons False by simp
    qed
  qed simp
  then show ?thesis using assms by (simp add: indegrees_def node_ids_def)
qed

text \<open>
  The invariant of the loop: \<open>ordered\<close> and \<open>ready\<close> hold, once each, exactly the nodes of degree 0;
  the degree of a node counts its requirements that are not ordered yet; and every node in
  \<open>ordered\<close> comes after its requirements.
\<close>

definition kahn_inv :: "SagaGraph \<Rightarrow> (string \<Rightarrow> int) \<Rightarrow> string list \<Rightarrow> SagaNode list \<Rightarrow> bool" where
  "kahn_inv graph d ready ordered \<longleftrightarrow>
     distinct (map sn_ID ordered @ ready) \<and> set ordered \<subseteq> set (sg_Nodes graph) \<and>
     set (map sn_ID ordered @ ready) = {i \<in> set (node_ids graph). d i = 0} \<and>
     (\<forall>n \<in> set (sg_Nodes graph).
        d (sn_ID n) = int (length (filter (\<lambda>r. r \<notin> sn_ID ` set ordered) (requiresForNode graph n)))) \<and>
     (\<forall>k < length ordered. set (requiresForNode graph (ordered ! k)) \<subseteq> sn_ID ` set (take k ordered))"

lemma filter_notin_insert:
  "i \<notin> A \<Longrightarrow> int (length (filter (\<lambda>r. r \<notin> insert i A) xs)) = int (length (filter (\<lambda>r. r \<notin> A) xs)) - int (count_list xs i)"
  by (induction xs) auto

lemma count_filter_notin: "i \<notin> A \<Longrightarrow> count_list xs i \<le> length (filter (\<lambda>r. r \<notin> A) xs)"
  by (induction xs) auto

lemma kahn_inv_step:
  assumes dist: "distinct (node_ids graph)" and inv: "kahn_inv graph d (i # ready) ordered"
    and rel: "relax d ready (outgoing graph i) = (d', ready')"
  shows "kahn_inv graph d' ready' (ordered @ [node_at graph i])"
proof -
  let ?A = "sn_ID ` set ordered"
  have di: "distinct (map sn_ID ordered @ i # ready)"
    and zs: "set (map sn_ID ordered @ i # ready) = {j \<in> set (node_ids graph). d j = 0}"
    and deg: "\<And>n. n \<in> set (sg_Nodes graph) \<Longrightarrow>
      d (sn_ID n) = int (length (filter (\<lambda>r. r \<notin> ?A) (requiresForNode graph n)))"
    and ord: "\<forall>k < length ordered. set (requiresForNode graph (ordered ! k)) \<subseteq> sn_ID ` set (take k ordered)"
    and sub: "set ordered \<subseteq> set (sg_Nodes graph)"
    using inv unfolding kahn_inv_def by auto
  have i: "i \<in> set (node_ids graph)" "d i = 0" "i \<notin> ?A" using di zs by auto
  note ni = node_at_id [OF dist i(1)]
  have cnt: "count_list (outgoing graph i) (sn_ID n) = count_list (requiresForNode graph n) i"
    if "n \<in> set (sg_Nodes graph)" for n using count_list_outgoing [OF dist that] .
  have le: "int (count_list (outgoing graph i) (sn_ID n)) \<le> d (sn_ID n)" if "n \<in> set (sg_Nodes graph)" for n
    using cnt [OF that] deg [OF that] count_filter_notin [OF i(3)] by simp
  have out: "\<exists>n \<in> set (sg_Nodes graph). j = sn_ID n" if "j \<in> set (outgoing graph i)" for j
    using that outgoing_ids [of graph i] by (auto simp: node_ids_def)
  have pos: "0 < d j" if "j \<in> set (outgoing graph i)" for j
    using out [OF that] le that count_list_0_iff [of "outgoing graph i" j] by force
  have dj: "set ready \<inter> set (outgoing graph i) = {}"
  proof -
    have "d j = 0" if "j \<in> set ready" for j using zs that by auto
    then show ?thesis using pos by force
  qed
  have "\<forall>j \<in> set (outgoing graph i). int (count_list (outgoing graph i) j) \<le> d j" using out le by force
  from relax_spec [OF this _ dj rel] di
  have d': "d' = (\<lambda>j. d j - int (count_list (outgoing graph i) j))" and r': "distinct ready'"
    "set ready' = set ready \<union> {j \<in> set (outgoing graph i). d j = int (count_list (outgoing graph i) j)}"
    by auto
  have deg': "d' (sn_ID n) = int (length (filter (\<lambda>r. r \<notin> insert i ?A) (requiresForNode graph n)))"
    if "n \<in> set (sg_Nodes graph)" for n
    using deg [OF that] cnt [OF that] filter_notin_insert [OF i(3), of "requiresForNode graph n"] d' by simp
  have reqs: "set (requiresForNode graph (node_at graph i)) \<subseteq> ?A"
    using deg [OF ni(2)] i(2) ni(1) by (auto simp: filter_empty_conv)
  have zero': "{j \<in> set (node_ids graph). d' j = 0} = ?A \<union> {i} \<union> set ready'"
    unfolding r'(2) d'
  proof (intro set_eqI iffI, goal_cases)
    case (1 j)
    then show ?case
      using zs count_list_0_iff [of "outgoing graph i" j] by (cases "j \<in> set (outgoing graph i)") auto
  next
    case (2 j)
    have "count_list (outgoing graph i) j = 0" if "d j = 0"
      using that pos [of j] count_list_0_iff [of "outgoing graph i" j] by (cases "j \<in> set (outgoing graph i)") auto
    moreover have "d j = 0" if "j \<in> ?A \<union> {i} \<union> set ready" using that zs by auto
    ultimately show ?case using 2 zs outgoing_ids [of graph i] by auto
  qed
  have "i \<notin> set ready'" "set ready' \<inter> ?A = {}"
  proof -
    have "j \<notin> set (outgoing graph i)" if "d j = 0" for j using pos [of j] that by auto
    moreover have "d i = 0" "\<And>j. j \<in> ?A \<Longrightarrow> d j = 0" using i zs by auto
    ultimately show "i \<notin> set ready'" "set ready' \<inter> ?A = {}" using di r'(2) by auto
  qed
  moreover have "set (requiresForNode graph ((ordered @ [node_at graph i]) ! k)) \<subseteq>
      sn_ID ` set (take k (ordered @ [node_at graph i]))" if "k < Suc (length ordered)" for k
    using that ord reqs by (cases "k = length ordered") (auto simp: nth_append)
  ultimately show ?thesis
    using di r'(1) zero' deg' sub ni by (auto simp: kahn_inv_def)
qed

lemma kahn_result:
  assumes "distinct (node_ids graph)" "kahn_inv graph d ready ordered"
  shows "\<exists>d'. kahn_inv graph d' [] (kahn graph d ready ordered)"
  using assms
proof (induction graph d ready ordered rule: kahn.induct)
  case (2 graph d i ready ordered)
  obtain d' ready' where r: "relax d ready (outgoing graph i) = (d', ready')" by fastforce
  from 2(1) [OF r [symmetric] 2(2) kahn_inv_step [OF 2(2,3) r]] show ?case using r by simp
qed auto

lemma kahn_inv_init:
  assumes "distinct (node_ids graph)"
  shows "kahn_inv graph (indegrees graph) (sort (filter (\<lambda>i. indegrees graph i = 0) (node_ids graph))) []"
  using assms indegrees_eq [OF assms] by (auto simp: kahn_inv_def)

text \<open>What an order and a cycle are: specifications of \<^verbatim>\<open>TopologicalOrder\<close>.\<close>

definition topological :: "SagaGraph \<Rightarrow> SagaNode list \<Rightarrow> bool" where
  "topological graph ordered \<longleftrightarrow>
     distinct (map sn_ID ordered) \<and> set ordered = set (sg_Nodes graph) \<and>
     (\<forall>k < length ordered. set (requiresForNode graph (ordered ! k)) \<subseteq> sn_ID ` set (take k ordered))"

definition dependency_cycle :: "SagaGraph \<Rightarrow> string set \<Rightarrow> bool" where
  "dependency_cycle graph C \<longleftrightarrow> C \<noteq> {} \<and> C \<subseteq> set (node_ids graph) \<and>
     (\<forall>n \<in> set (sg_Nodes graph). sn_ID n \<in> C \<longrightarrow> (\<exists>r \<in> set (requiresForNode graph n). r \<in> C))"

lemma topological_no_cycle:
  assumes "topological graph ordered"
  shows "\<not> dependency_cycle graph C"
proof
  assume c: "dependency_cycle graph C"
  let ?P = "\<lambda>k. k < length ordered \<and> sn_ID (ordered ! k) \<in> C"
  obtain i where "i \<in> C" "i \<in> set (node_ids graph)" using c by (auto simp: dependency_cycle_def)
  then have "\<exists>n \<in> set ordered. sn_ID n \<in> C" using assms by (auto simp: topological_def node_ids_def)
  then obtain k where "?P k" by (auto simp: in_set_conv_nth)
  then have k: "?P (LEAST k. ?P k)" by (rule LeastI)
  let ?k = "LEAST k. ?P k"
  have "ordered ! ?k \<in> set (sg_Nodes graph)" using k assms by (auto simp: topological_def)
  then obtain r where r: "r \<in> set (requiresForNode graph (ordered ! ?k))" "r \<in> C"
    using c k by (auto simp: dependency_cycle_def)
  then have "r \<in> sn_ID ` set (take ?k ordered)" using assms k by (auto simp: topological_def)
  then obtain j where "j < ?k" "?P j" using r(2) k by (auto simp: in_set_conv_nth)
  then show False using not_less_Least by blast
qed

lemma TopologicalOrder_cases:
  assumes "distinct (node_ids graph)" "\<forall>n \<in> set (sg_Nodes graph). set (requiresForNode graph n) \<subseteq> set (node_ids graph)"
  shows "(\<exists>ordered. TopologicalOrder graph = Inr ordered \<and> topological graph ordered) \<or>
    (TopologicalOrder graph = Inl (new_error ''saga graph contains a dependency cycle'') \<and> (\<exists>C. dependency_cycle graph C))"
proof -
  let ?ord = "kahn graph (indegrees graph) (sort (filter (\<lambda>i. indegrees graph i = 0) (node_ids graph))) []"
  obtain d where "kahn_inv graph d [] ?ord" using kahn_result [OF assms(1) kahn_inv_init [OF assms(1)]] by blast
  then have di: "distinct (map sn_ID ?ord)" and sub: "set ?ord \<subseteq> set (sg_Nodes graph)"
    and zs: "sn_ID ` set ?ord = {i \<in> set (node_ids graph). d i = 0}"
    and deg: "\<And>n. n \<in> set (sg_Nodes graph) \<Longrightarrow>
      d (sn_ID n) = int (length (filter (\<lambda>r. r \<notin> sn_ID ` set ?ord) (requiresForNode graph n)))"
    and ord: "\<forall>k < length ?ord. set (requiresForNode graph (?ord ! k)) \<subseteq> sn_ID ` set (take k ?ord)"
    by (auto simp: kahn_inv_def)
  have none: "first_duplicate [] (sg_Nodes graph) = None" "first_missing graph (sg_Nodes graph) = None"
    using assms by (simp_all add: first_duplicate_None first_missing_None node_ids_def)
  have dn: "distinct (sg_Nodes graph)" using assms(1) by (simp add: node_ids_def distinct_map)
  have dord: "distinct ?ord" using di by (simp add: distinct_map)
  show ?thesis
  proof (cases "length ?ord = length (sg_Nodes graph)")
    case True
    then have "set ?ord = set (sg_Nodes graph)"
      using sub dn dord by (metis card_subset_eq distinct_card finite_set)
    then show ?thesis using True none di ord by (simp add: TopologicalOrder_def topological_def Let_def)
  next
    case False
    let ?C = "set (node_ids graph) - sn_ID ` set ?ord"
    have "set ?ord \<noteq> set (sg_Nodes graph)" using False dn dord by (metis distinct_card)
    then obtain n where "n \<in> set (sg_Nodes graph)" "n \<notin> set ?ord" using sub by blast
    then have "sn_ID n \<in> ?C"
      using sub assms(1) by (auto simp: node_ids_def distinct_map dest: inj_onD)
    moreover have "\<exists>r \<in> set (requiresForNode graph n). r \<in> ?C"
      if n: "n \<in> set (sg_Nodes graph)" "sn_ID n \<in> ?C" for n
    proof -
      have "d (sn_ID n) \<noteq> 0" using n zs by auto
      then have "filter (\<lambda>r. r \<notin> sn_ID ` set ?ord) (requiresForNode graph n) \<noteq> []" using deg [OF n(1)] by auto
      then show ?thesis using assms(2) n(1) by (auto simp: filter_empty_conv)
    qed
    ultimately have "dependency_cycle graph ?C" by (auto simp: dependency_cycle_def)
    then show ?thesis using False none by (auto simp: TopologicalOrder_def Let_def)
  qed
qed

lemma TopologicalOrder_Inr:
  assumes "TopologicalOrder graph = Inr ordered"
  shows "topological graph ordered"
proof -
  have "first_duplicate [] (sg_Nodes graph) = None" "first_missing graph (sg_Nodes graph) = None"
    using assms by (auto simp: TopologicalOrder_def split: option.splits)
  then have "distinct (node_ids graph)"
    "\<forall>n \<in> set (sg_Nodes graph). set (requiresForNode graph n) \<subseteq> set (node_ids graph)"
    by (simp_all add: first_duplicate_None first_missing_None node_ids_def)
  from TopologicalOrder_cases [OF this] show ?thesis using assms by auto
qed

text \<open>In a topological order nothing requires itself or a later node, and this is kept by filtering.\<close>

lemma topological_sorted_wrt:
  assumes "topological graph ordered"
  shows "sorted_wrt (\<lambda>x y. sn_ID y \<notin> set (requiresForNode graph x)) ordered"
    "n \<in> set ordered \<Longrightarrow> sn_ID n \<notin> set (requiresForNode graph n)"
proof -
  have no: "sn_ID (ordered ! j) \<notin> set (requiresForNode graph (ordered ! i))" if "i \<le> j" "j < length ordered" for i j
  proof
    assume "sn_ID (ordered ! j) \<in> set (requiresForNode graph (ordered ! i))"
    then have "sn_ID (ordered ! j) \<in> sn_ID ` set (take i ordered)"
      using assms that unfolding topological_def by (metis order_le_less_trans subsetD)
    then obtain k where "k < i" "sn_ID (ordered ! k) = sn_ID (ordered ! j)" using that by (auto simp: in_set_conv_nth)
    moreover have "distinct (map sn_ID ordered)" using assms by (simp add: topological_def)
    ultimately show False using that nth_eq_iff_index_eq [of "map sn_ID ordered" k j] by simp
  qed
  show "sorted_wrt (\<lambda>x y. sn_ID y \<notin> set (requiresForNode graph x)) ordered"
    using no by (auto simp: sorted_wrt_iff_nth_less)
  show "n \<in> set ordered \<Longrightarrow> sn_ID n \<notin> set (requiresForNode graph n)" using no by (auto simp: in_set_conv_nth)
qed

definition succeeded_at :: "results \<Rightarrow> string \<Rightarrow> bool" where
  "succeeded_at completed i = resultSucceeded (result_at completed i)"

lemma succeeded_at_iff: "succeeded_at completed i \<longleftrightarrow> (\<exists>r. map_of completed i = Some r \<and> resultSucceeded r)"
  by (auto simp: succeeded_at_def result_at_def resultSucceeded_def zero_StepResult_def split: option.splits)

lemma node_blocked_iff:
  "node_blocked graph completed node \<longleftrightarrow> (\<exists>r \<in> set (requiresForNode graph node). \<not> succeeded_at completed r)"
  by (auto simp: node_blocked_def succeeded_at_iff list_ex_iff split: option.splits)

lemma ReadyNodes_set:
  assumes "ReadyNodes graph completed = Inr ready"
  shows "set ready = {n \<in> set (sg_Nodes graph). \<not> succeeded_at completed (sn_ID n) \<and>
      (\<forall>r \<in> set (requiresForNode graph n). succeeded_at completed r)}"
    "sorted (map sn_ID ready)" "distinct (map sn_ID ready)" "distinct (node_ids graph)"
proof -
  have d: "first_duplicate [] (sg_Nodes graph) = None"
    and r: "ready = sort_key sn_ID (filter (\<lambda>node. \<not> succeeded_at completed (sn_ID node) \<and>
              \<not> node_blocked graph completed node) (sg_Nodes graph))"
    using assms by (auto simp: ReadyNodes_def succeeded_at_def split: option.splits)
  show "distinct (node_ids graph)" using d by (simp add: first_duplicate_None node_ids_def)
  then have "inj_on sn_ID (set (sg_Nodes graph))" "distinct (sg_Nodes graph)"
    by (simp_all add: node_ids_def distinct_map)
  then show "distinct (map sn_ID ready)" unfolding r distinct_map by (auto intro: inj_on_subset)
  show "sorted (map sn_ID ready)" unfolding r by simp
  show "set ready = {n \<in> set (sg_Nodes graph). \<not> succeeded_at completed (sn_ID n) \<and>
      (\<forall>r \<in> set (requiresForNode graph n). succeeded_at completed r)}"
    unfolding r by (auto simp: node_blocked_iff)
qed

lemma ReadyNodes_Inr: "distinct (node_ids graph) \<Longrightarrow> \<exists>ready. ReadyNodes graph completed = Inr ready"
  by (simp add: ReadyNodes_def first_duplicate_None [THEN iffD2] node_ids_def)

section \<open>Properties\<close>

text \<open>
  C29: topological order. \<^verbatim>\<open>TopologicalOrder\<close> succeeds exactly when the node ids are distinct, every
  requirement names a node and no set of nodes depends on itself in a circle; its result then lists
  every node once, each after all nodes it requires.
\<close>

theorem topological_order_decides:
  "(TopologicalOrder graph = Inr ordered \<longrightarrow> topological graph ordered) \<and>
   ((\<exists>ordered. TopologicalOrder graph = Inr ordered) \<longleftrightarrow>
      distinct (node_ids graph) \<and>
      (\<forall>n \<in> set (sg_Nodes graph). set (requiresForNode graph n) \<subseteq> set (node_ids graph)) \<and>
      \<not> (\<exists>C. dependency_cycle graph C))"
proof -
  have "first_duplicate [] (sg_Nodes graph) = None \<and> first_missing graph (sg_Nodes graph) = None"
    if "\<exists>ordered. TopologicalOrder graph = Inr ordered"
    using that by (auto simp: TopologicalOrder_def split: option.splits)
  then have "distinct (node_ids graph) \<and> (\<forall>n \<in> set (sg_Nodes graph). set (requiresForNode graph n) \<subseteq> set (node_ids graph))"
    if "\<exists>ordered. TopologicalOrder graph = Inr ordered"
    using that by (simp add: first_duplicate_None first_missing_None node_ids_def)
  then show ?thesis
    using TopologicalOrder_Inr topological_no_cycle TopologicalOrder_cases [of graph] by blast
qed

text \<open>Three nodes: ''b'' and ''c'' require ''a'' (one by its node, one by an edge).\<close>

definition diamond_top :: SagaGraph where
  "diamond_top = zero_SagaGraph\<lparr>sg_SagaID := ''s1'',
     sg_Nodes := [zero_SagaNode\<lparr>sn_ID := ''c'', sn_Kind := ''k''\<rparr>,
       zero_SagaNode\<lparr>sn_ID := ''b'', sn_Kind := ''k'', sn_Requires := [''a'']\<rparr>,
       zero_SagaNode\<lparr>sn_ID := ''a'', sn_Kind := ''k''\<rparr>],
     sg_Edges := [\<lparr>se_From = ''a'', se_To = ''c''\<rparr>]\<rparr>"

lemma TopologicalOrder_diamond:
  "map_sum id (map sn_ID) (TopologicalOrder diamond_top) = Inr [''a'', ''b'', ''c'']"
  by code_simp

theorem topological_order_decides_witness:
  "\<exists>ordered. TopologicalOrder diamond_top = Inr ordered \<and> map sn_ID ordered = [''a'', ''b'', ''c''] \<and>
     topological diamond_top ordered \<and> \<not> (\<exists>C. dependency_cycle diamond_top C)"
proof -
  obtain ordered where o: "TopologicalOrder diamond_top = Inr ordered" "map sn_ID ordered = [''a'', ''b'', ''c'']"
    using TopologicalOrder_diamond by (cases "TopologicalOrder diamond_top") auto
  have "topological diamond_top ordered" "\<not> (\<exists>C. dependency_cycle diamond_top C)"
    using topological_order_decides [of diamond_top ordered] o(1) by metis+
  then show ?thesis using o by (intro exI [of _ ordered]) simp
qed

text \<open>
  Ready nodes. \<^verbatim>\<open>ReadyNodes\<close> returns, sorted by id and each once, exactly the nodes that have not
  succeeded and all of whose requirements have; and in a graph without cycles it returns at least one
  while a node is left to run, so an executor is never stuck.
\<close>

theorem ready_nodes_exact:
  assumes "ReadyNodes graph completed = Inr ready"
  shows "set ready = {n \<in> set (sg_Nodes graph). \<not> succeeded_at completed (sn_ID n) \<and>
      (\<forall>r \<in> set (requiresForNode graph n). succeeded_at completed r)} \<and>
    sorted (map sn_ID ready) \<and> distinct (map sn_ID ready) \<and>
    ((\<exists>ordered. TopologicalOrder graph = Inr ordered) \<and>
      (\<exists>n \<in> set (sg_Nodes graph). \<not> succeeded_at completed (sn_ID n)) \<longrightarrow> ready \<noteq> [])"
proof -
  note rs = ReadyNodes_set [OF assms]
  have "ready \<noteq> []" if ord: "TopologicalOrder graph = Inr ordered"
    and left: "\<exists>n \<in> set (sg_Nodes graph). \<not> succeeded_at completed (sn_ID n)" for ordered
  proof -
    let ?P = "\<lambda>k. k < length ordered \<and> \<not> succeeded_at completed (sn_ID (ordered ! k))"
    have top: "topological graph ordered" using TopologicalOrder_Inr [OF ord] .
    then obtain n where "n \<in> set ordered" "\<not> succeeded_at completed (sn_ID n)" using left by (auto simp: topological_def)
    then have "\<exists>k. ?P k" by (auto simp: in_set_conv_nth)
    then obtain k where k: "?P k" "\<forall>j < k. \<not> ?P j" using exists_least_iff [of ?P] by auto
    have "succeeded_at completed r" if r: "r \<in> set (requiresForNode graph (ordered ! k))" for r
    proof -
      have "r \<in> sn_ID ` set (take k ordered)" using top k(1) r unfolding topological_def by blast
      then obtain j where "j < k" "j < length ordered" "r = sn_ID (ordered ! j)" by (auto simp: in_set_conv_nth)
      then show ?thesis using k(2) by blast
    qed
    moreover have "ordered ! k \<in> set (sg_Nodes graph)" using top k(1) nth_mem unfolding topological_def by blast
    ultimately have "ordered ! k \<in> set ready" using rs(1) k(1) by simp
    then show ?thesis by auto
  qed
  then have "(\<exists>ordered. TopologicalOrder graph = Inr ordered) \<and>
      (\<exists>n \<in> set (sg_Nodes graph). \<not> succeeded_at completed (sn_ID n)) \<longrightarrow> ready \<noteq> []" by metis
  with rs(1-3) show ?thesis by (intro conjI)
qed

definition a_done :: results where
  "a_done = [(''a'', zero_StepResult\<lparr>sr_Status := ''succeeded''\<rparr>)]"

lemma ReadyNodes_diamond: "map_sum id (map sn_ID) (ReadyNodes diamond_top a_done) = Inr [''b'', ''c'']"
  by code_simp

theorem ready_nodes_exact_witness:
  "\<exists>ready. ReadyNodes diamond_top a_done = Inr ready \<and> map sn_ID ready = [''b'', ''c''] \<and> sorted (map sn_ID ready)"
proof -
  obtain ready where r: "ReadyNodes diamond_top a_done = Inr ready" "map sn_ID ready = [''b'', ''c'']"
    using ReadyNodes_diamond by (cases "ReadyNodes diamond_top a_done") auto
  have "sorted (map sn_ID ready)" using ready_nodes_exact [OF r(1)] by (elim conjE)
  then show ?thesis using r by (intro exI [of _ ready]) simp
qed

text \<open>
  Compensation order. \<^verbatim>\<open>ReverseTopologicalCompleted\<close> lists exactly the nodes that succeeded, once
  each, and a node always before any node it requires: work is undone before what it was built on.
\<close>

theorem compensation_order:
  assumes "ReverseTopologicalCompleted graph (Some completed) = Inr out"
  shows "set out = {n \<in> set (sg_Nodes graph). succeeded_at completed (sn_ID n)} \<and> distinct (map sn_ID out) \<and>
    (\<forall>i j. i < length out \<and> j < length out \<and> sn_ID (out ! j) \<in> set (requiresForNode graph (out ! i)) \<longrightarrow> i < j)"
proof -
  obtain ordered where o: "TopologicalOrder graph = Inr ordered"
    and out: "out = filter (\<lambda>node. succeeded_at completed (sn_ID node)) (rev ordered)"
    using assms by (auto simp: ReverseTopologicalCompleted_def succeeded_at_def rbind_Inr_iff)
  note top = TopologicalOrder_Inr [OF o]
  have sw: "sorted_wrt (\<lambda>y x. sn_ID y \<notin> set (requiresForNode graph x)) out"
    unfolding out sorted_wrt_rev rev_filter [symmetric] by (rule sorted_wrt_filter [OF topological_sorted_wrt(1) [OF top]])
  have "i < j" if ij: "i < length out" "j < length out" "sn_ID (out ! j) \<in> set (requiresForNode graph (out ! i))" for i j
  proof (rule ccontr)
    assume "\<not> i < j"
    then consider "i = j" | "j < i" by linarith
    then show False
    proof cases
      case 1
      have "out ! i \<in> set out" using ij(1) by simp
      then have "out ! i \<in> set ordered" by (auto simp: out)
      then show False using topological_sorted_wrt(2) [OF top] ij(3) 1 by blast
    next
      case 2
      then show False using sw ij by (auto simp: sorted_wrt_iff_nth_less)
    qed
  qed
  moreover have "set out = {n \<in> set (sg_Nodes graph). succeeded_at completed (sn_ID n)}"
    using top by (auto simp: out topological_def)
  moreover have "inj_on sn_ID (set ordered)" "distinct ordered"
    using top unfolding topological_def distinct_map by auto
  then have "distinct (map sn_ID out)" by (simp add: out distinct_map) (rule inj_on_subset, assumption, auto)
  ultimately show ?thesis by blast
qed

definition ab_done :: results where
  "ab_done = [(''a'', zero_StepResult\<lparr>sr_Status := ''succeeded''\<rparr>), (''b'', zero_StepResult\<lparr>sr_Status := ''succeeded''\<rparr>)]"

lemma ReverseTopologicalCompleted_diamond:
  "map_sum id (map sn_ID) (ReverseTopologicalCompleted diamond_top (Some ab_done)) = Inr [''b'', ''a'']"
  by code_simp

theorem compensation_order_witness:
  "\<exists>out. ReverseTopologicalCompleted diamond_top (Some ab_done) = Inr out \<and> map sn_ID out = [''b'', ''a''] \<and>
     distinct (map sn_ID out)"
proof -
  obtain out where r: "ReverseTopologicalCompleted diamond_top (Some ab_done) = Inr out" "map sn_ID out = [''b'', ''a'']"
    using ReverseTopologicalCompleted_diamond by (cases "ReverseTopologicalCompleted diamond_top (Some ab_done)") auto
  have "distinct (map sn_ID out)" using compensation_order [OF r(1)] by (elim conjE)
  then show ?thesis using r by (intro exI [of _ out]) simp
qed

end
