(* ===== verification/Cas_Document.thy ===== *)
theory Cas_Document
  imports Service_Control
begin

text \<open>
  The protocol every control document of Skiff follows: a client reads the document with its ETag and
  later swaps a new one in on an ETag. The locale states what a read and a swap promise of the world
  and derives, once for all documents, that a swap replaces what was read, that a swap makes every
  earlier ETag useless for ever, and that a handle whose ETag is outdated cannot write.
\<close>

text \<open>The document stored under a key, with its ETag, as \<open>view\<close> decodes it.\<close>

definition view_at :: "(body \<Rightarrow> 'c option) \<Rightarrow> (string \<rightharpoonup> (string \<times> body)) \<Rightarrow> string \<Rightarrow> (string \<times> 'c) option" where
  "view_at view m key = (case m key of
      None \<Rightarrow> None
    | Some (e, b) \<Rightarrow> (case view b of None \<Rightarrow> None | Some c \<Rightarrow> Some (e, c)))"

lemma view_at_Some: "view_at view m key = Some (e, c) \<longleftrightarrow> (\<exists>b. m key = Some (e, b) \<and> view b = Some c)"
  by (auto simp: view_at_def split: option.splits)

text \<open>The usual \<open>view\<close>: the body decodes as canonical JSON.\<close>

definition doc_view :: "(json \<Rightarrow> 'c result) \<Rightarrow> body \<Rightarrow> 'c option" where
  "doc_view dec b = (case canonical_UnmarshalStrict dec b of Inl _ \<Rightarrow> None | Inr c \<Rightarrow> Some c)"

lemma UnmarshalStrict_Inr: "canonical_UnmarshalStrict dec b = Inr x \<longleftrightarrow> (\<exists>j. b = JsonBody j \<and> dec j = Inr x)"
  by (cases b) (auto simp: canonical_UnmarshalStrict_def)

lemma doc_view_Some: "doc_view dec b = Some c \<longleftrightarrow> (\<exists>j. b = JsonBody j \<and> dec j = Inr c)"
  by (auto simp: doc_view_def UnmarshalStrict_Inr [symmetric] split: sum.splits)

locale cas_document = world W objs inv evolves writes clock
  for W :: "('s, 'z) World_scheme"
    and objs :: "'s \<Rightarrow> string \<rightharpoonup> (string \<times> body)"
    and inv :: "'s \<Rightarrow> bool"
    and evolves :: "'s \<Rightarrow> 's \<Rightarrow> bool"
    and writes :: "'s \<Rightarrow> string \<Rightarrow> string \<Rightarrow> body \<Rightarrow> 's \<Rightarrow> bool"
    and clock :: "'s \<Rightarrow> gotime" +
  fixes key :: string
    and view :: "body \<Rightarrow> 'c option"
    and reads :: "'s \<Rightarrow> string \<Rightarrow> 'c \<Rightarrow> 's \<Rightarrow> bool"
    and swaps :: "'s \<Rightarrow> string \<Rightarrow> string \<Rightarrow> 'c \<Rightarrow> 's \<Rightarrow> bool"
  assumes reads_law: "reads s e c t \<Longrightarrow> evolves s t \<and> view_at view (objs t) key = Some (e, c)"
    and swaps_law: "inv s \<Longrightarrow> swaps s e e' c' t \<Longrightarrow>
      \<exists>u b0 b'. evolves s u \<and> evolves u t \<and> objs u key = Some (e, b0) \<and>
        objs t = (objs u)(key \<mapsto> (e', b')) \<and> view b' = Some c' \<and> e' \<noteq> e \<and> writes u key e' b' t"
begin

lemma view_pins:
  assumes "inv s" "evolves s t" "view_at view (objs s) key = Some (e, c)" "objs t key = Some (e, b)"
  shows "view_at view (objs t) key = Some (e, c)"
  using assms etag_pins [OF assms(1,2)] by (auto simp: view_at_Some)

text \<open>A swap on the ETag that was read replaces the document that was read, in one write.\<close>

definition puts :: "'s \<Rightarrow> string \<Rightarrow> 'c \<Rightarrow> 's \<Rightarrow> bool" where
  "puts u e' c' t \<longleftrightarrow> (\<exists>b'. view b' = Some c' \<and> writes u key e' b' t)"


lemma swap_after_read:
  assumes "inv s" "reads s e c v" "evolves v v'" "swaps v' e e' c' t"
  shows "\<exists>u. evolves v' u \<and> evolves u t \<and> view_at view (objs u) key = Some (e, c) \<and>
    view_at view (objs t) key = Some (e', c') \<and> e' \<noteq> e \<and> (\<forall>k. k \<noteq> key \<longrightarrow> objs t k = objs u k) \<and> puts u e' c' t"
proof -
  have v: "evolves s v" "view_at view (objs v) key = Some (e, c)" using reads_law [OF assms(2)] by auto
  then have iv: "inv v" "inv v'" using assms(1,3) evolves_inv by blast+
  obtain u b0 b' where u: "evolves v' u" "evolves u t" "objs u key = Some (e, b0)"
    "objs t = (objs u)(key \<mapsto> (e', b'))" "view b' = Some c'" "e' \<noteq> e" "writes u key e' b' t"
    using swaps_law [OF iv(2) assms(4)] by blast
  then show ?thesis
    using view_pins [OF iv(1) evolves_trans [OF assms(3) u(1)] v(2) u(3)] by (auto simp: view_at_Some puts_def)
qed

text \<open>Once a stored ETag has been replaced, no swap on it succeeds.\<close>

lemma fenced:
  assumes "inv t0" "objs t0 key = Some (e, b0)" "evolves t0 s" "objs s key = Some (e1, b1)" "e1 \<noteq> e"
    "evolves s v"
  shows "\<not> swaps v e e' c' t"
proof
  assume sw: "swaps v e e' c' t"
  have "inv v" using assms(1,3,6) evolves_inv by blast
  then obtain u b where "evolves v u" "objs u key = Some (e, b)" using swaps_law [OF _ sw] by blast
  then show False using etag_never_returns [OF assms(1,3) _ assms(2,4,5)] evolves_trans [OF assms(6)] by blast
qed

text \<open>A swap by anybody, on whatever ETag, replaces every ETag stored before.\<close>

lemma swap_supersedes:
  assumes "inv t0" "objs t0 key = Some (e, b0)" "evolves t0 s" "swaps s e1 e2 c t"
  shows "\<exists>b. objs t key = Some (e2, b) \<and> e2 \<noteq> e \<and> evolves t0 t"
proof -
  have i: "inv s" using assms(1,3) evolves_inv by blast
  obtain u b0' b' where u: "evolves s u" "evolves u t" "objs u key = Some (e1, b0')"
    "objs t = (objs u)(key \<mapsto> (e2, b'))" "e2 \<noteq> e1"
    using swaps_law [OF i assms(4)] by blast
  have tu: "evolves t0 u" using assms(3) u(1) evolves_trans by blast
  have t: "objs t key = Some (e2, b')" using u(4) by simp
  have "e2 \<noteq> e"
    using u(5) etag_never_returns [OF assms(1) tu u(2) assms(2) u(3) _ t] by (cases "e1 = e") auto
  then show ?thesis using t evolves_trans [OF tu u(2)] by blast
qed

text \<open>
  A read and a swap on what was read: the swap is one write, right before it the store held the document that was read,
  and an ETag stored at any time until then is never stored again.
\<close>

definition outdated :: "string \<Rightarrow> 's \<Rightarrow> bool" where
  "outdated e s \<longleftrightarrow> (\<forall>t e1 b1. evolves s t \<and> objs t key = Some (e1, b1) \<longrightarrow> e1 \<noteq> e)"

lemma outdated_read: "outdated e s \<Longrightarrow> reads s e1 c z \<Longrightarrow> e1 \<noteq> e"
  using reads_law by (fastforce simp: outdated_def view_at_Some)

lemma read_then_swap:
  assumes "inv s" "reads s e c v" "evolves v v'" "swaps v' e e' c' t"
  shows "\<exists>u b. evolves v' u \<and> evolves u t \<and> writes u key e' b t \<and> view_at view (objs u) key = Some (e, c) \<and>
    view_at view (objs t) key = Some (e', c') \<and> e' \<noteq> e \<and>
    (\<forall>t0 e0 b0 s2. inv t0 \<and> objs t0 key = Some (e0, b0) \<and> evolves t0 u \<and> evolves t s2 \<longrightarrow> outdated e0 s2)"
proof -
  obtain u b where u: "evolves v' u" "evolves u t" "writes u key e' b t" "view_at view (objs u) key = Some (e, c)"
    "view_at view (objs t) key = Some (e', c')" "e' \<noteq> e"
    using swap_after_read [OF assms] unfolding puts_def by blast
  obtain b1 b2 where b: "objs u key = Some (e, b1)" "objs t key = Some (e', b2)" using u(4,5) by (auto simp: view_at_Some)
  have "outdated e0 s2" if p: "inv t0" "objs t0 key = Some (e0, b0)" "evolves t0 u" "evolves t s2" for t0 e0 b0 s2
  proof -
    have "e' \<noteq> e0" using u(6) etag_never_returns [OF p(1,3) u(2) p(2) b(1) _ b(2)] by (cases "e = e0") auto
    then show ?thesis unfolding outdated_def
      using etag_never_returns [OF p(1) evolves_trans [OF p(3) u(2)] _ p(2) b(2)] evolves_trans [OF p(4)] by blast
  qed
  then show ?thesis using u by blast
qed

text \<open>
  A holder whose ETag was once stored, who reads the document and then swaps on the old ETag: when
  the swap succeeds, what was read carries that very ETag, and it is what was replaced.
\<close>

lemma holder_swap_view:
  assumes "inv t0" "objs t0 key = Some (e, b0)" "evolves t0 s" "reads s e1 c v" "evolves v v'" "swaps v' e e' c' t"
  shows "e1 = e \<and> (\<exists>u. evolves v' u \<and> evolves u t \<and> view_at view (objs u) key = Some (e, c) \<and>
    view_at view (objs t) key = Some (e', c') \<and> e' \<noteq> e \<and> (\<forall>k. k \<noteq> key \<longrightarrow> objs t k = objs u k) \<and> puts u e' c' t)"
proof -
  have i: "inv s" using assms(1,3) evolves_inv by blast
  have v: "evolves s v" "view_at view (objs v) key = Some (e1, c)" using reads_law [OF assms(4)] by auto
  then obtain b1 where b1: "objs v key = Some (e1, b1)" by (auto simp: view_at_Some)
  have "e1 = e"
    using fenced [OF assms(1,2) evolves_trans [OF assms(3) v(1)] b1 _ assms(5)] assms(6) by blast
  then show ?thesis using swap_after_read [OF i _ assms(5,6)] assms(4) by blast
qed

text \<open>After a swap by anybody, no read returns an ETag stored before it.\<close>

lemma read_after_swap:
  assumes "inv t0" "objs t0 key = Some (e, b0)" "evolves t0 s" "swaps s e1 e2 c t" "evolves t s2" "reads s2 e' c' z"
  shows "e' \<noteq> e"
proof
  assume "e' = e"
  obtain b where b: "objs t key = Some (e2, b)" "e2 \<noteq> e" "evolves t0 t"
    using swap_supersedes [OF assms(1-4)] by blast
  have z: "evolves s2 z" "view_at view (objs z) key = Some (e', c')" using reads_law [OF assms(6)] by auto
  then obtain b' where "objs z key = Some (e, b')" using \<open>e' = e\<close> by (auto simp: view_at_Some)
  moreover have "evolves t z" using assms(5) z(1) evolves_trans by blast
  ultimately show False using etag_never_returns [OF assms(1) b(3) _ assms(2) b(1,2)] by blast
qed

end

end
