(* ===== verification/Saga_Store.thy ===== *)
theory Saga_Store
  imports Service_Control Saga_Graph Cas_Document
begin

text \<open>
  The documents of sagas in object storage (internal/saga: types.go, state.go, lease.go): an intent, a
  dependency graph and step results, each created once and never overwritten, and a control document
  that is swapped by ETag under a lease. Operations are those of \<^verbatim>\<open>saga.Store\<close>, over any world.
\<close>

section \<open>Documents\<close>

record IntentDocument =
  idoc_Key :: string
  idoc_ETag :: string
  idoc_Meta :: ObjectMeta
  idoc_Intent :: SagaIntent

record GraphDocument =
  gdoc_Key :: string
  gdoc_ETag :: string
  gdoc_Meta :: ObjectMeta
  gdoc_Graph :: SagaGraph

record ControlDocument =
  cdoc_Key :: string
  cdoc_ETag :: string
  cdoc_Meta :: ObjectMeta
  cdoc_Control :: SagaControl

record EventDocument =
  edoc_Key :: string
  edoc_ETag :: string
  edoc_Meta :: ObjectMeta
  edoc_Event :: Event

record StepResultDocument =
  rdoc_Key :: string
  rdoc_ETag :: string
  rdoc_Meta :: ObjectMeta
  rdoc_Result :: StepResult

record Documents =
  docs_Intent :: IntentDocument
  docs_Graph :: GraphDocument
  docs_Control :: ControlDocument

record CreateRequest =
  creq_Intent :: SagaIntent
  creq_Graph :: SagaGraph
  creq_Control :: SagaControl

record NodeSummary =
  ns_ID :: string
  ns_Kind :: string
  ns_Requires :: "string list"
  ns_Risk :: string
  ns_Reversibility :: string

record InspectResult =
  ir_SagaID :: string
  ir_Kind :: string
  ir_Target :: Target
  ir_Status :: string
  ir_CurrentSteps :: "string list"
  ir_Risk :: string
  ir_Reversibility :: string
  ir_UpdatedAt :: string
  ir_TraceID :: string
  ir_Intent :: SagaIntent
  ir_Graph :: SagaGraph
  ir_Control :: SagaControl
  ir_Nodes :: "NodeSummary list"
  ir_Paths :: "string \<rightharpoonup> string"

section \<open>Defaults and validation\<close>

definition normalizeIntent :: "SagaIntent \<Rightarrow> string \<Rightarrow> SagaIntent" where
  "normalizeIntent intent now =
     (let i1 = (if si_SchemaVersion intent = [] then intent\<lparr>si_SchemaVersion := schema_Version\<rparr> else intent)
      in if si_CreatedAt i1 = [] then i1\<lparr>si_CreatedAt := now\<rparr> else i1)"

definition normalizeGraph :: "SagaGraph \<Rightarrow> string \<Rightarrow> string \<Rightarrow> SagaGraph" where
  "normalizeGraph graph sagaID now =
     (let g1 = (if sg_SchemaVersion graph = [] then graph\<lparr>sg_SchemaVersion := schema_Version\<rparr> else graph);
          g2 = (if sg_SagaID g1 = [] then g1\<lparr>sg_SagaID := sagaID\<rparr> else g1)
      in if sg_CreatedAt g2 = [] then g2\<lparr>sg_CreatedAt := now\<rparr> else g2)"

definition normalizeControl :: "SagaControl \<Rightarrow> string \<Rightarrow> string \<Rightarrow> SagaControl" where
  "normalizeControl control sagaID now =
     (let c1 = (if sct_SchemaVersion control = [] then control\<lparr>sct_SchemaVersion := schema_Version\<rparr> else control);
          c2 = (if sct_SagaID c1 = [] then c1\<lparr>sct_SagaID := sagaID\<rparr> else c1);
          c3 = (if sct_Status c2 = [] then c2\<lparr>sct_Status := SagaPending\<rparr> else c2)
      in if sct_UpdatedAt c3 = [] then c3\<lparr>sct_UpdatedAt := now\<rparr> else c3)"

definition normalizeEvent :: "Event \<Rightarrow> string \<Rightarrow> string \<Rightarrow> Event" where
  "normalizeEvent event sagaID now =
     (let e1 = (if ev_SchemaVersion event = [] then event\<lparr>ev_SchemaVersion := schema_Version\<rparr> else event);
          e2 = (if ev_Time e1 = [] then e1\<lparr>ev_Time := now\<rparr> else e1);
          e3 = (if tgt_Kind (ev_Subject e2) = [] then e2\<lparr>ev_Subject := (ev_Subject e2)\<lparr>tgt_Kind := ''saga''\<rparr>\<rparr> else e2)
      in if tgt_Name (ev_Subject e3) = [] then e3\<lparr>ev_Subject := (ev_Subject e3)\<lparr>tgt_Name := sagaID\<rparr>\<rparr> else e3)"

definition normalizeStepResult :: "StepResult \<Rightarrow> StepResult" where
  "normalizeStepResult r = (if sr_SchemaVersion r = [] then r\<lparr>sr_SchemaVersion := schema_Version\<rparr> else r)"

definition validateRisk :: "string \<Rightarrow> unit result" where
  "validateRisk risk =
     (if risk \<in> {RiskLow, RiskMedium, RiskHigh, RiskCritical} then Inr ()
      else if risk = [] then Inl (new_error ''risk is required'')
      else Inl (new_error (''unsupported risk '' @ quote risk)))"

definition validateReversibility :: "string \<Rightarrow> unit result" where
  "validateReversibility v =
     (if v \<in> {Reversible, Compensatable, PartiallyReversible, Irreversible} then Inr ()
      else if v = [] then Inl (new_error ''reversibility is required'')
      else Inl (new_error (''unsupported reversibility '' @ quote v)))"

definition validateSagaStatus :: "string \<Rightarrow> unit result" where
  "validateSagaStatus status =
     (if status \<in> {SagaPending, SagaRunning, SagaCompensating, SagaSucceeded, SagaFailed, SagaCanceled} then Inr ()
      else Inl (new_error (''unsupported saga status '' @ quote status)))"

definition validateIntent :: "SagaIntent \<Rightarrow> unit result" where
  "validateIntent intent =
     (if si_SchemaVersion intent \<noteq> schema_Version then
        Inl (new_error (''unsupported saga intent schema version '' @ quote (si_SchemaVersion intent)))
      else rbind (validateID ''saga'' (si_SagaID intent)) (\<lambda>_.
        if TrimSpace (si_Kind intent) = [] then Inl (new_error ''saga kind is required'')
        else if TrimSpace (tgt_Kind (si_Target intent)) = [] \<or> TrimSpace (tgt_Name (si_Target intent)) = [] then
          Inl (new_error ''saga target kind and name are required'')
        else if TrimSpace (act_ID (si_Actor intent)) = [] \<or> TrimSpace (act_Type (si_Actor intent)) = [] then
          Inl (new_error ''saga actor id and type are required'')
        else if TrimSpace (si_TraceID intent) = [] then Inl (new_error ''saga trace id is required'')
        else rbind (validateRisk (si_Risk intent)) (\<lambda>_. validateReversibility (si_Reversibility intent))))"

definition validateNode :: "SagaNode \<Rightarrow> unit result" where
  "validateNode node =
     rbind (validateID ''node'' (sn_ID node)) (\<lambda>_.
     if TrimSpace (sn_Kind node) = [] then
       Inl (new_error (''saga node '' @ quote (sn_ID node) @ '' kind is required''))
     else rbind (if sn_Risk node = [] then Inr () else
         (case validateRisk (sn_Risk node) of Inr u \<Rightarrow> Inr u
          | Inl err \<Rightarrow> Inl (Errorf (''saga node '' @ quote (sn_ID node) @ '': '' @ err_text err) (Some err)))) (\<lambda>_.
       rbind (if sn_Reversibility node = [] then Inr () else
         (case validateReversibility (sn_Reversibility node) of Inr u \<Rightarrow> Inr u
          | Inl err \<Rightarrow> Inl (Errorf (''saga node '' @ quote (sn_ID node) @ '': '' @ err_text err) (Some err)))) (\<lambda>_.
       if (case sn_Retry node of None \<Rightarrow> False | Some retry \<Rightarrow> rp_MaxAttempts retry < 0) then
         Inl (new_error (''saga node '' @ quote (sn_ID node) @ '' retry max attempts must not be negative''))
       else if (case sn_Compensate node of None \<Rightarrow> False | Some spec \<Rightarrow> TrimSpace (cs_Kind spec) = []) then
         Inl (new_error (''saga node '' @ quote (sn_ID node) @ '' compensation kind is required''))
       else if \<not> raw_valid (sn_Params node) then
         Inl (new_error (''saga node '' @ quote (sn_ID node) @ '' params must be valid JSON''))
       else Inr ())))"

text \<open>The first loop of \<^verbatim>\<open>validateGraph\<close>: every node valid and new.\<close>

fun validateNodes :: "string list \<Rightarrow> SagaNode list \<Rightarrow> unit result" where
  "validateNodes seen [] = Inr ()"
| "validateNodes seen (node # nodes) =
     rbind (validateNode node) (\<lambda>_.
     if sn_ID node \<in> set seen then Inl (new_error (''duplicate saga node '' @ quote (sn_ID node)))
     else validateNodes (sn_ID node # seen) nodes)"

definition validateRequires :: "string list \<Rightarrow> SagaNode \<Rightarrow> unit result" where
  "validateRequires ids node = check_all (\<lambda>required.
     if required \<in> set ids then Inr ()
     else Inl (new_error (''saga node '' @ quote (sn_ID node) @ '' requires missing node '' @ quote required)))
     (sn_Requires node)"

definition validateEdge :: "string list \<Rightarrow> SagaEdge \<Rightarrow> unit result" where
  "validateEdge ids edge =
     (if se_From edge \<notin> set ids then Inl (new_error (''saga edge from missing node '' @ quote (se_From edge)))
      else if se_To edge \<notin> set ids then Inl (new_error (''saga edge to missing node '' @ quote (se_To edge)))
      else Inr ())"

definition validateGraph :: "SagaGraph \<Rightarrow> unit result" where
  "validateGraph graph =
     (if sg_SchemaVersion graph \<noteq> schema_Version then
        Inl (new_error (''unsupported saga graph schema version '' @ quote (sg_SchemaVersion graph)))
      else rbind (validateID ''saga'' (sg_SagaID graph)) (\<lambda>_.
        if sg_Nodes graph = [] then Inl (new_error ''saga graph must contain at least one node'')
        else rbind (validateNodes [] (sg_Nodes graph)) (\<lambda>_.
          rbind (check_all (validateRequires (node_ids graph)) (sg_Nodes graph)) (\<lambda>_.
          check_all (validateEdge (node_ids graph)) (sg_Edges graph)))))"

definition validateStepResultRef :: "StepResultRef \<Rightarrow> unit result" where
  "validateStepResultRef r =
     rbind (validateID ''step'' (srr_StepID r)) (\<lambda>_.
     if TrimSpace (srr_Kind r) = [] then Inl (new_error ''step result kind is required'')
     else if TrimSpace (srr_Status r) = [] then Inl (new_error ''step result status is required'')
     else if \<not> raw_valid (srr_Result r) then Inl (new_error ''step result payload must be valid JSON'')
     else if (case srr_Failure r of None \<Rightarrow> False | Some f \<Rightarrow> TrimSpace (sf_Code f) = []) then
       Inl (new_error ''step failure code is required'')
     else Inr ())"

definition validateControl :: "SagaControl \<Rightarrow> unit result" where
  "validateControl control =
     (if sct_SchemaVersion control \<noteq> schema_Version then
        Inl (new_error (''unsupported saga control schema version '' @ quote (sct_SchemaVersion control)))
      else rbind (validateID ''saga'' (sct_SagaID control)) (\<lambda>_.
        rbind (validateSagaStatus (sct_Status control)) (\<lambda>_.
        rbind (check_all (validateID ''current_step'') (sct_CurrentSteps control)) (\<lambda>_.
        check_all validateStepResultRef (sct_StepResults control)))))"

definition validateEvent :: "string \<Rightarrow> Event \<Rightarrow> unit result" where
  "validateEvent sagaID event =
     (if ev_SchemaVersion event \<noteq> schema_Version then
        Inl (new_error (''unsupported saga event schema version '' @ quote (ev_SchemaVersion event)))
      else rbind (validateID ''saga'' sagaID) (\<lambda>_.
        rbind (validateID ''event'' (ev_ID event)) (\<lambda>_.
        if tgt_Kind (ev_Subject event) \<noteq> ''saga'' \<or> tgt_Name (ev_Subject event) \<noteq> sagaID then
          Inl (new_error (''saga event subject must be saga '' @ quote sagaID))
        else if TrimSpace (ev_Type event) = [] then Inl (new_error ''saga event type is required'')
        else if TrimSpace (ev_Summary event) = [] then Inl (new_error ''saga event summary is required'')
        else Inr ())))"

definition validateStepResult :: "StepResult \<Rightarrow> unit result" where
  "validateStepResult r =
     (if sr_SchemaVersion r \<noteq> schema_Version then
        Inl (new_error (''unsupported step result schema version '' @ quote (sr_SchemaVersion r)))
      else rbind (validateID ''saga'' (sr_SagaID r)) (\<lambda>_.
        rbind (validateID ''step'' (sr_StepID r)) (\<lambda>_.
        if TrimSpace (sr_Kind r) = [] then Inl (new_error ''step result kind is required'')
        else if TrimSpace (sr_Status r) = [] then Inl (new_error ''step result status is required'')
        else if \<not> raw_valid (sr_Result r) then Inl (new_error ''step result payload must be valid JSON'')
        else Inr ())))"

definition validateCreateRequest :: "SagaIntent \<Rightarrow> SagaGraph \<Rightarrow> SagaControl \<Rightarrow> unit result" where
  "validateCreateRequest intent graph control =
     rbind (validateIntent intent) (\<lambda>_.
     if sg_SagaID graph \<noteq> si_SagaID intent then
       Inl (new_error (''saga graph names saga '' @ quote (sg_SagaID graph) @ '', want '' @ quote (si_SagaID intent)))
     else if sct_SagaID control \<noteq> si_SagaID intent then
       Inl (new_error (''saga control names saga '' @ quote (sct_SagaID control) @ '', want '' @ quote (si_SagaID intent)))
     else rbind (validateGraph graph) (\<lambda>_. validateControl control))"

section \<open>Reading and creating\<close>

definition saga_putOptions :: "string \<Rightarrow> string \<Rightarrow> PutOptions" where
  "saga_putOptions kind sagaID =
     \<lparr>po_ContentType = canonical_ContentType,
      po_Metadata = [''schema_version'' \<mapsto> schema_Version, ''kind'' \<mapsto> kind, ''saga_id'' \<mapsto> sagaID],
      po_KMSKeyID = []\<rparr>"

definition getStrict :: "('s, 'z) World_scheme \<Rightarrow> (json \<Rightarrow> 'a result) \<Rightarrow> string \<Rightarrow> ('s, 'a \<times> Object) io" where
  "getStrict W dec key =
     io_bind (os_Get W key) (\<lambda>obj.
     io_bind (io_lift (canonical_UnmarshalStrict dec (obj_Body obj))) (\<lambda>x.
     io_ret (x, obj)))"

definition CreateIntent :: "('s, 'z) World_scheme \<Rightarrow> SagaIntent \<Rightarrow> ('s, IntentDocument) io" where
  "CreateIntent W intent0 =
     io_bind (io_now W) (\<lambda>now.
     (let intent = normalizeIntent intent0 (canonical_Time now) in
      io_bind (io_lift (validateIntent intent)) (\<lambda>_.
      io_bind (io_lift (paths_SagaIntent (si_SagaID intent))) (\<lambda>key.
      io_bind (io_lift (canonical_Marshal enc_SagaIntent raws_ok_SagaIntent intent)) (\<lambda>body.
      io_bind (os_Create W key (JsonBody body) (saga_putOptions ''saga_intent'' (si_SagaID intent))) (\<lambda>meta.
      io_ret \<lparr>idoc_Key = key, idoc_ETag = om_ETag meta, idoc_Meta = meta, idoc_Intent = intent\<rparr>))))))"

definition CreateGraph :: "('s, 'z) World_scheme \<Rightarrow> SagaGraph \<Rightarrow> ('s, GraphDocument) io" where
  "CreateGraph W graph0 =
     io_bind (io_now W) (\<lambda>now.
     (let graph = normalizeGraph graph0 (sg_SagaID graph0) (canonical_Time now) in
      io_bind (io_lift (validateGraph graph)) (\<lambda>_.
      io_bind (io_lift (paths_SagaGraph (sg_SagaID graph))) (\<lambda>key.
      io_bind (io_lift (canonical_Marshal enc_SagaGraph raws_ok_SagaGraph graph)) (\<lambda>body.
      io_bind (os_Create W key (JsonBody body) (saga_putOptions ''saga_graph'' (sg_SagaID graph))) (\<lambda>meta.
      io_ret \<lparr>gdoc_Key = key, gdoc_ETag = om_ETag meta, gdoc_Meta = meta, gdoc_Graph = graph\<rparr>))))))"

definition CreateControl :: "('s, 'z) World_scheme \<Rightarrow> SagaControl \<Rightarrow> ('s, ControlDocument) io" where
  "CreateControl W control0 =
     io_bind (io_now W) (\<lambda>now.
     (let control = normalizeControl control0 (sct_SagaID control0) (canonical_Time now) in
      io_bind (io_lift (validateControl control)) (\<lambda>_.
      io_bind (io_lift (paths_SagaControl (sct_SagaID control))) (\<lambda>key.
      io_bind (io_lift (canonical_Marshal enc_SagaControl raws_ok_SagaControl control)) (\<lambda>body.
      io_bind (os_Create W key (JsonBody body) (saga_putOptions ''saga_control'' (sct_SagaID control))) (\<lambda>meta.
      io_ret \<lparr>cdoc_Key = key, cdoc_ETag = om_ETag meta, cdoc_Meta = meta, cdoc_Control = control\<rparr>))))))"

definition saga_Create :: "('s, 'z) World_scheme \<Rightarrow> CreateRequest \<Rightarrow> ('s, Documents) io" where
  "saga_Create W req =
     io_bind (io_now W) (\<lambda>t.
     (let now = canonical_Time t;
          intent = normalizeIntent (creq_Intent req) now;
          graph = normalizeGraph (creq_Graph req) (si_SagaID intent) now;
          control = normalizeControl (creq_Control req) (si_SagaID intent) now in
      io_bind (io_lift (validateCreateRequest intent graph control)) (\<lambda>_.
      io_bind (CreateIntent W intent) (\<lambda>intentDoc.
      io_bind (CreateGraph W graph) (\<lambda>graphDoc.
      io_bind (CreateControl W control) (\<lambda>controlDoc.
      io_ret \<lparr>docs_Intent = intentDoc, docs_Graph = graphDoc, docs_Control = controlDoc\<rparr>))))))"

definition GetIntent :: "('s, 'z) World_scheme \<Rightarrow> string \<Rightarrow> ('s, IntentDocument) io" where
  "GetIntent W sagaID =
     io_bind (io_lift (paths_SagaIntent sagaID)) (\<lambda>key.
     io_bind (getStrict W dec_SagaIntent key) (\<lambda>(intent, obj).
     io_bind (io_lift (validateIntent intent)) (\<lambda>_.
     if si_SagaID intent \<noteq> sagaID then
       io_fail (new_error (''saga intent '' @ quote key @ '' names saga '' @ quote (si_SagaID intent)))
     else (let meta = objectMetaFromObject obj in
       io_ret \<lparr>idoc_Key = key, idoc_ETag = om_ETag meta, idoc_Meta = meta, idoc_Intent = intent\<rparr>))))"

definition GetGraph :: "('s, 'z) World_scheme \<Rightarrow> string \<Rightarrow> ('s, GraphDocument) io" where
  "GetGraph W sagaID =
     io_bind (io_lift (paths_SagaGraph sagaID)) (\<lambda>key.
     io_bind (getStrict W dec_SagaGraph key) (\<lambda>(graph, obj).
     io_bind (io_lift (validateGraph graph)) (\<lambda>_.
     if sg_SagaID graph \<noteq> sagaID then
       io_fail (new_error (''saga graph '' @ quote key @ '' names saga '' @ quote (sg_SagaID graph)))
     else (let meta = objectMetaFromObject obj in
       io_ret \<lparr>gdoc_Key = key, gdoc_ETag = om_ETag meta, gdoc_Meta = meta, gdoc_Graph = graph\<rparr>))))"

definition GetControl :: "('s, 'z) World_scheme \<Rightarrow> string \<Rightarrow> ('s, ControlDocument) io" where
  "GetControl W sagaID =
     io_bind (io_lift (paths_SagaControl sagaID)) (\<lambda>key.
     io_bind (getStrict W dec_SagaControl key) (\<lambda>(control, obj).
     io_bind (io_lift (validateControl control)) (\<lambda>_.
     if sct_SagaID control \<noteq> sagaID then
       io_fail (new_error (''saga control '' @ quote key @ '' names saga '' @ quote (sct_SagaID control)))
     else (let meta = objectMetaFromObject obj in
       io_ret \<lparr>cdoc_Key = key, cdoc_ETag = om_ETag meta, cdoc_Meta = meta, cdoc_Control = control\<rparr>))))"

text \<open>On a stale ETag the error wraps \<^verbatim>\<open>state.ErrPreconditionFailed\<close>.\<close>

definition UpdateControlCAS ::
  "('s, 'z) World_scheme \<Rightarrow> ControlDocument \<Rightarrow> SagaControl \<Rightarrow> ('s, ControlDocument) io" where
  "UpdateControlCAS W current next0 =
     io_bind (io_now W) (\<lambda>now.
     (let next1 = normalizeControl next0 (sct_SagaID (cdoc_Control current)) (canonical_Time now) in
      if sct_SagaID next1 \<noteq> sct_SagaID (cdoc_Control current) then
        io_fail (new_error (''cannot change saga from '' @ quote (sct_SagaID (cdoc_Control current)) @ '' to '' @
          quote (sct_SagaID next1)))
      else
        io_bind (io_lift (validateControl next1)) (\<lambda>_.
        io_bind (io_lift (canonical_Marshal enc_SagaControl raws_ok_SagaControl next1)) (\<lambda>body.
        io_bind (io_try (os_CompareAndSwap W (cdoc_Key current) (cdoc_ETag current) (JsonBody body)
                   (saga_putOptions ''saga_control'' (sct_SagaID next1)))) (\<lambda>r. case r of
            Inl err \<Rightarrow>
              if is_store ErrPreconditionFailed err
              then io_fail (wrap_sentinel CodePreconditionFailed ''saga control ETag is stale'')
              else io_fail err
          | Inr meta \<Rightarrow>
              io_ret \<lparr>cdoc_Key = cdoc_Key current, cdoc_ETag = om_ETag meta, cdoc_Meta = meta,
                cdoc_Control = next1\<rparr>)))))"

definition saga_AppendEvent :: "('s, 'z) World_scheme \<Rightarrow> string \<Rightarrow> Event \<Rightarrow> ('s, EventDocument) io" where
  "saga_AppendEvent W sagaID event0 =
     io_bind (io_now W) (\<lambda>now.
     (let event = normalizeEvent event0 sagaID (canonical_Time now) in
      io_bind (io_lift (validateEvent sagaID event)) (\<lambda>_.
      io_bind (io_lift (paths_SagaEvent sagaID (ev_ID event))) (\<lambda>key.
      io_bind (io_lift (canonical_Marshal enc_Event raws_ok_Event event)) (\<lambda>body.
      io_bind (os_Create W key (JsonBody body) (saga_putOptions ''saga_event'' sagaID)) (\<lambda>meta.
      io_ret \<lparr>edoc_Key = key, edoc_ETag = om_ETag meta, edoc_Meta = meta, edoc_Event = event\<rparr>))))))"

definition CreateStepResult :: "('s, 'z) World_scheme \<Rightarrow> StepResult \<Rightarrow> ('s, StepResultDocument) io" where
  "CreateStepResult W result0 =
     (let result1 = normalizeStepResult result0 in
      io_bind (io_lift (validateStepResult result1)) (\<lambda>_.
      io_bind (io_lift (paths_SagaStepResult (sr_SagaID result1) (sr_StepID result1))) (\<lambda>key.
      io_bind (io_lift (canonical_Marshal enc_StepResult raws_ok_StepResult result1)) (\<lambda>body.
      io_bind (os_Create W key (JsonBody body) (saga_putOptions ''saga_step_result'' (sr_SagaID result1))) (\<lambda>meta.
      io_ret \<lparr>rdoc_Key = key, rdoc_ETag = om_ETag meta, rdoc_Meta = meta, rdoc_Result = result1\<rparr>)))))"

definition GetStepResult :: "('s, 'z) World_scheme \<Rightarrow> string \<Rightarrow> string \<Rightarrow> ('s, StepResultDocument) io" where
  "GetStepResult W sagaID stepID =
     io_bind (io_lift (paths_SagaStepResult sagaID stepID)) (\<lambda>key.
     io_bind (getStrict W dec_StepResult key) (\<lambda>(result1, obj).
     io_bind (io_lift (validateStepResult result1)) (\<lambda>_.
     (let meta = objectMetaFromObject obj in
      io_ret \<lparr>rdoc_Key = key, rdoc_ETag = om_ETag meta, rdoc_Meta = meta, rdoc_Result = result1\<rparr>))))"

fun firstNonEmpty :: "string list \<Rightarrow> string" where
  "firstNonEmpty [] = []"
| "firstNonEmpty (v # vs) = (if v \<noteq> [] then v else firstNonEmpty vs)"

definition saga_Inspect :: "('s, 'z) World_scheme \<Rightarrow> string \<Rightarrow> ('s, InspectResult) io" where
  "saga_Inspect W sagaID =
     io_bind (GetIntent W sagaID) (\<lambda>intent.
     io_bind (GetGraph W sagaID) (\<lambda>graph.
     io_bind (GetControl W sagaID) (\<lambda>control.
     (let paths0 = [''intent'' \<mapsto> idoc_Key intent, ''graph'' \<mapsto> gdoc_Key graph, ''control'' \<mapsto> cdoc_Key control];
          pathsOut = (case paths_SagaEventsPrefix sagaID of Inl _ \<Rightarrow> paths0 | Inr p \<Rightarrow> paths0(''events'' \<mapsto> p));
          nodes = map (\<lambda>node. \<lparr>ns_ID = sn_ID node, ns_Kind = sn_Kind node, ns_Requires = sn_Requires node,
            ns_Risk = sn_Risk node, ns_Reversibility = sn_Reversibility node\<rparr>) (sg_Nodes (gdoc_Graph graph))
      in io_ret \<lparr>ir_SagaID = sagaID, ir_Kind = si_Kind (idoc_Intent intent), ir_Target = si_Target (idoc_Intent intent),
           ir_Status = sct_Status (cdoc_Control control), ir_CurrentSteps = sct_CurrentSteps (cdoc_Control control),
           ir_Risk = si_Risk (idoc_Intent intent), ir_Reversibility = si_Reversibility (idoc_Intent intent),
           ir_UpdatedAt = sct_UpdatedAt (cdoc_Control control),
           ir_TraceID = firstNonEmpty [sct_TraceID (cdoc_Control control), si_TraceID (idoc_Intent intent)],
           ir_Intent = idoc_Intent intent, ir_Graph = gdoc_Graph graph, ir_Control = cdoc_Control control,
           ir_Nodes = nodes, ir_Paths = pathsOut\<rparr>))))"

section \<open>Leases\<close>

record SagaLeaseOptions =
  slo_Owner :: string
  slo_Duration :: int

record SagaLeaseHandle =
  slh_SagaID :: string
  slh_Owner :: string
  slh_Token :: string
  slh_Generation :: int
  slh_ExpiresAt :: gotime
  slh_ETag :: string

definition sagaLeaseActive :: "Lease option \<Rightarrow> gotime \<Rightarrow> bool result" where
  "sagaLeaseActive lease now = (case lease of
      None \<Rightarrow> Inr False
    | Some l \<Rightarrow> (case time_Parse (lse_ExpiresAt l) of
          None \<Rightarrow> Inl (TimeError ''parsing time'')
        | Some expiresAt \<Rightarrow> Inr (expiresAt > now)))"

definition ensureSagaLease :: "SagaLeaseHandle \<Rightarrow> ControlDocument \<Rightarrow> gotime \<Rightarrow> unit result" where
  "ensureSagaLease handle doc now = (case sct_Lease (cdoc_Control doc) of
      None \<Rightarrow> Inl (wrap_sentinel CodeLeaseLost ''saga control no longer has a lease'')
    | Some l \<Rightarrow>
        if slh_SagaID handle \<noteq> sct_SagaID (cdoc_Control doc) \<or> slh_Owner handle \<noteq> lse_Owner l \<or>
           slh_Token handle \<noteq> lse_Token l \<or> slh_Generation handle \<noteq> lse_Generation l
        then Inl (wrap_sentinel CodeLeaseLost ''saga control lease belongs to another executor'')
        else rbind (sagaLeaseActive (Some l) now) (\<lambda>active.
          if \<not> active then Inl (wrap_sentinel CodeLeaseLost ''saga control lease has expired'') else Inr ()))"

definition sagaLeaseHandle :: "ControlDocument \<Rightarrow> SagaLeaseHandle result" where
  "sagaLeaseHandle doc = (case sct_Lease (cdoc_Control doc) of
      None \<Rightarrow> Inl (wrap_sentinel CodeLeaseLost ''saga control does not contain a lease'')
    | Some l \<Rightarrow> (case time_Parse (lse_ExpiresAt l) of
          None \<Rightarrow> Inl (TimeError ''parsing time'')
        | Some expiresAt \<Rightarrow> Inr \<lparr>slh_SagaID = sct_SagaID (cdoc_Control doc), slh_Owner = lse_Owner l,
            slh_Token = lse_Token l, slh_Generation = lse_Generation l, slh_ExpiresAt = expiresAt,
            slh_ETag = cdoc_ETag doc\<rparr>))"

text \<open>\<^verbatim>\<open>randomToken\<close> draws a token from the world; \<^verbatim>\<open>UnixNano\<close> wraps outside \<open>int64\<close>.\<close>

definition saga_AcquireLease ::
  "('s, 'z) World_scheme \<Rightarrow> string \<Rightarrow> SagaLeaseOptions \<Rightarrow> ('s, SagaLeaseHandle \<times> ControlDocument) io" where
  "saga_AcquireLease W sagaID opts =
     (if slo_Owner opts = [] then io_fail (new_error ''saga lease owner is required'')
      else if slo_Duration opts \<le> 0 then io_fail (new_error ''saga lease duration must be positive'')
      else
        io_bind (GetControl W sagaID) (\<lambda>current.
        io_bind (io_now W) (\<lambda>now.
        io_bind (io_lift (sagaLeaseActive (sct_Lease (cdoc_Control current)) now)) (\<lambda>active.
        if active then
          io_fail (wrap_sentinel CodeLeaseHeld (''saga lease is held by '' @
            (case sct_Lease (cdoc_Control current) of None \<Rightarrow> [] | Some l \<Rightarrow> lse_Owner l)))
        else
          io_bind (io_token W) (\<lambda>token.
          io_bind (UpdateControlCAS W current ((cdoc_Control current)\<lparr>sct_Lease :=
             Some \<lparr>lse_Owner = slo_Owner opts, lse_Token = token, lse_Generation = wrap64 now,
               lse_ExpiresAt = canonical_Time (now + slo_Duration opts)\<rparr>\<rparr>)) (\<lambda>updated.
          io_bind (io_lift (sagaLeaseHandle updated)) (\<lambda>handle.
          io_ret (handle, updated))))))))"

definition saga_HeartbeatLease ::
  "('s, 'z) World_scheme \<Rightarrow> SagaLeaseHandle \<Rightarrow> int \<Rightarrow> ('s, SagaLeaseHandle \<times> ControlDocument) io" where
  "saga_HeartbeatLease W handle duration =
     (if duration \<le> 0 then io_fail (new_error ''saga lease heartbeat duration must be positive'')
      else
        io_bind (GetControl W (slh_SagaID handle)) (\<lambda>current.
        io_bind (io_now W) (\<lambda>now.
        io_bind (io_lift (ensureSagaLease handle current now)) (\<lambda>_.
        io_bind (io_now W) (\<lambda>now2.
        (let control = (cdoc_Control current)\<lparr>sct_Lease :=
               map_option (\<lambda>l. l\<lparr>lse_ExpiresAt := canonical_Time (now2 + duration)\<rparr>) (sct_Lease (cdoc_Control current))\<rparr>
         in io_bind (UpdateControlCAS W (current\<lparr>cdoc_ETag := slh_ETag handle, cdoc_Control := control\<rparr>) control) (\<lambda>updated.
            io_bind (io_lift (sagaLeaseHandle updated)) (\<lambda>nextHandle.
            io_ret (nextHandle, updated)))))))))"

definition saga_ReleaseLease :: "('s, 'z) World_scheme \<Rightarrow> SagaLeaseHandle \<Rightarrow> ('s, ControlDocument) io" where
  "saga_ReleaseLease W handle =
     io_bind (GetControl W (slh_SagaID handle)) (\<lambda>current.
     io_bind (io_now W) (\<lambda>now.
     io_bind (io_lift (ensureSagaLease handle current now)) (\<lambda>_.
     UpdateControlCAS W (current\<lparr>cdoc_ETag := slh_ETag handle\<rparr>) ((cdoc_Control current)\<lparr>sct_Lease := None\<rparr>))))"

definition UpdateControlWithLeaseCAS ::
  "('s, 'z) World_scheme \<Rightarrow> SagaLeaseHandle \<Rightarrow> (SagaControl \<Rightarrow> SagaControl result) \<Rightarrow>
   ('s, SagaLeaseHandle \<times> ControlDocument) io" where
  "UpdateControlWithLeaseCAS W handle mutate =
     io_bind (GetControl W (slh_SagaID handle)) (\<lambda>current.
     io_bind (io_now W) (\<lambda>now.
     io_bind (io_lift (ensureSagaLease handle current now)) (\<lambda>_.
     if cdoc_ETag current \<noteq> slh_ETag handle then
       io_fail (wrap_sentinel CodePreconditionFailed ''saga lease holder does not have latest control ETag'')
     else
       io_bind (io_lift (mutate (cdoc_Control current))) (\<lambda>next0.
       io_bind (UpdateControlCAS W current (next0\<lparr>sct_Lease := sct_Lease (cdoc_Control current)\<rparr>)) (\<lambda>updated.
       io_bind (io_lift (sagaLeaseHandle updated)) (\<lambda>nextHandle.
       io_ret (nextHandle, updated)))))))"

section \<open>What the operations do to the world\<close>

lemma normalizeControl_simps [simp]:
  "sct_Lease (normalizeControl c i n) = sct_Lease c" "sct_CurrentSteps (normalizeControl c i n) = sct_CurrentSteps c"
  "sct_StepResults (normalizeControl c i n) = sct_StepResults c" "sct_TraceID (normalizeControl c i n) = sct_TraceID c"
  by (simp_all add: normalizeControl_def Let_def)

lemma wf_control_iff:
  "wf_SagaControl c \<longleftrightarrow> pred_option wf_Lease (sct_Lease c) \<and> raws_ok_SagaControl c"
  by (auto simp: wf_SagaControl_def raws_ok_SagaControl_def wf_StepResultRef_def raws_ok_StepResultRef_def list_all_iff)

definition saga_key :: "string \<Rightarrow> string" where
  "saga_key sagaID = ''sagas/'' @ sagaID @ ''/control.json''"

definition saga_view :: "body \<Rightarrow> SagaControl option" where
  "saga_view b = (case canonical_UnmarshalStrict dec_SagaControl b of Inl _ \<Rightarrow> None | Inr c \<Rightarrow> Some c)"

lemma saga_view_Some: "saga_view b = Some c \<longleftrightarrow> (\<exists>j. b = JsonBody j \<and> dec_SagaControl j = Inr c)"
  by (cases b; cases "canonical_UnmarshalStrict dec_SagaControl b") (auto simp: saga_view_def canonical_UnmarshalStrict_def)

lemma validateControl_iff:
  "validateControl c = Inr () \<longleftrightarrow> sct_SchemaVersion c = schema_Version \<and> is_id (sct_SagaID c) \<and>
     sct_Status c \<in> {SagaPending, SagaRunning, SagaCompensating, SagaSucceeded, SagaFailed, SagaCanceled} \<and>
     (\<forall>i \<in> set (sct_CurrentSteps c). is_id i) \<and> (\<forall>r \<in> set (sct_StepResults c). validateStepResultRef r = Inr ())"
  by (auto simp: validateControl_def validateSagaStatus_def if_Inl_Inr_iff rbind_Inr_iff validateID_iff split: if_splits)

abbreviation saga_at :: "(string \<rightharpoonup> (string \<times> body)) \<Rightarrow> string \<Rightarrow> (string \<times> SagaControl) option" where
  "saga_at m sagaID \<equiv> view_at saga_view m (saga_key sagaID)"

definition saga_reads :: "('s, 'z) World_scheme \<Rightarrow> string \<Rightarrow> 's \<Rightarrow> string \<Rightarrow> SagaControl \<Rightarrow> 's \<Rightarrow> bool" where
  "saga_reads W sagaID s e c t \<longleftrightarrow>
     (\<exists>doc. GetControl W sagaID s = (Inr doc, t) \<and> cdoc_ETag doc = e \<and> cdoc_Control doc = c)"

definition saga_swaps :: "('s, 'z) World_scheme \<Rightarrow> string \<Rightarrow> 's \<Rightarrow> string \<Rightarrow> string \<Rightarrow> SagaControl \<Rightarrow> 's \<Rightarrow> bool" where
  "saga_swaps W sagaID s e e' c' t \<longleftrightarrow>
     (\<exists>cur n doc. UpdateControlCAS W cur n s = (Inr doc, t) \<and> cdoc_Key cur = saga_key sagaID \<and> cdoc_ETag cur = e \<and>
        pred_option wf_Lease (sct_Lease n) \<and> cdoc_ETag doc = e' \<and> cdoc_Control doc = c')"

lemma paths_SagaControl_Inr: "paths_SagaControl sagaID = Inr k \<longleftrightarrow> is_id sagaID \<and> k = saga_key sagaID"
  by (auto simp: paths_SagaControl_def rbind_Inr_iff saga_key_def)

context world
begin

lemma quiet_getStrict [simp]: "quiet (getStrict W dec key)"
  by (auto simp: getStrict_def)

lemma quiet_saga_ops [simp]:
  "quiet (CreateIntent W i)" "quiet (CreateGraph W g)" "quiet (CreateControl W c)" "quiet (GetIntent W k)"
  "quiet (GetGraph W k)" "quiet (GetControl W k)" "quiet (UpdateControlCAS W cur n)" "quiet (saga_AppendEvent W k e)"
  "quiet (CreateStepResult W r)" "quiet (GetStepResult W k j)"
  by (auto simp: CreateIntent_def CreateGraph_def CreateControl_def GetIntent_def GetGraph_def GetControl_def
      UpdateControlCAS_def saga_AppendEvent_def CreateStepResult_def GetStepResult_def Let_def)

lemma quiet_saga_leases [simp]:
  "quiet (saga_Create W req)" "quiet (saga_Inspect W k)" "quiet (saga_AcquireLease W k opts)"
  "quiet (saga_HeartbeatLease W h d)" "quiet (saga_ReleaseLease W h)" "quiet (UpdateControlWithLeaseCAS W h f)"
  by (auto simp: saga_Create_def saga_Inspect_def saga_AcquireLease_def saga_HeartbeatLease_def saga_ReleaseLease_def
      UpdateControlWithLeaseCAS_def Let_def)

lemma getStrict_ok:
  "getStrict W dec key s = (Inr (x, obj), t) \<Longrightarrow>
     evolves s t \<and> (\<exists>b. objs t key = Some (obj_ETag obj, b) \<and> canonical_UnmarshalStrict dec b = Inr x)"
  by (auto simp: getStrict_def io_ok_iffs dest: get_ok)

lemma GetGraph_ok:
  assumes "GetGraph W sagaID s = (Inr doc, t)"
  shows "\<exists>key j. paths_SagaGraph sagaID = Inr key \<and> objs t key = Some (gdoc_ETag doc, JsonBody j) \<and> dec_SagaGraph j = Inr (gdoc_Graph doc)"
proof -
  obtain key obj where g: "paths_SagaGraph sagaID = Inr key" "getStrict W dec_SagaGraph key s = (Inr (gdoc_Graph doc, obj), t)"
    "gdoc_ETag doc = obj_ETag obj"
    using assms by (auto simp: GetGraph_def io_ok_iffs Let_def objectMetaFromObject_def split: if_splits)
  then show ?thesis using getStrict_ok [OF g(2)] by (auto simp: UnmarshalStrict_Inr)
qed

lemma GetControl_ok:
  assumes "GetControl W sagaID s = (Inr doc, t)"
  shows "evolves s t" "saga_at (objs t) sagaID = Some (cdoc_ETag doc, cdoc_Control doc)" "cdoc_Key doc = saga_key sagaID"
    "is_id sagaID" "validateControl (cdoc_Control doc) = Inr ()" "sct_SagaID (cdoc_Control doc) = sagaID"
    "wf_SagaControl (cdoc_Control doc)"
proof -
  obtain obj where g: "getStrict W dec_SagaControl (saga_key sagaID) s = (Inr (cdoc_Control doc, obj), t)"
    "cdoc_ETag doc = obj_ETag obj" "cdoc_Key doc = saga_key sagaID" "is_id sagaID"
    "validateControl (cdoc_Control doc) = Inr ()" "sct_SagaID (cdoc_Control doc) = sagaID"
    using assms by (auto simp: GetControl_def io_ok_iffs Let_def objectMetaFromObject_def paths_SagaControl_Inr)
  show "evolves s t" "saga_at (objs t) sagaID = Some (cdoc_ETag doc, cdoc_Control doc)"
    using getStrict_ok [OF g(1)] g(2) by (auto simp: view_at_Some saga_view_def)
  show "wf_SagaControl (cdoc_Control doc)"
    using getStrict_ok [OF g(1)] by (auto simp: UnmarshalStrict_Inr dec_wf)
qed (use assms in \<open>auto simp: GetControl_def io_ok_iffs Let_def paths_SagaControl_Inr\<close>)

lemma UpdateControlCAS_ok:
  assumes "inv s" "UpdateControlCAS W cur n s = (Inr doc, t)"
  shows "\<exists>u b0 now. evolves s u \<and> evolves u t \<and> objs u (cdoc_Key cur) = Some (cdoc_ETag cur, b0) \<and>
      objs t = (objs u)(cdoc_Key cur \<mapsto> (cdoc_ETag doc, JsonBody (enc_SagaControl (cdoc_Control doc)))) \<and>
      cdoc_ETag doc \<noteq> cdoc_ETag cur \<and> cdoc_Key doc = cdoc_Key cur \<and>
      cdoc_Control doc = normalizeControl n (sct_SagaID (cdoc_Control cur)) (canonical_Time now) \<and>
      sct_SagaID (cdoc_Control doc) = sct_SagaID (cdoc_Control cur) \<and>
      validateControl (cdoc_Control doc) = Inr () \<and> raws_ok_SagaControl (cdoc_Control doc) \<and>
      writes u (cdoc_Key cur) (cdoc_ETag doc) (JsonBody (enc_SagaControl (cdoc_Control doc))) t"
proof -
  obtain now v meta where now: "io_now W s = (Inr now, v)"
    and *: "cdoc_Control doc = normalizeControl n (sct_SagaID (cdoc_Control cur)) (canonical_Time now)"
      "sct_SagaID (cdoc_Control doc) = sct_SagaID (cdoc_Control cur)" "validateControl (cdoc_Control doc) = Inr ()"
      "raws_ok_SagaControl (cdoc_Control doc)" "cdoc_Key doc = cdoc_Key cur" "cdoc_ETag doc = om_ETag meta"
    and cas: "os_CompareAndSwap W (cdoc_Key cur) (cdoc_ETag cur) (JsonBody (enc_SagaControl (cdoc_Control doc)))
      (saga_putOptions ''saga_control'' (sct_SagaID (cdoc_Control doc))) v = (Inr meta, t)"
    using assms(2)
    by (auto simp: UpdateControlCAS_def io_ok_iffs Let_def canonical_Marshal_def split: if_splits)
  have v: "evolves s v" using io_now_Inr [OF now] by blast
  obtain u b0 where u: "evolves v u" "evolves u t" "objs u (cdoc_Key cur) = Some (cdoc_ETag cur, b0)"
    "objs t = (objs u)(cdoc_Key cur \<mapsto> (om_ETag meta, JsonBody (enc_SagaControl (cdoc_Control doc))))"
    "om_ETag meta \<noteq> cdoc_ETag cur" "writes u (cdoc_Key cur) (om_ETag meta) (JsonBody (enc_SagaControl (cdoc_Control doc))) t"
    using cas_ok [OF evolves_inv [OF v assms(1)] cas] by blast
  show ?thesis using u * evolves_trans [OF v u(1)] by (intro exI [of _ u] exI [of _ b0] exI [of _ now]) simp
qed

end

sublocale world < saga_doc: cas_document W objs inv evolves writes clock "saga_key sagaID" saga_view
    "saga_reads W sagaID" "saga_swaps W sagaID" for sagaID
proof (unfold_locales, goal_cases)
  case (1 s e c t)
  then show ?case using GetControl_ok by (auto simp: saga_reads_def)
next
  case (2 s e e' c' t)
  then obtain cur n doc where up: "UpdateControlCAS W cur n s = (Inr doc, t)" "cdoc_Key cur = saga_key sagaID"
    "cdoc_ETag cur = e" "pred_option wf_Lease (sct_Lease n)" "cdoc_ETag doc = e'" "cdoc_Control doc = c'"
    unfolding saga_swaps_def by blast
  obtain u b0 now where u: "evolves s u" "evolves u t" "objs u (cdoc_Key cur) = Some (cdoc_ETag cur, b0)"
    "objs t = (objs u)(cdoc_Key cur \<mapsto> (cdoc_ETag doc, JsonBody (enc_SagaControl (cdoc_Control doc))))"
    "cdoc_ETag doc \<noteq> cdoc_ETag cur" "raws_ok_SagaControl (cdoc_Control doc)"
    "cdoc_Control doc = normalizeControl n (sct_SagaID (cdoc_Control cur)) (canonical_Time now)"
    "writes u (cdoc_Key cur) (cdoc_ETag doc) (JsonBody (enc_SagaControl (cdoc_Control doc))) t"
    using UpdateControlCAS_ok [OF 2(1) up(1)] by blast
  have "wf_SagaControl c'" using u(6,7) up(4,6) by (simp add: wf_control_iff)
  then have "saga_view (JsonBody (enc_SagaControl c')) = Some c'"
    by (simp add: saga_view_def canonical_UnmarshalStrict_def codec_simps)
  then show ?case using u up
    by (intro exI [of _ u] exI [of _ b0] exI [of _ "JsonBody (enc_SagaControl c')"]) simp
qed

context world
begin

lemma saga_reads_GetControl:
  "GetControl W sagaID s = (Inr doc, t) \<Longrightarrow> saga_reads W sagaID s (cdoc_ETag doc) (cdoc_Control doc) t"
  by (auto simp: saga_reads_def)

lemma saga_swaps_Update:
  "UpdateControlCAS W cur n s = (Inr doc, t) \<Longrightarrow> cdoc_Key cur = saga_key sagaID \<Longrightarrow> pred_option wf_Lease (sct_Lease n) \<Longrightarrow>
     saga_swaps W sagaID s (cdoc_ETag cur) (cdoc_ETag doc) (cdoc_Control doc) t"
  by (auto simp: saga_swaps_def)

lemma CreateStepResult_ok:
  assumes "CreateStepResult W r s = (Inr d, t)"
  shows "paths_SagaStepResult (sr_SagaID r) (sr_StepID r) = Inr (rdoc_Key d)"
    "objs t (rdoc_Key d) = Some (rdoc_ETag d, JsonBody (enc_StepResult (rdoc_Result d)))"
    "\<exists>u. evolves s u \<and> evolves u t \<and> objs u (rdoc_Key d) = None"
proof -
  let ?r = "normalizeStepResult r"
  obtain key m where *: "paths_SagaStepResult (sr_SagaID ?r) (sr_StepID ?r) = Inr key"
    "os_Create W key (JsonBody (enc_StepResult ?r)) (saga_putOptions ''saga_step_result'' (sr_SagaID ?r)) s = (Inr m, t)"
    "d = \<lparr>rdoc_Key = key, rdoc_ETag = om_ETag m, rdoc_Meta = m, rdoc_Result = ?r\<rparr>"
    using assms by (auto simp: CreateStepResult_def io_ok_iffs Let_def canonical_Marshal_def split: if_splits)
  show "paths_SagaStepResult (sr_SagaID r) (sr_StepID r) = Inr (rdoc_Key d)"
    using *(1,3) by (simp add: normalizeStepResult_def split: if_splits)
  show "objs t (rdoc_Key d) = Some (rdoc_ETag d, JsonBody (enc_StepResult (rdoc_Result d)))"
    "\<exists>u. evolves s u \<and> evolves u t \<and> objs u (rdoc_Key d) = None"
    using create_ok [OF *(2)] *(3) by auto
qed

text \<open>Acquisition: one read, one swap on what was read.\<close>

lemma saga_AcquireLease_ok:
  assumes "inv s" "saga_AcquireLease W sagaID opts s = (Inr (h, doc), t)"
  shows "\<exists>v v' e c x tok. saga_reads W sagaID s e c v \<and> evolves v v' \<and> clock s \<le> x \<and> x \<le> clock v' \<and>
    sagaLeaseActive (sct_Lease c) x = Inr False \<and> saga_swaps W sagaID v' e (cdoc_ETag doc) (cdoc_Control doc) t \<and>
    sct_Lease (cdoc_Control doc) = Some \<lparr>lse_Owner = slo_Owner opts, lse_Token = tok, lse_Generation = wrap64 x,
      lse_ExpiresAt = canonical_Time (x + slo_Duration opts)\<rparr> \<and>
    sct_StepResults (cdoc_Control doc) = sct_StepResults c \<and> sct_Status (cdoc_Control doc) = sct_Status c \<and>
    sagaLeaseHandle doc = Inr h \<and> cdoc_Key doc = saga_key sagaID \<and> sct_SagaID (cdoc_Control doc) = sagaID"
proof -
  obtain cur v x v1 tok v2 where g: "GetControl W sagaID s = (Inr cur, v)" and now: "io_now W v = (Inr x, v1)"
    and act: "sagaLeaseActive (sct_Lease (cdoc_Control cur)) x = Inr False" and tok: "io_token W v1 = (Inr tok, v2)"
    and upd: "UpdateControlCAS W cur ((cdoc_Control cur)\<lparr>sct_Lease :=
             Some \<lparr>lse_Owner = slo_Owner opts, lse_Token = tok, lse_Generation = wrap64 x,
               lse_ExpiresAt = canonical_Time (x + slo_Duration opts)\<rparr>\<rparr>) v2 = (Inr doc, t)"
      (is "UpdateControlCAS W cur ?n v2 = _")
    and h: "sagaLeaseHandle doc = Inr h"
    using assms(2) by (auto simp: saga_AcquireLease_def io_ok_iffs)
  note gc = GetControl_ok [OF g]
  have e: "evolves v v1" "x = clock v1" "evolves v1 v2"
    using io_now_Inr [OF now] quietD [of "io_token W", OF _ _ tok] evolves_inv gc(1) assms(1) by auto
  have ev: "evolves v v2" "clock s \<le> x" "x \<le> clock v2"
    using e gc(1) evolves_trans clock_mono by (blast, metis order_trans, auto)
  have sw: "saga_swaps W sagaID v2 (cdoc_ETag cur) (cdoc_ETag doc) (cdoc_Control doc) t"
    by (rule saga_swaps_Update [OF upd gc(3)]) (simp add: wf_Lease_def)
  have "inv v2" using ev(1) gc(1) assms(1) evolves_inv by blast
  from UpdateControlCAS_ok [OF this upd] obtain nw where doc:
    "cdoc_Control doc = normalizeControl ?n (sct_SagaID (cdoc_Control cur)) (canonical_Time nw)"
    "cdoc_Key doc = cdoc_Key cur" "sct_SagaID (cdoc_Control doc) = sct_SagaID (cdoc_Control cur)" by blast
  have "sct_Status (cdoc_Control cur) \<noteq> []"
    using gc(5) by (auto simp: validateControl_def validateSagaStatus_def saga_status_defs rbind_Inr_iff split: if_splits)
  then have "sct_Status (cdoc_Control doc) = sct_Status (cdoc_Control cur)"
    unfolding doc(1) by (simp add: normalizeControl_def Let_def)
  then show ?thesis using saga_reads_GetControl [OF g] ev act sw h doc gc(3,6)
    by (intro exI [of _ v] exI [of _ v2] exI [of _ "cdoc_ETag cur"] exI [of _ "cdoc_Control cur"] exI [of _ x] exI [of _ tok]) simp
qed

text \<open>
  Heartbeat, release and leased update: the control document is read, the handle's lease is found
  usable in it at time \<open>x\<close>, and a document is swapped in on the handle's ETag.
\<close>

definition saga_holder :: "SagaLeaseHandle \<Rightarrow> 's \<Rightarrow> SagaControl \<Rightarrow> SagaControl \<Rightarrow> string \<Rightarrow> 's \<Rightarrow> bool" where
  "saga_holder h s c c' e' t \<longleftrightarrow> (\<exists>e1 v v' x l T. saga_reads W (slh_SagaID h) s e1 c v \<and> evolves v v' \<and>
     clock s \<le> x \<and> x \<le> clock v' \<and> sct_Lease c = Some l \<and> lse_Owner l = slh_Owner h \<and> lse_Token l = slh_Token h \<and>
     lse_Generation l = slh_Generation h \<and> time_Parse (lse_ExpiresAt l) = Some T \<and> x < T \<and>
     saga_swaps W (slh_SagaID h) v' (slh_ETag h) e' c' t)"

lemma ensureSagaLease_ok:
  assumes "ensureSagaLease h doc x = Inr ()"
  shows "\<exists>l T. sct_Lease (cdoc_Control doc) = Some l \<and> lse_Owner l = slh_Owner h \<and> lse_Token l = slh_Token h \<and>
    lse_Generation l = slh_Generation h \<and> time_Parse (lse_ExpiresAt l) = Some T \<and> x < T"
  using assms
  by (auto simp: ensureSagaLease_def sagaLeaseActive_def rbind_Inr_iff split: option.splits if_splits)

lemma saga_holderI:
  assumes "inv s" "GetControl W (slh_SagaID h) s = (Inr cur, v)" "io_now W v = (Inr x, v1)" "evolves v1 v'"
    "ensureSagaLease h cur x = Inr ()" "UpdateControlCAS W cur' n v' = (Inr doc, t)"
    "cdoc_Key cur' = cdoc_Key cur" "cdoc_ETag cur' = slh_ETag h" "pred_option wf_Lease (sct_Lease n)"
  shows "saga_holder h s (cdoc_Control cur) (cdoc_Control doc) (cdoc_ETag doc) t"
proof -
  note gc = GetControl_ok [OF assms(2)]
  have e: "evolves v v1" "x = clock v1" using io_now_Inr [OF assms(3)] by auto
  then have ev: "evolves v v'" "clock s \<le> x" "x \<le> clock v'"
    using gc(1) assms(4) evolves_trans clock_mono by (blast, metis order_trans, auto)
  have "saga_swaps W (slh_SagaID h) v' (slh_ETag h) (cdoc_ETag doc) (cdoc_Control doc) t"
    using saga_swaps_Update [OF assms(6)] assms(7-9) gc(3) by metis
  then show ?thesis unfolding saga_holder_def
    using saga_reads_GetControl [OF assms(2)] ev ensureSagaLease_ok [OF assms(5)] by blast
qed

text \<open>The lease a document read under a lease carries is in range.\<close>

lemma read_lease_wf:
  "GetControl W i s = (Inr cur, v) \<Longrightarrow> pred_option wf_Lease (sct_Lease (cdoc_Control cur))"
  using GetControl_ok(7) by (auto simp: wf_SagaControl_def)

lemma saga_Update_effect:
  assumes "inv s" "UpdateControlWithLeaseCAS W h f s = (Inr (h', doc), t)"
  shows "sagaLeaseHandle doc = Inr h' \<and> sct_SagaID (cdoc_Control doc) = slh_SagaID h \<and> cdoc_Key doc = saga_key (slh_SagaID h) \<and>
    validateControl (cdoc_Control doc) = Inr () \<and>
    (\<exists>c n now. saga_holder h s c (cdoc_Control doc) (cdoc_ETag doc) t \<and> f c = Inr n \<and>
       cdoc_Control doc = normalizeControl (n\<lparr>sct_Lease := sct_Lease c\<rparr>) (sct_SagaID c) (canonical_Time now) \<and>
       validateControl c = Inr () \<and> sct_SagaID c = slh_SagaID h)"
proof -
  obtain cur v x v1 n where *: "GetControl W (slh_SagaID h) s = (Inr cur, v)" "io_now W v = (Inr x, v1)"
    "ensureSagaLease h cur x = Inr ()" "cdoc_ETag cur = slh_ETag h" "f (cdoc_Control cur) = Inr n"
    "UpdateControlCAS W cur (n\<lparr>sct_Lease := sct_Lease (cdoc_Control cur)\<rparr>) v1 = (Inr doc, t)"
    "sagaLeaseHandle doc = Inr h'"
    using assms(2) by (auto simp: UpdateControlWithLeaseCAS_def io_ok_iffs)
  note gc = GetControl_ok [OF *(1)]
  have "saga_holder h s (cdoc_Control cur) (cdoc_Control doc) (cdoc_ETag doc) t"
    by (rule saga_holderI [OF assms(1) *(1,2) evolves_refl *(3,6)]) (use *(4) read_lease_wf [OF *(1)] in auto)
  moreover have "inv v1" using gc(1) io_now_Inr [OF *(2)] assms(1) evolves_inv by blast
  from UpdateControlCAS_ok [OF this *(6)] have "\<exists>now. cdoc_Control doc =
      normalizeControl (n\<lparr>sct_Lease := sct_Lease (cdoc_Control cur)\<rparr>) (sct_SagaID (cdoc_Control cur)) (canonical_Time now)"
    "validateControl (cdoc_Control doc) = Inr ()" "sct_SagaID (cdoc_Control doc) = slh_SagaID h" "cdoc_Key doc = saga_key (slh_SagaID h)"
    using gc(3,6) by auto
  ultimately show ?thesis using *(5,7) gc(5,6) by blast
qed

lemma saga_Heartbeat_holder:
  assumes "inv s" "saga_HeartbeatLease W h d s = (Inr (h', doc), t)"
  shows "\<exists>c. saga_holder h s c (cdoc_Control doc) (cdoc_ETag doc) t"
proof -
  obtain cur v x v1 y v2 n where *: "GetControl W (slh_SagaID h) s = (Inr cur, v)" "io_now W v = (Inr x, v1)"
    "ensureSagaLease h cur x = Inr ()" "io_now W v1 = (Inr y, v2)"
    "UpdateControlCAS W (cur\<lparr>cdoc_ETag := slh_ETag h, cdoc_Control := n\<rparr>) n v2 = (Inr doc, t)"
    "n = (cdoc_Control cur)\<lparr>sct_Lease := map_option (\<lambda>l. l\<lparr>lse_ExpiresAt := canonical_Time (y + d)\<rparr>) (sct_Lease (cdoc_Control cur))\<rparr>"
    using assms(2) by (auto simp: saga_HeartbeatLease_def io_ok_iffs Let_def)
  have "pred_option wf_Lease (sct_Lease n)"
    using read_lease_wf [OF *(1)] by (cases "sct_Lease (cdoc_Control cur)") (auto simp: *(6) wf_Lease_def)
  then show ?thesis
    using saga_holderI [OF assms(1) *(1,2) _ *(3,5)] io_now_Inr [OF *(4)] by auto
qed

lemma saga_Release_holder:
  assumes "inv s" "saga_ReleaseLease W h s = (Inr doc, t)"
  shows "\<exists>c. saga_holder h s c (cdoc_Control doc) (cdoc_ETag doc) t"
proof -
  obtain cur v x v1 where *: "GetControl W (slh_SagaID h) s = (Inr cur, v)" "io_now W v = (Inr x, v1)"
    "ensureSagaLease h cur x = Inr ()"
    "UpdateControlCAS W (cur\<lparr>cdoc_ETag := slh_ETag h\<rparr>) ((cdoc_Control cur)\<lparr>sct_Lease := None\<rparr>) v1 = (Inr doc, t)"
    using assms(2) by (auto simp: saga_ReleaseLease_def io_ok_iffs)
  show ?thesis using saga_holderI [OF assms(1) *(1,2) evolves_refl *(3,4)] by auto
qed

lemma saga_holder_fenced:
  assumes "inv t0" "objs t0 (saga_key (slh_SagaID h)) = Some (slh_ETag h, b0)" "evolves t0 s"
    "objs s (saga_key (slh_SagaID h)) = Some (e1, b1)" "e1 \<noteq> slh_ETag h"
  shows "\<not> saga_holder h s c c' e' t"
proof
  assume "saga_holder h s c c' e' t"
  then obtain e v v' where *: "saga_reads W (slh_SagaID h) s e c v" "evolves v v'"
    "saga_swaps W (slh_SagaID h) v' (slh_ETag h) e' c' t"
    unfolding saga_holder_def by blast
  have "evolves s v'" using saga_doc.reads_law [OF *(1)] *(2) evolves_trans by blast
  then show False using saga_doc.fenced [OF assms] *(3) by blast
qed

end

section \<open>A client alone\<close>

lemma alone_getStrict:
  assumes "sys_env s = []" "sys_objs s key = Some (e, JsonBody j)" "dec j = Inr x"
  shows "\<exists>obj. getStrict sys_world dec key s = (Inr (x, obj), s) \<and> obj_ETag obj = e"
  using alone_Get [OF assms(1,2)] assms(3) by (auto simp: getStrict_def io_bind_def canonical_UnmarshalStrict_def)

lemma alone_GetControl:
  assumes "sys_env s = []" "is_id sagaID" "saga_at (sys_objs s) sagaID = Some (e, c)" "validateControl c = Inr ()"
    "sct_SagaID c = sagaID"
  shows "\<exists>doc. GetControl sys_world sagaID s = (Inr doc, s) \<and> cdoc_Key doc = saga_key sagaID \<and> cdoc_ETag doc = e \<and>
    cdoc_Control doc = c"
proof -
  obtain j where j: "sys_objs s (saga_key sagaID) = Some (e, JsonBody j)" "dec_SagaControl j = Inr c"
    using assms(3) by (auto simp: view_at_Some saga_view_Some)
  obtain obj where "getStrict sys_world dec_SagaControl (saga_key sagaID) s = (Inr (c, obj), s)" "obj_ETag obj = e"
    using alone_getStrict [where dec = dec_SagaControl, OF assms(1) j] by blast
  moreover have "paths_SagaControl sagaID = Inr (saga_key sagaID)" using assms(2) by (simp add: paths_SagaControl_Inr)
  ultimately show ?thesis using assms(4,5)
    by (simp add: GetControl_def io_bind_def io_lift_def Let_def objectMetaFromObject_def)
qed

lemma alone_GetIntent:
  assumes "sys_env s = []" "paths_SagaIntent sagaID = Inr key" "sys_objs s key = Some (e, JsonBody (enc_SagaIntent c))"
    "wf_SagaIntent c" "validateIntent c = Inr ()" "si_SagaID c = sagaID"
  shows "\<exists>doc. GetIntent sys_world sagaID s = (Inr doc, s) \<and> idoc_Intent doc = c"
  using alone_getStrict [where dec = dec_SagaIntent, OF assms(1,3) codec_SagaIntent [OF assms(4)]] assms
  by (auto simp: GetIntent_def io_bind_def io_lift_def Let_def)

lemma alone_GetGraph:
  assumes "sys_env s = []" "paths_SagaGraph sagaID = Inr key" "sys_objs s key = Some (e, JsonBody (enc_SagaGraph c))"
    "wf_SagaGraph c" "validateGraph c = Inr ()" "sg_SagaID c = sagaID"
  shows "\<exists>doc. GetGraph sys_world sagaID s = (Inr doc, s) \<and> gdoc_Graph doc = c"
  using alone_getStrict [where dec = dec_SagaGraph, OF assms(1,3) codec_SagaGraph [OF assms(4)]] assms
  by (auto simp: GetGraph_def io_bind_def io_lift_def Let_def)

lemma alone_UpdateControl:
  assumes "sys_env s = []" "sys_objs s (cdoc_Key cur) = Some (cdoc_ETag cur, b)"
    "c' = normalizeControl n (sct_SagaID (cdoc_Control cur)) (canonical_Time (sys_now s))"
    "sct_SagaID c' = sct_SagaID (cdoc_Control cur)" "validateControl c' = Inr ()" "raws_ok_SagaControl c'"
  shows "\<exists>doc t. UpdateControlCAS sys_world cur n s = (Inr doc, t) \<and> cdoc_Control doc = c' \<and> cdoc_Key doc = cdoc_Key cur \<and>
    sys_env t = [] \<and> sys_now t = sys_now s \<and> sys_tokens t = sys_tokens s \<and> sys_events t = sys_events s \<and>
    sys_objs t = (sys_objs s)(cdoc_Key cur \<mapsto> (cdoc_ETag doc, JsonBody (enc_SagaControl c')))"
proof -
  obtain m t where "os_CompareAndSwap sys_world (cdoc_Key cur) (cdoc_ETag cur) (JsonBody (enc_SagaControl c'))
      (saga_putOptions ''saga_control'' (sct_SagaID c')) s = (Inr m, t)"
    "sys_objs t = (sys_objs s)(cdoc_Key cur \<mapsto> (om_ETag m, JsonBody (enc_SagaControl c')))"
    "sys_env t = []" "sys_now t = sys_now s" "sys_tokens t = sys_tokens s" "sys_events t = sys_events s"
    using alone_CAS [OF assms(1,2)] by blast
  then show ?thesis using assms
    by (simp add: UpdateControlCAS_def io_bind_def io_try_def canonical_Marshal_def Let_def io_ret_def)
qed

lemma alone_saga_acquire:
  assumes al: "sys_env s = []" and i: "is_id sagaID" and at: "saga_at (sys_objs s) sagaID = Some (e, c)"
    and val: "validateControl c = Inr ()" "sct_SagaID c = sagaID" and wf: "raws_ok_SagaControl c"
    and free: "sagaLeaseActive (sct_Lease c) (sys_now s) = Inr False" and opts: "slo_Owner opts \<noteq> []" "0 < slo_Duration opts"
    and tm: "time_ok (sys_now s + slo_Duration opts)" and upd: "sct_UpdatedAt c \<noteq> []"
  shows "\<exists>h doc t. saga_AcquireLease sys_world sagaID opts s = (Inr (h, doc), t) \<and> sys_env t = [] \<and> sys_now t = sys_now s \<and>
    cdoc_Control doc = c\<lparr>sct_Lease := Some \<lparr>lse_Owner = slo_Owner opts, lse_Token = next_token s,
      lse_Generation = wrap64 (sys_now s), lse_ExpiresAt = canonical_Time (sys_now s + slo_Duration opts)\<rparr>\<rparr> \<and>
    h = \<lparr>slh_SagaID = sagaID, slh_Owner = slo_Owner opts, slh_Token = next_token s, slh_Generation = wrap64 (sys_now s),
      slh_ExpiresAt = sys_now s + slo_Duration opts, slh_ETag = cdoc_ETag doc\<rparr> \<and> sys_events t = sys_events s \<and>
    sys_objs t = (sys_objs s)(saga_key sagaID \<mapsto> (cdoc_ETag doc, JsonBody (enc_SagaControl (cdoc_Control doc))))"
proof -
  obtain cur where cur: "GetControl sys_world sagaID s = (Inr cur, s)" "cdoc_Key cur = saga_key sagaID" "cdoc_ETag cur = e"
    "cdoc_Control cur = c"
    using alone_GetControl [OF al i at val] by blast
  define s' where "s' = (case sys_tokens s of [] \<Rightarrow> s | x # xs \<Rightarrow> s\<lparr>sys_tokens := xs\<rparr>)"
  have tok: "io_token sys_world s = (Inr (next_token s), s')"
    by (simp add: alone_token next_token_def s'_def split: list.splits)
  have s': "sys_env s' = []" "sys_objs s' = sys_objs s" "sys_now s' = sys_now s" "sys_events s' = sys_events s"
    using al by (simp_all add: s'_def sys_objs_def split: list.splits)
  obtain b where b: "sys_objs s' (cdoc_Key cur) = Some (cdoc_ETag cur, b)" using at cur s'(2) by (auto simp: view_at_Some)
  let ?n = "c\<lparr>sct_Lease := Some \<lparr>lse_Owner = slo_Owner opts, lse_Token = next_token s,
      lse_Generation = wrap64 (sys_now s), lse_ExpiresAt = canonical_Time (sys_now s + slo_Duration opts)\<rparr>\<rparr>"
  have ne: "sct_SchemaVersion c \<noteq> []" "sct_Status c \<noteq> []" "sct_SagaID c \<noteq> []"
    using val i by (auto simp: validateControl_iff saga_status_defs schema_Version_def is_id_def)
  then have norm: "?n = normalizeControl ?n (sct_SagaID (cdoc_Control cur)) (canonical_Time (sys_now s'))"
    using upd by (simp add: normalizeControl_def Let_def)
  have v: "validateControl ?n = Inr ()" using val(1) by (simp add: validateControl_iff)
  have r: "raws_ok_SagaControl ?n" using wf by (simp add: raws_ok_SagaControl_def)
  have "sct_SagaID ?n = sct_SagaID (cdoc_Control cur)" using cur(4) by simp
  from alone_UpdateControl [OF s'(1) b norm this v r] obtain doc t where
    u: "UpdateControlCAS sys_world cur ?n s' = (Inr doc, t)" "cdoc_Control doc = ?n" "sys_env t = []" "sys_now t = sys_now s'"
    "sys_events t = sys_events s'"
    "sys_objs t = (sys_objs s')(cdoc_Key cur \<mapsto> (cdoc_ETag doc, JsonBody (enc_SagaControl ?n)))"
    by blast
  show ?thesis using cur al free opts tok u s' tm val(2)
    by (simp add: saga_AcquireLease_def io_bind_def io_lift_def sagaLeaseHandle_def)
qed

lemma alone_CreateStepResult:
  assumes "sys_env s = []" "validateStepResult (normalizeStepResult r) = Inr ()" "raw_valid (sr_Result r)"
    "paths_SagaStepResult (sr_SagaID r) (sr_StepID r) = Inr key" "sys_objs s key = None"
  shows "\<exists>d t. CreateStepResult sys_world r s = (Inr d, t) \<and> rdoc_Result d = normalizeStepResult r \<and> sys_env t = [] \<and>
    sys_now t = sys_now s \<and> sys_events t = sys_events s \<and>
    sys_objs t = (sys_objs s)(key \<mapsto> (rdoc_ETag d, JsonBody (enc_StepResult (normalizeStepResult r))))"
proof -
  have n: "sr_SagaID (normalizeStepResult r) = sr_SagaID r" "sr_StepID (normalizeStepResult r) = sr_StepID r"
    "sr_Result (normalizeStepResult r) = sr_Result r"
    by (simp_all add: normalizeStepResult_def)
  obtain m t where "os_Create sys_world key (JsonBody (enc_StepResult (normalizeStepResult r)))
      (saga_putOptions ''saga_step_result'' (sr_SagaID (normalizeStepResult r))) s = (Inr m, t)"
    "sys_env t = []" "sys_now t = sys_now s" "sys_events t = sys_events s"
    "sys_objs t = (sys_objs s)(key \<mapsto> (om_ETag m, JsonBody (enc_StepResult (normalizeStepResult r))))"
    using alone_Create [OF assms(1,5)] by blast
  then show ?thesis using assms n
    by (simp add: CreateStepResult_def io_bind_def canonical_Marshal_def raws_ok_StepResult_def Let_def io_ret_def)
qed

lemma alone_saga_AppendEvent:
  assumes "sys_env s = []" "e = normalizeEvent event sagaID (canonical_Time (sys_now s))" "validateEvent sagaID e = Inr ()"
    "raw_valid (ev_Data e)" "paths_SagaEvent sagaID (ev_ID e) = Inr key" "sys_objs s key = None"
  shows "\<exists>d t. saga_AppendEvent sys_world sagaID event s = (Inr d, t) \<and> sys_env t = [] \<and> sys_now t = sys_now s \<and>
    sys_events t = sys_events s \<and> sys_objs t = (sys_objs s)(key \<mapsto> (edoc_ETag d, JsonBody (enc_Event e)))"
proof -
  obtain m t where "os_Create sys_world key (JsonBody (enc_Event e)) (saga_putOptions ''saga_event'' sagaID) s = (Inr m, t)"
    "sys_env t = []" "sys_now t = sys_now s" "sys_events t = sys_events s"
    "sys_objs t = (sys_objs s)(key \<mapsto> (om_ETag m, JsonBody (enc_Event e)))"
    using alone_Create [OF assms(1,6)] by blast
  then show ?thesis using assms
    by (simp add: saga_AppendEvent_def io_bind_def canonical_Marshal_def raws_ok_Event_def Let_def io_ret_def)
qed

section \<open>Properties\<close>

text \<open>
  C13: saga leases. When an executor acquires the lease of a saga, the last write in the history is the one of the new document, in the
  state \<open>u\<close> right before it the control document had no lease or an expired one, and the document written carries a
  lease with the caller's owner, the handle's token and the full duration. No handle whose ETag was stored at any
  time until then, also while the acquisition was under way, can afterwards heartbeat, release or update the saga's
  control document: two executors never both drive a saga.
\<close>

theorem saga_lease_exclusive:
  assumes "sys_inv s" "saga_AcquireLease sys_world sagaID opts s = (Inr (h, doc), t)"
  shows "\<exists>u e c x b. sys_evolves s u \<and> sys_evolves u t \<and> sys_history t = sys_history u @ [(saga_key sagaID, slh_ETag h, b)] \<and>
      saga_at (sys_objs u) sagaID = Some (e, c) \<and> sys_now s \<le> x \<and> x \<le> sys_now u \<and>
      (\<forall>l. sct_Lease c = Some l \<longrightarrow> (\<exists>T. time_Parse (lse_ExpiresAt l) = Some T \<and> T \<le> x)) \<and>
      saga_at (sys_objs t) sagaID = Some (slh_ETag h, cdoc_Control doc) \<and> slh_ETag h \<noteq> e \<and>
      sct_Lease (cdoc_Control doc) = Some \<lparr>lse_Owner = slo_Owner opts, lse_Token = slh_Token h, lse_Generation = wrap64 x,
        lse_ExpiresAt = canonical_Time (x + slo_Duration opts)\<rparr> \<and> slh_Owner h = slo_Owner opts \<and>
      (\<forall>t0 h0 b0 s2 d f x y v. sys_inv t0 \<and> sys_objs t0 (saga_key sagaID) = Some (slh_ETag h0, b0) \<and>
          slh_SagaID h0 = sagaID \<and> sys_evolves t0 u \<and> sys_evolves t s2 \<longrightarrow>
        saga_HeartbeatLease sys_world h0 d s2 \<noteq> (Inr x, v) \<and> saga_ReleaseLease sys_world h0 s2 \<noteq> (Inr y, v) \<and>
        UpdateControlWithLeaseCAS sys_world h0 f s2 \<noteq> (Inr x, v))"
proof -
  obtain v v' e c x tok where a: "saga_reads sys_world sagaID s e c v" "sys_evolves v v'" "sys_now s \<le> x" "x \<le> sys_now v'"
    "sagaLeaseActive (sct_Lease c) x = Inr False"
    "saga_swaps sys_world sagaID v' e (cdoc_ETag doc) (cdoc_Control doc) t" "sagaLeaseHandle doc = Inr h"
    "sct_Lease (cdoc_Control doc) = Some \<lparr>lse_Owner = slo_Owner opts, lse_Token = tok, lse_Generation = wrap64 x,
      lse_ExpiresAt = canonical_Time (x + slo_Duration opts)\<rparr>"
    using sysw.saga_AcquireLease_ok [OF assms] by blast
  have h: "slh_ETag h = cdoc_ETag doc" "slh_Token h = tok" "slh_Owner h = slo_Owner opts"
    using a(7,8) by (auto simp: sagaLeaseHandle_def split: option.splits)
  have sv: "sys_evolves s v'" using sysw.saga_doc.reads_law [OF a(1)] a(2) sysw.evolves_trans by blast
  obtain u b where u: "sys_evolves v' u" "sys_evolves u t" "sys_writes u (saga_key sagaID) (cdoc_ETag doc) b t"
    "saga_at (sys_objs u) sagaID = Some (e, c)" "saga_at (sys_objs t) sagaID = Some (cdoc_ETag doc, cdoc_Control doc)" "cdoc_ETag doc \<noteq> e"
    and old: "\<forall>t0 e0 b0 s2. sys_inv t0 \<and> sys_objs t0 (saga_key sagaID) = Some (e0, b0) \<and> sys_evolves t0 u \<and> sys_evolves t s2 \<longrightarrow>
      sysw.saga_doc.outdated sagaID e0 s2"
    using sysw.saga_doc.read_then_swap [OF assms(1) a(1,2,6)] by blast
  have l: "\<forall>l. sct_Lease c = Some l \<longrightarrow> (\<exists>T. time_Parse (lse_ExpiresAt l) = Some T \<and> T \<le> x)"
    using a(5) by (auto simp: sagaLeaseActive_def split: option.splits)
  have x: "x \<le> sys_now u" using a(4) u(1) sysw.clock_mono by (blast intro: order_trans)
  have fence: "saga_HeartbeatLease sys_world h0 d s2 \<noteq> (Inr x, v) \<and> saga_ReleaseLease sys_world h0 s2 \<noteq> (Inr y, v) \<and>
      UpdateControlWithLeaseCAS sys_world h0 f s2 \<noteq> (Inr x, v)"
    if p: "sys_inv t0" "sys_objs t0 (saga_key sagaID) = Some (slh_ETag h0, b0)" "slh_SagaID h0 = sagaID" "sys_evolves t0 u"
      "sys_evolves t s2" for t0 h0 b0 s2 d f x y v
  proof -
    have e2: "sys_evolves t0 s2" using p(4,5) u(2) sysw.evolves_trans by blast
    then have i2: "sys_inv s2" using p(1) sysw.evolves_inv by blast
    have o: "sysw.saga_doc.outdated sagaID (slh_ETag h0) s2" using old p by blast
    obtain e3 b3 where b3: "sys_objs s2 (saga_key sagaID) = Some (e3, b3)" using sysw.objs_persist [OF e2 p(2)] by auto
    then have "e3 \<noteq> slh_ETag h0" using o sysw.evolves_refl unfolding sysw.saga_doc.outdated_def by blast
    then have "\<not> sysw.saga_holder h0 s2 c c' e' v" for c c' e'
      using sysw.saga_holder_fenced [of t0 h0] p(1-3) e2 b3 by blast
    then show ?thesis
      using sysw.saga_Heartbeat_holder [OF i2] sysw.saga_Release_holder [OF i2] sysw.saga_Update_effect [OF i2]
      by (cases x) blast
  qed
  show ?thesis
  proof (rule exI [of _ u], rule exI [of _ e], rule exI [of _ c], rule exI [of _ x], rule exI [of _ b], intro conjI)
    show "sys_evolves s u" using sysw.evolves_trans [OF sv u(1)] .
    show "\<forall>t0 h0 b0 s2 d f x y v. sys_inv t0 \<and> sys_objs t0 (saga_key sagaID) = Some (slh_ETag h0, b0) \<and>
          slh_SagaID h0 = sagaID \<and> sys_evolves t0 u \<and> sys_evolves t s2 \<longrightarrow>
        saga_HeartbeatLease sys_world h0 d s2 \<noteq> (Inr x, v) \<and> saga_ReleaseLease sys_world h0 s2 \<noteq> (Inr y, v) \<and>
        UpdateControlWithLeaseCAS sys_world h0 f s2 \<noteq> (Inr x, v)" using fence by blast
  qed (use u a(3,8) x l h in \<open>simp_all add: sys_writes_def\<close>)
qed

text \<open>A pending saga ''s1'', alone in the world.\<close>

definition s1_control :: SagaControl where
  "s1_control = NewSagaControl ''s1'' SagaPending ''2024-01-01T00:00:00Z''"

definition s1_sys :: sys where
  "s1_sys = \<lparr>sys_store = snd (memory_Create None ''sagas/s1/control.json''
       (JsonBody (enc_SagaControl s1_control)) (saga_putOptions ''saga_control'' ''s1'') memory_New),
     sys_now = 1000, sys_tokens = [], sys_events = [], sys_env = [], sys_history = []\<rparr>"

definition s1_opts :: SagaLeaseOptions where
  "s1_opts = \<lparr>slo_Owner = ''worker-1'', slo_Duration = 30000000000\<rparr>"

lemma s1_facts:
  "sys_env s1_sys = []" "sys_inv s1_sys" "sys_now s1_sys = 1000" "is_id ''s1''"
  "saga_at (sys_objs s1_sys) ''s1'' = Some (etagForVersion 1, s1_control)"
  "validateControl s1_control = Inr ()" "sct_SagaID s1_control = ''s1''" "raws_ok_SagaControl s1_control"
  "sct_Lease s1_control = None" "sct_UpdatedAt s1_control \<noteq> []" "sct_Status s1_control = SagaPending"
  "sct_StepResults s1_control = []"
proof -
  have wf: "wf_SagaControl s1_control"
    by (simp add: wf_SagaControl_def s1_control_def NewSagaControl_def zero_SagaControl_def)
  show "saga_at (sys_objs s1_sys) ''s1'' = Some (etagForVersion 1, s1_control)"
    by (simp add: view_at_Some saga_view_Some sys_objs_def s1_sys_def memory_Create_def memory_New_def nextTimeLocked_def
        Let_def memory_objs_def saga_key_def codec_SagaControl [OF wf])
  show "sys_inv s1_sys"
    by (simp add: sys_inv_def s1_sys_def memory_Create_def memory_New_def nextTimeLocked_def Let_def memory_inv_def entry_ok_def)
  show "raws_ok_SagaControl s1_control" using wf by simp
  show "is_id ''s1''" by (simp add: is_id_def isIDChar_def)
  then show "validateControl s1_control = Inr ()"
    by (simp add: validateControl_iff s1_control_def NewSagaControl_def zero_SagaControl_def)
qed (simp_all add: s1_sys_def s1_control_def NewSagaControl_def zero_SagaControl_def)

lemma s1_acquire:
  "\<exists>h doc t. saga_AcquireLease sys_world ''s1'' s1_opts s1_sys = (Inr (h, doc), t) \<and> sys_env t = [] \<and>
     slh_SagaID h = ''s1'' \<and> slh_ETag h = cdoc_ETag doc"
  using alone_saga_acquire [OF s1_facts(1,4,5-8), of s1_opts] s1_facts(3,9,10)
  by (auto simp: s1_opts_def sagaLeaseActive_def time_ok_int64 in_int64_def)

theorem saga_lease_exclusive_witness:
  "\<exists>h doc t u e c. saga_AcquireLease sys_world ''s1'' s1_opts s1_sys = (Inr (h, doc), t) \<and>
     saga_at (sys_objs u) ''s1'' = Some (e, c) \<and> saga_at (sys_objs t) ''s1'' = Some (slh_ETag h, cdoc_Control doc) \<and>
     slh_ETag h \<noteq> e \<and>
     (\<forall>x v. saga_HeartbeatLease sys_world (h\<lparr>slh_ETag := etagForVersion 1\<rparr>) 1 t \<noteq> (Inr x, v))"
proof -
  obtain h doc t where a: "saga_AcquireLease sys_world ''s1'' s1_opts s1_sys = (Inr (h, doc), t)" "slh_SagaID h = ''s1''"
    using s1_acquire by blast
  obtain b where b: "sys_objs s1_sys (saga_key ''s1'') = Some (etagForVersion 1, b)"
    using s1_facts(5) by (auto simp: view_at_Some)
  obtain u e c where u: "sys_evolves s1_sys u" "saga_at (sys_objs u) ''s1'' = Some (e, c)"
      "saga_at (sys_objs t) ''s1'' = Some (slh_ETag h, cdoc_Control doc)" "slh_ETag h \<noteq> e"
    and fence: "\<forall>t0 h0 b0 s2 d f x y v. sys_inv t0 \<and> sys_objs t0 (saga_key ''s1'') = Some (slh_ETag h0, b0) \<and>
          slh_SagaID h0 = ''s1'' \<and> sys_evolves t0 u \<and> sys_evolves t s2 \<longrightarrow>
        saga_HeartbeatLease sys_world h0 d s2 \<noteq> (Inr x, v) \<and> saga_ReleaseLease sys_world h0 s2 \<noteq> (Inr y, v) \<and>
        UpdateControlWithLeaseCAS sys_world h0 f s2 \<noteq> (Inr x, v)"
    using saga_lease_exclusive [OF s1_facts(2) a(1)] by (elim exE conjE) blast
  have "\<forall>x v. saga_HeartbeatLease sys_world (h\<lparr>slh_ETag := etagForVersion 1\<rparr>) 1 t \<noteq> (Inr x, v)"
  proof (intro allI)
    fix x v
    show "saga_HeartbeatLease sys_world (h\<lparr>slh_ETag := etagForVersion 1\<rparr>) 1 t \<noteq> (Inr x, v)"
      using fence [rule_format, of s1_sys "h\<lparr>slh_ETag := etagForVersion 1\<rparr>" b t 1 x v] s1_facts(2) b a(2) u(1) by simp
  qed
  then show ?thesis using u a by blast
qed

text \<open>
  C34: a step result is recorded once. Two successful \<^verbatim>\<open>CreateStepResult\<close> calls for the same saga and
  step cannot both happen, in whatever order and at whatever distance in time: the first result stored
  for a step is the only one ever created.
\<close>

theorem step_result_once:
  assumes "CreateStepResult sys_world r s = (Inr d, t)" "sys_evolves t s'" "sr_SagaID r' = sr_SagaID r"
    "sr_StepID r' = sr_StepID r"
  shows "CreateStepResult sys_world r' s' \<noteq> (Inr d', t')"
proof
  assume c: "CreateStepResult sys_world r' s' = (Inr d', t')"
  note k = sysw.CreateStepResult_ok [OF assms(1)] sysw.CreateStepResult_ok [OF c]
  have eq: "rdoc_Key d' = rdoc_Key d" using k(1,4) assms(3,4) by simp
  obtain u where u: "sys_evolves s' u" "sys_objs u (rdoc_Key d) = None" using k(6) eq by auto
  obtain eb where "sys_objs t (rdoc_Key d) = Some eb" using k(2) by blast
  then show False using sysw.objs_persist [OF sysw.evolves_trans [OF assms(2) u(1)]] u(2) by fastforce
qed

definition a_result :: StepResult where
  "a_result = zero_StepResult\<lparr>sr_SagaID := ''s1'', sr_StepID := ''a'', sr_Kind := ''k'', sr_Status := ''succeeded''\<rparr>"

theorem step_result_once_witness:
  "\<exists>d t. CreateStepResult sys_world a_result s1_sys = (Inr d, t) \<and>
     (\<forall>d' t'. CreateStepResult sys_world (a_result\<lparr>sr_Status := ''failed''\<rparr>) t \<noteq> (Inr d', t'))"
proof -
  have v: "validateStepResult (normalizeStepResult a_result) = Inr ()"
    by (simp add: validateStepResult_def normalizeStepResult_def a_result_def zero_StepResult_def rbind_def validateID_iff
        is_id_def isIDChar_def TrimSpace_printable printable_def raw_valid_def)
  have p: "paths_SagaStepResult (sr_SagaID a_result) (sr_StepID a_result) = Inr ''sagas/s1/artifacts/results/a.json''"
    by (simp add: paths_SagaStepResult_def a_result_def zero_StepResult_def is_id_def isIDChar_def)
  have n: "sys_objs s1_sys ''sagas/s1/artifacts/results/a.json'' = None"
    by (simp add: sys_objs_def s1_sys_def memory_Create_def memory_New_def nextTimeLocked_def Let_def memory_objs_def)
  have r: "raw_valid (sr_Result a_result)" by (simp add: a_result_def zero_StepResult_def raw_valid_def)
  obtain d t where c: "CreateStepResult sys_world a_result s1_sys = (Inr d, t)"
    using alone_CreateStepResult [OF s1_facts(1) v r p n] by blast
  show ?thesis using c step_result_once [OF c sys_evolves_refl] by (intro exI [of _ d] exI [of _ t]) simp
qed

lemma validateNodes_Inr:
  "validateNodes seen nodes = Inr () \<Longrightarrow>
     distinct (map sn_ID nodes) \<and> set seen \<inter> sn_ID ` set nodes = {} \<and> (\<forall>n \<in> set nodes. validateNode n = Inr ())"
proof (induction nodes arbitrary: seen)
  case (Cons n nodes)
  have "validateNode n = Inr ()" "sn_ID n \<notin> set seen" "validateNodes (sn_ID n # seen) nodes = Inr ()"
    using Cons.prems by (auto simp: rbind_Inr_iff split: if_splits)
  then show ?case using Cons.IH [of "sn_ID n # seen"] by auto
qed simp

lemma validateGraph_ok:
  assumes "validateGraph graph = Inr ()"
  shows "distinct (node_ids graph)" "sg_Nodes graph \<noteq> []" "\<forall>n \<in> set (sg_Nodes graph). validateNode n = Inr ()"
    "\<forall>n \<in> set (sg_Nodes graph). set (requiresForNode graph n) \<subseteq> set (node_ids graph)"
proof -
  have v: "validateNodes [] (sg_Nodes graph) = Inr ()" "sg_Nodes graph \<noteq> []"
    "\<forall>n \<in> set (sg_Nodes graph). validateRequires (node_ids graph) n = Inr ()"
    "\<forall>e \<in> set (sg_Edges graph). validateEdge (node_ids graph) e = Inr ()"
    using assms unfolding validateGraph_def by (auto simp: if_Inl_Inr_iff rbind_Inr_iff split: if_splits)
  show "distinct (node_ids graph)" "sg_Nodes graph \<noteq> []" "\<forall>n \<in> set (sg_Nodes graph). validateNode n = Inr ()"
    using validateNodes_Inr [OF v(1)] v(2) by (simp_all add: node_ids_def)
  have "set (sn_Requires n) \<subseteq> set (node_ids graph)" if "n \<in> set (sg_Nodes graph)" for n
    using v(3) that by (auto simp: validateRequires_def split: if_splits)
  moreover have "se_From e \<in> set (node_ids graph)" if "e \<in> set (sg_Edges graph)" for e
    using v(4) that by (auto simp: validateEdge_def split: if_splits)
  ultimately show "\<forall>n \<in> set (sg_Nodes graph). set (requiresForNode graph n) \<subseteq> set (node_ids graph)"
    by (auto simp: requiresForNode_def)
qed

text \<open>
  What validation of a graph guarantees. A graph that \<^verbatim>\<open>validateGraph\<close> accepts has distinct node
  ids and no dangling requirement or edge, so \<^verbatim>\<open>ReadyNodes\<close> never fails on it, and \<^verbatim>\<open>TopologicalOrder\<close>
  can fail on it in one way only: a dependency cycle.
\<close>

theorem valid_graph_runs:
  assumes "validateGraph graph = Inr ()"
  shows "(\<forall>completed. \<exists>ready. ReadyNodes graph completed = Inr ready) \<and>
    ((\<exists>ordered. TopologicalOrder graph = Inr ordered \<and> topological graph ordered) \<or>
     (TopologicalOrder graph = Inl (new_error ''saga graph contains a dependency cycle'') \<and>
      (\<exists>C. dependency_cycle graph C)))"
  using ReadyNodes_Inr [OF validateGraph_ok(1) [OF assms]] TopologicalOrder_cases [OF validateGraph_ok(1,4) [OF assms]]
  by blast

text \<open>Two nodes that require each other.\<close>

definition two_cycle :: SagaGraph where
  "two_cycle = zero_SagaGraph\<lparr>sg_SchemaVersion := schema_Version, sg_SagaID := ''s1'',
     sg_Nodes := [zero_SagaNode\<lparr>sn_ID := ''a'', sn_Kind := ''k'', sn_Requires := [''b'']\<rparr>,
       zero_SagaNode\<lparr>sn_ID := ''b'', sn_Kind := ''k'', sn_Requires := [''a'']\<rparr>]\<rparr>"

lemma two_cycle_valid: "validateGraph two_cycle = Inr ()"
  by (simp add: validateGraph_def two_cycle_def zero_SagaGraph_def zero_SagaNode_def validateNode_def validateRequires_def
      validateID_iff is_id_def isIDChar_def rbind_def TrimSpace_printable printable_def raw_valid_def node_ids_def)

theorem valid_graph_runs_witness:
  "TopologicalOrder two_cycle = Inl (new_error ''saga graph contains a dependency cycle'') \<and>
   (\<exists>C. dependency_cycle two_cycle C)"
proof -
  have "dependency_cycle two_cycle {''a'', ''b''}"
    by (simp add: dependency_cycle_def two_cycle_def zero_SagaGraph_def zero_SagaNode_def node_ids_def requiresForNode_def)
  then have "\<not> topological two_cycle ordered" for ordered using topological_no_cycle by blast
  then show ?thesis using valid_graph_runs [OF two_cycle_valid] by (elim conjE disjE exE) auto
qed

end
