(* ===== verification/Saga_Executor.thy ===== *)
theory Saga_Executor
  imports Saga_Store
begin

text \<open>
  The saga executor (internal/saga/executor.go): acquire the saga's lease, run ready nodes until none
  is left, record every step result and event, and compensate completed nodes in reverse topological
  order when a step fails. The steps themselves (\<^verbatim>\<open>steps.Step\<close>, internal/saga/steps/interface.go) are
  arguments: operations on the world that may do anything the properties do not exclude.

  \<^verbatim>\<open>Execute\<close> releases the lease when it returns, with the handle it holds at that moment. The state of
  its body is therefore the world together with the current handle.
\<close>

section \<open>Steps\<close>

definition StatusSucceeded :: string where "StatusSucceeded = ''succeeded''"
definition StatusFailed :: string where "StatusFailed = ''failed''"
definition StatusWaiting :: string where "StatusWaiting = ''waiting''"

lemmas step_status_defs = StatusSucceeded_def StatusFailed_def StatusWaiting_def

record StepOutcome =
  so_Status :: string
  so_Result :: raw
  so_Failure :: "StepFailure option"
  so_ProviderOperations :: "ProviderOperationRef list"
  so_Summary :: string

record StepRequest =
  rq_SagaID :: string
  rq_Intent :: SagaIntent
  rq_Graph :: SagaGraph
  rq_Control :: SagaControl
  rq_Node :: SagaNode
  rq_TraceID :: string
  rq_PreviousResults :: results

record 's Step =
  st_ValidateParams :: "raw \<Rightarrow> ('s, unit) io"
  st_Run :: "StepRequest \<Rightarrow> ('s, StepOutcome option) io"
  st_Compensate :: "StepRequest \<Rightarrow> StepResult \<Rightarrow> ('s, StepOutcome option) io"

record 's Executor =
  ex_Steps :: "string \<Rightarrow> 's Step option"
  ex_Owner :: string
  ex_LeaseDuration :: int

record ExecutionResult =
  er_SagaID :: string
  er_Status :: string
  er_Completed :: "string list"
  er_FailedStep :: string
  er_Compensated :: "string list"
  er_WaitingSteps :: "string list"

section \<open>Results\<close>

definition completedResults :: "SagaControl \<Rightarrow> results" where
  "completedResults control = foldl (\<lambda>out ref.
     if srr_Status ref = StatusSucceeded then
       AList.update (srr_StepID ref) \<lparr>sr_SchemaVersion = schema_Version, sr_SagaID = sct_SagaID control, sr_OperationID = [],
         sr_StepID = srr_StepID ref, sr_Kind = srr_Kind ref, sr_Status = srr_Status ref, sr_Result = srr_Result ref,
         sr_Failure = srr_Failure ref, sr_ProviderOperations = srr_ProviderOperations ref, sr_StartedAt = [],
         sr_CompletedAt = srr_CompletedAt ref\<rparr> out
     else out) [] (sct_StepResults control)"

definition upsertStepResultRef :: "StepResultRef list \<Rightarrow> StepResultRef \<Rightarrow> StepResultRef list" where
  "upsertStepResultRef refs next0 =
     sort_key srr_StepID (filter (\<lambda>ref. srr_StepID ref \<noteq> srr_StepID next0) refs @ [next0])"

definition stepResultRef :: "StepResult \<Rightarrow> StepResultRef" where
  "stepResultRef r = \<lparr>srr_StepID = sr_StepID r, srr_Kind = sr_Kind r, srr_Status = sr_Status r, srr_Result = sr_Result r,
     srr_ResultRef = (if sr_Status r \<noteq> StatusWaiting
       then ''sagas/'' @ sr_SagaID r @ ''/artifacts/results/'' @ sr_StepID r @ ''.json'' else []),
     srr_Failure = sr_Failure r, srr_ProviderOperations = sr_ProviderOperations r, srr_CompletedAt = sr_CompletedAt r\<rparr>"

definition failedStepResult :: "SagaNode \<Rightarrow> goerr \<Rightarrow> StepOutcome" where
  "failedStepResult node err = \<lparr>so_Status = StatusFailed, so_Result = RawEmpty,
     so_Failure = Some (zero_StepFailure\<lparr>sf_Code := ''STEP_FAILED'', sf_Summary := err_text err\<rparr>),
     so_ProviderOperations = [], so_Summary = sn_ID node @ '' failed''\<rparr>"

definition executionSummary :: "SagaControl \<Rightarrow> results \<Rightarrow> string list \<Rightarrow> string \<Rightarrow> ExecutionResult" where
  "executionSummary control completed compensated failed =
     \<lparr>er_SagaID = sct_SagaID control, er_Status = sct_Status control, er_Completed = sort (map fst completed),
      er_FailedStep = failed, er_Compensated = compensated, er_WaitingSteps = sct_CurrentSteps control\<rparr>"

definition nodeAttempts :: "SagaNode \<Rightarrow> nat" where
  "nodeAttempts node = (case sn_Retry node of
      None \<Rightarrow> 1
    | Some retry \<Rightarrow> if rp_MaxAttempts retry \<le> 0 then 1 else nat (rp_MaxAttempts retry))"

fun double_delay :: "nat \<Rightarrow> int \<Rightarrow> int" where
  "double_delay 0 delay = delay"
| "double_delay (Suc n) delay = double_delay n (wrap64 (delay * 2))"

definition retryBackoff :: "SagaNode \<Rightarrow> nat \<Rightarrow> int" where
  "retryBackoff node attempt = (if attempt = 0 then 0 else double_delay (attempt - 1) 1000000)"

definition eventSeverity :: "string \<Rightarrow> string" where
  "eventSeverity status =
     (if status = StatusFailed then ''error'' else if status = StatusWaiting then ''warn'' else ''info'')"

section \<open>Running, recording\<close>

text \<open>The attempts left, and the number of the next one.\<close>

fun runAttempts :: "('s, 'z) World_scheme \<Rightarrow> 's Step \<Rightarrow> StepRequest \<Rightarrow> SagaNode \<Rightarrow> nat \<Rightarrow> nat \<Rightarrow> ('s, StepOutcome) io" where
  "runAttempts W step req node 0 attempt = io_fail (new_error [])"
| "runAttempts W step req node (Suc n) attempt =
     io_bind (io_try (st_Run step req)) (\<lambda>r. case r of
         Inr None \<Rightarrow> io_fail (new_error ''saga step returned nil result'')
       | Inr (Some outcome) \<Rightarrow>
           io_ret (if so_Status outcome = [] then outcome\<lparr>so_Status := StatusSucceeded\<rparr> else outcome)
       | Inl err \<Rightarrow>
           if n > 0 then io_bind (io_sleep W (retryBackoff node attempt)) (\<lambda>_. runAttempts W step req node n (Suc attempt))
           else io_fail err)"

definition step_request :: "SagaIntent \<Rightarrow> SagaGraph \<Rightarrow> SagaControl \<Rightarrow> SagaNode \<Rightarrow> results \<Rightarrow> StepRequest" where
  "step_request intent graph control node completed =
     \<lparr>rq_SagaID = si_SagaID intent, rq_Intent = intent, rq_Graph = graph, rq_Control = control, rq_Node = node,
      rq_TraceID = si_TraceID intent, rq_PreviousResults = completed\<rparr>"

definition runNodeWithRetry ::
  "('s, 'z) World_scheme \<Rightarrow> 's Executor \<Rightarrow> SagaIntent \<Rightarrow> SagaGraph \<Rightarrow> SagaControl \<Rightarrow> SagaNode \<Rightarrow> results \<Rightarrow>
   ('s, StepOutcome) io" where
  "runNodeWithRetry W ex intent graph control node completed = (case ex_Steps ex (sn_Kind node) of
      None \<Rightarrow> io_fail (new_error (''no saga step registered for kind '' @ quote (sn_Kind node)))
    | Some step \<Rightarrow>
        io_bind (st_ValidateParams step (sn_Params node)) (\<lambda>_.
        runAttempts W step (step_request intent graph control node completed) node (nodeAttempts node) 1))"

definition persistStepResult ::
  "('s, 'z) World_scheme \<Rightarrow> string \<Rightarrow> string \<Rightarrow> string \<Rightarrow> StepOutcome option \<Rightarrow> ('s, StepResult) io" where
  "persistStepResult W sagaID nodeID nodeKind outcome0 =
     (let outcome = (case outcome0 of
            None \<Rightarrow> \<lparr>so_Status = StatusSucceeded, so_Result = RawEmpty, so_Failure = None, so_ProviderOperations = [], so_Summary = []\<rparr>
          | Some x \<Rightarrow> x);
          status = (if so_Status outcome = [] then StatusSucceeded else so_Status outcome)
      in io_bind (io_now W) (\<lambda>now.
         (let persisted = \<lparr>sr_SchemaVersion = schema_Version, sr_SagaID = sagaID, sr_OperationID = [], sr_StepID = nodeID,
                sr_Kind = nodeKind, sr_Status = status, sr_Result = so_Result outcome, sr_Failure = so_Failure outcome,
                sr_ProviderOperations = so_ProviderOperations outcome, sr_StartedAt = [], sr_CompletedAt = canonical_Time now\<rparr>
          in if status = StatusWaiting then io_ret persisted
             else io_bind (io_try (CreateStepResult W persisted)) (\<lambda>r. case r of
                 Inr _ \<Rightarrow> io_ret persisted
               | Inl err \<Rightarrow>
                   if is_store ErrAlreadyExists err
                   then io_bind (GetStepResult W sagaID nodeID) (\<lambda>existing. io_ret (rdoc_Result existing))
                   else io_fail err))))"

definition step_event :: "string \<Rightarrow> gotime \<Rightarrow> string \<Rightarrow> string \<Rightarrow> string \<Rightarrow> StepResult \<Rightarrow> Event" where
  "step_event eventID now sagaID nodeID nodeKind r =
     \<lparr>ev_SchemaVersion = schema_Version, ev_ID = eventID, ev_Time = canonical_Time now, ev_TraceID = [],
      ev_Subject = \<lparr>tgt_Kind = ''saga'', tgt_Name = sagaID\<rparr>, ev_Type = ''saga.step.'' @ sr_Status r,
      ev_Severity = eventSeverity (sr_Status r), ev_Actor = None, ev_Summary = nodeID @ '' '' @ sr_Status r,
      ev_Facts = [\<lparr>fct_Type = ''step'', fct_Message = nodeID\<rparr>, \<lparr>fct_Type = ''kind'', fct_Message = nodeKind\<rparr>,
        \<lparr>fct_Type = ''status'', fct_Message = sr_Status r\<rparr>],
      ev_Data = RawEmpty\<rparr>"

text \<open>An executor without \<^verbatim>\<open>EventID\<close> is one whose world returns the empty id.\<close>

definition appendStepEvent ::
  "('s, 'z) World_scheme \<Rightarrow> string \<Rightarrow> string \<Rightarrow> string \<Rightarrow> StepResult \<Rightarrow> ('s, EventDocument) io" where
  "appendStepEvent W sagaID nodeID nodeKind r =
     io_bind (io_event_id W) (\<lambda>eventID0.
     io_bind (if eventID0 = [] then io_bind (io_now W) (\<lambda>now. io_ret (''evt_'' @ show_int (wrap64 now)))
              else io_ret eventID0) (\<lambda>eventID.
     io_bind (io_now W) (\<lambda>now.
     saga_AppendEvent W sagaID (step_event eventID now sagaID nodeID nodeKind r))))"

section \<open>Compensation\<close>

text \<open>
  The loop of \<^verbatim>\<open>compensate\<close> over the nodes left, with the current handle and the ids compensated so
  far. When it fails, the handle the caller holds is still the one it passed in.
\<close>

fun compensateLoop ::
  "('s, 'z) World_scheme \<Rightarrow> 's Executor \<Rightarrow> SagaIntent \<Rightarrow> SagaGraph \<Rightarrow> SagaControl \<Rightarrow> results \<Rightarrow> SagaNode list \<Rightarrow>
   SagaLeaseHandle \<Rightarrow> string list \<Rightarrow> ('s, SagaLeaseHandle \<times> string list) io" where
  "compensateLoop W ex intent graph control completed [] handle compensated = io_ret (handle, compensated)"
| "compensateLoop W ex intent graph control completed (node # order) handle compensated =
     (case sn_Compensate node of
        None \<Rightarrow> compensateLoop W ex intent graph control completed order handle compensated
      | Some spec \<Rightarrow>
          if sn_Reversibility node = Irreversible
          then compensateLoop W ex intent graph control completed order handle compensated
          else (case ex_Steps ex (sn_Kind node) of
              None \<Rightarrow> compensateLoop W ex intent graph control completed order handle compensated
            | Some step \<Rightarrow>
                io_bind (io_try (st_Compensate step (step_request intent graph control node completed)
                           (result_at completed (sn_ID node)))) (\<lambda>r.
                (let outcome = (case r of
                       Inr x \<Rightarrow> x
                     | Inl err \<Rightarrow> Some \<lparr>so_Status = StatusFailed, so_Result = RawEmpty,
                         so_Failure = Some (zero_StepFailure\<lparr>sf_Code := ''COMPENSATION_FAILED'', sf_Summary := err_text err\<rparr>),
                         so_ProviderOperations = [], so_Summary = []\<rparr>);
                     compStepID = sn_ID node @ ''-compensate''
                 in io_bind (persistStepResult W (si_SagaID intent) compStepID (cs_Kind spec) outcome) (\<lambda>persisted.
                    io_bind (appendStepEvent W (si_SagaID intent) compStepID (cs_Kind spec) persisted) (\<lambda>_.
                    io_bind (UpdateControlWithLeaseCAS W handle (\<lambda>c. Inr (c\<lparr>sct_Status := SagaCompensating,
                       sct_StepResults := upsertStepResultRef (sct_StepResults c) (stepResultRef persisted),
                       sct_CurrentSteps := [compStepID]\<rparr>))) (\<lambda>(nextHandle, doc).
                    compensateLoop W ex intent graph control completed order nextHandle
                      (if sr_Status persisted = StatusSucceeded then compensated @ [sn_ID node] else compensated))))))))"

definition compensate ::
  "('s, 'z) World_scheme \<Rightarrow> 's Executor \<Rightarrow> SagaLeaseHandle \<Rightarrow> SagaIntent \<Rightarrow> SagaGraph \<Rightarrow> SagaControl \<Rightarrow> results \<Rightarrow>
   ('s, SagaLeaseHandle \<times> string list) io" where
  "compensate W ex handle intent graph control completed =
     io_bind (io_lift (ReverseTopologicalCompleted graph (Some completed))) (\<lambda>order.
     compensateLoop W ex intent graph control completed order handle [])"

section \<open>Execution\<close>

text \<open>The world and the handle the deferred release will use.\<close>

type_synonym ('s, 'a) held = "('s \<times> SagaLeaseHandle, 'a) io"

definition in_world :: "('s, 'a) io \<Rightarrow> ('s, 'a) held" where
  "in_world m p = (case m (fst p) of (r, t) \<Rightarrow> (r, (t, snd p)))"

definition take_handle :: "('s, SagaLeaseHandle \<times> 'a) io \<Rightarrow> ('s, 'a) held" where
  "take_handle m p = (case m (fst p) of
      (Inl e, t) \<Rightarrow> (Inl e, (t, snd p))
    | (Inr (h, x), t) \<Rightarrow> (Inr x, (t, h)))"

definition updateControl :: "('s, 'z) World_scheme \<Rightarrow> (SagaControl \<Rightarrow> SagaControl result) \<Rightarrow> ('s, SagaControl) held" where
  "updateControl W mutate p = take_handle (io_bind (UpdateControlWithLeaseCAS W (snd p) mutate)
     (\<lambda>(h, doc). io_ret (h, cdoc_Control doc))) p"

text \<open>
  The nodes of one round, in order: \<open>Inl\<close> the completed results and control after all of them
  succeeded, \<open>Inr\<close> the result with which \<^verbatim>\<open>Execute\<close> returns at once.
\<close>

fun runReady ::
  "('s, 'z) World_scheme \<Rightarrow> 's Executor \<Rightarrow> string \<Rightarrow> SagaIntent \<Rightarrow> SagaGraph \<Rightarrow> SagaNode list \<Rightarrow> results \<Rightarrow> SagaControl \<Rightarrow>
   ('s, (results \<times> SagaControl) + ExecutionResult) held" where
  "runReady W ex sagaID intent graph [] completed control = io_ret (Inl (completed, control))"
| "runReady W ex sagaID intent graph (node # ready) completed control0 =
     io_bind (updateControl W (\<lambda>c. Inr (c\<lparr>sct_Status := SagaRunning, sct_CurrentSteps := [sn_ID node]\<rparr>))) (\<lambda>control.
     io_bind (io_try (in_world (runNodeWithRetry W ex intent graph control node completed))) (\<lambda>r.
     (let outcome = (case r of Inr x \<Rightarrow> x | Inl err \<Rightarrow> failedStepResult node err) in
      io_bind (in_world (persistStepResult W sagaID (sn_ID node) (sn_Kind node) (Some outcome))) (\<lambda>persisted.
      io_bind (in_world (appendStepEvent W sagaID (sn_ID node) (sn_Kind node) persisted)) (\<lambda>_.
      if sr_Status persisted = StatusSucceeded then
        io_bind (updateControl W (\<lambda>c. Inr (c\<lparr>
            sct_StepResults := upsertStepResultRef (sct_StepResults c) (stepResultRef persisted),
            sct_CurrentSteps := []\<rparr>))) (\<lambda>control'.
        runReady W ex sagaID intent graph ready (AList.update (sn_ID node) persisted completed) control')
      else if sr_Status persisted = StatusWaiting then
        io_bind (updateControl W (\<lambda>c. Inr (c\<lparr>
            sct_StepResults := upsertStepResultRef (sct_StepResults c) (stepResultRef persisted),
            sct_CurrentSteps := [sn_ID node]\<rparr>))) (\<lambda>control'.
        io_ret (Inr (executionSummary control' completed [] [])))
      else
        io_bind (\<lambda>p. take_handle (compensate W ex (snd p) intent graph control completed) p) (\<lambda>compensated.
        io_bind (updateControl W (\<lambda>c. Inr (c\<lparr>sct_Status := SagaFailed,
            sct_StepResults := upsertStepResultRef (sct_StepResults c) (stepResultRef persisted),
            sct_CurrentSteps := []\<rparr>))) (\<lambda>control'.
        io_ret (Inr (executionSummary control' completed compensated (sn_ID node))))))))))"

declare runReady.simps [simp del]

text \<open>A round that runs to its end adds a success for every node of it and loses none.\<close>

lemma succeeded_at_update:
  "succeeded_at (AList.update i r completed) j \<longleftrightarrow> (if j = i then resultSucceeded r else succeeded_at completed j)"
  by (simp add: succeeded_at_def result_at_def AList.update_conv')

lemma runReady_continue:
  assumes "runReady W ex sagaID intent graph ready completed control p = (Inr (Inl (completed', control')), q)"
  shows "(\<forall>i. succeeded_at completed i \<longrightarrow> succeeded_at completed' i) \<and> (\<forall>n \<in> set ready. succeeded_at completed' (sn_ID n)) \<and>
    fst ` set completed' \<subseteq> fst ` set completed \<union> sn_ID ` set ready \<and>
    (distinct (map fst completed) \<longrightarrow> distinct (map fst completed'))"
  using assms
proof (induction ready arbitrary: completed control p)
  case (Cons node ready)
  obtain persisted c1 p1 where st: "sr_Status persisted = StatusSucceeded"
    and r: "runReady W ex sagaID intent graph ready (AList.update (sn_ID node) persisted completed) c1 p1 =
      (Inr (Inl (completed', control')), q)"
    using Cons.prems by (auto simp: runReady.simps io_ok_iffs Let_def split: if_splits)
  have ok: "resultSucceeded persisted" using st by (simp add: resultSucceeded_def StatusSucceeded_def)
  note ih = Cons.IH [OF r]
  show ?case
  proof (intro conjI allI ballI impI)
    fix i assume "succeeded_at completed i"
    then have "succeeded_at (AList.update (sn_ID node) persisted completed) i" using ok by (simp add: succeeded_at_update)
    then show "succeeded_at completed' i" using ih by blast
  next
    fix n assume "n \<in> set (node # ready)"
    moreover have "succeeded_at (AList.update (sn_ID node) persisted completed) (sn_ID node)"
      using ok by (simp add: succeeded_at_update)
    ultimately show "succeeded_at completed' (sn_ID n)" using ih by auto
  next
    have "fst ` set (AList.update (sn_ID node) persisted completed) = insert (sn_ID node) (fst ` set completed)"
      by (simp add: AList.dom_update)
    then show "fst ` set completed' \<subseteq> fst ` set completed \<union> sn_ID ` set (node # ready)" using ih by auto
  next
    assume "distinct (map fst completed)"
    then show "distinct (map fst completed')" using ih by (simp add: AList.distinct_update)
  qed
qed (auto simp: runReady.simps io_ret_def)

definition nodes_left :: "SagaGraph \<Rightarrow> results \<Rightarrow> nat" where
  "nodes_left graph completed = length (filter (\<lambda>n. \<not> succeeded_at completed (sn_ID n)) (sg_Nodes graph))"

lemma round_decreases:
  assumes "ReadyNodes graph completed = Inr (node # ready)"
    "runReady W ex sagaID intent graph (node # ready) completed control q = (Inr (Inl (completed', control')), q')"
  shows "nodes_left graph completed' < nodes_left graph completed"
proof -
  have n: "node \<in> set (sg_Nodes graph)" "\<not> succeeded_at completed (sn_ID node)" using ReadyNodes_set(1) [OF assms(1)] by auto
  note c = runReady_continue [OF assms(2)]
  have "Suc (nodes_left graph completed') \<le> nodes_left graph completed"
    unfolding nodes_left_def by (rule filter_length_strict [OF _ n(1)]) (use c n in auto)
  then show ?thesis by simp
qed

function execLoop ::
  "('s, 'z) World_scheme \<Rightarrow> 's Executor \<Rightarrow> string \<Rightarrow> SagaIntent \<Rightarrow> SagaGraph \<Rightarrow> results \<Rightarrow> SagaControl \<Rightarrow>
   ('s, ExecutionResult) held" where
  "execLoop W ex sagaID intent graph completed control p = (case in_world (io_ctx W) p of
      (Inl err, q) \<Rightarrow> (Inl err, q)
    | (Inr _, q) \<Rightarrow> (case ReadyNodes graph completed of
          Inl err \<Rightarrow> (Inl err, q)
        | Inr [] \<Rightarrow>
            if length completed = length (sg_Nodes graph) then
              io_bind (updateControl W (\<lambda>c. Inr (c\<lparr>sct_Status := SagaSucceeded, sct_CurrentSteps := []\<rparr>))) (\<lambda>control'.
              io_ret (executionSummary control' completed [] [])) q
            else (Inr (executionSummary control completed [] []), q)
        | Inr (node # ready) \<Rightarrow>
            (case runReady W ex sagaID intent graph (node # ready) completed control q of
               (Inl err, q') \<Rightarrow> (Inl err, q')
             | (Inr (Inr res), q') \<Rightarrow> (Inr res, q')
             | (Inr (Inl (completed', control')), q') \<Rightarrow>
                 execLoop W ex sagaID intent graph completed' control' q')))"
  by pat_completeness auto
termination
proof (relation "measure (\<lambda>(W, ex, sagaID, intent, graph, completed, control, p). nodes_left graph completed)", goal_cases)
  case (2 W ex sagaID intent graph completed control p r q u ready0 node ready rr q' y z completed' control')
  have "ReadyNodes graph completed = Inr (node # ready)"
    "runReady W ex sagaID intent graph (node # ready) completed control q = (Inr (Inl (completed', control')), q')"
    using 2 by simp_all
  from round_decreases [OF this] show ?case by simp
qed simp

declare execLoop.simps [simp del]

definition executeBody ::
  "('s, 'z) World_scheme \<Rightarrow> 's Executor \<Rightarrow> string \<Rightarrow> SagaControl \<Rightarrow> ('s, ExecutionResult) held" where
  "executeBody W ex sagaID control0 =
     io_bind (in_world (GetIntent W sagaID)) (\<lambda>intent.
     io_bind (in_world (GetGraph W sagaID)) (\<lambda>graph.
     if sct_Status control0 = SagaSucceeded \<or> sct_Status control0 = SagaCanceled then
       io_ret (executionSummary control0 [] [] [])
     else
       io_bind (if sct_Status control0 = SagaPending
                then updateControl W (\<lambda>c. Inr (c\<lparr>sct_Status := SagaRunning\<rparr>)) else io_ret control0) (\<lambda>control.
       execLoop W ex sagaID (idoc_Intent intent) (gdoc_Graph graph) (completedResults control) control)))"

definition Execute :: "('s, 'z) World_scheme \<Rightarrow> 's Executor \<Rightarrow> string \<Rightarrow> ('s, ExecutionResult) io" where
  "Execute W ex sagaID =
     (let owner = (if ex_Owner ex = [] then ''saga-executor'' else ex_Owner ex);
          duration = (if ex_LeaseDuration ex \<le> 0 then 30000000000 else ex_LeaseDuration ex)
      in io_bind (saga_AcquireLease W sagaID \<lparr>slo_Owner = owner, slo_Duration = duration\<rparr>) (\<lambda>(handle, doc).
         (\<lambda>s. case executeBody W ex sagaID (cdoc_Control doc) (s, handle) of (r, (t, latest)) \<Rightarrow>
            (case saga_ReleaseLease W latest t of (_, t') \<Rightarrow> (r, t')))))"

section \<open>Dependencies are respected\<close>

text \<open>
  An executor whose steps check, on every call, that the call is one the graph allows: \<^verbatim>\<open>Run\<close> only for a
  node that has not succeeded and whose requirements all have, \<^verbatim>\<open>Compensate\<close> only for a node that has
  succeeded, with its own recorded result, a compensation and a reversible effect. The check aborts
  the call otherwise.
\<close>

definition run_allowed :: "StepRequest \<Rightarrow> bool" where
  "run_allowed req =
     (rq_Node req \<in> set (sg_Nodes (rq_Graph req)) \<and>
      \<not> succeeded_at (rq_PreviousResults req) (sn_ID (rq_Node req)) \<and>
      list_all (succeeded_at (rq_PreviousResults req)) (requiresForNode (rq_Graph req) (rq_Node req)))"

definition compensate_allowed :: "StepRequest \<Rightarrow> StepResult \<Rightarrow> bool" where
  "compensate_allowed req r =
     (rq_Node req \<in> set (sg_Nodes (rq_Graph req)) \<and>
      map_of (rq_PreviousResults req) (sn_ID (rq_Node req)) = Some r \<and> resultSucceeded r \<and>
      sn_Compensate (rq_Node req) \<noteq> None \<and> sn_Reversibility (rq_Node req) \<noteq> Irreversible)"

definition guard_step :: "'s Step \<Rightarrow> 's Step" where
  "guard_step step = step\<lparr>
     st_Run := (\<lambda>req. if run_allowed req then st_Run step req else io_fail (new_error ''dependency violation'')),
     st_Compensate := (\<lambda>req r. if compensate_allowed req r then st_Compensate step req r
       else io_fail (new_error ''dependency violation''))\<rparr>"

definition guard_executor :: "'s Executor \<Rightarrow> 's Executor" where
  "guard_executor ex = ex\<lparr>ex_Steps := (\<lambda>kind. map_option guard_step (ex_Steps ex kind))\<rparr>"

lemma io_bind_cong_fun: "m = m' \<Longrightarrow> (\<And>x. f x = f' x) \<Longrightarrow> io_bind m f = io_bind m' f'"
  by presburger

lemma guard_simps [simp]:
  "ex_Steps (guard_executor ex) kind = map_option guard_step (ex_Steps ex kind)"
  "ex_Owner (guard_executor ex) = ex_Owner ex" "ex_LeaseDuration (guard_executor ex) = ex_LeaseDuration ex"
  "st_ValidateParams (guard_step step) = st_ValidateParams step"
  "run_allowed req \<Longrightarrow> st_Run (guard_step step) req = st_Run step req"
  "compensate_allowed req r \<Longrightarrow> st_Compensate (guard_step step) req r = st_Compensate step req r"
  by (simp_all add: guard_executor_def guard_step_def)

lemma runAttempts_guard:
  assumes "run_allowed req"
  shows "runAttempts W (guard_step step) req node n a = runAttempts W step req node n a"
proof (induction n arbitrary: a)
  case (Suc n)
  show ?case unfolding runAttempts.simps Suc guard_simps(5) [OF assms] ..
qed simp

lemma runNodeWithRetry_guard:
  assumes "run_allowed (step_request intent graph control node completed)"
  shows "runNodeWithRetry W (guard_executor ex) intent graph control node completed =
    runNodeWithRetry W ex intent graph control node completed"
  by (cases "ex_Steps ex (sn_Kind node)") (simp_all add: runNodeWithRetry_def runAttempts_guard [OF assms])

lemma compensateLoop_guard:
  assumes "\<forall>n \<in> set order. n \<in> set (sg_Nodes graph) \<and> succeeded_at completed (sn_ID n)"
  shows "compensateLoop W (guard_executor ex) intent graph control completed order handle compensated =
    compensateLoop W ex intent graph control completed order handle compensated"
  using assms
proof (induction order arbitrary: handle compensated)
  case (Cons node order)
  have ih: "compensateLoop W (guard_executor ex) intent graph control completed order h c =
      compensateLoop W ex intent graph control completed order h c" for h c using Cons by simp
  show ?case
  proof (cases "sn_Compensate node = None \<or> sn_Reversibility node = Irreversible \<or> ex_Steps ex (sn_Kind node) = None")
    case True
    then show ?thesis by (auto simp: ih split: option.splits)
  next
    case False
    then obtain spec step where s: "sn_Compensate node = Some spec" "ex_Steps ex (sn_Kind node) = Some step"
      "sn_Reversibility node \<noteq> Irreversible" by auto
    have "compensate_allowed (step_request intent graph control node completed) (result_at completed (sn_ID node))"
      using Cons.prems s by (auto simp: compensate_allowed_def step_request_def succeeded_at_iff result_at_def)
    then show ?thesis
      using s unfolding compensateLoop.simps ih by simp
  qed
qed simp

lemma compensate_guard:
  "compensate W (guard_executor ex) handle intent graph control completed = compensate W ex handle intent graph control completed"
proof (cases "ReverseTopologicalCompleted graph (Some completed)")
  case (Inr order)
  then have "\<forall>n \<in> set order. n \<in> set (sg_Nodes graph) \<and> succeeded_at completed (sn_ID n)"
    using TopologicalOrder_Inr
    by (auto simp: ReverseTopologicalCompleted_def rbind_Inr_iff succeeded_at_def topological_def)
  then show ?thesis using Inr by (simp add: compensate_def compensateLoop_guard)
qed (simp add: compensate_def)

lemma runReady_guard:
  assumes "\<forall>n \<in> set ready. n \<in> set (sg_Nodes graph) \<and> \<not> succeeded_at completed (sn_ID n) \<and>
      (\<forall>r \<in> set (requiresForNode graph n). succeeded_at completed r)" "distinct (map sn_ID ready)"
  shows "runReady W (guard_executor ex) sagaID intent graph ready completed control =
    runReady W ex sagaID intent graph ready completed control"
  using assms
proof (induction ready arbitrary: completed control)
  case (Cons node ready)
  have run: "runNodeWithRetry W (guard_executor ex) intent graph c node completed =
      runNodeWithRetry W ex intent graph c node completed" for c
    using Cons.prems(1) by (intro runNodeWithRetry_guard) (simp add: run_allowed_def step_request_def list_all_iff)
  have rest: "runReady W (guard_executor ex) sagaID intent graph ready (AList.update (sn_ID node) persisted completed) c =
      runReady W ex sagaID intent graph ready (AList.update (sn_ID node) persisted completed) c"
    if "sr_Status persisted = StatusSucceeded" for persisted c
  proof (rule Cons.IH)
    show "distinct (map sn_ID ready)" using Cons.prems(2) by simp
    show "\<forall>n \<in> set ready. n \<in> set (sg_Nodes graph) \<and> \<not> succeeded_at (AList.update (sn_ID node) persisted completed) (sn_ID n) \<and>
        (\<forall>r \<in> set (requiresForNode graph n). succeeded_at (AList.update (sn_ID node) persisted completed) r)"
      using Cons.prems that by (auto simp: succeeded_at_update resultSucceeded_def StatusSucceeded_def image_iff)
  qed
  show ?case
    unfolding runReady.simps Let_def run
    by (intro io_bind_cong_fun refl if_cong) (auto simp: rest compensate_guard)
qed (simp add: runReady.simps)

lemma execLoop_guard:
  "execLoop W (guard_executor ex) sagaID intent graph completed control p = execLoop W ex sagaID intent graph completed control p"
proof (induction W ex sagaID intent graph completed control p rule: execLoop.induct)
  case (1 W ex sagaID intent graph completed control p)
  obtain r q where pq: "in_world (io_ctx W) p = (r, q)" by (cases "in_world (io_ctx W) p")
  show ?case
  proof (cases r)
    case (Inr u)
    show ?thesis
    proof (cases "ReadyNodes graph completed")
      case rd: (Inr ready)
      show ?thesis
      proof (cases ready)
        case (Cons node rest)
        have rr: "runReady W (guard_executor ex) sagaID intent graph (node # rest) completed control =
            runReady W ex sagaID intent graph (node # rest) completed control"
          using ReadyNodes_set [OF rd] Cons by (intro runReady_guard) auto
        obtain x q' where x: "runReady W ex sagaID intent graph (node # rest) completed control q = (x, q')"
          by (cases "runReady W ex sagaID intent graph (node # rest) completed control q")
        show ?thesis
        proof (cases "\<exists>c' d'. x = Inr (Inl (c', d'))")
          case True
          then obtain c' d' where x': "x = Inr (Inl (c', d'))" by blast
          have "execLoop W (guard_executor ex) sagaID intent graph c' d' q' = execLoop W ex sagaID intent graph c' d' q'"
            by (rule "1.IH" [OF pq [symmetric] _ rd Cons x [symmetric] x']) (use Inr in auto)
          then show ?thesis using pq Inr rd Cons x x' rr
            by (subst (1 2) execLoop.simps) simp
        next
          case False
          then show ?thesis using pq Inr rd Cons x rr
            by (subst (1 2) execLoop.simps) (auto split: sum.splits)
        qed
      qed (use pq Inr rd in \<open>subst (1 2) execLoop.simps, simp\<close>)
    qed (use pq Inr in \<open>subst (1 2) execLoop.simps, simp\<close>)
  qed (use pq in \<open>subst (1 2) execLoop.simps, simp\<close>)
qed

section \<open>The executor's view of the control document\<close>

lemma in_world_Inr: "in_world m p = (r, q) \<longleftrightarrow> m (fst p) = (r, fst q) \<and> snd q = snd p"
  by (cases q) (auto simp: in_world_def split: prod.splits)

lemma take_handle_Inr:
  "take_handle m p = (Inr x, q) \<longleftrightarrow> m (fst p) = (Inr (snd q, x), fst q)"
  by (cases q) (auto simp: take_handle_def split: prod.splits sum.splits)

lemma sagaLeaseHandle_ok:
  "sagaLeaseHandle doc = Inr h \<Longrightarrow> slh_ETag h = cdoc_ETag doc \<and> slh_SagaID h = sct_SagaID (cdoc_Control doc)"
  by (auto simp: sagaLeaseHandle_def split: option.splits)

text \<open>All recorded results are successes of nodes of the graph, one per node.\<close>

definition results_ok :: "SagaGraph \<Rightarrow> results \<Rightarrow> bool" where
  "results_ok graph completed \<longleftrightarrow> distinct (map fst completed) \<and> fst ` set completed \<subseteq> set (node_ids graph) \<and>
     (\<forall>i r. map_of completed i = Some r \<longrightarrow> resultSucceeded r)"

lemma results_ok_update:
  assumes "results_ok graph completed" "n \<in> set (sg_Nodes graph)" "sr_Status r = StatusSucceeded"
  shows "results_ok graph (AList.update (sn_ID n) r completed)"
  using assms
  by (auto simp: results_ok_def AList.distinct_update AList.dom_update AList.update_conv' node_ids_def resultSucceeded_def
      StatusSucceeded_def)

context world
begin

definition steps_quiet :: "'s Executor \<Rightarrow> bool" where
  "steps_quiet ex \<longleftrightarrow> (\<forall>kind step. ex_Steps ex kind = Some step \<longrightarrow>
     (\<forall>p. quiet (st_ValidateParams step p)) \<and> (\<forall>rq. quiet (st_Run step rq)) \<and> (\<forall>rq r. quiet (st_Compensate step rq r)))"

lemma quiet_runAttempts: "\<forall>rq. quiet (st_Run step rq) \<Longrightarrow> quiet (runAttempts W step req node n a)"
  by (induction n arbitrary: a) (auto intro!: quiet_bind quiet_case_sum quiet_case_option quiet_if)

lemma quiet_runNode: "steps_quiet ex \<Longrightarrow> quiet (runNodeWithRetry W ex intent graph control node completed)"
  by (cases "ex_Steps ex (sn_Kind node)") (auto simp: runNodeWithRetry_def steps_quiet_def intro!: quiet_runAttempts)

lemma quiet_persist [simp]: "quiet (persistStepResult W sagaID i k out)"
  by (auto simp: persistStepResult_def Let_def)

lemma quiet_appendStepEvent [simp]: "quiet (appendStepEvent W sagaID i k r)"
  by (auto simp: appendStepEvent_def)

lemma quiet_compensateLoop:
  "steps_quiet ex \<Longrightarrow> quiet (compensateLoop W ex intent graph control completed order h done)"
proof (induction order arbitrary: h "done")
  case (Cons node order)
  have "ex_Steps ex (sn_Kind node) = Some step \<Longrightarrow> quiet (st_Compensate step rq r)" for step rq r
    using Cons.prems by (auto simp: steps_quiet_def)
  then show ?case using Cons by (auto simp: Let_def split: option.splits)
qed simp

lemma quiet_compensate: "steps_quiet ex \<Longrightarrow> quiet (compensate W ex h intent graph control completed)"
  by (auto simp: compensate_def intro!: quiet_compensateLoop)

text \<open>
  The handle was made from a control document whose content is \<open>control\<close>, stored at some moment up
  to now. As long as the executor's updates succeed, the stored document is the executor's own copy.
\<close>

definition holds :: "'s \<times> SagaLeaseHandle \<Rightarrow> SagaControl \<Rightarrow> bool" where
  "holds p control \<longleftrightarrow> (\<exists>t0. inv t0 \<and> evolves t0 (fst p) \<and> slh_SagaID (snd p) = sct_SagaID control \<and>
     saga_at (objs t0) (sct_SagaID control) = Some (slh_ETag (snd p), control) \<and> validateControl control = Inr ())"

lemma holds_inv: "holds p control \<Longrightarrow> inv (fst p)"
  by (auto simp: holds_def evolves_inv)

lemma holds_quiet: "holds p control \<Longrightarrow> quiet m \<Longrightarrow> in_world m p = (r, q) \<Longrightarrow> holds q control"
  using quietD [of m "fst p"] holds_inv evolves_trans unfolding holds_def in_world_Inr by metis

text \<open>Steps of the executor change the world only as clients of the store can.\<close>

definition held_quiet :: "('s, 'a) held \<Rightarrow> bool" where
  "held_quiet m \<longleftrightarrow> (\<forall>p r q. inv (fst p) \<longrightarrow> m p = (r, q) \<longrightarrow> evolves (fst p) (fst q))"

lemma held_quietD: "held_quiet m \<Longrightarrow> inv (fst p) \<Longrightarrow> m p = (r, q) \<Longrightarrow> evolves (fst p) (fst q)"
  unfolding held_quiet_def by blast

lemma held_quiet_ret: "held_quiet (io_ret x)"
  by (auto simp: held_quiet_def io_ret_def evolves_refl)

lemma held_quiet_world: "quiet m \<Longrightarrow> held_quiet (in_world m)"
  by (auto simp: held_quiet_def in_world_Inr dest: quietD)

lemma held_quiet_try: "held_quiet m \<Longrightarrow> held_quiet (io_try m)"
  by (auto simp: held_quiet_def io_try_def split: prod.splits)

lemma held_quiet_bind:
  assumes "held_quiet m" "\<And>x. held_quiet (f x)"
  shows "held_quiet (io_bind m f)"
  unfolding held_quiet_def
proof (intro allI impI)
  fix p r q
  assume a: "inv (fst p)" "io_bind m f p = (r, q)"
  obtain x p1 where m: "m p = (x, p1)" by (cases "m p")
  then have e: "evolves (fst p) (fst p1)" "inv (fst p1)" using held_quietD [OF assms(1) a(1)] a(1) evolves_inv by blast+
  then show "evolves (fst p) (fst q)"
    using a(2) m held_quietD [OF assms(2) e(2)] evolves_trans by (cases x) (auto simp: io_bind_def)
qed

lemma held_quiet_take: "(\<And>h. quiet (m h)) \<Longrightarrow> held_quiet (\<lambda>p. take_handle (m (snd p)) p)"
  by (auto simp: held_quiet_def take_handle_def dest: quietD split: prod.splits sum.splits)

lemma held_quiet_updateControl: "held_quiet (updateControl W f)"
proof -
  have "held_quiet (\<lambda>p. take_handle (io_bind (UpdateControlWithLeaseCAS W (snd p) f) (\<lambda>(h, doc). io_ret (h, cdoc_Control doc))) p)"
    by (rule held_quiet_take) (auto intro!: quiet_bind)
  then show ?thesis by (simp add: updateControl_def [abs_def])
qed

lemmas held_quiet_intros = held_quiet_ret held_quiet_world held_quiet_try held_quiet_bind held_quiet_take held_quiet_updateControl

lemma held_quiet_runReady:
  assumes "steps_quiet ex"
  shows "held_quiet (runReady W ex sagaID intent graph ready completed control)"
proof (induction ready arbitrary: completed control)
  case Nil
  then show ?case by (auto simp: held_quiet_def runReady.simps io_ret_def evolves_refl)
next
  case (Cons node ready)
  then show ?case unfolding runReady.simps Let_def
    by (auto intro!: held_quiet_intros quiet_compensate quiet_runNode assms)
qed

lemma held_quiet_execLoop:
  assumes "steps_quiet ex"
  shows "inv (fst p) \<Longrightarrow> execLoop W ex sagaID intent graph completed control p = (r, q) \<Longrightarrow> evolves (fst p) (fst q)"
proof (induction "nodes_left graph completed" arbitrary: completed control p rule: less_induct)
  case less
  obtain x p1 where p1: "in_world (io_ctx W) p = (x, p1)" by (cases "in_world (io_ctx W) p")
  have e1: "evolves (fst p) (fst p1)" by (rule held_quietD [OF held_quiet_world less.prems(1) p1]) simp
  have i1: "inv (fst p1)" using e1 less.prems(1) evolves_inv by blast
  consider (stop) "q = p1"
    | (last) f g where "io_bind (updateControl W f) (\<lambda>c. io_ret (g c)) p1 = (r, q)"
    | (round) node rest y p2 where "ReadyNodes graph completed = Inr (node # rest)"
        "runReady W ex sagaID intent graph (node # rest) completed control p1 = (y, p2)"
        "q = p2 \<or> (\<exists>c' d'. y = Inr (Inl (c', d')) \<and> execLoop W ex sagaID intent graph c' d' p2 = (r, q))"
    using less.prems(2) p1 by (subst (asm) execLoop.simps) (auto split: sum.splits list.splits if_splits prod.splits)
  then show ?case
  proof cases
    case stop
    then show ?thesis using e1 by simp
  next
    case last
    then have "evolves (fst p1) (fst q)"
      by (rule held_quietD [OF held_quiet_bind [OF held_quiet_updateControl held_quiet_ret] i1])
    then show ?thesis using e1 evolves_trans by blast
  next
    case round
    have e2: "evolves (fst p) (fst p2)" using held_quietD [OF held_quiet_runReady [OF assms] i1 round(2)] e1 evolves_trans by blast
    then have i2: "inv (fst p2)" using less.prems(1) evolves_inv by blast
    from round(3) show ?thesis
    proof
      assume "\<exists>c' d'. y = Inr (Inl (c', d')) \<and> execLoop W ex sagaID intent graph c' d' p2 = (r, q)"
      then obtain c' d' where c: "y = Inr (Inl (c', d'))" "execLoop W ex sagaID intent graph c' d' p2 = (r, q)" by blast
      then have "nodes_left graph c' < nodes_left graph completed" using round_decreases round(1,2) by blast
      then show ?thesis using less.hyps [OF _ i2 c(2)] e2 evolves_trans by blast
    qed (use e2 in simp)
  qed
qed

lemma updateControl_exact:
  assumes "holds p control" "updateControl W f p = (Inr control', q)"
  shows "holds q control' \<and> sct_SagaID control' = sct_SagaID control \<and> evolves (fst p) (fst q) \<and>
    saga_at (objs (fst q)) (sct_SagaID control) = Some (slh_ETag (snd q), control') \<and> (\<exists>n now. f control = Inr n \<and>
    control' = normalizeControl (n\<lparr>sct_Lease := sct_Lease control\<rparr>) (sct_SagaID control) (canonical_Time now))"
proof -
  obtain t0 where t0: "inv t0" "evolves t0 (fst p)" "slh_SagaID (snd p) = sct_SagaID control"
    "saga_at (objs t0) (sct_SagaID control) = Some (slh_ETag (snd p), control)"
    using assms(1) unfolding holds_def by blast
  obtain doc where up: "UpdateControlWithLeaseCAS W (snd p) f (fst p) = (Inr (snd q, doc), fst q)" "control' = cdoc_Control doc"
    using assms(2) by (auto simp: updateControl_def take_handle_Inr io_ok_iffs)
  have i: "inv (fst p)" using holds_inv [OF assms(1)] .
  note ef = saga_Update_effect [OF i up(1)]
  obtain c n now where c: "saga_holder (snd p) (fst p) c (cdoc_Control doc) (cdoc_ETag doc) (fst q)" "f c = Inr n"
    "cdoc_Control doc = normalizeControl (n\<lparr>sct_Lease := sct_Lease c\<rparr>) (sct_SagaID c) (canonical_Time now)"
    using ef by blast
  obtain e1 v v' where h: "saga_reads W (sct_SagaID control) (fst p) e1 c v" "evolves v v'"
    "saga_swaps W (sct_SagaID control) v' (slh_ETag (snd p)) (cdoc_ETag doc) (cdoc_Control doc) (fst q)"
    using c(1) t0(3) unfolding saga_holder_def by auto
  obtain b0 where b0: "objs t0 (saga_key (sct_SagaID control)) = Some (slh_ETag (snd p), b0)" "saga_view b0 = Some control"
    using t0(4) by (auto simp: view_at_Some)
  from saga_doc.holder_swap_view [OF t0(1) b0(1) t0(2) h] obtain u where
    u: "evolves v' u" "evolves u (fst q)" "saga_at (objs u) (sct_SagaID control) = Some (slh_ETag (snd p), c)"
    "saga_at (objs (fst q)) (sct_SagaID control) = Some (cdoc_ETag doc, cdoc_Control doc)" by blast
  have "evolves t0 v" using t0(2) saga_doc.reads_law [OF h(1)] evolves_trans by blast
  then have tu: "evolves t0 u" using h(2) u(1) evolves_trans by blast
  have "c = control"
    using u(3) etag_pins [OF t0(1) tu b0(1)] b0(2) by (auto simp: view_at_Some)
  moreover have "slh_ETag (snd q) = cdoc_ETag doc" "slh_SagaID (snd q) = sct_SagaID (cdoc_Control doc)"
    using ef sagaLeaseHandle_ok by blast+
  moreover have "inv (fst q)" using tu u(2) t0(1) evolves_inv by blast
  moreover have "evolves (fst p) (fst q)" using saga_doc.reads_law [OF h(1)] h(2) u(1,2) evolves_trans by blast
  ultimately show ?thesis
    using c(2,3) ef t0(3) u(4) up(2) evolves_refl by (auto simp: holds_def intro!: exI [of _ "fst q"])
qed

lemma updateControl_sets:
  assumes "inv (fst p)" "updateControl W (\<lambda>c. Inr (g c)) p = (Inr control', q)"
  shows "evolves (fst p) (fst q) \<and> (\<exists>c now. control' = normalizeControl ((g c)\<lparr>sct_Lease := sct_Lease c\<rparr>) (sct_SagaID c) (canonical_Time now))"
proof -
  obtain doc where up: "UpdateControlWithLeaseCAS W (snd p) (\<lambda>c. Inr (g c)) (fst p) = (Inr (snd q, doc), fst q)"
    "control' = cdoc_Control doc"
    using assms(2) by (auto simp: updateControl_def take_handle_Inr io_ok_iffs)
  have "evolves (fst p) (fst q)" by (rule quietD [OF quiet_saga_leases(6) assms(1) up(1)])
  then show ?thesis using saga_Update_effect [OF assms(1) up(1)] up(2) by auto
qed

lemma status_normalizeControl: "sct_Status c \<noteq> [] \<Longrightarrow> sct_Status (normalizeControl c i n) = sct_Status c"
  by (simp add: normalizeControl_def Let_def)

lemma runReady_outcome:
  assumes q: "steps_quiet ex" and "holds p control" "results_ok graph completed" "set ready \<subseteq> set (sg_Nodes graph)"
    "runReady W ex sagaID intent graph ready completed control p = (Inr x, q)"
  shows "case x of
      Inl (completed', control') \<Rightarrow> holds q control' \<and> results_ok graph completed' \<and>
        sct_SagaID control' = sct_SagaID control \<and>
        (if ready = [] then control' = control else sct_Status control' = SagaRunning)
    | Inr res \<Rightarrow> er_Status res = SagaRunning \<or> er_Status res = SagaFailed"
  using assms(2-)
proof (induction ready arbitrary: completed control p)
  case (Cons node ready)
  obtain c1 p1 r p2 persisted p3 ed p4 where
    u1: "updateControl W (\<lambda>c. Inr (c\<lparr>sct_Status := SagaRunning, sct_CurrentSteps := [sn_ID node]\<rparr>)) p = (Inr c1, p1)"
    and run: "in_world (runNodeWithRetry W ex intent graph c1 node completed) p1 = (r, p2)"
    and per: "in_world (persistStepResult W sagaID (sn_ID node) (sn_Kind node)
        (Some (case r of Inr x \<Rightarrow> x | Inl err \<Rightarrow> failedStepResult node err))) p2 = (Inr persisted, p3)"
    and ev: "in_world (appendStepEvent W sagaID (sn_ID node) (sn_Kind node) persisted) p3 = (Inr ed, p4)"
    and rest: "(if sr_Status persisted = StatusSucceeded then
        io_bind (updateControl W (\<lambda>c. Inr (c\<lparr>
            sct_StepResults := upsertStepResultRef (sct_StepResults c) (stepResultRef persisted),
            sct_CurrentSteps := []\<rparr>))) (\<lambda>control'.
        runReady W ex sagaID intent graph ready (AList.update (sn_ID node) persisted completed) control')
      else if sr_Status persisted = StatusWaiting then
        io_bind (updateControl W (\<lambda>c. Inr (c\<lparr>
            sct_StepResults := upsertStepResultRef (sct_StepResults c) (stepResultRef persisted),
            sct_CurrentSteps := [sn_ID node]\<rparr>))) (\<lambda>control'.
        io_ret (Inr (executionSummary control' completed [] [])))
      else
        io_bind (\<lambda>p. take_handle (compensate W ex (snd p) intent graph c1 completed) p) (\<lambda>compensated.
        io_bind (updateControl W (\<lambda>c. Inr (c\<lparr>sct_Status := SagaFailed,
            sct_StepResults := upsertStepResultRef (sct_StepResults c) (stepResultRef persisted),
            sct_CurrentSteps := []\<rparr>))) (\<lambda>control'.
        io_ret (Inr (executionSummary control' completed compensated (sn_ID node)))))) p4 = (Inr x, q)"
    using Cons.prems(4) unfolding runReady.simps Let_def
    by (simp only: io_bind_Inr_iff io_try_Inr_iff) blast
  have h1: "holds p1 c1" and s1: "sct_Status c1 = SagaRunning"
    using updateControl_exact [OF Cons.prems(1) u1] status_normalizeControl by (auto simp: saga_status_defs)
  have i1: "sct_SagaID c1 = sct_SagaID control" using updateControl_exact [OF Cons.prems(1) u1] by blast
  have h4: "holds p4 c1"
    using holds_quiet [OF holds_quiet [OF holds_quiet [OF h1 quiet_runNode [OF q] run] quiet_persist per] quiet_appendStepEvent ev] .
  consider (ok) "sr_Status persisted = StatusSucceeded" | (waiting) "sr_Status persisted = StatusWaiting"
    | (failed) "sr_Status persisted \<noteq> StatusSucceeded" "sr_Status persisted \<noteq> StatusWaiting" by blast
  then show ?case
  proof cases
    case ok
    then obtain c5 p5 where u5: "updateControl W (\<lambda>c. Inr (c\<lparr>
            sct_StepResults := upsertStepResultRef (sct_StepResults c) (stepResultRef persisted), sct_CurrentSteps := []\<rparr>)) p4 = (Inr c5, p5)"
      and r5: "runReady W ex sagaID intent graph ready (AList.update (sn_ID node) persisted completed) c5 p5 = (Inr x, q)"
      using rest by (auto simp: io_bind_Inr_iff)
    have h5: "holds p5 c5" and s5: "sct_Status c5 = SagaRunning" and e5: "sct_SagaID c5 = sct_SagaID control"
      using i1 updateControl_exact [OF h4 u5] status_normalizeControl s1 by (auto simp: saga_status_defs)
    have "results_ok graph (AList.update (sn_ID node) persisted completed)" "set ready \<subseteq> set (sg_Nodes graph)"
      using results_ok_update [OF Cons.prems(2) _ ok] Cons.prems(3) by auto
    from Cons.IH [OF h5 this r5] show ?thesis using s5 e5 by (auto split: sum.splits if_splits)
  next
    case waiting
    then show ?thesis using rest updateControl_exact [OF h4] status_normalizeControl s1
      by (fastforce simp: io_bind_Inr_iff step_status_defs executionSummary_def saga_status_defs)
  next
    case failed
    then obtain comp p5 c6 where cp: "take_handle (compensate W ex (snd p4) intent graph c1 completed) p4 = (Inr comp, p5)"
      and u6: "updateControl W (\<lambda>c. Inr (c\<lparr>sct_Status := SagaFailed,
            sct_StepResults := upsertStepResultRef (sct_StepResults c) (stepResultRef persisted),
            sct_CurrentSteps := []\<rparr>)) p5 = (Inr c6, q)"
      and x: "x = Inr (executionSummary c6 completed comp (sn_ID node))"
      using rest by (auto simp: io_bind_Inr_iff)
    have "inv (fst p5)"
      using cp quietD [OF quiet_compensate [OF q] holds_inv [OF h4]] holds_inv [OF h4] evolves_inv
      unfolding take_handle_Inr by blast
    from updateControl_sets [OF this u6] have "sct_Status c6 = SagaFailed"
      using status_normalizeControl by (auto simp: saga_status_defs)
    then show ?thesis by (simp add: x executionSummary_def)
  qed
qed (auto simp: runReady.simps)

text \<open>A loop that ends with the saga marked succeeded has a success for every node of the graph.\<close>

lemma all_completed:
  assumes "results_ok graph completed" "distinct (node_ids graph)" "length completed = length (sg_Nodes graph)"
  shows "fst ` set completed = set (node_ids graph)"
proof -
  have "card (fst ` set completed) = card (set (node_ids graph))"
    using assms distinct_card [of "map fst completed"] distinct_card [of "node_ids graph"]
    by (simp add: results_ok_def node_ids_def)
  then show ?thesis using assms(1) by (intro card_subset_eq) (auto simp: results_ok_def)
qed

lemma execLoop_success:
  assumes "steps_quiet ex" "holds p control" "results_ok graph completed" "sct_Status control \<noteq> SagaSucceeded"
    "execLoop W ex sagaID intent graph completed control p = (Inr res, q)" "er_Status res = SagaSucceeded"
  shows "set (er_Completed res) = set (node_ids graph) \<and> (\<exists>e control'.
    saga_at (objs (fst q)) (sct_SagaID control) = Some (e, control') \<and> sct_Status control' = SagaSucceeded)"
  using assms(2-)
proof (induction "nodes_left graph completed" arbitrary: completed control p rule: less_induct)
  case less
  obtain p1 where p1: "in_world (io_ctx W) p = (Inr (), p1)" and h1: "holds p1 control"
  proof -
    obtain r p1 where p1: "in_world (io_ctx W) p = (r, p1)" by (cases "in_world (io_ctx W) p")
    then have "holds p1 control" using holds_quiet [OF less.prems(1) quiet_world(8)] by blast
    moreover have "r = Inr ()" using less.prems(4) p1 by (subst (asm) execLoop.simps) (auto split: sum.splits)
    ultimately show ?thesis using p1 that by blast
  qed
  obtain ready where rd: "ReadyNodes graph completed = Inr ready"
    using less.prems(4) p1 by (subst (asm) execLoop.simps) (auto split: sum.splits)
  note rs = ReadyNodes_set [OF rd]
  show ?case
  proof (cases ready)
    case Nil
    show ?thesis
    proof (cases "length completed = length (sg_Nodes graph)")
      case True
      then obtain c' where u: "updateControl W (\<lambda>c. Inr (c\<lparr>sct_Status := SagaSucceeded, sct_CurrentSteps := []\<rparr>)) p1 = (Inr c', q)"
        and "res = executionSummary c' completed [] []"
        using less.prems(4) p1 rd Nil by (subst (asm) execLoop.simps) (auto simp: io_ok_iffs)
      then have "er_Completed res = sort (map fst completed)" "sct_Status c' = SagaSucceeded"
        using less.prems(5) by (simp_all add: executionSummary_def)
      then show ?thesis
        using all_completed [OF less.prems(2) rs(4) True] updateControl_exact [OF h1 u] by auto
    next
      case False
      then have "er_Status res = sct_Status control"
        using less.prems(4) p1 rd Nil by (subst (asm) execLoop.simps) (auto simp: executionSummary_def)
      then show ?thesis using less.prems(3,5) by simp
    qed
  next
    case (Cons node rest)
    obtain x p2 where r: "runReady W ex sagaID intent graph (node # rest) completed control p1 = (x, p2)"
      by (cases "runReady W ex sagaID intent graph (node # rest) completed control p1")
    then obtain y where y: "x = Inr y"
      using less.prems(4) p1 rd Cons by (subst (asm) execLoop.simps) (auto split: sum.splits)
    have sub: "set (node # rest) \<subseteq> set (sg_Nodes graph)" using rs(1) Cons by auto
    note out = runReady_outcome [OF assms(1) h1 less.prems(2) sub, unfolded y, OF r [unfolded y]]
    show ?thesis
    proof (cases y)
      case (Inl cc)
      then obtain c' d' where y': "y = Inl (c', d')" by (cases cc) auto
      have "execLoop W ex sagaID intent graph c' d' p2 = (Inr res, q)"
        using less.prems(4) p1 rd Cons r y y' by (subst (asm) execLoop.simps) simp
      moreover have "nodes_left graph c' < nodes_left graph completed"
        using round_decreases rd Cons r y y' by blast
      ultimately show ?thesis
        using less.hyps [of c' p2 d'] out y' less.prems(5) by (auto simp: saga_status_defs)
    next
      case (Inr res')
      then have "res' = res" using less.prems(4) p1 rd Cons r y by (subst (asm) execLoop.simps) simp
      then show ?thesis using out Inr less.prems(5) by (auto simp: saga_status_defs)
    qed
  qed
qed

text \<open>A fresh lease is held from the document that was swapped in.\<close>

lemma acquire_holds:
  assumes "inv s" "saga_AcquireLease W sagaID opts s = (Inr (h, doc), t)"
  shows "holds (t, h) (cdoc_Control doc)" "inv t"
proof -
  obtain v v' e c where a: "saga_reads W sagaID s e c v" "evolves v v'"
    "saga_swaps W sagaID v' e (cdoc_ETag doc) (cdoc_Control doc) t" "sagaLeaseHandle doc = Inr h"
    "sct_SagaID (cdoc_Control doc) = sagaID"
    using saga_AcquireLease_ok [OF assms] by blast
  obtain u where u: "evolves v' u" "evolves u t" "saga_at (objs t) sagaID = Some (cdoc_ETag doc, cdoc_Control doc)"
    using saga_doc.swap_after_read [OF assms(1) a(1-3)] by blast
  show i: "inv t" using saga_doc.reads_law [OF a(1)] a(2) u(1,2) assms(1) evolves_inv by blast
  have "validateControl (cdoc_Control doc) = Inr ()"
    using assms(2) by (auto simp: saga_AcquireLease_def UpdateControlCAS_def io_ok_iffs Let_def canonical_Marshal_def split: if_splits)
  then show "holds (t, h) (cdoc_Control doc)"
    using i u(3) a(5) sagaLeaseHandle_ok [OF a(4)] by (auto simp: holds_def intro!: exI [of _ t] evolves_refl)
qed

end

section \<open>Properties\<close>

lemma completedResults_ok:
  "distinct (map fst (completedResults control)) \<and> (\<forall>i r. map_of (completedResults control) i = Some r \<longrightarrow> resultSucceeded r)"
proof -
  define f where "f = (\<lambda>(out :: results) (ref :: StepResultRef). if srr_Status ref = StatusSucceeded then
       AList.update (srr_StepID ref) \<lparr>sr_SchemaVersion = schema_Version, sr_SagaID = sct_SagaID control, sr_OperationID = [],
         sr_StepID = srr_StepID ref, sr_Kind = srr_Kind ref, sr_Status = srr_Status ref, sr_Result = srr_Result ref,
         sr_Failure = srr_Failure ref, sr_ProviderOperations = srr_ProviderOperations ref, sr_StartedAt = [],
         sr_CompletedAt = srr_CompletedAt ref\<rparr> out
     else out)"
  have "distinct (map fst (foldl f out refs)) \<and> (\<forall>i r. map_of (foldl f out refs) i = Some r \<longrightarrow> resultSucceeded r)"
    if "distinct (map fst out)" "\<forall>i r. map_of out i = Some r \<longrightarrow> resultSucceeded r" for out refs
    using that
  proof (induction refs arbitrary: out)
    case (Cons ref refs)
    have "distinct (map fst (f out ref)) \<and> (\<forall>i r. map_of (f out ref) i = Some r \<longrightarrow> resultSucceeded r)"
      using Cons.prems unfolding f_def resultSucceeded_def
      by (simp add: AList.distinct_update AList.update_conv' StatusSucceeded_def del: map_of_eq_Some_iff)
    then show ?case using Cons.IH [of "f out ref"] by simp
  qed simp
  from this [of "[]" "sct_StepResults control"] show ?thesis by (simp add: completedResults_def f_def [symmetric])
qed

lemma completedResults_cong:
  "sct_StepResults c = sct_StepResults c' \<Longrightarrow> sct_SagaID c = sct_SagaID c' \<Longrightarrow> completedResults c = completedResults c'"
  unfolding completedResults_def by (simp only:)

lemma completedResults_norm:
  "sct_SagaID c \<noteq> [] \<Longrightarrow> completedResults (normalizeControl c i n) = completedResults c"
  by (rule completedResults_cong) (simp_all add: normalizeControl_def Let_def)

text \<open>The lease \<^verbatim>\<open>Execute\<close> asks for.\<close>

definition execute_lease :: "'s Executor \<Rightarrow> SagaLeaseOptions" where
  "execute_lease ex = \<lparr>slo_Owner = (if ex_Owner ex = [] then ''saga-executor'' else ex_Owner ex),
     slo_Duration = (if ex_LeaseDuration ex \<le> 0 then 30000000000 else ex_LeaseDuration ex)\<rparr>"

lemma Execute_Inr:
  assumes "Execute W ex sagaID s = (Inr res, t)"
  shows "\<exists>h doc s1 t1 hl. saga_AcquireLease W sagaID (execute_lease ex) s = (Inr (h, doc), s1) \<and>
    executeBody W ex sagaID (cdoc_Control doc) (s1, h) = (Inr res, (t1, hl)) \<and> t = snd (saga_ReleaseLease W hl t1)"
proof -
  obtain h doc s1 where a: "saga_AcquireLease W sagaID (execute_lease ex) s = (Inr (h, doc), s1)"
    "(case executeBody W ex sagaID (cdoc_Control doc) (s1, h) of (r, (t, latest)) \<Rightarrow>
        (case saga_ReleaseLease W latest t of (_, t') \<Rightarrow> (r, t'))) = (Inr res, t)"
    using assms unfolding Execute_def Let_def io_bind_Inr_iff execute_lease_def by fastforce
  moreover obtain r t1 hl where "executeBody W ex sagaID (cdoc_Control doc) (s1, h) = (r, (t1, hl))"
    by (metis prod.exhaust)
  ultimately show ?thesis
    by (intro exI [of _ h] exI [of _ doc] exI [of _ s1] exI [of _ t1] exI [of _ hl]) (auto split: prod.splits)
qed

text \<open>
  C5: dependencies are respected. Executing a saga calls \<^verbatim>\<open>Run\<close> only for a node that has not succeeded
  and whose requirements all have, and \<^verbatim>\<open>Compensate\<close> only for a node that succeeded, with its recorded
  result, when the node has a compensation and is not irreversible: an executor whose steps abort on
  any other call behaves exactly like the executor itself, in every world and for every graph.
\<close>

theorem execute_respects_dependencies:
  "Execute W (guard_executor ex) sagaID s = Execute W ex sagaID s"
proof -
  have "executeBody W (guard_executor ex) sagaID control = executeBody W ex sagaID control" for control
    unfolding executeBody_def execLoop_guard ..
  then show ?thesis by (simp add: Execute_def)
qed

end
