(* ===== verification/Saga_Progress.thy ===== *)
theory Saga_Progress
  imports Saga_Executor "HOL-Library.Sublist"
begin

text \<open>
  What an execution of a saga (internal/saga/executor.go) achieves. First what every execution that
  reports success has done, whatever other clients do meanwhile; then that an executor alone with a
  well-formed saga finishes it: each of its store operations succeeds and the loop ends with every
  node completed. Last, what happens to a saga whose graph has a cycle, which validation accepts.
\<close>

section \<open>An executor alone\<close>

text \<open>The executor holds the saga's lease, unexpired, and its copy of the control document is the stored one.\<close>

definition alone_held :: "sys \<times> SagaLeaseHandle \<Rightarrow> SagaControl \<Rightarrow> bool" where
  "alone_held p c \<longleftrightarrow> sys_env (fst p) = [] \<and> slh_SagaID (snd p) = sct_SagaID c \<and>
     saga_at (sys_objs (fst p)) (sct_SagaID c) = Some (slh_ETag (snd p), c) \<and>
     validateControl c = Inr () \<and> sct_UpdatedAt c \<noteq> [] \<and>
     (\<exists>l T. sct_Lease c = Some l \<and> wf_Lease l \<and> lse_Owner l = slh_Owner (snd p) \<and> lse_Token l = slh_Token (snd p) \<and>
        lse_Generation l = slh_Generation (snd p) \<and> time_Parse (lse_ExpiresAt l) = Some T \<and> sys_now (fst p) < T)"

text \<open>Time stands still, and only objects under the given keys change.\<close>

definition only_touches :: "string set \<Rightarrow> sys \<Rightarrow> sys \<Rightarrow> bool" where
  "only_touches K s t \<longleftrightarrow> sys_now t = sys_now s \<and> sys_env t = sys_env s \<and> (\<forall>k. k \<notin> K \<longrightarrow> sys_objs t k = sys_objs s k)"

lemma only_touches_trans: "only_touches K s t \<Longrightarrow> only_touches L t u \<Longrightarrow> only_touches (K \<union> L) s u"
  by (simp add: only_touches_def)

lemma only_touchesD: "only_touches K s t \<Longrightarrow> k \<notin> K \<Longrightarrow> sys_objs t k = sys_objs s k"
  by (simp add: only_touches_def)

lemma only_touches_mono: "only_touches K s t \<Longrightarrow> K \<subseteq> L \<Longrightarrow> only_touches L s t"
  by (auto simp: only_touches_def)

text \<open>
  The bounded variant: the clock advances by at most \<open>d\<close>. A step of a saga may write anything outside the documents of
  the saga, whose keys start with \<open>sagas/<id>/\<close>.
\<close>

definition passes :: "int \<Rightarrow> string set \<Rightarrow> sys \<Rightarrow> sys \<Rightarrow> bool" where
  "passes d K s t \<longleftrightarrow> sys_now s \<le> sys_now t \<and> sys_now t \<le> sys_now s + d \<and> sys_env t = sys_env s \<and>
     (\<forall>k. k \<notin> K \<longrightarrow> sys_objs t k = sys_objs s k)"

definition foreign :: "string \<Rightarrow> string set" where
  "foreign sagaID = {k. \<not> prefix (''sagas/'' @ sagaID @ ''/'') k}"

lemma only_touches_passes: "only_touches K s t \<Longrightarrow> passes 0 K s t"
  by (simp add: only_touches_def passes_def)

lemma passes_trans: "passes c K s t \<Longrightarrow> passes d L t u \<Longrightarrow> passes (c + d) (K \<union> L) s u"
  by (simp add: passes_def)

lemma passesD: "passes d K s t \<Longrightarrow> k \<notin> K \<Longrightarrow> sys_objs t k = sys_objs s k"
  by (simp add: passes_def)

lemma passes_mono: "passes d K s t \<Longrightarrow> K \<subseteq> L \<Longrightarrow> passes d L s t"
  by (auto simp: passes_def)

text \<open>When the lease in a control document expires.\<close>

definition leased_until :: "SagaControl \<Rightarrow> gotime \<Rightarrow> bool" where
  "leased_until c T \<longleftrightarrow> (\<exists>l. sct_Lease c = Some l \<and> time_Parse (lse_ExpiresAt l) = Some T)"

lemma valid_ref_wf: "validateStepResultRef r = Inr () \<Longrightarrow> raw_valid (srr_Result r)"
  by (auto simp: validateStepResultRef_def rbind_Inr_iff split: if_splits)

lemma valid_control_wf:
  assumes "validateControl c = Inr ()"
  shows "raws_ok_SagaControl c" "pred_option wf_Lease (sct_Lease c) \<Longrightarrow> wf_SagaControl c"
  using assms valid_ref_wf
  by (auto simp: validateControl_iff raws_ok_SagaControl_def wf_SagaControl_def list_all_iff raws_ok_StepResultRef_def
      wf_StepResultRef_def)

lemma alone_updateControl:
  assumes h: "alone_held p c" and f: "f c = Inr n" and n: "sct_SagaID n = sct_SagaID c" "sct_UpdatedAt n = sct_UpdatedAt c"
    and v: "validateControl n = Inr ()"
  shows "\<exists>q. updateControl sys_world f p = (Inr (n\<lparr>sct_Lease := sct_Lease c\<rparr>), q) \<and>
    alone_held q (n\<lparr>sct_Lease := sct_Lease c\<rparr>) \<and> sys_events (fst q) = sys_events (fst p) \<and>
    only_touches {saga_key (sct_SagaID c)} (fst p) (fst q)"
proof -
  let ?c = "n\<lparr>sct_Lease := sct_Lease c\<rparr>" and ?s = "fst p" and ?h = "snd p"
  have al: "sys_env ?s = []" "is_id (sct_SagaID c)" "saga_at (sys_objs ?s) (sct_SagaID c) = Some (slh_ETag ?h, c)"
    "validateControl c = Inr ()" using h by (auto simp: alone_held_def validateControl_iff)
  obtain l T where l: "sct_Lease c = Some l" "wf_Lease l" "lse_Owner l = slh_Owner ?h" "lse_Token l = slh_Token ?h"
    "lse_Generation l = slh_Generation ?h" "time_Parse (lse_ExpiresAt l) = Some T" "sys_now ?s < T" "slh_SagaID ?h = sct_SagaID c"
    using h by (auto simp: alone_held_def)
  obtain cur where cur: "GetControl sys_world (sct_SagaID c) ?s = (Inr cur, ?s)" "cdoc_Key cur = saga_key (sct_SagaID c)"
    "cdoc_ETag cur = slh_ETag ?h" "cdoc_Control cur = c"
    using alone_GetControl [OF al refl] by blast
  have v': "validateControl ?c = Inr ()" using v by (simp add: validateControl_iff)
  have ne: "sct_SchemaVersion n \<noteq> []" "sct_Status n \<noteq> []" "sct_SagaID n \<noteq> []"
    using v by (auto simp: validateControl_iff saga_status_defs schema_Version_def is_id_def)
  moreover have "sct_UpdatedAt n \<noteq> []" using n(2) h by (simp add: alone_held_def)
  ultimately have norm: "?c = normalizeControl ?c (sct_SagaID (cdoc_Control cur)) (canonical_Time (sys_now ?s))"
    by (simp add: normalizeControl_def Let_def)
  obtain b where b: "sys_objs ?s (cdoc_Key cur) = Some (cdoc_ETag cur, b)" using al(3) cur by (auto simp: view_at_Some)
  have "sct_SagaID ?c = sct_SagaID (cdoc_Control cur)" using n cur by simp
  from alone_UpdateControl [OF al(1) b norm this v' valid_control_wf(1) [OF v']] obtain doc t where
    u: "UpdateControlCAS sys_world cur ?c ?s = (Inr doc, t)" "cdoc_Control doc = ?c" "sys_env t = []" "sys_now t = sys_now ?s"
    "sys_events t = sys_events ?s" "sys_objs t = (sys_objs ?s)(cdoc_Key cur \<mapsto> (cdoc_ETag doc, JsonBody (enc_SagaControl ?c)))"
    by blast
  define h' where "h' = \<lparr>slh_SagaID = sct_SagaID n, slh_Owner = lse_Owner l, slh_Token = lse_Token l,
      slh_Generation = lse_Generation l, slh_ExpiresAt = T, slh_ETag = cdoc_ETag doc\<rparr>"
  have hd: "sagaLeaseHandle doc = Inr h'" using u(2) l by (simp add: sagaLeaseHandle_def h'_def)
  have "UpdateControlWithLeaseCAS sys_world ?h f ?s = (Inr (h', doc), t)"
    using cur u(1) l f al(1) hd
    by (simp add: UpdateControlWithLeaseCAS_def io_bind_def io_lift_def ensureSagaLease_def sagaLeaseActive_def io_ret_def)
  then have up: "updateControl sys_world f p = (Inr ?c, (t, h'))"
    using u(2) by (simp add: updateControl_def take_handle_def io_bind_def io_ret_def)
  have "wf_SagaControl ?c" using valid_control_wf(2) [OF v'] l by simp
  then have "saga_at (sys_objs t) (sct_SagaID ?c) = Some (cdoc_ETag doc, ?c)"
    using u(6) cur n by (simp add: view_at_Some saga_view_Some codec_SagaControl)
  then have "alone_held (t, h') ?c"
    using u(3,4) v' l n h by (auto simp: alone_held_def h'_def)
  moreover have "only_touches {saga_key (sct_SagaID c)} ?s t" using u(3,4,6) cur al(1) by (simp add: only_touches_def)
  ultimately show ?thesis using up u(5) by (intro exI [of _ "(t, h')"]) simp
qed

text \<open>The keys an execution writes besides the control document.\<close>

definition result_key :: "string \<Rightarrow> string \<Rightarrow> string" where
  "result_key sagaID step = ''sagas/'' @ sagaID @ ''/artifacts/results/'' @ step @ ''.json''"

definition event_key :: "string \<Rightarrow> string \<Rightarrow> string" where
  "event_key sagaID event = ''sagas/'' @ sagaID @ ''/events/'' @ event @ ''.json''"

lemma saga_keys_distinct [simp]:
  "result_key sagaID x = result_key sagaID y \<longleftrightarrow> x = y" "event_key sagaID x = event_key sagaID y \<longleftrightarrow> x = y"
  "result_key sagaID x \<noteq> event_key sagaID y" "event_key sagaID y \<noteq> result_key sagaID x"
  "result_key sagaID x \<noteq> saga_key sagaID" "saga_key sagaID \<noteq> result_key sagaID x"
  "event_key sagaID x \<noteq> saga_key sagaID" "saga_key sagaID \<noteq> event_key sagaID x"
  by (simp_all add: result_key_def event_key_def saga_key_def)

lemma saga_keys_own [simp]:
  "saga_key sagaID \<notin> foreign sagaID" "result_key sagaID x \<notin> foreign sagaID" "event_key sagaID x \<notin> foreign sagaID"
  by (auto simp: foreign_def saga_key_def result_key_def event_key_def prefix_def)

lemma saga_keys_paths:
  "is_id sagaID \<Longrightarrow> is_id step \<Longrightarrow> paths_SagaStepResult sagaID step = Inr (result_key sagaID step)"
  "is_id sagaID \<Longrightarrow> is_id event \<Longrightarrow> paths_SagaEvent sagaID event = Inr (event_key sagaID event)"
  by (simp_all add: paths_SagaStepResult_def paths_SagaEvent_def result_key_def event_key_def)

lemma alone_held_frame:
  assumes "alone_held (s, h) c" "only_touches K s t" "saga_key (sct_SagaID c) \<notin> K"
  shows "alone_held (t, h) c"
  using assms by (auto simp: alone_held_def only_touches_def view_at_def)

lemma alone_held_later:
  assumes "alone_held (s, h) c" "passes d K s t" "saga_key (sct_SagaID c) \<notin> K" "leased_until c T" "sys_now s + d < T"
  shows "alone_held (t, h) c"
proof -
  have "sys_now t < T" using assms(2,5) by (simp add: passes_def)
  then show ?thesis using assms(1-4) by (auto simp: alone_held_def passes_def view_at_def leased_until_def)
qed

text \<open>What the executor records of a step that succeeded with outcome \<open>out\<close>.\<close>

definition success_record :: "string \<Rightarrow> SagaNode \<Rightarrow> StepOutcome \<Rightarrow> gotime \<Rightarrow> StepResult" where
  "success_record sagaID node out now = \<lparr>sr_SchemaVersion = schema_Version, sr_SagaID = sagaID, sr_OperationID = [],
     sr_StepID = sn_ID node, sr_Kind = sn_Kind node, sr_Status = StatusSucceeded, sr_Result = so_Result out,
     sr_Failure = so_Failure out, sr_ProviderOperations = so_ProviderOperations out, sr_StartedAt = [],
     sr_CompletedAt = canonical_Time now\<rparr>"

definition good_outcome :: "StepOutcome \<Rightarrow> bool" where
  "good_outcome out \<longleftrightarrow> so_Status out = StatusSucceeded \<and> raw_valid (so_Result out) \<and> so_Failure out = None"

lemma validateNode_ok: "validateNode node = Inr () \<Longrightarrow> is_id (sn_ID node) \<and> TrimSpace (sn_Kind node) \<noteq> []"
  by (auto simp: validateNode_def rbind_Inr_iff validateID_iff split: if_splits)

lemma succeeded_printable: "TrimSpace ''succeeded'' = ''succeeded''"
  by (rule TrimSpace_printable) (simp add: printable_def)

lemma alone_persist:
  assumes "sys_env s = []" "is_id sagaID" "validateNode node = Inr ()" "good_outcome out"
    "sys_objs s (result_key sagaID (sn_ID node)) = None"
  shows "\<exists>t. persistStepResult sys_world sagaID (sn_ID node) (sn_Kind node) (Some out) s =
      (Inr (success_record sagaID node out (sys_now s)), t) \<and> sys_events t = sys_events s \<and>
    only_touches {result_key sagaID (sn_ID node)} s t"
proof -
  let ?r = "success_record sagaID node out (sys_now s)"
  have n: "normalizeStepResult ?r = ?r" by (simp add: normalizeStepResult_def success_record_def schema_Version_def)
  note nd = validateNode_ok [OF assms(3)]
  have v: "validateStepResult (normalizeStepResult ?r) = Inr ()"
    unfolding n using nd assms(2,4) succeeded_printable
    by (simp add: validateStepResult_def success_record_def validateID_iff good_outcome_def StatusSucceeded_def)
  have r: "raw_valid (sr_Result ?r)" using assms(4) by (simp add: success_record_def good_outcome_def)
  have k: "paths_SagaStepResult (sr_SagaID ?r) (sr_StepID ?r) = Inr (result_key sagaID (sn_ID node))"
    using saga_keys_paths(1) [OF assms(2)] nd by (simp add: success_record_def)
  from alone_CreateStepResult [OF assms(1) v r k assms(5)] obtain d t where
    c: "CreateStepResult sys_world ?r s = (Inr d, t)" "sys_env t = []" "sys_now t = sys_now s" "sys_events t = sys_events s"
    "sys_objs t = (sys_objs s)(result_key sagaID (sn_ID node) \<mapsto> (rdoc_ETag d, JsonBody (enc_StepResult ?r)))"
    unfolding n by blast
  have "persistStepResult sys_world sagaID (sn_ID node) (sn_Kind node) (Some out) s = (Inr ?r, t)"
    using c(1) assms(1,4)
    by (simp add: persistStepResult_def io_bind_def io_try_def io_ret_def good_outcome_def success_record_def step_status_defs Let_def)
  then show ?thesis using c assms(1) by (auto simp: only_touches_def)
qed

lemma alone_event_id:
  "sys_events s = e # es \<Longrightarrow> io_event_id sys_world s = (Inr e, s\<lparr>sys_events := es\<rparr>)"
  by (simp add: io_event_id_def sys_world_def sys_take_def)

lemma id_printable: "is_id i \<Longrightarrow> list_all printable i"
  by (auto simp: is_id_def list_all_iff isIDChar_printable)

lemma alone_appendStepEvent:
  assumes "sys_env s = []" "is_id sagaID" "validateNode node = Inr ()" "sys_events s = e # es" "is_id e"
    "sys_objs s (event_key sagaID e) = None"
  shows "\<exists>d t. appendStepEvent sys_world sagaID (sn_ID node) (sn_Kind node) (success_record sagaID node out now) s = (Inr d, t) \<and>
    sys_events t = es \<and> only_touches {event_key sagaID e} s t"
proof -
  let ?s = "s\<lparr>sys_events := es\<rparr>"
  let ?ev = "step_event e (sys_now s) sagaID (sn_ID node) (sn_Kind node) (success_record sagaID node out now)"
  have nd: "is_id (sn_ID node)" using validateNode_ok [OF assms(3)] by simp
  have ne: "e \<noteq> []" "sagaID \<noteq> []" using assms(2,5) by (auto simp: is_id_def)
  have nrm: "?ev = normalizeEvent ?ev sagaID (canonical_Time (sys_now ?s))"
    using ne by (simp add: normalizeEvent_def step_event_def schema_Version_def Let_def)
  have "TrimSpace (sn_ID node @ '' succeeded'') = sn_ID node @ '' succeeded''"
    by (rule TrimSpace_ends) (use nd id_printable [OF nd] in \<open>auto simp: printable_def is_id_def neq_Nil_conv\<close>)
  moreover have "TrimSpace ''saga.step.succeeded'' = ''saga.step.succeeded''"
    by (rule TrimSpace_printable) (simp add: printable_def)
  ultimately have v: "validateEvent sagaID ?ev = Inr ()"
    using assms(2,5) by (simp add: validateEvent_def step_event_def validateID_iff success_record_def StatusSucceeded_def)
  have o: "sys_objs ?s = sys_objs s" "sys_env ?s = []" using assms(1) by (simp_all add: sys_objs_def)
  have k: "paths_SagaEvent sagaID (ev_ID ?ev) = Inr (event_key sagaID e)"
    using saga_keys_paths(2) [OF assms(2,5)] by (simp add: step_event_def)
  have r: "raw_valid (ev_Data ?ev)" by (simp add: step_event_def raw_valid_def)
  obtain d t where a: "saga_AppendEvent sys_world sagaID ?ev ?s = (Inr d, t)" "sys_env t = []" "sys_now t = sys_now ?s"
    "sys_events t = sys_events ?s" "sys_objs t = (sys_objs ?s)(event_key sagaID e \<mapsto> (edoc_ETag d, JsonBody (enc_Event ?ev)))"
    using alone_saga_AppendEvent [OF o(2) nrm v r k] assms(6) o(1) by auto
  have "appendStepEvent sys_world sagaID (sn_ID node) (sn_Kind node) (success_record sagaID node out now) s = (Inr d, t)"
    using a(1) alone_event_id [OF assms(4)] ne(1) o(2)
    by (simp add: appendStepEvent_def io_bind_def io_ret_def)
  then show ?thesis using a assms(1) o by (auto simp: only_touches_def)
qed

text \<open>
  Every node has a registered step that accepts its parameters and succeeds at the first attempt. A call of it takes time,
  at most \<open>d\<close>, may use the world as it likes, but leaves the documents of the saga and the supply of event ids alone.
\<close>

definition harmless :: "int \<Rightarrow> string \<Rightarrow> sys \<Rightarrow> sys \<Rightarrow> bool" where
  "harmless d sagaID s t \<longleftrightarrow> passes d (foreign sagaID) s t \<and> sys_events t = sys_events s"

definition well_behaved :: "int \<Rightarrow> string \<Rightarrow> sys Executor \<Rightarrow> SagaGraph \<Rightarrow> bool" where
  "well_behaved d sagaID ex graph \<longleftrightarrow> (\<forall>n \<in> set (sg_Nodes graph). \<exists>step. ex_Steps ex (sn_Kind n) = Some step \<and>
     (\<forall>s. sys_env s = [] \<longrightarrow> (\<exists>t. st_ValidateParams step (sn_Params n) s = (Inr (), t) \<and> harmless d sagaID s t)) \<and>
     (\<forall>rq s. sys_env s = [] \<and> rq_Node rq = n \<longrightarrow>
        (\<exists>out t. st_Run step rq s = (Inr (Some out), t) \<and> good_outcome out \<and> harmless d sagaID s t)))"

definition events_fresh :: "string \<Rightarrow> sys \<Rightarrow> bool" where
  "events_fresh sagaID s \<longleftrightarrow> distinct (sys_events s) \<and>
     (\<forall>e \<in> set (sys_events s). is_id e \<and> sys_objs s (event_key sagaID e) = None)"

lemma nodeAttempts_pos: "\<exists>k. nodeAttempts node = Suc k"
  by (auto simp: nodeAttempts_def gr0_conv_Suc [symmetric] split: option.splits)

lemma harmless_trans: "harmless c i s t \<Longrightarrow> harmless d i t u \<Longrightarrow> harmless (c + d) i s u"
  unfolding harmless_def using passes_trans [of c "foreign i" s t d "foreign i" u] by simp

lemma alone_runNode:
  assumes "well_behaved d sagaID ex graph" "node \<in> set (sg_Nodes graph)" "sys_env s = []"
  shows "\<exists>out t. runNodeWithRetry sys_world ex intent graph control node completed s = (Inr out, t) \<and> good_outcome out \<and>
    harmless (2 * d) sagaID s t"
proof -
  let ?rq = "step_request intent graph control node completed"
  obtain step where st: "ex_Steps ex (sn_Kind node) = Some step"
    and val: "\<forall>s. sys_env s = [] \<longrightarrow> (\<exists>t. st_ValidateParams step (sn_Params node) s = (Inr (), t) \<and> harmless d sagaID s t)"
    and run: "\<forall>rq s. sys_env s = [] \<and> rq_Node rq = node \<longrightarrow>
        (\<exists>out t. st_Run step rq s = (Inr (Some out), t) \<and> good_outcome out \<and> harmless d sagaID s t)"
    using bspec [OF assms(1) [unfolded well_behaved_def] assms(2)] by (elim exE conjE) (rule that)
  obtain s1 where v: "st_ValidateParams step (sn_Params node) s = (Inr (), s1)" "harmless d sagaID s s1" using val assms(3) by blast
  have "sys_env s1 = []" using v(2) assms(3) by (simp add: harmless_def passes_def)
  then obtain out t where out: "st_Run step ?rq s1 = (Inr (Some out), t)" "good_outcome out" "harmless d sagaID s1 t"
    using run [rule_format, of s1 ?rq] by (auto simp: step_request_def)
  obtain k where k: "nodeAttempts node = Suc k" using nodeAttempts_pos by blast
  have "so_Status out \<noteq> []" using out(2) by (simp add: good_outcome_def StatusSucceeded_def)
  then have "runNodeWithRetry sys_world ex intent graph control node completed s = (Inr out, t)"
    using st v(1) out(1) by (simp add: runNodeWithRetry_def k io_bind_def io_try_def io_ret_def)
  then show ?thesis using harmless_trans [OF v(2) out(3)] out(2) unfolding mult_2 by blast
qed

lemma success_ref_valid:
  assumes "validateNode node = Inr ()" "good_outcome out"
  shows "validateStepResultRef (stepResultRef (success_record sagaID node out now)) = Inr ()"
  using validateNode_ok [OF assms(1)] assms(2) succeeded_printable
  by (simp add: validateStepResultRef_def stepResultRef_def success_record_def validateID_iff good_outcome_def StatusSucceeded_def)

lemma alone_node:
  assumes h: "alone_held p c" and id: "sct_SagaID c = sagaID" and wb: "well_behaved d sagaID ex graph"
    and until: "leased_until c T" "sys_now (fst p) + 2 * d < T"
    and node: "node \<in> set (sg_Nodes graph)" "validateNode node = Inr ()"
    and ev: "sys_events (fst p) = e # es" "events_fresh sagaID (fst p)"
    and fr: "sys_objs (fst p) (result_key sagaID (sn_ID node)) = None"
  shows "\<exists>r c' q. runReady sys_world ex sagaID intent graph (node # ready) completed c p =
      runReady sys_world ex sagaID intent graph ready (AList.update (sn_ID node) r completed) c' q \<and>
    sr_Status r = StatusSucceeded \<and>
    alone_held q c' \<and> sct_SagaID c' = sagaID \<and> sct_Lease c' = sct_Lease c \<and> sys_events (fst q) = es \<and>
    passes (2 * d) ({saga_key sagaID, result_key sagaID (sn_ID node), event_key sagaID e} \<union> foreign sagaID) (fst p) (fst q)"
proof -
  let ?f1 = "\<lambda>c. Inr (c\<lparr>sct_Status := SagaRunning, sct_CurrentSteps := [sn_ID node]\<rparr>)"
  let ?n1 = "c\<lparr>sct_Status := SagaRunning, sct_CurrentSteps := [sn_ID node]\<rparr>"
  define c1 where "c1 = ?n1\<lparr>sct_Lease := sct_Lease c\<rparr>"
  have vc: "validateControl c = Inr ()" "is_id sagaID" using h id by (auto simp: alone_held_def validateControl_iff)
  note nd = validateNode_ok [OF node(2)]
  have "validateControl ?n1 = Inr ()" using vc nd by (simp add: validateControl_iff)
  from alone_updateControl [OF h, of ?f1 ?n1] this obtain p1 where
    u1: "updateControl sys_world ?f1 p = (Inr c1, p1)" "alone_held p1 c1" "sys_events (fst p1) = e # es"
    "only_touches {saga_key sagaID} (fst p) (fst p1)"
    using id ev(1) by (auto simp: c1_def)
  obtain s0 h1 where p1: "p1 = (s0, h1)" by (cases p1)
  have al0: "sys_env s0 = []" using u1(2) p1 by (simp add: alone_held_def)
  obtain out s1 where run: "runNodeWithRetry sys_world ex intent graph c1 node completed s0 = (Inr out, s1)" and g: "good_outcome out"
    and hl: "harmless (2 * d) sagaID s0 s1"
    using alone_runNode [OF wb node(1) al0] by blast
  have id1: "sct_SagaID c1 = sagaID" using id by (simp add: c1_def)
  have un1: "leased_until c1 T" "sys_now s0 + 2 * d < T" using until u1(4) p1 by (simp_all add: c1_def leased_until_def only_touches_def)
  have h1': "alone_held (s1, h1) c1"
    using alone_held_later [OF u1(2) [unfolded p1], of "2 * d" "foreign sagaID" s1, OF _ _ un1] hl id1 by (simp add: harmless_def)
  have al: "sys_env s1 = []" using h1' by (simp add: alone_held_def)
  have k1: "sys_objs s1 k = sys_objs (fst p) k" if "k \<noteq> saga_key sagaID" "k \<notin> foreign sagaID" for k
    using u1(4) p1 that hl by (simp add: only_touches_def harmless_def passes_def)
  have ev1: "sys_events s1 = e # es" using u1(3) p1 hl by (simp add: harmless_def)
  define r where "r = success_record sagaID node out (sys_now s1)"
  obtain s2 where per: "persistStepResult sys_world sagaID (sn_ID node) (sn_Kind node) (Some out) s1 = (Inr r, s2)"
    "sys_events s2 = e # es" "only_touches {result_key sagaID (sn_ID node)} s1 s2"
    using alone_persist [OF al vc(2) node(2) g] k1 fr ev1 by (auto simp: r_def)
  have al2: "sys_env s2 = []" using per(3) al by (simp add: only_touches_def)
  have e: "is_id e" "sys_objs s2 (event_key sagaID e) = None"
    using ev per(3) k1 by (auto simp: events_fresh_def only_touches_def)
  obtain evd s3 where app: "appendStepEvent sys_world sagaID (sn_ID node) (sn_Kind node) r s2 = (Inr evd, s3)"
    "sys_events s3 = es" "only_touches {event_key sagaID e} s2 s3"
    using alone_appendStepEvent [OF al2 vc(2) node(2) per(2) e] unfolding r_def by blast
  have t13: "only_touches {result_key sagaID (sn_ID node), event_key sagaID e} s1 s3"
    using only_touches_trans [OF per(3) app(3)] by (simp add: insert_commute)
  have h3: "alone_held (s3, h1) c1" by (rule alone_held_frame [OF h1' t13]) (simp add: id1)
  let ?f2 = "\<lambda>c. Inr (c\<lparr>sct_StepResults := upsertStepResultRef (sct_StepResults c) (stepResultRef r), sct_CurrentSteps := []\<rparr>)"
  let ?n2 = "c1\<lparr>sct_StepResults := upsertStepResultRef (sct_StepResults c1) (stepResultRef r), sct_CurrentSteps := []\<rparr>"
  define c2 where "c2 = ?n2\<lparr>sct_Lease := sct_Lease c1\<rparr>"
  have "validateControl ?n2 = Inr ()"
    using u1(2) success_ref_valid [OF node(2) g]
    by (auto simp: alone_held_def validateControl_iff upsertStepResultRef_def r_def)
  from alone_updateControl [OF h3, of ?f2 ?n2] this obtain q where
    u2: "updateControl sys_world ?f2 (s3, h1) = (Inr c2, q)" "alone_held q c2" "sys_events (fst q) = es"
    "only_touches {saga_key sagaID} s3 (fst q)"
    using id1 app(2) by (auto simp: c2_def)
  have st: "sr_Status r = StatusSucceeded" by (simp add: r_def success_record_def)
  have "runReady sys_world ex sagaID intent graph (node # ready) completed c p =
      runReady sys_world ex sagaID intent graph ready (AList.update (sn_ID node) r completed) c2 q"
    using u1(1) p1 run per(1) app(1) u2(1) st
    by (simp add: runReady.simps io_bind_def io_try_def in_world_def Let_def)
  moreover have "passes (2 * d) ({saga_key sagaID, result_key sagaID (sn_ID node), event_key sagaID e} \<union> foreign sagaID) (fst p) (fst q)"
    using u1(4) p1 t13 u2(4) hl by (auto simp: passes_def only_touches_def harmless_def)
  ultimately show ?thesis using u2(2,3) st id1 by (intro exI [of _ r] exI [of _ c2] exI [of _ q]) (simp add: c2_def c1_def)
qed

definition step_keys :: "string \<Rightarrow> string set \<Rightarrow> string set" where
  "step_keys sagaID ids = insert (saga_key sagaID) (result_key sagaID ` ids \<union> range (event_key sagaID) \<union> foreign sagaID)"

lemma events_fresh_step:
  assumes "events_fresh sagaID s" "sys_events s = e # es" "sys_events t = es"
    "passes d ({saga_key sagaID, result_key sagaID i, event_key sagaID e} \<union> foreign sagaID) s t"
  shows "events_fresh sagaID t"
proof -
  have "sys_objs t (event_key sagaID x) = None \<and> is_id x" if "x \<in> set es" for x
  proof -
    have "x \<noteq> e" "sys_objs s (event_key sagaID x) = None" "is_id x" using assms(1,2) that by (auto simp: events_fresh_def)
    then show ?thesis using passesD [OF assms(4), of "event_key sagaID x"] by simp
  qed
  then show ?thesis using assms(1-3) by (simp add: events_fresh_def)
qed

lemma alone_runReady:
  assumes "alone_held p c" "sct_SagaID c = sagaID" "well_behaved d sagaID ex graph" "set ready \<subseteq> set (sg_Nodes graph)"
    "\<forall>n \<in> set ready. validateNode n = Inr ()" "distinct (map sn_ID ready)" "length ready \<le> length (sys_events (fst p))"
    "events_fresh sagaID (fst p)" "\<forall>n \<in> set ready. sys_objs (fst p) (result_key sagaID (sn_ID n)) = None"
    "results_ok graph completed" "leased_until c T" "sys_now (fst p) + int (length ready) * (2 * d) < T" "0 \<le> d"
  shows "\<exists>completed' c' q. runReady sys_world ex sagaID intent graph ready completed c p = (Inr (Inl (completed', c')), q) \<and>
    alone_held q c' \<and> sct_SagaID c' = sagaID \<and> results_ok graph completed' \<and>
    sys_events (fst q) = drop (length ready) (sys_events (fst p)) \<and> events_fresh sagaID (fst q) \<and> sct_Lease c' = sct_Lease c \<and>
    passes (int (length ready) * (2 * d)) (step_keys sagaID (sn_ID ` set ready)) (fst p) (fst q)"
  using assms
proof (induction ready arbitrary: p c completed)
  case Nil
  then show ?case
    by (intro exI [of _ completed] exI [of _ c] exI [of _ p]) (simp add: runReady.simps io_ret_def passes_def)
next
  case (Cons node ready)
  have "0 \<le> int (length ready) * (2 * d)" using Cons.prems(13) by simp
  then have now: "sys_now (fst p) + 2 * d < T" using Cons.prems(12) by (simp add: algebra_simps)
  obtain e es where ev: "sys_events (fst p) = e # es" using Cons.prems(7) by (cases "sys_events (fst p)") auto
  obtain r c1 p1 where a: "runReady sys_world ex sagaID intent graph (node # ready) completed c p =
      runReady sys_world ex sagaID intent graph ready (AList.update (sn_ID node) r completed) c1 p1"
    "sr_Status r = StatusSucceeded" "alone_held p1 c1" "sct_SagaID c1 = sagaID" "sys_events (fst p1) = es"
    "passes (2 * d) ({saga_key sagaID, result_key sagaID (sn_ID node), event_key sagaID e} \<union> foreign sagaID) (fst p) (fst p1)"
    "sct_Lease c1 = sct_Lease c"
    using alone_node [OF Cons.prems(1-3,11) now _ _ ev Cons.prems(8), where node = node and intent = intent and ready = ready
        and completed = completed] Cons.prems(4,5,9) by auto
  have fr: "events_fresh sagaID (fst p1)" by (rule events_fresh_step [OF Cons.prems(8) ev a(5,6)])
  have rn: "\<forall>n \<in> set ready. sys_objs (fst p1) (result_key sagaID (sn_ID n)) = None"
  proof
    fix n assume n: "n \<in> set ready"
    then have "sn_ID n \<in> sn_ID ` set ready" by simp
    then have "sn_ID n \<noteq> sn_ID node" using Cons.prems(6) by (metis distinct.simps(2) list.set_map list.simps(9))
    then show "sys_objs (fst p1) (result_key sagaID (sn_ID n)) = None"
      using passesD [OF a(6), of "result_key sagaID (sn_ID n)"] Cons.prems(9) n by simp
  qed
  have rk: "results_ok graph (AList.update (sn_ID node) r completed)"
    using results_ok_update [OF Cons.prems(10) _ a(2)] Cons.prems(4) by simp
  have un: "leased_until c1 T" "sys_now (fst p1) + int (length ready) * (2 * d) < T"
    using Cons.prems(11,12) a(6,7) by (auto simp: leased_until_def passes_def algebra_simps)
  obtain completed' c' q where b: "runReady sys_world ex sagaID intent graph ready (AList.update (sn_ID node) r completed) c1 p1 =
      (Inr (Inl (completed', c')), q)" "alone_held q c'" "sct_SagaID c' = sagaID" "results_ok graph completed'"
    "sys_events (fst q) = drop (length ready) (sys_events (fst p1))" "events_fresh sagaID (fst q)"
    "sct_Lease c' = sct_Lease c1" "passes (int (length ready) * (2 * d)) (step_keys sagaID (sn_ID ` set ready)) (fst p1) (fst q)"
    using Cons.IH [OF a(3,4) Cons.prems(3) _ _ _ _ fr rn rk un Cons.prems(13)] Cons.prems(4-7) ev a(5) by auto
  have "passes (2 * d + int (length ready) * (2 * d)) (step_keys sagaID (sn_ID ` set (node # ready))) (fst p) (fst q)"
    by (rule passes_mono [OF passes_trans [OF a(6) b(8)]]) (auto simp: step_keys_def)
  then show ?case using a(1,5,7) b ev by (auto simp: algebra_simps)
qed

lemma round_uses:
  assumes "ReadyNodes graph completed = Inr ready"
    "runReady W ex sagaID intent graph ready completed control q = (Inr (Inl (completed', control')), q')"
  shows "nodes_left graph completed' + length ready \<le> nodes_left graph completed"
proof -
  note rs = ReadyNodes_set [OF assms(1)] and rc = runReady_continue [OF assms(2)]
  have d: "distinct (sg_Nodes graph)" "distinct ready" using rs(3,4) by (simp_all add: node_ids_def distinct_map)
  let ?L = "\<lambda>c. set (filter (\<lambda>n. \<not> succeeded_at c (sn_ID n)) (sg_Nodes graph))"
  have l: "nodes_left graph c = card (?L c)" for c
    unfolding nodes_left_def using d(1) by (intro distinct_card [symmetric]) simp
  have "?L completed' \<subseteq> ?L completed - set ready" using rc by auto
  then have "card (?L completed') \<le> card (?L completed - set ready)" by (intro card_mono) auto
  also have "\<dots> = card (?L completed) - card (set ready)" using rs(1) by (intro card_Diff_subset) auto
  finally have "card (?L completed') \<le> card (?L completed) - card (set ready)" .
  moreover have "card (set ready) \<le> card (?L completed)" using rs(1) by (intro card_mono) auto
  ultimately show ?thesis using l distinct_card [OF d(2)] by simp
qed

text \<open>With no cycle, a round with nothing ready is the end.\<close>

lemma nothing_ready_all_done:
  assumes "ReadyNodes graph completed = Inr []" "validateGraph graph = Inr ()" "TopologicalOrder graph = Inr ordered"
    "results_ok graph completed"
  shows "length completed = length (sg_Nodes graph)" "fst ` set completed = set (node_ids graph)"
proof -
  let ?C = "{i \<in> set (node_ids graph). \<not> succeeded_at completed i}"
  note rs = ReadyNodes_set [OF assms(1)] and vg = validateGraph_ok [OF assms(2)]
  have step: "\<exists>r \<in> set (requiresForNode graph n). r \<in> ?C" if n: "n \<in> set (sg_Nodes graph)" "sn_ID n \<in> ?C" for n
  proof -
    have "n \<notin> {n \<in> set (sg_Nodes graph). \<not> succeeded_at completed (sn_ID n) \<and>
        (\<forall>r \<in> set (requiresForNode graph n). succeeded_at completed r)}"
      unfolding rs(1) [symmetric] by simp
    then obtain r where "r \<in> set (requiresForNode graph n)" "\<not> succeeded_at completed r" using n by auto
    then show ?thesis using vg(4) n(1) by auto
  qed
  have "?C = {}"
  proof (rule ccontr)
    assume "?C \<noteq> {}"
    then have "dependency_cycle graph ?C" using step unfolding dependency_cycle_def by blast
    then show False using TopologicalOrder_Inr [OF assms(3)] topological_no_cycle by blast
  qed
  then have "set (node_ids graph) \<subseteq> fst ` set completed"
    by (force simp: succeeded_at_iff dest: map_of_SomeD)
  then show eq: "fst ` set completed = set (node_ids graph)" using assms(4) by (auto simp: results_ok_def)
  have "length completed = card (fst ` set completed)"
    using assms(4) distinct_card [of "map fst completed"] by (simp add: results_ok_def)
  then show "length completed = length (sg_Nodes graph)"
    using eq distinct_card [OF vg(1)] by (simp add: node_ids_def)
qed

lemma alone_loop:
  assumes "validateGraph graph = Inr ()" "TopologicalOrder graph = Inr ordered" "well_behaved d sagaID ex graph" "0 \<le> d"
    "alone_held p c" "sct_SagaID c = sagaID" "nodes_left graph completed \<le> length (sys_events (fst p))"
    "events_fresh sagaID (fst p)" "results_ok graph completed"
    "\<forall>n \<in> set (sg_Nodes graph). succeeded_at completed (sn_ID n) \<or> sys_objs (fst p) (result_key sagaID (sn_ID n)) = None"
    "leased_until c T" "sys_now (fst p) + int (nodes_left graph completed) * (2 * d) < T"
  shows "\<exists>res q. execLoop sys_world ex sagaID intent graph completed c p = (Inr res, q) \<and> er_Status res = SagaSucceeded \<and>
    er_Completed res = sort (node_ids graph)"
  using assms(5-)
proof (induction "nodes_left graph completed" arbitrary: completed c p rule: less_induct)
  case less
  have ctx: "in_world (io_ctx sys_world) p = (Inr (), p)"
    using less.prems(1) by (simp add: in_world_def alone_held_def)
  obtain ready where rd: "ReadyNodes graph completed = Inr ready"
    using ReadyNodes_Inr [OF validateGraph_ok(1) [OF assms(1)]] by blast
  note rs = ReadyNodes_set [OF rd]
  show ?case
  proof (cases ready)
    case Nil
    note dn = nothing_ready_all_done [OF rd [unfolded Nil] assms(1,2) less.prems(5)]
    let ?f = "\<lambda>c. Inr (c\<lparr>sct_Status := SagaSucceeded, sct_CurrentSteps := []\<rparr>)"
    let ?n = "c\<lparr>sct_Status := SagaSucceeded, sct_CurrentSteps := []\<rparr>"
    have "validateControl ?n = Inr ()" using less.prems(1) by (simp add: alone_held_def validateControl_iff)
    from alone_updateControl [OF less.prems(1), of ?f ?n] this obtain q where
      u: "updateControl sys_world ?f p = (Inr (?n\<lparr>sct_Lease := sct_Lease c\<rparr>), q)" by auto
    have "sort (map fst completed) = sort (node_ids graph)"
      using dn(2) less.prems(5) rs(4) by (intro sorted_distinct_set_unique) (auto simp: results_ok_def)
    then show ?thesis
      using ctx rd Nil dn(1) u by (subst execLoop.simps) (simp add: io_bind_def io_ret_def executionSummary_def)
  next
    case (Cons node rest)
    have rl: "length ready \<le> nodes_left graph completed"
    proof -
      have "set ready \<subseteq> set (filter (\<lambda>n. \<not> succeeded_at completed (sn_ID n)) (sg_Nodes graph))" using rs(1) by auto
      then have "card (set ready) \<le> card (set (filter (\<lambda>n. \<not> succeeded_at completed (sn_ID n)) (sg_Nodes graph)))"
        by (intro card_mono) auto
      also have "\<dots> \<le> nodes_left graph completed" unfolding nodes_left_def by (rule card_length)
      finally show ?thesis using distinct_card [of ready] rs(3) by (simp add: distinct_map)
    qed
    then have le: "length ready \<le> length (sys_events (fst p))" using less.prems(3) by simp
    have "int (length ready) * (2 * d) \<le> int (nodes_left graph completed) * (2 * d)"
      using rl assms(4) by (intro mult_right_mono) simp_all
    then have now: "sys_now (fst p) + int (length ready) * (2 * d) < T" using less.prems(8) by simp
    have sub: "set ready \<subseteq> set (sg_Nodes graph)" "\<forall>n \<in> set ready. validateNode n = Inr ()"
      "\<forall>n \<in> set ready. sys_objs (fst p) (result_key sagaID (sn_ID n)) = None"
      using rs(1) validateGraph_ok(3) [OF assms(1)] less.prems(6) by auto
    obtain completed' c' q where r: "runReady sys_world ex sagaID intent graph ready completed c p = (Inr (Inl (completed', c')), q)"
      "alone_held q c'" "sct_SagaID c' = sagaID" "results_ok graph completed'"
      "sys_events (fst q) = drop (length ready) (sys_events (fst p))" "events_fresh sagaID (fst q)"
      "sct_Lease c' = sct_Lease c" "passes (int (length ready) * (2 * d)) (step_keys sagaID (sn_ID ` set ready)) (fst p) (fst q)"
      using alone_runReady [OF less.prems(1,2) assms(3) sub(1,2) rs(3) le less.prems(4) sub(3) less.prems(5,7) now assms(4)] by blast
    note rc = runReady_continue [OF r(1)] and ru = round_uses [OF rd r(1)]
    have lt: "nodes_left graph completed' < nodes_left graph completed" using ru Cons by simp
    have dn: "succeeded_at completed' (sn_ID n) \<or> sys_objs (fst q) (result_key sagaID (sn_ID n)) = None"
      if n: "n \<in> set (sg_Nodes graph)" for n
    proof (cases "succeeded_at completed' (sn_ID n)")
      case False
      then have "sn_ID n \<notin> sn_ID ` set ready" "\<not> succeeded_at completed (sn_ID n)" using rc by auto
      moreover have "result_key sagaID (sn_ID n) \<notin> step_keys sagaID (sn_ID ` set ready)"
        using \<open>sn_ID n \<notin> sn_ID ` set ready\<close> by (auto simp: step_keys_def)
      ultimately show ?thesis using passesD [OF r(8)] less.prems(6) n by auto
    qed simp
    have ln: "nodes_left graph completed' \<le> length (sys_events (fst q))" using r(5) ru less.prems(3) by simp
    have "\<forall>n \<in> set (sg_Nodes graph). succeeded_at completed' (sn_ID n) \<or> sys_objs (fst q) (result_key sagaID (sn_ID n)) = None"
      by (intro ballI dn)
    moreover have "leased_until c' T" using less.prems(7) r(7) by (simp add: leased_until_def)
    moreover have "sys_now (fst q) + int (nodes_left graph completed') * (2 * d) < T"
    proof -
      have "(int (nodes_left graph completed') + int (length ready)) * (2 * d) \<le> int (nodes_left graph completed) * (2 * d)"
        using ru assms(4) by (intro mult_right_mono) simp_all
      then show ?thesis using less.prems(8) r(8) by (simp add: passes_def algebra_simps)
    qed
    ultimately obtain res q' where l: "execLoop sys_world ex sagaID intent graph completed' c' q = (Inr res, q')"
      "er_Status res = SagaSucceeded" "er_Completed res = sort (node_ids graph)"
      using less.hyps [OF lt r(2,3) ln r(6,4)] by blast
    have "execLoop sys_world ex sagaID intent graph completed c p = (Inr res, q')"
      using ctx rd Cons r(1) l(1) by (subst execLoop.simps) simp
    then show ?thesis using l by blast
  qed
qed

text \<open>A saga whose three documents are stored and well formed.\<close>

definition stored_saga :: "sys \<Rightarrow> string \<Rightarrow> SagaIntent \<Rightarrow> SagaGraph \<Rightarrow> SagaControl \<Rightarrow> bool" where
  "stored_saga s sagaID intent graph control \<longleftrightarrow> is_id sagaID \<and>
     (\<exists>e. sys_objs s (''sagas/'' @ sagaID @ ''/intent.json'') = Some (e, JsonBody (enc_SagaIntent intent))) \<and>
     wf_SagaIntent intent \<and> validateIntent intent = Inr () \<and> si_SagaID intent = sagaID \<and>
     (\<exists>e. sys_objs s (''sagas/'' @ sagaID @ ''/graph.json'') = Some (e, JsonBody (enc_SagaGraph graph))) \<and>
     wf_SagaGraph graph \<and> validateGraph graph = Inr () \<and> sg_SagaID graph = sagaID \<and>
     (\<exists>e. saga_at (sys_objs s) sagaID = Some (e, control)) \<and>
     validateControl control = Inr () \<and> sct_SagaID control = sagaID \<and> sct_UpdatedAt control \<noteq> []"

definition lease_duration :: "sys Executor \<Rightarrow> int" where
  "lease_duration ex = (if ex_LeaseDuration ex \<le> 0 then 30000000000 else ex_LeaseDuration ex)"

lemma alone_acquire_held:
  assumes "sys_env s = []" "stored_saga s sagaID intent graph control"
    "sagaLeaseActive (sct_Lease control) (sys_now s) = Inr False" "slo_Owner opts \<noteq> []" "0 < slo_Duration opts"
    "time_ok (sys_now s + slo_Duration opts)"
  shows "\<exists>h doc t. saga_AcquireLease sys_world sagaID opts s = (Inr (h, doc), t) \<and> alone_held (t, h) (cdoc_Control doc) \<and>
    sct_SagaID (cdoc_Control doc) = sagaID \<and> sct_Status (cdoc_Control doc) = sct_Status control \<and>
    sct_StepResults (cdoc_Control doc) = sct_StepResults control \<and> sys_events t = sys_events s \<and>
    leased_until (cdoc_Control doc) (sys_now s + slo_Duration opts) \<and>
    only_touches {saga_key sagaID} s t"
proof -
  obtain e where st: "is_id sagaID" "saga_at (sys_objs s) sagaID = Some (e, control)" "validateControl control = Inr ()"
    "sct_SagaID control = sagaID" "sct_UpdatedAt control \<noteq> []"
    using assms(2) unfolding stored_saga_def by blast
  obtain h doc t where a: "saga_AcquireLease sys_world sagaID opts s = (Inr (h, doc), t)" "sys_env t = []" "sys_now t = sys_now s"
    "cdoc_Control doc = control\<lparr>sct_Lease := Some \<lparr>lse_Owner = slo_Owner opts, lse_Token = next_token s,
      lse_Generation = wrap64 (sys_now s), lse_ExpiresAt = canonical_Time (sys_now s + slo_Duration opts)\<rparr>\<rparr>"
    "h = \<lparr>slh_SagaID = sagaID, slh_Owner = slo_Owner opts, slh_Token = next_token s, slh_Generation = wrap64 (sys_now s),
      slh_ExpiresAt = sys_now s + slo_Duration opts, slh_ETag = cdoc_ETag doc\<rparr>" "sys_events t = sys_events s"
    "sys_objs t = (sys_objs s)(saga_key sagaID \<mapsto> (cdoc_ETag doc, JsonBody (enc_SagaControl (cdoc_Control doc))))"
    using alone_saga_acquire [OF assms(1) st(1-4) valid_control_wf(1) [OF st(3)] assms(3-6) st(5)] by blast
  have v: "validateControl (cdoc_Control doc) = Inr ()" using st(3) a(4) by (simp add: validateControl_iff)
  have "wf_SagaControl (cdoc_Control doc)" by (rule valid_control_wf(2) [OF v]) (simp add: a(4) wf_Lease_def)
  then have "saga_at (sys_objs t) sagaID = Some (cdoc_ETag doc, cdoc_Control doc)"
    using a(7) by (simp add: view_at_Some saga_view_Some codec_SagaControl)
  then have "alone_held (t, h) (cdoc_Control doc)"
    using a(2-5) st(3-5) v assms(5,6) by (simp add: alone_held_def wf_Lease_def)
  moreover have "only_touches {saga_key sagaID} s t" using a(2,3,7) assms(1) by (simp add: only_touches_def)
  moreover have "leased_until (cdoc_Control doc) (sys_now s + slo_Duration opts)"
    using a(4) assms(6) by (simp add: leased_until_def)
  ultimately show ?thesis using a(1,4,6) st(4) by auto
qed

text \<open>
  What an executor alone needs to finish a saga when each call of a step takes at most \<open>d\<close>: the saga is pending or running,
  its lease free, its graph without a cycle, its steps well behaved; the executor never renews its lease, so
  all its steps together have to fit into one lease duration; event ids are unused and enough, recorded results name nodes of the graph,
  and the other nodes have no stored result.
\<close>

definition can_finish :: "int \<Rightarrow> sys Executor \<Rightarrow> string \<Rightarrow> SagaGraph \<Rightarrow> SagaControl \<Rightarrow> sys \<Rightarrow> bool" where
  "can_finish d ex sagaID graph control s \<longleftrightarrow> 0 \<le> d \<and> int (length (sg_Nodes graph)) * (2 * d) < lease_duration ex \<and>
     sct_Status control \<in> {SagaPending, SagaRunning} \<and> sagaLeaseActive (sct_Lease control) (sys_now s) = Inr False \<and>
     time_ok (sys_now s + lease_duration ex) \<and> (\<exists>ordered. TopologicalOrder graph = Inr ordered) \<and>
     well_behaved d sagaID ex graph \<and>
     events_fresh sagaID s \<and> length (sg_Nodes graph) \<le> length (sys_events s) \<and>
     fst ` set (completedResults control) \<subseteq> set (node_ids graph) \<and>
     (\<forall>n \<in> set (sg_Nodes graph). succeeded_at (completedResults control) (sn_ID n) \<or>
        sys_objs s (result_key sagaID (sn_ID n)) = None)"

lemma alone_execute:
  assumes "sys_env s = []" "stored_saga s sagaID intent graph control" "can_finish d ex sagaID graph control s"
  shows "\<exists>res t. Execute sys_world ex sagaID s = (Inr res, t) \<and> er_Status res = SagaSucceeded \<and>
    er_Completed res = sort (node_ids graph)"
proof -
  define opts where "opts = \<lparr>slo_Owner = (if ex_Owner ex = [] then ''saga-executor'' else ex_Owner ex), slo_Duration = lease_duration ex\<rparr>"
  have o: "slo_Owner opts \<noteq> []" "0 < slo_Duration opts" "slo_Duration opts = lease_duration ex"
    by (simp_all add: opts_def lease_duration_def)
  note cf = assms(3) [unfolded can_finish_def]
  obtain h doc s1 where a: "saga_AcquireLease sys_world sagaID opts s = (Inr (h, doc), s1)" "alone_held (s1, h) (cdoc_Control doc)"
    "sct_SagaID (cdoc_Control doc) = sagaID" "sct_Status (cdoc_Control doc) = sct_Status control"
    "sct_StepResults (cdoc_Control doc) = sct_StepResults control" "sys_events s1 = sys_events s" "only_touches {saga_key sagaID} s s1"
    "leased_until (cdoc_Control doc) (sys_now s + slo_Duration opts)"
    using alone_acquire_held [OF assms(1,2) _ o(1,2)] cf o(3) by auto
  have st: "is_id sagaID" "wf_SagaIntent intent" "validateIntent intent = Inr ()" "si_SagaID intent = sagaID" "wf_SagaGraph graph"
    "validateGraph graph = Inr ()" "sg_SagaID graph = sagaID" "sct_SagaID control = sagaID"
    using assms(2) by (simp_all add: stored_saga_def)
  let ?ik = "''sagas/'' @ sagaID @ ''/intent.json''" and ?gk = "''sagas/'' @ sagaID @ ''/graph.json''"
  obtain e1 e2 where d: "sys_objs s1 ?ik = Some (e1, JsonBody (enc_SagaIntent intent))" "sys_objs s1 ?gk = Some (e2, JsonBody (enc_SagaGraph graph))"
    using assms(2) only_touchesD [OF a(7), of ?ik] only_touchesD [OF a(7), of ?gk] by (auto simp: stored_saga_def saga_key_def)
  have al: "sys_env s1 = []" using a(2) by (simp add: alone_held_def)
  obtain idoc where gi: "GetIntent sys_world sagaID s1 = (Inr idoc, s1)" "idoc_Intent idoc = intent"
    using alone_GetIntent [OF al _ d(1) st(2-4)] st(1) by (auto simp: paths_SagaIntent_def)
  obtain gdoc where gg: "GetGraph sys_world sagaID s1 = (Inr gdoc, s1)" "gdoc_Graph gdoc = graph"
    using alone_GetGraph [OF al _ d(2) st(5-7)] st(1) by (auto simp: paths_SagaGraph_def)
  let ?f = "\<lambda>c. Inr (c\<lparr>sct_Status := SagaRunning\<rparr>)"
  obtain c p where c: "(if sct_Status (cdoc_Control doc) = SagaPending then updateControl sys_world ?f else io_ret (cdoc_Control doc)) (s1, h) = (Inr c, p)"
    "alone_held p c" "sct_SagaID c = sagaID" "sct_StepResults c = sct_StepResults control" "sys_events (fst p) = sys_events s"
    "only_touches {saga_key sagaID} s1 (fst p)" "sct_Lease c = sct_Lease (cdoc_Control doc)"
  proof (cases "sct_Status (cdoc_Control doc) = SagaPending")
    case True
    have "validateControl ((cdoc_Control doc)\<lparr>sct_Status := SagaRunning\<rparr>) = Inr ()"
      using a(2) by (simp add: alone_held_def validateControl_iff)
    then show ?thesis
      using alone_updateControl [OF a(2), of ?f "(cdoc_Control doc)\<lparr>sct_Status := SagaRunning\<rparr>"] True a(3,5,6) that by auto
  next
    case False
    then show ?thesis using that [of "cdoc_Control doc" "(s1, h)"] a by (simp add: io_ret_def only_touches_def)
  qed
  have cr: "completedResults c = completedResults control"
    using c(3,4) st(8) by (intro completedResults_cong) simp_all
  have ot: "only_touches {saga_key sagaID} s (fst p)" using only_touches_trans [OF a(7) c(6)] by simp
  have ef: "events_fresh sagaID (fst p)"
    using cf c(5) only_touchesD [OF ot] by (simp add: events_fresh_def)
  have ro: "results_ok graph (completedResults c)" using completedResults_ok cf cr by (simp add: results_ok_def)
  have "nodes_left graph (completedResults c) \<le> length (sg_Nodes graph)" by (simp add: nodes_left_def)
  then have nl: "nodes_left graph (completedResults c) \<le> length (sys_events (fst p))" using cf c(5) by simp
  have fr: "\<forall>n \<in> set (sg_Nodes graph). succeeded_at (completedResults c) (sn_ID n) \<or> sys_objs (fst p) (result_key sagaID (sn_ID n)) = None"
    using cf cr only_touchesD [OF ot] by simp
  obtain ordered where top: "TopologicalOrder graph = Inr ordered" and wb: "well_behaved d sagaID ex graph" "0 \<le> d" using cf by blast
  have "int (nodes_left graph (completedResults c)) * (2 * d) \<le> int (length (sg_Nodes graph)) * (2 * d)"
    using wb(2) by (intro mult_right_mono) (simp_all add: nodes_left_def)
  then have un: "leased_until c (sys_now s + lease_duration ex)"
      "sys_now (fst p) + int (nodes_left graph (completedResults c)) * (2 * d) < sys_now s + lease_duration ex"
    using a(8) c(7) ot o(3) cf by (auto simp: leased_until_def only_touches_def)
  obtain res q where l: "execLoop sys_world ex sagaID intent graph (completedResults c) c p = (Inr res, q)"
    "er_Status res = SagaSucceeded" "er_Completed res = sort (node_ids graph)"
    using alone_loop [OF st(6) top wb c(2,3) nl ef ro fr un] by blast
  have "sct_Status (cdoc_Control doc) \<noteq> SagaSucceeded" "sct_Status (cdoc_Control doc) \<noteq> SagaCanceled"
    using cf a(4) by (auto simp: saga_status_defs)
  then have "executeBody sys_world ex sagaID (cdoc_Control doc) (s1, h) = (Inr res, q)"
    using gi gg l(1) c(1) by (simp add: executeBody_def io_bind_def in_world_def)
  then have "\<exists>t. Execute sys_world ex sagaID s = (Inr res, t)"
    using a(1) unfolding Execute_def Let_def opts_def lease_duration_def
    by (simp add: io_bind_def split: prod.splits)
  then show ?thesis using l(2,3) by blast
qed

section \<open>Properties\<close>

text \<open>
  C6: success means every node succeeded. When \<^verbatim>\<open>Execute\<close> reports a saga as succeeded, whatever other
  clients and the steps did meanwhile, then it took the lease of the control document (state \<open>s1\<close>), and later, before
  it returned, the graph \<open>g\<close> was the one stored under the saga's graph key (state \<open>w\<close>). Either the document
  taken over was a succeeded one, or, when the results it records name nodes of the graph, the completed steps
  reported are exactly the nodes of \<open>g\<close>, and after \<open>w\<close> and before the return the stored control document of the saga
  had status succeeded (state \<open>u\<close>). The states are instants of this run: each is reached from the previous by writes
  of the run's own history.
\<close>

theorem execute_success_complete:
  assumes "sys_inv s"
    and steps: "\<forall>kind step. ex_Steps ex kind = Some step \<longrightarrow>
      (\<forall>p u r v. sys_inv u \<longrightarrow> st_ValidateParams step p u = (r, v) \<longrightarrow> sys_evolves u v) \<and>
      (\<forall>rq u r v. sys_inv u \<longrightarrow> st_Run step rq u = (r, v) \<longrightarrow> sys_evolves u v) \<and>
      (\<forall>rq x u r v. sys_inv u \<longrightarrow> st_Compensate step rq x u = (r, v) \<longrightarrow> sys_evolves u v)"
    and ex: "Execute sys_world ex sagaID s = (Inr res, t)" "er_Status res = SagaSucceeded"
  shows "\<exists>h doc s1 w key eg j g. saga_AcquireLease sys_world sagaID (execute_lease ex) s = (Inr (h, doc), s1) \<and>
    sys_evolves s1 w \<and> sys_evolves w t \<and>
    paths_SagaGraph sagaID = Inr key \<and> sys_objs w key = Some (eg, JsonBody j) \<and> dec_SagaGraph j = Inr g \<and>
    (sct_Status (cdoc_Control doc) = SagaSucceeded \<or>
     (fst ` set (completedResults (cdoc_Control doc)) \<subseteq> set (node_ids g) \<longrightarrow>
        set (er_Completed res) = set (node_ids g) \<and>
        (\<exists>u e c. sys_evolves w u \<and> sys_evolves u t \<and> saga_at (sys_objs u) sagaID = Some (e, c) \<and> sct_Status c = SagaSucceeded)))"
proof -
  have q: "sysw.steps_quiet ex" using steps by (auto simp: sysw.steps_quiet_def sysw.quiet_def)
  obtain h doc s1 t1 hl where a: "saga_AcquireLease sys_world sagaID (execute_lease ex) s = (Inr (h, doc), s1)"
    and b: "executeBody sys_world ex sagaID (cdoc_Control doc) (s1, h) = (Inr res, (t1, hl))"
    and rel: "t = snd (saga_ReleaseLease sys_world hl t1)"
    using Execute_Inr [OF ex(1)] by blast
  obtain i p1 g p2 where gi: "in_world (GetIntent sys_world sagaID) (s1, h) = (Inr i, p1)"
    and gg: "in_world (GetGraph sys_world sagaID) p1 = (Inr g, p2)"
    and rest: "(if sct_Status (cdoc_Control doc) = SagaSucceeded \<or> sct_Status (cdoc_Control doc) = SagaCanceled
       then io_ret (executionSummary (cdoc_Control doc) [] [] [])
       else io_bind (if sct_Status (cdoc_Control doc) = SagaPending
           then updateControl sys_world (\<lambda>c. Inr (c\<lparr>sct_Status := SagaRunning\<rparr>)) else io_ret (cdoc_Control doc)) (\<lambda>control.
         execLoop sys_world ex sagaID (idoc_Intent i) (gdoc_Graph g) (completedResults control) control)) p2 = (Inr res, (t1, hl))"
    using b unfolding executeBody_def by (simp only: io_bind_Inr_iff) blast
  have h0: "sysw.holds (s1, h) (cdoc_Control doc)" using sysw.acquire_holds(1) [OF assms(1) a] .
  have h1: "sysw.holds p1 (cdoc_Control doc)" by (rule sysw.holds_quiet [OF h0 _ gi]) simp
  have h2: "sysw.holds p2 (cdoc_Control doc)" by (rule sysw.holds_quiet [OF h1 _ gg]) simp
  have "sys_evolves s1 (fst p1)" using sysw.held_quietD [OF sysw.held_quiet_world sysw.holds_inv [OF h0] gi] by simp
  then have w: "sys_evolves s1 (fst p2)"
    using sysw.held_quietD [OF sysw.held_quiet_world sysw.holds_inv [OF h1] gg] sysw.evolves_trans by simp
  obtain key eg j where graph: "paths_SagaGraph sagaID = Inr key" "sys_objs (fst p2) key = Some (eg, JsonBody j)"
      "dec_SagaGraph j = Inr (gdoc_Graph g)"
    using gg sysw.GetGraph_ok unfolding in_world_Inr by blast
  have id: "sct_SagaID (cdoc_Control doc) = sagaID" using sysw.saga_AcquireLease_ok [OF assms(1) a] by blast
  have last: "sys_evolves t1 t" if "sys_inv t1"
    using sysw.quietD [OF sysw.quiet_saga_leases(5) that, of hl] rel by (cases "saga_ReleaseLease sys_world hl t1") auto
  show ?thesis
  proof (cases "sct_Status (cdoc_Control doc) = SagaSucceeded")
    case True
    then have "fst p2 = t1" using rest by (auto simp: io_ret_def)
    then show ?thesis using a w graph True last sysw.holds_inv [OF h2] by blast
  next
    case ns: False
    have nc: "sct_Status (cdoc_Control doc) \<noteq> SagaCanceled"
      using rest ex(2) by (auto simp: executionSummary_def saga_status_defs)
    obtain c p3 where c: "sysw.holds p3 c" "sct_Status c \<noteq> SagaSucceeded" "sys_evolves (fst p2) (fst p3)"
        "completedResults c = completedResults (cdoc_Control doc)" "sct_SagaID c = sagaID"
      and l: "execLoop sys_world ex sagaID (idoc_Intent i) (gdoc_Graph g) (completedResults c) c p3 = (Inr res, (t1, hl))"
    proof (cases "sct_Status (cdoc_Control doc) = SagaPending")
      case True
      then obtain c p3 where u: "updateControl sys_world (\<lambda>c. Inr (c\<lparr>sct_Status := SagaRunning\<rparr>)) p2 = (Inr c, p3)"
        and l: "execLoop sys_world ex sagaID (idoc_Intent i) (gdoc_Graph g) (completedResults c) c p3 = (Inr res, (t1, hl))"
        using rest ns nc by (auto simp: io_bind_Inr_iff)
      have nid: "sct_SagaID (cdoc_Control doc) \<noteq> []"
        using h2 by (auto simp: sysw.holds_def validateControl_iff is_id_def)
      note e = sysw.updateControl_exact [OF h2 u]
      then have "completedResults c = completedResults (cdoc_Control doc)" "sct_Status c = SagaRunning"
        using nid by (auto simp: completedResults_norm sysw.status_normalizeControl saga_status_defs intro!: completedResults_cong)
      then show ?thesis using that [of p3 c] e l id by (simp add: saga_status_defs)
    next
      case False
      then show ?thesis using that [of p2 "cdoc_Control doc"] rest ns nc h2 id by simp
    qed
    have ev: "sys_evolves (fst p2) t1"
      using sysw.evolves_trans [OF c(3)] sysw.held_quiet_execLoop [OF q sysw.holds_inv [OF c(1)] l] by simp
    have t1: "sys_evolves t1 t" using last ev sysw.holds_inv [OF h2] sysw.evolves_inv by blast
    have "set (er_Completed res) = set (node_ids (gdoc_Graph g)) \<and> (\<exists>u e c. sys_evolves (fst p2) u \<and> sys_evolves u t \<and>
        saga_at (sys_objs u) sagaID = Some (e, c) \<and> sct_Status c = SagaSucceeded)"
      if "fst ` set (completedResults (cdoc_Control doc)) \<subseteq> set (node_ids (gdoc_Graph g))"
    proof -
      have "results_ok (gdoc_Graph g) (completedResults c)"
        using completedResults_ok that c(4) by (simp add: results_ok_def)
      from sysw.execLoop_success [OF q c(1) this c(2) l ex(2)] show ?thesis using ev t1 c(5) by auto
    qed
    then show ?thesis using a w graph ev t1 sysw.evolves_trans by blast
  qed
qed

text \<open>A saga of two steps, the second requiring the first, alone in the world, and steps that succeed and take a second each.\<close>

definition ab_graph :: SagaGraph where
  "ab_graph = zero_SagaGraph\<lparr>sg_SchemaVersion := schema_Version, sg_SagaID := ''s1'',
     sg_Nodes := [zero_SagaNode\<lparr>sn_ID := ''a'', sn_Kind := ''k''\<rparr>,
       zero_SagaNode\<lparr>sn_ID := ''b'', sn_Kind := ''k'', sn_Requires := [''a'']\<rparr>]\<rparr>"

definition ab_intent :: SagaIntent where
  "ab_intent = zero_SagaIntent\<lparr>si_SchemaVersion := schema_Version, si_SagaID := ''s1'', si_Kind := ''k'',
     si_Target := \<lparr>tgt_Kind = ''service'', tgt_Name = ''api''\<rparr>, si_Actor := zero_Actor\<lparr>act_ID := ''u'', act_Type := ''user''\<rparr>,
     si_TraceID := ''t'', si_Risk := RiskLow, si_Reversibility := Reversible\<rparr>"

definition ab_store :: Store where
  "ab_store =
     snd (memory_Create None ''sagas/s1/control.json'' (JsonBody (enc_SagaControl s1_control)) (saga_putOptions ''saga_control'' ''s1'')
     (snd (memory_Create None ''sagas/s1/graph.json'' (JsonBody (enc_SagaGraph ab_graph)) (saga_putOptions ''saga_graph'' ''s1'')
     (snd (memory_Create None ''sagas/s1/intent.json'' (JsonBody (enc_SagaIntent ab_intent)) (saga_putOptions ''saga_intent'' ''s1'')
        memory_New)))))"

definition ab_sys :: sys where
  "ab_sys = \<lparr>sys_store = ab_store, sys_now = 1000, sys_tokens = [], sys_events = [''e1'', ''e2''], sys_env = [], sys_history = []\<rparr>"

definition ok_step :: "sys Step" where
  "ok_step = \<lparr>st_ValidateParams = (\<lambda>_. io_ret ()),
     st_Run = (\<lambda>_ s. (Inr (Some \<lparr>so_Status = StatusSucceeded, so_Result = RawEmpty, so_Failure = None,
       so_ProviderOperations = [], so_Summary = []\<rparr>), s\<lparr>sys_now := sys_now s + 1000000000\<rparr>)),
     st_Compensate = (\<lambda>_ _. io_ret None)\<rparr>"

definition ok_executor :: "sys Executor" where
  "ok_executor = \<lparr>ex_Steps = (\<lambda>_. Some ok_step), ex_Owner = ''worker-1'', ex_LeaseDuration = 0\<rparr>"

lemma ab_objs:
  "sys_objs ab_sys = [''sagas/s1/intent.json'' \<mapsto> (etagForVersion 1, JsonBody (enc_SagaIntent ab_intent)),
     ''sagas/s1/graph.json'' \<mapsto> (etagForVersion 1, JsonBody (enc_SagaGraph ab_graph)),
     ''sagas/s1/control.json'' \<mapsto> (etagForVersion 1, JsonBody (enc_SagaControl s1_control))]"
  by (rule ext) (simp add: sys_objs_def ab_sys_def ab_store_def memory_Create_def memory_New_def nextTimeLocked_def Let_def memory_objs_def)

lemma ab_inv: "sys_inv ab_sys"
  by (simp add: sys_inv_def ab_sys_def ab_store_def memory_Create_def memory_New_def nextTimeLocked_def Let_def memory_inv_def
      entry_ok_def)

lemma ab_graph_valid: "validateGraph ab_graph = Inr ()"
  by (simp add: validateGraph_def ab_graph_def zero_SagaGraph_def zero_SagaNode_def validateNode_def validateRequires_def
      validateID_iff is_id_def isIDChar_def rbind_def TrimSpace_printable printable_def raw_valid_def node_ids_def)

lemma ab_stored: "stored_saga ab_sys ''s1'' ab_intent ab_graph s1_control"
proof -
  have wf: "wf_SagaControl s1_control" "wf_SagaIntent ab_intent" "wf_SagaGraph ab_graph"
    by (simp_all add: wf_SagaControl_def s1_control_def NewSagaControl_def zero_SagaControl_def wf_SagaIntent_def ab_intent_def
        zero_SagaIntent_def raw_valid_def wf_SagaGraph_def ab_graph_def zero_SagaGraph_def zero_SagaNode_def wf_SagaNode_def)
  have i: "validateIntent ab_intent = Inr ()"
    by (simp add: validateIntent_def ab_intent_def zero_SagaIntent_def zero_Actor_def validateID_iff is_id_def isIDChar_def
        TrimSpace_printable printable_def validateRisk_def validateReversibility_def)
  have "saga_at (sys_objs ab_sys) ''s1'' = Some (etagForVersion 1, s1_control)"
    by (simp add: view_at_Some saga_view_Some ab_objs saga_key_def codec_SagaControl [OF wf(1)])
  then show ?thesis
    using wf i ab_graph_valid s1_facts(4,6,7,10)
    by (simp add: stored_saga_def ab_objs) (simp add: ab_intent_def ab_graph_def)
qed

lemma ok_well_behaved: "well_behaved 1000000000 sagaID ok_executor graph"
  by (auto simp: well_behaved_def ok_executor_def ok_step_def io_ret_def good_outcome_def raw_valid_def harmless_def passes_def sys_objs_def)

lemma ab_can_finish: "can_finish 1000000000 ok_executor ''s1'' ab_graph s1_control ab_sys"
proof -
  have "map_sum id (map sn_ID) (TopologicalOrder ab_graph) = Inr [''a'', ''b'']" by code_simp
  then have top: "\<exists>ordered. TopologicalOrder ab_graph = Inr ordered" by (cases "TopologicalOrder ab_graph") auto
  have ev: "events_fresh ''s1'' ab_sys"
    by (simp add: events_fresh_def ab_objs event_key_def is_id_def isIDChar_def) (simp add: ab_sys_def is_id_def isIDChar_def)
  have "completedResults s1_control = []" by (simp add: completedResults_def s1_facts(12))
  moreover have "\<forall>n \<in> set (sg_Nodes ab_graph). sys_objs ab_sys (result_key ''s1'' (sn_ID n)) = None"
    by (simp add: ab_objs result_key_def)
  moreover have "length (sg_Nodes ab_graph) \<le> length (sys_events ab_sys)" by (simp add: ab_graph_def ab_sys_def)
  moreover have "length (sg_Nodes ab_graph) = 2" by (simp add: ab_graph_def)
  ultimately show ?thesis using top ok_well_behaved ev s1_facts(9,11)
    by (simp add: can_finish_def sagaLeaseActive_def lease_duration_def ok_executor_def ab_sys_def time_ok_int64 in_int64_def)
qed

theorem execute_success_complete_witness:
  "\<exists>res t h doc s1 w eg j g. Execute sys_world ok_executor ''s1'' ab_sys = (Inr res, t) \<and> er_Status res = SagaSucceeded \<and>
     saga_AcquireLease sys_world ''s1'' (execute_lease ok_executor) ab_sys = (Inr (h, doc), s1) \<and> sys_evolves s1 w \<and> sys_evolves w t \<and>
     sys_objs w ''sagas/s1/graph.json'' = Some (eg, JsonBody j) \<and> dec_SagaGraph j = Inr g"
proof -
  obtain res t where ex: "Execute sys_world ok_executor ''s1'' ab_sys = (Inr res, t)" "er_Status res = SagaSucceeded"
    using alone_execute [OF _ ab_stored ab_can_finish] by (auto simp: ab_sys_def)
  have steps: "\<forall>kind step. ex_Steps ok_executor kind = Some step \<longrightarrow>
      (\<forall>p u r v. sys_inv u \<longrightarrow> st_ValidateParams step p u = (r, v) \<longrightarrow> sys_evolves u v) \<and>
      (\<forall>rq u r v. sys_inv u \<longrightarrow> st_Run step rq u = (r, v) \<longrightarrow> sys_evolves u v) \<and>
      (\<forall>rq x u r v. sys_inv u \<longrightarrow> st_Compensate step rq x u = (r, v) \<longrightarrow> sys_evolves u v)"
    by (auto simp: ok_executor_def ok_step_def io_ret_def intro: sys_evolves_idle)
  have "paths_SagaGraph ''s1'' = Inr ''sagas/s1/graph.json''" by code_simp
  with execute_success_complete [OF ab_inv steps ex] ex show ?thesis by (elim exE conjE) (intro exI conjI, assumption+, simp, assumption)
qed

text \<open>
  C7: an executor alone finishes a saga. No other client interferes; the three documents of the saga are
  stored and well formed; the saga is pending or running, its lease is free, its graph has no cycle; every node has a registered step that
  accepts its parameters and succeeds at the first attempt, taking at most \<open>d\<close> per call and leaving the documents of the
  saga alone; two calls per node fit into one lease duration, which the executor never renews; event ids are unused;
  recorded results name nodes of the graph and other nodes have no stored result. Then \<^verbatim>\<open>Execute\<close> returns without error,
  reports success and lists every node of the graph: for a fresh saga and for one resumed with some of its steps recorded.
\<close>

theorem execute_alone_succeeds:
  assumes "sys_env s = []" "stored_saga s sagaID intent graph control" "can_finish d ex sagaID graph control s"
  shows "\<exists>res t. Execute sys_world ex sagaID s = (Inr res, t) \<and> er_Status res = SagaSucceeded \<and>
    er_Completed res = sort (node_ids graph)"
  using alone_execute [OF assms] .

theorem execute_alone_succeeds_witness:
  "\<exists>res t. Execute sys_world ok_executor ''s1'' ab_sys = (Inr res, t) \<and> er_Status res = SagaSucceeded \<and>
     er_Completed res = [''a'', ''b'']"
proof -
  have "node_ids ab_graph = [''a'', ''b'']" by (simp add: node_ids_def ab_graph_def)
  moreover have "sort [''a'', ''b''] = [''a'', ''b'']" by code_simp
  ultimately show ?thesis
    using execute_alone_succeeds [OF _ ab_stored ab_can_finish] by (simp add: ab_sys_def)
qed

section \<open>Compensation and cycles\<close>

definition compensable :: "'s Executor \<Rightarrow> SagaNode \<Rightarrow> bool" where
  "compensable ex n \<longleftrightarrow> sn_Compensate n \<noteq> None \<and> sn_Reversibility n \<noteq> Irreversible \<and> ex_Steps ex (sn_Kind n) \<noteq> None"

lemma compensateLoop_subseq:
  assumes "compensateLoop W ex intent graph control completed order h done0 s = (Inr (h', done1), t)"
  shows "\<exists>xs. done1 = done0 @ xs \<and> subseq xs (map sn_ID (filter (compensable ex) order))"
  using assms
proof (induction order arbitrary: h done0 s)
  case (Cons node order)
  show ?case
  proof (cases "compensable ex node")
    case False
    then have "compensateLoop W ex intent graph control completed order h done0 s = (Inr (h', done1), t)"
      using Cons.prems by (auto simp: compensable_def split: option.splits)
    then show ?thesis using Cons.IH False by auto
  next
    case True
    then obtain spec step where n: "sn_Compensate node = Some spec" "sn_Reversibility node \<noteq> Irreversible"
      "ex_Steps ex (sn_Kind node) = Some step" by (auto simp: compensable_def)
    obtain done2 h2 s2 where d: "done2 = done0 @ [sn_ID node] \<or> done2 = done0"
      and r: "compensateLoop W ex intent graph control completed order h2 done2 s2 = (Inr (h', done1), t)"
      using Cons.prems n by (auto simp: io_bind_Inr_iff Let_def split: if_splits)
    obtain xs where "done1 = done2 @ xs" "subseq xs (map sn_ID (filter (compensable ex) order))"
      using Cons.IH [OF r] by blast
    then show ?thesis using d True by auto
  qed
qed (auto simp: io_ret_def)

text \<open>
  The ids of the nodes each node needs: what it requires, directly (\<open>needs\<close>) or through other nodes (its
  transitive closure). In a topological order nothing stands before what it needs.
\<close>

definition needs :: "SagaGraph \<Rightarrow> (string \<times> string) set" where
  "needs graph = {(sn_ID n, r) | n r. n \<in> set (sg_Nodes graph) \<and> r \<in> set (requiresForNode graph n)}"

lemma topological_needs:
  assumes "topological graph ordered" "(i, r) \<in> (needs graph)\<^sup>+" "k < length ordered" "i = sn_ID (ordered ! k)"
  shows "\<exists>j < k. r = sn_ID (ordered ! j)"
proof -
  have direct: "\<exists>j < k. r = sn_ID (ordered ! j)" if n: "(sn_ID (ordered ! k), r) \<in> needs graph" "k < length ordered" for k r
  proof -
    obtain n where m: "n \<in> set ordered" "sn_ID n = sn_ID (ordered ! k)" "r \<in> set (requiresForNode graph n)"
      using n(1) assms(1) by (auto simp: needs_def topological_def)
    then have "n = ordered ! k"
      using assms(1) n(2) by (auto simp: topological_def in_set_conv_nth distinct_conv_nth)
    then have "r \<in> sn_ID ` set (take k ordered)" using assms(1) n(2) m(3) by (auto simp: topological_def)
    then obtain i where "i < k" "r = sn_ID (ordered ! i)" by (auto simp: in_set_conv_nth)
    then show ?thesis by blast
  qed
  from assms(2) show ?thesis
  proof (induction rule: trancl_induct)
    case (base y)
    then show ?case using direct assms(3,4) by blast
  next
    case (step y z)
    then obtain j where "j < k" "y = sn_ID (ordered ! j)" by blast
    then show ?case using direct [of j z] step.hyps(2) assms(3) by (auto intro: less_trans)
  qed
qed

lemma sorted_wrt_nths: "sorted_wrt P xs \<Longrightarrow> sorted_wrt P (nths xs N)"
  by (induction xs arbitrary: N) (auto simp: nths_Cons dest: notin_set_nthsI in_set_nthsD)

lemma topological_needs_sorted:
  assumes "topological graph ordered"
  shows "sorted_wrt (\<lambda>i j. (j, i) \<notin> (needs graph)\<^sup>+) (map sn_ID (rev ordered))"
proof -
  have "(sn_ID (ordered ! p), sn_ID (ordered ! q)) \<notin> (needs graph)\<^sup>+" if pq: "p < q" "q < length ordered" for p q
  proof
    assume "(sn_ID (ordered ! p), sn_ID (ordered ! q)) \<in> (needs graph)\<^sup>+"
    then obtain j where "j < p" "sn_ID (ordered ! q) = sn_ID (ordered ! j)"
      using topological_needs [OF assms, of "sn_ID (ordered ! p)" "sn_ID (ordered ! q)" p] pq by auto
    then show False using assms pq by (auto simp: topological_def distinct_conv_nth)
  qed
  then have "sorted_wrt (\<lambda>x y. (sn_ID x, sn_ID y) \<notin> (needs graph)\<^sup>+) ordered" by (simp add: sorted_wrt_iff_nth_less)
  then show ?thesis by (simp add: sorted_wrt_map sorted_wrt_rev)
qed

text \<open>
  C33: what compensation reports. The ids a successful compensation reports as compensated are, without
  repetition, ids of nodes of the graph that had succeeded, declare a compensation, are not irreversible and
  have a registered step; and they stand in the order of undoing: no reported node is followed by one that needs it,
  directly or through other nodes, so what was built on a node's work is undone before that work.
\<close>

theorem compensation_reported:
  assumes "compensate W ex handle intent graph control completed s = (Inr (h', compensated), t)"
  shows "distinct compensated \<and>
    (\<forall>i \<in> set compensated. succeeded_at completed i \<and> (\<exists>n \<in> set (sg_Nodes graph). sn_ID n = i \<and> compensable ex n)) \<and>
    sorted_wrt (\<lambda>i j. (j, i) \<notin> (needs graph)\<^sup>+) compensated"
proof -
  obtain order where o: "ReverseTopologicalCompleted graph (Some completed) = Inr order"
    and l: "compensateLoop W ex intent graph control completed order handle [] s = (Inr (h', compensated), t)"
    using assms by (auto simp: compensate_def io_bind_Inr_iff)
  obtain ordered where top: "topological graph ordered"
    and out: "order = filter (\<lambda>node. succeeded_at completed (sn_ID node)) (rev ordered)"
    using o TopologicalOrder_Inr by (auto simp: ReverseTopologicalCompleted_def succeeded_at_def rbind_Inr_iff)
  let ?P = "\<lambda>node. compensable ex node \<and> succeeded_at completed (sn_ID node)"
  have f: "filter (compensable ex) order = filter ?P (rev ordered)" unfolding out by (simp add: conj_commute)
  obtain N where N: "compensated = nths (map sn_ID (filter ?P (rev ordered))) N"
    using compensateLoop_subseq [OF l] unfolding f by (auto simp: subseq_conv_nths)
  have "distinct (map sn_ID (rev ordered))" using top by (simp add: topological_def rev_map [symmetric])
  then have "distinct compensated" unfolding N by (intro distinct_nthsI distinct_map_filter)
  moreover have "\<forall>i \<in> set compensated. succeeded_at completed i \<and> (\<exists>n \<in> set (sg_Nodes graph). sn_ID n = i \<and> compensable ex n)"
    using set_nths_subset [of "map sn_ID (filter ?P (rev ordered))" N] top by (auto simp: N topological_def)
  moreover have "sorted_wrt (\<lambda>i j. (j, i) \<notin> (needs graph)\<^sup>+) (map sn_ID (filter ?P (rev ordered)))"
    using topological_needs_sorted [OF top] unfolding sorted_wrt_map by (rule sorted_wrt_filter)
  then have "sorted_wrt (\<lambda>i j. (j, i) \<notin> (needs graph)\<^sup>+) compensated"
    unfolding N by (rule sorted_wrt_nths)
  ultimately show ?thesis by blast
qed

text \<open>One node that succeeded and can be undone.\<close>

definition undo_node :: SagaNode where
  "undo_node = zero_SagaNode\<lparr>sn_ID := ''a'', sn_Kind := ''k'', sn_Compensate := Some \<lparr>cs_Kind = ''k'', cs_Params = RawEmpty\<rparr>\<rparr>"

definition undo_graph :: SagaGraph where
  "undo_graph = zero_SagaGraph\<lparr>sg_Nodes := [undo_node]\<rparr>"

definition undo_done :: results where
  "undo_done = [(''a'', zero_StepResult\<lparr>sr_Status := ''succeeded''\<rparr>)]"

definition undo_step :: "sys Step" where
  "undo_step = ok_step\<lparr>st_Compensate := (\<lambda>_ _. io_ret (Some \<lparr>so_Status = StatusSucceeded, so_Result = RawEmpty, so_Failure = None,
       so_ProviderOperations = [], so_Summary = []\<rparr>))\<rparr>"

lemma undo_compensates:
  "\<exists>h h' t t'. compensate sys_world (ok_executor\<lparr>ex_Steps := (\<lambda>_. Some undo_step)\<rparr>) h ab_intent undo_graph s1_control undo_done t =
     (Inr (h', [''a'']), t')"
proof -
  let ?out = "\<lparr>so_Status = StatusSucceeded, so_Result = RawEmpty, so_Failure = None, so_ProviderOperations = [], so_Summary = []\<rparr>"
  let ?n = "undo_node\<lparr>sn_ID := ''a-compensate''\<rparr>"
  define opts where "opts = \<lparr>slo_Owner = ''w'', slo_Duration = 30000000000\<rparr>"
  have tm: "time_ok (sys_now ab_sys + slo_Duration opts)" "sys_env ab_sys = []" "slo_Owner opts \<noteq> []" "0 < slo_Duration opts"
    by (simp_all add: ab_sys_def opts_def time_ok_int64 in_int64_def)
  obtain h t and doc :: ControlDocument where a: "alone_held (t, h) (cdoc_Control doc)" "sct_SagaID (cdoc_Control doc) = ''s1''"
    "sys_events t = sys_events ab_sys" "only_touches {saga_key ''s1''} ab_sys t"
    using alone_acquire_held [OF tm(2) ab_stored _ tm(3,4,1)] s1_facts(9) by (auto simp: sagaLeaseActive_def)
  let ?c = "cdoc_Control doc"
  have al: "sys_env t = []" using a(1) by (simp add: alone_held_def)
  have id: "is_id ''s1''" by (rule s1_facts(4))
  have v: "validateNode ?n = Inr ()"
    by (simp add: validateNode_def undo_node_def zero_SagaNode_def validateID_iff is_id_def isIDChar_def rbind_def
        TrimSpace_printable printable_def raw_valid_def)
  have g: "good_outcome ?out" by (simp add: good_outcome_def raw_valid_def)
  have f: "sys_objs t (result_key ''s1'' (sn_ID ?n)) = None"
    using only_touchesD [OF a(4), of "result_key ''s1'' (sn_ID ?n)"] by (simp add: ab_objs result_key_def undo_node_def saga_key_def)
  define r where "r = success_record ''s1'' ?n ?out (sys_now t)"
  obtain t1 where p: "persistStepResult sys_world ''s1'' (sn_ID ?n) (sn_Kind ?n) (Some ?out) t = (Inr r, t1)"
    "sys_events t1 = [''e1'', ''e2'']" "only_touches {result_key ''s1'' (sn_ID ?n)} t t1"
    using alone_persist [OF al id v g f] a(3) by (auto simp: r_def ab_sys_def)
  have al1: "sys_env t1 = []" using p(3) al by (simp add: only_touches_def)
  have e: "is_id ''e1''" "sys_objs t1 (event_key ''s1'' ''e1'') = None"
    using only_touchesD [OF p(3), of "event_key ''s1'' ''e1''"] only_touchesD [OF a(4), of "event_key ''s1'' ''e1''"]
    by (simp_all add: is_id_def isIDChar_def ab_objs event_key_def saga_key_def result_key_def)
  obtain d t2 where ap: "appendStepEvent sys_world ''s1'' (sn_ID ?n) (sn_Kind ?n) r t1 = (Inr d, t2)"
    "only_touches {event_key ''s1'' ''e1''} t1 t2"
    using alone_appendStepEvent [OF al1 id v p(2) e] unfolding r_def by blast
  have h2: "alone_held (t2, h) ?c"
    by (rule alone_held_frame [OF alone_held_frame [OF a(1) p(3)] ap(2)]) (simp_all add: a(2))
  let ?f = "\<lambda>c. Inr (c\<lparr>sct_Status := SagaCompensating,
     sct_StepResults := upsertStepResultRef (sct_StepResults c) (stepResultRef r), sct_CurrentSteps := [sn_ID ?n]\<rparr>)"
  let ?m = "?c\<lparr>sct_Status := SagaCompensating,
     sct_StepResults := upsertStepResultRef (sct_StepResults ?c) (stepResultRef r), sct_CurrentSteps := [sn_ID ?n]\<rparr>"
  have "validateControl ?m = Inr ()"
    using a(1) success_ref_valid [OF v g] validateNode_ok [OF v]
    by (auto simp: alone_held_def validateControl_iff upsertStepResultRef_def r_def)
  from alone_updateControl [OF h2, of ?f ?m] this obtain c' q where "updateControl sys_world ?f (t2, h) = (Inr c', q)" by auto
  then obtain h' doc' t3 where u: "UpdateControlWithLeaseCAS sys_world h ?f t2 = (Inr (h', doc'), t3)"
    by (cases q) (auto simp: updateControl_def take_handle_Inr io_ok_iffs)
  have "map_sum id (map sn_ID) (ReverseTopologicalCompleted undo_graph (Some undo_done)) = Inr [''a'']" by code_simp
  then obtain ord where o: "ReverseTopologicalCompleted undo_graph (Some undo_done) = Inr ord" "map sn_ID ord = [''a'']"
    by (cases "ReverseTopologicalCompleted undo_graph (Some undo_done)") auto
  moreover have "set ord \<subseteq> {undo_node}"
    using o(1) TopologicalOrder_Inr by (auto simp: ReverseTopologicalCompleted_def rbind_Inr_iff topological_def undo_graph_def)
  ultimately have ord: "ord = [undo_node]" by (cases ord) auto
  have st: "sr_Status r = StatusSucceeded" by (simp add: r_def success_record_def)
  have n: "sn_ID undo_node = ''a''" "sn_Kind undo_node = ''k''" "sn_Compensate undo_node = Some \<lparr>cs_Kind = ''k'', cs_Params = RawEmpty\<rparr>"
    "sn_Reversibility undo_node \<noteq> Irreversible" "si_SagaID ab_intent = ''s1''"
    by (simp_all add: undo_node_def zero_SagaNode_def Irreversible_def ab_intent_def)
  have "compensate sys_world (ok_executor\<lparr>ex_Steps := (\<lambda>_. Some undo_step)\<rparr>) h ab_intent undo_graph s1_control undo_done t =
     (Inr (h', [''a'']), t3)"
    using o(1) ord p(1) ap(1) u st n
    by (simp add: compensate_def io_bind_def io_try_def undo_step_def io_ret_def Let_def)
  then show ?thesis by blast
qed

theorem compensation_reported_witness:
  "\<exists>h h' t t'. compensate sys_world (ok_executor\<lparr>ex_Steps := (\<lambda>_. Some undo_step)\<rparr>) h ab_intent undo_graph s1_control undo_done t =
     (Inr (h', [''a'']), t') \<and> succeeded_at undo_done ''a'' \<and> compensable (ok_executor\<lparr>ex_Steps := (\<lambda>_. Some undo_step)\<rparr>) undo_node"
proof -
  obtain h h' t t' where c: "compensate sys_world (ok_executor\<lparr>ex_Steps := (\<lambda>_. Some undo_step)\<rparr>) h ab_intent undo_graph
      s1_control undo_done t = (Inr (h', [''a'']), t')"
    using undo_compensates by blast
  from compensation_reported [OF c]
  have "succeeded_at undo_done ''a''" "compensable (ok_executor\<lparr>ex_Steps := (\<lambda>_. Some undo_step)\<rparr>) undo_node"
    by (simp_all add: undo_graph_def)
  then show ?thesis using c by blast
qed

text \<open>
  C35: a saga with a cyclic graph stalls. Validation accepts a graph whose nodes all wait for each other.
  The executor then finds nothing ready and nothing failed, so it returns at once without error and
  with the status the control document had: such a saga stays \<^verbatim>\<open>running\<close> for ever.
\<close>

theorem cyclic_saga_stalls:
  assumes "validateGraph graph = Inr ()" "dependency_cycle graph (set (node_ids graph))" "io_ctx W s = (Inr (), t)"
  shows "execLoop W ex sagaID intent graph [] control (s, h) = (Inr (executionSummary control [] [] []), (t, h))"
proof -
  obtain ready where rd: "ReadyNodes graph [] = Inr ready"
    using ReadyNodes_Inr [OF validateGraph_ok(1) [OF assms(1)]] by blast
  have none: "\<not> succeeded_at [] i" for i by (simp add: succeeded_at_iff)
  have "ready = []"
  proof (rule ccontr)
    assume "ready \<noteq> []"
    then have "hd ready \<in> set ready" by simp
    then have n: "hd ready \<in> set (sg_Nodes graph)" "\<forall>r \<in> set (requiresForNode graph (hd ready)). succeeded_at [] r"
      unfolding ReadyNodes_set(1) [OF rd] by simp_all
    moreover have "sn_ID (hd ready) \<in> set (node_ids graph)" using n(1) by (simp add: node_ids_def)
    ultimately show False using assms(2) none unfolding dependency_cycle_def by blast
  qed
  then show ?thesis
    using rd assms(3) validateGraph_ok(2) [OF assms(1)] by (subst execLoop.simps) (simp add: in_world_def)
qed

definition some_handle :: SagaLeaseHandle where
  "some_handle = \<lparr>slh_SagaID = ''s1'', slh_Owner = ''w'', slh_Token = ''lease_0'', slh_Generation = 1000, slh_ExpiresAt = 2000,
     slh_ETag = etagForVersion 1\<rparr>"

theorem cyclic_saga_stalls_witness:
  "execLoop sys_world ok_executor ''s1'' ab_intent two_cycle [] (s1_control\<lparr>sct_Status := SagaRunning\<rparr>) (ab_sys, some_handle) =
     (Inr (executionSummary (s1_control\<lparr>sct_Status := SagaRunning\<rparr>) [] [] []), (ab_sys, some_handle))"
  by (rule cyclic_saga_stalls [OF two_cycle_valid])
    (simp_all add: dependency_cycle_def two_cycle_def zero_SagaGraph_def zero_SagaNode_def node_ids_def requiresForNode_def ab_sys_def)

end
