(* ===== verification/Stateful_Control.thy ===== *)
theory Stateful_Control
  imports Service_Control Cas_Document
begin

text \<open>
  Stateful groups and their members (internal/state/stateful\_control.go): the control document of a
  group, the control document of each member with the lease inside it, and the operations on them.
  As in Service\_Control, \<^verbatim>\<open>requireStore\<close> always succeeds. The interface \<open>cas_document\<close> is
  interpreted for group and member documents; the properties follow from its facts.
\<close>

section \<open>Documents\<close>

definition StatefulMemberReady :: string where "StatefulMemberReady = ''ready''"
definition StatefulMemberReplacing :: string where "StatefulMemberReplacing = ''replacing''"
definition StatefulMemberUpdating :: string where "StatefulMemberUpdating = ''updating''"
definition StatefulMemberFailed :: string where "StatefulMemberFailed = ''failed''"

record StatefulMemberDocument =
  smd_Key :: string
  smd_ETag :: string
  smd_Meta :: ObjectMeta
  smd_Control :: StatefulMemberControl

record StatefulGroupDocument =
  sgd_Key :: string
  sgd_ETag :: string
  sgd_Meta :: ObjectMeta
  sgd_Control :: StatefulGroupControl

record StatefulMemberLeaseOptions =
  mlo_Owner :: string
  mlo_Duration :: int
  mlo_Actor :: Actor
  mlo_TraceID :: string
  mlo_Purpose :: string

record StatefulMemberLeaseHandle =
  mlh_Group :: string
  mlh_Member :: int
  mlh_Owner :: string
  mlh_Token :: string
  mlh_Generation :: int
  mlh_ExpiresAt :: gotime
  mlh_ETag :: string

definition normalizeStatefulGroupControl :: "StatefulGroupControl \<Rightarrow> StatefulGroupControl" where
  "normalizeStatefulGroupControl control =
     (let c1 = (if sgc_SchemaVersion control = [] then control\<lparr>sgc_SchemaVersion := schema_Version\<rparr> else control)
      in if sgc_Version c1 \<le> 0 then c1\<lparr>sgc_Version := 1\<rparr> else c1)"

definition validateStatefulGroupControl :: "StatefulGroupControl \<Rightarrow> unit result" where
  "validateStatefulGroupControl control =
     (if sgc_SchemaVersion control \<noteq> schema_Version then
        Inl (invalid_transition (sgc_Group control) []
          (''unsupported stateful group control schema version '' @ quote (sgc_SchemaVersion control)))
      else rbind (validateName ''stateful_group'' (sgc_Group control)) (\<lambda>_.
           rbind (validateName ''env'' (sgc_Env control)) (\<lambda>_.
           if sgc_Replicas control < 1 then Inl (invalid_transition (sgc_Group control) [] ''replicas must be positive'')
           else if sgc_Version control \<le> 0 then Inl (invalid_transition (sgc_Group control) [] ''version must be positive'')
           else (case sgc_Lease control of None \<Rightarrow> Inr () | Some lease \<Rightarrow> validateLease lease))))"

definition putOptionsForStatefulGroup :: "StatefulGroupControl \<Rightarrow> PutOptions" where
  "putOptionsForStatefulGroup control =
     \<lparr>po_ContentType = canonical_ContentType,
      po_Metadata = [''schema_version'' \<mapsto> sgc_SchemaVersion control, ''group'' \<mapsto> sgc_Group control,
        ''env'' \<mapsto> sgc_Env control],
      po_KMSKeyID = []\<rparr>"

definition normalizeStatefulMemberControl :: "StatefulMemberControl \<Rightarrow> StatefulMemberControl" where
  "normalizeStatefulMemberControl control =
     (let c1 = (if smc_SchemaVersion control = [] then control\<lparr>smc_SchemaVersion := schema_Version\<rparr> else control);
          c2 = (if smc_Version c1 \<le> 0 then c1\<lparr>smc_Version := 1\<rparr> else c1);
          c3 = (if smc_Generation c2 \<le> 0 then c2\<lparr>smc_Generation := 1\<rparr> else c2)
      in if smc_Phase c3 = [] then c3\<lparr>smc_Phase := StatefulMemberReady\<rparr> else c3)"

definition validateStatefulMemberControl :: "StatefulMemberControl \<Rightarrow> unit result" where
  "validateStatefulMemberControl control =
     (if smc_SchemaVersion control \<noteq> schema_Version then
        Inl (invalid_transition (smc_Group control) []
          (''unsupported stateful member control schema version '' @ quote (smc_SchemaVersion control)))
      else rbind (validateName ''stateful_group'' (smc_Group control)) (\<lambda>_.
           rbind (validateName ''env'' (smc_Env control)) (\<lambda>_.
           if smc_Member control < 0 then
             Inl (invalid_transition (smc_Group control) [] ''member ordinal must be non-negative'')
           else if smc_Generation control \<le> 0 \<or> smc_Version control \<le> 0 then
             Inl (invalid_transition (smc_Group control) [] ''generation and version must be positive'')
           else (case smc_Lease control of None \<Rightarrow> Inr () | Some lease \<Rightarrow> validateLease lease))))"

definition putOptionsForStatefulMember :: "StatefulMemberControl \<Rightarrow> PutOptions" where
  "putOptionsForStatefulMember control =
     \<lparr>po_ContentType = canonical_ContentType,
      po_Metadata = [''schema_version'' \<mapsto> smc_SchemaVersion control, ''group'' \<mapsto> smc_Group control,
        ''env'' \<mapsto> smc_Env control, ''member'' \<mapsto> show_int (smc_Member control)],
      po_KMSKeyID = []\<rparr>"

section \<open>Group documents\<close>

definition GetStatefulGroupControl :: "('s, 'z) World_scheme \<Rightarrow> string \<Rightarrow> ('s, StatefulGroupDocument) io" where
  "GetStatefulGroupControl W grp =
     io_bind (io_lift (paths_StatefulGroupControl grp)) (\<lambda>key.
     io_bind (os_Get W key) (\<lambda>obj.
     io_lift (case canonical_UnmarshalStrict dec_StatefulGroupControl (obj_Body obj) of
         Inl err \<Rightarrow> Inl (StateError CodeInvalidTransition grp key
                     ''stateful group control document is not valid canonical schema'' (Some err))
       | Inr control \<Rightarrow>
           rbind (validateStatefulGroupControl control) (\<lambda>_.
           if sgc_Group control \<noteq> grp then
             Inl (StateError CodeInvalidTransition grp key
               (''stateful group control names group '' @ quote (sgc_Group control)) None)
           else
             (let meta = objectMetaFromObject obj in
              Inr \<lparr>sgd_Key = key, sgd_ETag = om_ETag meta, sgd_Meta = meta, sgd_Control = control\<rparr>)))))"

definition CreateStatefulGroupControl ::
  "('s, 'z) World_scheme \<Rightarrow> StatefulGroupControl \<Rightarrow> ('s, StatefulGroupDocument) io" where
  "CreateStatefulGroupControl W control0 =
     io_bind (if sgc_UpdatedAt control0 = []
              then io_bind (io_now W) (\<lambda>now. io_ret (control0\<lparr>sgc_UpdatedAt := canonical_Time now\<rparr>))
              else io_ret control0) (\<lambda>control1.
     (let control = normalizeStatefulGroupControl control1 in
      io_bind (io_lift (validateStatefulGroupControl control)) (\<lambda>_.
      io_bind (io_lift (paths_StatefulGroupControl (sgc_Group control))) (\<lambda>key.
      io_bind (io_lift (canonical_Marshal enc_StatefulGroupControl (\<lambda>_. True) control)) (\<lambda>body.
      io_bind (os_Create W key (JsonBody body) (putOptionsForStatefulGroup control)) (\<lambda>meta.
      io_ret \<lparr>sgd_Key = key, sgd_ETag = om_ETag meta, sgd_Meta = meta, sgd_Control = control\<rparr>))))))"

definition nextStatefulGroup :: "StatefulGroupDocument \<Rightarrow> StatefulGroupControl \<Rightarrow> StatefulGroupControl result" where
  "nextStatefulGroup current next0 =
     (let cur = sgd_Control current;
          n1 = normalizeStatefulGroupControl next0;
          n2 = (if sgc_Group n1 = [] then n1\<lparr>sgc_Group := sgc_Group cur\<rparr> else n1);
          n3 = (if sgc_Env n2 = [] then n2\<lparr>sgc_Env := sgc_Env cur\<rparr> else n2)
      in if sgc_Group n3 \<noteq> sgc_Group cur \<or> sgc_Env n3 \<noteq> sgc_Env cur then
           Inl (invalid_transition (sgc_Group cur) (sgd_Key current) ''cannot change stateful group or env'')
         else Inr (n3\<lparr>sgc_Version := wrap64 (sgc_Version cur + 1)\<rparr>))"

definition UpdateStatefulGroupControlCAS ::
  "('s, 'z) World_scheme \<Rightarrow> StatefulGroupDocument \<Rightarrow> StatefulGroupControl \<Rightarrow> ('s, StatefulGroupDocument) io" where
  "UpdateStatefulGroupControlCAS W current next0 =
     io_bind (io_lift (nextStatefulGroup current next0)) (\<lambda>n.
     io_bind (io_now W) (\<lambda>now.
     (let next1 = n\<lparr>sgc_UpdatedAt := canonical_Time now\<rparr> in
      io_bind (io_lift (validateStatefulGroupControl next1)) (\<lambda>_.
      io_bind (io_lift (canonical_Marshal enc_StatefulGroupControl (\<lambda>_. True) next1)) (\<lambda>body.
      io_bind (stale_to_state (sgc_Group (sgd_Control current)) (sgd_Key current) ''stateful group control ETag is stale''
                 (os_CompareAndSwap W (sgd_Key current) (sgd_ETag current) (JsonBody body)
                    (putOptionsForStatefulGroup next1))) (\<lambda>meta.
      io_ret \<lparr>sgd_Key = sgd_Key current, sgd_ETag = om_ETag meta, sgd_Meta = meta, sgd_Control = next1\<rparr>))))))"

section \<open>Member documents\<close>

definition GetStatefulMemberControl ::
  "('s, 'z) World_scheme \<Rightarrow> string \<Rightarrow> int \<Rightarrow> ('s, StatefulMemberDocument) io" where
  "GetStatefulMemberControl W grp member =
     io_bind (io_lift (paths_StatefulMemberControl grp member)) (\<lambda>key.
     io_bind (os_Get W key) (\<lambda>obj.
     io_lift (case canonical_UnmarshalStrict dec_StatefulMemberControl (obj_Body obj) of
         Inl err \<Rightarrow> Inl (StateError CodeInvalidTransition grp key
                     ''stateful member control document is not valid canonical schema'' (Some err))
       | Inr control \<Rightarrow>
           rbind (validateStatefulMemberControl control) (\<lambda>_.
           if smc_Group control \<noteq> grp \<or> smc_Member control \<noteq> member then
             Inl (StateError CodeInvalidTransition grp key
               (''stateful member control names '' @ smc_Group control @ ''/'' @ show_int (smc_Member control)) None)
           else
             (let meta = objectMetaFromObject obj in
              Inr \<lparr>smd_Key = key, smd_ETag = om_ETag meta, smd_Meta = meta, smd_Control = control\<rparr>)))))"

definition CreateStatefulMemberControl ::
  "('s, 'z) World_scheme \<Rightarrow> StatefulMemberControl \<Rightarrow> ('s, StatefulMemberDocument) io" where
  "CreateStatefulMemberControl W control0 =
     io_bind (if smc_UpdatedAt control0 = []
              then io_bind (io_now W) (\<lambda>now. io_ret (control0\<lparr>smc_UpdatedAt := canonical_Time now\<rparr>))
              else io_ret control0) (\<lambda>control1.
     (let control = normalizeStatefulMemberControl control1 in
      io_bind (io_lift (validateStatefulMemberControl control)) (\<lambda>_.
      io_bind (io_lift (paths_StatefulMemberControl (smc_Group control) (smc_Member control))) (\<lambda>key.
      io_bind (io_lift (canonical_Marshal enc_StatefulMemberControl (\<lambda>_. True) control)) (\<lambda>body.
      io_bind (os_Create W key (JsonBody body) (putOptionsForStatefulMember control)) (\<lambda>meta.
      io_ret \<lparr>smd_Key = key, smd_ETag = om_ETag meta, smd_Meta = meta, smd_Control = control\<rparr>))))))"

definition nextStatefulMember :: "StatefulMemberDocument \<Rightarrow> StatefulMemberControl \<Rightarrow> StatefulMemberControl result" where
  "nextStatefulMember current next0 =
     (let cur = smd_Control current;
          n1 = normalizeStatefulMemberControl next0;
          n2 = (if smc_Group n1 = [] then n1\<lparr>smc_Group := smc_Group cur\<rparr> else n1);
          n3 = (if smc_Env n2 = [] then n2\<lparr>smc_Env := smc_Env cur\<rparr> else n2);
          n4 = n3\<lparr>smc_Member := smc_Member cur\<rparr>
      in if smc_Group n4 \<noteq> smc_Group cur \<or> smc_Env n4 \<noteq> smc_Env cur then
           Inl (invalid_transition (smc_Group cur) (smd_Key current) ''cannot change stateful member group or env'')
         else
           (let v = wrap64 (smc_Version cur + 1) in Inr (n4\<lparr>smc_Version := (if v \<le> 0 then 1 else v)\<rparr>)))"

definition UpdateStatefulMemberControlCAS ::
  "('s, 'z) World_scheme \<Rightarrow> StatefulMemberDocument \<Rightarrow> StatefulMemberControl \<Rightarrow> ('s, StatefulMemberDocument) io" where
  "UpdateStatefulMemberControlCAS W current next0 =
     io_bind (io_lift (nextStatefulMember current next0)) (\<lambda>n.
     io_bind (io_now W) (\<lambda>now.
     (let next1 = n\<lparr>smc_UpdatedAt := canonical_Time now\<rparr> in
      io_bind (io_lift (validateStatefulMemberControl next1)) (\<lambda>_.
      io_bind (io_lift (canonical_Marshal enc_StatefulMemberControl (\<lambda>_. True) next1)) (\<lambda>body.
      io_bind (stale_to_state (smc_Group (smd_Control current)) (smd_Key current) ''stateful member control ETag is stale''
                 (os_CompareAndSwap W (smd_Key current) (smd_ETag current) (JsonBody body)
                    (putOptionsForStatefulMember next1))) (\<lambda>meta.
      io_ret \<lparr>smd_Key = smd_Key current, smd_ETag = om_ETag meta, smd_Meta = meta, smd_Control = next1\<rparr>))))))"

section \<open>Member leases\<close>

definition statefulMemberHandleFromDocument :: "StatefulMemberDocument \<Rightarrow> StatefulMemberLeaseHandle result" where
  "statefulMemberHandleFromDocument doc = (case smc_Lease (smd_Control doc) of
      None \<Rightarrow> Inl (StateError CodeLeaseLost [] [] ''stateful member control does not contain a lease''
                (Some (Sentinel CodeLeaseLost)))
    | Some l \<Rightarrow> (case time_Parse (lse_ExpiresAt l) of
          None \<Rightarrow> Inl (StateError CodeInvalidTransition (smc_Group (smd_Control doc)) (smd_Key doc)
                    (''lease expires_at '' @ quote (lse_ExpiresAt l) @ '' is invalid'')
                    (Some (TimeError ''parsing time'')))
        | Some expiresAt \<Rightarrow> Inr \<lparr>mlh_Group = smc_Group (smd_Control doc), mlh_Member = smc_Member (smd_Control doc),
            mlh_Owner = lse_Owner l, mlh_Token = lse_Token l, mlh_Generation = lse_Generation l,
            mlh_ExpiresAt = expiresAt, mlh_ETag = smd_ETag doc\<rparr>))"

definition ensureStatefulMemberLeaseUsable ::
  "StatefulMemberLeaseHandle \<Rightarrow> StatefulMemberDocument \<Rightarrow> gotime \<Rightarrow> unit result" where
  "ensureStatefulMemberLeaseUsable handle doc now = (case smc_Lease (smd_Control doc) of
      None \<Rightarrow> Inl (StateError CodeLeaseLost (mlh_Group handle) [] ''stateful member lease is missing''
                (Some (Sentinel CodeLeaseLost)))
    | Some l \<Rightarrow>
        if lse_Token l \<noteq> mlh_Token handle \<or> lse_Owner l \<noteq> mlh_Owner handle
        then Inl (StateError CodeLeaseLost (mlh_Group handle) (smd_Key doc)
               ''stateful member lease token does not match'' (Some (Sentinel CodeLeaseLost)))
        else (case activeLease (Some l) now of
            Inl err \<Rightarrow> Inl (StateError CodeInvalidTransition (mlh_Group handle) (smd_Key doc) (err_text err) (Some err))
          | Inr active \<Rightarrow>
              if \<not> active then Inl (StateError CodeLeaseLost (mlh_Group handle) (smd_Key doc)
                     ''stateful member lease expired'' (Some (Sentinel CodeLeaseLost)))
              else Inr ()))"

definition AcquireStatefulMemberLease ::
  "('s, 'z) World_scheme \<Rightarrow> string \<Rightarrow> int \<Rightarrow> StatefulMemberLeaseOptions \<Rightarrow>
   ('s, StatefulMemberLeaseHandle \<times> StatefulMemberDocument) io" where
  "AcquireStatefulMemberLease W grp member opts =
     io_bind (io_lift (validateLeaseOptions grp (mlo_Owner opts) (mlo_Duration opts))) (\<lambda>_.
     io_bind (io_token W) (\<lambda>token.
     if token = [] then
       io_fail (invalid_transition grp [] ''lease token generator returned an empty token'')
     else
       io_bind (GetStatefulMemberControl W grp member) (\<lambda>current.
       io_bind (io_now W) (\<lambda>now.
       (case activeLease (smc_Lease (smd_Control current)) now of
          Inl err \<Rightarrow> io_fail (StateError CodeInvalidTransition grp (smd_Key current) (err_text err) (Some err))
        | Inr active \<Rightarrow>
            if active then io_fail (leaseHeldError grp (smd_Key current) (smc_Lease (smd_Control current)))
            else
              io_bind (UpdateStatefulMemberControlCAS W current ((smd_Control current)\<lparr>
                  smc_Lease := Some \<lparr>lse_Owner = mlo_Owner opts, lse_Token = token,
                    lse_Generation = wrap64 (smc_Generation (smd_Control current) + 1),
                    lse_ExpiresAt = canonical_Time (now + mlo_Duration opts)\<rparr>,
                  smc_UpdatedBy := actorForLease (mlo_Actor opts) (mlo_Owner opts),
                  smc_TraceID := mlo_TraceID opts\<rparr>)) (\<lambda>updated.
              io_bind (io_lift (statefulMemberHandleFromDocument updated)) (\<lambda>handle.
              io_ret (handle, updated))))))))"

definition UpdateStatefulMemberWithLeaseCAS ::
  "('s, 'z) World_scheme \<Rightarrow> StatefulMemberLeaseHandle \<Rightarrow> (StatefulMemberControl \<Rightarrow> StatefulMemberControl result) \<Rightarrow>
   ('s, StatefulMemberLeaseHandle \<times> StatefulMemberDocument) io" where
  "UpdateStatefulMemberWithLeaseCAS W handle mutate =
     io_bind (GetStatefulMemberControl W (mlh_Group handle) (mlh_Member handle)) (\<lambda>current.
     io_bind (io_now W) (\<lambda>now.
     io_bind (io_lift (ensureStatefulMemberLeaseUsable handle current now)) (\<lambda>_.
     if smd_ETag current \<noteq> mlh_ETag handle then
       io_fail (StateError CodePreconditionFailed (mlh_Group handle) (smd_Key current)
         ''lease holder does not have latest stateful member ETag'' (Some (Sentinel CodePreconditionFailed)))
     else
       io_bind (io_lift (mutate (smd_Control current))) (\<lambda>next0.
       io_bind (UpdateStatefulMemberControlCAS W current (next0\<lparr>smc_Lease := smc_Lease (smd_Control current)\<rparr>)) (\<lambda>updated.
       io_bind (io_lift (statefulMemberHandleFromDocument updated)) (\<lambda>newHandle.
       io_ret (newHandle, updated)))))))"

definition ReleaseStatefulMemberLease ::
  "('s, 'z) World_scheme \<Rightarrow> StatefulMemberLeaseHandle \<Rightarrow> ('s, StatefulMemberDocument) io" where
  "ReleaseStatefulMemberLease W handle =
     io_bind (GetStatefulMemberControl W (mlh_Group handle) (mlh_Member handle)) (\<lambda>current.
     io_bind (io_now W) (\<lambda>now.
     io_bind (io_lift (ensureStatefulMemberLeaseUsable handle current now)) (\<lambda>_.
     UpdateStatefulMemberControlCAS W current ((smd_Control current)\<lparr>smc_Lease := None\<rparr>))))"

section \<open>What the operations do to the world\<close>

definition member_key :: "string \<Rightarrow> int \<Rightarrow> string" where
  "member_key grp member = ''stateful/'' @ grp @ ''/members/'' @ show_int member @ ''/control.json''"

abbreviation member_at :: "(string \<rightharpoonup> (string \<times> body)) \<Rightarrow> string \<Rightarrow> int \<Rightarrow> (string \<times> StatefulMemberControl) option" where
  "member_at m grp member \<equiv> view_at (doc_view dec_StatefulMemberControl) m (member_key grp member)"

definition group_key :: "string \<Rightarrow> string" where
  "group_key grp = ''stateful/'' @ grp @ ''/control.json''"

abbreviation group_at :: "(string \<rightharpoonup> (string \<times> body)) \<Rightarrow> string \<Rightarrow> (string \<times> StatefulGroupControl) option" where
  "group_at m grp \<equiv> view_at (doc_view dec_StatefulGroupControl) m (group_key grp)"

lemma paths_StatefulMember_Inr:
  "paths_StatefulMemberControl grp member = Inr k \<longleftrightarrow> is_name grp \<and> 0 \<le> member \<and> k = member_key grp member"
  by (auto simp: paths_StatefulMemberControl_def rbind_Inr_iff member_key_def)

lemma paths_StatefulGroup_Inr: "paths_StatefulGroupControl grp = Inr k \<longleftrightarrow> is_name grp \<and> k = group_key grp"
  by (auto simp: paths_StatefulGroupControl_def rbind_Inr_iff group_key_def)

lemma validateLease_iff:
  "validateLease l = Inr () \<longleftrightarrow> TrimSpace (lse_Owner l) \<noteq> [] \<and> TrimSpace (lse_Token l) \<noteq> [] \<and> 0 < lse_Generation l \<and>
     (\<exists>T. time_Parse (lse_ExpiresAt l) = Some T)"
  by (auto simp: validateLease_def split: option.splits)

lemma validateMember_iff:
  "validateStatefulMemberControl c = Inr () \<longleftrightarrow> smc_SchemaVersion c = schema_Version \<and> is_name (smc_Group c) \<and>
     is_name (smc_Env c) \<and> 0 \<le> smc_Member c \<and> 0 < smc_Generation c \<and> 0 < smc_Version c \<and>
     pred_option (\<lambda>l. validateLease l = Inr ()) (smc_Lease c)"
  by (auto simp: validateStatefulMemberControl_def rbind_Inr_iff split: option.splits if_splits)

lemma validateGroup_iff:
  "validateStatefulGroupControl c = Inr () \<longleftrightarrow> sgc_SchemaVersion c = schema_Version \<and> is_name (sgc_Group c) \<and>
     is_name (sgc_Env c) \<and> 1 \<le> sgc_Replicas c \<and> 0 < sgc_Version c \<and>
     pred_option (\<lambda>l. validateLease l = Inr ()) (sgc_Lease c)"
  by (auto simp: validateStatefulGroupControl_def rbind_Inr_iff split: option.splits if_splits)

definition member_reads ::
  "('s, 'z) World_scheme \<Rightarrow> string \<Rightarrow> int \<Rightarrow> 's \<Rightarrow> string \<Rightarrow> StatefulMemberControl \<Rightarrow> 's \<Rightarrow> bool" where
  "member_reads W grp member s e c t \<longleftrightarrow>
     (\<exists>doc. GetStatefulMemberControl W grp member s = (Inr doc, t) \<and> smd_ETag doc = e \<and> smd_Control doc = c)"

definition member_swaps ::
  "('s, 'z) World_scheme \<Rightarrow> string \<Rightarrow> int \<Rightarrow> 's \<Rightarrow> string \<Rightarrow> string \<Rightarrow> StatefulMemberControl \<Rightarrow> 's \<Rightarrow> bool" where
  "member_swaps W grp member s e e' c' t \<longleftrightarrow>
     (\<exists>cur n doc. UpdateStatefulMemberControlCAS W cur n s = (Inr doc, t) \<and> smd_Key cur = member_key grp member \<and>
        smd_ETag cur = e \<and> wf_StatefulMemberControl (smd_Control doc) \<and> smd_ETag doc = e' \<and> smd_Control doc = c')"

definition group_reads ::
  "('s, 'z) World_scheme \<Rightarrow> string \<Rightarrow> 's \<Rightarrow> string \<Rightarrow> StatefulGroupControl \<Rightarrow> 's \<Rightarrow> bool" where
  "group_reads W grp s e c t \<longleftrightarrow>
     (\<exists>doc. GetStatefulGroupControl W grp s = (Inr doc, t) \<and> sgd_ETag doc = e \<and> sgd_Control doc = c)"

definition group_swaps ::
  "('s, 'z) World_scheme \<Rightarrow> string \<Rightarrow> 's \<Rightarrow> string \<Rightarrow> string \<Rightarrow> StatefulGroupControl \<Rightarrow> 's \<Rightarrow> bool" where
  "group_swaps W grp s e e' c' t \<longleftrightarrow>
     (\<exists>cur n doc. UpdateStatefulGroupControlCAS W cur n s = (Inr doc, t) \<and> sgd_Key cur = group_key grp \<and>
        sgd_ETag cur = e \<and> wf_StatefulGroupControl (sgd_Control doc) \<and> sgd_ETag doc = e' \<and> sgd_Control doc = c')"

context world
begin

lemma GetMember_ok:
  assumes "GetStatefulMemberControl W grp member s = (Inr doc, t)"
  shows "evolves s t" "member_at (objs t) grp member = Some (smd_ETag doc, smd_Control doc)" "smd_Key doc = member_key grp member"
    "validateStatefulMemberControl (smd_Control doc) = Inr ()" "smc_Group (smd_Control doc) = grp"
    "smc_Member (smd_Control doc) = member" "wf_StatefulMemberControl (smd_Control doc)"
proof -
  obtain obj where g: "os_Get W (member_key grp member) s = (Inr obj, t)"
    "canonical_UnmarshalStrict dec_StatefulMemberControl (obj_Body obj) = Inr (smd_Control doc)"
    "smd_ETag doc = obj_ETag obj" "smd_Key doc = member_key grp member"
    using assms by (auto simp: GetStatefulMemberControl_def io_ok_iffs Let_def objectMetaFromObject_def paths_StatefulMember_Inr
        split: if_splits)
  show "evolves s t" "member_at (objs t) grp member = Some (smd_ETag doc, smd_Control doc)" "smd_Key doc = member_key grp member"
    using get_ok [OF g(1)] g(2-4) by (auto simp: view_at_Some doc_view_def)
  show "wf_StatefulMemberControl (smd_Control doc)" using g(2) by (auto simp: UnmarshalStrict_Inr dec_wf)
  show "validateStatefulMemberControl (smd_Control doc) = Inr ()" "smc_Group (smd_Control doc) = grp"
    "smc_Member (smd_Control doc) = member"
    using assms by (auto simp: GetStatefulMemberControl_def io_ok_iffs Let_def split: if_splits)
qed

lemma GetGroup_ok:
  assumes "GetStatefulGroupControl W grp s = (Inr doc, t)"
  shows "evolves s t" "group_at (objs t) grp = Some (sgd_ETag doc, sgd_Control doc)" "sgd_Key doc = group_key grp"
    "validateStatefulGroupControl (sgd_Control doc) = Inr ()" "sgc_Group (sgd_Control doc) = grp"
    "wf_StatefulGroupControl (sgd_Control doc)"
proof -
  obtain obj where g: "os_Get W (group_key grp) s = (Inr obj, t)"
    "canonical_UnmarshalStrict dec_StatefulGroupControl (obj_Body obj) = Inr (sgd_Control doc)"
    "sgd_ETag doc = obj_ETag obj" "sgd_Key doc = group_key grp"
    using assms by (auto simp: GetStatefulGroupControl_def io_ok_iffs Let_def objectMetaFromObject_def paths_StatefulGroup_Inr
        split: if_splits)
  show "evolves s t" "group_at (objs t) grp = Some (sgd_ETag doc, sgd_Control doc)" "sgd_Key doc = group_key grp"
    using get_ok [OF g(1)] g(2-4) by (auto simp: view_at_Some doc_view_def)
  show "wf_StatefulGroupControl (sgd_Control doc)" using g(2) by (auto simp: UnmarshalStrict_Inr dec_wf)
  show "validateStatefulGroupControl (sgd_Control doc) = Inr ()" "sgc_Group (sgd_Control doc) = grp"
    using assms by (auto simp: GetStatefulGroupControl_def io_ok_iffs Let_def split: if_splits)
qed

text \<open>A successful update swapped the next document in on the current one's ETag.\<close>

lemma UpdateMember_ok:
  assumes "inv s" "UpdateStatefulMemberControlCAS W cur n s = (Inr doc, t)"
  shows "\<exists>u b0 n' now. nextStatefulMember cur n = Inr n' \<and> smd_Control doc = n'\<lparr>smc_UpdatedAt := canonical_Time now\<rparr> \<and>
      validateStatefulMemberControl (smd_Control doc) = Inr () \<and> evolves s u \<and> evolves u t \<and>
      objs u (smd_Key cur) = Some (smd_ETag cur, b0) \<and>
      objs t = (objs u)(smd_Key cur \<mapsto> (smd_ETag doc, JsonBody (enc_StatefulMemberControl (smd_Control doc)))) \<and>
      smd_ETag doc \<noteq> smd_ETag cur \<and> smd_Key doc = smd_Key cur \<and>
      writes u (smd_Key cur) (smd_ETag doc) (JsonBody (enc_StatefulMemberControl (smd_Control doc))) t"
proof -
  obtain n' now v meta where n': "nextStatefulMember cur n = Inr n'" and now: "io_now W s = (Inr now, v)"
    and *: "smd_Control doc = n'\<lparr>smc_UpdatedAt := canonical_Time now\<rparr>" "validateStatefulMemberControl (smd_Control doc) = Inr ()"
      "smd_Key doc = smd_Key cur" "smd_ETag doc = om_ETag meta"
    and cas: "os_CompareAndSwap W (smd_Key cur) (smd_ETag cur) (JsonBody (enc_StatefulMemberControl (smd_Control doc)))
      (putOptionsForStatefulMember (smd_Control doc)) v = (Inr meta, t)"
    using assms(2) by (auto simp: UpdateStatefulMemberControlCAS_def io_ok_iffs Let_def canonical_Marshal_def)
  have v: "evolves s v" using io_now_Inr [OF now] by blast
  from cas_ok [OF evolves_inv [OF v assms(1)] cas] show ?thesis
    using n' * evolves_trans [OF v] by metis
qed

lemma UpdateGroup_ok:
  assumes "inv s" "UpdateStatefulGroupControlCAS W cur n s = (Inr doc, t)"
  shows "\<exists>u b0 n' now. nextStatefulGroup cur n = Inr n' \<and> sgd_Control doc = n'\<lparr>sgc_UpdatedAt := canonical_Time now\<rparr> \<and>
      validateStatefulGroupControl (sgd_Control doc) = Inr () \<and> evolves s u \<and> evolves u t \<and>
      objs u (sgd_Key cur) = Some (sgd_ETag cur, b0) \<and>
      objs t = (objs u)(sgd_Key cur \<mapsto> (sgd_ETag doc, JsonBody (enc_StatefulGroupControl (sgd_Control doc)))) \<and>
      sgd_ETag doc \<noteq> sgd_ETag cur \<and> sgd_Key doc = sgd_Key cur \<and>
      writes u (sgd_Key cur) (sgd_ETag doc) (JsonBody (enc_StatefulGroupControl (sgd_Control doc))) t"
proof -
  obtain n' now v meta where n': "nextStatefulGroup cur n = Inr n'" and now: "io_now W s = (Inr now, v)"
    and *: "sgd_Control doc = n'\<lparr>sgc_UpdatedAt := canonical_Time now\<rparr>" "validateStatefulGroupControl (sgd_Control doc) = Inr ()"
      "sgd_Key doc = sgd_Key cur" "sgd_ETag doc = om_ETag meta"
    and cas: "os_CompareAndSwap W (sgd_Key cur) (sgd_ETag cur) (JsonBody (enc_StatefulGroupControl (sgd_Control doc)))
      (putOptionsForStatefulGroup (sgd_Control doc)) v = (Inr meta, t)"
    using assms(2) by (auto simp: UpdateStatefulGroupControlCAS_def io_ok_iffs Let_def canonical_Marshal_def)
  have v: "evolves s v" using io_now_Inr [OF now] by blast
  from cas_ok [OF evolves_inv [OF v assms(1)] cas] show ?thesis
    using n' * evolves_trans [OF v] by metis
qed

end

sublocale world < member_doc: cas_document W objs inv evolves writes clock "member_key grp member"
    "doc_view dec_StatefulMemberControl" "member_reads W grp member" "member_swaps W grp member" for grp member
proof (unfold_locales, goal_cases)
  case (1 s e c t)
  then show ?case using GetMember_ok by (auto simp: member_reads_def)
next
  case (2 s e e' c' t)
  then obtain cur n doc where up: "UpdateStatefulMemberControlCAS W cur n s = (Inr doc, t)" "smd_Key cur = member_key grp member"
    "smd_ETag cur = e" "wf_StatefulMemberControl (smd_Control doc)" "smd_ETag doc = e'" "smd_Control doc = c'"
    unfolding member_swaps_def by blast
  then have "doc_view dec_StatefulMemberControl (JsonBody (enc_StatefulMemberControl c')) = Some c'"
    by (simp add: doc_view_Some codec_simps)
  then show ?case using UpdateMember_ok [OF 2(1) up(1)] up(2,3,5,6) by metis
qed

sublocale world < group_doc: cas_document W objs inv evolves writes clock "group_key grp"
    "doc_view dec_StatefulGroupControl" "group_reads W grp" "group_swaps W grp" for grp
proof (unfold_locales, goal_cases)
  case (1 s e c t)
  then show ?case using GetGroup_ok by (auto simp: group_reads_def)
next
  case (2 s e e' c' t)
  then obtain cur n doc where up: "UpdateStatefulGroupControlCAS W cur n s = (Inr doc, t)" "sgd_Key cur = group_key grp"
    "sgd_ETag cur = e" "wf_StatefulGroupControl (sgd_Control doc)" "sgd_ETag doc = e'" "sgd_Control doc = c'"
    unfolding group_swaps_def by blast
  then have "doc_view dec_StatefulGroupControl (JsonBody (enc_StatefulGroupControl c')) = Some c'"
    by (simp add: doc_view_Some codec_simps)
  then show ?case using UpdateGroup_ok [OF 2(1) up(1)] up(2,3,5,6) by metis
qed

lemma normalizeMember_keeps [simp]:
  "smc_Group (normalizeStatefulMemberControl c) = smc_Group c" "smc_Env (normalizeStatefulMemberControl c) = smc_Env c"
  "smc_Lease (normalizeStatefulMemberControl c) = smc_Lease c" "smc_Replacement (normalizeStatefulMemberControl c) = smc_Replacement c"
  by (simp_all add: normalizeStatefulMemberControl_def Let_def)

lemma normalizeMember_generation:
  "in_int64 (smc_Generation c) \<Longrightarrow> in_int64 (smc_Generation (normalizeStatefulMemberControl c))"
  by (simp add: normalizeStatefulMemberControl_def Let_def in_int64_def)

lemma nextMember_eq:
  assumes "nextStatefulMember cur n = Inr n'"
  defines "v \<equiv> wrap64 (smc_Version (smd_Control cur) + 1)"
  shows "n' = (normalizeStatefulMemberControl n)\<lparr>smc_Group := smc_Group (smd_Control cur), smc_Env := smc_Env (smd_Control cur),
     smc_Member := smc_Member (smd_Control cur), smc_Version := (if v \<le> 0 then 1 else v)\<rparr>"
  using assms unfolding nextStatefulMember_def Let_def by (auto split: if_splits)

lemma nextMember_ok:
  assumes "nextStatefulMember cur n = Inr n'"
  shows "smc_Group n' = smc_Group (smd_Control cur)" "smc_Env n' = smc_Env (smd_Control cur)"
    "smc_Member n' = smc_Member (smd_Control cur)" "smc_Lease n' = smc_Lease n"
    "smc_Version (smd_Control cur) + 1 < 2 ^ 63 \<Longrightarrow> 0 \<le> smc_Version (smd_Control cur) \<Longrightarrow>
       smc_Version n' = smc_Version (smd_Control cur) + 1"
    "smc_Version (smd_Control cur) = 2 ^ 63 - 1 \<Longrightarrow> smc_Version n' = 1"
    "wf_StatefulMemberControl (smd_Control cur) \<Longrightarrow> wf_StatefulMemberControl n \<Longrightarrow> wf_StatefulMemberControl n'"
proof -
  note eq = nextMember_eq [OF assms]
  show "smc_Group n' = smc_Group (smd_Control cur)" "smc_Env n' = smc_Env (smd_Control cur)"
    "smc_Member n' = smc_Member (smd_Control cur)" "smc_Lease n' = smc_Lease n"
    by (simp_all add: eq)
  show "smc_Version (smd_Control cur) + 1 < 2 ^ 63 \<Longrightarrow> 0 \<le> smc_Version (smd_Control cur) \<Longrightarrow>
       smc_Version n' = smc_Version (smd_Control cur) + 1"
    by (simp add: eq wrap64_id in_int64_def)
  show "smc_Version (smd_Control cur) = 2 ^ 63 - 1 \<Longrightarrow> smc_Version n' = 1"
    using wrap64_max by (simp add: eq)
  have "in_int64 1" by (simp add: in_int64_def)
  then show "wf_StatefulMemberControl (smd_Control cur) \<Longrightarrow> wf_StatefulMemberControl n \<Longrightarrow> wf_StatefulMemberControl n'"
    using normalizeMember_generation by (simp add: eq wf_StatefulMemberControl_def)
qed

lemma nextGroup_ok:
  assumes "nextStatefulGroup cur n = Inr n'"
  shows "sgc_Group n' = sgc_Group (sgd_Control cur)" "sgc_Env n' = sgc_Env (sgd_Control cur)"
    "sgc_Version n' = wrap64 (sgc_Version (sgd_Control cur) + 1)" "sgc_Lease n' = sgc_Lease n" "sgc_Replicas n' = sgc_Replicas n"
  using assms by (auto simp: nextStatefulGroup_def normalizeStatefulGroupControl_def Let_def split: if_splits)

lemma activeLease_False: "activeLease l x = Inr False \<longleftrightarrow> (\<forall>y. l = Some y \<longrightarrow> (\<exists>T. time_Parse (lse_ExpiresAt y) = Some T \<and> T \<le> x))"
  by (auto simp: activeLease_def split: option.splits)

context world
begin

lemma member_swaps_Update:
  assumes "inv s" "UpdateStatefulMemberControlCAS W cur n s = (Inr doc, t)" "smd_Key cur = member_key grp member"
    "wf_StatefulMemberControl (smd_Control cur)" "wf_StatefulMemberControl n"
  shows "member_swaps W grp member s (smd_ETag cur) (smd_ETag doc) (smd_Control doc) t"
proof -
  obtain n' now where "nextStatefulMember cur n = Inr n'" "smd_Control doc = n'\<lparr>smc_UpdatedAt := canonical_Time now\<rparr>"
    using UpdateMember_ok [OF assms(1,2)] by blast
  then have "wf_StatefulMemberControl (smd_Control doc)"
    using nextMember_ok(7) assms(4,5) by (auto simp: wf_StatefulMemberControl_def)
  then show ?thesis using assms(2,3) by (auto simp: member_swaps_def)
qed

lemma AcquireMember_ok:
  assumes "inv s" "AcquireStatefulMemberLease W grp member opts s = (Inr (h, doc), t)"
  shows "\<exists>s1 v v' e c x tok. evolves s s1 \<and> member_reads W grp member s1 e c v \<and> evolves v v' \<and> clock s \<le> x \<and> x \<le> clock v' \<and>
    activeLease (smc_Lease c) x = Inr False \<and> member_swaps W grp member v' e (smd_ETag doc) (smd_Control doc) t \<and>
    smc_Lease (smd_Control doc) = Some \<lparr>lse_Owner = mlo_Owner opts, lse_Token = tok,
      lse_Generation = wrap64 (smc_Generation c + 1), lse_ExpiresAt = canonical_Time (x + mlo_Duration opts)\<rparr> \<and>
    mlh_ETag h = smd_ETag doc \<and> mlh_Token h = tok \<and> mlh_Owner h = mlo_Owner opts \<and> mlh_Group h = grp \<and> mlh_Member h = member"
proof -
  obtain tok s1 cur v x v1 where tk: "io_token W s = (Inr tok, s1)" and g: "GetStatefulMemberControl W grp member s1 = (Inr cur, v)"
    and now: "io_now W v = (Inr x, v1)" and act: "activeLease (smc_Lease (smd_Control cur)) x = Inr False"
    and up: "UpdateStatefulMemberControlCAS W cur ((smd_Control cur)\<lparr>
        smc_Lease := Some \<lparr>lse_Owner = mlo_Owner opts, lse_Token = tok,
          lse_Generation = wrap64 (smc_Generation (smd_Control cur) + 1), lse_ExpiresAt = canonical_Time (x + mlo_Duration opts)\<rparr>,
        smc_UpdatedBy := actorForLease (mlo_Actor opts) (mlo_Owner opts), smc_TraceID := mlo_TraceID opts\<rparr>) v1 = (Inr doc, t)"
      (is "UpdateStatefulMemberControlCAS W cur ?n v1 = _")
    and hd: "statefulMemberHandleFromDocument doc = Inr h"
    using assms(2) by (auto simp: AcquireStatefulMemberLease_def io_ok_iffs)
  note gm = GetMember_ok [OF g]
  have e: "evolves s s1" using quietD [of "io_token W", OF _ assms(1) tk] by simp
  have v: "evolves v v1" "x = clock v1" using io_now_Inr [OF now] by auto
  have cl: "clock s \<le> x" using clock_mono e gm(1) v by (metis order_trans)
  have i: "inv v1" using assms(1) e gm(1) v(1) evolves_inv by blast
  have wf: "wf_StatefulMemberControl ?n" using gm(7) by (simp add: wf_StatefulMemberControl_def wf_Lease_def)
  obtain n' nw where n': "nextStatefulMember cur ?n = Inr n'" "smd_Control doc = n'\<lparr>smc_UpdatedAt := canonical_Time nw\<rparr>"
    using UpdateMember_ok [OF i up] by blast
  have "member_reads W grp member s1 (smd_ETag cur) (smd_Control cur) v" using g by (auto simp: member_reads_def)
  moreover have "member_swaps W grp member v1 (smd_ETag cur) (smd_ETag doc) (smd_Control doc) t"
    by (rule member_swaps_Update [OF i up gm(3,7) wf])
  moreover have "smc_Lease (smd_Control doc) = smc_Lease ?n" "smc_Group (smd_Control doc) = grp" "smc_Member (smd_Control doc) = member"
    using n' nextMember_ok(1,3,4) [OF n'(1)] gm(5,6) by simp_all
  moreover have "mlh_ETag h = smd_ETag doc" "mlh_Token h = tok" "mlh_Owner h = mlo_Owner opts" "mlh_Group h = grp" "mlh_Member h = member"
    using hd calculation(3-5) by (auto simp: statefulMemberHandleFromDocument_def split: option.splits)
  ultimately show ?thesis using e v cl act
    by (intro exI [of _ s1] exI [of _ v] exI [of _ v1] exI [of _ "smd_ETag cur"] exI [of _ "smd_Control cur"] exI [of _ x] exI [of _ tok]) simp
qed

lemma ensureMember_ok:
  assumes "ensureStatefulMemberLeaseUsable h doc x = Inr ()"
  shows "\<exists>l T. smc_Lease (smd_Control doc) = Some l \<and> lse_Token l = mlh_Token h \<and> lse_Owner l = mlh_Owner h \<and>
    time_Parse (lse_ExpiresAt l) = Some T \<and> x < T"
  using assms by (auto simp: ensureStatefulMemberLeaseUsable_def activeLease_def split: option.splits if_splits sum.splits)

text \<open>
  What a leased operation did: it read the document, found in it an unexpired lease with the handle's
  token and owner, and swapped a new document in on the ETag it had read.
\<close>

definition member_holder :: "StatefulMemberLeaseHandle \<Rightarrow> 's \<Rightarrow> string \<Rightarrow> StatefulMemberControl \<Rightarrow> StatefulMemberDocument \<Rightarrow> 's \<Rightarrow> bool" where
  "member_holder h s e c doc t \<longleftrightarrow> (\<exists>v v' x l T. member_reads W (mlh_Group h) (mlh_Member h) s e c v \<and> evolves v v' \<and>
     clock s \<le> x \<and> smc_Lease c = Some l \<and> lse_Token l = mlh_Token h \<and> lse_Owner l = mlh_Owner h \<and>
     time_Parse (lse_ExpiresAt l) = Some T \<and> x < T \<and>
     member_swaps W (mlh_Group h) (mlh_Member h) v' e (smd_ETag doc) (smd_Control doc) t \<and>
     smc_Group (smd_Control doc) = smc_Group c \<and> smc_Env (smd_Control doc) = smc_Env c \<and> smc_Member (smd_Control doc) = smc_Member c)"

lemma member_holderI:
  assumes "inv s" "GetStatefulMemberControl W (mlh_Group h) (mlh_Member h) s = (Inr cur, v)" "io_now W v = (Inr x, v1)"
    "ensureStatefulMemberLeaseUsable h cur x = Inr ()" "UpdateStatefulMemberControlCAS W cur n v1 = (Inr doc, t)"
    "wf_StatefulMemberControl n"
  shows "member_holder h s (smd_ETag cur) (smd_Control cur) doc t" "smc_Lease (smd_Control doc) = smc_Lease n"
proof -
  note gm = GetMember_ok [OF assms(2)]
  have v: "evolves v v1" "x = clock v1" using io_now_Inr [OF assms(3)] by auto
  have i: "inv v1" using assms(1) gm(1) v(1) evolves_inv by blast
  obtain n' nw where n': "nextStatefulMember cur n = Inr n'" "smd_Control doc = n'\<lparr>smc_UpdatedAt := canonical_Time nw\<rparr>"
    using UpdateMember_ok [OF i assms(5)] by blast
  have r: "member_reads W (mlh_Group h) (mlh_Member h) s (smd_ETag cur) (smd_Control cur) v" using assms(2) by (auto simp: member_reads_def)
  have "clock s \<le> x" using clock_mono gm(1) v by (metis order_trans)
  moreover obtain l T where "smc_Lease (smd_Control cur) = Some l" "lse_Token l = mlh_Token h" "lse_Owner l = mlh_Owner h"
    "time_Parse (lse_ExpiresAt l) = Some T" "x < T"
    using ensureMember_ok [OF assms(4)] by blast
  ultimately show "member_holder h s (smd_ETag cur) (smd_Control cur) doc t"
    unfolding member_holder_def using r v(1) member_swaps_Update [OF i assms(5) gm(3,7) assms(6)]
      n'(2) nextMember_ok(1-3) [OF n'(1)]
    by (intro exI [of _ v] exI [of _ v1] exI [of _ x] exI [of _ l] exI [of _ T]) simp
  show "smc_Lease (smd_Control doc) = smc_Lease n" using n' nextMember_ok(4) [OF n'(1)] by simp
qed

lemma UpdateMemberWithLease_ok:
  assumes "inv s" "UpdateStatefulMemberWithLeaseCAS W h f s = (Inr (h', doc), t)" "\<forall>c n. f c = Inr n \<longrightarrow> wf_StatefulMemberControl c \<longrightarrow> wf_StatefulMemberControl n"
  shows "\<exists>c. member_holder h s (mlh_ETag h) c doc t \<and> smc_Lease (smd_Control doc) = smc_Lease c \<and> mlh_ETag h' = smd_ETag doc"
proof -
  obtain cur v x v1 n where *: "GetStatefulMemberControl W (mlh_Group h) (mlh_Member h) s = (Inr cur, v)" "io_now W v = (Inr x, v1)"
    "ensureStatefulMemberLeaseUsable h cur x = Inr ()" "smd_ETag cur = mlh_ETag h" "f (smd_Control cur) = Inr n"
    "UpdateStatefulMemberControlCAS W cur (n\<lparr>smc_Lease := smc_Lease (smd_Control cur)\<rparr>) v1 = (Inr doc, t)"
    "statefulMemberHandleFromDocument doc = Inr h'"
    using assms(2) by (auto simp: UpdateStatefulMemberWithLeaseCAS_def io_ok_iffs)
  have "wf_StatefulMemberControl (smd_Control cur)" "wf_StatefulMemberControl n" using GetMember_ok(7) [OF *(1)] assms(3) *(5) by auto
  then have "wf_StatefulMemberControl (n\<lparr>smc_Lease := smc_Lease (smd_Control cur)\<rparr>)" by (simp add: wf_StatefulMemberControl_def)
  from member_holderI [OF assms(1) *(1-3,6) this] show ?thesis
    using *(4,7) by (auto simp: statefulMemberHandleFromDocument_def split: option.splits)
qed

lemma ReleaseMember_ok:
  assumes "inv s" "ReleaseStatefulMemberLease W h s = (Inr doc, t)"
  shows "\<exists>e c. member_holder h s e c doc t \<and> smc_Lease (smd_Control doc) = None"
proof -
  obtain cur v x v1 where *: "GetStatefulMemberControl W (mlh_Group h) (mlh_Member h) s = (Inr cur, v)" "io_now W v = (Inr x, v1)"
    "ensureStatefulMemberLeaseUsable h cur x = Inr ()"
    "UpdateStatefulMemberControlCAS W cur ((smd_Control cur)\<lparr>smc_Lease := None\<rparr>) v1 = (Inr doc, t)"
    using assms(2) by (auto simp: ReleaseStatefulMemberLease_def io_ok_iffs)
  have "wf_StatefulMemberControl ((smd_Control cur)\<lparr>smc_Lease := None\<rparr>)"
    using GetMember_ok(7) [OF *(1)] by (simp add: wf_StatefulMemberControl_def)
  from member_holderI [OF assms(1) * this] show ?thesis by auto
qed

end

section \<open>A client alone\<close>

lemma alone_GetMember:
  assumes "sys_env s = []" "member_at (sys_objs s) grp member = Some (e, c)" "validateStatefulMemberControl c = Inr ()"
    "smc_Group c = grp" "smc_Member c = member"
  shows "\<exists>doc. GetStatefulMemberControl sys_world grp member s = (Inr doc, s) \<and> smd_Key doc = member_key grp member \<and>
    smd_ETag doc = e \<and> smd_Control doc = c"
proof -
  obtain j where j: "sys_objs s (member_key grp member) = Some (e, JsonBody j)" "dec_StatefulMemberControl j = Inr c"
    using assms(2) by (auto simp: view_at_Some doc_view_Some)
  obtain ob where ob: "os_Get sys_world (member_key grp member) s = (Inr ob, s)" "obj_ETag ob = e" "obj_Body ob = JsonBody j"
    using alone_Get [OF assms(1) j(1)] by blast
  have "paths_StatefulMemberControl grp member = Inr (member_key grp member)"
    using assms(3-5) by (auto simp: paths_StatefulMember_Inr validateMember_iff)
  then show ?thesis using ob j(2) assms(3-5)
    by (simp add: GetStatefulMemberControl_def io_bind_def io_lift_def canonical_UnmarshalStrict_def Let_def objectMetaFromObject_def)
qed

lemma alone_UpdateMember:
  assumes "sys_env s = []" "sys_objs s (smd_Key cur) = Some (smd_ETag cur, b)" "nextStatefulMember cur n = Inr n'"
    "c' = n'\<lparr>smc_UpdatedAt := canonical_Time (sys_now s)\<rparr>" "validateStatefulMemberControl c' = Inr ()"
  shows "\<exists>doc t. UpdateStatefulMemberControlCAS sys_world cur n s = (Inr doc, t) \<and> smd_Control doc = c' \<and> smd_Key doc = smd_Key cur \<and>
    sys_env t = [] \<and> sys_now t = sys_now s \<and>
    sys_objs t = (sys_objs s)(smd_Key cur \<mapsto> (smd_ETag doc, JsonBody (enc_StatefulMemberControl c')))"
proof -
  obtain m t where "os_CompareAndSwap sys_world (smd_Key cur) (smd_ETag cur) (JsonBody (enc_StatefulMemberControl c'))
      (putOptionsForStatefulMember c') s = (Inr m, t)"
    "sys_objs t = (sys_objs s)(smd_Key cur \<mapsto> (om_ETag m, JsonBody (enc_StatefulMemberControl c')))"
    "sys_env t = []" "sys_now t = sys_now s"
    using alone_CAS [OF assms(1,2)] by blast
  then show ?thesis using assms
    by (simp add: UpdateStatefulMemberControlCAS_def io_bind_def io_lift_def stale_to_state_def io_try_def canonical_Marshal_def
        Let_def io_ret_def)
qed

definition m0_control :: StatefulMemberControl where
  "m0_control = zero_StatefulMemberControl\<lparr>smc_SchemaVersion := schema_Version, smc_Group := ''db'', smc_Env := ''prod'',
     smc_Member := 0, smc_Generation := 1, smc_Version := 1, smc_Phase := ''ready'', smc_UpdatedAt := ''2024-01-01T00:00:00Z''\<rparr>"

definition m0_sys :: sys where
  "m0_sys = \<lparr>sys_store = snd (memory_Create None (member_key ''db'' 0) (JsonBody (enc_StatefulMemberControl m0_control))
       (putOptionsForStatefulMember m0_control) memory_New),
     sys_now = 1000, sys_tokens = [], sys_events = [], sys_env = [], sys_history = []\<rparr>"

definition m0_opts :: StatefulMemberLeaseOptions where
  "m0_opts = \<lparr>mlo_Owner = ''op-1'', mlo_Duration = 30000000000, mlo_Actor = zero_Actor, mlo_TraceID = ''t'', mlo_Purpose = []\<rparr>"

lemma is_name_samples: "is_name ''db''" "is_name ''prod''"
  by (simp_all add: is_name_def isLowerAlnum_def reservedSegments_def)

lemma m0_facts:
  "sys_env m0_sys = []" "sys_inv m0_sys" "sys_now m0_sys = 1000"
  "member_at (sys_objs m0_sys) ''db'' 0 = Some (etagForVersion 1, m0_control)"
  "validateStatefulMemberControl m0_control = Inr ()" "wf_StatefulMemberControl m0_control"
proof -
  show wf: "wf_StatefulMemberControl m0_control"
    by (simp add: wf_StatefulMemberControl_def m0_control_def zero_StatefulMemberControl_def in_int64_def)
  show "member_at (sys_objs m0_sys) ''db'' 0 = Some (etagForVersion 1, m0_control)"
    by (simp add: view_at_Some doc_view_Some sys_objs_def m0_sys_def memory_Create_def memory_New_def nextTimeLocked_def
        Let_def memory_objs_def codec_StatefulMemberControl [OF wf] member_key_def)
  show "sys_inv m0_sys"
    by (simp add: sys_inv_def m0_sys_def memory_Create_def memory_New_def nextTimeLocked_def Let_def memory_inv_def entry_ok_def
        member_key_def)
  show "validateStatefulMemberControl m0_control = Inr ()"
    by (simp add: validateMember_iff m0_control_def zero_StatefulMemberControl_def is_name_samples)
qed (simp_all add: m0_sys_def)

text \<open>Acquiring the lease of the sample member, and what is stored afterwards.\<close>

lemma m0_acquire:
  "\<exists>h doc t l. AcquireStatefulMemberLease sys_world ''db'' 0 m0_opts m0_sys = (Inr (h, doc), t) \<and> sys_env t = [] \<and> sys_now t = 1000 \<and>
     member_at (sys_objs t) ''db'' 0 = Some (smd_ETag doc, smd_Control doc) \<and> validateStatefulMemberControl (smd_Control doc) = Inr () \<and>
     smc_Group (smd_Control doc) = ''db'' \<and> smc_Member (smd_Control doc) = 0 \<and> smc_Version (smd_Control doc) = 2 \<and>
     smc_Lease (smd_Control doc) = Some l \<and> time_Parse (lse_ExpiresAt l) = Some 30000001000 \<and>
     h = \<lparr>mlh_Group = ''db'', mlh_Member = 0, mlh_Owner = lse_Owner l, mlh_Token = lse_Token l, mlh_Generation = lse_Generation l,
       mlh_ExpiresAt = 30000001000, mlh_ETag = smd_ETag doc\<rparr>"
proof -
  let ?l = "\<lparr>lse_Owner = ''op-1'', lse_Token = ''lease_0'', lse_Generation = 2, lse_ExpiresAt = canonical_Time 30000001000\<rparr>"
  let ?n = "m0_control\<lparr>smc_Lease := Some ?l, smc_UpdatedBy := actorForLease zero_Actor ''op-1'', smc_TraceID := ''t''\<rparr>"
  have id: "smc_Group m0_control = ''db''" "smc_Member m0_control = 0" "smc_Lease m0_control = None" "smc_Generation m0_control = 1"
    "smc_Version m0_control = 1" "smc_Env m0_control = ''prod''" "smc_Phase m0_control \<noteq> []" "smc_SchemaVersion m0_control = schema_Version"
    by (simp_all add: m0_control_def zero_StatefulMemberControl_def)
  obtain cur where cur: "GetStatefulMemberControl sys_world ''db'' 0 m0_sys = (Inr cur, m0_sys)" "smd_Key cur = member_key ''db'' 0"
    "smd_ETag cur = etagForVersion 1" "smd_Control cur = m0_control"
    using alone_GetMember [OF m0_facts(1,4,5) id(1,2)] by blast
  obtain b where b: "sys_objs m0_sys (smd_Key cur) = Some (smd_ETag cur, b)" using m0_facts(4) cur by (auto simp: view_at_Some)
  define n' where "n' = ?n\<lparr>smc_Version := 2\<rparr>"
  have n': "nextStatefulMember cur ?n = Inr n'"
    using id cur(4) by (simp add: nextStatefulMember_def normalizeStatefulMemberControl_def Let_def schema_Version_def n'_def
        wrap64_id in_int64_def)
  define c' where "c' = n'\<lparr>smc_UpdatedAt := canonical_Time 1000\<rparr>"
  have tm: "time_Parse (canonical_Time 30000001000) = Some 30000001000" by (simp add: time_ok_int64 in_int64_def)
  have v: "validateStatefulMemberControl c' = Inr ()"
    using id tm by (simp add: c'_def n'_def validateMember_iff is_name_samples validateLease_iff TrimSpace_printable printable_def)
  have c'': "c' = n'\<lparr>smc_UpdatedAt := canonical_Time (sys_now m0_sys)\<rparr>" by (simp add: c'_def m0_facts(3))
  obtain doc t where u: "UpdateStatefulMemberControlCAS sys_world cur ?n m0_sys = (Inr doc, t)" "smd_Control doc = c'" "sys_env t = []"
    "sys_now t = sys_now m0_sys" "sys_objs t = (sys_objs m0_sys)(smd_Key cur \<mapsto> (smd_ETag doc, JsonBody (enc_StatefulMemberControl c')))"
    using alone_UpdateMember [OF m0_facts(1) b n' c'' v] by blast
  define h where "h = \<lparr>mlh_Group = ''db'', mlh_Member = 0, mlh_Owner = ''op-1'', mlh_Token = ''lease_0'', mlh_Generation = 2,
       mlh_ExpiresAt = 30000001000, mlh_ETag = smd_ETag doc\<rparr>"
  have hd: "statefulMemberHandleFromDocument doc = Inr h"
    using u(2) tm id by (simp add: statefulMemberHandleFromDocument_def h_def c'_def n'_def)
  have lo: "validateLeaseOptions ''db'' (mlo_Owner m0_opts) (mlo_Duration m0_opts) = Inr ()"
    by (simp add: validateLeaseOptions_def m0_opts_def TrimSpace_printable printable_def)
  have tok: "io_token sys_world m0_sys = (Inr ''lease_0'', m0_sys)" by (simp add: alone_token m0_sys_def)
  have acq: "AcquireStatefulMemberLease sys_world ''db'' 0 m0_opts m0_sys = (Inr (h, doc), t)"
    using lo tok cur u(1) hd id m0_facts(1,3)
    by (simp add: AcquireStatefulMemberLease_def io_bind_def io_lift_def activeLease_def io_ret_def m0_opts_def wrap64_id in_int64_def)
  have "wf_StatefulMemberControl c'"
    using m0_facts(6) by (simp add: wf_StatefulMemberControl_def c'_def n'_def wf_Lease_def in_int64_def)
  then have "member_at (sys_objs t) ''db'' 0 = Some (smd_ETag doc, smd_Control doc)"
    using u(2,5) cur(2) by (simp add: view_at_Some doc_view_Some codec_simps)
  then show ?thesis using acq u v tm id m0_facts(3)
    by (intro exI [of _ h] exI [of _ doc] exI [of _ t] exI [of _ ?l]) (simp add: h_def c'_def n'_def)
qed

section \<open>Properties\<close>

text \<open>
  C14: member leases. When an operation acquires the lease of a stateful member, the last write in the history
  is the one of the new document, in the state \<open>u\<close> right before it the control document had no lease or an expired one, and the document
  written carries a lease with the caller's owner, the handle's token, the next generation and the full duration.
  No handle whose ETag was stored at any time until then can afterwards update the member, whatever mutation it tries.
\<close>

theorem member_lease_exclusive:
  assumes "sys_inv s" "AcquireStatefulMemberLease sys_world grp member opts s = (Inr (h, doc), t)"
  shows "\<exists>u e c x b. sys_evolves s u \<and> sys_evolves u t \<and> sys_history t = sys_history u @ [(member_key grp member, mlh_ETag h, b)] \<and>
      member_at (sys_objs u) grp member = Some (e, c) \<and> sys_now s \<le> x \<and> x \<le> sys_now u \<and>
      (\<forall>l. smc_Lease c = Some l \<longrightarrow> (\<exists>T. time_Parse (lse_ExpiresAt l) = Some T \<and> T \<le> x)) \<and>
      member_at (sys_objs t) grp member = Some (mlh_ETag h, smd_Control doc) \<and> mlh_ETag h \<noteq> e \<and>
      smc_Lease (smd_Control doc) = Some \<lparr>lse_Owner = mlo_Owner opts, lse_Token = mlh_Token h,
        lse_Generation = wrap64 (smc_Generation c + 1), lse_ExpiresAt = canonical_Time (x + mlo_Duration opts)\<rparr> \<and>
      mlh_Owner h = mlo_Owner opts \<and>
      (\<forall>t0 h0 b0 s2 f x v. sys_inv t0 \<and> sys_objs t0 (member_key grp member) = Some (mlh_ETag h0, b0) \<and>
          mlh_Group h0 = grp \<and> mlh_Member h0 = member \<and> sys_evolves t0 u \<and> sys_evolves t s2 \<longrightarrow>
        UpdateStatefulMemberWithLeaseCAS sys_world h0 f s2 \<noteq> (Inr x, v))"
proof -
  obtain s1 v v' e c x tok where a: "sys_evolves s s1" "member_reads sys_world grp member s1 e c v" "sys_evolves v v'"
    "sys_now s \<le> x" "x \<le> sys_now v'"
    "activeLease (smc_Lease c) x = Inr False" "member_swaps sys_world grp member v' e (smd_ETag doc) (smd_Control doc) t"
    "smc_Lease (smd_Control doc) = Some \<lparr>lse_Owner = mlo_Owner opts, lse_Token = tok,
      lse_Generation = wrap64 (smc_Generation c + 1), lse_ExpiresAt = canonical_Time (x + mlo_Duration opts)\<rparr>"
    "mlh_ETag h = smd_ETag doc" "mlh_Token h = tok" "mlh_Owner h = mlo_Owner opts"
    using sysw.AcquireMember_ok [OF assms] by blast
  have i1: "sys_inv s1" using a(1) assms(1) sysw.evolves_inv by blast
  have sv: "sys_evolves s v'" using a(1,3) sysw.member_doc.reads_law [OF a(2)] sysw.evolves_trans by blast
  obtain u b where u: "sys_evolves v' u" "sys_evolves u t" "sys_writes u (member_key grp member) (smd_ETag doc) b t"
    "member_at (sys_objs u) grp member = Some (e, c)"
    "member_at (sys_objs t) grp member = Some (smd_ETag doc, smd_Control doc)" "smd_ETag doc \<noteq> e"
    and old: "\<forall>t0 e0 b0 s2. sys_inv t0 \<and> sys_objs t0 (member_key grp member) = Some (e0, b0) \<and> sys_evolves t0 u \<and> sys_evolves t s2 \<longrightarrow>
      sysw.member_doc.outdated grp member e0 s2"
    using sysw.member_doc.read_then_swap [OF i1 a(2,3,7)] by blast
  have x: "x \<le> sys_now u" using a(5) u(1) sysw.clock_mono by (blast intro: order_trans)
  have fence: "UpdateStatefulMemberWithLeaseCAS sys_world h0 f s2 \<noteq> (Inr y, w)"
    if p: "sys_inv t0" "sys_objs t0 (member_key grp member) = Some (mlh_ETag h0, b0)" "mlh_Group h0 = grp" "mlh_Member h0 = member"
      "sys_evolves t0 u" "sys_evolves t s2" for t0 h0 b0 s2 f y w
  proof
    assume "UpdateStatefulMemberWithLeaseCAS sys_world h0 f s2 = (Inr y, w)"
    then obtain cur z where g: "GetStatefulMemberControl sys_world grp member s2 = (Inr cur, z)" "smd_ETag cur = mlh_ETag h0"
      using p(3,4) by (cases y) (auto simp: UpdateStatefulMemberWithLeaseCAS_def io_ok_iffs)
    have "member_reads sys_world grp member s2 (mlh_ETag h0) (smd_Control cur) z" using g by (auto simp: member_reads_def)
    then show False using sysw.member_doc.outdated_read old p(1,2,5,6) by blast
  qed
  show ?thesis
  proof (rule exI [of _ u], rule exI [of _ e], rule exI [of _ c], rule exI [of _ x], rule exI [of _ b], intro conjI)
    show "sys_evolves s u" using sysw.evolves_trans [OF sv u(1)] .
    show "\<forall>l. smc_Lease c = Some l \<longrightarrow> (\<exists>T. time_Parse (lse_ExpiresAt l) = Some T \<and> T \<le> x)" using a(6) unfolding activeLease_False .
    show "\<forall>t0 h0 b0 s2 f x v. sys_inv t0 \<and> sys_objs t0 (member_key grp member) = Some (mlh_ETag h0, b0) \<and>
          mlh_Group h0 = grp \<and> mlh_Member h0 = member \<and> sys_evolves t0 u \<and> sys_evolves t s2 \<longrightarrow>
        UpdateStatefulMemberWithLeaseCAS sys_world h0 f s2 \<noteq> (Inr x, v)" using fence by blast
  qed (use u a(4,8-11) x in \<open>simp_all add: sys_writes_def\<close>)
qed

theorem member_lease_exclusive_witness:
  "\<exists>h doc t u e c. AcquireStatefulMemberLease sys_world ''db'' 0 m0_opts m0_sys = (Inr (h, doc), t) \<and>
     member_at (sys_objs u) ''db'' 0 = Some (e, c) \<and> mlh_ETag h \<noteq> e \<and>
     (\<forall>f x v. UpdateStatefulMemberWithLeaseCAS sys_world (h\<lparr>mlh_ETag := etagForVersion 1\<rparr>) f t \<noteq> (Inr x, v))"
proof -
  obtain h doc t where a: "AcquireStatefulMemberLease sys_world ''db'' 0 m0_opts m0_sys = (Inr (h, doc), t)"
    "mlh_Group h = ''db''" "mlh_Member h = 0"
    using m0_acquire by (elim exE conjE) simp
  obtain b where b: "sys_objs m0_sys (member_key ''db'' 0) = Some (etagForVersion 1, b)"
    using m0_facts(4) by (auto simp: view_at_Some)
  obtain u e c where u: "sys_evolves m0_sys u" "member_at (sys_objs u) ''db'' 0 = Some (e, c)" "mlh_ETag h \<noteq> e"
    and fence: "\<forall>t0 h0 b0 s2 f x v. sys_inv t0 \<and> sys_objs t0 (member_key ''db'' 0) = Some (mlh_ETag h0, b0) \<and>
          mlh_Group h0 = ''db'' \<and> mlh_Member h0 = 0 \<and> sys_evolves t0 u \<and> sys_evolves t s2 \<longrightarrow>
        UpdateStatefulMemberWithLeaseCAS sys_world h0 f s2 \<noteq> (Inr x, v)"
    using member_lease_exclusive [OF m0_facts(2) a(1)] by (elim exE conjE) blast
  have "\<forall>f x v. UpdateStatefulMemberWithLeaseCAS sys_world (h\<lparr>mlh_ETag := etagForVersion 1\<rparr>) f t \<noteq> (Inr x, v)"
  proof (intro allI)
    fix f x v
    show "UpdateStatefulMemberWithLeaseCAS sys_world (h\<lparr>mlh_ETag := etagForVersion 1\<rparr>) f t \<noteq> (Inr x, v)"
      using fence [rule_format, of m0_sys "h\<lparr>mlh_ETag := etagForVersion 1\<rparr>" b t f x v] m0_facts(2) b a(2,3) u(1) by simp
  qed
  then show ?thesis using u a by blast
qed

text \<open>
  Releasing a member lease takes its token. A successful release found, in the document it replaced,
  a lease with the handle's owner and token that had not expired, and left the member without a lease;
  group, environment and ordinal are unchanged. The handle's ETag plays no part: the holder may release
  after its own later updates.
\<close>

theorem member_release_by_holder:
  assumes "sys_inv s" "ReleaseStatefulMemberLease sys_world h s = (Inr doc, t)"
  shows "\<exists>u e c l T x. sys_evolves s u \<and> sys_evolves u t \<and> member_at (sys_objs u) (mlh_Group h) (mlh_Member h) = Some (e, c) \<and>
    smc_Lease c = Some l \<and> lse_Owner l = mlh_Owner h \<and> lse_Token l = mlh_Token h \<and>
    time_Parse (lse_ExpiresAt l) = Some T \<and> sys_now s \<le> x \<and> x < T \<and>
    member_at (sys_objs t) (mlh_Group h) (mlh_Member h) = Some (smd_ETag doc, smd_Control doc) \<and> smc_Lease (smd_Control doc) = None \<and>
    smc_Group (smd_Control doc) = smc_Group c \<and> smc_Env (smd_Control doc) = smc_Env c \<and> smc_Member (smd_Control doc) = smc_Member c"
proof -
  obtain e c v v' x l T where m: "member_reads sys_world (mlh_Group h) (mlh_Member h) s e c v" "sys_evolves v v'" "sys_now s \<le> x"
    "smc_Lease c = Some l" "lse_Token l = mlh_Token h" "lse_Owner l = mlh_Owner h" "time_Parse (lse_ExpiresAt l) = Some T" "x < T"
    "member_swaps sys_world (mlh_Group h) (mlh_Member h) v' e (smd_ETag doc) (smd_Control doc) t"
    "smc_Group (smd_Control doc) = smc_Group c" "smc_Env (smd_Control doc) = smc_Env c" "smc_Member (smd_Control doc) = smc_Member c"
    "smc_Lease (smd_Control doc) = None"
    using sysw.ReleaseMember_ok [OF assms] unfolding sysw.member_holder_def by blast
  obtain u where u: "sys_evolves v' u" "sys_evolves u t" "member_at (sys_objs u) (mlh_Group h) (mlh_Member h) = Some (e, c)"
    "member_at (sys_objs t) (mlh_Group h) (mlh_Member h) = Some (smd_ETag doc, smd_Control doc)"
    using sysw.member_doc.swap_after_read [OF assms(1) m(1,2,9)] by blast
  have "sys_evolves s u" using sysw.member_doc.reads_law [OF m(1)] m(2) u(1) sysw.evolves_trans by blast
  then show ?thesis using u m by (intro exI [of _ u] exI [of _ e] exI [of _ c] exI [of _ l] exI [of _ T] exI [of _ x]) simp
qed

lemma m0_release:
  "\<exists>h t doc t'. sys_inv t \<and> ReleaseStatefulMemberLease sys_world h t = (Inr doc, t')"
proof -
  obtain h doc t l where a: "AcquireStatefulMemberLease sys_world ''db'' 0 m0_opts m0_sys = (Inr (h, doc), t)" "sys_env t = []"
    "sys_now t = 1000" "member_at (sys_objs t) ''db'' 0 = Some (smd_ETag doc, smd_Control doc)"
    "validateStatefulMemberControl (smd_Control doc) = Inr ()" "smc_Group (smd_Control doc) = ''db''" "smc_Member (smd_Control doc) = 0"
    "smc_Version (smd_Control doc) = 2" "smc_Lease (smd_Control doc) = Some l" "time_Parse (lse_ExpiresAt l) = Some 30000001000"
    "h = \<lparr>mlh_Group = ''db'', mlh_Member = 0, mlh_Owner = lse_Owner l, mlh_Token = lse_Token l, mlh_Generation = lse_Generation l,
       mlh_ExpiresAt = 30000001000, mlh_ETag = smd_ETag doc\<rparr>"
    using m0_acquire by blast
  have i: "sys_inv t"
    using sysw.AcquireMember_ok [OF m0_facts(2) a(1)] sysw.member_doc.swaps_law sysw.member_doc.reads_law m0_facts(2) sysw.evolves_inv
    by meson
  obtain cur where cur: "GetStatefulMemberControl sys_world ''db'' 0 t = (Inr cur, t)" "smd_Key cur = member_key ''db'' 0"
    "smd_ETag cur = smd_ETag doc" "smd_Control cur = smd_Control doc"
    using alone_GetMember [OF a(2,4-7)] by blast
  obtain b where b: "sys_objs t (smd_Key cur) = Some (smd_ETag cur, b)" using a(4) cur by (auto simp: view_at_Some)
  let ?n = "(smd_Control doc)\<lparr>smc_Lease := None\<rparr>"
  have "smc_Group (smd_Control doc) \<noteq> []" "smc_Env (smd_Control doc) \<noteq> []"
    using a(5) by (auto simp: validateMember_iff is_name_def)
  then obtain n' where n': "nextStatefulMember cur ?n = Inr n'" using cur(4) by (simp add: nextStatefulMember_def Let_def)
  define c' where "c' = n'\<lparr>smc_UpdatedAt := canonical_Time (sys_now t)\<rparr>"
  have v: "validateStatefulMemberControl c' = Inr ()"
    using a(5,8) cur(4) by (simp add: c'_def nextMember_eq [OF n'] validateMember_iff normalizeStatefulMemberControl_def Let_def
        wrap64_id in_int64_def schema_Version_def)
  obtain doc' t' where "UpdateStatefulMemberControlCAS sys_world cur ?n t = (Inr doc', t')"
    using alone_UpdateMember [OF a(2) b n' c'_def v] by blast
  then have "ReleaseStatefulMemberLease sys_world h t = (Inr doc', t')"
    using cur a(2,3,9-11)
    by (simp add: ReleaseStatefulMemberLease_def io_bind_def io_lift_def ensureStatefulMemberLeaseUsable_def activeLease_def)
  then show ?thesis using i by blast
qed

theorem member_release_by_holder_witness:
  "\<exists>h t doc t' u e c l. ReleaseStatefulMemberLease sys_world h t = (Inr doc, t') \<and>
     member_at (sys_objs u) (mlh_Group h) (mlh_Member h) = Some (e, c) \<and> smc_Lease c = Some l \<and> lse_Token l = mlh_Token h \<and>
     smc_Lease (smd_Control doc) = None"
proof -
  obtain h t doc t' where r: "sys_inv t" "ReleaseStatefulMemberLease sys_world h t = (Inr doc, t')" using m0_release by blast
  from member_release_by_holder [OF this] show ?thesis using r(2) by (elim exE conjE) (intro exI conjI, assumption+)
qed

text \<open>
  C36: versions of stateful groups. An update of a group's control document that was read before, if it succeeds, ends with
  the write of the new document, and right before it the store held the very document that was read, under the same ETag; the new one keeps its
  group and environment and has exactly the next version. The version never wraps around: at the largest 64-bit value
  every update is refused.
\<close>

theorem group_version_strict:
  assumes r: "sys_inv s0" "GetStatefulGroupControl sys_world grp s0 = (Inr cur, s1)" "sys_evolves s1 s"
  shows "(UpdateStatefulGroupControlCAS sys_world cur n s = (Inr doc, t) \<longrightarrow>
      (\<exists>u. sys_evolves s u \<and> sys_evolves u t \<and> group_at (sys_objs u) grp = Some (sgd_ETag cur, sgd_Control cur) \<and>
         sys_history t = sys_history u @ [(group_key grp, sgd_ETag doc, JsonBody (enc_StatefulGroupControl (sgd_Control doc)))] \<and>
         sgd_ETag doc \<noteq> sgd_ETag cur) \<and>
      sgc_Version (sgd_Control doc) = sgc_Version (sgd_Control cur) + 1 \<and> sgc_Group (sgd_Control doc) = sgc_Group (sgd_Control cur) \<and>
      sgc_Env (sgd_Control doc) = sgc_Env (sgd_Control cur) \<and> sgd_Key doc = sgd_Key cur) \<and>
    (sgc_Version (sgd_Control cur) = 2 ^ 63 - 1 \<longrightarrow> UpdateStatefulGroupControlCAS sys_world cur n s \<noteq> (Inr doc, t))"
proof -
  note gg = sysw.GetGroup_ok [OF r(2)]
  have ver: "in_int64 (sgc_Version (sgd_Control cur))" using gg(6) by (simp add: wf_StatefulGroupControl_def)
  have i: "sys_inv s1" "sys_inv s" using r(1,3) gg(1) sysw.evolves_inv by blast+
  have *: "sgc_Version (sgd_Control cur) \<noteq> 2 ^ 63 - 1 \<and>
      (\<exists>u. sys_evolves s u \<and> sys_evolves u t \<and> group_at (sys_objs u) grp = Some (sgd_ETag cur, sgd_Control cur) \<and>
         sys_history t = sys_history u @ [(group_key grp, sgd_ETag doc, JsonBody (enc_StatefulGroupControl (sgd_Control doc)))] \<and>
         sgd_ETag doc \<noteq> sgd_ETag cur) \<and>
      sgc_Version (sgd_Control doc) = sgc_Version (sgd_Control cur) + 1 \<and> sgc_Group (sgd_Control doc) = sgc_Group (sgd_Control cur) \<and>
      sgc_Env (sgd_Control doc) = sgc_Env (sgd_Control cur) \<and> sgd_Key doc = sgd_Key cur"
    if up: "UpdateStatefulGroupControlCAS sys_world cur n s = (Inr doc, t)"
  proof -
    obtain u b0 n' now where n': "nextStatefulGroup cur n = Inr n'" "sgd_Control doc = n'\<lparr>sgc_UpdatedAt := canonical_Time now\<rparr>"
      "validateStatefulGroupControl (sgd_Control doc) = Inr ()" "sgd_Key doc = sgd_Key cur"
      and u: "sys_evolves s u" "sys_evolves u t" "sys_objs u (sgd_Key cur) = Some (sgd_ETag cur, b0)" "sgd_ETag doc \<noteq> sgd_ETag cur"
        "sys_writes u (sgd_Key cur) (sgd_ETag doc) (JsonBody (enc_StatefulGroupControl (sgd_Control doc))) t"
      using sysw.UpdateGroup_ok [OF i(2) up] by blast
    have "group_at (sys_objs u) grp = Some (sgd_ETag cur, sgd_Control cur)"
      using sysw.group_doc.view_pins [OF i(1) sysw.evolves_trans [OF r(3) u(1)] gg(2)] u(3) gg(3) by simp
    moreover note g = nextGroup_ok [OF n'(1)]
    have "0 < wrap64 (sgc_Version (sgd_Control cur) + 1)" using n'(2,3) g(3) by (simp add: validateGroup_iff)
    then have ne: "sgc_Version (sgd_Control cur) \<noteq> 2 ^ 63 - 1" using wrap64_max by auto
    have "wrap64 (sgc_Version (sgd_Control cur) + 1) = sgc_Version (sgd_Control cur) + 1" by (rule wrap64_suc [OF ver ne])
    ultimately show ?thesis using ne g n'(2,4) u gg(3) by (auto simp: sys_writes_def)
  qed
  show ?thesis using * by blast
qed

definition g0_control :: StatefulGroupControl where
  "g0_control = zero_StatefulGroupControl\<lparr>sgc_SchemaVersion := schema_Version, sgc_Group := ''db'', sgc_Env := ''prod'',
     sgc_Replicas := 3, sgc_Version := 1\<rparr>"

definition g0_sys :: sys where
  "g0_sys = \<lparr>sys_store = snd (memory_Create None (group_key ''db'') (JsonBody (enc_StatefulGroupControl g0_control))
       (putOptionsForStatefulGroup g0_control) memory_New),
     sys_now = 1000, sys_tokens = [], sys_events = [], sys_env = [], sys_history = []\<rparr>"

lemma g0_facts:
  "sys_env g0_sys = []" "sys_now g0_sys = 1000" "sys_inv g0_sys" "wf_StatefulGroupControl g0_control"
  "validateStatefulGroupControl g0_control = Inr ()"
  "sys_objs g0_sys (group_key ''db'') = Some (etagForVersion 1, JsonBody (enc_StatefulGroupControl g0_control))"
  by (simp_all add: g0_sys_def sys_objs_def sys_inv_def memory_Create_def memory_New_def nextTimeLocked_def Let_def memory_objs_def
      memory_inv_def entry_ok_def wf_StatefulGroupControl_def g0_control_def zero_StatefulGroupControl_def in_int64_def validateGroup_iff
      is_name_samples)

lemma g0_read: "\<exists>cur. GetStatefulGroupControl sys_world ''db'' g0_sys = (Inr cur, g0_sys) \<and> sgd_Key cur = group_key ''db'' \<and>
  sgd_ETag cur = etagForVersion 1 \<and> sgd_Control cur = g0_control"
proof -
  obtain ob where "os_Get sys_world (group_key ''db'') g0_sys = (Inr ob, g0_sys)" "obj_ETag ob = etagForVersion 1"
    "obj_Body ob = JsonBody (enc_StatefulGroupControl g0_control)" using alone_Get [OF g0_facts(1,6)] by blast
  moreover have "paths_StatefulGroupControl ''db'' = Inr (group_key ''db'')" using is_name_samples by (simp add: paths_StatefulGroup_Inr)
  moreover have "sgc_Group g0_control = ''db''" by (simp add: g0_control_def)
  ultimately show ?thesis using g0_facts(4,5)
    by (simp add: GetStatefulGroupControl_def io_bind_def io_lift_def canonical_UnmarshalStrict_def codec_simps objectMetaFromObject_def Let_def rbind_def)
qed

theorem group_version_strict_witness:
  "\<exists>cur doc t. GetStatefulGroupControl sys_world ''db'' g0_sys = (Inr cur, g0_sys) \<and>
     UpdateStatefulGroupControlCAS sys_world cur (g0_control\<lparr>sgc_Replicas := 5\<rparr>) g0_sys = (Inr doc, t) \<and>
     sgc_Version (sgd_Control doc) = 2 \<and> sgc_Group (sgd_Control doc) = ''db''"
proof -
  let ?n = "g0_control\<lparr>sgc_Replicas := 5\<rparr>"
  define c' where "c' = ?n\<lparr>sgc_Version := 2, sgc_UpdatedAt := canonical_Time 1000\<rparr>"
  obtain cur where cur: "GetStatefulGroupControl sys_world ''db'' g0_sys = (Inr cur, g0_sys)" "sgd_Key cur = group_key ''db''"
    "sgd_ETag cur = etagForVersion 1" "sgd_Control cur = g0_control" using g0_read by blast
  have nx: "nextStatefulGroup cur ?n = Inr (?n\<lparr>sgc_Version := 2\<rparr>)"
    by (simp add: nextStatefulGroup_def normalizeStatefulGroupControl_def cur g0_control_def zero_StatefulGroupControl_def
        schema_Version_def wrap64_id in_int64_def)
  have v: "validateStatefulGroupControl c' = Inr ()"
    by (simp add: c'_def validateGroup_iff g0_control_def zero_StatefulGroupControl_def is_name_samples)
  obtain m t where "os_CompareAndSwap sys_world (group_key ''db'') (etagForVersion 1) (JsonBody (enc_StatefulGroupControl c'))
      (putOptionsForStatefulGroup c') g0_sys = (Inr m, t)"
    using alone_CAS [OF g0_facts(1,6)] by blast
  then obtain doc where u: "UpdateStatefulGroupControlCAS sys_world cur ?n g0_sys = (Inr doc, t)"
    using nx v g0_facts(1,2) cur by (simp add: UpdateStatefulGroupControlCAS_def io_bind_def io_lift_def stale_to_state_def io_try_def
        canonical_Marshal_def Let_def io_ret_def c'_def)
  from group_version_strict [OF g0_facts(3) cur(1) sys_evolves_refl, of ?n doc t] u cur show ?thesis
    by (intro exI [of _ cur] exI [of _ doc] exI [of _ t]) (simp add: g0_control_def)
qed

end
