(* ===== verification/Ops_Store.thy ===== *)
theory Ops_Store
  imports Saga_Store "HOL-Library.Multiset"
begin

text \<open>
  Operations in object storage (internal/ops: types.go, store.go, lease.go): an intent created by the
  command that starts the operation, a control document swapped by ETag under a lease, the listing that
  merges operations with sagas that stand for one, and the key parsers the listing relies on.
\<close>

section \<open>Types\<close>

record ops_IntentDocument =
  oid_Key :: string
  oid_ETag :: string
  oid_Meta :: ObjectMeta
  oid_Intent :: OperationIntent

record ops_ControlDocument =
  ocd_Key :: string
  ocd_ETag :: string
  ocd_Meta :: ObjectMeta
  ocd_Control :: OperationControl

record Summary =
  sm_OperationID :: string
  sm_Service :: string
  sm_Env :: string
  sm_Kind :: string
  sm_Status :: string
  sm_Lease :: "Lease option"
  sm_ProviderOperations :: "ProviderOperationRef list"
  sm_UpdatedAt :: string
  sm_TraceID :: string
  sm_Resumable :: bool
  sm_ControlKey :: string
  sm_IntentKey :: string

record ops_InspectResult =
  oir_OperationID :: string
  oir_Service :: string
  oir_Env :: string
  oir_Kind :: string
  oir_Target :: Target
  oir_Status :: string
  oir_Lease :: "Lease option"
  oir_ProviderOperations :: "ProviderOperationRef list"
  oir_StepResults :: "StepResultRef list"
  oir_Risk :: string
  oir_Reversibility :: string
  oir_UpdatedAt :: string
  oir_TraceID :: string
  oir_Resumable :: bool
  oir_Intent :: "OperationIntent option"
  oir_Control :: OperationControl
  oir_Paths :: "string \<rightharpoonup> string"

record ops_ListOptions =
  olo_Service :: string
  olo_IncludeTerminal :: bool
  olo_Limit :: int

record ops_LeaseOptions =
  ollo_Owner :: string
  ollo_Duration :: int

record ops_LeaseHandle =
  olh_Service :: string
  olh_OperationID :: string
  olh_Owner :: string
  olh_Token :: string
  olh_Generation :: int
  olh_ExpiresAt :: gotime
  olh_ETag :: string

record LeaseAcquireResult =
  lar_Handle :: ops_LeaseHandle
  lar_Control :: ops_ControlDocument
  lar_PreviousLease :: "Lease option"
  lar_TookOver :: bool

section \<open>Leases in a control document\<close>

definition leaseExpires :: "Lease \<Rightarrow> gotime result" where
  "leaseExpires lease =
     (if TrimSpace (lse_Owner lease) = [] then Inl (new_error ''operation lease owner is required'')
      else if TrimSpace (lse_Token lease) = [] then Inl (new_error ''operation lease token is required'')
      else if lse_Generation lease \<le> 0 then Inl (new_error ''operation lease generation must be positive'')
      else (case time_Parse (lse_ExpiresAt lease) of
          None \<Rightarrow> Inl (Errorf (''operation lease expires_at '' @ quote (lse_ExpiresAt lease) @ '' is invalid: '' @
              ''parsing time'') (Some (TimeError ''parsing time'')))
        | Some expiresAt \<Rightarrow> Inr expiresAt))"

definition ops_activeLease :: "Lease option \<Rightarrow> gotime \<Rightarrow> bool result" where
  "ops_activeLease lease now = (case lease of
      None \<Rightarrow> Inr False
    | Some l \<Rightarrow> rbind (leaseExpires l) (\<lambda>expiresAt. Inr (expiresAt > now)))"

definition ensureLease :: "ops_LeaseHandle \<Rightarrow> ops_ControlDocument \<Rightarrow> gotime \<Rightarrow> unit result" where
  "ensureLease handle doc now = (case oc_Lease (ocd_Control doc) of
      None \<Rightarrow> Inl (wrap_sentinel CodeLeaseLost ''operation control no longer has a lease'')
    | Some lease \<Rightarrow>
        if olh_Service handle \<noteq> oc_Service (ocd_Control doc) \<or> olh_OperationID handle \<noteq> oc_OperationID (ocd_Control doc) \<or>
           olh_Owner handle \<noteq> lse_Owner lease \<or> olh_Token handle \<noteq> lse_Token lease \<or>
           olh_Generation handle \<noteq> lse_Generation lease
        then Inl (wrap_sentinel CodeLeaseLost ''operation control lease belongs to another worker'')
        else rbind (ops_activeLease (Some lease) now) (\<lambda>active.
          if \<not> active then Inl (wrap_sentinel CodeLeaseLost ''operation control lease has expired'') else Inr ()))"

definition leaseHandleFromControl :: "ops_ControlDocument \<Rightarrow> ops_LeaseHandle result" where
  "leaseHandleFromControl doc = (case oc_Lease (ocd_Control doc) of
      None \<Rightarrow> Inl (wrap_sentinel CodeLeaseLost ''operation control does not contain a lease'')
    | Some l \<Rightarrow> rbind (leaseExpires l) (\<lambda>expiresAt.
        Inr \<lparr>olh_Service = oc_Service (ocd_Control doc), olh_OperationID = oc_OperationID (ocd_Control doc),
          olh_Owner = lse_Owner l, olh_Token = lse_Token l, olh_Generation = lse_Generation l,
          olh_ExpiresAt = expiresAt, olh_ETag = ocd_ETag doc\<rparr>))"

section \<open>Status, kinds and keys\<close>

definition terminalStatus :: "string \<Rightarrow> bool" where
  "terminalStatus status = (status \<in> {OperationSucceeded, OperationFailed, OperationCanceled})"

definition operationStatusFromSaga :: "string \<Rightarrow> string" where
  "operationStatusFromSaga status =
     (if status = SagaPending then OperationPending
      else if status \<in> {SagaRunning, SagaCompensating} then OperationRunning
      else if status = SagaSucceeded then OperationSucceeded
      else if status = SagaFailed then OperationFailed
      else if status = SagaCanceled then OperationCanceled
      else OperationRunning)"

definition operationKindFromSaga :: "string \<Rightarrow> string" where
  "operationKindFromSaga kind = (if kind = ''deployment.canary'' then ''canary-deploy'' else kind)"

record sagaParams =
  sp_Service :: string
  sp_Env :: string
  sp_OperationID :: string

text \<open>
  \<^verbatim>\<open>json.Unmarshal\<close> into string fields, its error ignored: unknown keys are skipped, a value that is
  not a string leaves the field as it is, and the last string under a matching key stays.
\<close>

definition last_string :: "(string \<times> json) list \<Rightarrow> string \<Rightarrow> string" where
  "last_string kvs name = fold (\<lambda>(k, v) acc. case v of
      JStr x \<Rightarrow> if fold_key k = name then x else acc
    | _ \<Rightarrow> acc) kvs []"

definition sagaOperationParams :: "SagaIntent \<Rightarrow> sagaParams" where
  "sagaOperationParams intent = (case si_Params intent of
      Raw (JObj kvs) \<Rightarrow> \<lparr>sp_Service = last_string kvs ''service'', sp_Env = last_string kvs ''env'',
        sp_OperationID = last_string kvs ''operation_id''\<rparr>
    | _ \<Rightarrow> \<lparr>sp_Service = [], sp_Env = [], sp_OperationID = []\<rparr>)"

definition operationKey :: "string \<Rightarrow> string \<Rightarrow> string" where
  "operationKey service operationID = service @ [CHR 0x00] @ operationID"

definition resumableControl :: "OperationControl \<Rightarrow> bool" where
  "resumableControl control = (\<not> terminalStatus (oc_Status control) \<and> 0 < length (oc_ProviderOperations control))"

definition parseOperationControlKey :: "string \<Rightarrow> (string \<times> string) option" where
  "parseOperationControlKey key = (case split_on (CHR ''/'') key of
      [p0, p1, p2, p3, p4] \<Rightarrow>
        if p0 \<noteq> ''services'' \<or> p2 \<noteq> ''operations'' \<or> p4 \<noteq> ''control.json'' then None
        else if p1 = [] \<or> p3 = [] then None else Some (p1, p3)
    | _ \<Rightarrow> None)"

definition parseSagaIntentKey :: "string \<Rightarrow> string option" where
  "parseSagaIntentKey key = (case split_on (CHR ''/'') key of
      [p0, p1, p2] \<Rightarrow> if p0 \<noteq> ''sagas'' \<or> p2 \<noteq> ''intent.json'' \<or> p1 = [] then None else Some p1
    | _ \<Rightarrow> None)"

definition summaryFromControl :: "ops_ControlDocument \<Rightarrow> Summary" where
  "summaryFromControl doc = (let c = ocd_Control doc in
     \<lparr>sm_OperationID = oc_OperationID c, sm_Service = oc_Service c, sm_Env = oc_Env c, sm_Kind = [],
      sm_Status = oc_Status c, sm_Lease = oc_Lease c, sm_ProviderOperations = oc_ProviderOperations c,
      sm_UpdatedAt = oc_UpdatedAt c, sm_TraceID = oc_TraceID c, sm_Resumable = resumableControl c,
      sm_ControlKey = ocd_Key doc, sm_IntentKey = []\<rparr>)"

definition inspectFromControl :: "ops_ControlDocument \<Rightarrow> ops_InspectResult" where
  "inspectFromControl doc = (let c = ocd_Control doc;
       controlKey = (case paths_OperationControl (oc_Service c) (oc_OperationID c) of Inl _ \<Rightarrow> [] | Inr k \<Rightarrow> k) in
     \<lparr>oir_OperationID = oc_OperationID c, oir_Service = oc_Service c, oir_Env = oc_Env c, oir_Kind = [],
      oir_Target = zero_Target, oir_Status = oc_Status c, oir_Lease = oc_Lease c,
      oir_ProviderOperations = oc_ProviderOperations c, oir_StepResults = oc_StepResults c,
      oir_Risk = [], oir_Reversibility = [], oir_UpdatedAt = oc_UpdatedAt c, oir_TraceID = oc_TraceID c,
      oir_Resumable = resumableControl c, oir_Intent = None, oir_Control = c,
      oir_Paths = [''control'' \<mapsto> firstNonEmpty [controlKey, ocd_Key doc]]\<rparr>)"

section \<open>Reading and swapping\<close>

text \<open>A strict decode whose error is wrapped by \<^verbatim>\<open>fmt.Errorf("decode <what> %q: %w", key, err)\<close>.\<close>

definition decode_as :: "string \<Rightarrow> string \<Rightarrow> (json \<Rightarrow> 'a result) \<Rightarrow> body \<Rightarrow> 'a result" where
  "decode_as what key dec b = (case canonical_UnmarshalStrict dec b of
      Inl err \<Rightarrow> Inl (Errorf (''decode '' @ what @ '' '' @ quote key @ '': '' @ err_text err) (Some err))
    | Inr x \<Rightarrow> Inr x)"

definition ops_GetIntent :: "('s, 'z) World_scheme \<Rightarrow> string \<Rightarrow> string \<Rightarrow> ('s, ops_IntentDocument) io" where
  "ops_GetIntent W service operationID =
     io_bind (io_lift (paths_OperationIntent service operationID)) (\<lambda>key.
     io_bind (os_Get W key) (\<lambda>obj.
     io_bind (io_lift (decode_as ''operation intent'' key dec_OperationIntent (obj_Body obj))) (\<lambda>intent.
     if oi_OperationID intent \<noteq> operationID then
       io_fail (new_error (''operation intent '' @ quote key @ '' names operation '' @ quote (oi_OperationID intent)))
     else if oi_Service intent \<noteq> service then
       io_fail (new_error (''operation intent '' @ quote key @ '' names service '' @ quote (oi_Service intent)))
     else (let meta = objectMetaFromObject obj in
       io_ret \<lparr>oid_Key = key, oid_ETag = om_ETag meta, oid_Meta = meta, oid_Intent = intent\<rparr>))))"

definition ops_GetControl :: "('s, 'z) World_scheme \<Rightarrow> string \<Rightarrow> string \<Rightarrow> ('s, ops_ControlDocument) io" where
  "ops_GetControl W service operationID =
     io_bind (io_lift (paths_OperationControl service operationID)) (\<lambda>key.
     io_bind (os_Get W key) (\<lambda>obj.
     io_bind (io_lift (decode_as ''operation control'' key dec_OperationControl (obj_Body obj))) (\<lambda>control.
     if oc_SchemaVersion control \<noteq> schema_Version then
       io_fail (new_error (''operation control '' @ quote key @ '' has schema version '' @ quote (oc_SchemaVersion control)))
     else if oc_OperationID control \<noteq> operationID then
       io_fail (new_error (''operation control '' @ quote key @ '' names operation '' @ quote (oc_OperationID control)))
     else if oc_Service control \<noteq> service then
       io_fail (new_error (''operation control '' @ quote key @ '' names service '' @ quote (oc_Service control)))
     else
       io_bind (io_lift (case oc_Lease control of None \<Rightarrow> Inr () | Some l \<Rightarrow> rbind (leaseExpires l) (\<lambda>_. Inr ()))) (\<lambda>_.
       (let meta = objectMetaFromObject obj in
        io_ret \<lparr>ocd_Key = key, ocd_ETag = om_ETag meta, ocd_Meta = meta, ocd_Control = control\<rparr>)))))"

text \<open>The document \<^verbatim>\<open>UpdateControlCAS\<close> writes, but for its time.\<close>

definition nextOperation :: "ops_ControlDocument \<Rightarrow> OperationControl \<Rightarrow> OperationControl" where
  "nextOperation current n0 =
     (let n1 = (if oc_SchemaVersion n0 = [] then n0\<lparr>oc_SchemaVersion := schema_Version\<rparr> else n0);
          n2 = n1\<lparr>oc_OperationID := oc_OperationID (ocd_Control current), oc_Service := oc_Service (ocd_Control current)\<rparr>
      in if oc_Env n2 = [] then n2\<lparr>oc_Env := oc_Env (ocd_Control current)\<rparr> else n2)"

definition ops_putOptions :: PutOptions where
  "ops_putOptions = \<lparr>po_ContentType = canonical_ContentType, po_Metadata = Map.empty, po_KMSKeyID = []\<rparr>"

definition ops_UpdateControlCAS ::
  "('s, 'z) World_scheme \<Rightarrow> ops_ControlDocument \<Rightarrow> OperationControl \<Rightarrow> ('s, ops_ControlDocument) io" where
  "ops_UpdateControlCAS W current next0 =
     io_bind (io_now W) (\<lambda>now.
     (let next1 = (nextOperation current next0)\<lparr>oc_UpdatedAt := canonical_Time now\<rparr> in
      io_bind (io_lift (canonical_Marshal enc_OperationControl raws_ok_OperationControl next1)) (\<lambda>body.
      io_bind (io_try (os_CompareAndSwap W (ocd_Key current) (ocd_ETag current) (JsonBody body) ops_putOptions)) (\<lambda>r. case r of
          Inl err \<Rightarrow>
            if is_store ErrPreconditionFailed err
            then io_fail (wrap_sentinel CodePreconditionFailed ''operation control ETag is stale'')
            else io_fail err
        | Inr meta \<Rightarrow>
            io_ret \<lparr>ocd_Key = ocd_Key current, ocd_ETag = om_ETag meta, ocd_Meta = meta, ocd_Control = next1\<rparr>))))"

definition ops_Inspect :: "('s, 'z) World_scheme \<Rightarrow> string \<Rightarrow> string \<Rightarrow> ('s, ops_InspectResult) io" where
  "ops_Inspect W service operationID =
     io_bind (ops_GetControl W service operationID) (\<lambda>control.
     (let r0 = inspectFromControl control;
          r1 = (case paths_OperationIntent service operationID of
              Inl _ \<Rightarrow> r0 | Inr k \<Rightarrow> r0\<lparr>oir_Paths := (oir_Paths r0)(''intent'' \<mapsto> k)\<rparr>);
          r2 = (case paths_OperationEventsPrefix service operationID of
              Inl _ \<Rightarrow> r1 | Inr p \<Rightarrow> r1\<lparr>oir_Paths := (oir_Paths r1)(''events'' \<mapsto> p)\<rparr>) in
      io_bind (io_try (ops_GetIntent W service operationID)) (\<lambda>r. case r of
          Inl _ \<Rightarrow> io_ret r2
        | Inr d \<Rightarrow> (let i = oid_Intent d in io_ret (r2\<lparr>oir_Intent := Some i, oir_Kind := oi_Kind i, oir_Target := oi_Target i,
            oir_Risk := oi_Risk i, oir_Reversibility := oi_Reversibility i,
            oir_TraceID := firstNonEmpty [oir_TraceID r2, oi_TraceID i]\<rparr>)))))"

section \<open>Listing\<close>

definition with_intent :: "Summary \<Rightarrow> ops_IntentDocument result \<Rightarrow> Summary" where
  "with_intent summary r = (case r of
      Inl _ \<Rightarrow> summary
    | Inr d \<Rightarrow> summary\<lparr>sm_Kind := oi_Kind (oid_Intent d), sm_IntentKey := oid_Key d\<rparr>)"

text \<open>
  One round of the loop of \<^verbatim>\<open>List\<close> over the control keys: the summary of the operation, or \<open>None\<close> where
  the source continues with the next key. In the loop, \<open>seen\<close> holds the operation keys, newest first.
\<close>

definition controlSummary :: "('s, 'z) World_scheme \<Rightarrow> ops_ListOptions \<Rightarrow> string \<Rightarrow> ('s, Summary option) io" where
  "controlSummary W opts key = (case parseOperationControlKey key of
      None \<Rightarrow> io_ret None
    | Some (service, operationID) \<Rightarrow>
        if olo_Service opts \<noteq> [] \<and> service \<noteq> olo_Service opts then io_ret None
        else io_bind (ops_GetControl W service operationID) (\<lambda>doc.
          if \<not> olo_IncludeTerminal opts \<and> terminalStatus (oc_Status (ocd_Control doc)) then io_ret None
          else io_bind (io_try (ops_GetIntent W service operationID)) (\<lambda>r.
            io_ret (Some (with_intent (summaryFromControl doc) r)))))"

fun listControls :: "('s, 'z) World_scheme \<Rightarrow> ops_ListOptions \<Rightarrow> ObjectMeta list \<Rightarrow> Summary list \<Rightarrow> string list \<Rightarrow>
    ('s, Summary list \<times> string list) io" where
  "listControls W opts [] out seen = io_ret (out, seen)"
| "listControls W opts (meta # metas) out seen =
     io_bind (controlSummary W opts (om_Key meta)) (\<lambda>r. case r of
        None \<Rightarrow> listControls W opts metas out seen
      | Some summary \<Rightarrow> listControls W opts metas (out @ [summary])
          (operationKey (sm_Service summary) (sm_OperationID summary) # seen))"

definition sagaSummary :: "sagaParams \<Rightarrow> string \<Rightarrow> SagaIntent \<Rightarrow> SagaControl \<Rightarrow> string \<Rightarrow> string \<Rightarrow> Summary" where
  "sagaSummary params service intent control controlKey intentKey = (let status = operationStatusFromSaga (sct_Status control) in
     \<lparr>sm_OperationID = sp_OperationID params, sm_Service = service, sm_Env = sp_Env params,
      sm_Kind = operationKindFromSaga (si_Kind intent), sm_Status = status, sm_Lease = None, sm_ProviderOperations = [],
      sm_UpdatedAt = sct_UpdatedAt control, sm_TraceID = firstNonEmpty [sct_TraceID control, si_TraceID intent],
      sm_Resumable = (status = OperationPending \<or> status = OperationRunning),
      sm_ControlKey = controlKey, sm_IntentKey = intentKey\<rparr>)"

text \<open>One round of the loop over the saga intents.\<close>

definition sagaOperationSummary ::
  "('s, 'z) World_scheme \<Rightarrow> ops_ListOptions \<Rightarrow> string list \<Rightarrow> string \<Rightarrow> ('s, Summary option) io" where
  "sagaOperationSummary W opts seen metaKey = (case parseSagaIntentKey metaKey of
      None \<Rightarrow> io_ret None
    | Some sagaID \<Rightarrow>
        io_bind (os_Get W metaKey) (\<lambda>intentObj.
        io_bind (io_lift (decode_as ''saga intent'' metaKey dec_SagaIntent (obj_Body intentObj))) (\<lambda>intent.
        (let params = sagaOperationParams intent;
             service = firstNonEmpty [sp_Service params, tgt_Name (si_Target intent)] in
         if sp_OperationID params = [] then io_ret None
         else if service = [] then io_ret None
         else if olo_Service opts \<noteq> [] \<and> service \<noteq> olo_Service opts then io_ret None
         else if operationKey service (sp_OperationID params) \<in> set seen then io_ret None
         else
           io_bind (io_lift (paths_SagaControl sagaID)) (\<lambda>controlKey.
           io_bind (os_Get W controlKey) (\<lambda>controlObj.
           io_bind (io_lift (decode_as ''saga control'' controlKey dec_SagaControl (obj_Body controlObj))) (\<lambda>control.
           if \<not> olo_IncludeTerminal opts \<and> terminalStatus (operationStatusFromSaga (sct_Status control)) then io_ret None
           else io_ret (Some (sagaSummary params service intent control controlKey metaKey)))))))))"

fun listSagas :: "('s, 'z) World_scheme \<Rightarrow> ops_ListOptions \<Rightarrow> ObjectMeta list \<Rightarrow> Summary list \<Rightarrow> string list \<Rightarrow>
    ('s, Summary list) io" where
  "listSagas W opts [] out seen = io_ret out"
| "listSagas W opts (meta # metas) out seen =
     io_bind (sagaOperationSummary W opts seen (om_Key meta)) (\<lambda>r. case r of
        None \<Rightarrow> listSagas W opts metas out seen
      | Some summary \<Rightarrow> listSagas W opts metas (out @ [summary])
          (operationKey (sm_Service summary) (sm_OperationID summary) # seen))"

definition listSagaOperationSummaries ::
  "('s, 'z) World_scheme \<Rightarrow> ops_ListOptions \<Rightarrow> string list \<Rightarrow> ('s, Summary list) io" where
  "listSagaOperationSummaries W opts seen =
     io_bind (os_List W ''sagas/'' \<lparr>lo_Limit = 0\<rparr>) (\<lambda>metas. listSagas W opts metas [] seen)"

text \<open>
  The order of \<^verbatim>\<open>sort.Slice\<close>: by service, newest first, then by operation id. The listing holds no two
  summaries with the same service and operation id (shown below), so every correct sort returns the
  list computed here by insertion.
\<close>

definition summary_less :: "Summary \<Rightarrow> Summary \<Rightarrow> bool" where
  "summary_less a b =
     (if sm_Service a = sm_Service b then
        (if sm_UpdatedAt a = sm_UpdatedAt b then sm_OperationID a < sm_OperationID b else sm_UpdatedAt b < sm_UpdatedAt a)
      else sm_Service a < sm_Service b)"

fun insert_summary :: "Summary \<Rightarrow> Summary list \<Rightarrow> Summary list" where
  "insert_summary x [] = [x]"
| "insert_summary x (y # ys) = (if summary_less y x then y # insert_summary x ys else x # y # ys)"

definition sort_summaries :: "Summary list \<Rightarrow> Summary list" where
  "sort_summaries xs = foldr insert_summary xs []"

definition ops_List :: "('s, 'z) World_scheme \<Rightarrow> ops_ListOptions \<Rightarrow> ('s, Summary list) io" where
  "ops_List W opts =
     io_bind (io_lift (if olo_Service opts = [] then Inr ''services/''
        else rbind (validateName ''service'' (olo_Service opts)) (\<lambda>_.
          Inr (''services/'' @ olo_Service opts @ ''/operations/'')))) (\<lambda>pre.
     io_bind (os_List W pre \<lparr>lo_Limit = 0\<rparr>) (\<lambda>metas.
     io_bind (listControls W opts metas [] []) (\<lambda>(out, seen).
     io_bind (listSagaOperationSummaries W opts seen) (\<lambda>sagaItems.
     (let sorted = sort_summaries (out @ sagaItems) in
      io_ret (if 0 < olo_Limit opts \<and> olo_Limit opts < int (length sorted)
              then take (nat (olo_Limit opts)) sorted else sorted))))))"

section \<open>Lease operations\<close>

definition ops_AcquireLease ::
  "('s, 'z) World_scheme \<Rightarrow> string \<Rightarrow> string \<Rightarrow> ops_LeaseOptions \<Rightarrow> ('s, LeaseAcquireResult) io" where
  "ops_AcquireLease W service operationID opts =
     (if TrimSpace (ollo_Owner opts) = [] then io_fail (new_error ''operation lease owner is required'')
      else if ollo_Duration opts \<le> 0 then io_fail (new_error ''operation lease duration must be positive'')
      else
        io_bind (ops_GetControl W service operationID) (\<lambda>current.
        io_bind (io_now W) (\<lambda>now.
        io_bind (io_lift (ops_activeLease (oc_Lease (ocd_Control current)) now)) (\<lambda>active.
        if active then
          io_fail (wrap_sentinel CodeLeaseHeld (''operation lease is held by '' @
            (case oc_Lease (ocd_Control current) of None \<Rightarrow> [] | Some l \<Rightarrow> lse_Owner l)))
        else
          io_bind (io_token W) (\<lambda>token.
          io_bind (ops_UpdateControlCAS W current ((ocd_Control current)\<lparr>oc_Lease :=
             Some \<lparr>lse_Owner = ollo_Owner opts, lse_Token = token, lse_Generation = wrap64 now,
               lse_ExpiresAt = canonical_Time (now + ollo_Duration opts)\<rparr>\<rparr>)) (\<lambda>updated.
          io_bind (io_lift (leaseHandleFromControl updated)) (\<lambda>handle.
          io_ret \<lparr>lar_Handle = handle, lar_Control = updated, lar_PreviousLease = oc_Lease (ocd_Control current),
            lar_TookOver = (oc_Lease (ocd_Control current) \<noteq> None)\<rparr>)))))))"

definition ops_ReleaseLease :: "('s, 'z) World_scheme \<Rightarrow> ops_LeaseHandle \<Rightarrow> ('s, ops_ControlDocument) io" where
  "ops_ReleaseLease W handle =
     io_bind (ops_GetControl W (olh_Service handle) (olh_OperationID handle)) (\<lambda>current.
     io_bind (io_now W) (\<lambda>now.
     io_bind (io_lift (ensureLease handle current now)) (\<lambda>_.
     ops_UpdateControlCAS W current ((ocd_Control current)\<lparr>oc_Lease := None\<rparr>))))"

definition ops_UpdateControlWithLeaseCAS ::
  "('s, 'z) World_scheme \<Rightarrow> ops_LeaseHandle \<Rightarrow> (OperationControl \<Rightarrow> OperationControl result) \<Rightarrow>
   ('s, ops_LeaseHandle \<times> ops_ControlDocument) io" where
  "ops_UpdateControlWithLeaseCAS W handle mutate =
     io_bind (ops_GetControl W (olh_Service handle) (olh_OperationID handle)) (\<lambda>current.
     io_bind (io_now W) (\<lambda>now.
     io_bind (io_lift (ensureLease handle current now)) (\<lambda>_.
     if ocd_ETag current \<noteq> olh_ETag handle then
       io_fail (wrap_sentinel CodePreconditionFailed ''operation lease holder does not have latest control ETag'')
     else
       io_bind (io_lift (mutate (ocd_Control current))) (\<lambda>next0.
       io_bind (ops_UpdateControlCAS W current (next0\<lparr>oc_Lease := oc_Lease (ocd_Control current)\<rparr>)) (\<lambda>updated.
       io_bind (io_lift (leaseHandleFromControl updated)) (\<lambda>nextHandle.
       io_ret (nextHandle, updated)))))))"

section \<open>What the operations do to the world\<close>

definition op_key :: "string \<Rightarrow> string \<Rightarrow> string" where
  "op_key service operationID = ''services/'' @ service @ ''/operations/'' @ operationID @ ''/control.json''"

abbreviation op_at :: "(string \<rightharpoonup> (string \<times> body)) \<Rightarrow> string \<Rightarrow> string \<Rightarrow> (string \<times> OperationControl) option" where
  "op_at m service operationID \<equiv> view_at (doc_view dec_OperationControl) m (op_key service operationID)"

definition op_reads ::
  "('s, 'z) World_scheme \<Rightarrow> string \<Rightarrow> string \<Rightarrow> 's \<Rightarrow> string \<Rightarrow> OperationControl \<Rightarrow> 's \<Rightarrow> bool" where
  "op_reads W service operationID s e c t \<longleftrightarrow>
     (\<exists>doc. ops_GetControl W service operationID s = (Inr doc, t) \<and> ocd_ETag doc = e \<and> ocd_Control doc = c)"

definition op_swaps ::
  "('s, 'z) World_scheme \<Rightarrow> string \<Rightarrow> string \<Rightarrow> 's \<Rightarrow> string \<Rightarrow> string \<Rightarrow> OperationControl \<Rightarrow> 's \<Rightarrow> bool" where
  "op_swaps W service operationID s e e' c' t \<longleftrightarrow>
     (\<exists>cur n doc. ops_UpdateControlCAS W cur n s = (Inr doc, t) \<and> ocd_Key cur = op_key service operationID \<and>
        ocd_ETag cur = e \<and> pred_option wf_Lease (oc_Lease n) \<and> ocd_ETag doc = e' \<and> ocd_Control doc = c')"

lemma decode_as_Inr: "decode_as what key dec b = Inr x \<longleftrightarrow> (\<exists>j. b = JsonBody j \<and> dec j = Inr x)"
  by (simp add: decode_as_def UnmarshalStrict_Inr [symmetric] split: sum.splits)

lemma paths_OperationControl_Inr:
  "paths_OperationControl service x = Inr k \<longleftrightarrow> is_name service \<and> is_id x \<and> k = op_key service x"
  by (auto simp: paths_OperationControl_def rbind_Inr_iff op_key_def)

lemma wf_op_iff: "wf_OperationControl c \<longleftrightarrow> pred_option wf_Lease (oc_Lease c) \<and> raws_ok_OperationControl c"
  by (auto simp: wf_OperationControl_def raws_ok_OperationControl_def wf_StepResultRef_def raws_ok_StepResultRef_def list_all_iff)

lemma nextOperation_simps [simp]:
  "oc_OperationID (nextOperation cur n) = oc_OperationID (ocd_Control cur)"
  "oc_Service (nextOperation cur n) = oc_Service (ocd_Control cur)"
  "oc_Lease (nextOperation cur n) = oc_Lease n" "oc_Status (nextOperation cur n) = oc_Status n"
  "oc_StepResults (nextOperation cur n) = oc_StepResults n" "oc_ProviderOperations (nextOperation cur n) = oc_ProviderOperations n"
  by (simp_all add: nextOperation_def Let_def)

lemma leaseExpires_Inr:
  "leaseExpires l = Inr T \<longleftrightarrow> TrimSpace (lse_Owner l) \<noteq> [] \<and> TrimSpace (lse_Token l) \<noteq> [] \<and> 0 < lse_Generation l \<and>
     time_Parse (lse_ExpiresAt l) = Some T"
  by (auto simp: leaseExpires_def split: option.splits)

lemma ops_activeLease_False:
  "ops_activeLease l x = Inr False \<longleftrightarrow> (\<forall>y. l = Some y \<longrightarrow> (\<exists>T. leaseExpires y = Inr T \<and> T \<le> x))"
  by (auto simp: ops_activeLease_def rbind_Inr_iff split: option.splits)

lemma leaseHandle_etag: "leaseHandleFromControl doc = Inr h \<Longrightarrow> olh_ETag h = ocd_ETag doc"
  by (auto simp: leaseHandleFromControl_def rbind_Inr_iff split: option.splits)

lemma leaseHandle_token:
  "leaseHandleFromControl doc = Inr h \<Longrightarrow> oc_Lease (ocd_Control doc) = Some l \<Longrightarrow> olh_Token h = lse_Token l"
  by (auto simp: leaseHandleFromControl_def rbind_Inr_iff)

lemma ensureLease_ok:
  "ensureLease h doc x = Inr () \<longleftrightarrow> (\<exists>l T. oc_Lease (ocd_Control doc) = Some l \<and> olh_Service h = oc_Service (ocd_Control doc) \<and>
     olh_OperationID h = oc_OperationID (ocd_Control doc) \<and> lse_Owner l = olh_Owner h \<and> lse_Token l = olh_Token h \<and>
     lse_Generation l = olh_Generation h \<and> leaseExpires l = Inr T \<and> x < T)"
  by (auto simp: ensureLease_def ops_activeLease_def rbind_Inr_iff split: option.splits if_splits)

context world
begin

lemma quiet_ops [simp]:
  "quiet (ops_GetIntent W k x)" "quiet (ops_GetControl W k x)" "quiet (ops_UpdateControlCAS W cur n)"
  "quiet (ops_Inspect W k x)"
  by (auto simp: ops_GetIntent_def ops_GetControl_def ops_UpdateControlCAS_def ops_Inspect_def Let_def)

lemma quiet_ops_leases [simp]:
  "quiet (ops_AcquireLease W k x opts)" "quiet (ops_ReleaseLease W h)" "quiet (ops_UpdateControlWithLeaseCAS W h f)"
  by (auto simp: ops_AcquireLease_def ops_ReleaseLease_def ops_UpdateControlWithLeaseCAS_def)

lemma quiet_summaries [simp]: "quiet (controlSummary W opts k)" "quiet (sagaOperationSummary W opts seen k)"
  by (auto simp: controlSummary_def sagaOperationSummary_def Let_def)

lemma quiet_listControls [simp]: "quiet (listControls W opts ms out seen)"
  by (induction ms arbitrary: out seen) auto

lemma quiet_listSagas [simp]: "quiet (listSagas W opts ms out seen)"
  by (induction ms arbitrary: out seen) auto

lemma quiet_ops_List [simp]: "quiet (listSagaOperationSummaries W opts seen)" "quiet (ops_List W opts)"
  by (auto simp: listSagaOperationSummaries_def ops_List_def Let_def)

lemma ops_GetControl_ok:
  assumes "ops_GetControl W service x s = (Inr doc, t)"
  shows "evolves s t" "op_at (objs t) service x = Some (ocd_ETag doc, ocd_Control doc)" "ocd_Key doc = op_key service x"
    "is_name service" "is_id x" "oc_Service (ocd_Control doc) = service" "oc_OperationID (ocd_Control doc) = x"
    "wf_OperationControl (ocd_Control doc)" "oc_SchemaVersion (ocd_Control doc) = schema_Version"
proof -
  obtain obj where g: "os_Get W (op_key service x) s = (Inr obj, t)"
    "decode_as ''operation control'' (op_key service x) dec_OperationControl (obj_Body obj) = Inr (ocd_Control doc)"
    "ocd_ETag doc = obj_ETag obj" "ocd_Key doc = op_key service x" "is_name service" "is_id x"
    using assms by (auto simp: ops_GetControl_def io_ok_iffs Let_def objectMetaFromObject_def paths_OperationControl_Inr
        split: if_splits)
  show "evolves s t" "op_at (objs t) service x = Some (ocd_ETag doc, ocd_Control doc)" "ocd_Key doc = op_key service x"
    "is_name service" "is_id x"
    using get_ok [OF g(1)] g(2-6) by (auto simp: view_at_Some doc_view_Some decode_as_Inr)
  show "wf_OperationControl (ocd_Control doc)" using g(2) by (auto simp: decode_as_Inr dec_wf)
  show "oc_Service (ocd_Control doc) = service" "oc_OperationID (ocd_Control doc) = x"
    "oc_SchemaVersion (ocd_Control doc) = schema_Version"
    using assms by (auto simp: ops_GetControl_def io_ok_iffs Let_def split: if_splits)
qed

lemma ops_Update_ok:
  assumes "inv s" "ops_UpdateControlCAS W cur n s = (Inr doc, t)"
  shows "\<exists>u b0 now. evolves s u \<and> evolves u t \<and> objs u (ocd_Key cur) = Some (ocd_ETag cur, b0) \<and>
      objs t = (objs u)(ocd_Key cur \<mapsto> (ocd_ETag doc, JsonBody (enc_OperationControl (ocd_Control doc)))) \<and>
      ocd_ETag doc \<noteq> ocd_ETag cur \<and> ocd_Key doc = ocd_Key cur \<and>
      ocd_Control doc = (nextOperation cur n)\<lparr>oc_UpdatedAt := canonical_Time now\<rparr> \<and> raws_ok_OperationControl (ocd_Control doc) \<and>
      writes u (ocd_Key cur) (ocd_ETag doc) (JsonBody (enc_OperationControl (ocd_Control doc))) t"
proof -
  obtain now v meta where now: "io_now W s = (Inr now, v)"
    and *: "ocd_Control doc = (nextOperation cur n)\<lparr>oc_UpdatedAt := canonical_Time now\<rparr>"
      "raws_ok_OperationControl (ocd_Control doc)" "ocd_Key doc = ocd_Key cur" "ocd_ETag doc = om_ETag meta"
    and cas: "os_CompareAndSwap W (ocd_Key cur) (ocd_ETag cur) (JsonBody (enc_OperationControl (ocd_Control doc))) ops_putOptions v = (Inr meta, t)"
    using assms(2) by (auto simp: ops_UpdateControlCAS_def io_ok_iffs Let_def canonical_Marshal_def split: if_splits)
  have v: "evolves s v" using io_now_Inr [OF now] by blast
  from cas_ok [OF evolves_inv [OF v assms(1)] cas] show ?thesis
    using * evolves_trans [OF v] by metis
qed

end

sublocale world < op_doc: cas_document W objs inv evolves writes clock "op_key service operationID"
    "doc_view dec_OperationControl" "op_reads W service operationID" "op_swaps W service operationID" for service operationID
proof (unfold_locales, goal_cases)
  case (1 s e c t)
  then show ?case using ops_GetControl_ok by (auto simp: op_reads_def)
next
  case (2 s e e' c' t)
  then obtain cur n doc where up: "ops_UpdateControlCAS W cur n s = (Inr doc, t)" "ocd_Key cur = op_key service operationID"
    "ocd_ETag cur = e" "pred_option wf_Lease (oc_Lease n)" "ocd_ETag doc = e'" "ocd_Control doc = c'"
    unfolding op_swaps_def by blast
  have "wf_OperationControl c'" using ops_Update_ok [OF 2(1) up(1)] up(4,6) by (auto simp: wf_op_iff)
  then have "doc_view dec_OperationControl (JsonBody (enc_OperationControl c')) = Some c'"
    by (simp add: doc_view_Some codec_simps)
  then show ?case using ops_Update_ok [OF 2(1) up(1)] up(2,3,5,6) by metis
qed

context world
begin

lemma op_swaps_Update:
  "ops_UpdateControlCAS W cur n s = (Inr doc, t) \<Longrightarrow> ocd_Key cur = op_key service x \<Longrightarrow> pred_option wf_Lease (oc_Lease n) \<Longrightarrow>
     op_swaps W service x s (ocd_ETag cur) (ocd_ETag doc) (ocd_Control doc) t"
  by (auto simp: op_swaps_def)

text \<open>Acquisition: one read, one swap on what was read.\<close>

lemma ops_Acquire_ok:
  assumes "inv s" "ops_AcquireLease W service x opts s = (Inr r, t)"
  defines "doc \<equiv> lar_Control r"
  shows "\<exists>v v' e c y tok. op_reads W service x s e c v \<and> evolves v v' \<and> clock s \<le> y \<and> y \<le> clock v' \<and>
    ops_activeLease (oc_Lease c) y = Inr False \<and> op_swaps W service x v' e (ocd_ETag doc) (ocd_Control doc) t \<and>
    oc_Lease (ocd_Control doc) = Some \<lparr>lse_Owner = ollo_Owner opts, lse_Token = tok, lse_Generation = wrap64 y,
      lse_ExpiresAt = canonical_Time (y + ollo_Duration opts)\<rparr> \<and>
    oc_Status (ocd_Control doc) = oc_Status c \<and> oc_StepResults (ocd_Control doc) = oc_StepResults c \<and>
    oc_ProviderOperations (ocd_Control doc) = oc_ProviderOperations c \<and>
    lar_PreviousLease r = oc_Lease c \<and> lar_TookOver r = (oc_Lease c \<noteq> None) \<and> leaseHandleFromControl doc = Inr (lar_Handle r)"
proof -
  obtain cur v y v1 tok v2 where g: "ops_GetControl W service x s = (Inr cur, v)" and now: "io_now W v = (Inr y, v1)"
    and act: "ops_activeLease (oc_Lease (ocd_Control cur)) y = Inr False" and tok: "io_token W v1 = (Inr tok, v2)"
    and upd: "ops_UpdateControlCAS W cur ((ocd_Control cur)\<lparr>oc_Lease :=
             Some \<lparr>lse_Owner = ollo_Owner opts, lse_Token = tok, lse_Generation = wrap64 y,
               lse_ExpiresAt = canonical_Time (y + ollo_Duration opts)\<rparr>\<rparr>) v2 = (Inr doc, t)"
      (is "ops_UpdateControlCAS W cur ?n v2 = _")
    and h: "leaseHandleFromControl doc = Inr (lar_Handle r)" "lar_PreviousLease r = oc_Lease (ocd_Control cur)"
      "lar_TookOver r = (oc_Lease (ocd_Control cur) \<noteq> None)"
    using assms(2) unfolding doc_def by (auto simp: ops_AcquireLease_def io_ok_iffs)
  note gc = ops_GetControl_ok [OF g]
  have e: "evolves v v1" "y = clock v1" "evolves v1 v2"
    using io_now_Inr [OF now] quietD [of "io_token W", OF _ _ tok] evolves_inv gc(1) assms(1) by auto
  have ev: "evolves v v2" "clock s \<le> y" "y \<le> clock v2"
    using e gc(1) evolves_trans clock_mono by (blast, metis order_trans, auto)
  have sw: "op_swaps W service x v2 (ocd_ETag cur) (ocd_ETag doc) (ocd_Control doc) t"
    by (rule op_swaps_Update [OF upd gc(3)]) (simp add: wf_Lease_def)
  have "inv v2" using ev(1) gc(1) assms(1) evolves_inv by blast
  from ops_Update_ok [OF this upd] obtain nw where doc:
    "ocd_Control doc = (nextOperation cur ?n)\<lparr>oc_UpdatedAt := canonical_Time nw\<rparr>" by blast
  have rd: "op_reads W service x s (ocd_ETag cur) (ocd_Control cur) v" using g by (auto simp: op_reads_def)
  show ?thesis using rd ev act sw h doc
    by (intro exI [of _ v] exI [of _ v2] exI [of _ "ocd_ETag cur"] exI [of _ "ocd_Control cur"] exI [of _ y] exI [of _ tok]) simp
qed

text \<open>
  What a leased operation did: it read the document, found in it the handle's unexpired lease, and
  swapped a new document in on the ETag it had read.
\<close>

definition op_holder :: "ops_LeaseHandle \<Rightarrow> 's \<Rightarrow> string \<Rightarrow> OperationControl \<Rightarrow> ops_ControlDocument \<Rightarrow> 's \<Rightarrow> bool" where
  "op_holder h s e c doc t \<longleftrightarrow> (\<exists>v v' y l T. op_reads W (olh_Service h) (olh_OperationID h) s e c v \<and> evolves v v' \<and>
     clock s \<le> y \<and> oc_Lease c = Some l \<and> lse_Owner l = olh_Owner h \<and> lse_Token l = olh_Token h \<and>
     lse_Generation l = olh_Generation h \<and> leaseExpires l = Inr T \<and> y < T \<and>
     op_swaps W (olh_Service h) (olh_OperationID h) v' e (ocd_ETag doc) (ocd_Control doc) t \<and>
     oc_Service (ocd_Control doc) = oc_Service c \<and> oc_OperationID (ocd_Control doc) = oc_OperationID c)"

lemma op_holderI:
  assumes "inv s" "ops_GetControl W (olh_Service h) (olh_OperationID h) s = (Inr cur, v)" "io_now W v = (Inr y, v1)"
    "ensureLease h cur y = Inr ()" "ops_UpdateControlCAS W cur n v1 = (Inr doc, t)" "pred_option wf_Lease (oc_Lease n)"
  shows "op_holder h s (ocd_ETag cur) (ocd_Control cur) doc t"
    "\<exists>now. ocd_Control doc = (nextOperation cur n)\<lparr>oc_UpdatedAt := canonical_Time now\<rparr>"
proof -
  note gc = ops_GetControl_ok [OF assms(2)]
  have v: "evolves v v1" "y = clock v1" using io_now_Inr [OF assms(3)] by auto
  have i: "inv v1" using assms(1) gc(1) v(1) evolves_inv by blast
  from ops_Update_ok [OF this assms(5)] obtain nw where
    doc: "ocd_Control doc = (nextOperation cur n)\<lparr>oc_UpdatedAt := canonical_Time nw\<rparr>" by blast
  then show "\<exists>now. ocd_Control doc = (nextOperation cur n)\<lparr>oc_UpdatedAt := canonical_Time now\<rparr>" ..
  have r: "op_reads W (olh_Service h) (olh_OperationID h) s (ocd_ETag cur) (ocd_Control cur) v"
    using assms(2) by (auto simp: op_reads_def)
  have "clock s \<le> y" using clock_mono gc(1) v by (metis order_trans)
  moreover obtain l T where "oc_Lease (ocd_Control cur) = Some l" "lse_Owner l = olh_Owner h" "lse_Token l = olh_Token h"
    "lse_Generation l = olh_Generation h" "leaseExpires l = Inr T" "y < T"
    using assms(4) unfolding ensureLease_ok by blast
  ultimately show "op_holder h s (ocd_ETag cur) (ocd_Control cur) doc t"
    unfolding op_holder_def using r v(1) op_swaps_Update [OF assms(5) gc(3) assms(6)] doc
    by (intro exI [of _ v] exI [of _ v1] exI [of _ y] exI [of _ l] exI [of _ T]) simp
qed

lemma ops_UpdateWithLease_ok:
  assumes "inv s" "ops_UpdateControlWithLeaseCAS W h f s = (Inr (h', doc), t)"
  shows "\<exists>c n cur now. op_holder h s (olh_ETag h) c doc t \<and> f c = Inr n \<and> ocd_Control cur = c \<and> leaseHandleFromControl doc = Inr h' \<and>
    ocd_Control doc = (nextOperation cur (n\<lparr>oc_Lease := oc_Lease c\<rparr>))\<lparr>oc_UpdatedAt := canonical_Time now\<rparr>"
proof -
  obtain cur v y v1 n where *: "ops_GetControl W (olh_Service h) (olh_OperationID h) s = (Inr cur, v)" "io_now W v = (Inr y, v1)"
    "ensureLease h cur y = Inr ()" "ops_UpdateControlCAS W cur (n\<lparr>oc_Lease := oc_Lease (ocd_Control cur)\<rparr>) v1 = (Inr doc, t)"
    "ocd_ETag cur = olh_ETag h" "f (ocd_Control cur) = Inr n" "leaseHandleFromControl doc = Inr h'"
    using assms(2) by (auto simp: ops_UpdateControlWithLeaseCAS_def io_ok_iffs)
  have "pred_option wf_Lease (oc_Lease (n\<lparr>oc_Lease := oc_Lease (ocd_Control cur)\<rparr>))"
    using ops_GetControl_ok(8) [OF *(1)] by (simp add: wf_op_iff)
  from op_holderI [OF assms(1) *(1-4) this] show ?thesis using *(5-7)
    by (elim exE) (intro exI [of _ "ocd_Control cur"] exI [of _ n] exI [of _ cur] exI, simp)
qed

lemma ops_Release_ok:
  assumes "inv s" "ops_ReleaseLease W h s = (Inr doc, t)"
  shows "\<exists>e c. op_holder h s e c doc t \<and> oc_Lease (ocd_Control doc) = None \<and> oc_Status (ocd_Control doc) = oc_Status c"
proof -
  obtain cur v y v1 where *: "ops_GetControl W (olh_Service h) (olh_OperationID h) s = (Inr cur, v)" "io_now W v = (Inr y, v1)"
    "ensureLease h cur y = Inr ()" "ops_UpdateControlCAS W cur ((ocd_Control cur)\<lparr>oc_Lease := None\<rparr>) v1 = (Inr doc, t)"
    using assms(2) by (auto simp: ops_ReleaseLease_def io_ok_iffs)
  have "op_holder h s (ocd_ETag cur) (ocd_Control cur) doc t"
    "\<exists>now. ocd_Control doc = (nextOperation cur ((ocd_Control cur)\<lparr>oc_Lease := None\<rparr>))\<lparr>oc_UpdatedAt := canonical_Time now\<rparr>"
    using op_holderI [OF assms(1) *] by simp_all
  then show ?thesis by (intro exI [of _ "ocd_ETag cur"] exI [of _ "ocd_Control cur"]) auto
qed

end

section \<open>Keys and their parsers\<close>

lemma parseOperationControlKey_Some:
  "parseOperationControlKey k = Some (service, x) \<longleftrightarrow> k = op_key service x \<and> service \<noteq> [] \<and> x \<noteq> [] \<and>
     CHR ''/'' \<notin> set service \<and> CHR ''/'' \<notin> set x"
proof
  assume p: "parseOperationControlKey k = Some (service, x)"
  then have sp: "split_on (CHR ''/'') k = [''services'', service, ''operations'', x, ''control.json'']"
    by (auto simp: parseOperationControlKey_def split: list.splits if_splits)
  have "k = op_key service x" using join_split_slash [of k] unfolding sp by (simp add: op_key_def)
  moreover have "CHR ''/'' \<notin> set service" "CHR ''/'' \<notin> set x"
    using split_on_no_sep [of _ "CHR ''/''" k] unfolding sp by auto
  ultimately show "k = op_key service x \<and> service \<noteq> [] \<and> x \<noteq> [] \<and> CHR ''/'' \<notin> set service \<and> CHR ''/'' \<notin> set x"
    using p sp by (auto simp: parseOperationControlKey_def split: if_splits)
next
  assume k: "k = op_key service x \<and> service \<noteq> [] \<and> x \<noteq> [] \<and> CHR ''/'' \<notin> set service \<and> CHR ''/'' \<notin> set x"
  have "op_key service x = join_slash [''services'', service, ''operations'', x, ''control.json'']" by (simp add: op_key_def)
  then have "split_on (CHR ''/'') k = [''services'', service, ''operations'', x, ''control.json'']"
    using k split_join_slash [of "[''services'', service, ''operations'', x, ''control.json'']"] by (simp del: join_slash.simps)
  then show "parseOperationControlKey k = Some (service, x)" using k by (simp add: parseOperationControlKey_def)
qed

lemma parse_op_key: "is_name service \<Longrightarrow> is_id x \<Longrightarrow> parseOperationControlKey (op_key service x) = Some (service, x)"
  unfolding parseOperationControlKey_Some
  using is_name_no_slash is_id_no_slash is_id_nonempty is_name_is_id by auto

lemma parse_op_inj:
  "parseOperationControlKey k = Some p \<Longrightarrow> parseOperationControlKey k' = Some p \<Longrightarrow> k = k'"
  by (cases p) (simp add: parseOperationControlKey_Some)

lemma parseSagaIntentKey_Some:
  "parseSagaIntentKey k = Some i \<longleftrightarrow> k = ''sagas/'' @ i @ ''/intent.json'' \<and> i \<noteq> [] \<and> CHR ''/'' \<notin> set i"
proof
  assume p: "parseSagaIntentKey k = Some i"
  then have sp: "split_on (CHR ''/'') k = [''sagas'', i, ''intent.json'']"
    by (auto simp: parseSagaIntentKey_def split: list.splits if_splits)
  have "k = ''sagas/'' @ i @ ''/intent.json''" using join_split_slash [of k] unfolding sp by simp
  moreover have "CHR ''/'' \<notin> set i" using split_on_no_sep [of i "CHR ''/''" k] unfolding sp by auto
  ultimately show "k = ''sagas/'' @ i @ ''/intent.json'' \<and> i \<noteq> [] \<and> CHR ''/'' \<notin> set i"
    using p sp by (auto simp: parseSagaIntentKey_def split: if_splits)
next
  assume k: "k = ''sagas/'' @ i @ ''/intent.json'' \<and> i \<noteq> [] \<and> CHR ''/'' \<notin> set i"
  have "''sagas/'' @ i @ ''/intent.json'' = join_slash [''sagas'', i, ''intent.json'']" by simp
  then have "split_on (CHR ''/'') k = [''sagas'', i, ''intent.json'']"
    using k split_join_slash [of "[''sagas'', i, ''intent.json'']"] by (simp del: join_slash.simps)
  then show "parseSagaIntentKey k = Some i" using k by (simp add: parseSagaIntentKey_def)
qed

lemma operationKey_inj:
  assumes "CHR 0x00 \<notin> set s" "CHR 0x00 \<notin> set s'" "operationKey s x = operationKey s' x'"
  shows "s = s' \<and> x = x'"
  using assms
proof (induction s arbitrary: s')
  case Nil
  then show ?case by (cases s') (auto simp: operationKey_def)
next
  case (Cons c s)
  then show ?case by (cases s') (auto simp: operationKey_def)
qed

lemma is_name_no_nul: "is_name s \<Longrightarrow> CHR 0x00 \<notin> set s"
  by (auto simp: is_name_def list_all_iff isLowerAlnum_def)

section \<open>Sorting\<close>

lemma summary_less_irrefl [simp]: "\<not> summary_less a a"
  by (simp add: summary_less_def)

lemma summary_less_trans: "summary_less a b \<Longrightarrow> summary_less b c \<Longrightarrow> summary_less a c"
  by (auto simp: summary_less_def split: if_splits)

lemma summary_less_total:
  "summary_less a b \<or> summary_less b a \<or> (sm_Service a = sm_Service b \<and> sm_OperationID a = sm_OperationID b)"
  by (auto simp: summary_less_def)

lemma mset_insert_summary [simp]: "mset (insert_summary x ys) = add_mset x (mset ys)"
  by (induction ys) auto

lemma mset_sort_summaries [simp]: "mset (sort_summaries xs) = mset xs"
  by (induction xs) (auto simp: sort_summaries_def)

lemma set_sort_summaries [simp]: "set (sort_summaries xs) = set xs" "length (sort_summaries xs) = length xs"
  using mset_sort_summaries [of xs] mset_eq_setD mset_eq_length by blast+

abbreviation op_ident :: "Summary \<Rightarrow> string \<times> string" where
  "op_ident m \<equiv> (sm_Service m, sm_OperationID m)"

lemma insert_summary_sorted:
  assumes "sorted_wrt summary_less ys" "op_ident x \<notin> op_ident ` set ys"
  shows "sorted_wrt summary_less (insert_summary x ys)"
  using assms
proof (induction ys)
  case (Cons y ys)
  have st: "set (insert_summary x ys) = insert x (set ys)"
    using mset_insert_summary [of x ys] by (metis set_mset_add_mset_insert set_mset_mset)
  show ?case
  proof (cases "summary_less y x")
    case True
    then show ?thesis using Cons st by auto
  next
    case False
    then have "summary_less x y" using summary_less_total [of x y] Cons.prems(2) by auto
    then show ?thesis using False Cons.prems(1) summary_less_trans by auto
  qed
qed simp

lemma sort_summaries_sorted: "distinct (map op_ident xs) \<Longrightarrow> sorted_wrt summary_less (sort_summaries xs)"
proof (induction xs)
  case (Cons x xs)
  then show ?case using insert_summary_sorted [of "sort_summaries xs" x] set_sort_summaries(1) [of xs]
    by (auto simp: sort_summaries_def)
qed (simp add: sort_summaries_def)

section \<open>What the listing returns\<close>

abbreviation selected :: "ops_ListOptions \<Rightarrow> Summary \<Rightarrow> bool" where
  "selected opts m \<equiv> (olo_Service opts = [] \<or> sm_Service m = olo_Service opts) \<and>
     (olo_IncludeTerminal opts \<or> \<not> terminalStatus (sm_Status m))"

abbreviation seen_key :: "Summary \<Rightarrow> string" where
  "seen_key m \<equiv> operationKey (sm_Service m) (sm_OperationID m)"

lemma summaryFromControl_simps [simp]:
  "sm_Service (summaryFromControl doc) = oc_Service (ocd_Control doc)"
  "sm_OperationID (summaryFromControl doc) = oc_OperationID (ocd_Control doc)"
  "sm_Status (summaryFromControl doc) = oc_Status (ocd_Control doc)"
  "sm_Lease (summaryFromControl doc) = oc_Lease (ocd_Control doc)"
  by (simp_all add: summaryFromControl_def Let_def)

lemma with_intent_simps [simp]:
  "sm_Service (with_intent m r) = sm_Service m" "sm_OperationID (with_intent m r) = sm_OperationID m"
  "sm_Status (with_intent m r) = sm_Status m" "sm_Lease (with_intent m r) = sm_Lease m"
  by (simp_all add: with_intent_def split: sum.splits)

lemma subseq_distinct: "subseq xs ys \<Longrightarrow> distinct ys \<Longrightarrow> distinct xs"
  using subseqs_distinctD [of xs ys] by simp

lemma set_map_filter_iff: "p \<in> set (List.map_filter f xs) \<longleftrightarrow> (\<exists>x \<in> set xs. f x = Some p)"
  by (induction xs) (auto simp: map_filter_simps split: option.splits)

lemma distinct_parsed_keys:
  "distinct (map om_Key ms) \<Longrightarrow> distinct (List.map_filter (\<lambda>m. parseOperationControlKey (om_Key m)) ms)"
proof (induction ms)
  case (Cons m ms)
  have "p \<notin> set (List.map_filter (\<lambda>m. parseOperationControlKey (om_Key m)) ms)"
    if p: "parseOperationControlKey (om_Key m) = Some p" for p
  proof
    assume "p \<in> set (List.map_filter (\<lambda>m. parseOperationControlKey (om_Key m)) ms)"
    then obtain m' where "m' \<in> set ms" "parseOperationControlKey (om_Key m') = Some p" unfolding set_map_filter_iff by blast
    then have "om_Key m \<in> om_Key ` set ms" using parse_op_inj [OF p] by (metis image_eqI)
    then show False using Cons.prems by simp
  qed
  then show ?case using Cons by (auto simp: map_filter_simps split: option.splits)
qed (simp add: map_filter_simps)

lemma sagaSummary_simps [simp]:
  "sm_Service (sagaSummary p svc i c k k') = svc" "sm_OperationID (sagaSummary p svc i c k k') = sp_OperationID p"
  "sm_Status (sagaSummary p svc i c k k') = operationStatusFromSaga (sct_Status c)"
  by (simp_all add: sagaSummary_def Let_def)

context world
begin

text \<open>What one round returns.\<close>

lemma controlSummary_None:
  assumes "controlSummary W opts k s = (Inr None, t)" "parseOperationControlKey k = Some (svc, x)"
    "olo_Service opts = [] \<or> svc = olo_Service opts"
  shows "\<exists>doc. ops_GetControl W svc x s = (Inr doc, t) \<and> \<not> olo_IncludeTerminal opts \<and> terminalStatus (oc_Status (ocd_Control doc))"
proof -
  have sel: "\<not> (olo_Service opts \<noteq> [] \<and> svc \<noteq> olo_Service opts)" using assms(3) by auto
  obtain doc u where g: "ops_GetControl W svc x s = (Inr doc, u)" and rest: "(if \<not> olo_IncludeTerminal opts \<and>
      terminalStatus (oc_Status (ocd_Control doc)) then io_ret None
      else io_bind (io_try (ops_GetIntent W svc x)) (\<lambda>r. io_ret (Some (with_intent (summaryFromControl doc) r)))) u = (Inr None, t)"
    using assms(1,2) unfolding controlSummary_def by (simp only: option.case prod.case if_not_P [OF sel] io_bind_Inr_iff) blast
  show ?thesis
  proof (cases "\<not> olo_IncludeTerminal opts \<and> terminalStatus (oc_Status (ocd_Control doc))")
    case True
    then show ?thesis using g rest by simp
  next
    case False
    show ?thesis using rest unfolding if_not_P [OF False] by (simp add: io_bind_Inr_iff)
  qed
qed

lemma controlSummary_Some:
  assumes "controlSummary W opts k s = (Inr (Some sm), t)"
  shows "\<exists>doc u. parseOperationControlKey k = Some (op_ident sm) \<and> ops_GetControl W (sm_Service sm) (sm_OperationID sm) s = (Inr doc, u) \<and>
    is_name (sm_Service sm) \<and> selected opts sm \<and> sm_Status sm = oc_Status (ocd_Control doc) \<and> sm_Lease sm = oc_Lease (ocd_Control doc)"
proof -
  obtain svc x doc u r where *: "parseOperationControlKey k = Some (svc, x)" "olo_Service opts = [] \<or> svc = olo_Service opts"
    "ops_GetControl W svc x s = (Inr doc, u)" "olo_IncludeTerminal opts \<or> \<not> terminalStatus (oc_Status (ocd_Control doc))"
    "sm = with_intent (summaryFromControl doc) r"
    using assms by (auto simp: controlSummary_def io_bind_Inr_iff split: option.splits if_splits)
  have "sm_Service sm = svc" "sm_OperationID sm = x" "sm_Status sm = oc_Status (ocd_Control doc)" "sm_Lease sm = oc_Lease (ocd_Control doc)"
    using *(5) ops_GetControl_ok(6,7) [OF *(3)] by simp_all
  then show ?thesis using * ops_GetControl_ok(4) [OF *(3)] by (intro exI [of _ doc] exI [of _ u]) simp
qed

lemma sagaOperationSummary_Some:
  assumes "sagaOperationSummary W opts seen k s = (Inr (Some sm), t)"
  shows "selected opts sm" "seen_key sm \<notin> set seen"
  using assms by (auto simp: sagaOperationSummary_def io_bind_Inr_iff Let_def split: option.splits if_splits)

lemma listControls_ok:
  assumes "listControls W opts ms out seen s = (Inr (out', seen'), t)"
  shows "\<exists>new. out' = out @ new \<and> set seen' = seen_key ` set new \<union> set seen \<and>
    subseq (map op_ident new) (List.map_filter (\<lambda>m. parseOperationControlKey (om_Key m)) ms) \<and>
    (\<forall>m \<in> set new. selected opts m \<and> is_name (sm_Service m))"
  using assms
proof (induction ms arbitrary: out seen s)
  case Nil
  then show ?case by (auto simp: map_filter_simps)
next
  case (Cons m ms)
  let ?P = "List.map_filter (\<lambda>m. parseOperationControlKey (om_Key m))"
  from Cons.prems obtain r u where r: "controlSummary W opts (om_Key m) s = (Inr r, u)"
    and l: "(case r of None \<Rightarrow> listControls W opts ms out seen
      | Some sm \<Rightarrow> listControls W opts ms (out @ [sm]) (seen_key sm # seen)) u = (Inr (out', seen'), t)"
    by (auto simp: io_bind_Inr_iff)
  show ?case
  proof (cases r)
    case None
    then have "listControls W opts ms out seen u = (Inr (out', seen'), t)" using l by simp
    from Cons.IH [OF this] show ?thesis by (auto simp: map_filter_simps split: option.splits)
  next
    case (Some sm)
    obtain new where n: "out' = (out @ [sm]) @ new" "set seen' = seen_key ` set new \<union> set (seen_key sm # seen)"
      "subseq (map op_ident new) (?P ms)" "\<forall>m \<in> set new. selected opts m \<and> is_name (sm_Service m)"
      using Cons.IH [of "out @ [sm]" "seen_key sm # seen" u] l Some by auto
    have sm: "parseOperationControlKey (om_Key m) = Some (op_ident sm)" "selected opts sm \<and> is_name (sm_Service sm)"
      using controlSummary_Some r Some by blast+
    have "?P (m # ms) = op_ident sm # ?P ms" using sm(1) by (simp add: map_filter_simps)
    then show ?thesis using n sm(2) by (intro exI [of _ "sm # new"]) simp
  qed
qed

text \<open>The loop over saga intents adds selected summaries whose operation keys are new.\<close>

lemma listSagas_ok:
  assumes "listSagas W opts ms out seen s = (Inr out', t)"
  shows "\<exists>new. out' = out @ new \<and> distinct (map seen_key new) \<and> seen_key ` set new \<inter> set seen = {} \<and>
    (\<forall>m \<in> set new. selected opts m)"
  using assms
proof (induction ms arbitrary: out seen s)
  case Nil
  then show ?case by auto
next
  case (Cons m ms)
  from Cons.prems obtain r u where r: "sagaOperationSummary W opts seen (om_Key m) s = (Inr r, u)"
    and l: "(case r of None \<Rightarrow> listSagas W opts ms out seen
      | Some sm \<Rightarrow> listSagas W opts ms (out @ [sm]) (seen_key sm # seen)) u = (Inr out', t)"
    by (auto simp: io_bind_Inr_iff)
  show ?case
  proof (cases r)
    case None
    then show ?thesis using l Cons.IH by simp
  next
    case (Some sm)
    obtain new where n: "out' = (out @ [sm]) @ new" "distinct (map seen_key new)" "seen_key ` set new \<inter> set (seen_key sm # seen) = {}"
      "\<forall>m \<in> set new. selected opts m"
      using Cons.IH [of "out @ [sm]" "seen_key sm # seen" u] l Some by auto
    then show ?thesis using sagaOperationSummary_Some [of opts seen "om_Key m" s sm u] r Some
      by (intro exI [of _ "sm # new"]) auto
  qed
qed

lemma ops_List_ok:
  assumes "inv s" "ops_List W opts s = (Inr out, t)"
  shows "sorted_wrt summary_less out" "\<forall>m \<in> set out. selected opts m" "0 < olo_Limit opts \<Longrightarrow> int (length out) \<le> olo_Limit opts"
proof -
  obtain pre ms u res seen v sagas where l: "os_List W pre \<lparr>lo_Limit = 0\<rparr> s = (Inr ms, u)"
    "listControls W opts ms [] [] u = (Inr (res, seen), v)" "listSagaOperationSummaries W opts seen v = (Inr sagas, t)"
    and out: "out = (let sorted = sort_summaries (res @ sagas) in
      if 0 < olo_Limit opts \<and> olo_Limit opts < int (length sorted) then take (nat (olo_Limit opts)) sorted else sorted)"
    using assms(2) by (auto simp: ops_List_def io_bind_Inr_iff Let_def split: if_splits)
  have "distinct (map om_Key ms)" using list_ok [OF assms(1) l(1)] by blast
  note d = distinct_parsed_keys [OF this]
  have r: "set seen = seen_key ` set res" "subseq (map op_ident res) (List.map_filter (\<lambda>m. parseOperationControlKey (om_Key m)) ms)"
    "\<forall>m \<in> set res. selected opts m"
    using listControls_ok [OF l(2)] by auto
  obtain w mss where "listSagas W opts mss [] seen w = (Inr sagas, t)"
    using l(3) by (auto simp: listSagaOperationSummaries_def io_bind_Inr_iff)
  from listSagas_ok [OF this] have sg: "distinct (map seen_key sagas)" "seen_key ` set sagas \<inter> set seen = {}" "\<forall>m \<in> set sagas. selected opts m"
    by auto
  have "distinct (map op_ident res)" using r(2) d by (rule subseq_distinct)
  moreover have "distinct (map op_ident sagas)"
    using sg(1) by (auto simp: distinct_map inj_on_def)
  moreover have "op_ident ` set res \<inter> op_ident ` set sagas = {}" 
  proof (rule equals0I, elim IntE imageE)
    fix p a b
    assume "a \<in> set res" "b \<in> set sagas" "p = op_ident a" "p = op_ident b"
    then have "seen_key b \<in> seen_key ` set sagas \<inter> set seen" unfolding r(1) by (simp add: rev_image_eqI)
    then show False using sg(2) by blast
  qed
  ultimately have "distinct (map op_ident (res @ sagas))" by simp
  from sort_summaries_sorted [OF this] show "sorted_wrt summary_less out"
    unfolding out Let_def by (auto intro: sorted_wrt_take)
  show "\<forall>m \<in> set out. selected opts m"
    using r(3) sg(3) unfolding out Let_def by (auto split: if_splits dest!: in_set_takeD)
  show "0 < olo_Limit opts \<Longrightarrow> int (length out) \<le> olo_Limit opts"
    unfolding out Let_def by (auto simp: min_def)
qed

end

section \<open>A client alone\<close>

lemma still_ops [simp]:
  "still (ops_GetControl sys_world svc x)" "still (ops_GetIntent sys_world svc x)" "still (controlSummary sys_world opts k)"
  by (auto simp: ops_GetControl_def ops_GetIntent_def controlSummary_def Let_def)

lemma still_sagas [simp]: "still (sagaOperationSummary sys_world opts seen k)"
  by (auto simp: sagaOperationSummary_def Let_def)

lemma still_loops [simp]:
  "still (listControls sys_world opts ms out seen)" "still (listSagas sys_world opts ms out seen)"
  by (induction ms arbitrary: out seen) auto

text \<open>An operation's control document is stored and, unless the options leave it out, it is listed.\<close>

definition listed :: "ops_ListOptions \<Rightarrow> (string \<rightharpoonup> (string \<times> body)) \<Rightarrow> Summary list \<Rightarrow> string \<Rightarrow> string \<Rightarrow> bool" where
  "listed opts m out svc x \<longleftrightarrow> (\<exists>e c. op_at m svc x = Some (e, c) \<and>
     (olo_IncludeTerminal opts \<or> \<not> terminalStatus (oc_Status c) \<longrightarrow>
      (\<exists>sm \<in> set out. op_ident sm = (svc, x) \<and> sm_Status sm = oc_Status c \<and> sm_Lease sm = oc_Lease c)))"

lemma alone_listControls:
  assumes "sys_env s = []" "listControls sys_world opts ms out seen s = (Inr (out', seen'), t)"
  shows "set out \<subseteq> set out' \<and> (\<forall>m \<in> set ms. \<forall>svc x. parseOperationControlKey (om_Key m) = Some (svc, x) \<longrightarrow>
      olo_Service opts = [] \<or> svc = olo_Service opts \<longrightarrow> listed opts (sys_objs s) out' svc x)"
  using assms(2)
proof (induction ms arbitrary: out seen)
  case Nil
  then show ?case by auto
next
  case (Cons m ms)
  from Cons.prems obtain r u where r: "controlSummary sys_world opts (om_Key m) s = (Inr r, u)"
    and l: "(case r of None \<Rightarrow> listControls sys_world opts ms out seen
      | Some sm \<Rightarrow> listControls sys_world opts ms (out @ [sm]) (seen_key sm # seen)) u = (Inr (out', seen'), t)"
    by (auto simp: io_bind_Inr_iff)
  have u: "u = s" by (rule stillD [OF still_ops(3) assms(1) r])
  show ?case
  proof (cases r)
    case None
    have "listed opts (sys_objs s) out' svc x"
      if p: "parseOperationControlKey (om_Key m) = Some (svc, x)" "olo_Service opts = [] \<or> svc = olo_Service opts" for svc x
      using sysw.controlSummary_None [OF r [unfolded None] p] sysw.ops_GetControl_ok(2) u unfolding listed_def by fastforce
    then show ?thesis using Cons.IH [of out seen] l None u by simp
  next
    case (Some sm)
    obtain doc v where d: "parseOperationControlKey (om_Key m) = Some (op_ident sm)"
      "ops_GetControl sys_world (sm_Service sm) (sm_OperationID sm) s = (Inr doc, v)"
      "sm_Status sm = oc_Status (ocd_Control doc)" "sm_Lease sm = oc_Lease (ocd_Control doc)"
      using sysw.controlSummary_Some [OF r [unfolded Some]] by blast
    have "v = s" by (rule stillD [OF still_ops(1) assms(1) d(2)])
    then have "op_at (sys_objs s) (sm_Service sm) (sm_OperationID sm) = Some (ocd_ETag doc, ocd_Control doc)"
      using sysw.ops_GetControl_ok(2) [OF d(2)] by simp
    moreover have out: "set (out @ [sm]) \<subseteq> set out'"
      and IH: "\<forall>m \<in> set ms. \<forall>svc x. parseOperationControlKey (om_Key m) = Some (svc, x) \<longrightarrow>
        olo_Service opts = [] \<or> svc = olo_Service opts \<longrightarrow> listed opts (sys_objs s) out' svc x"
      using Cons.IH [of "out @ [sm]" "seen_key sm # seen"] l Some u by simp_all
    ultimately have "listed opts (sys_objs s) out' (sm_Service sm) (sm_OperationID sm)"
      unfolding listed_def using d(3,4) by (intro exI [of _ "ocd_ETag doc"] exI [of _ "ocd_Control doc"]) auto
    then show ?thesis using d(1) out IH by (auto simp: disj_imp)
  qed
qed

lemma op_key_prefix: "prefix ''services/'' (op_key svc x)" "prefix (''services/'' @ svc @ ''/operations/'') (op_key svc x)"
  by (simp_all add: op_key_def)

lemma alone_ops_List:
  assumes "sys_env s = []" "sys_inv s" "ops_List sys_world opts s = (Inr out, t)" "olo_Limit opts \<le> 0"
    "sys_objs s (op_key svc x) \<noteq> None" "is_name svc" "is_id x" "olo_Service opts = [] \<or> svc = olo_Service opts"
  shows "t = s \<and> listed opts (sys_objs s) out svc x"
proof -
  obtain pre ms u res seen v sagas where pre: "prefix pre (op_key svc x)"
    and l: "os_List sys_world pre \<lparr>lo_Limit = 0\<rparr> s = (Inr ms, u)" "listControls sys_world opts ms [] [] u = (Inr (res, seen), v)"
      "listSagaOperationSummaries sys_world opts seen v = (Inr sagas, t)"
    and out: "out = sort_summaries (res @ sagas)"
    using assms(3,4,8) op_key_prefix [of svc x]
    by (auto simp: ops_List_def io_bind_Inr_iff rbind_Inr_iff Let_def split: if_splits)
  have u: "u = s" "om_Key ` set ms = {k. prefix pre k \<and> sys_objs s k \<noteq> None}" using alone_List [OF assms(1,2) l(1)] by simp_all
  have v: "v = s" using stillD [OF still_loops(1) assms(1)] l(2) u(1) by blast
  have "still (listSagaOperationSummaries sys_world opts seen)" by (auto simp: listSagaOperationSummaries_def)
  then have "t = s" using stillD [OF _ assms(1)] l(3) v by blast
  moreover have "op_key svc x \<in> om_Key ` set ms" unfolding u(2) using pre assms(5) by simp
  then obtain m where m: "m \<in> set ms" "om_Key m = op_key svc x" by auto
  then have "listed opts (sys_objs s) res svc x"
    using alone_listControls [OF assms(1) l(2) [unfolded u(1)]] parse_op_key [OF assms(6,7)] assms(8) by metis
  then have "listed opts (sys_objs s) out svc x" unfolding listed_def out by fastforce
  ultimately show ?thesis by blast
qed

lemma alone_ops_GetControl:
  assumes "sys_env s = []" "op_at (sys_objs s) svc x = Some (e, c)" "is_name svc" "is_id x" "oc_Service c = svc"
    "oc_OperationID c = x" "oc_SchemaVersion c = schema_Version" "pred_option (\<lambda>l. \<exists>T. leaseExpires l = Inr T) (oc_Lease c)"
  shows "\<exists>doc. ops_GetControl sys_world svc x s = (Inr doc, s) \<and> ocd_Key doc = op_key svc x \<and> ocd_ETag doc = e \<and> ocd_Control doc = c"
proof -
  obtain j where j: "sys_objs s (op_key svc x) = Some (e, JsonBody j)" "dec_OperationControl j = Inr c"
    using assms(2) by (auto simp: view_at_Some doc_view_Some)
  obtain ob where ob: "os_Get sys_world (op_key svc x) s = (Inr ob, s)" "obj_ETag ob = e" "obj_Body ob = JsonBody j"
    using alone_Get [OF assms(1) j(1)] by blast
  have k: "paths_OperationControl svc x = Inr (op_key svc x)" using assms(3,4) by (simp add: paths_OperationControl_Inr)
  have d: "decode_as w k dec_OperationControl (obj_Body ob) = Inr c" for w k using ob(3) j(2) by (auto simp: decode_as_Inr)
  have l: "(case oc_Lease c of None \<Rightarrow> Inr () | Some l \<Rightarrow> rbind (leaseExpires l) (\<lambda>_. Inr ())) = Inr ()"
    using assms(8) by (auto simp: rbind_Inr_iff split: option.splits)
  show ?thesis using ob k d l assms(5-7)
    by (simp add: ops_GetControl_def io_bind_def io_lift_def Let_def objectMetaFromObject_def)
qed

lemma alone_ops_Update:
  assumes "sys_env s = []" "sys_objs s (ocd_Key cur) = Some (ocd_ETag cur, b)"
    "c' = (nextOperation cur n)\<lparr>oc_UpdatedAt := canonical_Time (sys_now s)\<rparr>" "raws_ok_OperationControl c'"
  shows "\<exists>doc t. ops_UpdateControlCAS sys_world cur n s = (Inr doc, t) \<and> ocd_Control doc = c' \<and> ocd_Key doc = ocd_Key cur \<and>
    sys_env t = [] \<and> sys_now t = sys_now s \<and> sys_tokens t = sys_tokens s \<and>
    sys_objs t = (sys_objs s)(ocd_Key cur \<mapsto> (ocd_ETag doc, JsonBody (enc_OperationControl c')))"
proof -
  obtain m t where "os_CompareAndSwap sys_world (ocd_Key cur) (ocd_ETag cur) (JsonBody (enc_OperationControl c')) ops_putOptions s = (Inr m, t)"
    "sys_objs t = (sys_objs s)(ocd_Key cur \<mapsto> (om_ETag m, JsonBody (enc_OperationControl c')))"
    "sys_env t = []" "sys_now t = sys_now s" "sys_tokens t = sys_tokens s"
    using alone_CAS [OF assms(1,2)] by blast
  then show ?thesis using assms
    by (simp add: ops_UpdateControlCAS_def io_bind_def io_lift_def io_try_def canonical_Marshal_def Let_def io_ret_def)
qed

definition old_lease :: Lease where
  "old_lease = \<lparr>lse_Owner = ''w1'', lse_Token = ''t1'', lse_Generation = 1, lse_ExpiresAt = canonical_Time 500\<rparr>"

definition op1_control :: OperationControl where
  "op1_control = zero_OperationControl\<lparr>oc_SchemaVersion := schema_Version, oc_OperationID := ''op-1'', oc_Service := ''web'',
     oc_Env := ''prod'', oc_Status := OperationRunning, oc_Lease := Some old_lease\<rparr>"

definition op1_sys :: sys where
  "op1_sys = \<lparr>sys_store = snd (memory_Create None (op_key ''web'' ''op-1'') (JsonBody (enc_OperationControl op1_control))
       ops_putOptions memory_New),
     sys_now = 1000, sys_tokens = [], sys_events = [], sys_env = [], sys_history = []\<rparr>"

definition op1_opts :: ops_LeaseOptions where
  "op1_opts = \<lparr>ollo_Owner = ''w2'', ollo_Duration = 30000000000\<rparr>"

lemma op1_names: "is_name ''web''" "is_id ''op-1''"
  by (simp_all add: is_name_def is_id_def isLowerAlnum_def reservedSegments_def isIDChar_def Let_def)

lemma op1_time: "time_Parse (canonical_Time 500) = Some 500" "time_Parse (canonical_Time 30000001000) = Some 30000001000"
  by (simp_all add: time_ok_int64 in_int64_def)

lemma old_lease_expires: "leaseExpires old_lease = Inr 500"
  by (simp add: leaseExpires_Inr old_lease_def op1_time TrimSpace_printable printable_def)

lemma op1_facts:
  "sys_env op1_sys = []" "sys_inv op1_sys" "sys_now op1_sys = 1000" "wf_OperationControl op1_control"
  "op_at (sys_objs op1_sys) ''web'' ''op-1'' = Some (etagForVersion 1, op1_control)"
proof -
  show wf: "wf_OperationControl op1_control"
    by (simp add: wf_OperationControl_def op1_control_def zero_OperationControl_def old_lease_def wf_Lease_def in_int64_def)
  show "op_at (sys_objs op1_sys) ''web'' ''op-1'' = Some (etagForVersion 1, op1_control)"
    by (simp add: view_at_Some doc_view_Some sys_objs_def op1_sys_def memory_Create_def memory_New_def nextTimeLocked_def
        Let_def memory_objs_def codec_OperationControl [OF wf] op_key_def)
  show "sys_inv op1_sys"
    by (simp add: sys_inv_def op1_sys_def memory_Create_def memory_New_def nextTimeLocked_def Let_def memory_inv_def entry_ok_def
        op_key_def)
qed (simp_all add: op1_sys_def)

lemma op1_acquire:
  "\<exists>r t. ops_AcquireLease sys_world ''web'' ''op-1'' op1_opts op1_sys = (Inr r, t) \<and> sys_env t = [] \<and> sys_now t = 1000 \<and>
     lar_PreviousLease r = Some old_lease \<and> olh_Service (lar_Handle r) = ''web'' \<and> olh_OperationID (lar_Handle r) = ''op-1'' \<and>
     op_at (sys_objs t) ''web'' ''op-1'' = Some (olh_ETag (lar_Handle r), ocd_Control (lar_Control r)) \<and>
     ensureLease (lar_Handle r) (lar_Control r) 1000 = Inr () \<and> leaseHandleFromControl (lar_Control r) = Inr (lar_Handle r) \<and>
     oc_Service (ocd_Control (lar_Control r)) = ''web'' \<and> oc_OperationID (ocd_Control (lar_Control r)) = ''op-1'' \<and>
     oc_SchemaVersion (ocd_Control (lar_Control r)) = schema_Version \<and> oc_StepResults (ocd_Control (lar_Control r)) = []"
proof -
  let ?l = "\<lparr>lse_Owner = ''w2'', lse_Token = ''lease_0'', lse_Generation = 1000, lse_ExpiresAt = canonical_Time 30000001000\<rparr>"
  let ?n = "op1_control\<lparr>oc_Lease := Some ?l\<rparr>"
  have id: "oc_Service op1_control = ''web''" "oc_OperationID op1_control = ''op-1''" "oc_SchemaVersion op1_control = schema_Version"
    "oc_Lease op1_control = Some old_lease" "oc_StepResults op1_control = []"
    by (simp_all add: op1_control_def zero_OperationControl_def)
  have pl: "pred_option (\<lambda>l. \<exists>T. leaseExpires l = Inr T) (oc_Lease op1_control)" using id(4) old_lease_expires by simp
  obtain cur where cur: "ops_GetControl sys_world ''web'' ''op-1'' op1_sys = (Inr cur, op1_sys)" "ocd_Key cur = op_key ''web'' ''op-1''"
    "ocd_ETag cur = etagForVersion 1" "ocd_Control cur = op1_control"
    using alone_ops_GetControl [OF op1_facts(1,5) op1_names id(1-3) pl] by blast
  obtain b where b: "sys_objs op1_sys (ocd_Key cur) = Some (ocd_ETag cur, b)" using op1_facts(5) cur by (auto simp: view_at_Some)
  define c' where "c' = (nextOperation cur ?n)\<lparr>oc_UpdatedAt := canonical_Time (sys_now op1_sys)\<rparr>"
  have raws: "raws_ok_OperationControl c'" using id(5) by (simp add: raws_ok_OperationControl_def c'_def)
  obtain doc t where u: "ops_UpdateControlCAS sys_world cur ?n op1_sys = (Inr doc, t)" "ocd_Control doc = c'" "sys_env t = []"
    "sys_now t = sys_now op1_sys" "sys_objs t = (sys_objs op1_sys)(ocd_Key cur \<mapsto> (ocd_ETag doc, JsonBody (enc_OperationControl c')))"
    using alone_ops_Update [OF op1_facts(1) b c'_def raws] by blast
  have le: "leaseExpires ?l = Inr 30000001000" by (simp add: leaseExpires_Inr op1_time TrimSpace_printable printable_def)
  define h where "h = \<lparr>olh_Service = ''web'', olh_OperationID = ''op-1'', olh_Owner = ''w2'', olh_Token = ''lease_0'',
    olh_Generation = 1000, olh_ExpiresAt = 30000001000, olh_ETag = ocd_ETag doc\<rparr>"
  have hd: "leaseHandleFromControl doc = Inr h"
    using u(2) le cur(4) id by (simp add: leaseHandleFromControl_def h_def c'_def rbind_def)
  have act: "ops_activeLease (oc_Lease op1_control) 1000 = Inr False"
    using id(4) old_lease_expires by (simp add: ops_activeLease_False)
  have tok: "io_token sys_world op1_sys = (Inr ''lease_0'', op1_sys)" by (simp add: alone_token op1_sys_def)
  have ow: "TrimSpace ''w2'' = ''w2''" by (rule TrimSpace_printable) (simp add: printable_def)
  have "ops_AcquireLease sys_world ''web'' ''op-1'' op1_opts op1_sys =
      (Inr \<lparr>lar_Handle = h, lar_Control = doc, lar_PreviousLease = Some old_lease, lar_TookOver = True\<rparr>, t)"
    using tok cur u(1) hd id op1_facts(1,3) act ow
    by (simp add: ops_AcquireLease_def io_bind_def io_lift_def io_ret_def op1_opts_def wrap64_id in_int64_def)
  moreover have "wf_OperationControl c'" using raws by (simp add: wf_op_iff c'_def wf_Lease_def in_int64_def)
  then have "op_at (sys_objs t) ''web'' ''op-1'' = Some (ocd_ETag doc, c')"
    using u(5) cur(2) by (simp add: view_at_Some doc_view_Some codec_simps)
  moreover have "ensureLease h doc 1000 = Inr ()"
    using u(2) le cur(4) id by (simp add: ensureLease_ok h_def c'_def)
  moreover have "oc_SchemaVersion c' = schema_Version" "oc_Service c' = ''web''" "oc_OperationID c' = ''op-1''" "oc_StepResults c' = []"
    using cur(4) id by (simp_all add: c'_def nextOperation_def Let_def)
  ultimately show ?thesis using u(2-4) op1_facts(3) hd by (simp add: h_def)
qed

lemma op1_update:
  "\<exists>h t. sys_inv t \<and> sys_env t = [] \<and> olh_Service h = ''web'' \<and> olh_OperationID h = ''op-1'' \<and>
     (\<exists>h' doc t'. ops_UpdateControlWithLeaseCAS sys_world h (\<lambda>c. Inr (c\<lparr>oc_Status := OperationSucceeded, oc_Lease := None\<rparr>)) t =
        (Inr (h', doc), t'))"
proof -
  obtain r t where a: "ops_AcquireLease sys_world ''web'' ''op-1'' op1_opts op1_sys = (Inr r, t)" "sys_env t = []" "sys_now t = 1000"
    "olh_Service (lar_Handle r) = ''web''" "olh_OperationID (lar_Handle r) = ''op-1''"
    "op_at (sys_objs t) ''web'' ''op-1'' = Some (olh_ETag (lar_Handle r), ocd_Control (lar_Control r))"
    "ensureLease (lar_Handle r) (lar_Control r) 1000 = Inr ()"
    "oc_Service (ocd_Control (lar_Control r)) = ''web''" "oc_OperationID (ocd_Control (lar_Control r)) = ''op-1''"
    "oc_SchemaVersion (ocd_Control (lar_Control r)) = schema_Version" "oc_StepResults (ocd_Control (lar_Control r)) = []"
    using op1_acquire by (elim exE conjE) simp
  define c where "c = ocd_Control (lar_Control r)"
  obtain l T where l: "oc_Lease c = Some l" "leaseExpires l = Inr T" using a(7) unfolding ensureLease_ok c_def by blast
  obtain cur where cur: "ops_GetControl sys_world ''web'' ''op-1'' t = (Inr cur, t)" "ocd_Key cur = op_key ''web'' ''op-1''"
    "ocd_ETag cur = olh_ETag (lar_Handle r)" "ocd_Control cur = c"
    using alone_ops_GetControl [OF a(2,6) op1_names a(8-10)] l by (auto simp: c_def)
  let ?n = "c\<lparr>oc_Status := OperationSucceeded, oc_Lease := oc_Lease c\<rparr>"
  obtain b where b: "sys_objs t (ocd_Key cur) = Some (ocd_ETag cur, b)" using a(6) cur(2,3) by (auto simp: view_at_Some)
  have raws: "raws_ok_OperationControl ((nextOperation cur ?n)\<lparr>oc_UpdatedAt := canonical_Time (sys_now t)\<rparr>)"
    using a(11) by (simp add: raws_ok_OperationControl_def c_def)
  obtain doc t' where u: "ops_UpdateControlCAS sys_world cur ?n t = (Inr doc, t')"
    "ocd_Control doc = (nextOperation cur ?n)\<lparr>oc_UpdatedAt := canonical_Time (sys_now t)\<rparr>"
    using alone_ops_Update [OF a(2) b refl raws] by blast
  have hd: "\<exists>h'. leaseHandleFromControl doc = Inr h'" using u(2) l by (simp add: leaseHandleFromControl_def rbind_def)
  have en: "ensureLease (lar_Handle r) cur 1000 = Inr ()" using a(7) cur(4) unfolding ensureLease_ok c_def by simp
  have "\<exists>h' doc t'. ops_UpdateControlWithLeaseCAS sys_world (lar_Handle r)
      (\<lambda>c. Inr (c\<lparr>oc_Status := OperationSucceeded, oc_Lease := None\<rparr>)) t = (Inr (h', doc), t')"
    using cur a(2-5) en u(1) hd by (auto simp: ops_UpdateControlWithLeaseCAS_def io_bind_def io_lift_def io_ret_def)
  moreover have "sys_inv t" using sysw.quietD [OF sysw.quiet_ops_leases(1) op1_facts(2) a(1)] sysw.evolves_inv op1_facts(2) by blast
  ultimately show ?thesis using a(2,4,5) by blast
qed

definition all_ops :: ops_ListOptions where
  "all_ops = \<lparr>olo_Service = [], olo_IncludeTerminal = False, olo_Limit = 0\<rparr>"

lemma op1_list: "\<exists>out. ops_List sys_world all_ops op1_sys = (Inr out, op1_sys)"
proof -
  have objs: "sys_objs op1_sys k = (if k = op_key ''web'' ''op-1'' then Some (etagForVersion 1, JsonBody (enc_OperationControl op1_control)) else None)" for k
    by (simp add: sys_objs_def op1_sys_def memory_Create_def memory_New_def nextTimeLocked_def Let_def memory_objs_def)
  have al: "\<exists>ms. os_List sys_world p \<lparr>lo_Limit = 0\<rparr> op1_sys = (Inr ms, op1_sys)" for p
    by (simp add: sys_world_def on_store_def op1_facts(1) memory_List_def Let_def)
  obtain ms where ms: "os_List sys_world ''services/'' \<lparr>lo_Limit = 0\<rparr> op1_sys = (Inr ms, op1_sys)" using al by blast
  obtain ms' where ms': "os_List sys_world ''sagas/'' \<lparr>lo_Limit = 0\<rparr> op1_sys = (Inr ms', op1_sys)" using al by blast
  have k': "set ms' = {}"
    using alone_List(2) [OF op1_facts(1,2) ms'] by (auto simp: objs op_key_def split: if_splits)
  have k: "om_Key m = op_key ''web'' ''op-1''" if m: "m \<in> set ms" for m
  proof -
    have "om_Key m \<in> {k. prefix ''services/'' k \<and> sys_objs op1_sys k \<noteq> None}"
      using alone_List(2) [OF op1_facts(1,2) ms] m by blast
    then show ?thesis by (simp add: objs split: if_splits)
  qed
  have id: "oc_Service op1_control = ''web''" "oc_OperationID op1_control = ''op-1''" "oc_SchemaVersion op1_control = schema_Version"
    by (simp_all add: op1_control_def zero_OperationControl_def)
  have "pred_option (\<lambda>l. \<exists>T. leaseExpires l = Inr T) (oc_Lease op1_control)" using old_lease_expires by (simp add: op1_control_def)
  from alone_ops_GetControl [OF op1_facts(1,5) op1_names id this] obtain doc where
    doc: "ops_GetControl sys_world ''web'' ''op-1'' op1_sys = (Inr doc, op1_sys)" by blast
  have "\<exists>r. ops_GetIntent sys_world ''web'' ''op-1'' op1_sys = (r, op1_sys)"
    using stillD [OF still_ops(2) op1_facts(1)] by (metis surj_pair)
  then have "\<exists>r. controlSummary sys_world all_ops (op_key ''web'' ''op-1'') op1_sys = (Inr r, op1_sys)"
    using doc by (auto simp: controlSummary_def parse_op_key [OF op1_names] all_ops_def io_bind_def io_try_def io_ret_def)
  then obtain r where r: "controlSummary sys_world all_ops (op_key ''web'' ''op-1'') op1_sys = (Inr r, op1_sys)" by blast
  have loop: "\<exists>res. listControls sys_world all_ops xs out seen op1_sys = (Inr res, op1_sys)" if xs: "set xs \<subseteq> set ms" for xs out seen
    using xs
  proof (induction xs arbitrary: out seen)
    case (Cons m xs)
    then show ?case using k r by (cases r) (auto simp: io_bind_def)
  qed simp
  obtain res seen where "listControls sys_world all_ops ms [] [] op1_sys = (Inr (res, seen), op1_sys)" using loop [OF order_refl] by fastforce
  then show ?thesis using ms ms' k'
    by (simp add: ops_List_def all_ops_def io_bind_def io_lift_def listSagaOperationSummaries_def io_ret_def Let_def)
qed

section \<open>Properties\<close>

text \<open>
  C15: taking over an operation. When a worker acquires an operation's lease, the last write in the history is the one of the new
  document, and in the state \<open>u\<close> right before it the control document had no lease, or an expired one: the lease reported as
  previous, with the takeover flag set exactly then. The document written carries the worker's lease and keeps status and
  provider operations. No handle whose ETag was stored at any time until then can afterwards update the operation. A
  release, which does not look at the ETag, succeeds only for a handle with owner, token and generation of the lease it removes.
\<close>

theorem op_takeover_sound:
  assumes "sys_inv s" "ops_AcquireLease sys_world svc x opts s = (Inr r, t)"
  shows "\<exists>u e c y b. sys_evolves s u \<and> sys_evolves u t \<and> sys_history t = sys_history u @ [(op_key svc x, olh_ETag (lar_Handle r), b)] \<and>
      op_at (sys_objs u) svc x = Some (e, c) \<and> sys_now s \<le> y \<and> y \<le> sys_now u \<and>
      lar_PreviousLease r = oc_Lease c \<and> (lar_TookOver r \<longleftrightarrow> oc_Lease c \<noteq> None) \<and>
      (\<forall>l. oc_Lease c = Some l \<longrightarrow> (\<exists>T. time_Parse (lse_ExpiresAt l) = Some T \<and> T \<le> y)) \<and>
      op_at (sys_objs t) svc x = Some (olh_ETag (lar_Handle r), ocd_Control (lar_Control r)) \<and> olh_ETag (lar_Handle r) \<noteq> e \<and>
      oc_Lease (ocd_Control (lar_Control r)) = Some \<lparr>lse_Owner = ollo_Owner opts, lse_Token = olh_Token (lar_Handle r),
        lse_Generation = wrap64 y, lse_ExpiresAt = canonical_Time (y + ollo_Duration opts)\<rparr> \<and>
      oc_Status (ocd_Control (lar_Control r)) = oc_Status c \<and>
      oc_ProviderOperations (ocd_Control (lar_Control r)) = oc_ProviderOperations c \<and>
      (\<forall>t0 h0 b0 s2 f z v. sys_inv t0 \<and> sys_objs t0 (op_key svc x) = Some (olh_ETag h0, b0) \<and> olh_Service h0 = svc \<and>
          olh_OperationID h0 = x \<and> sys_evolves t0 u \<and> sys_evolves t s2 \<longrightarrow>
        ops_UpdateControlWithLeaseCAS sys_world h0 f s2 \<noteq> (Inr z, v)) \<and>
      (\<forall>h0 s2 d v. olh_Service h0 = svc \<and> olh_OperationID h0 = x \<and> sys_evolves t s2 \<and> ops_ReleaseLease sys_world h0 s2 = (Inr d, v) \<longrightarrow>
        (\<exists>w e1 c1 l b1. sys_evolves s2 w \<and> sys_history v = sys_history w @ [(op_key svc x, ocd_ETag d, b1)] \<and>
           op_at (sys_objs w) svc x = Some (e1, c1) \<and> oc_Lease c1 = Some l \<and> lse_Owner l = olh_Owner h0 \<and>
           lse_Token l = olh_Token h0 \<and> lse_Generation l = olh_Generation h0))"
proof -
  obtain v v' e c y tok where a: "op_reads sys_world svc x s e c v" "sys_evolves v v'" "sys_now s \<le> y" "y \<le> sys_now v'"
    "ops_activeLease (oc_Lease c) y = Inr False"
    "op_swaps sys_world svc x v' e (ocd_ETag (lar_Control r)) (ocd_Control (lar_Control r)) t"
    "oc_Status (ocd_Control (lar_Control r)) = oc_Status c" "oc_ProviderOperations (ocd_Control (lar_Control r)) = oc_ProviderOperations c"
    "lar_PreviousLease r = oc_Lease c" "lar_TookOver r = (oc_Lease c \<noteq> None)"
    "leaseHandleFromControl (lar_Control r) = Inr (lar_Handle r)"
    "oc_Lease (ocd_Control (lar_Control r)) = Some \<lparr>lse_Owner = ollo_Owner opts, lse_Token = tok, lse_Generation = wrap64 y,
      lse_ExpiresAt = canonical_Time (y + ollo_Duration opts)\<rparr>"
    using sysw.ops_Acquire_ok [OF assms] by blast
  have h: "olh_ETag (lar_Handle r) = ocd_ETag (lar_Control r)" using leaseHandle_etag [OF a(11)] .
  have tok: "olh_Token (lar_Handle r) = tok" using leaseHandle_token [OF a(11,12)] by simp
  have sv: "sys_evolves s v'" using a(2) sysw.op_doc.reads_law [OF a(1)] sysw.evolves_trans by blast
  obtain u b where u: "sys_evolves v' u" "sys_evolves u t" "sys_writes u (op_key svc x) (ocd_ETag (lar_Control r)) b t"
    "op_at (sys_objs u) svc x = Some (e, c)"
    "op_at (sys_objs t) svc x = Some (ocd_ETag (lar_Control r), ocd_Control (lar_Control r))" "ocd_ETag (lar_Control r) \<noteq> e"
    and old: "\<forall>t0 e0 b0 s2. sys_inv t0 \<and> sys_objs t0 (op_key svc x) = Some (e0, b0) \<and> sys_evolves t0 u \<and> sys_evolves t s2 \<longrightarrow>
      sysw.op_doc.outdated svc x e0 s2"
    using sysw.op_doc.read_then_swap [OF assms(1) a(1,2,6)] by blast
  have y: "y \<le> sys_now u" using a(4) u(1) sysw.clock_mono by (blast intro: order_trans)
  have ex: "\<forall>l. oc_Lease c = Some l \<longrightarrow> (\<exists>T. time_Parse (lse_ExpiresAt l) = Some T \<and> T \<le> y)"
    using a(5) unfolding ops_activeLease_False leaseExpires_Inr by blast
  have su: "sys_evolves s u" using sysw.evolves_trans [OF sv u(1)] .
  have fence: "ops_UpdateControlWithLeaseCAS sys_world h0 f s2 \<noteq> (Inr z, w)"
    if p: "sys_inv t0" "sys_objs t0 (op_key svc x) = Some (olh_ETag h0, b0)" "olh_Service h0 = svc" "olh_OperationID h0 = x"
      "sys_evolves t0 u" "sys_evolves t s2" for t0 h0 b0 s2 f z w
  proof
    assume "ops_UpdateControlWithLeaseCAS sys_world h0 f s2 = (Inr z, w)"
    then obtain cur q where "ops_GetControl sys_world svc x s2 = (Inr cur, q)" "ocd_ETag cur = olh_ETag h0"
      using p(3,4) by (cases z) (auto simp: ops_UpdateControlWithLeaseCAS_def io_ok_iffs)
    then have "op_reads sys_world svc x s2 (olh_ETag h0) (ocd_Control cur) q" by (auto simp: op_reads_def)
    then show False using sysw.op_doc.outdated_read old p(1,2,5,6) by blast
  qed
  have rel: "\<exists>w e1 c1 l b1. sys_evolves s2 w \<and> sys_history q = sys_history w @ [(op_key svc x, ocd_ETag d, b1)] \<and>
      op_at (sys_objs w) svc x = Some (e1, c1) \<and> oc_Lease c1 = Some l \<and> lse_Owner l = olh_Owner h0 \<and> lse_Token l = olh_Token h0 \<and>
      lse_Generation l = olh_Generation h0"
    if p: "olh_Service h0 = svc" "olh_OperationID h0 = x" "sys_evolves t s2" "ops_ReleaseLease sys_world h0 s2 = (Inr d, q)" for h0 s2 d q
  proof -
    have i: "sys_inv s2" using assms(1) su u(2) p(3) sysw.evolves_inv by blast
    obtain e1 c1 z z' l where o: "op_reads sys_world svc x s2 e1 c1 z" "sys_evolves z z'" "oc_Lease c1 = Some l" "lse_Owner l = olh_Owner h0"
      "lse_Token l = olh_Token h0" "lse_Generation l = olh_Generation h0" "op_swaps sys_world svc x z' e1 (ocd_ETag d) (ocd_Control d) q"
      using sysw.ops_Release_ok [OF i p(4)] p(1,2) unfolding sysw.op_holder_def by blast
    obtain w b1 where w: "sys_evolves z' w" "sys_writes w (op_key svc x) (ocd_ETag d) b1 q" "op_at (sys_objs w) svc x = Some (e1, c1)"
      using sysw.op_doc.read_then_swap [OF i o(1,2,7)] by blast
    have "sys_evolves s2 w" using sysw.op_doc.reads_law [OF o(1)] o(2) w(1) sysw.evolves_trans by blast
    then show ?thesis using o(3-6) w(2,3) unfolding sys_writes_def by blast
  qed
  show ?thesis
  proof (rule exI [of _ u], rule exI [of _ e], rule exI [of _ c], rule exI [of _ y], rule exI [of _ b], intro conjI)
    show "\<forall>t0 h0 b0 s2 f z v. sys_inv t0 \<and> sys_objs t0 (op_key svc x) = Some (olh_ETag h0, b0) \<and> olh_Service h0 = svc \<and>
          olh_OperationID h0 = x \<and> sys_evolves t0 u \<and> sys_evolves t s2 \<longrightarrow>
        ops_UpdateControlWithLeaseCAS sys_world h0 f s2 \<noteq> (Inr z, v)" using fence by blast
    show "\<forall>h0 s2 d v. olh_Service h0 = svc \<and> olh_OperationID h0 = x \<and> sys_evolves t s2 \<and> ops_ReleaseLease sys_world h0 s2 = (Inr d, v) \<longrightarrow>
        (\<exists>w e1 c1 l b1. sys_evolves s2 w \<and> sys_history v = sys_history w @ [(op_key svc x, ocd_ETag d, b1)] \<and>
           op_at (sys_objs w) svc x = Some (e1, c1) \<and> oc_Lease c1 = Some l \<and> lse_Owner l = olh_Owner h0 \<and>
           lse_Token l = olh_Token h0 \<and> lse_Generation l = olh_Generation h0)" using rel by blast
  qed (use u su a(3,7-10,12) y ex h tok in \<open>simp_all add: sys_writes_def\<close>)
qed

theorem op_takeover_sound_witness:
  "\<exists>r t u e c. ops_AcquireLease sys_world ''web'' ''op-1'' op1_opts op1_sys = (Inr r, t) \<and> lar_TookOver r \<and>
     op_at (sys_objs u) ''web'' ''op-1'' = Some (e, c) \<and> oc_Lease c = Some old_lease \<and> olh_ETag (lar_Handle r) \<noteq> e \<and>
     (\<forall>f z v. ops_UpdateControlWithLeaseCAS sys_world ((lar_Handle r)\<lparr>olh_ETag := etagForVersion 1\<rparr>) f t \<noteq> (Inr z, v))"
proof -
  obtain r t where a: "ops_AcquireLease sys_world ''web'' ''op-1'' op1_opts op1_sys = (Inr r, t)"
    "lar_PreviousLease r = Some old_lease" "olh_Service (lar_Handle r) = ''web''" "olh_OperationID (lar_Handle r) = ''op-1''"
    using op1_acquire by (elim exE conjE) simp
  obtain b where b: "sys_objs op1_sys (op_key ''web'' ''op-1'') = Some (etagForVersion 1, b)"
    using op1_facts(5) by (auto simp: view_at_Some)
  obtain u e c where u: "sys_evolves op1_sys u" "op_at (sys_objs u) ''web'' ''op-1'' = Some (e, c)" "olh_ETag (lar_Handle r) \<noteq> e"
      and c: "lar_PreviousLease r = oc_Lease c" "lar_TookOver r = (oc_Lease c \<noteq> None)"
      and fence: "\<forall>t0 h0 b0 s2 f z v. sys_inv t0 \<and> sys_objs t0 (op_key ''web'' ''op-1'') = Some (olh_ETag h0, b0) \<and> olh_Service h0 = ''web'' \<and>
          olh_OperationID h0 = ''op-1'' \<and> sys_evolves t0 u \<and> sys_evolves t s2 \<longrightarrow>
        ops_UpdateControlWithLeaseCAS sys_world h0 f s2 \<noteq> (Inr z, v)"
    using op_takeover_sound [OF op1_facts(2) a(1)] by (elim exE conjE) blast
  have "\<forall>f z v. ops_UpdateControlWithLeaseCAS sys_world ((lar_Handle r)\<lparr>olh_ETag := etagForVersion 1\<rparr>) f t \<noteq> (Inr z, v)"
  proof (intro allI)
    fix f z v
    show "ops_UpdateControlWithLeaseCAS sys_world ((lar_Handle r)\<lparr>olh_ETag := etagForVersion 1\<rparr>) f t \<noteq> (Inr z, v)"
      using fence [rule_format, of op1_sys "(lar_Handle r)\<lparr>olh_ETag := etagForVersion 1\<rparr>" b t f z v]
        op1_facts(2) b a(3,4) u(1) by simp
  qed
  moreover note u(2,3)
  moreover have "oc_Lease c = Some old_lease" using a(2) c(1) by metis
  moreover from this have "lar_TookOver r" using c(2) by simp
  ultimately show ?thesis using a(1)
    by (rule_tac exI [of _ r], rule_tac exI [of _ t], rule_tac exI [of _ u], rule_tac exI [of _ e], rule_tac exI [of _ c]) simp
qed

text \<open>
  Leased updates of an operation. A successful update under a lease replaced, on the handle's ETag,
  a document with the handle's own unexpired lease by the result of the mutation; whatever the mutation
  does, lease, service and operation id stay, and no other object changes at that instant.
\<close>

theorem op_leased_update:
  assumes "sys_inv s" "ops_UpdateControlWithLeaseCAS sys_world h f s = (Inr (h', doc), t)"
  shows "\<exists>u c n l T y. sys_evolves s u \<and> sys_evolves u t \<and>
    op_at (sys_objs u) (olh_Service h) (olh_OperationID h) = Some (olh_ETag h, c) \<and> f c = Inr n \<and>
    oc_Lease c = Some l \<and> lse_Owner l = olh_Owner h \<and> lse_Token l = olh_Token h \<and> time_Parse (lse_ExpiresAt l) = Some T \<and>
    sys_now s \<le> y \<and> y < T \<and> op_at (sys_objs t) (olh_Service h) (olh_OperationID h) = Some (olh_ETag h', ocd_Control doc) \<and>
    oc_Status (ocd_Control doc) = oc_Status n \<and> oc_Lease (ocd_Control doc) = Some l \<and> oc_Service (ocd_Control doc) = oc_Service c \<and>
    oc_OperationID (ocd_Control doc) = oc_OperationID c \<and>
    (\<forall>k. k \<noteq> op_key (olh_Service h) (olh_OperationID h) \<longrightarrow> sys_objs t k = sys_objs u k)"
proof -
  obtain c n cur now where u: "sysw.op_holder h s (olh_ETag h) c doc t" "f c = Inr n" "ocd_Control cur = c" "leaseHandleFromControl doc = Inr h'"
    "ocd_Control doc = (nextOperation cur (n\<lparr>oc_Lease := oc_Lease c\<rparr>))\<lparr>oc_UpdatedAt := canonical_Time now\<rparr>"
    using sysw.ops_UpdateWithLease_ok [OF assms] by blast
  obtain v v' y l T where o: "op_reads sys_world (olh_Service h) (olh_OperationID h) s (olh_ETag h) c v" "sys_evolves v v'"
    "sys_now s \<le> y" "oc_Lease c = Some l" "lse_Owner l = olh_Owner h" "lse_Token l = olh_Token h" "leaseExpires l = Inr T" "y < T"
    "op_swaps sys_world (olh_Service h) (olh_OperationID h) v' (olh_ETag h) (ocd_ETag doc) (ocd_Control doc) t"
    using u(1) unfolding sysw.op_holder_def by blast
  obtain w where w: "sys_evolves v' w" "sys_evolves w t" "op_at (sys_objs w) (olh_Service h) (olh_OperationID h) = Some (olh_ETag h, c)"
    "op_at (sys_objs t) (olh_Service h) (olh_OperationID h) = Some (ocd_ETag doc, ocd_Control doc)"
    "\<forall>k. k \<noteq> op_key (olh_Service h) (olh_OperationID h) \<longrightarrow> sys_objs t k = sys_objs w k"
    using sysw.op_doc.swap_after_read [OF assms(1) o(1,2,9)] by blast
  have "sys_evolves s w" using sysw.op_doc.reads_law [OF o(1)] o(2) w(1) sysw.evolves_trans by blast
  moreover have "oc_Status (ocd_Control doc) = oc_Status n" "oc_Lease (ocd_Control doc) = Some l"
    "oc_Service (ocd_Control doc) = oc_Service c" "oc_OperationID (ocd_Control doc) = oc_OperationID c"
    using u(3,5) o(4) by simp_all
  moreover have "time_Parse (lse_ExpiresAt l) = Some T" using o(7) by (simp add: leaseExpires_Inr)
  ultimately show ?thesis unfolding leaseHandle_etag [OF u(4)] using w(2-5) u(2) o(3-6,8)
    by (intro exI [of _ w] exI [of _ c] exI [of _ n] exI [of _ l] exI [of _ T] exI [of _ y] conjI)
qed

theorem op_leased_update_witness:
  "\<exists>h h' doc s t u c. ops_UpdateControlWithLeaseCAS sys_world h (\<lambda>c. Inr (c\<lparr>oc_Status := OperationSucceeded, oc_Lease := None\<rparr>)) s =
      (Inr (h', doc), t) \<and> op_at (sys_objs u) ''web'' ''op-1'' = Some (olh_ETag h, c) \<and>
     op_at (sys_objs t) ''web'' ''op-1'' = Some (olh_ETag h', ocd_Control doc) \<and>
     oc_Status (ocd_Control doc) = OperationSucceeded \<and> oc_Lease (ocd_Control doc) \<noteq> None"
proof -
  let ?f = "\<lambda>c. Inr (c\<lparr>oc_Status := OperationSucceeded, oc_Lease := None\<rparr>)"
  obtain h doc' t' where h: "sys_inv t'" "sys_env t' = []" "olh_Service h = ''web''" "olh_OperationID h = ''op-1''"
    and up: "\<exists>h' doc t. ops_UpdateControlWithLeaseCAS sys_world h ?f t' = (Inr (h', doc), t)"
    using op1_update by (elim exE conjE) simp
  then obtain h' doc t where u: "ops_UpdateControlWithLeaseCAS sys_world h ?f t' = (Inr (h', doc), t)" by blast
  from op_leased_update [OF h(1) u] obtain w c n l where
    "op_at (sys_objs w) ''web'' ''op-1'' = Some (olh_ETag h, c)" "?f c = Inr n"
    "op_at (sys_objs t) ''web'' ''op-1'' = Some (olh_ETag h', ocd_Control doc)" "oc_Status (ocd_Control doc) = oc_Status n"
    "oc_Lease (ocd_Control doc) = Some l"
    unfolding h(3,4) by (elim exE conjE) simp
  then show ?thesis using u
    by (rule_tac exI [of _ h], rule_tac exI [of _ h'], rule_tac exI [of _ doc], rule_tac exI [of _ t'], rule_tac exI [of _ t],
        rule_tac exI [of _ w], rule_tac exI [of _ c]) auto
qed

text \<open>
  Listing operations. Whatever other clients do meanwhile, a successful listing is strictly sorted
  by service, then newest first, then by operation id (so it names no operation twice), contains
  only operations of the requested service and none that is finished unless asked for, and
  respects a positive limit.
\<close>

theorem operation_list_ordered:
  assumes "sys_inv s" "ops_List sys_world opts s = (Inr out, t)"
  shows "sorted_wrt summary_less out \<and>
    (\<forall>m. m \<in> set out \<longrightarrow> (olo_Service opts = [] \<or> sm_Service m = olo_Service opts) \<and>
      (olo_IncludeTerminal opts \<or> sm_Status m \<notin> {OperationSucceeded, OperationFailed, OperationCanceled})) \<and>
    (0 < olo_Limit opts \<longrightarrow> int (length out) \<le> olo_Limit opts)"
  using sysw.ops_List_ok [OF assms] by (auto simp: terminalStatus_def)

theorem operation_list_ordered_witness:
  "\<exists>out. ops_List sys_world all_ops op1_sys = (Inr out, op1_sys) \<and> sorted_wrt summary_less out"
  using op1_list operation_list_ordered [OF op1_facts(2), of all_ops] by blast

text \<open>
  The listing is complete. For a client alone, a listing without limit leaves the store as it is and
  holds, for every stored operation control document of the requested service that is not finished (or
  any, when finished ones are asked for), a summary with its status and lease.
\<close>

theorem operation_list_complete:
  assumes "sys_env s = []" "sys_inv s" "ops_List sys_world opts s = (Inr out, t)" "olo_Limit opts \<le> 0"
    "paths_OperationControl svc x = Inr k" "sys_objs s k \<noteq> None" "olo_Service opts = [] \<or> svc = olo_Service opts"
  shows "t = s \<and> (\<exists>e c. op_at (sys_objs s) svc x = Some (e, c) \<and> (olo_IncludeTerminal opts \<or> \<not> terminalStatus (oc_Status c) \<longrightarrow>
    (\<exists>sm \<in> set out. sm_Service sm = svc \<and> sm_OperationID sm = x \<and> sm_Status sm = oc_Status c \<and> sm_Lease sm = oc_Lease c)))"
proof -
  have k: "is_name svc" "is_id x" "k = op_key svc x" using assms(5) unfolding paths_OperationControl_Inr by blast+
  show ?thesis using alone_ops_List [OF assms(1-4) assms(6) [unfolded k(3)] k(1,2) assms(7)] unfolding listed_def by simp
qed

theorem operation_list_complete_witness:
  "\<exists>out. ops_List sys_world all_ops op1_sys = (Inr out, op1_sys) \<and>
     (\<exists>sm \<in> set out. sm_Service sm = ''web'' \<and> sm_OperationID sm = ''op-1'' \<and> sm_Status sm = OperationRunning \<and> sm_Lease sm = Some old_lease)"
proof -
  obtain out where out: "ops_List sys_world all_ops op1_sys = (Inr out, op1_sys)" using op1_list by blast
  have k: "paths_OperationControl ''web'' ''op-1'' = Inr (op_key ''web'' ''op-1'')" using op1_names by (simp add: paths_OperationControl_Inr)
  have p: "sys_objs op1_sys (op_key ''web'' ''op-1'') \<noteq> None" using op1_facts(5) by (auto simp: view_at_Some)
  have l: "olo_Limit all_ops \<le> 0" "olo_Service all_ops = [] \<or> ''web'' = olo_Service all_ops" by (simp_all add: all_ops_def)
  have c: "oc_Status op1_control = OperationRunning" "oc_Lease op1_control = Some old_lease" "\<not> terminalStatus OperationRunning"
    by (simp_all add: op1_control_def terminalStatus_def OperationRunning_def OperationSucceeded_def OperationFailed_def OperationCanceled_def)
  from operation_list_complete [OF op1_facts(1,2) out l(1) k p l(2)] show ?thesis
    using out op1_facts(5) c by (intro exI [of _ out]) auto
qed

text \<open>
  Operation keys. Parsing a control key gives back the service and operation it was built from, and
  only keys built that way (from non-empty, slash-free parts) are parsed; the key used to detect
  duplicates tells two operations apart.
\<close>

theorem operation_key_roundtrip:
  "(paths_OperationControl svc x = Inr k \<longrightarrow> parseOperationControlKey k = Some (svc, x)) \<and>
   (parseOperationControlKey k = Some (svc, x) \<longrightarrow> k = ''services/'' @ svc @ ''/operations/'' @ x @ ''/control.json'') \<and>
   (paths_SagaIntent i = Inr k \<longrightarrow> parseSagaIntentKey k = Some i) \<and>
   (is_name svc \<and> is_name svc' \<and> operationKey svc x = operationKey svc' x' \<longrightarrow> svc = svc' \<and> x = x')"
proof (intro conjI impI)
  show "paths_OperationControl svc x = Inr k \<Longrightarrow> parseOperationControlKey k = Some (svc, x)"
    using parse_op_key unfolding paths_OperationControl_Inr by blast
  show "parseOperationControlKey k = Some (svc, x) \<Longrightarrow> k = ''services/'' @ svc @ ''/operations/'' @ x @ ''/control.json''"
    unfolding parseOperationControlKey_Some op_key_def by blast
  show "paths_SagaIntent i = Inr k \<Longrightarrow> parseSagaIntentKey k = Some i"
    using is_id_nonempty is_id_no_slash by (auto simp: parseSagaIntentKey_Some paths_SagaIntent_def rbind_Inr_iff)
qed (use operationKey_inj is_name_no_nul in blast)+

theorem operation_key_roundtrip_witness:
  "parseOperationControlKey ''services/web/operations/op-1/control.json'' = Some (''web'', ''op-1'')"
proof -
  have "paths_OperationControl ''web'' ''op-1'' = Inr ''services/web/operations/op-1/control.json''"
    using op1_names by (simp add: paths_OperationControl_def rbind_def)
  then show ?thesis
    using operation_key_roundtrip [of "''web''" "''op-1''" "''services/web/operations/op-1/control.json''"] by blast
qed

end
