(* ===== verification/Event_Bus.thy ===== *)
theory Event_Bus
  imports Go_Error Schema "HOL-Library.Word"
begin

text \<open>
  The in-process event bus (internal/events/bus.go): subscribers with bounded channels, and a publisher
  that never blocks. The bus is a state machine whose steps are \<^verbatim>\<open>Subscribe\<close>, \<^verbatim>\<open>Publish\<close>, the
  cancellation of a subscription and a receive by a subscriber. \<^verbatim>\<open>Publish\<close> and \<^verbatim>\<open>Subscribe\<close> hold the
  bus's mutex, but a receive does not: within \<^verbatim>\<open>deliverNonBlocking\<close> the subscriber may receive between
  any two of its three \<^verbatim>\<open>select\<close> statements, which the two numbers in the schedule of a publish say.
\<close>

section \<open>Types\<close>

definition DefaultSubscriberBuffer :: int where "DefaultSubscriberBuffer = 16"

record Filter =
  flt_Kind :: string
  flt_Service :: string
  flt_Operation :: string
  flt_Saga :: string

record Delivery =
  dl_Event :: Event
  dl_ResyncRequired :: bool
  dl_LastEventID :: string

text \<open>A channel: its capacity and the buffered deliveries, the oldest first.\<close>

record subscriber =
  sub_filter :: Filter
  sub_cap :: nat
  sub_ch :: "Delivery list"

record Bus =
  bus_nextID :: "64 word"
  bus_subscribers :: "64 word \<rightharpoonup> subscriber"

definition NewBus :: Bus where
  "NewBus = \<lparr>bus_nextID = 0, bus_subscribers = Map.empty\<rparr>"

definition matchesFilter :: "Event \<Rightarrow> Filter \<Rightarrow> bool" where
  "matchesFilter event flt =
     (let kind = tgt_Kind (ev_Subject event); name = tgt_Name (ev_Subject event) in
      if flt_Kind flt \<in> {[], ''recent'', ''all''} then True
      else if flt_Kind flt = ''service'' then
        flt_Service flt = [] \<or> (kind = ''service'' \<and> name = flt_Service flt)
      else if flt_Kind flt = ''operation'' then
        (flt_Operation flt \<noteq> [] \<and> kind = ''operation'' \<and> name = flt_Operation flt) \<or>
        (flt_Service flt \<noteq> [] \<and> kind = ''service'' \<and> name = flt_Service flt)
      else if flt_Kind flt = ''saga'' then
        flt_Saga flt = [] \<or> (kind = ''saga'' \<and> name = flt_Saga flt)
      else False)"

section \<open>Delivery\<close>

text \<open>\<^verbatim>\<open>select\<close> with a send and a default: the buffer after it, unchanged when it was full.\<close>

definition try_send :: "nat \<Rightarrow> Delivery list \<Rightarrow> Delivery \<Rightarrow> Delivery list" where
  "try_send cap ch d = (if length ch < cap then ch @ [d] else ch)"

definition event_delivery :: "Event \<Rightarrow> Delivery" where
  "event_delivery e = \<lparr>dl_Event = e, dl_ResyncRequired = False, dl_LastEventID = []\<rparr>"

definition resync_delivery :: "Delivery \<Rightarrow> Delivery" where
  "resync_delivery d = \<lparr>dl_Event = zero_Event, dl_ResyncRequired = True, dl_LastEventID = ev_ID (dl_Event d)\<rparr>"

text \<open>
  The deliveries the subscriber receives while the publisher is inside (\<open>k1\<close> of them before the second
  \<^verbatim>\<open>select\<close>, \<open>k2\<close> before the third), and the buffer afterwards.
\<close>

definition deliverNonBlocking :: "nat \<Rightarrow> nat \<Rightarrow> nat \<Rightarrow> Delivery list \<Rightarrow> Delivery \<Rightarrow> Delivery list \<times> Delivery list" where
  "deliverNonBlocking k1 k2 cap ch d =
     (if length ch < cap then ([], ch @ [d])
      else (let ch1 = drop k1 ch;
                ch2 = tl ch1;
                ch3 = drop k2 ch2
            in (take k1 ch @ take k2 ch2, try_send cap ch3 (resync_delivery d))))"

section \<open>The operations of the bus\<close>

type_synonym schedule = "64 word \<Rightarrow> nat \<times> nat"

definition Publish :: "goerr option \<Rightarrow> schedule \<Rightarrow> Event \<Rightarrow> Bus \<Rightarrow> unit result \<times> (64 word \<Rightarrow> Delivery list) \<times> Bus" where
  "Publish ctx sched event b = (case ctx of
      Some err \<Rightarrow> (Inl err, \<lambda>_. [], b)
    | None \<Rightarrow>
        (let sent = (\<lambda>i. case bus_subscribers b i of
               None \<Rightarrow> ([], None)
             | Some sub \<Rightarrow>
                 if \<not> matchesFilter event (sub_filter sub) then ([], Some sub)
                 else (case deliverNonBlocking (fst (sched i)) (snd (sched i)) (sub_cap sub) (sub_ch sub) (event_delivery event) of
                     (taken, ch) \<Rightarrow> (taken, Some (sub\<lparr>sub_ch := ch\<rparr>))))
         in (Inr (), \<lambda>i. fst (sent i), b\<lparr>bus_subscribers := \<lambda>i. snd (sent i)\<rparr>)))"

definition Subscribe :: "goerr option \<Rightarrow> Filter \<Rightarrow> int \<Rightarrow> Bus \<Rightarrow> (64 word) result \<times> Bus" where
  "Subscribe ctx flt buf b = (case ctx of
      Some err \<Rightarrow> (Inl err, b)
    | None \<Rightarrow>
        (let buffer = (if buf \<le> 0 then DefaultSubscriberBuffer else buf);
             i = bus_nextID b + 1
         in (Inr i, b\<lparr>bus_nextID := i,
               bus_subscribers := (bus_subscribers b)(i \<mapsto> \<lparr>sub_filter = flt, sub_cap = nat buffer, sub_ch = []\<rparr>)\<rparr>)))"

text \<open>The \<^verbatim>\<open>cancel\<close> of a subscription: the subscriber is removed, its channel closed.\<close>

definition cancel :: "64 word \<Rightarrow> Bus \<Rightarrow> Bus" where
  "cancel i b = (if bus_subscribers b i \<noteq> None then b\<lparr>bus_subscribers := (bus_subscribers b)(i := None)\<rparr> else b)"

text \<open>A receive: the oldest delivery, and the channel without it.\<close>

definition receive :: "64 word \<Rightarrow> Bus \<Rightarrow> (Delivery \<times> Bus) option" where
  "receive i b = (case bus_subscribers b i of
      None \<Rightarrow> None
    | Some sub \<Rightarrow> (case sub_ch sub of
          [] \<Rightarrow> None
        | d # ch \<Rightarrow> Some (d, b\<lparr>bus_subscribers := (bus_subscribers b)(i \<mapsto> sub\<lparr>sub_ch := ch\<rparr>)\<rparr>)))"

section \<open>The bus as a state machine\<close>

text \<open>
  A configuration records, beside the bus, what each current subscriber has received and which events
  have been published to it since it subscribed.
\<close>

record config =
  cfg_bus :: Bus
  cfg_received :: "64 word \<Rightarrow> Delivery list"
  cfg_published :: "64 word \<Rightarrow> Event list"

definition init_config :: config where
  "init_config = \<lparr>cfg_bus = NewBus, cfg_received = \<lambda>_. [], cfg_published = \<lambda>_. []\<rparr>"

definition addressed :: "Event \<Rightarrow> Bus \<Rightarrow> 64 word \<Rightarrow> bool" where
  "addressed event b i = (case bus_subscribers b i of None \<Rightarrow> False | Some sub \<Rightarrow> matchesFilter event (sub_filter sub))"

inductive bus_step :: "config \<Rightarrow> config \<Rightarrow> bool" where
  subscribe: "Subscribe ctx flt buf (cfg_bus c) = (Inr i, b) \<Longrightarrow>
    bus_step c \<lparr>cfg_bus = b, cfg_received = (cfg_received c)(i := []), cfg_published = (cfg_published c)(i := [])\<rparr>"
| publish: "Publish ctx sched event (cfg_bus c) = (Inr (), taken, b) \<Longrightarrow>
    bus_step c \<lparr>cfg_bus = b, cfg_received = (\<lambda>i. cfg_received c i @ taken i),
      cfg_published = (\<lambda>i. if addressed event (cfg_bus c) i then cfg_published c i @ [event] else cfg_published c i)\<rparr>"
| cancel: "bus_step c (c\<lparr>cfg_bus := cancel i (cfg_bus c)\<rparr>)"
| receive: "receive i (cfg_bus c) = Some (d, b) \<Longrightarrow>
    bus_step c (c\<lparr>cfg_bus := b, cfg_received := (cfg_received c)(i := cfg_received c i @ [d])\<rparr>)"

definition bus_reachable :: "config \<Rightarrow> bool" where
  "bus_reachable c \<longleftrightarrow> bus_step\<^sup>*\<^sup>* init_config c"

inductive_cases bus_stepE: "bus_step c c'"

section \<open>The invariant of a channel\<close>

text \<open>
  What the subscriber has received and still has in its buffer is the exact sequence of events
  published to it, as long as no resync marker is among it; the newest of it always names the last
  event published.
\<close>

definition names :: "Delivery \<Rightarrow> Event \<Rightarrow> bool" where
  "names d e \<longleftrightarrow> d = event_delivery e \<or> (dl_ResyncRequired d \<and> dl_LastEventID d = ev_ID e)"

definition stream_ok :: "Delivery list \<Rightarrow> Event list \<Rightarrow> bool" where
  "stream_ok ds es \<longleftrightarrow> (list_all (\<lambda>d. \<not> dl_ResyncRequired d) ds \<longrightarrow> ds = map event_delivery es) \<and>
     (es \<noteq> [] \<longrightarrow> ds \<noteq> [] \<and> names (last ds) (last es))"

definition channel_ok :: "subscriber \<Rightarrow> Delivery list \<Rightarrow> Event list \<Rightarrow> bool" where
  "channel_ok sub rcvd es \<longleftrightarrow> 0 < sub_cap sub \<and> length (sub_ch sub) \<le> sub_cap sub \<and> stream_ok (rcvd @ sub_ch sub) es"

definition config_ok :: "config \<Rightarrow> bool" where
  "config_ok c \<longleftrightarrow> (\<forall>i sub. bus_subscribers (cfg_bus c) i = Some sub \<longrightarrow> channel_ok sub (cfg_received c i) (cfg_published c i))"

lemma event_delivery_simps [simp]:
  "dl_ResyncRequired (event_delivery e) = False" "dl_Event (event_delivery e) = e"
  "dl_ResyncRequired (resync_delivery d) = True" "dl_LastEventID (resync_delivery d) = ev_ID (dl_Event d)"
  by (simp_all add: event_delivery_def resync_delivery_def)

lemma deliver_ok:
  assumes "0 < cap" "length ch \<le> cap" "stream_ok (rcvd @ ch) es"
    and "deliverNonBlocking k1 k2 cap ch (event_delivery e) = (taken, ch')"
  shows "length ch' \<le> cap \<and> stream_ok ((rcvd @ taken) @ ch') (es @ [e])"
proof (cases "length ch < cap")
  case True
  then show ?thesis using assms by (auto simp: deliverNonBlocking_def stream_ok_def names_def)
next
  case False
  define ch3 where "ch3 = drop k2 (tl (drop k1 ch))"
  have "length ch3 < cap" using assms(1,2) unfolding ch3_def by (auto simp: less_diff_conv)
  then have ch': "ch' = ch3 @ [resync_delivery (event_delivery e)]" "taken = take k1 ch @ take k2 (tl (drop k1 ch))"
    using assms(4) False by (auto simp: deliverNonBlocking_def Let_def try_send_def ch3_def)
  then show ?thesis using \<open>length ch3 < cap\<close> by (auto simp: stream_ok_def names_def)
qed

lemma Publish_ok:
  assumes "config_ok c" "Publish ctx sched event (cfg_bus c) = (Inr (), taken, b)" "bus_subscribers b i = Some sub"
  shows "channel_ok sub (cfg_received c i @ taken i)
    (if addressed event (cfg_bus c) i then cfg_published c i @ [event] else cfg_published c i)"
proof -
  obtain sub0 where s0: "bus_subscribers (cfg_bus c) i = Some sub0" and ctx: "ctx = None"
    using assms(2,3) by (auto simp: Publish_def Let_def split: option.splits)
  have ok: "channel_ok sub0 (cfg_received c i) (cfg_published c i)" using assms(1) s0 by (auto simp: config_ok_def)
  show ?thesis
  proof (cases "matchesFilter event (sub_filter sub0)")
    case False
    then have "sub = sub0" "taken i = []" using assms(2,3) s0 ctx by (auto simp: Publish_def Let_def)
    then show ?thesis using ok s0 False by (simp add: addressed_def)
  next
    case True
    obtain tk ch where d: "deliverNonBlocking (fst (sched i)) (snd (sched i)) (sub_cap sub0) (sub_ch sub0) (event_delivery event) = (tk, ch)"
      by fastforce
    then have "sub = sub0\<lparr>sub_ch := ch\<rparr>" "taken i = tk" using assms(2,3) s0 ctx True by (auto simp: Publish_def Let_def)
    moreover have "length ch \<le> sub_cap sub0 \<and> stream_ok ((cfg_received c i @ tk) @ ch) (cfg_published c i @ [event])"
      using deliver_ok [OF _ _ _ d] ok unfolding channel_ok_def by blast
    ultimately show ?thesis using ok s0 True by (simp add: channel_ok_def addressed_def)
  qed
qed

lemma bus_step_ok: "bus_step c c' \<Longrightarrow> config_ok c \<Longrightarrow> config_ok c'"
proof (induction rule: bus_step.induct)
  case (subscribe ctx flt buf c i b)
  then show ?case
    by (auto simp: Subscribe_def config_ok_def channel_ok_def stream_ok_def DefaultSubscriberBuffer_def Let_def split: option.splits if_splits)
next
  case (publish ctx sched event c taken b)
  then show ?case using Publish_ok unfolding config_ok_def by simp
next
  case (cancel c i)
  then show ?case by (auto simp: cancel_def config_ok_def)
next
  case (receive i c d b)
  then obtain sub ch where s: "bus_subscribers (cfg_bus c) i = Some sub" "sub_ch sub = d # ch"
    "b = (cfg_bus c)\<lparr>bus_subscribers := (bus_subscribers (cfg_bus c))(i \<mapsto> sub\<lparr>sub_ch := ch\<rparr>)\<rparr>"
    by (auto simp: receive_def split: option.splits list.splits)
  then have "channel_ok sub (cfg_received c i) (cfg_published c i)" using receive(2) by (auto simp: config_ok_def)
  then show ?case using receive(2) s by (auto simp: config_ok_def channel_ok_def)
qed

lemma bus_reachable_ok: "bus_reachable c \<Longrightarrow> config_ok c"
  unfolding bus_reachable_def
proof (induction rule: rtranclp_induct)
  case base
  show ?case by (simp add: init_config_def NewBus_def config_ok_def)
qed (rule bus_step_ok)

section \<open>A sample run\<close>

definition all_events :: Filter where
  "all_events = \<lparr>flt_Kind = ''all'', flt_Service = [], flt_Operation = [], flt_Saga = []\<rparr>"

definition sample_event :: "string \<Rightarrow> Event" where
  "sample_event eid = zero_Event\<lparr>ev_ID := eid\<rparr>"

text \<open>One subscriber with room for one delivery, and two events published.\<close>

definition sample_sub :: "Delivery list \<Rightarrow> config" where
  "sample_sub ds = \<lparr>cfg_bus = \<lparr>bus_nextID = 1, bus_subscribers = [1 \<mapsto> \<lparr>sub_filter = all_events, sub_cap = 1, sub_ch = ds\<rparr>]\<rparr>,
     cfg_received = \<lambda>_. [], cfg_published = \<lambda>_. []\<rparr>"

definition sample_run :: config where
  "sample_run = (sample_sub [resync_delivery (event_delivery (sample_event ''e2''))])
     \<lparr>cfg_published := (\<lambda>_. [])(1 := [sample_event ''e1'', sample_event ''e2''])\<rparr>"

lemma sample_publish:
  assumes "snd (deliverNonBlocking 0 0 1 ds (event_delivery e)) = ds'"
  shows "bus_step ((sample_sub ds)\<lparr>cfg_published := (\<lambda>_. [])(1 := es)\<rparr>) ((sample_sub ds')\<lparr>cfg_published := (\<lambda>_. [])(1 := es @ [e])\<rparr>)"
proof -
  let ?c = "(sample_sub ds)\<lparr>cfg_published := (\<lambda>_. [])(1 := es)\<rparr>"
  have m: "matchesFilter e all_events" by (simp add: matchesFilter_def all_events_def Let_def)
  have t: "fst (deliverNonBlocking 0 0 1 ds (event_delivery e)) = []" by (simp add: deliverNonBlocking_def Let_def)
  have "Publish None (\<lambda>_. (0, 0)) e (cfg_bus ?c) = (Inr (), \<lambda>_. [], cfg_bus (sample_sub ds'))"
    using assms t by (auto simp: Publish_def sample_sub_def m fun_eq_iff Let_def split: prod.splits)
  from bus_step.publish [OF this] have "bus_step ?c \<lparr>cfg_bus = cfg_bus (sample_sub ds'), cfg_received = (\<lambda>i. cfg_received ?c i @ []),
      cfg_published = (\<lambda>i. if addressed e (cfg_bus ?c) i then cfg_published ?c i @ [e] else cfg_published ?c i)\<rparr>" .
  moreover have "(\<lambda>i. if addressed e (cfg_bus ?c) i then cfg_published ?c i @ [e] else cfg_published ?c i) = (\<lambda>_. [])(1 := es @ [e])"
    by (auto simp: addressed_def sample_sub_def m)
  ultimately show ?thesis by (simp add: sample_sub_def)
qed

lemma sample_reachable: "bus_reachable sample_run"
proof -
  have "bus_step init_config (sample_sub [])"
    using bus_step.subscribe [of None all_events 1 init_config 1 "cfg_bus (sample_sub [])"]
    by (simp add: Subscribe_def init_config_def NewBus_def sample_sub_def fun_upd_idem)
  also have "sample_sub [] = (sample_sub [])\<lparr>cfg_published := (\<lambda>_. [])(1 := [])\<rparr>" by (simp add: sample_sub_def fun_upd_idem)
  finally have 1: "bus_step init_config ((sample_sub [])\<lparr>cfg_published := (\<lambda>_. [])(1 := [])\<rparr>)" .
  have 2: "bus_step ((sample_sub [])\<lparr>cfg_published := (\<lambda>_. [])(1 := [])\<rparr>)
      ((sample_sub [event_delivery (sample_event ''e1'')])\<lparr>cfg_published := (\<lambda>_. [])(1 := [] @ [sample_event ''e1''])\<rparr>)"
    by (rule sample_publish) (simp add: deliverNonBlocking_def)
  have 3: "bus_step ((sample_sub [event_delivery (sample_event ''e1'')])\<lparr>cfg_published := (\<lambda>_. [])(1 := [] @ [sample_event ''e1''])\<rparr>)
      ((sample_sub [resync_delivery (event_delivery (sample_event ''e2''))])
        \<lparr>cfg_published := (\<lambda>_. [])(1 := ([] @ [sample_event ''e1'']) @ [sample_event ''e2''])\<rparr>)"
    by (rule sample_publish) (simp add: deliverNonBlocking_def try_send_def)
  have "bus_step\<^sup>*\<^sup>* init_config ((sample_sub [resync_delivery (event_delivery (sample_event ''e2''))])
        \<lparr>cfg_published := (\<lambda>_. [])(1 := ([] @ [sample_event ''e1'']) @ [sample_event ''e2''])\<rparr>)"
    using 1 2 3 by (rule converse_rtranclp_into_rtranclp [OF _ converse_rtranclp_into_rtranclp [OF _ r_into_rtranclp]])
  then show ?thesis by (simp add: bus_reachable_def sample_run_def)
qed

section \<open>Properties\<close>

text \<open>
  C25: no event is lost silently. In every reachable configuration of the bus, whatever the interleaving of
  publishers, subscribers and receives, each subscriber's buffer is within its capacity; what it
  received followed by what is buffered is, unless it contains a resync marker, exactly the sequence of
  matching events published since it subscribed; and the newest delivery names the last such event,
  either by carrying it or as a resync marker with its id.
\<close>

theorem bus_no_silent_loss:
  assumes "bus_reachable c" "bus_subscribers (cfg_bus c) i = Some sub"
  shows "length (sub_ch sub) \<le> sub_cap sub \<and>
    ((\<forall>d. d \<in> set (cfg_received c i @ sub_ch sub) \<longrightarrow> \<not> dl_ResyncRequired d) \<longrightarrow>
       map dl_Event (cfg_received c i @ sub_ch sub) = cfg_published c i) \<and>
    (cfg_published c i \<noteq> [] \<longrightarrow> cfg_received c i @ sub_ch sub \<noteq> [] \<and>
       names (last (cfg_received c i @ sub_ch sub)) (last (cfg_published c i)))"
proof -
  have "channel_ok sub (cfg_received c i) (cfg_published c i)"
    using bus_reachable_ok [OF assms(1)] assms(2) by (auto simp: config_ok_def)
  then have ch: "length (sub_ch sub) \<le> sub_cap sub" and ok: "stream_ok (cfg_received c i @ sub_ch sub) (cfg_published c i)"
    by (simp_all add: channel_ok_def)
  have "map dl_Event (map event_delivery es) = es" for es by (simp add: comp_def)
  then show ?thesis using ch ok unfolding stream_ok_def list_all_iff by metis
qed

theorem bus_no_silent_loss_witness:
  "\<exists>sub. bus_subscribers (cfg_bus sample_run) 1 = Some sub \<and> length (sub_ch sub) \<le> 1 \<and>
     names (last (cfg_received sample_run 1 @ sub_ch sub)) (sample_event ''e2'')"
proof -
  have s: "bus_subscribers (cfg_bus sample_run) 1 = Some \<lparr>sub_filter = all_events, sub_cap = 1,
      sub_ch = [resync_delivery (event_delivery (sample_event ''e2''))]\<rparr>"
    and p: "cfg_published sample_run 1 = [sample_event ''e1'', sample_event ''e2'']"
    by (simp_all add: sample_run_def sample_sub_def)
  show ?thesis using bus_no_silent_loss [OF sample_reachable s] s p by simp
qed

end
