(* ===== verification/Go_Sha256.thy ===== *)
theory Go_Sha256
  imports Prelude "HOL-Library.Word"
begin

text \<open>
  The functions of Go's crypto/sha256 and encoding/hex that Skiff uses: \<^verbatim>\<open>sha256.Sum256\<close> as in FIPS 180-4,
  on the bytes of a string, and \<^verbatim>\<open>hex.EncodeToString\<close>. The proofs of the other theories use no more of
  the digest than that it is a function with 32 bytes of output.
\<close>

unbundle bit_operations_syntax

type_synonym u32 = "32 word"

definition sha_rotr :: "nat \<Rightarrow> u32 \<Rightarrow> u32" where
  "sha_rotr n w = drop_bit n w OR push_bit (32 - n) w"

definition sha_initial :: "u32 list" where
  "sha_initial = [1779033703, 3144134277, 1013904242, 2773480762, 1359893119, 2600822924, 528734635, 1541459225]"

definition sha_constants :: "u32 list" where
  "sha_constants =
    [1116352408, 1899447441, 3049323471, 3921009573, 961987163, 1508970993, 2453635748, 2870763221,
     3624381080, 310598401, 607225278, 1426881987, 1925078388, 2162078206, 2614888103, 3248222580,
     3835390401, 4022224774, 264347078, 604807628, 770255983, 1249150122, 1555081692, 1996064986,
     2554220882, 2821834349, 2952996808, 3210313671, 3336571891, 3584528711, 113926993, 338241895,
     666307205, 773529912, 1294757372, 1396182291, 1695183700, 1986661051, 2177026350, 2456956037,
     2730485921, 2820302411, 3259730800, 3345764771, 3516065817, 3600352804, 4094571909, 275423344,
     430227734, 506948616, 659060556, 883997877, 958139571, 1322822218, 1537002063, 1747873779,
     1955562222, 2024104815, 2227730452, 2361852424, 2428436474, 2756734187, 3204031479, 3329325298]"

definition byte_word :: "char \<Rightarrow> u32" where
  "byte_word c = word_of_nat (of_char c)"

text \<open>Four bytes, the first the most significant, and back.\<close>

fun be_words :: "string \<Rightarrow> u32 list" where
  "be_words (a # b # c # d # rest) =
     (push_bit 24 (byte_word a) OR push_bit 16 (byte_word b) OR push_bit 8 (byte_word c) OR byte_word d) # be_words rest"
| "be_words _ = []"

definition be_bytes :: "u32 \<Rightarrow> string" where
  "be_bytes w = map (\<lambda>n. char_of (unat (drop_bit n w) mod 256)) [24, 16, 8, 0]"

text \<open>Padding to whole blocks of 64 bytes: a one bit, zeros, and the length in bits.\<close>

definition sha_pad :: "string \<Rightarrow> string" where
  "sha_pad m = (let n = length m; z = (119 - n mod 64) mod 64; bits = 8 * n in
     m @ [CHR 0x80] @ replicate z (CHR 0x00) @ map (\<lambda>k. char_of (bits div 2 ^ k mod 256)) [56, 48, 40, 32, 24, 16, 8, 0])"

fun sha_blocks :: "nat \<Rightarrow> u32 list \<Rightarrow> u32 list list" where
  "sha_blocks 0 ws = []"
| "sha_blocks (Suc n) ws = take 16 ws # sha_blocks n (drop 16 ws)"

definition small_sigma0 :: "u32 \<Rightarrow> u32" where
  "small_sigma0 x = sha_rotr 7 x XOR sha_rotr 18 x XOR drop_bit 3 x"

definition small_sigma1 :: "u32 \<Rightarrow> u32" where
  "small_sigma1 x = sha_rotr 17 x XOR sha_rotr 19 x XOR drop_bit 10 x"

definition big_sigma0 :: "u32 \<Rightarrow> u32" where
  "big_sigma0 x = sha_rotr 2 x XOR sha_rotr 13 x XOR sha_rotr 22 x"

definition big_sigma1 :: "u32 \<Rightarrow> u32" where
  "big_sigma1 x = sha_rotr 6 x XOR sha_rotr 11 x XOR sha_rotr 25 x"

text \<open>The message schedule, kept in reverse: \<open>n\<close> more words after the ones given.\<close>

fun sha_schedule :: "nat \<Rightarrow> u32 list \<Rightarrow> u32 list" where
  "sha_schedule 0 rs = rev rs"
| "sha_schedule (Suc n) rs =
     sha_schedule n ((small_sigma1 (rs ! 1) + rs ! 6 + small_sigma0 (rs ! 14) + rs ! 15) # rs)"

fun sha_round :: "u32 \<times> u32 \<Rightarrow> u32 list \<Rightarrow> u32 list" where
  "sha_round (k, w) [a, b, c, d, e, f, g, h] =
     (let t1 = h + big_sigma1 e + ((e AND f) XOR (NOT e AND g)) + k + w;
          t2 = big_sigma0 a + ((a AND b) XOR (a AND c) XOR (b AND c))
      in [t1 + t2, a, b, c, d + t1, e, f, g])"
| "sha_round _ st = st"

definition sha_block :: "u32 list \<Rightarrow> u32 list \<Rightarrow> u32 list" where
  "sha_block ws st =
     map2 (+) st (fold sha_round (zip sha_constants (sha_schedule 48 (rev ws))) st)"

definition Sum256 :: "string \<Rightarrow> string" where
  "Sum256 m = (let p = sha_pad m in
     concat (map be_bytes (fold sha_block (sha_blocks (length p div 64) (be_words p)) sha_initial)))"

definition hextable :: string where
  "hextable = ''0123456789abcdef''"

definition hex_digit :: "nat \<Rightarrow> char" where
  "hex_digit d = hextable ! d"

definition hex_EncodeToString :: "string \<Rightarrow> string" where
  "hex_EncodeToString s = concat (map (\<lambda>c. [hex_digit (of_char c div 16), hex_digit (of_char c mod 16)]) s)"

section \<open>The size of a digest\<close>

lemma sha_round_length [simp]: "length (sha_round kw st) = length st"
  by (induction kw st rule: sha_round.induct) (auto simp: Let_def)

lemma sha_fold_length [simp]: "length (fold sha_round kws st) = length st"
  by (induction kws arbitrary: st) auto

lemma sha_block_length [simp]: "length (sha_block ws st) = length st"
  by (simp add: sha_block_def)

lemma sha_blocks_length [simp]: "length (fold sha_block bs st) = length st"
  by (induction bs arbitrary: st) auto

lemma be_bytes_length [simp]: "length (be_bytes w) = 4"
  by (simp add: be_bytes_def)

lemma Sum256_length: "length (Sum256 m) = 32"
proof -
  have "length (concat (map be_bytes ws)) = 4 * length ws" for ws by (induction ws) auto
  then show ?thesis by (simp add: Sum256_def Let_def sha_initial_def)
qed

lemma hex_EncodeToString_length [simp]: "length (hex_EncodeToString s) = 2 * length s"
  by (induction s) (auto simp: hex_EncodeToString_def)

end
