(* ===== verification/Events.thy ===== *)
theory Events
  imports Schema_Codec Go_Time Go_Sha256 Paths
begin

text \<open>
  Log events (internal/events: event.go, hashchain.go): the event and audit records with their JSON
  codecs, event ids made of a time prefix and a digest in Crockford's base 32, and the hash chain that
  links each event to the one before it.
\<close>

definition events_SchemaVersion :: string where "events_SchemaVersion = ''skiff.event/v1''"

definition ScopeService :: string where "ScopeService = ''service''"
definition ScopeOperation :: string where "ScopeOperation = ''operation''"
definition ScopeSaga :: string where "ScopeSaga = ''saga''"
definition ScopeAudit :: string where "ScopeAudit = ''audit''"

section \<open>Records\<close>

record Scope =
  scp_Kind :: string
  scp_Service :: string
  scp_Operation :: string
  scp_Saga :: string

record HashChain =
  hc_PreviousEventID :: string
  hc_PreviousHash :: string
  hc_Hash :: string

record events_Event =
  ee_SchemaVersion :: string
  ee_ID :: string
  ee_Time :: string
  ee_TraceID :: string
  ee_Scope :: Scope
  ee_Type :: string
  ee_Severity :: string
  ee_Actor :: "Actor option"
  ee_Summary :: string
  ee_Facts :: "Fact list"
  ee_Data :: raw
  ee_HashChain :: "HashChain option"

record AuditRecord =
  ar_SchemaVersion :: string
  ar_ID :: string
  ar_Time :: string
  ar_TraceID :: string
  ar_Actor :: Actor
  ar_Action :: string
  ar_Target :: Target
  ar_Risk :: string
  ar_ApprovalID :: string
  ar_Summary :: string
  ar_BeforeSummary :: string
  ar_AfterSummary :: string
  ar_Data :: raw

section \<open>Zero values\<close>

definition zero_Scope :: Scope where
  "zero_Scope = \<lparr>scp_Kind = [], scp_Service = [], scp_Operation = [], scp_Saga = []\<rparr>"

definition zero_HashChain :: HashChain where
  "zero_HashChain = \<lparr>hc_PreviousEventID = [], hc_PreviousHash = [], hc_Hash = []\<rparr>"

definition zero_events_Event :: events_Event where
  "zero_events_Event = \<lparr>ee_SchemaVersion = [], ee_ID = [], ee_Time = [], ee_TraceID = [], ee_Scope = zero_Scope, ee_Type = [], ee_Severity = [], ee_Actor = None, ee_Summary = [], ee_Facts = [], ee_Data = RawEmpty, ee_HashChain = None\<rparr>"

definition zero_AuditRecord :: AuditRecord where
  "zero_AuditRecord = \<lparr>ar_SchemaVersion = [], ar_ID = [], ar_Time = [], ar_TraceID = [], ar_Actor = zero_Actor, ar_Action = [], ar_Target = zero_Target, ar_Risk = [], ar_ApprovalID = [], ar_Summary = [], ar_BeforeSummary = [], ar_AfterSummary = [], ar_Data = RawEmpty\<rparr>"

section \<open>Codecs\<close>

definition names_Scope :: "string list" where
  "names_Scope = [''kind'', ''service'', ''operation'', ''saga'']"

definition enc_Scope :: "Scope \<Rightarrow> json" where
  "enc_Scope x = enc_obj [
     (''kind'', e_str (scp_Kind x)),
     (''service'', o_str (scp_Service x)),
     (''operation'', o_str (scp_Operation x)),
     (''saga'', o_str (scp_Saga x))]"

definition dec_Scope :: "json \<Rightarrow> Scope result" where
  "dec_Scope = dec_struct names_Scope (\<lambda>g.
     rbind (d_str (g ''kind'')) (\<lambda>v0.
     rbind (d_str (g ''service'')) (\<lambda>v1.
     rbind (d_str (g ''operation'')) (\<lambda>v2.
     rbind (d_str (g ''saga'')) (\<lambda>v3.
     Inr \<lparr>scp_Kind = v0, scp_Service = v1, scp_Operation = v2, scp_Saga = v3\<rparr>)))))"

definition names_HashChain :: "string list" where
  "names_HashChain = [''previous_event_id'', ''previous_hash'', ''hash'']"

definition enc_HashChain :: "HashChain \<Rightarrow> json" where
  "enc_HashChain x = enc_obj [
     (''previous_event_id'', o_str (hc_PreviousEventID x)),
     (''previous_hash'', o_str (hc_PreviousHash x)),
     (''hash'', e_str (hc_Hash x))]"

definition dec_HashChain :: "json \<Rightarrow> HashChain result" where
  "dec_HashChain = dec_struct names_HashChain (\<lambda>g.
     rbind (d_str (g ''previous_event_id'')) (\<lambda>v0.
     rbind (d_str (g ''previous_hash'')) (\<lambda>v1.
     rbind (d_str (g ''hash'')) (\<lambda>v2.
     Inr \<lparr>hc_PreviousEventID = v0, hc_PreviousHash = v1, hc_Hash = v2\<rparr>))))"

definition names_events_Event :: "string list" where
  "names_events_Event = [''schema_version'', ''id'', ''time'', ''trace_id'', ''scope'', ''type'', ''severity'', ''actor'', ''summary'', ''facts'', ''data'', ''hash_chain'']"

definition enc_events_Event :: "events_Event \<Rightarrow> json" where
  "enc_events_Event x = enc_obj [
     (''schema_version'', e_str (ee_SchemaVersion x)),
     (''id'', e_str (ee_ID x)),
     (''time'', e_str (ee_Time x)),
     (''trace_id'', o_str (ee_TraceID x)),
     (''scope'', e_sub enc_Scope (ee_Scope x)),
     (''type'', e_str (ee_Type x)),
     (''severity'', o_str (ee_Severity x)),
     (''actor'', o_ptr enc_Actor (ee_Actor x)),
     (''summary'', e_str (ee_Summary x)),
     (''facts'', o_list enc_Fact (ee_Facts x)),
     (''data'', o_raw (ee_Data x)),
     (''hash_chain'', o_ptr enc_HashChain (ee_HashChain x))]"

definition dec_events_Event :: "json \<Rightarrow> events_Event result" where
  "dec_events_Event = dec_struct names_events_Event (\<lambda>g.
     rbind (d_str (g ''schema_version'')) (\<lambda>v0.
     rbind (d_str (g ''id'')) (\<lambda>v1.
     rbind (d_str (g ''time'')) (\<lambda>v2.
     rbind (d_str (g ''trace_id'')) (\<lambda>v3.
     rbind (d_sub zero_Scope dec_Scope (g ''scope'')) (\<lambda>v4.
     rbind (d_str (g ''type'')) (\<lambda>v5.
     rbind (d_str (g ''severity'')) (\<lambda>v6.
     rbind (d_ptr dec_Actor (g ''actor'')) (\<lambda>v7.
     rbind (d_str (g ''summary'')) (\<lambda>v8.
     rbind (d_list dec_Fact (g ''facts'')) (\<lambda>v9.
     rbind (d_raw (g ''data'')) (\<lambda>v10.
     rbind (d_ptr dec_HashChain (g ''hash_chain'')) (\<lambda>v11.
     Inr \<lparr>ee_SchemaVersion = v0, ee_ID = v1, ee_Time = v2, ee_TraceID = v3, ee_Scope = v4, ee_Type = v5, ee_Severity = v6, ee_Actor = v7, ee_Summary = v8, ee_Facts = v9, ee_Data = v10, ee_HashChain = v11\<rparr>)))))))))))))"

definition wf_events_Event :: "events_Event \<Rightarrow> bool" where
  "wf_events_Event x = (raw_valid (ee_Data x))"

definition raws_ok_events_Event :: "events_Event \<Rightarrow> bool" where
  "raws_ok_events_Event x = (raw_valid (ee_Data x))"

definition names_AuditRecord :: "string list" where
  "names_AuditRecord = [''schema_version'', ''id'', ''time'', ''trace_id'', ''actor'', ''action'', ''target'', ''risk'', ''approval_id'', ''summary'', ''before_summary'', ''after_summary'', ''data'']"

definition enc_AuditRecord :: "AuditRecord \<Rightarrow> json" where
  "enc_AuditRecord x = enc_obj [
     (''schema_version'', e_str (ar_SchemaVersion x)),
     (''id'', e_str (ar_ID x)),
     (''time'', e_str (ar_Time x)),
     (''trace_id'', e_str (ar_TraceID x)),
     (''actor'', e_sub enc_Actor (ar_Actor x)),
     (''action'', e_str (ar_Action x)),
     (''target'', e_sub enc_Target (ar_Target x)),
     (''risk'', o_str (ar_Risk x)),
     (''approval_id'', o_str (ar_ApprovalID x)),
     (''summary'', e_str (ar_Summary x)),
     (''before_summary'', o_str (ar_BeforeSummary x)),
     (''after_summary'', o_str (ar_AfterSummary x)),
     (''data'', o_raw (ar_Data x))]"

definition dec_AuditRecord :: "json \<Rightarrow> AuditRecord result" where
  "dec_AuditRecord = dec_struct names_AuditRecord (\<lambda>g.
     rbind (d_str (g ''schema_version'')) (\<lambda>v0.
     rbind (d_str (g ''id'')) (\<lambda>v1.
     rbind (d_str (g ''time'')) (\<lambda>v2.
     rbind (d_str (g ''trace_id'')) (\<lambda>v3.
     rbind (d_sub zero_Actor dec_Actor (g ''actor'')) (\<lambda>v4.
     rbind (d_str (g ''action'')) (\<lambda>v5.
     rbind (d_sub zero_Target dec_Target (g ''target'')) (\<lambda>v6.
     rbind (d_str (g ''risk'')) (\<lambda>v7.
     rbind (d_str (g ''approval_id'')) (\<lambda>v8.
     rbind (d_str (g ''summary'')) (\<lambda>v9.
     rbind (d_str (g ''before_summary'')) (\<lambda>v10.
     rbind (d_str (g ''after_summary'')) (\<lambda>v11.
     rbind (d_raw (g ''data'')) (\<lambda>v12.
     Inr \<lparr>ar_SchemaVersion = v0, ar_ID = v1, ar_Time = v2, ar_TraceID = v3, ar_Actor = v4, ar_Action = v5, ar_Target = v6, ar_Risk = v7, ar_ApprovalID = v8, ar_Summary = v9, ar_BeforeSummary = v10, ar_AfterSummary = v11, ar_Data = v12\<rparr>))))))))))))))"

definition wf_AuditRecord :: "AuditRecord \<Rightarrow> bool" where
  "wf_AuditRecord x = (raw_valid (ar_Data x))"

definition raws_ok_AuditRecord :: "AuditRecord \<Rightarrow> bool" where
  "raws_ok_AuditRecord x = (raw_valid (ar_Data x))"

section \<open>Round trips\<close>

lemma names_ok_Scope: "names_ok names_Scope"
  by (simp add: names_ok_def names_Scope_def fold_key_def lower_char_def)

lemma enc_Scope_not_null [simp]: "enc_Scope x \<noteq> JNull"
  by (simp add: enc_Scope_def)

lemma codec_Scope [codec_simps]: "dec_Scope (enc_Scope x) = Inr x"
  unfolding dec_Scope_def enc_Scope_def
  by (subst dec_struct_enc_obj [OF names_ok_Scope])
    (auto simp: names_Scope_def codec_simps dec_str_def)

lemma names_ok_HashChain: "names_ok names_HashChain"
  by (simp add: names_ok_def names_HashChain_def fold_key_def lower_char_def)

lemma enc_HashChain_not_null [simp]: "enc_HashChain x \<noteq> JNull"
  by (simp add: enc_HashChain_def)

lemma codec_HashChain [codec_simps]: "dec_HashChain (enc_HashChain x) = Inr x"
  unfolding dec_HashChain_def enc_HashChain_def
  by (subst dec_struct_enc_obj [OF names_ok_HashChain])
    (auto simp: names_HashChain_def codec_simps dec_str_def)

lemma names_ok_events_Event: "names_ok names_events_Event"
  by (simp add: names_ok_def names_events_Event_def fold_key_def lower_char_def)

lemma enc_events_Event_not_null [simp]: "enc_events_Event x \<noteq> JNull"
  by (simp add: enc_events_Event_def)

lemma codec_events_Event [codec_simps]: "wf_events_Event x \<Longrightarrow> dec_events_Event (enc_events_Event x) = Inr x"
  unfolding dec_events_Event_def enc_events_Event_def
  by (subst dec_struct_enc_obj [OF names_ok_events_Event])
    (auto simp: names_events_Event_def codec_simps dec_str_def wf_events_Event_def list_all_iff option.pred_set)

lemma names_ok_AuditRecord: "names_ok names_AuditRecord"
  by (simp add: names_ok_def names_AuditRecord_def fold_key_def lower_char_def)

lemma enc_AuditRecord_not_null [simp]: "enc_AuditRecord x \<noteq> JNull"
  by (simp add: enc_AuditRecord_def)

lemma codec_AuditRecord [codec_simps]: "wf_AuditRecord x \<Longrightarrow> dec_AuditRecord (enc_AuditRecord x) = Inr x"
  unfolding dec_AuditRecord_def enc_AuditRecord_def
  by (subst dec_struct_enc_obj [OF names_ok_AuditRecord])
    (auto simp: names_AuditRecord_def codec_simps dec_str_def wf_AuditRecord_def list_all_iff option.pred_set)

lemma dec_wf_events_Event [dec_wf]: "dec_events_Event j = Inr x \<Longrightarrow> wf_events_Event x"
  unfolding dec_events_Event_def wf_events_Event_def
  by (drule dec_struct_InrD) (auto simp: rbind_Inr_iff intro: dec_wf)

lemma dec_wf_AuditRecord [dec_wf]: "dec_AuditRecord j = Inr x \<Longrightarrow> wf_AuditRecord x"
  unfolding dec_AuditRecord_def wf_AuditRecord_def
  by (drule dec_struct_InrD) (auto simp: rbind_Inr_iff intro: dec_wf)

lemma raws_ok_events_Event_wf [simp]: "wf_events_Event x \<Longrightarrow> raws_ok_events_Event x"
  by (auto simp: wf_events_Event_def raws_ok_events_Event_def list_all_iff option.pred_set)

lemma raws_ok_AuditRecord_wf [simp]: "wf_AuditRecord x \<Longrightarrow> raws_ok_AuditRecord x"
  by (auto simp: wf_AuditRecord_def raws_ok_AuditRecord_def list_all_iff option.pred_set)


section \<open>Identifiers\<close>

definition crockford :: string where
  "crockford = ''0123456789ABCDEFGHJKMNPQRSTVWXYZ''"

fun encodeBase32 :: "64 word \<Rightarrow> nat \<Rightarrow> string" where
  "encodeBase32 v 0 = []"
| "encodeBase32 v (Suc width) = encodeBase32 (drop_bit 5 v) width @ [crockford ! unat (v AND 31)]"

text \<open>The inner loop of \<^verbatim>\<open>encodeBytesBase32\<close>: five bits at a time, while there are five and room for them.\<close>

fun emitBase32 :: "nat \<Rightarrow> u32 \<Rightarrow> nat \<Rightarrow> string \<Rightarrow> nat \<times> string" where
  "emitBase32 width buffer bits out =
     (if 5 \<le> bits \<and> length out < width
      then emitBase32 width buffer (bits - 5) (out @ [crockford ! unat (drop_bit (bits - 5) buffer AND 31)])
      else (bits, out))"

declare emitBase32.simps [simp del]

fun bytesBase32 :: "nat \<Rightarrow> string \<Rightarrow> u32 \<Rightarrow> nat \<Rightarrow> string \<Rightarrow> string" where
  "bytesBase32 width [] buffer bits out =
     (let out1 = (if length out < width \<and> 0 < bits then out @ [crockford ! unat (push_bit (5 - bits) buffer AND 31)] else out)
      in out1 @ replicate (width - length out1) (CHR ''0''))"
| "bytesBase32 width (b # body) buffer bits out =
     (let buffer1 = push_bit 8 buffer OR byte_word b in
      case emitBase32 width buffer1 (bits + 8) out of
        (bits1, out1) \<Rightarrow> if length out1 = width then out1 else bytesBase32 width body buffer1 bits1 out1)"

definition encodeBytesBase32 :: "string \<Rightarrow> nat \<Rightarrow> string" where
  "encodeBytesBase32 body width = bytesBase32 width body 0 0 []"

text \<open>
  \<^verbatim>\<open>UnixNano\<close> wraps to 64 bits, the division truncates towards zero, and the conversion to \<^verbatim>\<open>uint64\<close> wraps.
\<close>

definition unix_millis :: "gotime \<Rightarrow> 64 word" where
  "unix_millis t = (let n = wrap64 t in word_of_int (if n < 0 then - (- n div 1000000) else n div 1000000))"

text \<open>The zero time, 1 January of year 1 in UTC; \<open>wall\<close> is what \<^verbatim>\<open>time.Now()\<close> returns.\<close>

definition zero_gotime :: gotime where "zero_gotime = - 62135596800000000000"

definition NewID :: "gotime \<Rightarrow> gotime \<Rightarrow> string \<Rightarrow> string" where
  "NewID wall t0 seed = (let t = (if t0 = zero_gotime then wall else t0) in
     encodeBase32 (unix_millis t) 10 @ encodeBytesBase32 (Sum256 (show_int (wrap64 t) @ [CHR 0x00] @ seed)) 16)"

definition NewServiceEvent :: "gotime \<Rightarrow> string \<Rightarrow> string \<Rightarrow> string \<Rightarrow> gotime \<Rightarrow> string \<Rightarrow> events_Event" where
  "NewServiceEvent wall service eventType summary t seed =
     zero_events_Event\<lparr>ee_SchemaVersion := events_SchemaVersion, ee_ID := NewID wall t seed, ee_Time := canonical_Time t,
       ee_Scope := zero_Scope\<lparr>scp_Kind := ScopeService, scp_Service := service\<rparr>, ee_Type := eventType, ee_Summary := summary\<rparr>"

definition NewOperationEvent :: "gotime \<Rightarrow> string \<Rightarrow> string \<Rightarrow> string \<Rightarrow> string \<Rightarrow> gotime \<Rightarrow> string \<Rightarrow> events_Event" where
  "NewOperationEvent wall service operation eventType summary t seed =
     (NewServiceEvent wall service eventType summary t seed)
       \<lparr>ee_Scope := zero_Scope\<lparr>scp_Kind := ScopeOperation, scp_Service := service, scp_Operation := operation\<rparr>\<rparr>"

definition NewSagaEvent :: "gotime \<Rightarrow> string \<Rightarrow> string \<Rightarrow> string \<Rightarrow> gotime \<Rightarrow> string \<Rightarrow> events_Event" where
  "NewSagaEvent wall saga eventType summary t seed =
     zero_events_Event\<lparr>ee_SchemaVersion := events_SchemaVersion, ee_ID := NewID wall t seed, ee_Time := canonical_Time t,
       ee_Scope := zero_Scope\<lparr>scp_Kind := ScopeSaga, scp_Saga := saga\<rparr>, ee_Type := eventType, ee_Summary := summary\<rparr>"

definition NewAuditRecord ::
  "gotime \<Rightarrow> Actor \<Rightarrow> Target \<Rightarrow> string \<Rightarrow> string \<Rightarrow> string \<Rightarrow> gotime \<Rightarrow> string \<Rightarrow> AuditRecord" where
  "NewAuditRecord wall actor target action summary traceID t seed =
     zero_AuditRecord\<lparr>ar_SchemaVersion := events_SchemaVersion, ar_ID := NewID wall t seed, ar_Time := canonical_Time t,
       ar_TraceID := traceID, ar_Actor := actor, ar_Action := action, ar_Target := target, ar_Summary := summary\<rparr>"

definition hexSHA256 :: "string \<Rightarrow> string" where
  "hexSHA256 body = hex_EncodeToString (Sum256 body)"

section \<open>The hash chain\<close>

text \<open>The bytes that are hashed: the previous hash, when there is one, and the event without its chain.\<close>

definition digest_text :: "events_Event \<Rightarrow> string \<Rightarrow> string" where
  "digest_text event previousHash = json_text (enc_obj [
     (''previous_hash'', o_str previousHash),
     (''event'', e_sub enc_events_Event (event\<lparr>ee_HashChain := None\<rparr>))])"

definition digestWithPrevious :: "events_Event \<Rightarrow> string \<Rightarrow> string result" where
  "digestWithPrevious event previousHash =
     (if raws_ok_events_Event event then Inr (hexSHA256 (digest_text event previousHash))
      else Inl (JsonError ''json: error calling MarshalJSON''))"

definition events_Digest :: "events_Event \<Rightarrow> string result" where
  "events_Digest event = digestWithPrevious event []"

text \<open>The id and hash an event's successor refers to: shared by \<^verbatim>\<open>Link\<close> and \<^verbatim>\<open>VerifyChain\<close>.\<close>

definition chain_hash :: "events_Event option \<Rightarrow> (string \<times> string) result" where
  "chain_hash previous = (case previous of
      None \<Rightarrow> Inr ([], [])
    | Some p \<Rightarrow>
        (let h = (case ee_HashChain p of None \<Rightarrow> [] | Some c \<Rightarrow> hc_Hash c) in
         if h = [] then rbind (events_Digest p) (\<lambda>hash. Inr (ee_ID p, hash)) else Inr (ee_ID p, h)))"

definition Link :: "events_Event option \<Rightarrow> events_Event \<Rightarrow> events_Event result" where
  "Link previous current =
     rbind (chain_hash previous) (\<lambda>(previousID, previousHash).
     rbind (digestWithPrevious current previousHash) (\<lambda>hash.
     Inr (current\<lparr>ee_HashChain := Some \<lparr>hc_PreviousEventID = previousID, hc_PreviousHash = previousHash, hc_Hash = hash\<rparr>\<rparr>)))"

fun verifyFrom :: "events_Event option \<Rightarrow> events_Event list \<Rightarrow> unit result" where
  "verifyFrom previous [] = Inr ()"
| "verifyFrom previous (event # rest) = (case ee_HashChain event of
      None \<Rightarrow> verifyFrom (Some event) rest
    | Some c \<Rightarrow>
        rbind (chain_hash previous) (\<lambda>(expectedID, expectedHash).
        if hc_PreviousEventID c \<noteq> expectedID then Inl (new_error ''event hash chain previous event id mismatch'')
        else if hc_PreviousHash c \<noteq> expectedHash then Inl (new_error ''event hash chain previous hash mismatch'')
        else rbind (digestWithPrevious event expectedHash) (\<lambda>hash.
          if hc_Hash c \<noteq> hash then Inl (new_error ''event hash chain digest mismatch'')
          else verifyFrom (Some event) rest)))"

definition VerifyChain :: "events_Event list \<Rightarrow> unit result" where
  "VerifyChain evs = verifyFrom None evs"

section \<open>Event ids are valid and ordered by time\<close>

lemma crockford_nth:
  assumes "i < 32"
  shows "isIDChar (crockford ! i)"
proof -
  have "list_all isIDChar crockford" by (simp add: crockford_def isIDChar_def Let_def)
  moreover have "length crockford = 32" by (simp add: crockford_def)
  ultimately show ?thesis using assms by (simp add: list_all_length)
qed

lemma unat_and31: "unat ((v :: 'a :: len word) AND 31) = unat v mod 32"
proof -
  have "v AND 31 = take_bit 5 v" by (simp add: take_bit_eq_mask mask_numeral)
  then show ?thesis by (simp only: unsigned_take_bit_eq) (simp add: take_bit_eq_mod)
qed

lemma unat_shift5: "unat (drop_bit 5 (v :: 'a :: len word)) = unat v div 32"
  unfolding unat_drop_bit_eq by (simp add: drop_bit_eq_div)

lemma encodeBase32_length [simp]: "length (encodeBase32 v n) = n"
  by (induction n arbitrary: v) auto

lemma encodeBase32_chars: "list_all isIDChar (encodeBase32 v n)"
  by (induction n arbitrary: v) (auto simp: unat_and31 crockford_nth)

lemma crockford_sorted: "i < j \<Longrightarrow> j < 32 \<Longrightarrow> crockford ! i < crockford ! j"
proof -
  have "sorted_wrt (<) crockford" by (simp add: crockford_def less_char_def)
  then show "i < j \<Longrightarrow> j < 32 \<Longrightarrow> crockford ! i < crockford ! j"
    by (rule sorted_wrt_nth_less) (simp_all add: crockford_def)
qed

lemma less_append_same_length:
  fixes xs :: "'a :: linorder list"
  shows "length xs = length ys \<Longrightarrow> xs < ys \<Longrightarrow> xs @ us < ys @ vs"
  by (induction xs ys rule: list_induct2) auto

lemma less_append_left: "(xs @ us < xs @ vs) = (us < (vs :: 'a :: linorder list))"
  by (induction xs) auto

lemma encodeBase32_less:
  assumes "unat v < unat w" "unat w < 32 ^ n"
  shows "encodeBase32 v n < encodeBase32 w n"
  using assms
proof (induction n arbitrary: v w)
  case (Suc n)
  let ?v = "drop_bit 5 v" and ?w = "drop_bit 5 w"
  have d: "unat ?v = unat v div 32" "unat ?w = unat w div 32" by (simp_all add: unat_shift5)
  have w: "unat ?w < 32 ^ n" using Suc.prems(2) d(2) by (simp add: less_mult_imp_div_less mult.commute)
  show ?case
  proof (cases "unat ?v < unat ?w")
    case True
    then show ?thesis using Suc.IH [OF _ w] by (simp add: less_append_same_length)
  next
    case False
    then have eq: "unat v div 32 = unat w div 32" using Suc.prems(1) d div_le_mono [of "unat v" "unat w" 32] by linarith
    then have "?v = ?w" using d by (metis unsigned_word_eqI)
    moreover have "unat v mod 32 < unat w mod 32"
      using Suc.prems(1) eq div_mult_mod_eq [of "unat v" 32] div_mult_mod_eq [of "unat w" 32] by linarith
    then have "crockford ! unat (v AND 31) < crockford ! unat (w AND 31)" by (simp add: unat_and31 crockford_sorted)
    ultimately show ?thesis by (simp add: less_append_left)
  qed
qed simp

lemma emitBase32_ok:
  assumes "emitBase32 width buffer bits out = (bits', out')" "length out \<le> width" "list_all isIDChar out"
  shows "length out' \<le> width \<and> list_all isIDChar out'"
  using assms
proof (induction width buffer bits out arbitrary: bits' out' rule: emitBase32.induct)
  case (1 width buffer bits out)
  show ?case
  proof (cases "5 \<le> bits \<and> length out < width")
    case True
    have "list_all isIDChar (out @ [crockford ! unat (drop_bit (bits - 5) buffer AND 31)])"
      using "1.prems"(3) by (simp add: unat_and31 crockford_nth)
    then show ?thesis using "1.IH" [OF True, of bits' out'] "1.prems" True
      by (simp add: emitBase32.simps [of width buffer bits out])
  next
    case False
    have "emitBase32 width buffer bits out = (bits, out)" unfolding emitBase32.simps [of width buffer bits out] if_not_P [OF False] ..
    then show ?thesis using "1.prems" by simp
  qed
qed

lemma bytesBase32_ok:
  assumes "length out \<le> width" "list_all isIDChar out"
  shows "length (bytesBase32 width body buffer bits out) = width \<and> list_all isIDChar (bytesBase32 width body buffer bits out)"
  using assms
proof (induction width body buffer bits out rule: bytesBase32.induct)
  case (1 width buffer bits out)
  have "isIDChar (CHR ''0'')" by (simp add: isIDChar_def Let_def)
  then show ?case using 1 by (auto simp: Let_def unat_and31 crockford_nth list_all_iff)
next
  case (2 width b body buffer bits out)
  obtain bits' out' where e: "emitBase32 width (push_bit 8 buffer OR byte_word b) (bits + 8) out = (bits', out')" by fastforce
  then have "length out' \<le> width" "list_all isIDChar out'" using emitBase32_ok "2.prems" by blast+
  then show ?case using "2.IH" e by (simp add: Let_def)
qed

lemma NewID_ok: "is_id (NewID wall t seed)" "length (NewID wall t seed) = 26"
proof -
  define t' where "t' = (if t = zero_gotime then wall else t)"
  define sum where "sum = Sum256 (show_int (wrap64 t') @ [CHR 0x00] @ seed)"
  have id: "NewID wall t seed = encodeBase32 (unix_millis t') 10 @ encodeBytesBase32 sum 16"
    by (simp add: NewID_def t'_def sum_def Let_def)
  have b: "length (encodeBytesBase32 sum 16) = 16 \<and> list_all isIDChar (encodeBytesBase32 sum 16)"
    unfolding encodeBytesBase32_def by (rule bytesBase32_ok) simp_all
  show l: "length (NewID wall t seed) = 26" using b by (simp add: id)
  have "list_all isIDChar (NewID wall t seed)" using b by (simp add: id encodeBase32_chars)
  moreover have "NewID wall t seed \<notin> {[], ''.'', ''..''}" using l by auto
  ultimately show "is_id (NewID wall t seed)" by (simp add: is_id_def)
qed

lemma unix_millis_nat:
  assumes "0 \<le> t" "in_int64 t"
  shows "unat (unix_millis t) = nat t div 1000000" "nat t div 1000000 < 32 ^ 10"
proof -
  have b: "nat t div 1000000 < 32 ^ 10" using assms by (auto simp: in_int64_def)
  obtain m where m: "t = int m" using assms(1) nonneg_eq_int by blast
  have d: "t div 1000000 = int (nat t div 1000000)" by (simp add: m zdiv_int)
  have "unix_millis t = word_of_int (t div 1000000)" using assms by (simp add: unix_millis_def wrap64_id Let_def)
  then have "unix_millis t = word_of_nat (nat t div 1000000)" unfolding d of_int_of_nat_eq .
  then show "unat (unix_millis t) = nat t div 1000000" using b by (simp add: unat_of_nat take_bit_eq_mod)
  show "nat t div 1000000 < 32 ^ 10" by (rule b)
qed

lemma NewID_less:
  assumes "0 \<le> t" "in_int64 u" "t div 1000000 < u div 1000000"
  shows "NewID wall t seed < NewID wall' u seed'"
proof -
  have le: "t \<le> u" using assms(3) by (metis linorder_not_less zdiv_mono1 zero_less_numeral order_less_le)
  then have u: "0 \<le> u" "in_int64 t" using assms by (auto simp: in_int64_def)
  have z: "t \<noteq> zero_gotime" "u \<noteq> zero_gotime" using assms(1) u(1) by (auto simp: zero_gotime_def)
  have "nat (t div 1000000) < nat (u div 1000000)" using assms(1,3) by (simp add: nat_less_eq_zless pos_imp_zdiv_nonneg_iff)
  then have "nat t div 1000000 < nat u div 1000000" using assms(1) u(1) by (simp add: nat_div_distrib)
  then have "encodeBase32 (unix_millis t) 10 < encodeBase32 (unix_millis u) 10"
    using encodeBase32_less [of "unix_millis t" "unix_millis u" 10] unix_millis_nat assms(1,2) u by simp
  then show ?thesis using z by (simp add: NewID_def Let_def less_append_same_length)
qed

section \<open>The hash chain\<close>

lemma hex_digit_inj: "i < 16 \<Longrightarrow> j < 16 \<Longrightarrow> hex_digit i = hex_digit j \<Longrightarrow> i = j"
  by (simp add: hex_digit_def hextable_def nth_eq_iff_index_eq)

lemma nibbles: "of_char (e :: char) div 16 < (16 :: nat)" "of_char e mod 16 < (16 :: nat)"
  by (rule less_mult_imp_div_less) simp_all

lemma hex_inj: "hex_EncodeToString x = hex_EncodeToString y \<Longrightarrow> x = y"
proof (induction x arbitrary: y)
  case Nil
  then show ?case by (cases y) (auto simp: hex_EncodeToString_def)
next
  case (Cons c x)
  then obtain d y' where y: "y = d # y'" by (cases y) (auto simp: hex_EncodeToString_def)
  have eq: "hex_digit (of_char c div 16) = hex_digit (of_char d div 16)" "hex_digit (of_char c mod 16) = hex_digit (of_char d mod 16)"
    "hex_EncodeToString x = hex_EncodeToString y'"
    using Cons.prems y by (simp_all add: hex_EncodeToString_def)
  then have "of_char c div 16 = (of_char d div 16 :: nat)" "of_char c mod 16 = (of_char d mod 16 :: nat)"
    using hex_digit_inj nibbles by blast+
  then have "of_char c = (of_char d :: nat)" by (metis div_mult_mod_eq)
  then show ?case using Cons.IH [OF eq(3)] y by simp
qed

lemma hexSHA256_length: "length (hexSHA256 body) = 64"
  by (simp add: hexSHA256_def Sum256_length)

lemma hexSHA256_nonempty [simp]: "hexSHA256 body \<noteq> []"
  using hexSHA256_length [of body] by auto

lemma hex_digit_plain: "i < 16 \<Longrightarrow> json_escape_char (hex_digit i) = [hex_digit i] \<and> byte_in 0 0x7F (hex_digit i)"
proof -
  have "list_all (\<lambda>c. json_escape_char c = [c] \<and> byte_in 0 0x7F c) hextable" "length hextable = 16"
    by (simp_all add: hextable_def json_escape_char_def byte_in_def Let_def)
  then show "i < 16 \<Longrightarrow> json_escape_char (hex_digit i) = [hex_digit i] \<and> byte_in 0 0x7F (hex_digit i)"
    by (simp add: hex_digit_def list_all_length)
qed

lemma json_string_hex: "json_string (hex_EncodeToString s) = CHR 0x22 # hex_EncodeToString s @ [CHR 0x22]"
proof -
  have "concat (map json_escape_char (hex_EncodeToString s)) = hex_EncodeToString s"
    by (induction s) (simp_all add: hex_EncodeToString_def hex_digit_plain nibbles)
  moreover have "list_all (byte_in 0 0x7F) (hex_EncodeToString s)"
    by (induction s) (simp_all add: hex_EncodeToString_def hex_digit_plain nibbles)
  ultimately show ?thesis by (simp add: json_string_def json_escape_ascii)
qed

text \<open>The hashed text determines the previous hash, when that is a digest.\<close>

lemma digest_text_shape:
  "\<exists>r. digest_text e (hexSHA256 x) = ''{'' @ json_string ''previous_hash'' @ '':'' @ [CHR 0x22] @ hexSHA256 x @ CHR 0x22 # r"
proof -
  have "json_string (hexSHA256 x) = CHR 0x22 # hexSHA256 x @ [CHR 0x22]" unfolding hexSHA256_def by (rule json_string_hex)
  then show ?thesis by (simp add: digest_text_def enc_obj_def o_str_def e_sub_def)
qed

lemma digest_text_prev:
  assumes "digest_text e (hexSHA256 a) = digest_text e' (hexSHA256 b)"
  shows "hexSHA256 a = hexSHA256 b"
proof -
  obtain r r' where "''{'' @ json_string ''previous_hash'' @ '':'' @ [CHR 0x22] @ hexSHA256 a @ CHR 0x22 # r =
      ''{'' @ json_string ''previous_hash'' @ '':'' @ [CHR 0x22] @ hexSHA256 b @ CHR 0x22 # r'"
    using assms digest_text_shape [of e a] digest_text_shape [of e' b] by (elim exE) simp
  then have "hexSHA256 a @ CHR 0x22 # r = hexSHA256 b @ CHR 0x22 # r'" by simp
  then show ?thesis using hexSHA256_length [of a] hexSHA256_length [of b] by (simp add: append_eq_append_conv)
qed

lemma verifyFrom_append:
  "verifyFrom p (xs @ ys) = rbind (verifyFrom p xs) (\<lambda>_. verifyFrom (if xs = [] then p else Some (last xs)) ys)"
proof (induction xs arbitrary: p)
  case Nil
  then show ?case by (simp add: rbind_def)
next
  case (Cons x xs)
  show ?case
    by (cases "ee_HashChain x"; cases "chain_hash p"; cases "digestWithPrevious x (snd (projr (chain_hash p)))")
      (auto simp: Cons.IH rbind_def split: if_splits prod.splits)
qed

lemma digest_ignores_chain [simp]: "digestWithPrevious (e\<lparr>ee_HashChain := c\<rparr>) h = digestWithPrevious e h"
  by (simp add: digestWithPrevious_def digest_text_def raws_ok_events_Event_def)

lemma Link_verifies: "Link p e = Inr e' \<Longrightarrow> verifyFrom p [e'] = Inr ()"
  by (auto simp: Link_def rbind_Inr_iff rbind_def split: prod.splits sum.splits)

lemma Link_keeps: "Link p e = Inr e' \<Longrightarrow> ee_HashChain e' \<noteq> None \<and> ee_Data e' = ee_Data e \<and> ee_ID e' = ee_ID e"
  by (auto simp: Link_def rbind_Inr_iff)

text \<open>In a chain that verifies, a linked event's hash is the digest of its text, and its predecessor's hash is in that text.\<close>

lemma verifyFrom_linked:
  assumes "verifyFrom p (e # es) = Inr ()" "ee_HashChain e = Some c"
  shows "verifyFrom (Some e) es = Inr ()" "hc_Hash c = hexSHA256 (digest_text e (hc_PreviousHash c))"
    "chain_hash p = Inr (hc_PreviousEventID c, hc_PreviousHash c)"
  using assms by (auto simp: rbind_Inr_iff digestWithPrevious_def split: if_splits prod.splits)

definition chain_prev :: "events_Event \<Rightarrow> string" where
  "chain_prev e = (case ee_HashChain e of None \<Rightarrow> [] | Some c \<Rightarrow> hc_PreviousHash c)"

definition chain_own :: "events_Event \<Rightarrow> string" where
  "chain_own e = (case ee_HashChain e of None \<Rightarrow> [] | Some c \<Rightarrow> hc_Hash c)"

abbreviation chain_text :: "events_Event \<Rightarrow> string" where
  "chain_text e \<equiv> digest_text e (chain_prev e)"

lemma verified_chain:
  assumes "verifyFrom p es = Inr ()" "list_all (\<lambda>e. ee_HashChain e \<noteq> None) es"
    "p = None \<or> (\<exists>e. p = Some e \<and> ee_HashChain e \<noteq> None \<and> chain_own e \<noteq> [])" "i < length es"
  shows "chain_own (es ! i) = hexSHA256 (chain_text (es ! i)) \<and>
    chain_prev (es ! i) = (if i = 0 then (case p of None \<Rightarrow> [] | Some e \<Rightarrow> chain_own e) else chain_own (es ! (i - 1)))"
  using assms
proof (induction es arbitrary: p i)
  case (Cons e es)
  obtain c where c: "ee_HashChain e = Some c" using Cons.prems(2) by auto
  note v = verifyFrom_linked [OF Cons.prems(1) c]
  have own: "chain_own e = hexSHA256 (chain_text e)" using v(2) c by (simp add: chain_own_def chain_prev_def)
  show ?case
  proof (cases i)
    case 0
    have "chain_prev e = (case p of None \<Rightarrow> [] | Some e \<Rightarrow> chain_own e)"
      using v(3) c Cons.prems(3) by (auto simp: chain_hash_def chain_prev_def chain_own_def Let_def split: option.splits if_splits)
    then show ?thesis using 0 own by simp
  next
    case (Suc j)
    have "Some e = None \<or> (\<exists>e'. Some e = Some e' \<and> ee_HashChain e' \<noteq> None \<and> chain_own e' \<noteq> [])" using c own by simp
    from Cons.IH [OF v(1) _ this, of j] show ?thesis using Suc Cons.prems(2,4) by (cases j) auto
  qed
qed simp

lemma equal_tail_hashes:
  assumes v: "VerifyChain es = Inr ()" "VerifyChain fs = Inr ()" and len: "length es = length fs"
    and linked: "list_all (\<lambda>e. ee_HashChain e \<noteq> None) (es @ fs)"
    and last: "chain_own (last es) = chain_own (last fs)"
    and inj: "\<And>i. i < length es \<Longrightarrow> Sum256 (chain_text (es ! i)) = Sum256 (chain_text (fs ! i)) \<Longrightarrow> chain_text (es ! i) = chain_text (fs ! i)"
    and i_lt: "i < length es"
  shows "chain_text (es ! i) = chain_text (fs ! i)"
proof -
  have E: "chain_own (es ! j) = hexSHA256 (chain_text (es ! j))" "0 < j \<Longrightarrow> chain_prev (es ! j) = chain_own (es ! (j - 1))"
    and F: "chain_own (fs ! j) = hexSHA256 (chain_text (fs ! j))" "0 < j \<Longrightarrow> chain_prev (fs ! j) = chain_own (fs ! (j - 1))"
    if "j < length es" for j
    using verified_chain [of None es j] verified_chain [of None fs j] v linked len that by (auto simp: VerifyChain_def)
  have txt1: "chain_text (es ! j) = chain_text (fs ! j)" if j: "j < length es" "chain_own (es ! j) = chain_own (fs ! j)" for j
    using inj [OF j(1)] j(2) unfolding E(1) [OF j(1)] F(1) [OF j(1)] by (simp add: hexSHA256_def hex_inj)
  have "i \<le> length es - 1" using i_lt by simp
  then have "chain_own (es ! i) = chain_own (fs ! i)"
  proof (induction rule: inc_induct)
    case base
    have "es \<noteq> []" "fs \<noteq> []" using i_lt len by auto
    then show ?case using last len by (simp add: last_conv_nth)
  next
    case (step n)
    then have n: "n < length es" "Suc n < length es" by auto
    have "chain_text (es ! Suc n) = chain_text (fs ! Suc n)" using txt1 [OF n(2) step.IH] .
    then show ?case
      using digest_text_prev E(1) [OF n(1)] F(1) [OF n(1)] E(2) [OF n(2)] F(2) [OF n(2)] by simp
  qed
  then show ?thesis using txt1 [OF i_lt] by blast
qed

section \<open>Properties\<close>

text \<open>
  Linking extends a chain. Linking an event to the last one of a chain that verifies gives a longer
  chain that verifies; linking fails only when an event's payload is not valid JSON.
\<close>

theorem link_extends_chain:
  fixes es :: "events_Event list"
  defines "prev \<equiv> (if es = [] then None else Some (last es))"
  shows "(VerifyChain es = Inr () \<and> Link prev e = Inr e' \<longrightarrow> VerifyChain (es @ [e']) = Inr ()) \<and>
    (list_all (\<lambda>x. raw_valid (ee_Data x)) (es @ [e]) \<longrightarrow> (\<exists>e'. Link prev e = Inr e'))"
proof (intro conjI impI)
  assume "VerifyChain es = Inr () \<and> Link prev e = Inr e'"
  then show "VerifyChain (es @ [e']) = Inr ()"
    using Link_verifies [of prev e e'] unfolding VerifyChain_def verifyFrom_append prev_def by (simp add: rbind_def)
next
  assume "list_all (\<lambda>x. raw_valid (ee_Data x)) (es @ [e])"
  then have "raws_ok_events_Event e" "es \<noteq> [] \<Longrightarrow> raws_ok_events_Event (last es)"
    by (auto simp: raws_ok_events_Event_def list_all_iff)
  then show "\<exists>e'. Link prev e = Inr e'"
    by (auto simp: Link_def chain_hash_def events_Digest_def digestWithPrevious_def rbind_def prev_def Let_def split: option.splits)
qed

definition first_event :: events_Event where
  "first_event = NewServiceEvent 0 ''web'' ''deploy'' ''deployed'' 1700000000000000000 ''seed''"

definition linked_event :: events_Event where
  "linked_event = projr (Link None first_event)"

lemma linked_event: "Link None first_event = Inr linked_event" "VerifyChain [linked_event] = Inr ()" "ee_HashChain linked_event \<noteq> None"
proof -
  have "raws_ok_events_Event first_event" by (simp add: raws_ok_events_Event_def first_event_def NewServiceEvent_def zero_events_Event_def raw_valid_def)
  then show l: "Link None first_event = Inr linked_event"
    by (auto simp: linked_event_def Link_def chain_hash_def digestWithPrevious_def rbind_def)
  then show "VerifyChain [linked_event] = Inr ()" using Link_verifies by (simp add: VerifyChain_def)
  show "ee_HashChain linked_event \<noteq> None" using Link_keeps [OF l] by blast
qed

theorem link_extends_chain_witness:
  "VerifyChain [linked_event] = Inr () \<and> (\<exists>e'. Link (Some linked_event) first_event = Inr e' \<and> VerifyChain [linked_event, e'] = Inr ())"
proof -
  have "raw_valid (ee_Data linked_event)" "raw_valid (ee_Data first_event)"
    using Link_keeps [OF linked_event(1)] by (simp_all add: first_event_def NewServiceEvent_def zero_events_Event_def raw_valid_def)
  then obtain e' where "Link (Some linked_event) first_event = Inr e'"
    using link_extends_chain [of "[linked_event]" first_event] by auto
  then show ?thesis using link_extends_chain [of "[linked_event]" first_event e'] linked_event(2) by auto
qed

text \<open>
  C27: tampering shows. Two fully linked chains of the same length that verify and end in the same hash were
  computed from the same texts, event by event; otherwise they exhibit, at some position, two different
  texts with the same SHA-256 digest.
\<close>

theorem chain_tamper_evident:
  assumes "VerifyChain es = Inr ()" "VerifyChain fs = Inr ()" "length es = length fs"
    "list_all (\<lambda>e. ee_HashChain e \<noteq> None) (es @ fs)" "chain_own (last es) = chain_own (last fs)"
  shows "(\<forall>i. i < length es \<longrightarrow> digest_text (es ! i) (chain_prev (es ! i)) = digest_text (fs ! i) (chain_prev (fs ! i))) \<or>
    (\<exists>i. i < length es \<and> digest_text (es ! i) (chain_prev (es ! i)) \<noteq> digest_text (fs ! i) (chain_prev (fs ! i)) \<and>
      Sum256 (digest_text (es ! i) (chain_prev (es ! i))) = Sum256 (digest_text (fs ! i) (chain_prev (fs ! i))))"
  using equal_tail_hashes [OF assms] by metis

theorem chain_tamper_evident_witness:
  "\<exists>fs. VerifyChain fs = Inr () \<and> length fs = 1 \<and> chain_own (last fs) = chain_own linked_event \<and>
    digest_text linked_event (chain_prev linked_event) = digest_text (hd fs) (chain_prev (hd fs))"
  using chain_tamper_evident [of "[linked_event]" "[linked_event]"] linked_event(2,3) by (intro exI [of _ "[linked_event]"]) simp

text \<open>
  Event ids. An id made by \<^verbatim>\<open>NewID\<close> has 26 characters and is always a valid path segment, and ids of
  later milliseconds compare greater whatever their seeds, so that listing by key is listing by time; this
  holds for every time from 1970 on that \<^verbatim>\<open>UnixNano\<close> can represent.
\<close>

theorem new_id_ordered:
  "is_id (NewID wall t seed) \<and> length (NewID wall t seed) = 26 \<and>
   (0 \<le> t \<and> in_int64 u \<and> t div 1000000 < u div 1000000 \<longrightarrow> NewID wall t seed < NewID wall' u seed')"
  using NewID_ok NewID_less by blast

theorem new_id_ordered_witness:
  "NewID 0 1700000000000000000 ''a'' < NewID 0 1700000000001000000 ''b''"
  using new_id_ordered [of 0 1700000000000000000 "''a''" 1700000000001000000 0 "''b''"] by (simp add: in_int64_def)

end
