(* ===== verification/Event_Log.thy ===== *)
theory Event_Log
  imports Events World Cas_Document "HOL-Library.Multiset"
begin

text \<open>
  The event log (internal/events/log.go): events and audit records are created once under a key made of
  their scope and id, and listed by prefix in the order of their keys.
\<close>

section \<open>Operations\<close>

definition ErrDuplicate :: goerr where
  "ErrDuplicate = new_error ''events: duplicate event id''"

definition keyForEvent :: "events_Event \<Rightarrow> string result" where
  "keyForEvent event = (let scope = ee_Scope event in
     if scp_Kind scope = ScopeService then paths_ServiceEvent (scp_Service scope) (ee_ID event)
     else if scp_Kind scope = ScopeOperation then paths_OperationEvent (scp_Service scope) (scp_Operation scope) (ee_ID event)
     else if scp_Kind scope = ScopeSaga then paths_SagaEvent (scp_Saga scope) (ee_ID event)
     else Inl (new_error (''unsupported event scope '' @ quote (scp_Kind scope))))"

definition prefixForScope :: "Scope \<Rightarrow> string result" where
  "prefixForScope scope =
     (if scp_Kind scope = ScopeService then paths_ServiceEventsPrefix (scp_Service scope)
      else if scp_Kind scope = ScopeOperation then paths_OperationEventsPrefix (scp_Service scope) (scp_Operation scope)
      else if scp_Kind scope = ScopeSaga then paths_SagaEventsPrefix (scp_Saga scope)
      else Inl (new_error (''unsupported event scope '' @ quote (scp_Kind scope))))"

text \<open>The time \<open>now\<close> also stands for \<^verbatim>\<open>time.Now()\<close> in \<^verbatim>\<open>NewID\<close>, which is used only if \<open>now\<close> is the zero time.\<close>

definition log_normalizeEvent :: "events_Event \<Rightarrow> gotime \<Rightarrow> events_Event" where
  "log_normalizeEvent event now =
     (let e1 = (if ee_SchemaVersion event = [] then event\<lparr>ee_SchemaVersion := events_SchemaVersion\<rparr> else event);
          e2 = (if ee_ID e1 = [] then e1\<lparr>ee_ID := NewID now now (scp_Service (ee_Scope e1) @ scp_Operation (ee_Scope e1) @
                  scp_Saga (ee_Scope e1) @ ee_Type e1 @ ee_Summary e1)\<rparr> else e1);
          e3 = (if ee_Time e2 = [] then e2\<lparr>ee_Time := canonical_Time now\<rparr> else e2)
      in e3\<lparr>ee_Type := TrimSpace (ee_Type e3), ee_Summary := TrimSpace (ee_Summary e3)\<rparr>)"

definition log_normalizeAudit :: "AuditRecord \<Rightarrow> gotime \<Rightarrow> AuditRecord" where
  "log_normalizeAudit r now =
     (let r1 = (if ar_SchemaVersion r = [] then r\<lparr>ar_SchemaVersion := events_SchemaVersion\<rparr> else r);
          r2 = (if ar_ID r1 = [] then r1\<lparr>ar_ID := NewID now now (act_ID (ar_Actor r1) @ ar_Action r1 @
                  tgt_Kind (ar_Target r1) @ tgt_Name (ar_Target r1))\<rparr> else r1);
          r3 = (if ar_Time r2 = [] then r2\<lparr>ar_Time := canonical_Time now\<rparr> else r2)
      in r3\<lparr>ar_Action := TrimSpace (ar_Action r3), ar_Summary := TrimSpace (ar_Summary r3)\<rparr>)"

definition log_putOptions :: PutOptions where
  "log_putOptions = \<lparr>po_ContentType = canonical_ContentType, po_Metadata = Map.empty, po_KMSKeyID = []\<rparr>"

text \<open>Creating the object; that it exists already is \<^verbatim>\<open>ErrDuplicate\<close>.\<close>

definition log_create :: "('s, 'z) World_scheme \<Rightarrow> string \<Rightarrow> json \<Rightarrow> ('s, ObjectMeta) io" where
  "log_create W key body =
     io_bind (io_try (os_Create W key (JsonBody body) log_putOptions)) (\<lambda>r. case r of
        Inl err \<Rightarrow> if is_store ErrAlreadyExists err then io_fail ErrDuplicate else io_fail err
      | Inr meta \<Rightarrow> io_ret meta)"

definition log_Append :: "('s, 'z) World_scheme \<Rightarrow> events_Event \<Rightarrow> ('s, ObjectMeta) io" where
  "log_Append W event0 =
     io_bind (io_ctx W) (\<lambda>_.
     io_bind (io_now W) (\<lambda>now.
     (let event = log_normalizeEvent event0 now in
      io_bind (io_lift (keyForEvent event)) (\<lambda>key.
      io_bind (io_lift (canonical_Marshal enc_events_Event raws_ok_events_Event event)) (\<lambda>body.
      log_create W key body)))))"

definition log_AppendAudit :: "('s, 'z) World_scheme \<Rightarrow> AuditRecord \<Rightarrow> ('s, ObjectMeta) io" where
  "log_AppendAudit W record0 =
     io_bind (io_ctx W) (\<lambda>_.
     io_bind (io_now W) (\<lambda>now.
     (let r = log_normalizeAudit record0 now in
      io_bind (io_lift (case time_Parse (ar_Time r) of
          None \<Rightarrow> Inl (Errorf (''audit time: '' @ ''parsing time'') (Some (TimeError ''parsing time'')))
        | Some t \<Rightarrow> Inr t)) (\<lambda>t.
      io_bind (io_lift (paths_AuditEventForTime t (ar_ID r))) (\<lambda>key.
      io_bind (io_lift (canonical_Marshal enc_AuditRecord raws_ok_AuditRecord r)) (\<lambda>body.
      log_create W key body))))))"

text \<open>\<^verbatim>\<open>int32(opts.Limit)\<close>.\<close>

definition to_int32 :: "int \<Rightarrow> int" where
  "to_int32 n = (n + 2 ^ 31) mod 2 ^ 32 - 2 ^ 31"

fun log_read :: "('s, 'z) World_scheme \<Rightarrow> ObjectMeta list \<Rightarrow> ('s, events_Event list) io" where
  "log_read W [] = io_ret []"
| "log_read W (meta # metas) =
     io_bind (os_Get W (om_Key meta)) (\<lambda>object.
     io_bind (io_lift (case canonical_UnmarshalStrict dec_events_Event (obj_Body object) of
         Inl err \<Rightarrow> Inl (Errorf (''decode event '' @ quote (om_Key meta) @ '': '' @ err_text err) (Some err))
       | Inr e \<Rightarrow> Inr e)) (\<lambda>event.
     io_bind (log_read W metas) (\<lambda>events. io_ret (event # events))))"

definition log_List :: "('s, 'z) World_scheme \<Rightarrow> Scope \<Rightarrow> int \<Rightarrow> ('s, events_Event list) io" where
  "log_List W scope limit =
     io_bind (io_ctx W) (\<lambda>_.
     io_bind (io_lift (prefixForScope scope)) (\<lambda>pre.
     io_bind (os_List W pre \<lparr>lo_Limit = to_int32 limit\<rparr>) (\<lambda>metas.
     log_read W (sort_key om_Key metas))))"

section \<open>What the operations do\<close>

lemma log_normalizeEvent_simps [simp]:
  "ee_Scope (log_normalizeEvent e now) = ee_Scope e" "ee_Data (log_normalizeEvent e now) = ee_Data e"
  "ee_HashChain (log_normalizeEvent e now) = ee_HashChain e" "ee_ID e \<noteq> [] \<Longrightarrow> ee_ID (log_normalizeEvent e now) = ee_ID e"
  by (simp_all add: log_normalizeEvent_def Let_def)

lemma event_under_prefix:
  assumes "keyForEvent e = Inr k"
  shows "\<exists>p. prefixForScope (ee_Scope e) = Inr p \<and> k = p @ ee_ID e @ ''.json'' \<and> is_id (ee_ID e)"
  using assms
  by (auto simp: keyForEvent_def prefixForScope_def Let_def rbind_Inr_iff paths_ServiceEvent_def paths_OperationEvent_def
      paths_SagaEvent_def paths_ServiceEventsPrefix_def paths_OperationEventsPrefix_def paths_SagaEventsPrefix_def split: if_splits)

lemma wf_event_iff: "wf_events_Event e \<longleftrightarrow> raws_ok_events_Event e"
  by (simp add: wf_events_Event_def raws_ok_events_Event_def)

context world
begin

lemma quiet_log [simp]: "quiet (log_create W k b)" "quiet (log_Append W e)" "quiet (log_AppendAudit W r)"
  by (auto simp: log_create_def log_Append_def log_AppendAudit_def Let_def)

lemma quiet_log_read [simp]: "quiet (log_read W ms)"
  by (induction ms) (auto simp: Let_def)

lemma quiet_log_List [simp]: "quiet (log_List W scope l)"
  by (auto simp: log_List_def)

text \<open>A successful append created the object: it was not there before.\<close>

lemma log_Append_ok:
  assumes "inv s" "log_Append W e s = (Inr m, t)"
  shows "\<exists>u now k. evolves s u \<and> evolves u t \<and> clock s \<le> now \<and> now \<le> clock t \<and> keyForEvent (log_normalizeEvent e now) = Inr k \<and>
    objs u k = None \<and> raws_ok_events_Event (log_normalizeEvent e now) \<and>
    objs t = (objs u)(k \<mapsto> (om_ETag m, JsonBody (enc_events_Event (log_normalizeEvent e now))))"
proof -
  obtain v now v' k where *: "io_ctx W s = (Inr (), v)" "io_now W v = (Inr now, v')"
    "keyForEvent (log_normalizeEvent e now) = Inr k" "raws_ok_events_Event (log_normalizeEvent e now)"
    "os_Create W k (JsonBody (enc_events_Event (log_normalizeEvent e now))) log_putOptions v' = (Inr m, t)"
    using assms(2) by (auto simp: log_Append_def log_create_def io_ok_iffs Let_def canonical_Marshal_def split: if_splits)
  have sv: "evolves s v" using quietD [of "io_ctx W", OF _ assms(1) *(1)] by simp
  have vv: "evolves v v'" "now = clock v'" using io_now_Inr [OF *(2)] by auto
  obtain u where u: "evolves v' u" "evolves u t" "objs u k = None"
    "objs t = (objs u)(k \<mapsto> (om_ETag m, JsonBody (enc_events_Event (log_normalizeEvent e now))))"
    using create_ok [OF *(5)] by blast
  have "clock s \<le> now" "now \<le> clock t" using clock_mono sv vv u(1,2) by (metis order_trans)+
  moreover have "evolves s u" using sv vv(1) u(1) evolves_trans by blast
  ultimately show ?thesis using u(2-4) *(3,4) by blast
qed

end

section \<open>A client alone\<close>

lemma still_log_read [simp]: "still (log_read sys_world ms)"
  by (induction ms) (auto simp: Let_def)

lemma still_log_List [simp]: "still (log_List sys_world scope l)"
  by (auto simp: log_List_def)

lemma alone_log_read:
  assumes "sys_env s = []" "log_read sys_world ms s = (Inr evs, t)"
  shows "list_all2 (\<lambda>k e. \<exists>et b. sys_objs s k = Some (et, b) \<and> doc_view dec_events_Event b = Some e) (map om_Key ms) evs"
  using assms(2)
proof (induction ms arbitrary: evs t)
  case (Cons m ms)
  then obtain ob u e evs' where *: "os_Get sys_world (om_Key m) s = (Inr ob, u)"
    "canonical_UnmarshalStrict dec_events_Event (obj_Body ob) = Inr e" "log_read sys_world ms u = (Inr evs', t)" "evs = e # evs'"
    by (auto simp: io_ok_iffs split: sum.splits)
  have u: "u = s" by (rule stillD [OF still_simps(6) assms(1) *(1)])
  have "sys_objs s (om_Key m) = Some (obj_ETag ob, obj_Body ob)" using sysw.get_ok [OF *(1)] u by blast
  moreover have "doc_view dec_events_Event (obj_Body ob) = Some e" using *(2) by (simp add: doc_view_def)
  ultimately show ?case using Cons.IH [OF *(3) [unfolded u]] *(4) by auto
qed simp

lemma sorted_keys: "map om_Key (sort_key om_Key ms) = sort (map om_Key ms)"
  by (rule properties_for_sort [symmetric]) (auto simp: sorted_sort_key)

lemma alone_log_List:
  assumes "sys_env s = []" "sys_inv s" "prefixForScope scope = Inr p" "log_List sys_world scope 0 s = (Inr evs, t)"
  shows "t = s" "\<exists>ks. sorted ks \<and> distinct ks \<and> set ks = {k. prefix p k \<and> sys_objs s k \<noteq> None} \<and>
    list_all2 (\<lambda>k e. \<exists>et b. sys_objs s k = Some (et, b) \<and> doc_view dec_events_Event b = Some e) ks evs"
proof -
  show "t = s" by (rule stillD [OF still_log_List assms(1,4)])
  obtain u ms u' where *: "io_ctx sys_world s = (Inr (), u)" "os_List sys_world p \<lparr>lo_Limit = to_int32 0\<rparr> u = (Inr ms, u')"
    "log_read sys_world (sort_key om_Key ms) u' = (Inr evs, t)"
    using assms(3,4) by (auto simp: log_List_def io_ok_iffs)
  have u: "u = s" by (rule stillD [OF still_simps(5) assms(1) *(1)])
  have l: "os_List sys_world p \<lparr>lo_Limit = 0\<rparr> s = (Inr ms, u')" using *(2) u by (simp add: to_int32_def)
  have ms: "u' = s" "om_Key ` set ms = {k. prefix p k \<and> sys_objs s k \<noteq> None}" using alone_List [OF assms(1,2) l] by auto
  have d: "distinct (map om_Key ms)" using sysw.list_ok [OF assms(2) l] by blast
  let ?ks = "map om_Key (sort_key om_Key ms)"
  have "sorted ?ks" "distinct ?ks" "set ?ks = {k. prefix p k \<and> sys_objs s k \<noteq> None}"
    using d ms(2) unfolding sorted_keys by (auto simp: sorted_sort)
  then show "\<exists>ks. sorted ks \<and> distinct ks \<and> set ks = {k. prefix p k \<and> sys_objs s k \<noteq> None} \<and>
      list_all2 (\<lambda>k e. \<exists>et b. sys_objs s k = Some (et, b) \<and> doc_view dec_events_Event b = Some e) ks evs"
    using alone_log_read [OF assms(1) *(3) [unfolded ms(1)]] by blast
qed

lemma alone_log_Append:
  assumes "sys_env s = []" "keyForEvent (log_normalizeEvent e (sys_now s)) = Inr k" "raw_valid (ee_Data e)"
  shows "sys_objs s k = None \<Longrightarrow> \<exists>m t. log_Append sys_world e s = (Inr m, t) \<and> sys_env t = [] \<and> sys_now t = sys_now s \<and>
      sys_objs t = (sys_objs s)(k \<mapsto> (om_ETag m, JsonBody (enc_events_Event (log_normalizeEvent e (sys_now s)))))"
    and "sys_objs s k \<noteq> None \<Longrightarrow> log_Append sys_world e s = (Inl ErrDuplicate, s)"
proof -
  have r: "raws_ok_events_Event (log_normalizeEvent e (sys_now s))" using assms(3) by (simp add: raws_ok_events_Event_def)
  show "sys_objs s k \<noteq> None \<Longrightarrow> log_Append sys_world e s = (Inl ErrDuplicate, s)"
    using alone_Create_exists [OF assms(1)] assms r
    by (auto simp: log_Append_def log_create_def io_bind_def io_lift_def io_try_def io_fail_def canonical_Marshal_def Let_def)
  assume n: "sys_objs s k = None"
  obtain m t where "os_Create sys_world k (JsonBody (enc_events_Event (log_normalizeEvent e (sys_now s)))) log_putOptions s = (Inr m, t)"
    "sys_env t = []" "sys_now t = sys_now s"
    "sys_objs t = (sys_objs s)(k \<mapsto> (om_ETag m, JsonBody (enc_events_Event (log_normalizeEvent e (sys_now s)))))"
    using alone_Create [OF assms(1) n] by blast
  then show "\<exists>m t. log_Append sys_world e s = (Inr m, t) \<and> sys_env t = [] \<and> sys_now t = sys_now s \<and>
      sys_objs t = (sys_objs s)(k \<mapsto> (om_ETag m, JsonBody (enc_events_Event (log_normalizeEvent e (sys_now s)))))"
    using assms r by (simp add: log_Append_def log_create_def io_bind_def io_lift_def io_try_def io_ret_def canonical_Marshal_def Let_def)
qed

text \<open>
  Events appended through the saga store are JSON objects with a \<^verbatim>\<open>subject\<close> instead of a \<^verbatim>\<open>scope\<close>: under the
  strict decoding of \<^verbatim>\<open>Log.List\<close> they are errors, although both kinds live under a saga's events prefix.
\<close>

lemma saga_event_not_log_event: "\<exists>err. dec_events_Event (enc_Event e) = Inl err"
proof -
  have "\<not> fold_key ''subject'' \<in> set names_events_Event"
    by (simp add: names_events_Event_def fold_key_def lower_char_def)
  then show ?thesis
    by (simp add: dec_events_Event_def enc_Event_def dec_struct_def enc_obj_def e_sub_def e_str_def)
qed

definition web_scope :: Scope where
  "web_scope = zero_Scope\<lparr>scp_Kind := ScopeService, scp_Service := ''web''\<rparr>"

definition log_sys :: sys where
  "log_sys = \<lparr>sys_store = memory_New, sys_now = 1700000000000000000, sys_tokens = [], sys_events = [], sys_env = [], sys_history = []\<rparr>"

lemma log_sys_facts: "sys_env log_sys = []" "sys_inv log_sys" "sys_objs log_sys k = None" "is_name ''web''"
  by (simp_all add: log_sys_def sys_inv_def memory_inv_def memory_New_def sys_objs_def memory_objs_def is_name_def
      isLowerAlnum_def reservedSegments_def)

section \<open>Properties\<close>

text \<open>
  The log is append-only. A successful append created an object at a key nothing was stored under
  before, so no event is ever replaced; for a client alone, appending an event whose id is taken in its
  scope fails with the duplicate error and changes nothing.
\<close>

theorem append_never_overwrites:
  shows "(sys_inv s \<and> log_Append sys_world e s = (Inr m, t) \<longrightarrow>
      (\<exists>u now k. sys_evolves s u \<and> sys_evolves u t \<and> keyForEvent (log_normalizeEvent e now) = Inr k \<and> sys_objs u k = None \<and>
        sys_objs t = (sys_objs u)(k \<mapsto> (om_ETag m, JsonBody (enc_events_Event (log_normalizeEvent e now)))))) \<and>
    (sys_env s = [] \<and> keyForEvent (log_normalizeEvent e (sys_now s)) = Inr k \<and> raw_valid (ee_Data e) \<and> sys_objs s k \<noteq> None \<longrightarrow>
      log_Append sys_world e s = (Inl ErrDuplicate, s))"
  using sysw.log_Append_ok [of s e m t] alone_log_Append(2) [of s e k] by blast

text \<open>
  C37: what is appended is listed, in order. For a client alone, after a successful append of an event with valid data, if a listing of
  the event's scope without a limit (limit 0) succeeds, which takes every object under the scope's prefix to be an event
  document, then it changes nothing, contains the event as stored, and the listed events are the decoded objects
  under the prefix, all of them, in ascending order of their keys.
\<close>

theorem append_then_list:
  assumes "sys_env s = []" "sys_inv s" "raw_valid (ee_Data e)" "log_Append sys_world e s = (Inr m, t)"
    "log_List sys_world (ee_Scope e) 0 t = (Inr evs, t')"
  shows "log_normalizeEvent e (sys_now s) \<in> set evs \<and> t' = t \<and>
    (\<exists>p ks. prefixForScope (ee_Scope e) = Inr p \<and> sorted ks \<and> distinct ks \<and> set ks = {k. prefix p k \<and> sys_objs t k \<noteq> None} \<and>
      list_all2 (\<lambda>k e. \<exists>et b. sys_objs t k = Some (et, b) \<and> doc_view dec_events_Event b = Some e) ks evs)"
proof -
  let ?e = "log_normalizeEvent e (sys_now s)"
  obtain k where k: "keyForEvent ?e = Inr k"
    using assms(1,4) by (auto simp: log_Append_def io_ok_iffs Let_def)
  have none: "sys_objs s k = None" using alone_log_Append(2) [OF assms(1) k assms(3)] assms(4) by (cases "sys_objs s k") auto
  obtain m' u where "log_Append sys_world e s = (Inr m', u)" "sys_env u = []"
    "sys_objs u = (sys_objs s)(k \<mapsto> (om_ETag m', JsonBody (enc_events_Event ?e)))"
    using alone_log_Append(1) [OF assms(1) k assms(3) none] by blast
  then have t: "sys_env t = []" "sys_objs t k = Some (om_ETag m, JsonBody (enc_events_Event ?e))" using assms(4) by auto
  have inv: "sys_inv t" using sysw.quietD [OF sysw.quiet_log(2) assms(2,4)] sysw.evolves_inv assms(2) by blast
  obtain p where p: "prefixForScope (ee_Scope ?e) = Inr p" "k = p @ ee_ID ?e @ ''.json''" using event_under_prefix [OF k] by blast
  have p': "prefixForScope (ee_Scope e) = Inr p" using p(1) by simp
  note l = alone_log_List [OF t(1) inv p' assms(5)]
  obtain ks where ks: "sorted ks" "distinct ks" "set ks = {k. prefix p k \<and> sys_objs t k \<noteq> None}"
    "list_all2 (\<lambda>k e. \<exists>et b. sys_objs t k = Some (et, b) \<and> doc_view dec_events_Event b = Some e) ks evs"
    using l(2) by blast
  have "k \<in> set ks" using ks(3) p(2) t(2) by simp
  then obtain i where i: "i < length ks" "ks ! i = k" by (auto simp: in_set_conv_nth)
  have "raws_ok_events_Event ?e" using assms(3) by (simp add: raws_ok_events_Event_def)
  then have "dec_events_Event (enc_events_Event ?e) = Inr ?e" by (simp add: codec_simps wf_event_iff)
  then have "evs ! i = ?e" using list_all2_nthD [OF ks(4) i(1)] i(2) t(2) by (auto simp: doc_view_Some)
  then have "?e \<in> set evs" using i(1) list_all2_lengthD [OF ks(4)] by (metis nth_mem)
  then show ?thesis using l(1) p' ks by blast
qed

lemma log_sample:
  "\<exists>m t evs. log_Append sys_world first_event log_sys = (Inr m, t) \<and> log_List sys_world (ee_Scope first_event) 0 t = (Inr evs, t)"
proof -
  let ?e = "log_normalizeEvent first_event (sys_now log_sys)"
  have sc: "ee_Scope first_event = web_scope" "raw_valid (ee_Data first_event)" "ee_ID first_event \<noteq> []"
    using NewID_ok(2) [of 0 1700000000000000000 "''seed''"]
    by (auto simp: first_event_def NewServiceEvent_def web_scope_def zero_events_Event_def raw_valid_def)
  have "is_id (ee_ID ?e)" using sc(3) NewID_ok(1) by (simp add: first_event_def NewServiceEvent_def)
  then have k: "keyForEvent ?e = Inr (''services/web/events/'' @ ee_ID ?e @ ''.json'')" (is "_ = Inr ?k")
    using sc(1) log_sys_facts(4) by (simp add: keyForEvent_def web_scope_def Let_def paths_ServiceEvent_def rbind_def)
  obtain m t where a: "log_Append sys_world first_event log_sys = (Inr m, t)" "sys_env t = []"
    "sys_objs t = (sys_objs log_sys)(?k \<mapsto> (om_ETag m, JsonBody (enc_events_Event ?e)))"
    using alone_log_Append(1) [OF log_sys_facts(1) k sc(2) log_sys_facts(3)] by blast
  have inv: "sys_inv t" using sysw.quietD [OF sysw.quiet_log(2) log_sys_facts(2) a(1)] sysw.evolves_inv log_sys_facts(2) by blast
  have objs: "sys_objs t k' = (if k' = ?k then Some (om_ETag m, JsonBody (enc_events_Event ?e)) else None)" for k'
    unfolding a(3) using log_sys_facts(3) by simp
  have p: "prefixForScope web_scope = Inr ''services/web/events/''"
    using log_sys_facts(4) by (simp add: prefixForScope_def web_scope_def paths_ServiceEventsPrefix_def rbind_def)
  obtain ms where ms: "os_List sys_world ''services/web/events/'' \<lparr>lo_Limit = 0\<rparr> t = (Inr ms, t)"
    using a(2) by (simp add: sys_world_def on_store_def memory_List_def Let_def)
  have keys: "om_Key x = ?k" if x: "x \<in> set ms" for x
  proof -
    have "om_Key x \<in> {k. prefix ''services/web/events/'' k \<and> sys_objs t k \<noteq> None}" using alone_List(2) [OF a(2) inv ms] x by blast
    then show ?thesis by (simp add: objs split: if_splits)
  qed
  have "raws_ok_events_Event ?e" using sc(2) by (simp add: raws_ok_events_Event_def)
  then have dec: "canonical_UnmarshalStrict dec_events_Event (JsonBody (enc_events_Event ?e)) = Inr ?e"
    by (simp add: canonical_UnmarshalStrict_def codec_simps wf_event_iff)
  have ok: "sys_objs t ?k = Some (om_ETag m, JsonBody (enc_events_Event ?e))" by (simp add: objs)
  obtain ob where ob: "os_Get sys_world ?k t = (Inr ob, t)" "obj_Body ob = JsonBody (enc_events_Event ?e)"
    using alone_Get [OF a(2) ok] by blast
  have "\<exists>evs. log_read sys_world xs t = (Inr evs, t)" if xs: "set xs \<subseteq> set ms" for xs
    using xs
  proof (induction xs)
    case (Cons x xs)
    then obtain evs where "log_read sys_world xs t = (Inr evs, t)" by auto
    moreover have "om_Key x = ?k" using Cons.prems keys by simp
    ultimately show ?case using ob dec by (simp add: io_bind_def io_lift_def io_ret_def)
  qed simp
  then obtain evs where "log_read sys_world (sort_key om_Key ms) t = (Inr evs, t)" by fastforce
  then have "log_List sys_world web_scope 0 t = (Inr evs, t)"
    using p ms a(2) by (simp add: log_List_def io_bind_def io_lift_def to_int32_def)
  then show ?thesis using a(1) sc(1) by auto
qed

theorem append_never_overwrites_witness:
  "\<exists>m t u k. log_Append sys_world first_event log_sys = (Inr m, t) \<and> sys_objs u k = None \<and> sys_objs t k \<noteq> None"
proof -
  obtain m t where a: "log_Append sys_world first_event log_sys = (Inr m, t)" using log_sample by blast
  from conjunct1 [OF append_never_overwrites [of log_sys first_event m t]] obtain u k where
    "sys_objs u k = None" "sys_objs t k \<noteq> None"
    using a log_sys_facts(2) by fastforce
  then show ?thesis using a by blast
qed

theorem append_then_list_witness:
  "\<exists>m t evs. log_Append sys_world first_event log_sys = (Inr m, t) \<and> log_List sys_world (ee_Scope first_event) 0 t = (Inr evs, t) \<and>
     log_normalizeEvent first_event (sys_now log_sys) \<in> set evs"
proof -
  have r: "raw_valid (ee_Data first_event)"
    by (simp add: first_event_def NewServiceEvent_def zero_events_Event_def raw_valid_def)
  obtain m t evs where a: "log_Append sys_world first_event log_sys = (Inr m, t)"
    "log_List sys_world (ee_Scope first_event) 0 t = (Inr evs, t)" using log_sample by blast
  show ?thesis using append_then_list [OF log_sys_facts(1,2) r a] a by blast
qed

end
