(* ===== verification/Footprint.thy ===== *)
theory Footprint
  imports Saga_Executor Ops_Store Event_Log
begin

text \<open>
  Which keys an operation may write. \<open>guard_writes allowed W\<close> is the world \<open>W\<close> in which creating or swapping
  an object under any other key fails without effect. An operation that behaves the same in the
  guarded world as in the original one never attempts such a write, whatever other clients do and
  whatever the outcome: equations \<open>f (guard_writes allowed W) = f W\<close> are how the later theories
  state what an operation leaves alone.
\<close>

definition guard_writes :: "(string \<Rightarrow> bool) \<Rightarrow> ('s, 'z) World_scheme \<Rightarrow> ('s, 'z) World_scheme" where
  "guard_writes allowed W = W\<lparr>
     os_Create := (\<lambda>k b p. if allowed k then os_Create W k b p else io_fail (new_error ''write not allowed'')),
     os_CompareAndSwap := (\<lambda>k e b p. if allowed k then os_CompareAndSwap W k e b p
       else io_fail (new_error ''write not allowed''))\<rparr>"

lemma guard_writes_ops [simp]:
  "os_Get (guard_writes K W) = os_Get W" "os_List (guard_writes K W) = os_List W"
  "K k \<Longrightarrow> os_Create (guard_writes K W) k = os_Create W k"
  "K k \<Longrightarrow> os_CompareAndSwap (guard_writes K W) k = os_CompareAndSwap W k"
  "io_now (guard_writes K W) = io_now W" "io_token (guard_writes K W) = io_token W"
  "io_ctx (guard_writes K W) = io_ctx W" "io_sleep (guard_writes K W) = io_sleep W"
  "io_event_id (guard_writes K W) = io_event_id W"
  by (auto simp: guard_writes_def io_now_def io_token_def io_ctx_def io_sleep_def io_event_id_def fun_eq_iff)

lemma io_bind_lift_cong: "(\<And>x. r = Inr x \<Longrightarrow> f x = g x) \<Longrightarrow> io_bind (io_lift r) f = io_bind (io_lift r) g"
  by (cases r) simp_all

lemma guard_log_create [simp]: "K k \<Longrightarrow> log_create (guard_writes K W) k = log_create W k"
  by (simp add: log_create_def fun_eq_iff)

text \<open>Appending an event writes under the event's key only, and reading writes nothing.\<close>

lemma guard_log_Append:
  assumes "\<And>now k. keyForEvent (log_normalizeEvent e now) = Inr k \<Longrightarrow> K k"
  shows "log_Append (guard_writes K W) e = log_Append W e"
  unfolding log_Append_def guard_writes_ops Let_def
  by (intro io_bind_cong_fun refl io_bind_lift_cong) (simp add: assms)

lemma guard_log_AppendAudit:
  assumes "\<And>t i k. paths_AuditEventForTime t i = Inr k \<Longrightarrow> K k"
  shows "log_AppendAudit (guard_writes K W) r = log_AppendAudit W r"
  unfolding log_AppendAudit_def guard_writes_ops Let_def
  by (intro io_bind_cong_fun refl io_bind_lift_cong) (simp add: assms)

lemma guard_reads [simp]:
  "GetServiceControl (guard_writes K W) = GetServiceControl W"
  "ops_GetControl (guard_writes K W) = ops_GetControl W"
  "ops_GetIntent (guard_writes K W) = ops_GetIntent W"
  "ops_Inspect (guard_writes K W) = ops_Inspect W"
  by (simp_all add: fun_eq_iff GetServiceControl_def ops_GetControl_def ops_GetIntent_def ops_Inspect_def)

lemma io_bind_result_cong:
  "(\<And>s x t. m s = (Inr x, t) \<Longrightarrow> f x t = g x t) \<Longrightarrow> io_bind m f = io_bind m g"
  by (auto simp: io_bind_def fun_eq_iff split: prod.splits sum.splits)

text \<open>The lease operations of a service write its control document only.\<close>

lemma GetServiceControl_key: "GetServiceControl W svc s = (Inr doc, t) \<Longrightarrow> paths_ServiceControl svc = Inr (scd_Key doc)"
  by (auto simp: GetServiceControl_def io_ok_iffs Let_def)

lemma guard_UpdateServiceControlCAS [simp]:
  "K (scd_Key cur) \<Longrightarrow> UpdateServiceControlCAS (guard_writes K W) cur = UpdateServiceControlCAS W cur"
  by (simp add: UpdateServiceControlCAS_def stale_to_state_def fun_eq_iff)

lemma guard_acquireAttempt:
  assumes "\<And>k. paths_ServiceControl svc = Inr k \<Longrightarrow> K k"
  shows "acquireAttempt (guard_writes K W) svc opts tok = acquireAttempt W svc opts tok"
  unfolding acquireAttempt_def guard_reads guard_writes_ops
  by (intro io_bind_result_cong) (auto dest!: GetServiceControl_key assms simp: Let_def cong: sum.case_cong if_cong)

lemma guard_acquireLoop:
  assumes "\<And>k. paths_ServiceControl svc = Inr k \<Longrightarrow> K k"
  shows "acquireLoop (guard_writes K W) svc opts tok r n a e = acquireLoop W svc opts tok r n a e"
  by (induction n arbitrary: a e) (simp_all add: guard_acquireAttempt [OF assms] sleepBackoff_def cong: if_cong sum.case_cong)

lemma guard_lease_ops:
  assumes "\<And>k. paths_ServiceControl svc = Inr k \<Longrightarrow> K k"
  shows "AcquireLease (guard_writes K W) r svc opts = AcquireLease W r svc opts"
    and "lh_Service h = svc \<Longrightarrow> UpdateServiceControlWithLeaseCAS (guard_writes K W) h f = UpdateServiceControlWithLeaseCAS W h f"
    and "lh_Service h = svc \<Longrightarrow> ReleaseLease (guard_writes K W) h = ReleaseLease W h"
proof -
  show "AcquireLease (guard_writes K W) r svc opts = AcquireLease W r svc opts"
    by (simp add: AcquireLease_def guard_acquireLoop [OF assms] Let_def cong: if_cong)
  assume h: "lh_Service h = svc"
  have G: "K (scd_Key doc)" if "GetServiceControl W svc s = (Inr doc, t)" for doc s t
    using GetServiceControl_key [OF that] assms by blast
  show "UpdateServiceControlWithLeaseCAS (guard_writes K W) h f = UpdateServiceControlWithLeaseCAS W h f"
    unfolding UpdateServiceControlWithLeaseCAS_def guard_reads guard_writes_ops h
    by (intro io_bind_cong_fun refl io_bind_result_cong) (simp add: G)
  show "ReleaseLease (guard_writes K W) h = ReleaseLease W h"
    unfolding ReleaseLease_def guard_reads guard_writes_ops h orLeaseLoss_def detectLeaseLoss_def
    by (intro io_bind_cong_fun refl io_bind_result_cong) (simp add: G)
qed

lemma Update_service: "UpdateServiceControlCAS W cur n s = (Inr doc, t) \<Longrightarrow> sc_Service (scd_Control doc) = sc_Service (scd_Control cur)"
  by (auto simp: UpdateServiceControlCAS_def io_ok_iffs Let_def dest: nextServiceControl_ok(1))

lemma GetServiceControl_service: "GetServiceControl W svc s = (Inr doc, t) \<Longrightarrow> sc_Service (scd_Control doc) = svc"
  by (auto simp: GetServiceControl_def io_ok_iffs Let_def)

lemma handle_service: "handleFromDocument doc = Inr h \<Longrightarrow> lh_Service h = sc_Service (scd_Control doc)"
  by (auto simp: handleFromDocument_def split: option.splits)

lemma acquireAttempt_names:
  "acquireAttempt W svc opts tok s = (Inr (Inr doc), t) \<Longrightarrow> sc_Service (scd_Control doc) = svc"
  by (auto simp: acquireAttempt_def io_ok_iffs Let_def dest!: Update_service GetServiceControl_service)

lemma acquireLoop_service: "acquireLoop W svc opts tok r n a e s = (Inr (h, doc), t) \<Longrightarrow> lh_Service h = svc"
proof (induction n arbitrary: a e s)
  case (Suc n)
  then obtain s1 r1 s2 where at: "acquireAttempt W svc opts tok s1 = (Inr r1, s2)"
    and rest: "(case r1 of Inr updated \<Rightarrow>
           io_bind (io_lift (handleFromDocument updated)) (\<lambda>handle. io_ret (handle, updated))
       | Inl err \<Rightarrow> if \<not> is_state CodePreconditionFailed err then io_fail err
           else acquireLoop W svc opts tok r n (Suc a) (Some err)) s2 = (Inr (h, doc), t)"
    by (auto simp: io_bind_Inr_iff)
  show ?case
  proof (cases r1)
    case (Inl err)
    then show ?thesis using rest Suc.IH by (auto split: if_splits)
  next
    case (Inr d)
    then show ?thesis using rest handle_service acquireAttempt_names [OF at [unfolded Inr]] by (auto simp: io_ok_iffs)
  qed
qed (simp add: io_fail_def)

lemma AcquireLease_service: "AcquireLease W r svc opts s = (Inr (h, doc), t) \<Longrightarrow> lh_Service h = svc"
  by (auto simp: AcquireLease_def io_ok_iffs Let_def dest: acquireLoop_service)

lemma UpdateWithLease_service:
  "UpdateServiceControlWithLeaseCAS W h f s = (Inr (h', doc), t) \<Longrightarrow> lh_Service h' = lh_Service h"
  by (auto simp: UpdateServiceControlWithLeaseCAS_def io_ok_iffs
      dest!: Update_service GetServiceControl_service handle_service)

section \<open>Footprints of a client alone\<close>

text \<open>
  \<open>touches K m\<close>: run alone, \<open>m\<close> leaves every object outside \<open>K\<close> as it is. Like \<open>still\<close>, it is
  proved by following the structure of the operation.
\<close>

definition touches :: "(string \<Rightarrow> bool) \<Rightarrow> (sys, 'a) io \<Rightarrow> bool" where
  "touches K m \<longleftrightarrow> (\<forall>s r t. sys_env s = [] \<longrightarrow> m s = (r, t) \<longrightarrow>
     sys_env t = [] \<and> (\<forall>k. \<not> K k \<longrightarrow> sys_objs t k = sys_objs s k))"

lemma touchesD:
  assumes "touches K m" "sys_env s = []" "m s = (r, t)"
  shows "sys_env t = []" "\<not> K k \<Longrightarrow> sys_objs t k = sys_objs s k"
  using assms unfolding touches_def by blast+

lemma still_touches: "still m \<Longrightarrow> touches K m"
  by (auto simp: still_def touches_def)

lemma touches_simps [simp]:
  "touches K (io_ret x)" "touches K (io_fail e)" "touches K (io_lift r)" "touches K (io_now sys_world)"
  "touches K (io_ctx sys_world)" "touches K (os_Get sys_world k)" "touches K (os_List sys_world p l)"
  by (simp_all add: still_touches)

lemma touches_token [simp]: "touches K (io_token sys_world)"
  by (auto simp: touches_def alone_token sys_objs_def split: list.splits)

lemma touches_sleep [simp]: "touches K (io_sleep sys_world d)"
  by (auto simp: touches_def io_sleep_def sys_world_def sys_objs_def)

lemma touches_Create [simp]: "K k \<Longrightarrow> touches K (os_Create sys_world k b p)"
  unfolding touches_def
proof (intro allI impI)
  fix s r t
  assume "K k" and s: "sys_env s = []" "os_Create sys_world k b p s = (r, t)"
  then show "sys_env t = [] \<and> (\<forall>k. \<not> K k \<longrightarrow> sys_objs t k = sys_objs s k)"
    using alone_Create [OF s(1), of k b p] alone_Create_exists [OF s(1), of k _ b p]
    by (cases "sys_objs s k") auto
qed

lemma touches_CAS [simp]: "K k \<Longrightarrow> touches K (os_CompareAndSwap sys_world k e b p)"
  by (auto simp: touches_def sys_world_def on_write_def on_store_def memory_CompareAndSwap_def sys_objs_def memory_objs_def Let_def
      nextTimeLocked_def AList.update_conv' fun_eq_iff split: if_splits option.splits)

text \<open>A bind whose second part may use what the first one returned.\<close>

lemma touches_bind_result:
  assumes "touches K m" "\<And>s x t. m s = (Inr x, t) \<Longrightarrow> touches K (f x)"
  shows "touches K (io_bind m f)"
  unfolding touches_def
proof (intro allI impI)
  fix s r t
  assume s: "sys_env s = []" "io_bind m f s = (r, t)"
  obtain r1 u where u: "m s = (r1, u)" by fastforce
  note m = touchesD [OF assms(1) s(1) u]
  show "sys_env t = [] \<and> (\<forall>k. \<not> K k \<longrightarrow> sys_objs t k = sys_objs s k)"
  proof (cases r1)
    case (Inl e)
    then show ?thesis using s(2) u m by (simp add: io_bind_def)
  next
    case (Inr x)
    then have f: "f x u = (r, t)" "touches K (f x)" using s(2) u assms(2) by (auto simp: io_bind_def)
    show ?thesis using touchesD [OF f(2) m(1) f(1)] m by auto
  qed
qed

lemma touches_bind [intro!]: "touches K m \<Longrightarrow> (\<And>x. touches K (f x)) \<Longrightarrow> touches K (io_bind m f)"
  by (rule touches_bind_result)

lemma touches_try [intro!]:
  assumes "touches K m"
  shows "touches K (io_try m)"
  unfolding touches_def
proof (intro allI impI)
  fix s r t
  assume s: "sys_env s = []" "io_try m s = (r, t)"
  obtain r1 where "m s = (r1, t)" using s(2) by (auto simp: io_try_def split: prod.splits)
  from touchesD [OF assms s(1) this] show "sys_env t = [] \<and> (\<forall>k. \<not> K k \<longrightarrow> sys_objs t k = sys_objs s k)" by blast
qed

lemma touches_if [intro!]: "(b \<Longrightarrow> touches K m) \<Longrightarrow> (\<not> b \<Longrightarrow> touches K m') \<Longrightarrow> touches K (if b then m else m')"
  by simp

lemma touches_cases [intro!]:
  "(\<And>e. touches K (f e)) \<Longrightarrow> (\<And>x. touches K (g x)) \<Longrightarrow> touches K (case r of Inl e \<Rightarrow> f e | Inr x \<Rightarrow> g x)"
  "touches K h \<Longrightarrow> (\<And>x. touches K (i x)) \<Longrightarrow> touches K (case z of None \<Rightarrow> h | Some x \<Rightarrow> i x)"
  "(\<And>x y. touches K (l x y)) \<Longrightarrow> touches K (case p of (x, y) \<Rightarrow> l x y)"
  by (auto split: sum.splits option.splits prod.splits)

lemma touches_lift_bind:
  "(\<And>x. r = Inr x \<Longrightarrow> touches K (f x)) \<Longrightarrow> touches K (io_bind (io_lift r) f)"
  by (cases r) simp_all

lemma touches_log_Append:
  assumes "\<And>now k. keyForEvent (log_normalizeEvent e now) = Inr k \<Longrightarrow> K k"
  shows "touches K (log_Append sys_world e)"
  unfolding log_Append_def Let_def log_create_def
  by (intro touches_bind touches_simps touches_lift_bind touches_cases touches_if touches_try touches_Create) (rule assms)

lemma touches_log_AppendAudit:
  assumes "\<And>t i k. paths_AuditEventForTime t i = Inr k \<Longrightarrow> K k"
  shows "touches K (log_AppendAudit sys_world r)"
  unfolding log_AppendAudit_def Let_def log_create_def
  by (intro touches_bind touches_simps touches_lift_bind touches_cases touches_if touches_try touches_Create) (rule assms)

lemma still_GetServiceControl [simp]: "still (GetServiceControl sys_world svc)"
  by (auto simp: GetServiceControl_def)

lemma touches_Update [simp]: "K (scd_Key cur) \<Longrightarrow> touches K (UpdateServiceControlCAS sys_world cur n)"
  by (auto simp: UpdateServiceControlCAS_def stale_to_state_def Let_def)

lemma touches_service_ops:
  assumes "\<And>k. paths_ServiceControl svc = Inr k \<Longrightarrow> K k"
  shows "touches K (AcquireLease sys_world r svc opts)"
    and "lh_Service h = svc \<Longrightarrow> touches K (UpdateServiceControlWithLeaseCAS sys_world h f)"
    and "lh_Service h = svc \<Longrightarrow> touches K (ReleaseLease sys_world h)"
proof -
  have G: "K (scd_Key doc)" if "GetServiceControl sys_world svc s = (Inr doc, t)" for doc s t
    using GetServiceControl_key [OF that] assms by blast
  have "touches K (acquireAttempt sys_world svc opts tok)" for tok
    unfolding acquireAttempt_def Let_def
    by (intro touches_bind_result [OF still_touches [OF still_GetServiceControl]]) (auto dest: G)
  then have "touches K (acquireLoop sys_world svc opts tok r' n a e)" for tok r' n a e
    by (induction n arbitrary: a e) (auto simp: sleepBackoff_def)
  then show "touches K (AcquireLease sys_world r svc opts)"
    by (auto simp: AcquireLease_def Let_def)
  assume h: "lh_Service h = svc"
  show "touches K (UpdateServiceControlWithLeaseCAS sys_world h f)"
    unfolding UpdateServiceControlWithLeaseCAS_def Let_def h
    by (intro touches_bind [OF touches_simps(3)] touches_bind_result [OF still_touches [OF still_GetServiceControl]]) (auto dest: G)
  show "touches K (ReleaseLease sys_world h)"
    unfolding ReleaseLease_def Let_def h orLeaseLoss_def detectLeaseLoss_def
    by (intro touches_bind [OF touches_simps(3)] touches_bind_result [OF still_touches [OF still_GetServiceControl]])
      (auto dest: G intro: still_touches)
qed

end
