(* ===== verification/Lease_Session.thy ===== *)
theory Lease_Session
  imports Footprint
begin

text \<open>
  A client that holds a service's lease and is alone: acquiring, writing under the lease and releasing it
  all succeed, and what the service's control document is after each. The theories of operations that
  work under a service lease compose these lemmas.
\<close>

definition service_key :: "string \<Rightarrow> string" where
  "service_key svc = ''services/'' @ svc @ ''/control.json''"

lemma paths_ServiceControl_iff: "paths_ServiceControl svc = Inr k \<longleftrightarrow> is_name svc \<and> k = service_key svc"
  by (auto simp: paths_ServiceControl_def rbind_Inr_iff validateName_iff service_key_def)

text \<open>The handle \<open>h\<close> is good: the stored document \<open>c\<close> is the one it was made from, and the lease in it runs.\<close>

definition svc_held :: "sys \<Rightarrow> LeaseHandle \<Rightarrow> ServiceControl \<Rightarrow> bool" where
  "svc_held s h c \<longleftrightarrow> sys_env s = [] \<and> sys_inv s \<and> control_at (sys_objs s) (service_key (lh_Service h)) = Some (lh_ETag h, c) \<and>
     validateServiceControl c = Inr () \<and> sc_Service c = lh_Service h \<and> TrimSpace (lh_Owner h) \<noteq> [] \<and> TrimSpace (lh_Token h) \<noteq> [] \<and>
     0 < lh_Generation h \<and> (\<exists>l. sc_Lease c = Some l \<and> lse_Owner l = lh_Owner h \<and> lse_Token l = lh_Token h \<and>
       lse_Generation l = lh_Generation h \<and> time_Parse (lse_ExpiresAt l) = Some (lh_ExpiresAt h)) \<and> sys_now s < lh_ExpiresAt h"

lemma svc_held_handle: "svc_held s h c \<Longrightarrow> validateHandle h = Inr ()"
  using sys_etag_nonblank [of s "service_key (lh_Service h)" "lh_ETag h"] validateServiceControl_ok(2) [of c] is_name_is_id is_id_trim is_id_nonempty
  by (fastforce simp: svc_held_def validateHandle_def dest: control_at_objs)

lemma svc_held_usable: "svc_held s h c \<Longrightarrow> scd_Control cur = c \<Longrightarrow> ensureLeaseUsable h cur (sys_now s) = Inr ()"
  by (auto simp: svc_held_def ensureLeaseUsable_def ensureLeaseMatches_def activeLease_def)

lemma svc_held_get:
  assumes "svc_held s h c"
  shows "\<exists>cur. GetServiceControl sys_world (lh_Service h) s = (Inr cur, s) \<and> scd_Key cur = service_key (lh_Service h) \<and>
    scd_ETag cur = lh_ETag h \<and> scd_Control cur = c"
proof -
  have k: "paths_ServiceControl (lh_Service h) = Inr (service_key (lh_Service h))"
    using assms validateServiceControl_ok(2) [of c] by (auto simp: svc_held_def paths_ServiceControl_iff)
  show ?thesis using alone_GetServiceControl [OF _ k] assms unfolding svc_held_def by blast
qed

text \<open>A swap of the document that was read, alone.\<close>

lemma alone_swap:
  assumes "sys_env s = []" "sys_inv s" "control_at (sys_objs s) (scd_Key cur) = Some (scd_ETag cur, scd_Control cur)"
    "validateServiceControl (scd_Control cur) = Inr ()" "sc_Version (scd_Control cur) < 2 ^ 63 - 1"
    "sc_SchemaVersion n = schema_Version" "sc_Service n = sc_Service (scd_Control cur)" "sc_Env n = sc_Env (scd_Control cur)"
    "pred_option (\<lambda>l. validateLease l = Inr () \<and> wf_Lease l) (sc_Lease n)" "0 < sc_Version n"
  shows "\<exists>doc t. UpdateServiceControlCAS sys_world cur n s = (Inr doc, t) \<and> sys_env t = [] \<and> sys_inv t \<and> sys_now t = sys_now s \<and>
    scd_Control doc = n\<lparr>sc_Version := sc_Version (scd_Control cur) + 1, sc_UpdatedAt := canonical_Time (sys_now s)\<rparr> \<and>
    control_at (sys_objs t) (scd_Key cur) = Some (scd_ETag doc, scd_Control doc) \<and> scd_Key doc = scd_Key cur \<and>
    validateServiceControl (scd_Control doc) = Inr ()"
proof -
  note ok = validateServiceControl_ok [OF assms(4)]
  have w: "wrap64 (sc_Version (scd_Control cur) + 1) = sc_Version (scd_Control cur) + 1"
    using assms(5) ok(4) by (intro wrap64_id) (auto simp: in_int64_def)
  let ?n = "n\<lparr>sc_Version := sc_Version (scd_Control cur) + 1\<rparr>"
  have nx: "nextServiceControl cur n = Inr ?n"
    using assms(6-8,10) ok w
    by (simp add: nextServiceControl_def normalizeServiceControl_def schema_Version_def is_name_def Let_def)
  have v: "validateServiceControl (?n\<lparr>sc_UpdatedAt := canonical_Time (sys_now s)\<rparr>) = Inr ()"
    using ok assms(6-9) by (auto simp: validateServiceControl_def rbind_def validateName_iff split: option.splits)
  obtain b where b: "sys_objs s (scd_Key cur) = Some (scd_ETag cur, b)" using control_at_objs [OF assms(3)] by blast
  obtain doc t where t: "UpdateServiceControlCAS sys_world cur n s = (Inr doc, t)" "sys_env t = []" "sys_now t = sys_now s"
    "scd_Control doc = ?n\<lparr>sc_UpdatedAt := canonical_Time (sys_now s)\<rparr>"
    using alone_Update [OF assms(1) b nx v] by blast
  obtain u n' x where u: "sys_evolves s u" "sys_evolves u t" "scd_Key doc = scd_Key cur" "nextServiceControl cur n = Inr n'"
    "sys_objs t = (sys_objs u)(scd_Key cur \<mapsto> (scd_ETag doc, JsonBody (enc_ServiceControl (scd_Control doc))))"
    "scd_Control doc = n'\<lparr>sc_UpdatedAt := canonical_Time x\<rparr>"
    using sysw.UpdateServiceControlCAS_ok [OF assms(2) t(1)] by blast
  have "wf_ServiceControl (scd_Control doc)" unfolding u(6)
    by (rule next_wf [OF u(4)]) (use assms(9) in \<open>auto simp: option.pred_set\<close>)
  then have "control_at (sys_objs t) (scd_Key cur) = Some (scd_ETag doc, scd_Control doc)" unfolding u(5) by simp
  moreover have "sys_inv t" using u(1,2) assms(2) sysw.evolves_inv by blast
  ultimately show ?thesis using t u(3) v by auto
qed

text \<open>Acquiring a free lease, keeping what the document says about releases.\<close>

lemma session_acquire:
  assumes al: "sys_env s = []" "sys_inv s" and at: "control_at (sys_objs s) (service_key svc) = Some (e, c)"
    and val: "validateServiceControl c = Inr ()" "sc_Service c = svc"
    and free: "activeLease (sc_Lease c) (sys_now s) = Inr False" and ver: "sc_Version c < 2 ^ 63 - 1"
    and opts: "TrimSpace (lop_Owner opts) \<noteq> []" "0 < lop_Duration opts" "TrimSpace (next_token s) \<noteq> []"
    and tm: "time_ok (sys_now s + lop_Duration opts)"
  shows "\<exists>h doc t. AcquireLease sys_world r svc opts s = (Inr (h, doc), t) \<and> svc_held t h (scd_Control doc) \<and>
    lh_Service h = svc \<and> sys_now t = sys_now s \<and> lh_ExpiresAt h = sys_now s + lop_Duration opts \<and>
    (\<exists>l. scd_Control doc = c\<lparr>sc_Lease := Some l, sc_UpdatedBy := actorForLease (lop_Actor opts) (lop_Owner opts),
       sc_TraceID := lop_TraceID opts, sc_Version := sc_Version c + 1, sc_UpdatedAt := canonical_Time (sys_now s)\<rparr>)"
proof -
  have k: "paths_ServiceControl svc = Inr (service_key svc)"
    using val validateServiceControl_ok(2) [of c] by (auto simp: paths_ServiceControl_iff)
  obtain s' where s': "sys_env s' = []" "sys_objs s' = sys_objs s" "sys_now s' = sys_now s" "sys_store s' = sys_store s"
    and acq: "AcquireLease sys_world r svc opts s =
      acquireLoop sys_world svc opts (next_token s) (normalized r) (nat (ro_MaxAttempts (normalized r))) 0 None s'"
    using alone_AcquireLease_unfold [OF al(1) opts] by blast
  obtain n where n: "nat (ro_MaxAttempts (normalized r)) = Suc n" using nat_attempts by blast
  obtain cur where cur: "GetServiceControl sys_world svc s' = (Inr cur, s')" "scd_Key cur = service_key svc" "scd_ETag cur = e"
    "scd_Control cur = c"
    using alone_GetServiceControl [OF s'(1) k _ val] at s'(2) by metis
  let ?l = "\<lparr>lse_Owner = lop_Owner opts, lse_Token = next_token s, lse_Generation = wrap64 (sc_Version c + 1),
     lse_ExpiresAt = canonical_Time (sys_now s + lop_Duration opts)\<rparr>"
  let ?next = "c\<lparr>sc_Lease := Some ?l, sc_UpdatedBy := actorForLease (lop_Actor opts) (lop_Owner opts),
     sc_TraceID := lop_TraceID opts\<rparr>"
  note ok = validateServiceControl_ok [OF val(1)]
  have w: "wrap64 (sc_Version c + 1) = sc_Version c + 1"
    using ver ok(4) by (intro wrap64_id) (auto simp: in_int64_def)
  have i': "sys_inv s'" using al(2) s'(4) by (simp add: sys_inv_def)
  have lv: "validateLease ?l = Inr ()" using ok(4) w opts tm by (simp add: validateLease_def)
  obtain doc t where upd: "UpdateServiceControlCAS sys_world cur ?next s' = (Inr doc, t)"
    and t: "sys_env t = []" "sys_inv t" "sys_now t = sys_now s'" "validateServiceControl (scd_Control doc) = Inr ()"
    and doc: "scd_Control doc = ?next\<lparr>sc_Version := sc_Version (scd_Control cur) + 1, sc_UpdatedAt := canonical_Time (sys_now s')\<rparr>"
      "control_at (sys_objs t) (scd_Key cur) = Some (scd_ETag doc, scd_Control doc)"
    using alone_swap [of s' cur ?next, OF s'(1) i'] cur at s'(2) val ver lv ok(1,4) by (auto simp: wf_Lease_def)
  have at': "acquireAttempt sys_world svc opts (next_token s) s' = (Inr (Inr doc), t)"
    using cur free upd s'(1,3) by (simp add: acquireAttempt_def io_bind_def io_try_def Let_def)
  let ?h = "\<lparr>lh_Service = svc, lh_Owner = lop_Owner opts, lh_Token = next_token s, lh_Generation = sc_Version c + 1,
      lh_ExpiresAt = sys_now s + lop_Duration opts, lh_ETag = scd_ETag doc\<rparr>"
  have hd: "handleFromDocument doc = Inr ?h" using doc(1) val(2) w tm by (simp add: handleFromDocument_def)
  have "AcquireLease sys_world r svc opts s = (Inr (?h, doc), t)"
    using acq n at' hd by (simp add: io_bind_def io_ret_def)
  moreover have "svc_held t ?h (scd_Control doc)"
    using t doc cur(2) opts tm w ok(4) s'(3) val(2) by (simp add: svc_held_def)
  ultimately show ?thesis using doc(1) cur(4) s'(3) t(3)
    by (intro exI [of _ ?h] exI [of _ doc] exI [of _ t] conjI exI [of _ ?l]) simp_all
qed

lemma session_update:
  assumes h: "svc_held s h c" and f: "f c = Inr n" "sc_SchemaVersion n = sc_SchemaVersion c" "sc_Service n = sc_Service c"
      "sc_Env n = sc_Env c" "sc_Version n = sc_Version c"
    and ver: "sc_Version c < 2 ^ 63 - 1"
  shows "\<exists>h' doc t. UpdateServiceControlWithLeaseCAS sys_world h f s = (Inr (h', doc), t) \<and> svc_held t h' (scd_Control doc) \<and>
    lh_Service h' = lh_Service h \<and> sys_now t = sys_now s \<and> lh_ExpiresAt h' = lh_ExpiresAt h \<and>
    scd_Control doc = n\<lparr>sc_Lease := sc_Lease c, sc_Version := sc_Version c + 1, sc_UpdatedAt := canonical_Time (sys_now s)\<rparr>"
proof -
  obtain cur where cur: "GetServiceControl sys_world (lh_Service h) s = (Inr cur, s)" "scd_Key cur = service_key (lh_Service h)"
    "scd_ETag cur = lh_ETag h" "scd_Control cur = c" using svc_held_get [OF h] by blast
  have s: "sys_env s = []" "sys_inv s" "control_at (sys_objs s) (scd_Key cur) = Some (scd_ETag cur, scd_Control cur)"
    "validateServiceControl c = Inr ()" "sc_Service c = lh_Service h"
    using h cur unfolding svc_held_def by auto
  obtain l where l: "sc_Lease c = Some l" "lse_Owner l = lh_Owner h" "lse_Token l = lh_Token h" "lse_Generation l = lh_Generation h"
    "time_Parse (lse_ExpiresAt l) = Some (lh_ExpiresAt h)" using h unfolding svc_held_def by blast
  note ok = validateServiceControl_ok [OF s(4)]
  have "wf_Lease l" using control_at_wf [OF s(3)] cur(4) l(1) by (simp add: wf_ServiceControl_def)
  then have lv: "pred_option (\<lambda>l. validateLease l = Inr () \<and> wf_Lease l) (sc_Lease c)" using ok(5) [OF l(1)] l(1) by simp
  let ?n = "n\<lparr>sc_Lease := sc_Lease c\<rparr>"
  obtain doc t where upd: "UpdateServiceControlCAS sys_world cur ?n s = (Inr doc, t)"
    and t: "sys_env t = []" "sys_inv t" "sys_now t = sys_now s" "validateServiceControl (scd_Control doc) = Inr ()"
    and doc: "scd_Control doc = ?n\<lparr>sc_Version := sc_Version (scd_Control cur) + 1, sc_UpdatedAt := canonical_Time (sys_now s)\<rparr>"
      "control_at (sys_objs t) (scd_Key cur) = Some (scd_ETag doc, scd_Control doc)"
    using alone_swap [of s cur ?n, OF s(1-3)] s(4) cur(4) ver f(2-5) ok(1,4) lv by auto
  let ?h = "\<lparr>lh_Service = lh_Service h, lh_Owner = lh_Owner h, lh_Token = lh_Token h, lh_Generation = lh_Generation h,
      lh_ExpiresAt = lh_ExpiresAt h, lh_ETag = scd_ETag doc\<rparr>"
  have hd: "handleFromDocument doc = Inr ?h" using doc(1) s(5) f(3) l by (simp add: handleFromDocument_def)
  have "UpdateServiceControlWithLeaseCAS sys_world h f s = (Inr (?h, doc), t)"
    using svc_held_handle [OF h] svc_held_usable [OF h cur(4)] cur s(1) f(1) upd hd
    by (simp add: UpdateServiceControlWithLeaseCAS_def io_bind_def io_ret_def)
  moreover have "svc_held t ?h (scd_Control doc)"
    using t doc cur(2) h f(3) s(5) l by (auto simp: svc_held_def)
  ultimately show ?thesis using doc(1) cur(4) t(3)
    by (intro exI [of _ ?h] exI [of _ doc] exI [of _ t] conjI) simp_all
qed

lemma session_release:
  assumes h: "svc_held s h c" and ver: "sc_Version c < 2 ^ 63 - 1"
  shows "\<exists>doc t. ReleaseLease sys_world h s = (Inr doc, t) \<and> sys_env t = [] \<and> sys_inv t \<and> sys_now t = sys_now s \<and>
    control_at (sys_objs t) (service_key (lh_Service h)) = Some (scd_ETag doc, scd_Control doc) \<and>
    validateServiceControl (scd_Control doc) = Inr () \<and>
    scd_Control doc = c\<lparr>sc_Lease := None, sc_Version := sc_Version c + 1, sc_UpdatedAt := canonical_Time (sys_now s)\<rparr>"
proof -
  obtain cur where cur: "GetServiceControl sys_world (lh_Service h) s = (Inr cur, s)" "scd_Key cur = service_key (lh_Service h)"
    "scd_ETag cur = lh_ETag h" "scd_Control cur = c" using svc_held_get [OF h] by blast
  have s: "sys_env s = []" "sys_inv s" "control_at (sys_objs s) (scd_Key cur) = Some (scd_ETag cur, scd_Control cur)"
    "validateServiceControl c = Inr ()" using h cur unfolding svc_held_def by auto
  have e: "cur\<lparr>scd_ETag := lh_ETag h\<rparr> = cur" using cur(3) by simp
  note ok = validateServiceControl_ok [OF s(4)]
  let ?n = "c\<lparr>sc_Lease := None\<rparr>"
  obtain doc t where upd: "UpdateServiceControlCAS sys_world cur ?n s = (Inr doc, t)"
    and t: "sys_env t = []" "sys_inv t" "sys_now t = sys_now s" "validateServiceControl (scd_Control doc) = Inr ()"
    and doc: "scd_Control doc = ?n\<lparr>sc_Version := sc_Version (scd_Control cur) + 1, sc_UpdatedAt := canonical_Time (sys_now s)\<rparr>"
      "control_at (sys_objs t) (scd_Key cur) = Some (scd_ETag doc, scd_Control doc)"
    using alone_swap [of s cur ?n, OF s(1-3)] s(4) cur(4) ver ok(1,4) by auto
  have "UpdateServiceControlCAS sys_world (cur\<lparr>scd_ETag := lh_ETag h\<rparr>) ?n s = (Inr doc, t)" unfolding e by (rule upd)
  then have "ReleaseLease sys_world h s = (Inr doc, t)"
    using svc_held_handle [OF h] svc_held_usable [OF h cur(4)] cur s(1)
    by (simp add: ReleaseLease_def io_bind_def orLeaseLoss_def io_try_def io_ret_def)
  then show ?thesis using doc cur(2,4) t by auto
qed

lemma svc_held_frame:
  "svc_held s h c \<Longrightarrow> sys_env t = [] \<Longrightarrow> sys_inv t \<Longrightarrow> sys_now t = sys_now s \<Longrightarrow>
   sys_objs t (service_key (lh_Service h)) = sys_objs s (service_key (lh_Service h)) \<Longrightarrow> svc_held t h c"
  using control_at_cong [of "sys_objs t" "service_key (lh_Service h)" "sys_objs s"] by (simp add: svc_held_def)

text \<open>Appending to the log, alone: no time passes, and one object under the log's key may appear.\<close>

lemma alone_log_create_now:
  "sys_env s = [] \<Longrightarrow> log_create sys_world k b s = (r, t) \<Longrightarrow> sys_now t = sys_now s \<and> sys_tokens t = sys_tokens s"
  using alone_Create [of s k "JsonBody b" log_putOptions] alone_Create_exists [of s k _ "JsonBody b" log_putOptions]
  by (cases "sys_objs s k") (auto simp: log_create_def io_bind_def io_try_def io_fail_def io_ret_def split: if_splits)

lemma alone_audit:
  assumes "sys_env s = []" "sys_inv s" "log_AppendAudit sys_world r s = (x, t)"
  shows "sys_env t = [] \<and> sys_inv t \<and> sys_now t = sys_now s \<and>
    (\<forall>k. \<not> prefix ''audit/'' k \<longrightarrow> sys_objs t k = sys_objs s k)"
proof -
  have k: "touches (prefix ''audit/'') (log_AppendAudit sys_world r)"
    by (rule touches_log_AppendAudit) (auto simp: paths_AuditEventForTime_def paths_AuditEvent_def rbind_Inr_iff split: if_splits)
  have "sys_now t = sys_now s"
    using assms(1,3) alone_log_create_now [OF assms(1)]
    by (auto simp: log_AppendAudit_def io_bind_def io_lift_def Let_def split: sum.splits option.splits)
  moreover have "sys_inv t"
    using sysw.quietD [OF sysw.quiet_log(3) assms(2,3)] sysw.evolves_inv assms(2) by blast
  ultimately show ?thesis using touchesD [OF k assms(1,3)] by blast
qed

end
