(* ===== verification/Rollout.thy ===== *)
theory Rollout
  imports Lease_Session
begin

text \<open>
  Rolling a release out (internal/deploy/rollout.go): a rollout is started at the cloud provider and its
  id is kept in the operation's control document; watching it asks the provider for its status and,
  once it has finished, marks the service's desired release stable under the service lease and
  finishes the operation.

  The provider is a record of functions, a parameter of the operations: its code reaches into a cloud
  account. \<^verbatim>\<open>requireRolloutDeps\<close> always succeeds, since a deployer of the model has its world and its
  provider. The releases that run in a \<^verbatim>\<open>defer\<close> use \<^verbatim>\<open>context.Background()\<close>; here they are calls of the same
  world, so they may fail by cancellation as well, which the code ignores like any other error.
\<close>

section \<open>Types\<close>

record RolloutRequest =
  rrq_Service :: string
  rrq_Env :: string
  rrq_ReleaseID :: string
  rrq_OperationID :: string
  rrq_MinHealthyPercentage :: int
  rrq_InstanceWarmup :: int

record provider_WatchRolloutRequest =
  pwr_Service :: string
  pwr_Env :: string
  pwr_RolloutID :: string
  pwr_ProviderID :: string

record Rollout =
  ro_ID :: string
  ro_Provider :: string
  ro_Service :: string
  ro_Env :: string
  ro_ProviderID :: string
  ro_StartedAt :: gotime

record RolloutStatus =
  rs_RolloutID :: string
  rs_Status :: string
  rs_ProviderID :: string
  rs_UpdatedAt :: gotime

text \<open>The operations of \<^verbatim>\<open>provider.Provider\<close> that a rollout uses.\<close>

record 's Provider =
  pr_StartRollout :: "RolloutRequest \<Rightarrow> ('s, Rollout) io"
  pr_WatchRollout :: "provider_WatchRolloutRequest \<Rightarrow> ('s, RolloutStatus) io"

record StartRolloutRequest =
  srq_Service :: string
  srq_Env :: string
  srq_OperationID :: string
  srq_ReleaseID :: string
  srq_TraceID :: string
  srq_Actor :: Actor
  srq_MinHealthyPercentage :: int
  srq_InstanceWarmup :: int

record WatchRolloutRequest =
  wrq_Service :: string
  wrq_Env :: string
  wrq_OperationID :: string
  wrq_RolloutID :: string
  wrq_ProviderID :: string
  wrq_TraceID :: string
  wrq_Actor :: Actor

definition aws_Name :: string where "aws_Name = ''aws''"

definition RolloutKindASGInstanceRefresh :: string where
  "RolloutKindASGInstanceRefresh = ''asg-instance-refresh''"

section \<open>Operation documents\<close>

definition getOperationControl ::
  "('s, 'z) World_scheme \<Rightarrow> string \<Rightarrow> string \<Rightarrow> ('s, OperationControl \<times> string) io" where
  "getOperationControl W service operationID =
     io_bind (io_lift (paths_OperationControl service operationID)) (\<lambda>key.
     io_bind (os_Get W key) (\<lambda>obj.
     io_bind (io_lift (canonical_UnmarshalStrict dec_OperationControl (obj_Body obj))) (\<lambda>control.
     io_ret (control, obj_ETag obj))))"

definition putOperationControlCAS ::
  "('s, 'z) World_scheme \<Rightarrow> string \<Rightarrow> string \<Rightarrow> string \<Rightarrow> OperationControl \<Rightarrow> ('s, unit) io" where
  "putOperationControlCAS W service operationID etag control =
     io_bind (io_lift (paths_OperationControl service operationID)) (\<lambda>key.
     io_bind (io_lift (canonical_Marshal enc_OperationControl raws_ok_OperationControl control)) (\<lambda>body.
     io_bind (os_CompareAndSwap W key etag (JsonBody body) ops_putOptions) (\<lambda>_. io_ret ())))"

text \<open>The reference of the same provider and kind is replaced in place, or the new one goes to the end.\<close>

fun upsertProviderOperation :: "ProviderOperationRef list \<Rightarrow> ProviderOperationRef \<Rightarrow> ProviderOperationRef list" where
  "upsertProviderOperation [] ref = [ref]"
| "upsertProviderOperation (r # refs) ref =
     (if por_Provider r = por_Provider ref \<and> por_Kind r = por_Kind ref then ref # refs
      else r # upsertProviderOperation refs ref)"

text \<open>The attempts that are left of the five.\<close>

fun appendProviderLoop ::
  "('s, 'z) World_scheme \<Rightarrow> string \<Rightarrow> string \<Rightarrow> ProviderOperationRef \<Rightarrow> nat \<Rightarrow> ('s, unit) io" where
  "appendProviderLoop W service operationID ref 0 = io_fail (new_error ''operation control CAS did not complete'')"
| "appendProviderLoop W service operationID ref (Suc n) =
     io_bind (getOperationControl W service operationID) (\<lambda>(control, etag).
     io_bind (io_now W) (\<lambda>now.
     io_bind (io_try (putOperationControlCAS W service operationID etag
        (control\<lparr>oc_ProviderOperations := upsertProviderOperation (oc_ProviderOperations control) ref,
                 oc_UpdatedAt := canonical_Time now\<rparr>))) (\<lambda>r. case r of
         Inl err \<Rightarrow> if 0 < n then appendProviderLoop W service operationID ref n else io_fail err
       | Inr _ \<Rightarrow> io_ret ())))"

definition appendProviderOperation ::
  "('s, 'z) World_scheme \<Rightarrow> string \<Rightarrow> string \<Rightarrow> ProviderOperationRef \<Rightarrow> ('s, unit) io" where
  "appendProviderOperation W service operationID ref = appendProviderLoop W service operationID ref 5"

definition setOperationStatus :: "('s, 'z) World_scheme \<Rightarrow> string \<Rightarrow> string \<Rightarrow> string \<Rightarrow> ('s, unit) io" where
  "setOperationStatus W service operationID status =
     io_bind (getOperationControl W service operationID) (\<lambda>(control, etag).
     io_bind (io_now W) (\<lambda>now.
     putOperationControlCAS W service operationID etag
       (control\<lparr>oc_Status := status, oc_UpdatedAt := canonical_Time now\<rparr>)))"

fun findRolloutID :: "ProviderOperationRef list \<Rightarrow> string option" where
  "findRolloutID [] = None"
| "findRolloutID (ref # refs) =
     (if por_Provider ref = aws_Name \<and> por_Kind ref = RolloutKindASGInstanceRefresh then Some (por_ID ref)
      else findRolloutID refs)"

definition StoredRolloutProviderID :: "('s, 'z) World_scheme \<Rightarrow> string \<Rightarrow> string \<Rightarrow> ('s, string) io" where
  "StoredRolloutProviderID W service operationID =
     io_bind (getOperationControl W service operationID) (\<lambda>(control, _).
     case findRolloutID (oc_ProviderOperations control) of
       Some ref \<Rightarrow> io_ret ref
     | None \<Rightarrow> io_fail (new_error (''operation '' @ operationID @ '' has no stored ASG instance refresh provider ID'')))"

definition appendRolloutEvent ::
  "('s, 'z) World_scheme \<Rightarrow> string \<Rightarrow> string \<Rightarrow> string \<Rightarrow> Actor \<Rightarrow> string \<Rightarrow> string \<Rightarrow> Fact list \<Rightarrow> ('s, ObjectMeta) io" where
  "appendRolloutEvent W service operationID traceID actor eventType summary facts =
     io_bind (io_now W) (\<lambda>now.
     log_Append W ((NewOperationEvent now service operationID eventType summary now (traceID @ eventType))
       \<lparr>ee_TraceID := traceID, ee_Actor := Some actor, ee_Facts := facts\<rparr>))"

definition operationStatusForRollout :: "string \<Rightarrow> string" where
  "operationStatusForRollout status =
     (if status = ''succeeded'' then OperationSucceeded
      else if status = ''failed'' then OperationFailed
      else if status = ''cancelled'' then OperationCanceled
      else if status \<in> {''rolling_out'', ''starting'', ''rolling_back''} then OperationRunning
      else [])"

section \<open>Starting a rollout\<close>

definition resolveRolloutReleaseID :: "('s, 'z) World_scheme \<Rightarrow> string \<Rightarrow> string \<Rightarrow> ('s, string) io" where
  "resolveRolloutReleaseID W service releaseID =
     (if TrimSpace releaseID \<noteq> [] then io_ret (TrimSpace releaseID)
      else io_bind (GetServiceControl W service) (\<lambda>current.
        if TrimSpace (sc_DesiredRelease (scd_Control current)) = []
        then io_fail (new_error (''service '' @ service @ '' has no desired release; pass --release-id''))
        else io_ret (TrimSpace (sc_DesiredRelease (scd_Control current)))))"

definition StartRollout :: "('s, 'z) World_scheme \<Rightarrow> 's Provider \<Rightarrow> StartRolloutRequest \<Rightarrow> ('s, Rollout) io" where
  "StartRollout W P req =
     io_bind (resolveRolloutReleaseID W (srq_Service req) (srq_ReleaseID req)) (\<lambda>releaseID.
     io_bind (pr_StartRollout P \<lparr>rrq_Service = srq_Service req, rrq_Env = srq_Env req, rrq_ReleaseID = releaseID,
        rrq_OperationID = srq_OperationID req, rrq_MinHealthyPercentage = srq_MinHealthyPercentage req,
        rrq_InstanceWarmup = srq_InstanceWarmup req\<rparr>) (\<lambda>rollout.
     io_bind (io_now W) (\<lambda>now.
     io_bind (appendProviderOperation W (srq_Service req) (srq_OperationID req)
        \<lparr>por_Provider = ro_Provider rollout, por_Kind = RolloutKindASGInstanceRefresh, por_ID = ro_ProviderID rollout,
         por_ObservedAt = canonical_Time now, por_Description = ''ASG instance refresh rollout''\<rparr>) (\<lambda>_.
     io_bind (setOperationStatus W (srq_Service req) (srq_OperationID req) OperationRunning) (\<lambda>_.
     io_bind (io_try (appendRolloutEvent W (srq_Service req) (srq_OperationID req) (srq_TraceID req) (srq_Actor req)
        ''rollout.started'' ''ASG instance refresh started''
        [zero_Fact\<lparr>fct_Type := ''provider_id'', fct_Message := ro_ProviderID rollout\<rparr>])) (\<lambda>_.
     io_ret rollout))))))"

section \<open>Watching a rollout\<close>

text \<open>The change \<^verbatim>\<open>markStableAfterRollout\<close> makes to the service control document.\<close>

definition markStable :: "WatchRolloutRequest \<Rightarrow> ServiceControl \<Rightarrow> ServiceControl" where
  "markStable req control = control\<lparr>
     sc_StableRelease := sc_DesiredRelease control,
     sc_Operation := map_option (\<lambda>op. if aop_ID op = [] \<or> aop_ID op = wrq_OperationID req
        then op\<lparr>aop_State := OperationSucceeded, aop_Step := ''rollout-succeeded''\<rparr> else op) (sc_Operation control),
     sc_UpdatedBy := wrq_Actor req, sc_TraceID := wrq_TraceID req\<rparr>"

text \<open>What runs while the lease is held, and the deferred release when it fails.\<close>

definition markStableHeld ::
  "('s, 'z) World_scheme \<Rightarrow> WatchRolloutRequest \<Rightarrow> LeaseHandle \<Rightarrow> ('s, unit) io" where
  "markStableHeld W req handle =
     io_bind (io_try (UpdateServiceControlWithLeaseCAS W handle (\<lambda>control. Inr (markStable req control)))) (\<lambda>r. case r of
        Inl err \<Rightarrow> io_bind (io_try (ReleaseLease W handle)) (\<lambda>_. io_fail err)
      | Inr (nextHandle, updated) \<Rightarrow>
          (let stable = sc_StableRelease (scd_Control updated) in
           io_bind (io_now W) (\<lambda>now.
           io_bind (io_try (log_AppendAudit W
              ((NewAuditRecord now (wrq_Actor req) (zero_Target\<lparr>tgt_Kind := ''service'', tgt_Name := wrq_Service req\<rparr>)
                 ''mark_stable'' (''marked '' @ stable @ '' stable after rollout'') (wrq_TraceID req) now
                 (wrq_OperationID req @ ''mark-stable''))
               \<lparr>ar_Risk := RiskLow,
                ar_Data := Raw (JObj [(''operation_id'', JStr (wrq_OperationID req)), (''release_id'', JStr stable)])\<rparr>))) (\<lambda>_.
           io_bind (io_try (ReleaseLease W nextHandle)) (\<lambda>r. case r of
              Inl err \<Rightarrow> io_bind (io_try (ReleaseLease W nextHandle)) (\<lambda>_. io_fail err)
            | Inr _ \<Rightarrow> io_ret ())))))"

definition markStableAfterRollout :: "('s, 'z) World_scheme \<Rightarrow> WatchRolloutRequest \<Rightarrow> ('s, unit) io" where
  "markStableAfterRollout W req =
     io_bind (io_try (GetServiceControl W (wrq_Service req))) (\<lambda>r. case r of
        Inl err \<Rightarrow> if is_store ErrNotFound err then io_ret () else io_fail err
      | Inr current \<Rightarrow>
          if sc_DesiredRelease (scd_Control current) = [] \<or>
             sc_StableRelease (scd_Control current) = sc_DesiredRelease (scd_Control current) then io_ret ()
          else
            io_bind (io_try (AcquireLease W defaultRetryOptions (wrq_Service req)
               \<lparr>lop_Owner = firstNonEmpty [act_ID (wrq_Actor req), ''rollout-watch''], lop_Duration = 300000000000,
                lop_Actor = wrq_Actor req, lop_TraceID = wrq_TraceID req\<rparr>)) (\<lambda>r. case r of
               Inl err \<Rightarrow> if is_state CodeLeaseHeld err then io_ret () else io_fail err
             | Inr (handle, _) \<Rightarrow> markStableHeld W req handle))"

text \<open>What \<^verbatim>\<open>WatchRollout\<close> does with the status the provider reports.\<close>

definition recordRolloutStatus ::
  "('s, 'z) World_scheme \<Rightarrow> WatchRolloutRequest \<Rightarrow> RolloutStatus \<Rightarrow> ('s, RolloutStatus) io" where
  "recordRolloutStatus W req status =
     io_bind (io_try (appendRolloutEvent W (wrq_Service req) (wrq_OperationID req) (wrq_TraceID req) (wrq_Actor req)
        (''rollout.'' @ rs_Status status) (''rollout status '' @ rs_Status status)
        [zero_Fact\<lparr>fct_Type := ''provider_id'', fct_Message := rs_ProviderID status\<rparr>])) (\<lambda>_.
     (let final = operationStatusForRollout (rs_Status status) in
      if final \<noteq> [] \<and> final \<noteq> OperationRunning then
        io_bind (if final = OperationSucceeded then markStableAfterRollout W req else io_ret ()) (\<lambda>_.
        io_bind (io_try (setOperationStatus W (wrq_Service req) (wrq_OperationID req) final)) (\<lambda>_.
        io_ret status))
      else io_ret status))"

definition WatchRollout :: "('s, 'z) World_scheme \<Rightarrow> 's Provider \<Rightarrow> WatchRolloutRequest \<Rightarrow> ('s, RolloutStatus) io" where
  "WatchRollout W P req =
     io_bind (if wrq_ProviderID req = [] then StoredRolloutProviderID W (wrq_Service req) (wrq_OperationID req)
              else io_ret (wrq_ProviderID req)) (\<lambda>providerID.
     io_bind (pr_WatchRollout P \<lparr>pwr_Service = wrq_Service req, pwr_Env = wrq_Env req,
        pwr_RolloutID = firstNonEmpty [wrq_RolloutID req, wrq_OperationID req], pwr_ProviderID = providerID\<rparr>) (\<lambda>status.
     recordRolloutStatus W req status))"

section \<open>What may be written\<close>

lemma rollout_success_only: "operationStatusForRollout x = OperationSucceeded \<Longrightarrow> x = ''succeeded''"
  unfolding operationStatusForRollout_def
  by (rule ccontr) (simp add: OperationSucceeded_def OperationFailed_def OperationCanceled_def OperationRunning_def split: if_splits)

text \<open>
  The keys watching a rollout may write: the operation's control document and its events and, where
  \<open>ok\<close> (the rollout may have succeeded), the service's control document and the audit log.
\<close>

definition watch_keys :: "bool \<Rightarrow> WatchRolloutRequest \<Rightarrow> string \<Rightarrow> bool" where
  "watch_keys ok req k \<longleftrightarrow>
     paths_OperationControl (wrq_Service req) (wrq_OperationID req) = Inr k \<or>
     (\<exists>i. paths_OperationEvent (wrq_Service req) (wrq_OperationID req) i = Inr k) \<or>
     ok \<and> (paths_ServiceControl (wrq_Service req) = Inr k \<or> (\<exists>t i. paths_AuditEventForTime t i = Inr k))"

lemma operation_event_key:
  "ee_Scope e = zero_Scope\<lparr>scp_Kind := ScopeOperation, scp_Service := svc, scp_Operation := x\<rparr> \<Longrightarrow>
   keyForEvent (log_normalizeEvent e now) = paths_OperationEvent svc x (ee_ID (log_normalizeEvent e now))"
  by (simp add: keyForEvent_def ScopeOperation_def ScopeService_def Let_def)

lemma rollout_event_scope [simp]:
  "ee_Scope ((NewOperationEvent wall svc x ty sm t seed)\<lparr>ee_TraceID := a, ee_Actor := b, ee_Facts := c\<rparr>) =
     zero_Scope\<lparr>scp_Kind := ScopeOperation, scp_Service := svc, scp_Operation := x\<rparr>"
  by (simp add: NewOperationEvent_def)

lemma guard_operation [simp]:
  "getOperationControl (guard_writes K W) = getOperationControl W"
  "StoredRolloutProviderID (guard_writes K W) = StoredRolloutProviderID W"
  by (simp_all add: fun_eq_iff getOperationControl_def StoredRolloutProviderID_def)

lemma guard_put:
  assumes "\<And>k. paths_OperationControl svc x = Inr k \<Longrightarrow> K k"
  shows "putOperationControlCAS (guard_writes K W) svc x e c = putOperationControlCAS W svc x e c"
    and "setOperationStatus (guard_writes K W) svc x st = setOperationStatus W svc x st"
proof -
  have put: "putOperationControlCAS (guard_writes K W) svc x e c = putOperationControlCAS W svc x e c" for e c
    unfolding putOperationControlCAS_def by (intro io_bind_lift_cong) (simp add: assms)
  then show "putOperationControlCAS (guard_writes K W) svc x e c = putOperationControlCAS W svc x e c" .
  show "setOperationStatus (guard_writes K W) svc x st = setOperationStatus W svc x st"
    by (simp add: setOperationStatus_def put)
qed

lemma guard_appendRolloutEvent:
  assumes "\<And>i k. paths_OperationEvent svc x i = Inr k \<Longrightarrow> K k"
  shows "appendRolloutEvent (guard_writes K W) svc x tr ac ty sm fs = appendRolloutEvent W svc x tr ac ty sm fs"
  unfolding appendRolloutEvent_def guard_writes_ops
  by (intro io_bind_cong_fun refl guard_log_Append) (use assms operation_event_key rollout_event_scope in metis)

lemma guard_markStable:
  assumes "\<And>k. paths_ServiceControl (wrq_Service req) = Inr k \<Longrightarrow> K k"
    "\<And>t i k. paths_AuditEventForTime t i = Inr k \<Longrightarrow> K k"
  shows "markStableAfterRollout (guard_writes K W) req = markStableAfterRollout W req"
proof -
  have g1: "AcquireLease (guard_writes K W) r (wrq_Service req) opts = AcquireLease W r (wrq_Service req) opts" for r opts
    by (rule guard_lease_ops) (rule assms)
  have g2: "UpdateServiceControlWithLeaseCAS (guard_writes K W) h f = UpdateServiceControlWithLeaseCAS W h f"
    "ReleaseLease (guard_writes K W) h = ReleaseLease W h" if "lh_Service h = wrq_Service req" for h f
    by (rule guard_lease_ops; use assms that in blast)+
  have au: "log_AppendAudit (guard_writes K W) r = log_AppendAudit W r" for r
    by (rule guard_log_AppendAudit) (rule assms)
  have held: "markStableHeld (guard_writes K W) req h = markStableHeld W req h" if h: "lh_Service h = wrq_Service req" for h
  proof -
    have "\<And>s r t. io_try (UpdateServiceControlWithLeaseCAS W h f) s = (Inr (Inr r), t) \<Longrightarrow> lh_Service (fst r) = wrq_Service req" for f
      using UpdateWithLease_service [of W h f] h by auto
    then show ?thesis unfolding markStableHeld_def g2 [OF h]
      by (intro io_bind_result_cong) (fastforce simp: g2(2) au Let_def split: sum.splits)
  qed
  have "\<And>s r t. io_try (AcquireLease W r' svc o') s = (Inr (Inr r), t) \<Longrightarrow> lh_Service (fst r) = svc" for r' svc o'
    using AcquireLease_service [of W r' svc o'] by auto
  then show ?thesis unfolding markStableAfterRollout_def g1 guard_reads
    by (intro io_bind_cong_fun refl) (fastforce simp: held split: sum.splits intro!: io_bind_result_cong)
qed

lemma guard_recordRolloutStatus:
  assumes "rs_Status status = ''succeeded'' \<Longrightarrow> ok"
  shows "recordRolloutStatus (guard_writes (watch_keys ok req) W) req status = recordRolloutStatus W req status"
proof -
  let ?G = "guard_writes (watch_keys ok req) W"
  have "appendRolloutEvent ?G (wrq_Service req) (wrq_OperationID req) tr ac ty sm fs =
      appendRolloutEvent W (wrq_Service req) (wrq_OperationID req) tr ac ty sm fs" for tr ac ty sm fs
    by (rule guard_appendRolloutEvent) (auto simp: watch_keys_def)
  moreover have "setOperationStatus ?G (wrq_Service req) (wrq_OperationID req) x =
      setOperationStatus W (wrq_Service req) (wrq_OperationID req) x" for x
    by (rule guard_put) (auto simp: watch_keys_def)
  moreover have "markStableAfterRollout ?G req = markStableAfterRollout W req"
    if "operationStatusForRollout (rs_Status status) = OperationSucceeded"
    by (rule guard_markStable) (use assms rollout_success_only [OF that] in \<open>auto simp: watch_keys_def\<close>)
  ultimately show ?thesis unfolding recordRolloutStatus_def Let_def
    by (cases "operationStatusForRollout (rs_Status status) = OperationSucceeded") simp_all
qed

section \<open>A client alone\<close>

lemma still_operation [simp]:
  "still (getOperationControl sys_world svc x)" "still (StoredRolloutProviderID sys_world svc x)"
  by (auto simp: getOperationControl_def StoredRolloutProviderID_def)

lemma still_Rollback [simp]: "still (resolveRolloutReleaseID sys_world svc x)"
  by (auto simp: resolveRolloutReleaseID_def)

lemma touches_rollout_event:
  assumes "\<And>i k. paths_OperationEvent svc x i = Inr k \<Longrightarrow> K k"
  shows "touches K (appendRolloutEvent sys_world svc x tr ac ty sm fs)"
  unfolding appendRolloutEvent_def
  by (intro touches_bind touches_simps touches_log_Append) (use assms operation_event_key rollout_event_scope in metis)

lemma touches_markStableHeld:
  assumes "lh_Service h = wrq_Service req"
  shows "touches (\<lambda>k. k = service_key (wrq_Service req) \<or> prefix ''audit/'' k) (markStableHeld sys_world req h)"
proof -
  let ?K = "\<lambda>k. k = service_key (wrq_Service req) \<or> prefix ''audit/'' k"
  have k: "paths_ServiceControl (wrq_Service req) = Inr k \<Longrightarrow> ?K k" for k by (simp add: paths_ServiceControl_iff)
  note l = touches_service_ops(2) [of "wrq_Service req" ?K, OF k] touches_service_ops(3) [of "wrq_Service req" ?K, OF k]
  have au: "touches ?K (log_AppendAudit sys_world r)" for r
    by (rule touches_log_AppendAudit) (auto simp: paths_AuditEventForTime_def paths_AuditEvent_def rbind_Inr_iff split: if_splits)
  show ?thesis unfolding markStableHeld_def Let_def
  proof (rule touches_bind_result)
    show "touches ?K (io_try (UpdateServiceControlWithLeaseCAS sys_world h f))" for f
      using l(1) assms by blast
    fix s r t
    assume u: "io_try (UpdateServiceControlWithLeaseCAS sys_world h (\<lambda>control. Inr (markStable req control))) s = (Inr r, t)"
    have r: "touches ?K (ReleaseLease sys_world h)" using l(2) assms by blast
    have n: "touches ?K (ReleaseLease sys_world h')" if "r = Inr (h', d)" for h' d
    proof -
      have "lh_Service h' = wrq_Service req" using u that UpdateWithLease_service assms by fastforce
      then show ?thesis using l(2) by blast
    qed
    show "touches ?K (case r of
        Inl err \<Rightarrow> io_bind (io_try (ReleaseLease sys_world h)) (\<lambda>_. io_fail err)
      | Inr (nextHandle, updated) \<Rightarrow> io_bind (io_now sys_world) (\<lambda>now.
          io_bind (io_try (log_AppendAudit sys_world (NewAuditRecord now (wrq_Actor req) (zero_Target\<lparr>tgt_Kind := ''service'', tgt_Name := wrq_Service req\<rparr>)
               ''mark_stable'' (''marked '' @ sc_StableRelease (scd_Control updated) @ '' stable after rollout'') (wrq_TraceID req) now
               (wrq_OperationID req @ ''mark-stable'')\<lparr>ar_Risk := RiskLow,
                 ar_Data := Raw (JObj [(''operation_id'', JStr (wrq_OperationID req)), (''release_id'', JStr (sc_StableRelease (scd_Control updated)))])\<rparr>))) (\<lambda>_.
          io_bind (io_try (ReleaseLease sys_world nextHandle)) (\<lambda>r. case r of
              Inl err \<Rightarrow> io_bind (io_try (ReleaseLease sys_world nextHandle)) (\<lambda>_. io_fail err)
            | Inr _ \<Rightarrow> io_ret ()))))"
      using r n au by (cases r) (auto split: prod.splits)
  qed
qed

lemma touches_markStable:
  "touches (\<lambda>k. k = service_key (wrq_Service req) \<or> prefix ''audit/'' k) (markStableAfterRollout sys_world req)"
proof -
  let ?K = "\<lambda>k. k = service_key (wrq_Service req) \<or> prefix ''audit/'' k"
  have k: "paths_ServiceControl (wrq_Service req) = Inr k \<Longrightarrow> ?K k" for k by (simp add: paths_ServiceControl_iff)
  have a: "touches ?K (AcquireLease sys_world r (wrq_Service req) o')" for r o' by (rule touches_service_ops) (rule k)
  have h: "touches ?K (case r of Inl err \<Rightarrow> if is_state CodeLeaseHeld err then io_ret () else io_fail err
      | Inr (handle, x) \<Rightarrow> markStableHeld sys_world req handle)"
    if "io_try (AcquireLease sys_world r' (wrq_Service req) o') s = (Inr r, t)" for r r' o' s t
  proof (cases r)
    case (Inr p)
    have "lh_Service (fst p) = wrq_Service req"
      using that AcquireLease_service [of sys_world r' "wrq_Service req" o' s "fst p" "snd p" t] by (simp add: Inr)
    from touches_markStableHeld [OF this] show ?thesis by (simp add: Inr case_prod_beta)
  qed auto
  show ?thesis unfolding markStableAfterRollout_def
    by (intro touches_bind touches_try touches_cases touches_if touches_simps still_touches [OF still_GetServiceControl]
        touches_bind_result [OF touches_try [OF a] h])
qed

lemma alone_getOperationControl:
  assumes "sys_env s = []" "op_at (sys_objs s) svc x = Some (e, c)" "is_name svc" "is_id x"
  shows "getOperationControl sys_world svc x s = (Inr (c, e), s)"
proof -
  obtain j where j: "sys_objs s (op_key svc x) = Some (e, JsonBody j)" "dec_OperationControl j = Inr c"
    using assms(2) by (auto simp: view_at_Some doc_view_Some)
  obtain ob where ob: "os_Get sys_world (op_key svc x) s = (Inr ob, s)" "obj_ETag ob = e" "obj_Body ob = JsonBody j"
    using alone_Get [OF assms(1) j(1)] by blast
  have k: "paths_OperationControl svc x = Inr (op_key svc x)" using assms(3,4) by (simp add: paths_OperationControl_Inr)
  show ?thesis using ob k j(2)
    by (simp add: getOperationControl_def io_bind_def io_lift_def canonical_UnmarshalStrict_def io_ret_def)
qed

lemma op_at_wf: "op_at m svc x = Some (e, c) \<Longrightarrow> wf_OperationControl c"
  by (auto simp: view_at_Some doc_view_Some dec_wf_OperationControl)

lemma alone_put:
  assumes "sys_env s = []" "op_at (sys_objs s) svc x = Some (e, c)" "is_name svc" "is_id x" "wf_OperationControl c'"
  shows "\<exists>e' t. putOperationControlCAS sys_world svc x e c' s = (Inr (), t) \<and> sys_env t = [] \<and> sys_now t = sys_now s \<and>
    op_at (sys_objs t) svc x = Some (e', c') \<and> (\<forall>k. k \<noteq> op_key svc x \<longrightarrow> sys_objs t k = sys_objs s k) \<and> sys_tokens t = sys_tokens s"
proof -
  obtain b where b: "sys_objs s (op_key svc x) = Some (e, b)" using assms(2) by (auto simp: view_at_Some)
  obtain m t where t: "os_CompareAndSwap sys_world (op_key svc x) e (JsonBody (enc_OperationControl c')) ops_putOptions s = (Inr m, t)"
    "sys_objs t = (sys_objs s)(op_key svc x \<mapsto> (om_ETag m, JsonBody (enc_OperationControl c')))"
    "sys_env t = []" "sys_now t = sys_now s" "sys_tokens t = sys_tokens s"
    using alone_CAS [OF assms(1) b] by blast
  have k: "paths_OperationControl svc x = Inr (op_key svc x)" using assms(3,4) by (simp add: paths_OperationControl_Inr)
  have "raws_ok_OperationControl c'" using assms(5) by (simp add: wf_op_iff)
  then have "putOperationControlCAS sys_world svc x e c' s = (Inr (), t)"
    using k t(1) by (simp add: putOperationControlCAS_def io_bind_def io_lift_def canonical_Marshal_def io_ret_def)
  moreover have "op_at (sys_objs t) svc x = Some (om_ETag m, c')"
    using t(2) assms(5) by (simp add: view_at_Some doc_view_Some codec_simps)
  ultimately show ?thesis using t by auto
qed

lemma alone_setOperationStatus:
  assumes "sys_env s = []" "op_at (sys_objs s) svc x = Some (e, c)" "is_name svc" "is_id x"
  shows "\<exists>e' t. setOperationStatus sys_world svc x st s = (Inr (), t) \<and> sys_env t = [] \<and> sys_now t = sys_now s \<and>
    op_at (sys_objs t) svc x = Some (e', c\<lparr>oc_Status := st, oc_UpdatedAt := canonical_Time (sys_now s)\<rparr>) \<and>
    (\<forall>k. k \<noteq> op_key svc x \<longrightarrow> sys_objs t k = sys_objs s k)"
proof -
  have "wf_OperationControl (c\<lparr>oc_Status := st, oc_UpdatedAt := canonical_Time (sys_now s)\<rparr>)"
    using op_at_wf [OF assms(2)] by (simp add: wf_OperationControl_def)
  from alone_put [OF assms this] show ?thesis
    using alone_getOperationControl [OF assms] assms(1) by (auto simp: setOperationStatus_def io_bind_def)
qed

lemma alone_appendProvider:
  assumes "sys_env s = []" "op_at (sys_objs s) svc x = Some (e, c)" "is_name svc" "is_id x"
  shows "\<exists>e' t. appendProviderOperation sys_world svc x ref s = (Inr (), t) \<and> sys_env t = [] \<and> sys_now t = sys_now s \<and>
    op_at (sys_objs t) svc x = Some (e', c\<lparr>oc_ProviderOperations := upsertProviderOperation (oc_ProviderOperations c) ref,
      oc_UpdatedAt := canonical_Time (sys_now s)\<rparr>) \<and> (\<forall>k. k \<noteq> op_key svc x \<longrightarrow> sys_objs t k = sys_objs s k)"
proof -
  let ?c = "c\<lparr>oc_ProviderOperations := upsertProviderOperation (oc_ProviderOperations c) ref,
      oc_UpdatedAt := canonical_Time (sys_now s)\<rparr>"
  have w: "wf_OperationControl ?c"
    using op_at_wf [OF assms(2)] by (simp add: wf_OperationControl_def)
  obtain e' t where t: "putOperationControlCAS sys_world svc x e ?c s = (Inr (), t)" "sys_env t = []" "sys_now t = sys_now s"
    "op_at (sys_objs t) svc x = Some (e', ?c)" "\<forall>k. k \<noteq> op_key svc x \<longrightarrow> sys_objs t k = sys_objs s k"
    using alone_put [OF assms w] by blast
  have "appendProviderLoop sys_world svc x ref (Suc n) s = (Inr (), t)" for n
    using t(1) alone_getOperationControl [OF assms] assms(1) by (simp add: io_bind_def io_try_def io_ret_def)
  from this [of 4] show ?thesis using t(2-5) by (auto simp: appendProviderOperation_def eval_nat_numeral)
qed

text \<open>The keys of a service's control document, an operation's and its events are different keys.\<close>

definition event_of :: "string \<Rightarrow> string \<Rightarrow> string \<Rightarrow> bool" where
  "event_of svc x k \<longleftrightarrow> (\<exists>i. paths_OperationEvent svc x i = Inr k)"

lemma rollout_keys [simp]:
  "\<not> event_of svc x (op_key svc x)" "\<not> event_of svc x (service_key svc)" "service_key svc \<noteq> op_key svc x"
  "op_key svc x \<noteq> service_key svc" "\<not> prefix ''audit/'' (op_key svc x)" "\<not> prefix ''audit/'' (service_key svc)"
  by (auto simp: event_of_def paths_OperationEvent_def rbind_Inr_iff op_key_def service_key_def)

lemma alone_rollout_event:
  assumes "sys_env s = []" "sys_inv s" "appendRolloutEvent sys_world svc x tr ac ty sm fs s = (r, t)"
  shows "sys_env t = [] \<and> sys_inv t \<and> sys_now t = sys_now s \<and> sys_tokens t = sys_tokens s \<and>
    (\<forall>k. \<not> event_of svc x k \<longrightarrow> sys_objs t k = sys_objs s k)"
proof -
  have k: "touches (event_of svc x) (appendRolloutEvent sys_world svc x tr ac ty sm fs)"
    by (rule touches_rollout_event) (auto simp: event_of_def)
  have "sys_now t = sys_now s \<and> sys_tokens t = sys_tokens s"
    using assms(1,3) alone_log_create_now [OF assms(1)]
    by (auto simp: appendRolloutEvent_def log_Append_def io_bind_def io_lift_def Let_def split: sum.splits)
  moreover have "sysw.quiet (appendRolloutEvent sys_world svc x tr ac ty sm fs)"
    unfolding appendRolloutEvent_def by (intro sysw.quiet_bind sysw.quiet_world sysw.quiet_log)
  from sysw.quietD [OF this assms(2,3)] have "sys_inv t" using sysw.evolves_inv assms(2) by blast
  ultimately show ?thesis using touchesD [OF k assms(1,3)] by blast
qed

text \<open>The service \<open>svc\<close> is free to be marked stable: its document is sound and nobody holds its lease.\<close>

definition promotable :: "sys \<Rightarrow> WatchRolloutRequest \<Rightarrow> ServiceControl \<Rightarrow> bool" where
  "promotable s req c \<longleftrightarrow> (\<exists>e. control_at (sys_objs s) (service_key (wrq_Service req)) = Some (e, c)) \<and>
     validateServiceControl c = Inr () \<and> sc_Service c = wrq_Service req \<and> activeLease (sc_Lease c) (sys_now s) = Inr False \<and>
     sc_Version c < 2 ^ 63 - 3 \<and> sc_DesiredRelease c \<noteq> [] \<and> TrimSpace (next_token s) \<noteq> [] \<and>
     TrimSpace (firstNonEmpty [act_ID (wrq_Actor req), ''rollout-watch'']) \<noteq> [] \<and> time_ok (sys_now s + 300000000000)"

lemma markStable_simps [simp]:
  "sc_SchemaVersion (markStable req c) = sc_SchemaVersion c" "sc_Service (markStable req c) = sc_Service c"
  "sc_Env (markStable req c) = sc_Env c" "sc_Version (markStable req c) = sc_Version c"
  "sc_StableRelease (markStable req c) = sc_DesiredRelease c" "sc_DesiredRelease (markStable req c) = sc_DesiredRelease c"
  by (simp_all add: markStable_def)

lemma alone_markStableHeld:
  assumes "svc_held s h c" "lh_Service h = wrq_Service req" "sc_Version c < 2 ^ 63 - 2"
  shows "\<exists>t e c'. markStableHeld sys_world req h s = (Inr (), t) \<and> sys_env t = [] \<and> sys_inv t \<and> sys_now t = sys_now s \<and>
    control_at (sys_objs t) (service_key (wrq_Service req)) = Some (e, c') \<and> sc_StableRelease c' = sc_DesiredRelease c \<and>
    sc_DesiredRelease c' = sc_DesiredRelease c \<and> sc_Lease c' = None"
proof -
  obtain h1 d1 s1 where u: "UpdateServiceControlWithLeaseCAS sys_world h (\<lambda>control. Inr (markStable req control)) s = (Inr (h1, d1), s1)"
    "svc_held s1 h1 (scd_Control d1)" "lh_Service h1 = wrq_Service req"
    "scd_Control d1 = (markStable req c)\<lparr>sc_Lease := sc_Lease c, sc_Version := sc_Version c + 1, sc_UpdatedAt := canonical_Time (sys_now s)\<rparr>"
    "sys_now s1 = sys_now s"
    using session_update [OF assms(1), of "\<lambda>control. Inr (markStable req control)" "markStable req c"] assms(2,3) by auto
  have e1: "sys_env s1 = []" "sys_inv s1" using u(2) by (simp_all add: svc_held_def)
  let ?r = "(NewAuditRecord (sys_now s1) (wrq_Actor req) (zero_Target\<lparr>tgt_Kind := ''service'', tgt_Name := wrq_Service req\<rparr>)
                 ''mark_stable'' (''marked '' @ sc_DesiredRelease c @ '' stable after rollout'') (wrq_TraceID req) (sys_now s1)
                 (wrq_OperationID req @ ''mark-stable''))
               \<lparr>ar_Risk := RiskLow,
                ar_Data := Raw (JObj [(''operation_id'', JStr (wrq_OperationID req)), (''release_id'', JStr (sc_DesiredRelease c))])\<rparr>"
  obtain x s2 where a: "log_AppendAudit sys_world ?r s1 = (x, s2)" by fastforce
  have n2: "sys_now s2 = sys_now s" using alone_audit [OF e1 a] u(5) by simp
  have s2: "svc_held s2 h1 (scd_Control d1)"
    using alone_audit [OF e1 a] by (intro svc_held_frame [OF u(2)]) (simp_all add: u(3))
  have "sc_Version (scd_Control d1) < 2 ^ 63 - 1" using u(4) assms(3) by simp
  then obtain d2 t where r: "ReleaseLease sys_world h1 s2 = (Inr d2, t)" "sys_env t = []" "sys_inv t"
    "control_at (sys_objs t) (service_key (lh_Service h1)) = Some (scd_ETag d2, scd_Control d2)"
    "scd_Control d2 = (scd_Control d1)\<lparr>sc_Lease := None, sc_Version := sc_Version (scd_Control d1) + 1, sc_UpdatedAt := canonical_Time (sys_now s2)\<rparr>"
    "sys_now t = sys_now s2" using session_release [OF s2] by blast
  have "markStableHeld sys_world req h s = (Inr (), t)"
    using u(1,4) a r(1) e1(1) by (simp add: markStableHeld_def io_bind_def io_try_def io_ret_def Let_def)
  then show ?thesis using r u(3,4) n2
    by (intro exI [of _ t] exI [of _ "scd_ETag d2"] exI [of _ "scd_Control d2"]) simp
qed

lemma alone_markStable:
  assumes "sys_env s = []" "sys_inv s" "promotable s req c"
  shows "\<exists>t e c'. markStableAfterRollout sys_world req s = (Inr (), t) \<and> sys_env t = [] \<and> sys_inv t \<and> sys_now t = sys_now s \<and>
    control_at (sys_objs t) (service_key (wrq_Service req)) = Some (e, c') \<and> sc_StableRelease c' = sc_DesiredRelease c \<and>
    sc_DesiredRelease c' = sc_DesiredRelease c \<and> (c' = c \<or> sc_Lease c' = None) \<and>
    (\<forall>k. k \<noteq> service_key (wrq_Service req) \<and> \<not> prefix ''audit/'' k \<longrightarrow> sys_objs t k = sys_objs s k)"
proof -
  let ?svc = "wrq_Service req"
  let ?o = "\<lparr>lop_Owner = firstNonEmpty [act_ID (wrq_Actor req), ''rollout-watch''], lop_Duration = 300000000000,
                lop_Actor = wrq_Actor req, lop_TraceID = wrq_TraceID req\<rparr>"
  obtain e where c: "control_at (sys_objs s) (service_key ?svc) = Some (e, c)" "validateServiceControl c = Inr ()" "sc_Service c = ?svc"
    "activeLease (sc_Lease c) (sys_now s) = Inr False" "sc_Version c < 2 ^ 63 - 3" "sc_DesiredRelease c \<noteq> []"
    "TrimSpace (next_token s) \<noteq> []" "TrimSpace (lop_Owner ?o) \<noteq> []" "time_ok (sys_now s + lop_Duration ?o)"
    using assms(3) unfolding promotable_def by auto
  have k: "paths_ServiceControl ?svc = Inr (service_key ?svc)"
    using c(2,3) validateServiceControl_ok(2) [of c] by (auto simp: paths_ServiceControl_iff)
  obtain cur where cur: "GetServiceControl sys_world ?svc s = (Inr cur, s)" "scd_Control cur = c"
    using alone_GetServiceControl [OF assms(1) k c(1-3)] by blast
  show ?thesis
  proof (cases "sc_StableRelease c = sc_DesiredRelease c")
    case True
    then show ?thesis using cur c(1) assms(1,2)
      by (intro exI [of _ s] exI [of _ e] exI [of _ c]) (simp add: markStableAfterRollout_def io_bind_def io_try_def io_ret_def)
  next
    case False
    have v: "sc_Version c < 2 ^ 63 - 1" "0 < lop_Duration ?o" using c(5) by simp_all
    obtain h d s1 l where a: "AcquireLease sys_world defaultRetryOptions ?svc ?o s = (Inr (h, d), s1)" "svc_held s1 h (scd_Control d)"
      "lh_Service h = ?svc"
      "scd_Control d = c\<lparr>sc_Lease := Some l, sc_UpdatedBy := actorForLease (lop_Actor ?o) (lop_Owner ?o),
         sc_TraceID := lop_TraceID ?o, sc_Version := sc_Version c + 1, sc_UpdatedAt := canonical_Time (sys_now s)\<rparr>" "sys_now s1 = sys_now s"
      using session_acquire [OF assms(1,2) c(1-4) v(1) c(8) v(2) c(7,9), of defaultRetryOptions] by blast
    have "sc_Version (scd_Control d) < 2 ^ 63 - 2" using a(4) c(5) by simp
    then obtain t e' c' where m: "markStableHeld sys_world req h s1 = (Inr (), t)" "sys_env t = []" "sys_inv t"
      "control_at (sys_objs t) (service_key ?svc) = Some (e', c')" "sc_StableRelease c' = sc_DesiredRelease c"
      "sc_DesiredRelease c' = sc_DesiredRelease c" "sc_Lease c' = None" "sys_now t = sys_now s"
      using alone_markStableHeld [OF a(2,3)] a(4,5) by auto
    have r: "markStableAfterRollout sys_world req s = (Inr (), t)"
      using cur c(6) False a(1) m(1) by (simp add: markStableAfterRollout_def io_bind_def io_try_def)
    have "touches (\<lambda>k. k = service_key ?svc \<or> prefix ''audit/'' k) (markStableAfterRollout sys_world req)"
      by (rule touches_markStable)
    from touchesD(2) [OF this assms(1) r] show ?thesis using r m by blast
  qed
qed

lemma op_at_cong: "sys_objs t (op_key svc x) = sys_objs s (op_key svc x) \<Longrightarrow> op_at (sys_objs t) svc x = op_at (sys_objs s) svc x"
  by (simp add: view_at_def)

lemma promotable_frame:
  assumes "promotable s req c" "sys_now t = sys_now s" "next_token t = next_token s"
    "sys_objs t (service_key (wrq_Service req)) = sys_objs s (service_key (wrq_Service req))"
  shows "promotable t req c"
  using assms control_at_cong [of "sys_objs t" "service_key (wrq_Service req)" "sys_objs s"] by (simp add: promotable_def)

lemma alone_recordRolloutStatus:
  assumes "sys_env s = []" "sys_inv s" "promotable s req c" "is_id (wrq_OperationID req)"
    "op_at (sys_objs s) (wrq_Service req) (wrq_OperationID req) = Some (eo, oc)"
  shows "\<exists>t e c' e' oc'. recordRolloutStatus sys_world req st s = (Inr st, t) \<and> sys_env t = [] \<and> sys_now t = sys_now s \<and>
    control_at (sys_objs t) (service_key (wrq_Service req)) = Some (e, c') \<and>
    op_at (sys_objs t) (wrq_Service req) (wrq_OperationID req) = Some (e', oc') \<and>
    oc' = oc\<lparr>oc_Status := oc_Status oc', oc_UpdatedAt := oc_UpdatedAt oc'\<rparr> \<and>
    (if operationStatusForRollout (rs_Status st) = OperationSucceeded
     then sc_StableRelease c' = sc_DesiredRelease c \<and> sc_DesiredRelease c' = sc_DesiredRelease c \<and> (c' = c \<or> sc_Lease c' = None)
     else c' = c) \<and>
    oc_Status oc' = (if operationStatusForRollout (rs_Status st) \<in> {[], OperationRunning} then oc_Status oc
      else operationStatusForRollout (rs_Status st))"
proof -
  let ?svc = "wrq_Service req" and ?x = "wrq_OperationID req" and ?f = "operationStatusForRollout (rs_Status st)"
  let ?ev = "appendRolloutEvent sys_world ?svc ?x (wrq_TraceID req) (wrq_Actor req)
        (''rollout.'' @ rs_Status st) (''rollout status '' @ rs_Status st)
        [zero_Fact\<lparr>fct_Type := ''provider_id'', fct_Message := rs_ProviderID st\<rparr>]"
  obtain r s1 where ev: "?ev s = (r, s1)" by fastforce
  note a = alone_rollout_event [OF assms(1,2) ev]
  have p1: "promotable s1 req c" by (rule promotable_frame [OF assms(3)]) (use a in \<open>simp_all add: next_token_def\<close>)
  have o1: "op_at (sys_objs s1) ?svc ?x = Some (eo, oc)" using op_at_cong [of s1 ?svc ?x s] a assms(5) by simp
  have n: "is_name ?svc" using assms(3) validateServiceControl_ok(2) [of c] by (auto simp: promotable_def)
  obtain e1 where c1: "control_at (sys_objs s1) (service_key ?svc) = Some (e1, c)" using p1 by (auto simp: promotable_def)
  have s1: "sys_env s1 = []" "sys_inv s1" using a by simp_all
  let ?m = "if ?f = OperationSucceeded then markStableAfterRollout sys_world req else io_ret ()"
  obtain s2 e2 c2 where m: "?m s1 = (Inr (), s2)" "sys_env s2 = []" "control_at (sys_objs s2) (service_key ?svc) = Some (e2, c2)"
    "op_at (sys_objs s2) ?svc ?x = Some (eo, oc)"
    "if ?f = OperationSucceeded then sc_StableRelease c2 = sc_DesiredRelease c \<and> sc_DesiredRelease c2 = sc_DesiredRelease c \<and>
       (c2 = c \<or> sc_Lease c2 = None) else c2 = c" "sys_now s2 = sys_now s"
  proof (cases "?f = OperationSucceeded")
    case True
    obtain t e c' where t: "markStableAfterRollout sys_world req s1 = (Inr (), t)" "sys_env t = []" "sys_now t = sys_now s1"
      "control_at (sys_objs t) (service_key ?svc) = Some (e, c')" "sc_StableRelease c' = sc_DesiredRelease c"
      "sc_DesiredRelease c' = sc_DesiredRelease c" "c' = c \<or> sc_Lease c' = None"
      "\<forall>k. k \<noteq> service_key ?svc \<and> \<not> prefix ''audit/'' k \<longrightarrow> sys_objs t k = sys_objs s1 k"
      using alone_markStable [OF s1 p1] by blast
    show ?thesis using that [of t e c'] t True op_at_cong [of t ?svc ?x s1] o1 a by simp
  next
    case False
    then show ?thesis using that [of s1 e1 c] s1 c1 o1 a by simp
  qed
  show ?thesis
  proof (cases "?f \<in> {[], OperationRunning}")
    case True
    moreover have "?f \<noteq> OperationSucceeded" using True by (auto simp: OperationSucceeded_def OperationRunning_def)
    ultimately have "recordRolloutStatus sys_world req st s = (Inr st, s1)"
      using ev by (auto simp: recordRolloutStatus_def io_bind_def io_try_def io_ret_def Let_def)
    then show ?thesis using c1 o1 True \<open>?f \<noteq> OperationSucceeded\<close> a by auto
  next
    case False
    obtain e' t where t: "setOperationStatus sys_world ?svc ?x ?f s2 = (Inr (), t)"
      "op_at (sys_objs t) ?svc ?x = Some (e', oc\<lparr>oc_Status := ?f, oc_UpdatedAt := canonical_Time (sys_now s2)\<rparr>)"
      "\<forall>k. k \<noteq> op_key ?svc ?x \<longrightarrow> sys_objs t k = sys_objs s2 k" "sys_env t = []" "sys_now t = sys_now s2"
      using alone_setOperationStatus [OF m(2,4) n assms(4)] by blast
    have "recordRolloutStatus sys_world req st s = (Inr st, t)"
      using False ev m(1) t(1) unfolding recordRolloutStatus_def Let_def
      by (simp add: io_bind_def io_try_def io_ret_def del: append.simps)
    moreover have "control_at (sys_objs t) (service_key ?svc) = Some (e2, c2)"
      using t(3) m(3) control_at_cong [of "sys_objs t" "service_key ?svc" "sys_objs s2"] by simp
    ultimately show ?thesis using t(2,4,5) m(5,6) False
      by (intro exI [of _ t] exI [of _ e2] exI [of _ c2] exI [of _ e'] exI [of _ "oc\<lparr>oc_Status := ?f, oc_UpdatedAt := canonical_Time (sys_now s2)\<rparr>"]) simp
  qed
qed

lemma findRolloutID_upsert:
  "por_Provider ref = aws_Name \<Longrightarrow> por_Kind ref = RolloutKindASGInstanceRefresh \<Longrightarrow>
   findRolloutID (upsertProviderOperation refs ref) = Some (por_ID ref)"
  by (induction refs) auto

text \<open>A sample world: a running operation and a service whose desired release is not yet stable.\<close>

definition roll_control :: ServiceControl where
  "roll_control = web_control\<lparr>sc_DesiredRelease := ''r2'', sc_StableRelease := ''r1''\<rparr>"

definition roll_req :: WatchRolloutRequest where
  "roll_req = \<lparr>wrq_Service = ''web'', wrq_Env = ''prod'', wrq_OperationID = ''op-1'', wrq_RolloutID = [], wrq_ProviderID = ''ir-1'',
     wrq_TraceID = ''tr'', wrq_Actor = \<lparr>act_ID = ''ci'', act_Type = ''agent''\<rparr>\<rparr>"

definition roll_provider :: "string \<Rightarrow> sys Provider" where
  "roll_provider st = \<lparr>
     pr_StartRollout = (\<lambda>r. io_ret \<lparr>ro_ID = rrq_OperationID r, ro_Provider = aws_Name, ro_Service = rrq_Service r, ro_Env = rrq_Env r,
       ro_ProviderID = ''ir-1'', ro_StartedAt = 0\<rparr>),
     pr_WatchRollout = (\<lambda>r. io_ret \<lparr>rs_RolloutID = ''op-1'', rs_Status = st, rs_ProviderID = ''ir-1'', rs_UpdatedAt = 0\<rparr>)\<rparr>"

definition roll_start :: StartRolloutRequest where
  "roll_start = \<lparr>srq_Service = ''web'', srq_Env = ''prod'', srq_OperationID = ''op-1'', srq_ReleaseID = ''r2'', srq_TraceID = ''tr'',
     srq_Actor = \<lparr>act_ID = ''ci'', act_Type = ''agent''\<rparr>, srq_MinHealthyPercentage = 90, srq_InstanceWarmup = 0\<rparr>"

lemma roll_world:
  "\<exists>s. sys_env s = [] \<and> sys_inv s \<and> promotable s roll_req roll_control \<and>
     op_at (sys_objs s) ''web'' ''op-1'' = Some (etagForVersion 1, op1_control)"
proof -
  let ?b = "JsonBody (enc_ServiceControl roll_control)"
  have "sys_objs op1_sys (service_key ''web'') = None"
    by (simp add: sys_objs_def op1_sys_def memory_Create_def memory_New_def nextTimeLocked_def Let_def memory_objs_def
        op_key_def service_key_def)
  from alone_Create [OF op1_facts(1) this] obtain m t where c:
    "os_Create sys_world (service_key ''web'') ?b no_options op1_sys = (Inr m, t)"
    "sys_objs t = (sys_objs op1_sys)(service_key ''web'' \<mapsto> (om_ETag m, ?b))" "sys_env t = []" "sys_now t = sys_now op1_sys"
    "sys_tokens t = sys_tokens op1_sys" by blast
  have wf: "wf_ServiceControl roll_control"
    by (simp add: wf_ServiceControl_def roll_control_def web_control_def NewServiceControl_def zero_ServiceControl_def in_int64_def)
  have at: "control_at (sys_objs t) (service_key ''web'') = Some (om_ETag m, roll_control)" unfolding c(2) using wf by simp
  have v: "validateServiceControl roll_control = Inr ()"
    using validateServiceControl_ok(1-4) [OF web_facts(5)] web_facts(7)
    by (simp add: roll_control_def validateServiceControl_def rbind_def validateName_iff)
  have w: "sc_Service roll_control = ''web''" "sc_Lease roll_control = None" "sc_Version roll_control = 1" "sc_DesiredRelease roll_control = ''r2''"
    using web_facts(6-8) by (simp_all add: roll_control_def)
  have q: "wrq_Service roll_req = ''web''" "act_ID (wrq_Actor roll_req) = ''ci''" by (simp_all add: roll_req_def)
  have n: "next_token t = ''lease_0''" "sys_now t = 1000" using c(4,5) by (simp_all add: next_token_def op1_sys_def)
  have "promotable t roll_req roll_control" unfolding promotable_def q n
    using at v w by (simp add: TrimSpace_printable printable_def time_ok_int64 in_int64_def)
  moreover have "op_at (sys_objs t) ''web'' ''op-1'' = Some (etagForVersion 1, op1_control)"
    using op1_facts(5) op_at_cong [of t "''web''" "''op-1''" op1_sys] c(2) by simp
  moreover have "sys_inv t" using sysw.op_evolves(2) [OF c(1)] sysw.evolves_inv op1_facts(2) by blast
  ultimately show ?thesis using c(3) by blast
qed

section \<open>Properties\<close>

text \<open>
  C22: what watching a rollout may write. In every world, whatever other clients do, \<^verbatim>\<open>WatchRollout\<close> attempts no
  write outside the operation's control document and events unless the provider can report success;
  then the service's control document and the audit log may be written too. In particular a failed or
  cancelled rollout never changes what the service runs.
\<close>

theorem watch_rollout_footprint:
  "WatchRollout (guard_writes (watch_keys (\<exists>r s st t. pr_WatchRollout P r s = (Inr st, t) \<and> rs_Status st = ''succeeded'') req) W) P req =
   WatchRollout W P req"
  unfolding WatchRollout_def guard_operation
  by (intro io_bind_cong_fun [OF refl] io_bind_result_cong fun_cong [OF guard_recordRolloutStatus]) blast

text \<open>
  What a finished rollout does. For a client alone, with a provider that reports a status and writes
  nothing to the store, watching succeeds with that status; a success makes the desired release the stable
  one, with the lease released, and the operation succeeded; a failure or cancellation finishes
  the operation and leaves the service's control document as it was; any other status leaves both as they were.
\<close>

theorem watch_rollout_outcome:
  assumes "sys_env s = []" "sys_inv s" "promotable s req c" "is_id (wrq_OperationID req)"
    "op_at (sys_objs s) (wrq_Service req) (wrq_OperationID req) = Some (eo, oc)" "wrq_ProviderID req \<noteq> []"
    "\<forall>r. pr_WatchRollout P r s = (Inr st, s)"
  shows "\<exists>t e c' e' oc'. WatchRollout sys_world P req s = (Inr st, t) \<and>
    control_at (sys_objs t) (service_key (wrq_Service req)) = Some (e, c') \<and>
    op_at (sys_objs t) (wrq_Service req) (wrq_OperationID req) = Some (e', oc') \<and>
    (if rs_Status st = ''succeeded''
     then sc_StableRelease c' = sc_DesiredRelease c \<and> sc_DesiredRelease c' = sc_DesiredRelease c \<and> (c' = c \<or> sc_Lease c' = None) \<and>
       oc_Status oc' = OperationSucceeded
     else c' = c \<and> oc_Status oc' = (if rs_Status st = ''failed'' then OperationFailed
       else if rs_Status st = ''cancelled'' then OperationCanceled else oc_Status oc))"
proof -
  have w: "WatchRollout sys_world P req s = recordRolloutStatus sys_world req st s"
    using assms(6,7) by (simp add: WatchRollout_def io_bind_def)
  have f: "(operationStatusForRollout (rs_Status st) = OperationSucceeded) = (rs_Status st = ''succeeded'')"
    by (rule iffI) (erule rollout_success_only, simp add: operationStatusForRollout_def)
  have g: "(if operationStatusForRollout x \<in> {[], OperationRunning} then y else operationStatusForRollout x) =
      (if x = ''succeeded'' then OperationSucceeded else if x = ''failed'' then OperationFailed
       else if x = ''cancelled'' then OperationCanceled else y)" for x y
    unfolding operationStatusForRollout_def
    by (simp add: OperationSucceeded_def OperationFailed_def OperationCanceled_def OperationRunning_def)
  obtain t e c' e' oc' where "recordRolloutStatus sys_world req st s = (Inr st, t)"
    "control_at (sys_objs t) (service_key (wrq_Service req)) = Some (e, c')"
    "op_at (sys_objs t) (wrq_Service req) (wrq_OperationID req) = Some (e', oc')"
    "if rs_Status st = ''succeeded''
     then sc_StableRelease c' = sc_DesiredRelease c \<and> sc_DesiredRelease c' = sc_DesiredRelease c \<and> (c' = c \<or> sc_Lease c' = None)
     else c' = c"
    "oc_Status oc' = (if rs_Status st = ''succeeded'' then OperationSucceeded else if rs_Status st = ''failed'' then OperationFailed
       else if rs_Status st = ''cancelled'' then OperationCanceled else oc_Status oc)"
    using alone_recordRolloutStatus [OF assms(1-5), of st] unfolding f g by blast
  then show ?thesis unfolding w
    by (intro exI [of _ t] exI [of _ e] exI [of _ c'] exI [of _ e'] exI [of _ oc']) (simp split: if_splits)
qed

theorem watch_rollout_outcome_witness:
  "\<exists>s st t e c'. WatchRollout sys_world (roll_provider ''succeeded'') roll_req s = (Inr st, t) \<and>
     control_at (sys_objs t) (service_key ''web'') = Some (e, c') \<and> sc_StableRelease c' = ''r2''"
proof -
  obtain s where s: "sys_env s = []" "sys_inv s" "promotable s roll_req roll_control"
    "op_at (sys_objs s) ''web'' ''op-1'' = Some (etagForVersion 1, op1_control)" using roll_world by blast
  let ?st = "\<lparr>rs_RolloutID = ''op-1'', rs_Status = ''succeeded'', rs_ProviderID = ''ir-1'', rs_UpdatedAt = 0\<rparr>"
  have q: "wrq_Service roll_req = ''web''" "wrq_OperationID roll_req = ''op-1''" "wrq_ProviderID roll_req \<noteq> []" by (simp_all add: roll_req_def)
  have p: "\<forall>r. pr_WatchRollout (roll_provider ''succeeded'') r s = (Inr ?st, s)" by (simp add: roll_provider_def)
  have d: "sc_DesiredRelease roll_control = ''r2''" by (simp add: roll_control_def)
  have o: "is_id (wrq_OperationID roll_req)"
    "op_at (sys_objs s) (wrq_Service roll_req) (wrq_OperationID roll_req) = Some (etagForVersion 1, op1_control)"
    unfolding q using s(4) op1_names by simp_all
  obtain t e c' where "WatchRollout sys_world (roll_provider ''succeeded'') roll_req s = (Inr ?st, t)"
    "control_at (sys_objs t) (service_key ''web'') = Some (e, c')" "sc_StableRelease c' = sc_DesiredRelease roll_control"
    using watch_rollout_outcome [OF s(1-3) o q(3) p] unfolding q by (elim exE conjE) (simp split: if_splits)
  then show ?thesis using d by (intro exI [of _ s] exI [of _ ?st] exI [of _ t] exI [of _ e] exI [of _ c']) simp
qed

text \<open>
  A started rollout can be resumed. For a client alone, after \<^verbatim>\<open>StartRollout\<close> on AWS the operation is running
  and the stored provider id is the id of the rollout just started, whatever references the
  operation had before, and no other reference of another provider or kind is lost.
\<close>

theorem started_rollout_resumable:
  assumes "sys_env s = []" "sys_inv s" "is_name (srq_Service req)" "is_id (srq_OperationID req)"
    "op_at (sys_objs s) (srq_Service req) (srq_OperationID req) = Some (eo, oc)" "TrimSpace (srq_ReleaseID req) \<noteq> []"
    "\<forall>r. pr_StartRollout P r s = (Inr ro, s)" "ro_Provider ro = aws_Name"
  shows "\<exists>t e c. StartRollout sys_world P req s = (Inr ro, t) \<and>
    StoredRolloutProviderID sys_world (srq_Service req) (srq_OperationID req) t = (Inr (ro_ProviderID ro), t) \<and>
    op_at (sys_objs t) (srq_Service req) (srq_OperationID req) = Some (e, c) \<and> oc_Status c = OperationRunning \<and>
    {r \<in> set (oc_ProviderOperations oc). por_Provider r \<noteq> aws_Name \<or> por_Kind r \<noteq> RolloutKindASGInstanceRefresh} \<subseteq>
      set (oc_ProviderOperations c)"
proof -
  let ?svc = "srq_Service req" and ?x = "srq_OperationID req"
  let ?ref = "\<lparr>por_Provider = ro_Provider ro, por_Kind = RolloutKindASGInstanceRefresh, por_ID = ro_ProviderID ro,
         por_ObservedAt = canonical_Time (sys_now s), por_Description = ''ASG instance refresh rollout''\<rparr>"
  have rid: "resolveRolloutReleaseID sys_world ?svc (srq_ReleaseID req) s = (Inr (TrimSpace (srq_ReleaseID req)), s)"
    using assms(6) by (simp add: resolveRolloutReleaseID_def)
  let ?c1 = "oc\<lparr>oc_ProviderOperations := upsertProviderOperation (oc_ProviderOperations oc) ?ref, oc_UpdatedAt := canonical_Time (sys_now s)\<rparr>"
  obtain e1 s1 where a: "appendProviderOperation sys_world ?svc ?x ?ref s = (Inr (), s1)" "sys_env s1 = []"
    "op_at (sys_objs s1) ?svc ?x = Some (e1, ?c1)"
    using alone_appendProvider [OF assms(1,5,3,4)] by blast
  let ?c2 = "?c1\<lparr>oc_Status := OperationRunning, oc_UpdatedAt := canonical_Time (sys_now s1)\<rparr>"
  obtain e2 s2 where b: "setOperationStatus sys_world ?svc ?x OperationRunning s1 = (Inr (), s2)" "sys_env s2 = []"
    "op_at (sys_objs s2) ?svc ?x = Some (e2, ?c2)"
    using alone_setOperationStatus [OF a(2,3) assms(3,4)] by blast
  let ?ev = "appendRolloutEvent sys_world ?svc ?x (srq_TraceID req) (srq_Actor req) ''rollout.started'' ''ASG instance refresh started''
     [zero_Fact\<lparr>fct_Type := ''provider_id'', fct_Message := ro_ProviderID ro\<rparr>]"
  obtain r t where ev: "?ev s2 = (r, t)" by fastforce
  have "touches (event_of ?svc ?x) ?ev" by (rule touches_rollout_event) (auto simp: event_of_def)
  note tt = touchesD [OF this b(2) ev]
  have c: "op_at (sys_objs t) ?svc ?x = Some (e2, ?c2)" using b(3) op_at_cong [of t ?svc ?x s2] tt(2) by simp
  have "StartRollout sys_world P req s = (Inr ro, t)"
    using rid assms(1,7) a(1) b(1) ev by (simp add: StartRollout_def io_bind_def io_try_def io_ret_def)
  moreover have "findRolloutID (oc_ProviderOperations ?c2) = Some (ro_ProviderID ro)"
    using findRolloutID_upsert [of ?ref] assms(8) by simp
  then have "StoredRolloutProviderID sys_world ?svc ?x t = (Inr (ro_ProviderID ro), t)"
    using alone_getOperationControl [OF tt(1) c assms(3,4)]
    by (simp add: StoredRolloutProviderID_def io_bind_def io_ret_def)
  moreover have "{r \<in> set refs. por_Provider r \<noteq> aws_Name \<or> por_Kind r \<noteq> RolloutKindASGInstanceRefresh} \<subseteq>
      set (upsertProviderOperation refs ?ref)" for refs
    using assms(8) by (induction refs) auto
  ultimately show ?thesis using c by (intro exI [of _ t] exI [of _ e2] exI [of _ ?c2] conjI) simp_all
qed

theorem started_rollout_resumable_witness:
  "\<exists>ro t. StartRollout sys_world (roll_provider []) roll_start op1_sys = (Inr ro, t) \<and>
     StoredRolloutProviderID sys_world ''web'' ''op-1'' t = (Inr ''ir-1'', t)"
proof -
  let ?ro = "\<lparr>ro_ID = ''op-1'', ro_Provider = aws_Name, ro_Service = ''web'', ro_Env = ''prod'', ro_ProviderID = ''ir-1'', ro_StartedAt = 0\<rparr>"
  let ?P = "(roll_provider [])\<lparr>pr_StartRollout := \<lambda>_. io_ret ?ro\<rparr>"
  have q: "srq_Service roll_start = ''web''" "srq_OperationID roll_start = ''op-1''" "TrimSpace (srq_ReleaseID roll_start) \<noteq> []"
    by (simp_all add: roll_start_def TrimSpace_printable printable_def)
  have e: "StartRollout sys_world (roll_provider []) roll_start = StartRollout sys_world ?P roll_start"
    by (simp add: StartRollout_def roll_provider_def roll_start_def)
  have p: "\<forall>r. pr_StartRollout ?P r op1_sys = (Inr ?ro, op1_sys)" "ro_Provider ?ro = aws_Name" by simp_all
  have o: "is_name (srq_Service roll_start)" "is_id (srq_OperationID roll_start)"
    "op_at (sys_objs op1_sys) (srq_Service roll_start) (srq_OperationID roll_start) = Some (etagForVersion 1, op1_control)"
    unfolding q using op1_facts(5) op1_names by simp_all
  obtain t where "StartRollout sys_world ?P roll_start op1_sys = (Inr ?ro, t)"
    "StoredRolloutProviderID sys_world ''web'' ''op-1'' t = (Inr (ro_ProviderID ?ro), t)"
    using started_rollout_resumable [OF op1_facts(1,2) o q(3) p] unfolding q by (elim exE conjE) simp
  then show ?thesis unfolding e by (intro exI [of _ ?ro] exI [of _ t]) simp
qed

end
