(* ===== verification/Release_Schema.thy ===== *)
theory Release_Schema
  imports Schema_Codec
begin

text \<open>
  The documents of a release (internal/state/schema/schema.go): release manifests with their artifact and
  signatures, runtime manifests with their health check, and their JSON codecs.
\<close>

section \<open>Maps from strings to strings\<close>

text \<open>
  A Go map is the list of its entries in ascending order of the keys, the order \<^verbatim>\<open>encoding/json\<close> writes them in
  and the order the code visits sorted keys in.
\<close>

type_synonym go_map = "(string \<times> string) list"

fun map_put :: "string \<Rightarrow> 'v \<Rightarrow> (string \<times> 'v) list \<Rightarrow> (string \<times> 'v) list" where
  "map_put k v [] = [(k, v)]"
| "map_put k v ((k', v') # m) =
     (if k = k' then (k, v) # m else if k < k' then (k, v) # (k', v') # m else (k', v') # map_put k v m)"

definition wf_map :: "(string \<times> 'v) list \<Rightarrow> bool" where
  "wf_map m = sorted_wrt (<) (map fst m)"

definition o_map :: "go_map \<Rightarrow> json option" where
  "o_map m = (if m = [] then None else Some (JObj (map (\<lambda>(k, v). (k, JStr v)) m)))"

definition dec_map :: "json \<Rightarrow> go_map result" where
  "dec_map j = (case j of
      JObj kvs \<Rightarrow> rbind (map_result (\<lambda>(k, v). rbind (dec_opt [] dec_str (Some v)) (\<lambda>s. Inr (k, s))) kvs)
        (\<lambda>ps. Inr (fold (\<lambda>(k, v). map_put k v) ps []))
    | _ \<Rightarrow> Inl (json_err ''cannot unmarshal into map''))"

definition d_map :: "json option \<Rightarrow> go_map result" where
  "d_map = dec_opt [] dec_map"

definition e_bool :: "bool \<Rightarrow> json option" where
  "e_bool b = Some (JBool b)"

lemma map_put_fst: "fst ` set (map_put k v m) = insert k (fst ` set m)"
  by (induction k v m rule: map_put.induct) auto

lemma map_put_wf: "wf_map m \<Longrightarrow> wf_map (map_put k v m)"
  unfolding wf_map_def
proof (induction k v m rule: map_put.induct)
  case (2 k v k' v' m)
  have "k' < x" if "x \<in> set (map fst (map_put k v m))" "k \<noteq> k'" "\<not> k < k'" for x
    using that map_put_fst [of k v m] 2(2) by (auto simp: image_iff)
  then show ?case using 2 by (auto intro: less_trans)
qed simp

lemma map_put_last: "(\<forall>x \<in> fst ` set m. x < k) \<Longrightarrow> map_put k v m = m @ [(k, v)]"
  by (induction m) (auto simp: less_not_sym)

lemma fold_map_put:
  "sorted_wrt (<) (map fst (acc @ ps)) \<Longrightarrow> fold (\<lambda>(k, v). map_put k v) ps acc = acc @ ps"
proof (induction ps arbitrary: acc)
  case (Cons p ps)
  obtain k v where p: "p = (k, v)" by fastforce
  have "map_put k v acc = acc @ [(k, v)]" using Cons.prems p by (intro map_put_last) (auto simp: sorted_wrt_append)
  then show ?case using Cons.IH [of "acc @ [(k, v)]"] Cons.prems p by simp
qed simp

lemma fold_map_put_wf: "wf_map acc \<Longrightarrow> wf_map (fold (\<lambda>(k, v). map_put k v) ps acc)"
  by (induction ps arbitrary: acc) (auto simp: map_put_wf)

lemma d_map_codec [codec_simps]: "wf_map m \<Longrightarrow> d_map (o_map m) = Inr m"
proof -
  have r: "map_result (\<lambda>(k, v). rbind (dec_opt [] dec_str (Some v)) (\<lambda>s. Inr (k, s))) (map (\<lambda>(k, v). (k, JStr v)) m) = Inr m" for m
    by (induction m) (auto simp: rbind_def dec_opt_def dec_str_def)
  assume "wf_map m"
  then have "fold (\<lambda>(k, v). map_put k v) m [] = m" using fold_map_put [of "[]" m] by (simp add: wf_map_def)
  then show "d_map (o_map m) = Inr m"
    unfolding d_map_def o_map_def dec_map_def by (simp add: r [unfolded dec_opt_def option.case] dec_opt_def)
qed

lemma d_map_wf [dec_wf]: "d_map v = Inr m \<Longrightarrow> wf_map m"
  using fold_map_put_wf [of "[]"]
  by (auto simp: d_map_def dec_opt_def dec_map_def rbind_Inr_iff wf_map_def split: option.splits if_splits json.splits)

lemma d_bool_e [codec_simps]: "d_bool (e_bool b) = Inr b"
  by (simp add: d_bool_def dec_opt_def e_bool_def)

section \<open>Records\<close>

record ArtifactRef =
  af_Type :: string
  af_URI :: string
  af_Digest :: string

record Signature =
  sig_KeyID :: string
  sig_Algorithm :: string
  sig_Signature :: string
  sig_SignedAt :: string
  sig_Signer :: "Actor option"

record ReleaseManifest =
  rm_SchemaVersion :: string
  rm_Service :: string
  rm_Env :: string
  rm_ReleaseID :: string
  rm_Artifact :: ArtifactRef
  rm_RuntimeManifestKey :: string
  rm_RuntimeManifestDigest :: string
  rm_PackageLockDigest :: string
  rm_MinRunnerVersion :: string
  rm_Digest :: string
  rm_CreatedAt :: string
  rm_ExpiresAt :: string
  rm_Signatures :: "Signature list"

record MetricsConfig =
  mc_Enabled :: bool
  mc_Path :: string
  mc_Port :: int

record HealthCheck =
  hck_Type :: string
  hck_Path :: string
  hck_Port :: int
  hck_Command :: "string list"
  hck_Interval :: string
  hck_Timeout :: string

record RuntimeManifest =
  rtm_SchemaVersion :: string
  rtm_Service :: string
  rtm_Env :: string
  rtm_ReleaseID :: string
  rtm_PackageLockDigest :: string
  rtm_Command :: "string list"
  rtm_EnvVars :: go_map
  rtm_HealthCheck :: "HealthCheck option"
  rtm_Metrics :: "MetricsConfig option"
  rtm_CreatedAt :: string

section \<open>Zero values\<close>

definition zero_ArtifactRef :: ArtifactRef where
  "zero_ArtifactRef = \<lparr>af_Type = [], af_URI = [], af_Digest = []\<rparr>"

definition zero_Signature :: Signature where
  "zero_Signature = \<lparr>sig_KeyID = [], sig_Algorithm = [], sig_Signature = [], sig_SignedAt = [], sig_Signer = None\<rparr>"

definition zero_ReleaseManifest :: ReleaseManifest where
  "zero_ReleaseManifest = \<lparr>rm_SchemaVersion = [], rm_Service = [], rm_Env = [], rm_ReleaseID = [], rm_Artifact = zero_ArtifactRef, rm_RuntimeManifestKey = [], rm_RuntimeManifestDigest = [], rm_PackageLockDigest = [], rm_MinRunnerVersion = [], rm_Digest = [], rm_CreatedAt = [], rm_ExpiresAt = [], rm_Signatures = []\<rparr>"

definition zero_MetricsConfig :: MetricsConfig where
  "zero_MetricsConfig = \<lparr>mc_Enabled = False, mc_Path = [], mc_Port = 0\<rparr>"

definition zero_HealthCheck :: HealthCheck where
  "zero_HealthCheck = \<lparr>hck_Type = [], hck_Path = [], hck_Port = 0, hck_Command = [], hck_Interval = [], hck_Timeout = []\<rparr>"

definition zero_RuntimeManifest :: RuntimeManifest where
  "zero_RuntimeManifest = \<lparr>rtm_SchemaVersion = [], rtm_Service = [], rtm_Env = [], rtm_ReleaseID = [], rtm_PackageLockDigest = [], rtm_Command = [], rtm_EnvVars = [], rtm_HealthCheck = None, rtm_Metrics = None, rtm_CreatedAt = []\<rparr>"

section \<open>Codecs\<close>

definition names_ArtifactRef :: "string list" where
  "names_ArtifactRef = [''type'', ''uri'', ''digest'']"

definition enc_ArtifactRef :: "ArtifactRef \<Rightarrow> json" where
  "enc_ArtifactRef x = enc_obj [
     (''type'', e_str (af_Type x)),
     (''uri'', e_str (af_URI x)),
     (''digest'', e_str (af_Digest x))]"

definition dec_ArtifactRef :: "json \<Rightarrow> ArtifactRef result" where
  "dec_ArtifactRef = dec_struct names_ArtifactRef (\<lambda>g.
     rbind (d_str (g ''type'')) (\<lambda>v0.
     rbind (d_str (g ''uri'')) (\<lambda>v1.
     rbind (d_str (g ''digest'')) (\<lambda>v2.
     Inr \<lparr>af_Type = v0, af_URI = v1, af_Digest = v2\<rparr>))))"

definition names_Signature :: "string list" where
  "names_Signature = [''key_id'', ''algorithm'', ''signature'', ''signed_at'', ''signer'']"

definition enc_Signature :: "Signature \<Rightarrow> json" where
  "enc_Signature x = enc_obj [
     (''key_id'', e_str (sig_KeyID x)),
     (''algorithm'', e_str (sig_Algorithm x)),
     (''signature'', e_str (sig_Signature x)),
     (''signed_at'', e_str (sig_SignedAt x)),
     (''signer'', o_ptr enc_Actor (sig_Signer x))]"

definition dec_Signature :: "json \<Rightarrow> Signature result" where
  "dec_Signature = dec_struct names_Signature (\<lambda>g.
     rbind (d_str (g ''key_id'')) (\<lambda>v0.
     rbind (d_str (g ''algorithm'')) (\<lambda>v1.
     rbind (d_str (g ''signature'')) (\<lambda>v2.
     rbind (d_str (g ''signed_at'')) (\<lambda>v3.
     rbind (d_ptr dec_Actor (g ''signer'')) (\<lambda>v4.
     Inr \<lparr>sig_KeyID = v0, sig_Algorithm = v1, sig_Signature = v2, sig_SignedAt = v3, sig_Signer = v4\<rparr>))))))"

definition names_ReleaseManifest :: "string list" where
  "names_ReleaseManifest = [''schema_version'', ''service'', ''env'', ''release_id'', ''artifact'', ''runtime_manifest_key'', ''runtime_manifest_digest'', ''package_lock_digest'', ''min_runner_version'', ''digest'', ''created_at'', ''expires_at'', ''signatures'']"

definition enc_ReleaseManifest :: "ReleaseManifest \<Rightarrow> json" where
  "enc_ReleaseManifest x = enc_obj [
     (''schema_version'', e_str (rm_SchemaVersion x)),
     (''service'', e_str (rm_Service x)),
     (''env'', e_str (rm_Env x)),
     (''release_id'', e_str (rm_ReleaseID x)),
     (''artifact'', e_sub enc_ArtifactRef (rm_Artifact x)),
     (''runtime_manifest_key'', e_str (rm_RuntimeManifestKey x)),
     (''runtime_manifest_digest'', o_str (rm_RuntimeManifestDigest x)),
     (''package_lock_digest'', o_str (rm_PackageLockDigest x)),
     (''min_runner_version'', o_str (rm_MinRunnerVersion x)),
     (''digest'', o_str (rm_Digest x)),
     (''created_at'', e_str (rm_CreatedAt x)),
     (''expires_at'', o_str (rm_ExpiresAt x)),
     (''signatures'', o_list enc_Signature (rm_Signatures x))]"

definition dec_ReleaseManifest :: "json \<Rightarrow> ReleaseManifest result" where
  "dec_ReleaseManifest = dec_struct names_ReleaseManifest (\<lambda>g.
     rbind (d_str (g ''schema_version'')) (\<lambda>v0.
     rbind (d_str (g ''service'')) (\<lambda>v1.
     rbind (d_str (g ''env'')) (\<lambda>v2.
     rbind (d_str (g ''release_id'')) (\<lambda>v3.
     rbind (d_sub zero_ArtifactRef dec_ArtifactRef (g ''artifact'')) (\<lambda>v4.
     rbind (d_str (g ''runtime_manifest_key'')) (\<lambda>v5.
     rbind (d_str (g ''runtime_manifest_digest'')) (\<lambda>v6.
     rbind (d_str (g ''package_lock_digest'')) (\<lambda>v7.
     rbind (d_str (g ''min_runner_version'')) (\<lambda>v8.
     rbind (d_str (g ''digest'')) (\<lambda>v9.
     rbind (d_str (g ''created_at'')) (\<lambda>v10.
     rbind (d_str (g ''expires_at'')) (\<lambda>v11.
     rbind (d_list dec_Signature (g ''signatures'')) (\<lambda>v12.
     Inr \<lparr>rm_SchemaVersion = v0, rm_Service = v1, rm_Env = v2, rm_ReleaseID = v3, rm_Artifact = v4, rm_RuntimeManifestKey = v5, rm_RuntimeManifestDigest = v6, rm_PackageLockDigest = v7, rm_MinRunnerVersion = v8, rm_Digest = v9, rm_CreatedAt = v10, rm_ExpiresAt = v11, rm_Signatures = v12\<rparr>))))))))))))))"

definition names_MetricsConfig :: "string list" where
  "names_MetricsConfig = [''enabled'', ''path'', ''port'']"

definition enc_MetricsConfig :: "MetricsConfig \<Rightarrow> json" where
  "enc_MetricsConfig x = enc_obj [
     (''enabled'', e_bool (mc_Enabled x)),
     (''path'', o_str (mc_Path x)),
     (''port'', o_int (mc_Port x))]"

definition dec_MetricsConfig :: "json \<Rightarrow> MetricsConfig result" where
  "dec_MetricsConfig = dec_struct names_MetricsConfig (\<lambda>g.
     rbind (d_bool (g ''enabled'')) (\<lambda>v0.
     rbind (d_str (g ''path'')) (\<lambda>v1.
     rbind (d_int (g ''port'')) (\<lambda>v2.
     Inr \<lparr>mc_Enabled = v0, mc_Path = v1, mc_Port = v2\<rparr>))))"

definition wf_MetricsConfig :: "MetricsConfig \<Rightarrow> bool" where
  "wf_MetricsConfig x = (in_int64 (mc_Port x))"

definition names_HealthCheck :: "string list" where
  "names_HealthCheck = [''type'', ''path'', ''port'', ''command'', ''interval'', ''timeout'']"

definition enc_HealthCheck :: "HealthCheck \<Rightarrow> json" where
  "enc_HealthCheck x = enc_obj [
     (''type'', e_str (hck_Type x)),
     (''path'', o_str (hck_Path x)),
     (''port'', o_int (hck_Port x)),
     (''command'', o_list JStr (hck_Command x)),
     (''interval'', o_str (hck_Interval x)),
     (''timeout'', o_str (hck_Timeout x))]"

definition dec_HealthCheck :: "json \<Rightarrow> HealthCheck result" where
  "dec_HealthCheck = dec_struct names_HealthCheck (\<lambda>g.
     rbind (d_str (g ''type'')) (\<lambda>v0.
     rbind (d_str (g ''path'')) (\<lambda>v1.
     rbind (d_int (g ''port'')) (\<lambda>v2.
     rbind (d_list dec_str (g ''command'')) (\<lambda>v3.
     rbind (d_str (g ''interval'')) (\<lambda>v4.
     rbind (d_str (g ''timeout'')) (\<lambda>v5.
     Inr \<lparr>hck_Type = v0, hck_Path = v1, hck_Port = v2, hck_Command = v3, hck_Interval = v4, hck_Timeout = v5\<rparr>)))))))"

definition wf_HealthCheck :: "HealthCheck \<Rightarrow> bool" where
  "wf_HealthCheck x = (in_int64 (hck_Port x))"

definition names_RuntimeManifest :: "string list" where
  "names_RuntimeManifest = [''schema_version'', ''service'', ''env'', ''release_id'', ''package_lock_digest'', ''command'', ''env_vars'', ''health_check'', ''metrics'', ''created_at'']"

definition enc_RuntimeManifest :: "RuntimeManifest \<Rightarrow> json" where
  "enc_RuntimeManifest x = enc_obj [
     (''schema_version'', e_str (rtm_SchemaVersion x)),
     (''service'', e_str (rtm_Service x)),
     (''env'', e_str (rtm_Env x)),
     (''release_id'', e_str (rtm_ReleaseID x)),
     (''package_lock_digest'', o_str (rtm_PackageLockDigest x)),
     (''command'', o_list JStr (rtm_Command x)),
     (''env_vars'', o_map (rtm_EnvVars x)),
     (''health_check'', o_ptr enc_HealthCheck (rtm_HealthCheck x)),
     (''metrics'', o_ptr enc_MetricsConfig (rtm_Metrics x)),
     (''created_at'', e_str (rtm_CreatedAt x))]"

definition dec_RuntimeManifest :: "json \<Rightarrow> RuntimeManifest result" where
  "dec_RuntimeManifest = dec_struct names_RuntimeManifest (\<lambda>g.
     rbind (d_str (g ''schema_version'')) (\<lambda>v0.
     rbind (d_str (g ''service'')) (\<lambda>v1.
     rbind (d_str (g ''env'')) (\<lambda>v2.
     rbind (d_str (g ''release_id'')) (\<lambda>v3.
     rbind (d_str (g ''package_lock_digest'')) (\<lambda>v4.
     rbind (d_list dec_str (g ''command'')) (\<lambda>v5.
     rbind (d_map (g ''env_vars'')) (\<lambda>v6.
     rbind (d_ptr dec_HealthCheck (g ''health_check'')) (\<lambda>v7.
     rbind (d_ptr dec_MetricsConfig (g ''metrics'')) (\<lambda>v8.
     rbind (d_str (g ''created_at'')) (\<lambda>v9.
     Inr \<lparr>rtm_SchemaVersion = v0, rtm_Service = v1, rtm_Env = v2, rtm_ReleaseID = v3, rtm_PackageLockDigest = v4, rtm_Command = v5, rtm_EnvVars = v6, rtm_HealthCheck = v7, rtm_Metrics = v8, rtm_CreatedAt = v9\<rparr>)))))))))))"

definition wf_RuntimeManifest :: "RuntimeManifest \<Rightarrow> bool" where
  "wf_RuntimeManifest x = (wf_map (rtm_EnvVars x) \<and>
     pred_option wf_HealthCheck (rtm_HealthCheck x) \<and>
     pred_option wf_MetricsConfig (rtm_Metrics x))"

section \<open>Round trips\<close>

lemma names_ok_ArtifactRef: "names_ok names_ArtifactRef"
  by (simp add: names_ok_def names_ArtifactRef_def fold_key_def lower_char_def)

lemma enc_ArtifactRef_not_null [simp]: "enc_ArtifactRef x \<noteq> JNull"
  by (simp add: enc_ArtifactRef_def)

lemma codec_ArtifactRef [codec_simps]: "dec_ArtifactRef (enc_ArtifactRef x) = Inr x"
  unfolding dec_ArtifactRef_def enc_ArtifactRef_def
  by (subst dec_struct_enc_obj [OF names_ok_ArtifactRef])
    (auto simp: names_ArtifactRef_def codec_simps dec_str_def)

lemma names_ok_Signature: "names_ok names_Signature"
  by (simp add: names_ok_def names_Signature_def fold_key_def lower_char_def)

lemma enc_Signature_not_null [simp]: "enc_Signature x \<noteq> JNull"
  by (simp add: enc_Signature_def)

lemma codec_Signature [codec_simps]: "dec_Signature (enc_Signature x) = Inr x"
  unfolding dec_Signature_def enc_Signature_def
  by (subst dec_struct_enc_obj [OF names_ok_Signature])
    (auto simp: names_Signature_def codec_simps dec_str_def)

lemma names_ok_ReleaseManifest: "names_ok names_ReleaseManifest"
  by (simp add: names_ok_def names_ReleaseManifest_def fold_key_def lower_char_def)

lemma enc_ReleaseManifest_not_null [simp]: "enc_ReleaseManifest x \<noteq> JNull"
  by (simp add: enc_ReleaseManifest_def)

lemma codec_ReleaseManifest [codec_simps]: "dec_ReleaseManifest (enc_ReleaseManifest x) = Inr x"
  unfolding dec_ReleaseManifest_def enc_ReleaseManifest_def
  by (subst dec_struct_enc_obj [OF names_ok_ReleaseManifest])
    (auto simp: names_ReleaseManifest_def codec_simps dec_str_def)

lemma names_ok_MetricsConfig: "names_ok names_MetricsConfig"
  by (simp add: names_ok_def names_MetricsConfig_def fold_key_def lower_char_def)

lemma enc_MetricsConfig_not_null [simp]: "enc_MetricsConfig x \<noteq> JNull"
  by (simp add: enc_MetricsConfig_def)

lemma codec_MetricsConfig [codec_simps]: "wf_MetricsConfig x \<Longrightarrow> dec_MetricsConfig (enc_MetricsConfig x) = Inr x"
  unfolding dec_MetricsConfig_def enc_MetricsConfig_def
  by (subst dec_struct_enc_obj [OF names_ok_MetricsConfig])
    (auto simp: names_MetricsConfig_def codec_simps dec_str_def wf_MetricsConfig_def list_all_iff option.pred_set)

lemma names_ok_HealthCheck: "names_ok names_HealthCheck"
  by (simp add: names_ok_def names_HealthCheck_def fold_key_def lower_char_def)

lemma enc_HealthCheck_not_null [simp]: "enc_HealthCheck x \<noteq> JNull"
  by (simp add: enc_HealthCheck_def)

lemma codec_HealthCheck [codec_simps]: "wf_HealthCheck x \<Longrightarrow> dec_HealthCheck (enc_HealthCheck x) = Inr x"
  unfolding dec_HealthCheck_def enc_HealthCheck_def
  by (subst dec_struct_enc_obj [OF names_ok_HealthCheck])
    (auto simp: names_HealthCheck_def codec_simps dec_str_def wf_HealthCheck_def list_all_iff option.pred_set)

lemma names_ok_RuntimeManifest: "names_ok names_RuntimeManifest"
  by (simp add: names_ok_def names_RuntimeManifest_def fold_key_def lower_char_def)

lemma enc_RuntimeManifest_not_null [simp]: "enc_RuntimeManifest x \<noteq> JNull"
  by (simp add: enc_RuntimeManifest_def)

lemma codec_RuntimeManifest [codec_simps]: "wf_RuntimeManifest x \<Longrightarrow> dec_RuntimeManifest (enc_RuntimeManifest x) = Inr x"
  unfolding dec_RuntimeManifest_def enc_RuntimeManifest_def
  by (subst dec_struct_enc_obj [OF names_ok_RuntimeManifest])
    (auto simp: names_RuntimeManifest_def codec_simps dec_str_def wf_RuntimeManifest_def list_all_iff option.pred_set)

lemma dec_wf_MetricsConfig [dec_wf]: "dec_MetricsConfig j = Inr x \<Longrightarrow> wf_MetricsConfig x"
  unfolding dec_MetricsConfig_def wf_MetricsConfig_def
  by (drule dec_struct_InrD) (auto simp: rbind_Inr_iff intro: dec_wf)

lemma dec_wf_HealthCheck [dec_wf]: "dec_HealthCheck j = Inr x \<Longrightarrow> wf_HealthCheck x"
  unfolding dec_HealthCheck_def wf_HealthCheck_def
  by (drule dec_struct_InrD) (auto simp: rbind_Inr_iff intro: dec_wf)

lemma dec_wf_RuntimeManifest [dec_wf]: "dec_RuntimeManifest j = Inr x \<Longrightarrow> wf_RuntimeManifest x"
  unfolding dec_RuntimeManifest_def wf_RuntimeManifest_def
  by (drule dec_struct_InrD) (auto simp: rbind_Inr_iff intro: dec_wf)


end
