(* ===== verification/Go_Base64.thy ===== *)
theory Go_Base64
  imports Prelude
begin

text \<open>
  The standard base64 encoding of the Go library (\<^verbatim>\<open>base64.StdEncoding\<close>), which signatures and public keys
  are stored in: with padding, and a decoder that skips line breaks and refuses everything else
  that is not of this form.
\<close>

definition b64_char :: "nat \<Rightarrow> char" where
  "b64_char n = (if n < 26 then char_of (65 + n) else if n < 52 then char_of (71 + n) else if n < 62 then char_of (n - 4)
     else if n = 62 then CHR ''+'' else CHR ''/'')"

definition b64_value :: "char \<Rightarrow> nat option" where
  "b64_value c = (let n = of_char c :: nat in
     if 65 \<le> n \<and> n \<le> 90 then Some (n - 65) else if 97 \<le> n \<and> n \<le> 122 then Some (n - 71)
     else if 48 \<le> n \<and> n \<le> 57 then Some (n + 4) else if n = 43 then Some 62 else if n = 47 then Some 63 else None)"

fun base64_EncodeToString :: "string \<Rightarrow> string" where
  "base64_EncodeToString [] = []"
| "base64_EncodeToString [a] = (let n = of_char a * 16 in [b64_char (n div 64), b64_char (n mod 64), CHR ''='', CHR ''=''])"
| "base64_EncodeToString [a, b] = (let n = (of_char a * 256 + of_char b) * 4 in
     [b64_char (n div 4096), b64_char (n div 64 mod 64), b64_char (n mod 64), CHR ''=''])"
| "base64_EncodeToString (a # b # c # xs) = (let n = of_char a * 65536 + of_char b * 256 + of_char c in
     [b64_char (n div 262144), b64_char (n div 4096 mod 64), b64_char (n div 64 mod 64), b64_char (n mod 64)] @
     base64_EncodeToString xs)"

text \<open>Four characters at a time; padding ends the text. The values of the last characters of a padded group may have
  bits that are dropped, which the (not strict) decoder ignores.\<close>

fun b64_quanta :: "string \<Rightarrow> string option" where
  "b64_quanta [] = Some []"
| "b64_quanta (a # b # c # d # rest) = (case b64_value a of None \<Rightarrow> None | Some x \<Rightarrow> (case b64_value b of None \<Rightarrow> None | Some y \<Rightarrow>
     if c = CHR ''='' then (if d = CHR ''='' \<and> rest = [] then Some [char_of ((x * 64 + y) div 16)] else None)
     else (case b64_value c of None \<Rightarrow> None | Some z \<Rightarrow>
       if d = CHR ''='' then
         (if rest = [] then (let n = x * 4096 + y * 64 + z in Some [char_of (n div 1024), char_of (n div 4)]) else None)
       else (case b64_value d of None \<Rightarrow> None | Some w \<Rightarrow>
         (let n = x * 262144 + y * 4096 + z * 64 + w in
          map_option (\<lambda>r. char_of (n div 65536) # char_of (n div 256) # char_of n # r) (b64_quanta rest))))))"
| "b64_quanta _ = None"

definition base64_DecodeString :: "string \<Rightarrow> string option" where
  "base64_DecodeString s = b64_quanta (filter (\<lambda>c. c \<noteq> CHR 0x0A \<and> c \<noteq> CHR 0x0D) s)"

section \<open>Decoding what was encoded\<close>

lemma of_char_lt: "(of_char (c :: char) :: nat) < 256"
  by (metis nat_of_char_less_256)

lemma b64_char_value: "n < 64 \<Longrightarrow> b64_value (b64_char n) = Some n"
  by (auto simp: b64_value_def b64_char_def Let_def)

lemma b64_char_ok:
  assumes "n < 64"
  shows "b64_value (b64_char n) = Some n" "b64_char n \<noteq> CHR ''=''" "b64_char n \<noteq> CHR 0x0A" "b64_char n \<noteq> CHR 0x0D"
proof -
  show v: "b64_value (b64_char n) = Some n" using assms by (rule b64_char_value)
  have "b64_value (CHR ''='') = None" "b64_value (CHR 0x0A) = None" "b64_value (CHR 0x0D) = None" by (simp_all add: b64_value_def)
  then show "b64_char n \<noteq> CHR ''=''" "b64_char n \<noteq> CHR 0x0A" "b64_char n \<noteq> CHR 0x0D" using v by auto
qed

lemma sextets:
  fixes n :: nat
  shows "n div 4096 * 4096 + n div 64 mod 64 * 64 + n mod 64 = n"
    "n div 262144 * 262144 + n div 4096 mod 64 * 4096 + n div 64 mod 64 * 64 + n mod 64 = n"
proof -
  have d: "n div 4096 = n div 64 div 64" "n div 262144 = n div 4096 div 64" by (simp_all add: div_mult2_eq [symmetric])
  show 1: "n div 4096 * 4096 + n div 64 mod 64 * 64 + n mod 64 = n"
    using d(1) div_mult_mod_eq [of n 64] div_mult_mod_eq [of "n div 64" 64] by linarith
  show "n div 262144 * 262144 + n div 4096 mod 64 * 4096 + n div 64 mod 64 * 64 + n mod 64 = n"
    using 1 d(2) div_mult_mod_eq [of "n div 4096" 64] by linarith
qed

lemma b64_group3:
  fixes a b c :: nat
  assumes "a < 256" "b < 256" "c < 256" "n = a * 65536 + b * 256 + c"
  shows "n div 262144 < 64" "n div 65536 = a" "n div 256 mod 256 = b" "n mod 256 = c"
proof -
  show "n div 65536 = a" using assms by linarith
  have "n = (a * 256 + b) * 256 + c" using assms(4) by simp
  then have "n mod 256 = c mod 256" by (metis mod_mult_self3)
  then show "n mod 256 = c" using assms(3) by simp
  have "n < 16777216" using assms by linarith
  then show "n div 262144 < 64" by (simp add: less_mult_imp_div_less)
  have "n div 256 = a * 256 + b" using assms by linarith
  then show "n div 256 mod 256 = b" using assms by simp
qed

lemma b64_group1:
  fixes a :: nat
  assumes "a < 256" "n = a * 16"
  shows "n div 64 < 64" "n div 16 = a"
proof -
  have "n < 4096" using assms by linarith
  then show "n div 64 < 64" by (simp add: less_mult_imp_div_less)
  show "n div 16 = a" unfolding assms(2) by simp
qed

lemma b64_group2:
  fixes a b :: nat
  assumes "a < 256" "b < 256" "n = (a * 256 + b) * 4"
  shows "n div 4096 < 64" "n div 1024 = a" "n div 4 mod 256 = b"
proof -
  have "n = a * 1024 + b * 4" "b * 4 < 1024" using assms by simp_all
  then show "n div 1024 = a" by simp
  have "a * 256 + b < 65536" using assms by linarith
  then have "n < 262144" using assms(3) by simp
  then show "n div 4096 < 64" by (simp add: less_mult_imp_div_less)
  have "n div 4 = a * 256 + b" unfolding assms(3) by simp
  then show "n div 4 mod 256 = b" using assms by simp
qed

lemma char_of_eq: "m mod 256 = of_char c \<Longrightarrow> char_of (m :: nat) = (c :: char)"
  by (metis char_of_mod_256 char_of_char)

lemma b64_quanta_encode: "b64_quanta (base64_EncodeToString s) = Some s"
proof (induction s rule: base64_EncodeToString.induct)
  case (2 a)
  define n :: nat where "n = of_char a * 16"
  note g = b64_group1 [OF of_char_lt [of a] n_def]
  have "base64_EncodeToString [a] = [b64_char (n div 64), b64_char (n mod 64), CHR ''='', CHR ''='']"
    unfolding base64_EncodeToString.simps Let_def n_def ..
  then show ?case using g(1) by (simp del: base64_EncodeToString.simps add: b64_char_ok g(2))
next
  case (3 a b)
  define n :: nat where "n = (of_char a * 256 + of_char b) * 4"
  note g = b64_group2 [OF of_char_lt [of a] of_char_lt [of b] n_def]
  have "base64_EncodeToString [a, b] = [b64_char (n div 4096), b64_char (n div 64 mod 64), b64_char (n mod 64), CHR ''='']"
    by (simp add: n_def Let_def)
  then show ?case using g(1) by (simp add: Let_def b64_char_ok sextets(1) g(2) char_of_eq [OF g(3)])
next
  case (4 a b c xs)
  define n :: nat where "n = of_char a * 65536 + of_char b * 256 + of_char c"
  note g = b64_group3 [OF of_char_lt [of a] of_char_lt [of b] of_char_lt [of c] n_def]
  have "base64_EncodeToString (a # b # c # xs) =
      [b64_char (n div 262144), b64_char (n div 4096 mod 64), b64_char (n div 64 mod 64), b64_char (n mod 64)] @ base64_EncodeToString xs"
    by (simp add: n_def Let_def)
  then show ?case using g(1) 4 by (simp add: Let_def b64_char_ok sextets(2) g(2) char_of_eq [OF g(3)] char_of_eq [OF g(4)])
qed simp

lemma base64_no_breaks: "filter (\<lambda>c. c \<noteq> CHR 0x0A \<and> c \<noteq> CHR 0x0D) (base64_EncodeToString s) = base64_EncodeToString s"
proof (induction s rule: base64_EncodeToString.induct)
  case (2 a)
  show ?case using b64_group1(1) [OF of_char_lt [of a] refl] by (simp add: Let_def b64_char_ok)
next
  case (3 a b)
  show ?case using b64_group2(1) [OF of_char_lt [of a] of_char_lt [of b] refl] by (simp add: Let_def b64_char_ok)
next
  case (4 a b c xs)
  show ?case using b64_group3(1) [OF of_char_lt [of a] of_char_lt [of b] of_char_lt [of c] refl] 4 by (simp add: Let_def b64_char_ok)
qed simp

lemma base64_roundtrip [simp]: "base64_DecodeString (base64_EncodeToString s) = Some s"
  unfolding base64_DecodeString_def base64_no_breaks by (rule b64_quanta_encode)

end
