(* ===== verification/Release.thy ===== *)
theory Release
  imports Release_Schema Go_Base64 Events Cas_Document Paths
begin

text \<open>
  Signed releases (internal/release/verify.go and fetch.go, internal/security/digest.go,
  internal/security/signing/interface.go, internal/compat/compat.go): a release manifest is signed over the SHA-256
  digest of its canonical JSON without digest and signatures, and names the digest of its runtime manifest; fetching
  a release reads both documents and verifies all of it.

  The signature schemes are parameters (\<open>crypto\<close>): Ed25519, ECDSA and the parsing of X.509 keys. SHA-256 and base64
  are definitions.
\<close>

section \<open>Digests\<close>

text \<open>
  What decoding a JSON text and encoding it again gives: object keys sorted, the last of equal keys kept, and
  bytes that are not UTF-8 replaced.
\<close>

function to_utf8 :: "string \<Rightarrow> string" where
  "to_utf8 [] = []"
| "to_utf8 (c # cs) = (let n = rune_size (c # cs) in
     if n = 0 then [CHR 0xEF, CHR 0xBF, CHR 0xBD] @ to_utf8 cs else take n (c # cs) @ to_utf8 (drop n (c # cs)))"
  by pat_completeness auto
termination by (relation "measure length") auto

fun generic_json :: "json \<Rightarrow> json" where
  "generic_json (JStr s) = JStr (to_utf8 s)"
| "generic_json (JArr xs) = JArr (map generic_json xs)"
| "generic_json (JObj kvs) =
     JObj (fold (\<lambda>(k, v). map_put (to_utf8 k) v) (map (\<lambda>(k, v). (k, generic_json v)) kvs) [])"
| "generic_json j = j"

definition DigestBytes :: "string \<Rightarrow> string" where
  "DigestBytes body = ''sha256'' @ '':'' @ hex_EncodeToString (Sum256 body)"

definition IsSHA256Digest :: "string \<Rightarrow> bool" where
  "IsSHA256Digest value \<longleftrightarrow> length value = length ''sha256:'' + 64 \<and> take (length ''sha256:'') value = ''sha256:'' \<and>
     list_all (\<lambda>c. byte_in 48 57 c \<or> byte_in 97 102 c) (drop (length ''sha256:'') value)"

definition CanonicalJSONDigest :: "json \<Rightarrow> string" where
  "CanonicalJSONDigest body = DigestBytes (json_text (generic_json body))"

definition canonicalDocumentDigest :: "('a \<Rightarrow> json) \<Rightarrow> 'a \<Rightarrow> string result" where
  "canonicalDocumentDigest enc document =
     rbind (canonical_Marshal enc (\<lambda>_. True) document) (\<lambda>body. Inr (CanonicalJSONDigest body))"

definition UnsignedManifest :: "ReleaseManifest \<Rightarrow> ReleaseManifest" where
  "UnsignedManifest manifest = manifest\<lparr>rm_Digest := [], rm_Signatures := []\<rparr>"

definition ManifestDigest :: "ReleaseManifest \<Rightarrow> string result" where
  "ManifestDigest manifest = canonicalDocumentDigest enc_ReleaseManifest (UnsignedManifest manifest)"

definition RuntimeManifestDigest :: "RuntimeManifest \<Rightarrow> string result" where
  "RuntimeManifestDigest manifest = canonicalDocumentDigest enc_RuntimeManifest manifest"

section \<open>Signatures\<close>

datatype pkix_key = PkixECDSA string | PkixOther string

record crypto =
  ed25519_Verify :: "string \<Rightarrow> string \<Rightarrow> string \<Rightarrow> bool"
  x509_ParsePKIXPublicKey :: "string \<Rightarrow> pkix_key result"
  ecdsa_VerifyASN1 :: "string \<Rightarrow> string \<Rightarrow> string \<Rightarrow> bool"

definition AlgorithmEd25519 :: string where "AlgorithmEd25519 = ''ed25519''"
definition AlgorithmECDSAP256SHA256 :: string where "AlgorithmECDSAP256SHA256 = ''ecdsa-p256-sha256''"
definition PublicKeyEncodingRaw :: string where "PublicKeyEncodingRaw = ''raw''"
definition PublicKeyEncodingPKIXDER :: string where "PublicKeyEncodingPKIXDER = ''pkix-der''"

record 's Signer =
  sgr_KeyID :: string
  sgr_Algorithm :: string
  sgr_SignDigest :: "string \<Rightarrow> ('s, string) io"

type_synonym 's Verifier = "string \<Rightarrow> Signature \<Rightarrow> ('s, unit) io"

record TrustedPublicKey =
  tpk_KeyID :: string
  tpk_Algorithm :: string
  tpk_Encoding :: string
  tpk_PublicKey :: string

definition ErrNoValidSignature :: goerr where
  "ErrNoValidSignature = new_error ''no valid signature''"

definition defaultPublicKeyEncoding :: "string \<Rightarrow> string" where
  "defaultPublicKeyEncoding algorithm =
     (if algorithm = AlgorithmEd25519 then PublicKeyEncodingRaw
      else if algorithm = AlgorithmECDSAP256SHA256 then PublicKeyEncodingPKIXDER else [])"

text \<open>The keys of a verifier by their id; a later key replaces an earlier one of the same id.\<close>

fun trustedKeys :: "TrustedPublicKey list \<Rightarrow> (string \<times> TrustedPublicKey) list \<Rightarrow> (string \<times> TrustedPublicKey) list result" where
  "trustedKeys [] copied = Inr copied"
| "trustedKeys (key # keys) copied =
     (if tpk_KeyID key = [] then Inl (new_error ''key ID is required'')
      else if tpk_Algorithm key = [] then Inl (new_error (''algorithm is required for key '' @ quote (tpk_KeyID key)))
      else (let key1 = (if tpk_Encoding key = [] then key\<lparr>tpk_Encoding := defaultPublicKeyEncoding (tpk_Algorithm key)\<rparr> else key) in
        if tpk_PublicKey key1 = [] then Inl (new_error (''public key is required for key '' @ quote (tpk_KeyID key1)))
        else trustedKeys keys (map_put (tpk_KeyID key1) key1 copied)))"

definition NewPublicKeyVerifier :: "TrustedPublicKey list \<Rightarrow> (string \<times> TrustedPublicKey) list result" where
  "NewPublicKeyVerifier keys =
     (if keys = [] then Inl (new_error ''at least one public key is required'') else trustedKeys keys [])"

text \<open>The offset that the decoder's error reports is left out of its text.\<close>

definition DecodeSignature :: "string \<Rightarrow> string result" where
  "DecodeSignature value = (case base64_DecodeString value of
      None \<Rightarrow> Inl (Errorf (''signature must be base64: '' @ ''illegal base64 data'') (Some (new_error ''illegal base64 data'')))
    | Some raw \<Rightarrow> Inr raw)"

definition checkSignature :: "crypto \<Rightarrow> (string \<times> TrustedPublicKey) list \<Rightarrow> string \<Rightarrow> Signature \<Rightarrow> unit result" where
  "checkSignature C keys digest signature = (case map_of keys (sig_KeyID signature) of
      None \<Rightarrow> Inl (new_error (''unknown key ID '' @ quote (sig_KeyID signature)))
    | Some key \<Rightarrow>
        if sig_Algorithm signature \<noteq> tpk_Algorithm key then
          Inl (new_error (''signature algorithm '' @ quote (sig_Algorithm signature) @ '' does not match trusted key algorithm '' @
            quote (tpk_Algorithm key)))
        else rbind (DecodeSignature (sig_Signature signature)) (\<lambda>rawSig.
          if sig_Algorithm signature = AlgorithmEd25519 then
            (if tpk_Encoding key \<noteq> PublicKeyEncodingRaw then
               Inl (new_error (''ed25519 public key for '' @ quote (sig_KeyID signature) @ '' uses encoding '' @ quote (tpk_Encoding key) @
                 '', want '' @ quote PublicKeyEncodingRaw))
             else if length (tpk_PublicKey key) \<noteq> 32 then
               Inl (new_error (''ed25519 public key for '' @ quote (sig_KeyID signature) @ '' must be 32 bytes''))
             else if \<not> ed25519_Verify C (tpk_PublicKey key) digest rawSig then
               Inl (new_error (''invalid signature for key ID '' @ quote (sig_KeyID signature)))
             else Inr ())
          else if sig_Algorithm signature = AlgorithmECDSAP256SHA256 then
            (if tpk_Encoding key \<noteq> PublicKeyEncodingPKIXDER then
               Inl (new_error (''ECDSA public key for '' @ quote (sig_KeyID signature) @ '' uses encoding '' @ quote (tpk_Encoding key) @
                 '', want '' @ quote PublicKeyEncodingPKIXDER))
             else (case x509_ParsePKIXPublicKey C (tpk_PublicKey key) of
                 Inl err \<Rightarrow> Inl (Errorf (''parse ECDSA public key for '' @ quote (sig_KeyID signature) @ '': '' @ err_text err) (Some err))
               | Inr (PkixOther ty) \<Rightarrow> Inl (new_error (''public key for '' @ quote (sig_KeyID signature) @ '' is '' @ ty @ '', want ECDSA''))
               | Inr (PkixECDSA publicKey) \<Rightarrow>
                   if \<not> ecdsa_VerifyASN1 C publicKey (Sum256 digest) rawSig then
                     Inl (new_error (''invalid signature for key ID '' @ quote (sig_KeyID signature)))
                   else Inr ()))
          else Inl (new_error (''unsupported signature algorithm '' @ quote (sig_Algorithm signature)))))"

definition PublicKeyVerifier :: "('s, 'z) World_scheme \<Rightarrow> crypto \<Rightarrow> (string \<times> TrustedPublicKey) list \<Rightarrow> 's Verifier" where
  "PublicKeyVerifier W C keys digest signature =
     io_bind (io_ctx W) (\<lambda>_. io_lift (checkSignature C keys digest signature))"

definition signing_SignDigest :: "'s Signer \<Rightarrow> string \<Rightarrow> Actor \<Rightarrow> gotime \<Rightarrow> ('s, Signature) io" where
  "signing_SignDigest signer digest actor signedAt =
     io_bind (sgr_SignDigest signer digest) (\<lambda>raw.
     io_ret \<lparr>sig_KeyID = sgr_KeyID signer, sig_Algorithm = sgr_Algorithm signer, sig_Signature = base64_EncodeToString raw,
       sig_SignedAt = canonical_Time signedAt, sig_Signer = Some actor\<rparr>)"

fun verifyEach :: "'s Verifier \<Rightarrow> string \<Rightarrow> Signature list \<Rightarrow> goerr option \<Rightarrow> ('s, Signature) io" where
  "verifyEach verifier digest [] lastErr = io_fail (case lastErr of
      Some e \<Rightarrow> Errorf (err_text ErrNoValidSignature @ '': '' @ err_text e) (Some ErrNoValidSignature)
    | None \<Rightarrow> ErrNoValidSignature)"
| "verifyEach verifier digest (signature # signatures) lastErr =
     io_bind (io_try (verifier digest signature)) (\<lambda>r. case r of
         Inl err \<Rightarrow> verifyEach verifier digest signatures (Some err)
       | Inr _ \<Rightarrow> io_ret signature)"

definition VerifyAny :: "'s Verifier option \<Rightarrow> string \<Rightarrow> Signature list \<Rightarrow> ('s, Signature) io" where
  "VerifyAny verifier digest signatures = (case verifier of
      None \<Rightarrow> io_fail (new_error ''verifier is required'')
    | Some v \<Rightarrow> if signatures = [] then io_fail ErrNoValidSignature else verifyEach v digest signatures None)"

section \<open>Versions\<close>

text \<open>\<^verbatim>\<open>strconv.Atoi\<close>: an optional sign and decimal digits, within 64 bits.\<close>

definition strconv_Atoi :: "string \<Rightarrow> int option" where
  "strconv_Atoi s =
     (let digits = (case s of c # ds \<Rightarrow> if c = CHR ''+'' \<or> c = CHR ''-'' then ds else s | [] \<Rightarrow> []) in
      if digits = [] \<or> \<not> list_all is_digit digits then None
      else (let n = int (digits_val 0 digits); i = (if hd s = CHR ''-'' then - n else n) in if in_int64 i then Some i else None))"

definition compat_normalize :: "string \<Rightarrow> string" where
  "compat_normalize value = TrimSpace (case value of c # cs \<Rightarrow> if c = CHR ''v'' then cs else value | [] \<Rightarrow> [])"

definition version_part :: "string \<Rightarrow> string \<Rightarrow> int result" where
  "version_part value part = (case strconv_Atoi part of
      Some n \<Rightarrow> if n < 0 then Inl (new_error (''version '' @ quote value @ '' has invalid component '' @ quote part)) else Inr n
    | None \<Rightarrow> Inl (new_error (''version '' @ quote value @ '' has invalid component '' @ quote part)))"

definition compat_parse :: "string \<Rightarrow> (int \<times> int \<times> int) result" where
  "compat_parse value0 =
     (let value = takeWhile (\<lambda>c. c \<noteq> CHR ''-'' \<and> c \<noteq> CHR ''+'') (compat_normalize value0) in
      case split_on (CHR ''.'') value of
        [a, b, c] \<Rightarrow> rbind (version_part value a) (\<lambda>x. rbind (version_part value b) (\<lambda>y. rbind (version_part value c) (\<lambda>z. Inr (x, y, z))))
      | _ \<Rightarrow> Inl (new_error (''version '' @ quote value @ '' must be major.minor.patch'')))"

definition compat_compare :: "int \<times> int \<times> int \<Rightarrow> int \<times> int \<times> int \<Rightarrow> int" where
  "compat_compare a b = (case (a, b) of ((a0, a1, a2), (b0, b1, b2)) \<Rightarrow>
     if a0 < b0 then - 1 else if a0 > b0 then 1 else if a1 < b1 then - 1 else if a1 > b1 then 1
     else if a2 < b2 then - 1 else if a2 > b2 then 1 else 0)"

definition SatisfiesMinimum :: "string \<Rightarrow> string \<Rightarrow> bool result" where
  "SatisfiesMinimum current0 minimum0 =
     (let current = compat_normalize current0; minimum = compat_normalize minimum0 in
      if minimum = [] then Inr True
      else if current = [] then Inr False
      else if current = ''dev'' \<or> minimum = ''dev'' then Inr True
      else rbind (compat_parse current) (\<lambda>c. rbind (compat_parse minimum) (\<lambda>m. Inr (compat_compare c m \<ge> 0))))"

record Finding =
  fnd_Code :: string
  fnd_Summary :: string

definition CheckRunnerRelease :: "string \<Rightarrow> string \<Rightarrow> Finding list" where
  "CheckRunnerRelease runnerVersion minimum = (case SatisfiesMinimum runnerVersion minimum of
      Inl err \<Rightarrow> [\<lparr>fnd_Code = ''RUNNER_VERSION_INVALID'', fnd_Summary = err_text err\<rparr>]
    | Inr ok \<Rightarrow> if \<not> ok then [\<lparr>fnd_Code = ''RUNNER_VERSION_TOO_OLD'',
          fnd_Summary = ''runner version '' @ quote runnerVersion @ '' is older than required '' @ quote minimum\<rparr>]
        else [])"

definition CheckClientServer :: "string \<Rightarrow> string \<Rightarrow> Finding list" where
  "CheckClientServer cliVersion0 serverVersion0 =
     (let cliVersion = compat_normalize cliVersion0; serverVersion = compat_normalize serverVersion0 in
      if cliVersion = [] \<or> serverVersion = [] \<or> cliVersion = ''dev'' \<or> serverVersion = ''dev'' then []
      else (case compat_parse cliVersion of
          Inl err \<Rightarrow> [\<lparr>fnd_Code = ''CLI_VERSION_INVALID'', fnd_Summary = err_text err\<rparr>]
        | Inr cli \<Rightarrow> (case compat_parse serverVersion of
            Inl err \<Rightarrow> [\<lparr>fnd_Code = ''SKIFFD_VERSION_INVALID'', fnd_Summary = err_text err\<rparr>]
          | Inr server \<Rightarrow>
              if compat_compare server cli < 0 then
                [\<lparr>fnd_Code = ''SKIFFD_VERSION_OLDER_THAN_CLI'', fnd_Summary =
                   ''skiffd version '' @ quote serverVersion @ '' is older than CLI version '' @ quote cliVersion\<rparr>]
              else [])))"

section \<open>Verification\<close>

record Check =
  chk_Name :: string
  chk_OK :: bool
  chk_Summary :: string

record 's VerifyOptions =
  vo_Service :: string
  vo_Env :: string
  vo_ReleaseID :: string
  vo_RuntimeManifest :: "RuntimeManifest option"
  vo_Verifier :: "'s Verifier option"
  vo_Now :: gotime
  vo_RequireArtifactDigest :: bool
  vo_AllowUnsignedRelease :: bool
  vo_RunnerVersion :: string

record VerificationResult =
  vr_OK :: bool
  vr_Service :: string
  vr_Env :: string
  vr_ReleaseID :: string
  vr_Digest :: string
  vr_RuntimeManifestDigest :: string
  vr_VerifiedSignature :: "Signature option"
  vr_Checks :: "Check list"
  vr_Findings :: "Finding list"

definition addCheck :: "string \<Rightarrow> bool \<Rightarrow> string \<Rightarrow> string \<Rightarrow> string \<Rightarrow> VerificationResult \<Rightarrow> VerificationResult" where
  "addCheck name ok successSummary failureCode failureSummary r =
     (if ok then r\<lparr>vr_Checks := vr_Checks r @ [\<lparr>chk_Name = name, chk_OK = ok, chk_Summary = successSummary\<rparr>]\<rparr>
      else r\<lparr>vr_Findings := vr_Findings r @ [\<lparr>fnd_Code = failureCode, fnd_Summary = failureSummary\<rparr>],
             vr_Checks := vr_Checks r @ [\<lparr>chk_Name = name, chk_OK = ok, chk_Summary = failureSummary\<rparr>]\<rparr>)"

text \<open>A check that passes without being made, and one that fails because a digest could not be computed.\<close>

definition notedCheck :: "string \<Rightarrow> string \<Rightarrow> VerificationResult \<Rightarrow> VerificationResult" where
  "notedCheck name summary r = r\<lparr>vr_Checks := vr_Checks r @ [\<lparr>chk_Name = name, chk_OK = True, chk_Summary = summary\<rparr>]\<rparr>"

definition brokenCheck :: "string \<Rightarrow> string \<Rightarrow> goerr \<Rightarrow> VerificationResult \<Rightarrow> VerificationResult" where
  "brokenCheck name code err r = r\<lparr>
     vr_Checks := vr_Checks r @ [\<lparr>chk_Name = name, chk_OK = False, chk_Summary = err_text err\<rparr>],
     vr_Findings := vr_Findings r @ [\<lparr>fnd_Code = code, fnd_Summary = err_text err\<rparr>]\<rparr>"

definition verifyRunnerVersion :: "ReleaseManifest \<Rightarrow> string \<Rightarrow> VerificationResult \<Rightarrow> VerificationResult" where
  "verifyRunnerVersion manifest runnerVersion r =
     (if rm_MinRunnerVersion manifest = [] then notedCheck ''runner_version'' ''release does not declare a minimum runner version'' r
      else if runnerVersion = [] then
        notedCheck ''runner_version'' ''runner version was not provided; release minimum was not evaluated'' r
      else (case CheckRunnerRelease runnerVersion (rm_MinRunnerVersion manifest) of
          [] \<Rightarrow> addCheck ''runner_version'' True ''runner version satisfies release minimum'' [] [] r
        | f # _ \<Rightarrow> addCheck ''runner_version'' False [] (fnd_Code f) (fnd_Summary f) r))"

definition verifyRuntimeManifest :: "ReleaseManifest \<Rightarrow> RuntimeManifest \<Rightarrow> VerificationResult \<Rightarrow> VerificationResult" where
  "verifyRuntimeManifest manifest runtimeManifest r0 =
     (let r1 = addCheck ''runtime_schema'' (rtm_SchemaVersion runtimeManifest = schema_Version)
            ''runtime manifest schema version is supported'' ''UNSUPPORTED_RUNTIME_SCHEMA''
            (''runtime manifest schema version '' @ quote (rtm_SchemaVersion runtimeManifest) @ '' is not supported'') r0;
          r2 = addCheck ''runtime_target''
            (rtm_Service runtimeManifest = rm_Service manifest \<and> rtm_Env runtimeManifest = rm_Env manifest \<and>
             rtm_ReleaseID runtimeManifest = rm_ReleaseID manifest)
            ''runtime manifest target matches release'' ''RUNTIME_TARGET_MISMATCH''
            ''runtime manifest service, env, or release ID does not match release manifest'' r1
      in case RuntimeManifestDigest runtimeManifest of
           Inl err \<Rightarrow> brokenCheck ''runtime_digest'' ''RUNTIME_DIGEST_CALCULATION_FAILED'' err r2
         | Inr digest \<Rightarrow> addCheck ''runtime_digest''
             (rm_RuntimeManifestDigest manifest \<noteq> [] \<and> rm_RuntimeManifestDigest manifest = digest)
             ''runtime manifest digest matches release'' ''RUNTIME_MANIFEST_DIGEST_MISMATCH''
             ''runtime manifest digest is missing or does not match release manifest'' (r2\<lparr>vr_RuntimeManifestDigest := digest\<rparr>))"

definition verifyExpiry :: "ReleaseManifest \<Rightarrow> gotime \<Rightarrow> VerificationResult \<Rightarrow> VerificationResult" where
  "verifyExpiry manifest now r =
     (if rm_ExpiresAt manifest = [] then notedCheck ''expiry'' ''release has no expiry'' r
      else (case time_Parse (rm_ExpiresAt manifest) of
          None \<Rightarrow> addCheck ''expiry'' False [] ''INVALID_EXPIRY''
            (''release expiry '' @ quote (rm_ExpiresAt manifest) @ '' is not RFC3339'') r
        | Some expiresAt \<Rightarrow> addCheck ''expiry'' (\<not> now > expiresAt) ''release is not expired'' ''RELEASE_EXPIRED''
            (''release expired at '' @ canonical_Time expiresAt) r))"

definition verifySignature ::
  "ReleaseManifest \<Rightarrow> string \<Rightarrow> 's Verifier option \<Rightarrow> bool \<Rightarrow> VerificationResult \<Rightarrow> ('s, VerificationResult) io" where
  "verifySignature manifest digest verifier allowUnsigned r =
     (if digest = [] then
        io_ret (addCheck ''signature'' False [] ''SIGNATURE_SKIPPED'' ''signature verification requires a valid digest'' r)
      else if allowUnsigned \<and> rm_Signatures manifest = [] then
        io_ret (addCheck ''signature'' True ''unsigned release is allowed by environment policy'' [] [] r)
      else
        io_bind (io_try (VerifyAny verifier digest (rm_Signatures manifest))) (\<lambda>res. case res of
            Inr signature \<Rightarrow>
              io_ret (addCheck ''signature'' True ''at least one release signature is valid'' [] [] (r\<lparr>vr_VerifiedSignature := Some signature\<rparr>))
          | Inl err \<Rightarrow>
              io_ret (addCheck ''signature'' False []
                (if err = ErrNoValidSignature \<and> rm_Signatures manifest = [] then ''MISSING_SIGNATURE'' else ''INVALID_SIGNATURE'')
                (err_text err) r)))"

text \<open>
  The parts of \<^verbatim>\<open>VerifyManifest\<close>: the target, the digest, and all checks that come before the signature, with the
  digest that was computed, empty if it could not be.
\<close>

definition verifyTarget :: "ReleaseManifest \<Rightarrow> 's VerifyOptions \<Rightarrow> VerificationResult \<Rightarrow> VerificationResult" where
  "verifyTarget manifest opts r =
     addCheck ''release_id'' (vo_ReleaseID opts = [] \<or> rm_ReleaseID manifest = vo_ReleaseID opts)
       ''release ID matches expected target'' ''RELEASE_ID_MISMATCH''
       (''release ID '' @ quote (rm_ReleaseID manifest) @ '' does not match expected release '' @ quote (vo_ReleaseID opts))
     (addCheck ''env'' (vo_Env opts = [] \<or> rm_Env manifest = vo_Env opts)
       ''environment matches expected target'' ''ENV_MISMATCH''
       (''release env '' @ quote (rm_Env manifest) @ '' does not match expected env '' @ quote (vo_Env opts))
     (addCheck ''service'' (vo_Service opts = [] \<or> rm_Service manifest = vo_Service opts)
       ''service matches expected target'' ''SERVICE_MISMATCH''
       (''release service '' @ quote (rm_Service manifest) @ '' does not match expected service '' @ quote (vo_Service opts))
     (addCheck ''schema'' (rm_SchemaVersion manifest = schema_Version)
       ''schema version is supported'' ''UNSUPPORTED_SCHEMA''
       (''release schema version '' @ quote (rm_SchemaVersion manifest) @ '' is not supported'') r)))"

definition verifyDigest :: "ReleaseManifest \<Rightarrow> VerificationResult \<Rightarrow> string \<times> VerificationResult" where
  "verifyDigest manifest r = (case ManifestDigest manifest of
      Inl err \<Rightarrow> ([], brokenCheck ''digest'' ''DIGEST_CALCULATION_FAILED'' err r)
    | Inr expected \<Rightarrow> (expected, addCheck ''digest'' (rm_Digest manifest \<noteq> [] \<and> rm_Digest manifest = expected)
        ''release digest matches canonical unsigned manifest'' ''INVALID_DIGEST''
        ''release digest is missing or does not match canonical unsigned manifest'' (r\<lparr>vr_Digest := expected\<rparr>)))"

definition releaseChecks :: "ReleaseManifest \<Rightarrow> 's VerifyOptions \<Rightarrow> gotime \<Rightarrow> string \<times> VerificationResult" where
  "releaseChecks manifest opts now =
     (let r0 = \<lparr>vr_OK = False, vr_Service = rm_Service manifest, vr_Env = rm_Env manifest, vr_ReleaseID = rm_ReleaseID manifest,
            vr_Digest = rm_Digest manifest, vr_RuntimeManifestDigest = rm_RuntimeManifestDigest manifest,
            vr_VerifiedSignature = None, vr_Checks = [], vr_Findings = []\<rparr> in
      case verifyDigest manifest (verifyTarget manifest opts r0) of (expectedDigest, r1) \<Rightarrow>
      (let r2 = (if vo_RequireArtifactDigest opts then
              addCheck ''artifact_digest'' (IsSHA256Digest (af_Digest (rm_Artifact manifest)))
                ''artifact is digest-pinned'' ''ARTIFACT_DIGEST_REQUIRED'' ''this environment class requires a sha256 artifact digest'' r1
            else r1);
           r3 = (case vo_RuntimeManifest opts of None \<Rightarrow> r2 | Some runtime \<Rightarrow> verifyRuntimeManifest manifest runtime r2)
       in (expectedDigest, verifyRunnerVersion manifest (vo_RunnerVersion opts) (verifyExpiry manifest now r3))))"

definition VerifyManifest ::
  "('s, 'z) World_scheme \<Rightarrow> ReleaseManifest \<Rightarrow> 's VerifyOptions \<Rightarrow> ('s, VerificationResult) io" where
  "VerifyManifest W manifest opts =
     io_bind (if vo_Now opts = zero_gotime then io_now W else io_ret (vo_Now opts)) (\<lambda>now.
     (case releaseChecks manifest opts now of (expectedDigest, r) \<Rightarrow>
      io_bind (verifySignature manifest expectedDigest (vo_Verifier opts) (vo_AllowUnsignedRelease opts) r) (\<lambda>r'.
      io_ret (r'\<lparr>vr_OK := (vr_Findings r' = [])\<rparr>))))"

definition SignManifest ::
  "ReleaseManifest \<Rightarrow> 's Signer option \<Rightarrow> Actor \<Rightarrow> gotime \<Rightarrow> ('s, ReleaseManifest) io" where
  "SignManifest manifest signer actor signedAt =
     io_bind (io_lift (ManifestDigest manifest)) (\<lambda>digest.
     io_bind (case signer of None \<Rightarrow> io_fail (new_error ''signer is required'')
              | Some s \<Rightarrow> signing_SignDigest s digest actor signedAt) (\<lambda>signature.
     io_ret (manifest\<lparr>rm_Digest := digest, rm_Signatures := [signature]\<rparr>)))"

section \<open>Fetching\<close>

record 's FetchOptions =
  fo_Service :: string
  fo_Env :: string
  fo_ReleaseID :: string
  fo_ReleaseKey :: string
  fo_Verifier :: "'s Verifier option"
  fo_Now :: gotime
  fo_RequireArtifactDigest :: bool
  fo_AllowUnsignedRelease :: bool
  fo_RunnerVersion :: string

record FetchedRelease =
  fr_ReleaseManifest :: ReleaseManifest
  fr_RuntimeManifest :: RuntimeManifest
  fr_ReleaseKey :: string
  fr_RuntimeManifestKey :: string
  fr_ReleaseObject :: ObjectMeta
  fr_RuntimeManifestObject :: ObjectMeta
  fr_Verification :: VerificationResult

record FetchError =
  fe_Code :: string
  fe_Summary :: string
  fe_Key :: string
  fe_Err :: "goerr option"
  fe_Verification :: "VerificationResult option"

text \<open>\<^verbatim>\<open>Fetch\<close> reports its errors as \<^verbatim>\<open>*FetchError\<close>: an operation whose result is such an error or a value.\<close>

type_synonym ('s, 'a) fetch_io = "'s \<Rightarrow> (FetchError + 'a) \<times> 's"

definition fetch_bind :: "('s, 'a) fetch_io \<Rightarrow> ('a \<Rightarrow> ('s, 'b) fetch_io) \<Rightarrow> ('s, 'b) fetch_io" where
  "fetch_bind m f s = (case m s of (Inl e, t) \<Rightarrow> (Inl e, t) | (Inr x, t) \<Rightarrow> f x t)"

definition releaseKeyFor :: "'s FetchOptions \<Rightarrow> string result" where
  "releaseKeyFor opts =
     (if fo_ReleaseKey opts \<noteq> [] then Inr (fo_ReleaseKey opts)
      else if fo_ReleaseID opts = [] then Inl (new_error ''release ID is required when release key is not provided'')
      else paths_ReleaseManifest (fo_Service opts) (fo_ReleaseID opts))"

text \<open>\<^verbatim>\<open>readReleaseObject\<close> and \<^verbatim>\<open>readRuntimeObject\<close> differ in the type they decode and in their error codes.\<close>

definition readManifestObject ::
  "('s, 'z) World_scheme \<Rightarrow> (json \<Rightarrow> 'a result) \<Rightarrow> string \<Rightarrow> string \<Rightarrow> string \<Rightarrow> string \<Rightarrow> ('s, 'a \<times> ObjectMeta) fetch_io" where
  "readManifestObject W dec invalidCode notFoundCode notFoundSummary key s = (case os_Get W key s of
      (Inl err, t) \<Rightarrow>
        (Inl (if is_store ErrNotFound err
              then \<lparr>fe_Code = notFoundCode, fe_Summary = notFoundSummary, fe_Key = key, fe_Err = Some err, fe_Verification = None\<rparr>
              else \<lparr>fe_Code = invalidCode, fe_Summary = err_text err, fe_Key = key, fe_Err = Some err, fe_Verification = None\<rparr>), t)
    | (Inr object, t) \<Rightarrow> (case canonical_UnmarshalStrict dec (obj_Body object) of
          Inl err \<Rightarrow> (Inl \<lparr>fe_Code = invalidCode, fe_Summary = err_text err, fe_Key = key, fe_Err = Some err, fe_Verification = None\<rparr>, t)
        | Inr manifest \<Rightarrow> (Inr (manifest, objectMetaFromObject object), t)))"

definition readReleaseObject :: "('s, 'z) World_scheme \<Rightarrow> string \<Rightarrow> ('s, ReleaseManifest \<times> ObjectMeta) fetch_io" where
  "readReleaseObject W = readManifestObject W dec_ReleaseManifest ''INVALID_RELEASE_MANIFEST'' ''RELEASE_NOT_FOUND''
     ''release manifest object was not found''"

definition readRuntimeObject :: "('s, 'z) World_scheme \<Rightarrow> string \<Rightarrow> ('s, RuntimeManifest \<times> ObjectMeta) fetch_io" where
  "readRuntimeObject W = readManifestObject W dec_RuntimeManifest ''INVALID_RUNTIME_MANIFEST'' ''RUNTIME_MANIFEST_NOT_FOUND''
     ''runtime manifest object was not found''"

definition verifyOptionsFor :: "'s FetchOptions \<Rightarrow> RuntimeManifest \<Rightarrow> 's VerifyOptions" where
  "verifyOptionsFor opts runtimeManifest = \<lparr>vo_Service = fo_Service opts, vo_Env = fo_Env opts, vo_ReleaseID = fo_ReleaseID opts,
     vo_RuntimeManifest = Some runtimeManifest, vo_Verifier = fo_Verifier opts, vo_Now = fo_Now opts,
     vo_RequireArtifactDigest = fo_RequireArtifactDigest opts, vo_AllowUnsignedRelease = fo_AllowUnsignedRelease opts,
     vo_RunnerVersion = fo_RunnerVersion opts\<rparr>"

text \<open>\<^verbatim>\<open>VerifyManifest\<close> returns no error; the clock is read without one.\<close>

definition Fetch :: "('s, 'z) World_scheme \<Rightarrow> 's FetchOptions \<Rightarrow> ('s, FetchedRelease) fetch_io" where
  "Fetch W opts = (case releaseKeyFor opts of
      Inl err \<Rightarrow> (\<lambda>s. (Inl \<lparr>fe_Code = ''RELEASE_FETCH_INVALID'', fe_Summary = err_text err, fe_Key = [], fe_Err = Some err,
        fe_Verification = None\<rparr>, s))
    | Inr releaseKey \<Rightarrow>
        fetch_bind (readReleaseObject W releaseKey) (\<lambda>(manifest, releaseMeta).
        if rm_RuntimeManifestKey manifest = [] then
          (\<lambda>s. (Inl \<lparr>fe_Code = ''RUNTIME_MANIFEST_KEY_REQUIRED'',
             fe_Summary = ''release manifest does not name a runtime manifest object'', fe_Key = releaseKey, fe_Err = None,
             fe_Verification = None\<rparr>, s))
        else
          fetch_bind (readRuntimeObject W (rm_RuntimeManifestKey manifest)) (\<lambda>(runtimeManifest, runtimeMeta) s.
          case VerifyManifest W manifest (verifyOptionsFor opts runtimeManifest) s of
            (Inl err, t) \<Rightarrow> (Inl \<lparr>fe_Code = [], fe_Summary = [], fe_Key = [], fe_Err = Some err, fe_Verification = None\<rparr>, t)
          | (Inr result, t) \<Rightarrow>
              if \<not> vr_OK result then
                (Inl \<lparr>fe_Code = ''RELEASE_VERIFY_FAILED'',
                   fe_Summary = ''release '' @ quote (rm_ReleaseID manifest) @ '' failed verification'', fe_Key = releaseKey,
                   fe_Err = None, fe_Verification = Some result\<rparr>, t)
              else
                (Inr \<lparr>fr_ReleaseManifest = manifest, fr_RuntimeManifest = runtimeManifest, fr_ReleaseKey = releaseKey,
                   fr_RuntimeManifestKey = rm_RuntimeManifestKey manifest, fr_ReleaseObject = releaseMeta,
                   fr_RuntimeManifestObject = runtimeMeta, fr_Verification = result\<rparr>, t))))"

section \<open>Lemmas\<close>

lemma ManifestDigest_eq: "ManifestDigest manifest = Inr (CanonicalJSONDigest (enc_ReleaseManifest (UnsignedManifest manifest)))"
  by (simp add: ManifestDigest_def canonicalDocumentDigest_def canonical_Marshal_def)

lemma RuntimeManifestDigest_eq: "RuntimeManifestDigest manifest = Inr (CanonicalJSONDigest (enc_RuntimeManifest manifest))"
  by (simp add: RuntimeManifestDigest_def canonicalDocumentDigest_def canonical_Marshal_def)

lemma digest_not_empty: "CanonicalJSONDigest body \<noteq> []"
  by (simp add: CanonicalJSONDigest_def DigestBytes_def)

text \<open>A verification has no findings exactly if each of its checks passed.\<close>

lemma addCheck_findings: "vr_Findings (addCheck n ok a c f r) = [] \<longleftrightarrow> ok \<and> vr_Findings r = []"
  by (simp add: addCheck_def)

lemma addCheck_signature: "vr_VerifiedSignature (addCheck n ok a c f r) = vr_VerifiedSignature r"
  by (simp add: addCheck_def)

lemma notedCheck_findings: "vr_Findings (notedCheck n a r) = vr_Findings r"
  by (simp add: notedCheck_def)

lemma notedCheck_signature: "vr_VerifiedSignature (notedCheck n a r) = vr_VerifiedSignature r"
  by (simp add: notedCheck_def)

lemmas check_simps = addCheck_findings addCheck_signature notedCheck_findings notedCheck_signature

lemma verifyTarget_findings:
  "vr_Findings (verifyTarget m opts r) = [] \<longleftrightarrow>
     rm_SchemaVersion m = schema_Version \<and> (vo_Service opts = [] \<or> rm_Service m = vo_Service opts) \<and>
     (vo_Env opts = [] \<or> rm_Env m = vo_Env opts) \<and> (vo_ReleaseID opts = [] \<or> rm_ReleaseID m = vo_ReleaseID opts) \<and>
     vr_Findings r = []"
  unfolding verifyTarget_def check_simps by argo

lemma verifyDigest_findings:
  "verifyDigest m r = (d, r') \<Longrightarrow> d = CanonicalJSONDigest (enc_ReleaseManifest (UnsignedManifest m)) \<and>
     (vr_Findings r' = [] \<longleftrightarrow> rm_Digest m = d \<and> vr_Findings r = [])"
  using digest_not_empty by (auto simp: verifyDigest_def ManifestDigest_eq check_simps)

lemma verifyRuntimeManifest_findings:
  "vr_Findings (verifyRuntimeManifest m rt r) = [] \<longleftrightarrow>
     rtm_SchemaVersion rt = schema_Version \<and> rtm_Service rt = rm_Service m \<and> rtm_Env rt = rm_Env m \<and>
     rtm_ReleaseID rt = rm_ReleaseID m \<and> rm_RuntimeManifestDigest m = CanonicalJSONDigest (enc_RuntimeManifest rt) \<and>
     vr_Findings r = []"
  using digest_not_empty [of "enc_RuntimeManifest rt"]
  by (auto simp: verifyRuntimeManifest_def RuntimeManifestDigest_eq check_simps Let_def)

lemma verifyExpiry_findings:
  "vr_Findings (verifyExpiry m now r) = [] \<longleftrightarrow>
     (rm_ExpiresAt m = [] \<or> (\<exists>e. time_Parse (rm_ExpiresAt m) = Some e \<and> now \<le> e)) \<and> vr_Findings r = []"
  by (auto simp: verifyExpiry_def check_simps split: option.splits)

lemma verifyRunnerVersion_findings:
  "vr_Findings (verifyRunnerVersion m v r) = [] \<longleftrightarrow>
     (rm_MinRunnerVersion m = [] \<or> v = [] \<or> SatisfiesMinimum v (rm_MinRunnerVersion m) = Inr True) \<and> vr_Findings r = []"
  by (auto simp: verifyRunnerVersion_def check_simps CheckRunnerRelease_def split: list.splits sum.splits if_splits)

lemma verify_signature_simps:
  "vr_VerifiedSignature (verifyRuntimeManifest m rt r) = vr_VerifiedSignature r"
  "vr_VerifiedSignature (verifyExpiry m now r) = vr_VerifiedSignature r"
  "vr_VerifiedSignature (verifyRunnerVersion m v r) = vr_VerifiedSignature r"
  by (simp_all add: verifyRuntimeManifest_def RuntimeManifestDigest_eq Let_def verifyExpiry_def verifyRunnerVersion_def check_simps
      split: option.split list.split)

lemma verifyEach_Inr:
  "verifyEach v d sigs prev s = (Inr sg, t) \<Longrightarrow> sg \<in> set sigs \<and> (\<exists>s1. v d sg s1 = (Inr (), t))"
  by (induction v d sigs prev arbitrary: s rule: verifyEach.induct)
    (auto simp: io_ok_iffs split: option.splits)

lemma VerifyAny_Inr:
  "VerifyAny verifier d sigs s = (Inr sg, t) \<Longrightarrow>
     \<exists>v s1. verifier = Some v \<and> sg \<in> set sigs \<and> v d sg s1 = (Inr (), t)"
  by (auto simp: VerifyAny_def dest: verifyEach_Inr split: option.splits if_splits)

lemma verifySignature_findings:
  assumes "verifySignature m d verifier unsig r s = (Inr r', t)" "vr_Findings r' = []"
  shows "vr_Findings r = [] \<and> (unsig \<and> rm_Signatures m = [] \<and> vr_VerifiedSignature r' = vr_VerifiedSignature r \<or>
    (\<exists>v sg s1 t1. verifier = Some v \<and> sg \<in> set (rm_Signatures m) \<and> v d sg s1 = (Inr (), t1) \<and> vr_VerifiedSignature r' = Some sg))"
proof (cases "unsig \<and> rm_Signatures m = []")
  case True
  then show ?thesis using assms by (auto simp: verifySignature_def check_simps split: if_splits)
next
  case False
  then show ?thesis using assms by (auto simp: verifySignature_def io_ok_iffs check_simps dest!: VerifyAny_Inr)
qed

text \<open>What the checks before the signature establish when they make no finding.\<close>

lemma releaseChecks_digest:
  "releaseChecks m opts now = (d, r) \<Longrightarrow> d = CanonicalJSONDigest (enc_ReleaseManifest (UnsignedManifest m)) \<and> d \<noteq> [] \<and>
     vr_VerifiedSignature r = None"
  by (auto simp: releaseChecks_def Let_def verifyDigest_def ManifestDigest_eq verify_signature_simps check_simps verifyTarget_def
      digest_not_empty split: option.split)

lemma releaseChecks_findings:
  assumes "releaseChecks m opts now = (d, r)"
  shows "vr_Findings r = [] \<longleftrightarrow>
    rm_SchemaVersion m = schema_Version \<and> (vo_Service opts = [] \<or> rm_Service m = vo_Service opts) \<and>
    (vo_Env opts = [] \<or> rm_Env m = vo_Env opts) \<and> (vo_ReleaseID opts = [] \<or> rm_ReleaseID m = vo_ReleaseID opts) \<and>
    rm_Digest m = d \<and> (vo_RequireArtifactDigest opts \<longrightarrow> IsSHA256Digest (af_Digest (rm_Artifact m))) \<and>
    (\<forall>rt. vo_RuntimeManifest opts = Some rt \<longrightarrow> rtm_SchemaVersion rt = schema_Version \<and> rtm_Service rt = rm_Service m \<and>
      rtm_Env rt = rm_Env m \<and> rtm_ReleaseID rt = rm_ReleaseID m \<and>
      rm_RuntimeManifestDigest m = CanonicalJSONDigest (enc_RuntimeManifest rt)) \<and>
    (rm_ExpiresAt m = [] \<or> (\<exists>e. time_Parse (rm_ExpiresAt m) = Some e \<and> now \<le> e)) \<and>
    (rm_MinRunnerVersion m = [] \<or> vo_RunnerVersion opts = [] \<or>
      SatisfiesMinimum (vo_RunnerVersion opts) (rm_MinRunnerVersion m) = Inr True)"
proof -
  define r0 :: VerificationResult where "r0 = \<lparr>vr_OK = False, vr_Service = rm_Service m, vr_Env = rm_Env m, vr_ReleaseID = rm_ReleaseID m,
     vr_Digest = rm_Digest m, vr_RuntimeManifestDigest = rm_RuntimeManifestDigest m,
     vr_VerifiedSignature = None, vr_Checks = [], vr_Findings = []\<rparr>"
  have f0: "vr_Findings r0 = []" by (simp add: r0_def)
  obtain r1 where d: "verifyDigest m (verifyTarget m opts r0) = (d, r1)"
    using assms unfolding releaseChecks_def Let_def r0_def [symmetric] by (auto split: prod.splits)
  define r2 where "r2 = (if vo_RequireArtifactDigest opts then
      addCheck ''artifact_digest'' (IsSHA256Digest (af_Digest (rm_Artifact m)))
        ''artifact is digest-pinned'' ''ARTIFACT_DIGEST_REQUIRED'' ''this environment class requires a sha256 artifact digest'' r1
    else r1)"
  have f2: "vr_Findings r2 = [] \<longleftrightarrow>
      (vo_RequireArtifactDigest opts \<longrightarrow> IsSHA256Digest (af_Digest (rm_Artifact m))) \<and> vr_Findings r1 = []"
    by (simp add: r2_def check_simps)
  define r3 where "r3 = (case vo_RuntimeManifest opts of None \<Rightarrow> r2 | Some runtime \<Rightarrow> verifyRuntimeManifest m runtime r2)"
  have f3: "vr_Findings r3 = [] \<longleftrightarrow> (\<forall>rt. vo_RuntimeManifest opts = Some rt \<longrightarrow> rtm_SchemaVersion rt = schema_Version \<and>
      rtm_Service rt = rm_Service m \<and> rtm_Env rt = rm_Env m \<and> rtm_ReleaseID rt = rm_ReleaseID m \<and>
      rm_RuntimeManifestDigest m = CanonicalJSONDigest (enc_RuntimeManifest rt)) \<and> vr_Findings r2 = []"
    unfolding r3_def by (auto simp: verifyRuntimeManifest_findings split: option.splits)
  have r: "r = verifyRunnerVersion m (vo_RunnerVersion opts) (verifyExpiry m now r3)"
    using assms d unfolding releaseChecks_def Let_def r0_def [symmetric] r3_def r2_def by simp
  show ?thesis
    unfolding r verifyRunnerVersion_findings verifyExpiry_findings f3 f2 using verifyDigest_findings [OF d]
    unfolding verifyTarget_findings using f0 by argo
qed

text \<open>What a verification without findings has established, with the instant it compared the expiry with.\<close>

lemma VerifyManifest_ok:
  assumes "VerifyManifest W m opts s = (Inr r, t)" "vr_OK r"
  obtains now s1 d r0 where "releaseChecks m opts now = (d, r0)" "vr_Findings r0 = []"
    "(if vo_Now opts = zero_gotime then io_now W else io_ret (vo_Now opts)) s = (Inr now, s1)"
    "vo_AllowUnsignedRelease opts \<and> rm_Signatures m = [] \<and> vr_VerifiedSignature r = None \<or>
      (\<exists>v sg s1 t1. vo_Verifier opts = Some v \<and> sg \<in> set (rm_Signatures m) \<and> v (rm_Digest m) sg s1 = (Inr (), t1) \<and>
        vr_VerifiedSignature r = Some sg)"
proof -
  obtain now s1 d r0 r5 where now: "(if vo_Now opts = zero_gotime then io_now W else io_ret (vo_Now opts)) s = (Inr now, s1)"
    and c: "releaseChecks m opts now = (d, r0)"
    and v: "verifySignature m d (vo_Verifier opts) (vo_AllowUnsignedRelease opts) r0 s1 = (Inr r5, t)"
    and r: "r = r5\<lparr>vr_OK := (vr_Findings r5 = [])\<rparr>"
    using assms(1) unfolding VerifyManifest_def io_bind_Inr_iff case_prod_beta io_ret_iff
    by (metis prod.collapse sum.inject(2))
  have f: "vr_Findings r5 = []" using assms(2) r by simp
  note g = verifySignature_findings [OF v f]
  show thesis
  proof (rule that [OF c _ now])
    show f0: "vr_Findings r0 = []" using g by simp
    have "d = rm_Digest m" using f0 releaseChecks_findings [OF c] by metis
    then show "vo_AllowUnsignedRelease opts \<and> rm_Signatures m = [] \<and> vr_VerifiedSignature r = None \<or>
      (\<exists>v sg s1 t1. vo_Verifier opts = Some v \<and> sg \<in> set (rm_Signatures m) \<and> v (rm_Digest m) sg s1 = (Inr (), t1) \<and>
        vr_VerifiedSignature r = Some sg)"
      using g r releaseChecks_digest [OF c] by auto
  qed
qed

text \<open>The raw signature is good for the digest under the trusted key.\<close>

definition key_accepts :: "crypto \<Rightarrow> TrustedPublicKey \<Rightarrow> string \<Rightarrow> string \<Rightarrow> bool" where
  "key_accepts C key digest raw \<longleftrightarrow>
     tpk_Algorithm key = AlgorithmEd25519 \<and> tpk_Encoding key = PublicKeyEncodingRaw \<and> length (tpk_PublicKey key) = 32 \<and>
       ed25519_Verify C (tpk_PublicKey key) digest raw \<or>
     tpk_Algorithm key = AlgorithmECDSAP256SHA256 \<and> tpk_Encoding key = PublicKeyEncodingPKIXDER \<and>
       (case x509_ParsePKIXPublicKey C (tpk_PublicKey key) of
          Inr (PkixECDSA publicKey) \<Rightarrow> ecdsa_VerifyASN1 C publicKey (Sum256 digest) raw
        | _ \<Rightarrow> False)"

lemma checkSignature_ok:
  "checkSignature C keys digest sg = Inr u \<longleftrightarrow>
     (\<exists>key raw. map_of keys (sig_KeyID sg) = Some key \<and> tpk_Algorithm key = sig_Algorithm sg \<and>
        base64_DecodeString (sig_Signature sg) = Some raw \<and> key_accepts C key digest raw)"
  by (auto simp: checkSignature_def DecodeSignature_def key_accepts_def AlgorithmEd25519_def AlgorithmECDSAP256SHA256_def rbind_def
      split: option.splits sum.splits pkix_key.splits if_splits)

lemma readManifestObject_Inr:
  assumes "readManifestObject sys_world dec c n ns key s = (Inr (m, meta), t)"
  shows "sys_evolves s t" "\<exists>e j. sys_objs t key = Some (e, JsonBody j) \<and> dec j = Inr m \<and> om_ETag meta = e"
  using assms sysw.get_ok [of key s]
  by (auto simp: readManifestObject_def UnmarshalStrict_Inr objectMetaFromObject_def split: prod.splits sum.splits if_splits)

lemma fetch_bind_Inr: "fetch_bind m f s = (Inr y, t) \<longleftrightarrow> (\<exists>x u. m s = (Inr x, u) \<and> f x u = (Inr y, t))"
  by (auto simp: fetch_bind_def split: prod.splits sum.splits)

lemma Fetch_Inr:
  assumes "Fetch W opts s = (Inr fr, t)"
  obtains u v meta meta' where "releaseKeyFor opts = Inr (fr_ReleaseKey fr)"
    "readReleaseObject W (fr_ReleaseKey fr) s = (Inr (fr_ReleaseManifest fr, meta), u)"
    "readRuntimeObject W (rm_RuntimeManifestKey (fr_ReleaseManifest fr)) u = (Inr (fr_RuntimeManifest fr, meta'), v)"
    "VerifyManifest W (fr_ReleaseManifest fr) (verifyOptionsFor opts (fr_RuntimeManifest fr)) v = (Inr (fr_Verification fr), t)"
    "vr_OK (fr_Verification fr)"
proof -
  obtain key m meta u rt meta' v where *: "releaseKeyFor opts = Inr key" "readReleaseObject W key s = (Inr (m, meta), u)"
    "readRuntimeObject W (rm_RuntimeManifestKey m) u = (Inr (rt, meta'), v)"
    and V: "(case VerifyManifest W m (verifyOptionsFor opts rt) v of
        (Inl err, t) \<Rightarrow> (Inl \<lparr>fe_Code = [], fe_Summary = [], fe_Key = [], fe_Err = Some err, fe_Verification = None\<rparr>, t)
      | (Inr result, t) \<Rightarrow>
          if \<not> vr_OK result then
            (Inl \<lparr>fe_Code = ''RELEASE_VERIFY_FAILED'',
               fe_Summary = ''release '' @ quote (rm_ReleaseID m) @ '' failed verification'', fe_Key = key,
               fe_Err = None, fe_Verification = Some result\<rparr>, t)
          else
            (Inr \<lparr>fr_ReleaseManifest = m, fr_RuntimeManifest = rt, fr_ReleaseKey = key,
               fr_RuntimeManifestKey = rm_RuntimeManifestKey m, fr_ReleaseObject = meta,
               fr_RuntimeManifestObject = meta', fr_Verification = result\<rparr>, t)) = (Inr fr, t)"
    using assms unfolding Fetch_def
    by (cases "releaseKeyFor opts") (simp_all add: fetch_bind_Inr split: if_splits, blast)
  obtain x w where x: "VerifyManifest W m (verifyOptionsFor opts rt) v = (x, w)" by fastforce
  show thesis by (rule that) (use V x * in \<open>auto split: sum.splits if_splits\<close>)
qed

text \<open>Run alone, a verification of a sound release with one good signature succeeds.\<close>

lemma verifySignature_alone:
  assumes "sys_env s = []" "rm_Signatures m = [sg]" "checkSignature C keys d sg = Inr ()" "d \<noteq> []"
  shows "verifySignature m d (Some (PublicKeyVerifier sys_world C keys)) unsig r s =
    (Inr (addCheck ''signature'' True ''at least one release signature is valid'' [] [] (r\<lparr>vr_VerifiedSignature := Some sg\<rparr>)), s)"
  using assms by (simp add: verifySignature_def VerifyAny_def PublicKeyVerifier_def io_bind_def io_try_def io_lift_def io_ret_def)

lemma VerifyManifest_alone:
  assumes "sys_env s = []"
    and "rm_SchemaVersion m = schema_Version" "vo_Service opts = [] \<or> rm_Service m = vo_Service opts"
    and "vo_Env opts = [] \<or> rm_Env m = vo_Env opts" "vo_ReleaseID opts = [] \<or> rm_ReleaseID m = vo_ReleaseID opts"
    and "rm_Digest m = CanonicalJSONDigest (enc_ReleaseManifest (UnsignedManifest m))"
    and "vo_RequireArtifactDigest opts \<longrightarrow> IsSHA256Digest (af_Digest (rm_Artifact m))"
    and "vo_RuntimeManifest opts = Some rt" "rtm_SchemaVersion rt = schema_Version" "rtm_Service rt = rm_Service m"
    and "rtm_Env rt = rm_Env m" "rtm_ReleaseID rt = rm_ReleaseID m" "RuntimeManifestDigest rt = Inr (rm_RuntimeManifestDigest m)"
    and "rm_ExpiresAt m = [] \<or> (\<exists>e. time_Parse (rm_ExpiresAt m) = Some e \<and>
      (if vo_Now opts = zero_gotime then sys_now s else vo_Now opts) \<le> e)"
    and "rm_MinRunnerVersion m = [] \<or> vo_RunnerVersion opts = [] \<or>
      SatisfiesMinimum (vo_RunnerVersion opts) (rm_MinRunnerVersion m) = Inr True"
    and "vo_Verifier opts = Some (PublicKeyVerifier sys_world C keys)" "rm_Signatures m = [sg]"
    and "checkSignature C keys (rm_Digest m) sg = Inr ()"
  shows "\<exists>r. VerifyManifest sys_world m opts s = (Inr r, s) \<and> vr_OK r"
proof -
  let ?now = "if vo_Now opts = zero_gotime then sys_now s else vo_Now opts"
  obtain d r where c: "releaseChecks m opts ?now = (d, r)" by fastforce
  have d: "d = rm_Digest m" "d \<noteq> []" using releaseChecks_digest [OF c] assms(6) by auto
  have rd: "rm_RuntimeManifestDigest m = CanonicalJSONDigest (enc_RuntimeManifest rt)"
    using assms(13) by (simp add: RuntimeManifestDigest_eq)
  have f: "vr_Findings r = []"
    unfolding releaseChecks_findings [OF c] using assms(2-5,7-12,14,15) rd d(1) by simp
  have "(if vo_Now opts = zero_gotime then io_now sys_world else io_ret (vo_Now opts)) s = (Inr ?now, s)" using assms(1) by simp
  then show ?thesis
    using f assms(1,18) d by (simp add: VerifyManifest_def io_bind_def c assms(16) verifySignature_alone [OF _ assms(17)] check_simps io_ret_def)
qed

lemma readManifestObject_alone:
  assumes "sys_env s = []" "sys_objs s key = Some (e, JsonBody j)" "dec j = Inr m"
  shows "\<exists>meta. readManifestObject sys_world dec c n ns key s = (Inr (m, meta), s)"
proof -
  obtain ob where "os_Get sys_world key s = (Inr ob, s)" "obj_Body ob = JsonBody j" using alone_Get [OF assms(1,2)] by blast
  then show ?thesis using assms(3) by (simp add: readManifestObject_def canonical_UnmarshalStrict_def)
qed

lemma Fetch_alone:
  assumes "sys_env s = []" "releaseKeyFor opts = Inr k" "sys_objs s k = Some (e1, JsonBody (enc_ReleaseManifest m))"
    and "rm_RuntimeManifestKey m \<noteq> []" "sys_objs s (rm_RuntimeManifestKey m) = Some (e2, JsonBody (enc_RuntimeManifest rt))"
    and "wf_RuntimeManifest rt" "VerifyManifest sys_world m (verifyOptionsFor opts rt) s = (Inr r, s)" "vr_OK r"
  shows "\<exists>fr. Fetch sys_world opts s = (Inr fr, s) \<and> fr_ReleaseManifest fr = m \<and> fr_RuntimeManifest fr = rt"
proof -
  obtain meta where "readReleaseObject sys_world k s = (Inr (m, meta), s)"
    using readManifestObject_alone [OF assms(1,3), of dec_ReleaseManifest m] codec_ReleaseManifest
    unfolding readReleaseObject_def by metis
  moreover obtain meta' where "readRuntimeObject sys_world (rm_RuntimeManifestKey m) s = (Inr (rt, meta'), s)"
    using readManifestObject_alone [OF assms(1,5), of dec_RuntimeManifest rt] codec_RuntimeManifest [OF assms(6)]
    unfolding readRuntimeObject_def by metis
  ultimately show ?thesis using assms(2,4,7,8) by (simp add: Fetch_def fetch_bind_def)
qed

section \<open>Properties\<close>

text \<open>
  What a fetch vouches for: the release and its runtime manifest are for the expected target and for each other, both
  digests are right, a required artifact digest is there, and a trusted key signed the release unless it is unsigned and
  may be.
\<close>

definition vouched :: "crypto \<Rightarrow> (string \<times> TrustedPublicKey) list option \<Rightarrow> 's FetchOptions \<Rightarrow> FetchedRelease \<Rightarrow> bool" where
  "vouched C keys opts fr \<longleftrightarrow>
     (let m = fr_ReleaseManifest fr; rt = fr_RuntimeManifest fr in
      (fo_Service opts = [] \<or> rm_Service m = fo_Service opts) \<and> (fo_Env opts = [] \<or> rm_Env m = fo_Env opts) \<and>
      (fo_ReleaseID opts = [] \<or> rm_ReleaseID m = fo_ReleaseID opts) \<and>
      rtm_Service rt = rm_Service m \<and> rtm_Env rt = rm_Env m \<and> rtm_ReleaseID rt = rm_ReleaseID m \<and>
      rm_Digest m = DigestBytes (json_text (generic_json (enc_ReleaseManifest (m\<lparr>rm_Digest := [], rm_Signatures := []\<rparr>)))) \<and>
      rm_RuntimeManifestDigest m = DigestBytes (json_text (generic_json (enc_RuntimeManifest rt))) \<and>
      (fo_RequireArtifactDigest opts \<longrightarrow> IsSHA256Digest (af_Digest (rm_Artifact m))) \<and>
      (fo_AllowUnsignedRelease opts \<and> rm_Signatures m = [] \<or>
        (\<exists>ks sg key raw. keys = Some ks \<and> vr_VerifiedSignature (fr_Verification fr) = Some sg \<and> sg \<in> set (rm_Signatures m) \<and>
          map_of ks (sig_KeyID sg) = Some key \<and> tpk_Algorithm key = sig_Algorithm sg \<and>
          base64_DecodeString (sig_Signature sg) = Some raw \<and> key_accepts C key (rm_Digest m) raw)))"

lemma Fetch_vouched:
  assumes "Fetch W opts s = (Inr fr, t)" "fo_Verifier opts = map_option (PublicKeyVerifier W' C) keys"
  shows "vouched C keys opts fr"
    and "\<exists>u v meta meta'. readReleaseObject W (fr_ReleaseKey fr) s = (Inr (fr_ReleaseManifest fr, meta), u) \<and>
      readRuntimeObject W (rm_RuntimeManifestKey (fr_ReleaseManifest fr)) u = (Inr (fr_RuntimeManifest fr, meta'), v) \<and>
      (rm_ExpiresAt (fr_ReleaseManifest fr) = [] \<or> (\<exists>e now s1. time_Parse (rm_ExpiresAt (fr_ReleaseManifest fr)) = Some e \<and> now \<le> e \<and>
         (if fo_Now opts = zero_gotime then io_now W else io_ret (fo_Now opts)) v = (Inr now, s1)))"
proof -
  define m where "m = fr_ReleaseManifest fr"
  define rt where "rt = fr_RuntimeManifest fr"
  obtain u v meta meta' where *: "readReleaseObject W (fr_ReleaseKey fr) s = (Inr (m, meta), u)"
    "readRuntimeObject W (rm_RuntimeManifestKey m) u = (Inr (rt, meta'), v)"
    and V: "VerifyManifest W m (verifyOptionsFor opts rt) v = (Inr (fr_Verification fr), t)" "vr_OK (fr_Verification fr)"
    using Fetch_Inr [OF assms(1)] unfolding m_def rt_def by metis
  obtain now s1 d r0 where c: "releaseChecks m (verifyOptionsFor opts rt) now = (d, r0)" "vr_Findings r0 = []"
    and now: "(if vo_Now (verifyOptionsFor opts rt) = zero_gotime then io_now W else io_ret (vo_Now (verifyOptionsFor opts rt))) v =
      (Inr now, s1)"
    and sg: "vo_AllowUnsignedRelease (verifyOptionsFor opts rt) \<and> rm_Signatures m = [] \<and>
        vr_VerifiedSignature (fr_Verification fr) = None \<or>
      (\<exists>v sg s1 t1. vo_Verifier (verifyOptionsFor opts rt) = Some v \<and> sg \<in> set (rm_Signatures m) \<and>
        v (rm_Digest m) sg s1 = (Inr (), t1) \<and> vr_VerifiedSignature (fr_Verification fr) = Some sg)"
    by (rule VerifyManifest_ok [OF V])
  note ok = c(2) [unfolded releaseChecks_findings [OF c(1)] verifyOptionsFor_def, simplified]
  have d: "d = CanonicalJSONDigest (enc_ReleaseManifest (UnsignedManifest m))" using releaseChecks_digest [OF c(1)] by simp
  have "rm_Digest m = DigestBytes (json_text (generic_json (enc_ReleaseManifest (m\<lparr>rm_Digest := [], rm_Signatures := []\<rparr>))))"
    using ok d unfolding CanonicalJSONDigest_def UnsignedManifest_def by metis
  moreover have "rm_RuntimeManifestDigest m = DigestBytes (json_text (generic_json (enc_RuntimeManifest rt)))"
    using ok unfolding CanonicalJSONDigest_def by blast
  moreover have "fo_AllowUnsignedRelease opts \<and> rm_Signatures m = [] \<or>
      (\<exists>ks sg key raw. keys = Some ks \<and> vr_VerifiedSignature (fr_Verification fr) = Some sg \<and> sg \<in> set (rm_Signatures m) \<and>
        map_of ks (sig_KeyID sg) = Some key \<and> tpk_Algorithm key = sig_Algorithm sg \<and>
        base64_DecodeString (sig_Signature sg) = Some raw \<and> key_accepts C key (rm_Digest m) raw)"
    using sg assms(2) by (auto simp: verifyOptionsFor_def PublicKeyVerifier_def io_bind_Inr_iff checkSignature_ok)
  ultimately show "vouched C keys opts fr"
    unfolding vouched_def Let_def m_def [symmetric] rt_def [symmetric] using ok by argo
  have "rm_ExpiresAt m = [] \<or> (\<exists>e. time_Parse (rm_ExpiresAt m) = Some e \<and> now \<le> e)" using ok by blast
  then show "\<exists>u v meta meta'. readReleaseObject W (fr_ReleaseKey fr) s = (Inr (fr_ReleaseManifest fr, meta), u) \<and>
      readRuntimeObject W (rm_RuntimeManifestKey (fr_ReleaseManifest fr)) u = (Inr (fr_RuntimeManifest fr, meta'), v) \<and>
      (rm_ExpiresAt (fr_ReleaseManifest fr) = [] \<or> (\<exists>e now s1. time_Parse (rm_ExpiresAt (fr_ReleaseManifest fr)) = Some e \<and> now \<le> e \<and>
         (if fo_Now opts = zero_gotime then io_now W else io_ret (fo_Now opts)) v = (Inr now, s1)))"
    using * now unfolding m_def [symmetric] rt_def [symmetric] verifyOptionsFor_def by fastforce
qed

text \<open>Verifying a release changes nothing but the clock, and what other clients change meanwhile.\<close>

definition steady :: "(sys, 'a) io \<Rightarrow> bool" where
  "steady m \<longleftrightarrow> (\<forall>s r t. m s = (r, t) \<longrightarrow> sys_evolves s t)"

lemma steadyD: "steady m \<Longrightarrow> m s = (r, t) \<Longrightarrow> sys_evolves s t"
  by (simp add: steady_def)

lemma steady_bind [intro!]:
  assumes "steady m" "\<And>x. steady (f x)"
  shows "steady (io_bind m f)"
  unfolding steady_def
proof (intro allI impI)
  fix s r t
  assume a: "io_bind m f s = (r, t)"
  obtain x u where m: "m s = (x, u)" by (cases "m s")
  then show "sys_evolves s t"
    using a steadyD [OF assms(1) m] steadyD [OF assms(2)] sysw.evolves_trans by (cases x) (auto simp: io_bind_def)
qed

lemma steady_simps [simp]: "steady (io_ret x)" "steady (io_fail e)" "steady (io_lift r)" "steady (io_now sys_world)" "steady (io_ctx sys_world)"
  by (auto simp: steady_def io_ret_def io_fail_def io_lift_def io_now_def io_ctx_def sysw.evolves_refl dest: sysw.now_ok sysw.ctx_ok
      split: prod.splits option.splits)

lemma steady_try [intro!]: "steady m \<Longrightarrow> steady (io_try m)"
  by (auto simp: steady_def io_try_def split: prod.splits)

lemma steady_verifyEach: "(\<And>g. steady (v d g)) \<Longrightarrow> steady (verifyEach v d sigs err)"
  by (induction sigs arbitrary: err) (auto split: sum.split)

lemma steady_VerifyManifest:
  assumes "vo_Verifier opts = map_option (PublicKeyVerifier sys_world C) keys"
  shows "steady (VerifyManifest sys_world m opts)"
proof -
  have "steady (PublicKeyVerifier sys_world C ks d g)" for ks d g by (auto simp: PublicKeyVerifier_def)
  then have "steady (VerifyAny (vo_Verifier opts) d gs)" for d gs
    using assms steady_verifyEach by (auto simp: VerifyAny_def split: option.split)
  then have "steady (verifySignature m d (vo_Verifier opts) a r)" for d a r
    by (auto simp: verifySignature_def split: sum.split)
  then show ?thesis by (auto simp: VerifyManifest_def split: prod.split)
qed

text \<open>
  C26: a release is used only as it was signed. Whatever other clients do meanwhile, a fetch that succeeds returns a
  release manifest and a runtime manifest that were stored, at instants of its run, at the release's key and at the key the release names;
  service, environment and release id are the expected ones, and the same in both; the digest in the release is the
  SHA-256 of its canonical text without digest and signatures, and its runtime digest that of the runtime manifest;
  the artifact is pinned by a digest if that is required; the release has not expired; and the signature reported as
  verified is one of the release's, made with a trusted key of its id and algorithm for that digest, unless unsigned
  releases are allowed and this one has no signature.
\<close>

theorem fetched_release_verified:
  assumes "Fetch sys_world opts s = (Inr fr, t)" "fo_Verifier opts = map_option (PublicKeyVerifier sys_world C) keys"
    and "m = fr_ReleaseManifest fr" "rt = fr_RuntimeManifest fr"
  shows "vouched C keys opts fr \<and>
    (\<exists>u v. sys_evolves s u \<and> sys_evolves u v \<and> sys_evolves v t \<and>
      (\<exists>e j. sys_objs u (fr_ReleaseKey fr) = Some (e, JsonBody j) \<and> dec_ReleaseManifest j = Inr m) \<and>
      (\<exists>e j. sys_objs v (rm_RuntimeManifestKey m) = Some (e, JsonBody j) \<and> dec_RuntimeManifest j = Inr rt) \<and>
      (rm_ExpiresAt m = [] \<or> (\<exists>e now. time_Parse (rm_ExpiresAt m) = Some e \<and> now \<le> e \<and>
         (fo_Now opts = zero_gotime \<and> sys_now v \<le> now \<or> now = fo_Now opts))))"
proof -
  from Fetch_vouched(2) [OF assms(1,2)] obtain u v meta meta' where
    *: "readReleaseObject sys_world (fr_ReleaseKey fr) s = (Inr (m, meta), u)"
      "readRuntimeObject sys_world (rm_RuntimeManifestKey m) u = (Inr (rt, meta'), v)"
    and x: "rm_ExpiresAt m = [] \<or> (\<exists>e now s1. time_Parse (rm_ExpiresAt m) = Some e \<and> now \<le> e \<and>
      (if fo_Now opts = zero_gotime then io_now sys_world else io_ret (fo_Now opts)) v = (Inr now, s1))"
    unfolding assms(3,4) by blast
  have "\<exists>v'. readRuntimeObject sys_world (rm_RuntimeManifestKey m) u = (Inr (rt, meta'), v') \<and>
      VerifyManifest sys_world m (verifyOptionsFor opts rt) v' = (Inr (fr_Verification fr), t)"
    by (rule Fetch_Inr [OF assms(1)]) (use * assms(3,4) in auto)
  then have "VerifyManifest sys_world m (verifyOptionsFor opts rt) v = (Inr (fr_Verification fr), t)" using *(2) by auto
  moreover have "vo_Verifier (verifyOptionsFor opts rt) = map_option (PublicKeyVerifier sys_world C) keys"
    using assms(2) by (simp add: verifyOptionsFor_def)
  ultimately have vt: "sys_evolves v t" using steadyD steady_VerifyManifest by blast
  have "fo_Now opts = zero_gotime \<and> sys_now v \<le> now \<or> now = fo_Now opts"
    if "(if fo_Now opts = zero_gotime then io_now sys_world else io_ret (fo_Now opts)) v = (Inr now, s1)" for now s1
    using that sysw.io_now_Inr [of v now s1] sysw.clock_mono [of v s1] by (auto split: if_splits)
  then have "rm_ExpiresAt m = [] \<or> (\<exists>e now. time_Parse (rm_ExpiresAt m) = Some e \<and> now \<le> e \<and>
      (fo_Now opts = zero_gotime \<and> sys_now v \<le> now \<or> now = fo_Now opts))" using x by blast
  then show ?thesis
    using Fetch_vouched(1) [OF assms(1,2)] readManifestObject_Inr [OF *(1) [unfolded readReleaseObject_def]]
      readManifestObject_Inr [OF *(2) [unfolded readRuntimeObject_def]]
    using vt by (intro conjI exI [of _ u] exI [of _ v]) auto
qed

lemma signed_manifest_fetches:
  assumes sign: "SignManifest manifest (Some signer) actor at s0 = (Inr m, s1)"
    and scheme: "\<forall>d s raw t. sgr_SignDigest signer d s = (Inr raw, t) \<longrightarrow> key_accepts C key d raw"
    and trusted: "map_of keys (sgr_KeyID signer) = Some key" "tpk_Algorithm key = sgr_Algorithm signer"
    and verifier: "fo_Verifier opts = Some (PublicKeyVerifier sys_world C keys)"
    and runtime: "wf_RuntimeManifest rt" "RuntimeManifestDigest rt = Inr (rm_RuntimeManifestDigest manifest)"
      "rtm_SchemaVersion rt = schema_Version" "rtm_Service rt = fo_Service opts" "rtm_Env rt = fo_Env opts" "rtm_ReleaseID rt = fo_ReleaseID opts"
    and target: "rm_SchemaVersion manifest = schema_Version" "rm_Service manifest = fo_Service opts" "rm_Env manifest = fo_Env opts"
      "rm_ReleaseID manifest = fo_ReleaseID opts" "rm_RuntimeManifestKey manifest \<noteq> []"
    and policy: "fo_RequireArtifactDigest opts \<longrightarrow> IsSHA256Digest (af_Digest (rm_Artifact manifest))"
      "rm_ExpiresAt manifest = [] \<or> (\<exists>e. time_Parse (rm_ExpiresAt manifest) = Some e \<and>
         (if fo_Now opts = zero_gotime then sys_now s else fo_Now opts) \<le> e)"
      "rm_MinRunnerVersion manifest = [] \<or> fo_RunnerVersion opts = [] \<or>
         SatisfiesMinimum (fo_RunnerVersion opts) (rm_MinRunnerVersion manifest) = Inr True"
    and stored: "sys_env s = []" "releaseKeyFor opts = Inr k" "sys_objs s k = Some (e1, JsonBody (enc_ReleaseManifest m))"
      "sys_objs s (rm_RuntimeManifestKey manifest) = Some (e2, JsonBody (enc_RuntimeManifest rt))"
  shows "\<exists>fr. Fetch sys_world opts s = (Inr fr, s) \<and> fr_ReleaseManifest fr = m \<and> fr_RuntimeManifest fr = rt"
proof -
  obtain d raw where d: "ManifestDigest manifest = Inr d" "sgr_SignDigest signer d s0 = (Inr raw, s1)"
    and m: "m = manifest\<lparr>rm_Digest := d, rm_Signatures := [\<lparr>sig_KeyID = sgr_KeyID signer, sig_Algorithm = sgr_Algorithm signer,
      sig_Signature = base64_EncodeToString raw, sig_SignedAt = canonical_Time at, sig_Signer = Some actor\<rparr>]\<rparr>"
    using sign by (auto simp: SignManifest_def signing_SignDigest_def io_bind_Inr_iff)
  have ok: "checkSignature C keys (rm_Digest m) (hd (rm_Signatures m)) = Inr ()"
    using scheme d(2) trusted by (auto simp: m checkSignature_ok)
  have dg: "rm_Digest m = CanonicalJSONDigest (enc_ReleaseManifest (UnsignedManifest m))"
    using d(1) by (simp add: m ManifestDigest_eq UnsignedManifest_def)
  have "\<exists>r. VerifyManifest sys_world m (verifyOptionsFor opts rt) s = (Inr r, s) \<and> vr_OK r"
    by (rule VerifyManifest_alone [OF stored(1) _ _ _ _ dg _ _ _ _ _ _ _ _ _ _ _ ok])
      (use runtime target policy verifier in \<open>simp_all add: m verifyOptionsFor_def cong: if_cong\<close>)
  then obtain r where "VerifyManifest sys_world m (verifyOptionsFor opts rt) s = (Inr r, s)" "vr_OK r" by blast
  then show ?thesis using Fetch_alone [OF stored(1-3)] stored(4) runtime(1) target(5) by (simp add: m)
qed

text \<open>
  What is signed can be used. If a signer's key is trusted and its signatures are accepted under that key (the
  correctness of the signature scheme), then a manifest that names the digest of its runtime manifest, signed with
  \<^verbatim>\<open>SignManifest\<close> and stored together with the runtime manifest, is fetched by a client alone exactly as it was signed,
  provided its target and schema are the expected ones, a required artifact digest is there and it is not expired.
\<close>

theorem signed_release_fetches:
  assumes sign: "SignManifest manifest (Some signer) actor at s0 = (Inr m, s1)"
    and scheme: "\<forall>d s raw t. sgr_SignDigest signer d s = (Inr raw, t) \<longrightarrow> key_accepts C key d raw"
    and trusted: "map_of keys (sgr_KeyID signer) = Some key" "tpk_Algorithm key = sgr_Algorithm signer"
    and verifier: "fo_Verifier opts = Some (PublicKeyVerifier sys_world C keys)"
    and runtime: "wf_RuntimeManifest rt" "RuntimeManifestDigest rt = Inr (rm_RuntimeManifestDigest manifest)"
      "rtm_SchemaVersion rt = schema_Version" "rtm_Service rt = fo_Service opts" "rtm_Env rt = fo_Env opts" "rtm_ReleaseID rt = fo_ReleaseID opts"
    and target: "rm_SchemaVersion manifest = schema_Version" "rm_Service manifest = fo_Service opts" "rm_Env manifest = fo_Env opts"
      "rm_ReleaseID manifest = fo_ReleaseID opts" "rm_RuntimeManifestKey manifest \<noteq> []"
    and policy: "fo_RequireArtifactDigest opts \<longrightarrow> IsSHA256Digest (af_Digest (rm_Artifact manifest))"
      "rm_ExpiresAt manifest = [] \<or> (\<exists>e. time_Parse (rm_ExpiresAt manifest) = Some e \<and>
         (if fo_Now opts = zero_gotime then sys_now s else fo_Now opts) \<le> e)"
      "rm_MinRunnerVersion manifest = [] \<or> fo_RunnerVersion opts = [] \<or>
         SatisfiesMinimum (fo_RunnerVersion opts) (rm_MinRunnerVersion manifest) = Inr True"
    and stored: "sys_env s = []" "releaseKeyFor opts = Inr k" "sys_objs s k = Some (e1, JsonBody (enc_ReleaseManifest m))"
      "sys_objs s (rm_RuntimeManifestKey manifest) = Some (e2, JsonBody (enc_RuntimeManifest rt))"
  shows "\<exists>fr. Fetch sys_world opts s = (Inr fr, s) \<and> fr_ReleaseManifest fr = m \<and> fr_RuntimeManifest fr = rt"
  by (rule signed_manifest_fetches [OF assms])

text \<open>A release of a service, signed with a scheme whose signatures are the key and the digest, in a store of its own.\<close>

definition demo_runtime :: RuntimeManifest where
  "demo_runtime = zero_RuntimeManifest\<lparr>rtm_SchemaVersion := schema_Version, rtm_Service := ''web'', rtm_Env := ''dev'',
     rtm_ReleaseID := ''rel_1''\<rparr>"

definition demo_manifest :: ReleaseManifest where
  "demo_manifest = zero_ReleaseManifest\<lparr>rm_SchemaVersion := schema_Version, rm_Service := ''web'', rm_Env := ''dev'',
     rm_ReleaseID := ''rel_1'', rm_RuntimeManifestKey := ''runtime'',
     rm_RuntimeManifestDigest := CanonicalJSONDigest (enc_RuntimeManifest demo_runtime)\<rparr>"

definition demo_key :: TrustedPublicKey where
  "demo_key = \<lparr>tpk_KeyID = ''k'', tpk_Algorithm = AlgorithmEd25519, tpk_Encoding = PublicKeyEncodingRaw,
     tpk_PublicKey = replicate 32 CHR ''x''\<rparr>"

definition demo_crypto :: crypto where
  "demo_crypto = \<lparr>ed25519_Verify = (\<lambda>key digest raw. raw = key @ digest),
     x509_ParsePKIXPublicKey = (\<lambda>_. Inl (new_error ''no key'')), ecdsa_VerifyASN1 = (\<lambda>_ _ _. False)\<rparr>"

definition demo_signer :: "sys Signer" where
  "demo_signer = \<lparr>sgr_KeyID = ''k'', sgr_Algorithm = AlgorithmEd25519, sgr_SignDigest = (\<lambda>d. io_ret (tpk_PublicKey demo_key @ d))\<rparr>"

definition demo_signed :: ReleaseManifest where
  "demo_signed = (let d = CanonicalJSONDigest (enc_ReleaseManifest (UnsignedManifest demo_manifest)) in
     demo_manifest\<lparr>rm_Digest := d, rm_Signatures := [\<lparr>sig_KeyID = ''k'', sig_Algorithm = AlgorithmEd25519,
       sig_Signature = base64_EncodeToString (tpk_PublicKey demo_key @ d), sig_SignedAt = canonical_Time 0,
       sig_Signer = Some zero_Actor\<rparr>]\<rparr>)"

definition demo_store :: sys where
  "demo_store = \<lparr>sys_store = snd (memory_Create None ''runtime'' (JsonBody (enc_RuntimeManifest demo_runtime)) no_options
      (snd (memory_Create None ''release'' (JsonBody (enc_ReleaseManifest demo_signed)) no_options memory_New))),
    sys_now = 0, sys_tokens = [], sys_events = [], sys_env = [], sys_history = []\<rparr>"

definition demo_fetch :: "sys FetchOptions" where
  "demo_fetch = \<lparr>fo_Service = ''web'', fo_Env = ''dev'', fo_ReleaseID = ''rel_1'', fo_ReleaseKey = ''release'',
     fo_Verifier = Some (PublicKeyVerifier sys_world demo_crypto [(''k'', demo_key)]), fo_Now = zero_gotime,
     fo_RequireArtifactDigest = False, fo_AllowUnsignedRelease = False, fo_RunnerVersion = []\<rparr>"

lemma demo_objs:
  "sys_objs demo_store ''release'' = Some (etagForVersion 1, JsonBody (enc_ReleaseManifest demo_signed))"
  "sys_objs demo_store ''runtime'' = Some (etagForVersion 1, JsonBody (enc_RuntimeManifest demo_runtime))"
  by (simp_all add: demo_store_def sys_objs_def memory_objs_def memory_Create_def memory_New_def nextTimeLocked_def Let_def)

lemma demo_sign: "SignManifest demo_manifest (Some demo_signer) zero_Actor 0 demo_store = (Inr demo_signed, demo_store)"
  by (simp add: SignManifest_def ManifestDigest_eq signing_SignDigest_def demo_signer_def demo_signed_def Let_def)

text \<open>The fetch of that release, from what it consists of.\<close>

lemma demo_verified: "\<exists>r. VerifyManifest sys_world demo_signed (verifyOptionsFor demo_fetch demo_runtime) demo_store = (Inr r, demo_store) \<and> vr_OK r"
proof (rule VerifyManifest_alone)
  show "checkSignature demo_crypto [(''k'', demo_key)] (rm_Digest demo_signed) (hd (rm_Signatures demo_signed)) = Inr ()"
    by (simp add: checkSignature_ok demo_signed_def Let_def demo_key_def key_accepts_def demo_crypto_def)
  show "rm_Digest demo_signed = CanonicalJSONDigest (enc_ReleaseManifest (UnsignedManifest demo_signed))"
    by (simp add: demo_signed_def Let_def UnsignedManifest_def)
  show "RuntimeManifestDigest demo_runtime = Inr (rm_RuntimeManifestDigest demo_signed)"
    by (simp add: RuntimeManifestDigest_eq demo_signed_def demo_manifest_def Let_def)
qed (simp_all add: demo_signed_def Let_def demo_store_def demo_manifest_def zero_ReleaseManifest_def verifyOptionsFor_def demo_fetch_def
    demo_runtime_def zero_RuntimeManifest_def)

lemma demo_wf: "wf_RuntimeManifest demo_runtime"
  by (simp add: demo_runtime_def zero_RuntimeManifest_def wf_RuntimeManifest_def wf_map_def)

lemma demo_fetched:
  "\<exists>fr. Fetch sys_world demo_fetch demo_store = (Inr fr, demo_store) \<and> fr_ReleaseManifest fr = demo_signed \<and> fr_RuntimeManifest fr = demo_runtime"
proof -
  obtain r where r: "VerifyManifest sys_world demo_signed (verifyOptionsFor demo_fetch demo_runtime) demo_store = (Inr r, demo_store)"
    "vr_OK r" using demo_verified by blast
  show ?thesis
    by (rule Fetch_alone [OF _ _ demo_objs(1) _ _ demo_wf r, of "etagForVersion 1"])
      (simp_all add: demo_objs demo_store_def [THEN arg_cong [of _ _ sys_env]] releaseKeyFor_def demo_fetch_def demo_signed_def Let_def
        demo_manifest_def)
qed

theorem fetched_release_verified_witness:
  "\<exists>fr key raw. Fetch sys_world demo_fetch demo_store = (Inr fr, demo_store) \<and>
     key_accepts demo_crypto key (rm_Digest (fr_ReleaseManifest fr)) raw"
proof -
  obtain fr where fr: "Fetch sys_world demo_fetch demo_store = (Inr fr, demo_store)" using demo_fetched by blast
  have v: "fo_Verifier demo_fetch = map_option (PublicKeyVerifier sys_world demo_crypto) (Some [(''k'', demo_key)])"
    and u: "\<not> fo_AllowUnsignedRelease demo_fetch" by (simp_all add: demo_fetch_def)
  from fetched_release_verified [OF fr v refl refl] u fr show ?thesis unfolding vouched_def Let_def by blast
qed

theorem signed_release_fetches_witness:
  "SignManifest demo_manifest (Some demo_signer) zero_Actor 0 demo_store = (Inr demo_signed, demo_store) \<and>
   (\<exists>fr. Fetch sys_world demo_fetch demo_store = (Inr fr, demo_store) \<and> fr_ReleaseManifest fr = demo_signed \<and>
      fr_RuntimeManifest fr = demo_runtime)"
proof (rule conjI [OF demo_sign signed_release_fetches [OF demo_sign, where key = demo_key and C = demo_crypto and
        keys = "[(''k'', demo_key)]" and k = "''release''" and ?e1.0 = "etagForVersion 1" and ?e2.0 = "etagForVersion 1"]])
  show "\<forall>d s raw t. sgr_SignDigest demo_signer d s = (Inr raw, t) \<longrightarrow> key_accepts demo_crypto demo_key d raw"
    by (simp add: demo_signer_def key_accepts_def demo_crypto_def demo_key_def)
  show "wf_RuntimeManifest demo_runtime" by (rule demo_wf)
  show "RuntimeManifestDigest demo_runtime = Inr (rm_RuntimeManifestDigest demo_manifest)"
    by (simp add: RuntimeManifestDigest_eq demo_manifest_def)
  show "sys_objs demo_store ''release'' = Some (etagForVersion 1, JsonBody (enc_ReleaseManifest demo_signed))" by (rule demo_objs)
  show "sys_objs demo_store (rm_RuntimeManifestKey demo_manifest) =
    Some (etagForVersion 1, JsonBody (enc_RuntimeManifest demo_runtime))" using demo_objs by (simp add: demo_manifest_def)
  show "releaseKeyFor demo_fetch = Inr ''release''" by (simp add: releaseKeyFor_def demo_fetch_def)
qed (simp_all add: demo_signer_def demo_key_def demo_fetch_def demo_runtime_def demo_manifest_def demo_store_def zero_RuntimeManifest_def
    zero_ReleaseManifest_def)

end
