(* ===== verification/Runner_Stateful.thy ===== *)
theory Runner_Stateful
  imports Release Stateful_Control Saga_Store
begin

text \<open>
  What the runner knows of a stateful member (internal/runner/stateful.go, statefile.go, events.go, health.go,
  identity.go, status.go): its local state and its events, the fence that compares the member control document with
  the runtime the runner was given, the recipe hooks and the environment of the workload.

  The recipe of a stateful package is a parameter (\<open>Recipe\<close>), as are all effects on the host.
\<close>

section \<open>Local state and events\<close>

type_synonym State = string

definition StateBooting :: State where "StateBooting = ''Booting''"
definition StateFetchingManifest :: State where "StateFetchingManifest = ''FetchingManifest''"
definition StateVerifyingRelease :: State where "StateVerifyingRelease = ''VerifyingRelease''"
definition StatePreparingArtifact :: State where "StatePreparingArtifact = ''PreparingArtifact''"
definition StateRenderingConfig :: State where "StateRenderingConfig = ''RenderingConfig''"
definition StateStartingWorkload :: State where "StateStartingWorkload = ''StartingWorkload''"
definition StateWaitingForHealth :: State where "StateWaitingForHealth = ''WaitingForHealth''"
definition StateServing :: State where "StateServing = ''Serving''"
definition StateDraining :: State where "StateDraining = ''Draining''"
definition StateStopping :: State where "StateStopping = ''Stopping''"
definition StateStopped :: State where "StateStopped = ''Stopped''"
definition StateFailed :: State where "StateFailed = ''Failed''"

lemmas state_defs = StateBooting_def StateFetchingManifest_def StateVerifyingRelease_def StatePreparingArtifact_def
  StateRenderingConfig_def StateStartingWorkload_def StateWaitingForHealth_def StateServing_def StateDraining_def
  StateStopping_def StateStopped_def StateFailed_def

type_synonym HealthStatus = string

definition HealthUnknown :: HealthStatus where "HealthUnknown = ''unknown''"
definition HealthHealthy :: HealthStatus where "HealthHealthy = ''healthy''"
definition HealthUnhealthy :: HealthStatus where "HealthUnhealthy = ''unhealthy''"

record HealthResult =
  hr_Status :: HealthStatus
  hr_Summary :: string
  hr_Error :: string

record Identity =
  idn_Provider :: string
  idn_Region :: string
  idn_InstanceID :: string
  idn_AccountID :: string
  idn_Zone :: string
  idn_PrivateIP :: string
  idn_ObservedAt :: string

record StatefulRuntime =
  sr_Group :: string
  sr_Env :: string
  sr_Member :: int
  sr_Generation :: int
  sr_InstanceID :: string
  sr_VolumeID :: string
  sr_VolumeMountPath :: string
  sr_StableHostname :: string
  sr_Recipe :: string
  sr_ControlKey :: string
  sr_ControlETag :: string
  sr_ControlVersion :: int
  sr_ReleaseManifest :: string
  sr_RuntimeManifest :: string
  sr_LastValidatedAt :: string

record LocalState =
  ls_SchemaVersion :: string
  ls_Service :: string
  ls_Env :: string
  ls_CurrentState :: State
  ls_Health :: HealthStatus
  ls_LastAcceptedRelease :: string
  ls_LastAcceptedReleaseCreated :: string
  ls_ReleaseDigest :: string
  ls_RuntimeManifestDigest :: string
  ls_ControlKey :: string
  ls_ReleaseKey :: string
  ls_RuntimeManifestKey :: string
  ls_WorkloadUnit :: string
  ls_TraceID :: string
  ls_UpdatedAt :: string
  ls_Identity :: "Identity option"
  ls_Stateful :: "StatefulRuntime option"
  ls_Verification :: VerificationResult

record StateEvent =
  sev_SchemaVersion :: string
  sev_Time :: string
  sev_State :: State
  sev_Service :: string
  sev_Env :: string
  sev_ReleaseID :: string
  sev_TraceID :: string
  sev_Identity :: "Identity option"
  sev_Stateful :: "StatefulRuntime option"
  sev_Health :: HealthStatus
  sev_UnitName :: string
  sev_Summary :: string
  sev_Error :: string

definition RunnerStateSchemaVersion :: string where "RunnerStateSchemaVersion = ''skiff.runner-state/v1''"
definition RunnerEventSchemaVersion :: string where "RunnerEventSchemaVersion = ''skiff.runner-event/v1''"
definition RunnerStatusSchemaVersion :: string where "RunnerStatusSchemaVersion = ''skiff.runner-status/v1''"

definition zero_VerificationResult :: VerificationResult where
  "zero_VerificationResult = \<lparr>vr_OK = False, vr_Service = [], vr_Env = [], vr_ReleaseID = [], vr_Digest = [],
     vr_RuntimeManifestDigest = [], vr_VerifiedSignature = None, vr_Checks = [], vr_Findings = []\<rparr>"

definition zero_LocalState :: LocalState where
  "zero_LocalState = \<lparr>ls_SchemaVersion = [], ls_Service = [], ls_Env = [], ls_CurrentState = [], ls_Health = [],
     ls_LastAcceptedRelease = [], ls_LastAcceptedReleaseCreated = [], ls_ReleaseDigest = [], ls_RuntimeManifestDigest = [],
     ls_ControlKey = [], ls_ReleaseKey = [], ls_RuntimeManifestKey = [], ls_WorkloadUnit = [], ls_TraceID = [], ls_UpdatedAt = [],
     ls_Identity = None, ls_Stateful = None, ls_Verification = zero_VerificationResult\<rparr>"

definition zero_StatefulRuntime :: StatefulRuntime where
  "zero_StatefulRuntime = \<lparr>sr_Group = [], sr_Env = [], sr_Member = 0, sr_Generation = 0, sr_InstanceID = [], sr_VolumeID = [],
     sr_VolumeMountPath = [], sr_StableHostname = [], sr_Recipe = [], sr_ControlKey = [], sr_ControlETag = [], sr_ControlVersion = 0,
     sr_ReleaseManifest = [], sr_RuntimeManifest = [], sr_LastValidatedAt = []\<rparr>"

definition zero_Identity :: Identity where
  "zero_Identity = \<lparr>idn_Provider = [], idn_Region = [], idn_InstanceID = [], idn_AccountID = [], idn_Zone = [], idn_PrivateIP = [],
     idn_ObservedAt = []\<rparr>"

text \<open>The error of a state store that has no state yet, and \<^verbatim>\<open>errors.Is\<close> for it.\<close>

definition ErrStateNotFound :: goerr where
  "ErrStateNotFound = new_error ''runner local state not found''"

fun is_state_not_found :: "goerr \<Rightarrow> bool" where
  "is_state_not_found (Errorf msg (Some wrapped)) = is_state_not_found wrapped"
| "is_state_not_found err = (err = ErrStateNotFound)"

record RunnerStatus =
  rst_OK :: bool
  rst_SchemaVersion :: string
  rst_Service :: string
  rst_Env :: string
  rst_ReleaseID :: string
  rst_State :: State
  rst_Health :: HealthStatus
  rst_UnitName :: string
  rst_TraceID :: string
  rst_UpdatedAt :: string
  rst_Identity :: "Identity option"
  rst_Stateful :: "StatefulRuntime option"

definition StatusFromState :: "LocalState \<Rightarrow> RunnerStatus" where
  "StatusFromState state = \<lparr>rst_OK = (ls_CurrentState state \<noteq> StateFailed), rst_SchemaVersion = RunnerStatusSchemaVersion,
     rst_Service = ls_Service state, rst_Env = ls_Env state, rst_ReleaseID = ls_LastAcceptedRelease state,
     rst_State = ls_CurrentState state, rst_Health = (if ls_Health state = [] then HealthUnknown else ls_Health state),
     rst_UnitName = ls_WorkloadUnit state, rst_TraceID = ls_TraceID state, rst_UpdatedAt = ls_UpdatedAt state,
     rst_Identity = ls_Identity state, rst_Stateful = ls_Stateful state\<rparr>"

section \<open>The fence\<close>

record statefulMemberBootstrapDocument =
  smb_Key :: string
  smb_ETag :: string
  smb_Control :: StatefulMemberControl

text \<open>
  Bootstrap errors carry a code and a summary; \<^verbatim>\<open>errors.As\<close> finds them again. \<open>BootstrapError\<close> is the error value, and
  \<open>boot_goerr\<close> what it is as an error of another operation.
\<close>

record BootstrapError =
  be_Code :: string
  be_Summary :: string
  be_Err :: "goerr option"
  be_Verification :: "VerificationResult option"

definition boot_goerr :: "BootstrapError \<Rightarrow> goerr" where
  "boot_goerr e = Errorf (be_Code e @ '': '' @ be_Summary e) (be_Err e)"

definition CodeControlNotFound :: string where "CodeControlNotFound = ''SERVICE_CONTROL_NOT_FOUND''"
definition CodeInvalidServiceControl :: string where "CodeInvalidServiceControl = ''INVALID_SERVICE_CONTROL''"

definition readStatefulMemberControl ::
  "('s, 'z) ObjectStore_scheme \<Rightarrow> string \<Rightarrow> 's \<Rightarrow> (BootstrapError + statefulMemberBootstrapDocument) \<times> 's" where
  "readStatefulMemberControl store key s = (case os_Get store key s of
      (Inl err, t) \<Rightarrow>
        (Inl (if is_store ErrNotFound err
              then \<lparr>be_Code = CodeControlNotFound, be_Summary = ''stateful member control object was not found'',
                     be_Err = Some err, be_Verification = None\<rparr>
              else \<lparr>be_Code = CodeInvalidServiceControl, be_Summary = err_text err, be_Err = Some err, be_Verification = None\<rparr>), t)
    | (Inr object, t) \<Rightarrow> (case canonical_UnmarshalStrict dec_StatefulMemberControl (obj_Body object) of
          Inl err \<Rightarrow> (Inl \<lparr>be_Code = CodeInvalidServiceControl, be_Summary = err_text err, be_Err = Some err, be_Verification = None\<rparr>, t)
        | Inr control \<Rightarrow>
            if smc_SchemaVersion control \<noteq> schema_Version then
              (Inl \<lparr>be_Code = CodeInvalidServiceControl,
                 be_Summary = ''stateful member control schema version '' @ quote (smc_SchemaVersion control) @ '' is not supported'',
                 be_Err = None, be_Verification = None\<rparr>, t)
            else (Inr \<lparr>smb_Key = key, smb_ETag = obj_ETag object, smb_Control = control\<rparr>, t)))"

definition member_name :: "StatefulMemberControl \<Rightarrow> string" where
  "member_name control = smc_Group control @ ''/'' @ show_int (smc_Member control)"

text \<open>The checks of a member control document against the runtime and the identity of the runner, in the order of the code.\<close>

definition fence_checks :: "StatefulMemberControl \<Rightarrow> StatefulRuntime \<Rightarrow> Identity option \<Rightarrow> (bool \<times> string) list" where
  "fence_checks control runtime identity =
     (let inst = (case identity of None \<Rightarrow> [] | Some i \<Rightarrow> idn_InstanceID i);
          zone = (case identity of None \<Rightarrow> [] | Some i \<Rightarrow> idn_Zone i) in
      [(sr_Group runtime \<noteq> [] \<and> smc_Group control \<noteq> sr_Group runtime,
          ''stateful member group '' @ quote (smc_Group control) @ '' does not match runtime group '' @ quote (sr_Group runtime)),
       (sr_Env runtime \<noteq> [] \<and> smc_Env control \<noteq> sr_Env runtime,
          ''stateful member env '' @ quote (smc_Env control) @ '' does not match runtime env '' @ quote (sr_Env runtime)),
       (smc_Member control \<noteq> sr_Member runtime,
          ''stateful member ordinal '' @ show_int (smc_Member control) @ '' does not match runtime member '' @ show_int (sr_Member runtime)),
       (sr_Generation runtime > 0 \<and> smc_Generation control \<noteq> sr_Generation runtime,
          ''stateful member generation '' @ show_int (smc_Generation control) @ '' does not match runtime generation '' @
            show_int (sr_Generation runtime)),
       (smc_Lease control \<noteq> None,
          ''stateful member '' @ member_name control @ '' has an active lease held by '' @
            quote (case smc_Lease control of Some l \<Rightarrow> lse_Owner l | None \<Rightarrow> [])),
       (smc_Phase control \<noteq> [] \<and> smc_Phase control \<noteq> StatefulMemberReady,
          ''stateful member '' @ member_name control @ '' is '' @ quote (smc_Phase control) @ '', not ready''),
       (smc_VolumeID control = [],
          ''stateful member '' @ member_name control @ '' has no durable volume ID''),
       (sr_VolumeID runtime \<noteq> [] \<and> smc_VolumeID control \<noteq> sr_VolumeID runtime,
          ''stateful member volume '' @ quote (smc_VolumeID control) @ '' does not match runtime volume '' @ quote (sr_VolumeID runtime)),
       (smc_InstanceID control = [] \<and> inst \<noteq> [],
          ''stateful member '' @ member_name control @ '' has no recorded instance identity''),
       (inst \<noteq> [] \<and> smc_InstanceID control \<noteq> [] \<and> smc_InstanceID control \<noteq> inst,
          ''stateful member instance '' @ quote (smc_InstanceID control) @ '' does not match runner instance '' @ quote inst),
       (inst \<noteq> [] \<and> sr_InstanceID runtime \<noteq> [] \<and> sr_InstanceID runtime \<noteq> inst,
          ''stateful runtime instance '' @ quote (sr_InstanceID runtime) @ '' does not match runner instance '' @ quote inst),
       (sr_InstanceID runtime \<noteq> [] \<and> smc_InstanceID control \<noteq> [] \<and> smc_InstanceID control \<noteq> sr_InstanceID runtime,
          ''stateful member instance '' @ quote (smc_InstanceID control) @ '' does not match runtime instance '' @
            quote (sr_InstanceID runtime)),
       (zone \<noteq> [] \<and> smc_Zone control \<noteq> [] \<and> smc_Zone control \<noteq> zone,
          ''stateful member zone '' @ quote (smc_Zone control) @ '' does not match runner zone '' @ quote zone),
       (sr_StableHostname runtime \<noteq> [] \<and> smc_DNSName control \<noteq> [] \<and> sr_StableHostname runtime \<noteq> smc_DNSName control,
          ''stateful stable hostname '' @ quote (sr_StableHostname runtime) @ '' does not match member DNS name '' @
            quote (smc_DNSName control))])"

definition statefulRuntimeFromExistingControl ::
  "statefulMemberBootstrapDocument \<Rightarrow> StatefulRuntime \<Rightarrow> Identity option \<Rightarrow> gotime \<Rightarrow> StatefulRuntime result" where
  "statefulRuntimeFromExistingControl doc runtime identity now =
     (let control = smb_Control doc in
      case find fst (fence_checks control runtime identity) of
        Some (_, msg) \<Rightarrow> Inl (new_error msg)
      | None \<Rightarrow> Inr (runtime\<lparr>
          sr_Group := smc_Group control, sr_Env := smc_Env control, sr_Generation := smc_Generation control,
          sr_InstanceID := firstNonEmpty [smc_InstanceID control, sr_InstanceID runtime], sr_VolumeID := smc_VolumeID control,
          sr_StableHostname := firstNonEmpty [sr_StableHostname runtime, smc_DNSName control], sr_ControlKey := smb_Key doc,
          sr_ControlETag := smb_ETag doc, sr_ControlVersion := smc_Version control, sr_LastValidatedAt := canonical_Time now\<rparr>))"

definition statefulControlKeyOf :: "StatefulRuntime \<Rightarrow> string result" where
  "statefulControlKeyOf runtime =
     (if sr_ControlKey runtime = [] then paths_StatefulMemberControl (sr_Group runtime) (sr_Member runtime)
      else Inr (sr_ControlKey runtime))"

definition currentStatefulRuntime ::
  "('s, 'z) World_scheme \<Rightarrow> LocalState \<Rightarrow> StatefulRuntime option \<Rightarrow> 's ObjectStore option \<Rightarrow> Identity option \<Rightarrow>
   ('s, StatefulRuntime option) io" where
  "currentStatefulRuntime W current requested store identity =
     (case (if requested = None then ls_Stateful current else requested) of
        None \<Rightarrow> io_ret None
      | Some runtime \<Rightarrow> (case store of
          None \<Rightarrow> io_fail (new_error ''stateful runner requires an object store to validate member control'')
        | Some st \<Rightarrow>
            io_bind (io_lift (statefulControlKeyOf runtime)) (\<lambda>key.
            io_bind (\<lambda>s. case readStatefulMemberControl st key s of (Inl e, t) \<Rightarrow> (Inl (boot_goerr e), t) | (Inr d, t) \<Rightarrow> (Inr d, t)) (\<lambda>doc.
            io_bind (io_now W) (\<lambda>now.
            io_lift (map_sum id Some (statefulRuntimeFromExistingControl doc runtime
              (if identity = None then ls_Identity current else identity) now)))))))"

section \<open>Recipe hooks\<close>

type_synonym StatefulRecipeAction = string

definition StatefulRecipeStart :: StatefulRecipeAction where "StatefulRecipeStart = ''start''"
definition StatefulRecipeStop :: StatefulRecipeAction where "StatefulRecipeStop = ''stop''"
definition StatefulRecipeHealth :: StatefulRecipeAction where "StatefulRecipeHealth = ''health''"
definition StatefulRecipeBackup :: StatefulRecipeAction where "StatefulRecipeBackup = ''backup''"
definition StatefulRecipeRestore :: StatefulRecipeAction where "StatefulRecipeRestore = ''restore''"

lemmas recipe_action_defs = StatefulRecipeStart_def StatefulRecipeStop_def StatefulRecipeHealth_def StatefulRecipeBackup_def
  StatefulRecipeRestore_def

record RecipeRequest =
  rr_Group :: string
  rr_Env :: string
  rr_Member :: int
  rr_Generation :: int
  rr_InstanceID :: string
  rr_VolumeID :: string
  rr_DNSName :: string
  rr_Control :: StatefulMemberControl
  rr_OperationID :: string
  rr_TraceID :: string

record RecipeResult =
  rcr_OK :: bool
  rcr_Summary :: string
  rcr_Facts :: go_map

record RoleResult =
  rlr_Role :: string
  rlr_Primary :: bool
  rlr_Facts :: go_map

record 's Recipe =
  rcp_Name :: string
  rcp_Start :: "RecipeRequest \<Rightarrow> ('s, RecipeResult option) io"
  rcp_Stop :: "RecipeRequest \<Rightarrow> ('s, RecipeResult option) io"
  rcp_Health :: "RecipeRequest \<Rightarrow> ('s, RecipeResult option) io"
  rcp_DetectRole :: "RecipeRequest \<Rightarrow> ('s, RoleResult option) io"
  rcp_Backup :: "RecipeRequest \<Rightarrow> ('s, RecipeResult option) io"
  rcp_Restore :: "RecipeRequest \<Rightarrow> ('s, RecipeResult option) io"

definition validateRecipeName :: "'s Recipe \<Rightarrow> StatefulRuntime \<Rightarrow> unit result" where
  "validateRecipeName recipe runtime =
     (if sr_Recipe runtime = [] \<or> rcp_Name recipe = [] \<or> rcp_Name recipe = sr_Recipe runtime then Inr ()
      else Inl (new_error (''stateful recipe '' @ quote (sr_Recipe runtime) @ '' is configured but runner has recipe '' @
        quote (rcp_Name recipe))))"

definition statefulRecipeRequest :: "StatefulRuntime \<Rightarrow> string \<Rightarrow> string \<Rightarrow> RecipeRequest" where
  "statefulRecipeRequest runtime operationID traceID = \<lparr>
     rr_Group = sr_Group runtime, rr_Env = sr_Env runtime, rr_Member = sr_Member runtime, rr_Generation = sr_Generation runtime,
     rr_InstanceID = sr_InstanceID runtime, rr_VolumeID = sr_VolumeID runtime, rr_DNSName = sr_StableHostname runtime,
     rr_Control = zero_StatefulMemberControl\<lparr>smc_SchemaVersion := schema_Version, smc_Group := sr_Group runtime,
       smc_Env := sr_Env runtime, smc_Member := sr_Member runtime, smc_InstanceID := sr_InstanceID runtime,
       smc_VolumeID := sr_VolumeID runtime, smc_DNSName := sr_StableHostname runtime, smc_Generation := sr_Generation runtime,
       smc_Phase := StatefulMemberReady, smc_Version := sr_ControlVersion runtime\<rparr>,
     rr_OperationID = operationID, rr_TraceID = traceID\<rparr>"

definition recipe_missing :: "StatefulRuntime \<Rightarrow> goerr" where
  "recipe_missing runtime = new_error (''stateful recipe '' @ quote (sr_Recipe runtime) @
     '' is configured but no recipe runner is available'')"

definition runRecipeAction :: "'s Recipe \<Rightarrow> StatefulRecipeAction \<Rightarrow> RecipeRequest \<Rightarrow> ('s, RecipeResult option) io" where
  "runRecipeAction recipe action req =
     (if action = StatefulRecipeStart then rcp_Start recipe req
      else if action = StatefulRecipeStop then rcp_Stop recipe req
      else if action = StatefulRecipeHealth then rcp_Health recipe req
      else if action = StatefulRecipeBackup then rcp_Backup recipe req
      else if action = StatefulRecipeRestore then rcp_Restore recipe req
      else io_fail (new_error (''unsupported stateful recipe action '' @ quote action)))"

text \<open>The error of a hook that reports failure comes with its result in the code; its callers use only the error.\<close>

definition RunStatefulRecipeHook ::
  "'s Recipe option \<Rightarrow> StatefulRuntime \<Rightarrow> StatefulRecipeAction \<Rightarrow> string \<Rightarrow> string \<Rightarrow> ('s, RecipeResult option) io" where
  "RunStatefulRecipeHook recipe runtime action operationID traceID = (case recipe of
      None \<Rightarrow> if sr_Recipe runtime \<noteq> [] then io_fail (recipe_missing runtime) else io_ret None
    | Some rc \<Rightarrow>
        io_bind (io_lift (validateRecipeName rc runtime)) (\<lambda>_.
        io_bind (runRecipeAction rc action (statefulRecipeRequest runtime operationID traceID)) (\<lambda>result.
        case result of
          None \<Rightarrow> io_fail (new_error (''stateful recipe '' @ action @ '' hook returned no result''))
        | Some r \<Rightarrow>
            if \<not> rcr_OK r then
              io_fail (new_error (if rcr_Summary r = [] then ''stateful recipe '' @ action @ '' hook reported not ok'' else rcr_Summary r))
            else io_ret (Some r))))"

definition DetectStatefulRecipeRole ::
  "'s Recipe option \<Rightarrow> StatefulRuntime \<Rightarrow> string \<Rightarrow> string \<Rightarrow> ('s, RoleResult option) io" where
  "DetectStatefulRecipeRole recipe runtime operationID traceID = (case recipe of
      None \<Rightarrow> if sr_Recipe runtime \<noteq> [] then io_fail (recipe_missing runtime) else io_ret None
    | Some rc \<Rightarrow>
        io_bind (io_lift (validateRecipeName rc runtime)) (\<lambda>_.
        io_bind (rcp_DetectRole rc (statefulRecipeRequest runtime operationID traceID)) (\<lambda>result.
        case result of
          None \<Rightarrow> io_fail (new_error ''stateful recipe role detection returned no result'')
        | Some r \<Rightarrow> io_ret (Some r))))"

definition runStatefulRecipeStart :: "'s Recipe option \<Rightarrow> StatefulRuntime \<Rightarrow> string \<Rightarrow> string \<Rightarrow> ('s, unit) io" where
  "runStatefulRecipeStart recipe runtime operationID traceID =
     io_bind (RunStatefulRecipeHook recipe runtime StatefulRecipeStart operationID traceID) (\<lambda>_. io_ret ())"

definition runStatefulRecipeStop :: "'s Recipe option \<Rightarrow> StatefulRuntime \<Rightarrow> string \<Rightarrow> string \<Rightarrow> ('s, unit) io" where
  "runStatefulRecipeStop recipe runtime operationID traceID =
     io_bind (RunStatefulRecipeHook recipe runtime StatefulRecipeStop operationID traceID) (\<lambda>_. io_ret ())"

definition runStatefulRecipeHealth :: "'s Recipe option \<Rightarrow> StatefulRuntime \<Rightarrow> string \<Rightarrow> string \<Rightarrow> ('s, unit) io" where
  "runStatefulRecipeHealth recipe runtime operationID traceID =
     io_bind (RunStatefulRecipeHook recipe runtime StatefulRecipeHealth operationID traceID) (\<lambda>_. io_ret ())"

section \<open>The environment of the workload\<close>

definition statefulEnvVars :: "go_map \<Rightarrow> StatefulRuntime \<Rightarrow> go_map" where
  "statefulEnvVars env runtime =
     (let put_some = (\<lambda>k v m. if v = [] then m else map_put k v m) in
      put_some ''SKIFF_STATEFUL_RECIPE'' (sr_Recipe runtime)
      (put_some ''SKIFF_STATEFUL_STABLE_HOSTNAME'' (sr_StableHostname runtime)
      (put_some ''SKIFF_STATEFUL_VOLUME_MOUNT_PATH'' (sr_VolumeMountPath runtime)
      (map_put ''SKIFF_STATEFUL_VOLUME_ID'' (sr_VolumeID runtime)
      (map_put ''SKIFF_STATEFUL_GENERATION'' (show_int (sr_Generation runtime))
      (map_put ''SKIFF_STATEFUL_MEMBER'' (show_int (sr_Member runtime))
      (map_put ''SKIFF_STATEFUL_ENV'' (sr_Env runtime)
      (map_put ''SKIFF_STATEFUL_GROUP'' (sr_Group runtime) env))))))))"

end
