(* ===== verification/Runner_Unit.thy ===== *)
theory Runner_Unit
  imports Runner_Stateful
begin

text \<open>
  The systemd unit of a workload (internal/runner/systemd.go): its name and its text, with the quoting of command
  arguments and environment variables. The letters and digits of Unicode beyond ASCII are a parameter
  (\<open>unicode_letter\<close>, on the UTF-8 bytes of a character).

  systemd itself is not modelled. \<open>unit_words\<close> is a left inverse of the quoting and joining of words, a device for the proof that no
  two commands and no two environments are rendered to the same line; what systemd makes of a line, with its \<^verbatim>\<open>%\<close> specifiers and
  \<^verbatim>\<open>$\<close> variables, is outside the model.
\<close>

section \<open>Durations\<close>

text \<open>\<^verbatim>\<open>time.Duration.String\<close>: the largest units that fit, a fraction without trailing zeros.\<close>

definition duration_frac :: "nat \<Rightarrow> nat \<Rightarrow> string" where
  "duration_frac prec v = (if v = 0 then [] else CHR ''.'' # strip_zeros (pad_nat prec v))"

definition duration_String :: "int \<Rightarrow> string" where
  "duration_String d =
     (let u = nat \<bar>d\<bar>;
          scaled = (\<lambda>prec unit. show_nat (u div 10 ^ prec) @ duration_frac prec (u mod 10 ^ prec) @ unit);
          body = (if u = 0 then ''0s''
            else if u < 1000 then scaled 0 ''ns''
            else if u < 1000000 then scaled 3 [CHR 0xC2, CHR 0xB5, CHR ''s'']
            else if u < 1000000000 then scaled 6 ''ms''
            else (let secs = u div 1000000000; mins = secs div 60; hours = mins div 60 in
              (if hours > 0 then show_nat hours @ ''h'' else []) @ (if mins > 0 then show_nat (mins mod 60) @ ''m'' else []) @
              show_nat (secs mod 60) @ duration_frac 9 (u mod 1000000000) @ ''s''))
      in if d < 0 then CHR ''-'' # body else body)"

definition second :: int where "second = 1000000000"

definition formatSystemdDuration :: "int \<Rightarrow> string" where
  "formatSystemdDuration duration =
     (if duration mod second = 0 then show_int (duration div second) @ ''s'' else duration_String duration)"

section \<open>Names and quoting\<close>

function unit_runes :: "(string \<Rightarrow> bool) \<Rightarrow> string \<Rightarrow> string" where
  "unit_runes unicode_letter [] = []"
| "unit_runes unicode_letter (c # cs) = (let n = rune_size (c # cs); r = take n (c # cs) in
     if n = 0 then CHR ''-'' # unit_runes unicode_letter cs
     else if n = 1 then
       (if c = CHR ''-'' \<or> c = CHR ''_'' \<or> c = CHR ''.'' \<or> byte_in 48 57 c \<or> byte_in 65 90 c \<or> byte_in 97 122 c then c else CHR ''-'') #
         unit_runes unicode_letter (drop n (c # cs))
     else (if unicode_letter r then r else ''-'') @ unit_runes unicode_letter (drop n (c # cs)))"
  by pat_completeness auto
termination by (relation "measure (\<lambda>(_, s). length s)") auto

definition trim_unit :: "string \<Rightarrow> string" where
  "trim_unit s = (let cut = (\<lambda>c. c = CHR ''-'' \<or> c = CHR ''.'' \<or> c = CHR ''_'') in
     rev (dropWhile cut (rev (dropWhile cut s))))"

definition unitNamePart :: "(string \<Rightarrow> bool) \<Rightarrow> string \<Rightarrow> string" where
  "unitNamePart unicode_letter value =
     (let out = trim_unit (unit_runes unicode_letter value) in if out = [] then ''workload'' else out)"

definition WorkloadUnitName :: "(string \<Rightarrow> bool) \<Rightarrow> string \<Rightarrow> string \<Rightarrow> string" where
  "WorkloadUnitName unicode_letter service env =
     ''skiff-'' @ unitNamePart unicode_letter service @ ''-'' @ unitNamePart unicode_letter env @ ''.service''"

definition newline :: char where "newline = CHR 0x0A"
definition backslash :: char where "backslash = CHR 0x5C"
definition dquote :: char where "dquote = CHR 0x22"

definition ReplaceAll :: "char \<Rightarrow> string \<Rightarrow> string \<Rightarrow> string" where
  "ReplaceAll old new value = concat (map (\<lambda>c. if c = old then new else [c]) value)"

definition systemdQuote :: "string \<Rightarrow> string" where
  "systemdQuote value = dquote # ReplaceAll newline [backslash, CHR ''n'']
     (ReplaceAll dquote [backslash, dquote] (ReplaceAll backslash [backslash, backslash] value)) @ [dquote]"

fun join_words :: "string list \<Rightarrow> string" where
  "join_words [] = []"
| "join_words [w] = w"
| "join_words (w # ws) = w @ CHR '' '' # join_words ws"

definition quoteCommand :: "string list \<Rightarrow> string" where
  "quoteCommand command = join_words (map systemdQuote command)"

definition environmentWords :: "go_map \<Rightarrow> string list" where
  "environmentWords env = map (\<lambda>(k, v). k @ ''='' @ v) (sort_key fst env)"

definition writeEnvironment :: "go_map \<Rightarrow> string list" where
  "writeEnvironment env = (if env = [] then [] else [''Environment='' @ join_words (map systemdQuote (environmentWords env))])"

section \<open>The unit\<close>

record WorkloadUnitSpec =
  wus_Service :: string
  wus_Env :: string
  wus_ReleaseID :: string
  wus_Command :: "string list"
  wus_EnvVars :: go_map
  wus_WorkingDirectory :: string
  wus_User :: string
  wus_Group :: string
  wus_RestartSec :: int
  wus_StopTimeout :: int

definition DefaultRestartSec :: int where "DefaultRestartSec = 5 * second"
definition DefaultStopTimeout :: int where "DefaultStopTimeout = 30 * second"

text \<open>The lines of the unit, each of which \<^verbatim>\<open>fmt.Fprintln\<close> or \<^verbatim>\<open>fmt.Fprintf\<close> ends with a newline.\<close>

definition unitLines :: "(string \<Rightarrow> bool) \<Rightarrow> WorkloadUnitSpec \<Rightarrow> string list" where
  "unitLines unicode_letter spec =
     (let restartSec = (if wus_RestartSec spec \<le> 0 then DefaultRestartSec else wus_RestartSec spec);
          stopTimeout = (if wus_StopTimeout spec \<le> 0 then DefaultStopTimeout else wus_StopTimeout spec) in
      [''[Unit]'',
       ''Description=Skiff workload '' @ wus_Env spec @ ''/'' @ wus_Service spec @ '' release '' @ wus_ReleaseID spec,
       ''After=network-online.target'', ''Wants=network-online.target'', [], ''[Service]'', ''Type=simple''] @
      (if wus_WorkingDirectory spec = [] then [] else [''WorkingDirectory='' @ systemdQuote (wus_WorkingDirectory spec)]) @
      (if wus_User spec = [] then [] else [''User='' @ wus_User spec]) @
      (if wus_Group spec = [] then [] else [''Group='' @ wus_Group spec]) @
      writeEnvironment (wus_EnvVars spec) @
      [''ExecStart='' @ quoteCommand (wus_Command spec), ''Restart=always'', ''RestartSec='' @ formatSystemdDuration restartSec,
       ''KillSignal=SIGTERM'', ''TimeoutStopSec='' @ formatSystemdDuration stopTimeout,
       ''SyslogIdentifier='' @ WorkloadUnitName unicode_letter (wus_Service spec) (wus_Env spec), ''NoNewPrivileges=yes'', ''PrivateTmp=yes'',
       ''ProtectSystem=strict'', ''ProtectHome=yes'', ''CapabilityBoundingSet='', ''RestrictSUIDSGID=yes'', ''LockPersonality=yes'', [],
       ''[Install]'', ''WantedBy=multi-user.target''])"

definition RenderWorkloadUnit :: "(string \<Rightarrow> bool) \<Rightarrow> WorkloadUnitSpec \<Rightarrow> string result" where
  "RenderWorkloadUnit unicode_letter spec =
     (if wus_Service spec = [] then Inl (new_error ''service is required'')
      else if wus_Env spec = [] then Inl (new_error ''env is required'')
      else if wus_Command spec = [] then Inl (new_error ''command is required'')
      else Inr (concat (map (\<lambda>l. l @ [newline]) (unitLines unicode_letter spec))))"

section \<open>Undoing the quoting\<close>

text \<open>Inside double quotes: the word, and what follows the closing quote.\<close>

fun quoted_word :: "string \<Rightarrow> (string \<times> string) option" where
  "quoted_word [] = None"
| "quoted_word (c # cs) =
     (if c = dquote then Some ([], cs)
      else if c = backslash then (case cs of
          [] \<Rightarrow> None
        | d # ds \<Rightarrow> map_option (\<lambda>(w, rest). ((if d = CHR ''n'' then newline else d) # w, rest)) (quoted_word ds))
      else map_option (\<lambda>(w, rest). (c # w, rest)) (quoted_word cs))"

lemma quoted_word_shorter: "quoted_word s = Some (w, rest) \<Longrightarrow> length rest < length s"
  by (induction s arbitrary: w rest rule: quoted_word.induct) (fastforce split: if_splits list.splits)+

function unit_words :: "string \<Rightarrow> string list option" where
  "unit_words s = (case s of
      [] \<Rightarrow> Some []
    | c # cs \<Rightarrow> if c = CHR '' '' then unit_words cs
        else if c = dquote then (case quoted_word cs of
            None \<Rightarrow> None
          | Some (w, rest) \<Rightarrow> map_option ((#) w) (unit_words rest))
        else map_option ((#) (takeWhile (\<lambda>x. x \<noteq> CHR '' '') s)) (unit_words (dropWhile (\<lambda>x. x \<noteq> CHR '' '') s)))"
  by pat_completeness auto
termination
  by (relation "measure length") (auto dest!: quoted_word_shorter simp: le_imp_less_Suc length_dropWhile_le)

declare unit_words.simps [simp del]

section \<open>Lemmas\<close>

definition escape_char :: "char \<Rightarrow> string" where
  "escape_char c = (if c = backslash then [backslash, backslash] else if c = dquote then [backslash, dquote]
     else if c = newline then [backslash, CHR ''n''] else [c])"

lemmas unit_chars = backslash_def dquote_def newline_def

lemma ReplaceAll_append: "ReplaceAll old new (u @ v) = ReplaceAll old new u @ ReplaceAll old new v"
  by (simp add: ReplaceAll_def)

lemma systemdQuote_eq: "systemdQuote v = dquote # concat (map escape_char v) @ [dquote]"
proof -
  have "ReplaceAll newline [backslash, CHR ''n''] (ReplaceAll dquote [backslash, dquote] (ReplaceAll backslash [backslash, backslash] v)) =
    concat (map escape_char v)"
    by (induction v) (auto simp: ReplaceAll_def escape_char_def unit_chars)
  then show ?thesis by (simp add: systemdQuote_def)
qed

lemma systemdQuote_one_line: "newline \<notin> set (systemdQuote v)"
  by (auto simp: systemdQuote_eq escape_char_def unit_chars)

lemma quoted_word_escaped: "quoted_word (concat (map escape_char w) @ dquote # rest) = Some (w, rest)"
  by (induction w) (auto simp: escape_char_def unit_chars)

lemma dquote_not_blank [simp]: "dquote \<noteq> CHR '' ''"
  by (simp add: dquote_def)

lemma unit_words_quoted: "unit_words (join_words (map systemdQuote ws)) = Some ws"
proof (induction ws rule: join_words.induct)
  case 1
  then show ?case by (simp add: unit_words.simps)
next
  case (2 w)
  then show ?case by (subst unit_words.simps) (simp add: systemdQuote_eq quoted_word_escaped unit_words.simps [of "[]"])
next
  case (3 w v vs)
  have "unit_words (CHR '' '' # join_words (map systemdQuote (v # vs))) = Some (v # vs)" using 3 by (subst unit_words.simps) simp
  then show ?case by (subst unit_words.simps) (simp add: systemdQuote_eq quoted_word_escaped)
qed

lemma join_words_chars: "(\<And>w. w \<in> set ws \<Longrightarrow> c \<notin> set w) \<Longrightarrow> c \<noteq> CHR '' '' \<Longrightarrow> c \<notin> set (join_words ws)"
  by (induction ws rule: join_words.induct) auto

lemma show_nat_no_newline: "newline \<notin> set (show_nat n)"
  using show_nat_digits [of n] by (auto simp: list_all_iff is_digit_def newline_def)

lemma duration_no_newline: "newline \<notin> set (formatSystemdDuration d)"
proof -
  have p: "newline \<notin> set (pad_nat k v)" for k v
    using pad_nat_digits [of k v] by (auto simp: list_all_iff is_digit_def newline_def)
  have "set (strip_zeros s) \<subseteq> set s" for s unfolding strip_zeros_def by (auto dest!: set_dropWhileD)
  then have f: "newline \<notin> set (duration_frac k v)" for k v
    using p [of k v] by (auto simp: duration_frac_def newline_def)
  have "newline \<notin> set (duration_String d)"
    unfolding duration_String_def Let_def using f show_nat_no_newline by (simp add: newline_def)
  moreover have "newline \<notin> set (show_int i)" for i using show_nat_no_newline by (auto simp: show_int_def newline_def)
  ultimately show ?thesis by (auto simp: formatSystemdDuration_def newline_def)
qed

lemma byte_in_high: "byte_in lo hi c \<Longrightarrow> 128 \<le> lo \<Longrightarrow> 128 \<le> (of_char c :: nat)"
  by (simp add: byte_in_def)

lemma byte_high_ite: "byte_in (if a then 160 else if b then 144 else 128) hi c \<Longrightarrow> 128 \<le> (of_char c :: nat)"
  by (auto simp: byte_in_def split: if_splits)

lemma not_ascii: "\<not> byte_in 0 127 c \<Longrightarrow> 128 \<le> (of_char c :: nat)"
  by (simp add: byte_in_def)

lemma rune_bytes_high:
  assumes "rune_size s > 1"
  shows "\<forall>c \<in> set (take (rune_size s) s). 128 \<le> (of_char c :: nat)"
proof (cases s)
  case (Cons c0 s1)
  have n0: "\<not> byte_in 0 127 c0" using assms Cons by (auto simp: rune_size_def)
  then obtain c1 s2 where s1: "s1 = c1 # s2" using assms Cons by (cases s1) (auto simp: rune_size_def)
  show ?thesis
  proof (cases "byte_in 0xC2 0xDF c0")
    case True
    then show ?thesis using assms n0 unfolding Cons s1 rune_size_def
      by (auto dest!: not_ascii byte_in_high split: if_splits)
  next
    case False
    note f = False
    show ?thesis
    proof (cases "byte_in (if c0 = CHR 0xE0 then 0xA0 else if c0 = CHR 0xF0 then 0x90 else 0x80)
                   (if c0 = CHR 0xED then 0x9F else if c0 = CHR 0xF4 then 0x8F else 0xBF) c1")
      case True
      have h: "128 \<le> (of_char c0 :: nat)" "128 \<le> (of_char c1 :: nat)" using not_ascii [OF n0] byte_high_ite [OF True] by auto
      obtain c2 s3 where s2: "s2 = c2 # s3" using assms f n0 True unfolding Cons s1 rune_size_def by (cases s2) auto
      have c2: "byte_in 0x80 0xBF c2" using assms f n0 True unfolding Cons s1 s2 rune_size_def by (auto split: if_splits)
      show ?thesis using assms h f n0 True c2 unfolding Cons s1 s2 rune_size_def
        by (auto dest!: byte_in_high split: if_splits list.splits)
    qed (use assms n0 f in \<open>auto simp: Cons s1 rune_size_def\<close>)
  qed
qed (use assms in \<open>simp add: rune_size_def\<close>)

lemma unit_runes_no_newline: "newline \<notin> set (unit_runes ul s)"
proof (induction ul s rule: unit_runes.induct)
  case (2 ul c cs)
  let ?n = "rune_size (c # cs)"
  have low: "\<not> byte_in lo hi newline" if "10 < lo" for lo hi using that by (simp add: byte_in_def newline_def)
  have high: "newline \<notin> set (take ?n (c # cs))" if "?n \<noteq> 0" "?n \<noteq> 1"
  proof
    assume "newline \<in> set (take ?n (c # cs))"
    moreover have "?n > 1" using that by simp
    ultimately have "128 \<le> (of_char newline :: nat)" using rune_bytes_high by blast
    then show False by (simp add: newline_def)
  qed
  have m: "newline \<noteq> CHR ''-''" "newline \<noteq> CHR ''_''" "newline \<noteq> CHR ''.''" by (simp_all add: newline_def)
  consider "?n = 0" | "?n = 1" | "?n \<noteq> 0" "?n \<noteq> 1" by blast
  then show ?case
  proof cases
    case 1
    then show ?thesis using 2(1) [OF refl refl 1] m by (simp add: Let_def)
  next
    case 2
    then show ?thesis using "2.IH"(2) [OF refl refl] low m by (auto simp: Let_def)
  next
    case 3
    then have "newline \<notin> set (unit_runes ul (drop ?n (c # cs)))" using "2.IH"(3) [OF refl refl] by simp
    then show ?thesis using 3 high m by (simp add: Let_def)
  qed
qed simp

lemma unit_name_no_newline: "newline \<notin> set (WorkloadUnitName ul service env)"
proof -
  have "set (trim_unit s) \<subseteq> set s" for s
    unfolding trim_unit_def Let_def by (auto dest!: set_dropWhileD)
  then have "newline \<notin> set (unitNamePart ul s)" for s
    using unit_runes_no_newline [of ul s] by (auto simp: unitNamePart_def Let_def newline_def)
  then show ?thesis by (auto simp: WorkloadUnitName_def newline_def)
qed

lemma split_lines:
  "(\<And>l. l \<in> set ls \<Longrightarrow> c \<notin> set l) \<Longrightarrow> split_on c (concat (map (\<lambda>l. l @ [c]) ls)) = ls @ [[]]"
proof (induction ls)
  case (Cons l ls)
  have "split_on c (l @ c # rest) = l # split_on c rest" if "c \<notin> set l" for l rest
    using that by (induction l) auto
  then show ?case using Cons by simp
qed simp

lemma unit_lines_plain:
  assumes "newline \<notin> set (wus_Service spec)" "newline \<notin> set (wus_Env spec)" "newline \<notin> set (wus_ReleaseID spec)"
    and "newline \<notin> set (wus_User spec)" "newline \<notin> set (wus_Group spec)" "l \<in> set (unitLines ul spec)"
  shows "newline \<notin> set l"
proof -
  have q: "newline \<notin> set (join_words (map systemdQuote ws))" for ws
    by (rule join_words_chars) (auto simp: systemdQuote_one_line [unfolded newline_def] newline_def)
  have "list_all (\<lambda>l. newline \<notin> set l) (unitLines ul spec)"
    using assms(1-5) [unfolded newline_def] q [unfolded newline_def] systemdQuote_one_line [unfolded newline_def]
      duration_no_newline [unfolded newline_def] unit_name_no_newline [unfolded newline_def]
    unfolding unitLines_def Let_def quoteCommand_def writeEnvironment_def newline_def by simp
  then show ?thesis using assms(6) by (simp add: list_all_iff)
qed

section \<open>Properties\<close>

lemma unit_words_inj: "join_words (map systemdQuote ws) = join_words (map systemdQuote vs) \<longleftrightarrow> ws = vs"
  by (metis unit_words_quoted option.inject)

text \<open>The lines of a unit that carry a given directive.\<close>

lemma unit_directives:
  "filter (prefix ''ExecStart='') (unitLines ul spec @ [[]]) = [''ExecStart='' @ quoteCommand (wus_Command spec)]"
  "filter (prefix ''Environment='') (unitLines ul spec @ [[]]) = writeEnvironment (wus_EnvVars spec)"
  "filter (prefix ''WorkingDirectory='') (unitLines ul spec @ [[]]) =
     (if wus_WorkingDirectory spec = [] then [] else [''WorkingDirectory='' @ systemdQuote (wus_WorkingDirectory spec)])"
  "filter (prefix ''User='') (unitLines ul spec @ [[]]) = (if wus_User spec = [] then [] else [''User='' @ wus_User spec])"
  "filter (prefix ''Group='') (unitLines ul spec @ [[]]) = (if wus_Group spec = [] then [] else [''Group='' @ wus_Group spec])"
  by (simp_all add: unitLines_def Let_def writeEnvironment_def)

definition plain_names :: "WorkloadUnitSpec \<Rightarrow> bool" where
  "plain_names spec \<longleftrightarrow>
     newline \<notin> set (wus_Service spec) \<union> set (wus_Env spec) \<union> set (wus_ReleaseID spec) \<union> set (wus_User spec) \<union> set (wus_Group spec)"

lemma rendered_lines:
  assumes "RenderWorkloadUnit ul spec = Inr contents" "plain_names spec"
  shows "split_on newline contents = unitLines ul spec @ [[]]"
proof -
  have c: "contents = concat (map (\<lambda>l. l @ [newline]) (unitLines ul spec))"
    using assms(1) by (auto simp: RenderWorkloadUnit_def split: if_splits)
  show ?thesis unfolding c
    by (rule split_lines) (use assms(2) unit_lines_plain in \<open>auto simp: plain_names_def\<close>)
qed

text \<open>
  C39: the unit of a workload carries the command and environment of the manifest, and nothing else. Service, environment, release
  id, user and group are written without quotes; if they contain no newline, then the rendered unit has, line by line, exactly the lines the
  renderer wrote, whatever the command, the environment variables and the working directory contain: a newline or quote in
  them adds no line and no directive. It has one \<^verbatim>\<open>ExecStart\<close> line, with the quoted command, and at most one \<^verbatim>\<open>Environment\<close> line, with the quoted entries in the order of their
  keys. And no two specifications that differ in the arguments of the command, in the entries \<^verbatim>\<open>key=value\<close> of the environment, in the working directory, the user or the group
  are rendered to the same unit. What systemd makes of the unit is not part of the statement.
\<close>

theorem rendered_unit_faithful:
  assumes "RenderWorkloadUnit ul spec = Inr contents" "plain_names spec"
  shows "split_on newline contents = unitLines ul spec @ [[]] \<and>
    filter (prefix ''ExecStart='') (split_on newline contents) = [''ExecStart='' @ quoteCommand (wus_Command spec)] \<and>
    filter (prefix ''Environment='') (split_on newline contents) = writeEnvironment (wus_EnvVars spec) \<and>
    (\<forall>spec'. RenderWorkloadUnit ul spec' = Inr contents \<and> plain_names spec' \<longrightarrow>
       wus_Command spec' = wus_Command spec \<and> environmentWords (wus_EnvVars spec') = environmentWords (wus_EnvVars spec) \<and>
       wus_WorkingDirectory spec' = wus_WorkingDirectory spec \<and> wus_User spec' = wus_User spec \<and> wus_Group spec' = wus_Group spec)"
proof -
  note s = rendered_lines [OF assms]
  have "wus_Command spec' = wus_Command spec \<and> environmentWords (wus_EnvVars spec') = environmentWords (wus_EnvVars spec) \<and>
      wus_WorkingDirectory spec' = wus_WorkingDirectory spec \<and> wus_User spec' = wus_User spec \<and> wus_Group spec' = wus_Group spec"
    if a: "RenderWorkloadUnit ul spec' = Inr contents" "plain_names spec'" for spec'
  proof -
    have l: "unitLines ul spec' @ [[]] = unitLines ul spec @ [[]]" using rendered_lines [OF a] s by simp
    note u = unit_directives [of ul spec', unfolded l unit_directives]
    have "wus_WorkingDirectory spec' = wus_WorkingDirectory spec"
      using u(3) unit_words_inj [of "[wus_WorkingDirectory spec']" "[wus_WorkingDirectory spec]"] by (auto split: if_splits)
    moreover have "environmentWords (wus_EnvVars spec') = environmentWords (wus_EnvVars spec)"
      using u(2) by (auto simp: writeEnvironment_def unit_words_inj split: if_splits)
    moreover have "wus_Command spec' = wus_Command spec" using u(1) by (simp add: quoteCommand_def unit_words_inj)
    ultimately show ?thesis using u(4,5) by (auto split: if_splits)
  qed
  then show ?thesis unfolding s unit_directives by blast
qed

definition echo_spec :: WorkloadUnitSpec where
  "echo_spec = \<lparr>wus_Service = ''web'', wus_Env = ''dev'', wus_ReleaseID = ''r1'',
     wus_Command = [''/bin/echo'', ''a'' @ [newline] @ ''ExecStart=b'', [dquote, backslash]], wus_EnvVars = [(''A'', ''x y''), (''B'', [])],
     wus_WorkingDirectory = [], wus_User = [], wus_Group = [], wus_RestartSec = 0, wus_StopTimeout = 1500000000\<rparr>"

theorem rendered_unit_faithful_witness:
  "\<exists>contents. RenderWorkloadUnit (\<lambda>_. False) echo_spec = Inr contents \<and>
     filter (prefix ''ExecStart='') (split_on newline contents) =
       [''ExecStart='' @ quoteCommand [''/bin/echo'', ''a'' @ [newline] @ ''ExecStart=b'', [dquote, backslash]]]"
proof -
  obtain contents where c: "RenderWorkloadUnit (\<lambda>_. False) echo_spec = Inr contents"
    by (simp add: RenderWorkloadUnit_def echo_spec_def)
  have "plain_names echo_spec" by (simp add: plain_names_def echo_spec_def newline_def)
  from rendered_unit_faithful [OF c this] show ?thesis using c by (auto simp: echo_spec_def)
qed

end
