(* ===== verification/Runner.thy ===== *)
theory Runner
  imports Runner_Unit
begin

text \<open>
  The runner's lifecycle of a workload (internal/runner/fsm.go): from the accepted release to a serving workload, and
  back to a stopped one. Each state is saved before its event is emitted, and any failure ends in \<^verbatim>\<open>Failed\<close>.

  All effects are fields of the request, as in the code: the state store, the event sink, systemd, the preparation of
  the artifact and of the volume, the recipe and the health check. \<open>runner_params\<close> holds \<^verbatim>\<open>time.ParseDuration\<close> and the
  Unicode classes. Fields that the code replaces by a default when they are nil are the replaced values.
\<close>

section \<open>Operations that end early\<close>

text \<open>An operation on a state that ends with a value, or early with an exit of any type.\<close>

type_synonym ('s, 'e, 'a) eio = "'s \<Rightarrow> ('e + 'a) \<times> 's"

definition ebind :: "('s, 'e, 'a) eio \<Rightarrow> ('a \<Rightarrow> ('s, 'e, 'b) eio) \<Rightarrow> ('s, 'e, 'b) eio" where
  "ebind m f s = (case m s of (Inl e, t) \<Rightarrow> (Inl e, t) | (Inr x, t) \<Rightarrow> f x t)"

definition eret :: "'a \<Rightarrow> ('s, 'e, 'a) eio" where
  "eret x s = (Inr x, s)"

text \<open>Updating the shared variables of an operation, with their new values as its result, and calling what cannot fail.\<close>

definition eupdate :: "('r \<Rightarrow> 'r) \<Rightarrow> ('s \<times> 'r, 'e, 'r) eio" where
  "eupdate g p = (Inr (g (snd p)), (fst p, g (snd p)))"

definition ecall :: "('s \<Rightarrow> 'a \<times> 's) \<Rightarrow> ('s \<times> 'r, 'e, 'a) eio" where
  "ecall m p = (case m (fst p) of (x, t) \<Rightarrow> (Inr x, (t, snd p)))"

section \<open>Requests and results\<close>

record runner_params =
  rp_ParseDuration :: "string \<Rightarrow> int option"
  rp_unicode_letter :: "string \<Rightarrow> bool"

record ArtifactRequest =
  arq_Service :: string
  arq_Env :: string
  arq_ReleaseID :: string
  arq_Artifact :: ArtifactRef
  arq_RuntimeManifest :: RuntimeManifest

record ArtifactResult =
  ars_Command :: "string list"
  ars_EnvVars :: "go_map option"
  ars_WorkingDirectory :: string

record 's StateStore =
  sst_LoadState :: "('s, LocalState option) io"
  sst_SaveState :: "LocalState \<Rightarrow> ('s, unit) io"

record 's SystemdManager =
  sdm_WriteUnit :: "string \<Rightarrow> string \<Rightarrow> ('s, unit) io"
  sdm_DaemonReload :: "('s, unit) io"
  sdm_StartUnit :: "string \<Rightarrow> ('s, unit) io"
  sdm_RestartUnit :: "string \<Rightarrow> ('s, unit) io"
  sdm_StopUnit :: "string \<Rightarrow> ('s, unit) io"

type_synonym 's EventSink = "StateEvent \<Rightarrow> ('s, unit) io"

record 's LifecycleRequest =
  lq_RuntimeManifest :: RuntimeManifest
  lq_Artifact :: ArtifactRef
  lq_ControlStore :: "'s ObjectStore option"
  lq_StateStore :: "'s StateStore"
  lq_EventSink :: "'s EventSink option"
  lq_Systemd :: "'s SystemdManager option"
  lq_ArtifactPreparer :: "ArtifactRequest \<Rightarrow> ('s, ArtifactResult option) io"
  lq_StatefulVolume :: "StatefulRuntime \<Rightarrow> ('s, unit) io"
  lq_StatefulRecipe :: "'s Recipe option"
  lq_Stateful :: "StatefulRuntime option"
  lq_HealthChecker :: "HealthCheck option \<Rightarrow> 's \<Rightarrow> HealthResult \<times> 's"
  lq_TraceID :: string
  lq_OperationID :: string
  lq_Identity :: "Identity option"
  lq_UnitName :: string
  lq_HealthAttempts :: int
  lq_HealthInterval :: int
  lq_StopTimeout :: int

record LifecycleResult =
  lres_Status :: RunnerStatus
  lres_UnitName :: string
  lres_Events :: "StateEvent list"

record LifecycleError =
  lerr_Code :: string
  lerr_Summary :: string
  lerr_State :: State
  lerr_Err :: "goerr option"

text \<open>A lifecycle that fails returns an error, and from \<^verbatim>\<open>fail\<close> also the result so far.\<close>

datatype lifecycle_exit = NilResult LifecycleError | WithResult LifecycleResult LifecycleError

text \<open>The variables of \<^verbatim>\<open>RunLifecycle\<close> that its closures share: the local state, the events, and \<^verbatim>\<open>req.Stateful\<close>.\<close>

record lrun =
  lr_current :: LocalState
  lr_events :: "StateEvent list"
  lr_stateful :: "StatefulRuntime option"

definition CodeLifecycleInvalid :: string where "CodeLifecycleInvalid = ''RUNNER_LIFECYCLE_INVALID''"
definition CodeArtifactPrepareFailed :: string where "CodeArtifactPrepareFailed = ''ARTIFACT_PREPARE_FAILED''"
definition CodeSystemdRenderFailed :: string where "CodeSystemdRenderFailed = ''SYSTEMD_RENDER_FAILED''"
definition CodeSystemdStartFailed :: string where "CodeSystemdStartFailed = ''SYSTEMD_START_FAILED''"
definition CodeSystemdStopFailed :: string where "CodeSystemdStopFailed = ''SYSTEMD_STOP_FAILED''"
definition CodeHealthCheckFailed :: string where "CodeHealthCheckFailed = ''HEALTH_CHECK_FAILED''"
definition CodeStatefulFenceFailed :: string where "CodeStatefulFenceFailed = ''STATEFUL_FENCE_FAILED''"
definition CodeStatefulVolumeFailed :: string where "CodeStatefulVolumeFailed = ''STATEFUL_VOLUME_FAILED''"
definition CodeStatefulRecipeFailed :: string where "CodeStatefulRecipeFailed = ''STATEFUL_RECIPE_FAILED''"
definition CodeLocalStateReadFailed :: string where "CodeLocalStateReadFailed = ''LOCAL_STATE_READ_FAILED''"
definition CodeLocalStateWriteFailed :: string where "CodeLocalStateWriteFailed = ''LOCAL_STATE_WRITE_FAILED''"
definition CodeRunnerEventWriteFailed :: string where "CodeRunnerEventWriteFailed = ''RUNNER_EVENT_WRITE_FAILED''"

definition lifecycle_error :: "string \<Rightarrow> string \<Rightarrow> State \<Rightarrow> goerr option \<Rightarrow> LifecycleError" where
  "lifecycle_error code summary state err = \<lparr>lerr_Code = code, lerr_Summary = summary, lerr_State = state, lerr_Err = err\<rparr>"

section \<open>Loading the local state\<close>

definition validateRuntimeManifestForLifecycle :: "RuntimeManifest \<Rightarrow> unit result" where
  "validateRuntimeManifestForLifecycle manifest =
     (if rtm_Service manifest = [] then Inl (new_error ''runtime manifest service is required'')
      else if rtm_Env manifest = [] then Inl (new_error ''runtime manifest env is required'')
      else if rtm_ReleaseID manifest = [] then Inl (new_error ''runtime manifest release_id is required'')
      else if rtm_Command manifest = [] then Inl (new_error ''runtime manifest command is required'')
      else Inr ())"

definition default_to :: "string \<Rightarrow> string \<Rightarrow> string" where
  "default_to dflt v = (if v = [] then dflt else v)"

text \<open>The clock is read only if the state has no update time yet.\<close>

definition loadLifecycleState ::
  "('s, 'z) World_scheme \<Rightarrow> 's StateStore \<Rightarrow> RuntimeManifest \<Rightarrow> string \<Rightarrow> Identity option \<Rightarrow> string \<Rightarrow> ('s, LocalState) io" where
  "loadLifecycleState W store manifest traceID identity unitName =
     io_bind (io_bind (io_try (sst_LoadState store)) (\<lambda>r. case r of
         Inl err \<Rightarrow> if is_state_not_found err then io_ret zero_LocalState else io_fail err
       | Inr loaded \<Rightarrow> io_ret (case loaded of None \<Rightarrow> zero_LocalState | Some st \<Rightarrow> st))) (\<lambda>state.
     io_bind (if ls_UpdatedAt state = [] then io_bind (io_now W) (\<lambda>now. io_ret (canonical_Time now)) else io_ret (ls_UpdatedAt state)) (\<lambda>updated.
     io_ret (state\<lparr>
       ls_SchemaVersion := default_to RunnerStateSchemaVersion (ls_SchemaVersion state),
       ls_Service := default_to (rtm_Service manifest) (ls_Service state),
       ls_Env := default_to (rtm_Env manifest) (ls_Env state),
       ls_LastAcceptedRelease := default_to (rtm_ReleaseID manifest) (ls_LastAcceptedRelease state),
       ls_TraceID := default_to traceID (ls_TraceID state),
       ls_UpdatedAt := updated,
       ls_Health := default_to HealthUnknown (ls_Health state),
       ls_WorkloadUnit := default_to unitName (ls_WorkloadUnit state),
       ls_Identity := (if ls_Identity state = None then identity else ls_Identity state)\<rparr>)))"

section \<open>Transitions\<close>

text \<open>An effect on the host, seen from inside a lifecycle, with its error turned into an exit.\<close>

definition host :: "(goerr \<Rightarrow> 'e) \<Rightarrow> ('s, 'a) io \<Rightarrow> ('s \<times> 'r, 'e, 'a) eio" where
  "host exit m p = (case m (fst p) of (Inl e, t) \<Rightarrow> (Inl (exit e), (t, snd p)) | (Inr x, t) \<Rightarrow> (Inr x, (t, snd p)))"

definition no_exit :: "goerr \<Rightarrow> LifecycleError" where
  "no_exit e = lifecycle_error [] [] [] (Some e)"

text \<open>The local state on entering a state, and the event of it.\<close>

definition entered ::
  "'s LifecycleRequest \<Rightarrow> string \<Rightarrow> State \<Rightarrow> HealthStatus \<Rightarrow> gotime \<Rightarrow> StatefulRuntime option \<Rightarrow> LocalState \<Rightarrow> LocalState" where
  "entered req unitName state health now stateful current = current\<lparr>
     ls_CurrentState := state, ls_Health := health, ls_WorkloadUnit := unitName, ls_UpdatedAt := canonical_Time now,
     ls_TraceID := (if lq_TraceID req \<noteq> [] then lq_TraceID req else ls_TraceID current),
     ls_Identity := (if lq_Identity req \<noteq> None then lq_Identity req else ls_Identity current),
     ls_Stateful := (if stateful \<noteq> None then stateful else ls_Stateful current)\<rparr>"

definition lifecycleEvent ::
  "'s LifecycleRequest \<Rightarrow> string \<Rightarrow> State \<Rightarrow> HealthStatus \<Rightarrow> gotime \<Rightarrow> string \<Rightarrow> goerr option \<Rightarrow> LocalState \<Rightarrow> StateEvent" where
  "lifecycleEvent req unitName state health now summary cause current = \<lparr>
     sev_SchemaVersion = RunnerEventSchemaVersion, sev_Time = canonical_Time now, sev_State = state,
     sev_Service = rtm_Service (lq_RuntimeManifest req), sev_Env = rtm_Env (lq_RuntimeManifest req),
     sev_ReleaseID = rtm_ReleaseID (lq_RuntimeManifest req), sev_TraceID = ls_TraceID current, sev_Identity = ls_Identity current,
     sev_Stateful = ls_Stateful current, sev_Health = health, sev_UnitName = unitName, sev_Summary = summary,
     sev_Error = (case cause of None \<Rightarrow> [] | Some e \<Rightarrow> err_text e)\<rparr>"

definition transition ::
  "('s, 'z) World_scheme \<Rightarrow> 's LifecycleRequest \<Rightarrow> string \<Rightarrow> State \<Rightarrow> HealthStatus \<Rightarrow> string \<Rightarrow> goerr option \<Rightarrow>
   ('s \<times> lrun, LifecycleError, unit) eio" where
  "transition W req unitName state health summary cause =
     ebind (host no_exit (io_now W)) (\<lambda>now.
     ebind (eupdate (\<lambda>run. run\<lparr>lr_current := entered req unitName state health now (lr_stateful run) (lr_current run)\<rparr>)) (\<lambda>run.
     ebind (host (\<lambda>e. lifecycle_error CodeLocalStateWriteFailed ''write runner local state'' state (Some e))
       (sst_SaveState (lq_StateStore req) (lr_current run))) (\<lambda>_.
     ebind (host no_exit (io_now W)) (\<lambda>now'.
     let event = lifecycleEvent req unitName state health now' summary cause (lr_current run) in
     ebind (eupdate (\<lambda>run. run\<lparr>lr_events := lr_events run @ [event]\<rparr>)) (\<lambda>_.
     case lq_EventSink req of
       None \<Rightarrow> eret ()
     | Some sink \<Rightarrow>
         host (\<lambda>e. lifecycle_error CodeRunnerEventWriteFailed ''write runner state transition event'' state (Some e)) (sink event))))))"

definition result_of :: "string \<Rightarrow> 's \<times> lrun \<Rightarrow> LifecycleResult" where
  "result_of unitName p = \<lparr>lres_Status = StatusFromState (lr_current (snd p)), lres_UnitName = unitName, lres_Events = lr_events (snd p)\<rparr>"

definition lifecycle_fail ::
  "('s, 'z) World_scheme \<Rightarrow> 's LifecycleRequest \<Rightarrow> string \<Rightarrow> string \<Rightarrow> string \<Rightarrow> State \<Rightarrow> goerr \<Rightarrow> ('s \<times> lrun, lifecycle_exit, 'a) eio" where
  "lifecycle_fail W req unitName code summary state cause p =
     (case transition W req unitName StateFailed HealthUnhealthy summary (Some cause) p of
        (Inl err, q) \<Rightarrow> (Inl (WithResult (result_of unitName q) err), q)
      | (Inr _, q) \<Rightarrow> (Inl (WithResult (result_of unitName q) (lifecycle_error code summary state (Some cause))), q))"

text \<open>A transition whose error is returned without a result, and an effect whose error leads to \<^verbatim>\<open>fail\<close>.\<close>

definition move ::
  "('s, 'z) World_scheme \<Rightarrow> 's LifecycleRequest \<Rightarrow> string \<Rightarrow> State \<Rightarrow> HealthStatus \<Rightarrow> string \<Rightarrow> ('s \<times> lrun, lifecycle_exit, unit) eio" where
  "move W req unitName state health summary p =
     (case transition W req unitName state health summary None p of (Inl err, q) \<Rightarrow> (Inl (NilResult err), q) | (Inr u, q) \<Rightarrow> (Inr u, q))"

definition attempt ::
  "('s, 'z) World_scheme \<Rightarrow> 's LifecycleRequest \<Rightarrow> string \<Rightarrow> string \<Rightarrow> string \<Rightarrow> State \<Rightarrow> ('s, 'a) io \<Rightarrow> ('s \<times> lrun, lifecycle_exit, 'a) eio" where
  "attempt W req unitName code summary state m p =
     (case m (fst p) of
        (Inl e, t) \<Rightarrow> lifecycle_fail W req unitName code summary state e (t, snd p)
      | (Inr x, t) \<Rightarrow> (Inr x, (t, snd p)))"

text \<open>The fence, with the runtime it returns kept in \<^verbatim>\<open>req.Stateful\<close>.\<close>

definition fence ::
  "('s, 'z) World_scheme \<Rightarrow> 's LifecycleRequest \<Rightarrow> string \<Rightarrow> string \<Rightarrow> State \<Rightarrow> StatefulRuntime option \<Rightarrow>
   ('s \<times> lrun, lifecycle_exit, StatefulRuntime option) eio" where
  "fence W req unitName summary state requested =
     ebind (eupdate id) (\<lambda>run.
     ebind (attempt W req unitName CodeStatefulFenceFailed summary state
       (currentStatefulRuntime W (lr_current run) requested (lq_ControlStore req) (lq_Identity req))) (\<lambda>validated.
     ebind (eupdate (\<lambda>run. if validated = None then run else run\<lparr>lr_stateful := validated\<rparr>)) (\<lambda>_.
     eret validated)))"

section \<open>The lifecycle\<close>

record workload =
  wl_command :: "string list"
  wl_envVars :: go_map
  wl_workingDirectory :: string

definition artifactWorkload :: "RuntimeManifest \<Rightarrow> ArtifactResult option \<Rightarrow> workload" where
  "artifactWorkload manifest artifact = (case artifact of
      None \<Rightarrow> \<lparr>wl_command = rtm_Command manifest, wl_envVars = rtm_EnvVars manifest, wl_workingDirectory = []\<rparr>
    | Some a \<Rightarrow> \<lparr>wl_command = (if ars_Command a \<noteq> [] then ars_Command a else rtm_Command manifest),
        wl_envVars = (case ars_EnvVars a of Some env \<Rightarrow> env | None \<Rightarrow> rtm_EnvVars manifest),
        wl_workingDirectory = ars_WorkingDirectory a\<rparr>)"

definition prepareStateful ::
  "('s, 'z) World_scheme \<Rightarrow> 's LifecycleRequest \<Rightarrow> string \<Rightarrow> StatefulRuntime \<Rightarrow> ('s \<times> lrun, lifecycle_exit, unit) eio" where
  "prepareStateful W req unitName runtime =
     ebind (move W req unitName StatePreparingArtifact HealthUnknown ''preparing stateful durable volume'') (\<lambda>_.
     ebind (attempt W req unitName CodeStatefulVolumeFailed ''prepare stateful durable volume'' StatePreparingArtifact
       (lq_StatefulVolume req runtime)) (\<lambda>_.
     attempt W req unitName CodeStatefulRecipeFailed ''run stateful recipe start hook'' StatePreparingArtifact
       (runStatefulRecipeStart (lq_StatefulRecipe req) runtime (lq_OperationID req) (lq_TraceID req))))"

definition prepareWorkload ::
  "('s, 'z) World_scheme \<Rightarrow> 's LifecycleRequest \<Rightarrow> string \<Rightarrow> ('s \<times> lrun, lifecycle_exit, StatefulRuntime option \<times> workload) eio" where
  "prepareWorkload W req unitName =
     (let manifest = lq_RuntimeManifest req in
      ebind (move W req unitName StatePreparingArtifact HealthUnknown ''preparing workload artifact'') (\<lambda>_.
      ebind (fence W req unitName ''validate stateful member control'' StatePreparingArtifact (lq_Stateful req)) (\<lambda>runtime.
      ebind (attempt W req unitName CodeArtifactPrepareFailed ''prepare workload artifact'' StatePreparingArtifact
        (lq_ArtifactPreparer req \<lparr>arq_Service = rtm_Service manifest, arq_Env = rtm_Env manifest, arq_ReleaseID = rtm_ReleaseID manifest,
           arq_Artifact = lq_Artifact req, arq_RuntimeManifest = manifest\<rparr>)) (\<lambda>artifact.
      let wl = artifactWorkload manifest artifact in
      case runtime of
        None \<Rightarrow> eret (None, wl)
      | Some rt \<Rightarrow>
          ebind (prepareStateful W req unitName rt) (\<lambda>_.
          eret (Some rt, wl\<lparr>wl_envVars := statefulEnvVars (wl_envVars wl) rt\<rparr>))))))"

definition renderWorkload ::
  "runner_params \<Rightarrow> ('s, 'z) World_scheme \<Rightarrow> 's LifecycleRequest \<Rightarrow> 's SystemdManager \<Rightarrow> string \<Rightarrow> workload \<Rightarrow>
   ('s \<times> lrun, lifecycle_exit, unit) eio" where
  "renderWorkload P W req systemd unitName wl =
     (let manifest = lq_RuntimeManifest req in
      ebind (move W req unitName StateRenderingConfig HealthUnknown ''rendering workload systemd unit'') (\<lambda>_.
      ebind (attempt W req unitName CodeSystemdRenderFailed ''render workload systemd unit'' StateRenderingConfig
        (io_lift (RenderWorkloadUnit (rp_unicode_letter P) \<lparr>wus_Service = rtm_Service manifest, wus_Env = rtm_Env manifest,
           wus_ReleaseID = rtm_ReleaseID manifest, wus_Command = wl_command wl, wus_EnvVars = wl_envVars wl,
           wus_WorkingDirectory = wl_workingDirectory wl, wus_User = [], wus_Group = [], wus_RestartSec = 0,
           wus_StopTimeout = lq_StopTimeout req\<rparr>))) (\<lambda>contents.
      ebind (attempt W req unitName CodeSystemdRenderFailed ''write workload systemd unit'' StateRenderingConfig
        (sdm_WriteUnit systemd unitName contents)) (\<lambda>_.
      attempt W req unitName CodeSystemdStartFailed ''reload systemd units'' StateRenderingConfig (sdm_DaemonReload systemd)))))"

definition startWorkload ::
  "('s, 'z) World_scheme \<Rightarrow> 's LifecycleRequest \<Rightarrow> 's SystemdManager \<Rightarrow> string \<Rightarrow> ('s \<times> lrun, lifecycle_exit, unit) eio" where
  "startWorkload W req systemd unitName =
     ebind (move W req unitName StateStartingWorkload HealthUnknown ''starting workload through systemd'') (\<lambda>_.
     attempt W req unitName CodeSystemdStartFailed ''restart workload unit'' StateStartingWorkload (sdm_RestartUnit systemd unitName))"

definition durationOrDefault :: "runner_params \<Rightarrow> string \<Rightarrow> int \<Rightarrow> int" where
  "durationOrDefault P v fallback =
     (if v = [] then fallback
      else (case rp_ParseDuration P v of None \<Rightarrow> fallback | Some d \<Rightarrow> if d \<le> 0 then fallback else d))"

definition healthFailureCause :: "HealthResult \<Rightarrow> goerr" where
  "healthFailureCause result =
     (if hr_Error result \<noteq> [] then new_error (hr_Error result)
      else if hr_Summary result \<noteq> [] then new_error (hr_Summary result)
      else new_error ''health check did not become healthy'')"

definition serveWorkload ::
  "('s, 'z) World_scheme \<Rightarrow> 's LifecycleRequest \<Rightarrow> string \<Rightarrow> StatefulRuntime option \<Rightarrow> ('s \<times> lrun, lifecycle_exit, LifecycleResult) eio" where
  "serveWorkload W req unitName runtime =
     ebind (case runtime of
         None \<Rightarrow> eret ()
       | Some rt \<Rightarrow>
           ebind (fence W req unitName ''validate stateful member before serving'' StateWaitingForHealth (Some rt)) (\<lambda>validated.
           case validated of
             None \<Rightarrow> eret ()
           | Some rt' \<Rightarrow> attempt W req unitName CodeStatefulRecipeFailed ''run stateful recipe health hook'' StateWaitingForHealth
               (runStatefulRecipeHealth (lq_StatefulRecipe req) rt' (lq_OperationID req) (lq_TraceID req)))) (\<lambda>_.
     ebind (move W req unitName StateServing HealthHealthy ''workload is serving'') (\<lambda>_ q.
     (Inr (result_of unitName q), q)))"

text \<open>The checks that are left, after the first of them and the last result; each failed one but the last waits.\<close>

primrec healthLoop ::
  "('s, 'z) World_scheme \<Rightarrow> 's LifecycleRequest \<Rightarrow> string \<Rightarrow> StatefulRuntime option \<Rightarrow> int \<Rightarrow> nat \<Rightarrow>
   ('s \<times> lrun, lifecycle_exit, LifecycleResult) eio" where
  "healthLoop W req unitName runtime interval 0 = lifecycle_fail W req unitName CodeHealthCheckFailed
     ''workload health check did not become healthy'' StateWaitingForHealth (new_error ''health check did not become healthy'')"
| "healthLoop W req unitName runtime interval (Suc left) =
     ebind (ecall (lq_HealthChecker req (rtm_HealthCheck (lq_RuntimeManifest req)))) (\<lambda>result.
     if hr_Status result = HealthHealthy then serveWorkload W req unitName runtime
     else if left = 0 then
       lifecycle_fail W req unitName CodeHealthCheckFailed
         (if hr_Summary result \<noteq> [] then hr_Summary result else ''workload health check did not become healthy'')
         StateWaitingForHealth (healthFailureCause result)
     else if interval > 0 then
       ebind (attempt W req unitName CodeHealthCheckFailed ''wait for workload health check'' StateWaitingForHealth (io_sleep W interval))
         (\<lambda>_. healthLoop W req unitName runtime interval left)
     else healthLoop W req unitName runtime interval left)"

definition awaitHealth ::
  "runner_params \<Rightarrow> ('s, 'z) World_scheme \<Rightarrow> 's LifecycleRequest \<Rightarrow> string \<Rightarrow> StatefulRuntime option \<Rightarrow>
   ('s \<times> lrun, lifecycle_exit, LifecycleResult) eio" where
  "awaitHealth P W req unitName runtime =
     ebind (move W req unitName StateWaitingForHealth HealthUnknown ''waiting for workload health check'') (\<lambda>_.
     (let attempts = (if lq_HealthAttempts req < 1 then 1 else lq_HealthAttempts req);
          interval = (case rtm_HealthCheck (lq_RuntimeManifest req) of
              Some check \<Rightarrow> if lq_HealthInterval req \<le> 0 then durationOrDefault P (hck_Interval check) (10 * second) else lq_HealthInterval req
            | None \<Rightarrow> lq_HealthInterval req)
      in healthLoop W req unitName runtime interval (nat attempts)))"

definition RunLifecycle ::
  "runner_params \<Rightarrow> ('s, 'z) World_scheme \<Rightarrow> 's LifecycleRequest \<Rightarrow> ('s, lifecycle_exit, LifecycleResult) eio" where
  "RunLifecycle P W req s = (case lq_Systemd req of
      None \<Rightarrow> (Inl (NilResult (lifecycle_error CodeLifecycleInvalid ''systemd manager is required'' [] None)), s)
    | Some systemd \<Rightarrow>
      (let manifest = lq_RuntimeManifest req in
      case validateRuntimeManifestForLifecycle manifest of
        Inl err \<Rightarrow> (Inl (NilResult (lifecycle_error CodeLifecycleInvalid (err_text err) [] (Some err))), s)
      | Inr _ \<Rightarrow>
        (let unitName = (if lq_UnitName req = [] then WorkloadUnitName (rp_unicode_letter P) (rtm_Service manifest) (rtm_Env manifest)
               else lq_UnitName req) in
         case loadLifecycleState W (lq_StateStore req) manifest (lq_TraceID req) (lq_Identity req) unitName s of
           (Inl err, t) \<Rightarrow> (Inl (NilResult (lifecycle_error CodeLocalStateReadFailed ''read runner local state'' [] (Some err))), t)
         | (Inr current, t) \<Rightarrow>
             (case ebind (prepareWorkload W req unitName) (\<lambda>(runtime, wl).
                   ebind (renderWorkload P W req systemd unitName wl) (\<lambda>_.
                   ebind (startWorkload W req systemd unitName) (\<lambda>_.
                   awaitHealth P W req unitName runtime)))
                 (t, \<lparr>lr_current = current, lr_events = [], lr_stateful = lq_Stateful req\<rparr>) of
                (r, (u, _)) \<Rightarrow> (r, u)))))"

section \<open>Stopping\<close>

record 's StopRequest =
  stq_Service :: string
  stq_Env :: string
  stq_ReleaseID :: string
  stq_StateStore :: "'s StateStore"
  stq_EventSink :: "'s EventSink option"
  stq_Systemd :: "'s SystemdManager option"
  stq_StatefulRecipe :: "'s Recipe option"
  stq_Stateful :: "StatefulRuntime option"
  stq_UnitName :: string
  stq_TraceID :: string
  stq_OperationID :: string
  stq_Identity :: "Identity option"
  stq_Drain :: "('s, unit) io option"

text \<open>The closure \<^verbatim>\<open>transition\<close> of \<^verbatim>\<open>StopWorkload\<close>: the health is the one of the local state, and the event names its release.\<close>

definition stopEntered :: "'s StopRequest \<Rightarrow> string \<Rightarrow> State \<Rightarrow> gotime \<Rightarrow> LocalState \<Rightarrow> LocalState" where
  "stopEntered req unitName state now current = current\<lparr>
     ls_CurrentState := state, ls_WorkloadUnit := unitName, ls_UpdatedAt := canonical_Time now,
     ls_TraceID := (if stq_TraceID req \<noteq> [] then stq_TraceID req else ls_TraceID current),
     ls_Identity := (if stq_Identity req \<noteq> None then stq_Identity req else ls_Identity current),
     ls_Stateful := (if stq_Stateful req \<noteq> None then stq_Stateful req else ls_Stateful current)\<rparr>"

definition stopTransition ::
  "('s, 'z) World_scheme \<Rightarrow> 's StopRequest \<Rightarrow> string \<Rightarrow> State \<Rightarrow> string \<Rightarrow> goerr option \<Rightarrow> ('s \<times> LocalState, LifecycleError, unit) eio" where
  "stopTransition W req unitName state summary cause =
     ebind (host no_exit (io_now W)) (\<lambda>now.
     ebind (eupdate (stopEntered req unitName state now)) (\<lambda>current.
     ebind (host (\<lambda>e. lifecycle_error CodeLocalStateWriteFailed ''write runner local state'' state (Some e))
       (sst_SaveState (stq_StateStore req) current)) (\<lambda>_.
     case stq_EventSink req of
       None \<Rightarrow> eret ()
     | Some sink \<Rightarrow>
         ebind (host no_exit (io_now W)) (\<lambda>now'.
         host (\<lambda>e. lifecycle_error CodeRunnerEventWriteFailed ''write runner state transition event'' state (Some e))
           (sink \<lparr>sev_SchemaVersion = RunnerEventSchemaVersion, sev_Time = canonical_Time now', sev_State = state,
              sev_Service = ls_Service current, sev_Env = ls_Env current, sev_ReleaseID = ls_LastAcceptedRelease current,
              sev_TraceID = ls_TraceID current, sev_Identity = ls_Identity current, sev_Stateful = ls_Stateful current,
              sev_Health = ls_Health current, sev_UnitName = unitName, sev_Summary = summary,
              sev_Error = (case cause of None \<Rightarrow> [] | Some e \<Rightarrow> err_text e)\<rparr>)))))"

text \<open>An effect of \<^verbatim>\<open>StopWorkload\<close> whose error ends in \<^verbatim>\<open>Failed\<close>, if that can still be saved.\<close>

definition stopAttempt ::
  "('s, 'z) World_scheme \<Rightarrow> 's StopRequest \<Rightarrow> string \<Rightarrow> string \<Rightarrow> string \<Rightarrow> State \<Rightarrow> ('s, unit) io \<Rightarrow>
   ('s \<times> LocalState, LifecycleError, unit) eio" where
  "stopAttempt W req unitName code summary state m p =
     (case m (fst p) of
        (Inl e, t) \<Rightarrow> (case stopTransition W req unitName StateFailed summary (Some e) (t, snd p) of
            (_, q) \<Rightarrow> (Inl (lifecycle_error code summary state (Some e)), q))
      | (Inr x, t) \<Rightarrow> (Inr x, (t, snd p)))"

definition stopSteps ::
  "('s, 'z) World_scheme \<Rightarrow> 's StopRequest \<Rightarrow> 's SystemdManager \<Rightarrow> string \<Rightarrow> ('s \<times> LocalState, LifecycleError, unit) eio" where
  "stopSteps W req systemd unitName =
     ebind (stopTransition W req unitName StateDraining ''draining workload'' None) (\<lambda>_.
     ebind (case stq_Drain req of
         None \<Rightarrow> eret ()
       | Some drain \<Rightarrow> stopAttempt W req unitName CodeSystemdStopFailed ''drain workload'' StateDraining drain) (\<lambda>_.
     ebind (case stq_Stateful req of
         None \<Rightarrow> eret ()
       | Some runtime \<Rightarrow> stopAttempt W req unitName CodeStatefulRecipeFailed ''run stateful recipe stop hook'' StateDraining
           (runStatefulRecipeStop (stq_StatefulRecipe req) runtime (stq_OperationID req) (stq_TraceID req))) (\<lambda>_.
     ebind (stopTransition W req unitName StateStopping ''stopping workload through systemd'' None) (\<lambda>_.
     ebind (stopAttempt W req unitName CodeSystemdStopFailed ''stop workload unit'' StateStopping (sdm_StopUnit systemd unitName)) (\<lambda>_.
     ebind (eupdate (\<lambda>current. current\<lparr>ls_Health := HealthUnknown\<rparr>)) (\<lambda>_.
     stopTransition W req unitName StateStopped ''workload stopped'' None))))))"

definition StopWorkload ::
  "runner_params \<Rightarrow> ('s, 'z) World_scheme \<Rightarrow> 's StopRequest \<Rightarrow> ('s, LifecycleError, unit) eio" where
  "StopWorkload P W req s = (case stq_Systemd req of
      None \<Rightarrow> (Inl (lifecycle_error CodeLifecycleInvalid ''systemd manager is required'' [] None), s)
    | Some systemd \<Rightarrow>
      (let unitName = (if stq_UnitName req = [] then WorkloadUnitName (rp_unicode_letter P) (stq_Service req) (stq_Env req)
             else stq_UnitName req) in
       case loadLifecycleState W (stq_StateStore req)
           (zero_RuntimeManifest\<lparr>rtm_Service := stq_Service req, rtm_Env := stq_Env req, rtm_ReleaseID := stq_ReleaseID req\<rparr>)
           (stq_TraceID req) (stq_Identity req) unitName s of
         (Inl err, t) \<Rightarrow> (Inl (lifecycle_error CodeLocalStateReadFailed ''read runner local state'' [] (Some err)), t)
       | (Inr current, t) \<Rightarrow>
           (case stopSteps W (req\<lparr>stq_Stateful := (if stq_Stateful req = None then ls_Stateful current else stq_Stateful req)\<rparr>)
               systemd unitName (t, current) of
              (r, (u, _)) \<Rightarrow> (r, u))))"

end
