(* ===== verification/Ops_Resume.thy ===== *)
theory Ops_Resume
  imports Rollout Runner
begin

text \<open>
  Resuming an operation (internal/ops/resume.go): an unfinished operation with a stored provider id is
  taken over under its lease, its rollout is watched once, and a rollback whose rollout has succeeded
  completes its saga. The deferred release of the lease is what \<open>deferred\<close> runs after the rest,
  whatever that returned.

  The object store of a \<^verbatim>\<open>Resumer\<close> is the world itself, so \<^verbatim>\<open>NewLog\<close> and \<^verbatim>\<open>NewStore\<close> never fail; the
  provider may be missing.
\<close>

section \<open>Types\<close>

record ResumeRequest =
  rsq_Service :: string
  rsq_OperationID :: string
  rsq_Actor :: Actor
  rsq_TraceID :: string
  rsq_Owner :: string
  rsq_LeaseDuration :: int
  rsq_Takeover :: bool

record ResumeResult =
  rsr_OK :: bool
  rsr_OperationID :: string
  rsr_Service :: string
  rsr_Env :: string
  rsr_Kind :: string
  rsr_TraceID :: string
  rsr_PreviousStatus :: string
  rsr_Status :: string
  rsr_Resumed :: bool
  rsr_TookOver :: bool
  rsr_RolloutStatus :: "RolloutStatus option"
  rsr_ProviderOperations :: "ProviderOperationRef list"
  rsr_NextCommands :: "string list"

definition defaultOperationLeaseDuration :: int where "defaultOperationLeaseDuration = 30000000000"

text \<open>A request with its defaults; the trace id of a request without one is new.\<close>

definition normalizeResumeRequest :: "ResumeRequest \<Rightarrow> gotime \<Rightarrow> ResumeRequest" where
  "normalizeResumeRequest req now =
     (let service = TrimSpace (rsq_Service req);
          operation = TrimSpace (rsq_OperationID req);
          actor0 = (if act_ID (rsq_Actor req) = [] then \<lparr>act_ID = ''skiff'', act_Type = ''user''\<rparr> else rsq_Actor req);
          actor = (if act_Type actor0 = [] then actor0\<lparr>act_Type := ''user''\<rparr> else actor0)
      in req\<lparr>rsq_Service := service, rsq_OperationID := operation, rsq_Actor := actor,
           rsq_Owner := (if rsq_Owner req = [] then act_ID actor else rsq_Owner req),
           rsq_TraceID := (if rsq_TraceID req = [] then ''tr_'' @ NewID now now (service @ operation @ ''resume'') else rsq_TraceID req),
           rsq_LeaseDuration := (if rsq_LeaseDuration req \<le> 0 then defaultOperationLeaseDuration else rsq_LeaseDuration req)\<rparr>)"

section \<open>Helpers\<close>

definition firstASGRollout :: "ProviderOperationRef list \<Rightarrow> ProviderOperationRef" where
  "firstASGRollout refs =
     (case find (\<lambda>ref. por_Provider ref = aws_Name \<and> por_Kind ref = RolloutKindASGInstanceRefresh \<and> por_ID ref \<noteq> []) refs of
        Some ref \<Rightarrow> ref
      | None \<Rightarrow> (case find (\<lambda>ref. por_ID ref \<noteq> []) refs of Some ref \<Rightarrow> ref | None \<Rightarrow> zero_ProviderOperationRef))"

definition appendResumeEvent ::
  "('s, 'z) World_scheme \<Rightarrow> string \<Rightarrow> string \<Rightarrow> string \<Rightarrow> Actor \<Rightarrow> string \<Rightarrow> string \<Rightarrow> gotime \<Rightarrow> Fact list \<Rightarrow> ('s, unit) io" where
  "appendResumeEvent W service operationID traceID actor eventType summary now facts =
     io_bind (log_Append W ((NewOperationEvent now service operationID eventType summary now (traceID @ eventType))
       \<lparr>ee_TraceID := traceID, ee_Actor := Some actor, ee_Facts := facts\<rparr>)) (\<lambda>_. io_ret ())"

definition takeoverFacts :: "Lease option \<Rightarrow> string \<Rightarrow> Fact list" where
  "takeoverFacts previous owner = zero_Fact\<lparr>fct_Type := ''new_owner'', fct_Message := owner\<rparr> # (case previous of
      None \<Rightarrow> []
    | Some l \<Rightarrow> [zero_Fact\<lparr>fct_Type := ''previous_owner'', fct_Message := lse_Owner l\<rparr>,
                zero_Fact\<lparr>fct_Type := ''previous_expires_at'', fct_Message := lse_ExpiresAt l\<rparr>])"

definition appendTakeover ::
  "('s, 'z) World_scheme \<Rightarrow> string \<Rightarrow> string \<Rightarrow> string \<Rightarrow> Actor \<Rightarrow> Lease option \<Rightarrow> string \<Rightarrow> gotime \<Rightarrow> ('s, unit) io" where
  "appendTakeover W service operationID traceID actor previous owner now =
     io_bind (log_Append W ((NewOperationEvent now service operationID ''operation.takeover''
         ''worker took over expired operation lease'' now (traceID @ ''operation.takeover''))
       \<lparr>ee_TraceID := traceID, ee_Actor := Some actor, ee_Facts := takeoverFacts previous owner\<rparr>)) (\<lambda>_.
     io_bind (log_AppendAudit W ((NewAuditRecord now actor (zero_Target\<lparr>tgt_Kind := ''operation'', tgt_Name := operationID\<rparr>)
         ''operation_takeover'' (''worker took over expired operation '' @ operationID) traceID now (operationID @ ''takeover''))
       \<lparr>ar_Risk := RiskLow, ar_Data := Raw (JObj [(''operation_id'', JStr operationID), (''owner'', JStr owner), (''service'', JStr service)])\<rparr>)) (\<lambda>_.
     io_ret ()))"

definition nextCommands :: "string \<Rightarrow> string \<Rightarrow> string \<Rightarrow> string \<Rightarrow> string list" where
  "nextCommands service operationID traceID sagaID =
     [''skiff ops inspect '' @ operationID @ '' --service '' @ service @ '' --format json --trace-id '' @ traceID,
      ''skiff ops watch '' @ service @ '' --operation '' @ operationID @ '' --format json --trace-id '' @ traceID,
      ''skiff status '' @ service @ '' --format json --trace-id '' @ traceID] @
     (if sagaID \<noteq> [] then [''skiff ops inspect '' @ sagaID @ '' --format json --trace-id '' @ traceID] else [])"

text \<open>
  \<^verbatim>\<open>json.Unmarshal\<close> into a struct with one string field: a value under a matching key that is neither a
  string nor null is an error, other keys are skipped.
\<close>

definition sagaIDFromIntent :: "OperationIntent option \<Rightarrow> string" where
  "sagaIDFromIntent intent = (case intent of
      None \<Rightarrow> []
    | Some i \<Rightarrow> (case oi_Params i of
        Raw (JObj kvs) \<Rightarrow>
          if list_all (\<lambda>(k, v). fold_key k \<noteq> ''saga_id'' \<or> (case v of JStr _ \<Rightarrow> True | JNull \<Rightarrow> True | _ \<Rightarrow> False)) kvs
          then last_string kvs ''saga_id'' else []
      | _ \<Rightarrow> []))"

definition upsertSagaStepRef :: "StepResultRef list \<Rightarrow> StepResultRef \<Rightarrow> StepResultRef list" where
  "upsertSagaStepRef refs nxt = filter (\<lambda>ref. srr_StepID ref \<noteq> srr_StepID nxt) refs @ [nxt]"

section \<open>Completing the saga of a rollback\<close>

definition deferred :: "('s \<Rightarrow> 'd \<times> 's) \<Rightarrow> ('s, 'a) io \<Rightarrow> ('s, 'a) io" where
  "deferred cleanup m s = (case m s of (r, t) \<Rightarrow> (case cleanup t of (_, u) \<Rightarrow> (r, u)))"

definition rollbackStepRefs :: "ops_InspectResult \<Rightarrow> RolloutStatus \<Rightarrow> gotime \<Rightarrow> StepResultRef list \<Rightarrow> StepResultRef list" where
  "rollbackStepRefs insp status now refs =
     upsertSagaStepRef (upsertSagaStepRef refs
       \<lparr>srr_StepID = ''watch-rollout-health'', srr_Kind = ''provider.aws.asg_instance_refresh.watch'', srr_Status = ''succeeded'',
        srr_Result = Raw (JObj [(''provider_id'', JStr (rs_ProviderID status)), (''status'', JStr (rs_Status status))]),
        srr_ResultRef = [], srr_Failure = None, srr_ProviderOperations = [], srr_CompletedAt = canonical_Time now\<rparr>)
       \<lparr>srr_StepID = ''mark-complete'', srr_Kind = ''operation.rollback.complete'', srr_Status = ''succeeded'',
        srr_Result = Raw (JObj [(''operation_id'', JStr (oir_OperationID insp))]),
        srr_ResultRef = [], srr_Failure = None, srr_ProviderOperations = [], srr_CompletedAt = canonical_Time now\<rparr>"

definition rollbackEvent :: "ops_InspectResult \<Rightarrow> RolloutStatus \<Rightarrow> string \<Rightarrow> gotime \<Rightarrow> Event" where
  "rollbackEvent insp status sagaID now =
     \<lparr>ev_SchemaVersion = schema_Version, ev_ID = NewID now now (oir_OperationID insp @ ''rollback-saga-resumed''),
      ev_Time = canonical_Time now, ev_TraceID = oir_TraceID insp,
      ev_Subject = zero_Target\<lparr>tgt_Kind := ''saga'', tgt_Name := sagaID\<rparr>, ev_Type = ''saga.resume.succeeded'', ev_Severity = ''info'',
      ev_Actor = None, ev_Summary = ''rollback saga completed after operation resume'',
      ev_Facts = [zero_Fact\<lparr>fct_Type := ''operation_id'', fct_Message := oir_OperationID insp\<rparr>,
                  zero_Fact\<lparr>fct_Type := ''rollout_status'', fct_Message := rs_Status status\<rparr>],
      ev_Data = RawEmpty\<rparr>"

text \<open>What runs under the saga lease; the lease that is released at the end is the latest one.\<close>

definition completeRollbackLeased ::
  "('s, 'z) World_scheme \<Rightarrow> ops_InspectResult \<Rightarrow> RolloutStatus \<Rightarrow> string \<Rightarrow> SagaLeaseHandle \<Rightarrow> SagaControl \<Rightarrow> ('s, unit) io" where
  "completeRollbackLeased W insp status sagaID handle control =
     io_bind (io_now W) (\<lambda>now.
     (let refs = rollbackStepRefs insp status now (sct_StepResults control) in
      io_bind (io_try (UpdateControlWithLeaseCAS W handle
          (\<lambda>c. Inr (c\<lparr>sct_Status := SagaSucceeded, sct_CurrentSteps := [], sct_StepResults := refs\<rparr>)))) (\<lambda>r. case r of
         Inl err \<Rightarrow> deferred (saga_ReleaseLease W handle) (io_fail err)
       | Inr (nextHandle, _) \<Rightarrow> deferred (saga_ReleaseLease W nextHandle)
           (io_bind (saga_AppendEvent W sagaID (rollbackEvent insp status sagaID now)) (\<lambda>_. io_ret ())))))"

definition completeRollbackSagaAfterResume ::
  "('s, 'z) World_scheme \<Rightarrow> ops_InspectResult \<Rightarrow> RolloutStatus \<Rightarrow> ('s, unit) io" where
  "completeRollbackSagaAfterResume W insp status =
     (let sagaID = sagaIDFromIntent (oir_Intent insp) in
      if sagaID = [] \<or> rs_Status status \<noteq> ''succeeded'' then io_ret ()
      else
        io_bind (GetControl W sagaID) (\<lambda>current.
        if sct_Status (cdoc_Control current) \<in> {SagaSucceeded, SagaFailed, SagaCanceled} then io_ret ()
        else
          io_bind (io_try (saga_AcquireLease W sagaID \<lparr>slo_Owner = ''operation-resume'', slo_Duration = defaultOperationLeaseDuration\<rparr>)) (\<lambda>r. case r of
             Inl err \<Rightarrow> if is_state CodeLeaseHeld err then io_ret () else io_fail err
           | Inr (handle, doc) \<Rightarrow> completeRollbackLeased W insp status sagaID handle (cdoc_Control doc))))"

section \<open>Resume\<close>

text \<open>The result under construction is the second part of the state; an early return keeps what it holds.\<close>

type_synonym ('s, 'a) rio = "('s \<times> ResumeResult, goerr, 'a) eio"

definition efail :: "'e \<Rightarrow> ('s, 'e, 'a) eio" where
  "efail e s = (Inl e, s)"

definition edeferred :: "('s \<Rightarrow> 'd \<times> 's) \<Rightarrow> ('s \<times> 'r, 'e, 'a) eio \<Rightarrow> ('s \<times> 'r, 'e, 'a) eio" where
  "edeferred cleanup m p = (case m p of (r, (t, res)) \<Rightarrow> (case cleanup t of (_, u) \<Rightarrow> (r, (u, res))))"

definition io_at :: "('s, 'z) World_scheme \<Rightarrow> (gotime \<Rightarrow> ('s, 'a) io) \<Rightarrow> ('s, 'a) io" where
  "io_at W f = io_bind (io_now W) f"

definition resumeBegun :: "('s, 'z) World_scheme \<Rightarrow> ResumeRequest \<Rightarrow> ops_InspectResult \<Rightarrow> LeaseAcquireResult \<Rightarrow> ('s, unit) io" where
  "resumeBegun W req insp acquired =
     (if rsq_Takeover req \<and> lar_TookOver acquired then
        io_at W (appendTakeover W (oir_Service insp) (oir_OperationID insp) (rsq_TraceID req) (rsq_Actor req) (lar_PreviousLease acquired) (rsq_Owner req))
      else
        io_at W (\<lambda>now. appendResumeEvent W (oir_Service insp) (oir_OperationID insp) (rsq_TraceID req) (rsq_Actor req)
          ''operation.resume.started'' ''operation resume started'' now []))"

definition resumeWatch :: "ResumeRequest \<Rightarrow> ops_InspectResult \<Rightarrow> string \<Rightarrow> string \<Rightarrow> WatchRolloutRequest" where
  "resumeWatch req insp traceID providerID =
     \<lparr>wrq_Service = oir_Service insp, wrq_Env = oir_Env insp, wrq_OperationID = oir_OperationID insp,
      wrq_RolloutID = oir_OperationID insp, wrq_ProviderID = providerID, wrq_TraceID = traceID, wrq_Actor = rsq_Actor req\<rparr>"

text \<open>After a watched rollout: the result is brought up to date and the saga of a rollback completed.\<close>

definition resumeFinish :: "('s, 'z) World_scheme \<Rightarrow> ResumeRequest \<Rightarrow> ops_InspectResult \<Rightarrow> RolloutStatus \<Rightarrow> ('s, unit) rio" where
  "resumeFinish W req insp status =
     ebind (eupdate (\<lambda>r. r\<lparr>rsr_Resumed := True, rsr_RolloutStatus := Some status\<rparr>)) (\<lambda>_.
     ebind (host id (io_try (ops_GetControl W (oir_Service insp) (oir_OperationID insp)))) (\<lambda>c.
     ebind (eupdate (\<lambda>r. case c of
         Inl _ \<Rightarrow> r
       | Inr current \<Rightarrow> r\<lparr>rsr_Status := oc_Status (ocd_Control current), rsr_ProviderOperations := oc_ProviderOperations (ocd_Control current)\<rparr>)) (\<lambda>result.
     ebind (if rsr_Status result = OperationSucceeded \<and> oir_Kind insp = ''rollback''
            then host id (io_try (completeRollbackSagaAfterResume W insp status)) else eret (Inr ())) (\<lambda>_.
     ebind (host id (io_try (io_at W (\<lambda>now. appendResumeEvent W (oir_Service insp) (oir_OperationID insp) (rsr_TraceID result) (rsq_Actor req)
        ''operation.resume.completed'' ''operation resume completed'' now [])))) (\<lambda>_.
     eret ())))))"

definition resumeLeased ::
  "('s, 'z) World_scheme \<Rightarrow> 's Provider \<Rightarrow> ResumeRequest \<Rightarrow> ops_InspectResult \<Rightarrow> string \<Rightarrow> LeaseAcquireResult \<Rightarrow> ('s, unit) rio" where
  "resumeLeased W P req insp traceID acquired =
     ebind (host id (io_try (resumeBegun W req insp acquired))) (\<lambda>_.
     (let ref = firstASGRollout (oir_ProviderOperations insp) in
      if por_ID ref = [] then
        efail (new_error (''operation '' @ rsq_OperationID req @ '' has no stored ASG instance refresh provider ID''))
      else
        ebind (host id (io_try (WatchRollout W P (resumeWatch req insp traceID (por_ID ref))))) (\<lambda>w. case w of
           Inl err \<Rightarrow>
             ebind (host id (io_try (io_at W (\<lambda>now. appendResumeEvent W (oir_Service insp) (oir_OperationID insp) traceID (rsq_Actor req)
               ''operation.resume.failed'' (err_text err) now [])))) (\<lambda>_. efail err)
         | Inr status \<Rightarrow> resumeFinish W req insp status)))"

definition resumeSteps ::
  "('s, 'z) World_scheme \<Rightarrow> 's Provider \<Rightarrow> ResumeRequest \<Rightarrow> ops_InspectResult \<Rightarrow> string \<Rightarrow> ('s, unit) rio" where
  "resumeSteps W P req insp traceID =
     (if terminalStatus (oir_Status insp) then eret ()
      else if oir_ProviderOperations insp = [] then
        efail (new_error (''operation '' @ rsq_OperationID req @ '' has no stored provider operation ID to resume''))
      else
        ebind (host id (ops_AcquireLease W (oir_Service insp) (oir_OperationID insp)
            \<lparr>ollo_Owner = rsq_Owner req, ollo_Duration = rsq_LeaseDuration req\<rparr>)) (\<lambda>acquired.
        ebind (eupdate (\<lambda>r. r\<lparr>rsr_TookOver := lar_TookOver acquired\<rparr>)) (\<lambda>_.
        edeferred (ops_ReleaseLease W (lar_Handle acquired)) (resumeLeased W P req insp traceID acquired))))"

definition resumeResult :: "ops_InspectResult \<Rightarrow> string \<Rightarrow> ResumeResult" where
  "resumeResult insp traceID =
     \<lparr>rsr_OK = True, rsr_OperationID = oir_OperationID insp, rsr_Service = oir_Service insp, rsr_Env = oir_Env insp, rsr_Kind = oir_Kind insp,
      rsr_TraceID = traceID, rsr_PreviousStatus = oir_Status insp, rsr_Status = oir_Status insp, rsr_Resumed = False, rsr_TookOver = False,
      rsr_RolloutStatus = None, rsr_ProviderOperations = oir_ProviderOperations insp,
      rsr_NextCommands = nextCommands (oir_Service insp) (oir_OperationID insp) traceID (sagaIDFromIntent (oir_Intent insp))\<rparr>"

definition resumeInspect :: "('s, 'z) World_scheme \<Rightarrow> ResumeRequest \<Rightarrow> ('s, ResumeRequest \<times> ops_InspectResult) io" where
  "resumeInspect W req0 =
     io_bind (io_now W) (\<lambda>now.
     (let req = normalizeResumeRequest req0 now in
      io_bind (ops_Inspect W (rsq_Service req) (rsq_OperationID req)) (\<lambda>insp. io_ret (req, insp))))"

text \<open>\<^verbatim>\<open>Resume\<close> returns a result and an error, each of which may be nil; both are there once the operation has been inspected and the rest fails.\<close>

definition Resume :: "('s, 'z) World_scheme \<Rightarrow> 's Provider option \<Rightarrow> ResumeRequest \<Rightarrow> 's \<Rightarrow> (ResumeResult option \<times> goerr option) \<times> 's" where
  "Resume W provider req0 s = (case io_ctx W s of
      (Inl err, t) \<Rightarrow> ((None, Some err), t)
    | (Inr _, t) \<Rightarrow> (case provider of
          None \<Rightarrow> ((None, Some (new_error ''provider is required'')), t)
        | Some P \<Rightarrow> (case resumeInspect W req0 t of
              (Inl err, u) \<Rightarrow> ((None, Some err), u)
            | (Inr (req, insp), u) \<Rightarrow>
                (let traceID = firstNonEmpty [rsq_TraceID req, oir_TraceID insp] in
                 case resumeSteps W P req insp traceID (u, resumeResult insp traceID) of
                   (Inl err, (v, result)) \<Rightarrow> ((Some result, Some err), v)
                 | (Inr _, (v, result)) \<Rightarrow> ((Some result, None), v)))))"

end
