(* ===== verification/Worker.thy ===== *)
theory Worker
  imports Ops_Resume
begin

text \<open>
  The worker (internal/worker/loop.go): it lists the unfinished operations and resumes those that can be
  resumed, then executes every unfinished saga, and repeats after a pause. The registered saga steps are
  a parameter, and so are the built-in ones (\<open>builtin_New\<close>) that are used when none are registered.
\<close>

section \<open>Types\<close>

definition defaultOwner :: string where "defaultOwner = ''skiff-worker''"
definition defaultLeaseDuration :: int where "defaultLeaseDuration = 30000000000"
definition defaultPollInterval :: int where "defaultPollInterval = 10000000000"

record 's Worker =
  wk_Provider :: "'s Provider option"
  wk_SagaSteps :: "(string \<Rightarrow> 's Step option) option"
  wk_Owner :: string
  wk_Actor :: Actor
  wk_LeaseDuration :: int
  wk_PollInterval :: int
  wk_builtin_New :: "string \<Rightarrow> 's Step option"

record RunResult =
  run_OperationResumed :: nat
  run_OperationSkipped :: nat
  run_SagaResumed :: nat
  run_SagaSkipped :: nat
  run_Errors :: "string list"

definition zero_RunResult :: RunResult where
  "zero_RunResult = \<lparr>run_OperationResumed = 0, run_OperationSkipped = 0, run_SagaResumed = 0, run_SagaSkipped = 0, run_Errors = []\<rparr>"

definition worker_validate :: "'s Worker \<Rightarrow> unit result" where
  "worker_validate w = (if wk_Provider w = None then Inl (new_error ''provider is required'') else Inr ())"

definition worker_owner :: "'s Worker \<Rightarrow> string" where
  "worker_owner w = (if wk_Owner w \<noteq> [] then wk_Owner w else defaultOwner)"

definition worker_actor :: "'s Worker \<Rightarrow> Actor" where
  "worker_actor w =
     (if act_ID (wk_Actor w) \<noteq> [] then
        (if act_Type (wk_Actor w) = [] then (wk_Actor w)\<lparr>act_Type := ''agent''\<rparr> else wk_Actor w)
      else \<lparr>act_ID = worker_owner w, act_Type = ''agent''\<rparr>)"

definition worker_leaseDuration :: "'s Worker \<Rightarrow> int" where
  "worker_leaseDuration w = (if 0 < wk_LeaseDuration w then wk_LeaseDuration w else defaultLeaseDuration)"

definition containsSlash :: "string \<Rightarrow> bool" where
  "containsSlash v = list_ex (\<lambda>c. c = CHR ''/'') v"

definition parseSagaControlKey :: "string \<Rightarrow> string option" where
  "parseSagaControlKey key =
     (let pre = ''sagas/''; suf = ''/control.json'' in
      if length key \<le> length pre + length suf \<or> take (length pre) key \<noteq> pre \<or> drop (length key - length suf) key \<noteq> suf then None
      else
        let sagaID = drop (length pre) (take (length key - length suf) key) in
        if sagaID = [] \<or> containsSlash sagaID then None else Some sagaID)"

definition terminalSaga :: "string \<Rightarrow> bool" where
  "terminalSaga status = (status \<in> {SagaSucceeded, SagaFailed, SagaCanceled})"

section \<open>One pass\<close>

text \<open>Somebody else's lease, or a lost race, is not an error of a pass.\<close>

definition passed_over :: "goerr \<Rightarrow> bool" where
  "passed_over err = (is_state CodeLeaseHeld err \<or> is_state CodePreconditionFailed err)"

definition countOperation :: "goerr option \<Rightarrow> RunResult \<Rightarrow> RunResult" where
  "countOperation e result = (case e of
      None \<Rightarrow> result\<lparr>run_OperationResumed := Suc (run_OperationResumed result)\<rparr>
    | Some err \<Rightarrow>
        if passed_over err then result\<lparr>run_OperationSkipped := Suc (run_OperationSkipped result)\<rparr>
        else result\<lparr>run_Errors := run_Errors result @ [err_text err]\<rparr>)"

definition worker_resumeRequest :: "'s Worker \<Rightarrow> Summary \<Rightarrow> ResumeRequest" where
  "worker_resumeRequest w item =
     \<lparr>rsq_Service = sm_Service item, rsq_OperationID = sm_OperationID item, rsq_Actor = worker_actor w, rsq_TraceID = sm_TraceID item,
      rsq_Owner = worker_owner w, rsq_LeaseDuration = worker_leaseDuration w, rsq_Takeover = True\<rparr>"

fun resumeItems :: "('s, 'z) World_scheme \<Rightarrow> 's Worker \<Rightarrow> Summary list \<Rightarrow> RunResult \<Rightarrow> 's \<Rightarrow> RunResult \<times> 's" where
  "resumeItems W w [] result s = (result, s)"
| "resumeItems W w (item # items) result s =
     (if \<not> sm_Resumable item then
        resumeItems W w items (result\<lparr>run_OperationSkipped := Suc (run_OperationSkipped result)\<rparr>) s
      else (case Resume W (wk_Provider w) (worker_resumeRequest w item) s of
          ((_, err), t) \<Rightarrow> resumeItems W w items (countOperation err result) t))"

definition worker_executor :: "'s Worker \<Rightarrow> 's Executor" where
  "worker_executor w =
     \<lparr>ex_Steps = (case wk_SagaSteps w of None \<Rightarrow> wk_builtin_New w | Some registered \<Rightarrow> registered),
      ex_Owner = worker_owner w, ex_LeaseDuration = worker_leaseDuration w\<rparr>"

definition countSaga :: "ExecutionResult result \<Rightarrow> RunResult \<Rightarrow> RunResult" where
  "countSaga r result = (case r of
      Inr _ \<Rightarrow> result\<lparr>run_SagaResumed := Suc (run_SagaResumed result)\<rparr>
    | Inl err \<Rightarrow>
        if passed_over err then result\<lparr>run_SagaSkipped := Suc (run_SagaSkipped result)\<rparr>
        else result\<lparr>run_Errors := run_Errors result @ [err_text err]\<rparr>)"

definition resumeSaga :: "('s, 'z) World_scheme \<Rightarrow> 's Worker \<Rightarrow> string \<Rightarrow> RunResult \<Rightarrow> 's \<Rightarrow> RunResult \<times> 's" where
  "resumeSaga W w sagaID result s = (case GetControl W sagaID s of
      (Inl err, t) \<Rightarrow> (result\<lparr>run_Errors := run_Errors result @ [err_text err]\<rparr>, t)
    | (Inr control, t) \<Rightarrow>
        if terminalSaga (sct_Status (cdoc_Control control)) then (result, t)
        else (case Execute W (worker_executor w) sagaID t of (r, u) \<Rightarrow> (countSaga r result, u)))"

fun resumeSagaKeys :: "('s, 'z) World_scheme \<Rightarrow> 's Worker \<Rightarrow> ObjectMeta list \<Rightarrow> RunResult \<Rightarrow> 's \<Rightarrow> RunResult \<times> 's" where
  "resumeSagaKeys W w [] result s = (result, s)"
| "resumeSagaKeys W w (meta # metas) result s = (case parseSagaControlKey (om_Key meta) of
      None \<Rightarrow> resumeSagaKeys W w metas result s
    | Some sagaID \<Rightarrow> (case resumeSaga W w sagaID result s of (result', t) \<Rightarrow> resumeSagaKeys W w metas result' t))"

definition resumeSagas :: "('s, 'z) World_scheme \<Rightarrow> 's Worker \<Rightarrow> ('s, RunResult) io" where
  "resumeSagas W w =
     io_bind (os_List W ''sagas/'' \<lparr>lo_Limit = 0\<rparr>) (\<lambda>metas s.
     case resumeSagaKeys W w metas zero_RunResult s of (result, t) \<Rightarrow> (Inr result, t))"

definition addSagas :: "RunResult \<Rightarrow> RunResult \<Rightarrow> RunResult" where
  "addSagas result sagas = result\<lparr>
     run_SagaResumed := run_SagaResumed result + run_SagaResumed sagas,
     run_SagaSkipped := run_SagaSkipped result + run_SagaSkipped sagas,
     run_Errors := run_Errors result @ run_Errors sagas\<rparr>"

definition RunOnce :: "('s, 'z) World_scheme \<Rightarrow> 's Worker \<Rightarrow> 's \<Rightarrow> (RunResult option \<times> goerr option) \<times> 's" where
  "RunOnce W w s = (case worker_validate w of
      Inl err \<Rightarrow> ((None, Some err), s)
    | Inr _ \<Rightarrow> (case ops_List W \<lparr>olo_Service = [], olo_IncludeTerminal = False, olo_Limit = 0\<rparr> s of
          (Inl err, t) \<Rightarrow> ((Some zero_RunResult, Some err), t)
        | (Inr items, t) \<Rightarrow> (case resumeItems W w items zero_RunResult t of
              (result, u) \<Rightarrow> (case resumeSagas W w u of
                  (Inl err, v) \<Rightarrow> ((Some result, Some err), v)
                | (Inr sagas, v) \<Rightarrow> ((Some (addSagas result sagas), None), v)))))"

section \<open>The loop\<close>

text \<open>\<^verbatim>\<open>errors.Is(err, context.Canceled)\<close>.\<close>

fun is_canceled :: "goerr \<Rightarrow> bool" where
  "is_canceled (CtxError msg) = (msg = ''context canceled'')"
| "is_canceled (StateError _ _ _ _ (Some cause)) = is_canceled cause"
| "is_canceled (Errorf _ (Some wrapped)) = is_canceled wrapped"
| "is_canceled _ = False"

text \<open>\<open>None\<close> is a worker that runs for ever; a worker that returns always returns an error.\<close>

partial_function (option) worker_loop :: "('s, 'z) World_scheme \<Rightarrow> 's Worker \<Rightarrow> 's \<Rightarrow> (goerr \<times> 's) option" where
  "worker_loop W w s = (case RunOnce W w s of ((_, err), t) \<Rightarrow>
     if (case err of None \<Rightarrow> False | Some e \<Rightarrow> \<not> is_canceled e) then Some (the err, t)
     else (case io_sleep W (if wk_PollInterval w \<le> 0 then defaultPollInterval else wk_PollInterval w) t of
         (Inl e, u) \<Rightarrow> Some (e, u)
       | (Inr _, u) \<Rightarrow> worker_loop W w u))"

definition worker_Run :: "('s, 'z) World_scheme \<Rightarrow> 's Worker \<Rightarrow> 's \<Rightarrow> (goerr \<times> 's) option" where
  "worker_Run W w s = (case worker_validate w of Inl err \<Rightarrow> Some (err, s) | Inr _ \<Rightarrow> worker_loop W w s)"

section \<open>Other workers' leases\<close>

text \<open>Every unfinished operation with provider operations and every unfinished saga has a lease that has not expired.\<close>

definition all_leased :: "sys \<Rightarrow> bool" where
  "all_leased s \<longleftrightarrow>
     (\<forall>svc x doc. ops_GetControl sys_world svc x s = (Inr doc, s) \<longrightarrow> terminalStatus (oc_Status (ocd_Control doc)) \<or>
        oc_ProviderOperations (ocd_Control doc) = [] \<or> ops_activeLease (oc_Lease (ocd_Control doc)) (sys_now s) = Inr True) \<and>
     (\<forall>x doc. GetControl sys_world x s = (Inr doc, s) \<longrightarrow> terminalSaga (sct_Status (cdoc_Control doc)) \<or>
        sagaLeaseActive (sct_Lease (cdoc_Control doc)) (sys_now s) = Inr True)"

lemma still_Inspect [simp]: "still (ops_Inspect sys_world svc x)"
  by (auto simp: ops_Inspect_def Let_def)

lemma still_GetControl [simp]: "still (GetControl sys_world x)"
  by (auto simp: GetControl_def getStrict_def Let_def)

lemma ops_GetControl_names:
  "ops_GetControl W svc x s = (Inr doc, t) \<Longrightarrow> oc_Service (ocd_Control doc) = svc \<and> oc_OperationID (ocd_Control doc) = x"
  by (auto simp: ops_GetControl_def io_ok_iffs Let_def split: if_splits)

lemma inspectFromControl_simps [simp]:
  "oir_Service (inspectFromControl doc) = oc_Service (ocd_Control doc)" "oir_OperationID (inspectFromControl doc) = oc_OperationID (ocd_Control doc)"
  "oir_Status (inspectFromControl doc) = oc_Status (ocd_Control doc)"
  "oir_ProviderOperations (inspectFromControl doc) = oc_ProviderOperations (ocd_Control doc)"
  by (simp_all add: inspectFromControl_def Let_def)

lemma ops_Inspect_control:
  assumes "ops_Inspect W svc x s = (Inr insp, t)"
  shows "\<exists>doc u. ops_GetControl W svc x s = (Inr doc, u) \<and> oir_Service insp = svc \<and> oir_OperationID insp = x \<and>
    oir_Status insp = oc_Status (ocd_Control doc) \<and> oir_ProviderOperations insp = oc_ProviderOperations (ocd_Control doc)"
proof -
  obtain doc u where d: "ops_GetControl W svc x s = (Inr doc, u)"
    using assms unfolding ops_Inspect_def by (auto simp only: io_bind_Inr_iff)
  have "oir_Service insp = oc_Service (ocd_Control doc) \<and> oir_OperationID insp = oc_OperationID (ocd_Control doc) \<and>
    oir_Status insp = oc_Status (ocd_Control doc) \<and> oir_ProviderOperations insp = oc_ProviderOperations (ocd_Control doc)"
    using assms unfolding ops_Inspect_def Let_def
    by (cases "paths_OperationIntent svc x"; cases "paths_OperationEventsPrefix svc x")
      (clarsimp simp: d io_bind_def io_try_def io_ret_def split: prod.splits sum.splits)+
  then show ?thesis using d ops_GetControl_names [OF d] by blast
qed

lemma held_operation:
  assumes "sys_env s = []" "ops_GetControl sys_world svc x s = (Inr doc, s)"
    "ops_activeLease (oc_Lease (ocd_Control doc)) (sys_now s) = Inr True"
  shows "\<exists>err. ops_AcquireLease sys_world svc x opts s = (Inl err, s)"
  using assms by (simp add: ops_AcquireLease_def io_bind_def alone_now io_fail_def io_lift_def)

lemma held_saga:
  assumes "sys_env s = []" "GetControl sys_world x s = (Inr doc, s)"
    "sagaLeaseActive (sct_Lease (cdoc_Control doc)) (sys_now s) = Inr True"
  shows "\<exists>err. saga_AcquireLease sys_world x opts s = (Inl err, s)"
  using assms by (simp add: saga_AcquireLease_def io_bind_def alone_now io_fail_def io_lift_def)

lemma resumeSteps_leased:
  assumes s: "sys_env s = []" "all_leased s" and I: "ops_Inspect sys_world svc x s = (Inr insp, s)"
  shows "fst (snd (resumeSteps sys_world Q req insp trace (s, res))) = s"
proof -
  obtain doc u where d: "ops_GetControl sys_world svc x s = (Inr doc, u)" "oir_Service insp = svc" "oir_OperationID insp = x"
    "oir_Status insp = oc_Status (ocd_Control doc)" "oir_ProviderOperations insp = oc_ProviderOperations (ocd_Control doc)"
    using ops_Inspect_control [OF I] by blast
  have g: "ops_GetControl sys_world svc x s = (Inr doc, s)" using d(1) stillD [OF still_ops(1) s(1) d(1)] by simp
  show ?thesis
  proof (cases "terminalStatus (oir_Status insp) \<or> oir_ProviderOperations insp = []")
    case True
    then show ?thesis by (auto simp: resumeSteps_def eret_def efail_def)
  next
    case False
    then have "ops_activeLease (oc_Lease (ocd_Control doc)) (sys_now s) = Inr True"
      using s(2) g d(4,5) unfolding all_leased_def by metis
    from held_operation [OF s(1) g this] obtain err where
      "ops_AcquireLease sys_world svc x \<lparr>ollo_Owner = rsq_Owner req, ollo_Duration = rsq_LeaseDuration req\<rparr> s = (Inl err, s)" by blast
    then show ?thesis using False d(2,3) by (simp add: resumeSteps_def ebind_def host_def)
  qed
qed

lemma resumeInspect_alone:
  assumes s: "sys_env s = []" and R: "resumeInspect sys_world req s = (Inr (req', insp), t)"
  shows "t = s \<and> ops_Inspect sys_world (rsq_Service req') (rsq_OperationID req') s = (Inr insp, s)"
  using R stillD [OF still_Inspect s] unfolding resumeInspect_def
  by (simp add: io_bind_def alone_now [OF s] io_ret_def Let_def split: prod.splits sum.splits)

lemma Resume_leased:
  assumes s: "sys_env s = []" "all_leased s"
  shows "snd (Resume sys_world P req s) = s"
proof -
  obtain c u where c: "io_ctx sys_world s = (c, u)" by fastforce
  have u: "u = s" by (rule stillD [OF still_simps(5) s(1) c])
  obtain x v where x: "resumeInspect sys_world req s = (x, v)" by fastforce
  have "still (resumeInspect sys_world req)" by (auto simp: resumeInspect_def Let_def)
  then have v: "v = s" using stillD s(1) x by blast
  have early: "P = None \<or> c = Inl e \<or> x = Inl e \<Longrightarrow> ?thesis" for e
    using c u x v by (cases P; cases c) (auto simp: Resume_def)
  show ?thesis
  proof (cases x)
    case (Inr y)
    obtain req' insp where y: "y = (req', insp)" by fastforce
    from resumeInspect_alone [OF s(1) x [unfolded Inr y]] have "ops_Inspect sys_world (rsq_Service req') (rsq_OperationID req') s = (Inr insp, s)" by blast
    note steps = resumeSteps_leased [OF s this]
    show ?thesis
    proof (cases P)
      case (Some Q)
      let ?tr = "firstNonEmpty [rsq_TraceID req', oir_TraceID insp]"
      obtain z w res where z: "resumeSteps sys_world Q req' insp ?tr (s, resumeResult insp ?tr) = (z, (w, res))" by (rule prod_cases3)
      then have "w = s" using steps [of Q req' ?tr "resumeResult insp ?tr"] by simp
      then show ?thesis using early c u x v z unfolding Inr y Some by (cases c; cases z) (simp_all add: Resume_def Let_def)
    qed (use early in blast)
  qed (use early in blast)
qed

lemma resumeItems_leased: "sys_env s = [] \<Longrightarrow> all_leased s \<Longrightarrow> snd (resumeItems sys_world w items result s) = s"
  by (induction items arbitrary: result) (auto simp: split_beta Resume_leased)

lemma resumeSaga_leased:
  assumes s: "sys_env s = []" "all_leased s" and R: "resumeSaga sys_world w x result s = (result', t)"
  shows "t = s \<and> run_SagaResumed result' = run_SagaResumed result"
proof -
  obtain c u where c: "GetControl sys_world x s = (c, u)" by fastforce
  have u: "u = s" by (rule stillD [OF still_GetControl s(1) c])
  show ?thesis
  proof (cases c)
    case (Inl e)
    then show ?thesis using R c u by (auto simp: resumeSaga_def)
  next
    case (Inr doc)
    show ?thesis
    proof (cases "terminalSaga (sct_Status (cdoc_Control doc))")
      case True
      then show ?thesis using R c u Inr by (auto simp: resumeSaga_def)
    next
      case False
      then have "sagaLeaseActive (sct_Lease (cdoc_Control doc)) (sys_now s) = Inr True"
        using s(2) c u Inr unfolding all_leased_def by blast
      from held_saga [OF s(1) c [unfolded u Inr] this] obtain f where f: "\<And>opts. saga_AcquireLease sys_world x opts s = (Inl (f opts), s)"
        by metis
      show ?thesis using R c u Inr False by (auto simp: resumeSaga_def Execute_def io_bind_def f countSaga_def Let_def split: if_splits)
    qed
  qed
qed

lemma resumeSagaKeys_leased:
  "sys_env s = [] \<Longrightarrow> all_leased s \<Longrightarrow> resumeSagaKeys sys_world w metas result s = (result', t) \<Longrightarrow>
   t = s \<and> run_SagaResumed result' = run_SagaResumed result"
  by (induction metas arbitrary: result) (auto dest: resumeSaga_leased split: option.splits prod.splits)

lemma resumeItems_sagas: "run_SagaResumed (fst (resumeItems W w items result s)) = run_SagaResumed result"
  by (induction items arbitrary: result s) (auto simp: countOperation_def split: prod.splits option.splits)

text \<open>
  C19: a worker leaves other workers' work alone. For a worker that is alone with the store, in a state in which every unfinished
  operation that has provider operations and every unfinished saga is leased to somebody and no lease has expired, a
  whole pass changes nothing: no object of the store, no token drawn, no saga executed.
\<close>

theorem worker_respects_leases:
  assumes "sys_env s = []" "all_leased s" "RunOnce sys_world w s = ((result, err), t)"
  shows "t = s \<and> (\<forall>r. result = Some r \<longrightarrow> run_SagaResumed r = 0)"
proof -
  have still: "still (ops_List sys_world opts)" for opts
    by (auto simp: ops_List_def listSagaOperationSummaries_def Let_def)
  obtain l u where l: "ops_List sys_world \<lparr>olo_Service = [], olo_IncludeTerminal = False, olo_Limit = 0\<rparr> s = (l, u)" by fastforce
  have u: "u = s" by (rule stillD [OF still assms(1) l])
  have it: "snd (resumeItems sys_world w items zero_RunResult s) = s" "run_SagaResumed (fst (resumeItems sys_world w items zero_RunResult s)) = 0" for items
    by (rule resumeItems_leased [OF assms(1,2)]) (simp add: resumeItems_sagas, simp add: zero_RunResult_def)
  have sg: "v = s \<and> (\<forall>r. x = Inr r \<longrightarrow> run_SagaResumed r = 0)" if "resumeSagas sys_world w s = (x, v)" for x v
    using that stillD [OF still_simps(7) assms(1)] resumeSagaKeys_leased [OF assms(1,2)]
    by (fastforce simp: resumeSagas_def io_bind_def zero_RunResult_def split: prod.splits sum.splits)
  show ?thesis
  proof (cases "worker_validate w")
    case (Inl e)
    then show ?thesis using assms(3) by (simp add: RunOnce_def)
  next
    case v: (Inr _)
    show ?thesis
    proof (cases l)
      case (Inl e)
      then show ?thesis using assms(3) l u v by (auto simp: RunOnce_def zero_RunResult_def)
    next
      case (Inr items)
      obtain r0 s0 where r0: "resumeItems sys_world w items zero_RunResult s = (r0, s0)" by fastforce
      then have "s0 = s" "run_SagaResumed r0 = 0" using it [of items] by simp_all
      then show ?thesis using assms(3) l u v Inr r0 sg
        by (auto simp: RunOnce_def addSagas_def split: prod.splits sum.splits)
    qed
  qed
qed

definition idle_worker :: "sys Worker" where
  "idle_worker = \<lparr>wk_Provider = Some (roll_provider ''succeeded''), wk_SagaSteps = Some (\<lambda>_. None), wk_Owner = [],
     wk_Actor = zero_Actor, wk_LeaseDuration = 0, wk_PollInterval = 0, wk_builtin_New = (\<lambda>_. None)\<rparr>"

text \<open>A store with one operation, leased until 500, and a worker that looks at it before.\<close>

definition held_sys :: sys where
  "held_sys = op1_sys\<lparr>sys_now := 100\<rparr>"

lemma held_sys_objs: "sys_objs held_sys = [op_key ''web'' ''op-1'' \<mapsto> (etagForVersion 1, JsonBody (enc_OperationControl op1_control))]"
  by (auto simp: held_sys_def sys_objs_def op1_sys_def memory_Create_def memory_New_def nextTimeLocked_def Let_def memory_objs_def)

lemma held_sys_env: "sys_env held_sys = []"
  by (simp add: held_sys_def op1_sys_def)

lemma held_sys_leased: "all_leased held_sys"
proof -
  have "ops_activeLease (oc_Lease (ocd_Control doc)) (sys_now held_sys) = Inr True"
    if g: "ops_GetControl sys_world svc x held_sys = (Inr doc, held_sys)" for svc x doc
  proof -
    from sysw.ops_GetControl_ok(2) [OF g] have "ocd_Control doc = op1_control"
      by (auto simp: view_at_Some doc_view_Some held_sys_objs codec_OperationControl [OF op1_facts(4)] split: if_splits)
    then show ?thesis
      using old_lease_expires by (simp add: ops_activeLease_def rbind_def op1_control_def held_sys_def)
  qed
  moreover have False if g: "GetControl sys_world x held_sys = (Inr doc, held_sys)" for x doc
    using sysw.GetControl_ok(2) [OF g] by (auto simp: view_at_Some held_sys_objs saga_key_def op_key_def split: if_splits)
  ultimately show ?thesis unfolding all_leased_def by blast
qed

theorem worker_respects_leases_witness:
  "\<exists>result err. RunOnce sys_world idle_worker held_sys = ((result, err), held_sys)"
proof -
  obtain result err t where r: "RunOnce sys_world idle_worker held_sys = ((result, err), t)" by (metis surj_pair)
  from worker_respects_leases [OF held_sys_env held_sys_leased r] show ?thesis using r by blast
qed

text \<open>
  C20: cancellation stops a worker. When the context is cancelled from some call on, a worker that begins a pass returns:
  its listing fails, and so does the pause after it. It returns the cancellation and has written nothing; the only writes
  in between are those of other clients.
\<close>

theorem worker_stops_when_cancelled:
  assumes "sys_env s = x # y # rest" "es_ctx x = Some ''context canceled''" "es_ctx y = Some ''context canceled''"
    "wk_Provider w = Some P"
  shows "\<exists>t. worker_Run sys_world w s = Some (CtxError ''context canceled'', t) \<and>
    sys_objs t = memory_objs (fold apply_write (es_writes x @ es_writes y) (sys_store s)) \<and> sys_env t = rest"
proof -
  let ?u = "s\<lparr>sys_store := fold apply_write (es_writes x) (sys_store s), sys_now := sys_now s + int (es_elapsed x), sys_env := y # rest,
    sys_history := sys_history s @ env_history (es_writes x) (sys_store s)\<rparr>"
  let ?d = "if wk_PollInterval w \<le> 0 then defaultPollInterval else wk_PollInterval w"
  have "os_List sys_world k l s = (Inl (CtxError ''context canceled''), ?u)" for k l
    using assms(1,2) by (simp add: sys_world_def on_store_def env_tick_def memory_List_def)
  then have l: "ops_List sys_world \<lparr>olo_Service = [], olo_IncludeTerminal = False, olo_Limit = 0\<rparr> s = (Inl (CtxError ''context canceled''), ?u)"
    by (simp add: ops_List_def io_bind_def io_lift_def)
  have r: "RunOnce sys_world w s = ((Some zero_RunResult, Some (CtxError ''context canceled'')), ?u)"
    using assms(4) by (simp add: RunOnce_def worker_validate_def l)
  obtain t where t: "io_sleep sys_world ?d ?u = (Inl (CtxError ''context canceled''), t)" "sys_env t = rest"
    "sys_store t = fold apply_write (es_writes y) (fold apply_write (es_writes x) (sys_store s))"
    using assms(3) by (simp add: io_sleep_def sys_world_def env_tick_def)
  have "worker_loop sys_world w s = Some (CtxError ''context canceled'', t)"
    by (subst worker_loop.simps) (simp add: r t(1))
  then show ?thesis using assms(4) t(2,3) by (simp add: worker_Run_def worker_validate_def sys_objs_def)
qed

theorem worker_stops_when_cancelled_witness:
  "\<exists>t. worker_Run sys_world idle_worker (op1_sys\<lparr>sys_env := replicate 2 \<lparr>es_writes = [], es_elapsed = 0, es_ctx = Some ''context canceled''\<rparr>\<rparr>) =
     Some (CtxError ''context canceled'', t) \<and> sys_env t = []"
  using worker_stops_when_cancelled [of "op1_sys\<lparr>sys_env := replicate 2 \<lparr>es_writes = [], es_elapsed = 0, es_ctx = Some ''context canceled''\<rparr>\<rparr>"
      "\<lparr>es_writes = [], es_elapsed = 0, es_ctx = Some ''context canceled''\<rparr>" "\<lparr>es_writes = [], es_elapsed = 0, es_ctx = Some ''context canceled''\<rparr>"
      "[]" idle_worker "roll_provider ''succeeded''"]
  by (simp add: idle_worker_def numeral_2_eq_2) blast

end
