(* ===== verification/Environment.thy ===== *)
theory Environment
  imports Release_Schema
begin

text \<open>
  The root document of an environment (internal/state/schema/schema.go, lines 11 to 127): its class, release policy and
  release trust. It is read with \<^verbatim>\<open>json.Unmarshal\<close>, which ignores unknown fields. \<^verbatim>\<open>strings.ToLower\<close> on text that is not
  ASCII is a parameter.
\<close>

section \<open>Documents\<close>

definition EnvironmentRootSchemaVersion :: string where "EnvironmentRootSchemaVersion = ''skiff.environment-root/v1''"
definition EnvironmentClassProduction :: string where "EnvironmentClassProduction = ''production''"
definition EnvironmentClassStaging :: string where "EnvironmentClassStaging = ''staging''"
definition EnvironmentClassDevelopment :: string where "EnvironmentClassDevelopment = ''development''"
definition EnvironmentClassSandbox :: string where "EnvironmentClassSandbox = ''sandbox''"

record EnvironmentReleasePolicy =
  erp_RequireSignedReleases :: bool
  erp_AllowUnsignedCode :: bool

record EnvironmentNetwork =
  enw_Mode :: string
  enw_VPCID :: string
  enw_PrivateSubnetIDs :: "string list"
  enw_PublicSubnetIDs :: "string list"

record EnvironmentLoadBalancerDefaults =
  elb_ARN :: string
  elb_DNSName :: string
  elb_ProviderDNSName :: string
  elb_HostedZoneID :: string
  elb_SecurityGroupID :: string
  elb_HTTPListenerARN :: string
  elb_HTTPSListenerARN :: string
  elb_CertificateARN :: string

record EnvironmentIngress =
  eig_Type :: string
  eig_Host :: string
  eig_BaseDomain :: string
  eig_DefaultHostTemplate :: string
  eig_DomainName :: string
  eig_Route53ZoneID :: string
  eig_LoadBalancer :: "EnvironmentLoadBalancerDefaults option"

record EnvironmentRunner =
  ern_AMIID :: string
  ern_AMISSMParameter :: string
  ern_InstallVersion :: string
  ern_InstallBaseURL :: string
  ern_InstallScriptURL :: string
  ern_InstallPublicKeyRef :: string

record ReleaseTrustKey =
  rtk_KeyID :: string
  rtk_Backend :: string
  rtk_Algorithm :: string
  rtk_Encoding :: string
  rtk_KeyRef :: string
  rtk_PublicKey :: string
  rtk_Status :: string
  rtk_CreatedAt :: string

record ReleaseTrust =
  rtr_ActiveKeyIDs :: "string list"
  rtr_Keys :: "ReleaseTrustKey list"

record EnvironmentRoot =
  ero_SchemaVersion :: string
  ero_Env :: string
  ero_EnvironmentClass :: string
  ero_Provider :: string
  ero_Region :: string
  ero_StateBucket :: string
  ero_KMSAlias :: string
  ero_Roles :: go_map
  ero_Network :: "EnvironmentNetwork option"
  ero_Ingress :: "EnvironmentIngress option"
  ero_Runner :: "EnvironmentRunner option"
  ero_ReleasePolicy :: "EnvironmentReleasePolicy option"
  ero_ReleaseTrust :: "ReleaseTrust option"
  ero_CreatedAt :: string
  ero_UpdatedAt :: string

definition zero_EnvironmentReleasePolicy :: EnvironmentReleasePolicy where
  "zero_EnvironmentReleasePolicy = \<lparr>erp_RequireSignedReleases = False, erp_AllowUnsignedCode = False\<rparr>"

definition zero_EnvironmentNetwork :: EnvironmentNetwork where
  "zero_EnvironmentNetwork = \<lparr>enw_Mode = [], enw_VPCID = [], enw_PrivateSubnetIDs = [], enw_PublicSubnetIDs = []\<rparr>"

definition zero_EnvironmentLoadBalancerDefaults :: EnvironmentLoadBalancerDefaults where
  "zero_EnvironmentLoadBalancerDefaults = \<lparr>elb_ARN = [], elb_DNSName = [], elb_ProviderDNSName = [], elb_HostedZoneID = [], elb_SecurityGroupID = [], elb_HTTPListenerARN = [], elb_HTTPSListenerARN = [], elb_CertificateARN = []\<rparr>"

definition zero_EnvironmentIngress :: EnvironmentIngress where
  "zero_EnvironmentIngress = \<lparr>eig_Type = [], eig_Host = [], eig_BaseDomain = [], eig_DefaultHostTemplate = [], eig_DomainName = [], eig_Route53ZoneID = [], eig_LoadBalancer = None\<rparr>"

definition zero_EnvironmentRunner :: EnvironmentRunner where
  "zero_EnvironmentRunner = \<lparr>ern_AMIID = [], ern_AMISSMParameter = [], ern_InstallVersion = [], ern_InstallBaseURL = [], ern_InstallScriptURL = [], ern_InstallPublicKeyRef = []\<rparr>"

definition zero_ReleaseTrustKey :: ReleaseTrustKey where
  "zero_ReleaseTrustKey = \<lparr>rtk_KeyID = [], rtk_Backend = [], rtk_Algorithm = [], rtk_Encoding = [], rtk_KeyRef = [], rtk_PublicKey = [], rtk_Status = [], rtk_CreatedAt = []\<rparr>"

definition zero_ReleaseTrust :: ReleaseTrust where
  "zero_ReleaseTrust = \<lparr>rtr_ActiveKeyIDs = [], rtr_Keys = []\<rparr>"

definition zero_EnvironmentRoot :: EnvironmentRoot where
  "zero_EnvironmentRoot = \<lparr>ero_SchemaVersion = [], ero_Env = [], ero_EnvironmentClass = [], ero_Provider = [], ero_Region = [], ero_StateBucket = [], ero_KMSAlias = [], ero_Roles = [], ero_Network = None, ero_Ingress = None, ero_Runner = None, ero_ReleasePolicy = None, ero_ReleaseTrust = None, ero_CreatedAt = [], ero_UpdatedAt = []\<rparr>"

section \<open>Decoding\<close>

text \<open>A struct decoder that skips keys which match no field.\<close>

definition dec_loose :: "((string \<Rightarrow> json option) \<Rightarrow> 'a result) \<Rightarrow> json \<Rightarrow> 'a result" where
  "dec_loose f j = (case j of
      JObj kvs \<Rightarrow> f (jget kvs)
    | JNull \<Rightarrow> f (\<lambda>_. None)
    | _ \<Rightarrow> Inl (json_err ''cannot unmarshal into struct''))"

definition dec_EnvironmentReleasePolicy :: "json \<Rightarrow> EnvironmentReleasePolicy result" where
  "dec_EnvironmentReleasePolicy = dec_loose (\<lambda>g.
     rbind (d_bool (g ''require_signed_releases'')) (\<lambda>requireSignedReleases'.
     rbind (d_bool (g ''allow_unsigned_code'')) (\<lambda>allowUnsignedCode'.
     Inr \<lparr>erp_RequireSignedReleases = requireSignedReleases', erp_AllowUnsignedCode = allowUnsignedCode'\<rparr>)))"

definition dec_EnvironmentNetwork :: "json \<Rightarrow> EnvironmentNetwork result" where
  "dec_EnvironmentNetwork = dec_loose (\<lambda>g.
     rbind (d_str (g ''mode'')) (\<lambda>mode'.
     rbind (d_str (g ''vpc_id'')) (\<lambda>vPCID'.
     rbind (d_list (dec_opt [] dec_str \<circ> Some) (g ''private_subnet_ids'')) (\<lambda>privateSubnetIDs'.
     rbind (d_list (dec_opt [] dec_str \<circ> Some) (g ''public_subnet_ids'')) (\<lambda>publicSubnetIDs'.
     Inr \<lparr>enw_Mode = mode', enw_VPCID = vPCID', enw_PrivateSubnetIDs = privateSubnetIDs', enw_PublicSubnetIDs = publicSubnetIDs'\<rparr>)))))"

definition dec_EnvironmentLoadBalancerDefaults :: "json \<Rightarrow> EnvironmentLoadBalancerDefaults result" where
  "dec_EnvironmentLoadBalancerDefaults = dec_loose (\<lambda>g.
     rbind (d_str (g ''arn'')) (\<lambda>aRN'.
     rbind (d_str (g ''dns_name'')) (\<lambda>dNSName'.
     rbind (d_str (g ''provider_dns_name'')) (\<lambda>providerDNSName'.
     rbind (d_str (g ''hosted_zone_id'')) (\<lambda>hostedZoneID'.
     rbind (d_str (g ''security_group_id'')) (\<lambda>securityGroupID'.
     rbind (d_str (g ''http_listener_arn'')) (\<lambda>hTTPListenerARN'.
     rbind (d_str (g ''https_listener_arn'')) (\<lambda>hTTPSListenerARN'.
     rbind (d_str (g ''certificate_arn'')) (\<lambda>certificateARN'.
     Inr \<lparr>elb_ARN = aRN', elb_DNSName = dNSName', elb_ProviderDNSName = providerDNSName', elb_HostedZoneID = hostedZoneID', elb_SecurityGroupID = securityGroupID', elb_HTTPListenerARN = hTTPListenerARN', elb_HTTPSListenerARN = hTTPSListenerARN', elb_CertificateARN = certificateARN'\<rparr>)))))))))"

definition dec_EnvironmentIngress :: "json \<Rightarrow> EnvironmentIngress result" where
  "dec_EnvironmentIngress = dec_loose (\<lambda>g.
     rbind (d_str (g ''type'')) (\<lambda>type'.
     rbind (d_str (g ''host'')) (\<lambda>host'.
     rbind (d_str (g ''base_domain'')) (\<lambda>baseDomain'.
     rbind (d_str (g ''default_host_template'')) (\<lambda>defaultHostTemplate'.
     rbind (d_str (g ''domain_name'')) (\<lambda>domainName'.
     rbind (d_str (g ''route53_zone_id'')) (\<lambda>route53ZoneID'.
     rbind (d_ptr dec_EnvironmentLoadBalancerDefaults (g ''load_balancer'')) (\<lambda>loadBalancer'.
     Inr \<lparr>eig_Type = type', eig_Host = host', eig_BaseDomain = baseDomain', eig_DefaultHostTemplate = defaultHostTemplate', eig_DomainName = domainName', eig_Route53ZoneID = route53ZoneID', eig_LoadBalancer = loadBalancer'\<rparr>))))))))"

definition dec_EnvironmentRunner :: "json \<Rightarrow> EnvironmentRunner result" where
  "dec_EnvironmentRunner = dec_loose (\<lambda>g.
     rbind (d_str (g ''ami_id'')) (\<lambda>aMIID'.
     rbind (d_str (g ''ami_ssm_parameter'')) (\<lambda>aMISSMParameter'.
     rbind (d_str (g ''install_version'')) (\<lambda>installVersion'.
     rbind (d_str (g ''install_base_url'')) (\<lambda>installBaseURL'.
     rbind (d_str (g ''install_script_url'')) (\<lambda>installScriptURL'.
     rbind (d_str (g ''install_public_key_ref'')) (\<lambda>installPublicKeyRef'.
     Inr \<lparr>ern_AMIID = aMIID', ern_AMISSMParameter = aMISSMParameter', ern_InstallVersion = installVersion', ern_InstallBaseURL = installBaseURL', ern_InstallScriptURL = installScriptURL', ern_InstallPublicKeyRef = installPublicKeyRef'\<rparr>)))))))"

definition dec_ReleaseTrustKey :: "json \<Rightarrow> ReleaseTrustKey result" where
  "dec_ReleaseTrustKey = dec_loose (\<lambda>g.
     rbind (d_str (g ''key_id'')) (\<lambda>keyID'.
     rbind (d_str (g ''backend'')) (\<lambda>backend'.
     rbind (d_str (g ''algorithm'')) (\<lambda>algorithm'.
     rbind (d_str (g ''encoding'')) (\<lambda>encoding'.
     rbind (d_str (g ''key_ref'')) (\<lambda>keyRef'.
     rbind (d_str (g ''public_key'')) (\<lambda>publicKey'.
     rbind (d_str (g ''status'')) (\<lambda>status'.
     rbind (d_str (g ''created_at'')) (\<lambda>createdAt'.
     Inr \<lparr>rtk_KeyID = keyID', rtk_Backend = backend', rtk_Algorithm = algorithm', rtk_Encoding = encoding', rtk_KeyRef = keyRef', rtk_PublicKey = publicKey', rtk_Status = status', rtk_CreatedAt = createdAt'\<rparr>)))))))))"

definition dec_ReleaseTrust :: "json \<Rightarrow> ReleaseTrust result" where
  "dec_ReleaseTrust = dec_loose (\<lambda>g.
     rbind (d_list (dec_opt [] dec_str \<circ> Some) (g ''active_key_ids'')) (\<lambda>activeKeyIDs'.
     rbind (d_list dec_ReleaseTrustKey (g ''keys'')) (\<lambda>keys'.
     Inr \<lparr>rtr_ActiveKeyIDs = activeKeyIDs', rtr_Keys = keys'\<rparr>)))"

definition dec_EnvironmentRoot :: "json \<Rightarrow> EnvironmentRoot result" where
  "dec_EnvironmentRoot = dec_loose (\<lambda>g.
     rbind (d_str (g ''schema_version'')) (\<lambda>schemaVersion'.
     rbind (d_str (g ''env'')) (\<lambda>env'.
     rbind (d_str (g ''environment_class'')) (\<lambda>environmentClass'.
     rbind (d_str (g ''provider'')) (\<lambda>provider'.
     rbind (d_str (g ''region'')) (\<lambda>region'.
     rbind (d_str (g ''state_bucket'')) (\<lambda>stateBucket'.
     rbind (d_str (g ''kms_alias'')) (\<lambda>kMSAlias'.
     rbind (d_map (g ''roles'')) (\<lambda>roles'.
     rbind (d_ptr dec_EnvironmentNetwork (g ''network'')) (\<lambda>network'.
     rbind (d_ptr dec_EnvironmentIngress (g ''ingress'')) (\<lambda>ingress'.
     rbind (d_ptr dec_EnvironmentRunner (g ''runner'')) (\<lambda>runner'.
     rbind (d_ptr dec_EnvironmentReleasePolicy (g ''release_policy'')) (\<lambda>releasePolicy'.
     rbind (d_ptr dec_ReleaseTrust (g ''release_trust'')) (\<lambda>releaseTrust'.
     rbind (d_str (g ''created_at'')) (\<lambda>createdAt'.
     rbind (d_str (g ''updated_at'')) (\<lambda>updatedAt'.
     Inr \<lparr>ero_SchemaVersion = schemaVersion', ero_Env = env', ero_EnvironmentClass = environmentClass', ero_Provider = provider', ero_Region = region', ero_StateBucket = stateBucket', ero_KMSAlias = kMSAlias', ero_Roles = roles', ero_Network = network', ero_Ingress = ingress', ero_Runner = runner', ero_ReleasePolicy = releasePolicy', ero_ReleaseTrust = releaseTrust', ero_CreatedAt = createdAt', ero_UpdatedAt = updatedAt'\<rparr>))))))))))))))))"

section \<open>Classes and policies\<close>

definition strings_ToLower :: "(string \<Rightarrow> string) \<Rightarrow> string \<Rightarrow> string" where
  "strings_ToLower unicode_lower s = (if list_all (\<lambda>c. (of_char c :: nat) < 128) s then map lower_char s else unicode_lower s)"

definition class_error :: goerr where
  "class_error = new_error ''environment class must be one of production, staging, development, or sandbox''"

definition NormalizeEnvironmentClass :: "(string \<Rightarrow> string) \<Rightarrow> string \<Rightarrow> string result" where
  "NormalizeEnvironmentClass ul val =
     (let v = strings_ToLower ul (TrimSpace val) in
      if v = [] then Inr EnvironmentClassDevelopment
      else if v = EnvironmentClassProduction then Inr EnvironmentClassProduction
      else if v = EnvironmentClassStaging then Inr EnvironmentClassStaging
      else if v = EnvironmentClassDevelopment then Inr EnvironmentClassDevelopment
      else if v = EnvironmentClassSandbox then Inr EnvironmentClassSandbox
      else Inl class_error)"

definition DefaultEnvironmentReleasePolicy :: "(string \<Rightarrow> string) \<Rightarrow> string \<Rightarrow> EnvironmentReleasePolicy result" where
  "DefaultEnvironmentReleasePolicy ul environmentClass =
     rbind (NormalizeEnvironmentClass ul environmentClass) (\<lambda>normalized.
     if normalized = EnvironmentClassProduction \<or> normalized = EnvironmentClassStaging then
       Inr \<lparr>erp_RequireSignedReleases = True, erp_AllowUnsignedCode = False\<rparr>
     else if normalized = EnvironmentClassDevelopment \<or> normalized = EnvironmentClassSandbox then
       Inr \<lparr>erp_RequireSignedReleases = False, erp_AllowUnsignedCode = True\<rparr>
     else Inl class_error)"

text \<open>Exactly one of the two switches of a default policy is on.\<close>

lemma default_policy_strict:
  "DefaultEnvironmentReleasePolicy ul c = Inr p \<Longrightarrow> erp_AllowUnsignedCode p = (\<not> erp_RequireSignedReleases p)"
  by (auto simp: DefaultEnvironmentReleasePolicy_def rbind_Inr_iff split: if_splits)

end
