(* ===== verification/Authz.thy ===== *)
theory Authz
  imports Environment World
begin

text \<open>
  Authorization (internal/authz/policy.go, internal/auth/actor.go): actors and their roles, the default
  policy and its decisions. \<^verbatim>\<open>strings.ToLower\<close> beyond ASCII is the parameter \<open>ul\<close>.
\<close>

section \<open>Actors\<close>

definition ActorUser :: string where "ActorUser = ''user''"
definition ActorCI :: string where "ActorCI = ''ci''"
definition ActorAgent :: string where "ActorAgent = ''agent''"
definition ActorSkiffd :: string where "ActorSkiffd = ''skiffd''"
definition ActorWorker :: string where "ActorWorker = ''worker''"
definition ActorBreakGlass :: string where "ActorBreakGlass = ''break-glass''"

lemmas actor_types = ActorUser_def ActorCI_def ActorAgent_def ActorSkiffd_def ActorWorker_def ActorBreakGlass_def

definition auth_Normalize :: "(string \<Rightarrow> string) \<Rightarrow> Actor \<Rightarrow> Actor" where
  "auth_Normalize ul actor0 =
     (let ident = TrimSpace (act_ID actor0);
          typ0 = TrimSpace (strings_ToLower ul (act_Type actor0));
          typ = (if typ0 = [] then ActorUser else typ0)
      in actor0\<lparr>act_Type := typ, act_ID := (if ident \<noteq> [] then ident
           else if typ = ActorCI then ''ci''
           else if typ = ActorAgent then ''agent''
           else if typ = ActorSkiffd then ''skiffd''
           else if typ = ActorWorker then ''worker''
           else if typ = ActorBreakGlass then ''break-glass''
           else ''user'')\<rparr>)"

definition IsBreakGlass :: "(string \<Rightarrow> string) \<Rightarrow> Actor \<Rightarrow> bool" where
  "IsBreakGlass ul actor0 = (let actor = auth_Normalize ul actor0 in
     act_Type actor = ActorBreakGlass \<or> prefix ''break-glass:'' (act_ID actor))"

definition Roles :: "(string \<Rightarrow> string) \<Rightarrow> Actor \<Rightarrow> string list" where
  "Roles ul actor0 = (let typ = act_Type (auth_Normalize ul actor0) in
     if typ = ActorCI then [''reader'', ''deployer'', ''release-manager'']
     else if typ = ActorAgent then [''reader'', ''planner'', ''agent'']
     else if typ = ActorSkiffd then [''reader'', ''deployer'', ''operator'', ''approver'', ''system'']
     else if typ = ActorWorker then [''reader'', ''worker'']
     else if typ = ActorBreakGlass then
       [''reader'', ''operator'', ''approver'', ''security-admin'', ''database-admin'', ''platform-admin'', ''break-glass'']
     else [''reader'', ''planner'', ''operator'', ''approver''])"

definition HasRole :: "(string \<Rightarrow> string) \<Rightarrow> Actor \<Rightarrow> string \<Rightarrow> bool" where
  "HasRole ul actor role0 = (let role = TrimSpace role0 in role = [] \<or> list_ex (\<lambda>item. item = role) (Roles ul actor))"

section \<open>Requests and decisions\<close>

type_synonym Action = string

definition ActionRead :: Action where "ActionRead = ''read''"
definition ActionPlan :: Action where "ActionPlan = ''plan''"
definition ActionDeploy :: Action where "ActionDeploy = ''deploy''"
definition ActionBackup :: Action where "ActionBackup = ''backup''"
definition ActionRollback :: Action where "ActionRollback = ''rollback''"
definition ActionApprove :: Action where "ActionApprove = ''approve''"
definition ActionDebug :: Action where "ActionDebug = ''debug''"
definition ActionRotate :: Action where "ActionRotate = ''rotate''"
definition ActionRestore :: Action where "ActionRestore = ''restore''"
definition ActionFailover :: Action where "ActionFailover = ''failover''"
definition ActionGC :: Action where "ActionGC = ''gc''"

lemmas action_names = ActionRead_def ActionPlan_def ActionDeploy_def ActionBackup_def ActionRollback_def ActionApprove_def
  ActionDebug_def ActionRotate_def ActionRestore_def ActionFailover_def ActionGC_def

record authz_Request =
  azr_Actor :: Actor
  azr_Action :: Action
  azr_Target :: Target
  azr_Env :: string
  azr_Service :: string
  azr_Risk :: string
  azr_ApprovalID :: string
  azr_ApprovalRole :: string
  azr_DryRun :: bool
  azr_PlanOnly :: bool
  azr_TraceID :: string

record Decision =
  dcs_Allowed :: bool
  dcs_Action :: Action
  dcs_Actor :: Actor
  dcs_Target :: Target
  dcs_Env :: string
  dcs_Service :: string
  dcs_Risk :: string
  dcs_Mutating :: bool
  dcs_RequiresApproval :: bool
  dcs_ApprovalRole :: string
  dcs_ApprovalID :: string
  dcs_BreakGlass :: bool
  dcs_Reasons :: "string list"
  dcs_Denials :: "string list"

definition zero_Decision :: Decision where
  "zero_Decision = \<lparr>dcs_Allowed = False, dcs_Action = [], dcs_Actor = zero_Actor, dcs_Target = zero_Target, dcs_Env = [], dcs_Service = [],
     dcs_Risk = [], dcs_Mutating = False, dcs_RequiresApproval = False, dcs_ApprovalRole = [], dcs_ApprovalID = [], dcs_BreakGlass = False,
     dcs_Reasons = [], dcs_Denials = []\<rparr>"

text \<open>What an authorizer may return as its error: \<^verbatim>\<open>DeniedError\<close> with the decision, or anything else.\<close>

datatype authz_error = DeniedError Decision | AuthzError goerr

fun strings_Join :: "string list \<Rightarrow> string \<Rightarrow> string" where
  "strings_Join [] sep = []"
| "strings_Join [x] sep = x"
| "strings_Join (x # y # xs) sep = x @ sep @ strings_Join (y # xs) sep"

definition denied_text :: "Decision \<Rightarrow> string" where
  "denied_text d = (if dcs_Denials d \<noteq> [] then strings_Join (dcs_Denials d) ''; '' else ''authorization denied'')"

fun authz_goerr :: "authz_error \<Rightarrow> goerr" where
  "authz_goerr (DeniedError d) = new_error (denied_text d)"
| "authz_goerr (AuthzError e) = e"

text \<open>\<^verbatim>\<open>Authorize\<close> of the interface: a decision and perhaps an error.\<close>

type_synonym 's Authorizer = "authz_Request \<Rightarrow> 's \<Rightarrow> (Decision \<times> authz_error option) \<times> 's"

section \<open>The default policy\<close>

definition knownAction :: "Action \<Rightarrow> bool" where
  "knownAction action = (action \<in> {ActionRead, ActionPlan, ActionDeploy, ActionBackup, ActionRollback, ActionApprove, ActionDebug,
     ActionRotate, ActionRestore, ActionFailover, ActionGC})"

definition isMutating :: "Action \<Rightarrow> bool" where
  "isMutating action = (action \<in> {ActionDeploy, ActionBackup, ActionRollback, ActionApprove, ActionDebug, ActionRotate, ActionRestore,
     ActionFailover, ActionGC})"

definition defaultRisk :: "Action \<Rightarrow> string" where
  "defaultRisk action =
     (if action \<in> {ActionDebug, ActionRotate, ActionRestore, ActionFailover, ActionGC} then RiskHigh
      else if action \<in> {ActionDeploy, ActionBackup, ActionRollback} then RiskMedium
      else RiskLow)"

definition authz_normalizeRequest :: "(string \<Rightarrow> string) \<Rightarrow> authz_Request \<Rightarrow> authz_Request" where
  "authz_normalizeRequest ul req =
     (let action = TrimSpace (strings_ToLower ul (azr_Action req));
          service = TrimSpace (azr_Service req);
          target0 = azr_Target req;
          target1 = (if tgt_Kind target0 = [] then target0\<lparr>tgt_Kind := ''service''\<rparr> else target0)
      in req\<lparr>azr_Actor := auth_Normalize ul (azr_Actor req), azr_Action := action,
           azr_Env := TrimSpace (strings_ToLower ul (azr_Env req)), azr_Service := service,
           azr_ApprovalID := TrimSpace (azr_ApprovalID req), azr_ApprovalRole := TrimSpace (azr_ApprovalRole req),
           azr_Target := (if tgt_Name target1 = [] then target1\<lparr>tgt_Name := service\<rparr> else target1),
           azr_Risk := (if azr_Risk req = [] then defaultRisk action else azr_Risk req)\<rparr>)"

definition isProductionEnv :: "(string \<Rightarrow> string) \<Rightarrow> string \<Rightarrow> bool" where
  "isProductionEnv ul env0 = (let env = TrimSpace (strings_ToLower ul env0) in
     env = ''prod'' \<or> env = ''production'' \<or> prefix ''prod-'' env)"

definition highRiskProduction :: "(string \<Rightarrow> string) \<Rightarrow> authz_Request \<Rightarrow> bool" where
  "highRiskProduction ul req =
     (if \<not> isProductionEnv ul (azr_Env req) then False
      else if azr_Risk req = RiskHigh \<or> azr_Risk req = RiskCritical then True
      else azr_Action req \<in> {ActionDebug, ActionRotate, ActionRestore, ActionFailover, ActionGC})"

definition approvalRole :: "authz_Request \<Rightarrow> string" where
  "approvalRole req =
     (if azr_ApprovalRole req \<noteq> [] then azr_ApprovalRole req
      else if azr_Action req = ActionRestore then ''database-admin''
      else if azr_Action req \<in> {ActionDebug, ActionRotate} then ''security-admin''
      else if azr_Action req \<in> {ActionFailover, ActionRollback} then ''operator''
      else if azr_Action req = ActionGC then ''platform-admin''
      else ''approver'')"

definition validApprovalID :: "string \<Rightarrow> bool" where
  "validApprovalID v = (prefix ''approval_'' v \<or> prefix ''break-glass:'' v)"

definition authz_deny :: "Decision \<Rightarrow> string \<Rightarrow> Decision \<times> authz_error option" where
  "authz_deny decision summary =
     (let denied = decision\<lparr>dcs_Allowed := False, dcs_Denials := dcs_Denials decision @ [summary]\<rparr> in (denied, Some (DeniedError denied)))"

definition authz_reason :: "string \<Rightarrow> Decision \<Rightarrow> Decision" where
  "authz_reason reason decision = decision\<lparr>dcs_Reasons := dcs_Reasons decision @ [reason]\<rparr>"

text \<open>The last part of \<^verbatim>\<open>Authorize\<close>, after the approval for high-risk operations in production.\<close>

definition authz_final :: "(string \<Rightarrow> string) \<Rightarrow> authz_Request \<Rightarrow> Decision \<Rightarrow> Decision \<times> authz_error option" where
  "authz_final ul req decision =
     (if act_Type (azr_Actor req) = ActorAgent \<and> highRiskProduction ul req \<and> azr_ApprovalID req = [] then
        authz_deny decision ''agents may plan high-risk operations but need approval context to execute them''
      else if act_Type (azr_Actor req) = ActorWorker \<and> dcs_Mutating decision then
        authz_deny decision ''worker actors cannot initiate mutating production operations''
      else (authz_reason ''actor is authorized by default Skiff policy'' decision, None))"

definition authz_decide :: "(string \<Rightarrow> string) \<Rightarrow> authz_Request \<Rightarrow> Decision \<times> authz_error option" where
  "authz_decide ul req0 =
     (let req = authz_normalizeRequest ul req0;
          decision = zero_Decision\<lparr>dcs_Allowed := True, dcs_Action := azr_Action req, dcs_Actor := azr_Actor req, dcs_Target := azr_Target req,
            dcs_Env := azr_Env req, dcs_Service := azr_Service req, dcs_Risk := azr_Risk req, dcs_Mutating := isMutating (azr_Action req),
            dcs_ApprovalID := azr_ApprovalID req\<rparr>
      in if \<not> knownAction (azr_Action req) then authz_deny decision (''unknown action '' @ quote (azr_Action req))
         else if azr_DryRun req \<or> azr_PlanOnly req \<or> azr_Action req = ActionRead \<or> azr_Action req = ActionPlan then
           (authz_reason ''read and plan operations are allowed without approval'' decision, None)
         else if act_ID (azr_Actor req) = [] then authz_deny decision ''actor id is required''
         else if IsBreakGlass ul (azr_Actor req) then
           (authz_reason ''break-glass actor is allowed and must be audited'' (decision\<lparr>dcs_BreakGlass := True\<rparr>), None)
         else if azr_Action req = ActionApprove then
           (if \<not> HasRole ul (azr_Actor req) ''approver'' then authz_deny decision ''actor does not have approver role''
            else (authz_reason ''actor may approve operations'' decision, None))
         else if highRiskProduction ul req then
           (let required = decision\<lparr>dcs_RequiresApproval := True, dcs_ApprovalRole := approvalRole req\<rparr> in
            if azr_ApprovalID req = [] then authz_deny required (''approval required from role '' @ dcs_ApprovalRole required)
            else if \<not> validApprovalID (azr_ApprovalID req) then authz_deny required ''approval id must start with approval_ or break-glass:''
            else authz_final ul req (authz_reason ''approval context present for high-risk production operation'' required))
         else authz_final ul req decision)"

definition DefaultPolicy :: "('s, 'z) World_scheme \<Rightarrow> (string \<Rightarrow> string) \<Rightarrow> 's Authorizer" where
  "DefaultPolicy W ul req s = (case io_ctx W s of
      (Inl err, t) \<Rightarrow> ((zero_Decision, Some (AuthzError err)), t)
    | (Inr _, t) \<Rightarrow> (authz_decide ul req, t))"

definition authz_policy :: "('s, 'z) World_scheme \<Rightarrow> (string \<Rightarrow> string) \<Rightarrow> 's Authorizer option \<Rightarrow> 's Authorizer" where
  "authz_policy W ul policy = (case policy of None \<Rightarrow> DefaultPolicy W ul | Some p \<Rightarrow> p)"

definition Explain :: "('s, 'z) World_scheme \<Rightarrow> (string \<Rightarrow> string) \<Rightarrow> 's Authorizer option \<Rightarrow> authz_Request \<Rightarrow> 's \<Rightarrow> Decision \<times> 's" where
  "Explain W ul policy req s = (case authz_policy W ul policy req s of
      ((decision, None), t) \<Rightarrow> (decision, t)
    | ((decision, Some (DeniedError d)), t) \<Rightarrow> (d, t)
    | ((decision, Some (AuthzError err)), t) \<Rightarrow>
        (let r = authz_normalizeRequest ul req in
         (zero_Decision\<lparr>dcs_Action := azr_Action r, dcs_Actor := azr_Actor r, dcs_Target := azr_Target r, dcs_Env := azr_Env r,
            dcs_Service := azr_Service r, dcs_Risk := azr_Risk r, dcs_Denials := [err_text err]\<rparr>, t)))"

definition MustAuthorize ::
  "('s, 'z) World_scheme \<Rightarrow> (string \<Rightarrow> string) \<Rightarrow> 's Authorizer option \<Rightarrow> authz_Request \<Rightarrow> 's \<Rightarrow> (Decision \<times> authz_error option) \<times> 's" where
  "MustAuthorize W ul policy req s = (case authz_policy W ul policy req s of
      ((decision, Some err), t) \<Rightarrow> ((decision, Some err), t)
    | ((decision, None), t) \<Rightarrow>
        if \<not> dcs_Allowed decision then ((decision, Some (DeniedError decision)), t) else ((decision, None), t))"

section \<open>What the default policy allows\<close>

definition policy_allows :: "(string \<Rightarrow> string) \<Rightarrow> authz_Request \<Rightarrow> bool" where
  "policy_allows ul r \<longleftrightarrow> knownAction (azr_Action r) \<and>
     (azr_DryRun r \<or> azr_PlanOnly r \<or> azr_Action r \<in> {ActionRead, ActionPlan} \<or> IsBreakGlass ul (azr_Actor r) \<or>
      (if azr_Action r = ActionApprove then HasRole ul (azr_Actor r) ''approver''
       else act_Type (azr_Actor r) \<noteq> ActorWorker \<and> (highRiskProduction ul r \<longrightarrow> validApprovalID (azr_ApprovalID r))))"

text \<open>The check for an actor without id and the one for agents without approval never decide.\<close>

lemma normalized_actor_id [simp]: "act_ID (azr_Actor (authz_normalizeRequest ul req)) \<noteq> []"
  by (simp add: authz_normalizeRequest_def auth_Normalize_def Let_def)

lemma normalized_switches [simp]:
  "azr_DryRun (authz_normalizeRequest ul req) = azr_DryRun req" "azr_PlanOnly (authz_normalizeRequest ul req) = azr_PlanOnly req"
  by (simp_all add: authz_normalizeRequest_def Let_def)

lemma validApprovalID_nonempty [simp]: "\<not> validApprovalID []"
  by (simp add: validApprovalID_def)

lemma known_mutating: "knownAction a \<Longrightarrow> a \<noteq> ActionRead \<Longrightarrow> a \<noteq> ActionPlan \<Longrightarrow> isMutating a"
  by (auto simp: knownAction_def isMutating_def)

lemma deny_simps [simp]: "snd (authz_deny d m) = Some (DeniedError (fst (authz_deny d m)))" "\<not> dcs_Allowed (fst (authz_deny d m))"
  "dcs_Allowed (authz_reason m d) = dcs_Allowed d" "dcs_Mutating (authz_reason m d) = dcs_Mutating d"
  by (simp_all add: authz_deny_def authz_reason_def Let_def)

lemma authz_final_decides:
  assumes "highRiskProduction ul r \<Longrightarrow> azr_ApprovalID r \<noteq> []" "dcs_Mutating d" "dcs_Allowed d"
  shows "snd (authz_final ul r d) = None \<longleftrightarrow> act_Type (azr_Actor r) \<noteq> ActorWorker"
    and "dcs_Allowed (fst (authz_final ul r d)) \<longleftrightarrow> act_Type (azr_Actor r) \<noteq> ActorWorker"
  using assms by (auto simp: authz_final_def)

lemma authz_decide_iff:
  fixes ul req
  defines "r \<equiv> authz_normalizeRequest ul req"
  shows "snd (authz_decide ul req) = None \<longleftrightarrow> policy_allows ul r" "dcs_Allowed (fst (authz_decide ul req)) \<longleftrightarrow> policy_allows ul r"
proof -
  have "(snd (authz_decide ul req) = None \<longleftrightarrow> policy_allows ul r) \<and> (dcs_Allowed (fst (authz_decide ul req)) \<longleftrightarrow> policy_allows ul r)"
  proof (cases "knownAction (azr_Action r) \<and> \<not> (azr_DryRun r \<or> azr_PlanOnly r \<or> azr_Action r = ActionRead \<or> azr_Action r = ActionPlan) \<and>
      \<not> IsBreakGlass ul (azr_Actor r) \<and> azr_Action r \<noteq> ActionApprove")
    case True
    have id: "act_ID (azr_Actor r) \<noteq> []" by (simp add: r_def)
    have m: "isMutating (azr_Action r)" using True known_mutating by blast
    show ?thesis
    proof (cases "highRiskProduction ul r")
      case hr: True
      show ?thesis using True id m hr unfolding authz_decide_def Let_def r_def [symmetric] policy_allows_def
        by (cases "azr_ApprovalID r = []"; cases "validApprovalID (azr_ApprovalID r)") (simp_all add: authz_final_decides)
    next
      case hr: False
      then show ?thesis using True id m unfolding authz_decide_def Let_def r_def [symmetric] policy_allows_def
        by (simp add: authz_final_def)
    qed
  next
    case False
    have id: "act_ID (azr_Actor r) \<noteq> []" by (simp add: r_def)
    show ?thesis using False id unfolding authz_decide_def Let_def r_def [symmetric] policy_allows_def
      by (auto simp: deny_simps)
  qed
  then show "snd (authz_decide ul req) = None \<longleftrightarrow> policy_allows ul r" "dcs_Allowed (fst (authz_decide ul req)) \<longleftrightarrow> policy_allows ul r" by blast+
qed

text \<open>
  C24: what the default policy lets through. Without a policy of its own, \<^verbatim>\<open>MustAuthorize\<close> succeeds exactly if the context is
  alive and the normalized request is for a known action and a dry run, a plan or a read, or by a break-glass actor, or an
  approval by an approver, or another action by anybody but a worker which, where it is of high risk in production,
  carries an approval id of a valid form.
\<close>

theorem default_policy_decides:
  "(\<exists>d t. MustAuthorize W ul None req s = ((d, None), t)) =
   ((\<exists>t. io_ctx W s = (Inr (), t)) \<and> policy_allows ul (authz_normalizeRequest ul req))"
proof -
  obtain c t where c: "io_ctx W s = (c, t)" by fastforce
  obtain d e where d: "authz_decide ul req = (d, e)" by fastforce
  show ?thesis using c d authz_decide_iff [of ul req]
    by (cases c; cases e) (auto simp: MustAuthorize_def authz_policy_def DefaultPolicy_def)
qed

end
