(* ===== verification/Deploy.thy ===== *)
theory Deploy
  imports Ops_Resume Release Authz
begin

text \<open>
  Deploying (internal/deploy/deploy.go): a compiled graph is planned by the provider, the operation is recorded,
  and under the service's lease a signed release is published, the plan applied and the service pointed to the
  release.

  Of the graph only what the deployer reads is here; the records can be extended by the rest, which only the
  provider sees, and the provider's plan is a type parameter. The object store is the world, so it is
  never missing. A deferred call that dereferences a nil handle is the outcome \<open>Panicked\<close>.
\<close>

section \<open>The compiled graph\<close>

record ir_Artifact =
  ira_Type :: string
  ira_Ref :: string
  ira_Digest :: string

record ir_HealthCheck =
  irh_Type :: string
  irh_Path :: string
  irh_Port :: int
  irh_Command :: "string list"
  irh_Interval :: string
  irh_Timeout :: string

record ir_AppMetrics =
  irx_Enabled :: bool
  irx_Path :: string
  irx_Port :: int

text \<open>\<^verbatim>\<open>ir.RuntimeManifest\<close> and \<^verbatim>\<open>ir.StatefulRecipe\<close> are read through the same fields, those of \<^verbatim>\<open>runtimeSource\<close>.\<close>

record runtimeSource =
  rso_Artifact :: ir_Artifact
  rso_Command :: "string list"
  rso_Env :: go_map
  rso_HealthCheck :: ir_HealthCheck
  rso_Metrics :: ir_AppMetrics

record Graph =
  gr_Service :: string
  gr_Env :: string
  gr_PackageLockDigest :: string
  gr_RuntimeManifests :: "runtimeSource list"
  gr_StatefulRecipes :: "runtimeSource list"

section \<open>Requests and results\<close>

record deploy_Request =
  dq_Actor :: Actor
  dq_TraceID :: string
  dq_ReleaseID :: string
  dq_OperationID :: string
  dq_ApprovalID :: string
  dq_DryRun :: bool
  dq_PlanOnly :: bool
  dq_Shadow :: bool
  dq_LeaseDuration :: int

record 'p deploy_Result =
  dr_OK :: bool
  dr_DryRun :: bool
  dr_PlanOnly :: bool
  dr_Shadow :: bool
  dr_OperationID :: string
  dr_ReleaseID :: string
  dr_TraceID :: string
  dr_Plan :: "'p option"
  dr_RuntimeManifest :: "RuntimeManifest option"
  dr_ReleaseManifest :: "ReleaseManifest option"
  dr_ServiceControl :: "ServiceControl option"
  dr_Events :: "events_Event list"
  dr_NextCommands :: "string list"

record PublishReleaseResult =
  prr_OK :: bool
  prr_OperationID :: string
  prr_ReleaseID :: string
  prr_TraceID :: string
  prr_RuntimeManifest :: "RuntimeManifest option"
  prr_ReleaseManifest :: "ReleaseManifest option"
  prr_Events :: "events_Event list"

text \<open>The provider's planning and applying; of an applied plan only the ids of its resources are read.\<close>

record ('s, 'g, 'p) deploy_Provider =
  dpv_Plan :: "'g Graph_scheme \<Rightarrow> ('s, 'p) io"
  dpv_Apply :: "'p \<Rightarrow> ('s, string list) io"

record ('s, 'g, 'p) Deployer =
  dep_Provider :: "('s, 'g, 'p) deploy_Provider option"
  dep_Signer :: "'s Signer option"
  dep_Authorizer :: "'s Authorizer option"
  dep_Version :: string
  dep_unicode_lower :: "string \<Rightarrow> string"

section \<open>Pure helpers\<close>

definition deploy_normalizeRequest :: "deploy_Request \<Rightarrow> 'g Graph_scheme \<Rightarrow> gotime \<Rightarrow> deploy_Request" where
  "deploy_normalizeRequest req graph now =
     (let actor0 = (if act_ID (dq_Actor req) = [] then \<lparr>act_ID = ''skiff'', act_Type = ''user''\<rparr> else dq_Actor req);
          actor = (if act_Type actor0 = [] then actor0\<lparr>act_Type := ''user''\<rparr> else actor0);
          trace = (if dq_TraceID req = [] then ''tr_'' @ NewID now now (gr_Service graph @ ''deploy'') else dq_TraceID req)
      in req\<lparr>dq_Actor := actor, dq_TraceID := trace,
           dq_OperationID := (if dq_OperationID req = [] then ''op_'' @ NewID now now trace else dq_OperationID req),
           dq_ReleaseID := (if dq_ReleaseID req = [] then ''rel_'' @ NewID now now trace else dq_ReleaseID req),
           dq_LeaseDuration := (if dq_LeaseDuration req \<le> 0 then 300000000000 else dq_LeaseDuration req)\<rparr>)"

fun indexDigest :: "string \<Rightarrow> string \<Rightarrow> nat option" where
  "indexDigest [] marker = (if marker = [] then Some 0 else None)"
| "indexDigest (c # cs) marker = (if prefix marker (c # cs) then Some 0 else map_option Suc (indexDigest cs marker))"

fun digestAfter :: "string \<Rightarrow> string list \<Rightarrow> string" where
  "digestAfter ref [] = []"
| "digestAfter ref (marker # markers) = (case indexDigest ref marker of
      Some idx \<Rightarrow> ''sha256:'' @ drop (idx + length marker) ref
    | None \<Rightarrow> digestAfter ref markers)"

definition artifactDigest :: "ir_Artifact \<Rightarrow> string" where
  "artifactDigest artifact =
     (if ira_Digest artifact \<noteq> [] then ira_Digest artifact else digestAfter (ira_Ref artifact) [''@sha256:'', ''sha256:''])"

definition artifactRef :: "ir_Artifact \<Rightarrow> ArtifactRef" where
  "artifactRef artifact = \<lparr>af_Type = ira_Type artifact, af_URI = ira_Ref artifact, af_Digest = artifactDigest artifact\<rparr>"

definition deploy_healthCheck :: "ir_HealthCheck \<Rightarrow> HealthCheck option" where
  "deploy_healthCheck health =
     (if irh_Type health = [] \<and> irh_Path health = [] \<and> irh_Command health = [] then None
      else Some \<lparr>hck_Type = irh_Type health, hck_Path = irh_Path health, hck_Port = irh_Port health, hck_Command = irh_Command health,
        hck_Interval = irh_Interval health, hck_Timeout = irh_Timeout health\<rparr>)"

definition metricsConfig :: "ir_AppMetrics \<Rightarrow> MetricsConfig option" where
  "metricsConfig metrics =
     (if \<not> irx_Enabled metrics then None else Some \<lparr>mc_Enabled = True, mc_Path = irx_Path metrics, mc_Port = irx_Port metrics\<rparr>)"

definition releaseRuntimeSource :: "'g Graph_scheme \<Rightarrow> runtimeSource result" where
  "releaseRuntimeSource graph = (case gr_RuntimeManifests graph of
      compiled # _ \<Rightarrow> Inr compiled
    | [] \<Rightarrow> (case gr_StatefulRecipes graph of
          recipe # _ \<Rightarrow> Inr recipe
        | [] \<Rightarrow> Inl (new_error ''compiled graph has no runtime manifest or stateful recipe runtime'')))"

definition compiledRuntime :: "'g Graph_scheme \<Rightarrow> deploy_Request \<Rightarrow> gotime \<Rightarrow> runtimeSource \<Rightarrow> RuntimeManifest" where
  "compiledRuntime graph req now compiled =
     \<lparr>rtm_SchemaVersion = schema_Version, rtm_Service = gr_Service graph, rtm_Env = gr_Env graph, rtm_ReleaseID = dq_ReleaseID req,
      rtm_PackageLockDigest = gr_PackageLockDigest graph, rtm_Command = rso_Command compiled, rtm_EnvVars = rso_Env compiled,
      rtm_HealthCheck = deploy_healthCheck (rso_HealthCheck compiled), rtm_Metrics = metricsConfig (rso_Metrics compiled),
      rtm_CreatedAt = canonical_Time now\<rparr>"

definition compiledRelease ::
  "'g Graph_scheme \<Rightarrow> deploy_Request \<Rightarrow> gotime \<Rightarrow> runtimeSource \<Rightarrow> string \<Rightarrow> string \<Rightarrow> string \<Rightarrow> ReleaseManifest" where
  "compiledRelease graph req now compiled version runtimeKey runtimeDigest =
     \<lparr>rm_SchemaVersion = schema_Version, rm_Service = gr_Service graph, rm_Env = gr_Env graph, rm_ReleaseID = dq_ReleaseID req,
      rm_Artifact = artifactRef (rso_Artifact compiled), rm_RuntimeManifestKey = runtimeKey, rm_RuntimeManifestDigest = runtimeDigest,
      rm_PackageLockDigest = gr_PackageLockDigest graph, rm_MinRunnerVersion = version, rm_Digest = [],
      rm_CreatedAt = canonical_Time now, rm_ExpiresAt = [], rm_Signatures = []\<rparr>"

section \<open>The documents of an operation\<close>

definition deployIntent :: "'g Graph_scheme \<Rightarrow> deploy_Request \<Rightarrow> gotime \<Rightarrow> OperationIntent" where
  "deployIntent graph req now =
     (NewOperationIntent (dq_OperationID req) (gr_Service graph) (gr_Env graph) ''deploy''
        (zero_Target\<lparr>tgt_Kind := ''service'', tgt_Name := gr_Service graph\<rparr>) (dq_Actor req) (dq_TraceID req) (canonical_Time now))
     \<lparr>oi_Risk := RiskMedium, oi_Reversibility := Compensatable, oi_PackageLockDigest := gr_PackageLockDigest graph,
      oi_Summary := ''deploy '' @ gr_Service graph @ '' release '' @ dq_ReleaseID req,
      oi_Params := Raw (JObj ((if gr_PackageLockDigest graph \<noteq> [] then [(''package_lock_digest'', JStr (gr_PackageLockDigest graph))] else []) @
        [(''release_id'', JStr (dq_ReleaseID req))]))\<rparr>"

definition createOperationIntent :: "('s, 'z) World_scheme \<Rightarrow> 'g Graph_scheme \<Rightarrow> deploy_Request \<Rightarrow> gotime \<Rightarrow> ('s, unit) io" where
  "createOperationIntent W graph req now =
     io_bind (io_lift (canonical_Marshal enc_OperationIntent raws_ok_OperationIntent (deployIntent graph req now))) (\<lambda>body.
     io_bind (io_lift (paths_OperationIntent (gr_Service graph) (dq_OperationID req))) (\<lambda>key.
     io_bind (os_Create W key (JsonBody body) ops_putOptions) (\<lambda>_. io_ret ())))"

definition createOperationControl ::
  "('s, 'z) World_scheme \<Rightarrow> 'g Graph_scheme \<Rightarrow> deploy_Request \<Rightarrow> string \<Rightarrow> gotime \<Rightarrow> StepResultRef list \<Rightarrow> ('s, unit) io" where
  "createOperationControl W graph req status now results =
     io_bind (io_lift (canonical_Marshal enc_OperationControl raws_ok_OperationControl
       (zero_OperationControl\<lparr>oc_SchemaVersion := schema_Version, oc_OperationID := dq_OperationID req, oc_Service := gr_Service graph,
          oc_Env := gr_Env graph, oc_Status := status, oc_StepResults := results, oc_UpdatedAt := canonical_Time now,
          oc_TraceID := dq_TraceID req\<rparr>))) (\<lambda>body.
     io_bind (io_lift (paths_OperationControl (gr_Service graph) (dq_OperationID req))) (\<lambda>key.
     io_bind (os_Create W key (JsonBody body) ops_putOptions) (\<lambda>_. io_ret ())))"

definition updateOperationControl ::
  "('s, 'z) World_scheme \<Rightarrow> 'g Graph_scheme \<Rightarrow> deploy_Request \<Rightarrow> string \<Rightarrow> StepResultRef list \<Rightarrow> ('s, unit) io" where
  "updateOperationControl W graph req status results =
     io_bind (io_lift (paths_OperationControl (gr_Service graph) (dq_OperationID req))) (\<lambda>key.
     io_bind (os_Get W key) (\<lambda>obj.
     io_bind (io_lift (canonical_UnmarshalStrict dec_OperationControl (obj_Body obj))) (\<lambda>control.
     io_bind (io_now W) (\<lambda>now.
     io_bind (io_lift (canonical_Marshal enc_OperationControl raws_ok_OperationControl
       (control\<lparr>oc_Status := status, oc_StepResults := results, oc_UpdatedAt := canonical_Time now\<rparr>))) (\<lambda>body.
     io_bind (os_CompareAndSwap W key (obj_ETag obj) (JsonBody body) ops_putOptions) (\<lambda>_. io_ret ()))))))"

definition ensureServiceControl :: "('s, 'z) World_scheme \<Rightarrow> 'g Graph_scheme \<Rightarrow> deploy_Request \<Rightarrow> gotime \<Rightarrow> ('s, unit) io" where
  "ensureServiceControl W graph req now =
     io_bind (io_try (GetServiceControl W (gr_Service graph))) (\<lambda>r. case r of
        Inr _ \<Rightarrow> io_ret ()
      | Inl err \<Rightarrow>
          if \<not> is_store ErrNotFound err then io_fail err
          else
            io_bind (io_try (CreateServiceControl W ((NewServiceControl (gr_Service graph) (gr_Env graph) (canonical_Time now) (dq_Actor req))
                \<lparr>sc_TraceID := dq_TraceID req\<rparr>))) (\<lambda>c. case c of
               Inr _ \<Rightarrow> io_ret ()
             | Inl e \<Rightarrow> if is_store ErrAlreadyExists e then io_ret () else io_fail e))"

section \<open>Publishing a release\<close>

definition publishRelease ::
  "('s, 'z) World_scheme \<Rightarrow> ('s, 'g, 'p) Deployer \<Rightarrow> 'g Graph_scheme \<Rightarrow> deploy_Request \<Rightarrow> gotime \<Rightarrow> ('s, RuntimeManifest \<times> ReleaseManifest) io" where
  "publishRelease W D graph req now =
     io_bind (io_lift (releaseRuntimeSource graph)) (\<lambda>compiled.
     (let runtimeManifest = compiledRuntime graph req now compiled in
      io_bind (io_lift (RuntimeManifestDigest runtimeManifest)) (\<lambda>runtimeDigest.
      io_bind (io_lift (paths_RuntimeManifest (gr_Service graph) (dq_ReleaseID req))) (\<lambda>runtimeKey.
      io_bind (SignManifest (compiledRelease graph req now compiled (dep_Version D) runtimeKey runtimeDigest) (dep_Signer D) (dq_Actor req) now) (\<lambda>signedManifest.
      io_bind (io_lift (canonical_Marshal enc_RuntimeManifest (\<lambda>_. True) runtimeManifest)) (\<lambda>runtimeBody.
      io_bind (os_Create W runtimeKey (JsonBody runtimeBody) ops_putOptions) (\<lambda>_.
      io_bind (io_lift (canonical_Marshal enc_ReleaseManifest (\<lambda>_. True) signedManifest)) (\<lambda>releaseBody.
      io_bind (io_lift (paths_ReleaseManifest (gr_Service graph) (dq_ReleaseID req))) (\<lambda>releaseKey.
      io_bind (os_Create W releaseKey (JsonBody releaseBody) ops_putOptions) (\<lambda>_.
      io_ret (runtimeManifest, signedManifest)))))))))))"

definition deploy_authorize ::
  "('s, 'z) World_scheme \<Rightarrow> ('s, 'g, 'p) Deployer \<Rightarrow> 'g Graph_scheme \<Rightarrow> deploy_Request \<Rightarrow> string \<Rightarrow> ('s, Decision) io" where
  "deploy_authorize W D graph req risk s =
     (case MustAuthorize W (dep_unicode_lower D) (dep_Authorizer D)
        \<lparr>azr_Actor = dq_Actor req, azr_Action = ActionDeploy, azr_Target = zero_Target\<lparr>tgt_Kind := ''service'', tgt_Name := gr_Service graph\<rparr>,
         azr_Env = gr_Env graph, azr_Service = gr_Service graph, azr_Risk = risk, azr_ApprovalID = dq_ApprovalID req, azr_ApprovalRole = [],
         azr_DryRun = False, azr_PlanOnly = False, azr_TraceID = dq_TraceID req\<rparr> s of
        ((decision, None), t) \<Rightarrow> (Inr decision, t)
      | ((decision, Some err), t) \<Rightarrow> (Inl (authz_goerr err), t))"

definition publishAudit :: "'g Graph_scheme \<Rightarrow> deploy_Request \<Rightarrow> gotime \<Rightarrow> AuditRecord" where
  "publishAudit graph req now =
     (NewAuditRecord now (dq_Actor req) (zero_Target\<lparr>tgt_Kind := ''service'', tgt_Name := gr_Service graph\<rparr>) ''publish_release''
        (''published signed release '' @ dq_ReleaseID req) (dq_TraceID req) now (dq_OperationID req @ ''publish-release''))
     \<lparr>ar_Risk := RiskLow, ar_ApprovalID := dq_ApprovalID req, ar_AfterSummary := ''release '' @ dq_ReleaseID req @ '' published'',
      ar_Data := Raw (JObj [(''operation_id'', JStr (dq_OperationID req)), (''release_id'', JStr (dq_ReleaseID req))])\<rparr>"

definition publishEvent :: "'g Graph_scheme \<Rightarrow> deploy_Request \<Rightarrow> gotime \<Rightarrow> events_Event" where
  "publishEvent graph req now =
     (NewOperationEvent now (gr_Service graph) (dq_OperationID req) ''deploy.release_published''
        ''signed release and runtime manifest objects published'' now (dq_TraceID req @ ''canary-release-published''))
     \<lparr>ee_TraceID := dq_TraceID req, ee_Actor := Some (dq_Actor req),
      ee_Facts := [zero_Fact\<lparr>fct_Type := ''release'', fct_Message := dq_ReleaseID req\<rparr>]\<rparr>"

definition PublishRelease ::
  "('s, 'z) World_scheme \<Rightarrow> ('s, 'g, 'p) Deployer \<Rightarrow> 'g Graph_scheme option \<Rightarrow> deploy_Request \<Rightarrow> ('s, PublishReleaseResult) io" where
  "PublishRelease W D g req0 =
     io_bind (io_ctx W) (\<lambda>_. case g of
        None \<Rightarrow> io_fail (new_error ''graph is required'')
      | Some graph \<Rightarrow>
          if dep_Signer D = None then io_fail (new_error ''signer is required for release publish'')
          else
            io_bind (io_now W) (\<lambda>now.
            (let req = deploy_normalizeRequest req0 graph now in
             io_bind (deploy_authorize W D graph req RiskLow) (\<lambda>_.
             io_bind (publishRelease W D graph req now) (\<lambda>(runtimeManifest, releaseManifest).
             io_bind (io_now W) (\<lambda>now2.
             io_bind (io_try (log_Append W (publishEvent graph req now2))) (\<lambda>logged.
             io_bind (io_now W) (\<lambda>now3.
             io_bind (io_try (log_AppendAudit W (publishAudit graph req now3))) (\<lambda>_.
             io_ret \<lparr>prr_OK = True, prr_OperationID = dq_OperationID req, prr_ReleaseID = dq_ReleaseID req, prr_TraceID = dq_TraceID req,
               prr_RuntimeManifest = Some runtimeManifest, prr_ReleaseManifest = Some releaseManifest,
               prr_Events = (case logged of Inr _ \<Rightarrow> [publishEvent graph req now2] | Inl _ \<Rightarrow> [])\<rparr>)))))))))"

section \<open>Deploy\<close>

text \<open>The variables the steps share: the result under construction and the lease handle, which a failed update sets to nil.\<close>

record 'p deploy_vars =
  dv_result :: "'p deploy_Result"
  dv_handle :: "LeaseHandle option"

text \<open>An early return under the lease: the result, if it is returned, and the error.\<close>

type_synonym ('s, 'p, 'a) dio = "('s \<times> 'p deploy_vars, 'p deploy_Result option \<times> goerr, 'a) eio"

definition d_result :: "('p deploy_Result \<Rightarrow> 'p deploy_Result) \<Rightarrow> ('s, 'p, unit) dio" where
  "d_result f = ebind (eupdate (\<lambda>v. v\<lparr>dv_result := f (dv_result v)\<rparr>)) (\<lambda>_. eret ())"

definition d_try :: "('s, 'a) io \<Rightarrow> ('s, 'p, 'a result) dio" where
  "d_try m = ecall m"

definition deployEvent :: "'g Graph_scheme \<Rightarrow> deploy_Request \<Rightarrow> string \<Rightarrow> string \<Rightarrow> Fact list \<Rightarrow> gotime \<Rightarrow> events_Event" where
  "deployEvent graph req eventType summary facts now =
     (NewOperationEvent now (gr_Service graph) (dq_OperationID req) eventType summary now (dq_TraceID req @ eventType))
     \<lparr>ee_TraceID := dq_TraceID req, ee_Actor := Some (dq_Actor req), ee_Facts := facts\<rparr>"

definition deploy_appendEvent ::
  "('s, 'z) World_scheme \<Rightarrow> 'g Graph_scheme \<Rightarrow> deploy_Request \<Rightarrow> string \<Rightarrow> string \<Rightarrow> Fact list \<Rightarrow> ('s, 'p, unit) dio" where
  "deploy_appendEvent W graph req eventType summary facts =
     ebind (d_try (io_bind (io_now W) (\<lambda>now.
        io_bind (log_Append W (deployEvent graph req eventType summary facts now)) (\<lambda>_. io_ret (deployEvent graph req eventType summary facts now))))) (\<lambda>r.
     case r of
       Inr event \<Rightarrow> d_result (\<lambda>result. result\<lparr>dr_Events := dr_Events result @ [event]\<rparr>)
     | Inl _ \<Rightarrow> eret ())"

definition stepRef :: "string \<Rightarrow> string \<Rightarrow> gotime \<Rightarrow> StepResultRef" where
  "stepRef step status now = \<lparr>srr_StepID = step, srr_Kind = ''deploy'', srr_Status = status, srr_Result = RawEmpty, srr_ResultRef = [],
     srr_Failure = None, srr_ProviderOperations = [], srr_CompletedAt = canonical_Time now\<rparr>"

definition deployStatus :: "('s, 'z) World_scheme \<Rightarrow> 'g Graph_scheme \<Rightarrow> deploy_Request \<Rightarrow> string \<Rightarrow> string \<Rightarrow> string \<Rightarrow> ('s, unit) io" where
  "deployStatus W graph req operationStatus step status =
     io_bind (io_now W) (\<lambda>now. updateOperationControl W graph req operationStatus [stepRef step status now])"

definition deploy_fail :: "('s, 'z) World_scheme \<Rightarrow> 'g Graph_scheme \<Rightarrow> deploy_Request \<Rightarrow> string \<Rightarrow> goerr \<Rightarrow> ('s, 'p, 'a) dio" where
  "deploy_fail W graph req step err =
     ebind (d_result (\<lambda>result. result\<lparr>dr_OK := False\<rparr>)) (\<lambda>_.
     ebind (deploy_appendEvent W graph req ''deploy.failed'' (err_text err) [zero_Fact\<lparr>fct_Type := ''step'', fct_Message := step\<rparr>]) (\<lambda>_.
     ebind (d_try (deployStatus W graph req OperationFailed step ''failed'')) (\<lambda>_ p.
     (Inl (Some (dv_result (snd p)), err), p))))"

text \<open>A step that ends the deployment through \<^verbatim>\<open>fail\<close> when it fails.\<close>

definition d_step :: "('s, 'z) World_scheme \<Rightarrow> 'g Graph_scheme \<Rightarrow> deploy_Request \<Rightarrow> string \<Rightarrow> ('s, 'a) io \<Rightarrow> ('s, 'p, 'a) dio" where
  "d_step W graph req step m = ebind (d_try m) (\<lambda>r. case r of Inl err \<Rightarrow> deploy_fail W graph req step err | Inr x \<Rightarrow> eret x)"

definition pointTo :: "deploy_Request \<Rightarrow> ServiceControl \<Rightarrow> ServiceControl" where
  "pointTo req control = control\<lparr>sc_DesiredRelease := dq_ReleaseID req,
     sc_Operation := Some (zero_ActiveOperation\<lparr>aop_ID := dq_OperationID req, aop_Kind := ''deploy'', aop_State := OperationSucceeded\<rparr>),
     sc_UpdatedBy := dq_Actor req, sc_TraceID := dq_TraceID req\<rparr>"

text \<open>\<^verbatim>\<open>handle, controlDoc, err := UpdateServiceControlWithLeaseCAS(...)\<close> assigns the shared handle in both cases.\<close>

definition deployPoint :: "('s, 'z) World_scheme \<Rightarrow> 'g Graph_scheme \<Rightarrow> deploy_Request \<Rightarrow> LeaseHandle \<Rightarrow> ('s, 'p, LeaseHandle) dio" where
  "deployPoint W graph req handle =
     ebind (d_try (UpdateServiceControlWithLeaseCAS W handle (\<lambda>control. Inr (pointTo req control)))) (\<lambda>r. case r of
        Inl err \<Rightarrow>
          ebind (eupdate (\<lambda>v. v\<lparr>dv_handle := None\<rparr>)) (\<lambda>_. deploy_fail W graph req ''update_desired_release'' err)
      | Inr (nextHandle, controlDoc) \<Rightarrow>
          ebind (eupdate (\<lambda>v. v\<lparr>dv_handle := Some nextHandle, dv_result := (dv_result v)\<lparr>dr_ServiceControl := Some (scd_Control controlDoc)\<rparr>\<rparr>)) (\<lambda>_.
          eret nextHandle))"

definition deployAudit :: "'g Graph_scheme \<Rightarrow> deploy_Request \<Rightarrow> gotime \<Rightarrow> AuditRecord" where
  "deployAudit graph req now =
     (NewAuditRecord now (dq_Actor req) (zero_Target\<lparr>tgt_Kind := ''service'', tgt_Name := gr_Service graph\<rparr>) ''deploy''
        (''updated desired release to '' @ dq_ReleaseID req) (dq_TraceID req) now (dq_OperationID req))
     \<lparr>ar_Risk := RiskMedium, ar_ApprovalID := dq_ApprovalID req, ar_AfterSummary := ''desired release '' @ dq_ReleaseID req,
      ar_Data := Raw (JObj [(''operation_id'', JStr (dq_OperationID req)), (''release_id'', JStr (dq_ReleaseID req))])\<rparr>"

text \<open>What runs while the lease is held; \<open>Inr\<close> means it has been released.\<close>

definition deployHeld ::
  "('s, 'z) World_scheme \<Rightarrow> ('s, 'g, 'p) Deployer \<Rightarrow> ('s, 'g, 'p) deploy_Provider \<Rightarrow> 'g Graph_scheme \<Rightarrow> deploy_Request \<Rightarrow> 'p \<Rightarrow> gotime \<Rightarrow>
   LeaseHandle \<Rightarrow> ('s, 'p, unit) dio" where
  "deployHeld W D P graph req plan now handle =
     ebind (host (\<lambda>err. (None, err)) (createOperationControl W graph req OperationRunning now [])) (\<lambda>_.
     ebind (deploy_appendEvent W graph req ''deploy.started'' ''deploy operation started'' []) (\<lambda>_.
     ebind (d_step W graph req ''publish_release'' (publishRelease W D graph req now)) (\<lambda>(runtimeManifest, releaseManifest).
     ebind (d_result (\<lambda>result. result\<lparr>dr_RuntimeManifest := Some runtimeManifest, dr_ReleaseManifest := Some releaseManifest\<rparr>)) (\<lambda>_.
     ebind (deploy_appendEvent W graph req ''deploy.release_published'' ''signed release and runtime manifest objects published'' []) (\<lambda>_.
     ebind (d_step W graph req ''apply_infrastructure'' (dpv_Apply P plan)) (\<lambda>resourceIDs.
     ebind (deploy_appendEvent W graph req ''deploy.infrastructure_applied'' ''provider infrastructure plan applied''
        [zero_Fact\<lparr>fct_Type := ''resources'', fct_Message := show_int (int (length resourceIDs)) @ '' resource(s)''\<rparr>]) (\<lambda>_.
     ebind (deployPoint W graph req handle) (\<lambda>nextHandle.
     ebind (deploy_appendEvent W graph req ''deploy.desired_release_updated'' ''service desired release updated''
        [zero_Fact\<lparr>fct_Type := ''release'', fct_Message := dq_ReleaseID req\<rparr>]) (\<lambda>_.
     ebind (d_step W graph req ''complete_operation'' (deployStatus W graph req OperationSucceeded ''deploy'' ''succeeded'')) (\<lambda>_.
     ebind (deploy_appendEvent W graph req ''deploy.succeeded'' ''deploy operation completed'' []) (\<lambda>_.
     ebind (d_try (io_bind (io_now W) (\<lambda>now2. log_AppendAudit W (deployAudit graph req now2)))) (\<lambda>_.
     ebind (d_step W graph req ''release_lease'' (ReleaseLease W nextHandle)) (\<lambda>_.
     eret ())))))))))))))"

datatype 'p deploy_exit = Returned "'p deploy_Result option" "goerr option" | Panicked

definition deployLeased ::
  "('s, 'z) World_scheme \<Rightarrow> ('s, 'g, 'p) Deployer \<Rightarrow> ('s, 'g, 'p) deploy_Provider \<Rightarrow> 'g Graph_scheme \<Rightarrow> deploy_Request \<Rightarrow> 'p \<Rightarrow> gotime \<Rightarrow>
   'p deploy_Result \<Rightarrow> LeaseHandle \<Rightarrow> 's \<Rightarrow> 'p deploy_exit \<times> 's" where
  "deployLeased W D P graph req plan now result handle s =
     (case deployHeld W D P graph req plan now handle (s, \<lparr>dv_result = result, dv_handle = Some handle\<rparr>) of
        (Inr _, (t, v)) \<Rightarrow> (Returned (Some (dv_result v)) None, t)
      | (Inl (res, err), (t, v)) \<Rightarrow> (case dv_handle v of
            None \<Rightarrow> (Panicked, t)
          | Some h \<Rightarrow> (case ReleaseLease W h t of (_, u) \<Rightarrow> (Returned res (Some err), u))))"

definition deployPrepare :: "('s, 'z) World_scheme \<Rightarrow> 'g Graph_scheme \<Rightarrow> deploy_Request \<Rightarrow> gotime \<Rightarrow> ('s, LeaseHandle) io" where
  "deployPrepare W graph req now =
     io_bind (createOperationIntent W graph req now) (\<lambda>_.
     io_bind (ensureServiceControl W graph req now) (\<lambda>_.
     io_bind (AcquireLease W defaultRetryOptions (gr_Service graph)
        \<lparr>lop_Owner = act_ID (dq_Actor req), lop_Duration = dq_LeaseDuration req, lop_Actor = dq_Actor req, lop_TraceID = dq_TraceID req\<rparr>) (\<lambda>(handle, _).
     io_ret handle)))"

definition deployResult :: "'g Graph_scheme \<Rightarrow> deploy_Request \<Rightarrow> 'p \<Rightarrow> 'p deploy_Result" where
  "deployResult graph req plan =
     \<lparr>dr_OK = True, dr_DryRun = dq_DryRun req, dr_PlanOnly = dq_PlanOnly req, dr_Shadow = dq_Shadow req, dr_OperationID = dq_OperationID req,
      dr_ReleaseID = dq_ReleaseID req, dr_TraceID = dq_TraceID req, dr_Plan = Some plan, dr_RuntimeManifest = None, dr_ReleaseManifest = None,
      dr_ServiceControl = None, dr_Events = [],
      dr_NextCommands = [''skiff status '' @ gr_Service graph @ '' --format json --trace-id '' @ dq_TraceID req,
        ''skiff ops events '' @ dq_OperationID req @ '' --service '' @ gr_Service graph @ '' --format json --trace-id '' @ dq_TraceID req]\<rparr>"

text \<open>After the plan: the authorization, the records of the operation, the lease.\<close>

definition deployPlanned ::
  "('s, 'z) World_scheme \<Rightarrow> ('s, 'g, 'p) Deployer \<Rightarrow> ('s, 'g, 'p) deploy_Provider \<Rightarrow> 'g Graph_scheme \<Rightarrow> deploy_Request \<Rightarrow> 'p \<Rightarrow> gotime \<Rightarrow>
   's \<Rightarrow> 'p deploy_exit \<times> 's" where
  "deployPlanned W D P graph req plan now s =
     (let result = deployResult graph req plan in
      if dq_DryRun req \<or> dq_PlanOnly req then (Returned (Some result) None, s)
      else (case deploy_authorize W D graph req RiskMedium s of
          (Inl err, t) \<Rightarrow> (Returned (Some (result\<lparr>dr_OK := False\<rparr>)) (Some err), t)
        | (Inr _, t) \<Rightarrow>
            if dep_Signer D = None then (Returned None (Some (new_error ''signer is required for deploy'')), t)
            else (case deployPrepare W graph req now t of
                (Inl err, u) \<Rightarrow> (Returned None (Some err), u)
              | (Inr handle, u) \<Rightarrow> deployLeased W D P graph req plan now result handle u)))"

definition Deploy ::
  "('s, 'z) World_scheme \<Rightarrow> ('s, 'g, 'p) Deployer \<Rightarrow> 'g Graph_scheme option \<Rightarrow> deploy_Request \<Rightarrow> 's \<Rightarrow> 'p deploy_exit \<times> 's" where
  "Deploy W D g req0 s = (case io_ctx W s of
      (Inl err, t) \<Rightarrow> (Returned None (Some err), t)
    | (Inr _, t) \<Rightarrow> (case g of
          None \<Rightarrow> (Returned None (Some (new_error ''graph is required'')), t)
        | Some graph \<Rightarrow> (case dep_Provider D of
              None \<Rightarrow> (Returned None (Some (new_error ''provider is required'')), t)
            | Some P \<Rightarrow> (case w_Now W t of
                  (now, u) \<Rightarrow>
                    (let req = deploy_normalizeRequest req0 graph now in
                     case dpv_Plan P graph u of
                       (Inl err, v) \<Rightarrow> (Returned None (Some err), v)
                     | (Inr plan, v) \<Rightarrow> deployPlanned W D P graph req plan now v)))))"

end
