(* ===== verification/Deploy_Outcome.thy ===== *)
theory Deploy_Outcome
  imports Deploy
begin

text \<open>
  What a deployment achieves. For a client alone, with a provider that applies its plan and a signer whose
  signatures verify, a deployment succeeds, and what it leaves in the store is a release that can be fetched and verified.
\<close>

section \<open>Steps of a client alone\<close>

text \<open>Alone and at the same instant, with no change outside the keys \<open>K\<close>.\<close>

definition calm :: "(string \<Rightarrow> bool) \<Rightarrow> sys \<Rightarrow> sys \<Rightarrow> bool" where
  "calm K s t \<longleftrightarrow> sys_env t = [] \<and> sys_inv t \<and> sys_now t = sys_now s \<and> (\<forall>k. \<not> K k \<longrightarrow> sys_objs t k = sys_objs s k)"

lemma calm_refl: "sys_env s = [] \<Longrightarrow> sys_inv s \<Longrightarrow> calm K s s"
  by (simp add: calm_def)

lemma calm_trans: "calm K s t \<Longrightarrow> calm K t u \<Longrightarrow> calm K s u"
  by (simp add: calm_def)

lemma calm_mono: "calm K s t \<Longrightarrow> (\<And>k. K k \<Longrightarrow> L k) \<Longrightarrow> calm L s t"
  by (auto simp: calm_def)

lemma calm_objs: "calm K s t \<Longrightarrow> \<not> K k \<Longrightarrow> sys_objs t k = sys_objs s k"
  by (simp add: calm_def)

lemma calm_held: "calm K s t \<Longrightarrow> svc_held s h c \<Longrightarrow> \<not> K (service_key (lh_Service h)) \<Longrightarrow> svc_held t h c"
  by (rule svc_held_frame) (simp_all add: calm_def)

lemma alone_create_calm:
  assumes "sys_env s = []" "sys_inv s" "sys_objs s k = None"
  shows "\<exists>m t. os_Create sys_world k b p s = (Inr m, t) \<and> calm (\<lambda>x. x = k) s t \<and> sys_objs t k = Some (om_ETag m, b) \<and> sys_tokens t = sys_tokens s"
proof -
  obtain m t where t: "os_Create sys_world k b p s = (Inr m, t)" "sys_objs t = (sys_objs s)(k \<mapsto> (om_ETag m, b))" "sys_env t = []"
    "sys_now t = sys_now s" "sys_tokens t = sys_tokens s" using alone_Create [OF assms(1,3)] by blast
  moreover have "sys_inv t" using sysw.op_evolves(2) [OF t(1)] sysw.evolves_inv assms(2) by blast
  ultimately show ?thesis by (auto simp: calm_def)
qed

lemma alone_log_Append_calm:
  assumes "sys_env s = []" "sys_inv s" "\<And>now k. keyForEvent (log_normalizeEvent e now) = Inr k \<Longrightarrow> K k" "log_Append sys_world e s = (r, t)"
  shows "calm K s t"
proof -
  have "sys_now t = sys_now s"
    using assms(1,4) alone_log_create_now [OF assms(1)]
    by (auto simp: log_Append_def io_bind_def io_lift_def Let_def split: sum.splits)
  moreover have "sys_inv t" using sysw.quietD [OF sysw.quiet_log(2) assms(2,4)] sysw.evolves_inv assms(2) by blast
  ultimately show ?thesis using touchesD [OF touches_log_Append [OF assms(3)] assms(1,4)] by (simp add: calm_def)
qed

lemma alone_audit_calm: "sys_env s = [] \<Longrightarrow> sys_inv s \<Longrightarrow> log_AppendAudit sys_world r s = (x, t) \<Longrightarrow> calm (prefix ''audit/'') s t"
  by (drule (2) alone_audit) (simp add: calm_def)

text \<open>Appending an event of a deployment.\<close>

lemma deploy_event_key:
  "keyForEvent (log_normalizeEvent (deployEvent g req ty sm fs now) w) = Inr k \<Longrightarrow> event_of (gr_Service g) (dq_OperationID req) k"
  using operation_event_key [of "deployEvent g req ty sm fs now"] by (auto simp: deployEvent_def event_of_def)

lemma event_step:
  assumes "sys_env s = []" "sys_inv s"
  shows "\<exists>t v'. deploy_appendEvent sys_world g req ty sm fs (s, v) = (Inr (), (t, v')) \<and> calm (event_of (gr_Service g) (dq_OperationID req)) s t \<and>
    dv_handle v' = dv_handle v \<and> (\<exists>es. dv_result v' = (dv_result v)\<lparr>dr_Events := es\<rparr>)"
proof -
  let ?e = "deployEvent g req ty sm fs (sys_now s)"
  obtain r t where l: "log_Append sys_world ?e s = (r, t)" by fastforce
  have c: "calm (event_of (gr_Service g) (dq_OperationID req)) s t"
    by (rule alone_log_Append_calm [OF assms _ l]) (rule deploy_event_key)
  show ?thesis
  proof (cases r)
    case (Inl e)
    have "deploy_appendEvent sys_world g req ty sm fs (s, v) = (Inr (), (t, v))" using l Inl assms(1)
      by (simp add: deploy_appendEvent_def ebind_def d_try_def ecall_def io_bind_def eret_def)
    then show ?thesis using c by (intro exI [of _ t] exI [of _ v] conjI exI [of _ "dr_Events (dv_result v)"]) simp_all
  next
    case (Inr x)
    have "deploy_appendEvent sys_world g req ty sm fs (s, v) =
      (Inr (), (t, v\<lparr>dv_result := (dv_result v)\<lparr>dr_Events := dr_Events (dv_result v) @ [?e]\<rparr>\<rparr>))"
      using l Inr assms(1)
      by (simp add: deploy_appendEvent_def ebind_def d_try_def ecall_def io_bind_def eret_def io_ret_def d_result_def eupdate_def)
    then show ?thesis using c
      by (intro exI [of _ t] exI [of _ "v\<lparr>dv_result := (dv_result v)\<lparr>dr_Events := dr_Events (dv_result v) @ [?e]\<rparr>\<rparr>"] conjI
          exI [of _ "dr_Events (dv_result v) @ [?e]"]) simp_all
  qed
qed

lemma d_step_run: "d_step W g req st m (s, v) = (case m s of (Inr x, t) \<Rightarrow> (Inr x, (t, v)) | (Inl e, t) \<Rightarrow> deploy_fail W g req st e (t, v))"
  by (simp add: d_step_def ebind_def d_try_def ecall_def eret_def split: prod.split sum.split)

section \<open>Keys\<close>

definition release_key :: "string \<Rightarrow> string \<Rightarrow> string" where
  "release_key svc r = ''services/'' @ svc @ ''/releases/'' @ r @ ''/release.json''"

definition runtime_key :: "string \<Rightarrow> string \<Rightarrow> string" where
  "runtime_key svc r = ''services/'' @ svc @ ''/releases/'' @ r @ ''/runtime-manifest.json''"

definition intent_key :: "string \<Rightarrow> string \<Rightarrow> string" where
  "intent_key svc x = ''services/'' @ svc @ ''/operations/'' @ x @ ''/intent.json''"

lemma deploy_paths:
  "is_name svc \<Longrightarrow> is_id r \<Longrightarrow> paths_ReleaseManifest svc r = Inr (release_key svc r)"
  "is_name svc \<Longrightarrow> is_id r \<Longrightarrow> paths_RuntimeManifest svc r = Inr (runtime_key svc r)"
  "is_name svc \<Longrightarrow> is_id x \<Longrightarrow> paths_OperationIntent svc x = Inr (intent_key svc x)"
  "is_name svc \<Longrightarrow> is_id x \<Longrightarrow> paths_OperationControl svc x = Inr (op_key svc x)"
  by (simp_all add: paths_ReleaseManifest_def paths_RuntimeManifest_def paths_OperationIntent_def paths_OperationControl_def rbind_Inr_iff
      validateName_iff validateID_iff release_key_def runtime_key_def intent_key_def op_key_def)

lemma deploy_keys [simp]:
  "\<not> event_of svc x (release_key svc r)" "\<not> event_of svc x (runtime_key svc r)" "release_key svc r \<noteq> runtime_key svc r"
  "runtime_key svc r \<noteq> release_key svc r" "release_key svc r \<noteq> op_key svc x" "runtime_key svc r \<noteq> op_key svc x"
  "op_key svc x \<noteq> release_key svc r" "op_key svc x \<noteq> runtime_key svc r" "service_key svc \<noteq> release_key svc r" "service_key svc \<noteq> runtime_key svc r"
  "release_key svc r \<noteq> service_key svc" "runtime_key svc r \<noteq> service_key svc" "\<not> prefix ''audit/'' (release_key svc r)"
  "\<not> prefix ''audit/'' (runtime_key svc r)" "intent_key svc x \<noteq> service_key svc" "intent_key svc x \<noteq> op_key svc x"
  "intent_key svc x \<noteq> release_key svc r" "intent_key svc x \<noteq> runtime_key svc r"
  "service_key svc \<noteq> intent_key svc x" "op_key svc x \<noteq> intent_key svc x" "release_key svc r \<noteq> intent_key svc x" "runtime_key svc r \<noteq> intent_key svc x"
  by (auto simp: event_of_def paths_OperationEvent_def rbind_Inr_iff op_key_def service_key_def release_key_def runtime_key_def intent_key_def)

section \<open>The steps of a deployment\<close>

lemma sign_alone:
  assumes "\<forall>d u. \<exists>raw. sgr_SignDigest signer d u = (Inr raw, u)"
  shows "\<exists>m. SignManifest manifest (Some signer) actor now s = (Inr m, s)"
proof -
  obtain raw where "sgr_SignDigest signer (CanonicalJSONDigest (enc_ReleaseManifest (UnsignedManifest manifest))) s = (Inr raw, s)" using assms by blast
  then show ?thesis by (simp add: SignManifest_def ManifestDigest_eq signing_SignDigest_def io_bind_def io_lift_def io_ret_def)
qed

lemma publish_step:
  fixes now :: gotime
  assumes s: "sys_env s = []" "sys_inv s" and n: "is_name (gr_Service g)" "is_id (dq_ReleaseID req)"
    and fresh: "sys_objs s (release_key (gr_Service g) (dq_ReleaseID req)) = None" "sys_objs s (runtime_key (gr_Service g) (dq_ReleaseID req)) = None"
    and src: "releaseRuntimeSource g = Inr src" and signer: "dep_Signer D = Some signer" "\<forall>d u. \<exists>raw. sgr_SignDigest signer d u = (Inr raw, u)"
  defines "rt \<equiv> compiledRuntime g req now src"
  defines "manifest \<equiv> compiledRelease g req now src (dep_Version D) (runtime_key (gr_Service g) (dq_ReleaseID req)) (CanonicalJSONDigest (enc_RuntimeManifest rt))"
  shows "\<exists>m t e1 e2. publishRelease sys_world D g req now s = (Inr (rt, m), t) \<and> SignManifest manifest (Some signer) (dq_Actor req) now s = (Inr m, s) \<and>
    calm (\<lambda>k. k = release_key (gr_Service g) (dq_ReleaseID req) \<or> k = runtime_key (gr_Service g) (dq_ReleaseID req)) s t \<and>
    sys_objs t (release_key (gr_Service g) (dq_ReleaseID req)) = Some (e1, JsonBody (enc_ReleaseManifest m)) \<and>
    sys_objs t (runtime_key (gr_Service g) (dq_ReleaseID req)) = Some (e2, JsonBody (enc_RuntimeManifest rt))"
proof -
  let ?lk = "release_key (gr_Service g) (dq_ReleaseID req)" and ?tk = "runtime_key (gr_Service g) (dq_ReleaseID req)"
  obtain m where m: "SignManifest manifest (Some signer) (dq_Actor req) now s = (Inr m, s)" using sign_alone [OF signer(2)] by blast
  obtain m1 s1 where c1: "os_Create sys_world ?tk (JsonBody (enc_RuntimeManifest rt)) ops_putOptions s = (Inr m1, s1)"
    "calm (\<lambda>x. x = ?tk) s s1" "sys_objs s1 ?tk = Some (om_ETag m1, JsonBody (enc_RuntimeManifest rt))"
    using alone_create_calm [OF s fresh(2)] by blast
  have s1: "sys_env s1 = []" "sys_inv s1" "sys_objs s1 ?lk = None" using c1(2) fresh(1) calm_objs [OF c1(2), of ?lk] by (simp_all add: calm_def)
  obtain m2 t where c2: "os_Create sys_world ?lk (JsonBody (enc_ReleaseManifest m)) ops_putOptions s1 = (Inr m2, t)"
    "calm (\<lambda>x. x = ?lk) s1 t" "sys_objs t ?lk = Some (om_ETag m2, JsonBody (enc_ReleaseManifest m))"
    using alone_create_calm [OF s1] by blast
  have "publishRelease sys_world D g req now s = (Inr (rt, m), t)"
    using m c1(1) c2(1) unfolding manifest_def rt_def
    by (simp add: publishRelease_def io_bind_def io_lift_def src RuntimeManifestDigest_eq deploy_paths n signer(1) canonical_Marshal_def io_ret_def Let_def)
  moreover have "calm (\<lambda>k. k = ?lk \<or> k = ?tk) s t"
    by (rule calm_trans [OF calm_mono [OF c1(2)] calm_mono [OF c2(2)]]) simp_all
  moreover have "sys_objs t ?tk = Some (om_ETag m1, JsonBody (enc_RuntimeManifest rt))" using calm_objs [OF c2(2), of ?tk] c1(3) by simp
  ultimately show ?thesis using m c2(3) by blast
qed

lemma create_control_step:
  assumes s: "sys_env s = []" "sys_inv s" and n: "is_name (gr_Service g)" "is_id (dq_OperationID req)"
    and fresh: "sys_objs s (op_key (gr_Service g) (dq_OperationID req)) = None"
  shows "\<exists>t e oc. createOperationControl sys_world g req st now [] s = (Inr (), t) \<and> calm (\<lambda>k. k = op_key (gr_Service g) (dq_OperationID req)) s t \<and>
    op_at (sys_objs t) (gr_Service g) (dq_OperationID req) = Some (e, oc)"
proof -
  let ?k = "op_key (gr_Service g) (dq_OperationID req)"
  let ?c = "zero_OperationControl\<lparr>oc_SchemaVersion := schema_Version, oc_OperationID := dq_OperationID req, oc_Service := gr_Service g,
          oc_Env := gr_Env g, oc_Status := st, oc_StepResults := [], oc_UpdatedAt := canonical_Time now, oc_TraceID := dq_TraceID req\<rparr>"
  obtain m t where c: "os_Create sys_world ?k (JsonBody (enc_OperationControl ?c)) ops_putOptions s = (Inr m, t)" "calm (\<lambda>x. x = ?k) s t"
    "sys_objs t ?k = Some (om_ETag m, JsonBody (enc_OperationControl ?c))" using alone_create_calm [OF s fresh] by blast
  have w: "wf_OperationControl ?c" by (simp add: wf_OperationControl_def zero_OperationControl_def)
  then have "raws_ok_OperationControl ?c" by (simp add: wf_op_iff)
  then have "createOperationControl sys_world g req st now [] s = (Inr (), t)"
    using c(1) by (simp add: createOperationControl_def io_bind_def io_lift_def deploy_paths n canonical_Marshal_def io_ret_def)
  moreover have "op_at (sys_objs t) (gr_Service g) (dq_OperationID req) = Some (om_ETag m, ?c)"
    using c(3) w by (simp add: view_at_Some doc_view_Some codec_simps)
  ultimately show ?thesis using c(2) by blast
qed

lemma status_step:
  assumes s: "sys_env s = []" "sys_inv s" and n: "is_name (gr_Service g)" "is_id (dq_OperationID req)"
    and at: "op_at (sys_objs s) (gr_Service g) (dq_OperationID req) = Some (e, oc)"
  shows "\<exists>t e' oc'. deployStatus sys_world g req os step st s = (Inr (), t) \<and> calm (\<lambda>k. k = op_key (gr_Service g) (dq_OperationID req)) s t \<and>
    op_at (sys_objs t) (gr_Service g) (dq_OperationID req) = Some (e', oc') \<and> oc_Status oc' = os"
proof -
  let ?svc = "gr_Service g" and ?x = "dq_OperationID req" and ?k = "op_key (gr_Service g) (dq_OperationID req)"
  let ?c = "oc\<lparr>oc_Status := os, oc_StepResults := [stepRef step st (sys_now s)], oc_UpdatedAt := canonical_Time (sys_now s)\<rparr>"
  have w: "wf_OperationControl ?c" using op_at_wf [OF at]
    by (simp add: wf_OperationControl_def stepRef_def wf_StepResultRef_def raw_valid_def)
  obtain j where j: "sys_objs s ?k = Some (e, JsonBody j)" "dec_OperationControl j = Inr oc"
    using at by (auto simp: view_at_Some doc_view_Some)
  obtain ob where ob: "os_Get sys_world ?k s = (Inr ob, s)" "obj_ETag ob = e" "obj_Body ob = JsonBody j" using alone_Get [OF s(1) j(1)] by blast
  obtain m t where c: "os_CompareAndSwap sys_world ?k e (JsonBody (enc_OperationControl ?c)) ops_putOptions s = (Inr m, t)"
    "sys_objs t = (sys_objs s)(?k \<mapsto> (om_ETag m, JsonBody (enc_OperationControl ?c)))" "sys_env t = []" "sys_now t = sys_now s"
    using alone_CAS [OF s(1) j(1)] by blast
  have "sys_inv t" using sysw.op_evolves(3) [OF s(2) c(1)] sysw.evolves_inv s(2) by blast
  then have "calm (\<lambda>k. k = ?k) s t" using c(2-4) by (auto simp: calm_def)
  moreover have "deployStatus sys_world g req os step st s = (Inr (), t)"
    using ob c(1) j(2) w s(1) by (simp add: deployStatus_def updateOperationControl_def io_bind_def io_lift_def deploy_paths n
        canonical_Marshal_def canonical_UnmarshalStrict_def io_ret_def wf_op_iff)
  moreover have "op_at (sys_objs t) ?svc ?x = Some (om_ETag m, ?c)"
    using c(2) w by (simp add: view_at_Some doc_view_Some codec_simps)
  ultimately show ?thesis
    by (intro exI [of _ t] exI [of _ "om_ETag m"] exI [of _ ?c]) simp
qed

lemma point_step:
  assumes h: "svc_held s h c" "lh_Service h = svc" "sc_Version c < 2 ^ 63 - 1"
  shows "\<exists>h' c' t v'. deployPoint sys_world g req h (s, v) = (Inr h', (t, v')) \<and> svc_held t h' c' \<and> lh_Service h' = svc \<and>
    calm (\<lambda>k. k = service_key svc) s t \<and> sc_DesiredRelease c' = dq_ReleaseID req \<and> sc_Version c' = sc_Version c + 1 \<and>
    dv_handle v' = Some h' \<and> dv_result v' = (dv_result v)\<lparr>dr_ServiceControl := Some c'\<rparr>"
proof -
  obtain h' d t where u: "UpdateServiceControlWithLeaseCAS sys_world h (\<lambda>control. Inr (pointTo req control)) s = (Inr (h', d), t)"
    "svc_held t h' (scd_Control d)" "lh_Service h' = lh_Service h" "sys_now t = sys_now s"
    "scd_Control d = (pointTo req c)\<lparr>sc_Lease := sc_Lease c, sc_Version := sc_Version c + 1, sc_UpdatedAt := canonical_Time (sys_now s)\<rparr>"
    using session_update [OF h(1), of "\<lambda>control. Inr (pointTo req control)" "pointTo req c"] h(3) by (auto simp: pointTo_def)
  have e: "sys_env s = []" using h(1) by (simp add: svc_held_def)
  have "touches (\<lambda>k. k = service_key svc) (UpdateServiceControlWithLeaseCAS sys_world h (\<lambda>control. Inr (pointTo req control)))"
    by (rule touches_service_ops(2) [of svc]) (simp_all add: paths_ServiceControl_iff h(2))
  from touchesD [OF this e u(1)] have "calm (\<lambda>k. k = service_key svc) s t" using u(2,4) by (simp add: calm_def svc_held_def)
  moreover have "deployPoint sys_world g req h (s, v) =
      (Inr h', (t, v\<lparr>dv_handle := Some h', dv_result := (dv_result v)\<lparr>dr_ServiceControl := Some (scd_Control d)\<rparr>\<rparr>))"
    using u(1) by (simp add: deployPoint_def ebind_def d_try_def ecall_def eupdate_def eret_def)
  moreover have "sc_DesiredRelease (scd_Control d) = dq_ReleaseID req" "sc_Version (scd_Control d) = sc_Version c + 1" unfolding u(5)
    by (simp_all add: pointTo_def)
  ultimately show ?thesis using u(2,3) h(2)
    by - (rule exI [of _ h'], rule exI [of _ "scd_Control d"], rule exI [of _ t],
        rule exI [of _ "v\<lparr>dv_handle := Some h', dv_result := (dv_result v)\<lparr>dr_ServiceControl := Some (scd_Control d)\<rparr>\<rparr>"], simp)
qed

text \<open>What runs under the lease, from a state in which nothing of the operation and the release exists.\<close>

definition deploy_clear :: "sys \<Rightarrow> 'g Graph_scheme \<Rightarrow> deploy_Request \<Rightarrow> bool" where
  "deploy_clear s g req \<longleftrightarrow> is_name (gr_Service g) \<and> is_id (dq_OperationID req) \<and> is_id (dq_ReleaseID req) \<and>
     sys_objs s (op_key (gr_Service g) (dq_OperationID req)) = None \<and>
     sys_objs s (release_key (gr_Service g) (dq_ReleaseID req)) = None \<and> sys_objs s (runtime_key (gr_Service g) (dq_ReleaseID req)) = None"

lemma held_calm: "svc_held s h c \<Longrightarrow> sys_env s = [] \<and> sys_inv s"
  by (simp add: svc_held_def)

lemma deployHeld_alone:
  fixes now :: gotime
  assumes h: "svc_held s h c" "lh_Service h = gr_Service g" "sc_Version c < 2 ^ 63 - 2" and clear: "deploy_clear s g req"
    and src: "releaseRuntimeSource g = Inr src" and signer: "dep_Signer D = Some signer" "\<forall>d u. \<exists>raw. sgr_SignDigest signer d u = (Inr raw, u)"
    and applied: "\<And>u. dpv_Apply P plan u = (Inr ids, u)"
  defines "rt \<equiv> compiledRuntime g req now src"
  shows "\<exists>m t v' s0 c' oc e e1 e2 e3. deployHeld sys_world D P g req plan now h (s, v) = (Inr (), (t, v')) \<and>
    SignManifest (compiledRelease g req now src (dep_Version D) (runtime_key (gr_Service g) (dq_ReleaseID req)) (CanonicalJSONDigest (enc_RuntimeManifest rt)))
      (Some signer) (dq_Actor req) now s0 = (Inr m, s0) \<and>
    sys_env t = [] \<and> sys_now t = sys_now s \<and> dr_OK (dv_result v') = dr_OK (dv_result v) \<and> dr_ReleaseManifest (dv_result v') = Some m \<and>
    control_at (sys_objs t) (service_key (gr_Service g)) = Some (e, c') \<and> sc_DesiredRelease c' = dq_ReleaseID req \<and> sc_Lease c' = None \<and>
    op_at (sys_objs t) (gr_Service g) (dq_OperationID req) = Some (e3, oc) \<and> oc_Status oc = OperationSucceeded \<and>
    sys_objs t (release_key (gr_Service g) (dq_ReleaseID req)) = Some (e1, JsonBody (enc_ReleaseManifest m)) \<and>
    sys_objs t (runtime_key (gr_Service g) (dq_ReleaseID req)) = Some (e2, JsonBody (enc_RuntimeManifest rt))"
proof -
  let ?svc = "gr_Service g" and ?x = "dq_OperationID req" and ?r = "dq_ReleaseID req"
  let ?ev = "event_of ?svc ?x"
  note n = clear [unfolded deploy_clear_def]
  note s0 = held_calm [OF h(1)]
  obtain s1 e0 oc0 where a1: "createOperationControl sys_world g req OperationRunning now [] s = (Inr (), s1)" "calm (\<lambda>k. k = op_key ?svc ?x) s s1"
    "op_at (sys_objs s1) ?svc ?x = Some (e0, oc0)" using create_control_step [of s g req] s0 n by blast
  note h1 = calm_held [OF a1(2) h(1)] held_calm [OF calm_held [OF a1(2) h(1)]]
  obtain s2 v2 where a2: "deploy_appendEvent sys_world g req ''deploy.started'' ''deploy operation started'' [] (s1, v) = (Inr (), (s2, v2))"
    "calm ?ev s1 s2" "dr_OK (dv_result v2) = dr_OK (dv_result v)" using event_step [of s1 g req _ _ _ v] h1(2) h(2) by fastforce
  have "svc_held s2 h c" using calm_held [OF a2(2)] h1(1) h(2) by simp
  note h2 = this held_calm [OF this]
  have f2: "sys_objs s2 (release_key ?svc ?r) = None" "sys_objs s2 (runtime_key ?svc ?r) = None"
    using calm_objs [OF a2(2)] calm_objs [OF a1(2)] n by simp_all
  obtain m s3 e1 e2 where a3: "publishRelease sys_world D g req now s2 = (Inr (rt, m), s3)"
    "SignManifest (compiledRelease g req now src (dep_Version D) (runtime_key ?svc ?r) (CanonicalJSONDigest (enc_RuntimeManifest rt)))
      (Some signer) (dq_Actor req) now s2 = (Inr m, s2)" "calm (\<lambda>k. k = release_key ?svc ?r \<or> k = runtime_key ?svc ?r) s2 s3"
    "sys_objs s3 (release_key ?svc ?r) = Some (e1, JsonBody (enc_ReleaseManifest m))" "sys_objs s3 (runtime_key ?svc ?r) = Some (e2, JsonBody (enc_RuntimeManifest rt))"
    using publish_step [of s2 g req src D signer now] h2(2) n f2 src signer unfolding rt_def by blast
  have "svc_held s3 h c" using calm_held [OF a3(3) h2(1)] h(2) by simp
  note h3 = this held_calm [OF this]
  define v3 where "v3 = v2\<lparr>dv_result := (dv_result v2)\<lparr>dr_RuntimeManifest := Some rt, dr_ReleaseManifest := Some m\<rparr>\<rparr>"
  have d3: "d_result (\<lambda>result. result\<lparr>dr_RuntimeManifest := Some rt, dr_ReleaseManifest := Some m\<rparr>) (s3, v2) = (Inr (), (s3, v3))"
    by (simp add: d_result_def ebind_def eupdate_def eret_def v3_def)
  have r3: "dr_OK (dv_result v3) = dr_OK (dv_result v)" "dr_ReleaseManifest (dv_result v3) = Some m" using a2(3) by (simp_all add: v3_def)
  obtain s4 v4 where a4: "deploy_appendEvent sys_world g req ''deploy.release_published'' ''signed release and runtime manifest objects published'' [] (s3, v3) =
      (Inr (), (s4, v4))" "calm ?ev s3 s4" "dr_OK (dv_result v4) = dr_OK (dv_result v)" "dr_ReleaseManifest (dv_result v4) = Some m"
    using event_step [of s3 g req _ _ _ v3] h3(2) r3 by fastforce
  have "svc_held s4 h c" using calm_held [OF a4(2) h3(1)] h(2) by simp
  note h4 = this held_calm [OF this]
  let ?f = "[zero_Fact\<lparr>fct_Type := ''resources'', fct_Message := show_int (int (length ids)) @ '' resource(s)''\<rparr>]"
  obtain s5 v5 where a5: "deploy_appendEvent sys_world g req ''deploy.infrastructure_applied'' ''provider infrastructure plan applied'' ?f (s4, v4) =
      (Inr (), (s5, v5))" "calm ?ev s4 s5" "dr_OK (dv_result v5) = dr_OK (dv_result v)" "dr_ReleaseManifest (dv_result v5) = Some m"
    using event_step [of s4 g req _ _ _ v4] h4(2) a4(3,4) by fastforce
  have "svc_held s5 h c" using calm_held [OF a5(2) h4(1)] h(2) by simp
  note h5 = this
  obtain h6 c6 s6 v6 where a6: "deployPoint sys_world g req h (s5, v5) = (Inr h6, (s6, v6))" "svc_held s6 h6 c6" "lh_Service h6 = ?svc"
    "calm (\<lambda>k. k = service_key ?svc) s5 s6" "sc_DesiredRelease c6 = ?r" "sc_Version c6 = sc_Version c + 1"
    "dr_OK (dv_result v6) = dr_OK (dv_result v)" "dr_ReleaseManifest (dv_result v6) = Some m"
    using point_step [OF h5 h(2), of g req v5] h(3) a5(3,4) by fastforce
  note h6 = held_calm [OF a6(2)]
  obtain s7 v7 where a7: "deploy_appendEvent sys_world g req ''deploy.desired_release_updated'' ''service desired release updated''
        [zero_Fact\<lparr>fct_Type := ''release'', fct_Message := ?r\<rparr>] (s6, v6) = (Inr (), (s7, v7))" "calm ?ev s6 s7"
      "dr_OK (dv_result v7) = dr_OK (dv_result v)" "dr_ReleaseManifest (dv_result v7) = Some m"
    using event_step [of s6 g req _ _ _ v6] h6 a6(7,8) by fastforce
  have "svc_held s7 h6 c6" using calm_held [OF a7(2) a6(2)] a6(3) by simp
  note h7 = this held_calm [OF this]
  have "op_at (sys_objs s7) ?svc ?x = Some (e0, oc0)"
    using a1(3) calm_objs [OF a2(2), of "op_key ?svc ?x"] calm_objs [OF a3(3), of "op_key ?svc ?x"] calm_objs [OF a4(2), of "op_key ?svc ?x"]
      calm_objs [OF a5(2), of "op_key ?svc ?x"] calm_objs [OF a6(4), of "op_key ?svc ?x"] calm_objs [OF a7(2), of "op_key ?svc ?x"]
    by (simp add: view_at_def)
  then obtain s8 e8 oc8 where a8: "deployStatus sys_world g req OperationSucceeded ''deploy'' ''succeeded'' s7 = (Inr (), s8)"
    "calm (\<lambda>k. k = op_key ?svc ?x) s7 s8" "op_at (sys_objs s8) ?svc ?x = Some (e8, oc8)" "oc_Status oc8 = OperationSucceeded"
    using status_step [of s7 g req] h7(2) n by blast
  have "svc_held s8 h6 c6" using calm_held [OF a8(2) h7(1)] a6(3) by simp
  note h8 = this held_calm [OF this]
  obtain s9 v9 where a9: "deploy_appendEvent sys_world g req ''deploy.succeeded'' ''deploy operation completed'' [] (s8, v7) = (Inr (), (s9, v9))"
    "calm ?ev s8 s9" "dr_OK (dv_result v9) = dr_OK (dv_result v)" "dr_ReleaseManifest (dv_result v9) = Some m"
    using event_step [of s8 g req _ _ _ v7] h8(2) a7(3,4) by fastforce
  have "svc_held s9 h6 c6" using calm_held [OF a9(2) h8(1)] a6(3) by simp
  note h9 = this held_calm [OF this]
  obtain x10 s10 where l10: "log_AppendAudit sys_world (deployAudit g req (sys_now s9)) s9 = (x10, s10)" by fastforce
  have c10: "calm (prefix ''audit/'') s9 s10" using alone_audit_calm [OF _ _ l10] h9(2) by blast
  have a10: "d_try (io_bind (io_now sys_world) (\<lambda>now2. log_AppendAudit sys_world (deployAudit g req now2))) (s9, v9) = (Inr x10, (s10, v9))"
    using l10 h9(2) by (simp add: d_try_def ecall_def io_bind_def)
  have "svc_held s10 h6 c6" using calm_held [OF c10 h9(1)] a6(3) by simp
  note h10 = this held_calm [OF this]
  have "sc_Version c6 < 2 ^ 63 - 1" using a6(6) h(3) by simp
  then obtain d11 t where a11: "ReleaseLease sys_world h6 s10 = (Inr d11, t)" "sys_env t = []" "sys_now t = sys_now s10"
    "control_at (sys_objs t) (service_key ?svc) = Some (scd_ETag d11, scd_Control d11)"
    "sc_DesiredRelease (scd_Control d11) = ?r" "sc_Lease (scd_Control d11) = None"
    using session_release [OF h10(1)] a6(3,5) by fastforce
  have "touches (\<lambda>k. k = service_key ?svc) (ReleaseLease sys_world h6)"
    by (rule touches_service_ops(3) [of ?svc]) (simp_all add: paths_ServiceControl_iff a6(3))
  note t11 = touchesD [OF this _ a11(1)]
  have run: "deployHeld sys_world D P g req plan now h (s, v) = (Inr (), (t, v9))"
    unfolding deployHeld_def
    by (simp add: ebind_def host_def d_step_run eret_def a1(1) a2(1) a3(1) d3 a4(1) applied a5(1) a6(1) a7(1) a8(1) a9(1) a10 a11(1))
  have keep: "sys_objs t k = sys_objs s3 k" if "k = release_key ?svc ?r \<or> k = runtime_key ?svc ?r" for k
    using that calm_objs [OF a4(2), of k] calm_objs [OF a5(2), of k] calm_objs [OF a6(4), of k] calm_objs [OF a7(2), of k] calm_objs [OF a8(2), of k]
      calm_objs [OF a9(2), of k] calm_objs [OF c10, of k] t11(2) [of k] h10(2) by auto
  have op: "op_at (sys_objs t) ?svc ?x = Some (e8, oc8)"
    using a8(3) calm_objs [OF a9(2), of "op_key ?svc ?x"] calm_objs [OF c10, of "op_key ?svc ?x"] t11(2) [of "op_key ?svc ?x"] h10(2)
    by (simp add: view_at_def)
  have now: "sys_now t = sys_now s"
    using a11(3) c10 a9(2) a8(2) a7(2) a6(4) a5(2) a4(2) a3(3) a2(2) a1(2) by (simp add: calm_def)
  show ?thesis
    by (rule exI [of _ m], rule exI [of _ t], rule exI [of _ v9], rule exI [of _ s2], rule exI [of _ "scd_Control d11"], rule exI [of _ oc8],
        rule exI [of _ "scd_ETag d11"], rule exI [of _ e1], rule exI [of _ e2], rule exI [of _ e8])
      (simp add: run a3(2,4,5) a11(2,4,5,6) now a9(3,4) op a8(4) keep)
qed

text \<open>A deployment can start: its documents are new and the service is there, with no active lease.\<close>

definition deployable :: "sys \<Rightarrow> 'g Graph_scheme \<Rightarrow> deploy_Request \<Rightarrow> ServiceControl \<Rightarrow> bool" where
  "deployable s g req c \<longleftrightarrow> deploy_clear s g req \<and> sys_objs s (intent_key (gr_Service g) (dq_OperationID req)) = None \<and>
     (\<exists>e. control_at (sys_objs s) (service_key (gr_Service g)) = Some (e, c)) \<and> validateServiceControl c = Inr () \<and> sc_Service c = gr_Service g \<and>
     activeLease (sc_Lease c) (sys_now s) = Inr False \<and> sc_Version c < 2 ^ 63 - 3 \<and> TrimSpace (act_ID (dq_Actor req)) \<noteq> [] \<and>
     TrimSpace (next_token s) \<noteq> [] \<and> time_ok (sys_now s + dq_LeaseDuration req)"

lemma calm_clear: "calm K s t \<Longrightarrow> deploy_clear s g req \<Longrightarrow> \<not> K (op_key (gr_Service g) (dq_OperationID req)) \<Longrightarrow>
    \<not> K (release_key (gr_Service g) (dq_ReleaseID req)) \<Longrightarrow> \<not> K (runtime_key (gr_Service g) (dq_ReleaseID req)) \<Longrightarrow> deploy_clear t g req"
  by (simp add: calm_def deploy_clear_def)

lemma deployPrepare_alone:
  assumes s: "sys_env s = []" "sys_inv s" and ready: "deployable s g req c" and dur: "0 < dq_LeaseDuration req"
  shows "\<exists>h t c'. deployPrepare sys_world g req now s = (Inr h, t) \<and> svc_held t h c' \<and> lh_Service h = gr_Service g \<and>
    sc_Version c' = sc_Version c + 1 \<and> sys_now t = sys_now s \<and> deploy_clear t g req"
proof -
  let ?svc = "gr_Service g" and ?ik = "intent_key (gr_Service g) (dq_OperationID req)"
  let ?opts = "\<lparr>lop_Owner = act_ID (dq_Actor req), lop_Duration = dq_LeaseDuration req, lop_Actor = dq_Actor req, lop_TraceID = dq_TraceID req\<rparr>"
  note r = ready [unfolded deployable_def] and n = ready [unfolded deployable_def deploy_clear_def]
  obtain e where at: "control_at (sys_objs s) (service_key ?svc) = Some (e, c)" using r by blast
  obtain m s1 where i: "os_Create sys_world ?ik (JsonBody (enc_OperationIntent (deployIntent g req now))) ops_putOptions s = (Inr m, s1)"
    "calm (\<lambda>k. k = ?ik) s s1" "sys_tokens s1 = sys_tokens s" using alone_create_calm [OF s] r by blast
  have "raws_ok_OperationIntent (deployIntent g req now)" by (simp add: raws_ok_OperationIntent_def deployIntent_def raw_valid_def)
  then have i1: "createOperationIntent sys_world g req now s = (Inr (), s1)"
    using i(1) n by (simp add: createOperationIntent_def io_bind_def io_lift_def deploy_paths canonical_Marshal_def io_ret_def)
  have s1: "sys_env s1 = []" "sys_inv s1" "sys_now s1 = sys_now s" "next_token s1 = next_token s" using i(2,3) by (simp_all add: calm_def next_token_def)
  have at1: "control_at (sys_objs s1) (service_key ?svc) = Some (e, c)" using at calm_objs [OF i(2), of "service_key ?svc"] by (simp add: control_at_def)
  obtain doc where "GetServiceControl sys_world ?svc s1 = (Inr doc, s1)"
    using alone_GetServiceControl [OF s1(1) _ at1] r n by (auto simp: paths_ServiceControl_iff)
  then have e1: "ensureServiceControl sys_world g req now s1 = (Inr (), s1)" by (simp add: ensureServiceControl_def io_bind_def io_try_def io_ret_def)
  obtain h d t where a: "AcquireLease sys_world defaultRetryOptions ?svc ?opts s1 = (Inr (h, d), t)" "svc_held t h (scd_Control d)" "lh_Service h = ?svc"
    "sys_now t = sys_now s1" "sc_Version (scd_Control d) = sc_Version c + 1"
    using session_acquire [OF s1(1,2) at1, of ?opts defaultRetryOptions] r dur s1(3,4) by auto
  have "touches (\<lambda>k. k = service_key ?svc) (AcquireLease sys_world defaultRetryOptions ?svc ?opts)"
    by (rule touches_service_ops(1)) (simp add: paths_ServiceControl_iff)
  from touchesD [OF this s1(1) a(1)] have "calm (\<lambda>k. k = service_key ?svc) s1 t" using a(2,4) by (simp add: calm_def svc_held_def)
  from calm_clear [OF this calm_clear [OF i(2)], of g req] have "deploy_clear t g req" using r by simp
  moreover have "deployPrepare sys_world g req now s = (Inr h, t)" using i1 e1 a(1) by (simp add: deployPrepare_def io_bind_def io_ret_def)
  ultimately show ?thesis using a(2-5) s1(3)
    by - (rule exI [of _ h], rule exI [of _ t], rule exI [of _ "scd_Control d"], simp)
qed

lemma normalized_duration: "0 < dq_LeaseDuration (deploy_normalizeRequest req g now)"
  by (simp add: deploy_normalizeRequest_def Let_def)

lemma Deploy_alone:
  assumes s: "sys_env s = []" and req: "req = deploy_normalizeRequest req0 g (sys_now s)" "\<not> dq_DryRun req" "\<not> dq_PlanOnly req"
    and P: "dep_Provider D = Some P" "dpv_Plan P g s = (Inr plan, s)" and auth: "deploy_authorize sys_world D g req RiskMedium s = (Inr dec, s)"
    and signer: "dep_Signer D = Some signer" and prep: "deployPrepare sys_world g req (sys_now s) s = (Inr h, t)"
    and held: "deployHeld sys_world D P g req plan (sys_now s) h (t, \<lparr>dv_result = deployResult g req plan, dv_handle = Some h\<rparr>) = (Inr (), (u, v))"
  shows "Deploy sys_world D (Some g) req0 s = (Returned (Some (dv_result v)) None, u)"
proof -
  have "w_Now sys_world s = (sys_now s, s)" using alone_now [OF s] by (simp add: io_now_def split: prod.splits)
  then show ?thesis using req(2,3) P(2) auth prep held unfolding req(1)
    by (simp add: Deploy_def s P(1) Let_def deployPlanned_def signer deployLeased_def)
qed

lemma compiledRuntime_wf:
  assumes "wf_map (rso_Env src)" "in_int64 (irh_Port (rso_HealthCheck src))" "in_int64 (irx_Port (rso_Metrics src))"
  shows "wf_RuntimeManifest (compiledRuntime g req now src)"
  using assms by (simp add: wf_RuntimeManifest_def compiledRuntime_def deploy_healthCheck_def metricsConfig_def wf_HealthCheck_def wf_MetricsConfig_def)

section \<open>A lost handle\<close>

lemma append_event_goes_on:
  obtains t v' where "deploy_appendEvent W g req ty sm fs (s, v) = (Inr (), (t, v'))" "dv_handle v' = dv_handle v"
proof -
  obtain a b where "io_bind (io_now W) (\<lambda>now. io_bind (log_Append W (deployEvent g req ty sm fs now)) (\<lambda>_. io_ret (deployEvent g req ty sm fs now))) s = (a, b)"
    by fastforce
  then show ?thesis using that
    by (cases a) (simp_all add: deploy_appendEvent_def ebind_def d_try_def ecall_def eret_def d_result_def eupdate_def)
qed

lemma fail_exit: "\<exists>t v' res. deploy_fail W g req st err (s, v) = (Inl (res, err), (t, v')) \<and> dv_handle v' = dv_handle v"
proof -
  define v1 where "v1 = v\<lparr>dv_result := (dv_result v)\<lparr>dr_OK := False\<rparr>\<rparr>"
  obtain t v' where e: "deploy_appendEvent W g req ''deploy.failed'' (err_text err) [zero_Fact\<lparr>fct_Type := ''step'', fct_Message := st\<rparr>] (s, v1) = (Inr (), (t, v'))"
    "dv_handle v' = dv_handle v1" by (rule append_event_goes_on)
  obtain x u where "deployStatus W g req OperationFailed st ''failed'' t = (x, u)" by fastforce
  then show ?thesis using e
    by (simp add: deploy_fail_def ebind_def d_result_def eupdate_def eret_def v1_def d_try_def ecall_def)
qed

lemma point_failure:
  assumes "UpdateServiceControlWithLeaseCAS W h (\<lambda>control. Inr (pointTo req control)) s = (Inl err, t)"
  shows "\<exists>res u v'. deployPoint W g req h (s, v) = (Inl (res, err), (u, v')) \<and> dv_handle v' = None"
  using assms fail_exit [of W g req "''update_desired_release''" err t "v\<lparr>dv_handle := None\<rparr>"]
  by (auto simp: deployPoint_def ebind_def d_try_def ecall_def eupdate_def)

text \<open>
  If everything before succeeds and the update of the service fails, as it does when the lease was lost in the meantime, the deployment
  does not return the error: the failed update has set the handle to nil, and the deferred release dereferences it.
\<close>

lemma failed_update_panics:
  assumes create: "createOperationControl W g req OperationRunning now [] s = (Inr (), s1)"
    and publish: "\<And>s. \<exists>x t. publishRelease W D g req now s = (Inr x, t)" and applied: "\<And>s. \<exists>ids t. dpv_Apply P plan s = (Inr ids, t)"
    and upd: "\<And>s. \<exists>err t. UpdateServiceControlWithLeaseCAS W h (\<lambda>control. Inr (pointTo req control)) s = (Inl err, t)"
  shows "\<exists>t. deployLeased W D P g req plan now result h s = (Panicked, t)"
proof -
  let ?v = "\<lparr>dv_result = result, dv_handle = Some h\<rparr>"
  obtain s2 v2 where a2: "deploy_appendEvent W g req ''deploy.started'' ''deploy operation started'' [] (s1, ?v) = (Inr (), (s2, v2))" "dv_handle v2 = dv_handle ?v"
    by (rule append_event_goes_on)
  obtain rt m s3 where a3: "publishRelease W D g req now s2 = (Inr (rt, m), s3)" using publish [of s2] by auto
  define v3 where "v3 = v2\<lparr>dv_result := (dv_result v2)\<lparr>dr_RuntimeManifest := Some rt, dr_ReleaseManifest := Some m\<rparr>\<rparr>"
  have d3: "d_result (\<lambda>result. result\<lparr>dr_RuntimeManifest := Some rt, dr_ReleaseManifest := Some m\<rparr>) (s3, v2) = (Inr (), (s3, v3))"
    by (simp add: d_result_def ebind_def eupdate_def eret_def v3_def)
  obtain s4 v4 where a4: "deploy_appendEvent W g req ''deploy.release_published'' ''signed release and runtime manifest objects published'' [] (s3, v3) =
      (Inr (), (s4, v4))" "dv_handle v4 = dv_handle v3" by (rule append_event_goes_on)
  obtain ids s5 where a5: "dpv_Apply P plan s4 = (Inr ids, s5)" using applied by blast
  obtain s6 v6 where a6: "deploy_appendEvent W g req ''deploy.infrastructure_applied'' ''provider infrastructure plan applied''
      [zero_Fact\<lparr>fct_Type := ''resources'', fct_Message := show_int (int (length ids)) @ '' resource(s)''\<rparr>] (s5, v4) = (Inr (), (s6, v6))" "dv_handle v6 = dv_handle v4"
    by (rule append_event_goes_on)
  obtain err s7 where a7: "UpdateServiceControlWithLeaseCAS W h (\<lambda>control. Inr (pointTo req control)) s6 = (Inl err, s7)" using upd by blast
  obtain t v7 res where a8: "deployPoint W g req h (s6, v6) = (Inl (res, err), (t, v7))" "dv_handle v7 = None" using point_failure [OF a7] by blast
  have "deployHeld W D P g req plan now h (s, ?v) = (Inl (res, err), (t, v7))" unfolding deployHeld_def
    by (simp add: ebind_def host_def d_step_run create a2(1) a3 d3 a4(1) a5 a6(1) a8(1))
  then show ?thesis using a8(2) by (simp add: deployLeased_def)
qed

section \<open>Properties\<close>


text \<open>A deployment of ''web'' by a user, under the default policy.\<close>

definition web_source :: runtimeSource where
  "web_source = \<lparr>rso_Artifact = \<lparr>ira_Type = ''oci'', ira_Ref = ''web'', ira_Digest = []\<rparr>, rso_Command = [''serve''], rso_Env = [],
     rso_HealthCheck = \<lparr>irh_Type = ''http'', irh_Path = ''/healthz'', irh_Port = 8080, irh_Command = [], irh_Interval = [], irh_Timeout = []\<rparr>,
     rso_Metrics = \<lparr>irx_Enabled = False, irx_Path = [], irx_Port = 0\<rparr>\<rparr>"

definition web_graph :: Graph where
  "web_graph = \<lparr>gr_Service = ''web'', gr_Env = ''prod'', gr_PackageLockDigest = [], gr_RuntimeManifests = [web_source], gr_StatefulRecipes = []\<rparr>"

definition web_request :: deploy_Request where
  "web_request = \<lparr>dq_Actor = \<lparr>act_ID = ''ana'', act_Type = ''user''\<rparr>, dq_TraceID = ''tr_1'', dq_ReleaseID = ''rel-1'', dq_OperationID = ''op-1'',
     dq_ApprovalID = [], dq_DryRun = False, dq_PlanOnly = False, dq_Shadow = False, dq_LeaseDuration = 60000000000\<rparr>"

definition web_provider :: "(sys, unit, unit) deploy_Provider" where
  "web_provider = \<lparr>dpv_Plan = (\<lambda>_. io_ret ()), dpv_Apply = (\<lambda>_. io_ret [''asg-1''])\<rparr>"

definition web_deployer :: "(sys, unit, unit) Deployer" where
  "web_deployer = \<lparr>dep_Provider = Some web_provider, dep_Signer = Some demo_signer, dep_Authorizer = None, dep_Version = [], dep_unicode_lower = (\<lambda>x. x)\<rparr>"

definition web_fetch :: "sys FetchOptions" where
  "web_fetch = demo_fetch\<lparr>fo_Env := ''prod'', fo_ReleaseID := ''rel-1'', fo_ReleaseKey := [], fo_RequireArtifactDigest := False\<rparr>"

lemma web_normalized: "deploy_normalizeRequest web_request web_graph now = web_request"
  by (simp add: deploy_normalizeRequest_def web_request_def)

lemma web_deployable: "deployable web_sys web_graph web_request web_control"
proof -
  have "sys_objs web_sys k = None" if "k \<noteq> ''services/web/control.json''" for k
    using that by (simp add: sys_objs_def web_sys_def memory_Create_def memory_New_def nextTimeLocked_def Let_def memory_objs_def)
  then have "sys_objs web_sys (op_key ''web'' ''op-1'') = None" "sys_objs web_sys (release_key ''web'' ''rel-1'') = None"
    "sys_objs web_sys (runtime_key ''web'' ''rel-1'') = None" "sys_objs web_sys (intent_key ''web'' ''op-1'') = None"
    by (simp_all add: op_key_def release_key_def runtime_key_def intent_key_def)
  moreover have "is_name ''web''" "is_id ''op-1''" "is_id ''rel-1''"
    by (simp_all add: is_name_def is_id_def isLowerAlnum_def reservedSegments_def isIDChar_def Let_def)
  moreover have "time_ok (sys_now web_sys + 60000000000)" by (simp add: web_sys_def time_ok_int64 in_int64_def)
  ultimately show ?thesis using web_facts(4-8,11)
    by (simp add: deployable_def deploy_clear_def web_graph_def web_request_def service_key_def activeLease_def TrimSpace_printable printable_def)
qed

lemma web_allowed: "\<exists>dec. deploy_authorize sys_world web_deployer web_graph web_request RiskMedium web_sys = (Inr dec, web_sys)"
proof -
  let ?q = "\<lparr>azr_Actor = dq_Actor web_request, azr_Action = ActionDeploy,
      azr_Target = zero_Target\<lparr>tgt_Kind := ''service'', tgt_Name := gr_Service web_graph\<rparr>, azr_Env = gr_Env web_graph,
      azr_Service = gr_Service web_graph, azr_Risk = RiskMedium, azr_ApprovalID = dq_ApprovalID web_request, azr_ApprovalRole = [],
      azr_DryRun = False, azr_PlanOnly = False, azr_TraceID = dq_TraceID web_request\<rparr>"
  have "policy_allows (\<lambda>x. x) (authz_normalizeRequest (\<lambda>x. x) ?q)"
    by code_simp
  then have "snd (authz_decide (\<lambda>x. x) ?q) = None" "dcs_Allowed (fst (authz_decide (\<lambda>x. x) ?q))"
    using authz_decide_iff [of "\<lambda>x. x" ?q] by blast+
  then show ?thesis using web_facts(1)
    by (cases "authz_decide (\<lambda>x. x) ?q") (simp add: deploy_authorize_def MustAuthorize_def authz_policy_def DefaultPolicy_def web_deployer_def)
qed


end
