(* ===== verification/Resume_Outcome.thy ===== *)
theory Resume_Outcome
  imports Worker Deploy_Outcome
begin

text \<open>
  What resuming an operation (internal/ops/resume.go) achieves: for a client alone, an unfinished operation whose lease is free
  and whose provider reports the success of its rollout is finished, in the operation's and in the service's document.
  Steps that only write to the log are \<open>hushed\<close>; \<open>op_holds\<close> says that a handle holds the lease of the operation's document.
\<close>

section \<open>Steps that only log\<close>

text \<open>Alone and at the same instant, with no change outside the keys \<open>K\<close> and no token taken.\<close>

definition hush :: "(string \<Rightarrow> bool) \<Rightarrow> sys \<Rightarrow> sys \<Rightarrow> bool" where
  "hush K s t \<longleftrightarrow> sys_env t = [] \<and> sys_now t = sys_now s \<and> sys_tokens t = sys_tokens s \<and> (sys_inv s \<longrightarrow> sys_inv t) \<and>
     (\<forall>k. \<not> K k \<longrightarrow> sys_objs t k = sys_objs s k)"

definition hushed :: "(string \<Rightarrow> bool) \<Rightarrow> (sys, 'a) io \<Rightarrow> bool" where
  "hushed K m \<longleftrightarrow> (\<forall>s r t. sys_env s = [] \<longrightarrow> m s = (r, t) \<longrightarrow> hush K s t)"

lemma hushedD: "hushed K m \<Longrightarrow> sys_env s = [] \<Longrightarrow> m s = (r, t) \<Longrightarrow> hush K s t"
  unfolding hushed_def by blast

lemma hush_trans: "hush K s t \<Longrightarrow> hush K t u \<Longrightarrow> hush K s u"
  by (simp add: hush_def)

lemma hushed_bind:
  assumes m: "hushed K m" and f: "\<And>x. hushed K (f x)"
  shows "hushed K (io_bind m f)"
  unfolding hushed_def
proof (intro allI impI)
  fix s r t
  assume s: "sys_env s = []" and b: "io_bind m f s = (r, t)"
  obtain x u where x: "m s = (x, u)" by fastforce
  note u = hushedD [OF m s x]
  show "hush K s t"
  proof (cases x)
    case (Inr y)
    then have "f y u = (r, t)" using b x by (simp add: io_bind_def)
    from hushedD [OF f _ this] show ?thesis using u hush_trans by (auto simp: hush_def)
  qed (use b x u in \<open>simp add: io_bind_def\<close>)
qed

lemma hushed_now: "hushed K (io_now sys_world)"
  by (auto simp: hushed_def hush_def)

lemma hushed_ret: "hushed K (io_ret x)"
  by (auto simp: hushed_def io_ret_def hush_def)

lemma hushed_mono: "hushed K m \<Longrightarrow> (\<And>k. K k \<Longrightarrow> L k) \<Longrightarrow> hushed L m"
  unfolding hushed_def hush_def by blast

lemma hushed_log_Append:
  assumes "\<And>now k. keyForEvent (log_normalizeEvent e now) = Inr k \<Longrightarrow> K k"
  shows "hushed K (log_Append sys_world e)"
  unfolding hushed_def
proof (intro allI impI)
  fix s r t
  assume s: "sys_env s = []" "log_Append sys_world e s = (r, t)"
  have "sys_now t = sys_now s \<and> sys_tokens t = sys_tokens s" using s alone_log_create_now [OF s(1)]
    by (auto simp: log_Append_def io_bind_def io_lift_def Let_def split: sum.splits)
  then show "hush K s t" using touchesD [OF touches_log_Append [OF assms] s] alone_log_Append_calm [OF s(1) _ assms s(2)]
    by (simp add: hush_def calm_def)
qed

lemma touches_audit: "touches (prefix ''audit/'') (log_AppendAudit sys_world r)"
  by (rule touches_log_AppendAudit) (auto simp: paths_AuditEventForTime_def paths_AuditEvent_def rbind_Inr_iff split: if_splits)

lemma hushed_log_AppendAudit: "hushed (prefix ''audit/'') (log_AppendAudit sys_world r)"
  unfolding hushed_def
proof (intro allI impI)
  fix s x t
  assume s: "sys_env s = []" "log_AppendAudit sys_world r s = (x, t)"
  have "sys_now t = sys_now s \<and> sys_tokens t = sys_tokens s" using s alone_log_create_now [OF s(1)]
    by (auto simp: log_AppendAudit_def io_bind_def io_lift_def Let_def split: sum.splits option.splits)
  then show "hush (prefix ''audit/'') s t" using touchesD [OF touches_audit s] alone_audit_calm [OF s(1) _ s(2)]
    by (simp add: hush_def calm_def)
qed

lemma hushed_appendResumeEvent: "hushed (event_of svc x) (appendResumeEvent sys_world svc x tr ac ty sm now fs)"
  unfolding appendResumeEvent_def
  by (intro hushed_bind hushed_ret hushed_log_Append) (use operation_event_key rollout_event_scope in \<open>metis event_of_def\<close>)

lemma hushed_resumeBegun:
  "hushed (\<lambda>k. event_of (oir_Service insp) (oir_OperationID insp) k \<or> prefix ''audit/'' k) (resumeBegun sys_world req insp acq)"
proof -
  let ?K = "\<lambda>k. event_of (oir_Service insp) (oir_OperationID insp) k \<or> prefix ''audit/'' k"
  have "hushed ?K (appendTakeover sys_world (oir_Service insp) (oir_OperationID insp) tr ac pr ow now)" for tr ac pr ow now
    unfolding appendTakeover_def
    by (intro hushed_bind hushed_ret hushed_log_Append hushed_mono [OF hushed_log_AppendAudit])
      (use operation_event_key rollout_event_scope in \<open>auto simp: event_of_def\<close>)
  moreover have "hushed ?K (appendResumeEvent sys_world (oir_Service insp) (oir_OperationID insp) tr ac ty sm now fs)" for tr ac ty sm now fs
    by (rule hushed_mono [OF hushed_appendResumeEvent]) simp
  ultimately show ?thesis by (simp add: resumeBegun_def io_at_def hushed_bind hushed_now)
qed

section \<open>The operation's lease\<close>

text \<open>The handle \<open>h\<close> holds the lease of the operation's document \<open>oc\<close>.\<close>

definition op_holds :: "ops_LeaseHandle \<Rightarrow> OperationControl \<Rightarrow> gotime \<Rightarrow> bool" where
  "op_holds h oc now \<longleftrightarrow> olh_Service h = oc_Service oc \<and> olh_OperationID h = oc_OperationID oc \<and> oc_SchemaVersion oc = schema_Version \<and>
     (\<exists>l T. oc_Lease oc = Some l \<and> olh_Owner h = lse_Owner l \<and> olh_Token h = lse_Token l \<and> olh_Generation h = lse_Generation l \<and>
        leaseExpires l = Inr T \<and> now < T)"

lemma alone_op_acquire:
  assumes s: "sys_env s = []" "sys_inv s" and get: "ops_GetControl sys_world svc x s = (Inr cur, s)"
    and free: "ops_activeLease (oc_Lease (ocd_Control cur)) (sys_now s) = Inr False"
    and opts: "TrimSpace (ollo_Owner opts) \<noteq> []" "0 < ollo_Duration opts" "TrimSpace (next_token s) \<noteq> []"
    and now: "0 < sys_now s" "sys_now s < 2 ^ 63" "time_ok (sys_now s + ollo_Duration opts)"
  shows "\<exists>acq t e oc. ops_AcquireLease sys_world svc x opts s = (Inr acq, t) \<and> calm (\<lambda>k. k = op_key svc x) s t \<and>
    sys_tokens t = tl (sys_tokens s) \<and> op_at (sys_objs t) svc x = Some (e, oc) \<and> op_holds (lar_Handle acq) oc (sys_now s) \<and>
    oc_Service oc = svc \<and> oc_OperationID oc = x"
proof -
  let ?c = "ocd_Control cur"
  note g = sysw.ops_GetControl_ok [OF get]
  let ?l = "\<lparr>lse_Owner = ollo_Owner opts, lse_Token = next_token s, lse_Generation = sys_now s,
    lse_ExpiresAt = canonical_Time (sys_now s + ollo_Duration opts)\<rparr>"
  let ?n = "?c\<lparr>oc_Lease := Some ?l, oc_UpdatedAt := canonical_Time (sys_now s)\<rparr>"
  define s1 where "s1 = s\<lparr>sys_tokens := tl (sys_tokens s)\<rparr>"
  have tok: "io_token sys_world s = (Inr (next_token s), s1)"
    by (simp add: alone_token next_token_def s1_def split: list.split)
  have s1: "sys_env s1 = []" "sys_now s1 = sys_now s" "sys_objs s1 = sys_objs s" "sys_inv s1"
    using s by (simp_all add: s1_def sys_objs_def sys_inv_def)
  have w64: "wrap64 (sys_now s) = sys_now s" using now by (intro wrap64_id) (simp add: in_int64_def)
  have nx: "(nextOperation cur (?c\<lparr>oc_Lease := Some ?l\<rparr>))\<lparr>oc_UpdatedAt := canonical_Time (sys_now s1)\<rparr> = ?n"
    using g(9) by (simp add: nextOperation_def Let_def s1(2))
  have w: "wf_OperationControl ?n" using g(8) now by (simp add: wf_OperationControl_def wf_Lease_def in_int64_def)
  obtain b where b: "sys_objs s1 (ocd_Key cur) = Some (ocd_ETag cur, b)" using g(2,3) s1(3) by (auto simp: view_at_Some)
  have raw: "raws_ok_OperationControl ?n" using w by (simp add: wf_op_iff)
  obtain doc t where u: "ops_UpdateControlCAS sys_world cur (?c\<lparr>oc_Lease := Some ?l\<rparr>) s1 = (Inr doc, t)" "ocd_Control doc = ?n"
    "sys_env t = []" "sys_now t = sys_now s1" "sys_objs t = (sys_objs s1)(ocd_Key cur \<mapsto> (ocd_ETag doc, JsonBody (enc_OperationControl ?n)))" "sys_tokens t = sys_tokens s1"
    using alone_ops_Update [OF s1(1) b nx [symmetric] raw] by blast
  have T: "leaseExpires ?l = Inr (sys_now s + ollo_Duration opts)" using opts now by (simp add: leaseExpires_def)
  let ?h = "\<lparr>olh_Service = svc, olh_OperationID = x, olh_Owner = ollo_Owner opts, olh_Token = next_token s, olh_Generation = sys_now s,
    olh_ExpiresAt = sys_now s + ollo_Duration opts, olh_ETag = ocd_ETag doc\<rparr>"
  have "leaseHandleFromControl doc = Inr ?h" using T u(2) g(6,7) by (simp add: leaseHandleFromControl_def)
  then have "ops_AcquireLease sys_world svc x opts s = (Inr \<lparr>lar_Handle = ?h, lar_Control = doc, lar_PreviousLease = oc_Lease ?c, lar_TookOver = (oc_Lease ?c \<noteq> None)\<rparr>, t)"
    using opts get free s(1) tok u(1) w64 by (simp add: ops_AcquireLease_def io_bind_def io_lift_def io_ret_def)
  moreover have "sys_inv t" using sysw.ops_Update_ok [OF s1(4) u(1)] s1(4) sysw.evolves_inv by blast
  then have "calm (\<lambda>k. k = op_key svc x) s t" using u(3-5) s1(2,3) g(3) by (simp add: calm_def)
  moreover have "op_at (sys_objs t) svc x = Some (ocd_ETag doc, ?n)" using u(5) g(3) w by (simp add: view_at_Some doc_view_Some codec_simps)
  moreover have "op_holds ?h ?n (sys_now s)" using T g(6,7,9) opts by (simp add: op_holds_def)
  moreover have "sys_tokens t = tl (sys_tokens s)" using u(6) by (simp add: s1_def)
  ultimately show ?thesis using g(6,7)
    by - (rule exI [of _ "\<lparr>lar_Handle = ?h, lar_Control = doc, lar_PreviousLease = oc_Lease ?c, lar_TookOver = (oc_Lease ?c \<noteq> None)\<rparr>"],
        rule exI [of _ t], rule exI [of _ "ocd_ETag doc"], rule exI [of _ ?n], simp)
qed

lemma op_holds_get:
  assumes "sys_env s = []" "op_at (sys_objs s) svc x = Some (e, oc)" "op_holds h oc now" "is_name svc" "is_id x" "oc_Service oc = svc" "oc_OperationID oc = x"
  shows "\<exists>doc. ops_GetControl sys_world svc x s = (Inr doc, s) \<and> ocd_Key doc = op_key svc x \<and> ocd_ETag doc = e \<and> ocd_Control doc = oc"
  by (rule alone_ops_GetControl [OF assms(1,2,4-7)]) (use assms(3) in \<open>auto simp: op_holds_def\<close>)

lemma alone_op_release:
  assumes s: "sys_env s = []" and at: "op_at (sys_objs s) svc x = Some (e, oc)" and h: "op_holds h oc (sys_now s)"
    and n: "is_name svc" "is_id x" "oc_Service oc = svc" "oc_OperationID oc = x"
  shows "\<exists>doc t. ops_ReleaseLease sys_world h s = (Inr doc, t) \<and> (\<forall>k. k \<noteq> op_key svc x \<longrightarrow> sys_objs t k = sys_objs s k) \<and>
    op_at (sys_objs t) svc x = Some (ocd_ETag doc, ocd_Control doc) \<and> oc_Lease (ocd_Control doc) = None \<and> oc_Status (ocd_Control doc) = oc_Status oc"
proof -
  obtain cur where cur: "ops_GetControl sys_world svc x s = (Inr cur, s)" "ocd_Key cur = op_key svc x" "ocd_ETag cur = e" "ocd_Control cur = oc"
    using op_holds_get [OF s at h n] by blast
  let ?n = "oc\<lparr>oc_Lease := None, oc_UpdatedAt := canonical_Time (sys_now s)\<rparr>"
  have hs: "olh_Service h = svc" "olh_OperationID h = x" "oc_SchemaVersion oc = schema_Version" using h n by (simp_all add: op_holds_def)
  have nx: "(nextOperation cur (oc\<lparr>oc_Lease := None\<rparr>))\<lparr>oc_UpdatedAt := canonical_Time (sys_now s)\<rparr> = ?n"
    using hs(3) cur(4) by (simp add: nextOperation_def Let_def)
  have w: "wf_OperationControl ?n" using op_at_wf [OF at] by (simp add: wf_OperationControl_def)
  then have raw: "raws_ok_OperationControl ?n" by (simp add: wf_op_iff)
  obtain b where b: "sys_objs s (ocd_Key cur) = Some (ocd_ETag cur, b)" using at cur(2,3) by (auto simp: view_at_Some)
  obtain doc t where u: "ops_UpdateControlCAS sys_world cur (oc\<lparr>oc_Lease := None\<rparr>) s = (Inr doc, t)" "ocd_Control doc = ?n"
    "sys_objs t = (sys_objs s)(ocd_Key cur \<mapsto> (ocd_ETag doc, JsonBody (enc_OperationControl ?n)))"
    using alone_ops_Update [OF s b nx [symmetric] raw] by blast
  have "ensureLease h cur (sys_now s) = Inr ()" using h cur(4) by (auto simp: ensureLease_def op_holds_def ops_activeLease_def)
  then have "ops_ReleaseLease sys_world h s = (Inr doc, t)" using cur(1,4) u(1) s hs(1,2) by (simp add: ops_ReleaseLease_def io_bind_def io_lift_def)
  moreover have "op_at (sys_objs t) svc x = Some (ocd_ETag doc, ?n)" using u(3) cur(2) w by (simp add: view_at_Some doc_view_Some codec_simps)
  ultimately show ?thesis using u(2,3) cur(2) by (intro exI [of _ doc] exI [of _ t]) simp
qed

section \<open>The whole of Resume\<close>

lemma inspected:
  assumes "sys_env s = []" "resumeInspect sys_world req0 s = (Inr (req, insp), s)"
  shows "\<exists>cur. ops_GetControl sys_world (oir_Service insp) (oir_OperationID insp) s = (Inr cur, s) \<and> oir_Lease insp = oc_Lease (ocd_Control cur) \<and>
    0 < rsq_LeaseDuration req"
proof -
  have q: "req = normalizeResumeRequest req0 (sys_now s)" and i: "ops_Inspect sys_world (rsq_Service req) (rsq_OperationID req) s = (Inr insp, s)"
    using assms by (auto simp: resumeInspect_def io_bind_Inr_iff io_ret_def Let_def)
  obtain cur u where g: "ops_GetControl sys_world (rsq_Service req) (rsq_OperationID req) s = (Inr cur, u)"
    using i by (auto simp: ops_Inspect_def io_bind_Inr_iff)
  have "u = s" by (rule stillD [OF still_ops(1) assms(1) g])
  moreover have "oir_Service insp = oc_Service (ocd_Control cur)" "oir_OperationID insp = oc_OperationID (ocd_Control cur)"
    "oir_Lease insp = oc_Lease (ocd_Control cur)"
    using i g by (auto simp: ops_Inspect_def io_bind_def io_try_def io_ret_def Let_def inspectFromControl_def split: sum.splits prod.splits)
  moreover have "0 < rsq_LeaseDuration req" unfolding q by (simp add: normalizeResumeRequest_def Let_def defaultOperationLeaseDuration_def)
  ultimately show ?thesis using g sysw.ops_GetControl_ok(6,7) [OF g] by auto
qed

lemma promotable_request: "promotable s w c \<Longrightarrow> wrq_Service w = wrq_Service w' \<Longrightarrow> wrq_Actor w = wrq_Actor w' \<Longrightarrow> promotable s w' c"
  by (simp add: promotable_def)

lemma resumeLeased_alone:
  fixes insp :: ops_InspectResult
  defines "svc \<equiv> oir_Service insp" and "x \<equiv> oir_OperationID insp"
  assumes s: "sys_env s = []" "sys_inv s" and at: "op_at (sys_objs s) svc x = Some (e1, oc1)"
    and h: "op_holds h oc1 (sys_now s)" "is_name svc" "is_id x" "oc_Service oc1 = svc" "oc_OperationID oc1 = x"
    and todo: "oir_Kind insp \<noteq> ''rollback''" "por_ID (firstASGRollout (oir_ProviderOperations insp)) \<noteq> []"
    and ready: "promotable s w c" "wrq_Service w = svc" "wrq_Actor w = rsq_Actor req"
    and provider: "\<And>r u. pr_WatchRollout P r u = (Inr st, u)" "rs_Status st = ''succeeded''"
  shows "\<exists>t res' e c' e' oc. resumeLeased sys_world P req insp tr acq (s, res) = (Inr (), (t, res')) \<and>
    rsr_Resumed res' \<and> rsr_Status res' = OperationSucceeded \<and> sys_env t = [] \<and> sys_now t = sys_now s \<and>
    control_at (sys_objs t) (service_key svc) = Some (e, c') \<and> sc_StableRelease c' = sc_DesiredRelease c \<and>
    op_at (sys_objs t) svc x = Some (e', oc) \<and> oc_Status oc = OperationSucceeded \<and> op_holds h oc (sys_now t) \<and> oc_Service oc = svc \<and> oc_OperationID oc = x"
proof -
  let ?w = "resumeWatch req insp tr (por_ID (firstASGRollout (oir_ProviderOperations insp)))"
  have w: "wrq_Service ?w = svc" "wrq_OperationID ?w = x" "wrq_Actor ?w = rsq_Actor req" "wrq_ProviderID ?w \<noteq> []"
    using todo(2) by (simp_all add: resumeWatch_def svc_def x_def)
  obtain r2 s2 where b: "resumeBegun sys_world req insp acq s = (r2, s2)" by fastforce
  note h2 = hushedD [OF hushed_resumeBegun s(1) b, folded svc_def x_def, unfolded hush_def]
  have o2: "op_at (sys_objs s2) svc x = Some (e1, oc1)" using at h2 op_at_cong [of s2 svc x s] by simp
  have "promotable s ?w c" by (rule promotable_request [OF ready(1)]) (simp_all add: w ready)
  then have p2: "promotable s2 ?w c" by (rule promotable_frame) (use h2 in \<open>simp_all add: w next_token_def\<close>)
  obtain s3 e3 c3 e3' oc3 where r: "recordRolloutStatus sys_world ?w st s2 = (Inr st, s3)" "sys_env s3 = []" "sys_now s3 = sys_now s2"
    "control_at (sys_objs s3) (service_key svc) = Some (e3, c3)" "op_at (sys_objs s3) svc x = Some (e3', oc3)"
    "oc3 = oc1\<lparr>oc_Status := oc_Status oc3, oc_UpdatedAt := oc_UpdatedAt oc3\<rparr>" "sc_StableRelease c3 = sc_DesiredRelease c" "oc_Status oc3 = OperationSucceeded"
    using alone_recordRolloutStatus [of s2 ?w c e1 oc1 st] h2 s(2) p2 o2 h(3) unfolding w provider(2)
    by (auto simp: operationStatusForRollout_def OperationSucceeded_def OperationRunning_def)
  have same: "oc_Lease oc3 = oc_Lease oc1" "oc_Service oc3 = svc" "oc_OperationID oc3 = x" "oc_SchemaVersion oc3 = oc_SchemaVersion oc1"
    by (subst r(6), simp add: h)+
  have h3: "op_holds h oc3 (sys_now s)" using h same by (simp add: op_holds_def)
  have watch: "WatchRollout sys_world P ?w s2 = (Inr st, s3)" using r(1) w(4) provider(1) by (simp add: WatchRollout_def io_bind_def)
  obtain doc where g: "ops_GetControl sys_world svc x s3 = (Inr doc, s3)" "ocd_Control doc = oc3"
    using op_holds_get [OF r(2,5) h3 h(2,3) same(2,3)] by blast
  let ?res = "res\<lparr>rsr_Resumed := True, rsr_RolloutStatus := Some st, rsr_Status := oc_Status oc3, rsr_ProviderOperations := oc_ProviderOperations oc3\<rparr>"
  obtain r4 s4 where v: "appendResumeEvent sys_world svc x (rsr_TraceID res) (rsq_Actor req) ''operation.resume.completed'' ''operation resume completed'' (sys_now s3) [] s3 = (r4, s4)"
    by fastforce
  note h4 = hushedD [OF hushed_appendResumeEvent r(2) v, unfolded hush_def]
  have "resumeFinish sys_world req insp st (s3, res) = (Inr (), (s4, ?res))"
    using g v r(2) todo(1) unfolding resumeFinish_def svc_def x_def
    by (simp add: ebind_def host_def io_try_def eupdate_def eret_def io_at_def io_bind_def)
  then have "resumeLeased sys_world P req insp tr acq (s, res) = (Inr (), (s4, ?res))"
    using b watch todo(2) by (simp add: resumeLeased_def ebind_def host_def io_try_def Let_def)
  moreover have "op_at (sys_objs s4) svc x = Some (e3', oc3)" using r(5) h4 op_at_cong [of s4 svc x s3] by simp
  moreover have "control_at (sys_objs s4) (service_key svc) = Some (e3, c3)"
    using r(4) h4 control_at_cong [of "sys_objs s4" "service_key svc" "sys_objs s3"] by simp
  ultimately show ?thesis using r(3,7,8) h2 h3 h4 same
    by - (rule exI [of _ s4], rule exI [of _ ?res], rule exI [of _ e3], rule exI [of _ c3], rule exI [of _ e3'], rule exI [of _ oc3], simp)
qed

section \<open>Properties\<close>

text \<open>
  C10: a resumed operation is finished. The client is alone; the operation is unfinished, not a rollback, has a stored rollout and a
  free lease; its service exists with a desired release and a free lease; and the provider reports at once that the rollout has succeeded. Then \<^verbatim>\<open>Resume\<close> returns without error and with the status
  \<^verbatim>\<open>succeeded\<close>; the operation's document says so too and its lease is free again, and the release the service desires has become
  its stable one.
\<close>

theorem resume_finishes:
  assumes alone: "sys_env s = []" "sys_inv s" and inspect: "resumeInspect sys_world req0 s = (Inr (req, insp), s)"
    and unfinished: "\<not> terminalStatus (oir_Status insp)" "oir_Kind insp \<noteq> ''rollback''" "por_ID (firstASGRollout (oir_ProviderOperations insp)) \<noteq> []"
    and free: "ops_activeLease (oir_Lease insp) (sys_now s) = Inr False"
    and owner: "TrimSpace (rsq_Owner req) \<noteq> []" "TrimSpace (next_token s) \<noteq> []" "0 < sys_now s" "sys_now s < 2 ^ 63"
      "time_ok (sys_now s + rsq_LeaseDuration req)"
    and service: "promotable (s\<lparr>sys_tokens := tl (sys_tokens s)\<rparr>) wreq c" "wrq_Service wreq = oir_Service insp" "wrq_Actor wreq = rsq_Actor req"
    and provider: "\<And>r u. pr_WatchRollout P r u = (Inr st, u)" "rs_Status st = ''succeeded''"
  shows "\<exists>r t e c' e' oc. Resume sys_world (Some P) req0 s = ((Some r, None), t) \<and> rsr_Resumed r \<and> rsr_Status r = OperationSucceeded \<and>
    control_at (sys_objs t) (service_key (oir_Service insp)) = Some (e, c') \<and> sc_StableRelease c' = sc_DesiredRelease c \<and>
    op_at (sys_objs t) (oir_Service insp) (oir_OperationID insp) = Some (e', oc) \<and> oc_Status oc = OperationSucceeded \<and> oc_Lease oc = None"
proof -
  let ?svc = "oir_Service insp" and ?x = "oir_OperationID insp" and ?tr = "firstNonEmpty [rsq_TraceID req, oir_TraceID insp]"
  let ?o = "\<lparr>ollo_Owner = rsq_Owner req, ollo_Duration = rsq_LeaseDuration req\<rparr>"
  obtain cur where i: "ops_GetControl sys_world ?svc ?x s = (Inr cur, s)" "oir_Lease insp = oc_Lease (ocd_Control cur)" "0 < rsq_LeaseDuration req"
    using inspected [OF alone(1) inspect] by blast
  note n = sysw.ops_GetControl_ok(4,5) [OF i(1)]
  obtain acq t1 e1 oc1 where a: "ops_AcquireLease sys_world ?svc ?x ?o s = (Inr acq, t1)" "calm (\<lambda>k. k = op_key ?svc ?x) s t1"
    "sys_tokens t1 = tl (sys_tokens s)" "op_at (sys_objs t1) ?svc ?x = Some (e1, oc1)" "op_holds (lar_Handle acq) oc1 (sys_now s)"
    "oc_Service oc1 = ?svc" "oc_OperationID oc1 = ?x"
    using alone_op_acquire [OF alone i(1), of ?o] free i(2,3) owner by auto
  have t1: "sys_env t1 = []" "sys_inv t1" "sys_now t1 = sys_now s" using a(2) by (simp_all add: calm_def)
  have h1: "op_holds (lar_Handle acq) oc1 (sys_now t1)" using a(5) t1(3) by simp
  have "sys_objs (s\<lparr>sys_tokens := tl (sys_tokens s)\<rparr>) = sys_objs s" by (simp add: sys_objs_def)
  then have k1: "sys_objs t1 (service_key (wrq_Service wreq)) = sys_objs (s\<lparr>sys_tokens := tl (sys_tokens s)\<rparr>) (service_key (wrq_Service wreq))"
    using calm_objs [OF a(2), of "service_key ?svc"] service(2) by simp
  have p1: "promotable t1 wreq c"
    by (rule promotable_frame [OF service(1) _ _ k1]) (use a(3) t1(3) in \<open>simp_all add: next_token_def\<close>)
  obtain t2 res e c' e' oc where r: "resumeLeased sys_world P req insp ?tr acq (t1, (resumeResult insp ?tr)\<lparr>rsr_TookOver := lar_TookOver acq\<rparr>) = (Inr (), (t2, res))"
    "rsr_Resumed res" "rsr_Status res = OperationSucceeded" "sys_env t2 = []" "sys_now t2 = sys_now s" "control_at (sys_objs t2) (service_key ?svc) = Some (e, c')"
    "sc_StableRelease c' = sc_DesiredRelease c" "op_at (sys_objs t2) ?svc ?x = Some (e', oc)" "oc_Status oc = OperationSucceeded"
    "op_holds (lar_Handle acq) oc (sys_now t2)" "oc_Service oc = ?svc" "oc_OperationID oc = ?x"
    using resumeLeased_alone [OF t1(1,2) a(4) h1 n a(6,7) unfinished(2,3) p1 service(2,3) provider,
        where acq = acq and tr = ?tr and res = "(resumeResult insp ?tr)\<lparr>rsr_TookOver := lar_TookOver acq\<rparr>"] unfolding t1(3) by (elim exE conjE) (rule that)
  obtain doc t where f: "ops_ReleaseLease sys_world (lar_Handle acq) t2 = (Inr doc, t)" "\<forall>k. k \<noteq> op_key ?svc ?x \<longrightarrow> sys_objs t k = sys_objs t2 k"
    "op_at (sys_objs t) ?svc ?x = Some (ocd_ETag doc, ocd_Control doc)" "oc_Lease (ocd_Control doc) = None" "oc_Status (ocd_Control doc) = OperationSucceeded"
    using alone_op_release [OF r(4,8,10) n r(11,12)] r(9) by auto
  have "oir_ProviderOperations insp \<noteq> []"
    using unfinished(3) by (auto simp: firstASGRollout_def zero_ProviderOperationRef_def)
  then have "resumeSteps sys_world P req insp ?tr (s, resumeResult insp ?tr) = (Inr (), (t, res))"
    using unfinished(1) a(1) r(1) f(1) by (simp add: resumeSteps_def ebind_def host_def eupdate_def edeferred_def)
  then have "Resume sys_world (Some P) req0 s = ((Some res, None), t)" using alone(1) inspect by (simp add: Resume_def Let_def)
  moreover have "control_at (sys_objs t) (service_key ?svc) = Some (e, c')"
    using f(2) r(6) control_at_cong [of "sys_objs t" "service_key ?svc" "sys_objs t2"] by simp
  ultimately show ?thesis using r(2,3,7) f(3-5)
    by - (rule exI [of _ res], rule exI [of _ t], rule exI [of _ e], rule exI [of _ c'], rule exI [of _ "ocd_ETag doc"], rule exI [of _ "ocd_Control doc"], simp)
qed

text \<open>A service with a desired release and a running operation that has started a rollout.\<close>

definition resume_op :: OperationControl where
  "resume_op = op1_control\<lparr>oc_ProviderOperations := [zero_ProviderOperationRef\<lparr>por_Provider := aws_Name, por_Kind := RolloutKindASGInstanceRefresh,
     por_ID := ''ir-1''\<rparr>]\<rparr>"

definition resume_sys :: sys where
  "resume_sys = op1_sys\<lparr>sys_store := snd (memory_Create None (service_key ''web'') (JsonBody (enc_ServiceControl roll_control)) no_options
     (snd (memory_Create None (op_key ''web'' ''op-1'') (JsonBody (enc_OperationControl resume_op)) ops_putOptions memory_New)))\<rparr>"

definition resume_request :: ResumeRequest where
  "resume_request = \<lparr>rsq_Service = ''web'', rsq_OperationID = ''op-1'', rsq_Actor = \<lparr>act_ID = ''ci'', act_Type = ''agent''\<rparr>, rsq_TraceID = ''tr'',
     rsq_Owner = ''w2'', rsq_LeaseDuration = 30000000000, rsq_Takeover = True\<rparr>"

lemma resume_objs:
  "sys_objs resume_sys k = (if k = service_key ''web'' then Some (etagForVersion 1, JsonBody (enc_ServiceControl roll_control))
     else if k = op_key ''web'' ''op-1'' then Some (etagForVersion 1, JsonBody (enc_OperationControl resume_op)) else None)"
  by (simp add: sys_objs_def resume_sys_def memory_objs_def memory_Create_def memory_New_def nextTimeLocked_def Let_def)

lemma resume_facts:
  "sys_env resume_sys = []" "sys_inv resume_sys" "sys_now resume_sys = 1000" "sys_tokens resume_sys = []"
  "op_at (sys_objs resume_sys) ''web'' ''op-1'' = Some (etagForVersion 1, resume_op)"
  "control_at (sys_objs resume_sys) (service_key ''web'') = Some (etagForVersion 1, roll_control)"
proof -
  have "wf_OperationControl resume_op"
    by (simp add: wf_OperationControl_def resume_op_def op1_control_def zero_OperationControl_def old_lease_def wf_Lease_def in_int64_def)
  then show "op_at (sys_objs resume_sys) ''web'' ''op-1'' = Some (etagForVersion 1, resume_op)"
    by (simp add: view_at_Some doc_view_Some resume_objs codec_simps)
  have "wf_ServiceControl roll_control"
    by (simp add: wf_ServiceControl_def roll_control_def web_control_def NewServiceControl_def zero_ServiceControl_def in_int64_def)
  then show "control_at (sys_objs resume_sys) (service_key ''web'') = Some (etagForVersion 1, roll_control)"
    by (simp add: control_at_def resume_objs canonical_UnmarshalStrict_def codec_ServiceControl)
  show "sys_inv resume_sys"
    by (simp add: sys_inv_def resume_sys_def memory_Create_def memory_New_def nextTimeLocked_def Let_def memory_inv_def entry_ok_def
        op_key_def service_key_def)
qed (simp_all add: resume_sys_def op1_sys_def)

lemma resume_inspected:
  "\<exists>insp. resumeInspect sys_world resume_request resume_sys = (Inr (resume_request, insp), resume_sys) \<and> oir_Service insp = ''web'' \<and>
     oir_OperationID insp = ''op-1'' \<and> oir_Status insp = OperationRunning \<and> oir_Kind insp = [] \<and> oir_Lease insp = Some old_lease \<and>
     oir_ProviderOperations insp = oc_ProviderOperations resume_op"
proof -
  have r: "oc_Service resume_op = ''web''" "oc_OperationID resume_op = ''op-1''" "oc_SchemaVersion resume_op = schema_Version"
    "oc_Lease resume_op = Some old_lease" "oc_Status resume_op = OperationRunning" by (simp_all add: resume_op_def op1_control_def)
  have l: "leaseExpires old_lease = Inr 500"
    by (simp add: leaseExpires_def old_lease_def TrimSpace_printable printable_def time_ok_int64 in_int64_def)
  obtain doc where g: "ops_GetControl sys_world ''web'' ''op-1'' resume_sys = (Inr doc, resume_sys)" "ocd_Control doc = resume_op"
    using alone_ops_GetControl [OF resume_facts(1,5) op1_names r(1-3)] r(4) l by auto
  have q: "normalizeResumeRequest resume_request (sys_now resume_sys) = resume_request"
    by (simp add: normalizeResumeRequest_def resume_request_def Let_def TrimSpace_printable printable_def)
  have k: "intent_key ''web'' ''op-1'' \<noteq> service_key ''web''" "intent_key ''web'' ''op-1'' \<noteq> op_key ''web'' ''op-1''" by simp_all
  have "os_Get sys_world (intent_key ''web'' ''op-1'') resume_sys = (Inl (StoreError ''get'' (intent_key ''web'' ''op-1'') ErrNotFound), resume_sys)"
    by (rule alone_Get_None [OF resume_facts(1)]) (simp add: resume_objs k del: deploy_keys)
  then obtain err where i: "ops_GetIntent sys_world ''web'' ''op-1'' resume_sys = (Inl err, resume_sys)"
    using op1_names by (auto simp: ops_GetIntent_def io_bind_def io_lift_def deploy_paths)
  have "rsq_Service resume_request = ''web''" "rsq_OperationID resume_request = ''op-1''" by (simp_all add: resume_request_def)
  then show ?thesis using g i q r resume_facts(1)
    by (auto simp: resumeInspect_def io_bind_def io_ret_def Let_def ops_Inspect_def io_try_def inspectFromControl_def split: sum.splits)
qed

theorem resume_finishes_witness:
  "\<exists>r t e c' e' oc. Resume sys_world (Some (roll_provider ''succeeded'')) resume_request resume_sys = ((Some r, None), t) \<and>
     rsr_Status r = OperationSucceeded \<and>
     control_at (sys_objs t) (service_key ''web'') = Some (e, c') \<and> sc_StableRelease c' = ''r2'' \<and>
     op_at (sys_objs t) ''web'' ''op-1'' = Some (e', oc) \<and> oc_Lease oc = None"
proof -
  obtain insp where i: "resumeInspect sys_world resume_request resume_sys = (Inr (resume_request, insp), resume_sys)" "oir_Service insp = ''web''"
    "oir_OperationID insp = ''op-1''" "oir_Status insp = OperationRunning" "oir_Kind insp = []" "oir_Lease insp = Some old_lease"
    "oir_ProviderOperations insp = oc_ProviderOperations resume_op" using resume_inspected by (elim exE conjE)
  have tl: "resume_sys\<lparr>sys_tokens := tl (sys_tokens resume_sys)\<rparr> = resume_sys" by (simp add: resume_facts(4) resume_sys_def op1_sys_def)
  have t: "next_token resume_sys = ''lease_0''" by (simp add: next_token_def resume_facts(4))
  have v: "validateServiceControl roll_control = Inr ()"
    using validateServiceControl_ok(1-4) [OF web_facts(5)] web_facts(7)
    by (simp add: roll_control_def validateServiceControl_def rbind_def validateName_iff)
  have w: "sc_Service roll_control = ''web''" "sc_Lease roll_control = None" "sc_Version roll_control = 1" "sc_DesiredRelease roll_control = ''r2''"
    using web_facts(6-8) by (simp_all add: roll_control_def)
  have q: "wrq_Service roll_req = ''web''" "act_ID (wrq_Actor roll_req) = ''ci''" by (simp_all add: roll_req_def)
  have p: "promotable (resume_sys\<lparr>sys_tokens := tl (sys_tokens resume_sys)\<rparr>) roll_req roll_control"
    unfolding tl promotable_def q t resume_facts(3)
    using resume_facts(6) v w by (simp add: TrimSpace_printable printable_def time_ok_int64 in_int64_def)
  have "\<exists>r t e c' e' oc. Resume sys_world (Some (roll_provider ''succeeded'')) resume_request resume_sys = ((Some r, None), t) \<and> rsr_Resumed r \<and>
    rsr_Status r = OperationSucceeded \<and>
    control_at (sys_objs t) (service_key (oir_Service insp)) = Some (e, c') \<and> sc_StableRelease c' = sc_DesiredRelease roll_control \<and>
    op_at (sys_objs t) (oir_Service insp) (oir_OperationID insp) = Some (e', oc) \<and> oc_Status oc = OperationSucceeded \<and> oc_Lease oc = None"
    by (rule resume_finishes [OF resume_facts(1,2) i(1) _ _ _ _ _ _ _ _ _ p,
          where st = "\<lparr>rs_RolloutID = ''op-1'', rs_Status = ''succeeded'', rs_ProviderID = ''ir-1'', rs_UpdatedAt = 0\<rparr>"])
      (simp_all add: i t resume_facts(3) resume_request_def roll_req_def roll_provider_def terminalStatus_def OperationRunning_def OperationSucceeded_def
        OperationFailed_def OperationCanceled_def resume_op_def firstASGRollout_def ops_activeLease_def leaseExpires_def old_lease_def io_ret_def
        TrimSpace_printable printable_def time_ok_int64 in_int64_def)
  then show ?thesis unfolding i(2,3) w(4) by (elim exE conjE) (intro exI conjI, assumption+)
qed

end
