(* ===== verification/Runner_Trace.thy ===== *)
theory Runner_Trace
  imports Runner
begin

text \<open>
  What the runner does to its host, as a protocol. The effects of a run are recorded in order (\<open>action\<close>); \<open>step\<close> is an
  abstract machine over these actions with the phases of a lifecycle (docs/DESIGN.md, section 15.2), and the refinement
  lemmas show that the actions of \<^verbatim>\<open>RunLifecycle\<close> and \<^verbatim>\<open>StopWorkload\<close> are always a path of that machine, whatever the
  host answers. What the machine's phases imply then holds for the code.
\<close>

section \<open>The abstract machine\<close>

datatype action =
    ALoad bool
  | ASave LocalState bool
  | AEmit StateEvent bool
  | AControl string "Object result"
  | APrepare bool
  | AVolume StatefulRuntime bool
  | AHook StatefulRecipeAction bool
  | AWriteUnit string string bool
  | AReload bool
  | ARestart string bool
  | AStop string bool
  | ADrain bool
  | ACheck HealthStatus
  | ASleep bool

fun succeeded :: "action \<Rightarrow> bool" where
  "succeeded (ALoad b) = b"
| "succeeded (ASave _ b) = b"
| "succeeded (AEmit _ b) = b"
| "succeeded (AControl _ r) = is_ok r"
| "succeeded (APrepare b) = b"
| "succeeded (AVolume _ b) = b"
| "succeeded (AHook _ b) = b"
| "succeeded (AWriteUnit _ _ b) = b"
| "succeeded (AReload b) = b"
| "succeeded (ARestart _ b) = b"
| "succeeded (AStop _ b) = b"
| "succeeded (ADrain b) = b"
| "succeeded (ACheck h) = True"
| "succeeded (ASleep b) = b"

fun is_effect :: "action \<Rightarrow> bool" where
  "is_effect (ALoad _) = False"
| "is_effect (ASave _ _) = False"
| "is_effect (AEmit _ _) = False"
| "is_effect _ = True"

datatype phase =
    Idle | Loaded
  | Prep | PrepFenced string Object | Prepared "(string \<times> Object) option" | Mounting string Object | Mounted
  | Rend | Written string | Reloaded string | Start string | Restarted string | Wait
  | Well | Fenced string Object | Serving
  | Drain | Stopping | UnitStopped | Stopped
  | Broken | Failed | Over

text \<open>
  The runtime of a stateful member is backed by the control document that was read: nobody holds a lease on the member,
  it is ready, and volume, group, ordinal and generation are those of the document.
\<close>

definition backed_by :: "string \<Rightarrow> Object \<Rightarrow> StatefulRuntime \<Rightarrow> bool" where
  "backed_by key ob rt \<longleftrightarrow> (case canonical_UnmarshalStrict dec_StatefulMemberControl (obj_Body ob) of
      Inl _ \<Rightarrow> False
    | Inr control \<Rightarrow> smc_Lease control = None \<and> (smc_Phase control = [] \<or> smc_Phase control = StatefulMemberReady) \<and>
        smc_VolumeID control \<noteq> [] \<and> sr_VolumeID rt = smc_VolumeID control \<and> sr_Group rt = smc_Group control \<and>
        sr_Member rt = smc_Member control \<and> sr_Generation rt = smc_Generation control \<and>
        sr_ControlKey rt = key \<and> sr_ControlETag rt = obj_ETag ob)"

text \<open>A runner that knows its instance serves only a member that is recorded on that instance.\<close>

definition on_instance :: "Identity option \<Rightarrow> StatefulRuntime \<Rightarrow> bool" where
  "on_instance identity rt \<longleftrightarrow> (case identity of
      None \<Rightarrow> True
    | Some i \<Rightarrow> idn_InstanceID i = [] \<or> sr_InstanceID rt = idn_InstanceID i)"

fun phase_state :: "phase \<Rightarrow> State option" where
  "phase_state Prep = Some StatePreparingArtifact"
| "phase_state (Mounting _ _) = Some StatePreparingArtifact"
| "phase_state Rend = Some StateRenderingConfig"
| "phase_state (Start _) = Some StateStartingWorkload"
| "phase_state Wait = Some StateWaitingForHealth"
| "phase_state Serving = Some StateServing"
| "phase_state Drain = Some StateDraining"
| "phase_state Stopping = Some StateStopping"
| "phase_state Stopped = Some StateStopped"
| "phase_state Failed = Some StateFailed"
| "phase_state _ = None"

definition active :: "phase \<Rightarrow> bool" where
  "active p \<longleftrightarrow> p \<notin> {Idle, Loaded, Serving, Stopped, Failed, Over}"

inductive step :: "phase \<Rightarrow> action \<Rightarrow> phase \<Rightarrow> bool" where
  load: "step Idle (ALoad b) Loaded"
| prepare: "ls_CurrentState st = StatePreparingArtifact \<Longrightarrow> step Loaded (ASave st True) Prep"
| prep_fence: "step Prep (AControl key (Inr ob)) (PrepFenced key ob)"
| artifact: "step Prep (APrepare True) (Prepared None)"
| artifact_fenced: "step (PrepFenced key ob) (APrepare True) (Prepared (Some (key, ob)))"
| mount: "ls_CurrentState st = StatePreparingArtifact \<Longrightarrow> step (Prepared (Some (key, ob))) (ASave st True) (Mounting key ob)"
| volume: "backed_by key ob rt \<Longrightarrow> step (Mounting key ob) (AVolume rt True) Mounted"
| start_hook: "step Mounted (AHook StatefulRecipeStart True) Mounted"
| render: "ls_CurrentState st = StateRenderingConfig \<Longrightarrow> p = Prepared None \<or> p = Mounted \<Longrightarrow> step p (ASave st True) Rend"
| write_unit: "step Rend (AWriteUnit u contents True) (Written u)"
| reload: "step (Written u) (AReload True) (Reloaded u)"
| start: "ls_CurrentState st = StateStartingWorkload \<Longrightarrow> ls_WorkloadUnit st = u \<Longrightarrow> step (Reloaded u) (ASave st True) (Start u)"
| restart: "step (Start u) (ARestart u True) (Restarted u)"
| wait: "ls_CurrentState st = StateWaitingForHealth \<Longrightarrow> ls_WorkloadUnit st = u \<Longrightarrow> step (Restarted u) (ASave st True) Wait"
| check: "step Wait (ACheck h) (if h = HealthHealthy then Well else Wait)"
| sleep: "step Wait (ASleep True) Wait"
| fence: "step Well (AControl key (Inr ob)) (Fenced key ob)"
| health_hook: "step (Fenced key ob) (AHook StatefulRecipeHealth True) (Fenced key ob)"
| serve: "ls_CurrentState st = StateServing \<Longrightarrow> ls_Health st = HealthHealthy \<Longrightarrow> ls_Stateful st = None \<Longrightarrow>
    step Well (ASave st True) Serving"
| serve_fenced: "ls_CurrentState st = StateServing \<Longrightarrow> ls_Health st = HealthHealthy \<Longrightarrow> ls_Stateful st = Some rt \<Longrightarrow>
    backed_by key ob rt \<Longrightarrow> on_instance (ls_Identity st) rt \<Longrightarrow> step (Fenced key ob) (ASave st True) Serving"
| drain: "ls_CurrentState st = StateDraining \<Longrightarrow> step Loaded (ASave st True) Drain"
| drained: "step Drain (ADrain True) Drain"
| stop_hook: "step Drain (AHook StatefulRecipeStop True) Drain"
| stopping: "ls_CurrentState st = StateStopping \<Longrightarrow> step Drain (ASave st True) Stopping"
| stop_unit: "step Stopping (AStop u True) UnitStopped"
| stopped: "ls_CurrentState st = StateStopped \<Longrightarrow> step UnitStopped (ASave st True) Stopped"
| emit: "phase_state p = Some (sev_State ev) \<Longrightarrow> step p (AEmit ev True) p"
| broken: "active p \<Longrightarrow> is_effect a \<Longrightarrow> \<not> succeeded a \<Longrightarrow> step p a Broken"
| failed: "active p \<Longrightarrow> ls_CurrentState st = StateFailed \<Longrightarrow> step p (ASave st True) Failed"
| save_over: "step p (ASave st False) Over"
| emit_over: "step p (AEmit ev False) Over"

inductive path :: "phase \<Rightarrow> action list \<Rightarrow> phase \<Rightarrow> bool" where
  path_nil: "path p [] p"
| path_cons: "step p a q \<Longrightarrow> path q as r \<Longrightarrow> path p (a # as) r"

inductive_simps path_simps [simp]: "path p [] q" "path p (a # as) q"

lemma path_append: "path p as q \<Longrightarrow> path q bs r \<Longrightarrow> path p (as @ bs) r"
  by (induction rule: path.induct) auto

lemma path_one: "step p a q \<Longrightarrow> path p [a] q"
  by auto

section \<open>Recording the actions of a host\<close>

definition traced :: "('a result \<Rightarrow> action) \<Rightarrow> ('s, 'a) io \<Rightarrow> ('s \<times> action list, 'a) io" where
  "traced act m p = (case m (fst p) of (r, t) \<Rightarrow> (r, (t, snd p @ [act r])))"

definition silent :: "('s \<Rightarrow> 'b \<times> 's) \<Rightarrow> ('s \<times> action list) \<Rightarrow> 'b \<times> ('s \<times> action list)" where
  "silent m p = (case m (fst p) of (r, t) \<Rightarrow> (r, (t, snd p)))"

definition trace_world :: "('s, 'z) World_scheme \<Rightarrow> ('s \<times> action list) World" where
  "trace_world W = \<lparr>os_Get = (\<lambda>k. silent (os_Get W k)), os_Head = (\<lambda>k. silent (os_Head W k)),
     os_Create = (\<lambda>k b o'. silent (os_Create W k b o')), os_CompareAndSwap = (\<lambda>k e b o'. silent (os_CompareAndSwap W k e b o')),
     os_List = (\<lambda>k l. silent (os_List W k l)), w_Now = silent (w_Now W), w_Token = silent (w_Token W),
     w_EventID = silent (w_EventID W),
     w_Sleep = (\<lambda>d p. case w_Sleep W d (fst p) of (r, t) \<Rightarrow> (r, (t, snd p @ [ASleep (r = None)]))),
     w_CtxErr = silent (w_CtxErr W)\<rparr>"

definition trace_control :: "'s ObjectStore \<Rightarrow> ('s \<times> action list) ObjectStore" where
  "trace_control S = \<lparr>os_Get = (\<lambda>k. traced (AControl k) (os_Get S k)), os_Head = (\<lambda>k. silent (os_Head S k)),
     os_Create = (\<lambda>k b o'. silent (os_Create S k b o')), os_CompareAndSwap = (\<lambda>k e b o'. silent (os_CompareAndSwap S k e b o')),
     os_List = (\<lambda>k l. silent (os_List S k l))\<rparr>"

definition hook_ok :: "RecipeResult option result \<Rightarrow> bool" where
  "hook_ok r \<longleftrightarrow> (case r of Inr (Some x) \<Rightarrow> rcr_OK x | _ \<Rightarrow> False)"

definition trace_recipe :: "'s Recipe \<Rightarrow> ('s \<times> action list) Recipe" where
  "trace_recipe rc = \<lparr>rcp_Name = rcp_Name rc,
     rcp_Start = (\<lambda>q. traced (\<lambda>r. AHook StatefulRecipeStart (hook_ok r)) (rcp_Start rc q)),
     rcp_Stop = (\<lambda>q. traced (\<lambda>r. AHook StatefulRecipeStop (hook_ok r)) (rcp_Stop rc q)),
     rcp_Health = (\<lambda>q. traced (\<lambda>r. AHook StatefulRecipeHealth (hook_ok r)) (rcp_Health rc q)),
     rcp_DetectRole = (\<lambda>q. silent (rcp_DetectRole rc q)),
     rcp_Backup = (\<lambda>q. traced (\<lambda>r. AHook StatefulRecipeBackup (hook_ok r)) (rcp_Backup rc q)),
     rcp_Restore = (\<lambda>q. traced (\<lambda>r. AHook StatefulRecipeRestore (hook_ok r)) (rcp_Restore rc q))\<rparr>"

definition trace_store :: "'s StateStore \<Rightarrow> ('s \<times> action list) StateStore" where
  "trace_store st = \<lparr>sst_LoadState = traced (\<lambda>r. ALoad (is_ok r)) (sst_LoadState st),
     sst_SaveState = (\<lambda>x. traced (\<lambda>r. ASave x (is_ok r)) (sst_SaveState st x))\<rparr>"

definition trace_sink :: "'s EventSink \<Rightarrow> ('s \<times> action list) EventSink" where
  "trace_sink sink = (\<lambda>ev. traced (\<lambda>r. AEmit ev (is_ok r)) (sink ev))"

definition trace_systemd :: "'s SystemdManager \<Rightarrow> ('s \<times> action list) SystemdManager" where
  "trace_systemd sd = \<lparr>sdm_WriteUnit = (\<lambda>u c. traced (\<lambda>r. AWriteUnit u c (is_ok r)) (sdm_WriteUnit sd u c)),
     sdm_DaemonReload = traced (\<lambda>r. AReload (is_ok r)) (sdm_DaemonReload sd),
     sdm_StartUnit = (\<lambda>u. traced (\<lambda>r. ARestart u (is_ok r)) (sdm_StartUnit sd u)),
     sdm_RestartUnit = (\<lambda>u. traced (\<lambda>r. ARestart u (is_ok r)) (sdm_RestartUnit sd u)),
     sdm_StopUnit = (\<lambda>u. traced (\<lambda>r. AStop u (is_ok r)) (sdm_StopUnit sd u))\<rparr>"

definition trace_request :: "'s LifecycleRequest \<Rightarrow> ('s \<times> action list) LifecycleRequest" where
  "trace_request req = \<lparr>lq_RuntimeManifest = lq_RuntimeManifest req, lq_Artifact = lq_Artifact req,
     lq_ControlStore = map_option trace_control (lq_ControlStore req), lq_StateStore = trace_store (lq_StateStore req),
     lq_EventSink = map_option trace_sink (lq_EventSink req), lq_Systemd = map_option trace_systemd (lq_Systemd req),
     lq_ArtifactPreparer = (\<lambda>q. traced (\<lambda>r. APrepare (is_ok r)) (lq_ArtifactPreparer req q)),
     lq_StatefulVolume = (\<lambda>rt. traced (\<lambda>r. AVolume rt (is_ok r)) (lq_StatefulVolume req rt)),
     lq_StatefulRecipe = map_option trace_recipe (lq_StatefulRecipe req), lq_Stateful = lq_Stateful req,
     lq_HealthChecker = (\<lambda>c p. case lq_HealthChecker req c (fst p) of (h, t) \<Rightarrow> (h, (t, snd p @ [ACheck (hr_Status h)]))),
     lq_TraceID = lq_TraceID req, lq_OperationID = lq_OperationID req, lq_Identity = lq_Identity req, lq_UnitName = lq_UnitName req,
     lq_HealthAttempts = lq_HealthAttempts req, lq_HealthInterval = lq_HealthInterval req, lq_StopTimeout = lq_StopTimeout req\<rparr>"

definition trace_stop :: "'s StopRequest \<Rightarrow> ('s \<times> action list) StopRequest" where
  "trace_stop req = \<lparr>stq_Service = stq_Service req, stq_Env = stq_Env req, stq_ReleaseID = stq_ReleaseID req,
     stq_StateStore = trace_store (stq_StateStore req), stq_EventSink = map_option trace_sink (stq_EventSink req),
     stq_Systemd = map_option trace_systemd (stq_Systemd req), stq_StatefulRecipe = map_option trace_recipe (stq_StatefulRecipe req),
     stq_Stateful = stq_Stateful req, stq_UnitName = stq_UnitName req, stq_TraceID = stq_TraceID req,
     stq_OperationID = stq_OperationID req, stq_Identity = stq_Identity req,
     stq_Drain = map_option (traced (\<lambda>r. ADrain (is_ok r))) (stq_Drain req)\<rparr>"

section \<open>Following the machine\<close>

text \<open>A host whose effects record themselves in a log; its clock does not.\<close>

locale traced_world =
  fixes W :: "('s, 'z) World_scheme"
    and log :: "'s \<Rightarrow> action list"
  assumes now_log: "w_Now W s = (x, t) \<Longrightarrow> log t = log s"
    and sleep_log: "w_Sleep W d s = (r, t) \<Longrightarrow> log t = log s @ [ASleep (r = None)]"
begin

text \<open>
  From a phase that the precondition allows, the actions of the operation lead to one that the postcondition allows,
  for each way it can end.
\<close>

definition follows :: "('r \<Rightarrow> phase \<Rightarrow> bool) \<Rightarrow> ('s \<times> 'r, 'e, 'a) eio \<Rightarrow> ('e + 'a \<Rightarrow> 'r \<Rightarrow> phase \<Rightarrow> bool) \<Rightarrow> bool" where
  "follows A m B \<longleftrightarrow> (\<forall>s run p r s' run'. A run p \<longrightarrow> m (s, run) = (r, (s', run')) \<longrightarrow>
     (\<exists>l q. log s' = log s @ l \<and> path p l q \<and> B r run' q))"

lemma followsI:
  assumes "\<And>s run p r s' run'. A run p \<Longrightarrow> m (s, run) = (r, (s', run')) \<Longrightarrow> \<exists>l q. log s' = log s @ l \<and> path p l q \<and> B r run' q"
  shows "follows A m B"
  using assms unfolding follows_def by blast

lemma followsD:
  "follows A m B \<Longrightarrow> A run p \<Longrightarrow> m (s, run) = (r, (s', run')) \<Longrightarrow> \<exists>l q. log s' = log s @ l \<and> path p l q \<and> B r run' q"
  unfolding follows_def by blast

lemma follows_bind:
  assumes "follows A m (\<lambda>r run q. case r of Inl e \<Rightarrow> B (Inl e) run q | Inr x \<Rightarrow> M x run q)"
    and "\<And>x. follows (M x) (f x) B"
  shows "follows A (ebind m f) B"
proof (rule followsI)
  fix s run p r s' run'
  assume A: "A run p" and eq: "ebind m f (s, run) = (r, (s', run'))"
  obtain r1 s1 run1 where m: "m (s, run) = (r1, (s1, run1))" by (metis prod.exhaust)
  from followsD [OF assms(1) A m] obtain l q where l: "log s1 = log s @ l" "path p l q"
    and q: "case r1 of Inl e \<Rightarrow> B (Inl e) run1 q | Inr x \<Rightarrow> M x run1 q" by blast
  show "\<exists>l q. log s' = log s @ l \<and> path p l q \<and> B r run' q"
  proof (cases r1)
    case (Inl e)
    then show ?thesis using eq m l q by (auto simp: ebind_def)
  next
    case (Inr x)
    then have "f x (s1, run1) = (r, (s', run'))" "M x run1 q" using eq m q by (simp_all add: ebind_def)
    from followsD [OF assms(2) this(2,1)] obtain l' q' where "log s' = log s1 @ l'" "path q l' q'" "B r run' q'" by blast
    then show ?thesis using l path_append [OF l(2)] by (metis append.assoc)
  qed
qed

lemma follows_weaken:
  "follows A m B \<Longrightarrow> (\<And>run p. A' run p \<Longrightarrow> A run p) \<Longrightarrow> (\<And>r run q. B r run q \<Longrightarrow> B' r run q) \<Longrightarrow> follows A' m B'"
  unfolding follows_def by meson

lemma follows_ret: "(\<And>run p. A run p \<Longrightarrow> B (Inr x) run p) \<Longrightarrow> follows A (eret x) B"
  unfolding follows_def eret_def by (auto intro!: exI [of _ "[]"])

lemma follows_now:
  "(\<And>x run p. A run p \<Longrightarrow> B (Inr x) run p) \<Longrightarrow> follows A (host ex (io_now W)) B"
  by (rule followsI) (auto simp: host_def io_now_def dest!: now_log split: prod.splits intro!: exI [of _ "[]"])

lemma follows_case_option:
  "(z = None \<Longrightarrow> follows A f B) \<Longrightarrow> (\<And>x. z = Some x \<Longrightarrow> follows A (g x) B) \<Longrightarrow>
     follows A (case z of None \<Rightarrow> f | Some x \<Rightarrow> g x) B"
  by (cases z) auto

lemma follows_update: "(\<And>run p. A run p \<Longrightarrow> B (Inr (g run)) (g run) p) \<Longrightarrow> follows A (eupdate g) B"
  unfolding follows_def eupdate_def by (auto intro!: exI [of _ "[]"])

text \<open>An effect on the host whose record is one action.\<close>

lemma follows_host:
  assumes "\<And>s r t. m s = (r, t) \<Longrightarrow> log t = log s @ [act r]"
    and "\<And>x run p. A run p \<Longrightarrow> \<exists>q. step p (act (Inr x)) q \<and> B (Inr x) run q"
    and "\<And>e run p. A run p \<Longrightarrow> \<exists>q. step p (act (Inl e)) q \<and> B (Inl (ex e)) run q"
  shows "follows A (host ex m) B"
proof (rule followsI)
  fix s run p r s' run'
  assume A: "A run p" and eq: "host ex m (s, run) = (r, (s', run'))"
  obtain r1 t where m: "m s = (r1, t)" by fastforce
  then have "s' = t" "run' = run" "r = map_sum ex id r1" using eq by (auto simp: host_def split: sum.splits)
  moreover obtain q where "step p (act r1) q" "B (map_sum ex id r1) run q"
    using assms(2,3) [OF A] by (cases r1) fastforce+
  ultimately show "\<exists>l q. log s' = log s @ l \<and> path p l q \<and> B r run' q"
    using assms(1) [OF m] by (intro exI [of _ "[act r1]"] exI [of _ q]) simp
qed

end

text \<open>The effects that a lifecycle and a stop share.\<close>

locale traced_host = traced_world W log
  for W :: "('s, 'z) World_scheme" and log :: "'s \<Rightarrow> action list" +
  fixes store :: "'s StateStore" and sink :: "'s EventSink option" and recipe :: "'s Recipe option"
    and systemd :: "'s SystemdManager option"
  assumes load_log: "sst_LoadState store s = (r, t) \<Longrightarrow> log t = log s @ [ALoad (is_ok r)]"
    and save_log: "sst_SaveState store x s = (ru, t) \<Longrightarrow> log t = log s @ [ASave x (is_ok ru)]"
    and emit_log: "sink = Some k \<Longrightarrow> k ev s = (ru, t) \<Longrightarrow> log t = log s @ [AEmit ev (is_ok ru)]"
    and hook_log: "recipe = Some rc \<Longrightarrow> runRecipeAction rc act q s = (rr, t) \<Longrightarrow>
      act \<in> {StatefulRecipeStart, StatefulRecipeHealth, StatefulRecipeStop} \<Longrightarrow> log t = log s @ [AHook act (hook_ok rr)]"
    and write_log: "systemd = Some sd \<Longrightarrow> sdm_WriteUnit sd u c s = (ru, t) \<Longrightarrow> log t = log s @ [AWriteUnit u c (is_ok ru)]"
    and reload_log: "systemd = Some sd \<Longrightarrow> sdm_DaemonReload sd s = (ru, t) \<Longrightarrow> log t = log s @ [AReload (is_ok ru)]"
    and restart_log: "systemd = Some sd \<Longrightarrow> sdm_RestartUnit sd u s = (ru, t) \<Longrightarrow> log t = log s @ [ARestart u (is_ok ru)]"
    and stop_log: "systemd = Some sd \<Longrightarrow> sdm_StopUnit sd u s = (ru, t) \<Longrightarrow> log t = log s @ [AStop u (is_ok ru)]"
begin

text \<open>A recipe hook is one action, or none if there is no recipe or the wrong one.\<close>

lemma hook_path:
  assumes "act \<in> {StatefulRecipeStart, StatefulRecipeHealth, StatefulRecipeStop}"
    and "RunStatefulRecipeHook recipe rt act oid tid s = (r, t)" "active p" "step p (AHook act True) p"
  shows "\<exists>l q. log t = log s @ l \<and> path p l q \<and> (case r of Inl _ \<Rightarrow> active q | Inr _ \<Rightarrow> q = p)"
proof -
  have none: ?thesis if "t = s" using that assms(3) by (intro exI [of _ "[]"] exI [of _ p]) (auto split: sum.splits)
  show ?thesis
  proof (cases recipe)
    case None
    then show ?thesis using assms(2) none by (auto simp: RunStatefulRecipeHook_def split: if_splits)
  next
    case (Some rc)
    show ?thesis
    proof (cases "validateRecipeName rc rt")
      case (Inl e)
      then show ?thesis using assms(2) none Some by (simp add: RunStatefulRecipeHook_def io_bind_def io_lift_def)
    next
      case (Inr v)
      obtain rr u where h: "runRecipeAction rc act (statefulRecipeRequest rt oid tid) s = (rr, u)" by fastforce
      have eq: "t = u" "(case r of Inl _ \<Rightarrow> \<not> hook_ok rr | Inr _ \<Rightarrow> hook_ok rr)"
        using assms(2) h Some Inr
        by (auto simp: RunStatefulRecipeHook_def io_bind_def io_lift_def hook_ok_def io_fail_def io_ret_def
            split: sum.splits option.splits if_splits)
      have l: "log t = log s @ [AHook act (hook_ok rr)]" using hook_log [OF Some h assms(1)] eq by simp
      show ?thesis
      proof (cases "hook_ok rr")
        case True
        then have "log t = log s @ [AHook act True]" "path p [AHook act True] p" using l assms(4) by auto
        then show ?thesis using eq(2) True by (intro exI [of _ "[AHook act True]"] exI [of _ p]) (auto split: sum.splits)
      next
        case False
        then have "step p (AHook act False) Broken" using assms(3) by (intro step.broken) auto
        then show ?thesis using False l eq(2)
          by (intro exI [of _ "[AHook act False]"] exI [of _ Broken]) (auto simp: active_def split: sum.splits)
      qed
    qed
  qed
qed

lemma loaded_path:
  assumes "loadLifecycleState W store m tid ident u s = (r, t)"
  shows "\<exists>l. log t = log s @ l \<and> path Idle l Loaded"
proof -
  obtain r1 s1 where l: "sst_LoadState store s = (r1, s1)" by fastforce
  have "log t = log s1"
    using assms l now_log
    by (auto simp: loadLifecycleState_def io_bind_def io_try_def io_fail_def io_ret_def io_now_def
        split: sum.splits option.splits if_splits prod.splits)
  then show ?thesis using load_log [OF l] step.load by (intro exI [of _ "[ALoad (is_ok r1)]"]) auto
qed

end

section \<open>The lifecycle follows the machine\<close>

locale traced_lifecycle =
  traced_host W log "lq_StateStore req" "lq_EventSink req" "lq_StatefulRecipe req" "lq_Systemd req"
  for W :: "('s, 'z) World_scheme" and log :: "'s \<Rightarrow> action list" and req :: "'s LifecycleRequest" +
  assumes control_log: "lq_ControlStore req = Some st \<Longrightarrow> os_Get st key s = (ro, t) \<Longrightarrow> log t = log s @ [AControl key ro]"
    and prepare_log: "lq_ArtifactPreparer req aq s = (ra, t) \<Longrightarrow> log t = log s @ [APrepare (is_ok ra)]"
    and volume_log: "lq_StatefulVolume req rt s = (ru, t) \<Longrightarrow> log t = log s @ [AVolume rt (is_ok ru)]"
    and check_log: "lq_HealthChecker req hc s = (h, t) \<Longrightarrow> log t = log s @ [ACheck (hr_Status h)]"
begin

text \<open>Whatever is entered, the machine has a step for it; then the event is emitted in the new phase.\<close>

lemma transition_follows:
  assumes "\<And>now run p. A run p \<Longrightarrow>
      \<exists>q. step p (ASave (entered req u st h now (lr_stateful run) (lr_current run)) True) q \<and> phase_state q = Some st \<and>
        B (run\<lparr>lr_current := entered req u st h now (lr_stateful run) (lr_current run)\<rparr>) q"
    and "\<And>run ev q. B run q \<Longrightarrow> B (run\<lparr>lr_events := ev\<rparr>) q"
  shows "follows A (transition W req u st h summary cause)
    (\<lambda>r run q. ls_CurrentState (lr_current run) = st \<and> (case r of Inl _ \<Rightarrow> q = Over | Inr _ \<Rightarrow> B run q))"
proof -
  let ?M1 = "\<lambda>run0 run p. run = run0 \<and> (\<exists>now run1. A run1 p \<and> run = run1\<lparr>lr_current := entered req u st h now (lr_stateful run1) (lr_current run1)\<rparr>)"
  let ?M2 = "\<lambda>run0 run q. lr_current run = lr_current run0 \<and> ls_CurrentState (lr_current run) = st \<and> phase_state q = Some st \<and> B run q"
  have e: "ls_CurrentState (entered req u st h now x c) = st" for now x c by (simp add: entered_def)
  show ?thesis
    unfolding transition_def Let_def
    apply (rule follows_bind [where M = "\<lambda>_. A"], rule follows_now, simp)
    apply (rule follows_bind [where M = ?M1], rule follows_update, simp, blast)
    subgoal for now run
      apply (rule follows_bind [where M = "\<lambda>_. ?M2 run"])
       apply (rule follows_host [where act = "\<lambda>r. ASave (lr_current run) (is_ok r)"])
         apply (rule save_log, assumption)
      subgoal using assms(1) e by fastforce
      subgoal using e by (auto intro: step.save_over)
      apply (rule follows_bind [where M = "\<lambda>_. ?M2 run"], rule follows_now, fastforce)
      apply (rule follows_bind [where M = "\<lambda>_. ?M2 run"], rule follows_update)
      subgoal using assms(2) by auto
      apply (rule follows_case_option)
       apply (rule follows_ret, fastforce)
      subgoal for w now' run' k
        apply (rule follows_host [where act = "\<lambda>r. AEmit (lifecycleEvent req u st h now' summary cause (lr_current run)) (is_ok r)"])
          apply (rule emit_log, assumption, assumption)
        subgoal for x run2 p by (rule exI [of _ p]) (auto intro!: step.emit simp: lifecycleEvent_def)
        subgoal by (auto intro: step.emit_over)
        done
      done
    done
qed

text \<open>How an exit leaves the machine.\<close>

definition exit_ok :: "lifecycle_exit \<Rightarrow> phase \<Rightarrow> bool" where
  "exit_ok ex q \<longleftrightarrow> (case ex of
      NilResult _ \<Rightarrow> q = Over
    | WithResult res _ \<Rightarrow> (q = Failed \<or> q = Over) \<and> rst_State (lres_Status res) = StateFailed \<and> \<not> rst_OK (lres_Status res))"

lemma exit_bind:
  assumes "follows A m (\<lambda>r run q. case r of Inl ex \<Rightarrow> exit_ok ex q | Inr x \<Rightarrow> M x run q)"
    and "\<And>x. follows (M x) (f x) (\<lambda>r run q. case r of Inl ex \<Rightarrow> exit_ok ex q | Inr y \<Rightarrow> B y run q)"
  shows "follows A (ebind m f) (\<lambda>r run q. case r of Inl ex \<Rightarrow> exit_ok ex q | Inr y \<Rightarrow> B y run q)"
  by (rule follows_bind [OF follows_weaken [OF assms(1)] assms(2)]) (auto split: sum.splits)

lemma fail_follows:
  "follows (\<lambda>run p. active p) (lifecycle_fail W req u code summary st cause)
     (\<lambda>r run q. case r of Inl ex \<Rightarrow> exit_ok ex q | Inr _ \<Rightarrow> False)"
proof (rule followsI)
  fix s run p r s' run'
  assume a: "active p" and eq: "lifecycle_fail W req u code summary st cause (s, run) = (r, (s', run'))"
  have f: "follows (\<lambda>run p. active p) (transition W req u StateFailed HealthUnhealthy summary (Some cause))
     (\<lambda>r run q. ls_CurrentState (lr_current run) = StateFailed \<and> (case r of Inl _ \<Rightarrow> q = Over | Inr _ \<Rightarrow> q = Failed))"
    by (rule transition_follows) (auto intro!: step.failed exI [of _ Failed] simp: entered_def)
  obtain r1 where tr: "transition W req u StateFailed HealthUnhealthy summary (Some cause) (s, run) = (r1, (s', run'))"
    and r: "\<exists>err. r = Inl (WithResult (result_of u (s', run')) err)"
    using eq unfolding lifecycle_fail_def by (auto split: prod.splits sum.splits)
  from followsD [OF f a tr] show "\<exists>l q. log s' = log s @ l \<and> path p l q \<and> (case r of Inl ex \<Rightarrow> exit_ok ex q | Inr _ \<Rightarrow> False)"
    using r by (cases r1) (auto simp: exit_ok_def result_of_def StatusFromState_def)
qed

lemma move_follows:
  assumes "\<And>now run p. A run p \<Longrightarrow>
      \<exists>q. step p (ASave (entered req u st h now (lr_stateful run) (lr_current run)) True) q \<and> phase_state q = Some st \<and>
        B (run\<lparr>lr_current := entered req u st h now (lr_stateful run) (lr_current run)\<rparr>) q"
    and "\<And>run ev q. B run q \<Longrightarrow> B (run\<lparr>lr_events := ev\<rparr>) q"
  shows "follows A (move W req u st h summary) (\<lambda>r run q. case r of Inl ex \<Rightarrow> exit_ok ex q | Inr _ \<Rightarrow> B run q)"
proof (rule followsI)
  fix s run p r s' run'
  assume a: "A run p" and eq: "move W req u st h summary (s, run) = (r, (s', run'))"
  obtain r1 where tr: "transition W req u st h summary None (s, run) = (r1, (s', run'))" and r: "r = map_sum NilResult id r1"
    using eq unfolding move_def by (auto split: prod.splits sum.splits)
  have f: "follows A (transition W req u st h summary None)
    (\<lambda>r run q. ls_CurrentState (lr_current run) = st \<and> (case r of Inl _ \<Rightarrow> q = Over | Inr _ \<Rightarrow> B run q))"
    by (rule transition_follows) (rule assms, assumption)+
  from followsD [OF f a tr]
  show "\<exists>l q. log s' = log s @ l \<and> path p l q \<and> (case r of Inl ex \<Rightarrow> exit_ok ex q | Inr _ \<Rightarrow> B run' q)"
    using r by (cases r1) (auto simp: exit_ok_def)
qed

lemma attempt_follows:
  assumes "\<And>s r t run p. A run p \<Longrightarrow> m s = (r, t) \<Longrightarrow>
    \<exists>l q. log t = log s @ l \<and> path p l q \<and> (case r of Inl e \<Rightarrow> active q | Inr x \<Rightarrow> B x run q)"
  shows "follows A (attempt W req u code summary st m) (\<lambda>r run q. case r of Inl ex \<Rightarrow> exit_ok ex q | Inr x \<Rightarrow> B x run q)"
proof (rule followsI)
  fix s run p r s' run'
  assume a: "A run p" and eq: "attempt W req u code summary st m (s, run) = (r, (s', run'))"
  obtain r1 t where m: "m s = (r1, t)" by fastforce
  from assms [OF a m] obtain l q where l: "log t = log s @ l" "path p l q"
    and q: "case r1 of Inl e \<Rightarrow> active q | Inr x \<Rightarrow> B x run q" by blast
  show "\<exists>l q. log s' = log s @ l \<and> path p l q \<and> (case r of Inl ex \<Rightarrow> exit_ok ex q | Inr x \<Rightarrow> B x run' q)"
  proof (cases r1)
    case (Inl e)
    then have "lifecycle_fail W req u code summary st e (t, run) = (r, (s', run'))" "active q"
      using eq m q by (simp_all add: attempt_def)
    from followsD [OF fail_follows this(2,1)] obtain l' q' where "log s' = log t @ l'" "path q l' q'"
      "case r of Inl ex \<Rightarrow> exit_ok ex q' | Inr x \<Rightarrow> False" by blast
    then show ?thesis using l path_append [OF l(2)]
      by (intro exI [of _ "l @ l'"] exI [of _ q']) (auto split: sum.splits)
  next
    case (Inr x)
    then show ?thesis using eq m l q by (auto simp: attempt_def)
  qed
qed

text \<open>An effect that is one action: it succeeds and leads on, or it fails and the phase is broken.\<close>

lemma effect_follows:
  assumes "\<And>s r t. m s = (r, t) \<Longrightarrow> log t = log s @ [act (is_ok r)]" "\<And>b. is_effect (act b)" "\<And>b. succeeded (act b) = b"
    and "\<And>run p. A run p \<Longrightarrow> active p" "\<And>x run p. A run p \<Longrightarrow> \<exists>q. step p (act True) q \<and> B x run q"
  shows "follows A (attempt W req u code summary st m) (\<lambda>r run q. case r of Inl ex \<Rightarrow> exit_ok ex q | Inr x \<Rightarrow> B x run q)"
proof (rule attempt_follows)
  fix s r t run p
  assume a: "A run p" and m: "m s = (r, t)"
  have l: "log t = log s @ [act (is_ok r)]" by (rule assms(1) [OF m])
  show "\<exists>l q. log t = log s @ l \<and> path p l q \<and> (case r of Inl e \<Rightarrow> active q | Inr x \<Rightarrow> B x run q)"
  proof (cases r)
    case (Inl e)
    have "step p (act False) Broken" using assms(2,3,4) a by (intro step.broken) auto
    then show ?thesis using Inl l by (intro exI [of _ "[act False]"] exI [of _ Broken]) (auto simp: active_def)
  next
    case (Inr x)
    then show ?thesis using l assms(5) [OF a, of x] by (auto intro!: exI [of _ "[act True]"])
  qed
qed

text \<open>
  The fence either has nothing to check, or reads the control document and accepts a runtime that is backed by it.
\<close>

lemma fence_accepts:
  assumes "statefulRuntimeFromExistingControl \<lparr>smb_Key = key, smb_ETag = obj_ETag ob, smb_Control = control\<rparr> rt ident now = Inr rt'"
    and "canonical_UnmarshalStrict dec_StatefulMemberControl (obj_Body ob) = Inr control"
  shows "backed_by key ob rt'" "on_instance ident rt'"
proof -
  have f: "find fst (fence_checks control rt ident) = None" using assms(1)
    by (auto simp: statefulRuntimeFromExistingControl_def Let_def split: option.splits)
  then have none: "\<not> (\<exists>x \<in> set (fence_checks control rt ident). fst x)" by (auto simp: find_None_iff)
  have rt': "rt' = rt\<lparr>sr_Group := smc_Group control, sr_Env := smc_Env control, sr_Generation := smc_Generation control,
      sr_InstanceID := firstNonEmpty [smc_InstanceID control, sr_InstanceID rt], sr_VolumeID := smc_VolumeID control,
      sr_StableHostname := firstNonEmpty [sr_StableHostname rt, smc_DNSName control], sr_ControlKey := key,
      sr_ControlETag := obj_ETag ob, sr_ControlVersion := smc_Version control, sr_LastValidatedAt := canonical_Time now\<rparr>"
    using assms(1) f by (simp add: statefulRuntimeFromExistingControl_def Let_def)
  show "backed_by key ob rt'"
    using none assms(2) by (simp add: rt' backed_by_def fence_checks_def Let_def)
  show "on_instance ident rt'"
    using none by (auto simp: rt' on_instance_def fence_checks_def Let_def split: option.splits)
qed

lemma control_path:
  assumes "currentStatefulRuntime W c requested (lq_ControlStore req) ident s = (r, t)" "active p"
    and fenced: "\<And>key ob. step p (AControl key (Inr ob)) (Q key ob) \<and> active (Q key ob)"
  shows "\<exists>l q. log t = log s @ l \<and> path p l q \<and> (case r of
      Inl _ \<Rightarrow> active q
    | Inr None \<Rightarrow> q = p \<and> requested = None \<and> ls_Stateful c = None
    | Inr (Some rt) \<Rightarrow> (\<exists>key ob. q = Q key ob \<and> backed_by key ob rt \<and> on_instance (if ident = None then ls_Identity c else ident) rt))"
    (is "\<exists>l q. _ \<and> _ \<and> ?post r q")
proof -
  have none: "\<exists>l q. log t = log s @ l \<and> path p l q \<and> ?post r q" if "t = s" "?post r p"
    using that by (intro exI [of _ "[]"] exI [of _ p]) auto
  consider (no) "requested = None" "ls_Stateful c = None" | (stateful) rt where "(if requested = None then ls_Stateful c else requested) = Some rt"
    by (cases requested; cases "ls_Stateful c") auto
  then show ?thesis
  proof cases
    case no
    then have "t = s" and r: "r = Inr None" using assms(1) by (auto simp: currentStatefulRuntime_def)
    moreover have "?post r p" using r no by simp
    ultimately show ?thesis using none by blast
  next
    case (stateful rt)
    show ?thesis
    proof (cases "lq_ControlStore req")
      case None
      then have "t = s \<and> (\<exists>e. r = Inl e)" using assms(1) stateful by (auto simp: currentStatefulRuntime_def io_fail_def)
      then show ?thesis using none assms(2) by auto
    next
      case (Some st)
      note st = Some
      show ?thesis
      proof (cases "statefulControlKeyOf rt")
        case (Inl e)
        then have "t = s \<and> r = Inl e" using assms(1) stateful st by (simp add: currentStatefulRuntime_def io_bind_def io_lift_def)
        then show ?thesis using none assms(2) by auto
      next
        case (Inr key)
        obtain ro s1 where g: "os_Get st key s = (ro, s1)" by fastforce
        have l1: "log s1 = log s @ [AControl key ro]" by (rule control_log [OF st g])
        have eq: "io_bind (\<lambda>s. case readStatefulMemberControl st key s of (Inl e, t) \<Rightarrow> (Inl (boot_goerr e), t) | (Inr d, t) \<Rightarrow> (Inr d, t))
          (\<lambda>doc. io_bind (io_now W) (\<lambda>now. io_lift (map_sum id Some (statefulRuntimeFromExistingControl doc rt
              (if ident = None then ls_Identity c else ident) now)))) s = (r, t)"
          using assms(1) stateful st Inr by (simp add: currentStatefulRuntime_def io_bind_def io_lift_def)
        show ?thesis
        proof (cases ro)
          case (Inl e)
          then have "t = s1 \<and> (\<exists>e. r = Inl e)" using eq g by (auto simp: io_bind_def readStatefulMemberControl_def)
          moreover have "step p (AControl key (Inl e)) Broken" using assms(2) by (intro step.broken) auto
          ultimately show ?thesis using l1 Inl
            by (intro exI [of _ "[AControl key (Inl e)]"] exI [of _ Broken]) (auto simp: active_def)
        next
          case (Inr ob)
          note ob = Inr
          have "log t = log s1 \<and> (\<forall>rt'. r = Inr rt' \<longrightarrow> (\<exists>x. rt' = Some x \<and> backed_by key ob x \<and>
              on_instance (if ident = None then ls_Identity c else ident) x))"
          proof (cases "canonical_UnmarshalStrict dec_StatefulMemberControl (obj_Body ob)")
            case (Inl e)
            then show ?thesis using eq g ob by (auto simp: io_bind_def readStatefulMemberControl_def)
          next
            case (Inr control)
            show ?thesis
            proof (cases "smc_SchemaVersion control = schema_Version")
              case False
              then show ?thesis using eq g ob Inr by (auto simp: io_bind_def readStatefulMemberControl_def)
            next
              case True
              obtain now s2 where n: "w_Now W s1 = (now, s2)" by fastforce
              have "t = s2" "r = map_sum id Some (statefulRuntimeFromExistingControl
                  \<lparr>smb_Key = key, smb_ETag = obj_ETag ob, smb_Control = control\<rparr> rt (if ident = None then ls_Identity c else ident) now)"
                using eq g ob Inr True n by (auto simp: io_bind_def readStatefulMemberControl_def io_now_def io_lift_def)
              then show ?thesis using fence_accepts [OF _ Inr] now_log [OF n] by (auto simp: map_sum_def split: sum.splits)
            qed
          qed
          then show ?thesis using l1 ob fenced [of key ob]
            by (intro exI [of _ "[AControl key (Inr ob)]"] exI [of _ "Q key ob"])
              (auto split: sum.splits option.splits intro!: exI [of _ key] exI [of _ ob])
        qed
      qed
    qed
  qed
qed

text \<open>The phases of the lifecycle, with what is known of its shared variables.\<close>

definition identified :: "lrun \<Rightarrow> bool" where
  "identified run \<longleftrightarrow> lq_Identity req \<noteq> None \<longrightarrow> ls_Identity (lr_current run) = lq_Identity req"

definition runtime_known :: "StatefulRuntime option \<Rightarrow> lrun \<Rightarrow> bool" where
  "runtime_known rt run \<longleftrightarrow> identified run \<and> lr_stateful run = rt \<and> (rt = None \<longrightarrow> ls_Stateful (lr_current run) = None)"

lemma entered_simps [simp]:
  "ls_CurrentState (entered req u st h now x c) = st" "ls_Health (entered req u st h now x c) = h"
  "ls_WorkloadUnit (entered req u st h now x c) = u"
  "ls_Stateful (entered req u st h now x c) = (if x \<noteq> None then x else ls_Stateful c)"
  "ls_Identity (entered req u st h now x c) = (if lq_Identity req \<noteq> None then lq_Identity req else ls_Identity c)"
  by (simp_all add: entered_def)

lemma runtime_known_entered [simp]:
  "runtime_known rt (run\<lparr>lr_current := entered req u st h now (lr_stateful run) (lr_current run)\<rparr>) \<longleftrightarrow>
     lr_stateful run = rt \<and> (rt = None \<longrightarrow> ls_Stateful (lr_current run) = None)"
  "runtime_known rt (run\<lparr>lr_events := ev\<rparr>) = runtime_known rt run"
  "identified (run\<lparr>lr_current := entered req u st h now x c\<rparr>)" "identified (run\<lparr>lr_events := ev\<rparr>) = identified run"
  by (auto simp: runtime_known_def identified_def)

lemma fence_follows:
  assumes "\<And>run p. A run p \<Longrightarrow> active p \<and> identified run \<and> (requested = None \<longrightarrow> lr_stateful run = None)"
    and "\<And>run p. A run p \<Longrightarrow> p = P"
    and "\<And>key ob. step P (AControl key (Inr ob)) (Q key ob) \<and> active (Q key ob)"
  shows "follows A (fence W req u summary st requested) (\<lambda>r run q. case r of
      Inl ex \<Rightarrow> exit_ok ex q
    | Inr rt \<Rightarrow> runtime_known rt run \<and> (case rt of
        None \<Rightarrow> q = P \<and> requested = None
      | Some x \<Rightarrow> \<exists>key ob. q = Q key ob \<and> backed_by key ob x \<and> on_instance (ls_Identity (lr_current run)) x))"
proof -
  let ?M = "\<lambda>c rt run q. identified run \<and> lr_current run = c \<and> (case rt of
        None \<Rightarrow> q = P \<and> requested = None \<and> ls_Stateful c = None \<and> lr_stateful run = None
      | Some x \<Rightarrow> \<exists>key ob. q = Q key ob \<and> backed_by key ob x \<and> on_instance (ls_Identity c) x)"
  show ?thesis
    unfolding fence_def
    apply (rule exit_bind [where M = "\<lambda>run0 run p. A run p \<and> run0 = run"], rule follows_update, simp)
    subgoal for run0
      apply (rule exit_bind [where M = "\<lambda>rt run q. ?M (lr_current run0) rt run q"])
      subgoal
        apply (rule attempt_follows)
        subgoal for s r t run p
          apply (elim conjE)
          subgoal premises prems
          proof -
            have P: "p = P" "active p" "identified run" "requested = None \<longrightarrow> lr_stateful run = None" using assms(1,2) [OF prems(2)] by auto
            have i: "(if lq_Identity req = None then ls_Identity (lr_current run0) else lq_Identity req) = ls_Identity (lr_current run0)"
              using P(3) prems(3) by (auto simp: identified_def)
            have st: "step p (AControl key (Inr ob)) (Q key ob) \<and> active (Q key ob)" for key ob using assms(3) P(1) by simp
            from control_path [OF prems(1) P(2) st] obtain l q where lq: "log t = log s @ l" "path p l q"
              and post: "case r of Inl _ \<Rightarrow> active q | Inr None \<Rightarrow> q = p \<and> requested = None \<and> ls_Stateful (lr_current run0) = None
                | Inr (Some rt) \<Rightarrow> \<exists>key ob. q = Q key ob \<and> backed_by key ob rt \<and> on_instance (ls_Identity (lr_current run0)) rt"
              unfolding i by blast
            show ?thesis
              by (rule exI [of _ l], rule exI [of _ q]) (use lq post P prems(3) in \<open>auto split: sum.splits option.splits\<close>)
          qed
          done
        done
      subgoal for rt
        apply (rule exit_bind [where M = "\<lambda>_ run q. runtime_known rt run \<and> (case rt of
            None \<Rightarrow> q = P \<and> requested = None
          | Some x \<Rightarrow> \<exists>key ob. q = Q key ob \<and> backed_by key ob x \<and> on_instance (ls_Identity (lr_current run)) x)"])
        subgoal by (rule follows_update) (auto simp: runtime_known_def identified_def split: option.splits)
        subgoal by (rule follows_ret) simp
        done
      done
    done
qed

text \<open>The stages, one after the other.\<close>

abbreviation prepared :: "StatefulRuntime option \<Rightarrow> lrun \<Rightarrow> phase \<Rightarrow> bool" where
  "prepared rt run q \<equiv> runtime_known rt run \<and> (if rt = None then q = Prepared None else q = Mounted)"

lemma prepareStateful_follows:
  "follows (\<lambda>run q. runtime_known (Some rt) run \<and> (\<exists>key ob. q = Prepared (Some (key, ob)) \<and> backed_by key ob rt))
     (prepareStateful W req u rt)
     (\<lambda>r run q. case r of Inl ex \<Rightarrow> exit_ok ex q | Inr _ \<Rightarrow> prepared (Some rt) run q)"
  unfolding prepareStateful_def
  apply (rule exit_bind [where M = "\<lambda>_ run q. runtime_known (Some rt) run \<and> (\<exists>key ob. q = Mounting key ob \<and> backed_by key ob rt)"])
  subgoal
    apply (rule move_follows)
    subgoal for now run p
      by (elim conjE exE, rule_tac x = "Mounting key ob" in exI) (auto intro!: step.mount simp: runtime_known_def)
    subgoal by auto
    done
  apply (rule exit_bind [where M = "\<lambda>_ run q. runtime_known (Some rt) run \<and> q = Mounted"])
  subgoal
    by (rule effect_follows [where act = "AVolume rt"], rule volume_log, assumption) (auto intro: step.volume simp: active_def)
  subgoal
    apply (rule attempt_follows)
    subgoal for s r t run p
      using hook_path [of StatefulRecipeStart rt "lq_OperationID req" "lq_TraceID req" s _ t p] step.start_hook
      by (fastforce simp: runStatefulRecipeStart_def io_bind_def io_ret_def active_def split: sum.splits prod.splits)
    done
  done

lemma prepareWorkload_follows:
  "follows (\<lambda>run p. p = Loaded \<and> lr_stateful run = lq_Stateful req)
     (prepareWorkload W req u)
     (\<lambda>r run q. case r of Inl ex \<Rightarrow> exit_ok ex q | Inr (rt, wl) \<Rightarrow> prepared rt run q)"
  unfolding prepareWorkload_def Let_def
  apply (rule exit_bind [where M = "\<lambda>_ run p. p = Prep \<and> lr_stateful run = lq_Stateful req \<and> identified run"])
  subgoal by (rule move_follows) (auto intro!: step.prepare simp: identified_def)
  apply (rule exit_bind [where M = "\<lambda>rt run q. runtime_known rt run \<and> (case rt of
      None \<Rightarrow> q = Prep \<and> lq_Stateful req = None
    | Some x \<Rightarrow> \<exists>key ob. q = PrepFenced key ob \<and> backed_by key ob x \<and> on_instance (ls_Identity (lr_current run)) x)"])
  subgoal by (rule fence_follows) (auto intro: step.prep_fence simp: active_def)
  subgoal for w rt
    apply (rule exit_bind [where M = "\<lambda>_ run q. runtime_known rt run \<and> (case rt of
        None \<Rightarrow> q = Prepared None | Some x \<Rightarrow> \<exists>key ob. q = Prepared (Some (key, ob)) \<and> backed_by key ob x)"])
    subgoal
      by (rule effect_follows [where act = APrepare], rule prepare_log, assumption)
        (auto intro: step.artifact step.artifact_fenced simp: active_def split: option.splits)
    subgoal for artifact
      apply (rule follows_case_option)
      subgoal by (rule follows_ret) simp
      subgoal for x
        apply (rule exit_bind [where M = "\<lambda>_ run q. prepared (Some x) run q"])
        subgoal by (rule follows_weaken [OF prepareStateful_follows [of x]]) auto
        subgoal by (rule follows_ret) simp
        done
      done
    done
  done

lemma renderWorkload_follows:
  assumes "lq_Systemd req = Some sd"
  shows "follows (prepared rt) (renderWorkload P W req sd u wl)
     (\<lambda>r run q. case r of Inl ex \<Rightarrow> exit_ok ex q | Inr _ \<Rightarrow> runtime_known rt run \<and> q = Reloaded u)"
  unfolding renderWorkload_def Let_def
  apply (rule exit_bind [where M = "\<lambda>_ run q. runtime_known rt run \<and> q = Rend"])
  subgoal by (rule move_follows) (auto intro!: step.render simp: runtime_known_def split: if_splits)
  apply (rule exit_bind [where M = "\<lambda>_ run q. runtime_known rt run \<and> q = Rend"])
  subgoal
    by (rule attempt_follows) (auto simp: active_def intro!: exI [of _ "[]"] split: sum.splits)
  subgoal for w contents
    apply (rule exit_bind [where M = "\<lambda>_ run q. runtime_known rt run \<and> q = Written u"])
    subgoal
      by (rule effect_follows [where act = "AWriteUnit u contents"], rule write_log [OF assms], assumption)
        (auto intro: step.write_unit simp: active_def)
    subgoal
      by (rule effect_follows [where act = AReload], rule reload_log [OF assms], assumption) (auto intro: step.reload simp: active_def)
    done
  done

lemma startWorkload_follows:
  assumes "lq_Systemd req = Some sd"
  shows "follows (\<lambda>run q. runtime_known rt run \<and> q = Reloaded u) (startWorkload W req sd u)
     (\<lambda>r run q. case r of Inl ex \<Rightarrow> exit_ok ex q | Inr _ \<Rightarrow> runtime_known rt run \<and> q = Restarted u)"
  unfolding startWorkload_def
  apply (rule exit_bind [where M = "\<lambda>_ run q. runtime_known rt run \<and> q = Start u"])
  subgoal by (rule move_follows) (auto intro!: step.start simp: runtime_known_def)
  subgoal
    by (rule effect_follows [where act = "ARestart u"], rule restart_log [OF assms], assumption) (auto intro: step.restart simp: active_def)
  done

lemma serveWorkload_follows:
  "follows (\<lambda>run q. runtime_known rt run \<and> q = Well) (serveWorkload W req u rt)
     (\<lambda>r run q. case r of Inl ex \<Rightarrow> exit_ok ex q | Inr res \<Rightarrow> q = Serving \<and> rst_State (lres_Status res) = StateServing)"
proof -
  let ?ready = "\<lambda>run q. if rt = None then runtime_known None run \<and> q = Well
    else \<exists>x key ob. runtime_known (Some x) run \<and> q = Fenced key ob \<and> backed_by key ob x \<and> on_instance (ls_Identity (lr_current run)) x"
  have v: "follows (\<lambda>run q. runtime_known rt run \<and> q = Well) (case rt of
         None \<Rightarrow> eret ()
       | Some rt \<Rightarrow>
           ebind (fence W req u ''validate stateful member before serving'' StateWaitingForHealth (Some rt)) (\<lambda>validated.
           case validated of
             None \<Rightarrow> eret ()
           | Some rt' \<Rightarrow> attempt W req u CodeStatefulRecipeFailed ''run stateful recipe health hook'' StateWaitingForHealth
               (runStatefulRecipeHealth (lq_StatefulRecipe req) rt' (lq_OperationID req) (lq_TraceID req))))
     (\<lambda>r run q. case r of Inl ex \<Rightarrow> exit_ok ex q | Inr _ \<Rightarrow> ?ready run q)"
    apply (rule follows_case_option)
    subgoal by (rule follows_ret) simp
    subgoal for x
      apply (rule exit_bind [where M = "\<lambda>v run q. runtime_known v run \<and> (case v of
          None \<Rightarrow> q = Well \<and> Some x = None
        | Some y \<Rightarrow> \<exists>key ob. q = Fenced key ob \<and> backed_by key ob y \<and> on_instance (ls_Identity (lr_current run)) y)"])
      subgoal by (rule fence_follows) (auto intro: step.fence simp: active_def runtime_known_def)
      subgoal for v
        apply (rule follows_case_option)
        subgoal by (rule follows_ret) auto
        subgoal for y
          apply (rule attempt_follows)
          subgoal for s r t run p
            using hook_path [of StatefulRecipeHealth y "lq_OperationID req" "lq_TraceID req" s _ t p]
            by (fastforce simp: runStatefulRecipeHealth_def io_bind_def io_ret_def active_def intro: step.health_hook
                split: sum.splits prod.splits option.splits)
          done
        done
      done
    done
  show ?thesis
    unfolding serveWorkload_def
    apply (rule exit_bind [where M = "\<lambda>_. ?ready"], rule v)
    apply (rule exit_bind [where M = "\<lambda>_ run q. q = Serving \<and> ls_CurrentState (lr_current run) = StateServing"])
    subgoal
      apply (rule move_follows)
      subgoal for now run p
        by (rule exI [of _ Serving])
          (auto simp: runtime_known_def identified_def intro!: step.serve split: if_splits; rule step.serve_fenced; auto)
      subgoal by simp
      done
    subgoal
      by (rule followsI) (auto simp: result_of_def StatusFromState_def intro!: exI [of _ "[]"])
    done
qed

lemma healthLoop_follows:
  "follows (\<lambda>run q. runtime_known rt run \<and> q = Wait) (healthLoop W req u rt interval n)
     (\<lambda>r run q. case r of Inl ex \<Rightarrow> exit_ok ex q | Inr res \<Rightarrow> q = Serving \<and> rst_State (lres_Status res) = StateServing)"
proof (induction n)
  case 0
  show ?case unfolding healthLoop.simps
    by (rule follows_weaken [OF fail_follows]) (auto simp: active_def split: sum.splits)
next
  case (Suc n)
  have f: "follows (\<lambda>run q. runtime_known rt run \<and> q = Wait) (lifecycle_fail W req u code summary st cause)
     (\<lambda>r run q. case r of Inl ex \<Rightarrow> exit_ok ex q | Inr res \<Rightarrow> q = Serving \<and> rst_State (lres_Status res) = StateServing)"
    for code summary st cause
    by (rule follows_weaken [OF fail_follows]) (auto simp: active_def split: sum.splits)
  show ?case unfolding healthLoop.simps
    apply (rule exit_bind [where M = "\<lambda>h run q. runtime_known rt run \<and> q = (if hr_Status h = HealthHealthy then Well else Wait)"])
    subgoal
      apply (rule followsI)
      subgoal for s run p r s' run'
        by (auto simp: ecall_def dest!: check_log split: prod.splits intro!: exI [of _ "[ACheck _]"] step.check)
      done
    subgoal for h
      apply (simp only: if_split [of "\<lambda>m. follows _ m _"])
      apply (intro conjI impI)
      subgoal by (rule follows_weaken [OF serveWorkload_follows]) auto
      subgoal by (rule follows_weaken [OF f]) auto
      subgoal
        apply (rule exit_bind [where M = "\<lambda>_ run q. runtime_known rt run \<and> q = Wait"])
        subgoal
          apply (rule attempt_follows)
          subgoal for s r t run p
            apply (cases r)
            subgoal for e
              by (rule exI [of _ "[ASleep False]"], rule exI [of _ Broken])
                (auto simp: io_sleep_def active_def dest!: sleep_log split: prod.splits option.splits intro!: step.broken)
            subgoal for x
              by (rule exI [of _ "[ASleep True]"], rule exI [of _ Wait])
                (auto simp: io_sleep_def dest!: sleep_log split: prod.splits option.splits intro: step.sleep)
            done
          done
        subgoal by (rule Suc)
        done
      subgoal by (rule follows_weaken [OF Suc]) auto
      done
    done
qed

lemma awaitHealth_follows:
  "follows (\<lambda>run q. runtime_known rt run \<and> q = Restarted u) (awaitHealth P W req u rt)
     (\<lambda>r run q. case r of Inl ex \<Rightarrow> exit_ok ex q | Inr res \<Rightarrow> q = Serving \<and> rst_State (lres_Status res) = StateServing)"
  unfolding awaitHealth_def Let_def
  apply (rule exit_bind [where M = "\<lambda>_ run q. runtime_known rt run \<and> q = Wait"])
  subgoal by (rule move_follows) (auto intro!: step.wait simp: runtime_known_def)
  subgoal by (rule healthLoop_follows)
  done

lemma lifecycle_refines:
  assumes "RunLifecycle P W req s = (r, t)"
  shows "\<exists>l q. log t = log s @ l \<and> path Idle l q \<and> (case r of
      Inr res \<Rightarrow> q = Serving \<and> rst_State (lres_Status res) = StateServing
    | Inl (WithResult res err) \<Rightarrow> q \<in> {Failed, Over} \<and> rst_State (lres_Status res) = StateFailed
    | Inl (NilResult err) \<Rightarrow> q \<in> {Idle, Loaded, Over})"
proof -
  let ?m = "lq_RuntimeManifest req"
  have none: ?thesis if "t = s" "\<exists>e. r = Inl (NilResult e)"
    using that by (intro exI [of _ "[]"] exI [of _ Idle]) auto
  show ?thesis
  proof (cases "lq_Systemd req")
    case None
    then show ?thesis using assms none by (auto simp: RunLifecycle_def)
  next
    case (Some sd)
    note sd = Some
    show ?thesis
    proof (cases "validateRuntimeManifestForLifecycle ?m")
      case (Inl e)
      then show ?thesis using assms none Some by (auto simp: RunLifecycle_def Let_def)
    next
      case (Inr v)
      define u where "u = (if lq_UnitName req = [] then WorkloadUnitName (rp_unicode_letter P) (rtm_Service ?m) (rtm_Env ?m) else lq_UnitName req)"
      obtain rl s1 where l: "loadLifecycleState W (lq_StateStore req) ?m (lq_TraceID req) (lq_Identity req) u s = (rl, s1)" by fastforce
      from loaded_path [OF l] obtain l1 where l1: "log s1 = log s @ l1" "path Idle l1 Loaded" by blast
      show ?thesis
      proof (cases rl)
        case (Inl e)
        then have "t = s1 \<and> (\<exists>e. r = Inl (NilResult e))"
          using assms sd Inr l by (auto simp: RunLifecycle_def Let_def u_def [symmetric])
        then show ?thesis using l1 by auto
      next
        case (Inr current)
        let ?body = "ebind (prepareWorkload W req u) (\<lambda>(runtime, wl).
            ebind (renderWorkload P W req sd u wl) (\<lambda>_. ebind (startWorkload W req sd u) (\<lambda>_. awaitHealth P W req u runtime)))"
        let ?run = "\<lparr>lr_current = current, lr_events = [], lr_stateful = lq_Stateful req\<rparr>"
        obtain run' where body: "?body (s1, ?run) = (r, (t, run'))"
          using assms sd \<open>validateRuntimeManifestForLifecycle ?m = Inr v\<close> l Inr
          by (auto simp: RunLifecycle_def Let_def u_def [symmetric] split: prod.splits)
        have "follows (\<lambda>run p. p = Loaded \<and> lr_stateful run = lq_Stateful req) ?body
           (\<lambda>r run q. case r of Inl ex \<Rightarrow> exit_ok ex q | Inr res \<Rightarrow> q = Serving \<and> rst_State (lres_Status res) = StateServing)"
          apply (rule exit_bind [where M = "\<lambda>(rt, wl). prepared rt"])
          subgoal by (rule follows_weaken [OF prepareWorkload_follows]) (auto split: sum.splits prod.splits)
          subgoal for rw
            apply (cases rw)
            subgoal for rt wl
              apply (simp only: prod.case)
              apply (rule exit_bind, rule renderWorkload_follows [OF sd])
              apply (rule exit_bind, rule startWorkload_follows [OF sd])
              by (rule awaitHealth_follows)
            done
          done
        from followsD [OF this _ body, of Loaded] obtain l2 q where "log t = log s1 @ l2" "path Loaded l2 q"
          "case r of Inl ex \<Rightarrow> exit_ok ex q | Inr res \<Rightarrow> q = Serving \<and> rst_State (lres_Status res) = StateServing" by auto
        then show ?thesis using l1 path_append [OF l1(2), of l2 q]
          by (intro exI [of _ "l1 @ l2"] exI [of _ q]) (auto simp: exit_ok_def split: sum.splits lifecycle_exit.splits)
      qed
    qed
  qed
qed

end

section \<open>Stopping follows the machine\<close>

locale traced_stop =
  traced_host W log "stq_StateStore req" "stq_EventSink req" "stq_StatefulRecipe req" "stq_Systemd req"
  for W :: "('s, 'z) World_scheme" and log :: "'s \<Rightarrow> action list" and req :: "'s StopRequest" +
  assumes drain_log: "stq_Drain req = Some d \<Longrightarrow> d s = (ru, t) \<Longrightarrow> log t = log s @ [ADrain (is_ok ru)]"
begin

abbreviation with_stateful :: "StatefulRuntime option \<Rightarrow> 's StopRequest" where
  "with_stateful x \<equiv> req\<lparr>stq_Stateful := x\<rparr>"

lemma stopTransition_follows:
  assumes "\<And>st'. ls_CurrentState st' = st \<Longrightarrow> step p (ASave st' True) q" "phase_state q = Some st"
  shows "follows (\<lambda>_ x. x = p) (stopTransition W (with_stateful y) u st summary cause)
    (\<lambda>r _ x. case r of Inl _ \<Rightarrow> x = Over | Inr _ \<Rightarrow> x = q)"
  unfolding stopTransition_def
  apply (rule follows_bind [where M = "\<lambda>_ _ x. x = p"], rule follows_now, simp)
  subgoal for now
    apply (rule follows_bind [where M = "\<lambda>c _ x. x = p \<and> ls_CurrentState c = st"], rule follows_update, simp add: stopEntered_def)
    subgoal for c
      apply (rule follows_bind [where M = "\<lambda>_ _ x. x = q"])
      subgoal
        apply (rule follows_host [where act = "\<lambda>r. ASave c (is_ok r)"])
        subgoal using save_log by simp
        subgoal using assms(1) [of c] by auto
        subgoal by (auto intro: step.save_over)
        done
      subgoal
        apply (rule follows_case_option)
        subgoal by (rule follows_ret) simp
        subgoal for k
          apply (rule follows_bind [where M = "\<lambda>_ _ x. x = q"], rule follows_now, simp)
          subgoal for now'
            apply (rule follows_host, rule emit_log, simp, assumption)
            subgoal for x run p' using assms(2) by (intro exI [of _ q]) (auto intro!: step.emit)
            subgoal by (auto intro: step.emit_over)
            done
          done
        done
      done
    done
  done

lemma stopAttempt_follows:
  assumes "\<And>s r t. m s = (r, t) \<Longrightarrow> \<exists>l x. log t = log s @ l \<and> path p l x \<and> (case r of Inl _ \<Rightarrow> active x | Inr _ \<Rightarrow> x = q)"
  shows "follows (\<lambda>_ x. x = p) (stopAttempt W (with_stateful y) u code summary st m)
    (\<lambda>r _ x. case r of Inl _ \<Rightarrow> x \<in> {Failed, Over} | Inr _ \<Rightarrow> x = q)"
proof (rule followsI)
  fix s run x r s' run'
  assume x: "x = p" and eq: "stopAttempt W (with_stateful y) u code summary st m (s, run) = (r, (s', run'))"
  obtain r1 t where m: "m s = (r1, t)" by fastforce
  from assms [OF m] obtain l z where l: "log t = log s @ l" "path p l z" and z: "case r1 of Inl _ \<Rightarrow> active z | Inr _ \<Rightarrow> z = q" by blast
  show "\<exists>l q'. log s' = log s @ l \<and> path x l q' \<and> (case r of Inl _ \<Rightarrow> q' \<in> {Failed, Over} | Inr _ \<Rightarrow> q' = q)"
  proof (cases r1)
    case (Inl e)
    then obtain r2 where tr: "stopTransition W (with_stateful y) u StateFailed summary (Some e) (t, run) = (r2, (s', run'))"
      and r: "\<exists>err. r = Inl err" using eq m by (auto simp: stopAttempt_def split: prod.splits)
    have az: "active z" using z Inl by simp
    have "follows (\<lambda>_ x. x = z) (stopTransition W (with_stateful y) u StateFailed summary (Some e))
        (\<lambda>r _ x. case r of Inl _ \<Rightarrow> x = Over | Inr _ \<Rightarrow> x = Failed)"
      by (rule stopTransition_follows) (auto intro: step.failed az)
    from followsD [OF this _ tr, of z] obtain l' q' where "log s' = log t @ l'" "path z l' q'"
      "case r2 of Inl _ \<Rightarrow> q' = Over | Inr _ \<Rightarrow> q' = Failed" by auto
    then show ?thesis using l x r path_append [OF l(2)]
      by (intro exI [of _ "l @ l'"] exI [of _ q']) (auto split: sum.splits)
  next
    case (Inr v)
    then show ?thesis using eq m l z x by (auto simp: stopAttempt_def)
  qed
qed

lemma stop_bind:
  assumes "follows A m (\<lambda>r run q. case r of Inl _ \<Rightarrow> q \<in> {Failed, Over} | Inr x \<Rightarrow> M x run q)"
    and "\<And>x. follows (M x) (f x) (\<lambda>r run q. case r of Inl _ \<Rightarrow> q \<in> {Failed, Over} | Inr y \<Rightarrow> B y run q)"
  shows "follows A (ebind m f) (\<lambda>r run q. case r of Inl _ \<Rightarrow> q \<in> {Failed, Over} | Inr y \<Rightarrow> B y run q)"
  by (rule follows_bind [OF follows_weaken [OF assms(1)] assms(2)]) (auto split: sum.splits)

lemma stop_move:
  assumes "\<And>st'. ls_CurrentState st' = st \<Longrightarrow> step p (ASave st' True) q" "phase_state q = Some st"
  shows "follows (\<lambda>_ x. x = p) (stopTransition W (with_stateful y) u st summary cause)
    (\<lambda>r _ x. case r of Inl _ \<Rightarrow> x \<in> {Failed, Over} | Inr _ \<Rightarrow> x = q)"
  by (rule follows_weaken [OF stopTransition_follows [OF assms]]) (auto split: sum.splits)

lemma stop_effect:
  assumes "\<And>s r t. m s = (r, t) \<Longrightarrow> log t = log s @ [act (is_ok r)]" "\<And>b. is_effect (act b)" "\<And>b. succeeded (act b) = b"
    and "active p" "step p (act True) q" "m s = (r, t)"
  shows "\<exists>l x. log t = log s @ l \<and> path p l x \<and> (case r of Inl _ \<Rightarrow> active x | Inr _ \<Rightarrow> x = q)"
proof (cases r)
  case (Inl e)
  have "step p (act False) Broken" using assms(2-4) by (intro step.broken) auto
  then show ?thesis using Inl assms(1) [OF assms(6)] by (intro exI [of _ "[act False]"] exI [of _ Broken]) (auto simp: active_def)
next
  case (Inr v)
  then show ?thesis using assms(5) assms(1) [OF assms(6)] by (intro exI [of _ "[act True]"] exI [of _ q]) auto
qed

lemma stopSteps_follows:
  assumes "stq_Systemd req = Some sd"
  shows "follows (\<lambda>_ x. x = Loaded) (stopSteps W (with_stateful y) sd u)
    (\<lambda>r _ x. case r of Inl _ \<Rightarrow> x \<in> {Failed, Over} | Inr _ \<Rightarrow> x = Stopped)"
  unfolding stopSteps_def
  apply (rule stop_bind, rule stop_move [where q = Drain], erule step.drain, simp)
  apply (rule stop_bind [where M = "\<lambda>_ _ x. x = Drain"])
  subgoal
    apply (rule follows_case_option)
    subgoal by (rule follows_ret) simp
    subgoal for d
      by (rule stopAttempt_follows, rule stop_effect [where act = ADrain and m = d])
        (auto intro: step.drained drain_log simp: active_def)
    done
  apply (rule stop_bind [where M = "\<lambda>_ _ x. x = Drain"])
  subgoal
    apply (rule follows_case_option)
    subgoal by (rule follows_ret) simp
    subgoal for rt
      apply (rule stopAttempt_follows)
      subgoal for s r t
        using hook_path [of StatefulRecipeStop rt "stq_OperationID req" "stq_TraceID req" s _ t Drain] step.stop_hook
        by (fastforce simp: runStatefulRecipeStop_def io_bind_def io_ret_def active_def split: sum.splits prod.splits)
      done
    done
  apply (rule stop_bind, rule stop_move [where q = Stopping], erule step.stopping, simp)
  apply (rule stop_bind [where M = "\<lambda>_ _ x. x = UnitStopped"])
  subgoal
    by (rule stopAttempt_follows, rule stop_effect [where act = "AStop u" and m = "sdm_StopUnit sd u"])
      (auto intro: step.stop_unit stop_log [OF assms] simp: active_def)
  apply (rule stop_bind [where M = "\<lambda>_ _ x. x = UnitStopped"], rule follows_update, simp)
  by (rule stop_move [where q = Stopped], erule step.stopped, simp)

lemma stop_refines:
  assumes "StopWorkload P W req s = (r, t)"
  shows "\<exists>l q. log t = log s @ l \<and> path Idle l q \<and> (case r of Inr _ \<Rightarrow> q = Stopped | Inl err \<Rightarrow> q \<in> {Idle, Loaded, Failed, Over})"
proof (cases "stq_Systemd req")
  case None
  then show ?thesis using assms by (intro exI [of _ "[]"] exI [of _ Idle]) (auto simp: StopWorkload_def)
next
  case (Some sd)
  define u where "u = (if stq_UnitName req = [] then WorkloadUnitName (rp_unicode_letter P) (stq_Service req) (stq_Env req) else stq_UnitName req)"
  obtain rl s1 where l: "loadLifecycleState W (stq_StateStore req)
      (zero_RuntimeManifest\<lparr>rtm_Service := stq_Service req, rtm_Env := stq_Env req, rtm_ReleaseID := stq_ReleaseID req\<rparr>)
      (stq_TraceID req) (stq_Identity req) u s = (rl, s1)" by fastforce
  from loaded_path [OF l] obtain l1 where l1: "log s1 = log s @ l1" "path Idle l1 Loaded" by blast
  show ?thesis
  proof (cases rl)
    case (Inl e)
    then have "t = s1 \<and> (\<exists>e. r = Inl e)" using assms Some l by (auto simp: StopWorkload_def Let_def u_def [symmetric])
    then show ?thesis using l1 by auto
  next
    case (Inr current)
    then obtain c' where b: "stopSteps W (with_stateful (if stq_Stateful req = None then ls_Stateful current else stq_Stateful req)) sd u
        (s1, current) = (r, (t, c'))"
      using assms Some l by (auto simp: StopWorkload_def Let_def u_def [symmetric] split: prod.splits)
    from followsD [OF stopSteps_follows [OF Some] _ b, of Loaded] obtain l2 q where "log t = log s1 @ l2" "path Loaded l2 q"
      "case r of Inl _ \<Rightarrow> q \<in> {Failed, Over} | Inr _ \<Rightarrow> q = Stopped" by auto
    then show ?thesis using l1 path_append [OF l1(2), of l2 q]
      by (intro exI [of _ "l1 @ l2"] exI [of _ q]) (auto split: sum.splits)
  qed
qed

end

section \<open>The recording hosts\<close>

lemma traced_log: "traced act m p = (r, q) \<Longrightarrow> snd q = snd p @ [act r]"
  by (auto simp: traced_def split: prod.splits)

lemma silent_log: "silent m p = (r, q) \<Longrightarrow> snd q = snd p"
  by (auto simp: silent_def split: prod.splits)

lemma trace_recipe_log:
  "runRecipeAction (trace_recipe rc) act q p = (r, t) \<Longrightarrow>
     act \<in> {StatefulRecipeStart, StatefulRecipeHealth, StatefulRecipeStop} \<Longrightarrow> snd t = snd p @ [AHook act (hook_ok r)]"
  by (auto simp: runRecipeAction_def trace_recipe_def recipe_action_defs dest: traced_log)

lemmas trace_defs = trace_world_def trace_store_def trace_systemd_def trace_sink_def traced_def silent_def

interpretation recorded: traced_lifecycle "trace_world W" snd "trace_request req"
  for W :: "('s, 'z) World_scheme" and req :: "'s LifecycleRequest"
  by unfold_locales
    (auto simp: trace_defs trace_request_def trace_control_def split: prod.splits dest: trace_recipe_log)

interpretation stopping: traced_stop "trace_world W" snd "trace_stop req"
  for W :: "('s, 'z) World_scheme" and req :: "'s StopRequest"
  by unfold_locales (auto simp: trace_defs trace_stop_def split: prod.splits dest: trace_recipe_log)

section \<open>Recording changes nothing\<close>

definition same :: "('s \<Rightarrow> 'b \<times> 's) \<Rightarrow> ('s \<times> action list \<Rightarrow> 'b \<times> ('s \<times> action list)) \<Rightarrow> bool" where
  "same m m' \<longleftrightarrow> (\<forall>s l r t l'. m' (s, l) = (r, (t, l')) \<longrightarrow> m s = (r, t))"

definition esame :: "('s \<times> 'r, 'e, 'a) eio \<Rightarrow> (('s \<times> action list) \<times> 'r, 'e, 'a) eio \<Rightarrow> bool" where
  "esame m m' \<longleftrightarrow> (\<forall>s l run r t l' run'. m' ((s, l), run) = (r, ((t, l'), run')) \<longrightarrow> m (s, run) = (r, (t, run')))"

lemma sameD: "same m m' \<Longrightarrow> m' (s, l) = (r, (t, l')) \<Longrightarrow> m s = (r, t)"
  unfolding same_def by blast

lemma esameD: "esame m m' \<Longrightarrow> m' ((s, l), run) = (r, ((t, l'), run')) \<Longrightarrow> m (s, run) = (r, (t, run'))"
  unfolding esame_def by blast

lemma same_traced [simp]: "same m (traced act m)" "same m' (silent m')"
  by (auto simp: same_def traced_def silent_def split: prod.splits)

lemma same_bind: "same m m' \<Longrightarrow> (\<And>x. same (f x) (f' x)) \<Longrightarrow> same (io_bind m f) (io_bind m' f')"
  unfolding same_def io_bind_def by (fastforce split: prod.splits sum.splits)

lemma same_simps [simp]:
  "same (io_ret x) (io_ret x)" "same (io_fail e) (io_fail e)" "same (io_lift r) (io_lift r)"
  "same (io_now W) (io_now (trace_world W))" "same (io_sleep W d) (io_sleep (trace_world W) d)"
  by (auto simp: same_def io_ret_def io_fail_def io_lift_def io_now_def io_sleep_def trace_defs split: prod.splits option.splits)

lemma same_try: "same m m' \<Longrightarrow> same (io_try m) (io_try m')"
  unfolding same_def io_try_def by (fastforce split: prod.splits)

lemma same_cases:
  "(\<And>e. same (f e) (f' e)) \<Longrightarrow> (\<And>x. same (g x) (g' x)) \<Longrightarrow>
     same (case r of Inl e \<Rightarrow> f e | Inr x \<Rightarrow> g x) (case r of Inl e \<Rightarrow> f' e | Inr x \<Rightarrow> g' x)"
  "same h h' \<Longrightarrow> (\<And>x. same (k x) (k' x)) \<Longrightarrow>
     same (case z of None \<Rightarrow> h | Some x \<Rightarrow> k x) (case z of None \<Rightarrow> h' | Some x \<Rightarrow> k' x)"
  "(b \<Longrightarrow> same h h') \<Longrightarrow> (\<not> b \<Longrightarrow> same l l') \<Longrightarrow> same (if b then h else l) (if b then h' else l')"
  by (simp_all split: sum.split option.split)

lemma esame_bind: "esame m m' \<Longrightarrow> (\<And>x. esame (f x) (f' x)) \<Longrightarrow> esame (ebind m f) (ebind m' f')"
  unfolding esame_def ebind_def by (fastforce split: prod.splits sum.splits)

lemma esame_host: "same m m' \<Longrightarrow> esame (host ex m) (host ex m')"
  unfolding esame_def host_def same_def by (fastforce split: prod.splits sum.splits)

lemma esame_simps [simp]: "esame (eret x) (eret x)" "esame (eupdate g) (eupdate g)"
  by (auto simp: esame_def eret_def eupdate_def)

lemma esame_call: "same m m' \<Longrightarrow> esame (ecall m) (ecall m')"
  unfolding esame_def ecall_def same_def by (fastforce split: prod.splits)

lemma esame_cases:
  "esame h h' \<Longrightarrow> (\<And>x. esame (k x) (k' x)) \<Longrightarrow>
     esame (case z of None \<Rightarrow> h | Some x \<Rightarrow> k x) (case z of None \<Rightarrow> h' | Some x \<Rightarrow> k' x)"
  "esame h h' \<Longrightarrow> (\<And>x. esame (k x) (k'' (f x))) \<Longrightarrow>
     esame (case z of None \<Rightarrow> h | Some x \<Rightarrow> k x) (case map_option f z of None \<Rightarrow> h' | Some x \<Rightarrow> k'' x)"
  "(b \<Longrightarrow> esame h h') \<Longrightarrow> (\<not> b \<Longrightarrow> esame l l') \<Longrightarrow> esame (if b then h else l) (if b then h' else l')"
  by (simp_all split: option.split)

lemma same_load: "same (loadLifecycleState W st m tid i u) (loadLifecycleState (trace_world W) (trace_store st) m tid i u)"
  unfolding loadLifecycleState_def by (intro same_bind same_try same_cases same_simps) (simp add: trace_store_def)

lemma trace_request_simps [simp]:
  "lq_RuntimeManifest (trace_request req) = lq_RuntimeManifest req" "lq_Artifact (trace_request req) = lq_Artifact req"
  "lq_ControlStore (trace_request req) = map_option trace_control (lq_ControlStore req)"
  "lq_StateStore (trace_request req) = trace_store (lq_StateStore req)"
  "lq_EventSink (trace_request req) = map_option trace_sink (lq_EventSink req)"
  "lq_Systemd (trace_request req) = map_option trace_systemd (lq_Systemd req)"
  "lq_ArtifactPreparer (trace_request req) = (\<lambda>q. traced (\<lambda>r. APrepare (is_ok r)) (lq_ArtifactPreparer req q))"
  "lq_StatefulVolume (trace_request req) = (\<lambda>rt. traced (\<lambda>r. AVolume rt (is_ok r)) (lq_StatefulVolume req rt))"
  "lq_StatefulRecipe (trace_request req) = map_option trace_recipe (lq_StatefulRecipe req)"
  "lq_Stateful (trace_request req) = lq_Stateful req" "lq_TraceID (trace_request req) = lq_TraceID req"
  "lq_OperationID (trace_request req) = lq_OperationID req" "lq_Identity (trace_request req) = lq_Identity req"
  "lq_UnitName (trace_request req) = lq_UnitName req" "lq_HealthAttempts (trace_request req) = lq_HealthAttempts req"
  "lq_HealthInterval (trace_request req) = lq_HealthInterval req" "lq_StopTimeout (trace_request req) = lq_StopTimeout req"
  by (simp_all add: trace_request_def)

lemma same_sinks [simp]: "same (sink ev) (trace_sink sink ev)" "same (sst_SaveState st x) (sst_SaveState (trace_store st) x)"
  "same (sdm_WriteUnit sd u c) (sdm_WriteUnit (trace_systemd sd) u c)" "same (sdm_DaemonReload sd) (sdm_DaemonReload (trace_systemd sd))"
  "same (sdm_RestartUnit sd u) (sdm_RestartUnit (trace_systemd sd) u)" "same (sdm_StopUnit sd u) (sdm_StopUnit (trace_systemd sd) u)"
  by (simp_all add: trace_sink_def trace_store_def trace_systemd_def)

lemma same_hook: "same (RunStatefulRecipeHook rc rt act oid tid) (RunStatefulRecipeHook (map_option trace_recipe rc) rt act oid tid)"
proof (cases rc)
  case (Some r)
  have "same (runRecipeAction r act q) (runRecipeAction (trace_recipe r) act q)" for q
    unfolding runRecipeAction_def by (intro same_cases same_simps) (simp_all add: trace_recipe_def)
  moreover have "validateRecipeName (trace_recipe r) rt = validateRecipeName r rt"
    by (simp add: validateRecipeName_def trace_recipe_def)
  ultimately show ?thesis
    unfolding RunStatefulRecipeHook_def Some option.map option.case by (simp only:) (intro same_bind same_cases same_simps)
qed (simp add: RunStatefulRecipeHook_def)

lemma same_control:
  "same (currentStatefulRuntime W c rq store i) (currentStatefulRuntime (trace_world W) c rq (map_option trace_control store) i)"
proof -
  have r: "same (\<lambda>s. case readStatefulMemberControl st key s of (Inl e, t) \<Rightarrow> (Inl (boot_goerr e), t) | (Inr d, t) \<Rightarrow> (Inr d, t))
      (\<lambda>s. case readStatefulMemberControl (trace_control st) key s of (Inl e, t) \<Rightarrow> (Inl (boot_goerr e), t) | (Inr d, t) \<Rightarrow> (Inr d, t))"
    for st :: "'a ObjectStore" and key
    by (auto simp: same_def readStatefulMemberControl_def trace_control_def traced_def split: prod.splits sum.splits if_splits)
  show ?thesis
    unfolding currentStatefulRuntime_def
    by (cases "if rq = None then ls_Stateful c else rq"; cases store)
      (auto intro!: same_bind r)
qed

lemma esame_transition: "esame (transition W req u st h sm cause) (transition (trace_world W) (trace_request req) u st h sm cause)"
proof -
  have "entered (trace_request req) = entered req" "lifecycleEvent (trace_request req) = lifecycleEvent req"
    by (auto simp: entered_def lifecycleEvent_def fun_eq_iff)
  then show ?thesis
    unfolding transition_def Let_def by (simp only: trace_request_simps) (intro esame_bind esame_host esame_cases esame_simps same_simps same_sinks)
qed

lemma esame_fail: "esame (lifecycle_fail W req u code sm st cause) (lifecycle_fail (trace_world W) (trace_request req) u code sm st cause)"
  using esame_transition [of W req u StateFailed HealthUnhealthy sm "Some cause"]
  unfolding esame_def lifecycle_fail_def by (fastforce simp: result_of_def split: prod.splits sum.splits)

lemma esame_move: "esame (move W req u st h sm) (move (trace_world W) (trace_request req) u st h sm)"
  using esame_transition [of W req u st h sm None] unfolding esame_def move_def by (fastforce split: prod.splits sum.splits)

lemma esame_attempt:
  "same m m' \<Longrightarrow> esame (attempt W req u code sm st m) (attempt (trace_world W) (trace_request req) u code sm st m')"
  using esame_fail [of W req u code sm st] unfolding esame_def same_def attempt_def by (fastforce split: prod.splits sum.splits)

lemma esame_fence: "esame (fence W req u sm st rq) (fence (trace_world W) (trace_request req) u sm st rq)"
  unfolding fence_def by (simp only: trace_request_simps) (intro esame_bind esame_attempt esame_simps same_control)

lemma esame_prepare: "esame (prepareWorkload W req u) (prepareWorkload (trace_world W) (trace_request req) u)"
proof -
  have "esame (prepareStateful W req u rt) (prepareStateful (trace_world W) (trace_request req) u rt)" for rt
    unfolding prepareStateful_def runStatefulRecipeStart_def
    by (simp only: trace_request_simps) (intro esame_bind esame_move esame_attempt same_bind same_hook same_traced same_simps)
  then show ?thesis
    unfolding prepareWorkload_def Let_def
    by (simp only: trace_request_simps) (intro esame_bind esame_move esame_fence esame_attempt esame_cases esame_simps same_traced)
qed

lemma esame_render:
  "esame (renderWorkload P W req sd u wl) (renderWorkload P (trace_world W) (trace_request req) (trace_systemd sd) u wl)"
  unfolding renderWorkload_def Let_def
  by (simp only: trace_request_simps) (intro esame_bind esame_move esame_attempt same_sinks same_simps)

lemma esame_start:
  "esame (startWorkload W req sd u) (startWorkload (trace_world W) (trace_request req) (trace_systemd sd) u)"
  unfolding startWorkload_def by (intro esame_bind esame_move esame_attempt same_sinks)

lemma esame_serve: "esame (serveWorkload W req u rt) (serveWorkload (trace_world W) (trace_request req) u rt)"
proof -
  have "esame (\<lambda>q. (Inr (result_of u q), q)) (\<lambda>q. (Inr (result_of u q), q))" by (auto simp: esame_def result_of_def)
  then show ?thesis
    unfolding serveWorkload_def runStatefulRecipeHealth_def
    by (simp only: trace_request_simps)
      (intro esame_bind esame_move esame_fence esame_attempt esame_cases esame_simps same_bind same_hook same_simps)
qed

lemma esame_health: "esame (healthLoop W req u rt i n) (healthLoop (trace_world W) (trace_request req) u rt i n)"
proof (induction n)
  case 0
  then show ?case by (simp add: esame_fail)
next
  case (Suc n)
  have "same (lq_HealthChecker req c) (lq_HealthChecker (trace_request req) c)" for c
    by (auto simp: same_def trace_request_def split: prod.splits)
  with Suc show ?case
    unfolding healthLoop.simps trace_request_simps
    by (intro esame_bind esame_call esame_cases esame_serve esame_fail esame_attempt same_simps)
qed

lemma esame_await: "esame (awaitHealth P W req u rt) (awaitHealth P (trace_world W) (trace_request req) u rt)"
  unfolding awaitHealth_def Let_def trace_request_simps by (intro esame_bind esame_move esame_health)

text \<open>A run is the recorded run without its record.\<close>

lemma recorded_run:
  assumes "RunLifecycle P W req s = (r, t)"
  shows "\<exists>as. RunLifecycle P (trace_world W) (trace_request req) (s, []) = (r, (t, as))"
proof -
  obtain r' t' as where eq: "RunLifecycle P (trace_world W) (trace_request req) (s, []) = (r', (t', as))" by (metis prod.exhaust)
  have "esame
     (ebind (prepareWorkload W req u) (\<lambda>(runtime, wl).
        ebind (renderWorkload P W req sd u wl) (\<lambda>_. ebind (startWorkload W req sd u) (\<lambda>_. awaitHealth P W req u runtime))))
     (ebind (prepareWorkload (trace_world W) (trace_request req) u) (\<lambda>(runtime, wl).
        ebind (renderWorkload P (trace_world W) (trace_request req) (trace_systemd sd) u wl) (\<lambda>_.
        ebind (startWorkload (trace_world W) (trace_request req) (trace_systemd sd) u) (\<lambda>_.
        awaitHealth P (trace_world W) (trace_request req) u runtime))))" for u sd
    by (rule esame_bind [OF esame_prepare]) (auto intro!: esame_bind esame_render esame_start esame_await)
  note body = esameD [OF this]
  have "RunLifecycle P W req s = (r', t')"
  proof (cases "lq_Systemd req")
    case None
    then show ?thesis using eq by (simp add: RunLifecycle_def)
  next
    case (Some sd)
    show ?thesis
    proof (cases "validateRuntimeManifestForLifecycle (lq_RuntimeManifest req)")
      case (Inl e)
      then show ?thesis using eq Some by (simp add: RunLifecycle_def Let_def)
    next
      case (Inr v)
      let ?u = "if lq_UnitName req = [] then WorkloadUnitName (rp_unicode_letter P) (rtm_Service (lq_RuntimeManifest req))
        (rtm_Env (lq_RuntimeManifest req)) else lq_UnitName req"
      obtain rl s1 l1 where l: "loadLifecycleState (trace_world W) (trace_store (lq_StateStore req)) (lq_RuntimeManifest req) (lq_TraceID req)
          (lq_Identity req) ?u (s, []) = (rl, (s1, l1))" by (metis prod.exhaust)
      note l' = sameD [OF same_load l]
      show ?thesis
      proof (cases rl)
        case (Inl e)
        then show ?thesis using eq Some Inr l l' by (simp add: RunLifecycle_def Let_def cong: if_cong)
      next
        case (Inr c)
        then show ?thesis using eq Some \<open>validateRuntimeManifestForLifecycle _ = Inr v\<close> l l'
          by (auto simp: RunLifecycle_def Let_def dest!: body cong: if_cong split: prod.splits)
      qed
    qed
  qed
  then show ?thesis using assms eq by auto
qed

lemma trace_stop_update: "trace_stop (req\<lparr>stq_Stateful := x\<rparr>) = (trace_stop req)\<lparr>stq_Stateful := x\<rparr>"
  by (simp add: trace_stop_def)

lemma esame_stopTransition:
  "esame (stopTransition W req u st sm cause) (stopTransition (trace_world W) (trace_stop req) u st sm cause)"
proof -
  have e: "stopEntered (trace_stop req) = stopEntered req" by (auto simp: stopEntered_def trace_stop_def fun_eq_iff)
  have f: "stq_StateStore (trace_stop req) = trace_store (stq_StateStore req)" "stq_EventSink (trace_stop req) = map_option trace_sink (stq_EventSink req)"
    by (simp_all add: trace_stop_def)
  show ?thesis
    unfolding stopTransition_def e f by (intro esame_bind esame_host esame_cases esame_simps same_simps same_sinks)
qed

lemma esame_stopAttempt:
  "same m m' \<Longrightarrow> esame (stopAttempt W req u code sm st m) (stopAttempt (trace_world W) (trace_stop req) u code sm st m')"
  using esame_stopTransition [of W req u StateFailed sm]
  unfolding esame_def same_def stopAttempt_def by (fastforce split: prod.splits sum.splits)

lemma esame_stopSteps: "esame (stopSteps W req sd u) (stopSteps (trace_world W) (trace_stop req) (trace_systemd sd) u)"
proof -
  have f: "stq_Drain (trace_stop req) = map_option (traced (\<lambda>r. ADrain (is_ok r))) (stq_Drain req)" "stq_Stateful (trace_stop req) = stq_Stateful req"
    "stq_StatefulRecipe (trace_stop req) = map_option trace_recipe (stq_StatefulRecipe req)" "stq_OperationID (trace_stop req) = stq_OperationID req"
    "stq_TraceID (trace_stop req) = stq_TraceID req" by (simp_all add: trace_stop_def)
  show ?thesis
    unfolding stopSteps_def f runStatefulRecipeStop_def
    by (intro esame_bind esame_stopTransition esame_stopAttempt esame_cases esame_simps same_bind same_hook same_traced same_sinks same_simps)
qed

lemma recorded_stop:
  assumes "StopWorkload P W req s = (r, t)"
  shows "\<exists>as. StopWorkload P (trace_world W) (trace_stop req) (s, []) = (r, (t, as))"
proof -
  obtain r' t' as where eq: "StopWorkload P (trace_world W) (trace_stop req) (s, []) = (r', (t', as))" by (metis prod.exhaust)
  have f: "stq_Systemd (trace_stop req) = map_option trace_systemd (stq_Systemd req)" "stq_UnitName (trace_stop req) = stq_UnitName req"
    "stq_Service (trace_stop req) = stq_Service req" "stq_Env (trace_stop req) = stq_Env req" "stq_ReleaseID (trace_stop req) = stq_ReleaseID req"
    "stq_StateStore (trace_stop req) = trace_store (stq_StateStore req)" "stq_TraceID (trace_stop req) = stq_TraceID req"
    "stq_Identity (trace_stop req) = stq_Identity req" "stq_Stateful (trace_stop req) = stq_Stateful req" by (simp_all add: trace_stop_def)
  have "StopWorkload P W req s = (r', t')"
  proof (cases "stq_Systemd req")
    case None
    then show ?thesis using eq by (simp add: StopWorkload_def f)
  next
    case (Some sd)
    let ?u = "if stq_UnitName req = [] then WorkloadUnitName (rp_unicode_letter P) (stq_Service req) (stq_Env req) else stq_UnitName req"
    let ?m = "zero_RuntimeManifest\<lparr>rtm_Service := stq_Service req, rtm_Env := stq_Env req, rtm_ReleaseID := stq_ReleaseID req\<rparr>"
    obtain rl s1 l1 where l: "loadLifecycleState (trace_world W) (trace_store (stq_StateStore req)) ?m (stq_TraceID req)
        (stq_Identity req) ?u (s, []) = (rl, (s1, l1))" by (metis prod.exhaust)
    note l' = sameD [OF same_load l]
    show ?thesis
    proof (cases rl)
      case (Inl e)
      then show ?thesis using eq Some l l' unfolding StopWorkload_def Let_def f by simp
    next
      case (Inr c)
      let ?req = "req\<lparr>stq_Stateful := (if stq_Stateful req = None then ls_Stateful c else stq_Stateful req)\<rparr>"
      obtain rr s2 l2 c2 where b: "stopSteps (trace_world W) (trace_stop ?req) (trace_systemd sd) ?u ((s1, l1), c) = (rr, ((s2, l2), c2))"
        by (metis prod.exhaust)
      note b' = esameD [OF esame_stopSteps b]
      from Inr show ?thesis using eq Some l l' b b' unfolding StopWorkload_def Let_def f trace_stop_update by simp
    qed
  qed
  then show ?thesis using assms eq by auto
qed

section \<open>What the machine's phases imply\<close>

lemma path_snoc: "path p (as @ [a]) r \<longleftrightarrow> (\<exists>q. path p as q \<and> step q a r)"
  by (induction as arbitrary: p) auto

text \<open>
  How a run reached the phase Serving: the unit was written, loaded and restarted, then a check was healthy; after it,
  for a stateful member, its control document was read and backs the runtime; then the state was saved and announced.
\<close>

definition restarted :: "action list \<Rightarrow> bool" where
  "restarted as \<longleftrightarrow> (\<exists>u contents. subseq [AWriteUnit u contents True, AReload True, ARestart u True] as)"

definition validated :: "action list \<Rightarrow> LocalState \<Rightarrow> bool" where
  "validated as st \<longleftrightarrow> (case ls_Stateful st of
      None \<Rightarrow> True
    | Some rt \<Rightarrow> \<exists>key ob. AControl key (Inr ob) \<in> set as \<and> backed_by key ob rt \<and> on_instance (ls_Identity st) rt)"

definition announces :: "State \<Rightarrow> action \<Rightarrow> bool" where
  "announces st a \<longleftrightarrow> (case a of AEmit ev b \<Rightarrow> b \<and> sev_State ev = st | _ \<Rightarrow> False)"

definition served :: "action list \<Rightarrow> bool" where
  "served as \<longleftrightarrow> (\<exists>as1 as2 st as3. as = as1 @ ACheck HealthHealthy # as2 @ ASave st True # as3 \<and> restarted as1 \<and>
     validated as2 st \<and> ls_CurrentState st = StateServing \<and> list_all (announces StateServing) as3)"

fun knows :: "action list \<Rightarrow> phase \<Rightarrow> bool" where
  "knows as (Written u) = (\<exists>c. subseq [AWriteUnit u c True] as)"
| "knows as (Reloaded u) = (\<exists>c. subseq [AWriteUnit u c True, AReload True] as)"
| "knows as (Start u) = (\<exists>c. subseq [AWriteUnit u c True, AReload True] as)"
| "knows as (Restarted u) = restarted as"
| "knows as Wait = restarted as"
| "knows as Well = (\<exists>as1. as = as1 @ [ACheck HealthHealthy] \<and> restarted as1)"
| "knows as (Fenced key ob) = (\<exists>as1 as2. as = as1 @ ACheck HealthHealthy # as2 \<and> restarted as1 \<and> AControl key (Inr ob) \<in> set as2)"
| "knows as Serving = served as"
| "knows as _ = True"

lemma subseq_snoc: "subseq xs as \<Longrightarrow> subseq (xs @ [a]) (as @ [a])" "subseq xs as \<Longrightarrow> subseq xs (as @ [a])"
  by (simp_all add: subseq_append_iff) (metis list_emb_append_mono append_Nil2 subseq_order.refl list_emb_Nil)+


lemma restarted_snoc: "restarted as \<Longrightarrow> restarted (as @ [a])"
  unfolding restarted_def by (blast intro: subseq_snoc)

lemma servedI:
  "as = as1 @ ACheck HealthHealthy # as2 @ ASave st True # as3 \<Longrightarrow> restarted as1 \<Longrightarrow> validated as2 st \<Longrightarrow>
   ls_CurrentState st = StateServing \<Longrightarrow> list_all (announces StateServing) as3 \<Longrightarrow> served as"
  unfolding served_def by blast

lemma served_snoc:
  assumes "served as" "announces StateServing a"
  shows "served (as @ [a])"
proof -
  from assms(1) obtain as1 as2 st as3 where *: "as = as1 @ ACheck HealthHealthy # as2 @ ASave st True # as3" "restarted as1"
      "validated as2 st" "ls_CurrentState st = StateServing" "list_all (announces StateServing) as3"
    unfolding served_def by blast
  show ?thesis by (rule servedI [of _ as1 as2 st "as3 @ [a]"]) (use * assms(2) in simp_all)
qed

lemma knows_emit: "knows as p \<Longrightarrow> phase_state p = Some (sev_State ev) \<Longrightarrow> knows (as @ [AEmit ev True]) p"
  by (cases p) (auto intro: subseq_snoc restarted_snoc served_snoc simp: announces_def)

lemma knows_step:
  assumes "step p a q" "knows as p"
  shows "knows (as @ [a]) q"
  using assms
proof (induction rule: step.induct)
  case (write_unit u contents)
  then show ?case using subseq_snoc(1) [of "[]" as] by auto
next
  case (reload u)
  then obtain c where "subseq [AWriteUnit u c True] as" by auto
  from subseq_snoc(1) [OF this, of "AReload True"] show ?case by auto
next
  case (restart u)
  then obtain c where "subseq [AWriteUnit u c True, AReload True] as" by auto
  from subseq_snoc(1) [OF this, of "ARestart u True"] show ?case by (auto simp: restarted_def)
next
  case (fence key ob)
  then obtain as1 where "as = as1 @ [ACheck HealthHealthy]" "restarted as1" by auto
  then show ?case unfolding knows.simps by - (rule exI [of _ as1], rule exI [of _ "[AControl key (Inr ob)]"], simp)
next
  case (health_hook key ob)
  then obtain as1 as2 where "as = as1 @ ACheck HealthHealthy # as2" "restarted as1" "AControl key (Inr ob) \<in> set as2" by auto
  then show ?case unfolding knows.simps by - (rule exI [of _ as1], rule exI [of _ "as2 @ [AHook StatefulRecipeHealth True]"], simp)
next
  case (serve st)
  then obtain as1 where "as = as1 @ [ACheck HealthHealthy]" "restarted as1" by auto
  with serve show ?case by (auto simp: validated_def intro!: servedI [of _ as1 "[]" st "[]"])
next
  case (serve_fenced st rt key ob)
  then obtain as1 as2 where "as = as1 @ ACheck HealthHealthy # as2" "restarted as1" "AControl key (Inr ob) \<in> set as2" by auto
  then show ?case unfolding knows.simps
    by (intro servedI [of _ as1 as2 st "[]"]) (use serve_fenced in \<open>auto simp: validated_def\<close>)
next
  case (emit p ev)
  then show ?case by (intro knows_emit)
qed (auto intro: subseq_snoc restarted_snoc)

lemma path_knows: "path Idle as q \<Longrightarrow> knows as q"
  by (induction as arbitrary: q rule: rev_induct) (auto simp: path_snoc intro: knows_step)

text \<open>A stateless service on a host where every effect succeeds.\<close>

definition demo_host :: "sys LifecycleRequest" where
  "demo_host = \<lparr>lq_RuntimeManifest = demo_runtime\<lparr>rtm_Command := [''/bin/web'']\<rparr>,
     lq_Artifact = rm_Artifact zero_ReleaseManifest, lq_ControlStore = None,
     lq_StateStore = \<lparr>sst_LoadState = io_fail ErrStateNotFound, sst_SaveState = (\<lambda>_. io_ret ())\<rparr>,
     lq_EventSink = Some (\<lambda>_. io_ret ()),
     lq_Systemd = Some \<lparr>sdm_WriteUnit = (\<lambda>_ _. io_ret ()), sdm_DaemonReload = io_ret (), sdm_StartUnit = (\<lambda>_. io_ret ()),
       sdm_RestartUnit = (\<lambda>_. io_ret ()), sdm_StopUnit = (\<lambda>_. io_ret ())\<rparr>,
     lq_ArtifactPreparer = (\<lambda>_. io_ret None), lq_StatefulVolume = (\<lambda>_. io_ret ()), lq_StatefulRecipe = None, lq_Stateful = None,
     lq_HealthChecker = (\<lambda>_ s. (\<lparr>hr_Status = HealthHealthy, hr_Summary = [], hr_Error = []\<rparr>, s)), lq_TraceID = [], lq_OperationID = [],
     lq_Identity = None, lq_UnitName = ''web.service'', lq_HealthAttempts = 3, lq_HealthInterval = 0, lq_StopTimeout = 0\<rparr>"

definition demo_params :: runner_params where
  "demo_params = \<lparr>rp_ParseDuration = (\<lambda>_. None), rp_unicode_letter = (\<lambda>_. False)\<rparr>"

lemmas run_defs = ebind_def eret_def eupdate_def ecall_def host_def transition_def move_def attempt_def fence_def entered_def
  lifecycleEvent_def currentStatefulRuntime_def artifactWorkload_def prepareWorkload_def renderWorkload_def startWorkload_def
  awaitHealth_def serveWorkload_def stopTransition_def stopAttempt_def stopSteps_def loadLifecycleState_def io_bind_def io_try_def io_ret_def io_fail_def io_lift_def io_now_def

lemma demo_run: "\<exists>res. RunLifecycle demo_params sys_world demo_host demo_store = (Inr res, demo_store)"
  by (simp add: RunLifecycle_def demo_host_def validateRuntimeManifestForLifecycle_def demo_runtime_def zero_RuntimeManifest_def
     run_defs Let_def zero_LocalState_def RenderWorkloadUnit_def ErrStateNotFound_def demo_store_def sys_world_def env_tick_def numeral_eq_Suc)

definition demo_stop :: "sys StopRequest" where
  "demo_stop = \<lparr>stq_Service = ''web'', stq_Env = ''dev'', stq_ReleaseID = ''rel_1'', stq_StateStore = lq_StateStore demo_host,
     stq_EventSink = lq_EventSink demo_host, stq_Systemd = lq_Systemd demo_host, stq_StatefulRecipe = None, stq_Stateful = None,
     stq_UnitName = ''web.service'', stq_TraceID = [], stq_OperationID = [], stq_Identity = None, stq_Drain = Some (io_ret ())\<rparr>"

lemma demo_stopped: "StopWorkload demo_params sys_world demo_stop demo_store = (Inr (), demo_store)"
  by (simp add: StopWorkload_def demo_stop_def demo_host_def run_defs Let_def zero_LocalState_def ErrStateNotFound_def demo_store_def
     sys_world_def env_tick_def)

section \<open>Properties\<close>

text \<open>
  C16: the runner follows the lifecycle protocol, whatever its host answers. The actions that a run of RunLifecycle
  makes on the host, recorded in order, are a path of the abstract machine: it ends in Serving exactly when the run
  returns a result without an error, in Failed (or with a write of the local state or of an event that failed) when the
  run returns an error with a result, and before the first state or after a failed write when it returns only an error.
\<close>

theorem lifecycle_refines_protocol:
  assumes "RunLifecycle P W req s = (r, t)"
  shows "\<exists>as q. RunLifecycle P (trace_world W) (trace_request req) (s, []) = (r, (t, as)) \<and> path Idle as q \<and> (case r of
      Inr res \<Rightarrow> q = Serving \<and> rst_State (lres_Status res) = StateServing
    | Inl (WithResult res err) \<Rightarrow> q \<in> {Failed, Over} \<and> rst_State (lres_Status res) = StateFailed
    | Inl (NilResult err) \<Rightarrow> q \<in> {Idle, Loaded, Over})"
proof -
  from recorded_run [OF assms] obtain as where as: "RunLifecycle P (trace_world W) (trace_request req) (s, []) = (r, (t, as))" by blast
  from recorded.lifecycle_refines [OF this] show ?thesis using as by auto
qed

theorem lifecycle_refines_protocol_witness:
  "\<exists>res as. RunLifecycle demo_params (trace_world sys_world) (trace_request demo_host) (demo_store, []) = (Inr res, (demo_store, as)) \<and>
     path Idle as Serving \<and> rst_State (lres_Status res) = StateServing"
proof -
  obtain res where "RunLifecycle demo_params sys_world demo_host demo_store = (Inr res, demo_store)" using demo_run by blast
  from lifecycle_refines_protocol [OF this] show ?thesis by auto
qed

text \<open>
  C38: the same for stopping. The actions of StopWorkload are a path of the machine through Draining and Stopping; it
  reports success only in Stopped, so after the drain, the stop hook of the recipe and the stop of the unit have all
  succeeded, in this order.
\<close>

theorem stop_refines_protocol:
  assumes "StopWorkload P W req s = (r, t)"
  shows "\<exists>as q. StopWorkload P (trace_world W) (trace_stop req) (s, []) = (r, (t, as)) \<and> path Idle as q \<and>
    (case r of Inr _ \<Rightarrow> q = Stopped | Inl err \<Rightarrow> q \<in> {Idle, Loaded, Failed, Over})"
proof -
  from recorded_stop [OF assms] obtain as where as: "StopWorkload P (trace_world W) (trace_stop req) (s, []) = (r, (t, as))" by blast
  from stopping.stop_refines [OF this] show ?thesis using as by auto
qed

theorem stop_refines_protocol_witness:
  "\<exists>as. StopWorkload demo_params (trace_world sys_world) (trace_stop demo_stop) (demo_store, []) = (Inr (), (demo_store, as)) \<and> path Idle as Stopped"
  using stop_refines_protocol [OF demo_stopped] by auto

text \<open>
  C17: a workload that is reported as serving was started and is healthy, and a stateful one is still the owner of its
  member. Before a successful run saves the state Serving, the unit was written, loaded and restarted, in this order,
  and then a health check was healthy; if the saved state has a stateful runtime, its control document was read after
  that check, nobody held a lease on the member, the member was ready, and the document names the volume, the
  generation and the instance of the runtime. After it nothing but the event is written.
\<close>

theorem serving_is_validated:
  assumes "RunLifecycle P W req s = (Inr res, t)"
  shows "\<exists>as. RunLifecycle P (trace_world W) (trace_request req) (s, []) = (Inr res, (t, as)) \<and> served as"
proof -
  from recorded_run [OF assms] obtain as where as: "RunLifecycle P (trace_world W) (trace_request req) (s, []) = (Inr res, (t, as))" by blast
  from recorded.lifecycle_refines [OF this] have "path Idle as Serving" by auto
  then show ?thesis using as path_knows by fastforce
qed

theorem serving_is_validated_witness:
  "\<exists>res as. RunLifecycle demo_params (trace_world sys_world) (trace_request demo_host) (demo_store, []) = (Inr res, (demo_store, as)) \<and> served as"
proof -
  obtain res where "RunLifecycle demo_params sys_world demo_host demo_store = (Inr res, demo_store)" using demo_run by blast
  from serving_is_validated [OF this] show ?thesis by auto
qed

end
