(* ===== verification/Config_Check.thy ===== *)
theory Config_Check
  imports Environment
begin

text \<open>
  The configuration (internal/config/config.go): its fields, the effective release policy and its validation. \<^verbatim>\<open>url.Parse\<close> (scheme and host of a URL, or failure) and \<^verbatim>\<open>strings.ToLower\<close>
  beyond ASCII are parameters.
\<close>

section \<open>Data\<close>

record config_params =
  cp_url_Parse :: "string \<Rightarrow> (string \<times> string) option"
  cp_unicode_lower :: "string \<Rightarrow> string"

type_synonym Mode = string

definition ModeAPI :: Mode where "ModeAPI = ''api''"
definition ModeDirect :: Mode where "ModeDirect = ''direct''"
definition ModeSkiffd :: Mode where "ModeSkiffd = ''skiffd''"
definition ModeRunner :: Mode where "ModeRunner = ''runner''"
definition FieldEnv :: string where "FieldEnv = ''env''"
definition FieldEnvironmentClass :: string where "FieldEnvironmentClass = ''environment_class''"
definition FieldProvider :: string where "FieldProvider = ''provider''"
definition FieldRegion :: string where "FieldRegion = ''region''"
definition FieldStateBucket :: string where "FieldStateBucket = ''state_bucket''"
definition FieldKMSKey :: string where "FieldKMSKey = ''kms_key''"
definition FieldAuthMode :: string where "FieldAuthMode = ''auth_mode''"
definition FieldLogLevel :: string where "FieldLogLevel = ''log_level''"
definition FieldMode :: string where "FieldMode = ''mode''"
definition FieldAPIURL :: string where "FieldAPIURL = ''api_url''"
definition FieldService :: string where "FieldService = ''service''"
definition FieldControlKey :: string where "FieldControlKey = ''control_key''"
definition FieldReleaseID :: string where "FieldReleaseID = ''release_id''"
definition FieldStatefulGroup :: string where "FieldStatefulGroup = ''stateful_group''"
definition FieldStatefulMember :: string where "FieldStatefulMember = ''stateful_member''"
definition FieldStatefulGeneration :: string where "FieldStatefulGeneration = ''stateful_generation''"
definition FieldStatefulVolumeMountPath :: string where "FieldStatefulVolumeMountPath = ''stateful_volume_mount_path''"
definition FieldStatefulStableHostname :: string where "FieldStatefulStableHostname = ''stateful_stable_hostname''"
definition FieldStatefulRecipe :: string where "FieldStatefulRecipe = ''stateful_recipe''"
definition FieldReleaseManifestKey :: string where "FieldReleaseManifestKey = ''release_manifest_key''"
definition FieldRuntimeManifestKey :: string where "FieldRuntimeManifestKey = ''runtime_manifest_key''"
definition FieldReleaseSigningKeyID :: string where "FieldReleaseSigningKeyID = ''release_signing_key_id''"
definition FieldReleaseSigningKeyRef :: string where "FieldReleaseSigningKeyRef = ''release_signing_key_ref''"
definition FieldRequireSignedReleases :: string where "FieldRequireSignedReleases = ''require_signed_releases''"
definition FieldAllowUnsignedCode :: string where "FieldAllowUnsignedCode = ''allow_unsigned_code''"
definition FieldWriteRoleARN :: string where "FieldWriteRoleARN = ''write_role_arn''"
definition FieldAWSLiveApply :: string where "FieldAWSLiveApply = ''aws_live_apply''"
definition FieldAWSVPCID :: string where "FieldAWSVPCID = ''aws_vpc_id''"
definition FieldAWSSubnetIDs :: string where "FieldAWSSubnetIDs = ''aws_subnet_ids''"
definition FieldAWSAMIID :: string where "FieldAWSAMIID = ''aws_ami_id''"
definition FieldAWSALBListenerARN :: string where "FieldAWSALBListenerARN = ''aws_alb_listener_arn''"
definition FieldAWSLoadBalancerSecurityGroupRef :: string where "FieldAWSLoadBalancerSecurityGroupRef = ''aws_load_balancer_security_group_ref''"
definition FieldLogs :: string where "FieldLogs = ''logs''"

lemmas config_names = FieldEnv_def FieldEnvironmentClass_def FieldProvider_def FieldRegion_def FieldStateBucket_def FieldKMSKey_def FieldAuthMode_def FieldLogLevel_def FieldMode_def FieldAPIURL_def FieldService_def FieldControlKey_def FieldReleaseID_def FieldStatefulGroup_def FieldStatefulMember_def FieldStatefulGeneration_def FieldStatefulVolumeMountPath_def FieldStatefulStableHostname_def FieldStatefulRecipe_def FieldReleaseManifestKey_def FieldRuntimeManifestKey_def FieldReleaseSigningKeyID_def FieldReleaseSigningKeyRef_def FieldRequireSignedReleases_def FieldAllowUnsignedCode_def FieldWriteRoleARN_def FieldAWSLiveApply_def FieldAWSVPCID_def FieldAWSSubnetIDs_def FieldAWSAMIID_def FieldAWSALBListenerARN_def FieldAWSLoadBalancerSecurityGroupRef_def FieldLogs_def

record ReleasePolicy =
  rpl_RequireSignedReleases :: bool
  rpl_AllowUnsignedCode :: bool

record Logs =
  lgs_Provider :: string
  lgs_Group :: string
  lgs_StreamTemplate :: string
  lgs_ArchivePrefix :: string
  lgs_Labels :: go_map

record Config =
  cfg_Env :: string
  cfg_EnvironmentClass :: string
  cfg_Provider :: string
  cfg_Region :: string
  cfg_StateBucket :: string
  cfg_KMSKey :: string
  cfg_AuthMode :: string
  cfg_LogLevel :: string
  cfg_Mode :: Mode
  cfg_APIURL :: string
  cfg_Service :: string
  cfg_ControlKey :: string
  cfg_ReleaseID :: string
  cfg_StatefulGroup :: string
  cfg_StatefulMember :: int
  cfg_StatefulGeneration :: int
  cfg_StatefulVolumeMountPath :: string
  cfg_StatefulStableHostname :: string
  cfg_StatefulRecipe :: string
  cfg_ReleaseManifestKey :: string
  cfg_RuntimeManifestKey :: string
  cfg_ReleaseSigningKeyID :: string
  cfg_ReleaseSigningKeyRef :: string
  cfg_ReleasePolicy :: "ReleasePolicy option"
  cfg_WriteRoleARN :: string
  cfg_AWSLiveApply :: bool
  cfg_AWSVPCID :: string
  cfg_AWSSubnetIDs :: "string list"
  cfg_AWSAMIID :: string
  cfg_AWSALBListenerARN :: string
  cfg_AWSLoadBalancerSecurityGroupRef :: string
  cfg_Logs :: "Logs option"

definition zero_Config :: Config where
  "zero_Config = \<lparr>cfg_Env = [], cfg_EnvironmentClass = [], cfg_Provider = [], cfg_Region = [], cfg_StateBucket = [], cfg_KMSKey = [], cfg_AuthMode = [], cfg_LogLevel = [], cfg_Mode = [], cfg_APIURL = [], cfg_Service = [], cfg_ControlKey = [], cfg_ReleaseID = [], cfg_StatefulGroup = [], cfg_StatefulMember = 0, cfg_StatefulGeneration = 0, cfg_StatefulVolumeMountPath = [], cfg_StatefulStableHostname = [], cfg_StatefulRecipe = [], cfg_ReleaseManifestKey = [], cfg_RuntimeManifestKey = [], cfg_ReleaseSigningKeyID = [], cfg_ReleaseSigningKeyRef = [], cfg_ReleasePolicy = None, cfg_WriteRoleARN = [], cfg_AWSLiveApply = False, cfg_AWSVPCID = [], cfg_AWSSubnetIDs = [], cfg_AWSAMIID = [], cfg_AWSALBListenerARN = [], cfg_AWSLoadBalancerSecurityGroupRef = [], cfg_Logs = None\<rparr>"

record Loaded =
  ldd_Config :: Config
  ldd_Sources :: go_map
  ldd_ConfigPath :: string
  ldd_Context :: string

record FieldError =
  fer_Field :: string
  fer_Source :: string
  fer_Code :: string
  fer_Message :: string

record ValidationError =
  ver_Fields :: "FieldError list"

definition validation_error_text :: "ValidationError \<Rightarrow> string" where
  "validation_error_text e =
     (if ver_Fields e = [] then ''config validation failed''
      else ''config validation failed: '' @ intersperse ''; ''
        (map (\<lambda>f. fer_Field f @ '' from '' @ fer_Source f @ '': '' @ fer_Message f) (ver_Fields e)))"

section \<open>Policy and defaults\<close>

definition policy_conflict :: goerr where
  "policy_conflict = new_error ''allow_unsigned_code cannot be true when require_signed_releases is true''"

definition EffectiveReleasePolicy :: "config_params \<Rightarrow> Config \<Rightarrow> EnvironmentReleasePolicy result" where
  "EffectiveReleasePolicy P cfg =
     (if cfg_EnvironmentClass cfg = [] \<and> cfg_ReleasePolicy cfg = None then Inr zero_EnvironmentReleasePolicy
      else
        rbind (if cfg_EnvironmentClass cfg \<noteq> [] then DefaultEnvironmentReleasePolicy (cp_unicode_lower P) (cfg_EnvironmentClass cfg)
               else Inr zero_EnvironmentReleasePolicy) (\<lambda>base.
        let policy = (case cfg_ReleasePolicy cfg of
            None \<Rightarrow> base
          | Some rp \<Rightarrow> base\<lparr>erp_RequireSignedReleases := rpl_RequireSignedReleases rp, erp_AllowUnsignedCode := rpl_AllowUnsignedCode rp\<rparr>) in
        if erp_RequireSignedReleases policy \<and> erp_AllowUnsignedCode policy then Inl policy_conflict else Inr policy))"

definition Defaults :: "Mode \<Rightarrow> Loaded" where
  "Defaults mode = \<lparr>
     ldd_Config = zero_Config\<lparr>cfg_Mode := (if mode = [] then ModeAPI else mode), cfg_AuthMode := ''none'', cfg_LogLevel := ''info''\<rparr>,
     ldd_Sources = fold (\<lambda>f. map_put f ''default'') [FieldMode, FieldAuthMode, FieldLogLevel] [], ldd_ConfigPath = [], ldd_Context = []\<rparr>"

section \<open>Validation\<close>

definition sourceFor :: "go_map \<Rightarrow> string \<Rightarrow> string" where
  "sourceFor sources field = (case map_of sources field of Some source \<Rightarrow> source | None \<Rightarrow> ''unset'')"

definition field_error :: "go_map \<Rightarrow> string \<Rightarrow> string \<Rightarrow> string \<Rightarrow> FieldError" where
  "field_error sources field code message =
     \<lparr>fer_Field = field, fer_Source = sourceFor sources field, fer_Code = code, fer_Message = message\<rparr>"

definition config_require :: "go_map \<Rightarrow> string \<Rightarrow> string \<Rightarrow> FieldError list" where
  "config_require sources field val =
     (if TrimSpace val \<noteq> [] then [] else [field_error sources field ''REQUIRED'' ''required for selected mode''])"

definition validateStateBucket :: "config_params \<Rightarrow> go_map \<Rightarrow> string \<Rightarrow> FieldError list" where
  "validateStateBucket P sources val =
     (let invalid = [field_error sources FieldStateBucket ''INVALID_URI'' ''state bucket must be an absolute URI such as s3://skiff-state-prod''] in
      case cp_url_Parse P val of
        None \<Rightarrow> invalid
      | Some (scheme, _) \<Rightarrow>
          if scheme = [] then invalid
          else if scheme \<in> {''s3'', ''file'', ''memory''} then []
          else [field_error sources FieldStateBucket ''UNSUPPORTED_URI_SCHEME'' ''state bucket scheme must be s3, file, or memory''])"

definition validateHTTPURL :: "config_params \<Rightarrow> go_map \<Rightarrow> string \<Rightarrow> string \<Rightarrow> FieldError list" where
  "validateHTTPURL P sources field val =
     (let invalid = [field_error sources field ''INVALID_URL'' ''must be an absolute http or https URL''] in
      case cp_url_Parse P val of
        None \<Rightarrow> invalid
      | Some (scheme, hst) \<Rightarrow>
          if scheme = [] \<or> hst = [] then invalid
          else if scheme \<noteq> ''http'' \<and> scheme \<noteq> ''https'' then
            [field_error sources field ''UNSUPPORTED_URL_SCHEME'' ''URL scheme must be http or https'']
          else [])"

definition config_name_char :: "char \<Rightarrow> bool" where
  "config_name_char c = (let n = of_char c :: nat in 97 \<le> n \<and> n \<le> 122 \<or> 48 \<le> n \<and> n \<le> 57 \<or> c = CHR ''-'')"

definition config_validateName :: "go_map \<Rightarrow> string \<Rightarrow> string \<Rightarrow> FieldError list" where
  "config_validateName sources field val =
     (if list_all config_name_char val then []
      else [field_error sources field ''INVALID_NAME'' ''must contain only lowercase letters, digits, and hyphens''])"

text \<open>What the mode requires, and what a field that is set must satisfy.\<close>

definition requireForMode :: "go_map \<Rightarrow> Config \<Rightarrow> FieldError list" where
  "requireForMode sources cfg =
     (let remote = config_require sources FieldEnv (cfg_Env cfg) @ config_require sources FieldProvider (cfg_Provider cfg) @
            config_require sources FieldRegion (cfg_Region cfg) @ config_require sources FieldStateBucket (cfg_StateBucket cfg) in
      if cfg_Mode cfg = ModeAPI then config_require sources FieldAPIURL (cfg_APIURL cfg)
      else if cfg_Mode cfg = ModeDirect then remote
      else if cfg_Mode cfg = ModeSkiffd then remote
      else if cfg_Mode cfg = ModeRunner then
        remote @ config_require sources FieldService (cfg_Service cfg) @ config_require sources FieldControlKey (cfg_ControlKey cfg)
      else [field_error sources FieldMode ''UNSUPPORTED_MODE''
        (''unsupported mode '' @ quote (cfg_Mode cfg) @ ''; expected api, direct, skiffd, or runner'')])"

definition validateStatefulConfig :: "go_map \<Rightarrow> Config \<Rightarrow> FieldError list" where
  "validateStatefulConfig sources cfg =
     (if cfg_StatefulGroup cfg = [] then []
      else config_validateName sources FieldStatefulGroup (cfg_StatefulGroup cfg) @
        (if cfg_StatefulMember cfg < 0 then
           [field_error sources FieldStatefulMember ''INVALID_VALUE'' ''stateful member ordinal must be non-negative''] else []) @
        (if cfg_StatefulGeneration cfg < 0 then
           [field_error sources FieldStatefulGeneration ''INVALID_VALUE'' ''stateful generation must be non-negative''] else []))"

definition validateValues :: "config_params \<Rightarrow> go_map \<Rightarrow> Config \<Rightarrow> FieldError list" where
  "validateValues P sources cfg =
     (if cfg_StateBucket cfg \<noteq> [] then validateStateBucket P sources (cfg_StateBucket cfg) else []) @
     (if cfg_APIURL cfg \<noteq> [] then validateHTTPURL P sources FieldAPIURL (cfg_APIURL cfg) else []) @
     (if cfg_LogLevel cfg \<noteq> [] \<and> cfg_LogLevel cfg \<notin> {''debug'', ''info'', ''warn'', ''error''} then
        [field_error sources FieldLogLevel ''INVALID_LOG_LEVEL'' ''log level must be one of debug, info, warn, or error''] else []) @
     (if cfg_Provider cfg \<noteq> [] then config_validateName sources FieldProvider (cfg_Provider cfg) else []) @
     (if cfg_Env cfg \<noteq> [] then config_validateName sources FieldEnv (cfg_Env cfg) else []) @
     (if cfg_EnvironmentClass cfg \<noteq> [] \<and>
         NormalizeEnvironmentClass (cp_unicode_lower P) (cfg_EnvironmentClass cfg) \<noteq> Inr (cfg_EnvironmentClass cfg) then
        [field_error sources FieldEnvironmentClass ''INVALID_VALUE''
           ''environment class must be one of production, staging, development, or sandbox''] else []) @
     (case cfg_ReleasePolicy cfg of
        Some rp \<Rightarrow> if rpl_RequireSignedReleases rp \<and> rpl_AllowUnsignedCode rp then
          [field_error sources FieldAllowUnsignedCode ''INVALID_VALUE''
             ''allow_unsigned_code cannot be true when require_signed_releases is true''] else []
      | None \<Rightarrow> []) @
     (if cfg_Service cfg \<noteq> [] then config_validateName sources FieldService (cfg_Service cfg) else []) @
     validateStatefulConfig sources cfg"

definition config_Validate :: "config_params \<Rightarrow> Loaded \<Rightarrow> ValidationError option" where
  "config_Validate P loaded =
     (let fields = requireForMode (ldd_Sources loaded) (ldd_Config loaded) @ validateValues P (ldd_Sources loaded) (ldd_Config loaded) in
      if fields = [] then None else Some \<lparr>ver_Fields = fields\<rparr>)"


section \<open>What a valid configuration is\<close>

definition present :: "string \<Rightarrow> bool" where
  "present v \<longleftrightarrow> TrimSpace v \<noteq> []"

definition plain_name :: "string \<Rightarrow> bool" where
  "plain_name v \<longleftrightarrow> list_all config_name_char v"

definition located :: "Config \<Rightarrow> bool" where
  "located cfg \<longleftrightarrow> present (cfg_Env cfg) \<and> present (cfg_Provider cfg) \<and> present (cfg_Region cfg) \<and> present (cfg_StateBucket cfg)"

definition mode_complete :: "Config \<Rightarrow> bool" where
  "mode_complete cfg \<longleftrightarrow>
     cfg_Mode cfg = ''api'' \<and> present (cfg_APIURL cfg) \<or> cfg_Mode cfg \<in> {''direct'', ''skiffd''} \<and> located cfg \<or>
     cfg_Mode cfg = ''runner'' \<and> located cfg \<and> present (cfg_Service cfg) \<and> present (cfg_ControlKey cfg)"

definition store_url :: "config_params \<Rightarrow> string \<Rightarrow> bool" where
  "store_url P v \<longleftrightarrow> v = [] \<or> (\<exists>h. cp_url_Parse P v = Some (''s3'', h) \<or> cp_url_Parse P v = Some (''file'', h) \<or> cp_url_Parse P v = Some (''memory'', h))"

definition http_url :: "config_params \<Rightarrow> string \<Rightarrow> bool" where
  "http_url P v \<longleftrightarrow> v = [] \<or> (\<exists>h. h \<noteq> [] \<and> (cp_url_Parse P v = Some (''http'', h) \<or> cp_url_Parse P v = Some (''https'', h)))"

definition class_ok :: "config_params \<Rightarrow> string \<Rightarrow> bool" where
  "class_ok P c \<longleftrightarrow> c = [] \<or> NormalizeEnvironmentClass (cp_unicode_lower P) c = Inr c"

definition wf_Config :: "config_params \<Rightarrow> Config \<Rightarrow> bool" where
  "wf_Config P cfg \<longleftrightarrow> mode_complete cfg \<and> store_url P (cfg_StateBucket cfg) \<and> http_url P (cfg_APIURL cfg) \<and>
     cfg_LogLevel cfg \<in> {[], ''debug'', ''info'', ''warn'', ''error''} \<and> plain_name (cfg_Provider cfg) \<and> plain_name (cfg_Env cfg) \<and>
     class_ok P (cfg_EnvironmentClass cfg) \<and> (\<forall>rp. cfg_ReleasePolicy cfg = Some rp \<longrightarrow> \<not> (rpl_RequireSignedReleases rp \<and> rpl_AllowUnsignedCode rp)) \<and>
     plain_name (cfg_Service cfg) \<and>
     (cfg_StatefulGroup cfg = [] \<or> plain_name (cfg_StatefulGroup cfg) \<and> 0 \<le> cfg_StatefulMember cfg \<and> 0 \<le> cfg_StatefulGeneration cfg)"

lemma require_empty: "config_require src f v = [] \<longleftrightarrow> present v"
  by (simp add: config_require_def present_def)

lemma validateName_empty: "config_validateName src f v = [] \<longleftrightarrow> plain_name v"
  by (simp add: config_validateName_def plain_name_def)

lemma plain_name_Nil [simp]: "plain_name []"
  by (simp add: plain_name_def)

lemma requireForMode_empty: "requireForMode src cfg = [] \<longleftrightarrow> mode_complete cfg"
  by (simp add: requireForMode_def require_empty mode_complete_def located_def Let_def
      ModeAPI_def ModeDirect_def ModeSkiffd_def ModeRunner_def)

lemma validateStateBucket_empty: "(v \<noteq> [] \<longrightarrow> validateStateBucket P src v = []) \<longleftrightarrow> store_url P v"
  by (auto simp: validateStateBucket_def store_url_def Let_def split: option.splits if_splits)

lemma validateHTTPURL_empty: "(v \<noteq> [] \<longrightarrow> validateHTTPURL P src f v = []) \<longleftrightarrow> http_url P v"
  by (auto simp: validateHTTPURL_def http_url_def Let_def split: option.splits if_splits)

lemma validateStatefulConfig_empty: "validateStatefulConfig src cfg = [] \<longleftrightarrow>
    cfg_StatefulGroup cfg = [] \<or> plain_name (cfg_StatefulGroup cfg) \<and> 0 \<le> cfg_StatefulMember cfg \<and> 0 \<le> cfg_StatefulGeneration cfg"
  by (auto simp: validateStatefulConfig_def validateName_empty)

lemma validateValues_empty: "validateValues P src cfg = [] \<and> mode_complete cfg \<longleftrightarrow> wf_Config P cfg"
proof -
  have b: "(if v \<noteq> [] then validateStateBucket P src v else []) = [] \<longleftrightarrow> store_url P v" for v
    using validateStateBucket_empty [of v P src] by (cases v) simp_all
  have u: "(if v \<noteq> [] then validateHTTPURL P src f v else []) = [] \<longleftrightarrow> http_url P v" for v f
    using validateHTTPURL_empty [of v P src f] by (cases v) simp_all
  have n: "(if v \<noteq> [] then config_validateName src f v else []) = [] \<longleftrightarrow> plain_name v" for v f
    by (simp add: validateName_empty)
  show ?thesis
    unfolding validateValues_def append_is_Nil_conv b u n validateStatefulConfig_empty wf_Config_def class_ok_def
    by (cases "cfg_ReleasePolicy cfg") auto
qed

lemma Validate_None: "config_Validate P loaded = None \<longleftrightarrow> wf_Config P (ldd_Config loaded)"
  using validateValues_empty [of P "ldd_Sources loaded" "ldd_Config loaded"]
  by (auto simp: config_Validate_def requireForMode_empty Let_def)

lemma class_ok_default: "class_ok P c \<Longrightarrow> c \<noteq> [] \<Longrightarrow> \<exists>p. DefaultEnvironmentReleasePolicy (cp_unicode_lower P) c = Inr p"
  by (auto simp: class_ok_def DefaultEnvironmentReleasePolicy_def NormalizeEnvironmentClass_def Let_def split: if_splits)

lemma wf_Config_policy:
  assumes "wf_Config P cfg"
  shows "\<exists>p. EffectiveReleasePolicy P cfg = Inr p \<and> \<not> (erp_RequireSignedReleases p \<and> erp_AllowUnsignedCode p)"
proof (cases "cfg_EnvironmentClass cfg = []")
  case True
  then show ?thesis using assms
    by (auto simp: EffectiveReleasePolicy_def wf_Config_def zero_EnvironmentReleasePolicy_def Let_def split: option.splits)
next
  case False
  then obtain p where p: "DefaultEnvironmentReleasePolicy (cp_unicode_lower P) (cfg_EnvironmentClass cfg) = Inr p"
    using class_ok_default assms unfolding wf_Config_def by blast
  then show ?thesis using assms False default_policy_strict [OF p]
    by (auto simp: EffectiveReleasePolicy_def wf_Config_def Let_def split: option.splits)
qed

text \<open>
  C40: validation is the type of configurations. \<^verbatim>\<open>Validate\<close> reports no field exactly for the well-formed
  configurations: the mode is one of four and everything it requires is present, the state bucket is an s3, file or
  memory URI and the API URL an http(s) URL, names are lower-case names, the environment class is in normal form, and
  the ordinal and generation of a stateful member are not negative. A configuration it accepts has an effective release
  policy, which never both requires signatures and allows unsigned code.
\<close>

theorem config_validate_type:
  "(config_Validate P loaded = None) = wf_Config P (ldd_Config loaded) \<and>
   (config_Validate P loaded = None \<longrightarrow>
     (\<exists>p. EffectiveReleasePolicy P (ldd_Config loaded) = Inr p \<and> \<not> (erp_RequireSignedReleases p \<and> erp_AllowUnsignedCode p)))"
  using wf_Config_policy by (simp add: Validate_None)

definition demo_params :: config_params where
  "demo_params = \<lparr>cp_url_Parse = (\<lambda>v. Some (if prefix ''https://'' v then (''https'', takeWhile (\<lambda>c. c \<noteq> CHR ''/'') (drop 8 v)) else ([], []))), cp_unicode_lower = id\<rparr>"

definition demo_loaded :: Loaded where
  "demo_loaded = (Defaults [])\<lparr>ldd_Config := (ldd_Config (Defaults []))\<lparr>cfg_APIURL := ''https://host'', cfg_EnvironmentClass := ''staging''\<rparr>\<rparr>"

theorem config_validate_type_witness:
  "config_Validate demo_params demo_loaded = None \<and>
   (\<exists>p. EffectiveReleasePolicy demo_params (ldd_Config demo_loaded) = Inr p \<and> \<not> (erp_RequireSignedReleases p \<and> erp_AllowUnsignedCode p))"
proof -
  have trim: "TrimSpace ''https://host'' = ''https://host''" "TrimSpace ''staging'' = ''staging''" by (simp_all add: TrimSpace_printable printable_def)
  have lower: "strings_ToLower id ''staging'' = ''staging''" by (simp add: strings_ToLower_def lower_char_def)
  have "wf_Config demo_params (ldd_Config demo_loaded)"
    by (simp add: wf_Config_def demo_loaded_def Defaults_def zero_Config_def demo_params_def mode_complete_def ModeAPI_def present_def trim
        store_url_def http_url_def class_ok_def NormalizeEnvironmentClass_def lower EnvironmentClassProduction_def EnvironmentClassStaging_def)
  then show ?thesis using config_validate_type [of demo_params demo_loaded] by simp
qed

end
