(* ===== verification/Bootstrap.thy ===== *)
theory Bootstrap
  imports Runner_Trace Config_Check
begin

text \<open>
  How a runner accepts a release (internal/runner/manifest.go, internal/runner/identity.go, internal/runner/config.go):
  it checks its configuration and the identity of its instance, reads the control document of its service or of its
  stateful member, builds the verifier from the trust of the environment root, fetches and verifies the release, rejects
  one that is older than the last accepted one, and only then saves it as its local state.

  \<open>boot_params\<close> holds the parameters of the configuration, the signature schemes and the version of the build. The object
  store and the clock of the process are the \<open>World\<close>; the metadata provider, the state store and the event sink are
  fields of the request, as in the code.
\<close>

section \<open>Requests and results\<close>

record boot_params =
  bp_config :: config_params
  bp_crypto :: crypto
  bp_Version :: string

record IdentityOptions =
  ido_Attempts :: int
  ido_Backoff :: int

record 's BootstrapRequest =
  bq_Config :: Config
  bq_Store :: "'s World option"
  bq_Verifier :: "'s Verifier option"
  bq_MetadataProvider :: "('s, Identity) io option"
  bq_StateStore :: "'s StateStore"
  bq_EventSink :: "'s EventSink option"
  bq_TraceID :: string
  bq_IdentityOptions :: IdentityOptions

record BootstrapResult =
  br_Service :: string
  br_Env :: string
  br_ReleaseID :: string
  br_ControlKey :: string
  br_ReleaseKey :: string
  br_RuntimeKey :: string
  br_Identity :: Identity
  br_Stateful :: "StatefulRuntime option"
  br_LocalState :: LocalState
  br_Events :: "StateEvent list"
  br_Verification :: VerificationResult

definition CodeBootstrapInvalid :: string where "CodeBootstrapInvalid = ''RUNNER_BOOTSTRAP_INVALID''"
definition CodeIdentityFailed :: string where "CodeIdentityFailed = ''IDENTITY_DISCOVERY_FAILED''"
definition CodeTargetMismatch :: string where "CodeTargetMismatch = ''RUNNER_TARGET_MISMATCH''"
definition CodeNoDesiredRelease :: string where "CodeNoDesiredRelease = ''DESIRED_RELEASE_REQUIRED''"
definition CodeReleaseTrustInvalid :: string where "CodeReleaseTrustInvalid = ''RELEASE_TRUST_INVALID''"
definition CodeStaleReleaseRejected :: string where "CodeStaleReleaseRejected = ''STALE_RELEASE_REJECTED''"

definition boot_error :: "string \<Rightarrow> string \<Rightarrow> goerr option \<Rightarrow> BootstrapError" where
  "boot_error code summary err = \<lparr>be_Code = code, be_Summary = summary, be_Err = err, be_Verification = None\<rparr>"

section \<open>Identity and targets\<close>

text \<open>Attempts that are left, after the last error; each failed one but the last waits for the backoff.\<close>

primrec discoverLoop :: "('s, 'z) World_scheme \<Rightarrow> ('s, Identity) io \<Rightarrow> int \<Rightarrow> int \<Rightarrow> nat \<Rightarrow> goerr \<Rightarrow> ('s, Identity) io" where
  "discoverLoop W provider attempts backoff 0 lastErr =
     io_fail (Errorf (''discover instance identity after '' @ show_int attempts @ '' attempt(s): '' @ err_text lastErr) (Some lastErr))"
| "discoverLoop W provider attempts backoff (Suc left) lastErr =
     io_bind (io_try provider) (\<lambda>r. case r of
         Inr identity \<Rightarrow> io_ret identity
       | Inl err \<Rightarrow>
           if left = 0 \<or> backoff \<le> 0 then discoverLoop W provider attempts backoff left err
           else io_bind (io_sleep W backoff) (\<lambda>_. discoverLoop W provider attempts backoff left err))"

definition DiscoverIdentity :: "('s, 'z) World_scheme \<Rightarrow> ('s, Identity) io option \<Rightarrow> IdentityOptions \<Rightarrow> ('s, Identity) io" where
  "DiscoverIdentity W provider opts = (case provider of
      None \<Rightarrow> io_fail (new_error ''metadata provider is required'')
    | Some p \<Rightarrow>
        (let attempts = (if ido_Attempts opts < 1 then 1 else ido_Attempts opts) in
         discoverLoop W p attempts (ido_Backoff opts) (nat attempts) (new_error [])))"

definition validateIdentity :: "Identity \<Rightarrow> Config \<Rightarrow> unit result" where
  "validateIdentity identity cfg =
     (if idn_Provider identity \<noteq> [] \<and> idn_Provider identity \<noteq> cfg_Provider cfg then
        Inl (new_error (''identity provider '' @ quote (idn_Provider identity) @ '' does not match runner provider '' @ quote (cfg_Provider cfg)))
      else if idn_Region identity \<noteq> [] \<and> idn_Region identity \<noteq> cfg_Region cfg then
        Inl (new_error (''identity region '' @ quote (idn_Region identity) @ '' does not match runner region '' @ quote (cfg_Region cfg)))
      else Inr ())"

text \<open>\<^verbatim>\<open>ValidateConfig\<close> of internal/runner/config.go names the runner as the source of the listed fields.\<close>

definition runnerSources :: go_map where
  "runnerSources = fold (\<lambda>f. map_put f ''runner'')
     [FieldMode, FieldEnv, FieldProvider, FieldRegion, FieldStateBucket, FieldService, FieldControlKey, FieldReleaseID,
      FieldStatefulGroup, FieldStatefulMember, FieldStatefulGeneration, FieldStatefulVolumeMountPath, FieldStatefulStableHostname,
      FieldStatefulRecipe, FieldReleaseManifestKey, FieldRuntimeManifestKey, FieldLogs] []"

definition ValidateConfig :: "config_params \<Rightarrow> Config \<Rightarrow> unit result" where
  "ValidateConfig P cfg =
     (case config_Validate P \<lparr>ldd_Config = cfg, ldd_Sources = runnerSources, ldd_ConfigPath = [], ldd_Context = []\<rparr> of
        None \<Rightarrow> Inr () | Some e \<Rightarrow> Inl (new_error (validation_error_text e)))"

section \<open>Control documents\<close>

definition readServiceControl :: "('s, 'z) ObjectStore_scheme \<Rightarrow> string \<Rightarrow> 's \<Rightarrow> (BootstrapError + ServiceControl) \<times> 's" where
  "readServiceControl store key s = (case os_Get store key s of
      (Inl err, t) \<Rightarrow>
        (Inl (if is_store ErrNotFound err then boot_error CodeControlNotFound ''service control object was not found'' (Some err)
              else boot_error CodeInvalidServiceControl (err_text err) (Some err)), t)
    | (Inr object, t) \<Rightarrow> (case canonical_UnmarshalStrict dec_ServiceControl (obj_Body object) of
          Inl err \<Rightarrow> (Inl (boot_error CodeInvalidServiceControl (err_text err) (Some err)), t)
        | Inr control \<Rightarrow>
            (if sc_SchemaVersion control \<noteq> schema_Version then
               Inl (boot_error CodeInvalidServiceControl
                 (''service control schema version '' @ quote (sc_SchemaVersion control) @ '' is not supported'') None)
             else Inr control, t)))"

definition validateControlTarget :: "ServiceControl \<Rightarrow> Config \<Rightarrow> unit result" where
  "validateControlTarget control cfg =
     (if sc_Service control \<noteq> cfg_Service cfg then
        Inl (new_error (''service control service '' @ quote (sc_Service control) @ '' does not match runner service '' @ quote (cfg_Service cfg)))
      else if sc_Env control \<noteq> cfg_Env cfg then
        Inl (new_error (''service control env '' @ quote (sc_Env control) @ '' does not match runner env '' @ quote (cfg_Env cfg)))
      else Inr ())"

definition statefulControlKey :: "Config \<Rightarrow> string" where
  "statefulControlKey cfg =
     (if TrimSpace (cfg_ControlKey cfg) \<noteq> [] then cfg_ControlKey cfg
      else (case paths_StatefulMemberControl (cfg_StatefulGroup cfg) (cfg_StatefulMember cfg) of
          Inl _ \<Rightarrow> cfg_ControlKey cfg | Inr key \<Rightarrow> key))"

text \<open>The checks of \<^verbatim>\<open>statefulRuntimeFromControl\<close> in their order, as conditions that refuse the member.\<close>

definition member_checks :: "StatefulMemberControl \<Rightarrow> Config \<Rightarrow> Identity \<Rightarrow> (bool \<times> string) list" where
  "member_checks control cfg identity =
     (let mismatch = (\<lambda>what a other b. ''stateful member '' @ what @ '' '' @ a @ '' does not match runner '' @ other @ '' '' @ b) in
     [(smc_Group control \<noteq> cfg_StatefulGroup cfg, mismatch ''group'' (quote (smc_Group control)) ''group'' (quote (cfg_StatefulGroup cfg))),
      (smc_Env control \<noteq> cfg_Env cfg, mismatch ''env'' (quote (smc_Env control)) ''env'' (quote (cfg_Env cfg))),
      (smc_Member control \<noteq> cfg_StatefulMember cfg,
         mismatch ''ordinal'' (show_int (smc_Member control)) ''member'' (show_int (cfg_StatefulMember cfg))),
      (cfg_StatefulGeneration cfg > 0 \<and> smc_Generation control \<noteq> cfg_StatefulGeneration cfg,
         mismatch ''generation'' (show_int (smc_Generation control)) ''generation'' (show_int (cfg_StatefulGeneration cfg))),
      (smc_Lease control \<noteq> None,
         ''stateful member '' @ member_name control @ '' has an active lease held by '' @
         quote (case smc_Lease control of None \<Rightarrow> [] | Some l \<Rightarrow> lse_Owner l)),
      (smc_Phase control \<noteq> [] \<and> smc_Phase control \<noteq> StatefulMemberReady,
         ''stateful member '' @ member_name control @ '' is '' @ quote (smc_Phase control) @ '', not ready''),
      (smc_VolumeID control = [], ''stateful member '' @ member_name control @ '' has no durable volume ID''),
      (smc_InstanceID control = [] \<and> idn_InstanceID identity \<noteq> [],
         ''stateful member '' @ member_name control @ '' has no recorded instance identity''),
      (smc_InstanceID control \<noteq> [] \<and> idn_InstanceID identity \<noteq> [] \<and> smc_InstanceID control \<noteq> idn_InstanceID identity,
         mismatch ''instance'' (quote (smc_InstanceID control)) ''instance'' (quote (idn_InstanceID identity))),
      (smc_Zone control \<noteq> [] \<and> idn_Zone identity \<noteq> [] \<and> smc_Zone control \<noteq> idn_Zone identity,
         mismatch ''zone'' (quote (smc_Zone control)) ''zone'' (quote (idn_Zone identity))),
      (cfg_StatefulStableHostname cfg \<noteq> [] \<and> smc_DNSName control \<noteq> [] \<and> cfg_StatefulStableHostname cfg \<noteq> smc_DNSName control,
         ''stateful stable hostname '' @ quote (cfg_StatefulStableHostname cfg) @ '' does not match member DNS name '' @
         quote (smc_DNSName control))])"

definition statefulRuntimeFromControl ::
  "statefulMemberBootstrapDocument \<Rightarrow> Config \<Rightarrow> Identity \<Rightarrow> gotime \<Rightarrow> StatefulRuntime result" where
  "statefulRuntimeFromControl doc cfg identity now =
     (let control = smb_Control doc in
      case find fst (member_checks control cfg identity) of
        Some (_, msg) \<Rightarrow> Inl (new_error msg)
      | None \<Rightarrow> Inr (zero_StatefulRuntime\<lparr>
          sr_Group := smc_Group control, sr_Env := smc_Env control, sr_Member := smc_Member control,
          sr_Generation := smc_Generation control, sr_InstanceID := smc_InstanceID control, sr_VolumeID := smc_VolumeID control,
          sr_VolumeMountPath := cfg_StatefulVolumeMountPath cfg,
          sr_StableHostname := firstNonEmpty [cfg_StatefulStableHostname cfg, smc_DNSName control],
          sr_Recipe := cfg_StatefulRecipe cfg, sr_ControlKey := smb_Key doc, sr_ControlETag := smb_ETag doc,
          sr_ControlVersion := smc_Version control, sr_LastValidatedAt := canonical_Time now\<rparr>))"

section \<open>Stale releases\<close>

text \<open>A release older than the last accepted one is a rollback: only the service's stable release may be one.\<close>

definition checkStaleRelease :: "LocalState option \<Rightarrow> ServiceControl \<Rightarrow> ReleaseManifest \<Rightarrow> unit result" where
  "checkStaleRelease previous control manifest = (case previous of
      None \<Rightarrow> Inr ()
    | Some prev \<Rightarrow>
        if ls_LastAcceptedRelease prev = [] \<or> ls_LastAcceptedRelease prev = rm_ReleaseID manifest then Inr ()
        else if ls_LastAcceptedReleaseCreated prev = [] \<or> rm_CreatedAt manifest = [] then Inr ()
        else (case time_Parse (ls_LastAcceptedReleaseCreated prev) of
            None \<Rightarrow> Inl (new_error (''previous local state release creation time '' @ quote (ls_LastAcceptedReleaseCreated prev) @ '' is invalid''))
          | Some previousCreated \<Rightarrow> (case time_Parse (rm_CreatedAt manifest) of
                None \<Rightarrow> Inl (new_error (''desired release creation time '' @ quote (rm_CreatedAt manifest) @ '' is invalid''))
              | Some desiredCreated \<Rightarrow>
                  if \<not> desiredCreated < previousCreated then Inr ()
                  else if sc_StableRelease control \<noteq> [] \<and> sc_StableRelease control = rm_ReleaseID manifest then Inr ()
                  else Inl (new_error (''desired release '' @ quote (rm_ReleaseID manifest) @ '' was created before last accepted release '' @
                    quote (ls_LastAcceptedRelease prev) @ '' and is not the service stable release'')))))"

definition checkStatefulStaleRelease :: "LocalState option \<Rightarrow> ReleaseManifest \<Rightarrow> unit result" where
  "checkStatefulStaleRelease previous nxt = (case previous of
      None \<Rightarrow> Inr ()
    | Some prev \<Rightarrow>
        if ls_LastAcceptedRelease prev = [] \<or> ls_LastAcceptedRelease prev = rm_ReleaseID nxt then Inr ()
        else if ls_LastAcceptedReleaseCreated prev = [] \<or> rm_CreatedAt nxt = [] then Inr ()
        else (case time_Parse (ls_LastAcceptedReleaseCreated prev) of
            None \<Rightarrow> Inr ()
          | Some p \<Rightarrow> (case time_Parse (rm_CreatedAt nxt) of
                None \<Rightarrow> Inr ()
              | Some created \<Rightarrow>
                  if created < p then Inl (new_error (''stateful release '' @ rm_ReleaseID nxt @ '' was created before local release '' @
                    ls_LastAcceptedRelease prev))
                  else Inr ())))"

section \<open>Release trust\<close>

definition KeychainScheme :: string where "KeychainScheme = ''keychain''"

definition releaseTrustAlgorithm :: "ReleaseTrustKey \<Rightarrow> string" where
  "releaseTrustAlgorithm key =
     (if TrimSpace (rtk_Algorithm key) \<noteq> [] then TrimSpace (rtk_Algorithm key)
      else if TrimSpace (rtk_Backend key) = KeychainScheme then AlgorithmEd25519
      else if TrimSpace (rtk_Backend key) = ''aws-kms'' then AlgorithmECDSAP256SHA256
      else AlgorithmEd25519)"

definition releaseTrustEncoding :: "ReleaseTrustKey \<Rightarrow> string" where
  "releaseTrustEncoding key =
     (if TrimSpace (rtk_Encoding key) \<noteq> [] then TrimSpace (rtk_Encoding key)
      else if releaseTrustAlgorithm key = AlgorithmECDSAP256SHA256 then PublicKeyEncodingPKIXDER
      else PublicKeyEncodingRaw)"

text \<open>The keys of a release trust that are active, as trusted public keys.\<close>

fun trustedPublicKeys :: "string list \<Rightarrow> ReleaseTrustKey list \<Rightarrow> TrustedPublicKey list result" where
  "trustedPublicKeys actives [] = Inr []"
| "trustedPublicKeys actives (key # keys) =
     (let keyID = TrimSpace (rtk_KeyID key) in
      if keyID = [] \<or> TrimSpace (rtk_Status key) \<noteq> ''active'' then trustedPublicKeys actives keys
      else if actives \<noteq> [] \<and> keyID \<notin> set actives then trustedPublicKeys actives keys
      else (case base64_DecodeString (TrimSpace (rtk_PublicKey key)) of
          None \<Rightarrow> Inl (Errorf (''decode release trust public key '' @ quote keyID @ '': illegal base64 data'')
            (Some (new_error ''illegal base64 data'')))
        | Some raw \<Rightarrow>
            if releaseTrustAlgorithm key = AlgorithmEd25519 \<and> length raw \<noteq> 32 then
              Inl (new_error (''release trust public key '' @ quote keyID @ '' must be 32 bytes''))
            else rbind (trustedPublicKeys actives keys) (\<lambda>rest.
              Inr (\<lparr>tpk_KeyID = keyID, tpk_Algorithm = releaseTrustAlgorithm key, tpk_Encoding = releaseTrustEncoding key,
                tpk_PublicKey = raw\<rparr> # rest))))"

text \<open>\<^verbatim>\<open>json.Unmarshal\<close>, with a decoder that skips unknown fields.\<close>

definition json_Unmarshal :: "(json \<Rightarrow> 'a result) \<Rightarrow> body \<Rightarrow> 'a result" where
  "json_Unmarshal dec b = (case b of JsonBody j \<Rightarrow> dec j | BytesBody _ \<Rightarrow> Inl (JsonError ''invalid character''))"

definition rootPolicy :: "config_params \<Rightarrow> EnvironmentRoot \<Rightarrow> EnvironmentReleasePolicy \<Rightarrow> EnvironmentReleasePolicy result" where
  "rootPolicy P root policy = (case ero_ReleasePolicy root of
      Some p \<Rightarrow> Inr p
    | None \<Rightarrow> if ero_EnvironmentClass root \<noteq> [] then DefaultEnvironmentReleasePolicy (cp_unicode_lower P) (ero_EnvironmentClass root)
        else Inr policy)"

text \<open>The keys that the verifier of an environment root trusts; no verifier if unsigned code is allowed and there is no trust.\<close>

definition rootKeys :: "EnvironmentRoot \<Rightarrow> EnvironmentReleasePolicy \<Rightarrow> (string \<times> TrustedPublicKey) list option result" where
  "rootKeys root policy = (case ero_ReleaseTrust root of
      None \<Rightarrow> if erp_AllowUnsignedCode policy then Inr None else Inl (new_error ''environment root does not contain release trust'')
    | Some trust \<Rightarrow>
        rbind (trustedPublicKeys (map TrimSpace (rtr_ActiveKeyIDs trust)) (rtr_Keys trust)) (\<lambda>publicKeys.
        if publicKeys = [] then Inl (new_error ''environment root release trust has no active public keys'')
        else rbind (NewPublicKeyVerifier publicKeys) (\<lambda>keys. Inr (Some keys))))"

definition rootTrust ::
  "boot_params \<Rightarrow> ('s, 'z) ObjectStore_scheme \<Rightarrow> Config \<Rightarrow> EnvironmentReleasePolicy \<Rightarrow>
   ('s, (string \<times> TrustedPublicKey) list option \<times> EnvironmentReleasePolicy) io" where
  "rootTrust B store cfg policy =
     io_bind (io_lift (paths_EnvironmentRoot (cfg_Env cfg))) (\<lambda>rootKey.
     io_bind (io_try (os_Get store rootKey)) (\<lambda>r. case r of
         Inl err \<Rightarrow> io_fail (Errorf (''read environment root '' @ rootKey @ '': '' @ err_text err) (Some err))
       | Inr obj \<Rightarrow> (case json_Unmarshal dec_EnvironmentRoot (obj_Body obj) of
             Inl err \<Rightarrow> io_fail (Errorf (''parse environment root '' @ rootKey @ '': '' @ err_text err) (Some err))
           | Inr root \<Rightarrow>
               io_bind (io_lift (rootPolicy (bp_config B) root policy)) (\<lambda>policy'.
               io_bind (io_lift (rootKeys root policy')) (\<lambda>keys.
               io_ret (keys, policy'))))))"

definition verifierForReleaseTrust ::
  "boot_params \<Rightarrow> ('s, 'z) World_scheme \<Rightarrow> Config \<Rightarrow> 's Verifier option \<Rightarrow> ('s, 's Verifier option \<times> EnvironmentReleasePolicy) io" where
  "verifierForReleaseTrust B W cfg provided =
     io_bind (io_lift (EffectiveReleasePolicy (bp_config B) cfg)) (\<lambda>policy.
     case provided of
       Some v \<Rightarrow> io_ret (Some v, policy)
     | None \<Rightarrow>
         io_bind (rootTrust B W cfg policy) (\<lambda>(keys, policy').
         io_ret (map_option (PublicKeyVerifier W (bp_crypto B)) keys, policy')))"

section \<open>Bootstrap\<close>

text \<open>The closures \<^verbatim>\<open>emit\<close> and \<^verbatim>\<open>fail\<close>; they share the result, whose events and runtime they read and extend.\<close>

type_synonym ('s, 'a) bio = "('s \<times> BootstrapResult, BootstrapError, 'a) eio"

definition bootEvent ::
  "'s BootstrapRequest \<Rightarrow> State \<Rightarrow> string \<Rightarrow> string \<Rightarrow> goerr option \<Rightarrow> Identity option \<Rightarrow> gotime \<Rightarrow> StatefulRuntime option \<Rightarrow> StateEvent" where
  "bootEvent req state releaseID summary cause identity now stateful = \<lparr>
     sev_SchemaVersion = RunnerEventSchemaVersion, sev_Time = canonical_Time now, sev_State = state,
     sev_Service = cfg_Service (bq_Config req), sev_Env = cfg_Env (bq_Config req), sev_ReleaseID = releaseID,
     sev_TraceID = bq_TraceID req, sev_Identity = identity, sev_Stateful = stateful, sev_Health = [], sev_UnitName = [],
     sev_Summary = summary, sev_Error = (case cause of None \<Rightarrow> [] | Some e \<Rightarrow> err_text e)\<rparr>"

definition boot_emit ::
  "('s, 'z) World_scheme \<Rightarrow> 's BootstrapRequest \<Rightarrow> State \<Rightarrow> string \<Rightarrow> string \<Rightarrow> goerr option \<Rightarrow> Identity option \<Rightarrow> ('s, unit) bio" where
  "boot_emit W req state releaseID summary cause identity =
     ebind (host (boot_error [] [] \<circ> Some) (io_now W)) (\<lambda>now.
     ebind (eupdate id) (\<lambda>result.
     let event = bootEvent req state releaseID summary cause identity now (br_Stateful result) in
     ebind (eupdate (\<lambda>result. result\<lparr>br_Events := br_Events result @ [event]\<rparr>)) (\<lambda>_.
     case bq_EventSink req of
       None \<Rightarrow> eret ()
     | Some sink \<Rightarrow> host (boot_error CodeRunnerEventWriteFailed ''write runner state transition event'' \<circ> Some) (sink event))))"

definition boot_fail ::
  "('s, 'z) World_scheme \<Rightarrow> 's BootstrapRequest \<Rightarrow> Identity option \<Rightarrow> string \<Rightarrow> BootstrapError \<Rightarrow> ('s, 'a) bio" where
  "boot_fail W req identity releaseID err p =
     (case boot_emit W req StateFailed releaseID (be_Summary err) (be_Err err) identity p of (_, q) \<Rightarrow> (Inl err, q))"

text \<open>A call whose error of any type ends in \<^verbatim>\<open>fail\<close>.\<close>

definition boot_try ::
  "('s, 'z) World_scheme \<Rightarrow> 's BootstrapRequest \<Rightarrow> Identity option \<Rightarrow> string \<Rightarrow> ('e \<Rightarrow> BootstrapError) \<Rightarrow>
   ('s \<Rightarrow> ('e + 'a) \<times> 's) \<Rightarrow> ('s, 'a) bio" where
  "boot_try W req identity releaseID mk m p =
     (case m (fst p) of
        (Inl e, t) \<Rightarrow> boot_fail W req identity releaseID (mk e) (t, snd p)
      | (Inr x, t) \<Rightarrow> (Inr x, (t, snd p)))"

definition own_text :: "string \<Rightarrow> goerr \<Rightarrow> BootstrapError" where
  "own_text code e = boot_error code (err_text e) (Some e)"

definition with_text :: "string \<Rightarrow> string \<Rightarrow> goerr \<Rightarrow> BootstrapError" where
  "with_text code summary e = boot_error code summary (Some e)"

text \<open>\<^verbatim>\<open>FetchError\<close> as an error value, and what \<^verbatim>\<open>Bootstrap\<close> makes of it; what it makes of the errors of the readers.\<close>

definition fetch_goerr :: "FetchError \<Rightarrow> goerr" where
  "fetch_goerr e = Errorf
     (if fe_Key e \<noteq> [] then fe_Code e @ '' '' @ quote (fe_Key e) @ '': '' @ fe_Summary e else fe_Code e @ '': '' @ fe_Summary e) (fe_Err e)"

definition from_fetch :: "FetchError \<Rightarrow> BootstrapError" where
  "from_fetch e = \<lparr>be_Code = fe_Code e, be_Summary = fe_Summary e, be_Err = Some (fetch_goerr e), be_Verification = fe_Verification e\<rparr>"

definition from_boot :: "BootstrapError \<Rightarrow> BootstrapError" where
  "from_boot e = boot_error (be_Code e) (be_Summary e) (be_Err e)"

text \<open>No state yet is not an error; any other failure to load it is.\<close>

definition loadPrevious :: "'s StateStore \<Rightarrow> ('s, LocalState option) io" where
  "loadPrevious store =
     io_bind (io_try (sst_LoadState store)) (\<lambda>r. case r of
         Inl err \<Rightarrow> if is_state_not_found err then io_ret None else io_fail err
       | Inr previous \<Rightarrow> io_ret previous)"

definition bootFetchOptions ::
  "boot_params \<Rightarrow> Config \<Rightarrow> string \<Rightarrow> string \<Rightarrow> 's Verifier option \<Rightarrow> EnvironmentReleasePolicy \<Rightarrow> gotime \<Rightarrow> 's FetchOptions" where
  "bootFetchOptions B cfg releaseID releaseKey verifier policy now = \<lparr>
     fo_Service = cfg_Service cfg, fo_Env = cfg_Env cfg, fo_ReleaseID = releaseID, fo_ReleaseKey = releaseKey, fo_Verifier = verifier,
     fo_Now = now, fo_RequireArtifactDigest = erp_RequireSignedReleases policy, fo_AllowUnsignedRelease = erp_AllowUnsignedCode policy,
     fo_RunnerVersion = bp_Version B\<rparr>"

text \<open>The verification of a release: the verifier of the environment, the fetch, and the comparison with the last one.\<close>

definition bootFetch ::
  "boot_params \<Rightarrow> ('s, 'z) World_scheme \<Rightarrow> 's World \<Rightarrow> 's BootstrapRequest \<Rightarrow> Identity \<Rightarrow> string \<Rightarrow> string \<Rightarrow>
   (ReleaseManifest \<Rightarrow> unit result) \<Rightarrow> ('s, FetchedRelease) bio" where
  "bootFetch B W store req identity releaseID releaseKey stale =
     ebind (boot_try W req (Some identity) releaseID (with_text CodeReleaseTrustInvalid ''load release trust'')
       (verifierForReleaseTrust B store (bq_Config req) (bq_Verifier req))) (\<lambda>(verifier, policy).
     ebind (host (boot_error [] [] \<circ> Some) (io_now W)) (\<lambda>now.
     ebind (boot_try W req (Some identity) releaseID from_fetch
       (Fetch store (bootFetchOptions B (bq_Config req) releaseID releaseKey verifier policy now))) (\<lambda>fetched.
     ebind (boot_try W req (Some identity) (rm_ReleaseID (fr_ReleaseManifest fetched)) (own_text CodeStaleReleaseRejected)
       (io_lift (stale (fr_ReleaseManifest fetched)))) (\<lambda>_.
     eret fetched))))"

definition acceptedState ::
  "'s BootstrapRequest \<Rightarrow> Identity \<Rightarrow> FetchedRelease \<Rightarrow> string \<Rightarrow> StatefulRuntime option \<Rightarrow> gotime \<Rightarrow> LocalState" where
  "acceptedState req identity fetched controlKey stateful now = zero_LocalState\<lparr>
     ls_SchemaVersion := RunnerStateSchemaVersion, ls_Service := cfg_Service (bq_Config req), ls_Env := cfg_Env (bq_Config req),
     ls_CurrentState := StatePreparingArtifact, ls_LastAcceptedRelease := rm_ReleaseID (fr_ReleaseManifest fetched),
     ls_LastAcceptedReleaseCreated := rm_CreatedAt (fr_ReleaseManifest fetched), ls_ReleaseDigest := vr_Digest (fr_Verification fetched),
     ls_RuntimeManifestDigest := vr_RuntimeManifestDigest (fr_Verification fetched), ls_ControlKey := controlKey,
     ls_ReleaseKey := fr_ReleaseKey fetched, ls_RuntimeManifestKey := fr_RuntimeManifestKey fetched, ls_TraceID := bq_TraceID req,
     ls_UpdatedAt := canonical_Time now, ls_Identity := Some identity, ls_Stateful := stateful,
     ls_Verification := fr_Verification fetched\<rparr>"

definition bootSave ::
  "('s, 'z) World_scheme \<Rightarrow> 's BootstrapRequest \<Rightarrow> Identity \<Rightarrow> FetchedRelease \<Rightarrow> string \<Rightarrow> StatefulRuntime option \<Rightarrow> ('s, LocalState) bio" where
  "bootSave W req identity fetched controlKey stateful =
     ebind (host (boot_error [] [] \<circ> Some) (io_now W)) (\<lambda>now.
     let localState = acceptedState req identity fetched controlKey stateful now in
     ebind (boot_try W req (Some identity) (rm_ReleaseID (fr_ReleaseManifest fetched))
       (with_text CodeLocalStateWriteFailed ''write runner local state'') (sst_SaveState (bq_StateStore req) localState)) (\<lambda>_.
     eret localState))"

definition withRelease :: "FetchedRelease \<Rightarrow> LocalState \<Rightarrow> BootstrapResult \<Rightarrow> BootstrapResult" where
  "withRelease fetched localState result = result\<lparr>br_ReleaseKey := fr_ReleaseKey fetched, br_RuntimeKey := fr_RuntimeManifestKey fetched,
     br_LocalState := localState, br_Verification := fr_Verification fetched\<rparr>"

definition bootstrapStateful ::
  "boot_params \<Rightarrow> ('s, 'z) World_scheme \<Rightarrow> 's World \<Rightarrow> 's BootstrapRequest \<Rightarrow> Identity \<Rightarrow> ('s, BootstrapResult) bio" where
  "bootstrapStateful B W store req identity =
     (let cfg = bq_Config req; rel = cfg_ReleaseID cfg; some = Some identity in
      if rel = [] then boot_fail W req some [] (boot_error CodeNoDesiredRelease ''stateful runner release_id is required'' None)
      else
        ebind (boot_emit W req StateFetchingManifest rel ''fetching stateful member control and release'' None some) (\<lambda>_.
        ebind (boot_try W req some rel (with_text CodeLocalStateReadFailed ''read runner local state'') (loadPrevious (bq_StateStore req))) (\<lambda>previous.
        ebind (boot_try W req some rel from_boot (readStatefulMemberControl store (statefulControlKey cfg))) (\<lambda>member.
        ebind (host (boot_error [] [] \<circ> Some) (io_now W)) (\<lambda>now.
        ebind (boot_try W req some rel (own_text CodeTargetMismatch) (io_lift (statefulRuntimeFromControl member cfg identity now))) (\<lambda>runtime0.
        ebind (boot_emit W req StateVerifyingRelease rel ''verifying stateful release and runtime manifest'' None some) (\<lambda>_.
        ebind (bootFetch B W store req identity rel (cfg_ReleaseManifestKey cfg) (checkStatefulStaleRelease previous)) (\<lambda>fetched.
        let runtime = runtime0\<lparr>sr_ReleaseManifest := firstNonEmpty [cfg_ReleaseManifestKey cfg, fr_ReleaseKey fetched],
              sr_RuntimeManifest := firstNonEmpty [cfg_RuntimeManifestKey cfg, fr_RuntimeManifestKey fetched]\<rparr> in
        ebind (bootSave W req identity fetched (sr_ControlKey runtime) (Some runtime)) (\<lambda>localState.
        ebind (eupdate (\<lambda>result. (withRelease fetched localState result)\<lparr>br_ReleaseID := rm_ReleaseID (fr_ReleaseManifest fetched),
          br_ControlKey := sr_ControlKey runtime, br_Stateful := Some runtime\<rparr>)) (\<lambda>_.
        ebind (boot_emit W req StatePreparingArtifact (rm_ReleaseID (fr_ReleaseManifest fetched))
          ''stateful release verified; ready to prepare volume and artifact'' None some) (\<lambda>_.
        eupdate id)))))))))))"

definition bootstrapService ::
  "boot_params \<Rightarrow> ('s, 'z) World_scheme \<Rightarrow> 's World \<Rightarrow> 's BootstrapRequest \<Rightarrow> Identity \<Rightarrow> ('s, BootstrapResult) bio" where
  "bootstrapService B W store req identity =
     (let cfg = bq_Config req; some = Some identity in
      ebind (boot_emit W req StateFetchingManifest [] ''fetching service control and desired release'' None some) (\<lambda>_.
      ebind (boot_try W req some [] (with_text CodeLocalStateReadFailed ''read runner local state'') (loadPrevious (bq_StateStore req))) (\<lambda>previous.
      ebind (boot_try W req some [] from_boot (readServiceControl store (cfg_ControlKey cfg))) (\<lambda>control.
      ebind (boot_try W req some (sc_DesiredRelease control) (own_text CodeTargetMismatch) (io_lift (validateControlTarget control cfg))) (\<lambda>_.
      if sc_DesiredRelease control = [] then
        boot_fail W req some [] (boot_error CodeNoDesiredRelease ''service control does not contain desired_release'' None)
      else
        ebind (eupdate (\<lambda>result. result\<lparr>br_ReleaseID := sc_DesiredRelease control\<rparr>)) (\<lambda>_.
        ebind (boot_emit W req StateVerifyingRelease (sc_DesiredRelease control) ''verifying desired release and runtime manifest'' None some) (\<lambda>_.
        ebind (bootFetch B W store req identity (sc_DesiredRelease control) [] (checkStaleRelease previous control)) (\<lambda>fetched.
        ebind (bootSave W req identity fetched (cfg_ControlKey cfg) None) (\<lambda>localState.
        ebind (boot_emit W req StatePreparingArtifact (rm_ReleaseID (fr_ReleaseManifest fetched)) ''release verified; ready to prepare artifact''
          None some) (\<lambda>_.
        eupdate (withRelease fetched localState)))))))))))"

definition bootIdentity :: "('s, 'z) World_scheme \<Rightarrow> 's BootstrapRequest \<Rightarrow> ('s, Identity) bio" where
  "bootIdentity W req =
     ebind (boot_try W req None [] (with_text CodeIdentityFailed ''discover cloud instance identity'')
       (DiscoverIdentity W (bq_MetadataProvider req) (bq_IdentityOptions req))) (\<lambda>identity.
     ebind (boot_try W req (Some identity) [] (own_text CodeTargetMismatch) (io_lift (validateIdentity identity (bq_Config req)))) (\<lambda>_.
     ebind (if idn_ObservedAt identity = [] then
         ebind (host (boot_error [] [] \<circ> Some) (io_now W)) (\<lambda>now. eret (identity\<lparr>idn_ObservedAt := canonical_Time now\<rparr>))
       else eret identity) (\<lambda>identity'.
     ebind (eupdate (\<lambda>result. result\<lparr>br_Identity := identity'\<rparr>)) (\<lambda>_.
     eret identity'))))"

definition bootSteps :: "boot_params \<Rightarrow> ('s, 'z) World_scheme \<Rightarrow> 's BootstrapRequest \<Rightarrow> ('s, BootstrapResult) bio" where
  "bootSteps B W req = (case bq_Store req of
      None \<Rightarrow> boot_fail W req None [] (boot_error CodeBootstrapInvalid ''object store is required'' None)
    | Some store \<Rightarrow>
        ebind (boot_try W req None [] (own_text CodeBootstrapInvalid) (io_lift (ValidateConfig (bp_config B) (bq_Config req)))) (\<lambda>_.
        ebind (boot_emit W req StateBooting [] ''runner boot started'' None None) (\<lambda>_.
        ebind (bootIdentity W req) (\<lambda>identity.
        if cfg_StatefulGroup (bq_Config req) \<noteq> [] then bootstrapStateful B W store req identity
        else bootstrapService B W store req identity))))"

definition zero_BootstrapResult :: BootstrapResult where
  "zero_BootstrapResult = \<lparr>br_Service = [], br_Env = [], br_ReleaseID = [], br_ControlKey = [], br_ReleaseKey = [], br_RuntimeKey = [],
     br_Identity = zero_Identity, br_Stateful = None, br_LocalState = zero_LocalState, br_Events = [],
     br_Verification = zero_VerificationResult\<rparr>"

definition Bootstrap :: "boot_params \<Rightarrow> ('s, 'z) World_scheme \<Rightarrow> 's BootstrapRequest \<Rightarrow> ('s, BootstrapError, BootstrapResult) eio" where
  "Bootstrap B W req s =
     (case bootSteps B W req (s, zero_BootstrapResult\<lparr>br_Service := cfg_Service (bq_Config req), br_Env := cfg_Env (bq_Config req),
         br_ControlKey := cfg_ControlKey (bq_Config req)\<rparr>) of (r, (t, _)) \<Rightarrow> (r, t))"

end
