(* ===== verification/Bootstrap_Safety.thy ===== *)
theory Bootstrap_Safety
  imports Bootstrap
begin

text \<open>
  What a bootstrap may save. The object reads and the writes of the local state of a run are recorded in order; the
  lemmas follow them through \<^verbatim>\<open>Bootstrap\<close> with the two triples \<open>logs\<close> and \<open>emits\<close>, which relate the actions of an
  operation with its result, whatever the host answers.
\<close>

section \<open>Recorded reads\<close>

definition trace_reads :: "('s, 'z) World_scheme \<Rightarrow> ('s \<times> action list) World" where
  "trace_reads W = (trace_world W)\<lparr>os_Get := (\<lambda>k. traced (AControl k) (os_Get W k))\<rparr>"

definition trace_boot :: "'s BootstrapRequest \<Rightarrow> ('s \<times> action list) BootstrapRequest" where
  "trace_boot req = \<lparr>bq_Config = bq_Config req, bq_Store = map_option trace_reads (bq_Store req),
     bq_Verifier = map_option (\<lambda>v d sg. silent (v d sg)) (bq_Verifier req),
     bq_MetadataProvider = map_option silent (bq_MetadataProvider req), bq_StateStore = trace_store (bq_StateStore req),
     bq_EventSink = map_option trace_sink (bq_EventSink req), bq_TraceID = bq_TraceID req,
     bq_IdentityOptions = bq_IdentityOptions req\<rparr>"

section \<open>Triples on recorded actions\<close>

text \<open>The record is a part of the state; \<open>log\<close> selects it. Each run extends it by actions that fit the result.\<close>

definition logs :: "('p \<Rightarrow> action list) \<Rightarrow> ('p \<Rightarrow> 'r \<times> 'p) \<Rightarrow> (action list \<Rightarrow> 'r \<Rightarrow> bool) \<Rightarrow> bool" where
  "logs log m Q \<longleftrightarrow> (\<forall>p r q. m p = (r, q) \<longrightarrow> (\<exists>d. log q = log p @ d \<and> Q d r))"

lemma logsI: "(\<And>p r q. m p = (r, q) \<Longrightarrow> \<exists>d. log q = log p @ d \<and> Q d r) \<Longrightarrow> logs log m Q"
  unfolding logs_def by blast

lemma logsD: "logs log m Q \<Longrightarrow> m p = (r, q) \<Longrightarrow> \<exists>d. log q = log p @ d \<and> Q d r"
  unfolding logs_def by blast

lemma logs_mono: "logs log m Q \<Longrightarrow> (\<And>d r. Q d r \<Longrightarrow> Q' d r) \<Longrightarrow> logs log m Q'"
  unfolding logs_def by blast

lemma logs_run: "logs log m Q \<Longrightarrow> logs log m (\<lambda>d r. Q d r \<and> (\<exists>p q. m p = (r, q)))"
  unfolding logs_def by blast

lemma logs_ebind:
  assumes "logs log m Q1" "\<And>x d1. Q1 d1 (Inr x) \<Longrightarrow> logs log (f x) (\<lambda>d2 r. Q (d1 @ d2) r)" "\<And>d e. Q1 d (Inl e) \<Longrightarrow> Q d (Inl e)"
  shows "logs log (ebind m f) Q"
proof (rule logsI)
  fix p r q assume run: "ebind m f p = (r, q)"
  obtain r1 p1 where m: "m p = (r1, p1)" by fastforce
  with assms(1) obtain d1 where d1: "log p1 = log p @ d1" "Q1 d1 r1" by (blast dest: logsD)
  show "\<exists>d. log q = log p @ d \<and> Q d r"
  proof (cases r1)
    case (Inl e)
    then show ?thesis using run m d1 assms(3) by (auto simp: ebind_def)
  next
    case (Inr x)
    then have "f x p1 = (r, q)" using run m by (simp add: ebind_def)
    with assms(2) [of d1 x] d1 Inr obtain d2 where "log q = log p1 @ d2" "Q (d1 @ d2) r" by (blast dest: logsD)
    then show ?thesis using d1 by auto
  qed
qed

lemma io_bind_ebind: "io_bind m f = ebind m f"
  and fetch_bind_ebind: "fetch_bind n g = ebind n g"
  by (auto simp: io_bind_def fetch_bind_def ebind_def fun_eq_iff)

lemma logs_bind:
  assumes "logs log m Q1" "\<And>x d1. Q1 d1 (Inr x) \<Longrightarrow> logs log (f x) (\<lambda>d2 r. Q (d1 @ d2) r)" "\<And>d e. Q1 d (Inl e) \<Longrightarrow> Q d (Inl e)"
  shows "logs log (io_bind m f) Q"
  unfolding io_bind_ebind by (rule logs_ebind [OF assms])

lemma logs_fetch_bind:
  assumes "logs log m Q1" "\<And>x d1. Q1 d1 (Inr x) \<Longrightarrow> logs log (f x) (\<lambda>d2 r. Q (d1 @ d2) r)" "\<And>d e. Q1 d (Inl e) \<Longrightarrow> Q d (Inl e)"
  shows "logs log (fetch_bind m f) Q"
  unfolding fetch_bind_ebind by (rule logs_ebind [OF assms])

text \<open>Inside an operation with shared variables.\<close>

abbreviation emits :: "(('s \<times> action list) \<times> 'v, 'e, 'a) eio \<Rightarrow> (action list \<Rightarrow> 'e + 'a \<Rightarrow> bool) \<Rightarrow> bool" where
  "emits \<equiv> logs (snd \<circ> fst)"

text \<open>What the primitives record.\<close>

lemma logs_ret: "logs snd (io_ret x) (\<lambda>d r. d = [] \<and> r = Inr x)"
  and logs_fail: "logs snd (io_fail e) (\<lambda>d r. d = [] \<and> r = Inl e)"
  and logs_lift: "logs snd (io_lift y) (\<lambda>d r. d = [] \<and> r = y)"
  and logs_silent: "logs snd (silent n) (\<lambda>d r. d = [])"
  and logs_traced: "logs snd (traced act k) (\<lambda>d r. d = [act r] \<and> (\<exists>p q. k p = (r, q)))"
  by (auto simp: logs_def io_ret_def io_fail_def io_lift_def silent_def traced_def split: prod.splits)

lemma logs_try: "logs log m Q \<Longrightarrow> logs log (io_try m) (\<lambda>d r. \<exists>x. r = Inr x \<and> Q d x)"
  unfolding logs_def io_try_def by (fastforce split: prod.splits)

lemma logs_now: "logs snd (io_now (trace_world W)) (\<lambda>d r. d = [] \<and> (\<exists>x. r = Inr x))"
  by (auto simp: logs_def io_now_def trace_world_def silent_def split: prod.splits)

lemma logs_sleep: "logs snd (io_sleep (trace_world W) n) (\<lambda>d r. d = [ASleep (is_ok r)])"
  by (auto simp: logs_def io_sleep_def trace_world_def is_ok_def split: prod.splits option.splits)

lemma logs_ctx: "logs snd (io_ctx (trace_world W)) (\<lambda>d r. d = [])"
  by (auto simp: logs_def io_ctx_def trace_world_def silent_def split: prod.splits option.splits)

lemma trace_reads_simps:
  "io_now (trace_reads W) = io_now (trace_world W)" "io_sleep (trace_reads W) = io_sleep (trace_world W)"
  "io_ctx (trace_reads W) = io_ctx (trace_world W)" "os_Get (trace_reads W) = (\<lambda>k. traced (AControl k) (os_Get W k))"
  by (auto simp: trace_reads_def io_now_def io_sleep_def io_ctx_def fun_eq_iff split: prod.splits option.splits)

lemma emits_host: "logs snd m Q \<Longrightarrow> emits (host exit m) (\<lambda>d r. case r of Inl _ \<Rightarrow> (\<exists>e. Q d (Inl e)) | Inr x \<Rightarrow> Q d (Inr x))"
  unfolding logs_def host_def by (fastforce split: prod.splits sum.splits)

lemma emits_ret: "emits (eret x) (\<lambda>d r. d = [] \<and> r = Inr x)"
  and emits_update: "emits (eupdate g) (\<lambda>d r. d = [] \<and> (\<exists>v. r = Inr v))"
  by (auto simp: logs_def eret_def eupdate_def)

section \<open>Runs without a save\<close>

definition unsaved :: "action list \<Rightarrow> bool" where
  "unsaved d \<longleftrightarrow> list_all (\<lambda>a. case a of ASave _ _ \<Rightarrow> False | _ \<Rightarrow> True) d"

lemma unsaved_simps [simp]:
  "unsaved []" "unsaved (d1 @ d2) \<longleftrightarrow> unsaved d1 \<and> unsaved d2"
  "unsaved (AEmit ev b # d) = unsaved d" "unsaved (AControl k ob # d) = unsaved d" "unsaved (ALoad b # d) = unsaved d"
  "unsaved (ASleep b # d) = unsaved d" "\<not> unsaved (ASave st b # d)"
  by (simp_all add: unsaved_def)

lemma unsaved_host: "logs snd m (\<lambda>d r. unsaved d) \<Longrightarrow> emits (host f m) (\<lambda>d r. unsaved d)"
  by (drule emits_host [where exit = f]) (erule logs_mono, auto split: sum.splits)

lemma unsaved_bind: "emits m (\<lambda>d r. unsaved d) \<Longrightarrow> (\<And>x. emits (f x) (\<lambda>d r. unsaved d)) \<Longrightarrow> emits (ebind m f) (\<lambda>d r. unsaved d)"
  by (rule logs_ebind) (auto intro: logs_mono)

lemma unsaved_prims:
  "emits (eupdate g) (\<lambda>d r. unsaved d)" "emits (eret x) (\<lambda>d r. unsaved d)" "logs snd (io_now (trace_world W)) (\<lambda>d r. unsaved d)"
  "logs snd (trace_sink k ev) (\<lambda>d r. unsaved d)"
  unfolding trace_sink_def
  by (rule logs_mono [OF emits_update], simp, rule logs_mono [OF emits_ret], simp, rule logs_mono [OF logs_now], simp,
      rule logs_mono [OF logs_traced], auto)

lemma emits_emit: "emits (boot_emit (trace_world W) (trace_boot req) st rel sm cause i) (\<lambda>d r. unsaved d)"
  unfolding boot_emit_def Let_def
  by (cases "bq_EventSink req") (auto simp: trace_boot_def intro!: unsaved_bind unsaved_host unsaved_prims)

lemma emits_fail: "emits (boot_fail (trace_world W) (trace_boot req) i rel err) (\<lambda>d r. unsaved d \<and> r = Inl err)"
proof (rule logsI)
  fix p r q assume run: "boot_fail (trace_world W) (trace_boot req) i rel err p = (r, q)"
  obtain x q' where e: "boot_emit (trace_world W) (trace_boot req) StateFailed rel (be_Summary err) (be_Err err) i p = (x, q')"
    by (rule prod.exhaust)
  then have "q = q'" "r = Inl err" using run by (auto simp: boot_fail_def)
  then show "\<exists>d. (snd \<circ> fst) q = (snd \<circ> fst) p @ d \<and> unsaved d \<and> r = Inl err" using logsD [OF emits_emit e] by blast
qed

text \<open>A call that saves nothing, with what its actions show of its value.\<close>

lemma emits_try:
  assumes "logs snd m (\<lambda>d r. unsaved d \<and> (\<forall>x. r = Inr x \<longrightarrow> F d x))"
  shows "emits (boot_try (trace_world W) (trace_boot req) i rel mk m) (\<lambda>d r. unsaved d \<and> (\<forall>x. r = Inr x \<longrightarrow> F d x))"
proof (rule logsI)
  fix p r q assume run: "boot_try (trace_world W) (trace_boot req) i rel mk m p = (r, q)"
  obtain r1 p1 where m: "m (fst p) = (r1, p1)" by (rule prod.exhaust)
  from logsD [OF assms m] obtain d1 where d1: "snd p1 = snd (fst p) @ d1" "unsaved d1" "\<And>x. r1 = Inr x \<Longrightarrow> F d1 x" by auto
  show "\<exists>d. (snd \<circ> fst) q = (snd \<circ> fst) p @ d \<and> unsaved d \<and> (\<forall>x. r = Inr x \<longrightarrow> F d x)"
  proof (cases r1)
    case (Inl e)
    then have f: "boot_fail (trace_world W) (trace_boot req) i rel (mk e) (p1, snd p) = (r, q)" using run m by (simp add: boot_try_def)
    from logsD [OF emits_fail f] show ?thesis using d1 by auto
  next
    case (Inr x)
    then show ?thesis using run m d1 by (auto simp: boot_try_def)
  qed
qed

section \<open>Guarded saves\<close>

text \<open>
  At most one save, and the actions before it guard the state it saves; an operation that succeeds has made it, with success.
\<close>

definition guarded :: "(action list \<Rightarrow> LocalState \<Rightarrow> bool) \<Rightarrow> action list \<Rightarrow> 'e + 'a \<Rightarrow> bool" where
  "guarded G d r \<longleftrightarrow> unsaved d \<and> \<not> is_ok r \<or>
     (\<exists>d1 st ok d2. d = d1 @ ASave st ok # d2 \<and> unsaved d1 \<and> unsaved d2 \<and> G d1 st \<and> (is_ok r \<longrightarrow> ok))"

lemma guardedI: "unsaved d1 \<Longrightarrow> unsaved d2 \<Longrightarrow> G d1 st \<Longrightarrow> (is_ok r \<Longrightarrow> ok) \<Longrightarrow> guarded G (d1 @ ASave st ok # d2) r"
  unfolding guarded_def by blast

lemma guardedE:
  assumes "guarded G d r"
  obtains "unsaved d" "\<not> is_ok r" | d1 st ok d2 where "d = d1 @ ASave st ok # d2" "unsaved d1" "unsaved d2" "G d1 st" "is_ok r \<Longrightarrow> ok"
  using assms unfolding guarded_def by blast

lemma guarded_unsaved: "unsaved d \<Longrightarrow> guarded G d (Inl e)"
  by (simp add: guarded_def is_ok_def)

lemma guarded_saved:
  assumes "guarded G d r" "ASave st ok \<in> set d"
  shows "\<exists>d1 d2. d = d1 @ ASave st ok # d2 \<and> G d1 st"
proof -
  have u: "ASave st ok \<notin> set d'" if "unsaved d'" for d' using that by (auto simp: unsaved_def list_all_iff)
  from assms(1) show ?thesis
    by (rule guardedE) (use assms(2) u in auto)
qed

lemma guarded_mono:
  assumes "\<And>d st. G d st \<Longrightarrow> G' d st" "guarded G d r"
  shows "guarded G' d r"
  using assms(2)
proof (rule guardedE)
  fix d1 st ok d2 assume "d = d1 @ ASave st ok # d2" "unsaved d1" "unsaved d2" "G d1 st" "is_ok r \<Longrightarrow> ok"
  then show ?thesis using guardedI [of d1 d2 G' st r ok] assms(1) by simp
qed (simp add: guarded_def)

lemma guarded_prepend:
  assumes "unsaved d1" "guarded (\<lambda>d. G (d1 @ d)) d2 r"
  shows "guarded G (d1 @ d2) r"
  using assms(2)
proof (rule guardedE)
  fix d3 st ok d4 assume "d2 = d3 @ ASave st ok # d4" "unsaved d3" "unsaved d4" "G (d1 @ d3) st" "is_ok r \<Longrightarrow> ok"
  then show ?thesis using guardedI [of "d1 @ d3" d4 G st r ok] assms(1) by simp
qed (use assms(1) in \<open>simp add: guarded_def\<close>)

lemma guarded_append:
  assumes "guarded G d1 r1" "unsaved d2" "is_ok r \<Longrightarrow> is_ok r1"
  shows "guarded G (d1 @ d2) r"
  using assms(1)
proof (rule guardedE)
  fix d3 st ok d4 assume "d1 = d3 @ ASave st ok # d4" "unsaved d3" "unsaved d4" "G d3 st" "is_ok r1 \<Longrightarrow> ok"
  then show ?thesis using guardedI [of d3 "d4 @ d2" G st r ok] assms(2,3) by simp
qed (use assms(2,3) in \<open>auto simp: guarded_def\<close>)

lemma emits_before:
  assumes "emits m (\<lambda>d r. unsaved d \<and> (\<forall>x. r = Inr x \<longrightarrow> F d x))"
    and "\<And>x d1. unsaved d1 \<Longrightarrow> F d1 x \<Longrightarrow> emits (f x) (\<lambda>d2 r. guarded (\<lambda>d. G (d1 @ d)) d2 r)"
  shows "emits (ebind m f) (\<lambda>d r. guarded G d r)"
proof (rule logs_ebind [OF assms(1)])
  fix x d1 assume "unsaved d1 \<and> (\<forall>y. Inr x = Inr y \<longrightarrow> F d1 y)"
  then show "emits (f x) (\<lambda>d2 r. guarded G (d1 @ d2) r)"
    using assms(2) [of d1 x] by (auto intro: logs_mono guarded_prepend)
qed (simp add: guarded_unsaved)

lemma emits_before_plain:
  assumes "emits m (\<lambda>d r. unsaved d)" "\<And>x d1. unsaved d1 \<Longrightarrow> emits (f x) (\<lambda>d2 r. guarded (\<lambda>d. G (d1 @ d)) d2 r)"
  shows "emits (ebind m f) (\<lambda>d r. guarded G d r)"
  by (rule emits_before [where F = "\<lambda>_ _. True"]) (use assms in simp_all)

lemma emits_then:
  assumes "emits m (\<lambda>d r. unsaved d)" "\<And>x. emits (f x) (\<lambda>d r. guarded G d r)" "\<And>d d' st. G d st \<Longrightarrow> G (d' @ d) st"
  shows "emits (ebind m f) (\<lambda>d r. guarded G d r)"
  by (rule emits_before_plain [OF assms(1)], rule logs_mono [OF assms(2)]) (erule guarded_mono [rotated], rule assms(3))

lemma emits_after:
  assumes "emits m (\<lambda>d r. guarded G d r)" "\<And>x. emits (f x) (\<lambda>d r. unsaved d)"
  shows "emits (ebind m f) (\<lambda>d r. guarded G d r)"
  by (rule logs_ebind [OF assms(1)])
    (auto intro: logs_mono [OF assms(2)] guarded_append [where ?d2.0 = "[]", simplified] elim!: guarded_append simp: is_ok_def)

lemma emits_now: "emits (host f (io_now (trace_world W))) (\<lambda>d r. unsaved d \<and> (\<forall>x. r = Inr x \<longrightarrow> d = []))"
  by (rule logs_mono [OF emits_host [OF logs_now]]) (auto split: sum.splits)

lemma emits_try_save:
  assumes "G [] x"
  shows "emits (boot_try (trace_world W) (trace_boot req) i rel mk (sst_SaveState (trace_store st) x)) (\<lambda>d r. guarded G d r)"
proof (rule logsI)
  fix p r q assume run: "boot_try (trace_world W) (trace_boot req) i rel mk (sst_SaveState (trace_store st) x) p = (r, q)"
  obtain r1 p1 where m: "sst_SaveState (trace_store st) x (fst p) = (r1, p1)" by (rule prod.exhaust)
  have l: "snd p1 = snd (fst p) @ [ASave x (is_ok r1)]" using m by (auto simp: trace_store_def traced_def split: prod.splits)
  have g: "guarded G (ASave x (is_ok r1) # d) r" if "unsaved d" "is_ok r \<Longrightarrow> is_ok r1" for d
    using guardedI [of "[]" d G x r] that assms by simp
  show "\<exists>d. (snd \<circ> fst) q = (snd \<circ> fst) p @ d \<and> guarded G d r"
  proof (cases r1)
    case (Inl e)
    then have f: "boot_fail (trace_world W) (trace_boot req) i rel (mk e) (p1, snd p) = (r, q)" using run m by (simp add: boot_try_def)
    from logsD [OF emits_fail f] show ?thesis using l g by (auto simp: is_ok_def)
  next
    case (Inr y)
    then show ?thesis using run m l g [of "[]"] by (auto simp: boot_try_def is_ok_def)
  qed
qed

lemma emits_save:
  assumes "\<And>now. G [] (acceptedState req i fr key rt now)"
  shows "emits (bootSave (trace_world W) (trace_boot req) i fr key rt) (\<lambda>d r. guarded G d r)"
proof -
  have a: "acceptedState (trace_boot req) i fr key rt now = acceptedState req i fr key rt now"
    and b: "bq_StateStore (trace_boot req) = trace_store (bq_StateStore req)" for now
    by (simp_all add: acceptedState_def trace_boot_def)
  show ?thesis
    unfolding bootSave_def Let_def a b
    by (rule emits_before [OF emits_now], rule emits_after) (auto intro: emits_try_save assms unsaved_prims)
qed

section \<open>What the readers show\<close>

text \<open>A document was read at the key, and it decodes to the value.\<close>

definition read_in :: "(body \<Rightarrow> 'a result) \<Rightarrow> string \<Rightarrow> 'a \<Rightarrow> action list \<Rightarrow> bool" where
  "read_in dec key x d \<longleftrightarrow> (\<exists>ob. AControl key (Inr ob) \<in> set d \<and> dec (obj_Body ob) = Inr x)"

lemma read_in_append [simp]: "read_in dec key x d \<Longrightarrow> read_in dec key x (d @ d')" "read_in dec key x d' \<Longrightarrow> read_in dec key x (d @ d')"
  by (auto simp: read_in_def)

lemma logs_readServiceControl:
  "logs snd (readServiceControl (trace_reads W) key)
     (\<lambda>d r. unsaved d \<and> (\<forall>c. r = Inr c \<longrightarrow> read_in (canonical_UnmarshalStrict dec_ServiceControl) key c d))"
  by (auto simp: logs_def readServiceControl_def trace_reads_simps traced_def read_in_def split: prod.splits sum.splits if_splits)

lemma logs_readMember:
  "logs snd (readStatefulMemberControl (trace_reads W) key)
     (\<lambda>d r. unsaved d \<and> (\<forall>c. r = Inr c \<longrightarrow> smb_Key c = key \<and>
        read_in (canonical_UnmarshalStrict dec_StatefulMemberControl) key (smb_Control c) d))"
  by (auto simp: logs_def readStatefulMemberControl_def trace_reads_simps traced_def read_in_def split: prod.splits sum.splits if_splits)

lemma logs_readManifest:
  "logs snd (readManifestObject (trace_reads W) dec a b c key)
     (\<lambda>d r. unsaved d \<and> (\<forall>m. r = Inr m \<longrightarrow> read_in (canonical_UnmarshalStrict dec) key (fst m) d))"
  by (auto simp: logs_def readManifestObject_def trace_reads_simps traced_def read_in_def split: prod.splits sum.splits)

lemma logs_loadPrevious:
  "logs snd (loadPrevious (trace_store st)) (\<lambda>d r. unsaved d \<and> (\<forall>x. r = Inr x \<longrightarrow> (\<exists>p q y. sst_LoadState st p = (y, q) \<and>
     (y = Inr x \<or> x = None \<and> (\<exists>e. y = Inl e \<and> is_state_not_found e)))))"
  by (auto simp: logs_def loadPrevious_def trace_store_def traced_def io_bind_def io_try_def io_ret_def io_fail_def
      split: prod.splits sum.splits if_splits)

lemma unsaved_logs_bind:
  "logs snd m (\<lambda>d r. unsaved d) \<Longrightarrow> (\<And>x. logs snd (f x) (\<lambda>d r. unsaved d)) \<Longrightarrow> logs snd (io_bind m f) (\<lambda>d r. unsaved d)"
  by (rule logs_bind) (auto intro: logs_mono)

lemma unsaved_logs:
  "logs snd (io_ret x) (\<lambda>d r. unsaved d)" "logs snd (io_fail e) (\<lambda>d r. unsaved d)" "logs snd (io_lift y) (\<lambda>d r. unsaved d)"
  "logs snd (silent n) (\<lambda>d r. unsaved d)" "logs snd (io_sleep (trace_world W) k) (\<lambda>d r. unsaved d)"
  "logs snd (io_ctx (trace_world W)) (\<lambda>d r. unsaved d)"
  by (rule logs_mono [OF logs_ret], simp, rule logs_mono [OF logs_fail], simp, rule logs_mono [OF logs_lift], simp,
      rule logs_mono [OF logs_silent], simp, rule logs_mono [OF logs_sleep], simp, rule logs_mono [OF logs_ctx], simp)

lemma unsaved_try: "logs snd m (\<lambda>d r. unsaved d) \<Longrightarrow> logs snd (io_try m) (\<lambda>d r. unsaved d)"
  by (drule logs_try) (erule logs_mono, auto)

lemma logs_identity: "logs snd (DiscoverIdentity (trace_world W) (map_option silent prov) opts) (\<lambda>d r. unsaved d)"
proof -
  have "logs snd (discoverLoop (trace_world W) (silent p) a b n e) (\<lambda>d r. unsaved d)" for p a b n e
    by (induction n arbitrary: e) (auto intro!: unsaved_logs_bind unsaved_logs unsaved_try split: sum.split)
  then show ?thesis by (cases prov) (auto simp: DiscoverIdentity_def Let_def intro: unsaved_logs)
qed

lemma logs_VerifyManifest:
  "logs snd (VerifyManifest (trace_reads W) m (opts\<lparr>vo_Verifier := map_option (PublicKeyVerifier (trace_reads W) C) keys\<rparr>)) (\<lambda>d r. unsaved d)"
proof -
  have v: "logs snd (PublicKeyVerifier (trace_reads W) C ks d sg) (\<lambda>d r. unsaved d)" for ks d sg
    unfolding PublicKeyVerifier_def trace_reads_simps by (intro unsaved_logs_bind unsaved_logs)
  have "logs snd (verifyEach (PublicKeyVerifier (trace_reads W) C ks) d sigs e) (\<lambda>d r. unsaved d)" for ks d sigs e
    by (induction sigs arbitrary: e) (auto intro!: unsaved_logs_bind unsaved_logs unsaved_try v split: sum.split)
  then have "logs snd (VerifyAny (map_option (PublicKeyVerifier (trace_reads W) C) keys) d sigs) (\<lambda>d r. unsaved d)" for d sigs
    by (cases keys) (auto simp: VerifyAny_def intro: unsaved_logs)
  then have "logs snd (verifySignature m d (map_option (PublicKeyVerifier (trace_reads W) C) keys) b r) (\<lambda>d r. unsaved d)" for m d b r
    unfolding verifySignature_def by (auto intro!: unsaved_logs_bind unsaved_logs unsaved_try split: sum.split)
  then show ?thesis
    unfolding VerifyManifest_def trace_reads_simps
    by (auto intro!: unsaved_logs_bind unsaved_logs unsaved_prims split: prod.split)
qed

definition manifests_in :: "FetchedRelease \<Rightarrow> action list \<Rightarrow> bool" where
  "manifests_in fr d \<longleftrightarrow>
     read_in (canonical_UnmarshalStrict dec_ReleaseManifest) (fr_ReleaseKey fr) (fr_ReleaseManifest fr) d \<and>
     read_in (canonical_UnmarshalStrict dec_RuntimeManifest) (rm_RuntimeManifestKey (fr_ReleaseManifest fr)) (fr_RuntimeManifest fr) d"

lemma unsaved_fetch_bind:
  "logs snd m (\<lambda>d r. unsaved d \<and> R d r) \<Longrightarrow> (\<And>x. logs snd (f x) (\<lambda>d r. unsaved d)) \<Longrightarrow> logs snd (fetch_bind m f) (\<lambda>d r. unsaved d)"
  by (rule logs_fetch_bind) (auto intro: logs_mono)

lemma stop: "logs log (\<lambda>s. (r, s)) (\<lambda>d r. unsaved d)"
  by (auto simp: logs_def)

lemma logs_Fetch:
  assumes "fo_Verifier opts = map_option (PublicKeyVerifier (trace_reads W) C) keys"
  shows "logs snd (Fetch (trace_reads W) opts) (\<lambda>d r. unsaved d \<and> (\<forall>fr. r = Inr fr \<longrightarrow> vouched C keys opts fr \<and> manifests_in fr d))"
proof (rule logsI)
  fix p r q assume run: "Fetch (trace_reads W) opts p = (r, q)"
  have v: "logs snd (VerifyManifest (trace_reads W) m (verifyOptionsFor opts rt)) (\<lambda>d r. unsaved d)" for m rt
    using logs_VerifyManifest [where opts = "verifyOptionsFor opts rt"] assms by (simp add: verifyOptionsFor_def)
  note rel = logs_readManifest [of W dec_ReleaseManifest, THEN logsD] and run_ = logs_readManifest [of W dec_RuntimeManifest, THEN logsD]
  show "\<exists>d. snd q = snd p @ d \<and> unsaved d \<and> (\<forall>fr. r = Inr fr \<longrightarrow> vouched C keys opts fr \<and> manifests_in fr d)"
  proof (cases r)
    case (Inr fr)
    with run have ok: "Fetch (trace_reads W) opts p = (Inr fr, q)" by simp
    from Fetch_Inr [OF this] obtain u w meta meta' where
      1: "readReleaseObject (trace_reads W) (fr_ReleaseKey fr) p = (Inr (fr_ReleaseManifest fr, meta), u)" and
      2: "readRuntimeObject (trace_reads W) (rm_RuntimeManifestKey (fr_ReleaseManifest fr)) u = (Inr (fr_RuntimeManifest fr, meta'), w)" and
      3: "VerifyManifest (trace_reads W) (fr_ReleaseManifest fr) (verifyOptionsFor opts (fr_RuntimeManifest fr)) w =
        (Inr (fr_Verification fr), q)" by metis
    from rel [OF 1 [unfolded readReleaseObject_def]] run_ [OF 2 [unfolded readRuntimeObject_def]] logsD [OF v 3]
    obtain d1 d2 d3 where "snd u = snd p @ d1" "snd w = snd u @ d2" "snd q = snd w @ d3" "unsaved d1" "unsaved d2" "unsaved d3"
      "read_in (canonical_UnmarshalStrict dec_ReleaseManifest) (fr_ReleaseKey fr) (fr_ReleaseManifest fr) d1"
      "read_in (canonical_UnmarshalStrict dec_RuntimeManifest) (rm_RuntimeManifestKey (fr_ReleaseManifest fr)) (fr_RuntimeManifest fr) d2"
      by auto
    then show ?thesis
      using Inr Fetch_vouched(1) [OF ok assms] by (intro exI [of _ "d1 @ d2 @ d3"]) (auto simp: manifests_in_def)
  next
    case (Inl e)
    have f: "logs snd (\<lambda>s. case VerifyManifest (trace_reads W) m (verifyOptionsFor opts rt) s of (Inl e, t) \<Rightarrow> (Inl (a e), t)
        | (Inr x, t) \<Rightarrow> if \<not> vr_OK x then (Inl (b x), t) else (Inr (c x), t)) (\<lambda>d r. unsaved d)" for m rt a b c
      using v [of m rt] unfolding logs_def by (fastforce split: prod.splits sum.splits if_splits)
    have "logs snd (Fetch (trace_reads W) opts) (\<lambda>d r. unsaved d)"
      unfolding Fetch_def readReleaseObject_def readRuntimeObject_def
      by (auto intro!: unsaved_fetch_bind [OF logs_readManifest] f simp: stop split: sum.split)
    from logsD [OF this run] Inl show ?thesis by auto
  qed
qed

text \<open>The trust and the policy that a document of the environment root gives.\<close>

definition trust_in ::
  "boot_params \<Rightarrow> Config \<Rightarrow> (string \<times> TrustedPublicKey) list option \<Rightarrow> EnvironmentReleasePolicy \<Rightarrow> action list \<Rightarrow> bool" where
  "trust_in B cfg keys policy d \<longleftrightarrow> (\<exists>key root base. paths_EnvironmentRoot (cfg_Env cfg) = Inr key \<and>
     read_in (json_Unmarshal dec_EnvironmentRoot) key root d \<and> EffectiveReleasePolicy (bp_config B) cfg = Inr base \<and>
     rootPolicy (bp_config B) root base = Inr policy \<and> rootKeys root policy = Inr keys)"

lemma logs_trust:
  "logs snd (verifierForReleaseTrust B (trace_reads W) cfg None) (\<lambda>d r. unsaved d \<and> (\<forall>x. r = Inr x \<longrightarrow>
     (\<exists>keys. fst x = map_option (PublicKeyVerifier (trace_reads W) (bp_crypto B)) keys \<and> trust_in B cfg keys (snd x) d)))"
  unfolding verifierForReleaseTrust_def rootTrust_def option.case trace_reads_simps
  by (auto simp: logs_def io_bind_def io_lift_def io_try_def io_fail_def io_ret_def traced_def trust_in_def read_in_def
      split: prod.splits sum.splits)

section \<open>The bootstrap\<close>

lemma emits_seq:
  assumes "emits m (\<lambda>d r. unsaved d \<and> (\<forall>x. r = Inr x \<longrightarrow> F d x))"
    and "\<And>x d1. unsaved d1 \<Longrightarrow> F d1 x \<Longrightarrow> emits (f x) (\<lambda>d2 r. unsaved d2 \<and> (\<forall>y. r = Inr y \<longrightarrow> H (d1 @ d2) y))"
  shows "emits (ebind m f) (\<lambda>d r. unsaved d \<and> (\<forall>y. r = Inr y \<longrightarrow> H d y))"
proof (rule logs_ebind [OF assms(1)])
  fix x d1 assume "unsaved d1 \<and> (\<forall>y. Inr x = Inr y \<longrightarrow> F d1 y)"
  then show "emits (f x) (\<lambda>d2 r. unsaved (d1 @ d2) \<and> (\<forall>y. r = Inr y \<longrightarrow> H (d1 @ d2) y))"
    using assms(2) [of d1 x] by (auto elim!: logs_mono)
qed auto

lemma emits_lift: "emits (boot_try (trace_world W) (trace_boot req) i rel mk (io_lift y)) (\<lambda>d r. unsaved d \<and> (\<forall>x. r = Inr x \<longrightarrow> d = [] \<and> y = Inr x))"
  by (rule emits_try, rule logs_mono [OF logs_lift]) auto

lemma emits_eret: "emits (eret z) (\<lambda>d r. unsaved d \<and> (\<forall>x. r = Inr x \<longrightarrow> d = [] \<and> x = z))"
  by (rule logs_mono [OF emits_ret]) auto

text \<open>What the actions of a run say about the release it fetched.\<close>

definition accepted_in :: "boot_params \<Rightarrow> Config \<Rightarrow> string \<Rightarrow> string \<Rightarrow> FetchedRelease \<Rightarrow> action list \<Rightarrow> bool" where
  "accepted_in B cfg rel key fr d \<longleftrightarrow> (\<exists>keys policy. trust_in B cfg keys policy d \<and> manifests_in fr d \<and>
     vouched (bp_crypto B) keys (bootFetchOptions B cfg rel key (None :: unit Verifier option) policy 0) fr)"

lemma accepted_inI:
  "trust_in B cfg keys policy d \<Longrightarrow> manifests_in fr d \<Longrightarrow>
   vouched (bp_crypto B) keys (bootFetchOptions B cfg rel key (None :: unit Verifier option) policy 0) fr \<Longrightarrow> accepted_in B cfg rel key fr d"
  unfolding accepted_in_def by blast

lemma in_mono:
  assumes "set d \<subseteq> set d'"
  shows "read_in dec k x d \<Longrightarrow> read_in dec k x d'" "trust_in B cfg keys policy d \<Longrightarrow> trust_in B cfg keys policy d'"
    "manifests_in fr d \<Longrightarrow> manifests_in fr d'" "accepted_in B cfg rel key fr d \<Longrightarrow> accepted_in B cfg rel key fr d'"
proof -
  show r: "read_in dec k x d \<Longrightarrow> read_in dec k x d'" for dec :: "body \<Rightarrow> 'b result" and k x using assms by (auto simp: read_in_def)
  have *: "set d \<subseteq> set d' \<Longrightarrow> read_in dec k x d \<Longrightarrow> read_in dec k x d'" for dec :: "body \<Rightarrow> EnvironmentRoot result" and k x
    by (auto simp: read_in_def)
  show t: "trust_in B cfg keys policy d \<Longrightarrow> trust_in B cfg keys policy d'" for keys policy
    unfolding trust_in_def using * [OF assms] by blast
  show m: "manifests_in fr d \<Longrightarrow> manifests_in fr d'" unfolding manifests_in_def read_in_def using assms by blast
  show "accepted_in B cfg rel key fr d \<Longrightarrow> accepted_in B cfg rel key fr d'" unfolding accepted_in_def using t m by blast
qed

lemma in_append [simp]:
  "trust_in B cfg keys policy d \<Longrightarrow> trust_in B cfg keys policy (d @ d')" "manifests_in fr d' \<Longrightarrow> manifests_in fr (d @ d')"
  "accepted_in B cfg rel key fr d \<Longrightarrow> accepted_in B cfg rel key fr (d @ d')"
  "accepted_in B cfg rel key fr d' \<Longrightarrow> accepted_in B cfg rel key fr (d @ d')"
  by (rule in_mono, auto)+

lemma vouched_options:
  "vouched C keys (bootFetchOptions B cfg rel key v policy now) fr \<Longrightarrow>
   vouched C keys (bootFetchOptions B cfg rel key (None :: unit Verifier option) policy 0) fr"
  unfolding vouched_def bootFetchOptions_def Let_def FetchOptions.select_convs .

lemma emits_fetch:
  assumes "bq_Verifier req = None"
  shows "emits (bootFetch B (trace_world W) (trace_reads S) (trace_boot req) i rel key stale)
    (\<lambda>d r. unsaved d \<and> (\<forall>fr. r = Inr fr \<longrightarrow> accepted_in B (bq_Config req) rel key fr d \<and> stale (fr_ReleaseManifest fr) = Inr ()))"
proof -
  have f: "bq_Config (trace_boot req) = bq_Config req" "bq_Verifier (trace_boot req) = None"
    using assms by (simp_all add: trace_boot_def)
  show ?thesis
    unfolding bootFetch_def f case_prod_beta
  proof (rule emits_seq [OF emits_try [OF logs_trust]], rule emits_seq [OF emits_now], simp)
    fix x and d1 :: "action list" and now
    assume "\<exists>keys. fst x = map_option (PublicKeyVerifier (trace_reads S) (bp_crypto B)) keys \<and> trust_in B (bq_Config req) keys (snd x) d1"
    then obtain keys where k: "fst x = map_option (PublicKeyVerifier (trace_reads S) (bp_crypto B)) keys"
      "trust_in B (bq_Config req) keys (snd x) d1" by blast
    let ?opts = "bootFetchOptions B (bq_Config req) rel key (fst x) (snd x) now"
    have v: "fo_Verifier ?opts = map_option (PublicKeyVerifier (trace_reads S) (bp_crypto B)) keys" using k(1) by (simp add: bootFetchOptions_def)
    have ok: "accepted_in B (bq_Config req) rel key fr (d1 @ d')" if "vouched (bp_crypto B) keys ?opts fr" "manifests_in fr d'" for fr d'
      by (rule accepted_inI [of B "bq_Config req" keys "snd x"])
        (use k(2) that(2) vouched_options [OF that(1)] in simp_all)
    show "emits (ebind (boot_try (trace_world W) (trace_boot req) (Some i) rel from_fetch (Fetch (trace_reads S) ?opts))
        (\<lambda>fetched. ebind (boot_try (trace_world W) (trace_boot req) (Some i) (rm_ReleaseID (fr_ReleaseManifest fetched))
             (own_text CodeStaleReleaseRejected) (io_lift (stale (fr_ReleaseManifest fetched)))) (\<lambda>_. eret fetched)))
        (\<lambda>d2 r. unsaved d2 \<and> (\<forall>y. r = Inr y \<longrightarrow> accepted_in B (bq_Config req) rel key y (d1 @ d2) \<and> stale (fr_ReleaseManifest y) = Inr ()))"
      by (rule emits_seq [OF emits_try [OF logs_Fetch [OF v]]], rule emits_seq [OF emits_lift], rule logs_mono [OF emits_eret])
        (use ok in auto)
  qed
qed

text \<open>What guards a save: the control document of the service names the release, or the one of the member is free.\<close>

definition service_guard :: "boot_params \<Rightarrow> 's BootstrapRequest \<Rightarrow> (LocalState option \<Rightarrow> bool) \<Rightarrow> action list \<Rightarrow> LocalState \<Rightarrow> bool" where
  "service_guard B req local d st \<longleftrightarrow> (\<exists>control fr previous i now. local previous \<and>
     read_in (canonical_UnmarshalStrict dec_ServiceControl) (cfg_ControlKey (bq_Config req)) control d \<and>
     sc_Service control = cfg_Service (bq_Config req) \<and> sc_Env control = cfg_Env (bq_Config req) \<and> sc_DesiredRelease control \<noteq> [] \<and>
     accepted_in B (bq_Config req) (sc_DesiredRelease control) [] fr d \<and>
     checkStaleRelease previous control (fr_ReleaseManifest fr) = Inr () \<and>
     st = acceptedState req i fr (cfg_ControlKey (bq_Config req)) None now)"

definition member_guard :: "boot_params \<Rightarrow> 's BootstrapRequest \<Rightarrow> (LocalState option \<Rightarrow> bool) \<Rightarrow> action list \<Rightarrow> LocalState \<Rightarrow> bool" where
  "member_guard B req local d st \<longleftrightarrow> (\<exists>doc fr previous i rt now now' rel run. local previous \<and> cfg_ReleaseID (bq_Config req) \<noteq> [] \<and>
     read_in (canonical_UnmarshalStrict dec_StatefulMemberControl) (statefulControlKey (bq_Config req)) (smb_Control doc) d \<and>
     statefulRuntimeFromControl doc (bq_Config req) i now = Inr rt \<and>
     accepted_in B (bq_Config req) (cfg_ReleaseID (bq_Config req)) (cfg_ReleaseManifestKey (bq_Config req)) fr d \<and>
     checkStatefulStaleRelease previous (fr_ReleaseManifest fr) = Inr () \<and>
     st = acceptedState req i fr (sr_ControlKey rt) (Some (rt\<lparr>sr_ReleaseManifest := rel, sr_RuntimeManifest := run\<rparr>)) now')"

text \<open>What loading can have given: the state that the store returns, or none if there is none.\<close>

definition loads :: "'s StateStore \<Rightarrow> LocalState option \<Rightarrow> bool" where
  "loads st x \<longleftrightarrow> (\<exists>p q y. sst_LoadState st p = (y, q) \<and> (y = Inr x \<or> x = None \<and> (\<exists>e. y = Inl e \<and> is_state_not_found e)))"

lemma emits_load:
  "emits (boot_try (trace_world W) (trace_boot req) i rel mk (loadPrevious (trace_store (bq_StateStore req))))
     (\<lambda>d r. unsaved d \<and> (\<forall>x. r = Inr x \<longrightarrow> loads (bq_StateStore req) x))"
  by (rule emits_try, rule logs_mono [OF logs_loadPrevious]) (auto simp: loads_def)

lemma service_guardI:
  "local previous \<Longrightarrow> read_in (canonical_UnmarshalStrict dec_ServiceControl) (cfg_ControlKey (bq_Config req)) control d \<Longrightarrow>
   validateControlTarget control (bq_Config req) = Inr u \<Longrightarrow> sc_DesiredRelease control \<noteq> [] \<Longrightarrow>
   accepted_in B (bq_Config req) (sc_DesiredRelease control) [] fr d \<Longrightarrow>
   checkStaleRelease previous control (fr_ReleaseManifest fr) = Inr () \<Longrightarrow>
   service_guard B req local d (acceptedState req i fr (cfg_ControlKey (bq_Config req)) None now)"
  unfolding service_guard_def validateControlTarget_def by (fastforce split: if_splits)

lemma member_guardI:
  "local previous \<Longrightarrow> cfg_ReleaseID (bq_Config req) \<noteq> [] \<Longrightarrow>
   read_in (canonical_UnmarshalStrict dec_StatefulMemberControl) (statefulControlKey (bq_Config req)) (smb_Control doc) d \<Longrightarrow>
   statefulRuntimeFromControl doc (bq_Config req) i now = Inr rt \<Longrightarrow>
   accepted_in B (bq_Config req) (cfg_ReleaseID (bq_Config req)) (cfg_ReleaseManifestKey (bq_Config req)) fr d \<Longrightarrow>
   checkStatefulStaleRelease previous (fr_ReleaseManifest fr) = Inr () \<Longrightarrow> sr_ControlKey rt = key \<Longrightarrow>
   member_guard B req local d
     (acceptedState req i fr key (Some (rt\<lparr>sr_ReleaseManifest := rel, sr_RuntimeManifest := run\<rparr>)) now')"
  unfolding member_guard_def by blast

lemma emits_service:
  assumes "bq_Verifier req = None"
  shows "emits (bootstrapService B (trace_world W) (trace_reads S) (trace_boot req) i)
    (\<lambda>d r. guarded (service_guard B req (loads (bq_StateStore req))) d r)"
proof -
  have f: "bq_Config (trace_boot req) = bq_Config req" "bq_StateStore (trace_boot req) = trace_store (bq_StateStore req)"
    by (simp_all add: trace_boot_def)
  show ?thesis
    unfolding bootstrapService_def Let_def f
    apply (rule emits_before_plain [OF emits_emit])
    apply (rule emits_before [OF emits_load])
    apply (rule emits_before [OF emits_try [OF logs_readServiceControl]])
    apply (rule emits_before [OF emits_lift])
    apply (split if_split, intro conjI impI)
     apply (rule logs_mono [OF emits_fail], clarsimp simp: guarded_unsaved)
    apply (rule emits_before_plain [OF unsaved_prims(1)])
    apply (rule emits_before_plain [OF emits_emit])
    apply (rule emits_before [OF emits_fetch [OF assms]])
    apply (rule emits_after [OF emits_save])
    subgoal for x d1 xa d1a xb d1b xc d1c xd d1d xe d1e xf d1f now by (rule service_guardI [of _ xa _ xb _ xc _ xf]) auto
    by (intro unsaved_bind emits_emit unsaved_prims)
qed

lemma emits_stateful:
  assumes "bq_Verifier req = None"
  shows "emits (bootstrapStateful B (trace_world W) (trace_reads S) (trace_boot req) i)
    (\<lambda>d r. guarded (member_guard B req (loads (bq_StateStore req))) d r)"
proof -
  have f: "bq_Config (trace_boot req) = bq_Config req" "bq_StateStore (trace_boot req) = trace_store (bq_StateStore req)"
    by (simp_all add: trace_boot_def)
  show ?thesis
    unfolding bootstrapStateful_def Let_def f
    apply (split if_split, intro conjI impI)
     apply (rule logs_mono [OF emits_fail], clarsimp simp: guarded_unsaved)
    apply (rule emits_before_plain [OF emits_emit])
    apply (rule emits_before [OF emits_load])
    apply (rule emits_before [OF emits_try [OF logs_readMember]])
    apply (rule emits_before [OF emits_now])
    apply (rule emits_before [OF emits_lift])
    apply (rule emits_before_plain [OF emits_emit])
    apply (rule emits_before [OF emits_fetch [OF assms]])
    apply (rule emits_after [OF emits_save])
    subgoal for x d1 xa d1a xb d1b xc d1c xd d1d xe d1e xf d1f now
      by (rule member_guardI [of _ xa _ xb _ _ xc xd _ xf]) auto
    by (intro unsaved_bind emits_emit unsaved_prims)
qed

lemma unsaved_boot_try:
  "logs snd m (\<lambda>d r. unsaved d) \<Longrightarrow> emits (boot_try (trace_world W) (trace_boot req) i rel mk m) (\<lambda>d r. unsaved d)"
  using emits_try [of m "\<lambda>_ _. True" W req i rel mk] by simp

lemma emits_identity: "emits (bootIdentity (trace_world W) (trace_boot req)) (\<lambda>d r. unsaved d)"
proof -
  have p: "bq_MetadataProvider (trace_boot req) = map_option silent (bq_MetadataProvider req)" by (simp add: trace_boot_def)
  show ?thesis
    unfolding bootIdentity_def p
    by (auto intro!: unsaved_bind unsaved_boot_try logs_identity unsaved_logs unsaved_host unsaved_prims)
qed

text \<open>Which of the two guards applies is a matter of the configuration.\<close>

definition boot_guard :: "boot_params \<Rightarrow> 's BootstrapRequest \<Rightarrow> action list \<Rightarrow> LocalState \<Rightarrow> bool" where
  "boot_guard B req = (if cfg_StatefulGroup (bq_Config req) \<noteq> [] then member_guard B req (loads (bq_StateStore req))
     else service_guard B req (loads (bq_StateStore req)))"

lemma bootstrap_guarded:
  assumes "bq_Verifier req = None" "Bootstrap B (trace_world W) (trace_boot req) (s, []) = (r, (t, as))"
  shows "guarded (boot_guard B req) as r"
proof -
  have f: "bq_Config (trace_boot req) = bq_Config req" "bq_Store (trace_boot req) = map_option trace_reads (bq_Store req)"
    by (simp_all add: trace_boot_def)
  have "emits (bootSteps B (trace_world W) (trace_boot req)) (\<lambda>d r. guarded (boot_guard B req) d r)"
  proof (cases "bq_Store req")
    case None
    then show ?thesis unfolding bootSteps_def f by (auto intro: logs_mono [OF emits_fail] guarded_unsaved)
  next
    case (Some S)
    have mono: "boot_guard B req d st \<Longrightarrow> boot_guard B req (d1 @ d) st" for d1 d st
      unfolding boot_guard_def service_guard_def member_guard_def
      by (auto split: if_splits) (blast intro: read_in_append in_append)+
    show ?thesis
      unfolding bootSteps_def f Some option.map option.case
      by (intro emits_then unsaved_boot_try unsaved_logs emits_emit emits_identity mono)
        (auto simp: boot_guard_def intro: emits_service [OF assms(1)] emits_stateful [OF assms(1)])
  qed
  from logsD [OF this] show ?thesis using assms(2) by (fastforce simp: Bootstrap_def split: prod.splits)
qed

section \<open>Recording changes nothing\<close>

lemma same_reads:
  "same (io_now W) (io_now (trace_reads W))" "same (os_Get W k) (os_Get (trace_reads W) k)" "same (io_ctx W) (io_ctx (trace_reads W))"
  unfolding trace_reads_simps by (simp_all) (auto simp: same_def io_ctx_def trace_world_def silent_def split: prod.splits option.splits)

lemma same_prod: "(\<And>a b. same (f a b) (f' a b)) \<Longrightarrow> same (case z of (a, b) \<Rightarrow> f a b) (case z of (a, b) \<Rightarrow> f' a b)"
  by (cases z) simp

lemma same_fetch_bind: "same m m' \<Longrightarrow> (\<And>x. same (f x) (f' x)) \<Longrightarrow> same (fetch_bind m f) (fetch_bind m' f')"
  unfolding same_def fetch_bind_def by (fastforce split: prod.splits sum.splits)

lemma same_verifier: "same (PublicKeyVerifier W C ks d sg) (PublicKeyVerifier (trace_reads W) C ks d sg)"
  unfolding PublicKeyVerifier_def by (intro same_bind same_simps same_reads)

lemma same_VerifyManifest:
  assumes "vo_Verifier opts = map_option (PublicKeyVerifier W C) keys" "vo_Verifier opts' = map_option (PublicKeyVerifier (trace_reads W) C) keys"
    and "vo_Now opts' = vo_Now opts" "vo_AllowUnsignedRelease opts' = vo_AllowUnsignedRelease opts"
    and "\<And>now. releaseChecks m opts' now = releaseChecks m opts now"
  shows "same (VerifyManifest W m opts) (VerifyManifest (trace_reads W) m opts')"
proof -
  have "same (verifyEach (PublicKeyVerifier W C ks) d sigs e) (verifyEach (PublicKeyVerifier (trace_reads W) C ks) d sigs e)" for ks d sigs e
    by (induction sigs arbitrary: e) (auto intro!: same_bind same_try same_verifier split: sum.split)
  then have "same (VerifyAny (map_option (PublicKeyVerifier W C) keys) d sigs)
      (VerifyAny (map_option (PublicKeyVerifier (trace_reads W) C) keys) d sigs)" for d sigs
    by (cases keys) (simp_all add: VerifyAny_def)
  then have "same (verifySignature m d (map_option (PublicKeyVerifier W C) keys) b r)
      (verifySignature m d (map_option (PublicKeyVerifier (trace_reads W) C) keys) b r)" for d b r
    unfolding verifySignature_def by (intro same_cases same_bind same_try same_simps)
  then show ?thesis
    unfolding VerifyManifest_def assms by (auto intro!: same_bind same_reads same_cases simp: case_prod_beta)
qed

lemma same_readManifest:
  "same (readManifestObject W dec a b c key) (readManifestObject (trace_reads W) dec a b c key)"
  by (auto simp: same_def readManifestObject_def trace_reads_simps traced_def split: prod.splits sum.splits)

lemma same_Fetch:
  "same (Fetch W (bootFetchOptions B cfg rel key (map_option (PublicKeyVerifier W C) keys) policy now))
     (Fetch (trace_reads W) (bootFetchOptions B cfg rel key (map_option (PublicKeyVerifier (trace_reads W) C) keys) policy now))"
proof -
  let ?o = "bootFetchOptions B cfg rel key (map_option (PublicKeyVerifier W C) keys) policy now"
  let ?o' = "bootFetchOptions B cfg rel key (map_option (PublicKeyVerifier (trace_reads W) C) keys) policy now"
  have k: "releaseKeyFor ?o' = releaseKeyFor ?o" by (simp add: releaseKeyFor_def bootFetchOptions_def)
  have v: "same (VerifyManifest W m (verifyOptionsFor ?o rt)) (VerifyManifest (trace_reads W) m (verifyOptionsFor ?o' rt))" for m rt
    by (rule same_VerifyManifest [of _ _ C keys])
      (simp_all add: verifyOptionsFor_def bootFetchOptions_def releaseChecks_def verifyTarget_def)
  have f: "same (\<lambda>s. case VerifyManifest W m (verifyOptionsFor ?o rt) s of (Inl e, t) \<Rightarrow> (Inl (a e), t)
        | (Inr x, t) \<Rightarrow> if \<not> vr_OK x then (Inl (b x), t) else (Inr (c x), t))
      (\<lambda>s. case VerifyManifest (trace_reads W) m (verifyOptionsFor ?o' rt) s of (Inl e, t) \<Rightarrow> (Inl (a e), t)
        | (Inr x, t) \<Rightarrow> if \<not> vr_OK x then (Inl (b x), t) else (Inr (c x), t))" for m rt a b c
    using v [of m rt] unfolding same_def by (fastforce split: prod.splits sum.splits if_splits)
  have s: "same (\<lambda>s. (r, s)) (\<lambda>s. (r, s))" for r :: "FetchError + FetchedRelease" by (auto simp: same_def)
  show ?thesis
    unfolding Fetch_def k readReleaseObject_def readRuntimeObject_def
    by (intro same_cases same_fetch_bind same_readManifest same_prod f s)
qed

lemma trace_boot_simps:
  "bq_Config (trace_boot req) = bq_Config req" "bq_Store (trace_boot req) = map_option trace_reads (bq_Store req)"
  "bq_MetadataProvider (trace_boot req) = map_option silent (bq_MetadataProvider req)"
  "bq_StateStore (trace_boot req) = trace_store (bq_StateStore req)" "bq_EventSink (trace_boot req) = map_option trace_sink (bq_EventSink req)"
  "bq_TraceID (trace_boot req) = bq_TraceID req" "bq_IdentityOptions (trace_boot req) = bq_IdentityOptions req"
  "bq_Verifier req = None \<Longrightarrow> bq_Verifier (trace_boot req) = None"
  by (simp_all add: trace_boot_def)

lemma esame_emit: "esame (boot_emit W req st rel sm cause i) (boot_emit (trace_world W) (trace_boot req) st rel sm cause i)"
proof -
  have "bootEvent (trace_boot req) = bootEvent req" by (simp add: bootEvent_def trace_boot_simps fun_eq_iff)
  then show ?thesis
    unfolding boot_emit_def Let_def trace_boot_simps
    by (simp only:) (intro esame_bind esame_host esame_cases esame_simps same_simps same_sinks)
qed

lemma esame_boot_fail: "esame (boot_fail W req i rel err) (boot_fail (trace_world W) (trace_boot req) i rel err)"
  using esame_emit [of W req StateFailed rel "be_Summary err" "be_Err err" i]
  unfolding esame_def boot_fail_def by (fastforce split: prod.splits)

lemma esame_try: "same m m' \<Longrightarrow> esame (boot_try W req i rel mk m) (boot_try (trace_world W) (trace_boot req) i rel mk m')"
  using esame_boot_fail [of W req i rel] unfolding esame_def same_def boot_try_def by (fastforce split: prod.splits sum.splits)

lemma boot_try_map: "ebind (boot_try W req i rel mk (io_bind m (\<lambda>x. io_ret (h x)))) f = ebind (boot_try W req i rel mk m) (\<lambda>x. f (h x))"
  by (auto simp: ebind_def boot_try_def boot_fail_def io_bind_def io_ret_def fun_eq_iff split: prod.splits sum.splits)

lemma io_bind_assoc: "io_bind (io_bind m f) g = io_bind m (\<lambda>x. io_bind (f x) g)"
  by (auto simp: io_bind_def fun_eq_iff split: prod.splits sum.splits)

lemma esame_prod: "(\<And>a b. esame (f a b) (f' a b)) \<Longrightarrow> esame (case z of (a, b) \<Rightarrow> f a b) (case z of (a, b) \<Rightarrow> f' a b)"
  by (cases z) simp

lemma verifier_keys:
  "verifierForReleaseTrust B S cfg None =
     io_bind (io_bind (io_lift (EffectiveReleasePolicy (bp_config B) cfg)) (rootTrust B S cfg))
       (\<lambda>x. io_ret (map_option (PublicKeyVerifier S (bp_crypto B)) (fst x), snd x))"
  unfolding verifierForReleaseTrust_def io_bind_assoc option.case case_prod_unfold ..

lemma esame_bootFetch:
  assumes "bq_Verifier req = None"
  shows "esame (bootFetch B W S req i rel key stale) (bootFetch B (trace_world W) (trace_reads S) (trace_boot req) i rel key stale)"
proof -
  have trust: "same (io_bind (io_lift p) (rootTrust B S cfg)) (io_bind (io_lift p) (rootTrust B (trace_reads S) cfg))" for p cfg
    unfolding rootTrust_def by (intro same_bind same_simps same_try same_reads same_cases)
  show ?thesis
    unfolding bootFetch_def trace_boot_simps trace_boot_simps(8) [OF assms] assms verifier_keys boot_try_map prod.case
    by (intro esame_bind esame_try trust esame_host same_simps same_Fetch esame_simps)
qed

lemma same_identity: "same (DiscoverIdentity W p opts) (DiscoverIdentity (trace_world W) (map_option silent p) opts)"
proof -
  have "same (discoverLoop W p a b n e) (discoverLoop (trace_world W) (silent p) a b n e)" for p a b n e
    by (induction n arbitrary: e) (auto intro!: same_bind same_try split: sum.split)
  then show ?thesis by (cases p) (simp_all add: DiscoverIdentity_def Let_def)
qed

lemma same_controls:
  "same (readServiceControl S k) (readServiceControl (trace_reads S) k)"
  "same (readStatefulMemberControl S k) (readStatefulMemberControl (trace_reads S) k)"
  "same (loadPrevious st) (loadPrevious (trace_store st))"
  by (auto simp: same_def readServiceControl_def readStatefulMemberControl_def trace_reads_simps traced_def loadPrevious_def
      trace_store_def io_bind_def io_try_def io_ret_def io_fail_def split: prod.splits sum.splits if_splits)

lemma esame_save: "esame (bootSave W req i fr key rt) (bootSave (trace_world W) (trace_boot req) i fr key rt)"
proof -
  have "acceptedState (trace_boot req) = acceptedState req" by (simp add: acceptedState_def trace_boot_simps fun_eq_iff)
  then show ?thesis
    unfolding bootSave_def Let_def trace_boot_simps
    by (simp only:) (intro esame_bind esame_try esame_host same_simps same_sinks esame_simps)
qed

lemma esame_bootSteps:
  assumes "bq_Verifier req = None"
  shows "esame (bootSteps B W req) (bootSteps B (trace_world W) (trace_boot req))"
proof -
  have "esame (bootstrapService B W S req i) (bootstrapService B (trace_world W) (trace_reads S) (trace_boot req) i)" for S i
    unfolding bootstrapService_def Let_def trace_boot_simps
    by (intro esame_bind esame_try esame_emit esame_cases esame_boot_fail esame_save esame_bootFetch assms esame_simps same_controls same_simps)
  moreover have "esame (bootstrapStateful B W S req i) (bootstrapStateful B (trace_world W) (trace_reads S) (trace_boot req) i)" for S i
    unfolding bootstrapStateful_def Let_def trace_boot_simps
    by (intro esame_bind esame_try esame_emit esame_cases esame_boot_fail esame_save esame_bootFetch esame_host assms esame_simps
        same_controls same_simps)
  moreover have "esame (bootIdentity W req) (bootIdentity (trace_world W) (trace_boot req))"
    unfolding bootIdentity_def trace_boot_simps
    by (intro esame_bind esame_try esame_cases esame_host esame_simps same_identity same_simps)
  ultimately show ?thesis
    unfolding bootSteps_def trace_boot_simps
    by (intro esame_cases esame_bind esame_try esame_emit esame_boot_fail same_simps)
qed

lemma recorded_boot:
  assumes "bq_Verifier req = None" "Bootstrap B W req s = (r, t)"
  shows "\<exists>as. Bootstrap B (trace_world W) (trace_boot req) (s, []) = (r, (t, as))"
proof -
  let ?v = "zero_BootstrapResult\<lparr>br_Service := cfg_Service (bq_Config req), br_Env := cfg_Env (bq_Config req),
     br_ControlKey := cfg_ControlKey (bq_Config req)\<rparr>"
  obtain r' t' as v' where b: "bootSteps B (trace_world W) (trace_boot req) ((s, []), ?v) = (r', ((t', as), v'))" by (metis prod.exhaust)
  from esameD [OF esame_bootSteps [OF assms(1)] b] show ?thesis
    using b assms(2) by (simp add: Bootstrap_def trace_boot_simps)
qed

section \<open>Properties\<close>

lemma acceptedState_simps [simp]:
  "ls_LastAcceptedRelease (acceptedState req i fr key rt now) = rm_ReleaseID (fr_ReleaseManifest fr)"
  "ls_LastAcceptedReleaseCreated (acceptedState req i fr key rt now) = rm_CreatedAt (fr_ReleaseManifest fr)"
  "ls_ReleaseKey (acceptedState req i fr key rt now) = fr_ReleaseKey fr"
  "ls_Verification (acceptedState req i fr key rt now) = fr_Verification fr"
  "ls_Stateful (acceptedState req i fr key rt now) = rt"
  by (simp_all add: acceptedState_def)

lemma accepted_release: "accepted_in B cfg rel key fr d \<Longrightarrow> rel \<noteq> [] \<Longrightarrow> rm_ReleaseID (fr_ReleaseManifest fr) = rel"
  by (auto simp: accepted_in_def vouched_def bootFetchOptions_def Let_def)

text \<open>What the control document that was read says: the service wants this release, or the member is free and on this volume.\<close>

definition control_names :: "Config \<Rightarrow> LocalState \<Rightarrow> action list \<Rightarrow> bool" where
  "control_names cfg st d \<longleftrightarrow>
     (if cfg_StatefulGroup cfg = [] then
        \<exists>control. read_in (canonical_UnmarshalStrict dec_ServiceControl) (cfg_ControlKey cfg) control d \<and>
          sc_Service control = cfg_Service cfg \<and> sc_Env control = cfg_Env cfg \<and> sc_DesiredRelease control = ls_LastAcceptedRelease st
      else
        \<exists>control rt. read_in (canonical_UnmarshalStrict dec_StatefulMemberControl) (statefulControlKey cfg) control d \<and>
          smc_Group control = cfg_StatefulGroup cfg \<and> smc_Env control = cfg_Env cfg \<and> smc_Member control = cfg_StatefulMember cfg \<and>
          smc_Lease control = None \<and> (smc_Phase control = [] \<or> smc_Phase control = StatefulMemberReady) \<and>
          ls_Stateful st = Some rt \<and> smc_VolumeID control \<noteq> [] \<and> sr_VolumeID rt = smc_VolumeID control \<and>
          sr_Generation rt = smc_Generation control \<and> cfg_ReleaseID cfg = ls_LastAcceptedRelease st)"

lemma member_checks_free:
  assumes "statefulRuntimeFromControl doc cfg i now = Inr rt" "control = smb_Control doc"
  shows "smc_Group control = cfg_StatefulGroup cfg \<and> smc_Env control = cfg_Env cfg \<and> smc_Member control = cfg_StatefulMember cfg \<and>
    smc_Lease control = None \<and> (smc_Phase control = [] \<or> smc_Phase control = StatefulMemberReady) \<and>
    smc_VolumeID control \<noteq> [] \<and> sr_VolumeID rt = smc_VolumeID control \<and> sr_Generation rt = smc_Generation control"
proof -
  have "find fst (member_checks control cfg i) = None"
    and rt: "sr_VolumeID rt = smc_VolumeID control" "sr_Generation rt = smc_Generation control"
    using assms by (auto simp: statefulRuntimeFromControl_def Let_def split: option.splits)
  then have "list_all (Not \<circ> fst) (member_checks control cfg i)" by (auto simp: find_None_iff list_all_iff)
  then show ?thesis using rt by (simp add: member_checks_def Let_def)
qed

lemma guard_facts:
  assumes "boot_guard B req d st"
  shows "\<exists>fr key. accepted_in B (bq_Config req) (ls_LastAcceptedRelease st) key fr d \<and> control_names (bq_Config req) st d \<and>
    ls_LastAcceptedRelease st = rm_ReleaseID (fr_ReleaseManifest fr) \<and> ls_ReleaseKey st = fr_ReleaseKey fr \<and>
    ls_Verification st = fr_Verification fr"
proof (cases "cfg_StatefulGroup (bq_Config req) = []")
  case True
  then obtain control fr i now where
    "read_in (canonical_UnmarshalStrict dec_ServiceControl) (cfg_ControlKey (bq_Config req)) control d"
    "sc_Service control = cfg_Service (bq_Config req)" "sc_Env control = cfg_Env (bq_Config req)" and rel: "sc_DesiredRelease control \<noteq> []"
    and a: "accepted_in B (bq_Config req) (sc_DesiredRelease control) [] fr d"
    and st: "st = acceptedState req i fr (cfg_ControlKey (bq_Config req)) None now"
    using assms unfolding boot_guard_def service_guard_def by auto
  then have "control_names (bq_Config req) st d" using True accepted_release [OF a rel] by (auto simp: control_names_def)
  then show ?thesis using a accepted_release [OF a rel] st by (intro exI [of _ fr] exI [of _ "[]"]) simp
next
  case False
  then obtain doc fr i rt now now' rel run where rel: "cfg_ReleaseID (bq_Config req) \<noteq> []"
    and r: "read_in (canonical_UnmarshalStrict dec_StatefulMemberControl) (statefulControlKey (bq_Config req)) (smb_Control doc) d"
    and rt: "statefulRuntimeFromControl doc (bq_Config req) i now = Inr rt"
    and a: "accepted_in B (bq_Config req) (cfg_ReleaseID (bq_Config req)) (cfg_ReleaseManifestKey (bq_Config req)) fr d"
    and st: "st = acceptedState req i fr (sr_ControlKey rt) (Some (rt\<lparr>sr_ReleaseManifest := rel, sr_RuntimeManifest := run\<rparr>)) now'"
    using assms unfolding boot_guard_def member_guard_def by auto
  have "control_names (bq_Config req) st d"
    using False r member_checks_free [OF rt refl] accepted_release [OF a rel] st
    by (auto simp: control_names_def intro!: exI [of _ "smb_Control doc"])
  then show ?thesis using a accepted_release [OF a rel] st
    by (intro exI [of _ fr] exI [of _ "cfg_ReleaseManifestKey (bq_Config req)"]) simp
qed

text \<open>A development environment with one service and its unsigned release, on a host where everything succeeds.\<close>

definition boot_release :: ReleaseManifest where
  "boot_release = demo_manifest\<lparr>rm_CreatedAt := canonical_Time 500,
     rm_Digest := CanonicalJSONDigest (enc_ReleaseManifest (UnsignedManifest (demo_manifest\<lparr>rm_CreatedAt := canonical_Time 500\<rparr>)))\<rparr>"

definition boot_docs :: "(string \<times> json) list" where
  "boot_docs = [(''control'', enc_ServiceControl (zero_ServiceControl\<lparr>sc_SchemaVersion := schema_Version, sc_Service := ''web'',
       sc_Env := ''dev'', sc_DesiredRelease := ''rel_1''\<rparr>)),
     (''envs/dev/root.json'', JObj [(''environment_class'', JStr ''development'')]),
     (''services/web/releases/rel_1/release.json'', enc_ReleaseManifest boot_release), (''runtime'', enc_RuntimeManifest demo_runtime)]"

definition boot_object :: "string \<Rightarrow> json \<Rightarrow> Object" where
  "boot_object k j = \<lparr>obj_Key = k, obj_Body = JsonBody j, obj_ETag = [], obj_VersionID = [], obj_Size = 0, obj_ContentType = [],
     obj_Metadata = Map.empty, obj_CreatedAt = 0, obj_UpdatedAt = 0\<rparr>"

definition boot_world :: "unit World" where
  "boot_world = \<lparr>os_Get = (\<lambda>k. case map_of boot_docs k of None \<Rightarrow> io_fail (StoreError ''get'' k ErrNotFound) | Some j \<Rightarrow> io_ret (boot_object k j)),
     os_Head = (\<lambda>k. io_fail (StoreError ''head'' k ErrNotFound)), os_Create = (\<lambda>k _ _. io_fail (StoreError ''create'' k ErrPermissionDenied)),
     os_CompareAndSwap = (\<lambda>k _ _ _. io_fail (StoreError ''compare-and-swap'' k ErrPermissionDenied)), os_List = (\<lambda>_ _. io_ret []),
     w_Now = (\<lambda>s. (0, s)), w_Token = (\<lambda>s. ([], s)), w_EventID = (\<lambda>s. ([], s)), w_Sleep = (\<lambda>_ s. (None, s)), w_CtxErr = (\<lambda>s. (None, s))\<rparr>"

definition boot_demo :: boot_params where
  "boot_demo = \<lparr>bp_config = \<lparr>cp_url_Parse = (\<lambda>_. Some (''s3'', ''b'')), cp_unicode_lower = id\<rparr>, bp_crypto = demo_crypto, bp_Version = []\<rparr>"

definition boot_previous :: LocalState where
  "boot_previous = zero_LocalState\<lparr>ls_LastAcceptedRelease := ''rel_0'', ls_LastAcceptedReleaseCreated := canonical_Time 0\<rparr>"

definition boot_request :: "unit BootstrapRequest" where
  "boot_request = \<lparr>bq_Config = zero_Config\<lparr>cfg_Mode := ModeRunner, cfg_Env := ''dev'', cfg_Provider := ''aws'', cfg_Region := ''r'',
       cfg_StateBucket := ''s3://b'', cfg_Service := ''web'', cfg_ControlKey := ''control''\<rparr>,
     bq_Store = Some boot_world, bq_Verifier = None, bq_MetadataProvider = Some (io_ret zero_Identity),
     bq_StateStore = \<lparr>sst_LoadState = io_ret (Some boot_previous), sst_SaveState = (\<lambda>_. io_ret ())\<rparr>, bq_EventSink = None, bq_TraceID = [],
     bq_IdentityOptions = \<lparr>ido_Attempts = 0, ido_Backoff = 0\<rparr>\<rparr>"

definition boot_environment :: EnvironmentRoot where
  "boot_environment = zero_EnvironmentRoot\<lparr>ero_EnvironmentClass := ''development''\<rparr>"

lemma boot_get: "os_Get boot_world k s = (case map_of boot_docs k of None \<Rightarrow> (Inl (StoreError ''get'' k ErrNotFound), s)
    | Some j \<Rightarrow> (Inr (boot_object k j), s))"
  by (simp add: boot_world_def io_fail_def io_ret_def split: option.split)

lemma boot_paths:
  "paths_EnvironmentRoot ''dev'' = Inr ''envs/dev/root.json''"
  "paths_ReleaseManifest ''web'' ''rel_1'' = Inr ''services/web/releases/rel_1/release.json''"
proof -
  have "Paths.validateName ''env'' ''dev'' = Inr ()" "Paths.validateName ''service'' ''web'' = Inr ()" "validateID ''release'' ''rel_1'' = Inr ()"
    by (simp_all add: is_name_def is_id_def isLowerAlnum_def reservedSegments_def isIDChar_def Let_def)
  then show "paths_EnvironmentRoot ''dev'' = Inr ''envs/dev/root.json''"
    "paths_ReleaseManifest ''web'' ''rel_1'' = Inr ''services/web/releases/rel_1/release.json''"
    by (simp_all add: paths_EnvironmentRoot_def paths_ReleaseManifest_def)
qed

lemma boot_root: "dec_EnvironmentRoot (JObj [(''environment_class'', JStr ''development'')]) =
    Inr boot_environment"
  by (simp add: boot_environment_def dec_EnvironmentRoot_def dec_loose_def jget_def fold_key_def lower_char_def d_str_def d_map_def d_ptr_def dec_opt_def dec_str_def
      zero_EnvironmentRoot_def)

lemma boot_policy:
  "rootPolicy P boot_environment p = Inr \<lparr>erp_RequireSignedReleases = False, erp_AllowUnsignedCode = True\<rparr>"
  "rootKeys boot_environment \<lparr>erp_RequireSignedReleases = False, erp_AllowUnsignedCode = True\<rparr> = Inr None"
  by (simp_all add: boot_environment_def rootKeys_def rootPolicy_def zero_EnvironmentRoot_def DefaultEnvironmentReleasePolicy_def NormalizeEnvironmentClass_def strings_ToLower_def
      TrimSpace_printable printable_def lower_char_def EnvironmentClassProduction_def EnvironmentClassStaging_def EnvironmentClassDevelopment_def
      EnvironmentClassSandbox_def)

lemma boot_trust: "verifierForReleaseTrust boot_demo boot_world (bq_Config boot_request) None s =
    (Inr (None, \<lparr>erp_RequireSignedReleases = False, erp_AllowUnsignedCode = True\<rparr>), s)"
proof -
  have "EffectiveReleasePolicy (bp_config boot_demo) (bq_Config boot_request) = Inr zero_EnvironmentReleasePolicy"
    by (simp add: EffectiveReleasePolicy_def boot_request_def zero_Config_def)
  moreover have "cfg_Env (bq_Config boot_request) = ''dev''" by (simp add: boot_request_def)
  moreover have "os_Get boot_world ''envs/dev/root.json'' s =
      (Inr (boot_object ''envs/dev/root.json'' (JObj [(''environment_class'', JStr ''development'')])), s)"
    by (simp add: boot_get boot_docs_def)
  ultimately show ?thesis
    by (simp add: verifierForReleaseTrust_def rootTrust_def io_bind_def io_lift_def io_try_def io_ret_def boot_paths boot_object_def
        json_Unmarshal_def boot_root boot_policy)
qed

lemma boot_fetch:
  "\<exists>fr. Fetch boot_world (bootFetchOptions boot_demo (bq_Config boot_request) ''rel_1'' [] None
      \<lparr>erp_RequireSignedReleases = False, erp_AllowUnsignedCode = True\<rparr> 0) s = (Inr fr, s) \<and> fr_ReleaseManifest fr = boot_release"
proof -
  let ?o = "bootFetchOptions boot_demo (bq_Config boot_request) ''rel_1'' [] (None :: unit Verifier option)
    \<lparr>erp_RequireSignedReleases = False, erp_AllowUnsignedCode = True\<rparr> 0"
  have k: "releaseKeyFor ?o = Inr ''services/web/releases/rel_1/release.json''"
    by (simp add: releaseKeyFor_def bootFetchOptions_def boot_request_def boot_paths)
  have r: "readReleaseObject boot_world ''services/web/releases/rel_1/release.json'' s = (Inr (boot_release, m), s)"
    if "m = objectMetaFromObject (boot_object ''services/web/releases/rel_1/release.json'' (enc_ReleaseManifest boot_release))" for m
    by (simp add: that readReleaseObject_def readManifestObject_def boot_get boot_docs_def boot_object_def canonical_UnmarshalStrict_def
        codec_ReleaseManifest)
  have rt: "readRuntimeObject boot_world ''runtime'' s = (Inr (demo_runtime, m), s)"
    if "m = objectMetaFromObject (boot_object ''runtime'' (enc_RuntimeManifest demo_runtime))" for m
    by (simp add: that readRuntimeObject_def readManifestObject_def boot_get boot_docs_def boot_object_def canonical_UnmarshalStrict_def
        codec_RuntimeManifest [OF demo_wf])
  have key: "rm_RuntimeManifestKey boot_release = ''runtime''" by (simp add: boot_release_def demo_manifest_def)
  have now: "(if vo_Now (verifyOptionsFor ?o demo_runtime) = zero_gotime then io_now boot_world
      else io_ret (vo_Now (verifyOptionsFor ?o demo_runtime))) s = (Inr 0, s)"
    by (simp add: io_now_def io_ret_def boot_world_def verifyOptionsFor_def bootFetchOptions_def)
  obtain d x where c: "releaseChecks boot_release (verifyOptionsFor ?o demo_runtime) 0 = (d, x)" by (rule prod.exhaust)
  have "vr_Findings x = []"
    unfolding releaseChecks_findings [OF c] using releaseChecks_digest [OF c]
    by (simp add: verifyOptionsFor_def bootFetchOptions_def boot_request_def boot_demo_def boot_release_def demo_manifest_def UnsignedManifest_def
        demo_runtime_def zero_RuntimeManifest_def zero_ReleaseManifest_def)
  moreover have "vo_AllowUnsignedRelease (verifyOptionsFor ?o demo_runtime)" "rm_Signatures boot_release = []"
    by (simp_all add: verifyOptionsFor_def bootFetchOptions_def boot_release_def demo_manifest_def zero_ReleaseManifest_def)
  ultimately have "\<exists>x. VerifyManifest boot_world boot_release (verifyOptionsFor ?o demo_runtime) s = (Inr x, s) \<and> vr_OK x"
    unfolding VerifyManifest_def io_bind_def now using c releaseChecks_digest [OF c] 
    by (simp add: verifySignature_def io_ret_def check_simps digest_not_empty)
  then show ?thesis using k r rt key by (auto simp: Fetch_def fetch_bind_def)
qed

text \<open>
  C18: a runner accepts only a release that is verified and wanted. In the recorded actions of a bootstrap whose request brings no
  verifier of its own (no caller of the program does) there is at
  most one write of the local state, and there is one, successful, if the bootstrap succeeds. Before it, the environment
  root, the control document, the release manifest and its runtime manifest were read from the store; for a service, the control
  document names the release as the desired one; for a stateful member, the release is the one of the runner's configuration, and the member's control
  document, whose release id the code does not look at, is free, ready and has the volume and generation that are saved;
  release and runtime manifest are for this service and environment and have the digests they claim; and a key that is
  active in the trust of the environment root signed the release, unless its policy allows unsigned code and the release
  has no signature.
\<close>

theorem bootstrap_saves_verified:
  assumes "bq_Verifier req = None" "Bootstrap B W req s = (r, t)"
  shows "\<exists>as. Bootstrap B (trace_world W) (trace_boot req) (s, []) = (r, (t, as)) \<and>
    (unsaved as \<and> \<not> is_ok r \<or>
     (\<exists>before st ok after fr key. as = before @ ASave st ok # after \<and> unsaved before \<and> unsaved after \<and> (ok \<or> \<not> is_ok r) \<and>
        accepted_in B (bq_Config req) (ls_LastAcceptedRelease st) key fr before \<and> control_names (bq_Config req) st before \<and>
        ls_LastAcceptedRelease st = rm_ReleaseID (fr_ReleaseManifest fr) \<and> ls_ReleaseKey st = fr_ReleaseKey fr \<and>
        ls_Verification st = fr_Verification fr))"
proof -
  from recorded_boot [OF assms] obtain as where as: "Bootstrap B (trace_world W) (trace_boot req) (s, []) = (r, (t, as))" by blast
  from bootstrap_guarded [OF assms(1) this] show ?thesis
  proof (rule guardedE)
    assume "unsaved as" "\<not> is_ok r"
    then show ?thesis using as by blast
  next
    fix d1 st ok d2 assume *: "as = d1 @ ASave st ok # d2" "unsaved d1" "unsaved d2" "boot_guard B req d1 st" "is_ok r \<Longrightarrow> ok"
    from guard_facts [OF *(4)] obtain fr key where "accepted_in B (bq_Config req) (ls_LastAcceptedRelease st) key fr d1"
      "control_names (bq_Config req) st d1" "ls_LastAcceptedRelease st = rm_ReleaseID (fr_ReleaseManifest fr)"
      "ls_ReleaseKey st = fr_ReleaseKey fr" "ls_Verification st = fr_Verification fr" by blast
    with * as show ?thesis
      by - (rule exI [of _ as], rule conjI, assumption, rule disjI2, rule exI [of _ d1], rule exI [of _ st], rule exI [of _ ok],
        rule exI [of _ d2], rule exI [of _ fr], rule exI [of _ key], auto)
  qed
qed

text \<open>
  C21: no silent rollback. If the local state of a runner names a last accepted release with a creation time, then a
  bootstrap saves another release only if that was not created before it or, for a service, if its control document
  names that release as the stable one; a release without a creation time, and for a stateful member one whose times
  cannot be read, is not compared.
\<close>

theorem bootstrap_no_rollback:
  assumes "bq_Verifier req = None" "Bootstrap B W req s = (r, t)"
    and loaded: "\<forall>p. fst (sst_LoadState (bq_StateStore req) p) = Inr (Some prev)"
    and last: "ls_LastAcceptedRelease prev \<noteq> []" "ls_LastAcceptedReleaseCreated prev \<noteq> []"
  shows "\<exists>as. Bootstrap B (trace_world W) (trace_boot req) (s, []) = (r, (t, as)) \<and> (\<forall>st ok. ASave st ok \<in> set as \<longrightarrow>
    ls_LastAcceptedRelease st = ls_LastAcceptedRelease prev \<or> ls_LastAcceptedReleaseCreated st = [] \<or>
    (\<exists>t0 t1. time_Parse (ls_LastAcceptedReleaseCreated prev) = Some t0 \<and> time_Parse (ls_LastAcceptedReleaseCreated st) = Some t1 \<and> t0 \<le> t1) \<or>
    (if cfg_StatefulGroup (bq_Config req) = [] then
       \<exists>control. read_in (canonical_UnmarshalStrict dec_ServiceControl) (cfg_ControlKey (bq_Config req)) control as \<and>
         sc_StableRelease control = ls_LastAcceptedRelease st
     else time_Parse (ls_LastAcceptedReleaseCreated prev) = None \<or> time_Parse (ls_LastAcceptedReleaseCreated st) = None))"
proof -
  have p: "previous = Some prev" if "loads (bq_StateStore req) previous" for previous
    using that loaded unfolding loads_def by (metis Inl_Inr_False fst_conv sum.inject(2))
  from recorded_boot [OF assms(1,2)] obtain as where as: "Bootstrap B (trace_world W) (trace_boot req) (s, []) = (r, (t, as))" by blast
  show ?thesis
  proof (rule exI [of _ as], rule conjI [OF as], intro allI impI, goal_cases)
    case (1 st ok)
    from guarded_saved [OF bootstrap_guarded [OF assms(1) as] 1] obtain d1 d2 where *: "as = d1 @ ASave st ok # d2" "boot_guard B req d1 st"
      by blast
    show ?case
    proof (cases "cfg_StatefulGroup (bq_Config req) = []")
      case True
      then obtain control fr i now where c: "read_in (canonical_UnmarshalStrict dec_ServiceControl) (cfg_ControlKey (bq_Config req)) control d1"
        and f: "checkStaleRelease (Some prev) control (fr_ReleaseManifest fr) = Inr ()"
        and st: "st = acceptedState req i fr (cfg_ControlKey (bq_Config req)) None now"
        using *(2) p unfolding boot_guard_def service_guard_def by fastforce
      have "read_in (canonical_UnmarshalStrict dec_ServiceControl) (cfg_ControlKey (bq_Config req)) control as" using c * by simp
      then show ?thesis using f last True unfolding st
        by (auto simp: checkStaleRelease_def not_less split: if_splits option.splits)
    next
      case False
      then obtain fr i k x now where f: "checkStatefulStaleRelease (Some prev) (fr_ReleaseManifest fr) = Inr ()"
        and st: "st = acceptedState req i fr k x now"
        using *(2) p unfolding boot_guard_def member_guard_def by fastforce
      then show ?thesis using last False unfolding st
        by (auto simp: checkStatefulStaleRelease_def not_less split: if_splits option.splits)
    qed
  qed
qed

lemma boot_config: "ValidateConfig (bp_config boot_demo) (bq_Config boot_request) = Inr ()"
proof -
  define cfg where "cfg = bq_Config boot_request"
  have c: "cfg_Mode cfg = ModeRunner" "cfg_Env cfg = ''dev''" "cfg_Provider cfg = ''aws''" "cfg_Region cfg = ''r''" "cfg_StateBucket cfg = ''s3://b''"
    "cfg_Service cfg = ''web''" "cfg_ControlKey cfg = ''control''" "cfg_APIURL cfg = []" "cfg_LogLevel cfg = []" "cfg_EnvironmentClass cfg = []"
    "cfg_ReleasePolicy cfg = None" "cfg_StatefulGroup cfg = []"
    by (simp_all add: cfg_def boot_request_def zero_Config_def)
  have "TrimSpace ''dev'' = ''dev''" "TrimSpace ''aws'' = ''aws''" "TrimSpace ''r'' = ''r''" "TrimSpace ''s3://b'' = ''s3://b''"
    "TrimSpace ''web'' = ''web''" "TrimSpace ''control'' = ''control''"
    by (simp_all add: TrimSpace_printable printable_def)
  then have "requireForMode runnerSources cfg = []"
    by (simp add: requireForMode_def c config_require_def ModeAPI_def ModeDirect_def ModeSkiffd_def ModeRunner_def)
  moreover have "validateValues (bp_config boot_demo) runnerSources cfg = []"
    by (simp add: validateValues_def c boot_demo_def validateStateBucket_def config_validateName_def config_name_char_def validateStatefulConfig_def)
  ultimately show ?thesis unfolding ValidateConfig_def config_Validate_def cfg_def [symmetric] by simp
qed

lemma boot_control:
  "\<exists>c. readServiceControl boot_world ''control'' s = (Inr c, s) \<and> sc_Service c = ''web'' \<and> sc_Env c = ''dev'' \<and> sc_DesiredRelease c = ''rel_1''"
proof -
  let ?c = "zero_ServiceControl\<lparr>sc_SchemaVersion := schema_Version, sc_Service := ''web'', sc_Env := ''dev'', sc_DesiredRelease := ''rel_1''\<rparr>"
  have "dec_ServiceControl (enc_ServiceControl ?c) = Inr ?c"
    by (rule codec_ServiceControl) (simp add: wf_ServiceControl_def zero_ServiceControl_def in_int64_def)
  then show ?thesis
    by (simp add: readServiceControl_def boot_get boot_docs_def boot_object_def canonical_UnmarshalStrict_def zero_ServiceControl_def)
qed

lemma boot_fresh: "checkStaleRelease (Some boot_previous) c boot_release = Inr ()"
proof -
  have "time_Parse (canonical_Time 0) = Some 0" "time_Parse (canonical_Time 500) = Some 500" by (simp_all add: time_ok_int64 in_int64_def)
  then show ?thesis by (simp add: checkStaleRelease_def boot_previous_def boot_release_def demo_manifest_def)
qed

text \<open>Operations that succeed from any result so far, with what holds of their value.\<close>

definition runs :: "('a \<Rightarrow> bool) \<Rightarrow> (unit \<times> 'v, 'e, 'a) eio \<Rightarrow> bool" where
  "runs P m \<longleftrightarrow> (\<forall>v. \<exists>x v'. m ((), v) = (Inr x, ((), v')) \<and> P x)"

lemma runs_bind: "runs P m \<Longrightarrow> (\<And>x. P x \<Longrightarrow> runs Q (f x)) \<Longrightarrow> runs Q (ebind m f)"
proof (unfold runs_def, rule allI)
  fix v
  assume m: "\<forall>v. \<exists>x v'. m ((), v) = (Inr x, (), v') \<and> P x"
    and f: "\<And>x. P x \<Longrightarrow> \<forall>v. \<exists>y v'. f x ((), v) = (Inr y, (), v') \<and> Q y"
  obtain x v' where x: "m ((), v) = (Inr x, (), v')" "P x" using m by blast
  show "\<exists>y v'. ebind m f ((), v) = (Inr y, (), v') \<and> Q y"
    using f [OF x(2)] by (simp add: ebind_def x(1))
qed

lemma runs_prims:
  "P x \<Longrightarrow> runs P (eret x)" "runs (\<lambda>_. True) (eupdate g)" "runs (\<lambda>x. x = 0) (host ex (io_now boot_world))"
  "(\<And>s. m s = (Inr x, s)) \<Longrightarrow> runs (\<lambda>y. y = x) (boot_try W req i rel mk m)"
  by (auto simp: runs_def eret_def eupdate_def host_def io_now_def boot_world_def boot_try_def)

lemma boot_request_simps:
  "bq_Store boot_request = Some boot_world" "bq_EventSink boot_request = None" "bq_Verifier boot_request = None"
  "bq_MetadataProvider boot_request = Some (io_ret zero_Identity)"
  "bq_StateStore boot_request = \<lparr>sst_LoadState = io_ret (Some boot_previous), sst_SaveState = (\<lambda>_. io_ret ())\<rparr>"
  "bq_IdentityOptions boot_request = \<lparr>ido_Attempts = 0, ido_Backoff = 0\<rparr>"
  "cfg_StatefulGroup (bq_Config boot_request) = []" "cfg_ControlKey (bq_Config boot_request) = ''control''"
  "cfg_Service (bq_Config boot_request) = ''web''" "cfg_Env (bq_Config boot_request) = ''dev''"
  by (simp_all add: boot_request_def zero_Config_def)

lemma runs_emit: "runs (\<lambda>_. True) (boot_emit boot_world boot_request st rel sm cause i)"
  unfolding boot_emit_def boot_request_simps Let_def option.case
  by (rule runs_bind [OF runs_prims(3)], rule runs_bind [OF runs_prims(2)], rule runs_bind [OF runs_prims(2)], rule runs_prims(1)) simp

lemma runs_identity: "runs (\<lambda>_. True) (bootIdentity boot_world boot_request)"
proof -
  have d: "DiscoverIdentity boot_world (Some (io_ret zero_Identity)) \<lparr>ido_Attempts = 0, ido_Backoff = 0\<rparr> s = (Inr zero_Identity, s)" for s
    by (simp add: DiscoverIdentity_def numeral_eq_Suc io_ret_def io_bind_def io_try_def)
  have v: "io_lift (validateIdentity zero_Identity cfg) s = (Inr (), s)" for cfg and s :: unit
    by (simp add: validateIdentity_def zero_Identity_def io_lift_def)
  have o: "runs (\<lambda>_. True) (if idn_ObservedAt zero_Identity = [] then
      ebind (host f (io_now boot_world)) (\<lambda>now. eret (zero_Identity\<lparr>idn_ObservedAt := canonical_Time now\<rparr>)) else eret zero_Identity)" for f
    by (auto intro: runs_bind [OF runs_prims(3)] runs_prims)
  show ?thesis
    unfolding bootIdentity_def boot_request_simps
    by (rule runs_bind [OF runs_prims(4) [OF d]], simp only:, rule runs_bind [OF runs_prims(4) [OF v]], rule runs_bind [OF o],
        rule runs_bind [OF runs_prims(2)], rule runs_prims(1)) simp
qed

lemma runs_fetch:
  "runs (\<lambda>_. True) (bootFetch boot_demo boot_world boot_world boot_request i ''rel_1'' [] (checkStaleRelease (Some boot_previous) c))"
proof -
  obtain fr where fr: "\<And>s. Fetch boot_world (bootFetchOptions boot_demo (bq_Config boot_request) ''rel_1'' [] None
      \<lparr>erp_RequireSignedReleases = False, erp_AllowUnsignedCode = True\<rparr> 0) s = (Inr fr, s)" "fr_ReleaseManifest fr = boot_release"
    using boot_fetch by (metis (full_types) old.unit.exhaust)
  have st: "io_lift (checkStaleRelease (Some boot_previous) c (fr_ReleaseManifest fr)) s = (Inr (), s)" for s :: unit
    by (simp add: io_lift_def fr(2) boot_fresh)
  show ?thesis
    unfolding bootFetch_def boot_request_simps(3)
    by (rule runs_bind [OF runs_prims(4) [OF boot_trust]], simp only: prod.case, rule runs_bind [OF runs_prims(3)], simp only:,
        rule runs_bind [OF runs_prims(4) [OF fr(1)]], simp only:, rule runs_bind [OF runs_prims(4) [OF st]], rule runs_prims(1)) simp
qed

lemma boot_runs: "\<exists>res. Bootstrap boot_demo boot_world boot_request () = (Inr res, ())"
proof -
  obtain c where c: "\<And>s. readServiceControl boot_world ''control'' s = (Inr c, s)" "sc_Service c = ''web''" "sc_Env c = ''dev''"
    "sc_DesiredRelease c = ''rel_1''" using boot_control by (metis (full_types) old.unit.exhaust)
  have target: "io_lift (validateControlTarget c (bq_Config boot_request)) s = (Inr (), s)" for s :: unit
    by (simp add: validateControlTarget_def boot_request_simps c io_lift_def)
  have load: "loadPrevious (bq_StateStore boot_request) s = (Inr (Some boot_previous), s)" for s
    by (simp add: boot_request_simps loadPrevious_def io_bind_def io_try_def io_ret_def)
  have save: "runs (\<lambda>_. True) (bootSave boot_world boot_request i fr k rt)" for i fr k rt
    unfolding bootSave_def Let_def boot_request_simps
    by (rule runs_bind [OF runs_prims(3)], rule runs_bind [OF runs_prims(4) [of _ "()"]]) (auto simp: io_ret_def intro: runs_prims)
  have service: "runs (\<lambda>_. True) (bootstrapService boot_demo boot_world boot_world boot_request i)" for i
    unfolding bootstrapService_def Let_def boot_request_simps(8)
    by (rule runs_bind [OF runs_emit], rule runs_bind [OF runs_prims(4) [OF load]], rule runs_bind [OF runs_prims(4) [OF c(1)]], simp only:,
        rule runs_bind [OF runs_prims(4) [OF target]], simp add: c(4), rule runs_bind [OF runs_prims(2)], rule runs_bind [OF runs_emit],
        rule runs_bind [OF runs_fetch], rule runs_bind [OF save], rule runs_bind [OF runs_emit], rule runs_prims(2))
  have valid: "io_lift (ValidateConfig (bp_config boot_demo) (bq_Config boot_request)) s = (Inr (), s)" for s :: unit
    by (simp add: io_lift_def boot_config)
  have "runs (\<lambda>_. True) (bootSteps boot_demo boot_world boot_request)"
    unfolding bootSteps_def boot_request_simps option.case
    by (simp only: simp_thms if_False, rule runs_bind [OF runs_prims(4) [OF valid]], rule runs_bind [OF runs_emit],
        rule runs_bind [OF runs_identity], rule service)
  then obtain res v where "bootSteps boot_demo boot_world boot_request
      ((), zero_BootstrapResult\<lparr>br_Service := cfg_Service (bq_Config boot_request), br_Env := cfg_Env (bq_Config boot_request),
        br_ControlKey := cfg_ControlKey (bq_Config boot_request)\<rparr>) = (Inr res, (), v)"
    unfolding runs_def by blast
  then show ?thesis by (simp add: Bootstrap_def)
qed

theorem bootstrap_saves_verified_witness:
  "\<exists>res as before st ok after fr key. Bootstrap boot_demo boot_world boot_request () = (Inr res, ()) \<and>
    as = before @ ASave st ok # after \<and> ok \<and> unsaved before \<and> unsaved after \<and>
    accepted_in boot_demo (bq_Config boot_request) (ls_LastAcceptedRelease st) key fr before \<and>
    control_names (bq_Config boot_request) st before"
proof -
  obtain res where r: "Bootstrap boot_demo boot_world boot_request () = (Inr res, ())" using boot_runs by blast
  then show ?thesis using bootstrap_saves_verified [OF boot_request_simps(3) r] by simp blast
qed

theorem bootstrap_no_rollback_witness:
  "\<exists>res as. Bootstrap boot_demo boot_world boot_request () = (Inr res, ()) \<and>
    Bootstrap boot_demo (trace_world boot_world) (trace_boot boot_request) ((), []) = (Inr res, ((), as)) \<and>
    list_all (\<lambda>a. case a of ASave st ok \<Rightarrow> ls_LastAcceptedRelease st = ls_LastAcceptedRelease boot_previous \<or>
      ls_LastAcceptedReleaseCreated st = [] \<or>
      (\<exists>t0 t1. time_Parse (ls_LastAcceptedReleaseCreated boot_previous) = Some t0 \<and>
        time_Parse (ls_LastAcceptedReleaseCreated st) = Some t1 \<and> t0 \<le> t1) \<or>
      (\<exists>control. read_in (canonical_UnmarshalStrict dec_ServiceControl) ''control'' control as \<and>
        sc_StableRelease control = ls_LastAcceptedRelease st) | _ \<Rightarrow> True) as"
proof -
  obtain res where r: "Bootstrap boot_demo boot_world boot_request () = (Inr res, ())" using boot_runs by blast
  have loaded: "\<forall>p. fst (sst_LoadState (bq_StateStore boot_request) p) = Inr (Some boot_previous)"
    by (simp add: boot_request_simps io_ret_def)
  have last: "ls_LastAcceptedRelease boot_previous \<noteq> []" "ls_LastAcceptedReleaseCreated boot_previous \<noteq> []"
    by (simp_all add: boot_previous_def)
  show ?thesis
    using bootstrap_no_rollback [OF boot_request_simps(3) r loaded last] r
    by (clarsimp simp: boot_request_simps list_all_iff split: action.splits) blast
qed

end
