(* ===== verification/Saga_Templates.thy ===== *)
theory Saga_Templates
  imports Saga_Store Events Authz
begin

text \<open>
  The sagas Skiff offers (internal/saga/templates): each template normalizes and checks its request and builds the
  intent, the graph and the first control document of a saga from it.

  The operations are functions of the wall clock (\<open>wall\<close>, read when a request has no time), of \<^verbatim>\<open>time.ParseDuration\<close> (\<open>pd\<close>)
  and of lower-casing beyond ASCII (\<open>ul\<close>). \<^verbatim>\<open>mustJSON\<close> is the JSON value of its argument; it panics only on
  what a request cannot hold, infinite floats and years beyond 9999. A \<^verbatim>\<open>float64\<close> is the literal it is written with.
  The times of a request are in UTC. \<^verbatim>\<open>NormalizeCanaryRequest\<close> also trims the gates in the caller's slice, which it shares; the
  model returns the normalized request.
\<close>

section \<open>What the templates share\<close>

definition tpl_created :: "gotime \<Rightarrow> gotime \<Rightarrow> gotime" where
  "tpl_created wall t = (if t = zero_gotime then wall else t)"

definition tpl_actor :: "Actor \<Rightarrow> Actor" where
  "tpl_actor actor0 =
     (let actor = (if act_ID actor0 = [] then \<lparr>act_ID = ''skiff'', act_Type = ''user''\<rparr> else actor0)
      in if act_Type actor = [] then actor\<lparr>act_Type := ''user''\<rparr> else actor)"

definition or_else :: "string \<Rightarrow> string \<Rightarrow> string" where
  "or_else s d = (if s = [] then d else s)"

definition tpl_trace :: "gotime \<Rightarrow> gotime \<Rightarrow> string \<Rightarrow> string \<Rightarrow> string" where
  "tpl_trace wall created seed trace = or_else trace (''tr_'' @ NewID wall created seed)"

definition tpl_operation :: "gotime \<Rightarrow> gotime \<Rightarrow> string \<Rightarrow> string \<Rightarrow> string" where
  "tpl_operation wall created trace operation = or_else operation (''op_'' @ NewID wall created trace)"

definition tpl_saga :: "gotime \<Rightarrow> gotime \<Rightarrow> string \<Rightarrow> string \<Rightarrow> string" where
  "tpl_saga wall created operation saga = or_else saga (''saga_'' @ NewID wall created operation)"

definition mustJSON :: "json \<Rightarrow> raw" where
  "mustJSON value0 = Raw value0"

definition jstrs :: "string list \<Rightarrow> json" where
  "jstrs xs = JArr (map JStr xs)"

definition e_ordinal :: "int \<Rightarrow> json" where
  "e_ordinal i = JNum (show_int i)"

definition required :: "string \<Rightarrow> unit result" where
  "required what = Inl (new_error (what @ '' is required''))"

text \<open>A node, without retries and compensation; these are added where the template has them.\<close>

definition tpl_node :: "string \<Rightarrow> string \<Rightarrow> string list \<Rightarrow> json \<Rightarrow> string \<Rightarrow> string \<Rightarrow> SagaNode" where
  "tpl_node ident kind requires params risk reversibility =
     \<lparr>sn_ID = ident, sn_Kind = kind, sn_Requires = requires, sn_Params = mustJSON params, sn_Retry = None, sn_Compensate = None,
      sn_Risk = risk, sn_Reversibility = reversibility\<rparr>"

definition twice :: "SagaNode \<Rightarrow> SagaNode" where
  "twice node = node\<lparr>sn_Retry := Some \<lparr>rp_MaxAttempts = 2, rp_Backoff = ''2s''\<rparr>\<rparr>"

definition compensated :: "string \<Rightarrow> json \<Rightarrow> SagaNode \<Rightarrow> SagaNode" where
  "compensated kind params node = node\<lparr>sn_Compensate := Some \<lparr>cs_Kind = kind, cs_Params = mustJSON params\<rparr>\<rparr>"

definition tpl_edge :: "string \<Rightarrow> string \<Rightarrow> SagaEdge" where
  "tpl_edge a b = \<lparr>se_From = a, se_To = b\<rparr>"

fun sequentialEdges :: "SagaNode list \<Rightarrow> SagaEdge list" where
  "sequentialEdges (a # b # nodes) = tpl_edge (sn_ID a) (sn_ID b) # sequentialEdges (b # nodes)"
| "sequentialEdges nodes = []"

text \<open>The three documents of a new saga.\<close>

definition tpl_request ::
  "string \<Rightarrow> string \<Rightarrow> Target \<Rightarrow> Actor \<Rightarrow> string \<Rightarrow> string \<Rightarrow> string \<Rightarrow> string \<Rightarrow> gotime \<Rightarrow> json \<Rightarrow> SagaNode list \<Rightarrow> SagaEdge list \<Rightarrow> CreateRequest" where
  "tpl_request sagaID kind target actor trace risk reversibility summary created params nodes edges =
     (let now = canonical_Time created in
      \<lparr>creq_Intent = zero_SagaIntent\<lparr>si_SchemaVersion := schema_Version, si_SagaID := sagaID, si_Kind := kind, si_Target := target,
         si_Actor := actor, si_TraceID := trace, si_Risk := risk, si_Reversibility := reversibility, si_Summary := summary,
         si_CreatedAt := now, si_Params := mustJSON params\<rparr>,
       creq_Graph = zero_SagaGraph\<lparr>sg_SchemaVersion := schema_Version, sg_SagaID := sagaID, sg_Nodes := nodes, sg_Edges := edges,
         sg_CreatedAt := now\<rparr>,
       creq_Control = zero_SagaControl\<lparr>sct_SchemaVersion := schema_Version, sct_SagaID := sagaID, sct_Status := SagaPending,
         sct_UpdatedAt := now, sct_TraceID := trace\<rparr>\<rparr>)"

definition tpl_target :: "string \<Rightarrow> string \<Rightarrow> Target" where
  "tpl_target kind name = \<lparr>tgt_Kind = kind, tgt_Name = name\<rparr>"

text \<open>A loop that appends a node after the previous one, with an edge to it.\<close>

type_synonym tpl_chain = "SagaNode list \<times> SagaEdge list \<times> string"

definition then_node :: "(string \<Rightarrow> SagaNode) \<Rightarrow> tpl_chain \<Rightarrow> tpl_chain" where
  "then_node f c = (case c of (nodes, edges, previous) \<Rightarrow>
     (let node = f previous in (nodes @ [node], edges @ [tpl_edge previous (sn_ID node)], sn_ID node)))"

fun normalizeList :: "(string \<Rightarrow> string) \<Rightarrow> string list \<Rightarrow> string list \<Rightarrow> string list" where
  "normalizeList ul seen [] = []"
| "normalizeList ul seen (v # vs) =
     (let x = TrimSpace v; key = strings_ToLower ul x in
      if x = [] \<or> key \<in> set seen then normalizeList ul seen vs else x # normalizeList ul (key # seen) vs)"

definition normalizeStringList :: "(string \<Rightarrow> string) \<Rightarrow> string list \<Rightarrow> string list" where
  "normalizeStringList ul values0 = normalizeList ul [] values0"

definition wrap_error :: "string \<Rightarrow> 'a result \<Rightarrow> unit result" where
  "wrap_error text r = (case r of Inr _ \<Rightarrow> Inr () | Inl err \<Rightarrow> Inl (Errorf (text @ '': '' @ err_text err) (Some err)))"

definition no_actor :: "Actor \<Rightarrow> bool" where
  "no_actor actor \<longleftrightarrow> act_ID actor = [] \<or> act_Type actor = []"

definition actor_error :: "unit result" where
  "actor_error = Inl (new_error ''actor id and type are required'')"

definition healthy_statuses :: json where
  "healthy_statuses = jstrs [''healthy'', ''ok'', ''active'', ''configured'', ''running'', ''applied'', ''unchanged'']"

section \<open>Rollback\<close>

definition DeploymentRollbackKind :: string where "DeploymentRollbackKind = ''deployment.rollback''"
definition PreviousStable :: string where "PreviousStable = ''previous-stable''"

record RollbackRequest =
  rbr_SagaID :: string
  rbr_OperationID :: string
  rbr_Service :: string
  rbr_Env :: string
  rbr_FromRelease :: string
  rbr_Target :: string
  rbr_TargetRelease :: string
  rbr_TraceID :: string
  rbr_Actor :: Actor
  rbr_CreatedAt :: gotime

record rollbackParams =
  rbp_Service :: string
  rbp_Env :: string
  rbp_OperationID :: string
  rbp_FromRelease :: string
  rbp_Target :: string
  rbp_TargetRelease :: string

definition enc_rollbackParams :: "rollbackParams \<Rightarrow> json" where
  "enc_rollbackParams x = enc_obj [
     (''service'', e_str (rbp_Service x)),
     (''env'', e_str (rbp_Env x)),
     (''operation_id'', o_str (rbp_OperationID x)),
     (''from_release'', o_str (rbp_FromRelease x)),
     (''target'', o_str (rbp_Target x)),
     (''target_release'', o_str (rbp_TargetRelease x))]"

definition normalizeRollbackRequest :: "gotime \<Rightarrow> RollbackRequest \<Rightarrow> RollbackRequest" where
  "normalizeRollbackRequest wall req =
     (let created = tpl_created wall (rbr_CreatedAt req);
          service = TrimSpace (rbr_Service req);
          target = or_else (TrimSpace (rbr_Target req)) PreviousStable;
          trace = tpl_trace wall created (service @ ''rollback'') (rbr_TraceID req);
          operation = tpl_operation wall created trace (rbr_OperationID req)
      in req\<lparr>rbr_CreatedAt := created, rbr_Service := service, rbr_Env := TrimSpace (rbr_Env req), rbr_Target := target,
           rbr_TargetRelease := or_else (TrimSpace (rbr_TargetRelease req)) target, rbr_FromRelease := TrimSpace (rbr_FromRelease req),
           rbr_Actor := tpl_actor (rbr_Actor req), rbr_TraceID := trace, rbr_OperationID := operation,
           rbr_SagaID := tpl_saga wall created operation (rbr_SagaID req)\<rparr>)"

definition validateRollbackRequest :: "RollbackRequest \<Rightarrow> unit result" where
  "validateRollbackRequest req =
     (if rbr_Service req = [] then required ''service''
      else if rbr_Env req = [] then required ''env''
      else if rbr_TargetRelease req = [] then required ''target release''
      else if no_actor (rbr_Actor req) then actor_error
      else if rbr_TraceID req = [] then required ''trace id''
      else Inr ())"

definition rollbackNodes :: "RollbackRequest \<Rightarrow> json \<Rightarrow> SagaNode list" where
  "rollbackNodes req common =
     [tpl_node ''resolve-target'' ''deployment.rollback.resolve_target'' [] common RiskLow Reversible,
      tpl_node ''create-operation'' ''operation.intent.create'' [''resolve-target''] common RiskLow Reversible,
      tpl_node ''acquire-service-lease'' ''service.lease.acquire'' [''create-operation''] common RiskLow Reversible,
      compensated ''service.desired_release.update''
        (enc_rollbackParams \<lparr>rbp_Service = rbr_Service req, rbp_Env = rbr_Env req, rbp_OperationID = rbr_OperationID req,
          rbp_FromRelease = [], rbp_Target = [], rbp_TargetRelease = rbr_FromRelease req\<rparr>)
        (tpl_node ''update-desired-release'' ''service.desired_release.update'' [''acquire-service-lease''] common RiskMedium Reversible),
      twice (tpl_node ''start-asg-instance-refresh'' ''provider.aws.asg_instance_refresh.start'' [''update-desired-release''] common
        RiskMedium Compensatable),
      tpl_node ''watch-rollout-health'' ''provider.aws.asg_instance_refresh.watch'' [''start-asg-instance-refresh''] common RiskMedium Compensatable,
      tpl_node ''mark-complete'' ''operation.rollback.complete'' [''watch-rollout-health''] common RiskLow Reversible]"

definition DeploymentRollback :: "gotime \<Rightarrow> RollbackRequest \<Rightarrow> CreateRequest result" where
  "DeploymentRollback wall req0 =
     (let req = normalizeRollbackRequest wall req0 in
      rbind (validateRollbackRequest req) (\<lambda>_.
      (let common = enc_rollbackParams \<lparr>rbp_Service = rbr_Service req, rbp_Env = rbr_Env req, rbp_OperationID = rbr_OperationID req,
             rbp_FromRelease = rbr_FromRelease req, rbp_Target = rbr_Target req, rbp_TargetRelease = rbr_TargetRelease req\<rparr>
       in Inr (tpl_request (rbr_SagaID req) DeploymentRollbackKind (tpl_target ''service'' (rbr_Service req)) (rbr_Actor req) (rbr_TraceID req)
            RiskMedium Reversible (''rollback '' @ rbr_Service req @ '' to '' @ rbr_TargetRelease req) (rbr_CreatedAt req) common
            (rollbackNodes req common)
            [tpl_edge ''resolve-target'' ''create-operation'', tpl_edge ''create-operation'' ''acquire-service-lease'',
             tpl_edge ''acquire-service-lease'' ''update-desired-release'', tpl_edge ''update-desired-release'' ''start-asg-instance-refresh'',
             tpl_edge ''start-asg-instance-refresh'' ''watch-rollout-health'', tpl_edge ''watch-rollout-health'' ''mark-complete'']))))"

definition LookupRollback :: "gotime \<Rightarrow> string \<Rightarrow> (RollbackRequest \<Rightarrow> CreateRequest result) option" where
  "LookupRollback wall kind = (if kind = DeploymentRollbackKind then Some (DeploymentRollback wall) else None)"

definition RegisteredRollbackKinds :: "string list" where
  "RegisteredRollbackKinds = [DeploymentRollbackKind]"

section \<open>Canary deployment\<close>

definition DeploymentCanaryKind :: string where "DeploymentCanaryKind = ''deployment.canary''"
definition CanaryDeployCommand :: string where "CanaryDeployCommand = ''canary-deploy''"
definition DefaultCanaryBake :: string where "DefaultCanaryBake = ''5m''"
definition DefaultRollbackPolicy :: string where "DefaultRollbackPolicy = PreviousStable"

record CanaryStage =
  cst_Percent :: int
  cst_MinHealthyPercentage :: int
  cst_InstanceWarmup :: int

definition enc_CanaryStage :: "CanaryStage \<Rightarrow> json" where
  "enc_CanaryStage x = enc_obj [
     (''percent'', e_int (cst_Percent x)),
     (''min_healthy_percentage'', o_int (cst_MinHealthyPercentage x)),
     (''instance_warmup'', o_int (cst_InstanceWarmup x))]"

record MetricGate =
  mgt_Metric :: string
  mgt_Comparator :: string
  mgt_Threshold :: string
  mgt_Window :: string
  mgt_PeriodSeconds :: int

definition enc_MetricGate :: "MetricGate \<Rightarrow> json" where
  "enc_MetricGate x = enc_obj [
     (''metric'', e_str (mgt_Metric x)),
     (''comparator'', o_str (mgt_Comparator x)),
     (''threshold'', Some (JNum (mgt_Threshold x))),
     (''window'', o_str (mgt_Window x)),
     (''period_seconds'', o_int (mgt_PeriodSeconds x))]"

record CanaryRequest =
  cnr_SagaID :: string
  cnr_OperationID :: string
  cnr_Service :: string
  cnr_Env :: string
  cnr_ReleaseID :: string
  cnr_Stages :: "CanaryStage list"
  cnr_BakeDuration :: string
  cnr_MetricGates :: "MetricGate list"
  cnr_RollbackPolicy :: string
  cnr_PackageLockDigest :: string
  cnr_TraceID :: string
  cnr_Actor :: Actor
  cnr_CreatedAt :: gotime

record canaryParams =
  cnp_Service :: string
  cnp_Env :: string
  cnp_OperationID :: string
  cnp_ReleaseID :: string
  cnp_BakeDuration :: string
  cnp_RollbackPolicy :: string
  cnp_Stages :: "CanaryStage list"
  cnp_MetricGates :: "MetricGate list"

definition enc_canaryParams :: "canaryParams \<Rightarrow> json" where
  "enc_canaryParams x = enc_obj [
     (''service'', e_str (cnp_Service x)),
     (''env'', e_str (cnp_Env x)),
     (''operation_id'', o_str (cnp_OperationID x)),
     (''release_id'', e_str (cnp_ReleaseID x)),
     (''bake_duration'', o_str (cnp_BakeDuration x)),
     (''rollback_policy'', o_str (cnp_RollbackPolicy x)),
     (''stages'', o_list enc_CanaryStage (cnp_Stages x)),
     (''metric_gates'', o_list enc_MetricGate (cnp_MetricGates x))]"

record canaryStageParams =
  csp_Service :: string
  csp_Env :: string
  csp_OperationID :: string
  csp_ReleaseID :: string
  csp_StagePercent :: int
  csp_RollbackPolicy :: string
  csp_MinHealthyPercentage :: int
  csp_InstanceWarmup :: int
  csp_Mechanism :: string

definition enc_canaryStageParams :: "canaryStageParams \<Rightarrow> json" where
  "enc_canaryStageParams x = enc_obj [
     (''service'', e_str (csp_Service x)),
     (''env'', e_str (csp_Env x)),
     (''operation_id'', o_str (csp_OperationID x)),
     (''release_id'', e_str (csp_ReleaseID x)),
     (''stage_percent'', e_int (csp_StagePercent x)),
     (''rollback_policy'', o_str (csp_RollbackPolicy x)),
     (''min_healthy_percentage'', o_int (csp_MinHealthyPercentage x)),
     (''instance_warmup'', o_int (csp_InstanceWarmup x)),
     (''mechanism'', e_str (csp_Mechanism x))]"

record canaryBakeParams =
  cbp_Service :: string
  cbp_Env :: string
  cbp_StagePercent :: int
  cbp_Duration :: string

definition enc_canaryBakeParams :: "canaryBakeParams \<Rightarrow> json" where
  "enc_canaryBakeParams x = enc_obj [
     (''service'', e_str (cbp_Service x)),
     (''env'', e_str (cbp_Env x)),
     (''stage_percent'', e_int (cbp_StagePercent x)),
     (''duration'', e_str (cbp_Duration x))]"

definition normalizeGate :: "MetricGate \<Rightarrow> MetricGate" where
  "normalizeGate gate = gate\<lparr>mgt_Metric := TrimSpace (mgt_Metric gate), mgt_Comparator := or_else (TrimSpace (mgt_Comparator gate)) ''<='',
     mgt_Window := TrimSpace (mgt_Window gate)\<rparr>"

definition NormalizeCanaryRequest :: "gotime \<Rightarrow> CanaryRequest \<Rightarrow> CanaryRequest" where
  "NormalizeCanaryRequest wall req =
     (let created = tpl_created wall (cnr_CreatedAt req);
          service = TrimSpace (cnr_Service req);
          stage = (\<lambda>percent. \<lparr>cst_Percent = percent, cst_MinHealthyPercentage = 0, cst_InstanceWarmup = 0\<rparr>);
          gates = (if cnr_MetricGates req = []
            then [\<lparr>mgt_Metric = ''aws.elb.http_5xx_count'', mgt_Comparator = ''<='', mgt_Threshold = ''0'', mgt_Window = ''5m'', mgt_PeriodSeconds = 0\<rparr>]
            else cnr_MetricGates req);
          trace = tpl_trace wall created (service @ ''canary'') (TrimSpace (cnr_TraceID req));
          operation = tpl_operation wall created trace (TrimSpace (cnr_OperationID req))
      in req\<lparr>cnr_CreatedAt := created, cnr_Service := service, cnr_Env := TrimSpace (cnr_Env req), cnr_ReleaseID := TrimSpace (cnr_ReleaseID req),
           cnr_PackageLockDigest := TrimSpace (cnr_PackageLockDigest req),
           cnr_RollbackPolicy := or_else (TrimSpace (cnr_RollbackPolicy req)) DefaultRollbackPolicy,
           cnr_BakeDuration := or_else (TrimSpace (cnr_BakeDuration req)) DefaultCanaryBake,
           cnr_Stages := (if cnr_Stages req = [] then [stage 5, stage 25, stage 100] else cnr_Stages req),
           cnr_MetricGates := map normalizeGate gates, cnr_Actor := tpl_actor (cnr_Actor req), cnr_TraceID := trace,
           cnr_OperationID := operation, cnr_SagaID := tpl_saga wall created operation (TrimSpace (cnr_SagaID req))\<rparr>)"

fun validateStages :: "int list \<Rightarrow> int \<Rightarrow> CanaryStage list \<Rightarrow> unit result" where
  "validateStages seen lst [] = Inr ()"
| "validateStages seen lst (stage # stages) =
     (let p = cst_Percent stage in
      if p \<le> 0 \<or> p > 100 then Inl (new_error (''canary stage percent '' @ show_int p @ '' must be between 1 and 100''))
      else if p \<in> set seen then Inl (new_error (''duplicate canary stage percent '' @ show_int p))
      else if p < lst then Inl (new_error ''canary stages must be ordered by increasing percent'')
      else validateStages (p # seen) p stages)"

fun validateGates :: "(string \<Rightarrow> int result) \<Rightarrow> MetricGate list \<Rightarrow> unit result" where
  "validateGates pd [] = Inr ()"
| "validateGates pd (gate # gates) =
     (if TrimSpace (mgt_Metric gate) = [] then required ''metric gate metric''
      else rbind (if mgt_Window gate \<noteq> [] then wrap_error ''metric gate window is invalid'' (pd (mgt_Window gate)) else Inr ()) (\<lambda>_.
        validateGates pd gates))"

definition validateCanaryRequest :: "(string \<Rightarrow> int result) \<Rightarrow> CanaryRequest \<Rightarrow> unit result" where
  "validateCanaryRequest pd req =
     (if cnr_Service req = [] then required ''service''
      else if cnr_Env req = [] then required ''env''
      else if cnr_ReleaseID req = [] then required ''release ID''
      else if no_actor (cnr_Actor req) then actor_error
      else if cnr_TraceID req = [] then required ''trace id''
      else rbind (wrap_error ''bake duration is invalid'' (pd (cnr_BakeDuration req))) (\<lambda>_.
        rbind (validateStages [] 0 (cnr_Stages req)) (\<lambda>_.
        if cnr_Stages req = [] \<or> cst_Percent (last (cnr_Stages req)) \<noteq> 100 then Inl (new_error ''canary stages must end at 100 percent'')
        else validateGates pd (cnr_MetricGates req))))"

definition canaryStage :: "CanaryRequest \<Rightarrow> CanaryStage \<Rightarrow> canaryStageParams" where
  "canaryStage req stage = \<lparr>csp_Service = cnr_Service req, csp_Env = cnr_Env req, csp_OperationID = cnr_OperationID req,
     csp_ReleaseID = cnr_ReleaseID req, csp_StagePercent = cst_Percent stage, csp_RollbackPolicy = cnr_RollbackPolicy req,
     csp_MinHealthyPercentage = cst_MinHealthyPercentage stage, csp_InstanceWarmup = cst_InstanceWarmup stage,
     csp_Mechanism = ''aws-asg-instance-refresh-min-healthy''\<rparr>"

fun canaryGates :: "CanaryRequest \<Rightarrow> int \<Rightarrow> int \<Rightarrow> MetricGate list \<Rightarrow> tpl_chain \<Rightarrow> tpl_chain" where
  "canaryGates req percent i [] c = c"
| "canaryGates req percent i (gate # gates) c =
     canaryGates req percent (i + 1) gates
       (then_node (\<lambda>previous. tpl_node (''metrics-gate-'' @ show_int percent @ ''-'' @ show_int (i + 1)) ''check.metrics_gate'' [previous]
          (JObj [(''comparator'', JStr (mgt_Comparator gate)), (''env'', JStr (cnr_Env req)), (''metric'', JStr (mgt_Metric gate)),
                 (''period_seconds'', JNum (show_int (mgt_PeriodSeconds gate))), (''service'', JStr (cnr_Service req)),
                 (''threshold'', JNum (mgt_Threshold gate)), (''window'', JStr (mgt_Window gate))]) RiskMedium Reversible) c)"

definition canaryStageNodes :: "CanaryRequest \<Rightarrow> CanaryStage \<Rightarrow> tpl_chain \<Rightarrow> tpl_chain" where
  "canaryStageNodes req stage c0 =
     (let p = show_int (cst_Percent stage);
          params = enc_canaryStageParams (canaryStage req stage);
          c1 = then_node (\<lambda>previous. twice (compensated ''service.canary.rollback'' params
            (tpl_node (''start-'' @ p) ''service.canary.stage'' [previous] params RiskMedium Compensatable))) c0;
          c2 = then_node (\<lambda>previous. tpl_node (''bake-'' @ p) ''time.sleep'' [previous]
            (enc_canaryBakeParams \<lparr>cbp_Service = cnr_Service req, cbp_Env = cnr_Env req, cbp_StagePercent = cst_Percent stage,
               cbp_Duration = cnr_BakeDuration req\<rparr>) RiskLow Reversible) c1;
          c3 = then_node (\<lambda>previous. tpl_node (''target-health-'' @ p) ''check.target_health'' [previous]
            (JObj [(''allowed_statuses'', jstrs [''healthy'', ''ok'', ''active'', ''configured'', ''in-service'', ''applied'', ''unchanged'']),
                   (''env'', JStr (cnr_Env req)), (''kind'', JStr ''target-group''), (''logical_id'', JStr (''target-group:'' @ cnr_Service req)),
                   (''service'', JStr (cnr_Service req))]) RiskMedium Reversible) c2
      in canaryGates req (cst_Percent stage) 0 (cnr_MetricGates req) c3)"

definition canaryGraph :: "CanaryRequest \<Rightarrow> tpl_chain" where
  "canaryGraph req =
     (let preflight = tpl_node ''preflight'' ''check.preflight'' []
            (JObj [(''env'', JStr (cnr_Env req)), (''require_provider'', JBool True), (''require_service_control'', JBool True),
                   (''required_facts'', jstrs [''release:'' @ cnr_ReleaseID req, ''rollback_policy:'' @ cnr_RollbackPolicy req]),
                   (''service'', JStr (cnr_Service req))]) RiskLow Reversible;
          c = fold (canaryStageNodes req) (cnr_Stages req) ([preflight], [], ''preflight'');
          stable = enc_canaryStageParams \<lparr>csp_Service = cnr_Service req, csp_Env = cnr_Env req, csp_OperationID = cnr_OperationID req,
            csp_ReleaseID = cnr_ReleaseID req, csp_StagePercent = 100, csp_RollbackPolicy = cnr_RollbackPolicy req,
            csp_MinHealthyPercentage = 0, csp_InstanceWarmup = 0, csp_Mechanism = ''service-control-stable-release-cas''\<rparr>
      in then_node (\<lambda>previous. compensated ''service.canary.rollback'' stable
           (tpl_node ''mark-stable'' ''service.canary.mark_stable'' [previous] stable RiskMedium Compensatable)) c)"

definition DeploymentCanary :: "gotime \<Rightarrow> (string \<Rightarrow> int result) \<Rightarrow> CanaryRequest \<Rightarrow> CreateRequest result" where
  "DeploymentCanary wall pd req0 =
     (let req = NormalizeCanaryRequest wall req0 in
      rbind (validateCanaryRequest pd req) (\<lambda>_.
      (let common = enc_canaryParams \<lparr>cnp_Service = cnr_Service req, cnp_Env = cnr_Env req, cnp_OperationID = cnr_OperationID req,
             cnp_ReleaseID = cnr_ReleaseID req, cnp_BakeDuration = cnr_BakeDuration req, cnp_RollbackPolicy = cnr_RollbackPolicy req,
             cnp_Stages = cnr_Stages req, cnp_MetricGates = cnr_MetricGates req\<rparr>
       in case canaryGraph req of (nodes, edges, _) \<Rightarrow>
         (let r = tpl_request (cnr_SagaID req) DeploymentCanaryKind (tpl_target ''service'' (cnr_Service req)) (cnr_Actor req) (cnr_TraceID req)
            RiskMedium Compensatable (''canary deploy '' @ cnr_Service req @ '' release '' @ cnr_ReleaseID req) (cnr_CreatedAt req) common nodes edges
          in Inr (r\<lparr>creq_Intent := (creq_Intent r)\<lparr>si_PackageLockDigest := cnr_PackageLockDigest req\<rparr>\<rparr>)))))"

definition LookupCanary :: "gotime \<Rightarrow> (string \<Rightarrow> int result) \<Rightarrow> string \<Rightarrow> (CanaryRequest \<Rightarrow> CreateRequest result) option" where
  "LookupCanary wall pd kind = (if kind \<in> {DeploymentCanaryKind, CanaryDeployCommand} then Some (DeploymentCanary wall pd) else None)"

definition RegisteredCanaryKinds :: "string list" where
  "RegisteredCanaryKinds = sort [DeploymentCanaryKind, CanaryDeployCommand]"

section \<open>Databases\<close>

definition DatabaseBackupKind :: string where "DatabaseBackupKind = ''database.backup''"
definition DatabaseRestoreKind :: string where "DatabaseRestoreKind = ''database.restore''"
definition DatabaseRestoreModeNewDB :: string where "DatabaseRestoreModeNewDB = ''new-db-cutover''"
definition DefaultDatabaseSmokeQuery :: string where "DefaultDatabaseSmokeQuery = ''select 1''"
definition defaultRestoreDatabaseSuff :: string where "defaultRestoreDatabaseSuff = ''restore''"

record DatabaseBackupRequest =
  dbr_SagaID :: string
  dbr_OperationID :: string
  dbr_Database :: string
  dbr_Env :: string
  dbr_Service :: string
  dbr_TraceID :: string
  dbr_Actor :: Actor
  dbr_CreatedAt :: gotime

record DatabaseRestoreRequest =
  drr_SagaID :: string
  drr_OperationID :: string
  drr_Database :: string
  drr_Env :: string
  drr_Service :: string
  drr_ReleaseID :: string
  drr_RestorePoint :: string
  drr_RestoreTime :: string
  drr_Mode :: string
  drr_RestoredDatabase :: string
  drr_SecretRef :: string
  drr_SmokeQuery :: string
  drr_TraceID :: string
  drr_Actor :: Actor
  drr_CreatedAt :: gotime

record databaseParams =
  dbp_Database :: string
  dbp_Env :: string
  dbp_Service :: string
  dbp_OperationID :: string
  dbp_RestorePoint :: string
  dbp_RestoreTime :: string
  dbp_RestoredDatabase :: string
  dbp_SecretRef :: string
  dbp_SmokeQuery :: string
  dbp_ReleaseID :: string
  dbp_Mode :: string

definition enc_databaseParams :: "databaseParams \<Rightarrow> json" where
  "enc_databaseParams x = enc_obj [
     (''database'', e_str (dbp_Database x)),
     (''env'', o_str (dbp_Env x)),
     (''service'', o_str (dbp_Service x)),
     (''operation_id'', o_str (dbp_OperationID x)),
     (''restore_point'', o_str (dbp_RestorePoint x)),
     (''restore_time'', o_str (dbp_RestoreTime x)),
     (''restored_database'', o_str (dbp_RestoredDatabase x)),
     (''secret_ref'', o_str (dbp_SecretRef x)),
     (''smoke_query'', o_str (dbp_SmokeQuery x)),
     (''release_id'', o_str (dbp_ReleaseID x)),
     (''mode'', o_str (dbp_Mode x))]"

definition databasePreflightNode :: "string \<Rightarrow> string \<Rightarrow> string \<Rightarrow> string \<Rightarrow> string \<Rightarrow> SagaNode" where
  "databasePreflightNode service env database operationID mode =
     tpl_node ''preflight'' ''check.preflight'' []
       (JObj [(''env'', JStr env), (''require_provider'', JBool True), (''require_service_control'', JBool (TrimSpace service \<noteq> [])),
              (''required_facts'', jstrs ([''database:'' @ database, ''operation:'' @ operationID] @
                (if TrimSpace mode \<noteq> [] then [''mode:'' @ mode] else []))),
              (''service'', JStr service)]) RiskLow Reversible"

definition NormalizeDatabaseBackupRequest :: "gotime \<Rightarrow> DatabaseBackupRequest \<Rightarrow> DatabaseBackupRequest" where
  "NormalizeDatabaseBackupRequest wall req =
     (let created = tpl_created wall (dbr_CreatedAt req);
          database = TrimSpace (dbr_Database req);
          trace = tpl_trace wall created (database @ ''backup'') (TrimSpace (dbr_TraceID req));
          operation = tpl_operation wall created trace (TrimSpace (dbr_OperationID req))
      in req\<lparr>dbr_CreatedAt := created, dbr_Database := database, dbr_Env := TrimSpace (dbr_Env req), dbr_Service := TrimSpace (dbr_Service req),
           dbr_Actor := tpl_actor (dbr_Actor req), dbr_TraceID := trace, dbr_OperationID := operation,
           dbr_SagaID := tpl_saga wall created operation (TrimSpace (dbr_SagaID req))\<rparr>)"

definition validateDatabaseBackupRequest :: "DatabaseBackupRequest \<Rightarrow> unit result" where
  "validateDatabaseBackupRequest req =
     (if dbr_Database req = [] then required ''database''
      else if no_actor (dbr_Actor req) then actor_error
      else if dbr_TraceID req = [] then required ''trace id''
      else Inr ())"

definition DatabaseBackup :: "gotime \<Rightarrow> DatabaseBackupRequest \<Rightarrow> CreateRequest result" where
  "DatabaseBackup wall req0 =
     (let req = NormalizeDatabaseBackupRequest wall req0 in
      rbind (validateDatabaseBackupRequest req) (\<lambda>_.
      (let params = enc_databaseParams \<lparr>dbp_Database = dbr_Database req, dbp_Env = dbr_Env req, dbp_Service = dbr_Service req,
             dbp_OperationID = dbr_OperationID req, dbp_RestorePoint = [], dbp_RestoreTime = [], dbp_RestoredDatabase = [], dbp_SecretRef = [],
             dbp_SmokeQuery = [], dbp_ReleaseID = [], dbp_Mode = []\<rparr>
       in Inr (tpl_request (dbr_SagaID req) DatabaseBackupKind (tpl_target ''database'' (dbr_Database req)) (dbr_Actor req) (dbr_TraceID req)
            RiskMedium Compensatable (''backup database '' @ dbr_Database req) (dbr_CreatedAt req) params
            [databasePreflightNode (dbr_Service req) (dbr_Env req) (dbr_Database req) (dbr_OperationID req) ''backup'',
             twice (tpl_node ''snapshot-current'' ''database.snapshot'' [''preflight''] params RiskMedium Compensatable),
             tpl_node ''verify-snapshot'' ''database.verify_restore_point'' [''snapshot-current''] params RiskLow Reversible]
            [tpl_edge ''preflight'' ''snapshot-current'', tpl_edge ''snapshot-current'' ''verify-snapshot'']))))"

definition LookupDatabaseBackup :: "gotime \<Rightarrow> string \<Rightarrow> (DatabaseBackupRequest \<Rightarrow> CreateRequest result) option" where
  "LookupDatabaseBackup wall kind = (if kind = DatabaseBackupKind then Some (DatabaseBackup wall) else None)"

definition RegisteredDatabaseBackupKinds :: "string list" where
  "RegisteredDatabaseBackupKinds = [DatabaseBackupKind]"

definition NormalizeDatabaseRestoreRequest :: "gotime \<Rightarrow> (string \<Rightarrow> string) \<Rightarrow> DatabaseRestoreRequest \<Rightarrow> DatabaseRestoreRequest" where
  "NormalizeDatabaseRestoreRequest wall ul req =
     (let created = tpl_created wall (drr_CreatedAt req);
          database = TrimSpace (drr_Database req);
          trace = tpl_trace wall created (database @ ''restore'') (TrimSpace (drr_TraceID req));
          operation = tpl_operation wall created trace (TrimSpace (drr_OperationID req));
          saga = tpl_saga wall created operation (TrimSpace (drr_SagaID req))
      in req\<lparr>drr_CreatedAt := created, drr_Database := database, drr_Env := TrimSpace (drr_Env req), drr_Service := TrimSpace (drr_Service req),
           drr_ReleaseID := TrimSpace (drr_ReleaseID req), drr_RestorePoint := TrimSpace (drr_RestorePoint req),
           drr_RestoreTime := TrimSpace (drr_RestoreTime req), drr_Mode := or_else (TrimSpace (drr_Mode req)) DatabaseRestoreModeNewDB,
           drr_RestoredDatabase := or_else (TrimSpace (drr_RestoredDatabase req))
             (database @ ''-'' @ defaultRestoreDatabaseSuff @ ''-'' @ take 10 (strings_ToLower ul (NewID wall created saga))),
           drr_SecretRef := TrimSpace (drr_SecretRef req), drr_SmokeQuery := or_else (TrimSpace (drr_SmokeQuery req)) DefaultDatabaseSmokeQuery,
           drr_Actor := tpl_actor (drr_Actor req), drr_TraceID := trace, drr_OperationID := operation, drr_SagaID := saga\<rparr>)"

definition validateDatabaseRestoreRequest :: "DatabaseRestoreRequest \<Rightarrow> unit result" where
  "validateDatabaseRestoreRequest req =
     (if drr_Database req = [] then required ''database''
      else if drr_RestorePoint req = [] \<and> drr_RestoreTime req = [] then required ''restore point or restore time''
      else if drr_Mode req \<noteq> DatabaseRestoreModeNewDB then
        Inl (new_error (''unsupported restore mode '' @ quote (drr_Mode req) @ ''; use '' @ DatabaseRestoreModeNewDB))
      else if drr_RestoredDatabase req = [] then required ''restored database name''
      else if drr_SecretRef req = [] then required ''secret ref''
      else if no_actor (drr_Actor req) then actor_error
      else if drr_TraceID req = [] then required ''trace id''
      else if drr_RestoreTime req \<noteq> [] then
        (case time_Parse (drr_RestoreTime req) of
           Some _ \<Rightarrow> Inr ()
         | None \<Rightarrow> wrap_error ''restore time must be RFC3339'' (Inl (TimeError ''parsing time'') :: unit result))
      else Inr ())"

definition databaseRestoreGraph :: "databaseParams \<Rightarrow> tpl_chain" where
  "databaseRestoreGraph params =
     (let j = enc_databaseParams params;
          nodes = [databasePreflightNode (dbp_Service params) (dbp_Env params) (dbp_Database params) (dbp_OperationID params) (dbp_Mode params),
            tpl_node ''verify-restore-point'' ''database.verify_restore_point'' [''preflight''] j RiskLow Reversible,
            twice (tpl_node ''snapshot-current'' ''database.snapshot'' [''verify-restore-point''] j RiskMedium Compensatable),
            twice (compensated ''database.retire_restored_instance'' j
              (tpl_node ''restore-new-db'' ''database.restore_to_new_instance'' [''snapshot-current''] j RiskHigh Compensatable)),
            tpl_node ''wait-restored-db'' ''database.wait_available'' [''restore-new-db''] j RiskMedium Reversible,
            tpl_node ''smoke-query'' ''database.run_smoke_query'' [''wait-restored-db''] j RiskMedium Reversible];
          c0 = (nodes, sequentialEdges nodes, ''smoke-query'');
          c1 = (if dbp_Service params \<noteq> [] then
              then_node (\<lambda>previous. tpl_node ''shadow-service'' ''database.shadow_service_test'' [previous] j RiskMedium Reversible) c0
            else c0);
          c2 = then_node (\<lambda>previous. tpl_node ''approve-cutover'' ''approval.manual'' [previous]
            (JObj [(''facts'', jstrs [''source_database:'' @ dbp_Database params, ''restored_database:'' @ dbp_RestoredDatabase params,
                      ''secret_ref:'' @ dbp_SecretRef params, ''mode:'' @ dbp_Mode params]),
                   (''risk'', JStr RiskHigh),
                   (''summary'', JStr ''approve database cutover after restored database checks passed'')]) RiskHigh Reversible) c1;
          c3 = then_node (\<lambda>previous. compensated ''database.secret_update_pointer'' j
            (tpl_node ''update-secret-pointer'' ''database.secret_update_pointer'' [''approve-cutover''] j RiskHigh Compensatable)) c2
      in if dbp_Service params \<noteq> [] then
           then_node (\<lambda>previous. tpl_node ''verify-service'' ''check.service_healthy'' [''roll-service'']
               (JObj [(''allowed_statuses'', healthy_statuses), (''env'', JStr (dbp_Env params)), (''service'', JStr (dbp_Service params))])
               RiskMedium Reversible)
             (then_node (\<lambda>previous. twice (tpl_node ''roll-service'' ''service.rollout_restart'' [previous] j RiskHigh PartiallyReversible)) c3)
         else c3)"

definition DatabaseRestore :: "gotime \<Rightarrow> (string \<Rightarrow> string) \<Rightarrow> DatabaseRestoreRequest \<Rightarrow> CreateRequest result" where
  "DatabaseRestore wall ul req0 =
     (let req = NormalizeDatabaseRestoreRequest wall ul req0 in
      rbind (validateDatabaseRestoreRequest req) (\<lambda>_.
      (let params = \<lparr>dbp_Database = drr_Database req, dbp_Env = drr_Env req, dbp_Service = drr_Service req,
             dbp_OperationID = drr_OperationID req, dbp_RestorePoint = drr_RestorePoint req, dbp_RestoreTime = drr_RestoreTime req,
             dbp_RestoredDatabase = drr_RestoredDatabase req, dbp_SecretRef = drr_SecretRef req, dbp_SmokeQuery = drr_SmokeQuery req,
             dbp_ReleaseID = drr_ReleaseID req, dbp_Mode = drr_Mode req\<rparr>
       in case databaseRestoreGraph params of (nodes, edges, _) \<Rightarrow>
         Inr (tpl_request (drr_SagaID req) DatabaseRestoreKind (tpl_target ''database'' (drr_Database req)) (drr_Actor req) (drr_TraceID req)
            RiskHigh PartiallyReversible (''restore database '' @ drr_Database req @ '' to new instance '' @ drr_RestoredDatabase req)
            (drr_CreatedAt req) (enc_databaseParams params) nodes edges))))"

definition LookupDatabaseRestore :: "gotime \<Rightarrow> (string \<Rightarrow> string) \<Rightarrow> string \<Rightarrow> (DatabaseRestoreRequest \<Rightarrow> CreateRequest result) option" where
  "LookupDatabaseRestore wall ul kind = (if kind = DatabaseRestoreKind then Some (DatabaseRestore wall ul) else None)"

section \<open>Rotations\<close>

definition CertificateRotationKind :: string where "CertificateRotationKind = ''certificate.rotation''"
definition DefaultCertificateRetireAfter :: string where "DefaultCertificateRetireAfter = ''168h''"
definition DefaultCertificateValidateFrom :: string where "DefaultCertificateValidateFrom = ''consumer''"
definition KeyRotationKind :: string where "KeyRotationKind = ''key.rotation''"
definition DefaultKeyDisableAfter :: string where "DefaultKeyDisableAfter = ''168h''"
definition SecretRotationKind :: string where "SecretRotationKind = ''secret.rotation''"
definition DefaultSecretDisableAfter :: string where "DefaultSecretDisableAfter = ''24h''"

definition canaryConsumer :: "string \<Rightarrow> string list \<Rightarrow> string" where
  "canaryConsumer consumer consumers = (if consumer = [] \<and> consumers \<noteq> [] then hd consumers else consumer)"

record CertificateRotationRequest =
  crr_SagaID :: string
  crr_OperationID :: string
  crr_Name :: string
  crr_CertificateRef :: string
  crr_Env :: string
  crr_Consumers :: "string list"
  crr_CanaryConsumer :: string
  crr_TrustStoreRef :: string
  crr_RetireAfter :: string
  crr_ValidateFrom :: string
  crr_TraceID :: string
  crr_Actor :: Actor
  crr_CreatedAt :: gotime

record certificateRotationParams =
  crp_Name :: string
  crp_CertificateRef :: string
  crp_Env :: string
  crp_Consumers :: "string list"
  crp_CanaryConsumer :: string
  crp_TrustStoreRef :: string
  crp_CandidateCertRef :: string
  crp_PreviousCertRef :: string
  crp_RetireAfter :: string
  crp_ValidateFrom :: string
  crp_OperationID :: string
  crp_Scope :: string
  crp_BlastRadius :: "string list"

definition enc_certificateRotationParams :: "certificateRotationParams \<Rightarrow> json" where
  "enc_certificateRotationParams x = enc_obj [
     (''name'', e_str (crp_Name x)),
     (''certificate_ref'', o_str (crp_CertificateRef x)),
     (''env'', o_str (crp_Env x)),
     (''consumers'', o_list JStr (crp_Consumers x)),
     (''canary_consumer'', o_str (crp_CanaryConsumer x)),
     (''trust_store_ref'', o_str (crp_TrustStoreRef x)),
     (''candidate_cert_ref'', o_str (crp_CandidateCertRef x)),
     (''previous_cert_ref'', o_str (crp_PreviousCertRef x)),
     (''retire_after'', o_str (crp_RetireAfter x)),
     (''validate_from'', o_str (crp_ValidateFrom x)),
     (''operation_id'', o_str (crp_OperationID x)),
     (''scope'', o_str (crp_Scope x)),
     (''blast_radius'', o_list JStr (crp_BlastRadius x))]"

definition NormalizeCertificateRotationRequest ::
  "gotime \<Rightarrow> (string \<Rightarrow> string) \<Rightarrow> CertificateRotationRequest \<Rightarrow> CertificateRotationRequest" where
  "NormalizeCertificateRotationRequest wall ul req =
     (let created = tpl_created wall (crr_CreatedAt req);
          name = TrimSpace (crr_Name req);
          consumers = normalizeStringList ul (crr_Consumers req);
          trace = tpl_trace wall created (name @ ''certificate-rotation'') (TrimSpace (crr_TraceID req));
          operation = tpl_operation wall created trace (TrimSpace (crr_OperationID req))
      in req\<lparr>crr_CreatedAt := created, crr_Name := name, crr_CertificateRef := TrimSpace (crr_CertificateRef req),
           crr_Env := TrimSpace (crr_Env req), crr_Consumers := consumers,
           crr_CanaryConsumer := canaryConsumer (TrimSpace (crr_CanaryConsumer req)) consumers,
           crr_TrustStoreRef := TrimSpace (crr_TrustStoreRef req),
           crr_RetireAfter := or_else (TrimSpace (crr_RetireAfter req)) DefaultCertificateRetireAfter,
           crr_ValidateFrom := or_else (TrimSpace (crr_ValidateFrom req)) DefaultCertificateValidateFrom,
           crr_Actor := tpl_actor (crr_Actor req), crr_TraceID := trace, crr_OperationID := operation,
           crr_SagaID := tpl_saga wall created operation (TrimSpace (crr_SagaID req))\<rparr>)"

definition validateCertificateRotationRequest :: "(string \<Rightarrow> int result) \<Rightarrow> CertificateRotationRequest \<Rightarrow> unit result" where
  "validateCertificateRotationRequest pd req =
     (if crr_Name req = [] then required ''certificate name''
      else if crr_Consumers req = [] then required ''at least one consumer''
      else if crr_CanaryConsumer req = [] then required ''canary consumer''
      else if no_actor (crr_Actor req) then actor_error
      else if crr_TraceID req = [] then required ''trace id''
      else if crr_CanaryConsumer req \<notin> set (crr_Consumers req) then Inl (new_error ''canary consumer must be one of the consumers'')
      else wrap_error ''retire after is invalid'' (pd (crr_RetireAfter req)))"

definition certificateRotationBlastRadius :: "CertificateRotationRequest \<Rightarrow> string list" where
  "certificateRotationBlastRadius req = [''certificate:'' @ crr_Name req] @
     (if crr_CertificateRef req \<noteq> [] then [''certificate_ref:'' @ crr_CertificateRef req] else []) @
     map (\<lambda>consumer. ''consumer:'' @ consumer) (crr_Consumers req) @
     (if crr_TrustStoreRef req \<noteq> [] then [''trust_store_ref:'' @ crr_TrustStoreRef req] else [])"

definition certificateRotationFacts :: "certificateRotationParams \<Rightarrow> string list" where
  "certificateRotationFacts params =
     [''certificate:'' @ crp_Name params, ''consumers:'' @ strings_Join (crp_Consumers params) '','',
      ''canary_consumer:'' @ crp_CanaryConsumer params, ''validate_from:'' @ crp_ValidateFrom params,
      ''retire_old_after:'' @ crp_RetireAfter params, ''old_certificate_revocation_requires_separate_approval''] @
     (if crp_CertificateRef params \<noteq> [] then [''certificate_ref:'' @ crp_CertificateRef params] else []) @
     (if crp_TrustStoreRef params \<noteq> [] then [''trust_store_ref:'' @ crp_TrustStoreRef params] else [])"

definition certificateRotationParamsWithScope :: "certificateRotationParams \<Rightarrow> string \<Rightarrow> certificateRotationParams" where
  "certificateRotationParamsWithScope params scope = params\<lparr>crp_Scope := scope\<rparr>"

definition certificateRotationGraph :: "certificateRotationParams \<Rightarrow> SagaNode list" where
  "certificateRotationGraph params =
     (let base = enc_certificateRotationParams params;
          canary = enc_certificateRotationParams (certificateRotationParamsWithScope params ''canary'');
          everyone = enc_certificateRotationParams (certificateRotationParamsWithScope params ''all'') in
      [tpl_node ''preflight'' ''check.preflight'' []
         (JObj [(''env'', JStr (crp_Env params)), (''require_provider'', JBool True), (''required_facts'', jstrs (certificateRotationFacts params))])
         RiskLow Reversible,
       twice (tpl_node ''issue-candidate-certificate'' ''certificate.issue_candidate'' [''preflight''] base RiskMedium Compensatable),
       tpl_node ''validate-candidate-certificate'' ''certificate.validate_candidate'' [''issue-candidate-certificate''] base RiskLow Reversible,
       compensated ''certificate.restore_previous_reference'' canary
         (tpl_node ''update-canary-reference'' ''certificate.update_reference'' [''validate-candidate-certificate''] canary RiskMedium Compensatable),
       tpl_node ''verify-canary-consumer'' ''service.verify_certificate'' [''update-canary-reference''] canary RiskMedium Reversible,
       tpl_node ''approve-promotion'' ''approval.manual'' [''verify-canary-consumer'']
         (JObj [(''facts'', jstrs [''certificate:'' @ crp_Name params, ''canary_consumer:'' @ crp_CanaryConsumer params,
                   ''consumers:'' @ strings_Join (crp_Consumers params) '','', ''validate_from:'' @ crp_ValidateFrom params,
                   ''retire_old_after:'' @ crp_RetireAfter params, ''old_certificate_revocation_requires_separate_approval'']),
                (''risk'', JStr RiskHigh), (''summary'', JStr ''approve certificate promotion after consumer-side verification'')])
         RiskHigh Reversible,
       compensated ''certificate.restore_previous_reference'' everyone
         (tpl_node ''promote-certificate-reference'' ''certificate.promote_reference'' [''approve-promotion''] everyone RiskHigh Compensatable),
       tpl_node ''roll-consumers'' ''service.roll_consumers'' [''promote-certificate-reference''] everyone RiskHigh Compensatable,
       tpl_node ''verify-consumer-trust'' ''certificate.verify_consumer_trust'' [''roll-consumers''] everyone RiskLow Reversible,
       tpl_node ''schedule-retire-old-certificate'' ''certificate.schedule_retire_old'' [''verify-consumer-trust''] everyone RiskMedium Compensatable])"

definition CertificateRotation ::
  "gotime \<Rightarrow> (string \<Rightarrow> int result) \<Rightarrow> (string \<Rightarrow> string) \<Rightarrow> CertificateRotationRequest \<Rightarrow> CreateRequest result" where
  "CertificateRotation wall pd ul req0 =
     (let req = NormalizeCertificateRotationRequest wall ul req0 in
      rbind (validateCertificateRotationRequest pd req) (\<lambda>_.
      (let params = \<lparr>crp_Name = crr_Name req, crp_CertificateRef = crr_CertificateRef req, crp_Env = crr_Env req, crp_Consumers = crr_Consumers req,
             crp_CanaryConsumer = crr_CanaryConsumer req, crp_TrustStoreRef = crr_TrustStoreRef req, crp_CandidateCertRef = [],
             crp_PreviousCertRef = [], crp_RetireAfter = crr_RetireAfter req, crp_ValidateFrom = crr_ValidateFrom req,
             crp_OperationID = crr_OperationID req, crp_Scope = [], crp_BlastRadius = certificateRotationBlastRadius req\<rparr>;
           nodes = certificateRotationGraph params
       in Inr (tpl_request (crr_SagaID req) CertificateRotationKind (tpl_target ''certificate'' (crr_Name req)) (crr_Actor req) (crr_TraceID req)
            RiskHigh Compensatable
            (''rotate certificate '' @ crr_Name req @ '' across '' @ show_int (int (length (crr_Consumers req))) @ '' consumers'')
            (crr_CreatedAt req) (enc_certificateRotationParams params) nodes (sequentialEdges nodes)))))"

definition LookupCertificateRotation ::
  "gotime \<Rightarrow> (string \<Rightarrow> int result) \<Rightarrow> (string \<Rightarrow> string) \<Rightarrow> string \<Rightarrow> (CertificateRotationRequest \<Rightarrow> CreateRequest result) option" where
  "LookupCertificateRotation wall pd ul kind = (if kind = CertificateRotationKind then Some (CertificateRotation wall pd ul) else None)"

definition RegisteredCertificateRotationKinds :: "string list" where
  "RegisteredCertificateRotationKinds = [CertificateRotationKind]"

record KeyRotationRequest =
  krr_SagaID :: string
  krr_OperationID :: string
  krr_KeyAlias :: string
  krr_Env :: string
  krr_Consumers :: "string list"
  krr_CanaryConsumer :: string
  krr_MaterialRefs :: "string list"
  krr_DisableAfter :: string
  krr_TraceID :: string
  krr_Actor :: Actor
  krr_CreatedAt :: gotime

record keyRotationParams =
  krp_KeyAlias :: string
  krp_Env :: string
  krp_Consumers :: "string list"
  krp_CanaryConsumer :: string
  krp_MaterialRefs :: "string list"
  krp_OperationID :: string
  krp_CandidateKeyID :: string
  krp_PreviousKeyID :: string
  krp_DisableAfter :: string
  krp_Scope :: string
  krp_BlastRadius :: "string list"

definition enc_keyRotationParams :: "keyRotationParams \<Rightarrow> json" where
  "enc_keyRotationParams x = enc_obj [
     (''key_alias'', e_str (krp_KeyAlias x)),
     (''env'', o_str (krp_Env x)),
     (''consumers'', o_list JStr (krp_Consumers x)),
     (''canary_consumer'', o_str (krp_CanaryConsumer x)),
     (''material_refs'', o_list JStr (krp_MaterialRefs x)),
     (''operation_id'', o_str (krp_OperationID x)),
     (''candidate_key_id'', o_str (krp_CandidateKeyID x)),
     (''previous_key_id'', o_str (krp_PreviousKeyID x)),
     (''disable_after'', o_str (krp_DisableAfter x)),
     (''scope'', o_str (krp_Scope x)),
     (''blast_radius'', o_list JStr (krp_BlastRadius x))]"

definition NormalizeKeyRotationRequest :: "gotime \<Rightarrow> (string \<Rightarrow> string) \<Rightarrow> KeyRotationRequest \<Rightarrow> KeyRotationRequest" where
  "NormalizeKeyRotationRequest wall ul req =
     (let created = tpl_created wall (krr_CreatedAt req);
          alias = TrimSpace (krr_KeyAlias req);
          consumers = normalizeStringList ul (krr_Consumers req);
          trace = tpl_trace wall created (alias @ ''key-rotation'') (TrimSpace (krr_TraceID req));
          operation = tpl_operation wall created trace (TrimSpace (krr_OperationID req))
      in req\<lparr>krr_CreatedAt := created, krr_KeyAlias := alias, krr_Env := TrimSpace (krr_Env req), krr_Consumers := consumers,
           krr_CanaryConsumer := canaryConsumer (TrimSpace (krr_CanaryConsumer req)) consumers,
           krr_MaterialRefs := normalizeStringList ul (krr_MaterialRefs req),
           krr_DisableAfter := or_else (TrimSpace (krr_DisableAfter req)) DefaultKeyDisableAfter,
           krr_Actor := tpl_actor (krr_Actor req), krr_TraceID := trace, krr_OperationID := operation,
           krr_SagaID := tpl_saga wall created operation (TrimSpace (krr_SagaID req))\<rparr>)"

definition validateKeyRotationRequest :: "(string \<Rightarrow> int result) \<Rightarrow> KeyRotationRequest \<Rightarrow> unit result" where
  "validateKeyRotationRequest pd req =
     (if krr_KeyAlias req = [] then required ''key alias''
      else if krr_Consumers req = [] \<and> krr_MaterialRefs req = [] then required ''at least one consumer or material ref''
      else if krr_Consumers req \<noteq> [] \<and> krr_CanaryConsumer req = [] then
        Inl (new_error ''canary consumer is required when consumers are provided'')
      else if no_actor (krr_Actor req) then actor_error
      else if krr_TraceID req = [] then required ''trace id''
      else if krr_CanaryConsumer req \<noteq> [] \<and> krr_CanaryConsumer req \<notin> set (krr_Consumers req) then
        Inl (new_error ''canary consumer must be one of the consumers'')
      else wrap_error ''disable after is invalid'' (pd (krr_DisableAfter req)))"

definition keyRotationBlastRadius :: "KeyRotationRequest \<Rightarrow> string list" where
  "keyRotationBlastRadius req = [''key_alias:'' @ krr_KeyAlias req] @ map (\<lambda>consumer. ''consumer:'' @ consumer) (krr_Consumers req) @
     map (\<lambda>ref. ''material_ref:'' @ ref) (krr_MaterialRefs req)"

definition keyRotationFacts :: "keyRotationParams \<Rightarrow> string list" where
  "keyRotationFacts params =
     [''key_alias:'' @ krp_KeyAlias params, ''disable_old_after:'' @ krp_DisableAfter params,
      ''old_key_deletion_requires_separate_critical_approval''] @
     (if krp_Consumers params \<noteq> [] then [''consumers:'' @ strings_Join (krp_Consumers params) '',''] else []) @
     (if krp_CanaryConsumer params \<noteq> [] then [''canary_consumer:'' @ krp_CanaryConsumer params] else []) @
     (if krp_MaterialRefs params \<noteq> [] then [''material_refs:'' @ strings_Join (krp_MaterialRefs params) '',''] else [])"

definition keyRotationParamsWithScope :: "keyRotationParams \<Rightarrow> string \<Rightarrow> keyRotationParams" where
  "keyRotationParamsWithScope params scope = params\<lparr>krp_Scope := scope\<rparr>"

definition keyRotationGraph :: "keyRotationParams \<Rightarrow> SagaNode list" where
  "keyRotationGraph params =
     (let base = enc_keyRotationParams params;
          canary = enc_keyRotationParams (keyRotationParamsWithScope params ''canary'');
          everyone = enc_keyRotationParams (keyRotationParamsWithScope params ''all'') in
      [tpl_node ''preflight'' ''check.preflight'' []
         (JObj [(''env'', JStr (krp_Env params)), (''require_provider'', JBool True), (''required_facts'', jstrs (keyRotationFacts params))])
         RiskLow Reversible,
       twice (tpl_node ''create-candidate-key'' ''key.create_candidate'' [''preflight''] base RiskMedium Compensatable),
       tpl_node ''reencrypt-materials'' ''key.reencrypt_materials'' [''create-candidate-key''] base RiskHigh PartiallyReversible,
       tpl_node ''validate-candidate-key'' ''key.validate_candidate'' [''reencrypt-materials''] base RiskLow Reversible,
       tpl_node ''canary-consumer'' ''service.canary_with_key'' [''validate-candidate-key''] canary RiskMedium Compensatable,
       tpl_node ''approve-promotion'' ''approval.manual'' [''canary-consumer'']
         (JObj [(''facts'', jstrs [''key_alias:'' @ krp_KeyAlias params, ''canary_consumer:'' @ krp_CanaryConsumer params,
                   ''consumers:'' @ strings_Join (krp_Consumers params) '','', ''material_refs:'' @ strings_Join (krp_MaterialRefs params) '','',
                   ''disable_old_after:'' @ krp_DisableAfter params, ''old_key_deletion_requires_separate_critical_approval'']),
                (''risk'', JStr RiskHigh), (''summary'', JStr ''approve key alias promotion after canary verification'')])
         RiskHigh Reversible,
       compensated ''key.restore_previous_alias'' everyone
         (tpl_node ''promote-key-alias'' ''key.promote_alias'' [''approve-promotion''] everyone RiskHigh Compensatable),
       tpl_node ''verify-key-policy'' ''key.verify_policy'' [''promote-key-alias''] everyone RiskLow Reversible,
       tpl_node ''roll-consumers'' ''service.roll_consumers'' [''verify-key-policy''] everyone RiskHigh Compensatable,
       tpl_node ''schedule-disable-old-key'' ''key.schedule_disable_old'' [''roll-consumers''] everyone RiskMedium Compensatable])"

definition KeyRotation :: "gotime \<Rightarrow> (string \<Rightarrow> int result) \<Rightarrow> (string \<Rightarrow> string) \<Rightarrow> KeyRotationRequest \<Rightarrow> CreateRequest result" where
  "KeyRotation wall pd ul req0 =
     (let req = NormalizeKeyRotationRequest wall ul req0 in
      rbind (validateKeyRotationRequest pd req) (\<lambda>_.
      (let params = \<lparr>krp_KeyAlias = krr_KeyAlias req, krp_Env = krr_Env req, krp_Consumers = krr_Consumers req,
             krp_CanaryConsumer = krr_CanaryConsumer req, krp_MaterialRefs = krr_MaterialRefs req, krp_OperationID = krr_OperationID req,
             krp_CandidateKeyID = [], krp_PreviousKeyID = [], krp_DisableAfter = krr_DisableAfter req, krp_Scope = [],
             krp_BlastRadius = keyRotationBlastRadius req\<rparr>;
           nodes = keyRotationGraph params
       in Inr (tpl_request (krr_SagaID req) KeyRotationKind (tpl_target ''kms-key-alias'' (krr_KeyAlias req)) (krr_Actor req) (krr_TraceID req)
            RiskHigh PartiallyReversible
            (''rotate key alias '' @ krr_KeyAlias req @ '' across '' @ show_int (int (length (krr_Consumers req))) @ '' consumers'')
            (krr_CreatedAt req) (enc_keyRotationParams params) nodes (sequentialEdges nodes)))))"

definition LookupKeyRotation ::
  "gotime \<Rightarrow> (string \<Rightarrow> int result) \<Rightarrow> (string \<Rightarrow> string) \<Rightarrow> string \<Rightarrow> (KeyRotationRequest \<Rightarrow> CreateRequest result) option" where
  "LookupKeyRotation wall pd ul kind = (if kind = KeyRotationKind then Some (KeyRotation wall pd ul) else None)"

definition RegisteredKeyRotationKinds :: "string list" where
  "RegisteredKeyRotationKinds = [KeyRotationKind]"

record SecretRotationRequest =
  sxr_SagaID :: string
  sxr_OperationID :: string
  sxr_SecretRef :: string
  sxr_Env :: string
  sxr_Consumers :: "string list"
  sxr_CanaryConsumer :: string
  sxr_Database :: string
  sxr_DisableAfter :: string
  sxr_TraceID :: string
  sxr_Actor :: Actor
  sxr_CreatedAt :: gotime

record secretRotationParams =
  sxp_SecretRef :: string
  sxp_Env :: string
  sxp_Consumers :: "string list"
  sxp_CanaryConsumer :: string
  sxp_Database :: string
  sxp_OperationID :: string
  sxp_NewVersion :: string
  sxp_PreviousVersion :: string
  sxp_DisableAfter :: string
  sxp_Scope :: string

definition enc_secretRotationParams :: "secretRotationParams \<Rightarrow> json" where
  "enc_secretRotationParams x = enc_obj [
     (''secret_ref'', e_str (sxp_SecretRef x)),
     (''env'', o_str (sxp_Env x)),
     (''consumers'', o_list JStr (sxp_Consumers x)),
     (''canary_consumer'', o_str (sxp_CanaryConsumer x)),
     (''database'', o_str (sxp_Database x)),
     (''operation_id'', o_str (sxp_OperationID x)),
     (''new_version'', o_str (sxp_NewVersion x)),
     (''previous_version'', o_str (sxp_PreviousVersion x)),
     (''disable_after'', o_str (sxp_DisableAfter x)),
     (''scope'', o_str (sxp_Scope x))]"

definition NormalizeSecretRotationRequest :: "gotime \<Rightarrow> (string \<Rightarrow> string) \<Rightarrow> SecretRotationRequest \<Rightarrow> SecretRotationRequest" where
  "NormalizeSecretRotationRequest wall ul req =
     (let created = tpl_created wall (sxr_CreatedAt req);
          secret = TrimSpace (sxr_SecretRef req);
          consumers = normalizeStringList ul (sxr_Consumers req);
          trace = tpl_trace wall created (secret @ ''rotation'') (TrimSpace (sxr_TraceID req));
          operation = tpl_operation wall created trace (TrimSpace (sxr_OperationID req))
      in req\<lparr>sxr_CreatedAt := created, sxr_SecretRef := secret, sxr_Env := TrimSpace (sxr_Env req), sxr_Consumers := consumers,
           sxr_CanaryConsumer := canaryConsumer (TrimSpace (sxr_CanaryConsumer req)) consumers, sxr_Database := TrimSpace (sxr_Database req),
           sxr_DisableAfter := or_else (TrimSpace (sxr_DisableAfter req)) DefaultSecretDisableAfter,
           sxr_Actor := tpl_actor (sxr_Actor req), sxr_TraceID := trace, sxr_OperationID := operation,
           sxr_SagaID := tpl_saga wall created operation (TrimSpace (sxr_SagaID req))\<rparr>)"

definition validateSecretRotationRequest :: "(string \<Rightarrow> int result) \<Rightarrow> SecretRotationRequest \<Rightarrow> unit result" where
  "validateSecretRotationRequest pd req =
     (if sxr_SecretRef req = [] then required ''secret ref''
      else if sxr_Consumers req = [] then required ''at least one consumer''
      else if sxr_CanaryConsumer req = [] then required ''canary consumer''
      else if no_actor (sxr_Actor req) then actor_error
      else if sxr_TraceID req = [] then required ''trace id''
      else if sxr_CanaryConsumer req \<notin> set (sxr_Consumers req) then Inl (new_error ''canary consumer must be one of the consumers'')
      else wrap_error ''disable after is invalid'' (pd (sxr_DisableAfter req)))"

definition secretRotationFacts :: "secretRotationParams \<Rightarrow> string list" where
  "secretRotationFacts params =
     [''secret_ref:'' @ sxp_SecretRef params, ''consumers:'' @ strings_Join (sxp_Consumers params) '','',
      ''canary_consumer:'' @ sxp_CanaryConsumer params, ''disable_old_after:'' @ sxp_DisableAfter params] @
     (if sxp_Database params \<noteq> [] then [''database:'' @ sxp_Database params] else [])"

definition secretRotationParamsWithScope :: "secretRotationParams \<Rightarrow> string \<Rightarrow> secretRotationParams" where
  "secretRotationParamsWithScope params scope = params\<lparr>sxp_Scope := scope\<rparr>"

definition secretRotationGraph :: "secretRotationParams \<Rightarrow> SagaNode list" where
  "secretRotationGraph params =
     (let base = enc_secretRotationParams params;
          canary = enc_secretRotationParams (secretRotationParamsWithScope params ''canary'');
          everyone = enc_secretRotationParams (secretRotationParamsWithScope params ''all'') in
      [tpl_node ''preflight'' ''check.preflight'' []
         (JObj [(''env'', JStr (sxp_Env params)), (''require_provider'', JBool True), (''require_service_control'', JBool False),
                (''required_facts'', jstrs (secretRotationFacts params))]) RiskLow Reversible,
       twice (tpl_node ''create-version'' ''secret.create_version'' [''preflight''] base RiskMedium Compensatable),
       tpl_node ''validate-version'' ''secret.validate_version'' [''create-version''] base RiskLow Reversible,
       compensated ''secret.restore_previous_version'' canary
         (tpl_node ''update-canary-pointer'' ''secret.update_pointer'' [''validate-version''] canary RiskMedium Compensatable),
       tpl_node ''canary-consumer'' ''service.canary_with_secret'' [''update-canary-pointer''] canary RiskMedium Compensatable,
       tpl_node ''approve-promotion'' ''approval.manual'' [''canary-consumer'']
         (JObj [(''facts'', jstrs [''secret_ref:'' @ sxp_SecretRef params, ''canary_consumer:'' @ sxp_CanaryConsumer params,
                   ''consumers:'' @ strings_Join (sxp_Consumers params) '','', ''disable_old_after:'' @ sxp_DisableAfter params]),
                (''risk'', JStr RiskHigh),
                (''summary'', JStr ''approve secret promotion after the canary consumer accepted the new version'')]) RiskHigh Reversible,
       compensated ''secret.restore_previous_version'' everyone
         (tpl_node ''promote-secret-pointer'' ''secret.update_pointer'' [''approve-promotion''] everyone RiskHigh Compensatable),
       twice (tpl_node ''roll-consumers'' ''service.roll_consumers'' [''promote-secret-pointer''] everyone RiskHigh Compensatable),
       tpl_node ''schedule-disable-old'' ''credential.disable_old'' [''roll-consumers''] everyone RiskMedium Compensatable])"

definition SecretRotation :: "gotime \<Rightarrow> (string \<Rightarrow> int result) \<Rightarrow> (string \<Rightarrow> string) \<Rightarrow> SecretRotationRequest \<Rightarrow> CreateRequest result" where
  "SecretRotation wall pd ul req0 =
     (let req = NormalizeSecretRotationRequest wall ul req0 in
      rbind (validateSecretRotationRequest pd req) (\<lambda>_.
      (let params = \<lparr>sxp_SecretRef = sxr_SecretRef req, sxp_Env = sxr_Env req, sxp_Consumers = sxr_Consumers req,
             sxp_CanaryConsumer = sxr_CanaryConsumer req, sxp_Database = sxr_Database req, sxp_OperationID = sxr_OperationID req,
             sxp_NewVersion = [], sxp_PreviousVersion = [], sxp_DisableAfter = sxr_DisableAfter req, sxp_Scope = []\<rparr>;
           nodes = secretRotationGraph params
       in Inr (tpl_request (sxr_SagaID req) SecretRotationKind (tpl_target ''secret'' (sxr_SecretRef req)) (sxr_Actor req) (sxr_TraceID req)
            RiskHigh Compensatable
            (''rotate secret '' @ sxr_SecretRef req @ '' for '' @ show_int (int (length (sxr_Consumers req))) @ '' consumers'')
            (sxr_CreatedAt req) (enc_secretRotationParams params) nodes (sequentialEdges nodes)))))"

definition LookupSecretRotation ::
  "gotime \<Rightarrow> (string \<Rightarrow> int result) \<Rightarrow> (string \<Rightarrow> string) \<Rightarrow> string \<Rightarrow> (SecretRotationRequest \<Rightarrow> CreateRequest result) option" where
  "LookupSecretRotation wall pd ul kind = (if kind = SecretRotationKind then Some (SecretRotation wall pd ul) else None)"

definition RegisteredSecretRotationKinds :: "string list" where
  "RegisteredSecretRotationKinds = [SecretRotationKind]"

section \<open>Regional failover\<close>

definition RegionalFailoverKind :: string where "RegionalFailoverKind = ''regional.failover''"
definition DefaultFailoverMaxReplicaLag :: string where "DefaultFailoverMaxReplicaLag = ''30s''"
definition DefaultFailoverTrafficCanary :: int where "DefaultFailoverTrafficCanary = 10"
definition DefaultFailoverTrafficCutover :: int where "DefaultFailoverTrafficCutover = 100"

record RegionalFailoverRequest =
  rfr_SagaID :: string
  rfr_OperationID :: string
  rfr_Stack :: string
  rfr_Service :: string
  rfr_Database :: string
  rfr_Env :: string
  rfr_FromRegion :: string
  rfr_ToRegion :: string
  rfr_TrafficHost :: string
  rfr_MaxReplicaLag :: string
  rfr_FreezeWrites :: bool
  rfr_TraceID :: string
  rfr_Actor :: Actor
  rfr_CreatedAt :: gotime

record regionalFailoverParams =
  rfp_Stack :: string
  rfp_Service :: string
  rfp_Database :: string
  rfp_Env :: string
  rfp_OperationID :: string
  rfp_FromRegion :: string
  rfp_ToRegion :: string
  rfp_TrafficHost :: string
  rfp_MaxReplicaLag :: string
  rfp_FreezeWrites :: bool
  rfp_TrafficPercent :: int

definition enc_regionalFailoverParams :: "regionalFailoverParams \<Rightarrow> json" where
  "enc_regionalFailoverParams x = enc_obj [
     (''stack'', e_str (rfp_Stack x)),
     (''service'', o_str (rfp_Service x)),
     (''database'', e_str (rfp_Database x)),
     (''env'', o_str (rfp_Env x)),
     (''operation_id'', o_str (rfp_OperationID x)),
     (''from_region'', e_str (rfp_FromRegion x)),
     (''to_region'', e_str (rfp_ToRegion x)),
     (''traffic_host'', o_str (rfp_TrafficHost x)),
     (''max_replica_lag'', e_str (rfp_MaxReplicaLag x)),
     (''freeze_writes'', o_bool (rfp_FreezeWrites x)),
     (''traffic_percent'', o_int (rfp_TrafficPercent x))]"

definition NormalizeRegionalFailoverRequest :: "gotime \<Rightarrow> RegionalFailoverRequest \<Rightarrow> RegionalFailoverRequest" where
  "NormalizeRegionalFailoverRequest wall req =
     (let created = tpl_created wall (rfr_CreatedAt req);
          stack = TrimSpace (rfr_Stack req);
          trace = tpl_trace wall created (stack @ ''failover'') (TrimSpace (rfr_TraceID req));
          operation = tpl_operation wall created trace (TrimSpace (rfr_OperationID req))
      in req\<lparr>rfr_CreatedAt := created, rfr_Stack := stack, rfr_Service := or_else (TrimSpace (rfr_Service req)) stack,
           rfr_Database := TrimSpace (rfr_Database req), rfr_Env := TrimSpace (rfr_Env req), rfr_FromRegion := TrimSpace (rfr_FromRegion req),
           rfr_ToRegion := TrimSpace (rfr_ToRegion req), rfr_TrafficHost := TrimSpace (rfr_TrafficHost req),
           rfr_MaxReplicaLag := or_else (TrimSpace (rfr_MaxReplicaLag req)) DefaultFailoverMaxReplicaLag,
           rfr_Actor := tpl_actor (rfr_Actor req), rfr_TraceID := trace, rfr_OperationID := operation,
           rfr_SagaID := tpl_saga wall created operation (TrimSpace (rfr_SagaID req))\<rparr>)"

definition validateRegionalFailoverRequest :: "(string \<Rightarrow> int result) \<Rightarrow> RegionalFailoverRequest \<Rightarrow> unit result" where
  "validateRegionalFailoverRequest pd req =
     (if rfr_Stack req = [] then required ''stack''
      else if rfr_Database req = [] then required ''database''
      else if rfr_FromRegion req = [] then required ''from region''
      else if rfr_ToRegion req = [] then required ''to region''
      else if rfr_FromRegion req = rfr_ToRegion req then Inl (new_error ''from region and to region must differ'')
      else if no_actor (rfr_Actor req) then actor_error
      else if rfr_TraceID req = [] then required ''trace id''
      else wrap_error ''max replica lag is invalid'' (pd (rfr_MaxReplicaLag req)))"

definition trafficNode :: "regionalFailoverParams \<Rightarrow> string \<Rightarrow> string \<Rightarrow> int \<Rightarrow> SagaNode" where
  "trafficNode params ident requires percent =
     tpl_node ident ''multiregion.shift_traffic'' [requires] (enc_regionalFailoverParams (params\<lparr>rfp_TrafficPercent := percent\<rparr>)) RiskHigh Compensatable"

definition regionalFailoverGraph :: "regionalFailoverParams \<Rightarrow> SagaNode list" where
  "regionalFailoverGraph params =
     (let common = enc_regionalFailoverParams params;
          previous = (if rfp_FreezeWrites params then ''freeze-writes'' else ''approve-failover'') in
      [tpl_node ''preflight'' ''check.preflight'' []
         (JObj [(''env'', JStr (rfp_Env params)), (''require_provider'', JBool True), (''require_service_control'', JBool False),
                (''required_facts'', jstrs [''from_region:'' @ rfp_FromRegion params, ''to_region:'' @ rfp_ToRegion params,
                   ''database:'' @ rfp_Database params, ''max_replica_lag:'' @ rfp_MaxReplicaLag params]),
                (''service'', JStr (rfp_Stack params))]) RiskLow Reversible,
       tpl_node ''verify-secondary-capacity'' ''multiregion.verify_secondary_capacity'' [''preflight''] common RiskLow Reversible,
       tpl_node ''verify-replica-lag'' ''multiregion.verify_replica_lag'' [''verify-secondary-capacity''] common RiskMedium Reversible,
       tpl_node ''approve-failover'' ''approval.manual'' [''verify-replica-lag'']
         (JObj [(''facts'', jstrs [''stack:'' @ rfp_Stack params, ''database:'' @ rfp_Database params, ''from_region:'' @ rfp_FromRegion params,
                   ''to_region:'' @ rfp_ToRegion params, ''partially_irreversible_after:promote-secondary-database'']),
                (''risk'', JStr RiskCritical),
                (''summary'', JStr ''approve regional database failover before writes can move to the secondary region'')])
         RiskCritical Reversible] @
      (if rfp_FreezeWrites params
       then [tpl_node ''freeze-writes'' ''multiregion.freeze_writes'' [''approve-failover''] common RiskHigh Compensatable] else []) @
      [tpl_node ''promote-secondary-database'' ''multiregion.promote_database'' [previous] common RiskCritical PartiallyReversible,
       tpl_node ''update-writer-secret'' ''multiregion.update_writer_secret'' [''promote-secondary-database''] common RiskCritical PartiallyReversible,
       tpl_node ''writes-after-promotion-boundary'' ''multiregion.irreversible_boundary'' [''update-writer-secret''] common RiskCritical Irreversible,
       trafficNode params ''shift-traffic-10'' ''writes-after-promotion-boundary'' DefaultFailoverTrafficCanary,
       tpl_node ''metrics-gate'' ''check.metrics_gate'' [''shift-traffic-10'']
         (JObj [(''comparator'', JStr ''<=''), (''env'', JStr (rfp_Env params)), (''metric'', JStr ''multiregion.failover_5xx''),
                (''service'', JStr (rfp_Stack params)), (''threshold'', JNum ''1''), (''window'', JStr ''5m'')]) RiskMedium Reversible,
       trafficNode params ''shift-traffic-100'' ''metrics-gate'' DefaultFailoverTrafficCutover,
       tpl_node ''mark-secondary-primary'' ''multiregion.mark_primary'' [''shift-traffic-100''] common RiskHigh PartiallyReversible])"

definition RegionalFailover :: "gotime \<Rightarrow> (string \<Rightarrow> int result) \<Rightarrow> RegionalFailoverRequest \<Rightarrow> CreateRequest result" where
  "RegionalFailover wall pd req0 =
     (let req = NormalizeRegionalFailoverRequest wall req0 in
      rbind (validateRegionalFailoverRequest pd req) (\<lambda>_.
      (let params = \<lparr>rfp_Stack = rfr_Stack req, rfp_Service = rfr_Service req, rfp_Database = rfr_Database req, rfp_Env = rfr_Env req,
             rfp_OperationID = rfr_OperationID req, rfp_FromRegion = rfr_FromRegion req, rfp_ToRegion = rfr_ToRegion req,
             rfp_TrafficHost = rfr_TrafficHost req, rfp_MaxReplicaLag = rfr_MaxReplicaLag req, rfp_FreezeWrites = rfr_FreezeWrites req,
             rfp_TrafficPercent = 0\<rparr>;
           nodes = regionalFailoverGraph params
       in Inr (tpl_request (rfr_SagaID req) RegionalFailoverKind (tpl_target ''multi-region-stack'' (rfr_Stack req)) (rfr_Actor req) (rfr_TraceID req)
            RiskCritical PartiallyReversible
            (''fail over '' @ rfr_Stack req @ '' from '' @ rfr_FromRegion req @ '' to '' @ rfr_ToRegion req)
            (rfr_CreatedAt req) (enc_regionalFailoverParams params) nodes (sequentialEdges nodes)))))"

definition LookupRegionalFailover ::
  "gotime \<Rightarrow> (string \<Rightarrow> int result) \<Rightarrow> string \<Rightarrow> (RegionalFailoverRequest \<Rightarrow> CreateRequest result) option" where
  "LookupRegionalFailover wall pd kind = (if kind = RegionalFailoverKind then Some (RegionalFailover wall pd) else None)"

definition RegisteredRegionalFailoverKinds :: "string list" where
  "RegisteredRegionalFailoverKinds = [RegionalFailoverKind]"

section \<open>Stateful groups\<close>

definition StatefulBackupKind :: string where "StatefulBackupKind = ''stateful.backup''"
definition StatefulRestoreKind :: string where "StatefulRestoreKind = ''stateful.restore''"
definition StatefulRestoreModeMember :: string where "StatefulRestoreModeMember = ''member''"
definition DefaultStatefulBackupRetention :: string where "DefaultStatefulBackupRetention = ''168h''"
definition StatefulReplaceMemberKind :: string where "StatefulReplaceMemberKind = ''stateful.replace_member''"
definition StatefulOrderedUpdateKind :: string where "StatefulOrderedUpdateKind = ''stateful.ordered_update''"

record StatefulBackupRequest =
  sbr_SagaID :: string
  sbr_OperationID :: string
  sbr_BackupID :: string
  sbr_Group :: string
  sbr_Env :: string
  sbr_Members :: "int list"
  sbr_Member :: int
  sbr_Reason :: string
  sbr_Retention :: string
  sbr_TraceID :: string
  sbr_Actor :: Actor
  sbr_CreatedAt :: gotime

definition enc_StatefulBackupRequest :: "StatefulBackupRequest \<Rightarrow> json" where
  "enc_StatefulBackupRequest x = enc_obj [
     (''saga_id'', o_str (sbr_SagaID x)),
     (''operation_id'', o_str (sbr_OperationID x)),
     (''backup_id'', o_str (sbr_BackupID x)),
     (''group'', e_str (sbr_Group x)),
     (''env'', o_str (sbr_Env x)),
     (''members'', o_list e_ordinal (sbr_Members x)),
     (''member'', o_int (sbr_Member x)),
     (''reason'', o_str (sbr_Reason x)),
     (''retention'', o_str (sbr_Retention x)),
     (''trace_id'', o_str (sbr_TraceID x)),
     (''actor'', e_sub enc_Actor (sbr_Actor x)),
     (''created_at'', e_str (canonical_Time (sbr_CreatedAt x)))]"

record StatefulRestoreRequest =
  sre_SagaID :: string
  sre_OperationID :: string
  sre_RestoreID :: string
  sre_BackupID :: string
  sre_Group :: string
  sre_Env :: string
  sre_Member :: int
  sre_Mode :: string
  sre_Reason :: string
  sre_ApprovalID :: string
  sre_TraceID :: string
  sre_Actor :: Actor
  sre_CreatedAt :: gotime

definition enc_StatefulRestoreRequest :: "StatefulRestoreRequest \<Rightarrow> json" where
  "enc_StatefulRestoreRequest x = enc_obj [
     (''saga_id'', o_str (sre_SagaID x)),
     (''operation_id'', o_str (sre_OperationID x)),
     (''restore_id'', o_str (sre_RestoreID x)),
     (''backup_id'', e_str (sre_BackupID x)),
     (''group'', e_str (sre_Group x)),
     (''env'', o_str (sre_Env x)),
     (''member'', e_int (sre_Member x)),
     (''mode'', o_str (sre_Mode x)),
     (''reason'', o_str (sre_Reason x)),
     (''approval_id'', o_str (sre_ApprovalID x)),
     (''trace_id'', o_str (sre_TraceID x)),
     (''actor'', e_sub enc_Actor (sre_Actor x)),
     (''created_at'', e_str (canonical_Time (sre_CreatedAt x)))]"

fun validateMembers :: "string \<Rightarrow> int list \<Rightarrow> int list \<Rightarrow> unit result" where
  "validateMembers what seen [] = Inr ()"
| "validateMembers what seen (member # members) =
     (if member < 0 then Inl (new_error ''member ordinal must be non-negative'')
      else if member \<in> set seen then Inl (new_error (''duplicate '' @ what @ '' '' @ show_int member))
      else validateMembers what (member # seen) members)"

definition NormalizeStatefulBackupRequest :: "gotime \<Rightarrow> StatefulBackupRequest \<Rightarrow> StatefulBackupRequest" where
  "NormalizeStatefulBackupRequest wall req =
     (let created = tpl_created wall (sbr_CreatedAt req);
          group = TrimSpace (sbr_Group req);
          trace = tpl_trace wall created (group @ ''stateful-backup'') (sbr_TraceID req);
          operation = tpl_operation wall created trace (TrimSpace (sbr_OperationID req))
      in req\<lparr>sbr_CreatedAt := created, sbr_Group := group, sbr_Env := TrimSpace (sbr_Env req), sbr_Reason := TrimSpace (sbr_Reason req),
           sbr_Retention := or_else (TrimSpace (sbr_Retention req)) DefaultStatefulBackupRetention, sbr_Actor := tpl_actor (sbr_Actor req),
           sbr_TraceID := trace, sbr_OperationID := operation,
           sbr_BackupID := or_else (TrimSpace (sbr_BackupID req)) (''backup_'' @ NewID wall created operation),
           sbr_SagaID := tpl_saga wall created operation (TrimSpace (sbr_SagaID req)), sbr_Members := sort (sbr_Members req)\<rparr>)"

definition validateStatefulBackupRequest :: "(string \<Rightarrow> int result) \<Rightarrow> StatefulBackupRequest \<Rightarrow> unit result" where
  "validateStatefulBackupRequest pd req =
     (if sbr_Group req = [] then required ''stateful group''
      else if sbr_Members req = [] then required ''at least one member''
      else rbind (validateMembers ''member ordinal'' [] (sbr_Members req)) (\<lambda>_.
        wrap_error ''retention must be a Go duration'' (pd (sbr_Retention req))))"

definition statefulBackupGraph :: "StatefulBackupRequest \<Rightarrow> tpl_chain" where
  "statefulBackupGraph req =
     (let preflight = tpl_node ''preflight'' ''check.preflight'' []
            (JObj [(''env'', JStr (sbr_Env req)), (''require_provider'', JBool True), (''require_service_control'', JBool False),
                   (''required_facts'', jstrs [''stateful_group:'' @ sbr_Group req, ''backup:'' @ sbr_BackupID req]),
                   (''service'', JStr (sbr_Group req))]) RiskLow Reversible;
          c = fold (\<lambda>member. then_node (\<lambda>previous. twice (tpl_node (''snapshot-member-'' @ show_int member) ''stateful.backup.snapshot_member''
                [previous] (enc_StatefulBackupRequest (req\<lparr>sbr_Member := member\<rparr>)) RiskMedium Compensatable)))
              (sbr_Members req) ([preflight], [], ''preflight'')
      in then_node (\<lambda>previous. tpl_node ''verify-backup'' ''stateful.backup.verify'' [previous] (enc_StatefulBackupRequest req) RiskLow Reversible) c)"

definition StatefulBackup :: "gotime \<Rightarrow> (string \<Rightarrow> int result) \<Rightarrow> StatefulBackupRequest \<Rightarrow> CreateRequest result" where
  "StatefulBackup wall pd req0 =
     (let req = NormalizeStatefulBackupRequest wall req0 in
      rbind (validateStatefulBackupRequest pd req) (\<lambda>_.
      case statefulBackupGraph req of (nodes, edges, _) \<Rightarrow>
        Inr (tpl_request (sbr_SagaID req) StatefulBackupKind (tpl_target ''stateful-group'' (sbr_Group req)) (sbr_Actor req) (sbr_TraceID req)
            RiskMedium Compensatable (''backup stateful group '' @ sbr_Group req) (sbr_CreatedAt req) (enc_StatefulBackupRequest req) nodes edges)))"

definition NormalizeStatefulRestoreRequest :: "gotime \<Rightarrow> StatefulRestoreRequest \<Rightarrow> StatefulRestoreRequest" where
  "NormalizeStatefulRestoreRequest wall req =
     (let created = tpl_created wall (sre_CreatedAt req);
          group = TrimSpace (sre_Group req);
          trace = tpl_trace wall created (group @ ''stateful-restore'') (sre_TraceID req);
          operation = tpl_operation wall created trace (TrimSpace (sre_OperationID req))
      in req\<lparr>sre_CreatedAt := created, sre_Group := group, sre_Env := TrimSpace (sre_Env req), sre_BackupID := TrimSpace (sre_BackupID req),
           sre_Mode := or_else (TrimSpace (sre_Mode req)) StatefulRestoreModeMember, sre_Reason := TrimSpace (sre_Reason req),
           sre_ApprovalID := TrimSpace (sre_ApprovalID req), sre_Actor := tpl_actor (sre_Actor req),
           sre_TraceID := trace, sre_OperationID := operation,
           sre_RestoreID := or_else (TrimSpace (sre_RestoreID req)) (''restore_'' @ NewID wall created operation),
           sre_SagaID := tpl_saga wall created operation (TrimSpace (sre_SagaID req))\<rparr>)"

definition validateStatefulRestoreRequest :: "StatefulRestoreRequest \<Rightarrow> unit result" where
  "validateStatefulRestoreRequest req =
     (if sre_Group req = [] then required ''stateful group''
      else if sre_BackupID req = [] then required ''backup id''
      else if sre_Member req < 0 then Inl (new_error ''member ordinal must be non-negative'')
      else if sre_Mode req \<noteq> StatefulRestoreModeMember then Inl (new_error (''unsupported restore mode '' @ quote (sre_Mode req)))
      else Inr ())"

definition statefulRestoreNodes :: "StatefulRestoreRequest \<Rightarrow> SagaNode list" where
  "statefulRestoreNodes req =
     (let params = enc_StatefulRestoreRequest req; member = sre_Group req @ ''/'' @ show_int (sre_Member req) in
      [tpl_node ''verify-backup'' ''stateful.restore.verify_backup'' [] params RiskLow Reversible,
       tpl_node ''approve-restore'' ''approval.manual'' [''verify-backup'']
         (JObj [(''facts'', jstrs [''group:'' @ sre_Group req, ''member:'' @ show_int (sre_Member req), ''backup:'' @ sre_BackupID req,
                   ''mode:'' @ sre_Mode req]),
                (''risk'', JStr RiskHigh),
                (''summary'', JStr (''approve restoring stateful member '' @ member @ '' from backup '' @ sre_BackupID req))]) RiskHigh Reversible,
       compensated ''stateful.restore.apply.compensate'' params
         (tpl_node ''apply-restore'' ''stateful.restore.apply'' [''approve-restore''] params RiskHigh PartiallyReversible)])"

definition StatefulRestore :: "gotime \<Rightarrow> StatefulRestoreRequest \<Rightarrow> CreateRequest result" where
  "StatefulRestore wall req0 =
     (let req = NormalizeStatefulRestoreRequest wall req0; member = sre_Group req @ ''/'' @ show_int (sre_Member req) in
      rbind (validateStatefulRestoreRequest req) (\<lambda>_.
      (let nodes = statefulRestoreNodes req in
       Inr (tpl_request (sre_SagaID req) StatefulRestoreKind (tpl_target ''stateful-member'' member) (sre_Actor req) (sre_TraceID req)
            RiskHigh PartiallyReversible (''restore stateful member '' @ member @ '' from backup '' @ sre_BackupID req) (sre_CreatedAt req)
            (enc_StatefulRestoreRequest req) nodes (sequentialEdges nodes)))))"

record StatefulReplaceMemberRequest =
  smr_SagaID :: string
  smr_OperationID :: string
  smr_Group :: string
  smr_Env :: string
  smr_Member :: int
  smr_Reason :: string
  smr_TraceID :: string
  smr_Actor :: Actor
  smr_CreatedAt :: gotime

definition enc_StatefulReplaceMemberRequest :: "StatefulReplaceMemberRequest \<Rightarrow> json" where
  "enc_StatefulReplaceMemberRequest x = enc_obj [
     (''saga_id'', o_str (smr_SagaID x)),
     (''operation_id'', o_str (smr_OperationID x)),
     (''group'', e_str (smr_Group x)),
     (''env'', o_str (smr_Env x)),
     (''member'', e_int (smr_Member x)),
     (''reason'', o_str (smr_Reason x)),
     (''trace_id'', o_str (smr_TraceID x)),
     (''actor'', e_sub enc_Actor (smr_Actor x)),
     (''created_at'', e_str (canonical_Time (smr_CreatedAt x)))]"

record StatefulOrderedUpdateRequest =
  sou_SagaID :: string
  sou_OperationID :: string
  sou_Group :: string
  sou_Env :: string
  sou_ReleaseID :: string
  sou_ReleaseManifestKey :: string
  sou_RuntimeManifestKey :: string
  sou_Members :: "int list"
  sou_Member :: int
  sou_MaxUnavailable :: int
  sou_Recipe :: string
  sou_TraceID :: string
  sou_Actor :: Actor
  sou_CreatedAt :: gotime

definition enc_StatefulOrderedUpdateRequest :: "StatefulOrderedUpdateRequest \<Rightarrow> json" where
  "enc_StatefulOrderedUpdateRequest x = enc_obj [
     (''saga_id'', o_str (sou_SagaID x)),
     (''operation_id'', o_str (sou_OperationID x)),
     (''group'', e_str (sou_Group x)),
     (''env'', o_str (sou_Env x)),
     (''release_id'', e_str (sou_ReleaseID x)),
     (''release_manifest_key'', o_str (sou_ReleaseManifestKey x)),
     (''runtime_manifest_key'', o_str (sou_RuntimeManifestKey x)),
     (''members'', o_list e_ordinal (sou_Members x)),
     (''member'', e_int (sou_Member x)),
     (''max_unavailable'', o_int (sou_MaxUnavailable x)),
     (''recipe'', o_str (sou_Recipe x)),
     (''trace_id'', o_str (sou_TraceID x)),
     (''actor'', e_sub enc_Actor (sou_Actor x)),
     (''created_at'', e_str (canonical_Time (sou_CreatedAt x)))]"

definition NormalizeStatefulReplaceMemberRequest :: "gotime \<Rightarrow> StatefulReplaceMemberRequest \<Rightarrow> StatefulReplaceMemberRequest" where
  "NormalizeStatefulReplaceMemberRequest wall req =
     (let created = tpl_created wall (smr_CreatedAt req);
          group = TrimSpace (smr_Group req);
          trace = tpl_trace wall created (group @ ''stateful-replace'') (smr_TraceID req);
          operation = tpl_operation wall created trace (TrimSpace (smr_OperationID req))
      in req\<lparr>smr_CreatedAt := created, smr_Group := group, smr_Env := TrimSpace (smr_Env req), smr_Reason := TrimSpace (smr_Reason req),
           smr_Actor := tpl_actor (smr_Actor req), smr_TraceID := trace, smr_OperationID := operation,
           smr_SagaID := tpl_saga wall created operation (TrimSpace (smr_SagaID req))\<rparr>)"

definition StatefulReplaceMember :: "gotime \<Rightarrow> StatefulReplaceMemberRequest \<Rightarrow> CreateRequest result" where
  "StatefulReplaceMember wall req0 =
     (let req = NormalizeStatefulReplaceMemberRequest wall req0; member = smr_Group req @ ''/'' @ show_int (smr_Member req) in
      if smr_Group req = [] then Inl (new_error ''stateful group is required'')
      else if smr_Member req < 0 then Inl (new_error ''member ordinal must be non-negative'')
      else (let params = enc_StatefulReplaceMemberRequest req;
                nodes = [twice (compensated ''stateful.member.replace.compensate'' params
                  (tpl_node ''replace-member'' ''stateful.member.replace'' [] params RiskHigh Compensatable))]
            in Inr (tpl_request (smr_SagaID req) StatefulReplaceMemberKind (tpl_target ''stateful-member'' member) (smr_Actor req) (smr_TraceID req)
                 RiskHigh Compensatable (''replace stateful member '' @ member @ '' with explicit fencing'') (smr_CreatedAt req) params
                 nodes (sequentialEdges nodes))))"

definition NormalizeStatefulOrderedUpdateRequest :: "gotime \<Rightarrow> StatefulOrderedUpdateRequest \<Rightarrow> StatefulOrderedUpdateRequest" where
  "NormalizeStatefulOrderedUpdateRequest wall req =
     (let created = tpl_created wall (sou_CreatedAt req);
          group = TrimSpace (sou_Group req);
          trace = tpl_trace wall created (group @ ''stateful-ordered'') (sou_TraceID req);
          operation = tpl_operation wall created trace (TrimSpace (sou_OperationID req))
      in req\<lparr>sou_CreatedAt := created, sou_Group := group, sou_Env := TrimSpace (sou_Env req), sou_ReleaseID := TrimSpace (sou_ReleaseID req),
           sou_ReleaseManifestKey := TrimSpace (sou_ReleaseManifestKey req), sou_RuntimeManifestKey := TrimSpace (sou_RuntimeManifestKey req),
           sou_Recipe := TrimSpace (sou_Recipe req), sou_Actor := tpl_actor (sou_Actor req), sou_TraceID := trace, sou_OperationID := operation,
           sou_SagaID := tpl_saga wall created operation (TrimSpace (sou_SagaID req)),
           sou_MaxUnavailable := (if sou_MaxUnavailable req \<le> 0 then 1 else sou_MaxUnavailable req), sou_Members := sort (sou_Members req)\<rparr>)"

definition validateStatefulOrderedUpdateRequest :: "StatefulOrderedUpdateRequest \<Rightarrow> unit result" where
  "validateStatefulOrderedUpdateRequest req =
     (if sou_Group req = [] then required ''stateful group''
      else if sou_ReleaseID req = [] then required ''release ID''
      else if sou_Members req = [] then
        Inl (new_error ''ordered update members are required; build them from StatefulGroup control'')
      else rbind (validateMembers ''stateful member ordinal'' [] (sou_Members req)) (\<lambda>_.
        if sou_MaxUnavailable req < 1 then Inl (new_error ''max unavailable must be at least 1'') else Inr ()))"

definition statefulOrderedUpdateGraph :: "StatefulOrderedUpdateRequest \<Rightarrow> tpl_chain" where
  "statefulOrderedUpdateGraph req =
     (let params = enc_StatefulOrderedUpdateRequest req;
          plan = compensated ''stateful.ordered_update.plan.compensate'' params
            (tpl_node ''plan-ordered-members'' ''stateful.ordered_update.plan'' [] params RiskLow Reversible);
          c = fold (\<lambda>member. let p = enc_StatefulOrderedUpdateRequest (req\<lparr>sou_Member := member\<rparr>) in
                then_node (\<lambda>previous. twice (compensated ''stateful.member.ordered_update.compensate'' p
                  (tpl_node (''update-member-'' @ show_int member) ''stateful.member.ordered_update'' [previous] p RiskMedium Compensatable))))
              (sou_Members req) ([plan], [], ''plan-ordered-members'')
      in then_node (\<lambda>previous. tpl_node ''mark-group-complete'' ''stateful.ordered_update.complete'' [previous] params RiskLow Reversible) c)"

definition StatefulOrderedUpdate :: "gotime \<Rightarrow> StatefulOrderedUpdateRequest \<Rightarrow> CreateRequest result" where
  "StatefulOrderedUpdate wall req0 =
     (let req = NormalizeStatefulOrderedUpdateRequest wall req0 in
      rbind (validateStatefulOrderedUpdateRequest req) (\<lambda>_.
      case statefulOrderedUpdateGraph req of (nodes, edges, _) \<Rightarrow>
        Inr (tpl_request (sou_SagaID req) StatefulOrderedUpdateKind (tpl_target ''stateful-group'' (sou_Group req)) (sou_Actor req) (sou_TraceID req)
            RiskMedium Compensatable (''ordered in-place release update for stateful group '' @ sou_Group req @ '' to release '' @ sou_ReleaseID req)
            (sou_CreatedAt req) (enc_StatefulOrderedUpdateRequest req) nodes edges)))"

section \<open>Traffic cutover\<close>

definition TrafficCutoverKind :: string where "TrafficCutoverKind = ''traffic.cutover''"

record TrafficCutoverRequest =
  tcr_SagaID :: string
  tcr_OperationID :: string
  tcr_Service :: string
  tcr_Env :: string
  tcr_From :: string
  tcr_To :: string
  tcr_Percent :: int
  tcr_TraceID :: string
  tcr_Actor :: Actor
  tcr_CreatedAt :: gotime

record trafficCutoverParams =
  tcp_Service :: string
  tcp_Env :: string
  tcp_OperationID :: string
  tcp_From :: string
  tcp_To :: string
  tcp_Percent :: int

definition enc_trafficCutoverParams :: "trafficCutoverParams \<Rightarrow> json" where
  "enc_trafficCutoverParams x = enc_obj [
     (''service'', e_str (tcp_Service x)),
     (''env'', e_str (tcp_Env x)),
     (''operation_id'', o_str (tcp_OperationID x)),
     (''from'', e_str (tcp_From x)),
     (''to'', e_str (tcp_To x)),
     (''percent'', e_int (tcp_Percent x))]"

definition NormalizeTrafficCutoverRequest :: "gotime \<Rightarrow> TrafficCutoverRequest \<Rightarrow> TrafficCutoverRequest" where
  "NormalizeTrafficCutoverRequest wall req =
     (let created = tpl_created wall (tcr_CreatedAt req);
          service = TrimSpace (tcr_Service req);
          trace = tpl_trace wall created (service @ ''cutover'') (TrimSpace (tcr_TraceID req));
          operation = tpl_operation wall created trace (TrimSpace (tcr_OperationID req))
      in req\<lparr>tcr_CreatedAt := created, tcr_Service := service, tcr_Env := TrimSpace (tcr_Env req),
           tcr_From := or_else (TrimSpace (tcr_From req)) ''kube'', tcr_To := or_else (TrimSpace (tcr_To req)) ''skiff'',
           tcr_Actor := tpl_actor (tcr_Actor req), tcr_TraceID := trace, tcr_OperationID := operation,
           tcr_SagaID := tpl_saga wall created operation (TrimSpace (tcr_SagaID req))\<rparr>)"

definition validateTrafficCutoverRequest :: "TrafficCutoverRequest \<Rightarrow> unit result" where
  "validateTrafficCutoverRequest req =
     (if tcr_Service req = [] then required ''service''
      else if tcr_Env req = [] then required ''env''
      else if tcr_From req = [] then required ''source target''
      else if tcr_To req = [] then required ''destination target''
      else if tcr_From req = tcr_To req then Inl (new_error ''source and destination targets must differ'')
      else if tcr_Percent req < 0 \<or> tcr_Percent req > 100 then Inl (new_error ''percent must be between 0 and 100'')
      else if no_actor (tcr_Actor req) then actor_error
      else if tcr_TraceID req = [] then required ''trace id''
      else Inr ())"

definition trafficCutoverNodes :: "TrafficCutoverRequest \<Rightarrow> string \<Rightarrow> json \<Rightarrow> SagaNode list" where
  "trafficCutoverNodes req risk params =
     [tpl_node ''preflight'' ''check.preflight'' []
        (JObj [(''env'', JStr (tcr_Env req)), (''require_provider'', JBool True), (''require_service_control'', JBool False),
               (''required_facts'', jstrs [''from:'' @ tcr_From req, ''to:'' @ tcr_To req]), (''service'', JStr (tcr_Service req))]) RiskLow Reversible,
      tpl_node ''approve-cutover'' ''approval.manual'' [''preflight'']
        (JObj [(''facts'', jstrs [''source:'' @ tcr_From req, ''target:'' @ tcr_To req]), (''risk'', JStr risk),
               (''summary'', JStr (''approve shifting '' @ show_int (tcr_Percent req) @ ''% traffic to '' @ tcr_To req))]) risk Reversible,
      tpl_node ''shift-traffic'' ''service.traffic.shift'' [''approve-cutover''] params risk Compensatable,
      tpl_node ''verify-target-health'' ''check.service_healthy'' [''shift-traffic'']
        (JObj [(''allowed_statuses'', healthy_statuses), (''env'', JStr (tcr_Env req)), (''service'', JStr (tcr_Service req))]) RiskLow Reversible]"

definition TrafficCutover :: "gotime \<Rightarrow> TrafficCutoverRequest \<Rightarrow> CreateRequest result" where
  "TrafficCutover wall req0 =
     (let req = NormalizeTrafficCutoverRequest wall req0 in
      rbind (validateTrafficCutoverRequest req) (\<lambda>_.
      (let params = enc_trafficCutoverParams \<lparr>tcp_Service = tcr_Service req, tcp_Env = tcr_Env req, tcp_OperationID = tcr_OperationID req,
             tcp_From = tcr_From req, tcp_To = tcr_To req, tcp_Percent = tcr_Percent req\<rparr>;
           risk = (if tcr_Percent req = 100 then RiskHigh else RiskMedium)
       in Inr (tpl_request (tcr_SagaID req) TrafficCutoverKind (tpl_target ''service'' (tcr_Service req)) (tcr_Actor req) (tcr_TraceID req)
            risk Compensatable
            (''shift '' @ show_int (tcr_Percent req) @ ''% traffic from '' @ tcr_From req @ '' to '' @ tcr_To req @ '' for '' @ tcr_Service req)
            (tcr_CreatedAt req) params (trafficCutoverNodes req risk params)
            [tpl_edge ''preflight'' ''approve-cutover'', tpl_edge ''approve-cutover'' ''shift-traffic'',
             tpl_edge ''shift-traffic'' ''verify-target-health'']))))"

end
