(* ===== verification/Rollback.thy ===== *)
theory Rollback
  imports Deploy Saga_Templates
begin

text \<open>
  Rolling a service back (internal/deploy/rollback.go): the target release is looked up and authorized, the rollback
  saga of the template and the operation are recorded, and under the service's lease the service is pointed to the
  release, the provider rolls it out and, once it has succeeded, the release is marked stable.

  The object store is the world, so it is never missing; the provider is the one of \<open>Rollout\<close>.
\<close>

section \<open>Requests and results\<close>

definition RollbackPreviousStable :: string where "RollbackPreviousStable = PreviousStable"

record deploy_RollbackRequest =
  rbq_Actor :: Actor
  rbq_TraceID :: string
  rbq_Service :: string
  rbq_Env :: string
  rbq_TargetRelease :: string
  rbq_OperationID :: string
  rbq_SagaID :: string
  rbq_ApprovalID :: string
  rbq_LeaseDuration :: int
  rbq_NoWatch :: bool
  rbq_MinHealthyPercentage :: int
  rbq_InstanceWarmup :: int

record RollbackResult =
  rbx_OK :: bool
  rbx_Service :: string
  rbx_Env :: string
  rbx_OperationID :: string
  rbx_SagaID :: string
  rbx_TraceID :: string
  rbx_Target :: string
  rbx_FromRelease :: string
  rbx_ToRelease :: string
  rbx_ReleaseHistory :: "string list"
  rbx_ServiceControl :: "ServiceControl option"
  rbx_Rollout :: "Rollout option"
  rbx_RolloutStatus :: "RolloutStatus option"
  rbx_Events :: "events_Event list"
  rbx_NextCommands :: "string list"
  rbx_RecommendedNote :: string

definition deploy_normalizeRollbackRequest :: "deploy_RollbackRequest \<Rightarrow> gotime \<Rightarrow> deploy_RollbackRequest" where
  "deploy_normalizeRollbackRequest req now =
     (let service = TrimSpace (rbq_Service req);
          trace = tpl_trace now now (service @ ''rollback'') (rbq_TraceID req);
          operation = tpl_operation now now trace (rbq_OperationID req)
      in req\<lparr>rbq_Service := service, rbq_Env := TrimSpace (rbq_Env req),
           rbq_TargetRelease := or_else (TrimSpace (rbq_TargetRelease req)) RollbackPreviousStable, rbq_Actor := tpl_actor (rbq_Actor req),
           rbq_TraceID := trace, rbq_OperationID := operation, rbq_SagaID := tpl_saga now now operation (rbq_SagaID req),
           rbq_LeaseDuration := (if rbq_LeaseDuration req \<le> 0 then 300000000000 else rbq_LeaseDuration req)\<rparr>)"

definition rollbackResult :: "deploy_RollbackRequest \<Rightarrow> RollbackResult" where
  "rollbackResult req =
     \<lparr>rbx_OK = True, rbx_Service = rbq_Service req, rbx_Env = rbq_Env req, rbx_OperationID = rbq_OperationID req, rbx_SagaID = rbq_SagaID req,
      rbx_TraceID = rbq_TraceID req, rbx_Target = rbq_TargetRelease req, rbx_FromRelease = [], rbx_ToRelease = [], rbx_ReleaseHistory = [],
      rbx_ServiceControl = None, rbx_Rollout = None, rbx_RolloutStatus = None, rbx_Events = [],
      rbx_NextCommands =
        [''skiff status '' @ rbq_Service req @ '' --format json --trace-id '' @ rbq_TraceID req,
         ''skiff ops watch '' @ rbq_Service req @ '' --operation '' @ rbq_OperationID req @ '' --format json --trace-id '' @ rbq_TraceID req,
         ''skiff ops events '' @ rbq_OperationID req @ '' --service '' @ rbq_Service req @ '' --format json --trace-id '' @ rbq_TraceID req,
         ''skiff ops inspect '' @ rbq_SagaID req @ '' --format json --trace-id '' @ rbq_TraceID req],
      rbx_RecommendedNote = []\<rparr>"

section \<open>The target release\<close>

definition resolveRollbackTarget :: "ServiceControl \<Rightarrow> string \<Rightarrow> string result" where
  "resolveRollbackTarget control target =
     (if TrimSpace (sc_DesiredRelease control) = [] then Inl (new_error ''service control does not contain desired_release'')
      else if target = [] \<or> target = RollbackPreviousStable then
        (if TrimSpace (sc_StableRelease control) = []
         then Inl (new_error ''service control does not contain stable_release for previous-stable rollback'')
         else Inr (sc_StableRelease control))
      else Inr target)"

definition readReleaseManifest :: "('s, 'z) World_scheme \<Rightarrow> string \<Rightarrow> string \<Rightarrow> string \<Rightarrow> ('s, ReleaseManifest) io" where
  "readReleaseManifest W service env releaseID =
     io_bind (io_lift (paths_ReleaseManifest service releaseID)) (\<lambda>key.
     io_bind (io_try (os_Get W key)) (\<lambda>r. case r of
        Inl err \<Rightarrow>
          if is_store ErrNotFound err then io_fail (new_error (''release '' @ releaseID @ '' is not present in immutable release history''))
          else io_fail err
      | Inr obj \<Rightarrow> (case canonical_UnmarshalStrict dec_ReleaseManifest (obj_Body obj) of
            Inl err \<Rightarrow> io_fail (Errorf (''decode release manifest '' @ key @ '': '' @ err_text err) (Some err))
          | Inr manifest \<Rightarrow>
              if rm_Service manifest \<noteq> service then
                io_fail (new_error (''release '' @ releaseID @ '' belongs to service '' @ rm_Service manifest @ '', want '' @ service))
              else if rm_Env manifest \<noteq> env then
                io_fail (new_error (''release '' @ releaseID @ '' belongs to env '' @ rm_Env manifest @ '', want '' @ env))
              else if rm_ReleaseID manifest \<noteq> releaseID then
                io_fail (new_error (''release manifest '' @ key @ '' names release '' @ rm_ReleaseID manifest))
              else io_ret manifest)))"

text \<open>\<^verbatim>\<open>strings.TrimPrefix\<close> and \<^verbatim>\<open>strings.TrimSuffix\<close>.\<close>

definition TrimPrefix :: "string \<Rightarrow> string \<Rightarrow> string" where
  "TrimPrefix s pre = (if prefix pre s then drop (length pre) s else s)"

definition TrimSuffix :: "string \<Rightarrow> string \<Rightarrow> string" where
  "TrimSuffix s suf = (if suffix suf s then take (length s - length suf) s else s)"

definition releaseOfKey :: "string \<Rightarrow> string \<Rightarrow> string" where
  "releaseOfKey pre key = TrimSuffix (TrimPrefix key pre) ''/release.json''"

definition releaseHistory :: "('s, 'z) World_scheme \<Rightarrow> string \<Rightarrow> ('s, string list) io" where
  "releaseHistory W service =
     io_bind (io_lift (paths_ServiceReleasesPrefix service)) (\<lambda>pre.
     io_bind (os_List W pre \<lparr>lo_Limit = 0\<rparr>) (\<lambda>metas.
     io_ret (sort (remdups (filter (\<lambda>relPath. relPath \<noteq> [] \<and> CHR ''/'' \<notin> set relPath)
       (map (\<lambda>meta. releaseOfKey pre (om_Key meta)) (filter (\<lambda>meta. suffix ''/release.json'' (om_Key meta)) metas)))))))"

section \<open>The documents of a rollback\<close>

definition createRollbackSaga ::
  "('s, 'z) World_scheme \<Rightarrow> deploy_RollbackRequest \<Rightarrow> string \<Rightarrow> string \<Rightarrow> gotime \<Rightarrow> ('s, Documents) io" where
  "createRollbackSaga W req fromRelease toRelease now =
     io_bind (io_lift (DeploymentRollback now \<lparr>rbr_SagaID = rbq_SagaID req, rbr_OperationID = rbq_OperationID req, rbr_Service = rbq_Service req,
       rbr_Env = rbq_Env req, rbr_FromRelease = fromRelease, rbr_Target = rbq_TargetRelease req, rbr_TargetRelease = toRelease,
       rbr_TraceID = rbq_TraceID req, rbr_Actor = rbq_Actor req, rbr_CreatedAt = now\<rparr>)) (\<lambda>createReq.
     saga_Create W createReq)"

definition rollbackIntent :: "deploy_RollbackRequest \<Rightarrow> string \<Rightarrow> string \<Rightarrow> gotime \<Rightarrow> OperationIntent" where
  "rollbackIntent req fromRelease toRelease now =
     (NewOperationIntent (rbq_OperationID req) (rbq_Service req) (rbq_Env req) ''rollback''
        (zero_Target\<lparr>tgt_Kind := ''service'', tgt_Name := rbq_Service req\<rparr>) (rbq_Actor req) (rbq_TraceID req) (canonical_Time now))
     \<lparr>oi_Risk := RiskMedium, oi_Reversibility := Reversible,
      oi_Summary := ''rollback '' @ rbq_Service req @ '' from '' @ fromRelease @ '' to '' @ toRelease,
      oi_Params := Raw (JObj [(''from_release'', JStr fromRelease), (''saga_id'', JStr (rbq_SagaID req)), (''to_release'', JStr toRelease)])\<rparr>"

definition createRollbackOperationIntent ::
  "('s, 'z) World_scheme \<Rightarrow> deploy_RollbackRequest \<Rightarrow> string \<Rightarrow> string \<Rightarrow> gotime \<Rightarrow> ('s, unit) io" where
  "createRollbackOperationIntent W req fromRelease toRelease now =
     io_bind (io_lift (canonical_Marshal enc_OperationIntent raws_ok_OperationIntent (rollbackIntent req fromRelease toRelease now))) (\<lambda>body.
     io_bind (io_lift (paths_OperationIntent (rbq_Service req) (rbq_OperationID req))) (\<lambda>key.
     io_bind (os_Create W key (JsonBody body) ops_putOptions) (\<lambda>_. io_ret ())))"

definition createRollbackOperationControl ::
  "('s, 'z) World_scheme \<Rightarrow> deploy_RollbackRequest \<Rightarrow> string \<Rightarrow> gotime \<Rightarrow> StepResultRef list \<Rightarrow> ('s, unit) io" where
  "createRollbackOperationControl W req status now results =
     io_bind (io_lift (canonical_Marshal enc_OperationControl raws_ok_OperationControl
       (zero_OperationControl\<lparr>oc_SchemaVersion := schema_Version, oc_OperationID := rbq_OperationID req, oc_Service := rbq_Service req,
          oc_Env := rbq_Env req, oc_Status := status, oc_StepResults := results, oc_UpdatedAt := canonical_Time now,
          oc_TraceID := rbq_TraceID req\<rparr>))) (\<lambda>body.
     io_bind (io_lift (paths_OperationControl (rbq_Service req) (rbq_OperationID req))) (\<lambda>key.
     io_bind (os_Create W key (JsonBody body) ops_putOptions) (\<lambda>_. io_ret ())))"

definition updateRollbackOperationControl ::
  "('s, 'z) World_scheme \<Rightarrow> deploy_RollbackRequest \<Rightarrow> string \<Rightarrow> StepResultRef list \<Rightarrow> ('s, unit) io" where
  "updateRollbackOperationControl W req status results =
     io_bind (getOperationControl W (rbq_Service req) (rbq_OperationID req)) (\<lambda>(control, etag).
     io_bind (io_now W) (\<lambda>now.
     putOperationControlCAS W (rbq_Service req) (rbq_OperationID req) etag
       (control\<lparr>oc_Status := status, oc_StepResults := results, oc_UpdatedAt := canonical_Time now\<rparr>)))"

definition rollbackStepResult :: "string \<Rightarrow> string \<Rightarrow> string \<Rightarrow> gotime \<Rightarrow> string \<Rightarrow> string \<Rightarrow> StepResultRef" where
  "rollbackStepResult stepID kind status completedAt field val =
     \<lparr>srr_StepID = stepID, srr_Kind = kind, srr_Status = status, srr_Result = Raw (JObj [(field, JStr val)]), srr_ResultRef = [],
      srr_Failure = None, srr_ProviderOperations = [], srr_CompletedAt = canonical_Time completedAt\<rparr>"

definition appendStepRefs :: "StepResultRef list \<Rightarrow> StepResultRef list \<Rightarrow> StepResultRef list" where
  "appendStepRefs base refs = base @ refs"

definition rollback_authorize ::
  "('s, 'z) World_scheme \<Rightarrow> (string \<Rightarrow> string) \<Rightarrow> 's Authorizer option \<Rightarrow> deploy_RollbackRequest \<Rightarrow> ('s, Decision) io" where
  "rollback_authorize W ul policy req s =
     (case MustAuthorize W ul policy
        \<lparr>azr_Actor = rbq_Actor req, azr_Action = ActionRollback, azr_Target = zero_Target\<lparr>tgt_Kind := ''service'', tgt_Name := rbq_Service req\<rparr>,
         azr_Env = rbq_Env req, azr_Service = rbq_Service req, azr_Risk = RiskMedium, azr_ApprovalID = rbq_ApprovalID req, azr_ApprovalRole = [],
         azr_DryRun = False, azr_PlanOnly = False, azr_TraceID = rbq_TraceID req\<rparr> s of
        ((decision, None), t) \<Rightarrow> (Inr decision, t)
      | ((decision, Some err), t) \<Rightarrow> (Inl (authz_goerr err), t))"

section \<open>Under the lease\<close>

text \<open>The variables that \<^verbatim>\<open>Rollback\<close> shares with its deferred function and its closures.\<close>

record rollback_vars =
  rv_result :: RollbackResult
  rv_handle :: "LeaseHandle option"
  rv_leaseHeld :: bool
  rv_operationControlCreated :: bool
  rv_desiredUpdated :: bool
  rv_sagaControl :: ControlDocument
  rv_baseRefs :: "StepResultRef list"

type_synonym ('s, 'a) kio = "('s \<times> rollback_vars, goerr, 'a) eio"

definition r_set :: "(rollback_vars \<Rightarrow> rollback_vars) \<Rightarrow> ('s, unit) kio" where
  "r_set f = ebind (eupdate f) (\<lambda>_. eret ())"

definition r_result :: "(RollbackResult \<Rightarrow> RollbackResult) \<Rightarrow> ('s, unit) kio" where
  "r_result f = r_set (\<lambda>v. v\<lparr>rv_result := f (rv_result v)\<rparr>)"

definition r_get :: "('s, rollback_vars) kio" where
  "r_get = eupdate (\<lambda>v. v)"

definition rollbackLogEvent :: "deploy_RollbackRequest \<Rightarrow> string \<Rightarrow> string \<Rightarrow> Fact list \<Rightarrow> gotime \<Rightarrow> events_Event" where
  "rollbackLogEvent req eventType summary facts now =
     (NewOperationEvent now (rbq_Service req) (rbq_OperationID req) eventType summary now (rbq_TraceID req @ eventType))
     \<lparr>ee_TraceID := rbq_TraceID req, ee_Actor := Some (rbq_Actor req), ee_Facts := facts\<rparr>"

definition rollback_appendEvent ::
  "('s, 'z) World_scheme \<Rightarrow> deploy_RollbackRequest \<Rightarrow> string \<Rightarrow> string \<Rightarrow> Fact list \<Rightarrow> ('s, unit) kio" where
  "rollback_appendEvent W req eventType summary facts =
     ebind (ecall (io_bind (io_now W) (\<lambda>now.
        io_bind (log_Append W (rollbackLogEvent req eventType summary facts now)) (\<lambda>_. io_ret (rollbackLogEvent req eventType summary facts now))))) (\<lambda>r.
     case r of
       Inr event \<Rightarrow> r_result (\<lambda>result. result\<lparr>rbx_Events := rbx_Events result @ [event]\<rparr>)
     | Inl _ \<Rightarrow> eret ())"

definition rollback_updateSaga :: "('s, 'z) World_scheme \<Rightarrow> string \<Rightarrow> string list \<Rightarrow> StepResultRef list \<Rightarrow> ('s, unit) kio" where
  "rollback_updateSaga W status current refs =
     ebind r_get (\<lambda>v.
     ebind (ecall (io_bind (io_now W) (\<lambda>now. UpdateControlCAS W (rv_sagaControl v)
        ((cdoc_Control (rv_sagaControl v))\<lparr>sct_Status := status, sct_CurrentSteps := current, sct_StepResults := refs,
           sct_UpdatedAt := canonical_Time now\<rparr>)))) (\<lambda>r. case r of
       Inr updated \<Rightarrow> r_set (\<lambda>v. v\<lparr>rv_sagaControl := updated\<rparr>)
     | Inl _ \<Rightarrow> eret ()))"

definition rollbackOperation :: "deploy_RollbackRequest \<Rightarrow> string \<Rightarrow> string \<Rightarrow> ServiceControl \<Rightarrow> ServiceControl" where
  "rollbackOperation req state step control = control\<lparr>
     sc_Operation := Some \<lparr>aop_ID = rbq_OperationID req, aop_Kind = ''rollback'', aop_State = state, aop_Step = step\<rparr>,
     sc_UpdatedBy := rbq_Actor req, sc_TraceID := rbq_TraceID req\<rparr>"

text \<open>\<^verbatim>\<open>fail\<close> marks the service's operation as failed, if the service has been changed and the handle is there.\<close>

definition rollback_markFailed :: "('s, 'z) World_scheme \<Rightarrow> deploy_RollbackRequest \<Rightarrow> string \<Rightarrow> ('s, unit) kio" where
  "rollback_markFailed W req step =
     ebind r_get (\<lambda>v. case rv_handle v of
       None \<Rightarrow> eret ()
     | Some handle \<Rightarrow>
         if \<not> rv_leaseHeld v \<or> \<not> rv_desiredUpdated v then eret ()
         else
           ebind (ecall (UpdateServiceControlWithLeaseCAS W handle (\<lambda>control. Inr (rollbackOperation req OperationFailed step control)))) (\<lambda>r. case r of
             Inr (nextHandle, controlDoc) \<Rightarrow>
               r_set (\<lambda>v. v\<lparr>rv_handle := Some nextHandle, rv_result := (rv_result v)\<lparr>rbx_ServiceControl := Some (scd_Control controlDoc)\<rparr>\<rparr>)
           | Inl _ \<Rightarrow> eret ()))"

definition rollback_fail :: "('s, 'z) World_scheme \<Rightarrow> deploy_RollbackRequest \<Rightarrow> goerr \<Rightarrow> string \<Rightarrow> ('s, 'a) kio" where
  "rollback_fail W req err step =
     ebind (r_result (\<lambda>result. result\<lparr>rbx_OK := False,
        rbx_RecommendedNote := ''inspect operation events and provider rollout status before retrying rollback''\<rparr>)) (\<lambda>_.
     ebind (rollback_appendEvent W req ''rollback.failed'' (err_text err) [zero_Fact\<lparr>fct_Type := ''step'', fct_Message := step\<rparr>]) (\<lambda>_.
     ebind (rollback_markFailed W req step) (\<lambda>_.
     ebind (ecall (w_Now W)) (\<lambda>now.
     ebind r_get (\<lambda>v.
     (let refs = appendStepRefs (rv_baseRefs v) [rollbackStepResult step (''rollback.'' @ step) ''failed'' now ''error'' (err_text err)] in
      ebind (if rv_operationControlCreated v then ecall (updateRollbackOperationControl W req OperationFailed refs) else eret (Inr ())) (\<lambda>_.
      ebind (rollback_updateSaga W SagaFailed [] refs) (\<lambda>_.
      efail err))))))))"

text \<open>A call whose error ends the rollback through \<^verbatim>\<open>fail\<close>.\<close>

definition rollback_step :: "('s, 'z) World_scheme \<Rightarrow> deploy_RollbackRequest \<Rightarrow> string \<Rightarrow> ('s, 'a) io \<Rightarrow> ('s, 'a) kio" where
  "rollback_step W req step m = ebind (ecall m) (\<lambda>r. case r of Inl err \<Rightarrow> rollback_fail W req err step | Inr x \<Rightarrow> eret x)"

text \<open>An update of the service, which assigns the shared handle in both cases: a failed one sets it to nil.\<close>

definition rollback_point ::
  "('s, 'z) World_scheme \<Rightarrow> deploy_RollbackRequest \<Rightarrow> string \<Rightarrow> (ServiceControl \<Rightarrow> ServiceControl) \<Rightarrow> LeaseHandle \<Rightarrow> ('s, LeaseHandle) kio" where
  "rollback_point W req step f handle =
     ebind (ecall (UpdateServiceControlWithLeaseCAS W handle (\<lambda>control. Inr (f control)))) (\<lambda>r. case r of
       Inl err \<Rightarrow> ebind (r_set (\<lambda>v. v\<lparr>rv_handle := None\<rparr>)) (\<lambda>_. rollback_fail W req err step)
     | Inr (nextHandle, controlDoc) \<Rightarrow>
         ebind (r_set (\<lambda>v. v\<lparr>rv_handle := Some nextHandle, rv_result := (rv_result v)\<lparr>rbx_ServiceControl := Some (scd_Control controlDoc)\<rparr>\<rparr>)) (\<lambda>_.
         eret nextHandle))"

definition desireRelease :: "deploy_RollbackRequest \<Rightarrow> string \<Rightarrow> ServiceControl \<Rightarrow> ServiceControl" where
  "desireRelease req toRelease control =
     rollbackOperation req ''rolling_out'' ''start-asg-instance-refresh'' (control\<lparr>sc_DesiredRelease := toRelease\<rparr>)"

definition completeRelease :: "deploy_RollbackRequest \<Rightarrow> string \<Rightarrow> ServiceControl \<Rightarrow> ServiceControl" where
  "completeRelease req toRelease control =
     rollbackOperation req OperationSucceeded [] (control\<lparr>sc_DesiredRelease := toRelease, sc_StableRelease := toRelease\<rparr>)"

text \<open>The records of the steps that have been done.\<close>

definition desiredRef :: "string \<Rightarrow> gotime \<Rightarrow> StepResultRef" where
  "desiredRef toRelease now = rollbackStepResult ''update-desired-release'' ''service.desired_release.update'' ''succeeded'' now ''release'' toRelease"

definition startedRef :: "Rollout \<Rightarrow> gotime \<Rightarrow> StepResultRef" where
  "startedRef rollout now =
     rollbackStepResult ''start-asg-instance-refresh'' ''provider.aws.asg_instance_refresh.start'' ''succeeded'' now ''provider_id'' (ro_ProviderID rollout)"

definition watchedRef :: "string \<Rightarrow> RolloutStatus \<Rightarrow> gotime \<Rightarrow> StepResultRef" where
  "watchedRef stepStatus status now =
     rollbackStepResult ''watch-rollout-health'' ''provider.aws.asg_instance_refresh.watch'' stepStatus now ''status'' (rs_Status status)"

definition completedRef :: "string \<Rightarrow> gotime \<Rightarrow> StepResultRef" where
  "completedRef toRelease now = rollbackStepResult ''mark-complete'' ''operation.rollback.complete'' ''succeeded'' now ''stable_release'' toRelease"

definition rollbackAudit :: "deploy_RollbackRequest \<Rightarrow> string \<Rightarrow> string \<Rightarrow> gotime \<Rightarrow> AuditRecord" where
  "rollbackAudit req fromRelease toRelease now =
     (NewAuditRecord now (rbq_Actor req) (zero_Target\<lparr>tgt_Kind := ''service'', tgt_Name := rbq_Service req\<rparr>) ''rollback''
        (''rolled back '' @ rbq_Service req @ '' to '' @ toRelease) (rbq_TraceID req) now (rbq_OperationID req))
     \<lparr>ar_Risk := RiskMedium, ar_ApprovalID := rbq_ApprovalID req, ar_BeforeSummary := ''desired release '' @ fromRelease,
      ar_AfterSummary := ''stable release '' @ toRelease,
      ar_Data := Raw (JObj [(''from_release'', JStr fromRelease), (''operation_id'', JStr (rbq_OperationID req)),
        (''saga_id'', JStr (rbq_SagaID req)), (''to_release'', JStr toRelease)])\<rparr>"

definition rollback_release :: "('s, 'z) World_scheme \<Rightarrow> deploy_RollbackRequest \<Rightarrow> LeaseHandle \<Rightarrow> ('s, unit) kio" where
  "rollback_release W req handle =
     ebind (rollback_step W req ''release-lease'' (ReleaseLease W handle)) (\<lambda>_. r_set (\<lambda>v. v\<lparr>rv_leaseHeld := False\<rparr>))"

text \<open>The records are stamped one after the other.\<close>

fun stampRefs :: "('s, 'z) World_scheme \<Rightarrow> (gotime \<Rightarrow> StepResultRef) list \<Rightarrow> ('s, StepResultRef list) kio" where
  "stampRefs W [] = eret []"
| "stampRefs W (f # fs) = ebind (ecall (w_Now W)) (\<lambda>now. ebind (stampRefs W fs) (\<lambda>refs. eret (f now # refs)))"

text \<open>The operation and the saga go on running: the rollout is not finished, or it is not watched.\<close>

definition rollback_running :: "('s, 'z) World_scheme \<Rightarrow> deploy_RollbackRequest \<Rightarrow> (gotime \<Rightarrow> StepResultRef) list \<Rightarrow> ('s, unit) kio" where
  "rollback_running W req fs =
     ebind (stampRefs W fs) (\<lambda>stamped.
     ebind r_get (\<lambda>v.
     (let refs = appendStepRefs (rv_baseRefs v) stamped in
      ebind (ecall (updateRollbackOperationControl W req OperationRunning refs)) (\<lambda>_.
      rollback_updateSaga W SagaRunning [''watch-rollout-health''] refs))))"

definition rollback_complete ::
  "('s, 'z) World_scheme \<Rightarrow> deploy_RollbackRequest \<Rightarrow> string \<Rightarrow> string \<Rightarrow> Rollout \<Rightarrow> RolloutStatus \<Rightarrow> LeaseHandle \<Rightarrow> ('s, LeaseHandle) kio" where
  "rollback_complete W req fromRelease toRelease rollout status handle =
     ebind (rollback_point W req ''mark-complete'' (completeRelease req toRelease) handle) (\<lambda>nextHandle.
     ebind (stampRefs W [desiredRef toRelease, startedRef rollout, watchedRef ''succeeded'' status, completedRef toRelease]) (\<lambda>stamped.
     ebind r_get (\<lambda>v.
     (let refs = appendStepRefs (rv_baseRefs v) stamped in
      ebind (rollback_step W req ''complete-operation'' (updateRollbackOperationControl W req OperationSucceeded refs)) (\<lambda>_.
      ebind (rollback_updateSaga W SagaSucceeded [] refs) (\<lambda>_.
      ebind (rollback_appendEvent W req ''rollback.succeeded'' ''rollback operation completed''
         [zero_Fact\<lparr>fct_Type := ''release'', fct_Message := toRelease\<rparr>]) (\<lambda>_.
      ebind (ecall (io_bind (io_now W) (\<lambda>now. log_AppendAudit W (rollbackAudit req fromRelease toRelease now)))) (\<lambda>_.
      eret nextHandle))))))))"

definition rollback_watch ::
  "('s, 'z) World_scheme \<Rightarrow> 's Provider \<Rightarrow> deploy_RollbackRequest \<Rightarrow> string \<Rightarrow> string \<Rightarrow> Rollout \<Rightarrow> LeaseHandle \<Rightarrow> ('s, unit) kio" where
  "rollback_watch W P req fromRelease toRelease rollout handle =
     ebind (rollback_step W req ''watch-rollout-health'' (WatchRollout W P
        \<lparr>wrq_Service = rbq_Service req, wrq_Env = rbq_Env req, wrq_OperationID = rbq_OperationID req, wrq_RolloutID = ro_ID rollout,
         wrq_ProviderID = ro_ProviderID rollout, wrq_TraceID = rbq_TraceID req, wrq_Actor = rbq_Actor req\<rparr>)) (\<lambda>status.
     ebind (r_result (\<lambda>result. result\<lparr>rbx_RolloutStatus := Some status\<rparr>)) (\<lambda>_.
     (let final = operationStatusForRollout (rs_Status status) in
      if final = OperationSucceeded then
        ebind (rollback_complete W req fromRelease toRelease rollout status handle) (\<lambda>nextHandle. rollback_release W req nextHandle)
      else if final = OperationFailed \<or> final = OperationCanceled then
        rollback_fail W req (new_error (''rollback rollout '' @ rs_Status status)) ''watch-rollout-health''
      else
        ebind (rollback_running W req [desiredRef toRelease, startedRef rollout, watchedRef (rs_Status status) status]) (\<lambda>_.
        rollback_release W req handle))))"

definition rollback_rollout ::
  "('s, 'z) World_scheme \<Rightarrow> 's Provider \<Rightarrow> deploy_RollbackRequest \<Rightarrow> string \<Rightarrow> string \<Rightarrow> LeaseHandle \<Rightarrow> ('s, unit) kio" where
  "rollback_rollout W P req fromRelease toRelease handle =
     ebind (rollback_step W req ''start-asg-instance-refresh'' (StartRollout W P
        \<lparr>srq_Service = rbq_Service req, srq_Env = rbq_Env req, srq_OperationID = rbq_OperationID req, srq_ReleaseID = toRelease,
         srq_TraceID = rbq_TraceID req, srq_Actor = rbq_Actor req, srq_MinHealthyPercentage = rbq_MinHealthyPercentage req,
         srq_InstanceWarmup = rbq_InstanceWarmup req\<rparr>)) (\<lambda>rollout.
     ebind (r_result (\<lambda>result. result\<lparr>rbx_Rollout := Some rollout\<rparr>)) (\<lambda>_.
     if rbq_NoWatch req then
       ebind (rollback_running W req [desiredRef toRelease, startedRef rollout]) (\<lambda>_.
       rollback_release W req handle)
     else rollback_watch W P req fromRelease toRelease rollout handle))"

definition rollback_leased ::
  "('s, 'z) World_scheme \<Rightarrow> 's Provider \<Rightarrow> deploy_RollbackRequest \<Rightarrow> string \<Rightarrow> string \<Rightarrow> gotime \<Rightarrow> LeaseHandle \<Rightarrow> ('s, unit) kio" where
  "rollback_leased W P req fromRelease toRelease now handle =
     ebind (ecall (w_Now W)) (\<lambda>n1.
     ebind (r_set (\<lambda>v. v\<lparr>rv_baseRefs := rv_baseRefs v @
        [rollbackStepResult ''acquire-service-lease'' ''service.lease.acquire'' ''succeeded'' n1 ''service'' (rbq_Service req)]\<rparr>)) (\<lambda>_.
     ebind (rollback_step W req ''create-operation-control'' (createRollbackOperationControl W req OperationRunning now [])) (\<lambda>_.
     ebind (r_set (\<lambda>v. v\<lparr>rv_operationControlCreated := True\<rparr>)) (\<lambda>_.
     ebind (rollback_appendEvent W req ''rollback.started'' ''rollback operation started''
        [zero_Fact\<lparr>fct_Type := ''from_release'', fct_Message := fromRelease\<rparr>, zero_Fact\<lparr>fct_Type := ''to_release'', fct_Message := toRelease\<rparr>]) (\<lambda>_.
     ebind (rollback_point W req ''update-desired-release'' (desireRelease req toRelease) handle) (\<lambda>nextHandle.
     ebind (r_set (\<lambda>v. v\<lparr>rv_desiredUpdated := True\<rparr>)) (\<lambda>_.
     ebind (rollback_appendEvent W req ''rollback.desired_release_updated'' ''service desired release updated for rollback''
        [zero_Fact\<lparr>fct_Type := ''release'', fct_Message := toRelease\<rparr>]) (\<lambda>_.
     rollback_rollout W P req fromRelease toRelease nextHandle))))))))"

definition rollback_steps ::
  "('s, 'z) World_scheme \<Rightarrow> 's Provider \<Rightarrow> deploy_RollbackRequest \<Rightarrow> string \<Rightarrow> string \<Rightarrow> gotime \<Rightarrow> ('s, unit) kio" where
  "rollback_steps W P req fromRelease toRelease now =
     (let refs = [rollbackStepResult ''resolve-target'' ''deployment.rollback.resolve_target'' ''succeeded'' now ''target_release'' toRelease,
          rollbackStepResult ''create-operation'' ''operation.intent.create'' ''succeeded'' now ''operation_id'' (rbq_OperationID req)] in
      ebind (r_set (\<lambda>v. v\<lparr>rv_baseRefs := refs\<rparr>)) (\<lambda>_.
      ebind (rollback_updateSaga W SagaRunning [''acquire-service-lease''] refs) (\<lambda>_.
      ebind (ecall (AcquireLease W defaultRetryOptions (rbq_Service req)
         \<lparr>lop_Owner = act_ID (rbq_Actor req), lop_Duration = rbq_LeaseDuration req, lop_Actor = rbq_Actor req, lop_TraceID = rbq_TraceID req\<rparr>)) (\<lambda>r. case r of
        Inl err \<Rightarrow> rollback_fail W req err ''acquire-service-lease''
      | Inr (handle, _) \<Rightarrow>
          ebind (r_set (\<lambda>v. v\<lparr>rv_handle := Some handle, rv_leaseHeld := True\<rparr>)) (\<lambda>_.
          rollback_leased W P req fromRelease toRelease now handle)))))"

text \<open>The deferred release runs when the lease is held and the handle is not nil.\<close>

definition rollback_deferred :: "('s, 'z) World_scheme \<Rightarrow> rollback_vars \<Rightarrow> 's \<Rightarrow> 's" where
  "rollback_deferred W v t = (case rv_handle v of
      Some handle \<Rightarrow> if rv_leaseHeld v then snd (ReleaseLease W handle t) else t
    | None \<Rightarrow> t)"

definition rollback_recorded ::
  "('s, 'z) World_scheme \<Rightarrow> 's Provider \<Rightarrow> deploy_RollbackRequest \<Rightarrow> RollbackResult \<Rightarrow> ControlDocument \<Rightarrow> gotime \<Rightarrow> 's \<Rightarrow>
   (RollbackResult option \<times> goerr option) \<times> 's" where
  "rollback_recorded W P req result sagaControl now s =
     (case rollback_steps W P req (rbx_FromRelease result) (rbx_ToRelease result) now
        (s, \<lparr>rv_result = result, rv_handle = None, rv_leaseHeld = False, rv_operationControlCreated = False, rv_desiredUpdated = False,
             rv_sagaControl = sagaControl, rv_baseRefs = []\<rparr>) of
        (r, (t, v)) \<Rightarrow> ((Some (rv_result v), case r of Inl err \<Rightarrow> Some err | Inr _ \<Rightarrow> None), rollback_deferred W v t))"

section \<open>Rollback\<close>

text \<open>Before the lease: everything that only reads, the authorization, the records. An error is returned with the result so far.\<close>

definition rollback_prepare ::
  "('s, 'z) World_scheme \<Rightarrow> (string \<Rightarrow> string) \<Rightarrow> 's Authorizer option \<Rightarrow> deploy_RollbackRequest \<Rightarrow> gotime \<Rightarrow>
   ('s \<times> RollbackResult, goerr, ControlDocument) eio" where
  "rollback_prepare W ul policy req now =
     ebind (host id (GetServiceControl W (rbq_Service req))) (\<lambda>serviceDoc.
     ebind (eupdate (\<lambda>result. result\<lparr>rbx_ServiceControl := Some (scd_Control serviceDoc),
        rbx_FromRelease := sc_DesiredRelease (scd_Control serviceDoc)\<rparr>)) (\<lambda>_.
     ebind (host id (io_lift (resolveRollbackTarget (scd_Control serviceDoc) (rbq_TargetRelease req)))) (\<lambda>toRelease.
     ebind (eupdate (\<lambda>result. result\<lparr>rbx_ToRelease := toRelease\<rparr>)) (\<lambda>_.
     ebind (host id (releaseHistory W (rbq_Service req))) (\<lambda>history.
     ebind (eupdate (\<lambda>result. result\<lparr>rbx_ReleaseHistory := history\<rparr>)) (\<lambda>_.
     ebind (host id (readReleaseManifest W (rbq_Service req) (rbq_Env req) toRelease)) (\<lambda>_.
     ebind (ecall (rollback_authorize W ul policy req)) (\<lambda>r. case r of
       Inl err \<Rightarrow> ebind (eupdate (\<lambda>result. result\<lparr>rbx_OK := False\<rparr>)) (\<lambda>_. efail err)
     | Inr _ \<Rightarrow>
         ebind (host id (createRollbackSaga W req (sc_DesiredRelease (scd_Control serviceDoc)) toRelease now)) (\<lambda>sagaDocs.
         ebind (host id (createRollbackOperationIntent W req (sc_DesiredRelease (scd_Control serviceDoc)) toRelease now)) (\<lambda>_.
         eret (docs_Control sagaDocs)))))))))))"

definition Rollback ::
  "('s, 'z) World_scheme \<Rightarrow> 's Provider option \<Rightarrow> (string \<Rightarrow> string) \<Rightarrow> 's Authorizer option \<Rightarrow> deploy_RollbackRequest \<Rightarrow> 's \<Rightarrow>
   (RollbackResult option \<times> goerr option) \<times> 's" where
  "Rollback W provider ul policy req0 s = (case io_ctx W s of
      (Inl err, t) \<Rightarrow> ((None, Some err), t)
    | (Inr _, t) \<Rightarrow> (case provider of
          None \<Rightarrow> ((None, Some (new_error ''provider is required'')), t)
        | Some P \<Rightarrow> (case w_Now W t of
              (now, u) \<Rightarrow>
                (let req = deploy_normalizeRollbackRequest req0 now in
                 case rollback_prepare W ul policy req now (u, rollbackResult req) of
                   (Inl err, (v, result)) \<Rightarrow> ((Some result, Some err), v)
                 | (Inr sagaControl, (v, result)) \<Rightarrow> rollback_recorded W P req result sagaControl now v))))"

end
