(* ===== verification/Template_Sagas.thy ===== *)
theory Template_Sagas
  imports Saga_Templates Saga_Progress
begin

text \<open>
  What the sagas built by the templates of internal/saga/templates have in common: their graphs are chains, valid for the
  saga store, with one topological order, so the executor can run each of them to its end.
\<close>

section \<open>Chains\<close>

fun linked :: "string \<Rightarrow> SagaNode list \<Rightarrow> bool" where
  "linked p [] \<longleftrightarrow> True"
| "linked p (n # ns) \<longleftrightarrow> sn_Requires n = [p] \<and> linked (sn_ID n) ns"

text \<open>What the loops of the templates keep of their nodes, edges and previous node.\<close>

definition threaded :: "tpl_chain \<Rightarrow> bool" where
  "threaded c \<longleftrightarrow> (case c of (nodes, edges, previous) \<Rightarrow> nodes \<noteq> [] \<and> sn_Requires (hd nodes) = [] \<and>
     linked (sn_ID (hd nodes)) (tl nodes) \<and> edges = sequentialEdges nodes \<and> previous = sn_ID (last nodes))"

definition chain_ids :: "tpl_chain \<Rightarrow> string list" where
  "chain_ids c = map sn_ID (fst c)"

text \<open>A node the store accepts and reads back as it was written.\<close>

definition good_node :: "SagaNode \<Rightarrow> bool" where
  "good_node n \<longleftrightarrow> validateNode n = Inr () \<and> wf_SagaNode n"

definition chain_valid :: "tpl_chain \<Rightarrow> bool" where
  "chain_valid c \<longleftrightarrow> list_all good_node (fst c)"

lemma linked_snoc: "linked p (ns @ [n]) \<longleftrightarrow> linked p ns \<and> sn_Requires n = [last (p # map sn_ID ns)]"
  by (induction ns arbitrary: p) auto

lemma sequentialEdges_snoc:
  "nodes \<noteq> [] \<Longrightarrow> sequentialEdges (nodes @ [n]) = sequentialEdges nodes @ [tpl_edge (sn_ID (last nodes)) (sn_ID n)]"
  by (induction nodes rule: sequentialEdges.induct) simp_all

lemma last_id: "nodes \<noteq> [] \<Longrightarrow> last (sn_ID (hd nodes) # map sn_ID (tl nodes)) = sn_ID (last nodes)"
  by (cases nodes) (simp_all add: last_map)

lemma threaded_then_node:
  assumes "threaded c" "\<And>p. sn_Requires (f p) = [p]"
  shows "threaded (then_node f c)"
proof (cases c)
  case (fields nodes edges previous)
  then have "nodes \<noteq> []" using assms(1) by (simp add: threaded_def)
  then show ?thesis using assms fields last_id [of nodes]
    by (simp add: threaded_def then_node_def Let_def linked_snoc sequentialEdges_snoc)
qed

lemma then_node_ids [simp]: "(\<And>p. sn_ID (f p) = i) \<Longrightarrow> chain_ids (then_node f c) = chain_ids c @ [i]"
  by (simp add: chain_ids_def then_node_def Let_def split: prod.split)

lemma then_node_valid [simp]:
  "(\<And>p. good_node (f p)) \<Longrightarrow> chain_valid (then_node f c) \<longleftrightarrow> chain_valid c"
  by (simp add: chain_valid_def then_node_def Let_def split: prod.split)

text \<open>The requirements of a chain, as the graph operations read them.\<close>

lemma linked_requires: "linked p ns \<Longrightarrow> k < length ns \<Longrightarrow> sn_Requires (ns ! k) = [(p # map sn_ID ns) ! k]"
proof (induction ns arbitrary: p k)
  case (Cons n ns)
  then show ?case by (cases k) auto
qed simp

lemma edges_to: "set (map se_To (sequentialEdges nodes)) \<subseteq> sn_ID ` set (tl nodes)"
proof (induction nodes rule: sequentialEdges.induct)
  case (1 a b nodes)
  then show ?case by (cases nodes) (auto simp: tpl_edge_def)
qed simp_all

lemma edges_between: "e \<in> set (sequentialEdges nodes) \<Longrightarrow> se_From e \<in> sn_ID ` set nodes \<and> se_To e \<in> sn_ID ` set nodes"
  by (induction nodes rule: sequentialEdges.induct) (auto simp: tpl_edge_def)

lemma chain_requires:
  assumes "threaded (sg_Nodes graph, sg_Edges graph, p)" "distinct (node_ids graph)" "k < length (sg_Nodes graph)"
  shows "requiresForNode graph (sg_Nodes graph ! k) = (if k = 0 then [] else [sn_ID (sg_Nodes graph ! (k - 1))])"
proof -
  obtain n ns where n: "sg_Nodes graph = n # ns" "sn_Requires n = []" "linked (sn_ID n) ns" "sg_Edges graph = sequentialEdges (n # ns)"
    using assms(1) by (cases "sg_Nodes graph") (auto simp: threaded_def)
  have "sn_ID n \<notin> se_To ` set (sg_Edges graph)"
    using edges_to [of "n # ns"] assms(2) n(1,4) by (auto simp: node_ids_def)
  then have "filter (\<lambda>edge. se_To edge = sn_ID n) (sg_Edges graph) = []" unfolding filter_empty_conv by (metis imageI)
  then show ?thesis using n assms(3) linked_requires [OF n(3)]
    by (cases k) (auto simp: requiresForNode_def nth_Cons' split: if_splits)
qed

lemma chain_topological:
  assumes "threaded (sg_Nodes graph, sg_Edges graph, p)" "distinct (node_ids graph)"
  shows "topological graph (sg_Nodes graph)"
proof -
  have "sn_ID (sg_Nodes graph ! (k - 1)) \<in> sn_ID ` set (take k (sg_Nodes graph))" if "k < length (sg_Nodes graph)" "k \<noteq> 0" for k
    using that by (intro imageI) (auto simp: in_set_conv_nth intro!: exI [of _ "k - 1"])
  then show ?thesis using assms(2) chain_requires [OF assms] by (auto simp: topological_def node_ids_def)
qed

text \<open>A chain has no other topological order.\<close>

lemma chain_order_unique:
  assumes "threaded (sg_Nodes graph, sg_Edges graph, p)" "distinct (node_ids graph)" "topological graph ordered"
  shows "ordered = sg_Nodes graph"
proof -
  let ?ns = "sg_Nodes graph"
  have d: "distinct ?ns" "distinct ordered" "set ordered = set ?ns"
    using assms(2,3) by (auto simp: node_ids_def topological_def distinct_map)
  then have len: "length ordered = length ?ns" using distinct_card by metis
  have "take k ordered = take k ?ns" if "k \<le> length ?ns" for k using that
  proof (induction k)
    case (Suc k)
    then have IH: "take k ordered = take k ?ns" and k: "k < length ?ns" by simp_all
    obtain j where j: "j < length ?ns" "ordered ! k = ?ns ! j" using d(3) k len by (metis in_set_conv_nth)
    have "\<not> j < k"
    proof
      assume "j < k"
      then have "ordered ! j = ?ns ! j" using IH by (metis nth_take)
      then show False using j d(2) k len \<open>j < k\<close> by (metis less_trans nth_eq_iff_index_eq order_less_irrefl)
    qed
    moreover have "\<not> k < j"
    proof
      assume "k < j"
      then have "sn_ID (?ns ! (j - 1)) \<in> sn_ID ` set (take k ?ns)"
        using assms(3) chain_requires [OF assms(1,2) j(1)] k len j(2) IH by (auto simp: topological_def)
      then obtain i where i: "i < k" "sn_ID (?ns ! i) = sn_ID (?ns ! (j - 1))" using k by (auto simp: in_set_conv_nth)
      then have "node_ids graph ! i = node_ids graph ! (j - 1)" using k j(1) by (simp add: node_ids_def)
      then show False using nth_eq_iff_index_eq [OF assms(2), of i "j - 1"] i(1) \<open>k < j\<close> k j(1) by (simp add: node_ids_def)
    qed
    ultimately have "ordered ! k = ?ns ! k" using j by simp
    then show ?case using IH k len by (simp add: take_Suc_conv_app_nth)
  qed simp
  from this [of "length ?ns"] show ?thesis using len by simp
qed

lemma chain_TopologicalOrder:
  assumes "threaded (sg_Nodes graph, sg_Edges graph, p)" "distinct (node_ids graph)"
  shows "TopologicalOrder graph = Inr (sg_Nodes graph)"
proof -
  note top = chain_topological [OF assms]
  have "set (requiresForNode graph n) \<subseteq> set (node_ids graph)" if "n \<in> set (sg_Nodes graph)" for n
  proof -
    obtain k where "k < length (sg_Nodes graph)" "n = sg_Nodes graph ! k" using \<open>n \<in> _\<close> by (auto simp: in_set_conv_nth)
    then show ?thesis using chain_requires [OF assms] by (auto simp: node_ids_def)
  qed
  then obtain ordered where "TopologicalOrder graph = Inr ordered" "topological graph ordered"
    using TopologicalOrder_cases [OF assms(2)] topological_no_cycle [OF top] by blast
  then show ?thesis using chain_order_unique [OF assms] by simp
qed

lemma chain_validateNodes:
  "validateNodes seen nodes = Inr () \<longleftrightarrow>
     (\<forall>n \<in> set nodes. validateNode n = Inr ()) \<and> distinct (map sn_ID nodes) \<and> set seen \<inter> sn_ID ` set nodes = {}"
  by (induction nodes arbitrary: seen) (auto simp: rbind_Inr_iff)

lemma chain_validateGraph:
  assumes "threaded (sg_Nodes graph, sg_Edges graph, p)" "distinct (node_ids graph)"
    "chain_valid (sg_Nodes graph, sg_Edges graph, p)" "sg_SchemaVersion graph = schema_Version"
  shows "validateGraph graph = Inr () \<longleftrightarrow> is_id (sg_SagaID graph)"
proof -
  have "set (sn_Requires n) \<subseteq> set (node_ids graph)" if "n \<in> set (sg_Nodes graph)" for n
  proof -
    obtain k where "k < length (sg_Nodes graph)" "n = sg_Nodes graph ! k" using \<open>n \<in> _\<close> by (auto simp: in_set_conv_nth)
    then show ?thesis using chain_requires [OF assms(1,2), of k] by (auto simp: node_ids_def requiresForNode_def split: if_splits)
  qed
  then show ?thesis using assms edges_between
    by (auto simp: validateGraph_def chain_valid_def good_node_def list_all_iff chain_validateNodes rbind_Inr_iff validateID_iff node_ids_def
        threaded_def validateRequires_def validateEdge_def)
qed

section \<open>Trimmed strings\<close>

lemma drop_runes_stops: "\<forall>r \<in> set rs. r = [] \<or> \<not> prefix r (drop_runes rs s)"
proof (induction rs s rule: drop_runes.induct)
  case (1 rs s)
  show ?case
  proof (cases "find (\<lambda>r. r \<noteq> [] \<and> prefix r s) rs")
    case None
    then have "drop_runes rs s = s" by (subst drop_runes.simps) simp
    then show ?thesis using None by (auto simp: find_None_iff)
  next
    case (Some r)
    then have "drop_runes rs s = drop_runes rs (drop (length r) s)" by (subst drop_runes.simps) simp
    then show ?thesis using 1 [OF Some] by simp
  qed
qed

lemma drop_runes_suffix: "suffix (drop_runes rs s) s"
proof (induction rs s rule: drop_runes.induct)
  case (1 rs s)
  show ?case
  proof (cases "find (\<lambda>r. r \<noteq> [] \<and> prefix r s) rs")
    case None
    then show ?thesis by (subst drop_runes.simps) simp
  next
    case (Some r)
    then have "drop_runes rs s = drop_runes rs (drop (length r) s)" by (subst drop_runes.simps) simp
    then show ?thesis using 1 [OF Some] suffix_drop suffix_order.trans by metis
  qed
qed

lemma TrimSpace_idem [simp]: "TrimSpace (TrimSpace s) = TrimSpace s"
proof -
  let ?a = "drop_runes ws_runes s" and ?t = "TrimSpace s"
  have "suffix (rev ?t) (rev ?a)" using drop_runes_suffix by (simp add: TrimSpace_def)
  then have "prefix ?t ?a" by (simp add: suffix_to_prefix)
  then have "drop_runes ws_runes ?t = ?t"
    using drop_runes_stops [of ws_runes s] by (intro drop_runes_id) (metis prefix_order.trans)
  moreover have "drop_runes (map rev ws_runes) (rev ?t) = rev ?t"
    using drop_runes_stops [of "map rev ws_runes" "rev ?a"] by (intro drop_runes_id) (simp add: TrimSpace_def)
  ultimately show ?thesis by (simp add: TrimSpace_def)
qed

lemma drop_runes_keeps: "c \<in> set s \<Longrightarrow> \<forall>r \<in> set rs. c \<notin> set r \<Longrightarrow> c \<in> set (drop_runes rs s)"
proof (induction rs s rule: drop_runes.induct)
  case (1 rs s)
  show ?case
  proof (cases "find (\<lambda>r. r \<noteq> [] \<and> prefix r s) rs")
    case None
    then show ?thesis using 1(2) by (subst drop_runes.simps) simp
  next
    case (Some r)
    then have r: "r \<in> set rs" "prefix r s" by (auto simp: find_Some_iff)
    then have "c \<in> set (drop (length r) s)" using 1(2,3) by (auto simp: prefix_def)
    then show ?thesis using 1(1) [OF Some _ 1(3)] Some by (subst drop_runes.simps) simp
  qed
qed

lemma TrimSpace_slash: "CHR ''/'' \<in> set s \<Longrightarrow> TrimSpace s \<noteq> []"
proof -
  assume s: "CHR ''/'' \<in> set s"
  have r: "\<forall>r \<in> set ws_runes. CHR ''/'' \<notin> set r" by (simp add: ws_runes_def)
  have "CHR ''/'' \<in> set (rev (drop_runes ws_runes s))" using drop_runes_keeps [OF s r] by simp
  moreover have "\<forall>r \<in> set (map rev ws_runes). CHR ''/'' \<notin> set r" using r by simp
  ultimately have "CHR ''/'' \<in> set (drop_runes (map rev ws_runes) (rev (drop_runes ws_runes s)))" by (rule drop_runes_keeps)
  then show ?thesis by (auto simp: TrimSpace_def)
qed

section \<open>The nodes of the templates\<close>

lemma tpl_node_simps [simp]:
  "sn_ID (tpl_node i k r p risk rev0) = i" "sn_Requires (tpl_node i k r p risk rev0) = r"
  "sn_ID (twice n) = sn_ID n" "sn_Requires (twice n) = sn_Requires n"
  "sn_ID (compensated k p n) = sn_ID n" "sn_Requires (compensated k p n) = sn_Requires n"
  by (simp_all add: tpl_node_def twice_def compensated_def)

definition risks :: "string list" where
  "risks = [RiskLow, RiskMedium, RiskHigh, RiskCritical]"

definition reversibilities :: "string list" where
  "reversibilities = [Reversible, Compensatable, PartiallyReversible, Irreversible]"

lemma validateRisk_iff: "validateRisk risk = Inr () \<longleftrightarrow> risk \<in> set risks"
  by (auto simp: validateRisk_def risks_def)

lemma validateReversibility_iff: "validateReversibility v = Inr () \<longleftrightarrow> v \<in> set reversibilities"
  by (auto simp: validateReversibility_def reversibilities_def)

lemma validateNode_iff:
  "validateNode node = Inr () \<longleftrightarrow> is_id (sn_ID node) \<and> TrimSpace (sn_Kind node) \<noteq> [] \<and>
     (sn_Risk node = [] \<or> sn_Risk node \<in> set risks) \<and> (sn_Reversibility node = [] \<or> sn_Reversibility node \<in> set reversibilities) \<and>
     (case sn_Retry node of None \<Rightarrow> True | Some retry \<Rightarrow> 0 \<le> rp_MaxAttempts retry) \<and>
     (case sn_Compensate node of None \<Rightarrow> True | Some spec \<Rightarrow> TrimSpace (cs_Kind spec) \<noteq> []) \<and> raw_valid (sn_Params node)"
  unfolding validateRisk_iff [symmetric] validateReversibility_iff [symmetric]
  by (cases "validateRisk (sn_Risk node)"; cases "validateReversibility (sn_Reversibility node)")
    (auto simp: validateNode_def rbind_Inr_iff validateID_iff if_Inl_Inr_iff split: option.splits)

lemma tpl_node_valid:
  "is_id i \<Longrightarrow> TrimSpace k \<noteq> [] \<Longrightarrow> risk \<in> set risks \<Longrightarrow> v \<in> set reversibilities \<Longrightarrow> good_node (tpl_node i k r p risk v)"
  by (simp add: good_node_def validateNode_iff wf_SagaNode_def tpl_node_def mustJSON_def raw_valid_def)

lemma twice_valid: "good_node n \<Longrightarrow> good_node (twice n)"
  by (simp add: good_node_def validateNode_iff wf_SagaNode_def wf_RetryPolicy_def in_int64_def twice_def)

lemma compensated_valid: "good_node n \<Longrightarrow> TrimSpace k \<noteq> [] \<Longrightarrow> good_node (compensated k p n)"
  by (simp add: good_node_def validateNode_iff wf_SagaNode_def wf_CompensationSpec_def compensated_def mustJSON_def raw_valid_def)

lemma printable_kind: "k \<noteq> [] \<Longrightarrow> list_all printable k \<Longrightarrow> TrimSpace k \<noteq> []"
  by (simp add: TrimSpace_printable)

lemma risk_members [simp]:
  "RiskLow \<in> set risks" "RiskMedium \<in> set risks" "RiskHigh \<in> set risks" "RiskCritical \<in> set risks"
  "Reversible \<in> set reversibilities" "Compensatable \<in> set reversibilities" "PartiallyReversible \<in> set reversibilities"
  "Irreversible \<in> set reversibilities"
  by (simp_all add: risks_def reversibilities_def)

lemmas node_valid_simps = tpl_node_valid twice_valid compensated_valid printable_kind is_id_def isIDChar_def printable_def Let_def

section \<open>The templates\<close>

definition sound_chain :: "tpl_chain \<Rightarrow> bool" where
  "sound_chain c \<longleftrightarrow> threaded c \<and> distinct (chain_ids c) \<and> chain_valid c"

text \<open>What every template promises of the documents it builds.\<close>

definition template_made :: "CreateRequest \<Rightarrow> bool" where
  "template_made cr \<longleftrightarrow>
     si_SchemaVersion (creq_Intent cr) = schema_Version \<and> sg_SchemaVersion (creq_Graph cr) = schema_Version \<and>
     sg_SagaID (creq_Graph cr) = si_SagaID (creq_Intent cr) \<and>
     TrimSpace (si_Kind (creq_Intent cr)) \<noteq> [] \<and> TrimSpace (tgt_Kind (si_Target (creq_Intent cr))) \<noteq> [] \<and>
     TrimSpace (tgt_Name (si_Target (creq_Intent cr))) \<noteq> [] \<and>
     si_Risk (creq_Intent cr) \<in> set risks \<and> si_Reversibility (creq_Intent cr) \<in> set reversibilities \<and>
     (\<exists>p. sound_chain (sg_Nodes (creq_Graph cr), sg_Edges (creq_Graph cr), p)) \<and>
     (\<exists>created. creq_Control cr = zero_SagaControl\<lparr>sct_SchemaVersion := schema_Version, sct_SagaID := si_SagaID (creq_Intent cr),
        sct_Status := SagaPending, sct_UpdatedAt := canonical_Time created, sct_TraceID := si_TraceID (creq_Intent cr)\<rparr> \<and>
        si_CreatedAt (creq_Intent cr) = canonical_Time created \<and> sg_CreatedAt (creq_Graph cr) = canonical_Time created) \<and>
     raw_valid (si_Params (creq_Intent cr))"

lemma tpl_request_made:
  assumes "TrimSpace kind \<noteq> []" "TrimSpace (tgt_Kind target) \<noteq> []" "TrimSpace (tgt_Name target) \<noteq> []"
    "risk \<in> set risks" "reversibility \<in> set reversibilities" "sound_chain (nodes, edges, p)"
  shows "template_made (tpl_request sagaID kind target actor trace risk reversibility summary created params nodes edges)"
  using assms by (auto simp: template_made_def tpl_request_def Let_def mustJSON_def raw_valid_def zero_SagaIntent_def zero_SagaGraph_def)

lemma sound_listI:
  assumes "nodes \<noteq> []" "sn_Requires (hd nodes) = []" "linked (sn_ID (hd nodes)) (tl nodes)" "edges = sequentialEdges nodes"
    "distinct (map sn_ID nodes)" "list_all good_node nodes"
  shows "sound_chain (nodes, edges, sn_ID (last nodes))"
  using assms by (simp add: sound_chain_def threaded_def chain_ids_def chain_valid_def)

lemmas kind_defs = DeploymentRollbackKind_def DeploymentCanaryKind_def DatabaseBackupKind_def DatabaseRestoreKind_def
  CertificateRotationKind_def KeyRotationKind_def SecretRotationKind_def RegionalFailoverKind_def StatefulBackupKind_def
  StatefulRestoreKind_def StatefulReplaceMemberKind_def StatefulOrderedUpdateKind_def TrafficCutoverKind_def

lemma trimmed_or_else: "or_else (TrimSpace s) d \<noteq> [] \<Longrightarrow> TrimSpace d = d \<Longrightarrow> TrimSpace (or_else (TrimSpace s) d) \<noteq> []"
  by (simp add: or_else_def split: if_splits)

lemma rollback_made: "DeploymentRollback wall req = Inr cr \<Longrightarrow> template_made cr"
proof -
  assume "DeploymentRollback wall req = Inr cr"
  then obtain r common where v: "validateRollbackRequest r = Inr ()" and r: "r = normalizeRollbackRequest wall req"
    and cr: "cr = tpl_request (rbr_SagaID r) DeploymentRollbackKind (tpl_target ''service'' (rbr_Service r)) (rbr_Actor r) (rbr_TraceID r)
      RiskMedium Reversible (''rollback '' @ rbr_Service r @ '' to '' @ rbr_TargetRelease r) (rbr_CreatedAt r) common
      (rollbackNodes r common) (sequentialEdges (rollbackNodes r common))"
    by (auto simp: DeploymentRollback_def rollbackNodes_def rbind_Inr_iff Let_def)
  have "sound_chain (rollbackNodes r common, sequentialEdges (rollbackNodes r common), sn_ID (last (rollbackNodes r common)))"
    by (rule sound_listI) (simp_all add: rollbackNodes_def node_valid_simps)
  moreover have "TrimSpace (rbr_Service r) \<noteq> []"
    using v by (auto simp: r normalizeRollbackRequest_def validateRollbackRequest_def required_def Let_def)
  ultimately show ?thesis unfolding cr
    by (intro tpl_request_made) (simp_all add: kind_defs tpl_target_def printable_kind printable_def)
qed

lemmas made_simps = kind_defs tpl_target_def printable_kind printable_def TrimSpace_slash

lemma cert_chain:
  "sound_chain (certificateRotationGraph params, sequentialEdges (certificateRotationGraph params), sn_ID (last (certificateRotationGraph params)))"
  by (rule sound_listI) (simp_all add: certificateRotationGraph_def Let_def node_valid_simps)

lemma cert_made: "CertificateRotation wall pd ul req = Inr cr \<Longrightarrow> template_made cr"
  by (auto simp: CertificateRotation_def validateCertificateRotationRequest_def NormalizeCertificateRotationRequest_def rbind_Inr_iff Let_def required_def made_simps
      intro!: tpl_request_made [OF _ _ _ _ _ cert_chain] split: if_splits)

lemma key_chain:
  "sound_chain (keyRotationGraph params, sequentialEdges (keyRotationGraph params), sn_ID (last (keyRotationGraph params)))"
  by (rule sound_listI) (simp_all add: keyRotationGraph_def Let_def node_valid_simps)

lemma key_made: "KeyRotation wall pd ul req = Inr cr \<Longrightarrow> template_made cr"
  by (auto simp: KeyRotation_def validateKeyRotationRequest_def NormalizeKeyRotationRequest_def rbind_Inr_iff Let_def required_def made_simps
      intro!: tpl_request_made [OF _ _ _ _ _ key_chain] split: if_splits)

lemma secret_chain:
  "sound_chain (secretRotationGraph params, sequentialEdges (secretRotationGraph params), sn_ID (last (secretRotationGraph params)))"
  by (rule sound_listI) (simp_all add: secretRotationGraph_def Let_def node_valid_simps)

lemma secret_made: "SecretRotation wall pd ul req = Inr cr \<Longrightarrow> template_made cr"
  by (auto simp: SecretRotation_def validateSecretRotationRequest_def NormalizeSecretRotationRequest_def rbind_Inr_iff Let_def required_def made_simps
      intro!: tpl_request_made [OF _ _ _ _ _ secret_chain] split: if_splits)

lemma failover_chain:
  "sound_chain (regionalFailoverGraph params, sequentialEdges (regionalFailoverGraph params), sn_ID (last (regionalFailoverGraph params)))"
  by (rule sound_listI) (simp_all add: regionalFailoverGraph_def trafficNode_def Let_def node_valid_simps)

lemma failover_made: "RegionalFailover wall pd req = Inr cr \<Longrightarrow> template_made cr"
  by (auto simp: RegionalFailover_def validateRegionalFailoverRequest_def NormalizeRegionalFailoverRequest_def rbind_Inr_iff Let_def required_def made_simps
      intro!: tpl_request_made [OF _ _ _ _ _ failover_chain] split: if_splits)

lemma stateful_restore_chain:
  "sound_chain (statefulRestoreNodes r, sequentialEdges (statefulRestoreNodes r), sn_ID (last (statefulRestoreNodes r)))"
  by (rule sound_listI) (simp_all add: statefulRestoreNodes_def Let_def node_valid_simps)

lemma stateful_restore_made: "StatefulRestore wall req = Inr cr \<Longrightarrow> template_made cr"
  by (auto simp: StatefulRestore_def rbind_Inr_iff Let_def required_def made_simps
      intro!: tpl_request_made [OF _ _ _ _ _ stateful_restore_chain] split: if_splits)

lemma cutover_chain:
  "risk \<in> set risks \<Longrightarrow> sound_chain (trafficCutoverNodes r risk params, sequentialEdges (trafficCutoverNodes r risk params),
     sn_ID (last (trafficCutoverNodes r risk params)))"
  by (rule sound_listI) (simp_all add: trafficCutoverNodes_def node_valid_simps)

lemma cutover_made:
  assumes "TrafficCutover wall req = Inr cr"
  shows "template_made cr"
proof -
  obtain r risk params where v: "validateTrafficCutoverRequest r = Inr ()" and r: "r = NormalizeTrafficCutoverRequest wall req"
    and risk: "risk = (if tcr_Percent r = 100 then RiskHigh else RiskMedium)"
    and cr: "cr = tpl_request (tcr_SagaID r) TrafficCutoverKind (tpl_target ''service'' (tcr_Service r)) (tcr_Actor r) (tcr_TraceID r) risk Compensatable
      (''shift '' @ show_int (tcr_Percent r) @ ''% traffic from '' @ tcr_From r @ '' to '' @ tcr_To r @ '' for '' @ tcr_Service r)
      (tcr_CreatedAt r) params (trafficCutoverNodes r risk params) (sequentialEdges (trafficCutoverNodes r risk params))"
    using assms by (auto simp: TrafficCutover_def trafficCutoverNodes_def rbind_Inr_iff Let_def)
  have "TrimSpace (tcr_Service r) \<noteq> []"
    using v by (auto simp: r NormalizeTrafficCutoverRequest_def validateTrafficCutoverRequest_def required_def Let_def)
  moreover have "risk \<in> set risks" by (simp add: risk)
  ultimately show ?thesis unfolding cr by (intro tpl_request_made [OF _ _ _ _ _ cutover_chain]) (simp_all add: made_simps)
qed

lemma backup_made:
  assumes "DatabaseBackup wall req = Inr cr"
  shows "template_made cr"
proof -
  let ?nodes = "\<lambda>r params. [databasePreflightNode (dbr_Service r) (dbr_Env r) (dbr_Database r) (dbr_OperationID r) ''backup'',
    twice (tpl_node ''snapshot-current'' ''database.snapshot'' [''preflight''] params RiskMedium Compensatable),
    tpl_node ''verify-snapshot'' ''database.verify_restore_point'' [''snapshot-current''] params RiskLow Reversible]"
  obtain r params where v: "validateDatabaseBackupRequest r = Inr ()" and r: "r = NormalizeDatabaseBackupRequest wall req"
    and cr: "cr = tpl_request (dbr_SagaID r) DatabaseBackupKind (tpl_target ''database'' (dbr_Database r)) (dbr_Actor r) (dbr_TraceID r)
      RiskMedium Compensatable (''backup database '' @ dbr_Database r) (dbr_CreatedAt r) params (?nodes r params)
      (sequentialEdges (?nodes r params))"
    using assms by (auto simp: DatabaseBackup_def databasePreflightNode_def rbind_Inr_iff Let_def)
  have "sound_chain (?nodes r params, sequentialEdges (?nodes r params), sn_ID (last (?nodes r params)))"
    by (rule sound_listI) (simp_all add: databasePreflightNode_def node_valid_simps)
  moreover have "TrimSpace (dbr_Database r) \<noteq> []"
    using v by (auto simp: r NormalizeDatabaseBackupRequest_def validateDatabaseBackupRequest_def required_def Let_def)
  ultimately show ?thesis unfolding cr by (intro tpl_request_made) (simp_all add: made_simps)
qed

lemma replace_made: "StatefulReplaceMember wall req = Inr cr \<Longrightarrow> template_made cr"
  by (auto simp: StatefulReplaceMember_def Let_def made_simps node_valid_simps intro!: tpl_request_made sound_listI split: if_splits)

text \<open>The templates with a loop or an optional node.\<close>

lemma sound_then_node:
  assumes "sound_chain c" "i \<notin> set (chain_ids c)" "\<And>p. sn_ID (f p) = i" "\<And>p. sn_Requires (f p) = [p]" "\<And>p. good_node (f p)"
  shows "sound_chain (then_node f c)"
  using assms threaded_then_node [of c f] then_node_ids [of f i c] then_node_valid [of f c] by (simp add: sound_chain_def)

lemma restore_chain:
  assumes "databaseRestoreGraph params = c"
  shows "sound_chain c"
proof (cases "dbp_Service params = []")
  case True
  then show ?thesis unfolding assms [symmetric]
    by (simp add: databaseRestoreGraph_def Let_def then_node_def sound_chain_def threaded_def chain_ids_def chain_valid_def
        databasePreflightNode_def node_valid_simps)
next
  case False
  then show ?thesis unfolding assms [symmetric]
    by (simp add: databaseRestoreGraph_def Let_def then_node_def sound_chain_def threaded_def chain_ids_def chain_valid_def
        databasePreflightNode_def node_valid_simps)
qed

lemma restore_made: "DatabaseRestore wall ul req = Inr cr \<Longrightarrow> template_made cr"
  by (auto simp: DatabaseRestore_def validateDatabaseRestoreRequest_def NormalizeDatabaseRestoreRequest_def rbind_Inr_iff Let_def
      required_def actor_error_def made_simps intro!: tpl_request_made dest!: restore_chain split: if_splits prod.splits)

lemma show_int_id: "list_all isIDChar (show_int i)"
proof -
  have "list_all isIDChar (show_nat n)" for n
    using show_nat_digits [of n] by (rule list.pred_mono_strong) (auto simp: is_digit_def isIDChar_def Let_def)
  then show ?thesis by (simp add: show_int_def isIDChar_def)
qed

lemma threaded_fold:
  "threaded c \<Longrightarrow> (\<And>x p. sn_Requires (f x p) = [p]) \<Longrightarrow> threaded (fold (\<lambda>x. then_node (f x)) xs c)"
  by (induction xs arbitrary: c) (simp_all add: threaded_then_node)

lemma ids_fold:
  "(\<And>x p. sn_ID (f x p) = g x) \<Longrightarrow> chain_ids (fold (\<lambda>x. then_node (f x)) xs c) = chain_ids c @ map g xs"
  by (induction xs arbitrary: c) simp_all

lemma valid_fold:
  "(\<And>x p. good_node (f x p)) \<Longrightarrow> chain_valid (fold (\<lambda>x. then_node (f x)) xs c) \<longleftrightarrow> chain_valid c"
  by (induction xs arbitrary: c) simp_all

lemma validateMembers_distinct: "validateMembers what seen ms = Inr () \<Longrightarrow> distinct ms \<and> set seen \<inter> set ms = {}"
  by (induction ms arbitrary: seen) (fastforce simp: if_Inl_Inr_iff)+

text \<open>A first node, a chain of others, and a last one.\<close>

lemma sound_around:
  assumes "sn_Requires head_node = []" "good_node head_node" "distinct ids" "sn_ID head_node \<notin> set ids" "lst \<notin> set ids"
    "sn_ID head_node \<noteq> lst" "\<And>c. threaded c \<Longrightarrow> threaded (F c)" "\<And>c. chain_valid (F c) \<longleftrightarrow> chain_valid c" "\<And>c. chain_ids (F c) = chain_ids c @ ids"
    "\<And>p. sn_ID (g p) = lst" "\<And>p. sn_Requires (g p) = [p]" "\<And>p. good_node (g p)"
  shows "sound_chain (then_node g (F ([head_node], [], sn_ID head_node)))"
proof -
  have "threaded ([head_node], [], sn_ID head_node)" "chain_valid ([head_node], [], sn_ID head_node)"
    "chain_ids ([head_node], [], sn_ID head_node) = [sn_ID head_node]"
    using assms(1,2) by (simp_all add: threaded_def chain_valid_def chain_ids_def)
  then show ?thesis using assms(3-) by (simp add: sound_chain_def threaded_then_node)
qed

text \<open>A first node, one node for each member in turn, and a last one.\<close>

lemma sound_members:
  assumes "sn_Requires head_node = []" "good_node head_node" "distinct ms"
    and f: "\<And>m p. sn_ID (f m p) = pre @ show_int m" "\<And>m p. sn_Requires (f m p) = [p]" "\<And>m p. good_node (f m p)"
    and g: "\<And>p. sn_ID (g p) = lst" "\<And>p. sn_Requires (g p) = [p]" "\<And>p. good_node (g p)"
    and d: "sn_ID head_node \<noteq> lst" "\<And>m. sn_ID head_node \<noteq> pre @ show_int m" "\<And>m. lst \<noteq> pre @ show_int m"
  shows "sound_chain (then_node g (fold (\<lambda>m. then_node (f m)) ms ([head_node], [], sn_ID head_node)))"
proof (rule sound_around [where ids = "map (\<lambda>m. pre @ show_int m) ms"])
  show "sn_ID head_node \<notin> set (map (\<lambda>m. pre @ show_int m) ms)" "lst \<notin> set (map (\<lambda>m. pre @ show_int m) ms)" using d(2,3) by auto
  show "distinct (map (\<lambda>m. pre @ show_int m) ms)" using assms(3) by (simp add: distinct_map inj_on_def)
qed (use assms in \<open>simp_all add: threaded_fold valid_fold ids_fold\<close>)

lemma stateful_backup_made:
  assumes "StatefulBackup wall pd req = Inr cr"
  shows "template_made cr"
proof -
  obtain r nodes edges p where v: "validateStatefulBackupRequest pd r = Inr ()" and r: "r = NormalizeStatefulBackupRequest wall req"
    and c: "statefulBackupGraph r = (nodes, edges, p)"
    and cr: "cr = tpl_request (sbr_SagaID r) StatefulBackupKind (tpl_target ''stateful-group'' (sbr_Group r)) (sbr_Actor r) (sbr_TraceID r)
      RiskMedium Compensatable (''backup stateful group '' @ sbr_Group r) (sbr_CreatedAt r) (enc_StatefulBackupRequest r) nodes edges"
    using assms by (auto simp: StatefulBackup_def rbind_Inr_iff Let_def split: prod.splits)
  have "validateMembers ''member ordinal'' [] (sbr_Members r) = Inr ()"
    using v by (auto simp: validateStatefulBackupRequest_def required_def rbind_Inr_iff split: if_splits)
  then have ms: "distinct (sbr_Members r)" using validateMembers_distinct by blast
  have "TrimSpace (sbr_Group r) \<noteq> []"
    using v by (auto simp: r NormalizeStatefulBackupRequest_def validateStatefulBackupRequest_def required_def Let_def)
  moreover have "sound_chain (statefulBackupGraph r)" unfolding statefulBackupGraph_def Let_def
    by (intro sound_members [OF _ _ ms, where pre = "''snapshot-member-''" and lst = "''verify-backup''" and
        head_node = "tpl_node ''preflight'' k [] j RiskLow Reversible" for k j, simplified])
      (simp_all add: node_valid_simps show_int_id)
  ultimately show ?thesis unfolding cr using c by (intro tpl_request_made) (simp_all add: made_simps)
qed

lemma ordered_update_made:
  assumes "StatefulOrderedUpdate wall req = Inr cr"
  shows "template_made cr"
proof -
  obtain r nodes edges p where v: "validateStatefulOrderedUpdateRequest r = Inr ()" and r: "r = NormalizeStatefulOrderedUpdateRequest wall req"
    and c: "statefulOrderedUpdateGraph r = (nodes, edges, p)"
    and cr: "cr = tpl_request (sou_SagaID r) StatefulOrderedUpdateKind (tpl_target ''stateful-group'' (sou_Group r)) (sou_Actor r) (sou_TraceID r)
      RiskMedium Compensatable (''ordered in-place release update for stateful group '' @ sou_Group r @ '' to release '' @ sou_ReleaseID r)
      (sou_CreatedAt r) (enc_StatefulOrderedUpdateRequest r) nodes edges"
    using assms by (auto simp: StatefulOrderedUpdate_def rbind_Inr_iff Let_def split: prod.splits)
  have "validateMembers ''stateful member ordinal'' [] (sou_Members r) = Inr ()"
    using v by (auto simp: validateStatefulOrderedUpdateRequest_def required_def rbind_Inr_iff split: if_splits)
  then have ms: "distinct (sou_Members r)" using validateMembers_distinct by blast
  have "TrimSpace (sou_Group r) \<noteq> []"
    using v by (auto simp: r NormalizeStatefulOrderedUpdateRequest_def validateStatefulOrderedUpdateRequest_def required_def Let_def)
  moreover have "sound_chain (statefulOrderedUpdateGraph r)" unfolding statefulOrderedUpdateGraph_def Let_def
    by (intro sound_members [OF _ _ ms, where pre = "''update-member-''" and lst = "''mark-group-complete''" and
        head_node = "compensated k1 j1 (tpl_node ''plan-ordered-members'' k [] j RiskLow Reversible)" for k1 j1 k j, simplified])
      (simp_all add: node_valid_simps show_int_id)
  ultimately show ?thesis unfolding cr using c by (intro tpl_request_made) (simp_all add: made_simps)
qed

text \<open>The canary: the nodes of a stage, and of its gates.\<close>

definition gate_id :: "int \<Rightarrow> int \<Rightarrow> string" where
  "gate_id percent i = ''metrics-gate-'' @ show_int percent @ ''-'' @ show_int i"

definition stage_ids :: "nat \<Rightarrow> int \<Rightarrow> string list" where
  "stage_ids gates percent = [''start-'' @ show_int percent, ''bake-'' @ show_int percent, ''target-health-'' @ show_int percent] @
     map (\<lambda>k. gate_id percent (int k + 1)) [0..<gates]"

lemma canaryGates_chain:
  "(threaded c \<longrightarrow> threaded (canaryGates req percent i gates c)) \<and> (chain_valid (canaryGates req percent i gates c) \<longleftrightarrow> chain_valid c) \<and>
   chain_ids (canaryGates req percent i gates c) = chain_ids c @ map (\<lambda>k. gate_id percent (i + int k + 1)) [0..<length gates]"
proof (induction gates arbitrary: i c)
  case (Cons gate gates)
  have ids: "map (\<lambda>k. gate_id percent (i + int k + 1)) [0..<Suc (length gates)] =
      gate_id percent (i + 1) # map (\<lambda>k. gate_id percent (i + 1 + int k + 1)) [0..<length gates]"
    by (subst upt_conv_Cons) (simp_all add: map_Suc_upt [symmetric] comp_def algebra_simps del: upt_Suc)
  show ?case unfolding canaryGates.simps length_Cons ids
    by (simp add: Cons.IH threaded_then_node gate_id_def node_valid_simps show_int_id)
qed simp

lemma canaryStage_chain:
  "threaded c \<Longrightarrow> threaded (canaryStageNodes req stage c)"
  "chain_valid (canaryStageNodes req stage c) \<longleftrightarrow> chain_valid c"
  "chain_ids (canaryStageNodes req stage c) = chain_ids c @ stage_ids (length (cnr_MetricGates req)) (cst_Percent stage)"
  by (simp_all add: canaryStageNodes_def Let_def canaryGates_chain threaded_then_node stage_ids_def node_valid_simps show_int_id)

lemma canaryStages_chain:
  "threaded c \<Longrightarrow> threaded (fold (canaryStageNodes req) stages c)"
  "chain_valid (fold (canaryStageNodes req) stages c) \<longleftrightarrow> chain_valid c"
  "chain_ids (fold (canaryStageNodes req) stages c) =
     chain_ids c @ concat (map (stage_ids (length (cnr_MetricGates req)) \<circ> cst_Percent) stages)"
  by (induction stages arbitrary: c) (simp_all add: canaryStage_chain)

lemma no_dash: "0 \<le> i \<Longrightarrow> CHR ''-'' \<notin> set (show_int i)"
  using show_nat_digits [of "nat i"] by (auto simp: show_int_def list_all_iff is_digit_def)

lemma dash_split: "CHR ''-'' \<notin> set xs \<Longrightarrow> CHR ''-'' \<notin> set ys \<Longrightarrow> xs @ CHR ''-'' # us = ys @ CHR ''-'' # vs \<longleftrightarrow> xs = ys \<and> us = vs"
proof (induction xs arbitrary: ys)
  case Nil
  then show ?case by (cases ys) auto
next
  case (Cons x xs)
  then show ?case by (cases ys) auto
qed

lemma gate_id_eq: "0 \<le> p \<Longrightarrow> 0 \<le> q \<Longrightarrow> gate_id p i = gate_id q j \<longleftrightarrow> p = q \<and> i = j"
  by (simp add: gate_id_def dash_split no_dash)

lemma stage_ids_distinct: "0 \<le> p \<Longrightarrow> distinct (stage_ids n p)"
  by (auto simp: stage_ids_def distinct_map gate_id_eq inj_on_def) (auto simp: gate_id_def)

lemma stage_ids_disjoint: "0 \<le> p \<Longrightarrow> 0 \<le> q \<Longrightarrow> p \<noteq> q \<Longrightarrow> set (stage_ids n p) \<inter> set (stage_ids n q) = {}"
  by (auto simp: stage_ids_def gate_id_eq) (auto simp: gate_id_def)

lemma stages_distinct:
  "distinct ps \<Longrightarrow> \<forall>p \<in> set ps. 0 \<le> p \<Longrightarrow> distinct (concat (map (stage_ids n) ps))"
proof (induction ps)
  case (Cons p ps)
  have "set (stage_ids n p) \<inter> set (stage_ids n q) = {}" if "q \<in> set ps" for q
    using Cons.prems that by (intro stage_ids_disjoint) auto
  then show ?case using Cons stage_ids_distinct [of p n] by auto
qed simp

lemma stage_ids_inner: "\<forall>i \<in> set (stage_ids n p). i \<noteq> ''preflight'' \<and> i \<noteq> ''mark-stable''"
  by (auto simp: stage_ids_def gate_id_def)

lemma validateStages_distinct:
  "validateStages seen l st = Inr () \<Longrightarrow> distinct (map cst_Percent st) \<and> (\<forall>s \<in> set st. 0 \<le> cst_Percent s) \<and> set seen \<inter> cst_Percent ` set st = {}"
  by (induction st arbitrary: seen l) (fastforce simp: if_Inl_Inr_iff Let_def)+

lemma canaryGraph_chain:
  assumes "distinct (concat (map (stage_ids (length (cnr_MetricGates r)) \<circ> cst_Percent) (cnr_Stages r)))"
  shows "sound_chain (canaryGraph r)"
proof -
  have i: "''preflight'' \<notin> set (concat (map (stage_ids n \<circ> cst_Percent) (cnr_Stages r)))"
    "''mark-stable'' \<notin> set (concat (map (stage_ids n \<circ> cst_Percent) (cnr_Stages r)))" for n using stage_ids_inner by auto
  show ?thesis unfolding canaryGraph_def Let_def
    by (rule sound_around [OF _ _ assms, where F = "fold (canaryStageNodes r) (cnr_Stages r)" and lst = "''mark-stable''" and
        head_node = "tpl_node ''preflight'' k [] j RiskLow Reversible" for k j, unfolded tpl_node_simps])
      (simp_all only: i canaryStages_chain, simp_all add: node_valid_simps)
qed

lemma canary_made:
  assumes "DeploymentCanary wall pd req = Inr cr"
  shows "template_made cr"
proof -
  obtain r nodes edges p params where v: "validateCanaryRequest pd r = Inr ()" and r: "r = NormalizeCanaryRequest wall req"
    and c: "canaryGraph r = (nodes, edges, p)"
    and cr: "cr = (let t = tpl_request (cnr_SagaID r) DeploymentCanaryKind (tpl_target ''service'' (cnr_Service r)) (cnr_Actor r) (cnr_TraceID r)
      RiskMedium Compensatable (''canary deploy '' @ cnr_Service r @ '' release '' @ cnr_ReleaseID r) (cnr_CreatedAt r) params nodes edges
      in t\<lparr>creq_Intent := (creq_Intent t)\<lparr>si_PackageLockDigest := cnr_PackageLockDigest r\<rparr>\<rparr>)"
    using assms by (auto simp: DeploymentCanary_def rbind_Inr_iff Let_def split: prod.splits)
  have "validateStages [] 0 (cnr_Stages r) = Inr ()"
    using v by (auto simp: validateCanaryRequest_def required_def actor_error_def rbind_Inr_iff split: if_splits)
  from validateStages_distinct [OF this] have d: "distinct (concat (map (stage_ids n \<circ> cst_Percent) (cnr_Stages r)))" for n
    using stages_distinct [of "map cst_Percent (cnr_Stages r)" n] by simp
  have s: "TrimSpace (cnr_Service r) \<noteq> []"
    using v by (auto simp: r NormalizeCanaryRequest_def validateCanaryRequest_def required_def Let_def)
  have "sound_chain (canaryGraph r)" by (rule canaryGraph_chain [OF d])
  then have "template_made (tpl_request (cnr_SagaID r) DeploymentCanaryKind (tpl_target ''service'' (cnr_Service r)) (cnr_Actor r) (cnr_TraceID r)
      RiskMedium Compensatable (''canary deploy '' @ cnr_Service r @ '' release '' @ cnr_ReleaseID r) (cnr_CreatedAt r) params nodes edges)"
    using c s by (intro tpl_request_made) (simp_all add: made_simps)
  then show ?thesis by (simp add: cr Let_def template_made_def)
qed

section \<open>The properties\<close>

definition template_saga :: "gotime \<Rightarrow> (string \<Rightarrow> int result) \<Rightarrow> (string \<Rightarrow> string) \<Rightarrow> CreateRequest \<Rightarrow> bool" where
  "template_saga wall pd ul cr \<longleftrightarrow>
     (\<exists>req. DeploymentRollback wall req = Inr cr) \<or> (\<exists>req. DeploymentCanary wall pd req = Inr cr) \<or>
     (\<exists>req. DatabaseBackup wall req = Inr cr) \<or> (\<exists>req. DatabaseRestore wall ul req = Inr cr) \<or>
     (\<exists>req. CertificateRotation wall pd ul req = Inr cr) \<or> (\<exists>req. KeyRotation wall pd ul req = Inr cr) \<or>
     (\<exists>req. SecretRotation wall pd ul req = Inr cr) \<or> (\<exists>req. RegionalFailover wall pd req = Inr cr) \<or>
     (\<exists>req. StatefulBackup wall pd req = Inr cr) \<or> (\<exists>req. StatefulRestore wall req = Inr cr) \<or>
     (\<exists>req. StatefulReplaceMember wall req = Inr cr) \<or> (\<exists>req. StatefulOrderedUpdate wall req = Inr cr) \<or>
     (\<exists>req. TrafficCutover wall req = Inr cr)"

lemma template_saga_made: "template_saga wall pd ul cr \<Longrightarrow> template_made cr"
  unfolding template_saga_def
  by (elim disjE exE) (erule rollback_made canary_made backup_made restore_made cert_made key_made secret_made failover_made
      stateful_backup_made stateful_restore_made replace_made ordered_update_made cutover_made)+

lemma made_order: "template_made cr \<Longrightarrow> TopologicalOrder (creq_Graph cr) = Inr (sg_Nodes (creq_Graph cr))"
  by (auto simp: template_made_def sound_chain_def chain_ids_def node_ids_def intro: chain_TopologicalOrder)

lemma made_validGraph: "template_made cr \<Longrightarrow> validateGraph (creq_Graph cr) = Inr () \<longleftrightarrow> is_id (si_SagaID (creq_Intent cr))"
  using chain_validateGraph [of "creq_Graph cr"] by (auto simp: template_made_def sound_chain_def chain_ids_def node_ids_def)

lemma made_validControl: "template_made cr \<Longrightarrow> validateControl (creq_Control cr) = Inr () \<longleftrightarrow> is_id (si_SagaID (creq_Intent cr))"
  by (auto simp: template_made_def validateControl_iff zero_SagaControl_def)

lemma made_validIntent:
  "template_made cr \<Longrightarrow> validateIntent (creq_Intent cr) = Inr () \<longleftrightarrow> is_id (si_SagaID (creq_Intent cr)) \<and>
     TrimSpace (act_ID (si_Actor (creq_Intent cr))) \<noteq> [] \<and> TrimSpace (act_Type (si_Actor (creq_Intent cr))) \<noteq> [] \<and>
     TrimSpace (si_TraceID (creq_Intent cr)) \<noteq> []"
  by (auto simp: template_made_def validateIntent_def if_Inl_Inr_iff rbind_Inr_iff validateID_iff validateRisk_iff validateReversibility_iff)

lemma made_ids: "template_made cr \<Longrightarrow> sg_SagaID (creq_Graph cr) = si_SagaID (creq_Intent cr) \<and> sct_SagaID (creq_Control cr) = si_SagaID (creq_Intent cr)"
  by (auto simp: template_made_def)

text \<open>
  C28: what a template builds, the store accepts and the executor can order. For each of the thirteen templates and every request it
  accepts (any list of stages, gates, members or consumers), the saga store's validation rejects the result only for its saga id, a blank
  actor or a blank trace; and the graph has exactly one topological order, the order in which the template lists its nodes.
\<close>

theorem template_sagas_valid:
  assumes "template_saga wall pd ul cr"
  shows "(validateCreateRequest (creq_Intent cr) (creq_Graph cr) (creq_Control cr) = Inr () \<longleftrightarrow>
      is_id (si_SagaID (creq_Intent cr)) \<and> TrimSpace (act_ID (si_Actor (creq_Intent cr))) \<noteq> [] \<and>
      TrimSpace (act_Type (si_Actor (creq_Intent cr))) \<noteq> [] \<and> TrimSpace (si_TraceID (creq_Intent cr)) \<noteq> []) \<and>
    TopologicalOrder (creq_Graph cr) = Inr (sg_Nodes (creq_Graph cr))"
proof -
  note m = template_saga_made [OF assms]
  show ?thesis using made_ids [OF m] made_validIntent [OF m] made_validGraph [OF m] made_validControl [OF m] made_order [OF m]
    by (auto simp: validateCreateRequest_def rbind_Inr_iff if_Inl_Inr_iff)
qed

text \<open>A request to move two members of a group to a release.\<close>

definition db_update :: StatefulOrderedUpdateRequest where
  "db_update = \<lparr>sou_SagaID = ''s1'', sou_OperationID = ''op1'', sou_Group = '' db'', sou_Env = ''prod'', sou_ReleaseID = ''r2'',
     sou_ReleaseManifestKey = [], sou_RuntimeManifestKey = [], sou_Members = [1, 0], sou_Member = 0, sou_MaxUnavailable = 0, sou_Recipe = [],
     sou_TraceID = ''t1'', sou_Actor = \<lparr>act_ID = ''u'', act_Type = []\<rparr>, sou_CreatedAt = 1000\<rparr>"

lemma TrimSpace_db: "TrimSpace '' db'' = ''db''"
  by code_simp

lemma db_update_saga:
  "\<exists>cr. StatefulOrderedUpdate wall db_update = Inr cr \<and> si_SagaID (creq_Intent cr) = ''s1'' \<and>
     si_Actor (creq_Intent cr) = \<lparr>act_ID = ''u'', act_Type = ''user''\<rparr> \<and> si_TraceID (creq_Intent cr) = ''t1'' \<and>
     map sn_ID (sg_Nodes (creq_Graph cr)) = [''plan-ordered-members'', ''update-member-0'', ''update-member-1'', ''mark-group-complete'']"
proof -
  have s: "show_int 0 = ''0''" "show_int 1 = ''1''" by code_simp+
  show ?thesis
    by (simp add: StatefulOrderedUpdate_def NormalizeStatefulOrderedUpdateRequest_def validateStatefulOrderedUpdateRequest_def db_update_def
        statefulOrderedUpdateGraph_def then_node_def tpl_created_def tpl_trace_def tpl_operation_def tpl_saga_def or_else_def tpl_actor_def
        TrimSpace_db TrimSpace_printable printable_def tpl_request_def zero_SagaIntent_def zero_SagaGraph_def Let_def s)
qed

theorem template_sagas_valid_witness:
  "\<exists>cr. StatefulOrderedUpdate 0 db_update = Inr cr \<and>
     validateCreateRequest (creq_Intent cr) (creq_Graph cr) (creq_Control cr) = Inr () \<and>
     map_sum id (map sn_ID) (TopologicalOrder (creq_Graph cr)) =
       Inr [''plan-ordered-members'', ''update-member-0'', ''update-member-1'', ''mark-group-complete'']"
proof -
  obtain cr where cr: "StatefulOrderedUpdate 0 db_update = Inr cr" "si_SagaID (creq_Intent cr) = ''s1''"
    "si_Actor (creq_Intent cr) = \<lparr>act_ID = ''u'', act_Type = ''user''\<rparr>" "si_TraceID (creq_Intent cr) = ''t1''"
    "map sn_ID (sg_Nodes (creq_Graph cr)) = [''plan-ordered-members'', ''update-member-0'', ''update-member-1'', ''mark-group-complete'']"
    using db_update_saga [of 0] by (elim exE conjE) (rule that)
  have "template_saga 0 (\<lambda>_. Inr 0) id cr" unfolding template_saga_def using cr(1) by blast
  from template_sagas_valid [OF this] cr show ?thesis
    by (intro exI [of _ cr]) (simp add: is_id_def isIDChar_def printable_kind printable_def)
qed

end
