(* ===== verification/Template_Runs.thy ===== *)
theory Template_Runs
  imports Template_Sagas
begin

text \<open>
  A saga from its template to its end: \<^verbatim>\<open>Create\<close> stores the documents a template built and \<^verbatim>\<open>Execute\<close> runs them to success.
\<close>

section \<open>Creating a saga alone\<close>

text \<open>Documents that validate, that normalization leaves alone and that are read back as they are written.\<close>

definition storable :: "CreateRequest \<Rightarrow> bool" where
  "storable cr \<longleftrightarrow>
     (\<forall>now. normalizeIntent (creq_Intent cr) now = creq_Intent cr \<and>
        normalizeGraph (creq_Graph cr) (si_SagaID (creq_Intent cr)) now = creq_Graph cr \<and>
        normalizeControl (creq_Control cr) (si_SagaID (creq_Intent cr)) now = creq_Control cr) \<and>
     validateCreateRequest (creq_Intent cr) (creq_Graph cr) (creq_Control cr) = Inr () \<and>
     wf_SagaIntent (creq_Intent cr) \<and> wf_SagaGraph (creq_Graph cr) \<and> wf_SagaControl (creq_Control cr) \<and>
     sct_UpdatedAt (creq_Control cr) \<noteq> []"

abbreviation saga_intent_key :: "string \<Rightarrow> string" where
  "saga_intent_key sagaID \<equiv> ''sagas/'' @ sagaID @ ''/intent.json''"

abbreviation saga_graph_key :: "string \<Rightarrow> string" where
  "saga_graph_key sagaID \<equiv> ''sagas/'' @ sagaID @ ''/graph.json''"

lemma storable_valid:
  assumes "storable cr"
  shows "validateIntent (creq_Intent cr) = Inr ()" "validateGraph (creq_Graph cr) = Inr ()" "validateControl (creq_Control cr) = Inr ()"
    "sg_SagaID (creq_Graph cr) = si_SagaID (creq_Intent cr)" "sct_SagaID (creq_Control cr) = si_SagaID (creq_Intent cr)"
    "is_id (si_SagaID (creq_Intent cr))"
    "raws_ok_SagaIntent (creq_Intent cr)" "raws_ok_SagaGraph (creq_Graph cr)" "raws_ok_SagaControl (creq_Control cr)"
proof -
  show v: "validateIntent (creq_Intent cr) = Inr ()" "validateGraph (creq_Graph cr) = Inr ()" "validateControl (creq_Control cr) = Inr ()"
    "sg_SagaID (creq_Graph cr) = si_SagaID (creq_Intent cr)" "sct_SagaID (creq_Control cr) = si_SagaID (creq_Intent cr)"
    using assms by (auto simp: storable_def validateCreateRequest_def rbind_Inr_iff if_Inl_Inr_iff)
  show "is_id (si_SagaID (creq_Intent cr))" using v(3,5) by (simp add: validateControl_iff)
  show "raws_ok_SagaControl (creq_Control cr)" using valid_control_wf(1) [OF v(3)] .
  show "raws_ok_SagaIntent (creq_Intent cr)" using assms by (simp add: storable_def wf_SagaIntent_def raws_ok_SagaIntent_def)
  show "raws_ok_SagaGraph (creq_Graph cr)" using assms
    by (auto simp: storable_def wf_SagaGraph_def raws_ok_SagaGraph_def list_all_iff wf_SagaNode_def raws_ok_SagaNode_def
        wf_CompensationSpec_def raws_ok_CompensationSpec_def pred_option_def)
qed

lemma alone_CreateIntent:
  assumes "sys_env s = []" "storable cr" "sys_objs s (saga_intent_key (si_SagaID (creq_Intent cr))) = None"
  shows "\<exists>d t e. CreateIntent sys_world (creq_Intent cr) s = (Inr d, t) \<and> sys_env t = [] \<and> sys_now t = sys_now s \<and>
    sys_events t = sys_events s \<and> sys_tokens t = sys_tokens s \<and>
    sys_objs t = (sys_objs s)(saga_intent_key (si_SagaID (creq_Intent cr)) \<mapsto> (e, JsonBody (enc_SagaIntent (creq_Intent cr))))"
proof -
  have n: "normalizeIntent (creq_Intent cr) now = creq_Intent cr" for now using assms(2) by (simp add: storable_def)
  obtain m t where "os_Create sys_world (saga_intent_key (si_SagaID (creq_Intent cr))) (JsonBody (enc_SagaIntent (creq_Intent cr)))
      (saga_putOptions ''saga_intent'' (si_SagaID (creq_Intent cr))) s = (Inr m, t)"
    "sys_env t = []" "sys_now t = sys_now s" "sys_events t = sys_events s" "sys_tokens t = sys_tokens s"
    "sys_objs t = (sys_objs s)(saga_intent_key (si_SagaID (creq_Intent cr)) \<mapsto> (om_ETag m, JsonBody (enc_SagaIntent (creq_Intent cr))))"
    using alone_Create [OF assms(1,3)] by blast
  then show ?thesis using assms(1) storable_valid [OF assms(2)] n
    by (simp add: CreateIntent_def io_bind_def canonical_Marshal_def Let_def io_ret_def paths_SagaIntent_def validateID_iff [THEN iffD2]) blast
qed

lemma alone_CreateGraph:
  assumes "sys_env s = []" "storable cr" "sys_objs s (saga_graph_key (si_SagaID (creq_Intent cr))) = None"
  shows "\<exists>d t e. CreateGraph sys_world (creq_Graph cr) s = (Inr d, t) \<and> sys_env t = [] \<and> sys_now t = sys_now s \<and>
    sys_events t = sys_events s \<and> sys_tokens t = sys_tokens s \<and>
    sys_objs t = (sys_objs s)(saga_graph_key (si_SagaID (creq_Intent cr)) \<mapsto> (e, JsonBody (enc_SagaGraph (creq_Graph cr))))"
proof -
  have n: "normalizeGraph (creq_Graph cr) (si_SagaID (creq_Intent cr)) now = creq_Graph cr" for now using assms(2) by (simp add: storable_def)
  obtain m t where "os_Create sys_world (saga_graph_key (si_SagaID (creq_Intent cr))) (JsonBody (enc_SagaGraph (creq_Graph cr)))
      (saga_putOptions ''saga_graph'' (si_SagaID (creq_Intent cr))) s = (Inr m, t)"
    "sys_env t = []" "sys_now t = sys_now s" "sys_events t = sys_events s" "sys_tokens t = sys_tokens s"
    "sys_objs t = (sys_objs s)(saga_graph_key (si_SagaID (creq_Intent cr)) \<mapsto> (om_ETag m, JsonBody (enc_SagaGraph (creq_Graph cr))))"
    using alone_Create [OF assms(1,3)] by blast
  then show ?thesis using assms(1) storable_valid [OF assms(2)] n
    by (simp add: CreateGraph_def io_bind_def canonical_Marshal_def Let_def io_ret_def paths_SagaGraph_def validateID_iff [THEN iffD2]) blast
qed

text \<open>The control document as \<^verbatim>\<open>CreateControl\<close> returns it.\<close>

definition control_document :: "string \<Rightarrow> string \<Rightarrow> ObjectMeta \<Rightarrow> SagaControl \<Rightarrow> ControlDocument" where
  "control_document sagaID e m c = \<lparr>cdoc_Key = saga_key sagaID, cdoc_ETag = e, cdoc_Meta = m, cdoc_Control = c\<rparr>"

lemma alone_CreateControl:
  assumes "sys_env s = []" "storable cr" "sys_objs s (saga_key (si_SagaID (creq_Intent cr))) = None"
  shows "\<exists>d t e. CreateControl sys_world (creq_Control cr) s = (Inr d, t) \<and> sys_env t = [] \<and> sys_now t = sys_now s \<and>
    sys_events t = sys_events s \<and> sys_tokens t = sys_tokens s \<and> d = control_document (si_SagaID (creq_Intent cr)) e (cdoc_Meta d) (creq_Control cr) \<and>
    sys_objs t = (sys_objs s)(saga_key (si_SagaID (creq_Intent cr)) \<mapsto> (e, JsonBody (enc_SagaControl (creq_Control cr))))"
proof -
  have n: "normalizeControl (creq_Control cr) (si_SagaID (creq_Intent cr)) now = creq_Control cr" for now using assms(2) by (simp add: storable_def)
  obtain m t where "os_Create sys_world (saga_key (si_SagaID (creq_Intent cr))) (JsonBody (enc_SagaControl (creq_Control cr)))
      (saga_putOptions ''saga_control'' (si_SagaID (creq_Intent cr))) s = (Inr m, t)"
    "sys_env t = []" "sys_now t = sys_now s" "sys_events t = sys_events s" "sys_tokens t = sys_tokens s"
    "sys_objs t = (sys_objs s)(saga_key (si_SagaID (creq_Intent cr)) \<mapsto> (om_ETag m, JsonBody (enc_SagaControl (creq_Control cr))))"
    using alone_Create [OF assms(1,3)] by blast
  then show ?thesis using assms(1) storable_valid [OF assms(2)] n
    by (simp add: CreateControl_def io_bind_def canonical_Marshal_def Let_def io_ret_def paths_SagaControl_def saga_key_def
        validateID_iff [THEN iffD2] control_document_def)
qed

text \<open>Nothing is stored yet under the prefix of the saga.\<close>

definition unused :: "string \<Rightarrow> sys \<Rightarrow> bool" where
  "unused sagaID s \<longleftrightarrow> (\<forall>k. sys_objs s (''sagas/'' @ sagaID @ ''/'' @ k) = None)"

lemma unusedD: "unused sagaID s \<Longrightarrow> sys_objs s (''sagas/'' @ sagaID @ CHR ''/'' # k) = None"
  by (simp add: unused_def)

lemma alone_saga_Create:
  assumes "sys_env s = []" "storable cr" "unused (si_SagaID (creq_Intent cr)) s"
  shows "\<exists>docs t e1 e2 e3. saga_Create sys_world cr s = (Inr docs, t) \<and> sys_env t = [] \<and> sys_now t = sys_now s \<and> sys_events t = sys_events s \<and>
    sys_tokens t = sys_tokens s \<and>
    docs_Control docs = control_document (si_SagaID (creq_Intent cr)) e3 (cdoc_Meta (docs_Control docs)) (creq_Control cr) \<and>
    sys_objs t = (sys_objs s)(saga_intent_key (si_SagaID (creq_Intent cr)) \<mapsto> (e1, JsonBody (enc_SagaIntent (creq_Intent cr))),
      saga_graph_key (si_SagaID (creq_Intent cr)) \<mapsto> (e2, JsonBody (enc_SagaGraph (creq_Graph cr))),
      saga_key (si_SagaID (creq_Intent cr)) \<mapsto> (e3, JsonBody (enc_SagaControl (creq_Control cr))))"
proof -
  let ?i = "si_SagaID (creq_Intent cr)"
  have n: "normalizeIntent (creq_Intent cr) now = creq_Intent cr" "normalizeGraph (creq_Graph cr) ?i now = creq_Graph cr"
    "normalizeControl (creq_Control cr) ?i now = creq_Control cr" for now using assms(2) by (simp_all add: storable_def)
  have v: "validateCreateRequest (creq_Intent cr) (creq_Graph cr) (creq_Control cr) = Inr ()" using assms(2) by (simp add: storable_def)
  note u = unusedD [OF assms(3)]
  have "sys_objs s (saga_intent_key ?i) = None" using u by simp
  from alone_CreateIntent [OF assms(1,2) this] obtain d1 t1 e1 where
    c1: "CreateIntent sys_world (creq_Intent cr) s = (Inr d1, t1)" "sys_env t1 = []" "sys_now t1 = sys_now s" "sys_events t1 = sys_events s"
    "sys_tokens t1 = sys_tokens s"
    "sys_objs t1 = (sys_objs s)(saga_intent_key ?i \<mapsto> (e1, JsonBody (enc_SagaIntent (creq_Intent cr))))" by blast
  have "sys_objs t1 (saga_graph_key ?i) = None" using u by (simp add: c1(6))
  from alone_CreateGraph [OF c1(2) assms(2) this] obtain d2 t2 e2 where
    c2: "CreateGraph sys_world (creq_Graph cr) t1 = (Inr d2, t2)" "sys_env t2 = []" "sys_now t2 = sys_now t1" "sys_events t2 = sys_events t1"
    "sys_tokens t2 = sys_tokens t1"
    "sys_objs t2 = (sys_objs t1)(saga_graph_key ?i \<mapsto> (e2, JsonBody (enc_SagaGraph (creq_Graph cr))))" by blast
  have "sys_objs t2 (saga_key ?i) = None" using u by (simp add: c1(6) c2(6) saga_key_def)
  from alone_CreateControl [OF c2(2) assms(2) this] obtain d3 t3 e3 where
    c3: "CreateControl sys_world (creq_Control cr) t2 = (Inr d3, t3)" "sys_env t3 = []" "sys_now t3 = sys_now t2" "sys_events t3 = sys_events t2"
    "sys_tokens t3 = sys_tokens t2" "d3 = control_document ?i e3 (cdoc_Meta d3) (creq_Control cr)"
    "sys_objs t3 = (sys_objs t2)(saga_key ?i \<mapsto> (e3, JsonBody (enc_SagaControl (creq_Control cr))))" by blast
  have "saga_Create sys_world cr s = (Inr \<lparr>docs_Intent = d1, docs_Graph = d2, docs_Control = d3\<rparr>, t3)"
    using assms(1) n v c1(1) c2(1) c3(1) by (simp add: saga_Create_def io_bind_def io_ret_def Let_def)
  then show ?thesis using c1 c2 c3
    by (intro exI [of _ "\<lparr>docs_Intent = d1, docs_Graph = d2, docs_Control = d3\<rparr>"] exI [of _ t3] exI [of _ e1] exI [of _ e2] exI [of _ e3]) simp
qed

section \<open>From creation to success\<close>

text \<open>
  What the run needs besides the documents: steps that are registered and succeed at once, each call within \<open>d\<close>, all of
  them within one lease duration, fresh event ids, and a clock that can hold the lease.
\<close>

definition able :: "int \<Rightarrow> sys Executor \<Rightarrow> SagaGraph \<Rightarrow> sys \<Rightarrow> bool" where
  "able d ex graph s \<longleftrightarrow> 0 \<le> d \<and> int (length (sg_Nodes graph)) * (2 * d) < lease_duration ex \<and>
     well_behaved d (sg_SagaID graph) ex graph \<and> distinct (sys_events s) \<and> (\<forall>e \<in> set (sys_events s). is_id e) \<and>
     length (sg_Nodes graph) \<le> length (sys_events s) \<and> time_ok (sys_now s + lease_duration ex)"

lemma created_saga_runs:
  assumes "sys_env s = []" "storable cr" "unused (si_SagaID (creq_Intent cr)) s" "able d ex (creq_Graph cr) s"
    "sct_Status (creq_Control cr) = SagaPending" "sct_Lease (creq_Control cr) = None" "sct_StepResults (creq_Control cr) = []"
    "TopologicalOrder (creq_Graph cr) = Inr ordered"
  shows "\<exists>docs t res u. saga_Create sys_world cr s = (Inr docs, t) \<and> Execute sys_world ex (si_SagaID (creq_Intent cr)) t = (Inr res, u) \<and>
    er_Status res = SagaSucceeded \<and> er_Completed res = sort (node_ids (creq_Graph cr))"
proof -
  let ?i = "si_SagaID (creq_Intent cr)"
  obtain docs t e1 e2 e3 where c: "saga_Create sys_world cr s = (Inr docs, t)" "sys_env t = []" "sys_now t = sys_now s"
    "sys_events t = sys_events s"
    "sys_objs t = (sys_objs s)(saga_intent_key ?i \<mapsto> (e1, JsonBody (enc_SagaIntent (creq_Intent cr))),
      saga_graph_key ?i \<mapsto> (e2, JsonBody (enc_SagaGraph (creq_Graph cr))), saga_key ?i \<mapsto> (e3, JsonBody (enc_SagaControl (creq_Control cr))))"
    using alone_saga_Create [OF assms(1-3)] by blast
  note v = storable_valid [OF assms(2)]
  have wf: "wf_SagaIntent (creq_Intent cr)" "wf_SagaGraph (creq_Graph cr)" "wf_SagaControl (creq_Control cr)"
    "sct_UpdatedAt (creq_Control cr) \<noteq> []" using assms(2) by (simp_all add: storable_def)
  have o: "sys_objs t (saga_intent_key ?i) = Some (e1, JsonBody (enc_SagaIntent (creq_Intent cr)))"
    "sys_objs t (saga_graph_key ?i) = Some (e2, JsonBody (enc_SagaGraph (creq_Graph cr)))"
    "sys_objs t (saga_key ?i) = Some (e3, JsonBody (enc_SagaControl (creq_Control cr)))"
    by (simp_all add: c(5) saga_key_def)
  have "saga_at (sys_objs t) ?i = Some (e3, creq_Control cr)" by (simp add: view_at_Some saga_view_Some o(3) codec_SagaControl [OF wf(3)])
  then have st: "stored_saga t ?i (creq_Intent cr) (creq_Graph cr) (creq_Control cr)"
    using v(1-6) wf o(1,2) by (simp add: stored_saga_def)
  have fresh: "sys_objs t (event_key ?i e) = None" "sys_objs t (result_key ?i e) = None" for e
    using unusedD [OF assms(3)] by (simp_all add: c(5) event_key_def result_key_def saga_key_def)
  have "completedResults (creq_Control cr) = []" using assms(7) by (simp add: completedResults_def)
  then have "can_finish d ex ?i (creq_Graph cr) (creq_Control cr) t"
    using assms(4-6,8) fresh by (simp add: can_finish_def able_def events_fresh_def c(3,4) sagaLeaseActive_def v(4))
  from alone_execute [OF c(2) st this] show ?thesis using c(1) by blast
qed

lemma made_storable:
  assumes "template_made cr" "validateCreateRequest (creq_Intent cr) (creq_Graph cr) (creq_Control cr) = Inr ()"
  shows "storable cr"
proof -
  let ?i = "si_SagaID (creq_Intent cr)"
  have id: "?i \<noteq> []" using assms(2)
    by (auto simp: validateCreateRequest_def validateIntent_def rbind_Inr_iff if_Inl_Inr_iff validateID_iff is_id_def)
  obtain created where c: "creq_Control cr = zero_SagaControl\<lparr>sct_SchemaVersion := schema_Version, sct_SagaID := ?i,
      sct_Status := SagaPending, sct_UpdatedAt := canonical_Time created, sct_TraceID := si_TraceID (creq_Intent cr)\<rparr>"
    "si_CreatedAt (creq_Intent cr) = canonical_Time created" "sg_CreatedAt (creq_Graph cr) = canonical_Time created"
    using assms(1) unfolding template_made_def by (elim conjE exE) (rule that)
  have m: "si_SchemaVersion (creq_Intent cr) = schema_Version" "sg_SchemaVersion (creq_Graph cr) = schema_Version"
    "sg_SagaID (creq_Graph cr) = ?i" "raw_valid (si_Params (creq_Intent cr))" using assms(1) by (simp_all add: template_made_def)
  have sv: "schema_Version \<noteq> []" "SagaPending \<noteq> []" by (simp_all add: schema_Version_def SagaPending_def)
  have n: "normalizeIntent (creq_Intent cr) now = creq_Intent cr" "normalizeGraph (creq_Graph cr) ?i now = creq_Graph cr"
    "normalizeControl (creq_Control cr) ?i now = creq_Control cr" for now
    using m c(2,3) id sv by (simp_all add: normalizeIntent_def normalizeGraph_def normalizeControl_def c(1) Let_def)
  have wf: "wf_SagaGraph (creq_Graph cr)"
    using assms(1) by (auto simp: template_made_def sound_chain_def chain_valid_def good_node_def wf_SagaGraph_def list_all_iff)
  have "wf_SagaControl (creq_Control cr)" "sct_UpdatedAt (creq_Control cr) \<noteq> []"
    by (simp_all add: c(1) wf_SagaControl_def zero_SagaControl_def)
  then show ?thesis using n wf assms(2) m(4) by (simp add: storable_def wf_SagaIntent_def)
qed

text \<open>
  C8: from a template to success. No other client interferes, a template built the saga, the store's validation accepts it, and its id is
  unused. The executor is able to run it: every node has a registered step that accepts its parameters and succeeds at the first
  attempt, taking at most \<open>d\<close> per call and leaving the documents of the saga alone; two calls per node fit into one lease
  duration; event ids are fresh and enough. Then the saga is created, and the executor runs it to the end: \<^verbatim>\<open>Create\<close> and \<^verbatim>\<open>Execute\<close> return
  without error, \<^verbatim>\<open>Execute\<close> reports success and every node of the template as completed.
\<close>

theorem template_saga_runs:
  assumes "template_saga wall pd ul cr" "validateCreateRequest (creq_Intent cr) (creq_Graph cr) (creq_Control cr) = Inr ()"
    and "sys_env s = []" "unused (si_SagaID (creq_Intent cr)) s" "able d ex (creq_Graph cr) s"
  shows "\<exists>docs t res u. saga_Create sys_world cr s = (Inr docs, t) \<and> Execute sys_world ex (si_SagaID (creq_Intent cr)) t = (Inr res, u) \<and>
    er_Status res = SagaSucceeded \<and> er_Completed res = sort (node_ids (creq_Graph cr))"
proof -
  note m = template_saga_made [OF assms(1)]
  have "sct_Status (creq_Control cr) = SagaPending" "sct_Lease (creq_Control cr) = None" "sct_StepResults (creq_Control cr) = []"
    using m by (auto simp: template_made_def zero_SagaControl_def)
  from created_saga_runs [OF assms(3) made_storable [OF m assms(2)] assms(4,5) this made_order [OF m]] show ?thesis .
qed

definition db_sys :: sys where
  "db_sys = \<lparr>sys_store = memory_New, sys_now = 1000, sys_tokens = [], sys_events = [''e1'', ''e2'', ''e3'', ''e4''], sys_env = [], sys_history = []\<rparr>"

theorem template_saga_runs_witness:
  "\<exists>cr docs t res u. StatefulOrderedUpdate 0 db_update = Inr cr \<and> saga_Create sys_world cr db_sys = (Inr docs, t) \<and>
     Execute sys_world ok_executor ''s1'' t = (Inr res, u) \<and> er_Status res = SagaSucceeded \<and>
     er_Completed res = [''mark-group-complete'', ''plan-ordered-members'', ''update-member-0'', ''update-member-1'']"
proof -
  obtain cr where cr: "StatefulOrderedUpdate 0 db_update = Inr cr" "si_SagaID (creq_Intent cr) = ''s1''"
    "si_Actor (creq_Intent cr) = \<lparr>act_ID = ''u'', act_Type = ''user''\<rparr>" "si_TraceID (creq_Intent cr) = ''t1''"
    "map sn_ID (sg_Nodes (creq_Graph cr)) = [''plan-ordered-members'', ''update-member-0'', ''update-member-1'', ''mark-group-complete'']"
    using db_update_saga [of 0] by (elim exE conjE) (rule that)
  have tpl: "template_saga 0 (\<lambda>_. Inr 0) id cr" unfolding template_saga_def using cr(1) by blast
  note m = template_saga_made [OF tpl]
  have ok: "validateCreateRequest (creq_Intent cr) (creq_Graph cr) (creq_Control cr) = Inr ()"
    using made_ids [OF m] made_validIntent [OF m] made_validGraph [OF m] made_validControl [OF m] cr(2-4)
    by (simp add: validateCreateRequest_def is_id_def isIDChar_def printable_kind printable_def)
  have un: "unused (si_SagaID (creq_Intent cr)) db_sys" by (simp add: unused_def db_sys_def sys_objs_def memory_objs_def memory_New_def)
  have len: "length (sg_Nodes (creq_Graph cr)) = 4" using arg_cong [OF cr(5), of length] by simp
  have "lease_duration ok_executor = 30000000000" by (simp add: lease_duration_def ok_executor_def)
  then have ab: "able 1000000000 ok_executor (creq_Graph cr) db_sys"
    by (simp add: able_def ok_well_behaved db_sys_def len is_id_def isIDChar_def time_ok_int64 in_int64_def)
  have "sys_env db_sys = []" by (simp add: db_sys_def)
  moreover have "sort (node_ids (creq_Graph cr)) = [''mark-group-complete'', ''plan-ordered-members'', ''update-member-0'', ''update-member-1'']"
    unfolding node_ids_def cr(5) by code_simp
  ultimately show ?thesis using template_saga_runs [OF tpl ok _ un ab] cr(1,2) by (simp only: simp_thms) metis
qed

end
