(* ===== verification/Rollback_Outcome.thy ===== *)
theory Rollback_Outcome
  imports Rollback Deploy_Outcome Template_Runs
begin

text \<open>
  What a rollback achieves. For a client alone, with a provider whose rollouts succeed, a rollback moves the service to the target
  release and records it in the operation and in the saga of the template.
\<close>

section \<open>Lease tokens\<close>

text \<open>No operation adds tokens to those that the client can draw.\<close>

definition thrifty :: "(sys, 'a) io \<Rightarrow> bool" where
  "thrifty m \<longleftrightarrow> (\<forall>s r t. m s = (r, t) \<longrightarrow> set (sys_tokens t) \<subseteq> set (sys_tokens s))"

lemma thriftyD: "thrifty m \<Longrightarrow> m s = (r, t) \<Longrightarrow> set (sys_tokens t) \<subseteq> set (sys_tokens s)"
  by (simp add: thrifty_def)

lemma thrifty_bind [intro!]:
  assumes "thrifty m" "\<And>x. thrifty (f x)"
  shows "thrifty (io_bind m f)"
  unfolding thrifty_def
proof (intro allI impI)
  fix s r t
  assume run: "io_bind m f s = (r, t)"
  obtain r1 u where u: "m s = (r1, u)" by fastforce
  show "set (sys_tokens t) \<subseteq> set (sys_tokens s)"
  proof (cases r1)
    case (Inl e)
    then show ?thesis using run u thriftyD [OF assms(1) u] by (simp add: io_bind_def)
  next
    case (Inr x)
    then have "f x u = (r, t)" using run u by (simp add: io_bind_def)
    from thriftyD [OF assms(2) this] thriftyD [OF assms(1) u] show ?thesis by blast
  qed
qed

lemma env_tick_tokens: "env_tick s = (c, t) \<Longrightarrow> sys_tokens t = sys_tokens s"
  by (auto simp: env_tick_def split: list.splits)

lemma thrifty_on_store [simp]: "thrifty (on_store f)"
  by (auto simp: thrifty_def on_store_def dest: env_tick_tokens split: prod.splits)

lemma thrifty_on_write [simp]: "thrifty (on_write k b f)"
  by (auto simp: thrifty_def on_write_def on_store_def dest: env_tick_tokens split: prod.splits)

lemma thrifty_simps [simp]:
  "thrifty (io_ret x)" "thrifty (io_fail err)" "thrifty (io_lift r)"
  by (simp_all add: thrifty_def io_ret_def io_fail_def io_lift_def)

lemma thrifty_world [simp]:
  "thrifty (os_Get sys_world k)" "thrifty (os_Create sys_world k b p)" "thrifty (os_CompareAndSwap sys_world k e b p)"
  by (simp_all add: sys_world_def)

lemma thrifty_clock [simp]:
  "thrifty (io_now sys_world)" "thrifty (io_token sys_world)" "thrifty (io_ctx sys_world)" "thrifty (io_sleep sys_world d)"
  by (auto simp: thrifty_def io_now_def io_token_def io_ctx_def io_sleep_def sys_world_def sys_take_def
      dest: env_tick_tokens split: prod.splits option.splits list.splits)

lemma thrifty_try [intro!]: "thrifty m \<Longrightarrow> thrifty (io_try m)"
  by (auto simp: thrifty_def io_try_def split: prod.splits)

lemma thrifty_cases [intro!]:
  "(b \<Longrightarrow> thrifty m) \<Longrightarrow> (\<not> b \<Longrightarrow> thrifty m') \<Longrightarrow> thrifty (if b then m else m')"
  "(\<And>e. thrifty (f e)) \<Longrightarrow> (\<And>x. thrifty (g x)) \<Longrightarrow> thrifty (case r of Inl e \<Rightarrow> f e | Inr x \<Rightarrow> g x)"
  "thrifty m \<Longrightarrow> (\<And>x. thrifty (h x)) \<Longrightarrow> thrifty (case q of None \<Rightarrow> m | Some x \<Rightarrow> h x)"
  "(\<And>x y. thrifty (k x y)) \<Longrightarrow> thrifty (case p of (x, y) \<Rightarrow> k x y)"
  by (simp_all split: sum.split option.split prod.split)

lemma thrifty_service [simp]: "thrifty (GetServiceControl sys_world svc)" "thrifty (UpdateServiceControlCAS sys_world cur n)"
  by (auto simp: GetServiceControl_def UpdateServiceControlCAS_def stale_to_state_def Let_def)

lemma thrifty_acquireAttempt [simp]: "thrifty (acquireAttempt sys_world svc opts tok)"
  by (auto simp: acquireAttempt_def Let_def)

lemma thrifty_acquireLoop [simp]: "thrifty (acquireLoop sys_world svc opts tok r n a e)"
  by (induction n arbitrary: a e) (auto simp: sleepBackoff_def)

lemma thrifty_leases [simp]: "thrifty (AcquireLease sys_world r svc opts)" "thrifty (UpdateServiceControlWithLeaseCAS sys_world h f)"
  by (auto simp: AcquireLease_def UpdateServiceControlWithLeaseCAS_def Let_def)

lemma thrifty_log [simp]: "thrifty (log_Append sys_world e)" "thrifty (log_AppendAudit sys_world r)"
  by (auto simp: log_Append_def log_AppendAudit_def log_create_def Let_def)

text \<open>Alone, at the same instant, with no change outside \<open>K\<close> and no new token.\<close>

definition frugal :: "(string \<Rightarrow> bool) \<Rightarrow> sys \<Rightarrow> sys \<Rightarrow> bool" where
  "frugal K s t \<longleftrightarrow> calm K s t \<and> set (sys_tokens t) \<subseteq> set (sys_tokens s)"

lemma frugal_refl: "sys_env s = [] \<Longrightarrow> sys_inv s \<Longrightarrow> frugal K s s"
  by (simp add: frugal_def calm_refl)

lemma frugal_trans: "frugal K s t \<Longrightarrow> frugal K t u \<Longrightarrow> frugal K s u"
  unfolding frugal_def using calm_trans by blast

lemma frugal_mono: "frugal K s t \<Longrightarrow> (\<And>k. K k \<Longrightarrow> L k) \<Longrightarrow> frugal L s t"
  unfolding frugal_def using calm_mono by blast

lemma frugal_alone: "frugal K s t \<Longrightarrow> sys_env t = [] \<and> sys_inv t \<and> sys_now t = sys_now s"
  by (simp add: frugal_def calm_def)

lemma frugal_objs: "frugal K s t \<Longrightarrow> \<not> K k \<Longrightarrow> sys_objs t k = sys_objs s k"
  by (simp add: frugal_def calm_def)

lemma quiet_inv: "sysw.quiet m \<Longrightarrow> sys_inv s \<Longrightarrow> m s = (r, t) \<Longrightarrow> sys_inv t"
  using sysw.quietD sysw.evolves_inv by blast

section \<open>The saga of a rollback\<close>

lemma saga_keys [simp]:
  "\<not> event_of svc x (saga_key i)" "saga_key i \<noteq> service_key svc" "service_key svc \<noteq> saga_key i" "saga_key i \<noteq> op_key svc x"
  "op_key svc x \<noteq> saga_key i" "\<not> prefix ''audit/'' (saga_key i)" "intent_key svc x \<noteq> saga_key i" "saga_key i \<noteq> intent_key svc x"
  by (auto simp: event_of_def paths_OperationEvent_def rbind_Inr_iff op_key_def service_key_def saga_key_def intent_key_def)

text \<open>The client's copy of the saga's control document is the stored one, and nobody leases the saga.\<close>

definition saga_kept :: "string \<Rightarrow> sys \<Rightarrow> ControlDocument \<Rightarrow> bool" where
  "saga_kept sagaID s d \<longleftrightarrow> cdoc_Key d = saga_key sagaID \<and>
     sys_objs s (saga_key sagaID) = Some (cdoc_ETag d, JsonBody (enc_SagaControl (cdoc_Control d))) \<and>
     validateControl (cdoc_Control d) = Inr () \<and> sct_SagaID (cdoc_Control d) = sagaID \<and> sct_Lease (cdoc_Control d) = None"

lemma saga_kept_frame: "saga_kept i s d \<Longrightarrow> sys_objs t (saga_key i) = sys_objs s (saga_key i) \<Longrightarrow> saga_kept i t d"
  by (simp add: saga_kept_def)

lemma saga_kept_at:
  assumes "saga_kept i s d"
  shows "saga_at (sys_objs s) i = Some (cdoc_ETag d, cdoc_Control d)"
proof -
  have "wf_SagaControl (cdoc_Control d)" using assms by (intro valid_control_wf(2)) (simp_all add: saga_kept_def)
  then show ?thesis using assms by (simp add: saga_kept_def view_at_Some saga_view_Some codec_SagaControl)
qed

lemma saga_step:
  assumes s: "sys_env s = []" "sys_inv s" and kept: "saga_kept i s (rv_sagaControl v)" and st: "status \<in> {SagaRunning, SagaSucceeded}"
    and ids: "\<forall>x \<in> set current. is_id x" and refs: "\<forall>r \<in> set refs. validateStepResultRef r = Inr ()"
  shows "\<exists>t d. rollback_updateSaga sys_world status current refs (s, v) = (Inr (), (t, v\<lparr>rv_sagaControl := d\<rparr>)) \<and>
    frugal (\<lambda>k. k = saga_key i) s t \<and> sys_tokens t = sys_tokens s \<and> saga_kept i t d \<and> sct_Status (cdoc_Control d) = status"
proof -
  let ?d = "rv_sagaControl v"
  let ?n = "(cdoc_Control ?d)\<lparr>sct_Status := status, sct_CurrentSteps := current, sct_StepResults := refs, sct_UpdatedAt := canonical_Time (sys_now s)\<rparr>"
  have v: "validateControl ?n = Inr ()" using kept st ids refs by (auto simp: saga_kept_def validateControl_iff)
  have "sct_SchemaVersion ?n \<noteq> []" "sct_SagaID ?n \<noteq> []" "sct_Status ?n \<noteq> []"
    using v by (auto simp: validateControl_iff saga_status_defs schema_Version_def is_id_def)
  then have norm: "?n = normalizeControl ?n (sct_SagaID (cdoc_Control ?d)) (canonical_Time (sys_now s))" by (simp add: normalizeControl_def Let_def)
  have at: "sys_objs s (cdoc_Key ?d) = Some (cdoc_ETag ?d, JsonBody (enc_SagaControl (cdoc_Control ?d)))" using kept by (simp add: saga_kept_def)
  have same: "sct_SagaID ?n = sct_SagaID (cdoc_Control ?d)" by simp
  obtain doc t where u: "UpdateControlCAS sys_world ?d ?n s = (Inr doc, t)" "cdoc_Control doc = ?n" "cdoc_Key doc = cdoc_Key ?d" "sys_env t = []"
    "sys_now t = sys_now s" "sys_tokens t = sys_tokens s" "sys_objs t = (sys_objs s)(cdoc_Key ?d \<mapsto> (cdoc_ETag doc, JsonBody (enc_SagaControl ?n)))"
    using alone_UpdateControl [OF s(1) at norm same v valid_control_wf(1) [OF v]] by blast
  have i: "sys_inv t" by (rule quiet_inv [OF sysw.quiet_saga_ops(7) s(2) u(1)])
  have "rollback_updateSaga sys_world status current refs (s, v) = (Inr (), (t, v\<lparr>rv_sagaControl := doc\<rparr>))"
    using u(1) s(1) by (simp add: rollback_updateSaga_def r_get_def r_set_def ebind_def eupdate_def ecall_def eret_def io_bind_def)
  moreover have "frugal (\<lambda>k. k = saga_key i) s t" using u(4-7) i kept by (simp add: frugal_def calm_def saga_kept_def)
  moreover have "saga_kept i t doc" using u(2,3,7) kept v by (simp add: saga_kept_def)
  ultimately show ?thesis using u(2,6) by (intro exI [of _ t] exI [of _ doc]) simp
qed

section \<open>The steps of a rollback\<close>

lemma rollback_event_key:
  "keyForEvent (log_normalizeEvent (rollbackLogEvent req ty sm fs now) w) = Inr k \<Longrightarrow> event_of (rbq_Service req) (rbq_OperationID req) k"
  using operation_event_key [of "rollbackLogEvent req ty sm fs now"] by (auto simp: rollbackLogEvent_def event_of_def)

lemma rb_event:
  assumes "sys_env s = []" "sys_inv s"
  shows "\<exists>t es. rollback_appendEvent sys_world req ty sm fs (s, v) = (Inr (), (t, v\<lparr>rv_result := (rv_result v)\<lparr>rbx_Events := es\<rparr>\<rparr>)) \<and>
    frugal (event_of (rbq_Service req) (rbq_OperationID req)) s t"
proof -
  let ?e = "rollbackLogEvent req ty sm fs (sys_now s)"
  obtain r t where l: "log_Append sys_world ?e s = (r, t)" by fastforce
  have f: "frugal (event_of (rbq_Service req) (rbq_OperationID req)) s t"
    using alone_log_Append_calm [OF assms rollback_event_key l] thriftyD [OF thrifty_log(1) l] by (simp add: frugal_def)
  have run: "rollback_appendEvent sys_world req ty sm fs (s, v) = (Inr (), (t, v\<lparr>rv_result := (rv_result v)\<lparr>rbx_Events :=
      (case r of Inl _ \<Rightarrow> rbx_Events (rv_result v) | Inr _ \<Rightarrow> rbx_Events (rv_result v) @ [?e])\<rparr>\<rparr>))"
    using l assms(1) by (cases r) (simp_all add: rollback_appendEvent_def ebind_def ecall_def io_bind_def eret_def io_ret_def r_result_def r_set_def eupdate_def)
  then show ?thesis using f by blast
qed

lemma rollback_step_run:
  "rollback_step W req st m (s, v) = (case m s of (Inr x, t) \<Rightarrow> (Inr x, (t, v)) | (Inl e, t) \<Rightarrow> rollback_fail W req e st (t, v))"
  by (simp add: rollback_step_def ebind_def ecall_def eret_def split: prod.split sum.split)

lemma stamped: "sys_env s = [] \<Longrightarrow> stampRefs sys_world fs (s, v) = (Inr (map (\<lambda>f. f (sys_now s)) fs), (s, v))"
proof (induction fs)
  case (Cons f fs)
  have "w_Now sys_world s = (sys_now s, s)" using alone_now [OF Cons.prems] by (simp add: io_now_def split: prod.splits)
  then show ?case using Cons by (simp add: ebind_def ecall_def eret_def)
qed (simp add: eret_def)

text \<open>
  Under the lease: the handle is good, the saga's document is the client's, the operation has the status \<open>st\<close>, the records of the steps are
  well-formed, nothing has failed, and the client has lease tokens.
\<close>

definition rolling :: "deploy_RollbackRequest \<Rightarrow> string \<Rightarrow> sys \<Rightarrow> rollback_vars \<Rightarrow> LeaseHandle \<Rightarrow> ServiceControl \<Rightarrow> bool" where
  "rolling req st s v h c \<longleftrightarrow> svc_held s h c \<and> lh_Service h = rbq_Service req \<and> saga_kept (rbq_SagaID req) s (rv_sagaControl v) \<and>
     is_id (rbq_OperationID req) \<and> (\<exists>e oc. op_at (sys_objs s) (rbq_Service req) (rbq_OperationID req) = Some (e, oc) \<and> oc_Status oc = st) \<and>
     (\<forall>r \<in> set (rv_baseRefs v). validateStepResultRef r = Inr ()) \<and> rbx_OK (rv_result v) \<and> (\<forall>x \<in> set (sys_tokens s). TrimSpace x \<noteq> [])"

definition alike :: "rollback_vars \<Rightarrow> rollback_vars \<Rightarrow> bool" where
  "alike v v' \<longleftrightarrow> rv_sagaControl v' = rv_sagaControl v \<and> rv_baseRefs v' = rv_baseRefs v \<and> rbx_OK (rv_result v') = rbx_OK (rv_result v)"

lemma rolling_alone: "rolling req st s v h c \<Longrightarrow> sys_env s = [] \<and> sys_inv s \<and> is_name (rbq_Service req) \<and> is_id (rbq_OperationID req)"
  using validateServiceControl_ok(2) [of c] by (auto simp: rolling_def svc_held_def)

lemma rolling_frame:
  assumes "rolling req st s v h c" "frugal K s t" "\<not> K (service_key (rbq_Service req))" "\<not> K (saga_key (rbq_SagaID req))"
    "\<not> K (op_key (rbq_Service req) (rbq_OperationID req))" "alike v v'"
  shows "rolling req st t v' h c"
proof -
  note o = frugal_objs [OF assms(2,3)] frugal_objs [OF assms(2,4)] frugal_objs [OF assms(2,5)]
  have "svc_held t h c" by (rule svc_held_frame [of s]) (use assms(1) frugal_alone [OF assms(2)] o(1) in \<open>simp_all add: rolling_def\<close>)
  moreover have "saga_kept (rbq_SagaID req) t (rv_sagaControl v')"
    using saga_kept_frame [OF _ o(2)] assms(1,6) by (simp add: rolling_def alike_def)
  moreover have "op_at (sys_objs t) (rbq_Service req) (rbq_OperationID req) = op_at (sys_objs s) (rbq_Service req) (rbq_OperationID req)"
    by (rule op_at_cong) (rule o(3))
  ultimately show ?thesis using assms(1,2,6) by (auto simp: rolling_def alike_def frugal_def)
qed

lemma rolling_event:
  assumes "rolling req st s v h c"
  shows "\<exists>t v'. rollback_appendEvent sys_world req ty sm fs (s, v) = (Inr (), (t, v')) \<and> rolling req st t v' h c \<and> alike v v'"
proof -
  obtain t es where e: "rollback_appendEvent sys_world req ty sm fs (s, v) = (Inr (), (t, v\<lparr>rv_result := (rv_result v)\<lparr>rbx_Events := es\<rparr>\<rparr>))"
    "frugal (event_of (rbq_Service req) (rbq_OperationID req)) s t" using rb_event rolling_alone [OF assms] by blast
  have a: "alike v (v\<lparr>rv_result := (rv_result v)\<lparr>rbx_Events := es\<rparr>\<rparr>)" by (simp add: alike_def)
  from rolling_frame [OF assms e(2) _ _ _ a] e(1) a show ?thesis by (intro exI [of _ t] exI [of _ "v\<lparr>rv_result := (rv_result v)\<lparr>rbx_Events := es\<rparr>\<rparr>"]) simp
qed

lemma rolling_saga:
  assumes r: "rolling req st s v h c" and st: "status \<in> {SagaRunning, SagaSucceeded}" and ids: "\<forall>x \<in> set current. is_id x"
    and refs: "\<forall>r \<in> set refs. validateStepResultRef r = Inr ()"
  shows "\<exists>t v'. rollback_updateSaga sys_world status current refs (s, v) = (Inr (), (t, v')) \<and> rolling req st t v' h c \<and>
    sct_Status (cdoc_Control (rv_sagaControl v')) = status"
proof -
  let ?i = "rbq_SagaID req"
  have k: "saga_kept ?i s (rv_sagaControl v)" using r by (simp add: rolling_def)
  obtain t d where u: "rollback_updateSaga sys_world status current refs (s, v) = (Inr (), (t, v\<lparr>rv_sagaControl := d\<rparr>))"
    "frugal (\<lambda>k. k = saga_key ?i) s t" "saga_kept ?i t d" "sct_Status (cdoc_Control d) = status"
    using saga_step [OF _ _ k st ids refs] rolling_alone [OF r] by blast
  have "svc_held t h c"
    by (rule svc_held_frame [of s]) (use r frugal_alone [OF u(2)] frugal_objs [OF u(2)] in \<open>simp_all add: rolling_def\<close>)
  moreover have "op_at (sys_objs t) (rbq_Service req) (rbq_OperationID req) = op_at (sys_objs s) (rbq_Service req) (rbq_OperationID req)"
    by (rule op_at_cong) (rule frugal_objs [OF u(2)], simp)
  ultimately have "rolling req st t (v\<lparr>rv_sagaControl := d\<rparr>) h c" using r u(2,3) by (auto simp: rolling_def frugal_def)
  then show ?thesis using u(1,4) by (intro exI [of _ t] exI [of _ "v\<lparr>rv_sagaControl := d\<rparr>"]) simp
qed

text \<open>The operation's document is written.\<close>

lemma rolling_op:
  assumes "rolling req st s v h c" "sys_env t = []" "sys_inv t" "sys_now t = sys_now s" "set (sys_tokens t) \<subseteq> set (sys_tokens s)"
    "\<forall>k. k \<noteq> op_key (rbq_Service req) (rbq_OperationID req) \<longrightarrow> sys_objs t k = sys_objs s k"
    "op_at (sys_objs t) (rbq_Service req) (rbq_OperationID req) = Some (e, oc)"
  shows "rolling req (oc_Status oc) t v h c"
proof -
  have "svc_held t h c" by (rule svc_held_frame [of s]) (use assms in \<open>simp_all add: rolling_def\<close>)
  moreover have "saga_kept (rbq_SagaID req) t (rv_sagaControl v)" by (rule saga_kept_frame [of _ s]) (use assms in \<open>simp_all add: rolling_def\<close>)
  ultimately show ?thesis using assms by (auto simp: rolling_def)
qed

lemma quiet_operation [simp]:
  "sysw.quiet (getOperationControl sys_world svc x)" "sysw.quiet (putOperationControlCAS sys_world svc x e oc)"
  "sysw.quiet (setOperationStatus sys_world svc x st)"
  by (auto simp: getOperationControl_def putOperationControlCAS_def setOperationStatus_def)

lemma quiet_appendProvider [simp]: "sysw.quiet (appendProviderOperation sys_world svc x ref)"
proof -
  have "sysw.quiet (appendProviderLoop sys_world svc x ref n)" for n by (induction n) auto
  then show ?thesis by (simp add: appendProviderOperation_def)
qed

lemma rolling_put:
  assumes r: "rolling req st s v h c" and refs: "\<forall>r \<in> set refs. validateStepResultRef r = Inr ()"
  shows "\<exists>t. updateRollbackOperationControl sys_world req st' refs s = (Inr (), t) \<and> rolling req st' t v h c"
proof -
  let ?svc = "rbq_Service req" and ?x = "rbq_OperationID req"
  note a = rolling_alone [OF r]
  obtain e oc where at: "op_at (sys_objs s) ?svc ?x = Some (e, oc)" using r by (auto simp: rolling_def)
  let ?c = "oc\<lparr>oc_Status := st', oc_StepResults := refs, oc_UpdatedAt := canonical_Time (sys_now s)\<rparr>"
  have "wf_OperationControl ?c" using op_at_wf [OF at] valid_ref_wf refs by (auto simp: wf_OperationControl_def list_all_iff wf_StepResultRef_def)
  then obtain e' t where p: "putOperationControlCAS sys_world ?svc ?x e ?c s = (Inr (), t)" "sys_env t = []" "sys_now t = sys_now s"
    "op_at (sys_objs t) ?svc ?x = Some (e', ?c)" "\<forall>k. k \<noteq> op_key ?svc ?x \<longrightarrow> sys_objs t k = sys_objs s k" "sys_tokens t = sys_tokens s"
    using alone_put [OF _ at] a by blast
  have i: "sys_inv t" by (rule quiet_inv [OF quiet_operation(2) _ p(1)]) (simp add: a)
  have "updateRollbackOperationControl sys_world req st' refs s = (Inr (), t)"
    using alone_getOperationControl [OF _ at] a p(1) by (simp add: updateRollbackOperationControl_def io_bind_def)
  moreover have "rolling req (oc_Status ?c) t v h c" by (rule rolling_op [OF r p(2) i p(3) _ p(5,4)]) (simp add: p(6))
  ultimately show ?thesis by simp
qed

text \<open>The service is updated under the lease.\<close>

lemma rolling_point:
  assumes r: "rolling req st s v h c" and ver: "sc_Version c < 2 ^ 63 - 1"
    and f: "sc_SchemaVersion (f c) = sc_SchemaVersion c" "sc_Service (f c) = sc_Service c" "sc_Env (f c) = sc_Env c" "sc_Version (f c) = sc_Version c"
  shows "\<exists>h' c' t v'. rollback_point sys_world req step f h (s, v) = (Inr h', (t, v')) \<and> rolling req st t v' h' c' \<and> alike v v' \<and>
    sc_Version c' = sc_Version c + 1 \<and> sc_DesiredRelease c' = sc_DesiredRelease (f c) \<and> sc_StableRelease c' = sc_StableRelease (f c)"
proof -
  let ?svc = "rbq_Service req"
  have h: "svc_held s h c" "lh_Service h = ?svc" using r by (simp_all add: rolling_def)
  obtain h' d t where u: "UpdateServiceControlWithLeaseCAS sys_world h (\<lambda>control. Inr (f control)) s = (Inr (h', d), t)"
    "svc_held t h' (scd_Control d)" "lh_Service h' = lh_Service h" "sys_now t = sys_now s"
    "scd_Control d = (f c)\<lparr>sc_Lease := sc_Lease c, sc_Version := sc_Version c + 1, sc_UpdatedAt := canonical_Time (sys_now s)\<rparr>"
    using session_update [OF h(1), of "\<lambda>control. Inr (f control)" "f c"] ver f by blast
  have "touches (\<lambda>k. k = service_key ?svc) (UpdateServiceControlWithLeaseCAS sys_world h (\<lambda>control. Inr (f control)))"
    by (rule touches_service_ops(2) [of ?svc]) (simp_all add: paths_ServiceControl_iff h(2))
  note o = touchesD(2) [OF this _ u(1)]
  let ?v = "v\<lparr>rv_handle := Some h', rv_result := (rv_result v)\<lparr>rbx_ServiceControl := Some (scd_Control d)\<rparr>\<rparr>"
  have run: "rollback_point sys_world req step f h (s, v) = (Inr h', (t, ?v))"
    using u(1) by (simp add: rollback_point_def ebind_def ecall_def r_set_def eupdate_def eret_def)
  have "saga_kept (rbq_SagaID req) t (rv_sagaControl v)"
    by (rule saga_kept_frame [of _ s]) (use r o rolling_alone [OF r] in \<open>simp_all add: rolling_def\<close>)
  moreover have "op_at (sys_objs t) ?svc (rbq_OperationID req) = op_at (sys_objs s) ?svc (rbq_OperationID req)"
    by (rule op_at_cong) (rule o, use rolling_alone [OF r] in simp_all)
  ultimately have "rolling req st t ?v h' (scd_Control d)"
    using r u(2,3) h(2) thriftyD [OF thrifty_leases(2) u(1)] by (auto simp: rolling_def)
  then show ?thesis using run u(5)
    by - (rule exI [of _ h'], rule exI [of _ "scd_Control d"], rule exI [of _ t], rule exI [of _ ?v], simp add: alike_def)
qed

lemma rolling_release:
  assumes r: "rolling req st s v h c" and ver: "sc_Version c < 2 ^ 63 - 1"
  shows "\<exists>t e c' e' oc. rollback_release sys_world req h (s, v) = (Inr (), (t, v\<lparr>rv_leaseHeld := False\<rparr>)) \<and>
    control_at (sys_objs t) (service_key (rbq_Service req)) = Some (e, c') \<and> c' = c\<lparr>sc_Lease := None, sc_Version := sc_Version c', sc_UpdatedAt := sc_UpdatedAt c'\<rparr> \<and>
    op_at (sys_objs t) (rbq_Service req) (rbq_OperationID req) = Some (e', oc) \<and> oc_Status oc = st \<and>
    saga_at (sys_objs t) (rbq_SagaID req) = Some (cdoc_ETag (rv_sagaControl v), cdoc_Control (rv_sagaControl v))"
proof -
  let ?svc = "rbq_Service req"
  have h: "svc_held s h c" "lh_Service h = ?svc" using r by (simp_all add: rolling_def)
  obtain d t where u: "ReleaseLease sys_world h s = (Inr d, t)" "control_at (sys_objs t) (service_key ?svc) = Some (scd_ETag d, scd_Control d)"
    "scd_Control d = c\<lparr>sc_Lease := None, sc_Version := sc_Version c + 1, sc_UpdatedAt := canonical_Time (sys_now s)\<rparr>"
    using session_release [OF h(1) ver] h(2) by auto
  have "touches (\<lambda>k. k = service_key ?svc) (ReleaseLease sys_world h)"
    by (rule touches_service_ops(3) [of ?svc]) (simp_all add: paths_ServiceControl_iff h(2))
  note o = touchesD(2) [OF this _ u(1)]
  have "saga_kept (rbq_SagaID req) t (rv_sagaControl v)"
    by (rule saga_kept_frame [of _ s]) (use r o rolling_alone [OF r] in \<open>simp_all add: rolling_def\<close>)
  note sg = saga_kept_at [OF this]
  obtain e' oc where op: "op_at (sys_objs s) ?svc (rbq_OperationID req) = Some (e', oc)" "oc_Status oc = st" using r by (auto simp: rolling_def)
  have "op_at (sys_objs t) ?svc (rbq_OperationID req) = op_at (sys_objs s) ?svc (rbq_OperationID req)"
    by (rule op_at_cong) (rule o, use rolling_alone [OF r] in simp_all)
  moreover have "rollback_release sys_world req h (s, v) = (Inr (), (t, v\<lparr>rv_leaseHeld := False\<rparr>))"
    using u(1) by (simp add: rollback_release_def ebind_def rollback_step_run r_set_def eupdate_def eret_def)
  ultimately show ?thesis using u(2,3) op sg
    by - (rule exI [of _ t], rule exI [of _ "scd_ETag d"], rule exI [of _ "scd_Control d"], rule exI [of _ e'], rule exI [of _ oc], simp)
qed

section \<open>The rollout\<close>

lemma thrifty_operation [simp]:
  "thrifty (getOperationControl sys_world svc x)" "thrifty (putOperationControlCAS sys_world svc x e oc)"
  "thrifty (setOperationStatus sys_world svc x st)" "thrifty (appendProviderOperation sys_world svc x ref)"
proof -
  show g: "thrifty (getOperationControl sys_world svc x)" and p: "thrifty (putOperationControlCAS sys_world svc x e oc)" for e oc
    by (auto simp: getOperationControl_def putOperationControlCAS_def)
  show "thrifty (setOperationStatus sys_world svc x st)" using g p by (auto simp: setOperationStatus_def)
  have "thrifty (appendProviderLoop sys_world svc x ref n)" for n by (induction n) (auto simp: g p)
  then show "thrifty (appendProviderOperation sys_world svc x ref)" by (simp add: appendProviderOperation_def)
qed

lemma rolling_start:
  assumes r: "rolling req st s v h c" and q: "srq_Service sq = rbq_Service req" "srq_OperationID sq = rbq_OperationID req" "TrimSpace (srq_ReleaseID sq) \<noteq> []"
    and P: "\<And>r u. \<exists>ro. pr_StartRollout P r u = (Inr ro, u) \<and> ro_ProviderID ro \<noteq> []"
  shows "\<exists>ro t. StartRollout sys_world P sq s = (Inr ro, t) \<and> ro_ProviderID ro \<noteq> [] \<and> rolling req OperationRunning t v h c"
proof -
  let ?svc = "rbq_Service req" and ?x = "rbq_OperationID req"
  let ?rq = "\<lparr>rrq_Service = srq_Service sq, rrq_Env = srq_Env sq, rrq_ReleaseID = TrimSpace (srq_ReleaseID sq), rrq_OperationID = srq_OperationID sq,
    rrq_MinHealthyPercentage = srq_MinHealthyPercentage sq, rrq_InstanceWarmup = srq_InstanceWarmup sq\<rparr>"
  note a = rolling_alone [OF r]
  obtain ro where ro: "pr_StartRollout P ?rq s = (Inr ro, s)" "ro_ProviderID ro \<noteq> []" using P by blast
  let ?ref = "\<lparr>por_Provider = ro_Provider ro, por_Kind = RolloutKindASGInstanceRefresh, por_ID = ro_ProviderID ro,
         por_ObservedAt = canonical_Time (sys_now s), por_Description = ''ASG instance refresh rollout''\<rparr>"
  obtain e oc where at: "op_at (sys_objs s) ?svc ?x = Some (e, oc)" using r by (auto simp: rolling_def)
  obtain e1 s1 oc1 where p1: "appendProviderOperation sys_world ?svc ?x ?ref s = (Inr (), s1)" "sys_env s1 = []" "sys_now s1 = sys_now s"
    "op_at (sys_objs s1) ?svc ?x = Some (e1, oc1)" "\<forall>k. k \<noteq> op_key ?svc ?x \<longrightarrow> sys_objs s1 k = sys_objs s k"
    using alone_appendProvider [OF _ at] a by blast
  have i1: "sys_inv s1" by (rule quiet_inv [OF quiet_appendProvider _ p1(1)]) (simp add: a)
  have r1: "rolling req (oc_Status oc1) s1 v h c" by (rule rolling_op [OF r p1(2) i1 p1(3) _ p1(5,4)]) (rule thriftyD [OF thrifty_operation(4) p1(1)])
  obtain e2 s2 oc2 where p2: "setOperationStatus sys_world ?svc ?x OperationRunning s1 = (Inr (), s2)" "sys_env s2 = []" "sys_now s2 = sys_now s1"
    "op_at (sys_objs s2) ?svc ?x = Some (e2, oc2)" "oc_Status oc2 = OperationRunning" "\<forall>k. k \<noteq> op_key ?svc ?x \<longrightarrow> sys_objs s2 k = sys_objs s1 k"
    using alone_setOperationStatus [OF p1(2,4), of OperationRunning] a by auto
  have i2: "sys_inv s2" by (rule quiet_inv [OF quiet_operation(3) i1 p2(1)])
  have r2: "rolling req OperationRunning s2 v h c"
    using rolling_op [OF r1 p2(2) i2 p2(3) thriftyD [OF thrifty_operation(3) p2(1)] p2(6,4)] p2(5) by simp
  obtain x t where ev: "appendRolloutEvent sys_world ?svc ?x (srq_TraceID sq) (srq_Actor sq) ''rollout.started'' ''ASG instance refresh started''
     [zero_Fact\<lparr>fct_Type := ''provider_id'', fct_Message := ro_ProviderID ro\<rparr>] s2 = (x, t)" by fastforce
  note e = alone_rollout_event [OF p2(2) i2 ev]
  have "frugal (event_of ?svc ?x) s2 t" using e by (simp add: frugal_def calm_def)
  from rolling_frame [OF r2 this] have "rolling req OperationRunning t v h c" by (simp add: alike_def)
  moreover have "StartRollout sys_world P sq s = (Inr ro, t)"
    using q ro(1) a p1(1) p2(1) ev by (simp add: StartRollout_def resolveRolloutReleaseID_def io_bind_def io_try_def io_ret_def)
  ultimately show ?thesis using ro(2) by blast
qed

text \<open>While the rollback holds the lease, watching the rollout leaves the service alone.\<close>

lemma nonblank_token: "(\<forall>x \<in> set (sys_tokens s). TrimSpace x \<noteq> []) \<Longrightarrow> TrimSpace (next_token s) \<noteq> []"
  by (cases "sys_tokens s") (simp_all add: next_token_def TrimSpace_printable printable_def)

lemma held_active: "svc_held s h c \<Longrightarrow> activeLease (sc_Lease c) (sys_now s) = Inr True"
  by (auto simp: svc_held_def activeLease_def)

lemma held_markStable:
  assumes h: "svc_held s h c" "lh_Service h = wrq_Service wq" and tok: "\<forall>x \<in> set (sys_tokens s). TrimSpace x \<noteq> []"
    and owner: "TrimSpace (firstNonEmpty [act_ID (wrq_Actor wq), ''rollout-watch'']) \<noteq> []"
  shows "\<exists>t. markStableAfterRollout sys_world wq s = (Inr (), t) \<and> frugal K s t"
proof -
  let ?svc = "wrq_Service wq"
  let ?o = "\<lparr>lop_Owner = firstNonEmpty [act_ID (wrq_Actor wq), ''rollout-watch''], lop_Duration = 300000000000,
                lop_Actor = wrq_Actor wq, lop_TraceID = wrq_TraceID wq\<rparr>"
  have s: "sys_env s = []" "sys_inv s" "control_at (sys_objs s) (service_key ?svc) = Some (lh_ETag h, c)" "validateServiceControl c = Inr ()"
    "sc_Service c = ?svc" using h by (simp_all add: svc_held_def)
  have k: "paths_ServiceControl ?svc = Inr (service_key ?svc)" using validateServiceControl_ok(2) [OF s(4)] s(5) by (simp add: paths_ServiceControl_iff)
  obtain cur where g: "GetServiceControl sys_world ?svc s = (Inr cur, s)" "scd_Control cur = c" using alone_GetServiceControl [OF s(1) k s(3-5)] by blast
  obtain t where a: "AcquireLease sys_world defaultRetryOptions ?svc ?o s = (Inl (leaseHeldError ?svc (service_key ?svc) (sc_Lease c)), t)"
    "sys_store t = sys_store s" "sys_env t = []" "sys_now t = sys_now s"
    using acquire_held [OF s(1) k s(3-5) held_active [OF h(1)], of ?o defaultRetryOptions] owner nonblank_token [OF tok] by (auto simp del: firstNonEmpty.simps)
  have "is_state CodeLeaseHeld (leaseHeldError ?svc (service_key ?svc) (sc_Lease c))" by (simp add: leaseHeldError_def)
  then have "markStableAfterRollout sys_world wq s = (Inr (), if sc_DesiredRelease c = [] \<or> sc_StableRelease c = sc_DesiredRelease c then s else t)"
    using g a(1) by (simp add: markStableAfterRollout_def io_bind_def io_try_def io_ret_def)
  moreover have "frugal K s t" using a(2-4) s(2) thriftyD [OF thrifty_leases(1) a(1)] by (simp add: frugal_def calm_def sys_inv_def sys_objs_def)
  ultimately show ?thesis using frugal_refl [OF s(1,2)] by (simp split: if_splits)
qed

lemma rolling_watch:
  assumes r: "rolling req st0 s v h c" and q: "wrq_Service wq = rbq_Service req" "wrq_OperationID wq = rbq_OperationID req" "wrq_ProviderID wq \<noteq> []"
    and owner: "TrimSpace (firstNonEmpty [act_ID (wrq_Actor wq), ''rollout-watch'']) \<noteq> []"
    and P: "\<And>r u. \<exists>st. pr_WatchRollout P r u = (Inr st, u) \<and> rs_Status st = ''succeeded''"
  shows "\<exists>st t. WatchRollout sys_world P wq s = (Inr st, t) \<and> rs_Status st = ''succeeded'' \<and> rolling req OperationSucceeded t v h c"
proof -
  let ?svc = "rbq_Service req" and ?x = "rbq_OperationID req"
  note a = rolling_alone [OF r]
  obtain st where st: "pr_WatchRollout P \<lparr>pwr_Service = wrq_Service wq, pwr_Env = wrq_Env wq,
        pwr_RolloutID = firstNonEmpty [wrq_RolloutID wq, wrq_OperationID wq], pwr_ProviderID = wrq_ProviderID wq\<rparr> s = (Inr st, s)" "rs_Status st = ''succeeded''"
    using P by blast
  obtain x s1 where ev: "appendRolloutEvent sys_world ?svc ?x (wrq_TraceID wq) (wrq_Actor wq) (''rollout.'' @ rs_Status st) (''rollout status '' @ rs_Status st)
     [zero_Fact\<lparr>fct_Type := ''provider_id'', fct_Message := rs_ProviderID st\<rparr>] s = (x, s1)" by fastforce
  have "frugal (event_of ?svc ?x) s s1" using alone_rollout_event [OF _ _ ev] a by (simp add: frugal_def calm_def)
  from rolling_frame [OF r this] have r1: "rolling req st0 s1 v h c" by (simp add: alike_def)
  obtain s2 where m: "markStableAfterRollout sys_world wq s1 = (Inr (), s2)" "frugal (\<lambda>_. False) s1 s2"
    using held_markStable [of s1 h c wq "\<lambda>_. False"] r1 q(1) owner by (auto simp: rolling_def simp del: firstNonEmpty.simps)
  from rolling_frame [OF r1 m(2)] have r2: "rolling req st0 s2 v h c" by (simp add: alike_def)
  note a2 = rolling_alone [OF r2]
  obtain e oc where at: "op_at (sys_objs s2) ?svc ?x = Some (e, oc)" using r2 by (auto simp: rolling_def)
  obtain e3 t oc3 where p: "setOperationStatus sys_world ?svc ?x OperationSucceeded s2 = (Inr (), t)" "sys_env t = []" "sys_now t = sys_now s2"
    "op_at (sys_objs t) ?svc ?x = Some (e3, oc3)" "oc_Status oc3 = OperationSucceeded" "\<forall>k. k \<noteq> op_key ?svc ?x \<longrightarrow> sys_objs t k = sys_objs s2 k"
    using alone_setOperationStatus [OF _ at, of OperationSucceeded] a2 by auto
  have i: "sys_inv t" by (rule quiet_inv [OF quiet_operation(3) _ p(1)]) (simp add: a2)
  have "rolling req OperationSucceeded t v h c"
    using rolling_op [OF r2 p(2) i p(3) thriftyD [OF thrifty_operation(3) p(1)] p(6,4)] p(5) by simp
  moreover have f: "operationStatusForRollout (rs_Status st) = OperationSucceeded" by (simp add: st(2) operationStatusForRollout_def)
  have "recordRolloutStatus sys_world wq st s = (Inr st, t)" unfolding recordRolloutStatus_def Let_def f
    using ev m(1) p(1) q(1,2) by (simp add: io_bind_def io_try_def io_ret_def OperationSucceeded_def OperationRunning_def)
  then have "WatchRollout sys_world P wq s = (Inr st, t)" using st(1) q(3) by (simp add: WatchRollout_def io_bind_def)
  ultimately show ?thesis using st(2) by blast
qed

section \<open>The whole run under the lease\<close>

lemma good_ref:
  "is_id step \<Longrightarrow> TrimSpace kind \<noteq> [] \<Longrightarrow> TrimSpace st \<noteq> [] \<Longrightarrow> validateStepResultRef (rollbackStepResult step kind st now f x) = Inr ()"
  by (simp add: validateStepResultRef_def rollbackStepResult_def rbind_def validateID_iff [THEN iffD2] raw_valid_def)

lemma good_refs [simp]:
  "validateStepResultRef (desiredRef to now) = Inr ()" "validateStepResultRef (startedRef ro now) = Inr ()"
  "validateStepResultRef (watchedRef ''succeeded'' status now) = Inr ()" "validateStepResultRef (completedRef to now) = Inr ()"
  by (simp_all add: desiredRef_def startedRef_def watchedRef_def completedRef_def good_ref printable_kind printable_def is_id_def isIDChar_def)

lemma rolling_audit:
  assumes "rolling req st s v h c"
  shows "\<exists>r t. io_bind (io_now sys_world) (\<lambda>now. log_AppendAudit sys_world (rollbackAudit req a b now)) s = (r, t) \<and> rolling req st t v h c"
proof -
  note a = rolling_alone [OF assms]
  obtain r t where l: "log_AppendAudit sys_world (rollbackAudit req a b (sys_now s)) s = (r, t)" by fastforce
  have "frugal (prefix ''audit/'') s t" using alone_audit_calm [OF _ _ l] a thriftyD [OF thrifty_log(2) l] by (simp add: frugal_def)
  from rolling_frame [OF assms this] have "rolling req st t v h c" by (simp add: alike_def)
  then show ?thesis using l a by (simp add: io_bind_def)
qed

lemma releases_simps [simp]:
  "sc_SchemaVersion (desireRelease req to c) = sc_SchemaVersion c" "sc_Service (desireRelease req to c) = sc_Service c"
  "sc_Env (desireRelease req to c) = sc_Env c" "sc_Version (desireRelease req to c) = sc_Version c" "sc_DesiredRelease (desireRelease req to c) = to"
  "sc_SchemaVersion (completeRelease req to c) = sc_SchemaVersion c" "sc_Service (completeRelease req to c) = sc_Service c"
  "sc_Env (completeRelease req to c) = sc_Env c" "sc_Version (completeRelease req to c) = sc_Version c"
  "sc_DesiredRelease (completeRelease req to c) = to" "sc_StableRelease (completeRelease req to c) = to"
  by (simp_all add: desireRelease_def completeRelease_def rollbackOperation_def)

lemma rolling_complete:
  assumes r: "rolling req st0 s v h c" and ver: "sc_Version c < 2 ^ 63 - 2"
  shows "\<exists>h' c' t v'. rollback_complete sys_world req from to ro status h (s, v) = (Inr h', (t, v')) \<and> rolling req OperationSucceeded t v' h' c' \<and>
    sc_Version c' = sc_Version c + 1 \<and> sc_DesiredRelease c' = to \<and> sc_StableRelease c' = to \<and>
    sct_Status (cdoc_Control (rv_sagaControl v')) = SagaSucceeded"
proof -
  obtain h1 c1 s1 v1 where p1: "rollback_point sys_world req ''mark-complete'' (completeRelease req to) h (s, v) = (Inr h1, (s1, v1))"
    "rolling req st0 s1 v1 h1 c1" "sc_Version c1 = sc_Version c + 1" "sc_DesiredRelease c1 = to" "sc_StableRelease c1 = to"
    using rolling_point [OF r, of "completeRelease req to" "''mark-complete''"] ver by auto
  let ?fs = "[desiredRef to, startedRef ro, watchedRef ''succeeded'' status, completedRef to]"
  let ?refs = "rv_baseRefs v1 @ map (\<lambda>f. f (sys_now s1)) ?fs"
  have refs: "\<forall>r \<in> set ?refs. validateStepResultRef r = Inr ()" using p1(2) by (auto simp: rolling_def)
  note st = stamped [of s1 ?fs v1] rolling_alone [OF p1(2)]
  obtain s2 where p2: "updateRollbackOperationControl sys_world req OperationSucceeded ?refs s1 = (Inr (), s2)" "rolling req OperationSucceeded s2 v1 h1 c1"
    using rolling_put [OF p1(2) refs] by blast
  obtain s3 v3 where p3: "rollback_updateSaga sys_world SagaSucceeded [] ?refs (s2, v1) = (Inr (), (s3, v3))" "rolling req OperationSucceeded s3 v3 h1 c1"
    "sct_Status (cdoc_Control (rv_sagaControl v3)) = SagaSucceeded" using rolling_saga [OF p2(2) _ _ refs, of SagaSucceeded "[]"] by auto
  obtain s4 v4 where p4: "rollback_appendEvent sys_world req ''rollback.succeeded'' ''rollback operation completed''
         [zero_Fact\<lparr>fct_Type := ''release'', fct_Message := to\<rparr>] (s3, v3) = (Inr (), (s4, v4))" "rolling req OperationSucceeded s4 v4 h1 c1" "alike v3 v4"
    using rolling_event [OF p3(2)] by blast
  obtain x s5 where p5: "io_bind (io_now sys_world) (\<lambda>now. log_AppendAudit sys_world (rollbackAudit req from to now)) s4 = (x, s5)"
    "rolling req OperationSucceeded s5 v4 h1 c1" using rolling_audit [OF p4(2)] by blast
  have "rollback_complete sys_world req from to ro status h (s, v) = (Inr h1, (s5, v4))"
    using p2(1) p3(1) p4(1) p5(1) st
    by (simp add: rollback_complete_def ebind_def ecall_def p1(1) r_get_def eupdate_def eret_def appendStepRefs_def Let_def rollback_step_run del: stampRefs.simps)
  then show ?thesis using p1(3-5) p3(3) p4(3) p5(2)
    by - (rule exI [of _ h1], rule exI [of _ c1], rule exI [of _ s5], rule exI [of _ v4], simp add: alike_def)
qed

text \<open>The service runs the release, it is the stable one and nobody leases the service; the operation and the saga have succeeded.\<close>

definition rolled_back :: "deploy_RollbackRequest \<Rightarrow> string \<Rightarrow> sys \<Rightarrow> bool" where
  "rolled_back req to t \<longleftrightarrow>
     (\<exists>e c. control_at (sys_objs t) (service_key (rbq_Service req)) = Some (e, c) \<and> sc_DesiredRelease c = to \<and> sc_StableRelease c = to \<and> sc_Lease c = None) \<and>
     (\<exists>e oc. op_at (sys_objs t) (rbq_Service req) (rbq_OperationID req) = Some (e, oc) \<and> oc_Status oc = OperationSucceeded) \<and>
     (\<exists>e sg. saga_at (sys_objs t) (rbq_SagaID req) = Some (e, sg) \<and> sct_Status sg = SagaSucceeded)"

lemma released_rolled_back:
  assumes r: "rolling req OperationSucceeded s v h c" and ver: "sc_Version c < 2 ^ 63 - 1"
    and c: "sc_DesiredRelease c = to" "sc_StableRelease c = to" and sg: "sct_Status (cdoc_Control (rv_sagaControl v)) = SagaSucceeded"
  shows "\<exists>t. rollback_release sys_world req h (s, v) = (Inr (), (t, v\<lparr>rv_leaseHeld := False\<rparr>)) \<and> rolled_back req to t"
proof -
  obtain t e c' e' oc where t: "rollback_release sys_world req h (s, v) = (Inr (), (t, v\<lparr>rv_leaseHeld := False\<rparr>))"
    "control_at (sys_objs t) (service_key (rbq_Service req)) = Some (e, c')" "c' = c\<lparr>sc_Lease := None, sc_Version := sc_Version c', sc_UpdatedAt := sc_UpdatedAt c'\<rparr>"
    "op_at (sys_objs t) (rbq_Service req) (rbq_OperationID req) = Some (e', oc)" "oc_Status oc = OperationSucceeded"
    "saga_at (sys_objs t) (rbq_SagaID req) = Some (cdoc_ETag (rv_sagaControl v), cdoc_Control (rv_sagaControl v))"
    using rolling_release [OF r ver] by (elim exE conjE) (rule that)
  have "sc_DesiredRelease c' = to" "sc_StableRelease c' = to" "sc_Lease c' = None" by (subst t(3), simp add: c)+
  then show ?thesis using t(1,2,4-6) sg by (simp add: rolled_back_def)
qed

text \<open>A provider whose rollouts start and succeed, and that does not write to the store.\<close>

definition rolls_out :: "sys Provider \<Rightarrow> bool" where
  "rolls_out P \<longleftrightarrow> (\<forall>r u. \<exists>ro. pr_StartRollout P r u = (Inr ro, u) \<and> ro_ProviderID ro \<noteq> []) \<and>
     (\<forall>r u. \<exists>st. pr_WatchRollout P r u = (Inr st, u) \<and> rs_Status st = ''succeeded'')"

lemma rollback_watch_alone:
  assumes r: "rolling req st0 s v h c" and ver: "sc_Version c < 2 ^ 63 - 2" and ro: "ro_ProviderID ro \<noteq> []" and P: "rolls_out P"
    and owner: "TrimSpace (act_ID (rbq_Actor req)) \<noteq> []"
  shows "\<exists>t v'. rollback_watch sys_world P req from to ro h (s, v) = (Inr (), (t, v')) \<and> rolled_back req to t \<and> rbx_OK (rv_result v') \<and> \<not> rv_leaseHeld v'"
proof -
  let ?wq = "\<lparr>wrq_Service = rbq_Service req, wrq_Env = rbq_Env req, wrq_OperationID = rbq_OperationID req, wrq_RolloutID = ro_ID ro,
         wrq_ProviderID = ro_ProviderID ro, wrq_TraceID = rbq_TraceID req, wrq_Actor = rbq_Actor req\<rparr>"
  have "TrimSpace (firstNonEmpty [act_ID (wrq_Actor ?wq), ''rollout-watch'']) \<noteq> []" using owner by auto
  then obtain st s1 where w: "WatchRollout sys_world P ?wq s = (Inr st, s1)" "rs_Status st = ''succeeded''" "rolling req OperationSucceeded s1 v h c"
    using rolling_watch [OF r, of ?wq P] ro P by (auto simp: rolls_out_def simp del: firstNonEmpty.simps)
  let ?v = "v\<lparr>rv_result := (rv_result v)\<lparr>rbx_RolloutStatus := Some st\<rparr>\<rparr>"
  have r1: "rolling req OperationSucceeded s1 ?v h c" using w(3) by (simp add: rolling_def)
  obtain h2 c2 s2 v2 where p: "rollback_complete sys_world req from to ro st h (s1, ?v) = (Inr h2, (s2, v2))" "rolling req OperationSucceeded s2 v2 h2 c2"
    "sc_Version c2 = sc_Version c + 1" "sc_DesiredRelease c2 = to" "sc_StableRelease c2 = to"
    "sct_Status (cdoc_Control (rv_sagaControl v2)) = SagaSucceeded" using rolling_complete [OF r1 ver] by blast
  have "sc_Version c2 < 2 ^ 63 - 1" using ver p(3) by simp
  then obtain t where t: "rollback_release sys_world req h2 (s2, v2) = (Inr (), (t, v2\<lparr>rv_leaseHeld := False\<rparr>))" "rolled_back req to t"
    using released_rolled_back [OF p(2) _ p(4-6)] by blast
  have "rollback_watch sys_world P req from to ro h (s, v) = (Inr (), (t, v2\<lparr>rv_leaseHeld := False\<rparr>))"
    using w(1,2) p(1) t(1) by (simp add: rollback_watch_def ebind_def rollback_step_run r_result_def r_set_def eupdate_def eret_def Let_def operationStatusForRollout_def)
  moreover have "rbx_OK (rv_result v2)" using p(2) by (simp add: rolling_def)
  ultimately show ?thesis using t(2) by (intro exI [of _ t] exI [of _ "v2\<lparr>rv_leaseHeld := False\<rparr>"]) simp
qed

lemma rollback_rollout_alone:
  assumes r: "rolling req st0 s v h c" and ver: "sc_Version c < 2 ^ 63 - 2" and P: "rolls_out P" and to: "TrimSpace to \<noteq> []"
    and q: "\<not> rbq_NoWatch req" "TrimSpace (act_ID (rbq_Actor req)) \<noteq> []"
  shows "\<exists>t v'. rollback_rollout sys_world P req from to h (s, v) = (Inr (), (t, v')) \<and> rolled_back req to t \<and> rbx_OK (rv_result v') \<and> \<not> rv_leaseHeld v'"
proof -
  let ?sq = "\<lparr>srq_Service = rbq_Service req, srq_Env = rbq_Env req, srq_OperationID = rbq_OperationID req, srq_ReleaseID = to,
         srq_TraceID = rbq_TraceID req, srq_Actor = rbq_Actor req, srq_MinHealthyPercentage = rbq_MinHealthyPercentage req,
         srq_InstanceWarmup = rbq_InstanceWarmup req\<rparr>"
  obtain ro s1 where w: "StartRollout sys_world P ?sq s = (Inr ro, s1)" "ro_ProviderID ro \<noteq> []" "rolling req OperationRunning s1 v h c"
    using rolling_start [OF r, of ?sq P] to P by (auto simp: rolls_out_def)
  let ?v = "v\<lparr>rv_result := (rv_result v)\<lparr>rbx_Rollout := Some ro\<rparr>\<rparr>"
  have r1: "rolling req OperationRunning s1 ?v h c" using w(3) by (simp add: rolling_def)
  obtain t v' where t: "rollback_watch sys_world P req from to ro h (s1, ?v) = (Inr (), (t, v'))" "rolled_back req to t" "rbx_OK (rv_result v')" "\<not> rv_leaseHeld v'"
    using rollback_watch_alone [OF r1 ver w(2) P q(2)] by blast
  have "rollback_rollout sys_world P req from to h (s, v) = (Inr (), (t, v'))"
    using w(1) t(1) q(1) by (simp add: rollback_rollout_def ebind_def rollback_step_run r_result_def r_set_def eupdate_def eret_def)
  then show ?thesis using t(2-4) by blast
qed

text \<open>A held lease and a new operation.\<close>

lemma create_op_step:
  assumes s: "sys_env s = []" "sys_inv s" and n: "is_name (rbq_Service req)" "is_id (rbq_OperationID req)"
    and fresh: "sys_objs s (op_key (rbq_Service req) (rbq_OperationID req)) = None"
  shows "\<exists>t e oc. createRollbackOperationControl sys_world req st now [] s = (Inr (), t) \<and>
    frugal (\<lambda>k. k = op_key (rbq_Service req) (rbq_OperationID req)) s t \<and>
    op_at (sys_objs t) (rbq_Service req) (rbq_OperationID req) = Some (e, oc) \<and> oc_Status oc = st"
proof -
  let ?k = "op_key (rbq_Service req) (rbq_OperationID req)"
  let ?c = "zero_OperationControl\<lparr>oc_SchemaVersion := schema_Version, oc_OperationID := rbq_OperationID req, oc_Service := rbq_Service req,
          oc_Env := rbq_Env req, oc_Status := st, oc_StepResults := [], oc_UpdatedAt := canonical_Time now, oc_TraceID := rbq_TraceID req\<rparr>"
  obtain m t where c: "os_Create sys_world ?k (JsonBody (enc_OperationControl ?c)) ops_putOptions s = (Inr m, t)" "calm (\<lambda>x. x = ?k) s t"
    "sys_objs t ?k = Some (om_ETag m, JsonBody (enc_OperationControl ?c))" "sys_tokens t = sys_tokens s" using alone_create_calm [OF s fresh] by blast
  have w: "wf_OperationControl ?c" by (simp add: wf_OperationControl_def zero_OperationControl_def)
  then have "raws_ok_OperationControl ?c" by (simp add: wf_op_iff)
  then have "createRollbackOperationControl sys_world req st now [] s = (Inr (), t)"
    using c(1) by (simp add: createRollbackOperationControl_def io_bind_def io_lift_def deploy_paths n canonical_Marshal_def io_ret_def)
  moreover have "op_at (sys_objs t) (rbq_Service req) (rbq_OperationID req) = Some (om_ETag m, ?c)"
    using c(3) w by (simp add: view_at_Some doc_view_Some codec_simps)
  ultimately show ?thesis using c(2,4) by (intro exI [of _ t] exI [of _ "om_ETag m"] exI [of _ ?c]) (simp add: frugal_def)
qed

lemma rollback_leased_alone:
  assumes h: "svc_held s h c" "lh_Service h = rbq_Service req" "sc_Version c < 2 ^ 63 - 3" and sg: "saga_kept (rbq_SagaID req) s (rv_sagaControl v)"
    and fresh: "sys_objs s (op_key (rbq_Service req) (rbq_OperationID req)) = None" and id: "is_id (rbq_OperationID req)"
    and v: "\<forall>r \<in> set (rv_baseRefs v). validateStepResultRef r = Inr ()" "rbx_OK (rv_result v)" and tok: "\<forall>x \<in> set (sys_tokens s). TrimSpace x \<noteq> []"
    and P: "rolls_out P" and to: "TrimSpace to \<noteq> []" and q: "\<not> rbq_NoWatch req" "TrimSpace (act_ID (rbq_Actor req)) \<noteq> []"
  shows "\<exists>t v'. rollback_leased sys_world P req from to now h (s, v) = (Inr (), (t, v')) \<and> rolled_back req to t \<and> rbx_OK (rv_result v') \<and> \<not> rv_leaseHeld v'"
proof -
  have s: "sys_env s = []" "sys_inv s" "is_name (rbq_Service req)"
    using h(1,2) validateServiceControl_ok(2) [of c] by (auto simp: svc_held_def)
  have now: "w_Now sys_world s = (sys_now s, s)" using alone_now [OF s(1)] by (simp add: io_now_def split: prod.splits)
  let ?ref = "rollbackStepResult ''acquire-service-lease'' ''service.lease.acquire'' ''succeeded'' (sys_now s) ''service'' (rbq_Service req)"
  let ?v = "v\<lparr>rv_baseRefs := rv_baseRefs v @ [?ref]\<rparr>"
  obtain s1 e oc where p1: "createRollbackOperationControl sys_world req OperationRunning now [] s = (Inr (), s1)"
    "frugal (\<lambda>k. k = op_key (rbq_Service req) (rbq_OperationID req)) s s1" "op_at (sys_objs s1) (rbq_Service req) (rbq_OperationID req) = Some (e, oc)"
    "oc_Status oc = OperationRunning" using create_op_step [OF s id fresh] by blast
  have ref: "validateStepResultRef ?ref = Inr ()" by (rule good_ref) (simp_all add: printable_kind printable_def is_id_def isIDChar_def)
  have "svc_held s1 h c" by (rule svc_held_frame [OF h(1)]) (use frugal_alone [OF p1(2)] frugal_objs [OF p1(2)] h(2) in simp_all)
  moreover have "saga_kept (rbq_SagaID req) s1 (rv_sagaControl v)" by (rule saga_kept_frame [OF sg]) (rule frugal_objs [OF p1(2)], simp)
  ultimately have r1: "rolling req OperationRunning s1 (?v\<lparr>rv_operationControlCreated := True\<rparr>) h c"
    using h(2) id p1(2-4) v ref tok by (auto simp: rolling_def frugal_def)
  let ?f1 = "[zero_Fact\<lparr>fct_Type := ''from_release'', fct_Message := from\<rparr>, zero_Fact\<lparr>fct_Type := ''to_release'', fct_Message := to\<rparr>]"
  obtain s2 v2 where p2: "rollback_appendEvent sys_world req ''rollback.started'' ''rollback operation started'' ?f1
      (s1, ?v\<lparr>rv_operationControlCreated := True\<rparr>) = (Inr (), (s2, v2))" "rolling req OperationRunning s2 v2 h c" using rolling_event [OF r1] by blast
  obtain h3 c3 s3 v3 where p3: "rollback_point sys_world req ''update-desired-release'' (desireRelease req to) h (s2, v2) = (Inr h3, (s3, v3))"
    "rolling req OperationRunning s3 v3 h3 c3" "sc_Version c3 = sc_Version c + 1"
    using rolling_point [OF p2(2), of "desireRelease req to" "''update-desired-release''"] h(3) by auto
  have r3: "rolling req OperationRunning s3 (v3\<lparr>rv_desiredUpdated := True\<rparr>) h3 c3" using p3(2) by (simp add: rolling_def)
  obtain s4 v4 where p4: "rollback_appendEvent sys_world req ''rollback.desired_release_updated'' ''service desired release updated for rollback''
      [zero_Fact\<lparr>fct_Type := ''release'', fct_Message := to\<rparr>] (s3, v3\<lparr>rv_desiredUpdated := True\<rparr>) = (Inr (), (s4, v4))" "rolling req OperationRunning s4 v4 h3 c3"
    using rolling_event [OF r3] by blast
  have "sc_Version c3 < 2 ^ 63 - 2" using p3(3) h(3) by simp
  then obtain t v5 where p5: "rollback_rollout sys_world P req from to h3 (s4, v4) = (Inr (), (t, v5))" "rolled_back req to t" "rbx_OK (rv_result v5)"
    "\<not> rv_leaseHeld v5" using rollback_rollout_alone [OF p4(2) _ P to q] by blast
  have "rollback_leased sys_world P req from to now h (s, v) = (Inr (), (t, v5))"
    by (simp add: rollback_leased_def ebind_def ecall_def now r_set_def eupdate_def eret_def rollback_step_run p1(1) p2(1) p3(1) p4(1) p5(1))
  then show ?thesis using p5(2-4) by blast
qed

section \<open>Before the lease\<close>

text \<open>A request that names what it needs, and a state in which the rollback can start.\<close>

definition complete_request :: "deploy_RollbackRequest \<Rightarrow> bool" where
  "complete_request req \<longleftrightarrow> is_name (rbq_Service req) \<and> is_id (rbq_OperationID req) \<and> is_id (rbq_SagaID req) \<and> TrimSpace (rbq_Env req) \<noteq> [] \<and>
     TrimSpace (act_ID (rbq_Actor req)) \<noteq> [] \<and> TrimSpace (act_Type (rbq_Actor req)) \<noteq> [] \<and> TrimSpace (rbq_TraceID req) \<noteq> []"

definition rollbackable :: "sys \<Rightarrow> deploy_RollbackRequest \<Rightarrow> ServiceControl \<Rightarrow> string \<Rightarrow> ReleaseManifest \<Rightarrow> bool" where
  "rollbackable s req c to m \<longleftrightarrow> (\<exists>e. control_at (sys_objs s) (service_key (rbq_Service req)) = Some (e, c)) \<and> validateServiceControl c = Inr () \<and>
     sc_Service c = rbq_Service req \<and> activeLease (sc_Lease c) (sys_now s) = Inr False \<and> sc_Version c < 2 ^ 63 - 4 \<and>
     resolveRollbackTarget c (rbq_TargetRelease req) = Inr to \<and> is_id to \<and>
     (\<exists>e. sys_objs s (release_key (rbq_Service req) to) = Some (e, JsonBody (enc_ReleaseManifest m))) \<and>
     rm_Service m = rbq_Service req \<and> rm_Env m = rbq_Env req \<and> rm_ReleaseID m = to \<and>
     unused (rbq_SagaID req) s \<and> sys_objs s (op_key (rbq_Service req) (rbq_OperationID req)) = None \<and>
     sys_objs s (intent_key (rbq_Service req) (rbq_OperationID req)) = None \<and>
     (\<forall>x \<in> set (sys_tokens s). TrimSpace x \<noteq> []) \<and> time_ok (sys_now s + rbq_LeaseDuration req)"

lemma history_alone:
  assumes "sys_env s = []" "is_name svc"
  shows "\<exists>hs. releaseHistory sys_world svc s = (Inr hs, s)"
proof -
  obtain p where p: "paths_ServiceReleasesPrefix svc = Inr p" using assms(2) by (simp add: paths_ServiceReleasesPrefix_def rbind_def validateName_iff [THEN iffD2])
  have "\<exists>ms. os_List sys_world p \<lparr>lo_Limit = 0\<rparr> s = (Inr ms, s)"
    using assms(1) by (simp add: sys_world_def on_store_def memory_List_def Let_def)
  then show ?thesis by (auto simp: releaseHistory_def p io_bind_def io_lift_def io_ret_def)
qed

lemma manifest_alone:
  assumes "sys_env s = []" "is_name svc" "is_id r" "sys_objs s (release_key svc r) = Some (e, JsonBody (enc_ReleaseManifest m))"
    "rm_Service m = svc" "rm_Env m = env" "rm_ReleaseID m = r"
  shows "readReleaseManifest sys_world svc env r s = (Inr m, s)"
proof -
  obtain ob where "os_Get sys_world (release_key svc r) s = (Inr ob, s)" "obj_Body ob = JsonBody (enc_ReleaseManifest m)"
    using alone_Get [OF assms(1,4)] by blast
  then show ?thesis using assms
    by (simp add: readReleaseManifest_def deploy_paths io_bind_def io_lift_def io_try_def io_ret_def canonical_UnmarshalStrict_def codec_ReleaseManifest)
qed

lemma tpl_actor_full: "TrimSpace (act_ID a) \<noteq> [] \<Longrightarrow> TrimSpace (act_Type a) \<noteq> [] \<Longrightarrow> tpl_actor a = a"
  by (auto simp: tpl_actor_def)

lemma rollback_saga_made:
  assumes req: "complete_request req" and to: "is_id to"
  shows "\<exists>cr. DeploymentRollback now \<lparr>rbr_SagaID = rbq_SagaID req, rbr_OperationID = rbq_OperationID req, rbr_Service = rbq_Service req,
       rbr_Env = rbq_Env req, rbr_FromRelease = from, rbr_Target = rbq_TargetRelease req, rbr_TargetRelease = to,
       rbr_TraceID = rbq_TraceID req, rbr_Actor = rbq_Actor req, rbr_CreatedAt = now\<rparr> = Inr cr \<and> storable cr \<and>
     si_SagaID (creq_Intent cr) = rbq_SagaID req"
proof -
  let ?rq = "\<lparr>rbr_SagaID = rbq_SagaID req, rbr_OperationID = rbq_OperationID req, rbr_Service = rbq_Service req,
       rbr_Env = rbq_Env req, rbr_FromRelease = from, rbr_Target = rbq_TargetRelease req, rbr_TargetRelease = to,
       rbr_TraceID = rbq_TraceID req, rbr_Actor = rbq_Actor req, rbr_CreatedAt = now\<rparr>"
  note q = req [unfolded complete_request_def]
  have ne: "rbq_Service req \<noteq> []" "TrimSpace (rbq_Service req) = rbq_Service req" "TrimSpace to = to" "to \<noteq> []" "rbq_SagaID req \<noteq> []" "rbq_TraceID req \<noteq> []"
    "act_ID (rbq_Actor req) \<noteq> []" "act_Type (rbq_Actor req) \<noteq> []"
    using q to is_name_is_id is_id_trim is_id_nonempty by auto
  let ?n = "normalizeRollbackRequest now ?rq"
  have n: "rbr_SagaID ?n = rbq_SagaID req" "rbr_Service ?n = rbq_Service req" "rbr_Env ?n = TrimSpace (rbq_Env req)" "rbr_TargetRelease ?n = to"
    "rbr_Actor ?n = rbq_Actor req" "rbr_TraceID ?n = rbq_TraceID req"
    using ne q by (simp_all add: normalizeRollbackRequest_def Let_def or_else_def tpl_trace_def tpl_saga_def tpl_actor_full)
  have "validateRollbackRequest ?n = Inr ()" using ne q by (simp add: validateRollbackRequest_def n no_actor_def)
  then obtain cr where cr: "DeploymentRollback now ?rq = Inr cr" "si_SagaID (creq_Intent cr) = rbq_SagaID req" "si_Actor (creq_Intent cr) = rbq_Actor req"
    "si_TraceID (creq_Intent cr) = rbq_TraceID req" by (simp add: DeploymentRollback_def Let_def rbind_def tpl_request_def n)
  note m = rollback_made [OF cr(1)]
  have "validateCreateRequest (creq_Intent cr) (creq_Graph cr) (creq_Control cr) = Inr ()"
    using made_ids [OF m] made_validIntent [OF m] made_validGraph [OF m] made_validControl [OF m] cr(2-4) q by (simp add: validateCreateRequest_def)
  then show ?thesis using cr(1,2) made_storable [OF m] by blast
qed

lemma saga_alone:
  assumes s: "sys_env s = []" "sys_inv s" and req: "complete_request req" "is_id to" "unused (rbq_SagaID req) s"
  shows "\<exists>docs t. createRollbackSaga sys_world req from to now s = (Inr docs, t) \<and> calm (prefix ''sagas/'') s t \<and> sys_tokens t = sys_tokens s \<and>
    saga_kept (rbq_SagaID req) t (docs_Control docs)"
proof -
  let ?i = "rbq_SagaID req"
  obtain cr where cr: "DeploymentRollback now \<lparr>rbr_SagaID = rbq_SagaID req, rbr_OperationID = rbq_OperationID req, rbr_Service = rbq_Service req,
       rbr_Env = rbq_Env req, rbr_FromRelease = from, rbr_Target = rbq_TargetRelease req, rbr_TargetRelease = to,
       rbr_TraceID = rbq_TraceID req, rbr_Actor = rbq_Actor req, rbr_CreatedAt = now\<rparr> = Inr cr" "storable cr" "si_SagaID (creq_Intent cr) = ?i"
    using rollback_saga_made [OF req(1,2)] by blast
  obtain docs t e1 e2 e3 where c: "saga_Create sys_world cr s = (Inr docs, t)" "sys_env t = []" "sys_now t = sys_now s" "sys_tokens t = sys_tokens s"
    "docs_Control docs = control_document ?i e3 (cdoc_Meta (docs_Control docs)) (creq_Control cr)"
    "sys_objs t = (sys_objs s)(saga_intent_key ?i \<mapsto> (e1, JsonBody (enc_SagaIntent (creq_Intent cr))),
      saga_graph_key ?i \<mapsto> (e2, JsonBody (enc_SagaGraph (creq_Graph cr))), saga_key ?i \<mapsto> (e3, JsonBody (enc_SagaControl (creq_Control cr))))"
    using alone_saga_Create [OF s(1) cr(2)] req(3) cr(3) by auto
  have "sys_inv t" by (rule quiet_inv [OF sysw.quiet_saga_leases(1) s(2) c(1)])
  then have "calm (prefix ''sagas/'') s t" using c(2,3) by (auto simp: calm_def c(6) saga_key_def)
  moreover have "createRollbackSaga sys_world req from to now s = (Inr docs, t)" using cr(1) c(1) by (simp add: createRollbackSaga_def io_bind_def io_lift_def)
  moreover have "sct_Lease (creq_Control cr) = None"
    using rollback_made [OF cr(1)] by (auto simp: template_made_def zero_SagaControl_def)
  then have "saga_kept ?i t (docs_Control docs)" using storable_valid [OF cr(2)] cr(3)
    by (subst c(5)) (simp add: saga_kept_def control_document_def c(6))
  ultimately show ?thesis using c(4) by blast
qed

lemma intent_alone:
  assumes "sys_env s = []" "sys_inv s" "is_name (rbq_Service req)" "is_id (rbq_OperationID req)"
    "sys_objs s (intent_key (rbq_Service req) (rbq_OperationID req)) = None"
  shows "\<exists>t. createRollbackOperationIntent sys_world req from to now s = (Inr (), t) \<and>
    calm (\<lambda>k. k = intent_key (rbq_Service req) (rbq_OperationID req)) s t \<and> sys_tokens t = sys_tokens s"
proof -
  obtain m t where i: "os_Create sys_world (intent_key (rbq_Service req) (rbq_OperationID req))
      (JsonBody (enc_OperationIntent (rollbackIntent req from to now))) ops_putOptions s = (Inr m, t)"
    "calm (\<lambda>k. k = intent_key (rbq_Service req) (rbq_OperationID req)) s t" "sys_tokens t = sys_tokens s" using alone_create_calm [OF assms(1,2,5)] by blast
  have "raws_ok_OperationIntent (rollbackIntent req from to now)" by (simp add: raws_ok_OperationIntent_def rollbackIntent_def raw_valid_def)
  then show ?thesis using i assms(3,4)
    by (simp add: createRollbackOperationIntent_def io_bind_def io_lift_def deploy_paths canonical_Marshal_def io_ret_def)
qed

lemma calm_control: "calm K s t \<Longrightarrow> \<not> K (service_key svc) \<Longrightarrow> control_at (sys_objs t) (service_key svc) = control_at (sys_objs s) (service_key svc)"
  by (rule control_at_cong) (rule calm_objs)

lemma rollback_prepare_alone:
  assumes s: "sys_env s = []" "sys_inv s" and req: "complete_request req" and ready: "rollbackable s req c to m"
    and allowed: "rollback_authorize sys_world ul policy req s = (Inr dec, s)" and ok: "rbx_OK res"
  shows "\<exists>d t res'. rollback_prepare sys_world ul policy req now (s, res) = (Inr d, (t, res')) \<and> rbx_OK res' \<and> rbx_ToRelease res' = to \<and>
    sys_env t = [] \<and> sys_inv t \<and> sys_now t = sys_now s \<and> sys_tokens t = sys_tokens s \<and> saga_kept (rbq_SagaID req) t d \<and>
    control_at (sys_objs t) (service_key (rbq_Service req)) = control_at (sys_objs s) (service_key (rbq_Service req)) \<and>
    sys_objs t (op_key (rbq_Service req) (rbq_OperationID req)) = None"
proof -
  let ?svc = "rbq_Service req" and ?x = "rbq_OperationID req" and ?i = "rbq_SagaID req"
  note q = req [unfolded complete_request_def] and r = ready [unfolded rollbackable_def]
  obtain e where at: "control_at (sys_objs s) (service_key ?svc) = Some (e, c)" using r by blast
  obtain doc where g: "GetServiceControl sys_world ?svc s = (Inr doc, s)" "scd_Control doc = c"
    using alone_GetServiceControl [OF s(1) _ at] r q by (auto simp: paths_ServiceControl_iff)
  obtain hs where hs: "releaseHistory sys_world ?svc s = (Inr hs, s)" using history_alone [OF s(1)] q by blast
  obtain em where em: "sys_objs s (release_key ?svc to) = Some (em, JsonBody (enc_ReleaseManifest m))" using r by blast
  have m: "readReleaseManifest sys_world ?svc (rbq_Env req) to s = (Inr m, s)" by (rule manifest_alone [OF s(1) _ _ em]) (use q r in simp_all)
  let ?from = "sc_DesiredRelease c"
  obtain docs t1 where c1: "createRollbackSaga sys_world req ?from to now s = (Inr docs, t1)" "calm (prefix ''sagas/'') s t1" "sys_tokens t1 = sys_tokens s"
    "saga_kept ?i t1 (docs_Control docs)" using saga_alone [OF s req] r by blast
  have k: "\<not> prefix ''sagas/'' (service_key ?svc)" "\<not> prefix ''sagas/'' (op_key ?svc ?x)" "\<not> prefix ''sagas/'' (intent_key ?svc ?x)"
    by (simp_all add: service_key_def op_key_def intent_key_def)
  have t1: "sys_env t1 = []" "sys_inv t1" "sys_now t1 = sys_now s" using c1(2) by (simp_all add: calm_def)
  have "sys_objs t1 (intent_key ?svc ?x) = None" using calm_objs [OF c1(2) k(3)] r by simp
  then obtain t where c2: "createRollbackOperationIntent sys_world req ?from to now t1 = (Inr (), t)" "calm (\<lambda>k. k = intent_key ?svc ?x) t1 t"
    "sys_tokens t = sys_tokens t1" using intent_alone [OF t1(1,2)] q by blast
  let ?res = "res\<lparr>rbx_ServiceControl := Some c, rbx_FromRelease := ?from, rbx_ToRelease := to, rbx_ReleaseHistory := hs\<rparr>"
  have res: "resolveRollbackTarget c (rbq_TargetRelease req) = Inr to" using r by simp
  have "rollback_prepare sys_world ul policy req now (s, res) = (Inr (docs_Control docs), (t, ?res))"
    by (simp add: rollback_prepare_def ebind_def host_def eupdate_def ecall_def eret_def io_lift_def g res hs m allowed c1(1) c2(1))
  moreover have "saga_kept ?i t (docs_Control docs)" by (rule saga_kept_frame [OF c1(4)]) (rule calm_objs [OF c2(2)], simp)
  moreover have "control_at (sys_objs t) (service_key ?svc) = control_at (sys_objs s) (service_key ?svc)"
    using calm_control [OF c1(2) k(1)] calm_control [OF c2(2), of ?svc] by simp
  moreover have "sys_objs t (op_key ?svc ?x) = None" using calm_objs [OF c1(2) k(2)] calm_objs [OF c2(2), of "op_key ?svc ?x"] r by simp
  moreover have "sys_env t = []" "sys_inv t" "sys_now t = sys_now s" using c2(2) t1(3) by (simp_all add: calm_def)
  ultimately show ?thesis using c1(3) c2(3) ok
    by - (rule exI [of _ "docs_Control docs"], rule exI [of _ t], rule exI [of _ ?res], simp)
qed

lemma rollback_steps_alone:
  assumes s: "sys_env s = []" "sys_inv s" and req: "complete_request req" "\<not> rbq_NoWatch req" "0 < rbq_LeaseDuration req"
    and sg: "saga_kept (rbq_SagaID req) s (rv_sagaControl v)" and fresh: "sys_objs s (op_key (rbq_Service req) (rbq_OperationID req)) = None"
    and at: "control_at (sys_objs s) (service_key (rbq_Service req)) = Some (e, c)" "validateServiceControl c = Inr ()" "sc_Service c = rbq_Service req"
    and free: "activeLease (sc_Lease c) (sys_now s) = Inr False" "sc_Version c < 2 ^ 63 - 4" "time_ok (sys_now s + rbq_LeaseDuration req)"
    and tok: "\<forall>x \<in> set (sys_tokens s). TrimSpace x \<noteq> []" and ok: "rbx_OK (rv_result v)" and P: "rolls_out P" and to: "TrimSpace to \<noteq> []"
  shows "\<exists>t v'. rollback_steps sys_world P req from to now (s, v) = (Inr (), (t, v')) \<and> rolled_back req to t \<and> rbx_OK (rv_result v') \<and> \<not> rv_leaseHeld v'"
proof -
  let ?svc = "rbq_Service req" and ?x = "rbq_OperationID req" and ?i = "rbq_SagaID req"
  note q = req(1) [unfolded complete_request_def]
  let ?refs = "[rollbackStepResult ''resolve-target'' ''deployment.rollback.resolve_target'' ''succeeded'' now ''target_release'' to,
          rollbackStepResult ''create-operation'' ''operation.intent.create'' ''succeeded'' now ''operation_id'' ?x]"
  have refs: "\<forall>r \<in> set ?refs. validateStepResultRef r = Inr ()" by (simp add: good_ref printable_kind printable_def is_id_def isIDChar_def)
  have sg0: "saga_kept ?i s (rv_sagaControl (v\<lparr>rv_baseRefs := ?refs\<rparr>))" using sg by simp
  have "\<forall>x \<in> set [''acquire-service-lease'']. is_id x" by (simp add: is_id_def isIDChar_def)
  then obtain s1 d where p1: "rollback_updateSaga sys_world SagaRunning [''acquire-service-lease''] ?refs (s, v\<lparr>rv_baseRefs := ?refs\<rparr>) =
      (Inr (), (s1, v\<lparr>rv_baseRefs := ?refs, rv_sagaControl := d\<rparr>))" "frugal (\<lambda>k. k = saga_key ?i) s s1" "sys_tokens s1 = sys_tokens s" "saga_kept ?i s1 d"
    using saga_step [OF s sg0 _ _ refs, of SagaRunning "[''acquire-service-lease'']"] by auto
  have s1: "sys_env s1 = []" "sys_inv s1" "sys_now s1 = sys_now s" using frugal_alone [OF p1(2)] by simp_all
  have at1: "control_at (sys_objs s1) (service_key ?svc) = Some (e, c)"
    using at(1) calm_control [of "\<lambda>k. k = saga_key ?i" s s1 ?svc] p1(2) by (simp add: frugal_def)
  let ?o = "\<lparr>lop_Owner = act_ID (rbq_Actor req), lop_Duration = rbq_LeaseDuration req, lop_Actor = rbq_Actor req, lop_TraceID = rbq_TraceID req\<rparr>"
  have "TrimSpace (next_token s1) \<noteq> []" using nonblank_token [of s1] tok p1(3) by simp
  then obtain h doc s2 where a: "AcquireLease sys_world defaultRetryOptions ?svc ?o s1 = (Inr (h, doc), s2)" "svc_held s2 h (scd_Control doc)"
    "lh_Service h = ?svc" "sc_Version (scd_Control doc) = sc_Version c + 1"
    using session_acquire [OF s1(1,2) at1 at(2,3), of ?o defaultRetryOptions] free q req(3) s1(3) by auto
  have "touches (\<lambda>k. k = service_key ?svc) (AcquireLease sys_world defaultRetryOptions ?svc ?o)"
    by (rule touches_service_ops(1)) (simp add: paths_ServiceControl_iff)
  note o = touchesD(2) [OF this s1(1) a(1)]
  let ?v = "v\<lparr>rv_baseRefs := ?refs, rv_sagaControl := d, rv_handle := Some h, rv_leaseHeld := True\<rparr>"
  have v: "\<forall>r \<in> set (rv_baseRefs ?v). validateStepResultRef r = Inr ()" "rbx_OK (rv_result ?v)" using refs ok by simp_all
  have sg2: "saga_kept ?i s2 (rv_sagaControl ?v)" using saga_kept_frame [OF p1(4) o] by simp
  have fr2: "sys_objs s2 (op_key ?svc ?x) = None" using o [of "op_key ?svc ?x"] frugal_objs [OF p1(2), of "op_key ?svc ?x"] fresh by simp
  have tok2: "\<forall>x \<in> set (sys_tokens s2). TrimSpace x \<noteq> []" using thriftyD [OF thrifty_leases(1) a(1)] tok p1(3) by auto
  have ver: "sc_Version (scd_Control doc) < 2 ^ 63 - 3" using a(4) free(2) by simp
  obtain t v' where l: "rollback_leased sys_world P req from to now h (s2, ?v) = (Inr (), (t, v'))" "rolled_back req to t" "rbx_OK (rv_result v')" "\<not> rv_leaseHeld v'"
    using rollback_leased_alone [OF a(2,3) ver sg2 fr2 _ v tok2 P to req(2)] q by blast
  have "rollback_steps sys_world P req from to now (s, v) = (Inr (), (t, v'))"
    using l(1) by (simp add: rollback_steps_def Let_def ebind_def r_set_def eupdate_def eret_def ecall_def p1(1) a(1))
  then show ?thesis using l(2-4) by blast
qed

lemma rollback_duration: "0 < rbq_LeaseDuration (deploy_normalizeRollbackRequest req now)"
  by (simp add: deploy_normalizeRollbackRequest_def Let_def)

section \<open>Properties\<close>

text \<open>
  C11: a rollback completes. The client is alone; normalization completes the request, the policy allows it and it asks to watch the rollout (not
  \<^verbatim>\<open>NoWatch\<close>); the service exists with a free lease, the manifest of the target release is stored, the ids of saga and operation are unused; and the provider's rollouts start and
  succeed. Then \<^verbatim>\<open>Rollback\<close> returns without error, whether it goes to the stable release or to another one
  that the request names: the service then desires the target release, which is also its stable one, and its lease is free; the operation and the saga
  are recorded as succeeded.
\<close>

theorem rollback_completes:
  assumes alone: "sys_env s = []" "sys_inv s"
    and start: "req = deploy_normalizeRollbackRequest req0 (sys_now s)" "complete_request req" "\<not> rbq_NoWatch req" "rollbackable s req c to m"
    and allowed: "rollback_authorize sys_world ul policy req s = (Inr dec, s)" and provider: "rolls_out P"
  shows "\<exists>r t. Rollback sys_world (Some P) ul policy req0 s = ((Some r, None), t) \<and> rbx_OK r \<and> rolled_back req to t"
proof -
  have now: "w_Now sys_world s = (sys_now s, s)" using alone_now [OF alone(1)] by (simp add: io_now_def split: prod.splits)
  note q = start(2) [unfolded complete_request_def] and r = start(4) [unfolded rollbackable_def]
  obtain e where at: "control_at (sys_objs s) (service_key (rbq_Service req)) = Some (e, c)" using r by blast
  have ok: "rbx_OK (rollbackResult req)" by (simp add: rollbackResult_def)
  obtain d t1 res where p: "rollback_prepare sys_world ul policy req (sys_now s) (s, rollbackResult req) = (Inr d, (t1, res))" "rbx_OK res" "rbx_ToRelease res = to"
    "sys_env t1 = []" "sys_inv t1" "sys_now t1 = sys_now s" "sys_tokens t1 = sys_tokens s" "saga_kept (rbq_SagaID req) t1 d"
    "control_at (sys_objs t1) (service_key (rbq_Service req)) = Some (e, c)" "sys_objs t1 (op_key (rbq_Service req) (rbq_OperationID req)) = None"
    using rollback_prepare_alone [OF alone start(2,4) allowed ok, of "sys_now s"] at by auto
  let ?v = "\<lparr>rv_result = res, rv_handle = None, rv_leaseHeld = False, rv_operationControlCreated = False, rv_desiredUpdated = False,
             rv_sagaControl = d, rv_baseRefs = []\<rparr>"
  have dur: "0 < rbq_LeaseDuration req" unfolding start(1) by (rule rollback_duration)
  have to: "TrimSpace to \<noteq> []" using r is_id_trim is_id_nonempty by auto
  obtain t v where l: "rollback_steps sys_world P req (rbx_FromRelease res) to (sys_now s) (t1, ?v) = (Inr (), (t, v))" "rolled_back req to t" "rbx_OK (rv_result v)"
    "\<not> rv_leaseHeld v"
    using rollback_steps_alone [OF p(4,5) start(2,3) dur _ p(10,9) _ _ _ _ _ _ _ provider to, of ?v "rbx_FromRelease res" "sys_now s"] p(2,6-8) r by auto
  have "rollback_deferred sys_world v t = t" using l(4) by (simp add: rollback_deferred_def split: option.split)
  then have "Rollback sys_world (Some P) ul policy req0 s = ((Some (rv_result v), None), t)"
    using now p(1,3) l(1) alone(1) start(1) by (simp add: Rollback_def Let_def rollback_recorded_def)
  then show ?thesis using l(2,3) by blast
qed

text \<open>The service ''web'' desires ''r2'', its stable release is ''r1'', and a user rolls it back to ''r0''.\<close>

definition old_release :: ReleaseManifest where
  "old_release = demo_manifest\<lparr>rm_Env := ''prod'', rm_ReleaseID := ''r0''\<rparr>"

definition back_sys :: sys where
  "back_sys = \<lparr>sys_store = snd (memory_Create None (release_key ''web'' ''r0'') (JsonBody (enc_ReleaseManifest old_release)) no_options
     (snd (memory_Create None (service_key ''web'') (JsonBody (enc_ServiceControl roll_control)) no_options memory_New))),
     sys_now = 1000, sys_tokens = [], sys_events = [], sys_env = [], sys_history = []\<rparr>"

definition back_request :: deploy_RollbackRequest where
  "back_request = \<lparr>rbq_Actor = \<lparr>act_ID = ''ana'', act_Type = ''user''\<rparr>, rbq_TraceID = ''tr_1'', rbq_Service = ''web'', rbq_Env = ''prod'', rbq_TargetRelease = ''r0'',
     rbq_OperationID = ''op-1'', rbq_SagaID = ''s-1'', rbq_ApprovalID = [], rbq_LeaseDuration = 60000000000, rbq_NoWatch = False,
     rbq_MinHealthyPercentage = 90, rbq_InstanceWarmup = 0\<rparr>"

lemma back_objs:
  "sys_objs back_sys k = (if k = release_key ''web'' ''r0'' then Some (etagForVersion 1, JsonBody (enc_ReleaseManifest old_release))
     else if k = service_key ''web'' then Some (etagForVersion 1, JsonBody (enc_ServiceControl roll_control)) else None)"
  by (simp add: sys_objs_def back_sys_def memory_objs_def memory_Create_def memory_New_def nextTimeLocked_def Let_def)

lemma back_facts:
  "sys_env back_sys = []" "sys_inv back_sys" "sys_now back_sys = 1000" "sys_tokens back_sys = []"
  "control_at (sys_objs back_sys) (service_key ''web'') = Some (etagForVersion 1, roll_control)"
proof -
  have "wf_ServiceControl roll_control"
    by (simp add: wf_ServiceControl_def roll_control_def web_control_def NewServiceControl_def zero_ServiceControl_def in_int64_def)
  then show "control_at (sys_objs back_sys) (service_key ''web'') = Some (etagForVersion 1, roll_control)"
    by (simp add: control_at_def back_objs canonical_UnmarshalStrict_def codec_ServiceControl)
  show "sys_inv back_sys"
    by (simp add: sys_inv_def back_sys_def memory_Create_def memory_New_def nextTimeLocked_def Let_def memory_inv_def entry_ok_def
        release_key_def service_key_def)
qed (simp_all add: back_sys_def)

lemma back_normalized: "deploy_normalizeRollbackRequest back_request now = back_request"
  by (simp add: deploy_normalizeRollbackRequest_def back_request_def Let_def or_else_def tpl_trace_def tpl_operation_def tpl_saga_def tpl_actor_def
      TrimSpace_printable printable_def)

lemma back_complete: "complete_request back_request"
  by (simp add: complete_request_def back_request_def is_name_def is_id_def isLowerAlnum_def reservedSegments_def isIDChar_def Let_def
      TrimSpace_printable printable_def)

lemma back_rollbackable: "rollbackable back_sys back_request roll_control ''r0'' old_release"
proof -
  have v: "validateServiceControl roll_control = Inr ()"
    using validateServiceControl_ok(1-4) [OF web_facts(5)] web_facts(7)
    by (simp add: roll_control_def validateServiceControl_def rbind_def validateName_iff)
  have w: "sc_Service roll_control = ''web''" "sc_Lease roll_control = None" "sc_Version roll_control = 1" "sc_DesiredRelease roll_control = ''r2''"
    using web_facts(6-8) by (simp_all add: roll_control_def)
  have m: "rm_Service old_release = ''web''" "rm_Env old_release = ''prod''" "rm_ReleaseID old_release = ''r0''"
    by (simp_all add: old_release_def demo_manifest_def)
  have q: "rbq_Service back_request = ''web''" "rbq_Env back_request = ''prod''" "rbq_TargetRelease back_request = ''r0''" "rbq_OperationID back_request = ''op-1''"
    "rbq_SagaID back_request = ''s-1''" "rbq_LeaseDuration back_request = 60000000000" by (simp_all add: back_request_def)
  have n: "unused ''s-1'' back_sys" "sys_objs back_sys (op_key ''web'' ''op-1'') = None" "sys_objs back_sys (intent_key ''web'' ''op-1'') = None"
    by (simp_all add: unused_def back_objs release_key_def service_key_def op_key_def intent_key_def)
  have r: "resolveRollbackTarget roll_control ''r0'' = Inr ''r0''"
    by (simp add: resolveRollbackTarget_def w RollbackPreviousStable_def PreviousStable_def TrimSpace_printable printable_def)
  have "is_id ''r0''" by (simp add: is_id_def isIDChar_def Let_def)
  then show ?thesis unfolding rollbackable_def q using v w m n r back_facts
    by (simp add: back_objs activeLease_def time_ok_int64 in_int64_def)
qed

lemma back_allowed: "\<exists>dec. rollback_authorize sys_world (\<lambda>x. x) None back_request back_sys = (Inr dec, back_sys)"
proof -
  let ?q = "\<lparr>azr_Actor = rbq_Actor back_request, azr_Action = ActionRollback,
      azr_Target = zero_Target\<lparr>tgt_Kind := ''service'', tgt_Name := rbq_Service back_request\<rparr>,
      azr_Env = rbq_Env back_request, azr_Service = rbq_Service back_request, azr_Risk = RiskMedium, azr_ApprovalID = rbq_ApprovalID back_request,
      azr_ApprovalRole = [], azr_DryRun = False, azr_PlanOnly = False, azr_TraceID = rbq_TraceID back_request\<rparr>"
  have "policy_allows (\<lambda>x. x) (authz_normalizeRequest (\<lambda>x. x) ?q)" by code_simp
  then have "snd (authz_decide (\<lambda>x. x) ?q) = None" "dcs_Allowed (fst (authz_decide (\<lambda>x. x) ?q))"
    using authz_decide_iff [of "\<lambda>x. x" ?q] by blast+
  then show ?thesis using back_facts(1)
    by (cases "authz_decide (\<lambda>x. x) ?q") (simp add: rollback_authorize_def MustAuthorize_def authz_policy_def DefaultPolicy_def)
qed

lemma roll_provider_succeeds: "rolls_out (roll_provider ''succeeded'')"
  by (simp add: rolls_out_def roll_provider_def io_ret_def)

theorem rollback_completes_witness:
  "\<exists>r t. Rollback sys_world (Some (roll_provider ''succeeded'')) (\<lambda>x. x) None back_request back_sys = ((Some r, None), t) \<and> rbx_OK r \<and>
     rolled_back back_request ''r0'' t"
proof -
  obtain dec where "rollback_authorize sys_world (\<lambda>x. x) None back_request back_sys = (Inr dec, back_sys)" using back_allowed by blast
  moreover have "\<not> rbq_NoWatch back_request" by (simp add: back_request_def)
  ultimately show ?thesis
    using rollback_completes [OF back_facts(1,2) back_normalized [symmetric] back_complete _ back_rollbackable _ roll_provider_succeeds] by blast
qed

end
