(* ===== verification/Candidate_Schema.thy ===== *)
theory Candidate_Schema
  imports Release_Schema
begin

text \<open>
  Release candidates (internal/state/schema/schema.go): the artifact, where it comes from and the evidence about it, and the JSON codecs.
\<close>

section \<open>Records\<close>

record GitMetadata =
  gmd_Repo :: string
  gmd_SHA :: string
  gmd_Ref :: string
  gmd_Branch :: string

record CIMetadata =
  cim_Provider :: string
  cim_RunID :: string
  cim_RunURL :: string
  cim_JobURL :: string

record EvidenceCheck =
  ech_Name :: string
  ech_Status :: string
  ech_URL :: string
  ech_Summary :: string
  ech_CompletedAt :: string

record EvidenceRef =
  erf_Name :: string
  erf_URI :: string
  erf_Digest :: string

record ReleaseCandidate =
  rcd_SchemaVersion :: string
  rcd_CandidateID :: string
  rcd_Service :: string
  rcd_Env :: string
  rcd_ReleaseID :: string
  rcd_Artifact :: ArtifactRef
  rcd_Git :: GitMetadata
  rcd_CI :: CIMetadata
  rcd_Checks :: "EvidenceCheck list"
  rcd_SBOM :: "EvidenceRef list"
  rcd_Provenance :: "EvidenceRef list"
  rcd_CreatedAt :: string
  rcd_CreatedBy :: Actor
  rcd_TraceID :: string
  rcd_Annotations :: go_map

section \<open>Zero values\<close>

definition zero_GitMetadata :: GitMetadata where
  "zero_GitMetadata = \<lparr>gmd_Repo = [], gmd_SHA = [], gmd_Ref = [], gmd_Branch = []\<rparr>"

definition zero_CIMetadata :: CIMetadata where
  "zero_CIMetadata = \<lparr>cim_Provider = [], cim_RunID = [], cim_RunURL = [], cim_JobURL = []\<rparr>"

definition zero_EvidenceCheck :: EvidenceCheck where
  "zero_EvidenceCheck = \<lparr>ech_Name = [], ech_Status = [], ech_URL = [], ech_Summary = [], ech_CompletedAt = []\<rparr>"

definition zero_EvidenceRef :: EvidenceRef where
  "zero_EvidenceRef = \<lparr>erf_Name = [], erf_URI = [], erf_Digest = []\<rparr>"

definition zero_ReleaseCandidate :: ReleaseCandidate where
  "zero_ReleaseCandidate = \<lparr>rcd_SchemaVersion = [], rcd_CandidateID = [], rcd_Service = [], rcd_Env = [], rcd_ReleaseID = [],
     rcd_Artifact = zero_ArtifactRef, rcd_Git = zero_GitMetadata, rcd_CI = zero_CIMetadata, rcd_Checks = [], rcd_SBOM = [], rcd_Provenance = [],
     rcd_CreatedAt = [], rcd_CreatedBy = zero_Actor, rcd_TraceID = [], rcd_Annotations = []\<rparr>"

section \<open>Codecs\<close>

definition names_GitMetadata :: "string list" where
  "names_GitMetadata = [''repo'', ''sha'', ''ref'', ''branch'']"

definition enc_GitMetadata :: "GitMetadata \<Rightarrow> json" where
  "enc_GitMetadata x = enc_obj [
     (''repo'', o_str (gmd_Repo x)),
     (''sha'', o_str (gmd_SHA x)),
     (''ref'', o_str (gmd_Ref x)),
     (''branch'', o_str (gmd_Branch x))]"

definition dec_GitMetadata :: "json \<Rightarrow> GitMetadata result" where
  "dec_GitMetadata = dec_struct names_GitMetadata (\<lambda>g.
     rbind (d_str (g ''repo'')) (\<lambda>v0.
     rbind (d_str (g ''sha'')) (\<lambda>v1.
     rbind (d_str (g ''ref'')) (\<lambda>v2.
     rbind (d_str (g ''branch'')) (\<lambda>v3.
     Inr \<lparr>gmd_Repo = v0, gmd_SHA = v1, gmd_Ref = v2, gmd_Branch = v3\<rparr>)))))"

definition names_CIMetadata :: "string list" where
  "names_CIMetadata = [''provider'', ''run_id'', ''run_url'', ''job_url'']"

definition enc_CIMetadata :: "CIMetadata \<Rightarrow> json" where
  "enc_CIMetadata x = enc_obj [
     (''provider'', o_str (cim_Provider x)),
     (''run_id'', o_str (cim_RunID x)),
     (''run_url'', o_str (cim_RunURL x)),
     (''job_url'', o_str (cim_JobURL x))]"

definition dec_CIMetadata :: "json \<Rightarrow> CIMetadata result" where
  "dec_CIMetadata = dec_struct names_CIMetadata (\<lambda>g.
     rbind (d_str (g ''provider'')) (\<lambda>v0.
     rbind (d_str (g ''run_id'')) (\<lambda>v1.
     rbind (d_str (g ''run_url'')) (\<lambda>v2.
     rbind (d_str (g ''job_url'')) (\<lambda>v3.
     Inr \<lparr>cim_Provider = v0, cim_RunID = v1, cim_RunURL = v2, cim_JobURL = v3\<rparr>)))))"

definition names_EvidenceCheck :: "string list" where
  "names_EvidenceCheck = [''name'', ''status'', ''url'', ''summary'', ''completed_at'']"

definition enc_EvidenceCheck :: "EvidenceCheck \<Rightarrow> json" where
  "enc_EvidenceCheck x = enc_obj [
     (''name'', e_str (ech_Name x)),
     (''status'', e_str (ech_Status x)),
     (''url'', o_str (ech_URL x)),
     (''summary'', o_str (ech_Summary x)),
     (''completed_at'', o_str (ech_CompletedAt x))]"

definition dec_EvidenceCheck :: "json \<Rightarrow> EvidenceCheck result" where
  "dec_EvidenceCheck = dec_struct names_EvidenceCheck (\<lambda>g.
     rbind (d_str (g ''name'')) (\<lambda>v0.
     rbind (d_str (g ''status'')) (\<lambda>v1.
     rbind (d_str (g ''url'')) (\<lambda>v2.
     rbind (d_str (g ''summary'')) (\<lambda>v3.
     rbind (d_str (g ''completed_at'')) (\<lambda>v4.
     Inr \<lparr>ech_Name = v0, ech_Status = v1, ech_URL = v2, ech_Summary = v3, ech_CompletedAt = v4\<rparr>))))))"

definition names_EvidenceRef :: "string list" where
  "names_EvidenceRef = [''name'', ''uri'', ''digest'']"

definition enc_EvidenceRef :: "EvidenceRef \<Rightarrow> json" where
  "enc_EvidenceRef x = enc_obj [
     (''name'', o_str (erf_Name x)),
     (''uri'', e_str (erf_URI x)),
     (''digest'', o_str (erf_Digest x))]"

definition dec_EvidenceRef :: "json \<Rightarrow> EvidenceRef result" where
  "dec_EvidenceRef = dec_struct names_EvidenceRef (\<lambda>g.
     rbind (d_str (g ''name'')) (\<lambda>v0.
     rbind (d_str (g ''uri'')) (\<lambda>v1.
     rbind (d_str (g ''digest'')) (\<lambda>v2.
     Inr \<lparr>erf_Name = v0, erf_URI = v1, erf_Digest = v2\<rparr>))))"

definition names_ReleaseCandidate :: "string list" where
  "names_ReleaseCandidate = [''schema_version'', ''candidate_id'', ''service'', ''env'', ''release_id'', ''artifact'', ''git'', ''ci'', ''checks'', ''sbom'', ''provenance'', ''created_at'', ''created_by'', ''trace_id'', ''annotations'']"

definition enc_ReleaseCandidate :: "ReleaseCandidate \<Rightarrow> json" where
  "enc_ReleaseCandidate x = enc_obj [
     (''schema_version'', e_str (rcd_SchemaVersion x)),
     (''candidate_id'', e_str (rcd_CandidateID x)),
     (''service'', e_str (rcd_Service x)),
     (''env'', e_str (rcd_Env x)),
     (''release_id'', o_str (rcd_ReleaseID x)),
     (''artifact'', e_sub enc_ArtifactRef (rcd_Artifact x)),
     (''git'', e_sub enc_GitMetadata (rcd_Git x)),
     (''ci'', e_sub enc_CIMetadata (rcd_CI x)),
     (''checks'', o_list enc_EvidenceCheck (rcd_Checks x)),
     (''sbom'', o_list enc_EvidenceRef (rcd_SBOM x)),
     (''provenance'', o_list enc_EvidenceRef (rcd_Provenance x)),
     (''created_at'', e_str (rcd_CreatedAt x)),
     (''created_by'', e_sub enc_Actor (rcd_CreatedBy x)),
     (''trace_id'', o_str (rcd_TraceID x)),
     (''annotations'', o_map (rcd_Annotations x))]"

definition dec_ReleaseCandidate :: "json \<Rightarrow> ReleaseCandidate result" where
  "dec_ReleaseCandidate = dec_struct names_ReleaseCandidate (\<lambda>g.
     rbind (d_str (g ''schema_version'')) (\<lambda>v0.
     rbind (d_str (g ''candidate_id'')) (\<lambda>v1.
     rbind (d_str (g ''service'')) (\<lambda>v2.
     rbind (d_str (g ''env'')) (\<lambda>v3.
     rbind (d_str (g ''release_id'')) (\<lambda>v4.
     rbind (d_sub zero_ArtifactRef dec_ArtifactRef (g ''artifact'')) (\<lambda>v5.
     rbind (d_sub zero_GitMetadata dec_GitMetadata (g ''git'')) (\<lambda>v6.
     rbind (d_sub zero_CIMetadata dec_CIMetadata (g ''ci'')) (\<lambda>v7.
     rbind (d_list dec_EvidenceCheck (g ''checks'')) (\<lambda>v8.
     rbind (d_list dec_EvidenceRef (g ''sbom'')) (\<lambda>v9.
     rbind (d_list dec_EvidenceRef (g ''provenance'')) (\<lambda>v10.
     rbind (d_str (g ''created_at'')) (\<lambda>v11.
     rbind (d_sub zero_Actor dec_Actor (g ''created_by'')) (\<lambda>v12.
     rbind (d_str (g ''trace_id'')) (\<lambda>v13.
     rbind (d_map (g ''annotations'')) (\<lambda>v14.
     Inr \<lparr>rcd_SchemaVersion = v0, rcd_CandidateID = v1, rcd_Service = v2, rcd_Env = v3, rcd_ReleaseID = v4, rcd_Artifact = v5, rcd_Git = v6, rcd_CI = v7,
       rcd_Checks = v8, rcd_SBOM = v9, rcd_Provenance = v10, rcd_CreatedAt = v11, rcd_CreatedBy = v12, rcd_TraceID = v13, rcd_Annotations = v14\<rparr>))))))))))))))))"

definition wf_ReleaseCandidate :: "ReleaseCandidate \<Rightarrow> bool" where
  "wf_ReleaseCandidate x = (wf_map (rcd_Annotations x))"

section \<open>Round trips\<close>

lemma names_ok_GitMetadata: "names_ok names_GitMetadata"
  by (simp add: names_ok_def names_GitMetadata_def fold_key_def lower_char_def)

lemma enc_GitMetadata_not_null [simp]: "enc_GitMetadata x \<noteq> JNull"
  by (simp add: enc_GitMetadata_def)

lemma codec_GitMetadata [codec_simps]: "dec_GitMetadata (enc_GitMetadata x) = Inr x"
  unfolding dec_GitMetadata_def enc_GitMetadata_def
  by (subst dec_struct_enc_obj [OF names_ok_GitMetadata])
    (auto simp: names_GitMetadata_def codec_simps dec_str_def)

lemma names_ok_CIMetadata: "names_ok names_CIMetadata"
  by (simp add: names_ok_def names_CIMetadata_def fold_key_def lower_char_def)

lemma enc_CIMetadata_not_null [simp]: "enc_CIMetadata x \<noteq> JNull"
  by (simp add: enc_CIMetadata_def)

lemma codec_CIMetadata [codec_simps]: "dec_CIMetadata (enc_CIMetadata x) = Inr x"
  unfolding dec_CIMetadata_def enc_CIMetadata_def
  by (subst dec_struct_enc_obj [OF names_ok_CIMetadata])
    (auto simp: names_CIMetadata_def codec_simps dec_str_def)

lemma names_ok_EvidenceCheck: "names_ok names_EvidenceCheck"
  by (simp add: names_ok_def names_EvidenceCheck_def fold_key_def lower_char_def)

lemma enc_EvidenceCheck_not_null [simp]: "enc_EvidenceCheck x \<noteq> JNull"
  by (simp add: enc_EvidenceCheck_def)

lemma codec_EvidenceCheck [codec_simps]: "dec_EvidenceCheck (enc_EvidenceCheck x) = Inr x"
  unfolding dec_EvidenceCheck_def enc_EvidenceCheck_def
  by (subst dec_struct_enc_obj [OF names_ok_EvidenceCheck])
    (auto simp: names_EvidenceCheck_def codec_simps dec_str_def)

lemma names_ok_EvidenceRef: "names_ok names_EvidenceRef"
  by (simp add: names_ok_def names_EvidenceRef_def fold_key_def lower_char_def)

lemma enc_EvidenceRef_not_null [simp]: "enc_EvidenceRef x \<noteq> JNull"
  by (simp add: enc_EvidenceRef_def)

lemma codec_EvidenceRef [codec_simps]: "dec_EvidenceRef (enc_EvidenceRef x) = Inr x"
  unfolding dec_EvidenceRef_def enc_EvidenceRef_def
  by (subst dec_struct_enc_obj [OF names_ok_EvidenceRef])
    (auto simp: names_EvidenceRef_def codec_simps dec_str_def)

lemma names_ok_ReleaseCandidate: "names_ok names_ReleaseCandidate"
  by (simp add: names_ok_def names_ReleaseCandidate_def fold_key_def lower_char_def)

lemma enc_ReleaseCandidate_not_null [simp]: "enc_ReleaseCandidate x \<noteq> JNull"
  by (simp add: enc_ReleaseCandidate_def)

lemma codec_ReleaseCandidate [codec_simps]: "wf_ReleaseCandidate x \<Longrightarrow> dec_ReleaseCandidate (enc_ReleaseCandidate x) = Inr x"
  unfolding dec_ReleaseCandidate_def enc_ReleaseCandidate_def
  by (subst dec_struct_enc_obj [OF names_ok_ReleaseCandidate])
    (auto simp: names_ReleaseCandidate_def codec_simps dec_str_def wf_ReleaseCandidate_def list_all_iff option.pred_set)

lemma dec_wf_ReleaseCandidate [dec_wf]: "dec_ReleaseCandidate j = Inr x \<Longrightarrow> wf_ReleaseCandidate x"
  unfolding dec_ReleaseCandidate_def wf_ReleaseCandidate_def
  by (drule dec_struct_InrD) (auto simp: rbind_Inr_iff intro: dec_wf)

end
