(* ===== verification/Promotion.thy ===== *)
theory Promotion
  imports Candidate_Schema Rollback
begin

text \<open>
  Release candidates, their promotion between environments, and the list of a service's releases (internal/release/candidate.go,
  promotion.go, list.go, authz.go). The object store is the world, so it is never missing.
\<close>

section \<open>Errors\<close>

datatype release_error = CandidateError string string "goerr option" | PlainError goerr

fun release_error_text :: "release_error \<Rightarrow> string" where
  "release_error_text (CandidateError code summary None) = summary"
| "release_error_text (CandidateError code summary (Some err)) = summary @ '': '' @ err_text err"
| "release_error_text (PlainError err) = err_text err"

type_synonym ('s, 'a) relio = "('s, release_error, 'a) eio"

text \<open>A call that fails with an error of the Go library or of another package, and a result of such a call.\<close>

definition rel_io :: "(goerr \<Rightarrow> release_error) \<Rightarrow> ('s, 'a) io \<Rightarrow> ('s, 'a) relio" where
  "rel_io f m s = (case m s of (Inl err, t) \<Rightarrow> (Inl (f err), t) | (Inr x, t) \<Rightarrow> (Inr x, t))"

definition rel_lift :: "release_error + 'a \<Rightarrow> ('s, 'a) relio" where
  "rel_lift r s = (r, s)"

definition with_code :: "string \<Rightarrow> goerr \<Rightarrow> release_error" where
  "with_code code err = CandidateError code (err_text err) (Some err)"

definition rel_error :: "(goerr \<Rightarrow> release_error) \<Rightarrow> 'a result \<Rightarrow> release_error + 'a" where
  "rel_error f r = (case r of Inl err \<Rightarrow> Inl (f err) | Inr x \<Rightarrow> Inr x)"

text \<open>Checks one after the other, the first failure is the result.\<close>

definition rel_check :: "release_error + unit \<Rightarrow> release_error + unit \<Rightarrow> release_error + unit" where
  "rel_check a b = (case a of Inl err \<Rightarrow> Inl err | Inr _ \<Rightarrow> b)"

section \<open>Release candidates\<close>

record CandidateCreateRequest =
  ccq_CandidateID :: string
  ccq_Service :: string
  ccq_Env :: string
  ccq_ReleaseID :: string
  ccq_Artifact :: ArtifactRef
  ccq_Git :: GitMetadata
  ccq_CI :: CIMetadata
  ccq_Checks :: "EvidenceCheck list"
  ccq_SBOM :: "EvidenceRef list"
  ccq_Provenance :: "EvidenceRef list"
  ccq_Actor :: Actor
  ccq_TraceID :: string
  ccq_Annotations :: go_map

record CandidateDocument =
  cnd_Key :: string
  cnd_Meta :: ObjectMeta
  cnd_Candidate :: ReleaseCandidate

record CandidateCreateResult =
  ccr_OK :: bool
  ccr_Candidate :: ReleaseCandidate
  ccr_Key :: string
  ccr_TraceID :: string
  ccr_Events :: "events_Event list"

definition release_actor :: "Actor \<Rightarrow> Actor" where
  "release_actor actor0 =
     (let actor = (if act_ID actor0 = [] then \<lparr>act_ID = ''skiff-cli'', act_Type = ''user''\<rparr> else actor0)
      in if act_Type actor = [] then actor\<lparr>act_Type := ''user''\<rparr> else actor)"

definition normalizeCandidateRequest :: "CandidateCreateRequest \<Rightarrow> gotime \<Rightarrow> CandidateCreateRequest" where
  "normalizeCandidateRequest req now =
     (let service = TrimSpace (ccq_Service req);
          artifact = ccq_Artifact req;
          trace = or_else (ccq_TraceID req) (''tr_'' @ NewID now now (service @ ''candidate''))
      in req\<lparr>ccq_Service := service, ccq_Env := TrimSpace (ccq_Env req),
           ccq_CandidateID := or_else (TrimSpace (ccq_CandidateID req)) (''cand_'' @ NewID now now (trace @ service)),
           ccq_ReleaseID := TrimSpace (ccq_ReleaseID req),
           ccq_Artifact := artifact\<lparr>af_Type := or_else (TrimSpace (af_Type artifact)) ''oci'', af_URI := TrimSpace (af_URI artifact),
             af_Digest := TrimSpace (af_Digest artifact)\<rparr>,
           ccq_Actor := release_actor (ccq_Actor req), ccq_TraceID := trace\<rparr>)"

definition isSHA256Digest :: "string \<Rightarrow> bool" where
  "isSHA256Digest value0 =
     (let x = TrimSpace value0 in
      length x = length ''sha256:'' + 64 \<and> prefix ''sha256:'' x \<and>
      list_all (\<lambda>c. byte_in 48 57 c \<or> byte_in 97 102 c \<or> byte_in 65 70 c) (drop (length ''sha256:'') x))"

definition validateCandidate :: "ReleaseCandidate \<Rightarrow> release_error + unit" where
  "validateCandidate candidate =
     (if rcd_SchemaVersion candidate \<noteq> schema_Version then
        Inl (CandidateError ''INVALID_RELEASE_CANDIDATE''
          (''unsupported release candidate schema version '' @ quote (rcd_SchemaVersion candidate)) None)
      else
        rel_check (rel_error (with_code ''RELEASE_CANDIDATE_INVALID'') (validateID ''candidate'' (rcd_CandidateID candidate)))
       (rel_check (rel_error (with_code ''RELEASE_CANDIDATE_INVALID'') (validateName ''service'' (rcd_Service candidate)))
       (rel_check (rel_error (with_code ''RELEASE_CANDIDATE_INVALID'') (validateName ''env'' (rcd_Env candidate)))
       (rel_check (if rcd_ReleaseID candidate \<noteq> []
          then rel_error (with_code ''RELEASE_CANDIDATE_INVALID'') (validateID ''release'' (rcd_ReleaseID candidate)) else Inr ())
         (if af_URI (rcd_Artifact candidate) = [] then
            Inl (CandidateError ''RELEASE_CANDIDATE_INVALID'' ''artifact URI is required'' None)
          else if \<not> isSHA256Digest (af_Digest (rcd_Artifact candidate)) then
            Inl (CandidateError ''RELEASE_CANDIDATE_INVALID'' ''artifact digest must use sha256:<64 hex chars>'' None)
          else if rcd_CreatedAt candidate = [] then Inl (CandidateError ''RELEASE_CANDIDATE_INVALID'' ''created_at is required'' None)
          else if act_ID (rcd_CreatedBy candidate) = [] then
            Inl (CandidateError ''RELEASE_CANDIDATE_INVALID'' ''created_by.id is required'' None)
          else Inr ())))))"

definition normalizeCheck :: "(string \<Rightarrow> string) \<Rightarrow> EvidenceCheck \<Rightarrow> EvidenceCheck" where
  "normalizeCheck ul check = check\<lparr>ech_Name := TrimSpace (strings_ToLower ul (ech_Name check)),
     ech_Status := TrimSpace (strings_ToLower ul (ech_Status check)), ech_URL := TrimSpace (ech_URL check),
     ech_Summary := TrimSpace (ech_Summary check), ech_CompletedAt := TrimSpace (ech_CompletedAt check)\<rparr>"

text \<open>By name, then by status; checks that agree in both stay in their order, which \<^verbatim>\<open>sort.Slice\<close> leaves open.\<close>

definition normalizeChecks :: "(string \<Rightarrow> string) \<Rightarrow> EvidenceCheck list \<Rightarrow> EvidenceCheck list" where
  "normalizeChecks ul checks = sort_key (\<lambda>check. [ech_Name check, ech_Status check]) (map (normalizeCheck ul) checks)"

definition candidateOf :: "(string \<Rightarrow> string) \<Rightarrow> CandidateCreateRequest \<Rightarrow> gotime \<Rightarrow> ReleaseCandidate" where
  "candidateOf ul req now =
     \<lparr>rcd_SchemaVersion = schema_Version, rcd_CandidateID = ccq_CandidateID req, rcd_Service = ccq_Service req, rcd_Env = ccq_Env req,
      rcd_ReleaseID = ccq_ReleaseID req, rcd_Artifact = ccq_Artifact req, rcd_Git = ccq_Git req, rcd_CI = ccq_CI req,
      rcd_Checks = normalizeChecks ul (ccq_Checks req), rcd_SBOM = ccq_SBOM req, rcd_Provenance = ccq_Provenance req,
      rcd_CreatedAt = canonical_Time now, rcd_CreatedBy = ccq_Actor req, rcd_TraceID = ccq_TraceID req, rcd_Annotations = ccq_Annotations req\<rparr>"

definition candidateEvent :: "ReleaseCandidate \<Rightarrow> gotime \<Rightarrow> events_Event" where
  "candidateEvent candidate now =
     (NewServiceEvent now (rcd_Service candidate) ''release_candidate.created'' (''release candidate '' @ rcd_CandidateID candidate @ '' created'') now
        (rcd_TraceID candidate @ rcd_CandidateID candidate @ ''candidate''))
     \<lparr>ee_TraceID := rcd_TraceID candidate, ee_Actor := Some (rcd_CreatedBy candidate),
      ee_Facts := [zero_Fact\<lparr>fct_Type := ''candidate_id'', fct_Message := rcd_CandidateID candidate\<rparr>,
        zero_Fact\<lparr>fct_Type := ''release_id'', fct_Message := rcd_ReleaseID candidate\<rparr>,
        zero_Fact\<lparr>fct_Type := ''artifact_digest'', fct_Message := af_Digest (rcd_Artifact candidate)\<rparr>]\<rparr>"

definition candidateAudit :: "ReleaseCandidate \<Rightarrow> string \<Rightarrow> gotime \<Rightarrow> AuditRecord" where
  "candidateAudit candidate key now =
     (NewAuditRecord now (rcd_CreatedBy candidate) (zero_Target\<lparr>tgt_Kind := ''service'', tgt_Name := rcd_Service candidate\<rparr>) ''release_candidate.create''
        (''created release candidate '' @ rcd_CandidateID candidate) (rcd_TraceID candidate) now (rcd_CandidateID candidate @ ''audit''))
     \<lparr>ar_Risk := RiskLow,
      ar_Data := Raw (JObj [(''artifact_digest'', JStr (af_Digest (rcd_Artifact candidate))), (''candidate_id'', JStr (rcd_CandidateID candidate)),
        (''candidate_key'', JStr key), (''release_id'', JStr (rcd_ReleaseID candidate))])\<rparr>"

text \<open>Appending an event whose failure is ignored: the events that were written.\<close>

definition loggedEvent :: "('s, 'z) World_scheme \<Rightarrow> (gotime \<Rightarrow> events_Event) \<Rightarrow> ('s, events_Event list) io" where
  "loggedEvent W f =
     io_bind (io_now W) (\<lambda>now.
     io_bind (io_try (log_Append W (f now))) (\<lambda>r. io_ret (case r of Inr _ \<Rightarrow> [f now] | Inl _ \<Rightarrow> [])))"

definition candidateLog :: "('s, 'z) World_scheme \<Rightarrow> ReleaseCandidate \<Rightarrow> string \<Rightarrow> ('s, events_Event list) io" where
  "candidateLog W candidate key =
     io_bind (loggedEvent W (candidateEvent candidate)) (\<lambda>logged.
     io_bind (io_now W) (\<lambda>now.
     io_bind (io_try (log_AppendAudit W (candidateAudit candidate key now))) (\<lambda>_.
     io_ret logged)))"

definition create_failed :: "goerr \<Rightarrow> release_error" where
  "create_failed err = CandidateError
     (if is_store ErrAlreadyExists err then ''RELEASE_CANDIDATE_EXISTS'' else ''RELEASE_CANDIDATE_CREATE_FAILED'')
     ''release candidate object could not be created'' (Some err)"

definition CreateCandidate ::
  "('s, 'z) World_scheme \<Rightarrow> (string \<Rightarrow> string) \<Rightarrow> CandidateCreateRequest \<Rightarrow> ('s, CandidateCreateResult) relio" where
  "CreateCandidate W ul req0 =
     ebind (rel_io PlainError (io_ctx W)) (\<lambda>_.
     ebind (rel_io PlainError (io_now W)) (\<lambda>now.
     (let req = normalizeCandidateRequest req0 now; candidate = candidateOf ul req now in
      ebind (rel_lift (validateCandidate candidate)) (\<lambda>_.
      ebind (rel_lift (rel_error (with_code ''RELEASE_CANDIDATE_INVALID'') (paths_ReleaseCandidate (rcd_Service candidate) (rcd_CandidateID candidate)))) (\<lambda>key.
      ebind (rel_io PlainError (io_lift (canonical_Marshal enc_ReleaseCandidate (\<lambda>_. True) candidate))) (\<lambda>body.
      ebind (rel_io create_failed (os_Create W key (JsonBody body) ops_putOptions)) (\<lambda>meta.
      ebind (rel_io PlainError (candidateLog W candidate (om_Key meta))) (\<lambda>logged.
      eret \<lparr>ccr_OK = True, ccr_Candidate = candidate, ccr_Key = key, ccr_TraceID = rcd_TraceID candidate, ccr_Events = logged\<rparr>))))))))"

definition candidate_unread :: "goerr \<Rightarrow> release_error" where
  "candidate_unread err =
     (if is_store ErrNotFound err then CandidateError ''RELEASE_CANDIDATE_NOT_FOUND'' ''release candidate object was not found'' (Some err)
      else CandidateError ''RELEASE_CANDIDATE_READ_FAILED'' ''release candidate object could not be read'' (Some err))"

definition ReadCandidate :: "('s, 'z) World_scheme \<Rightarrow> string \<Rightarrow> string \<Rightarrow> ('s, CandidateDocument) relio" where
  "ReadCandidate W service candidateID =
     ebind (rel_io PlainError (io_ctx W)) (\<lambda>_.
     ebind (rel_lift (rel_error (with_code ''RELEASE_CANDIDATE_INVALID'') (paths_ReleaseCandidate service candidateID))) (\<lambda>key.
     ebind (rel_io candidate_unread (os_Get W key)) (\<lambda>object.
     ebind (rel_lift (rel_error (\<lambda>err. CandidateError ''INVALID_RELEASE_CANDIDATE'' ''release candidate object is not valid'' (Some err))
        (canonical_UnmarshalStrict dec_ReleaseCandidate (obj_Body object)))) (\<lambda>candidate.
     ebind (rel_lift (validateCandidate candidate)) (\<lambda>_.
     if rcd_Service candidate \<noteq> service then
       efail (CandidateError ''INVALID_RELEASE_CANDIDATE''
         (''candidate names service '' @ quote (rcd_Service candidate) @ '', expected '' @ quote service) None)
     else eret \<lparr>cnd_Key = key, cnd_Meta = objectMetaFromObject object, cnd_Candidate = candidate\<rparr>)))))"

section \<open>Durations\<close>

text \<open>\<^verbatim>\<open>Time.Sub\<close>, \<^verbatim>\<open>Duration.Round\<close> and \<^verbatim>\<open>Duration.String\<close>: differences and rounded values stay in the range of \<^verbatim>\<open>int64\<close>.\<close>

definition time_Sub :: "gotime \<Rightarrow> gotime \<Rightarrow> int" where
  "time_Sub a b = max (- (2 ^ 63)) (min (2 ^ 63 - 1) (a - b))"

definition Duration_Round :: "int \<Rightarrow> int \<Rightarrow> int" where
  "Duration_Round d m =
     (let r = \<bar>d\<bar> mod m in
      if d < 0 then (if r + r < m then d + r else max (- (2 ^ 63)) (d - m + r))
      else (if r + r < m then d - r else min (2 ^ 63 - 1) (d + m - r)))"

text \<open>The fraction of \<open>u\<close> in \<open>prec\<close> digits, without trailing zeros and with nothing if there is none.\<close>

definition fmtFrac :: "nat \<Rightarrow> nat \<Rightarrow> string" where
  "fmtFrac u prec = (let ds = rev (dropWhile (\<lambda>c. c = CHR ''0'') (rev (pad_nat prec (u mod 10 ^ prec))))
     in if ds = [] then [] else CHR ''.'' # ds)"

definition Duration_String :: "int \<Rightarrow> string" where
  "Duration_String d =
     (let u = nat \<bar>d\<bar>; sec = u div 1000000000 in
      (if d < 0 then ''-'' else []) @
      (if u = 0 then ''0s''
       else if u < 1000 then show_nat u @ ''ns''
       else if u < 1000000 then show_nat (u div 1000) @ fmtFrac u 3 @ [CHR 0xC2, CHR 0xB5, CHR ''s'']
       else if u < 1000000000 then show_nat (u div 1000000) @ fmtFrac u 6 @ ''ms''
       else (if 3600 \<le> sec then show_nat (sec div 3600) @ ''h'' else []) @
            (if 60 \<le> sec then show_nat (sec div 60 mod 60) @ ''m'' else []) @ show_nat (sec mod 60) @ fmtFrac u 9 @ ''s''))"

section \<open>Promotion requests\<close>

definition DefaultPromotionRequiredChecks :: "string list" where
  "DefaultPromotionRequiredChecks = [''tests'', ''contract'', ''policy'', ''scan'']"

record PromotionRequest =
  pmq_Service :: string
  pmq_FromEnv :: string
  pmq_ToEnv :: string
  pmq_CandidateID :: string
  pmq_OperationID :: string
  pmq_ApprovalID :: string
  pmq_RequiredChecks :: "string list"
  pmq_MinStableDuration :: int
  pmq_DryRun :: bool
  pmq_Actor :: Actor
  pmq_TraceID :: string

record PromotionRequirement =
  prr_ID :: string
  prr_OK :: bool
  prr_Code :: string
  prr_Summary :: string
  prr_Detail :: string

record PromotionRecommendation =
  prc_ID :: string
  prc_Command :: string
  prc_Mutating :: bool
  prc_Safety :: string
  prc_Risk :: string
  prc_Reversibility :: string

record PromotionResult =
  pmr_OK :: bool
  pmr_DryRun :: bool
  pmr_Service :: string
  pmr_FromEnv :: string
  pmr_ToEnv :: string
  pmr_CandidateID :: string
  pmr_ReleaseID :: string
  pmr_OperationID :: string
  pmr_ApprovalID :: string
  pmr_TraceID :: string
  pmr_Artifact :: ArtifactRef
  pmr_Candidate :: "ReleaseCandidate option"
  pmr_Requirements :: "PromotionRequirement list"
  pmr_OperationIntent :: "OperationIntent option"
  pmr_OperationControl :: "OperationControl option"
  pmr_Events :: "events_Event list"
  pmr_PlanMarkdown :: string
  pmr_NextCommands :: "string list"
  pmr_RecommendedActions :: "PromotionRecommendation list"

fun uniqueChecks :: "(string \<Rightarrow> string) \<Rightarrow> string list \<Rightarrow> string list \<Rightarrow> string list" where
  "uniqueChecks ul seen [] = []"
| "uniqueChecks ul seen (c # cs) =
     (let check = TrimSpace (strings_ToLower ul c) in
      if check = [] \<or> check \<in> set seen then uniqueChecks ul seen cs else check # uniqueChecks ul (check # seen) cs)"

definition normalizeRequiredChecks :: "(string \<Rightarrow> string) \<Rightarrow> string list \<Rightarrow> string list" where
  "normalizeRequiredChecks ul checks = uniqueChecks ul [] (if checks = [] then DefaultPromotionRequiredChecks else checks)"

definition normalizePromotionRequest :: "(string \<Rightarrow> string) \<Rightarrow> PromotionRequest \<Rightarrow> gotime \<Rightarrow> PromotionRequest" where
  "normalizePromotionRequest ul req now =
     (let service = TrimSpace (pmq_Service req);
          candidateID = TrimSpace (pmq_CandidateID req);
          trace = or_else (TrimSpace (pmq_TraceID req)) (''tr_'' @ NewID now now (service @ ''promote''))
      in req\<lparr>pmq_Service := service, pmq_FromEnv := TrimSpace (pmq_FromEnv req), pmq_ToEnv := TrimSpace (pmq_ToEnv req),
           pmq_CandidateID := candidateID,
           pmq_OperationID := or_else (TrimSpace (pmq_OperationID req)) (''op_'' @ NewID now now (trace @ candidateID)),
           pmq_ApprovalID := TrimSpace (pmq_ApprovalID req), pmq_RequiredChecks := normalizeRequiredChecks ul (pmq_RequiredChecks req),
           pmq_Actor := release_actor (pmq_Actor req), pmq_TraceID := trace\<rparr>)"

definition validatePromotionRequest :: "PromotionRequest \<Rightarrow> release_error + unit" where
  "validatePromotionRequest req =
     rel_check (rel_error (with_code ''PROMOTION_INVALID'') (validateName ''service'' (pmq_Service req)))
    (rel_check (rel_error (with_code ''PROMOTION_INVALID'') (validateName ''from'' (pmq_FromEnv req)))
    (rel_check (rel_error (with_code ''PROMOTION_INVALID'') (validateName ''to'' (pmq_ToEnv req)))
    (rel_check (rel_error (with_code ''PROMOTION_INVALID'') (validateID ''candidate'' (pmq_CandidateID req)))
    (rel_check (rel_error (with_code ''PROMOTION_INVALID'') (validateID ''operation'' (pmq_OperationID req)))
      (if pmq_FromEnv req = pmq_ToEnv req then Inl (CandidateError ''PROMOTION_INVALID'' ''--from and --to must be different environments'' None)
       else Inr ())))))"

section \<open>The requirements\<close>

definition requirement :: "string \<Rightarrow> bool \<Rightarrow> string \<Rightarrow> string \<Rightarrow> string \<Rightarrow> PromotionRequirement" where
  "requirement ident ok summary code detail =
     \<lparr>prr_ID = ident, prr_OK = ok, prr_Code = (if ok then [] else code), prr_Summary = summary, prr_Detail = (if ok then [] else detail)\<rparr>"

definition candidateCheckMap :: "(string \<Rightarrow> string) \<Rightarrow> ReleaseCandidate \<Rightarrow> string \<rightharpoonup> string" where
  "candidateCheckMap ul candidate =
     foldl (\<lambda>out check. let name = TrimSpace (strings_ToLower ul (ech_Name check)) in
        if name = [] then out else out(name \<mapsto> TrimSpace (strings_ToLower ul (ech_Status check)))) Map.empty (rcd_Checks candidate)"

definition checkStatus :: "(string \<rightharpoonup> string) \<Rightarrow> string \<Rightarrow> string" where
  "checkStatus checks name = (case checks name of None \<Rightarrow> [] | Some status \<Rightarrow> status)"

definition promotion_isProductionEnv :: "(string \<Rightarrow> string) \<Rightarrow> string \<Rightarrow> bool" where
  "promotion_isProductionEnv ul env0 = (let env = TrimSpace (strings_ToLower ul env0) in
     env = ''prod'' \<or> env = ''production'' \<or> prefix ''prod-'' env)"

definition promotionRisk :: "(string \<Rightarrow> string) \<Rightarrow> string \<Rightarrow> string" where
  "promotionRisk ul env = (if promotion_isProductionEnv ul env then RiskHigh else RiskMedium)"

fun firstNonBlank :: "string list \<Rightarrow> string" where
  "firstNonBlank [] = []"
| "firstNonBlank (v # vs) = (if TrimSpace v \<noteq> [] then v else firstNonBlank vs)"

text \<open>Of the error of a time that does not parse only the first words are in the detail.\<close>

definition stableFor :: "PromotionRequest \<Rightarrow> ReleaseCandidate \<Rightarrow> ServiceControl \<Rightarrow> gotime \<Rightarrow> PromotionRequirement" where
  "stableFor req candidate control now =
     (let summary = ''source release was stable for required duration'' in
      if sc_Env control \<noteq> pmq_FromEnv req then
        requirement ''stable_duration'' False summary ''SOURCE_ENV_MISMATCH''
          (''service control env '' @ quote (sc_Env control) @ '' does not match from env '' @ quote (pmq_FromEnv req))
      else if sc_StableRelease control \<noteq> rcd_ReleaseID candidate then
        requirement ''stable_duration'' False summary ''SOURCE_RELEASE_NOT_STABLE''
          (''stable release is '' @ quote (sc_StableRelease control) @ '', expected '' @ quote (rcd_ReleaseID candidate))
      else (case time_Parse (sc_UpdatedAt control) of
          None \<Rightarrow> \<lparr>prr_ID = ''stable_duration'', prr_OK = False, prr_Code = ''INVALID_STABLE_TIME'',
            prr_Summary = ''source stable time could not be parsed'', prr_Detail = ''parsing time''\<rparr>
        | Some updatedAt \<Rightarrow>
            (let age = time_Sub now updatedAt in
             requirement ''stable_duration'' (age \<ge> pmq_MinStableDuration req) summary ''STABLE_DURATION_NOT_MET''
               (''stable for '' @ Duration_String (Duration_Round age 1000000000) @ '', required '' @ Duration_String (pmq_MinStableDuration req)))))"

definition stableDurationRequirement ::
  "('s, 'z) World_scheme \<Rightarrow> PromotionRequest \<Rightarrow> ReleaseCandidate \<Rightarrow> gotime \<Rightarrow> 's \<Rightarrow> PromotionRequirement \<times> 's" where
  "stableDurationRequirement W req candidate now s =
     (if rcd_ReleaseID candidate = [] then
        (requirement ''stable_duration'' False ''source release was stable for required duration'' ''RELEASE_ID_REQUIRED''
           ''candidate must include release_id to validate stable duration'', s)
      else (case GetServiceControl W (pmq_Service req) s of
          (Inl err, t) \<Rightarrow>
            (\<lparr>prr_ID = ''stable_duration'', prr_OK = False, prr_Code = ''SERVICE_CONTROL_REQUIRED'',
               prr_Summary = ''source service control is required to validate stable duration'', prr_Detail = err_text err\<rparr>, t)
        | (Inr doc, t) \<Rightarrow> (stableFor req candidate (scd_Control doc) now, t)))"

definition checkRequirement :: "(string \<rightharpoonup> string) \<Rightarrow> string \<Rightarrow> PromotionRequirement" where
  "checkRequirement checks name =
     (let status = checkStatus checks name in
      requirement (''check_'' @ name) (status = ''passed'') (''check '' @ name @ '' passed'') ''PROMOTION_EVIDENCE_MISSING''
        (''check '' @ quote name @ '' status is '' @ quote (firstNonBlank [status, ''<missing>'']) @ '', expected passed''))"

definition evidenceRequirements :: "(string \<Rightarrow> string) \<Rightarrow> PromotionRequest \<Rightarrow> ReleaseCandidate \<Rightarrow> PromotionRequirement list" where
  "evidenceRequirements ul req candidate =
     [requirement ''candidate_env'' (rcd_Env candidate = pmq_FromEnv req) ''candidate environment matches --from'' ''CANDIDATE_ENV_MISMATCH''
        (''candidate env '' @ quote (rcd_Env candidate) @ '' does not match from env '' @ quote (pmq_FromEnv req)),
      requirement ''artifact_digest'' (isSHA256Digest (af_Digest (rcd_Artifact candidate))) ''candidate artifact is digest-pinned''
        ''ARTIFACT_DIGEST_REQUIRED'' ''candidate artifact digest must use sha256:<64 hex chars>''] @
     map (checkRequirement (candidateCheckMap ul candidate)) (pmq_RequiredChecks req) @
     (if promotion_isProductionEnv ul (pmq_ToEnv req) \<and> \<not> IsBreakGlass ul (pmq_Actor req) then
        [requirement ''approval'' (pmq_ApprovalID req \<noteq> []) ''approval context is present for production promotion'' ''APPROVAL_REQUIRED''
           ''production promotions require --approval-id'']
      else [])"

definition evaluatePromotionRequirements ::
  "('s, 'z) World_scheme \<Rightarrow> (string \<Rightarrow> string) \<Rightarrow> PromotionRequest \<Rightarrow> ReleaseCandidate \<Rightarrow> gotime \<Rightarrow> 's \<Rightarrow> PromotionRequirement list \<times> 's" where
  "evaluatePromotionRequirements W ul req candidate now s =
     (if pmq_MinStableDuration req > 0 then
        (case stableDurationRequirement W req candidate now s of (requirement0, t) \<Rightarrow> (evidenceRequirements ul req candidate @ [requirement0], t))
      else (evidenceRequirements ul req candidate, s))"

section \<open>Promote\<close>

definition deployCommand :: "PromotionRequest \<Rightarrow> ReleaseCandidate \<Rightarrow> string" where
  "deployCommand req candidate =
     ''skiff deploy <spec> --release-id '' @ firstNonBlank [rcd_ReleaseID candidate, ''<release-id>''] @ '' --format json --trace-id '' @ pmq_TraceID req"

definition promotionRecommendations :: "(string \<Rightarrow> string) \<Rightarrow> PromotionRequest \<Rightarrow> ReleaseCandidate \<Rightarrow> bool \<Rightarrow> PromotionRecommendation list" where
  "promotionRecommendations ul req candidate ok =
     (if \<not> ok then
        [\<lparr>prc_ID = ''inspect_candidate'',
          prc_Command = ''skiff release candidate show '' @ pmq_CandidateID req @ '' --service '' @ pmq_Service req @
            '' --format json --trace-id '' @ pmq_TraceID req,
          prc_Mutating = False, prc_Safety = [], prc_Risk = [], prc_Reversibility = []\<rparr>]
      else
        [\<lparr>prc_ID = ''deploy_promoted_release'', prc_Command = deployCommand req candidate, prc_Mutating = True, prc_Safety = ''compensatable'',
          prc_Risk = promotionRisk ul (pmq_ToEnv req), prc_Reversibility = Compensatable\<rparr>])"

definition md_newline :: string where "md_newline = [CHR 0x0A]"

definition requirementLine :: "PromotionRequirement \<Rightarrow> string" where
  "requirementLine req =
     ''- ['' @ (if prr_OK req then ''x'' else '' '') @ ''] '' @ prr_Summary req @
     (if \<not> prr_OK req \<and> prr_Detail req \<noteq> [] then '' - '' @ prr_Detail req else []) @ md_newline"

definition promotionMarkdown :: "PromotionResult \<Rightarrow> string" where
  "promotionMarkdown result =
     (let tick = [CHR 0x60]; field = (\<lambda>name x. ''- '' @ name @ '': '' @ tick @ x @ tick @ md_newline) in
      ''# Promotion Plan'' @ md_newline @ md_newline @ field ''Service'' (pmr_Service result) @ field ''From'' (pmr_FromEnv result) @
      field ''To'' (pmr_ToEnv result) @ field ''Candidate'' (pmr_CandidateID result) @
      (if pmr_ReleaseID result \<noteq> [] then field ''Release'' (pmr_ReleaseID result) else []) @
      field ''Artifact digest'' (af_Digest (pmr_Artifact result)) @ md_newline @
      ''## Requirements'' @ md_newline @ md_newline @ concat (map requirementLine (pmr_Requirements result)) @
      md_newline @ ''## Next Commands'' @ md_newline @ md_newline @
      concat (map (\<lambda>command. tick @ tick @ tick @ ''bash'' @ md_newline @ command @ md_newline @ tick @ tick @ tick @ md_newline) (pmr_NextCommands result)))"

definition with_markdown :: "PromotionResult \<Rightarrow> PromotionResult" where
  "with_markdown result = result\<lparr>pmr_PlanMarkdown := promotionMarkdown result\<rparr>"

definition promotionResult :: "(string \<Rightarrow> string) \<Rightarrow> PromotionRequest \<Rightarrow> ReleaseCandidate \<Rightarrow> PromotionRequirement list \<Rightarrow> PromotionResult" where
  "promotionResult ul req candidate requirements =
     with_markdown \<lparr>pmr_OK = list_all prr_OK requirements, pmr_DryRun = pmq_DryRun req, pmr_Service = pmq_Service req, pmr_FromEnv = pmq_FromEnv req,
      pmr_ToEnv = pmq_ToEnv req, pmr_CandidateID = pmq_CandidateID req, pmr_ReleaseID = rcd_ReleaseID candidate,
      pmr_OperationID = pmq_OperationID req, pmr_ApprovalID = pmq_ApprovalID req, pmr_TraceID = pmq_TraceID req,
      pmr_Artifact = rcd_Artifact candidate, pmr_Candidate = Some candidate, pmr_Requirements = requirements,
      pmr_OperationIntent = None, pmr_OperationControl = None, pmr_Events = [], pmr_PlanMarkdown = [],
      pmr_NextCommands = [deployCommand req candidate,
        ''skiff status '' @ pmq_Service req @ '' --format json --trace-id '' @ pmq_TraceID req,
        ''skiff ops events '' @ pmq_OperationID req @ '' --service '' @ pmq_Service req @ '' --format json --trace-id '' @ pmq_TraceID req],
      pmr_RecommendedActions = promotionRecommendations ul req candidate (list_all prr_OK requirements)\<rparr>"

definition promotionIntent :: "(string \<Rightarrow> string) \<Rightarrow> PromotionRequest \<Rightarrow> ReleaseCandidate \<Rightarrow> gotime \<Rightarrow> OperationIntent" where
  "promotionIntent ul req candidate now =
     (NewOperationIntent (pmq_OperationID req) (pmq_Service req) (pmq_ToEnv req) ''release.promote''
        (zero_Target\<lparr>tgt_Kind := ''service'', tgt_Name := pmq_Service req\<rparr>) (pmq_Actor req) (pmq_TraceID req) (canonical_Time now))
     \<lparr>oi_Risk := promotionRisk ul (pmq_ToEnv req), oi_Reversibility := Compensatable,
      oi_Summary := ''promote candidate '' @ pmq_CandidateID req @ '' from '' @ pmq_FromEnv req @ '' to '' @ pmq_ToEnv req,
      oi_Params := Raw (JObj [(''approval_id'', JStr (pmq_ApprovalID req)), (''artifact_digest'', JStr (af_Digest (rcd_Artifact candidate))),
        (''candidate_id'', JStr (pmq_CandidateID req)), (''from_env'', JStr (pmq_FromEnv req)), (''release_id'', JStr (rcd_ReleaseID candidate)),
        (''to_env'', JStr (pmq_ToEnv req))])\<rparr>"

definition promotionControl :: "PromotionRequest \<Rightarrow> ReleaseCandidate \<Rightarrow> gotime \<Rightarrow> OperationControl" where
  "promotionControl req candidate now =
     zero_OperationControl\<lparr>oc_SchemaVersion := schema_Version, oc_OperationID := pmq_OperationID req, oc_Service := pmq_Service req,
       oc_Env := pmq_ToEnv req, oc_Status := OperationSucceeded,
       oc_StepResults := [\<lparr>srr_StepID = ''validate-promotion'', srr_Kind = ''release.promote.validate'', srr_Status = ''succeeded'',
         srr_Result = Raw (JObj [(''artifact_digest'', JStr (af_Digest (rcd_Artifact candidate))), (''candidate_id'', JStr (pmq_CandidateID req))]),
         srr_ResultRef = [], srr_Failure = None, srr_ProviderOperations = [], srr_CompletedAt = canonical_Time now\<rparr>],
       oc_UpdatedAt := canonical_Time now, oc_TraceID := pmq_TraceID req\<rparr>"

definition promotionEvent :: "PromotionRequest \<Rightarrow> ReleaseCandidate \<Rightarrow> OperationIntent \<Rightarrow> gotime \<Rightarrow> events_Event" where
  "promotionEvent req candidate intent now =
     (NewOperationEvent now (pmq_Service req) (pmq_OperationID req) ''release.promote.requested'' (oi_Summary intent) now
        (pmq_TraceID req @ ''promotion-requested''))
     \<lparr>ee_TraceID := pmq_TraceID req, ee_Actor := Some (pmq_Actor req),
      ee_Facts := [zero_Fact\<lparr>fct_Type := ''candidate_id'', fct_Message := pmq_CandidateID req\<rparr>,
        zero_Fact\<lparr>fct_Type := ''from_env'', fct_Message := pmq_FromEnv req\<rparr>, zero_Fact\<lparr>fct_Type := ''to_env'', fct_Message := pmq_ToEnv req\<rparr>,
        zero_Fact\<lparr>fct_Type := ''artifact_digest'', fct_Message := af_Digest (rcd_Artifact candidate)\<rparr>]\<rparr>"

definition promotionAudit :: "PromotionRequest \<Rightarrow> ReleaseCandidate \<Rightarrow> OperationIntent \<Rightarrow> gotime \<Rightarrow> AuditRecord" where
  "promotionAudit req candidate intent now =
     (NewAuditRecord now (pmq_Actor req) (zero_Target\<lparr>tgt_Kind := ''service'', tgt_Name := pmq_Service req\<rparr>) ''release.promote''
        (oi_Summary intent) (pmq_TraceID req) now (pmq_OperationID req @ ''audit''))
     \<lparr>ar_Risk := oi_Risk intent, ar_ApprovalID := pmq_ApprovalID req, ar_BeforeSummary := ''candidate in '' @ pmq_FromEnv req,
      ar_AfterSummary := ''promotion intent for '' @ pmq_ToEnv req,
      ar_Data := Raw (JObj [(''approval_id'', JStr (pmq_ApprovalID req)), (''artifact_digest'', JStr (af_Digest (rcd_Artifact candidate))),
        (''candidate_id'', JStr (pmq_CandidateID req)), (''from_env'', JStr (pmq_FromEnv req)), (''operation_id'', JStr (pmq_OperationID req)),
        (''release_id'', JStr (rcd_ReleaseID candidate)), (''to_env'', JStr (pmq_ToEnv req))])\<rparr>"

definition promotionLog :: "('s, 'z) World_scheme \<Rightarrow> PromotionRequest \<Rightarrow> ReleaseCandidate \<Rightarrow> OperationIntent \<Rightarrow> ('s, events_Event list) io" where
  "promotionLog W req candidate intent =
     io_bind (loggedEvent W (promotionEvent req candidate intent)) (\<lambda>logged.
     io_bind (io_now W) (\<lambda>now.
     io_bind (io_try (log_AppendAudit W (promotionAudit req candidate intent now))) (\<lambda>_.
     io_ret logged)))"

definition createPromotionOperation ::
  "('s, 'z) World_scheme \<Rightarrow> PromotionRequest \<Rightarrow> ReleaseCandidate \<Rightarrow> OperationIntent \<Rightarrow> gotime \<Rightarrow> ('s \<times> PromotionResult, goerr, unit) eio" where
  "createPromotionOperation W req candidate intent now =
     ebind (host id (io_lift (paths_OperationIntent (pmq_Service req) (pmq_OperationID req)))) (\<lambda>intentKey.
     ebind (host id (io_lift (canonical_Marshal enc_OperationIntent raws_ok_OperationIntent intent))) (\<lambda>intentBody.
     ebind (host id (os_Create W intentKey (JsonBody intentBody) ops_putOptions)) (\<lambda>_.
     ebind (eupdate (\<lambda>result. result\<lparr>pmr_OperationIntent := Some intent\<rparr>)) (\<lambda>_.
     ebind (host id (io_lift (canonical_Marshal enc_OperationControl raws_ok_OperationControl (promotionControl req candidate now)))) (\<lambda>controlBody.
     ebind (host id (io_lift (paths_OperationControl (pmq_Service req) (pmq_OperationID req)))) (\<lambda>controlKey.
     ebind (host id (os_Create W controlKey (JsonBody controlBody) ops_putOptions)) (\<lambda>_.
     ebind (eupdate (\<lambda>result. result\<lparr>pmr_OperationControl := Some (promotionControl req candidate now)\<rparr>)) (\<lambda>_.
     ebind (host id (promotionLog W req candidate intent)) (\<lambda>logged.
     ebind (eupdate (\<lambda>result. result\<lparr>pmr_Events := pmr_Events result @ logged\<rparr>)) (\<lambda>_.
     eret ()))))))))))"

definition deniedPromotion :: "authz_error \<Rightarrow> PromotionResult \<Rightarrow> PromotionResult" where
  "deniedPromotion err result =
     with_markdown (result\<lparr>pmr_OK := False, pmr_Requirements := pmr_Requirements result @
       [\<lparr>prr_ID = ''authorization'', prr_OK = False, prr_Code = ''AUTHORIZATION_DENIED'',
         prr_Summary = ''authorization policy allows promotion execution'', prr_Detail = err_text (authz_goerr err)\<rparr>]\<rparr>)"

definition promotionAuthz :: "(string \<Rightarrow> string) \<Rightarrow> PromotionRequest \<Rightarrow> authz_Request" where
  "promotionAuthz ul req =
     \<lparr>azr_Actor = pmq_Actor req, azr_Action = ActionDeploy, azr_Target = zero_Target\<lparr>tgt_Kind := ''service'', tgt_Name := pmq_Service req\<rparr>,
      azr_Env = pmq_ToEnv req, azr_Service = pmq_Service req, azr_Risk = promotionRisk ul (pmq_ToEnv req), azr_ApprovalID = pmq_ApprovalID req,
      azr_ApprovalRole = [], azr_DryRun = False, azr_PlanOnly = False, azr_TraceID = pmq_TraceID req\<rparr>"

definition promoteCandidate ::
  "('s, 'z) World_scheme \<Rightarrow> (string \<Rightarrow> string) \<Rightarrow> 's Authorizer option \<Rightarrow> PromotionRequest \<Rightarrow> ReleaseCandidate \<Rightarrow> gotime \<Rightarrow> 's \<Rightarrow>
   (PromotionResult option \<times> release_error option) \<times> 's" where
  "promoteCandidate W ul policy req candidate now s =
     (case evaluatePromotionRequirements W ul req candidate now s of (requirements, t) \<Rightarrow>
      (let result = promotionResult ul req candidate requirements in
       if \<not> pmr_OK result \<or> pmq_DryRun req then ((Some result, None), t)
       else (case MustAuthorize W ul policy (promotionAuthz ul req) t of
           ((_, Some err), u) \<Rightarrow> ((Some (deniedPromotion err result), None), u)
         | ((_, None), u) \<Rightarrow>
             (case createPromotionOperation W req candidate (promotionIntent ul req candidate now) now (u, result) of
                (Inl err, (v, r)) \<Rightarrow> ((Some r, Some (PlainError err)), v)
              | (Inr _, (v, r)) \<Rightarrow> ((Some (with_markdown r), None), v)))))"

definition Promote ::
  "('s, 'z) World_scheme \<Rightarrow> (string \<Rightarrow> string) \<Rightarrow> 's Authorizer option \<Rightarrow> PromotionRequest \<Rightarrow> 's \<Rightarrow>
   (PromotionResult option \<times> release_error option) \<times> 's" where
  "Promote W ul policy req0 s = (case io_ctx W s of
      (Inl err, t) \<Rightarrow> ((None, Some (PlainError err)), t)
    | (Inr _, t) \<Rightarrow> (case w_Now W t of (now, u) \<Rightarrow>
        (let req = normalizePromotionRequest ul req0 now in
         case validatePromotionRequest req of
           Inl err \<Rightarrow> ((None, Some err), u)
         | Inr _ \<Rightarrow> (case ReadCandidate W (pmq_Service req) (pmq_CandidateID req) u of
               (Inl err, v) \<Rightarrow> ((None, Some err), v)
             | (Inr doc, v) \<Rightarrow> promoteCandidate W ul policy req (cnd_Candidate doc) now v))))"

section \<open>Listing releases\<close>

record ManifestDocument =
  mfd_Key :: string
  mfd_Meta :: ObjectMeta
  mfd_Manifest :: ReleaseManifest

record ManifestListOptions =
  mlo_Service :: string
  mlo_Limit :: int

definition parseReleaseManifestKey :: "string \<Rightarrow> string \<Rightarrow> string option" where
  "parseReleaseManifestKey pre key =
     (if \<not> prefix pre key \<or> \<not> suffix ''/release.json'' key then None
      else (case split_on (CHR ''/'') (TrimPrefix key pre) of
          [releaseID, file] \<Rightarrow> if file = ''release.json'' \<and> is_ok (validateID ''release'' releaseID) then Some releaseID else None
        | _ \<Rightarrow> None))"

definition releaseSortTime :: "ManifestDocument \<Rightarrow> string" where
  "releaseSortTime doc =
     (if rm_CreatedAt (mfd_Manifest doc) \<noteq> [] then rm_CreatedAt (mfd_Manifest doc)
      else if om_UpdatedAt (mfd_Meta doc) \<noteq> zero_gotime then canonical_Time (om_UpdatedAt (mfd_Meta doc))
      else canonical_Time (om_CreatedAt (mfd_Meta doc)))"

definition releaseBefore :: "ManifestDocument \<Rightarrow> ManifestDocument \<Rightarrow> bool" where
  "releaseBefore a b =
     (if releaseSortTime a = releaseSortTime b then rm_ReleaseID (mfd_Manifest a) < rm_ReleaseID (mfd_Manifest b)
      else releaseSortTime a > releaseSortTime b)"

text \<open>\<^verbatim>\<open>sort.Slice\<close> by this order; release ids are different, so the result is the only sorted one.\<close>

fun insertRelease :: "ManifestDocument \<Rightarrow> ManifestDocument list \<Rightarrow> ManifestDocument list" where
  "insertRelease doc [] = [doc]"
| "insertRelease doc (d # ds) = (if releaseBefore doc d then doc # d # ds else d # insertRelease doc ds)"

definition sortReleases :: "ManifestDocument list \<Rightarrow> ManifestDocument list" where
  "sortReleases docs = foldr insertRelease docs []"

definition readListed :: "('s, 'z) World_scheme \<Rightarrow> string \<Rightarrow> ObjectMeta \<Rightarrow> string \<Rightarrow> ('s, ManifestDocument) relio" where
  "readListed W service meta releaseID =
     ebind (rel_io (\<lambda>err. CandidateError ''RELEASE_LIST_FAILED'' ''release manifest object could not be read'' (Some err)) (os_Get W (om_Key meta))) (\<lambda>object.
     ebind (rel_lift (rel_error (\<lambda>err. CandidateError ''INVALID_RELEASE_MANIFEST'' ''release manifest object is not valid'' (Some err))
        (canonical_UnmarshalStrict dec_ReleaseManifest (obj_Body object)))) (\<lambda>manifest.
     if rm_Service manifest \<noteq> service then
       efail (CandidateError ''INVALID_RELEASE_MANIFEST''
         (''release manifest '' @ om_Key meta @ '' names service '' @ quote (rm_Service manifest) @ '', expected '' @ quote service) None)
     else if rm_ReleaseID manifest \<noteq> releaseID then
       efail (CandidateError ''INVALID_RELEASE_MANIFEST'' (''release manifest '' @ om_Key meta @ '' names release '' @ quote (rm_ReleaseID manifest)) None)
     else eret \<lparr>mfd_Key = om_Key meta, mfd_Meta = meta, mfd_Manifest = manifest\<rparr>))"

fun readManifests :: "('s, 'z) World_scheme \<Rightarrow> string \<Rightarrow> string \<Rightarrow> ObjectMeta list \<Rightarrow> ('s, ManifestDocument list) relio" where
  "readManifests W service pre [] = eret []"
| "readManifests W service pre (meta # metas) = (case parseReleaseManifestKey pre (om_Key meta) of
      None \<Rightarrow> readManifests W service pre metas
    | Some releaseID \<Rightarrow>
        ebind (readListed W service meta releaseID) (\<lambda>doc.
        ebind (readManifests W service pre metas) (\<lambda>docs. eret (doc # docs))))"

definition ListManifests :: "('s, 'z) World_scheme \<Rightarrow> ManifestListOptions \<Rightarrow> ('s, ManifestDocument list) relio" where
  "ListManifests W opts =
     ebind (rel_io PlainError (io_ctx W)) (\<lambda>_.
     ebind (rel_lift (rel_error (with_code ''RELEASE_LIST_INVALID'') (paths_ServiceReleasesPrefix (mlo_Service opts)))) (\<lambda>pre.
     ebind (rel_io (\<lambda>err. CandidateError ''RELEASE_LIST_FAILED'' ''release manifest objects could not be listed'' (Some err))
        (os_List W pre \<lparr>lo_Limit = 0\<rparr>)) (\<lambda>metas.
     ebind (readManifests W (mlo_Service opts) pre metas) (\<lambda>docs.
     (let out = sortReleases docs in
      eret (if 0 < mlo_Limit opts \<and> mlo_Limit opts < int (length out) then take (nat (mlo_Limit opts)) out else out))))))"

end
