(* ===== verification/Promotion_Gate.thy ===== *)
theory Promotion_Gate
  imports Promotion Deploy_Outcome
begin

text \<open>
  What a promotion needs. The list of requirements that \<^verbatim>\<open>Promote\<close> evaluates is compared with a declarative statement of the gates, and a
  promotion is recorded if and only if they hold.
\<close>

section \<open>The gates\<close>

definition check_name :: "(string \<Rightarrow> string) \<Rightarrow> EvidenceCheck \<Rightarrow> string" where
  "check_name ul check = TrimSpace (strings_ToLower ul (ech_Name check))"

definition check_status :: "(string \<Rightarrow> string) \<Rightarrow> EvidenceCheck \<Rightarrow> string" where
  "check_status ul check = TrimSpace (strings_ToLower ul (ech_Status check))"

text \<open>A check counts by the last entry with its name.\<close>

definition passed :: "(string \<Rightarrow> string) \<Rightarrow> ReleaseCandidate \<Rightarrow> string \<Rightarrow> bool" where
  "passed ul candidate name \<longleftrightarrow>
     (\<exists>check. find (\<lambda>c. check_name ul c = name) (rev (rcd_Checks candidate)) = Some check \<and> check_status ul check = ''passed'')"

definition evidence :: "(string \<Rightarrow> string) \<Rightarrow> PromotionRequest \<Rightarrow> ReleaseCandidate \<Rightarrow> bool" where
  "evidence ul req candidate \<longleftrightarrow> rcd_Env candidate = pmq_FromEnv req \<and> isSHA256Digest (af_Digest (rcd_Artifact candidate)) \<and>
     (\<forall>name \<in> set (pmq_RequiredChecks req). passed ul candidate name) \<and>
     (promotion_isProductionEnv ul (pmq_ToEnv req) \<longrightarrow> IsBreakGlass ul (pmq_Actor req) \<or> pmq_ApprovalID req \<noteq> [])"

text \<open>The service has not changed for the time required, and its stable release is the candidate's.\<close>

definition stable_enough :: "PromotionRequest \<Rightarrow> ReleaseCandidate \<Rightarrow> ServiceControl \<Rightarrow> gotime \<Rightarrow> bool" where
  "stable_enough req candidate control now \<longleftrightarrow> rcd_ReleaseID candidate \<noteq> [] \<and> sc_Env control = pmq_FromEnv req \<and>
     sc_StableRelease control = rcd_ReleaseID candidate \<and>
     (\<exists>updatedAt. time_Parse (sc_UpdatedAt control) = Some updatedAt \<and> pmq_MinStableDuration req \<le> now - updatedAt)"

section \<open>The requirements decide the gates\<close>

lemma requirement_OK [simp]: "prr_OK (requirement i ok a b c) = ok"
  by (simp add: requirement_def)

lemma check_map_last:
  "foldl (\<lambda>out check. let name = n check in if name = [] then out else out(name \<mapsto> st check)) Map.empty checks x =
    (if x = [] then None else map_option st (find (\<lambda>c. n c = x) (rev checks)))"
proof (induction checks rule: rev_induct)
  case (snoc c cs)
  show ?case using snoc.IH by (cases "n c = []"; cases "x = []") (simp_all add: Let_def)
qed simp

lemma check_decides:
  assumes "n \<noteq> []"
  shows "checkStatus (candidateCheckMap ul candidate) n = ''passed'' \<longleftrightarrow> passed ul candidate n"
  using assms unfolding candidateCheckMap_def check_map_last checkStatus_def passed_def check_name_def check_status_def
  by (auto split: option.splits)

lemma uniqueChecks_named: "x \<in> set (uniqueChecks ul seen cs) \<Longrightarrow> x \<noteq> []"
  by (induction cs arbitrary: seen) (auto simp: Let_def split: if_splits)

lemma required_named: "[] \<notin> set (pmq_RequiredChecks (normalizePromotionRequest ul req now))"
  using uniqueChecks_named by (fastforce simp: normalizePromotionRequest_def normalizeRequiredChecks_def Let_def)

lemma check_requirement_OK:
  "n \<noteq> [] \<Longrightarrow> prr_OK (checkRequirement (candidateCheckMap ul candidate) n) \<longleftrightarrow> passed ul candidate n"
  by (simp add: checkRequirement_def check_decides Let_def)

lemma evidence_decides:
  assumes "[] \<notin> set (pmq_RequiredChecks req)"
  shows "list_all prr_OK (evidenceRequirements ul req candidate) \<longleftrightarrow> evidence ul req candidate"
proof -
  have "list_all prr_OK (map (checkRequirement (candidateCheckMap ul candidate)) (pmq_RequiredChecks req)) \<longleftrightarrow>
    (\<forall>name \<in> set (pmq_RequiredChecks req). passed ul candidate name)"
    using check_requirement_OK assms unfolding list_all_iff by (metis (no_types, lifting) imageE image_eqI list.set_map)
  then show ?thesis by (auto simp: evidenceRequirements_def evidence_def)
qed

lemma time_Sub_ge: "- (2 ^ 63) < d \<Longrightarrow> d < 2 ^ 63 \<Longrightarrow> d \<le> time_Sub a b \<longleftrightarrow> d \<le> a - b"
  by (auto simp: time_Sub_def)

lemma stableFor_decides:
  assumes "rcd_ReleaseID candidate \<noteq> []" "0 < pmq_MinStableDuration req" "pmq_MinStableDuration req < 2 ^ 63"
  shows "prr_OK (stableFor req candidate control now) \<longleftrightarrow> stable_enough req candidate control now"
  using assms time_Sub_ge [of "pmq_MinStableDuration req" now]
  by (auto simp: stableFor_def stable_enough_def Let_def split: option.splits)

section \<open>Keys\<close>

definition candidate_key :: "string \<Rightarrow> string \<Rightarrow> string" where
  "candidate_key svc x = ''services/'' @ svc @ ''/candidates/'' @ x @ ''/candidate.json''"

lemma candidate_path: "is_name svc \<Longrightarrow> is_id x \<Longrightarrow> paths_ReleaseCandidate svc x = Inr (candidate_key svc x)"
  by (simp add: paths_ReleaseCandidate_def rbind_Inr_iff validateName_iff validateID_iff candidate_key_def)

lemma rel_check_Inr: "rel_check a b = Inr () \<longleftrightarrow> a = Inr () \<and> b = Inr ()"
  by (simp add: rel_check_def split: sum.split)

lemma rel_error_Inr: "rel_error f r = Inr x \<longleftrightarrow> r = Inr x"
  by (simp add: rel_error_def split: sum.split)

lemma valid_request:
  "validatePromotionRequest req = Inr () \<longleftrightarrow> is_name (pmq_Service req) \<and> is_name (pmq_FromEnv req) \<and> is_name (pmq_ToEnv req) \<and>
     is_id (pmq_CandidateID req) \<and> is_id (pmq_OperationID req) \<and> pmq_FromEnv req \<noteq> pmq_ToEnv req"
  by (auto simp: validatePromotionRequest_def rel_check_Inr rel_error_Inr validateName_iff validateID_iff)

section \<open>A candidate in the store\<close>

definition candidate_at :: "(string \<rightharpoonup> (string \<times> body)) \<Rightarrow> string \<Rightarrow> string \<Rightarrow> ReleaseCandidate \<Rightarrow> bool" where
  "candidate_at m svc x c \<longleftrightarrow> (\<exists>e b. m (candidate_key svc x) = Some (e, b) \<and> canonical_UnmarshalStrict dec_ReleaseCandidate b = Inr c) \<and>
     validateCandidate c = Inr () \<and> rcd_Service c = svc"

lemma ReadCandidate_ok:
  assumes "is_name svc" "is_id x" "ReadCandidate sys_world svc x s = (Inr doc, t)"
  shows "sys_evolves s t \<and> candidate_at (sys_objs t) svc x (cnd_Candidate doc)"
proof -
  obtain u ob where u: "io_ctx sys_world s = (Inr (), u)" "os_Get sys_world (candidate_key svc x) u = (Inr ob, t)"
    "canonical_UnmarshalStrict dec_ReleaseCandidate (obj_Body ob) = Inr (cnd_Candidate doc)" "validateCandidate (cnd_Candidate doc) = Inr ()"
    "rcd_Service (cnd_Candidate doc) = svc"
    using assms by (auto simp: ReadCandidate_def ebind_def rel_io_def rel_lift_def rel_error_def eret_def efail_def candidate_path
        split: prod.splits sum.splits if_splits)
  have "sys_evolves s u" using u(1) sysw.ctx_ok by (auto simp: io_ctx_def split: prod.splits option.splits)
  then show ?thesis using sysw.get_ok [OF u(2)] sys_evolves_trans u(3-5) by (auto simp: candidate_at_def)
qed

lemma ReadCandidate_alone:
  assumes "is_name svc" "is_id x" "sys_env s = []" "candidate_at (sys_objs s) svc x c"
  shows "\<exists>doc. ReadCandidate sys_world svc x s = (Inr doc, s) \<and> cnd_Candidate doc = c"
proof -
  obtain e b where b: "sys_objs s (candidate_key svc x) = Some (e, b)" "canonical_UnmarshalStrict dec_ReleaseCandidate b = Inr c"
    "validateCandidate c = Inr ()" "rcd_Service c = svc" using assms(4) by (auto simp: candidate_at_def)
  obtain ob where "os_Get sys_world (candidate_key svc x) s = (Inr ob, s)" "obj_Body ob = b" using alone_Get [OF assms(3) b(1)] by blast
  then show ?thesis using b assms
    by (simp add: ReadCandidate_def ebind_def rel_io_def rel_lift_def rel_error_def eret_def candidate_path)
qed

section \<open>The gates in a state of the store\<close>

definition stable_in :: "PromotionRequest \<Rightarrow> ReleaseCandidate \<Rightarrow> gotime \<Rightarrow> (string \<rightharpoonup> (string \<times> body)) \<Rightarrow> bool" where
  "stable_in req c now m \<longleftrightarrow> 0 < pmq_MinStableDuration req \<longrightarrow>
     (\<exists>e control. control_at m (service_key (pmq_Service req)) = Some (e, control) \<and> validateServiceControl control = Inr () \<and>
        sc_Service control = pmq_Service req \<and> stable_enough req c control now)"

lemma stableDuration_OK:
  assumes "stableDurationRequirement W req c now s = (x, t)" "prr_OK x"
  shows "\<exists>doc. rcd_ReleaseID c \<noteq> [] \<and> GetServiceControl W (pmq_Service req) s = (Inr doc, t) \<and> x = stableFor req c (scd_Control doc) now"
  using assms by (auto simp: stableDurationRequirement_def split: if_splits prod.splits sum.splits)

lemma evaluate_OK:
  assumes e: "evaluatePromotionRequirements sys_world ul req c now s = (rs, t)" "list_all prr_OK rs" "[] \<notin> set (pmq_RequiredChecks req)"
    and d: "pmq_MinStableDuration req < 2 ^ 63"
  shows "sys_evolves s t \<and> evidence ul req c \<and> stable_in req c now (sys_objs t)"
proof (cases "0 < pmq_MinStableDuration req")
  case False
  then have "rs = evidenceRequirements ul req c" "t = s" using e(1) by (simp_all add: evaluatePromotionRequirements_def)
  then show ?thesis using e(2) evidence_decides [OF e(3)] False by (simp add: stable_in_def)
next
  case True
  obtain x where x: "stableDurationRequirement sys_world req c now s = (x, t)" "rs = evidenceRequirements ul req c @ [x]"
    using e(1) True by (auto simp: evaluatePromotionRequirements_def split: prod.splits)
  have ok: "prr_OK x" "list_all prr_OK (evidenceRequirements ul req c)" using e(2) by (simp_all add: x(2))
  obtain doc where doc: "rcd_ReleaseID c \<noteq> []" "GetServiceControl sys_world (pmq_Service req) s = (Inr doc, t)" "x = stableFor req c (scd_Control doc) now"
    using stableDuration_OK [OF x(1) ok(1)] by blast
  have "scd_Key doc = service_key (pmq_Service req)"
    using sysw.GetServiceControl_ok(2) [OF doc(2)] by (simp add: paths_ServiceControl_iff)
  then show ?thesis
    using sysw.GetServiceControl_ok [OF doc(2)] stableFor_decides [OF doc(1) True d] ok doc(3) evidence_decides [OF e(3)] by (auto simp: stable_in_def)
qed

lemma GetServiceControl_alone_ok:
  assumes "sys_env s = []" "GetServiceControl sys_world svc s = (Inr doc, t)"
  shows "t = s" "control_at (sys_objs s) (service_key svc) = Some (scd_ETag doc, scd_Control doc)"
proof -
  show "t = s" using stillD [OF still_GetServiceControl assms] .
  then show "control_at (sys_objs s) (service_key svc) = Some (scd_ETag doc, scd_Control doc)"
    using sysw.GetServiceControl_ok(2,3) [OF assms(2)] by (simp add: paths_ServiceControl_iff)
qed

lemma stableDuration_alone:
  assumes s: "sys_env s = []" and n: "is_name (pmq_Service req)" and d: "0 < pmq_MinStableDuration req" "pmq_MinStableDuration req < 2 ^ 63"
  shows "\<exists>x. stableDurationRequirement sys_world req c now s = (x, s) \<and> (prr_OK x \<longleftrightarrow> stable_in req c now (sys_objs s))"
proof -
  obtain x t where x: "stableDurationRequirement sys_world req c now s = (x, t)" by fastforce
  have "t = s" using x stillD [OF still_GetServiceControl s]
    by (auto simp: stableDurationRequirement_def split: if_splits prod.splits sum.splits)
  moreover have "stable_in req c now (sys_objs s)" if ok: "prr_OK x"
  proof -
    obtain doc where doc: "rcd_ReleaseID c \<noteq> []" "GetServiceControl sys_world (pmq_Service req) s = (Inr doc, t)" "x = stableFor req c (scd_Control doc) now"
      using stableDuration_OK [OF x ok] by blast
    show ?thesis using GetServiceControl_alone_ok [OF s doc(2)] sysw.GetServiceControl_ok(4,5) [OF doc(2)] ok doc(3) stableFor_decides [OF doc(1) d]
      by (auto simp: stable_in_def)
  qed
  moreover have "prr_OK x" if st: "stable_in req c now (sys_objs s)"
  proof -
    obtain e control where c: "control_at (sys_objs s) (service_key (pmq_Service req)) = Some (e, control)" "validateServiceControl control = Inr ()"
      "sc_Service control = pmq_Service req" "stable_enough req c control now" using st d(1) by (auto simp: stable_in_def)
    have r: "rcd_ReleaseID c \<noteq> []" using c(4) by (simp add: stable_enough_def)
    obtain doc where "GetServiceControl sys_world (pmq_Service req) s = (Inr doc, s)" "scd_Control doc = control"
      using alone_GetServiceControl [OF s _ c(1-3)] n by (auto simp: paths_ServiceControl_iff)
    then show ?thesis using x r stableFor_decides [OF r d, of control now] c(4) by (auto simp: stableDurationRequirement_def)
  qed
  ultimately show ?thesis using x by blast
qed

lemma evaluate_alone:
  assumes s: "sys_env s = []" and n: "is_name (pmq_Service req)" and d: "pmq_MinStableDuration req < 2 ^ 63" and r: "[] \<notin> set (pmq_RequiredChecks req)"
  shows "\<exists>rs. evaluatePromotionRequirements sys_world ul req c now s = (rs, s) \<and>
    (list_all prr_OK rs \<longleftrightarrow> evidence ul req c \<and> stable_in req c now (sys_objs s))"
proof (cases "0 < pmq_MinStableDuration req")
  case False
  then show ?thesis using evidence_decides [OF r] by (simp add: evaluatePromotionRequirements_def stable_in_def)
next
  case True
  obtain x where "stableDurationRequirement sys_world req c now s = (x, s)" "prr_OK x \<longleftrightarrow> stable_in req c now (sys_objs s)"
    using stableDuration_alone [OF s n True d] by blast
  then show ?thesis using True evidence_decides [OF r] by (simp add: evaluatePromotionRequirements_def)
qed

section \<open>Authorization\<close>

lemma default_allowed:
  assumes "MustAuthorize sys_world ul None q s = ((d, None), t)"
  shows "sys_evolves s t \<and> policy_allows ul (authz_normalizeRequest ul q)"
proof -
  have "\<exists>d t. MustAuthorize sys_world ul None q s = ((d, None), t)" using assms by blast
  moreover have "sys_evolves s t" using assms sysw.quietD [OF sysw.quiet_world(8)] sysw.ctx_ok
    by (auto simp: MustAuthorize_def authz_policy_def DefaultPolicy_def io_ctx_def split: prod.splits sum.splits option.splits if_splits)
  ultimately show ?thesis using authz_decide_iff [of ul q] assms
    by (auto simp: MustAuthorize_def authz_policy_def DefaultPolicy_def split: prod.splits sum.splits option.splits if_splits)
qed

lemma default_alone:
  assumes "sys_env s = []"
  shows "\<exists>d e. MustAuthorize sys_world ul None q s = ((d, e), s) \<and> (e = None \<longleftrightarrow> policy_allows ul (authz_normalizeRequest ul q))"
  using assms authz_decide_iff [of ul q]
  by (cases "authz_decide ul q"; cases "snd (authz_decide ul q)") (auto simp: MustAuthorize_def authz_policy_def DefaultPolicy_def)

section \<open>The operation of a promotion\<close>

lemma promotion_event_key:
  "keyForEvent (log_normalizeEvent (promotionEvent req c intent now) w) = Inr k \<Longrightarrow> event_of (pmq_Service req) (pmq_OperationID req) k"
  using operation_event_key [of "promotionEvent req c intent now"] by (auto simp: promotionEvent_def event_of_def)

lemma promotionLog_alone:
  assumes "sys_env s = []" "sys_inv s"
  shows "\<exists>es t. promotionLog sys_world req c intent s = (Inr es, t) \<and>
    calm (\<lambda>k. event_of (pmq_Service req) (pmq_OperationID req) k \<or> prefix ''audit/'' k) s t"
proof -
  obtain r u where l: "log_Append sys_world (promotionEvent req c intent (sys_now s)) s = (r, u)" by fastforce
  have c1: "calm (event_of (pmq_Service req) (pmq_OperationID req)) s u"
    by (rule alone_log_Append_calm [OF assms _ l]) (rule promotion_event_key)
  then have u: "sys_env u = []" "sys_inv u" by (simp_all add: calm_def)
  obtain x t where a: "log_AppendAudit sys_world (promotionAudit req c intent (sys_now u)) u = (x, t)" by fastforce
  have "calm (\<lambda>k. event_of (pmq_Service req) (pmq_OperationID req) k \<or> prefix ''audit/'' k) s t"
    by (rule calm_trans [OF calm_mono [OF c1] calm_mono [OF alone_audit_calm [OF u a]]]) simp_all
  moreover have "\<exists>es. promotionLog sys_world req c intent s = (Inr es, t)" using l a u(1) assms(1)
    by (simp add: promotionLog_def loggedEvent_def io_bind_def io_try_def io_ret_def)
  ultimately show ?thesis by blast
qed

lemma promotion_control_wf: "wf_OperationControl (promotionControl req c now)"
  by (simp add: promotionControl_def wf_OperationControl_def zero_OperationControl_def wf_StepResultRef_def raw_valid_def)

lemma promotion_intent_raws: "raws_ok_OperationIntent (promotionIntent ul req c now)"
  by (simp add: raws_ok_OperationIntent_def promotionIntent_def raw_valid_def)

definition promotion_keys :: "PromotionRequest \<Rightarrow> string \<Rightarrow> bool" where
  "promotion_keys req k \<longleftrightarrow> k = intent_key (pmq_Service req) (pmq_OperationID req) \<or> k = op_key (pmq_Service req) (pmq_OperationID req) \<or>
     event_of (pmq_Service req) (pmq_OperationID req) k \<or> prefix ''audit/'' k"

definition promotion_recorded :: "(string \<Rightarrow> string) \<Rightarrow> PromotionRequest \<Rightarrow> ReleaseCandidate \<Rightarrow> gotime \<Rightarrow> sys \<Rightarrow> bool" where
  "promotion_recorded ul req c now t \<longleftrightarrow>
     (\<exists>e e'. sys_objs t (intent_key (pmq_Service req) (pmq_OperationID req)) = Some (e, JsonBody (enc_OperationIntent (promotionIntent ul req c now))) \<and>
        op_at (sys_objs t) (pmq_Service req) (pmq_OperationID req) = Some (e', promotionControl req c now))"

lemma operation_keys [simp]:
  "\<not> event_of svc x (intent_key svc x)" "\<not> event_of svc x (op_key svc x)" "\<not> prefix ''audit/'' (intent_key svc x)" "\<not> prefix ''audit/'' (op_key svc x)"
  by (auto simp: event_of_def paths_OperationEvent_def rbind_Inr_iff op_key_def intent_key_def)

lemma createPromotion_alone:
  fixes req
  defines "svc \<equiv> pmq_Service req" and "x \<equiv> pmq_OperationID req"
  assumes s: "sys_env s = []" "sys_inv s" and n: "is_name svc" "is_id x" and fresh: "sys_objs s (intent_key svc x) = None" "sys_objs s (op_key svc x) = None"
  shows "\<exists>t v es. createPromotionOperation sys_world req c (promotionIntent ul req c now) now (s, r) = (Inr (), (t, v)) \<and>
    v = r\<lparr>pmr_OperationIntent := Some (promotionIntent ul req c now), pmr_OperationControl := Some (promotionControl req c now), pmr_Events := es\<rparr> \<and>
    calm (promotion_keys req) s t \<and> promotion_recorded ul req c now t"
proof -
  let ?i = "promotionIntent ul req c now" and ?c = "promotionControl req c now"
  obtain m1 s1 where c1: "os_Create sys_world (intent_key svc x) (JsonBody (enc_OperationIntent ?i)) ops_putOptions s = (Inr m1, s1)"
    "calm (\<lambda>k. k = intent_key svc x) s s1" "sys_objs s1 (intent_key svc x) = Some (om_ETag m1, JsonBody (enc_OperationIntent ?i))"
    using alone_create_calm [OF s fresh(1)] by blast
  have s1: "sys_env s1 = []" "sys_inv s1" "sys_objs s1 (op_key svc x) = None"
    using c1(2) fresh(2) calm_objs [OF c1(2), of "op_key svc x"] by (simp_all add: calm_def)
  obtain m2 s2 where c2: "os_Create sys_world (op_key svc x) (JsonBody (enc_OperationControl ?c)) ops_putOptions s1 = (Inr m2, s2)"
    "calm (\<lambda>k. k = op_key svc x) s1 s2" "sys_objs s2 (op_key svc x) = Some (om_ETag m2, JsonBody (enc_OperationControl ?c))"
    using alone_create_calm [OF s1] by blast
  obtain es t where l: "promotionLog sys_world req c ?i s2 = (Inr es, t)" "calm (\<lambda>k. event_of svc x k \<or> prefix ''audit/'' k) s2 t"
    using promotionLog_alone [of s2 req c ?i] c2(2) by (auto simp: calm_def svc_def x_def)
  have "raws_ok_OperationControl ?c" using promotion_control_wf wf_op_iff by blast
  then have "createPromotionOperation sys_world req c ?i now (s, r) =
    (Inr (), (t, r\<lparr>pmr_OperationIntent := Some ?i, pmr_OperationControl := Some ?c, pmr_Events := pmr_Events r @ es\<rparr>))"
    using c1(1) c2(1) l(1) n promotion_intent_raws deploy_paths(3,4) unfolding createPromotionOperation_def svc_def x_def
    by (simp add: ebind_def host_def io_lift_def canonical_Marshal_def eupdate_def eret_def)
  moreover have "calm (promotion_keys req) s t"
    by (rule calm_trans [OF calm_mono [OF c1(2)] calm_trans [OF calm_mono [OF c2(2)] calm_mono [OF l(2)]]])
      (auto simp: promotion_keys_def svc_def x_def)
  moreover have "sys_objs t (intent_key svc x) = sys_objs s1 (intent_key svc x)" "sys_objs t (op_key svc x) = sys_objs s2 (op_key svc x)"
    using calm_objs [OF l(2)] calm_objs [OF c2(2), of "intent_key svc x"] by simp_all
  then have "promotion_recorded ul req c now t"
    using c1(3) c2(3) promotion_control_wf by (simp add: promotion_recorded_def svc_def x_def view_at_Some doc_view_Some codec_simps)
  ultimately show ?thesis by blast
qed

section \<open>Promote\<close>

lemma normalized_promotion [simp]:
  "pmq_MinStableDuration (normalizePromotionRequest ul req now) = pmq_MinStableDuration req"
  "pmq_DryRun (normalizePromotionRequest ul req now) = pmq_DryRun req"
  by (simp_all add: normalizePromotionRequest_def Let_def)

lemma promotion_result [simp]:
  "pmr_OK (promotionResult ul req c rs) = list_all prr_OK rs" "pmr_OperationIntent (promotionResult ul req c rs) = None"
  "pmr_OperationIntent (deniedPromotion err r) = pmr_OperationIntent r" "\<not> pmr_OK (deniedPromotion err r)"
  "pmr_OK (with_markdown r) = pmr_OK r" "pmr_OperationIntent (with_markdown r) = pmr_OperationIntent r"
  by (simp_all add: promotionResult_def deniedPromotion_def with_markdown_def)

text \<open>The intent in the result is the one of the promotion.\<close>

lemma createPromotion_intent:
  assumes "createPromotionOperation W req c intent now (s, r) = (x, (t, v))" "pmr_OperationIntent r = None" "pmr_OperationIntent v = Some i"
  shows "i = intent"
  using assms
  by (auto simp: createPromotionOperation_def ebind_def host_def eupdate_def eret_def split: prod.splits sum.splits)

text \<open>Steps that carry a result along change the world only as clients of the store can.\<close>

definition carried_quiet :: "(sys \<times> 'r, 'e, 'a) eio \<Rightarrow> bool" where
  "carried_quiet m \<longleftrightarrow> (\<forall>p r q. sys_inv (fst p) \<longrightarrow> m p = (r, q) \<longrightarrow> sys_evolves (fst p) (fst q))"

lemma carried_quietD: "carried_quiet m \<Longrightarrow> sys_inv (fst p) \<Longrightarrow> m p = (r, q) \<Longrightarrow> sys_evolves (fst p) (fst q)"
  unfolding carried_quiet_def by blast

lemma carried_quiet_bind:
  assumes "carried_quiet m" "\<And>x. carried_quiet (f x)"
  shows "carried_quiet (ebind m f)"
  unfolding carried_quiet_def
proof (intro allI impI)
  fix p r q
  assume a: "sys_inv (fst p)" "ebind m f p = (r, q)"
  obtain x p1 where m: "m p = (x, p1)" by (cases "m p")
  have e: "sys_evolves (fst p) (fst p1)" "sys_inv (fst p1)"
    using carried_quietD [OF assms(1) a(1) m] a(1) sysw.evolves_inv by blast+
  then show "sys_evolves (fst p) (fst q)"
    using a(2) m carried_quietD [OF assms(2) e(2)] sys_evolves_trans by (cases x) (auto simp: ebind_def)
qed

lemma carried_quiet_host: "sysw.quiet m \<Longrightarrow> carried_quiet (host exit m)"
  by (auto simp: carried_quiet_def host_def dest: sysw.quietD split: prod.splits sum.splits)

lemma carried_quiet_pure: "carried_quiet (eupdate g)" "carried_quiet (eret x)"
  by (auto simp: carried_quiet_def eupdate_def eret_def sysw.evolves_refl)

lemma quiet_promotionLog: "sysw.quiet (promotionLog sys_world req c intent)"
  by (auto simp: promotionLog_def loggedEvent_def)

text \<open>The steps after the intent has been written.\<close>

definition promotion_rest :: "PromotionRequest \<Rightarrow> ReleaseCandidate \<Rightarrow> OperationIntent \<Rightarrow> gotime \<Rightarrow> (sys \<times> PromotionResult, goerr, unit) eio" where
  "promotion_rest req candidate intent now =
     ebind (eupdate (\<lambda>result. result\<lparr>pmr_OperationIntent := Some intent\<rparr>)) (\<lambda>_.
     ebind (host id (io_lift (canonical_Marshal enc_OperationControl raws_ok_OperationControl (promotionControl req candidate now)))) (\<lambda>controlBody.
     ebind (host id (io_lift (paths_OperationControl (pmq_Service req) (pmq_OperationID req)))) (\<lambda>controlKey.
     ebind (host id (os_Create sys_world controlKey (JsonBody controlBody) ops_putOptions)) (\<lambda>_.
     ebind (eupdate (\<lambda>result. result\<lparr>pmr_OperationControl := Some (promotionControl req candidate now)\<rparr>)) (\<lambda>_.
     ebind (host id (promotionLog sys_world req candidate intent)) (\<lambda>logged.
     ebind (eupdate (\<lambda>result. result\<lparr>pmr_Events := pmr_Events result @ logged\<rparr>)) (\<lambda>_.
     eret ())))))))"

lemma carried_quiet_rest: "carried_quiet (promotion_rest req c intent now)"
  unfolding promotion_rest_def
  by (intro carried_quiet_bind carried_quiet_host carried_quiet_pure quiet_promotionLog sysw.quiet_world sysw.quiet_simps)

lemma createPromotion_writes:
  assumes "createPromotionOperation sys_world req c intent now (s, r) = (x, (t, v))" "sys_inv s"
    "is_name (pmq_Service req)" "is_id (pmq_OperationID req)" "pmr_OperationIntent r = None" "pmr_OperationIntent v \<noteq> None"
  shows "\<exists>ws e. sys_evolves s t \<and> sys_history t = sys_history s @ ws \<and>
    (intent_key (pmq_Service req) (pmq_OperationID req), e, JsonBody (enc_OperationIntent intent)) \<in> set ws"
proof -
  let ?k = "intent_key (pmq_Service req) (pmq_OperationID req)" and ?b = "JsonBody (enc_OperationIntent intent)"
  obtain m s1 where m: "os_Create sys_world ?k ?b ops_putOptions s = (Inr m, s1)"
    and rest: "promotion_rest req c intent now (s1, r) = (x, (t, v))"
    using assms(1,5,6) deploy_paths [OF assms(3,4)]
    by (auto simp: createPromotionOperation_def promotion_rest_def ebind_def host_def io_lift_def canonical_Marshal_def
        split: prod.splits sum.splits if_splits)
  obtain u where u: "sys_evolves s u" "sys_evolves u s1" "sys_writes u ?k (om_ETag m) ?b s1" using sysw.create_ok [OF m] by blast
  have "sys_evolves s s1" using u(1,2) sys_evolves_trans by blast
  then have t: "sys_evolves s1 t" using carried_quietD [OF carried_quiet_rest _ rest] assms(2) sysw.evolves_inv by auto
  obtain w1 w2 where "sys_history u = sys_history s @ w1" "sys_history t = sys_history s1 @ w2"
    using u(1) t unfolding sys_evolves_def by blast
  then have "sys_history t = sys_history s @ (w1 @ [(?k, om_ETag m, ?b)] @ w2)" using u(3) by (simp add: sys_writes_def)
  then show ?thesis using sys_evolves_trans [OF \<open>sys_evolves s s1\<close> t] by (intro exI conjI) auto
qed

lemma promote_steps:
  assumes "Promote sys_world ul policy req0 s = ((Some res, err), t)"
  shows "\<exists>now u doc v. sys_evolves s u \<and> sys_now u = now \<and> validatePromotionRequest (normalizePromotionRequest ul req0 now) = Inr () \<and>
    ReadCandidate sys_world (pmq_Service (normalizePromotionRequest ul req0 now)) (pmq_CandidateID (normalizePromotionRequest ul req0 now)) u = (Inr doc, v) \<and>
    promoteCandidate sys_world ul policy (normalizePromotionRequest ul req0 now) (cnd_Candidate doc) now v = ((Some res, err), t)"
proof -
  obtain t0 where c: "io_ctx sys_world s = (Inr (), t0)" using assms by (cases "fst (io_ctx sys_world s)") (auto simp: Promote_def split: prod.splits sum.splits)
  obtain now u where u: "w_Now sys_world t0 = (now, u)" by fastforce
  have "sys_evolves s t0" using c sysw.ctx_ok by (auto simp: io_ctx_def split: prod.splits option.splits)
  then have "sys_evolves s u" "sys_now u = now" using sysw.now_ok [OF u] sys_evolves_trans by auto
  then show ?thesis using assms by (auto simp: Promote_def c u Let_def split: prod.splits sum.splits)
qed

lemma Promote_alone:
  fixes ul req0 s
  defines "req \<equiv> normalizePromotionRequest ul req0 (sys_now s)"
  assumes "sys_env s = []" "validatePromotionRequest req = Inr ()" "candidate_at (sys_objs s) (pmq_Service req) (pmq_CandidateID req) c"
  shows "Promote sys_world ul policy req0 s = promoteCandidate sys_world ul policy req c (sys_now s) s"
proof -
  have n: "is_name (pmq_Service req)" "is_id (pmq_CandidateID req)" using assms(3) by (simp_all add: valid_request)
  have w: "w_Now sys_world s = (sys_now s, s)" using assms(2) by (simp add: sys_world_def)
  obtain doc where "ReadCandidate sys_world (pmq_Service req) (pmq_CandidateID req) s = (Inr doc, s)" "cnd_Candidate doc = c"
    using ReadCandidate_alone [OF n assms(2,4)] by blast
  then show ?thesis using assms(2,3) w by (simp add: Promote_def req_def Let_def)
qed

lemma promoted_alone:
  assumes s: "sys_env s = []" "sys_inv s" and v: "validatePromotionRequest req = Inr ()"
    and fresh: "sys_objs s (intent_key (pmq_Service req) (pmq_OperationID req)) = None" "sys_objs s (op_key (pmq_Service req) (pmq_OperationID req)) = None"
    and e: "evaluatePromotionRequirements sys_world ul req c now s = (rs, s)" "list_all prr_OK rs" "\<not> pmq_DryRun req"
    and p: "policy_allows ul (authz_normalizeRequest ul (promotionAuthz ul req))"
  shows "\<exists>res t. promoteCandidate sys_world ul None req c now s = ((Some res, None), t) \<and> pmr_OK res \<and>
    pmr_OperationIntent res = Some (promotionIntent ul req c now) \<and> calm (promotion_keys req) s t \<and> promotion_recorded ul req c now t"
proof -
  have n: "is_name (pmq_Service req)" "is_id (pmq_OperationID req)" using v by (simp_all add: valid_request)
  obtain d where d: "MustAuthorize sys_world ul None (promotionAuthz ul req) s = ((d, None), s)" using default_alone [OF s(1)] p by blast
  obtain t es where "createPromotionOperation sys_world req c (promotionIntent ul req c now) now (s, promotionResult ul req c rs) =
      (Inr (), (t, (promotionResult ul req c rs)\<lparr>pmr_OperationIntent := Some (promotionIntent ul req c now),
         pmr_OperationControl := Some (promotionControl req c now), pmr_Events := es\<rparr>))"
    "calm (promotion_keys req) s t" "promotion_recorded ul req c now t"
    using createPromotion_alone [OF s n fresh] by blast
  then show ?thesis using e d by (simp add: promoteCandidate_def Let_def)
qed

section \<open>Creating a candidate\<close>

lemma candidate_event_key:
  "keyForEvent (log_normalizeEvent (candidateEvent c now) w) = Inr k \<Longrightarrow> prefix (''services/'' @ rcd_Service c @ ''/events/'') k"
  by (auto simp: keyForEvent_def candidateEvent_def NewServiceEvent_def paths_ServiceEvent_def rbind_Inr_iff Let_def)

definition candidate_log_keys :: "string \<Rightarrow> string \<Rightarrow> bool" where
  "candidate_log_keys svc k \<longleftrightarrow> prefix (''services/'' @ svc @ ''/events/'') k \<or> prefix ''audit/'' k"

lemma candidateLog_alone:
  assumes "sys_env s = []" "sys_inv s"
  shows "\<exists>es t. candidateLog sys_world c key s = (Inr es, t) \<and> calm (candidate_log_keys (rcd_Service c)) s t"
proof -
  obtain r u where l: "log_Append sys_world (candidateEvent c (sys_now s)) s = (r, u)" by fastforce
  have c1: "calm (prefix (''services/'' @ rcd_Service c @ ''/events/'')) s u"
    by (rule alone_log_Append_calm [OF assms _ l]) (rule candidate_event_key)
  then have u: "sys_env u = []" "sys_inv u" by (simp_all add: calm_def)
  obtain x t where a: "log_AppendAudit sys_world (candidateAudit c key (sys_now u)) u = (x, t)" by fastforce
  have "calm (candidate_log_keys (rcd_Service c)) s t"
    by (rule calm_trans [OF calm_mono [OF c1] calm_mono [OF alone_audit_calm [OF u a]]]) (simp_all add: candidate_log_keys_def)
  moreover have "\<exists>es. candidateLog sys_world c key s = (Inr es, t)" using l a u(1) assms(1)
    by (simp add: candidateLog_def loggedEvent_def io_bind_def io_try_def io_ret_def)
  ultimately show ?thesis by blast
qed

lemma candidate_key_unlogged: "\<not> candidate_log_keys svc (candidate_key svc x)"
  by (simp add: candidate_log_keys_def candidate_key_def)

text \<open>
  A candidate is written once and read back as it was made: a client alone that creates a valid candidate stores it and reads it again, with
  no change outside its key, the service's events and the audit records, and if the id is taken, the creation fails and changes nothing.
\<close>

theorem created_candidate_reads:
  fixes ul req0 s
  defines "c \<equiv> candidateOf ul (normalizeCandidateRequest req0 (sys_now s)) (sys_now s)"
  assumes s: "sys_env s = []" "sys_inv s" and c: "validateCandidate c = Inr ()" "wf_map (ccq_Annotations req0)"
  shows "if sys_objs s (candidate_key (rcd_Service c) (rcd_CandidateID c)) = None
    then \<exists>res t doc. CreateCandidate sys_world ul req0 s = (Inr res, t) \<and> ccr_Candidate res = c \<and>
      ReadCandidate sys_world (rcd_Service c) (rcd_CandidateID c) t = (Inr doc, t) \<and> cnd_Candidate doc = c \<and>
      (\<forall>k. k \<noteq> candidate_key (rcd_Service c) (rcd_CandidateID c) \<and> \<not> candidate_log_keys (rcd_Service c) k \<longrightarrow> sys_objs t k = sys_objs s k)
    else \<exists>err. CreateCandidate sys_world ul req0 s = (Inl (CandidateError ''RELEASE_CANDIDATE_EXISTS'' ''release candidate object could not be created'' (Some err)), s)"
proof -
  let ?k = "candidate_key (rcd_Service c) (rcd_CandidateID c)" and ?b = "JsonBody (enc_ReleaseCandidate c)"
  have n: "is_name (rcd_Service c)" "is_id (rcd_CandidateID c)"
    using c(1) by (auto simp: validateCandidate_def rel_check_Inr rel_error_Inr validateName_iff validateID_iff split: if_splits)
  note run = CreateCandidate_def ebind_def rel_io_def rel_lift_def rel_error_def eret_def candidate_path io_lift_def canonical_Marshal_def Let_def
  show ?thesis
  proof (cases "sys_objs s ?k = None")
    case True
    obtain m u where m: "os_Create sys_world ?k ?b ops_putOptions s = (Inr m, u)" "calm (\<lambda>x. x = ?k) s u" "sys_objs u ?k = Some (om_ETag m, ?b)"
      using alone_create_calm [OF s True] by blast
    obtain es t where l: "candidateLog sys_world c (om_Key m) u = (Inr es, t)" "calm (candidate_log_keys (rcd_Service c)) u t"
      using candidateLog_alone m(2) by (metis calm_def)
    have "wf_ReleaseCandidate c" using c(2) by (simp add: wf_ReleaseCandidate_def c_def candidateOf_def normalizeCandidateRequest_def Let_def)
    then have "candidate_at (sys_objs t) (rcd_Service c) (rcd_CandidateID c) c"
      using calm_objs [OF l(2) candidate_key_unlogged] m(3) c(1) by (simp add: candidate_at_def canonical_UnmarshalStrict_def codec_ReleaseCandidate)
    then obtain doc where "ReadCandidate sys_world (rcd_Service c) (rcd_CandidateID c) t = (Inr doc, t)" "cnd_Candidate doc = c"
      using ReadCandidate_alone [OF n _ _, of t c] l(2) unfolding calm_def by blast
    moreover have "\<exists>res. CreateCandidate sys_world ul req0 s = (Inr res, t) \<and> ccr_Candidate res = c"
      using s(1) c(1) m(1) l(1) n by (simp add: run c_def [symmetric])
    ultimately show ?thesis using True calm_objs [OF m(2)] calm_objs [OF l(2)] by auto
  next
    case False
    then obtain eb where "sys_objs s ?k = Some eb" by blast
    then show ?thesis using s(1) c(1) n alone_Create_exists [OF s(1)] False
      by (simp add: run c_def [symmetric] create_failed_def)
  qed
qed

section \<open>Listing releases\<close>

text \<open>Listed releases come newest first, with equal times in the order of their ids, each of the service asked for, and no more than the limit.\<close>

lemma releaseBefore_trans: "\<not> releaseBefore b a \<Longrightarrow> \<not> releaseBefore c b \<Longrightarrow> \<not> releaseBefore c a"
  by (auto simp: releaseBefore_def split: if_splits)

lemma releaseBefore_asym: "releaseBefore a b \<Longrightarrow> \<not> releaseBefore b a"
  by (auto simp: releaseBefore_def split: if_splits)

lemma set_insertRelease [simp]: "set (insertRelease d ds) = insert d (set ds)"
  by (induction ds) auto

lemma insertRelease_sorted: "sorted_wrt (\<lambda>a b. \<not> releaseBefore b a) ds \<Longrightarrow> sorted_wrt (\<lambda>a b. \<not> releaseBefore b a) (insertRelease d ds)"
  by (induction ds) (auto dest: releaseBefore_asym releaseBefore_trans)

lemma mset_insertRelease: "mset (insertRelease d ds) = add_mset d (mset ds)"
  by (induction ds) auto

lemma sortReleases_correct: "sorted_wrt (\<lambda>a b. \<not> releaseBefore b a) (sortReleases docs)" "mset (sortReleases docs) = mset docs"
proof -
  show "sorted_wrt (\<lambda>a b. \<not> releaseBefore b a) (sortReleases docs)"
    unfolding sortReleases_def by (induction docs) (simp_all add: insertRelease_sorted)
  show "mset (sortReleases docs) = mset docs"
    unfolding sortReleases_def by (induction docs) (simp_all add: mset_insertRelease)
qed

lemma readManifests_service:
  "readManifests W svc pre ms s = (Inr docs, t) \<Longrightarrow> d \<in> set docs \<Longrightarrow>
     rm_Service (mfd_Manifest d) = svc \<and> parseReleaseManifestKey pre (mfd_Key d) = Some (rm_ReleaseID (mfd_Manifest d))"
proof (induction ms arbitrary: s docs t)
  case (Cons m ms)
  show ?case
  proof (cases "parseReleaseManifestKey pre (om_Key m)")
    case None
    then show ?thesis using Cons by simp
  next
    case (Some r)
    obtain x u ds where x: "readListed W svc m r s = (Inr x, u)" "readManifests W svc pre ms u = (Inr ds, t)" "docs = x # ds"
      using Cons.prems(1) Some by (auto simp: ebind_def eret_def split: prod.splits sum.splits)
    have "rm_Service (mfd_Manifest x) = svc \<and> rm_ReleaseID (mfd_Manifest x) = r \<and> mfd_Key x = om_Key m"
      using x(1) by (auto simp: readListed_def ebind_def rel_io_def rel_lift_def rel_error_def eret_def efail_def split: prod.splits sum.splits if_splits)
    then show ?thesis using Cons.IH [OF x(2)] Cons.prems(2) Some by (auto simp: x(3))
  qed
qed (simp add: eret_def)

theorem listed_releases:
  assumes "ListManifests W opts s = (Inr docs, t)"
  shows "sorted_wrt (\<lambda>a b. \<not> releaseBefore b a) docs \<and> (0 < mlo_Limit opts \<longrightarrow> int (length docs) \<le> mlo_Limit opts) \<and>
    (\<forall>d \<in> set docs. rm_Service (mfd_Manifest d) = mlo_Service opts)"
proof -
  obtain pre ms u all where r: "readManifests W (mlo_Service opts) pre ms u = (Inr all, t)"
    "docs = (if 0 < mlo_Limit opts \<and> mlo_Limit opts < int (length (sortReleases all)) then take (nat (mlo_Limit opts)) (sortReleases all) else sortReleases all)"
    using assms by (auto simp: ListManifests_def ebind_def rel_io_def rel_lift_def rel_error_def eret_def Let_def split: prod.splits sum.splits)
  have "set docs \<subseteq> set all" using mset_eq_setD [OF sortReleases_correct(2) [of all]] set_take_subset [of _ "sortReleases all"] by (simp add: r(2))
  then have "\<forall>d \<in> set docs. rm_Service (mfd_Manifest d) = mlo_Service opts" using readManifests_service [OF r(1)] by blast
  then show ?thesis using sortReleases_correct(1) [of all] r(2) sorted_wrt_take by auto
qed

section \<open>Properties\<close>

text \<open>
  C12: no promotion without its gates. Whatever other clients do in the meantime, if \<^verbatim>\<open>Promote\<close> under the default policy returns a result with an
  operation intent, then it was no dry run, the two environments differ, and there were instants \<open>u\<close> and later \<open>v\<close> of this run, after its start \<open>s\<close>: at \<open>u\<close> the
  store held the valid candidate \<open>c\<close> under the key of the request, which is of the source environment, has a sha256 digest and has passed every required check by the
  last entry for it; a production target came with an approval or a break-glass actor; the policy allows the normalized request; where a stable time is
  required, at \<open>v\<close> the service's document named the candidate's release as stable and was at least that old. The intent is the one for this candidate, and it was
  written to the store after \<open>v\<close> and before the return \<open>t\<close>: its write is in the history of the run between them.
\<close>

theorem promotion_gated:
  assumes "Promote sys_world ul None req0 s = ((Some res, err), t)" "pmr_OperationIntent res \<noteq> None" "pmq_MinStableDuration req0 < 2 ^ 63" "sys_inv s"
  shows "\<exists>now req c u v ws e. sys_now s \<le> now \<and> now \<le> sys_now u \<and> req = normalizePromotionRequest ul req0 now \<and>
    sys_evolves s u \<and> sys_evolves u v \<and> sys_evolves v t \<and> \<not> pmq_DryRun req0 \<and>
    pmq_FromEnv req \<noteq> pmq_ToEnv req \<and> candidate_at (sys_objs u) (pmq_Service req) (pmq_CandidateID req) c \<and> evidence ul req c \<and>
    stable_in req c now (sys_objs v) \<and> policy_allows ul (authz_normalizeRequest ul (promotionAuthz ul req)) \<and>
    pmr_OperationIntent res = Some (promotionIntent ul req c now) \<and> sys_history t = sys_history v @ ws \<and>
    (intent_key (pmq_Service req) (pmq_OperationID req), e, JsonBody (enc_OperationIntent (promotionIntent ul req c now))) \<in> set ws"
proof -
  obtain now u doc v where p: "sys_evolves s u" "sys_now u = now" "validatePromotionRequest (normalizePromotionRequest ul req0 now) = Inr ()"
    "ReadCandidate sys_world (pmq_Service (normalizePromotionRequest ul req0 now)) (pmq_CandidateID (normalizePromotionRequest ul req0 now)) u = (Inr doc, v)"
    "promoteCandidate sys_world ul None (normalizePromotionRequest ul req0 now) (cnd_Candidate doc) now v = ((Some res, err), t)"
    using promote_steps [OF assms(1)] by blast
  define req c where "req = normalizePromotionRequest ul req0 now" and "c = cnd_Candidate doc"
  have n: "is_name (pmq_Service req)" "is_id (pmq_CandidateID req)" "pmq_FromEnv req \<noteq> pmq_ToEnv req" "is_id (pmq_OperationID req)"
    using p(3) by (simp_all add: req_def valid_request)
  have r: "sys_evolves u v" "candidate_at (sys_objs v) (pmq_Service req) (pmq_CandidateID req) c"
    using ReadCandidate_ok [OF n(1,2)] p(4) by (auto simp: req_def c_def)
  obtain rs v' where e: "evaluatePromotionRequirements sys_world ul req c now v = (rs, v')" by fastforce
  have ok: "list_all prr_OK rs" "\<not> pmq_DryRun req0" using p(5) e assms(2) by (auto simp: promoteCandidate_def req_def c_def Let_def split: if_splits)
  have g: "sys_evolves v v'" "evidence ul req c" "stable_in req c now (sys_objs v')"
    using evaluate_OK [OF e ok(1)] required_named assms(3) by (auto simp: req_def)
  obtain d x w where a: "MustAuthorize sys_world ul None (promotionAuthz ul req) v' = ((d, x), w)" by (metis prod.exhaust)
  have x: "x = None" using p(5) e a ok assms(2) by (cases x) (auto simp: promoteCandidate_def req_def c_def Let_def)
  then have au: "sys_evolves v' w" "policy_allows ul (authz_normalizeRequest ul (promotionAuthz ul req))" using default_allowed a by blast+
  obtain y t' r' where o: "createPromotionOperation sys_world req c (promotionIntent ul req c now) now (w, promotionResult ul req c rs) = (y, (t', r'))"
    by (metis prod.exhaust)
  have i: "pmr_OperationIntent res = pmr_OperationIntent r'" "t' = t"
    using p(5) e a x ok o by (cases y; auto simp: promoteCandidate_def req_def c_def Let_def)+
  then have res: "pmr_OperationIntent res = Some (promotionIntent ul req c now)" using createPromotion_intent [OF o] assms(2) by auto
  have sv: "sys_evolves s v" "sys_evolves v w" using p(1) r(1) g(1) au(1) sys_evolves_trans by blast+
  have "sys_inv w" using assms(4) sv sysw.evolves_inv by blast
  from createPromotion_writes [OF o this n(1,4)] i assms(2) obtain w2 e where
    w: "sys_evolves w t" "sys_history t = sys_history w @ w2"
      "(intent_key (pmq_Service req) (pmq_OperationID req), e, JsonBody (enc_OperationIntent (promotionIntent ul req c now))) \<in> set w2" by auto
  obtain w1 where "sys_history w = sys_history v' @ w1" using au(1) unfolding sys_evolves_def by blast
  then have h: "sys_history t = sys_history v' @ (w1 @ w2)" using w(2) by simp
  have t: "sys_evolves v' t" using au(1) w(1) sys_evolves_trans by blast
  have now: "sys_now s \<le> now" "now \<le> sys_now v" using p(1,2) r(1) sys_evolves_clock by blast+
  show ?thesis
    by (rule exI [of _ now], rule exI [of _ req], rule exI [of _ c], rule exI [of _ v], rule exI [of _ v'], rule exI [of _ "w1 @ w2"], rule exI [of _ e])
      (use now req_def sv(1) g t ok(2) n(3) r(2) au(2) res h w(3) in simp)
qed

text \<open>
  C23: what \<^verbatim>\<open>Promote\<close> does for a client alone. A valid request for a valid candidate whose operation id is new never fails: if the gates hold, it
  is no dry run and the default policy allows it, the store afterwards has the intent and the finished operation of the promotion and has
  changed nowhere else but in events and audit records; otherwise the store is as before and the result has no intent. The result is OK exactly if the
  gates hold and the request is a dry run or allowed.
\<close>

theorem promote_decides:
  fixes ul req0 s
  defines "req \<equiv> normalizePromotionRequest ul req0 (sys_now s)"
  assumes s: "sys_env s = []" "sys_inv s" and v: "validatePromotionRequest req = Inr ()" "pmq_MinStableDuration req0 < 2 ^ 63"
    and c: "candidate_at (sys_objs s) (pmq_Service req) (pmq_CandidateID req) c"
    and fresh: "sys_objs s (intent_key (pmq_Service req) (pmq_OperationID req)) = None" "sys_objs s (op_key (pmq_Service req) (pmq_OperationID req)) = None"
  defines "gates \<equiv> evidence ul req c \<and> stable_in req c (sys_now s) (sys_objs s)"
    and "allowed \<equiv> policy_allows ul (authz_normalizeRequest ul (promotionAuthz ul req))"
  shows "\<exists>res t. Promote sys_world ul None req0 s = ((Some res, None), t) \<and> (pmr_OK res \<longleftrightarrow> gates \<and> (pmq_DryRun req0 \<or> allowed)) \<and>
    (if gates \<and> \<not> pmq_DryRun req0 \<and> allowed
     then promotion_recorded ul req c (sys_now s) t \<and> (\<forall>k. \<not> promotion_keys req k \<longrightarrow> sys_objs t k = sys_objs s k) \<and>
       pmr_OperationIntent res = Some (promotionIntent ul req c (sys_now s))
     else t = s \<and> pmr_OperationIntent res = None)"
proof -
  have n: "is_name (pmq_Service req)" using v(1) by (simp add: valid_request)
  have p: "Promote sys_world ul None req0 s = promoteCandidate sys_world ul None req c (sys_now s) s"
    using Promote_alone [OF s(1)] v(1) c unfolding req_def by blast
  have d: "pmq_MinStableDuration req < 2 ^ 63" "[] \<notin> set (pmq_RequiredChecks req)" "pmq_DryRun req = pmq_DryRun req0"
    using v(2) required_named by (simp_all add: req_def)
  obtain rs where e: "evaluatePromotionRequirements sys_world ul req c (sys_now s) s = (rs, s)" "list_all prr_OK rs \<longleftrightarrow> gates"
    using evaluate_alone [OF s(1) n d(1,2)] unfolding gates_def by blast
  show ?thesis
  proof (cases "gates \<and> \<not> pmq_DryRun req0 \<and> allowed")
    case True
    then show ?thesis using promoted_alone [OF s v(1) fresh e(1)] e(2) d(3) p unfolding allowed_def by (fastforce dest: calm_objs)
  next
    case False
    obtain dc x where "MustAuthorize sys_world ul None (promotionAuthz ul req) s = ((dc, x), s)" "x = None \<longleftrightarrow> allowed"
      using default_alone [OF s(1)] unfolding allowed_def by blast
    then show ?thesis unfolding p promoteCandidate_def using False e d(3) by (cases x) (auto simp: Let_def)
  qed
qed

text \<open>The service ''web'' has been stable at ''r1'' in staging for an hour, and its candidate ''c-1'' is promoted to production with an approval.\<close>

definition stage_control :: ServiceControl where
  "stage_control = roll_control\<lparr>sc_Env := ''staging'', sc_UpdatedAt := canonical_Time 1000\<rparr>"

definition stage_check :: "string \<Rightarrow> EvidenceCheck" where
  "stage_check name = zero_EvidenceCheck\<lparr>ech_Name := name, ech_Status := ''passed''\<rparr>"

definition stage_candidate :: ReleaseCandidate where
  "stage_candidate = zero_ReleaseCandidate\<lparr>rcd_SchemaVersion := schema_Version, rcd_CandidateID := ''c-1'', rcd_Service := ''web'', rcd_Env := ''staging'',
     rcd_ReleaseID := ''r1'', rcd_Artifact := zero_ArtifactRef\<lparr>af_Type := ''oci'', af_URI := ''oci://web'', af_Digest := ''sha256:'' @ replicate 64 (CHR ''a'')\<rparr>,
     rcd_Checks := map stage_check [''contract'', ''policy'', ''scan'', ''tests''], rcd_CreatedAt := canonical_Time 1000,
     rcd_CreatedBy := \<lparr>act_ID = ''ci'', act_Type = ''agent''\<rparr>\<rparr>"

definition stage_sys :: sys where
  "stage_sys = \<lparr>sys_store = snd (memory_Create None (candidate_key ''web'' ''c-1'') (JsonBody (enc_ReleaseCandidate stage_candidate)) no_options
     (snd (memory_Create None (service_key ''web'') (JsonBody (enc_ServiceControl stage_control)) no_options memory_New))),
     sys_now = 3600000001000, sys_tokens = [], sys_events = [], sys_env = [], sys_history = []\<rparr>"

definition stage_request :: PromotionRequest where
  "stage_request = \<lparr>pmq_Service = ''web'', pmq_FromEnv = ''staging'', pmq_ToEnv = ''prod'', pmq_CandidateID = ''c-1'', pmq_OperationID = ''op-1'',
     pmq_ApprovalID = ''approval_1'', pmq_RequiredChecks = [''contract'', ''policy'', ''scan'', ''tests''], pmq_MinStableDuration = 600000000000, pmq_DryRun = False,
     pmq_Actor = \<lparr>act_ID = ''ana'', act_Type = ''user''\<rparr>, pmq_TraceID = ''tr_1''\<rparr>"

lemma stage_normalized: "normalizePromotionRequest (\<lambda>x. x) stage_request now = stage_request"
  by (simp add: normalizePromotionRequest_def normalizeRequiredChecks_def stage_request_def release_actor_def strings_ToLower_def lower_char_def
      Let_def or_else_def TrimSpace_printable printable_def)

lemma stage_valid: "validatePromotionRequest stage_request = Inr ()"
  by (simp add: valid_request stage_request_def is_name_def is_id_def isLowerAlnum_def reservedSegments_def isIDChar_def Let_def)

lemma stage_objs:
  "sys_objs stage_sys k = (if k = candidate_key ''web'' ''c-1'' then Some (etagForVersion 1, JsonBody (enc_ReleaseCandidate stage_candidate))
     else if k = service_key ''web'' then Some (etagForVersion 1, JsonBody (enc_ServiceControl stage_control)) else None)"
  by (simp add: sys_objs_def stage_sys_def memory_objs_def memory_Create_def memory_New_def nextTimeLocked_def Let_def candidate_key_def service_key_def)

lemma stage_facts:
  "sys_env stage_sys = []" "sys_inv stage_sys" "sys_now stage_sys = 3600000001000"
  "sys_objs stage_sys (intent_key ''web'' ''op-1'') = None" "sys_objs stage_sys (op_key ''web'' ''op-1'') = None"
  by (simp_all add: stage_objs candidate_key_def service_key_def intent_key_def op_key_def)
    (simp_all add: sys_inv_def stage_sys_def memory_Create_def memory_New_def nextTimeLocked_def Let_def memory_inv_def entry_ok_def
        candidate_key_def service_key_def)

lemma stage_digest: "isSHA256Digest (af_Digest (rcd_Artifact stage_candidate))"
  by (simp add: isSHA256Digest_def stage_candidate_def TrimSpace_printable printable_def byte_in_def Let_def list_all_iff)

lemma stage_stored: "candidate_at (sys_objs stage_sys) ''web'' ''c-1'' stage_candidate"
proof -
  have "wf_ReleaseCandidate stage_candidate" by (simp add: wf_ReleaseCandidate_def stage_candidate_def zero_ReleaseCandidate_def wf_map_def)
  moreover have "validateCandidate stage_candidate = Inr ()"
    using stage_digest
    by (simp add: validateCandidate_def rel_check_Inr rel_error_Inr validateName_iff validateID_iff stage_candidate_def is_name_def is_id_def isLowerAlnum_def
        reservedSegments_def isIDChar_def Let_def)
  moreover have "rcd_Service stage_candidate = ''web''" by (simp add: stage_candidate_def)
  ultimately show ?thesis by (simp add: candidate_at_def stage_objs canonical_UnmarshalStrict_def codec_ReleaseCandidate)
qed

lemma stage_gates: "evidence (\<lambda>x. x) stage_request stage_candidate" "stable_in stage_request stage_candidate 3600000001000 (sys_objs stage_sys)"
proof -
  show "evidence (\<lambda>x. x) stage_request stage_candidate"
    using stage_digest
    by (simp add: evidence_def passed_def check_name_def check_status_def stage_check_def stage_request_def stage_candidate_def strings_ToLower_def lower_char_def
        TrimSpace_printable printable_def)
  have w: "wf_ServiceControl stage_control"
    by (simp add: wf_ServiceControl_def stage_control_def roll_control_def web_control_def NewServiceControl_def zero_ServiceControl_def in_int64_def)
  have "validateServiceControl stage_control = Inr ()"
    using validateServiceControl_ok(1-4) [OF web_facts(5)] web_facts(7)
    by (simp add: stage_control_def roll_control_def validateServiceControl_def rbind_def validateName_iff is_name_def isLowerAlnum_def reservedSegments_def Let_def)
  moreover have "sc_Service stage_control = ''web''" using web_facts(6) by (simp add: stage_control_def roll_control_def)
  moreover have "control_at (sys_objs stage_sys) (service_key ''web'') = Some (etagForVersion 1, stage_control)"
    using w by (simp add: control_at_def stage_objs canonical_UnmarshalStrict_def codec_ServiceControl candidate_key_def service_key_def)
  moreover have "stable_enough stage_request stage_candidate stage_control 3600000001000"
    by (simp add: stable_enough_def stage_candidate_def stage_control_def roll_control_def stage_request_def time_ok_int64 in_int64_def)
  ultimately show "stable_in stage_request stage_candidate 3600000001000 (sys_objs stage_sys)" by (simp add: stable_in_def stage_request_def)
qed

lemma stage_allowed: "policy_allows (\<lambda>x. x) (authz_normalizeRequest (\<lambda>x. x) (promotionAuthz (\<lambda>x. x) stage_request))"
  by code_simp

text \<open>Sorted by status, a check that has passed comes last and counts, even if an entry of the same name has failed.\<close>

lemma failed_check_hidden:
  "passed (\<lambda>x. x) (stage_candidate\<lparr>rcd_Checks := normalizeChecks (\<lambda>x. x) [stage_check ''tests'', (stage_check ''tests'')\<lparr>ech_Status := ''failed''\<rparr>]\<rparr>) ''tests''"
proof -
  have "normalizeChecks (\<lambda>x. x) [stage_check ''tests'', (stage_check ''tests'')\<lparr>ech_Status := ''failed''\<rparr>] =
    [(stage_check ''tests'')\<lparr>ech_Status := ''failed''\<rparr>, stage_check ''tests'']" by code_simp
  then show ?thesis
    by (simp add: passed_def check_name_def check_status_def stage_check_def strings_ToLower_def lower_char_def TrimSpace_printable printable_def)
qed

theorem promotion_gated_witness:
  "\<exists>res t. Promote sys_world (\<lambda>x. x) None stage_request stage_sys = ((Some res, None), t) \<and> pmr_OperationIntent res \<noteq> None \<and>
     (\<exists>now req c u v ws e. sys_now stage_sys \<le> now \<and> now \<le> sys_now u \<and> req = normalizePromotionRequest (\<lambda>x. x) stage_request now \<and>
        sys_evolves stage_sys u \<and> sys_evolves u v \<and> sys_evolves v t \<and> \<not> pmq_DryRun stage_request \<and> pmq_FromEnv req \<noteq> pmq_ToEnv req \<and>
        candidate_at (sys_objs u) (pmq_Service req) (pmq_CandidateID req) c \<and> evidence (\<lambda>x. x) req c \<and> stable_in req c now (sys_objs v) \<and>
        policy_allows (\<lambda>x. x) (authz_normalizeRequest (\<lambda>x. x) (promotionAuthz (\<lambda>x. x) req)) \<and>
        pmr_OperationIntent res = Some (promotionIntent (\<lambda>x. x) req c now) \<and> sys_history t = sys_history v @ ws \<and>
        (intent_key (pmq_Service req) (pmq_OperationID req), e, JsonBody (enc_OperationIntent (promotionIntent (\<lambda>x. x) req c now))) \<in> set ws)"
proof -
  have q: "pmq_Service stage_request = ''web''" "pmq_CandidateID stage_request = ''c-1''" "pmq_OperationID stage_request = ''op-1''"
    "pmq_MinStableDuration stage_request < 2 ^ 63" "[] \<notin> set (pmq_RequiredChecks stage_request)" "\<not> pmq_DryRun stage_request"
    by (simp_all add: stage_request_def)
  have n: "is_name (pmq_Service stage_request)" using stage_valid by (simp add: valid_request)
  obtain rs where e: "evaluatePromotionRequirements sys_world (\<lambda>x. x) stage_request stage_candidate (sys_now stage_sys) stage_sys = (rs, stage_sys)" "list_all prr_OK rs"
    using evaluate_alone [OF stage_facts(1) n q(4,5)] stage_gates stage_facts(3) by metis
  obtain res t where "promoteCandidate sys_world (\<lambda>x. x) None stage_request stage_candidate (sys_now stage_sys) stage_sys = ((Some res, None), t)"
    "pmr_OperationIntent res = Some (promotionIntent (\<lambda>x. x) stage_request stage_candidate (sys_now stage_sys))"
    using promoted_alone [OF stage_facts(1,2) stage_valid _ _ e q(6) stage_allowed] stage_facts(4,5) unfolding q by blast
  then have p: "Promote sys_world (\<lambda>x. x) None stage_request stage_sys = ((Some res, None), t)" "pmr_OperationIntent res \<noteq> None"
    using Promote_alone [of stage_sys "\<lambda>x. x" stage_request stage_candidate None] stage_facts(1) stage_valid stage_stored
    by (simp_all add: stage_normalized q)
  show ?thesis using promotion_gated [OF p q(4) stage_facts(2)] p by blast
qed

theorem promote_decides_witness:
  "\<exists>res t. Promote sys_world (\<lambda>x. x) None stage_request stage_sys = ((Some res, None), t) \<and> pmr_OK res \<and>
     promotion_recorded (\<lambda>x. x) stage_request stage_candidate 3600000001000 t \<and> oc_Status (promotionControl stage_request stage_candidate 3600000001000) = OperationSucceeded"
proof -
  have q: "pmq_Service stage_request = ''web''" "pmq_CandidateID stage_request = ''c-1''" "pmq_OperationID stage_request = ''op-1''"
    "pmq_MinStableDuration stage_request < 2 ^ 63" "\<not> pmq_DryRun stage_request" by (simp_all add: stage_request_def)
  show ?thesis
    using promote_decides [of stage_sys "\<lambda>x. x" stage_request stage_candidate] stage_facts stage_valid stage_stored stage_gates stage_allowed q
    by (auto simp: stage_normalized promotionControl_def)
qed

end
