(* ===== verification/Spec2Isabelle.thy ===== *)
theory Spec2Isabelle
  imports Service_Control Saga_Progress Stateful_Control Ops_Store Event_Bus Resume_Outcome Bootstrap_Safety Rollback_Outcome Promotion_Gate
begin

text \<open>
  Skiff (github.com/s1liconcow/skiff) deploys services and stateful groups to cloud accounts. It has no database of its own: all
  state is JSON documents in an object store with conditional writes, and every client (command line, \<^verbatim>\<open>skiffd\<close>, workers, the
  runner on each instance) follows the same protocol on them. This development models that core and proves what it
  promises, under arbitrary interference by other clients wherever the code promises it.

  \<^bold>\<open>The parts and how they interact.\<close> A client builds a key (\<^verbatim>\<open>paths\<close>), reads a document with its ETag, decodes it
  strictly (\<^verbatim>\<open>canonical\<close>, \<^verbatim>\<open>schema\<close>), prepares the next version and swaps it in on that ETag (\<^verbatim>\<open>objstore\<close>, \<^verbatim>\<open>state\<close>).
  Leases are fields of the control documents they protect, taken, renewed and given back by such swaps. On top of this the
  saga executor runs graphs of steps, the deployer publishes signed releases and points services to them, rollouts and
  operations are recorded so that a worker can resume them, and the event log keeps what happened. On an instance, the
  runner verifies the release it is pointed to before it accepts it, and drives the workload through its lifecycle.

  \<^bold>\<open>Theories and sources\<close> (under src/internal). Each theory opens with what it holds.

  \<^item> Foundations. \<open>Prelude\<close>: results, Go strings as byte lists, \<^verbatim>\<open>int64\<close> wrap-around, shared lemmas. \<open>Go_Error\<close>, \<open>Go_Time\<close>,
    \<open>Go_Json\<close>, \<open>Go_Base64\<close>, \<open>Go_Sha256\<close>: what the code uses of the Go library. \<open>Schema\<close>, \<open>Schema_Codec\<close>, \<open>Release_Schema\<close>,
    \<open>Environment\<close>: state/schema/schema.go with its codecs. \<open>Paths\<close>: state/paths/paths.go.
  \<^item> The store. \<open>Obj_Store\<close>: objstore/store.go and objstore/memory/store.go, with the locale \<open>object_store\<close> as the contract of a
    store, interpreted for the memory store. \<open>World\<close>: a store with a clock, tokens and a context; the locale \<open>world\<close> is what clients
    rely on, interpreted for \<open>sys_world\<close>, the memory store with other clients acting between any two calls. Its state carries a
    ghost field, the history of all successful writes; \<open>sys_evolves s t\<close> says that \<open>t\<close> comes after \<open>s\<close> by replaying writes that
    extend the history. A state between the start and the end of a run, so related to both, is an instant of that very run: no
    document can be made up in it, and a state whose history lacks only the last write is the one right before that write.
    \<open>Cas_Document\<close>: the locale of documents that are swapped by ETag, interpreted for service, group, member, saga and operation documents.
  \<^item> Control documents. \<open>Service_Control\<close>: state/service\_control.go, lease.go, cas.go, errors.go. \<open>Stateful_Control\<close>: state/stateful\_control.go.
    \<open>Lease_Session\<close>: a client alone that holds a service lease. \<open>Footprint\<close>: which keys an operation may write.
  \<^item> Sagas. \<open>Saga_Graph\<close>, \<open>Saga_Store\<close>, \<open>Saga_Executor\<close>, \<open>Saga_Progress\<close>: saga/graph.go, types.go, state.go, lease.go, executor.go.
    \<open>Saga_Templates\<close>, \<open>Template_Sagas\<close>, \<open>Template_Runs\<close>: saga/templates.
  \<^item> Operations. \<open>Ops_Store\<close>: ops/types.go, store.go, lease.go. \<open>Rollout\<close>: deploy/rollout.go. \<open>Ops_Resume\<close>, \<open>Resume_Outcome\<close>: ops/resume.go.
    \<open>Worker\<close>: worker/loop.go.
  \<^item> Deployment. \<open>Authz\<close>: authz/policy.go, auth/actor.go. \<open>Release\<close>: release/verify.go, fetch.go, security/digest.go,
    security/signing/interface.go, compat/compat.go. \<open>Deploy\<close>, \<open>Deploy_Outcome\<close>: deploy/deploy.go, deploy/authz.go.
    \<open>Rollback\<close>, \<open>Rollback_Outcome\<close>: deploy/rollback.go. \<open>Candidate_Schema\<close>, \<open>Promotion\<close>, \<open>Promotion_Gate\<close>: release/candidate.go, promotion.go, list.go, authz.go.
  \<^item> Events. \<open>Events\<close>: events/event.go, hashchain.go. \<open>Event_Log\<close>: events/log.go. \<open>Event_Bus\<close>: events/bus.go.
  \<^item> The runner. \<open>Runner_Stateful\<close>, \<open>Runner_Unit\<close>, \<open>Runner\<close>, \<open>Runner_Trace\<close>: runner/fsm.go, stateful.go, systemd.go, events.go,
    status.go. \<open>Config_Check\<close>: config/config.go. \<open>Bootstrap\<close>, \<open>Bootstrap_Safety\<close>: runner/manifest.go, identity.go, config.go.

  \<^bold>\<open>State and operations.\<close> A Go struct is a record with the source's field names behind a short prefix, a string enumeration stays a
  string, a pointer is an option. A function that calls the store is \<open>'s \<Rightarrow> result \<times> 's\<close> for any state \<open>'s\<close> (the type \<open>io\<close>), written in
  the order of the source with \<open>io_bind\<close>; errors are values of \<open>goerr\<close>, early returns and deferred calls are written out, and the
  longer functions of the runner, of resume and of deploy use \<open>eio\<close>, which also carries the local variables. A nil dereference is an
  outcome (\<open>Panicked\<close> in \<open>Deploy\<close>). Names that clash are prefixed with their package (\<open>ops_List\<close>, \<open>saga_AcquireLease\<close>).

  \<^bold>\<open>What is shown.\<close>

  \<^item> Leases: no two holders at once, a stale holder cannot write, no update is lost, an acquisition decides as the
    stored lease says, a holder's writes succeed; for services, sagas, group members and operations.
  \<^item> Sagas: no step before its dependencies, success only when every node completed, a lone executor finishes
    an acyclic saga whose steps succeed and fit into one lease duration (the code does not renew the lease), what a template builds is valid for every request it accepts and runs to its end, step results are written
    once, compensation undoes a node before the nodes it needs; and that a cyclic graph, which validation
    accepts, stalls for ever.
  \<^item> Deployment: a deployed release is fetched and verified as it was reported; a rollback reaches its target, for any target; a candidate is
    promoted exactly if its evidence, stable time, approval and policy allow it; a fetched release carries an accepted
    signature over the digest of exactly what was read; the default policy equals a declarative one; a finished rollout
    promotes the release and finishes its operation; a started one can be found again; what watching may write.
  \<^item> Runner: every run of the lifecycle is a path of an abstract protocol, whatever the host answers; a serving workload has been
    validated; only verified releases are saved, and none older than the last one; the rendered unit has only the lines written, and
    different commands or environments give different units.
  \<^item> Worker: it never writes an operation or a saga that another client holds, and it ends when it is cancelled.
  \<^item> Events: a changed event breaks the chain, appending never overwrites, what is appended is listed, and a bus subscriber that
    misses an event is told so. Two documents never share a key, but for artifacts of a saga.

  \<^bold>\<open>Termination and bounds.\<close> Retry loops carry their attempt counter, as in the code, and recurse on it. \<open>execLoop\<close> (the executor's
  loop) has a measure: every round completes a node. Kahn's algorithm recurses on the nodes that are left. The worker's endless loop is
  \<open>partial_function (option)\<close>, and that it returns once the context is cancelled is a theorem. There is no fuel. Versions and
  durations are integers with the \<^verbatim>\<open>int64\<close> wrap-around written where they are computed; the theorems about a single client
  assume that a version is not about to overflow.

  \<^bold>\<open>Abstractions.\<close> JSON documents are values; their text appears where it matters, in digests and chains. Strings are UTF-8 bytes. The memory
  store's counters do not overflow. Parameters, with what is needed of them as hypotheses of the theorems that need it: saga
  steps, the cloud provider, the signature schemes, recipes and the host of the runner, \<^verbatim>\<open>time.ParseDuration\<close>, \<^verbatim>\<open>url.Parse\<close>, Unicode beyond
  ASCII, and the random tokens. A context that is cancelled is part of what other clients may do, and the releases that Go runs with
  \<^verbatim>\<open>context.Background()\<close> are calls of the same world. Goroutine interleavings inside the bus are explicit schedules.

  \<^bold>\<open>Not modelled.\<close> The command line, the terminal interface, the HTTP server and client; the cloud, container, S3 and file
  adapters; environment bootstrap and Terraform text; the compiler, the importer, packages and plugins; the concrete saga
  steps (the executor is verified for all of them); stateful deployment; configuration loading; key
  storage; health probes, downloads, state files and log tailing of the runner; read models, cost, drift and diagnostics. These are
  I/O, text, or layers above the operations that are verified here.
\<close>

end
